(* ===== verification/Prelude.thy ===== *)
theory Prelude
  imports Main "HOL-Library.Sublist"
begin

text \<open>
  What every component of the development shares: the result type of the Manager's request
  handlers, database tables as lists of rows with a primary key, character classes for the
  regular expressions of the wire contracts, and a small theory of transition systems.

  A Python exception is a value of \<open>api_error\<close>; a table of the ledger is a list of rows; a
  timestamp is the number of microseconds since the epoch, so that the timezone normalisation
  \<^verbatim>\<open>as_utc\<close> of the code is the identity on it. A Python string is the list of the bytes of its
  UTF-8 encoding: \<^verbatim>\<open>encode\<close> is then the identity, and byte order is code point order.
\<close>

named_theorems row_simps \<open>lookup and update of table rows\<close>

section \<open>Time, identifiers and results\<close>

type_synonym datetime = int
type_synonym ident = string

abbreviation seconds :: "int \<Rightarrow> int" where
  "seconds n \<equiv> n * 1000000"

text \<open>
  \<open>HTTPException c d\<close> is \<^verbatim>\<open>raise HTTPException(status_code=c, detail=d)\<close>; \<open>Unhandled n\<close> is an
  exception of class \<open>n\<close> that no handler catches, which the framework turns into a 500.
\<close>

datatype api_error = HTTPException nat string | Unhandled string

type_synonym 'a res = "api_error + 'a"

definition res_bind :: "('e + 'a) \<Rightarrow> ('a \<Rightarrow> 'e + 'b) \<Rightarrow> 'e + 'b" where
  "res_bind r f = (case r of Inl e \<Rightarrow> Inl e | Inr x \<Rightarrow> f x)"

lemma res_bind_simps [simp]:
  "res_bind (Inl e) f = Inl e"
  "res_bind (Inr x) f = f x"
  by (simp_all add: res_bind_def)

lemma res_bind_eq_Inr [simp]:
  "res_bind r f = Inr y \<longleftrightarrow> (\<exists>x. r = Inr x \<and> f x = Inr y)"
  by (cases r) simp_all

lemma res_bind_eq_Inl:
  "res_bind r f = Inl e \<longleftrightarrow> r = Inl e \<or> (\<exists>x. r = Inr x \<and> f x = Inl e)"
  by (cases r) simp_all

text \<open>The first failing check of a list of guarded errors, in the order of the code.\<close>

fun first_error :: "(bool \<times> 'e) list \<Rightarrow> 'e option" where
  "first_error [] = None"
| "first_error ((bad, e) # cs) = (if bad then Some e else first_error cs)"

lemma first_error_None: "first_error cs = None \<longleftrightarrow> (\<forall>(bad, e) \<in> set cs. \<not> bad)"
  by (induction cs rule: first_error.induct) auto

definition checked :: "(bool \<times> 'e) list \<Rightarrow> 'a \<Rightarrow> 'e + 'a" where
  "checked cs x = (case first_error cs of None \<Rightarrow> Inr x | Some e \<Rightarrow> Inl e)"

lemma checked_simps:
  "checked [] x = Inr x"
  "checked ((bad, e) # cs) x = (if bad then Inl e else checked cs x)"
  by (simp_all add: checked_def)

lemma checked_Inr_simps [simp]:
  "checked [] x = Inr y \<longleftrightarrow> y = x"
  "checked ((bad, e) # cs) x = Inr y \<longleftrightarrow> \<not> bad \<and> checked cs x = Inr y"
  by (auto simp: checked_simps)


section \<open>Tables as lists of rows\<close>

definition get_row :: "('r \<Rightarrow> ident) \<Rightarrow> ident \<Rightarrow> 'r list \<Rightarrow> 'r option" where
  "get_row key i rs = find (\<lambda>r. key r = i) rs"

definition upd_row :: "('r \<Rightarrow> ident) \<Rightarrow> ident \<Rightarrow> ('r \<Rightarrow> 'r) \<Rightarrow> 'r list \<Rightarrow> 'r list" where
  "upd_row key i f rs = map (\<lambda>r. if key r = i then f r else r) rs"

definition wf_table :: "('r \<Rightarrow> ident) \<Rightarrow> 'r list \<Rightarrow> bool" where
  "wf_table key rs \<longleftrightarrow> distinct (map key rs)"

lemma get_row_simps [simp, row_simps]:
  "get_row key i [] = None"
  "get_row key i (r # rs) = (if key r = i then Some r else get_row key i rs)"
  by (simp_all add: get_row_def)

lemma upd_row_simps [simp, row_simps]:
  "upd_row key i f [] = []"
  "upd_row key i f (r # rs) = (if key r = i then f r else r) # upd_row key i f rs"
  by (simp_all add: upd_row_def)

lemma get_row_SomeD: "get_row key i rs = Some r \<Longrightarrow> r \<in> set rs \<and> key r = i"
  by (induction rs) (auto split: if_splits)

lemma get_row_None: "get_row key i rs = None \<longleftrightarrow> i \<notin> key ` set rs"
  by (induction rs) auto

lemma get_row_mem: "wf_table key rs \<Longrightarrow> r \<in> set rs \<Longrightarrow> get_row key (key r) rs = Some r"
  unfolding wf_table_def by (induction rs) (auto simp: rev_image_eqI)

lemma get_row_iff: "wf_table key rs \<Longrightarrow> get_row key i rs = Some r \<longleftrightarrow> r \<in> set rs \<and> key r = i"
  using get_row_SomeD get_row_mem by metis

lemma get_row_append [row_simps]:
  "get_row key i (rs @ ss) =
     (case get_row key i rs of Some r \<Rightarrow> Some r | None \<Rightarrow> get_row key i ss)"
  by (induction rs) auto

lemma map_key_upd_row [simp]:
  "(\<And>r. key (f r) = key r) \<Longrightarrow> map key (upd_row key i f rs) = map key rs"
  by (induction rs) auto

lemma wf_table_upd_row [intro, simp]:
  "(\<And>r. key (f r) = key r) \<Longrightarrow> wf_table key (upd_row key i f rs) = wf_table key rs"
  by (simp add: wf_table_def)

lemma get_row_upd_row [row_simps]:
  "(\<And>r. key (f r) = key r) \<Longrightarrow>
   get_row key j (upd_row key i f rs) =
     (if i = j then map_option f (get_row key j rs) else get_row key j rs)"
  by (induction rs) auto

lemma set_upd_row:
  "set (upd_row key i f rs) = {r \<in> set rs. key r \<noteq> i} \<union> f ` {r \<in> set rs. key r = i}"
  by (auto simp: upd_row_def)

lemma set_upd_rowE:
  assumes "r \<in> set (upd_row key i f rs)"
  obtains "r \<in> set rs" "key r \<noteq> i" | r0 where "r0 \<in> set rs" "key r0 = i" "r = f r0"
  using assms by (auto simp: set_upd_row)

lemma upd_row_id: "(\<And>r. key r = i \<Longrightarrow> r \<in> set rs \<Longrightarrow> f r = r) \<Longrightarrow> upd_row key i f rs = rs"
  by (induction rs) auto

lemma length_upd_row [simp]: "length (upd_row key i f rs) = length rs"
  by (simp add: upd_row_def)

lemma wf_table_append1 [simp]:
  "wf_table key (rs @ [r]) \<longleftrightarrow> wf_table key rs \<and> get_row key (key r) rs = None"
  by (auto simp: wf_table_def get_row_None)

text \<open>
  The interface through which the operations of the Manager use one table of the ledger: reading
  its rows, writing them back, the primary key. The laws are those of a record field; the lemmas
  say what a lookup returns after an update or an insertion, in this table and in every other.
\<close>

locale ledger_table =
  fixes rows :: "'db \<Rightarrow> 'r list"
    and put :: "('r list \<Rightarrow> 'r list) \<Rightarrow> 'db \<Rightarrow> 'db"
    and key :: "'r \<Rightarrow> ident"
  assumes rows_put: "rows (put f d) = f (rows d)"
    and put_put: "put f (put g d) = put (f \<circ> g) d"
    and put_id: "put id d = d"
begin

lemma lookup_modify:
  assumes "\<And>r. key (f r) = key r"
  shows "get_row key j (rows (put (upd_row key i f) d)) =
    (if i = j then map_option f (get_row key j (rows d)) else get_row key j (rows d))"
  by (simp add: rows_put get_row_upd_row assms)

lemma lookup_insert:
  "get_row key (key r) (rows d) = None \<Longrightarrow>
   get_row key j (rows (put (\<lambda>rs. rs @ [r]) d)) =
     (if j = key r then Some r else get_row key j (rows d))"
  by (auto simp: rows_put get_row_append split: option.splits)

lemma wf_modify:
  assumes "\<And>r. key (f r) = key r"
  shows "wf_table key (rows (put (upd_row key i f) d)) = wf_table key (rows d)"
  by (simp add: rows_put assms)

lemma wf_insert:
  "wf_table key (rows (put (\<lambda>rs. rs @ [r]) d)) \<longleftrightarrow>
   wf_table key (rows d) \<and> get_row key (key r) (rows d) = None"
  by (simp add: rows_put)

end

lemma find_append: "find P (xs @ ys) = (case find P xs of None \<Rightarrow> find P ys | Some x \<Rightarrow> Some x)"
  by (induction xs) simp_all

section \<open>Transition systems\<close>

text \<open>
  A component's operations as a step relation with an invariant that the start states satisfy
  and every step keeps. Reachability is the reflexive transitive closure of the step relation.
\<close>

locale step_invariant =
  fixes start :: "'s \<Rightarrow> bool"
    and step :: "'s \<Rightarrow> 's \<Rightarrow> bool"
    and inv :: "'s \<Rightarrow> bool"
  assumes start_inv: "start s \<Longrightarrow> inv s"
    and step_inv: "inv s \<Longrightarrow> step s t \<Longrightarrow> inv t"
begin

lemma run_inv: "step\<^sup>*\<^sup>* s t \<Longrightarrow> inv s \<Longrightarrow> inv t"
  by (induction rule: rtranclp_induct) (auto intro: step_inv)

lemma reachable_inv: "start s \<Longrightarrow> step\<^sup>*\<^sup>* s t \<Longrightarrow> inv t"
  by (blast intro: run_inv start_inv)

end

text \<open>
  A transition system in which every step strictly raises a rank bounded by \<open>top\<close>: its runs are
  at most \<open>top\<close> steps long.
\<close>

locale ranked_steps =
  fixes trans :: "'s \<Rightarrow> 's \<Rightarrow> bool"
    and rank :: "'s \<Rightarrow> nat"
    and top :: nat
  assumes rank_increases: "trans s t \<Longrightarrow> rank s < rank t"
    and rank_bounded: "rank s \<le> top"
begin

lemma run_rank: "(trans ^^ n) s t \<Longrightarrow> rank s + n \<le> rank t"
proof (induction n arbitrary: t)
  case 0
  then show ?case by auto
next
  case (Suc n)
  then obtain u where u: "(trans ^^ n) s u" "trans u t" by auto
  from Suc.IH [OF u(1)] rank_increases [OF u(2)] show ?case by simp
qed

lemma run_length: "(trans ^^ n) s t \<Longrightarrow> n \<le> top - rank s"
  using run_rank rank_bounded by (metis add.commute le_diff_conv2 order_trans)

lemma no_cycle: "trans\<^sup>+\<^sup>+ s t \<Longrightarrow> s \<noteq> t"
proof -
  have "trans\<^sup>+\<^sup>+ s t \<Longrightarrow> rank s < rank t"
    by (induction rule: tranclp_induct) (auto dest: rank_increases)
  then show "trans\<^sup>+\<^sup>+ s t \<Longrightarrow> s \<noteq> t" by auto
qed

end

lemma successively_rtranclp:
  "successively R xs \<Longrightarrow> x \<in> set xs \<Longrightarrow> R\<^sup>*\<^sup>* x (last xs)"
proof (induction xs arbitrary: x rule: induct_list012)
  case (3 y z zs)
  then have "R y z" and "R\<^sup>*\<^sup>* z (last (z # zs))" by auto
  then have "R\<^sup>*\<^sup>* y (last (z # zs))" by (rule converse_rtranclp_into_rtranclp)
  with 3 show ?case by auto
qed auto

section \<open>Characters and strings\<close>

definition between :: "nat \<Rightarrow> nat \<Rightarrow> char \<Rightarrow> bool" where
  "between a b c \<longleftrightarrow> a \<le> of_char c \<and> of_char c \<le> b"

definition is_lower :: "char \<Rightarrow> bool" where "is_lower = between 97 122"
definition is_upper :: "char \<Rightarrow> bool" where "is_upper = between 65 90"
definition is_digit :: "char \<Rightarrow> bool" where "is_digit = between 48 57"

definition is_alnum :: "char \<Rightarrow> bool" where
  "is_alnum c \<longleftrightarrow> is_lower c \<or> is_upper c \<or> is_digit c"

text \<open>\<^verbatim>\<open>[A-Za-z0-9_.-]\<close> and \<^verbatim>\<open>[0-9a-f]\<close>.\<close>

definition is_name_char :: "char \<Rightarrow> bool" where
  "is_name_char c \<longleftrightarrow> is_alnum c \<or> c = CHR ''_'' \<or> c = CHR ''.'' \<or> c = CHR ''-''"

definition is_hex :: "char \<Rightarrow> bool" where
  "is_hex c \<longleftrightarrow> is_digit c \<or> between 97 102 c"

lemmas char_class_defs =
  between_def is_lower_def is_upper_def is_digit_def is_alnum_def is_name_char_def is_hex_def

lemma is_name_char_not_slash [simp]: "\<not> is_name_char (CHR ''/'')" "\<not> is_alnum (CHR ''/'')"
  by (simp_all add: char_class_defs)

lemma is_alnum_not_dot [simp]: "\<not> is_alnum (CHR ''.'')"
  by (simp add: char_class_defs)

text \<open>The pattern \<^verbatim>\<open>^[A-Za-z0-9][A-Za-z0-9_.-]*$\<close>, matched in full.\<close>

definition safe_identifier :: "string \<Rightarrow> bool" where
  "safe_identifier s \<longleftrightarrow> (case s of [] \<Rightarrow> False | c # cs \<Rightarrow> is_alnum c \<and> list_all is_name_char cs)"

text \<open>The pattern \<^verbatim>\<open>^[0-9a-f]{64}$\<close>, matched in full.\<close>

definition sha256_hex :: "string \<Rightarrow> bool" where
  "sha256_hex s \<longleftrightarrow> length s = 64 \<and> list_all is_hex s"

lemma safe_identifier_no_slash: "safe_identifier s \<Longrightarrow> CHR ''/'' \<notin> set s"
  by (auto simp: safe_identifier_def list_all_iff split: list.splits)

lemma safe_identifier_not_dots: "safe_identifier s \<Longrightarrow> s \<noteq> ''.'' \<and> s \<noteq> ''..'' \<and> s \<noteq> []"
  by (auto simp: safe_identifier_def split: list.splits)

text \<open>\<^verbatim>\<open>str.split(sep)\<close> for a one-character separator.\<close>

fun split_on :: "char \<Rightarrow> string \<Rightarrow> string list" where
  "split_on sep [] = [[]]"
| "split_on sep (c # cs) =
     (if c = sep then [] # split_on sep cs
      else case split_on sep cs of [] \<Rightarrow> [[c]] | p # ps \<Rightarrow> (c # p) # ps)"

lemma split_on_nonempty [simp]: "split_on sep s \<noteq> []"
  by (induction s) (auto split: list.splits)

lemma split_on_no_sep: "sep \<notin> set s \<Longrightarrow> split_on sep s = [s]"
  by (induction s) auto

lemma split_on_append: "split_on sep (xs @ sep # ys) = split_on sep xs @ split_on sep ys"
  by (induction xs) (auto split: list.splits)

text \<open>Decimal rendering of Python integers.\<close>

fun nat_digits :: "nat \<Rightarrow> string" where
  "nat_digits n =
     (if n < 10 then [char_of (48 + n)] else nat_digits (n div 10) @ [char_of (48 + n mod 10)])"

declare nat_digits.simps [simp del]

definition int_str :: "int \<Rightarrow> string" where
  "int_str i = (if i < 0 then CHR ''-'' # nat_digits (nat (- i)) else nat_digits (nat i))"

end
