(* ===== verification/Json.thy ===== *)
theory Json
  imports Complex_Main "HOL-Library.List_Lexorder" "HOL-Library.Char_ord" Prelude
begin

text \<open>
  JSON documents and their canonical byte form: \<^verbatim>\<open>canonical_job_config_bytes\<close> and
  \<^verbatim>\<open>job_config_sha256\<close> of \<^verbatim>\<open>rvc_orchestrator_contracts/job.py\<close> and \<^verbatim>\<open>canonical_json\<close> of
  \<^verbatim>\<open>services/test_sets.py\<close>, with the part of \<^verbatim>\<open>json.dumps\<close> they use (sorted keys, the compact
  separators, no ASCII escaping, no NaN).

  A dictionary is the association list of its items in insertion order. The rendering of a finite
  float, \<^verbatim>\<open>float.__repr__\<close>, and the SHA-256 digest are arguments of the definitions.

  The main results: the canonical bytes do not depend on the order of dictionary items nor on the
  sign of floating-point zeros, and nothing else is lost: documents with equal canonical bytes are
  equal up to these two.
\<close>

section \<open>Values\<close>

text \<open>Python floats: the finite non-zero-sign values by their rational value, and the special ones.\<close>

datatype pyfloat = FNum rat | FNegZero | FPosInf | FNegInf | FNaN

fun isfinite :: "pyfloat \<Rightarrow> bool" where
  "isfinite (FNum _) = True"
| "isfinite FNegZero = True"
| "isfinite _ = False"

text \<open>The IEEE comparison \<open>q \<le> x\<close>, \<open>x \<le> q\<close>, \<open>q < x\<close> of a float with a rational constant.\<close>

fun float_ge :: "pyfloat \<Rightarrow> rat \<Rightarrow> bool" where
  "float_ge (FNum x) q = (q \<le> x)"
| "float_ge FNegZero q = (q \<le> 0)"
| "float_ge FPosInf q = True"
| "float_ge FNegInf q = False"
| "float_ge FNaN q = False"

fun float_le :: "pyfloat \<Rightarrow> rat \<Rightarrow> bool" where
  "float_le (FNum x) q = (x \<le> q)"
| "float_le FNegZero q = (0 \<le> q)"
| "float_le FPosInf q = False"
| "float_le FNegInf q = True"
| "float_le FNaN q = False"

fun float_gt :: "pyfloat \<Rightarrow> rat \<Rightarrow> bool" where
  "float_gt (FNum x) q = (q < x)"
| "float_gt FNegZero q = (q < 0)"
| "float_gt FPosInf q = True"
| "float_gt FNegInf q = False"
| "float_gt FNaN q = False"

text \<open>\<^verbatim>\<open>x == 0\<close>, true for both zeros.\<close>

definition float_is_zero :: "pyfloat \<Rightarrow> bool" where
  "float_is_zero x \<longleftrightarrow> x = FNum 0 \<or> x = FNegZero"

datatype json =
    JNull
  | JBool bool
  | JInt int
  | JFloat pyfloat
  | JStr string
  | JList "json list"
  | JObj "(string \<times> json) list"

section \<open>json.dumps\<close>

definition quote :: char where "quote = CHR 0x22"
definition backslash :: char where "backslash = CHR 0x5C"

definition hexdigit :: "nat \<Rightarrow> char" where
  "hexdigit d = char_of (if d < 10 then 48 + d else 87 + d)"

definition esc_char :: "char \<Rightarrow> string" where
  "esc_char c = (let n = of_char c :: nat in
     if c = quote then [backslash, quote]
     else if c = backslash then [backslash, backslash]
     else if n = 8 then [backslash, CHR ''b'']
     else if n = 12 then [backslash, CHR ''f'']
     else if n = 10 then [backslash, CHR ''n'']
     else if n = 13 then [backslash, CHR ''r'']
     else if n = 9 then [backslash, CHR ''t'']
     else if n < 32 then [backslash, CHR ''u'', CHR ''0'', CHR ''0'',
                          hexdigit (n div 16), hexdigit (n mod 16)]
     else [c])"

definition esc_str :: "string \<Rightarrow> string" where
  "esc_str s = quote # concat (map esc_char s) @ [quote]"

definition join :: "string \<Rightarrow> string list \<Rightarrow> string" where
  "join sep xs = (case xs of [] \<Rightarrow> [] | y # ys \<Rightarrow> y @ concat (map (\<lambda>z. sep @ z) ys))"

text \<open>A document \<^verbatim>\<open>json.dumps(allow_nan=False)\<close> accepts: no NaN and no infinity anywhere.\<close>

fun json_finite :: "json \<Rightarrow> bool" where
  "json_finite (JFloat x) = isfinite x"
| "json_finite (JList xs) = list_all json_finite xs"
| "json_finite (JObj kvs) = list_all (\<lambda>kv. json_finite (snd kv)) kvs"
| "json_finite _ = True"

fun render :: "(pyfloat \<Rightarrow> string) \<Rightarrow> json \<Rightarrow> string" where
  "render fr JNull = ''null''"
| "render fr (JBool b) = (if b then ''true'' else ''false'')"
| "render fr (JInt i) = int_str i"
| "render fr (JFloat x) = fr x"
| "render fr (JStr s) = esc_str s"
| "render fr (JList xs) = ''['' @ join '','' (map (render fr) xs) @ '']''"
| "render fr (JObj kvs) =
     ''{'' @ join '',''
       (map (\<lambda>(k, r). esc_str k @ '':'' @ r)
         (sort_key fst (map (\<lambda>kv. (fst kv, render fr (snd kv))) kvs))) @ ''}''"

definition dumps :: "(pyfloat \<Rightarrow> string) \<Rightarrow> json \<Rightarrow> string option" where
  "dumps fr j = (if json_finite j then Some (render fr j) else None)"

section \<open>The canonical bytes\<close>

fun normalize_json_value :: "json \<Rightarrow> json" where
  "normalize_json_value (JFloat x) = (if float_is_zero x then JFloat (FNum 0) else JFloat x)"
| "normalize_json_value (JObj kvs) = JObj (map (\<lambda>kv. (fst kv, normalize_json_value (snd kv))) kvs)"
| "normalize_json_value (JList xs) = JList (map normalize_json_value xs)"
| "normalize_json_value j = j"

definition canonical_job_config_bytes :: "(pyfloat \<Rightarrow> string) \<Rightarrow> json \<Rightarrow> string option" where
  "canonical_job_config_bytes fr document = dumps fr (normalize_json_value document)"

definition job_config_sha256 ::
  "(string \<Rightarrow> string) \<Rightarrow> (pyfloat \<Rightarrow> string) \<Rightarrow> json \<Rightarrow> string option" where
  "job_config_sha256 sha256 fr document = map_option sha256 (canonical_job_config_bytes fr document)"

definition canonical_json :: "(pyfloat \<Rightarrow> string) \<Rightarrow> json \<Rightarrow> string option" where
  "canonical_json fr value = dumps fr value"

definition canonical_sha256 ::
  "(string \<Rightarrow> string) \<Rightarrow> (pyfloat \<Rightarrow> string) \<Rightarrow> json \<Rightarrow> string option" where
  "canonical_sha256 sha256 fr value = map_option sha256 (canonical_json fr value)"

section \<open>The reference: documents up to item order and zero signs\<close>

text \<open>
  \<open>sort_items\<close> puts the items of every dictionary in key order; \<open>same_document\<close> is the equality of
  the documents as Python values (dictionaries compare regardless of order, \<^verbatim>\<open>0.0 == -0.0\<close>).
\<close>

fun sort_items :: "json \<Rightarrow> json" where
  "sort_items (JList xs) = JList (map sort_items xs)"
| "sort_items (JObj kvs) = JObj (sort_key fst (map (\<lambda>kv. (fst kv, sort_items (snd kv))) kvs))"
| "sort_items j = j"

definition same_document :: "json \<Rightarrow> json \<Rightarrow> bool" where
  "same_document a b \<longleftrightarrow>
     sort_items (normalize_json_value a) = sort_items (normalize_json_value b)"

text \<open>
  What the code relies on of \<^verbatim>\<open>float.__repr__\<close>: it tells finite floats apart (it round-trips), its
  text is made of the characters of numbers, and it is never the text of an integer.
\<close>

definition is_number_char :: "char \<Rightarrow> bool" where
  "is_number_char c \<longleftrightarrow> is_digit c \<or> c \<in> {CHR ''-'', CHR ''+'', CHR ''.'', CHR ''e''}"

definition float_repr_ok :: "(pyfloat \<Rightarrow> string) \<Rightarrow> bool" where
  "float_repr_ok fr \<longleftrightarrow>
     (\<forall>x y. isfinite x \<longrightarrow> isfinite y \<longrightarrow> fr x = fr y \<longrightarrow> x = y) \<and>
     (\<forall>x. isfinite x \<longrightarrow> fr x \<noteq> [] \<and> list_all is_number_char (fr x) \<and>
        (CHR ''.'' \<in> set (fr x) \<or> CHR ''e'' \<in> set (fr x)))"

section \<open>Independence of item order and zero signs\<close>

lemma insort_key_fst_map:
  "(\<And>x. fst (g x) = fst x) \<Longrightarrow> insort_key fst (g x) (map g xs) = map g (insort_key fst x xs)"
  by (induction xs) auto

lemma sort_key_fst_map:
  assumes "\<And>x. fst (g x) = fst x"
  shows "sort_key fst (map g xs) = map g (sort_key fst xs)"
  by (induction xs) (simp_all add: insort_key_fst_map [of g] assms)

lemma sort_key_idem: "sort_key f (sort_key f xs) = sort_key f xs"
  by (rule sort_key_id_if_sorted) (rule sorted_sort_key)

text \<open>Rendering in the order the items stand in; \<open>render\<close> is this after sorting.\<close>

fun render_raw :: "(pyfloat \<Rightarrow> string) \<Rightarrow> json \<Rightarrow> string" where
  "render_raw fr (JList xs) = ''['' @ join '','' (map (render_raw fr) xs) @ '']''"
| "render_raw fr (JObj kvs) =
     ''{'' @ join '','' (map (\<lambda>kv. esc_str (fst kv) @ '':'' @ render_raw fr (snd kv)) kvs) @ ''}''"
| "render_raw fr j = render fr j"

lemma raw_sort_items: "render_raw fr (sort_items j) = render fr j"
proof (induction j)
  case (JObj kvs)
  have "map (\<lambda>kv. esc_str (fst kv) @ '':'' @ render_raw fr (snd kv))
          (sort_key fst (map (\<lambda>kv. (fst kv, sort_items (snd kv))) kvs))
      = map (\<lambda>kv. esc_str (fst kv) @ '':'' @ render_raw fr (sort_items (snd kv))) (sort_key fst kvs)"
    by (simp add: sort_key_fst_map comp_def)
  also have "\<dots> = map (\<lambda>kv. esc_str (fst kv) @ '':'' @ render fr (snd kv)) (sort_key fst kvs)"
    using JObj.IH by (auto simp: snds.simps)
  also have "\<dots> = map (\<lambda>(k, r). esc_str k @ '':'' @ r)
          (sort_key fst (map (\<lambda>kv. (fst kv, render fr (snd kv))) kvs))"
    by (simp add: sort_key_fst_map comp_def)
  finally show ?case by simp
next
  case (JList xs)
  then show ?case by (simp add: comp_def cong: map_cong)
qed simp_all

lemma json_finite_sort_items [simp]: "json_finite (sort_items j) = json_finite j"
  by (induction j) (auto simp: list_all_iff snds.simps)

lemma json_finite_normalize [simp]: "json_finite (normalize_json_value j) = json_finite j"
  by (induction j) (auto simp: list_all_iff snds.simps float_is_zero_def)

lemma normalize_idem: "normalize_json_value (normalize_json_value j) = normalize_json_value j"
  by (induction j) (auto simp: snds.simps)

lemma same_document_finite: "same_document a b \<Longrightarrow> json_finite a = json_finite b"
  by (metis json_finite_normalize json_finite_sort_items same_document_def)

lemma canonical_bytes_cong:
  assumes "same_document a b"
  shows "canonical_job_config_bytes fr a = canonical_job_config_bytes fr b"
proof -
  have "render fr (normalize_json_value a) = render fr (normalize_json_value b)"
    using assms raw_sort_items by (metis same_document_def)
  then show ?thesis
    using same_document_finite [OF assms] by (simp add: canonical_job_config_bytes_def dumps_def)
qed

section \<open>Unique readability\<close>

definition delim :: "string \<Rightarrow> bool" where
  "delim r \<longleftrightarrow> r = [] \<or> hd r \<in> {CHR '','', CHR '']'', CHR ''}''}"

lemma delim_simps [simp]: "delim []" "delim (CHR '','' # r)" "delim (CHR '']'' # r)"
    "delim (CHR ''}'' # r)"
  by (simp_all add: delim_def)

lemma takeWhile_token:
  assumes "list_all P u" "r = [] \<or> \<not> P (hd r)"
  shows "takeWhile P (u @ r) = u"
  using assms by (cases r) (auto simp: list_all_iff takeWhile_append)

lemma number_token:
  assumes "list_all is_number_char u" "list_all is_number_char v" "delim r" "delim s"
    and eq: "u @ r = v @ s"
  shows "u = v \<and> r = s"
proof -
  have "delim z \<Longrightarrow> z = [] \<or> \<not> is_number_char (hd z)" for z
    by (auto simp: delim_def is_number_char_def char_class_defs)
  then have "takeWhile is_number_char (u @ r) = u" "takeWhile is_number_char (v @ s) = v"
    using assms(1-4) by (auto intro: takeWhile_token)
  with eq show ?thesis by simp
qed

subsection \<open>Integers\<close>

lemma nat_digits_nonempty [simp]: "nat_digits n \<noteq> []"
  by (subst nat_digits.simps) simp

lemma is_digit_char_of: "(d::nat) < 10 \<Longrightarrow> is_digit (char_of (48 + d))"
  by (simp add: char_class_defs of_char_of)

lemma nat_digits_digits: "list_all is_digit (nat_digits n)"
proof (induction n rule: nat_digits.induct)
  case (1 n)
  then show ?case
    by (subst nat_digits.simps) (auto simp: is_digit_char_of)
qed

definition digits_value :: "string \<Rightarrow> nat" where
  "digits_value = foldl (\<lambda>a c. a * 10 + (of_char c - 48)) 0"

lemma digits_value_snoc [simp]: "digits_value (s @ [c]) = digits_value s * 10 + (of_char c - 48)"
  by (simp add: digits_value_def)

lemma nat_digits_value: "digits_value (nat_digits n) = n"
proof (induction n rule: nat_digits.induct)
  case (1 n)
  show ?case
  proof (cases "n < 10")
    case True
    then show ?thesis
      by (subst nat_digits.simps) (simp add: digits_value_def of_char_of)
  next
    case False
    with 1 show ?thesis
      by (subst nat_digits.simps) (simp add: of_char_of)
  qed
qed

lemma int_str_chars: "list_all is_number_char (int_str i)" "int_str i \<noteq> []"
    "CHR ''.'' \<notin> set (int_str i)" "CHR ''e'' \<notin> set (int_str i)"
  using nat_digits_digits [of "nat i"] nat_digits_digits [of "nat (- i)"]
  by (auto simp: int_str_def is_number_char_def list_all_iff)
    (auto simp: char_class_defs dest!: bspec)

lemma nat_digits_no_minus: "nat_digits n \<noteq> CHR ''-'' # s"
  using nat_digits_digits [of n] by (auto simp: char_class_defs)

lemma int_str_inject: "int_str i = int_str j \<Longrightarrow> i = j"
proof -
  have *: "nat_digits m = nat_digits n \<Longrightarrow> m = n" for m n
    by (metis nat_digits_value)
  assume "int_str i = int_str j"
  then show "i = j"
    using nat_digits_no_minus
    by (auto simp: int_str_def dest!: * split: if_splits) (metis nat_digits_no_minus)+
qed

subsection \<open>Strings\<close>

lemma of_char_hexdigit: "d < 16 \<Longrightarrow> of_char (hexdigit d) = (if d < 10 then 48 + d else 87 + d)"
  by (simp add: hexdigit_def of_char_of)

lemma hexdigit_inject:
  assumes "d < 16" "e < 16"
  shows "hexdigit d = hexdigit e \<longleftrightarrow> d = e"
proof
  assume "hexdigit d = hexdigit e"
  then have "(of_char (hexdigit d) :: nat) = of_char (hexdigit e)" by simp
  then have "(if d < 10 then 48 + d else 87 + d) = (if e < 10 then 48 + e else 87 + e)"
    by (simp only: of_char_hexdigit assms)
  then show "d = e" by presburger
qed simp

definition plain_char :: "char \<Rightarrow> bool" where
  "plain_char c \<longleftrightarrow> c \<noteq> quote \<and> c \<noteq> backslash \<and> (32::nat) \<le> of_char c"

lemma esc_char_plain: "plain_char c \<Longrightarrow> esc_char c = [c]"
  by (auto simp: esc_char_def plain_char_def Let_def)

lemma esc_char_backslash: "\<not> plain_char c \<Longrightarrow> \<exists>u. esc_char c = backslash # u"
  by (auto simp: esc_char_def plain_char_def Let_def)

lemma char_eq_of_nat: "(of_char c :: nat) = of_char d \<Longrightarrow> c = d"
  by (simp add: of_char_eq_iff)

lemma div_mod_16: "(m::nat) div 16 = n div 16 \<Longrightarrow> m mod 16 = n mod 16 \<Longrightarrow> m = n"
  by (metis div_mult_mod_eq)

lemma esc_char_prefix_code:
  assumes "esc_char c @ x = esc_char d @ y"
  shows "c = d \<and> x = y"
proof (cases "plain_char c \<or> plain_char d")
  case True
  then show ?thesis
    using assms esc_char_backslash [of c] esc_char_backslash [of d]
    by (cases "plain_char c"; cases "plain_char d") (auto simp: esc_char_plain plain_char_def)
next
  case False
  then show ?thesis
    using assms
    apply (auto simp: esc_char_def plain_char_def Let_def backslash_def quote_def split: if_splits)
    apply (auto simp: hexdigit_inject intro: char_eq_of_nat dest: div_mod_16)
    done
qed

lemma esc_str_prefix_code:
  assumes "esc_str s @ x = esc_str t @ y"
  shows "s = t \<and> x = y"
proof -
  have "concat (map esc_char s) @ quote # x = concat (map esc_char t) @ quote # y \<Longrightarrow>
      s = t \<and> x = y"
  proof (induction s arbitrary: t)
    case Nil
    then show ?case
    proof (cases t)
      case (Cons d t')
      have "esc_char d \<noteq> [] \<and> hd (esc_char d) \<noteq> quote"
        by (auto simp: esc_char_def Let_def backslash_def quote_def)
      with Nil Cons show ?thesis by (cases "esc_char d") auto
    qed simp
  next
    case (Cons c s)
    show ?case
    proof (cases t)
      case Nil
      have "esc_char c \<noteq> [] \<and> hd (esc_char c) \<noteq> quote"
        by (auto simp: esc_char_def Let_def backslash_def quote_def)
      with Nil Cons.prems show ?thesis by (cases "esc_char c") auto
    next
      case (Cons d t')
      with Cons.prems have "esc_char c @ concat (map esc_char s) @ quote # x =
          esc_char d @ concat (map esc_char t') @ quote # y" by simp
      then have "c = d" and "concat (map esc_char s) @ quote # x =
          concat (map esc_char t') @ quote # y"
        using esc_char_prefix_code by blast+
      with Cons.IH Cons show ?thesis by blast
    qed
  qed
  with assms show ?thesis by (simp add: esc_str_def)
qed

subsection \<open>Documents\<close>

lemma join_Cons: "join sep (y # ys) = y @ concat (map (\<lambda>z. sep @ z) ys)"
  by (simp add: join_def)

lemma tail_unique:
  assumes elem: "\<And>x y r s. x \<in> set xs \<Longrightarrow> y \<in> set ys \<Longrightarrow> p x @ r = p y @ s \<Longrightarrow>
      delim r \<Longrightarrow> delim s \<Longrightarrow> x = y \<and> r = s"
    and c: "c \<noteq> CHR '',''" "delim (c # r)" "delim (c # s)"
  shows "concat (map (\<lambda>z. '','' @ p z) xs) @ c # r = concat (map (\<lambda>z. '','' @ p z) ys) @ c # s \<Longrightarrow>
    xs = ys \<and> r = s"
  using elem
proof (induction xs arbitrary: ys)
  case Nil
  then show ?case using c by (cases ys) auto
next
  case (Cons x xs)
  show ?case
  proof (cases ys)
    case Nil
    with Cons.prems(1) c show ?thesis by simp
  next
    case ys: (Cons y ys')
    let ?X = "concat (map (\<lambda>z. '','' @ p z) xs) @ c # r"
    let ?Y = "concat (map (\<lambda>z. '','' @ p z) ys') @ c # s"
    have "delim ?X" "delim ?Y" using c by (cases xs; simp; cases ys'; simp)+
    moreover have "p x @ ?X = p y @ ?Y" using Cons.prems(1) ys by simp
    ultimately have "x = y \<and> ?X = ?Y" using Cons.prems(2) [of x y] ys by simp
    moreover from this have "xs = ys' \<and> r = s" using Cons.prems(2) ys by (intro Cons.IH) auto
    ultimately show ?thesis using ys by simp
  qed
qed

lemma join_unique:
  assumes elem: "\<And>x y r s. x \<in> set xs \<Longrightarrow> y \<in> set ys \<Longrightarrow> p x @ r = p y @ s \<Longrightarrow>
      delim r \<Longrightarrow> delim s \<Longrightarrow> x = y \<and> r = s"
    and head: "\<And>x. x \<in> set xs \<union> set ys \<Longrightarrow> p x \<noteq> [] \<and> hd (p x) \<noteq> c"
    and c: "c \<noteq> CHR '',''" "delim (c # r)" "delim (c # s)"
    and eq: "join '','' (map p xs) @ c # r = join '','' (map p ys) @ c # s"
  shows "xs = ys \<and> r = s"
proof (cases xs)
  case Nil
  show ?thesis
  proof (cases ys)
    case (Cons y ys')
    with head [of y] obtain d u where "p y = d # u" "d \<noteq> c" by (cases "p y") auto
    with eq \<open>xs = []\<close> Cons show ?thesis by (simp add: join_def)
  qed (use eq Nil in simp)
next
  case xs: (Cons x xs')
  show ?thesis
  proof (cases ys)
    case Nil
    from head [of x] xs obtain d u where "p x = d # u" "d \<noteq> c" by (cases "p x") auto
    with eq xs Nil show ?thesis by (simp add: join_def)
  next
    case ys: (Cons y ys')
    let ?X = "concat (map (\<lambda>z. '','' @ p z) xs') @ c # r"
    let ?Y = "concat (map (\<lambda>z. '','' @ p z) ys') @ c # s"
    have "delim ?X" "delim ?Y" using c by (cases xs'; simp; cases ys'; simp)+
    moreover have "p x @ ?X = p y @ ?Y" using eq xs ys by (simp add: join_Cons comp_def)
    ultimately have "x = y \<and> ?X = ?Y" using elem [of x y] xs ys by simp
    moreover from this have "xs' = ys' \<and> r = s"
      using elem xs ys by (intro tail_unique [of xs' ys' p c r s] c) auto
    ultimately show ?thesis using xs ys by simp
  qed
qed

text \<open>The kind of a document shows in the first character of its text.\<close>

fun kind_of_char :: "char \<Rightarrow> nat" where
  "kind_of_char c =
     (if c = CHR ''n'' then 0 else if c = CHR ''t'' \<or> c = CHR ''f'' then 1
      else if is_number_char c then 2 else if c = quote then 3
      else if c = CHR ''['' then 4 else if c = CHR ''{'' then 5 else 6)"

fun kind_of :: "json \<Rightarrow> nat" where
  "kind_of JNull = 0"
| "kind_of (JBool _) = 1"
| "kind_of (JInt _) = 2"
| "kind_of (JFloat _) = 2"
| "kind_of (JStr _) = 3"
| "kind_of (JList _) = 4"
| "kind_of (JObj _) = 5"

lemma not_number_chars [simp]:
  "\<not> is_number_char (CHR ''n'')" "\<not> is_number_char (CHR ''t'')" "\<not> is_number_char (CHR ''f'')"
  "\<not> is_number_char (CHR ''['')" "\<not> is_number_char (CHR ''{'')" "\<not> is_number_char quote"
  "\<not> is_number_char (CHR '']'')" "\<not> is_number_char (CHR ''}'')" "\<not> is_number_char (CHR 0x22)"
  by (simp_all add: is_number_char_def char_class_defs quote_def)

lemma number_kind: "list_all is_number_char u \<Longrightarrow> u \<noteq> [] \<Longrightarrow> kind_of_char (hd u) = 2"
  by (cases u) auto

lemma float_repr_okD:
  assumes "float_repr_ok fr" "isfinite x"
  shows "fr x \<noteq> []" "list_all is_number_char (fr x)"
    "CHR ''.'' \<in> set (fr x) \<or> CHR ''e'' \<in> set (fr x)"
    "isfinite y \<Longrightarrow> fr x = fr y \<Longrightarrow> x = y"
  using assms by (auto simp: float_repr_ok_def)

lemma raw_kind:
  assumes "float_repr_ok fr" "json_finite j"
  shows "render_raw fr j \<noteq> [] \<and> kind_of_char (hd (render_raw fr j)) = kind_of j"
proof (cases j)
  case (JInt i)
  then show ?thesis using number_kind int_str_chars by (simp del: kind_of_char.simps)
next
  case (JFloat x)
  with assms show ?thesis
    using number_kind float_repr_okD(1,2) by (simp del: kind_of_char.simps)
qed (auto simp: esc_str_def quote_def)

lemma raw_kind_eq:
  assumes "float_repr_ok fr" "json_finite a" "json_finite b" "render_raw fr a @ r = render_raw fr b @ s"
  shows "kind_of a = kind_of b"
  using assms raw_kind [of fr a] raw_kind [of fr b] by (metis hd_append2)

lemma raw_not_close:
  assumes "float_repr_ok fr" "json_finite j" "c = CHR '']'' \<or> c = CHR ''}''"
  shows "render_raw fr j \<noteq> [] \<and> hd (render_raw fr j) \<noteq> c"
proof -
  have "kind_of_char c = 6" using assms(3) by (elim disjE) (simp_all add: quote_def)
  moreover have "kind_of j \<noteq> 6" by (cases j) simp_all
  ultimately show ?thesis using raw_kind [OF assms(1,2)] by (auto simp del: kind_of_char.simps)
qed

lemma raw_prefix_code:
  assumes fr: "float_repr_ok fr"
  shows "json_finite a \<Longrightarrow> json_finite b \<Longrightarrow> delim r \<Longrightarrow> delim s \<Longrightarrow>
    render_raw fr a @ r = render_raw fr b @ s \<Longrightarrow> a = b \<and> r = s"
proof (induction a arbitrary: b r s)
  case JNull
  then have "b = JNull" using raw_kind_eq [OF fr JNull(1,2,5)] by (cases b) simp_all
  with JNull show ?case by simp
next
  case (JBool x)
  then obtain y where "b = JBool y" using raw_kind_eq [OF fr JBool(1,2,5)] by (cases b) simp_all
  with JBool show ?case by (auto split: if_splits)
next
  case (JInt i)
  show ?case
  proof (cases b)
    case (JInt j)
    with JInt.prems have "int_str i = int_str j \<and> r = s"
      using int_str_chars(1) by (intro number_token) simp_all
    with JInt show ?thesis using int_str_inject by auto
  next
    case (JFloat y)
    with JInt.prems have "int_str i = fr y"
      using int_str_chars(1) float_repr_okD(2) [OF fr] number_token by simp
    with JFloat JInt.prems show ?thesis
      using int_str_chars(3,4) [of i] float_repr_okD(3) [OF fr, of y] by auto
  qed (use raw_kind_eq [OF fr JInt.prems(1,2,5)] in simp_all)
next
  case (JFloat x)
  show ?case
  proof (cases b)
    case (JFloat y)
    with JFloat.prems have "fr x = fr y \<and> r = s"
      using float_repr_okD(2) [OF fr] by (intro number_token) simp_all
    with JFloat JFloat.prems show ?thesis using float_repr_okD(4) [OF fr] by auto
  next
    case (JInt j)
    with JFloat.prems have "fr x = int_str j"
      using int_str_chars(1) float_repr_okD(2) [OF fr] number_token by simp
    with JInt JFloat.prems show ?thesis
      using int_str_chars(3,4) [of j] float_repr_okD(3) [OF fr, of x] by auto
  qed (use raw_kind_eq [OF fr JFloat.prems(1,2,5)] in simp_all)
next
  case (JStr u)
  then obtain v where "b = JStr v" using raw_kind_eq [OF fr JStr(1,2,5)] by (cases b) simp_all
  with JStr.prems(5) show ?case using esc_str_prefix_code [of u r v s] by simp
next
  case (JList xs)
  then obtain ys where b: "b = JList ys"
    using raw_kind_eq [OF fr JList.prems(1,2,5)] by (cases b) simp_all
  have "xs = ys \<and> r = s"
  proof (rule join_unique [of xs ys "render_raw fr" "CHR '']''" r s])
    show "x = y \<and> r' = s'" if "x \<in> set xs" "y \<in> set ys" "render_raw fr x @ r' = render_raw fr y @ s'"
      "delim r'" "delim s'" for x y r' s'
      using that JList.prems b by (intro JList.IH) (auto simp: list_all_iff)
    show "render_raw fr x \<noteq> [] \<and> hd (render_raw fr x) \<noteq> CHR '']''" if "x \<in> set xs \<union> set ys" for x
      using that JList.prems b by (intro raw_not_close [OF fr]) (auto simp: list_all_iff)
  qed (use JList.prems b in simp_all)
  with b show ?case by simp
next
  case (JObj kvs)
  then obtain lvs where b: "b = JObj lvs"
    using raw_kind_eq [OF fr JObj.prems(1,2,5)] by (cases b) simp_all
  let ?p = "\<lambda>kv. esc_str (fst kv) @ '':'' @ render_raw fr (snd kv)"
  have "kvs = lvs \<and> r = s"
  proof (rule join_unique [of kvs lvs ?p "CHR ''}''" r s])
    show "x = y \<and> r' = s'" if *: "x \<in> set kvs" "y \<in> set lvs" "?p x @ r' = ?p y @ s'"
      "delim r'" "delim s'" for x y r' s'
    proof -
      from *(3) have "fst x = fst y" and v: "render_raw fr (snd x) @ r' = render_raw fr (snd y) @ s'"
        using esc_str_prefix_code [of "fst x" "'':'' @ render_raw fr (snd x) @ r'" "fst y"
            "'':'' @ render_raw fr (snd y) @ s'"] by simp_all
      moreover have "snd x = snd y \<and> r' = s'"
        using * v JObj.prems b by (intro JObj.IH [of x]) (auto simp: list_all_iff snds.simps)
      ultimately show ?thesis by (auto simp: prod_eq_iff)
    qed
  qed (use JObj.prems b in \<open>simp_all add: esc_str_def quote_def\<close>)
  with b show ?case by simp
qed

lemma canonical_bytes_unique:
  assumes "float_repr_ok fr" "canonical_job_config_bytes fr a = Some u"
    and "canonical_job_config_bytes fr b = Some u"
  shows "same_document a b"
proof -
  let ?a = "sort_items (normalize_json_value a)" and ?b = "sort_items (normalize_json_value b)"
  have fin: "json_finite ?a" "json_finite ?b" and "render_raw fr ?a = render_raw fr ?b"
    using assms(2,3)
    by (auto simp: canonical_job_config_bytes_def dumps_def raw_sort_items split: if_splits)
  then have "?a = ?b"
    using raw_prefix_code [OF assms(1) fin, of "[]" "[]"] by simp
  then show ?thesis by (simp add: same_document_def)
qed

end
