(* ===== verification/Job_Config.thy ===== *)
theory Job_Config
  imports Json
begin

text \<open>
  The training job configuration of \<^verbatim>\<open>rvc_orchestrator_contracts/job.py\<close>: one record per contract
  class, one validation function per class with its field bounds and its validators in the order
  of the code, and \<^verbatim>\<open>model_dump(mode="json")\<close> of the whole configuration. Fields of a literal type
  have a single value; they are no record fields and appear in the dump as constants.

  A validation returns the validated value (the tags of a job are stripped on the way) or the
  message of the first violated rule. The field parsing that precedes it (types, defaults, unknown
  keys) belongs to the validation library and is an argument where the ledger needs it.
\<close>

section \<open>Enumerations\<close>

datatype rvc_version = V1 | V2

fun rvc_version_value :: "rvc_version \<Rightarrow> string" where
  "rvc_version_value V1 = ''v1''"
| "rvc_version_value V2 = ''v2''"

datatype sample_rate = KHZ_40 | KHZ_48

fun sample_rate_value :: "sample_rate \<Rightarrow> string" where
  "sample_rate_value KHZ_40 = ''40k''"
| "sample_rate_value KHZ_48 = ''48k''"

datatype training_f0_method = T_PM | T_HARVEST | T_DIO | T_RMVPE | T_RMVPE_GPU

fun training_f0_value :: "training_f0_method \<Rightarrow> string" where
  "training_f0_value T_PM = ''pm''"
| "training_f0_value T_HARVEST = ''harvest''"
| "training_f0_value T_DIO = ''dio''"
| "training_f0_value T_RMVPE = ''rmvpe''"
| "training_f0_value T_RMVPE_GPU = ''rmvpe_gpu''"

datatype inference_f0_method = I_PM | I_HARVEST | I_CREPE | I_RMVPE

fun inference_f0_value :: "inference_f0_method \<Rightarrow> string" where
  "inference_f0_value I_PM = ''pm''"
| "inference_f0_value I_HARVEST = ''harvest''"
| "inference_f0_value I_CREPE = ''crepe''"
| "inference_f0_value I_RMVPE = ''rmvpe''"

definition feature_directory_for_version :: "rvc_version \<Rightarrow> string" where
  "feature_directory_for_version v = (if v = V1 then ''3_feature256'' else ''3_feature768'')"

section \<open>Configuration records\<close>

record rvc_backend_config =
  repository :: string
  rvc_version :: "rvc_version option"
  rvc_commit_hash :: "string option"

record model_config =
  version :: rvc_version
  model_sample_rate :: sample_rate
  use_f0 :: bool
  speaker_id :: int

datatype pretrained_mode = Auto | Custom

record pretrained_config =
  mode :: pretrained_mode
  g_path :: "string option"
  d_path :: "string option"
  allow_custom_override :: bool

record training_config =
  epochs :: int
  batch_size_per_gpu :: int
  save_every_epoch :: int
  save_only_latest :: bool
  save_every_weights :: bool
  cache_dataset_in_gpu :: bool
  gpu_ids :: "int list"

record f0_extraction_config =
  training_f0_method :: "training_f0_method option"
  rmvpe_gpu_ids :: "int list option"

record index_config =
  build_index :: bool
  collect_total_fea :: bool
  collect_added_index :: bool

record inference_preset_config =
  inference_f0_method :: inference_f0_method
  transpose :: int
  index_rate :: pyfloat
  filter_radius :: int
  resample_sr :: int
  rms_mix_rate :: pyfloat
  protect :: pyfloat

text \<open>\<^verbatim>\<open>AutoInferenceSamplesConfig\<close>: two fields of its own, then the fields of a preset.\<close>

record auto_inference_samples_config =
  enabled :: bool
  test_set_id :: "string option"
  inference :: inference_preset_config

record artifact_collection_config =
  collect_checkpoints :: bool
  collect_small_model :: bool
  extract_small_model_if_missing :: bool
  collect_index :: bool
  collect_tensorboard :: bool
  collect_logs :: bool
  collect_samples :: bool

record resource_requirements =
  min_vram_gb :: pyfloat
  preferred_worker_tags :: "string list"
  priority :: int

record job_config =
  job_name :: string
  experiment_id :: string
  dataset_id :: string
  rvc_backend :: rvc_backend_config
  model :: model_config
  pretrained :: pretrained_config
  training :: training_config
  f0_extraction :: f0_extraction_config
  index :: index_config
  auto_inference_samples :: auto_inference_samples_config
  artifacts :: artifact_collection_config
  resource :: resource_requirements

section \<open>Validation\<close>

abbreviation outside :: "int \<Rightarrow> int \<Rightarrow> int \<Rightarrow> bool" where
  "outside lo hi x \<equiv> \<not> (lo \<le> x \<and> x \<le> hi)"

abbreviation float_outside :: "rat \<Rightarrow> rat \<Rightarrow> pyfloat \<Rightarrow> bool" where
  "float_outside lo hi x \<equiv> \<not> (float_ge x lo \<and> float_le x hi)"

text \<open>The truth value of an optional string and of an optional list.\<close>

definition truthy :: "'a list option \<Rightarrow> bool" where
  "truthy x \<longleftrightarrow> (case x of None \<Rightarrow> False | Some s \<Rightarrow> s \<noteq> [])"

definition validate_model_config :: "model_config \<Rightarrow> string + model_config" where
  "validate_model_config m = checked [(speaker_id m < 0, ''speaker_id'')] m"

text \<open>
  \<^verbatim>\<open>PurePosixPath(path).is_absolute()\<close>: the path starts with a slash; its parts are the non-empty
  pieces between slashes other than a single dot.
\<close>

definition posix_parts :: "string \<Rightarrow> string list" where
  "posix_parts p = filter (\<lambda>s. s \<noteq> [] \<and> s \<noteq> ''.'') (split_on (CHR ''/'') p)"

definition unsafe_relative_path :: "string \<Rightarrow> bool" where
  "unsafe_relative_path p \<longleftrightarrow>
     p \<noteq> [] \<and> (prefix ''/'' p \<or> ''..'' \<in> set (posix_parts p))"

definition validate_pretrained_config :: "pretrained_config \<Rightarrow> string + pretrained_config" where
  "validate_pretrained_config p = checked
     [(mode p = Custom \<and> (\<not> truthy (g_path p) \<or> \<not> truthy (d_path p)),
        ''custom pretrained mode requires both g_path and d_path''),
      (\<exists>path \<in> set_option (g_path p). unsafe_relative_path path,
        ''pretrained paths must be safe relative paths''),
      (\<exists>path \<in> set_option (d_path p). unsafe_relative_path path,
        ''pretrained paths must be safe relative paths'')] p"

definition validate_training_config :: "training_config \<Rightarrow> string + training_config" where
  "validate_training_config t = checked
     [(outside 1 100000 (epochs t), ''epochs''),
      (outside 1 1024 (batch_size_per_gpu t), ''batch_size_per_gpu''),
      (save_every_epoch t < 1, ''save_every_epoch''),
      (gpu_ids t = [], ''gpu_ids''),
      (\<exists>gpu_id \<in> set (gpu_ids t). gpu_id < 0, ''GPU IDs must be non-negative''),
      (\<not> distinct (gpu_ids t), ''GPU IDs must be unique'')] t"

definition validate_f0_extraction_config ::
  "f0_extraction_config \<Rightarrow> string + f0_extraction_config" where
  "validate_f0_extraction_config f = checked
     [(training_f0_method f = Some T_RMVPE_GPU \<and> \<not> truthy (rmvpe_gpu_ids f),
        ''rmvpe_gpu requires at least one rmvpe_gpu_id''),
      (training_f0_method f \<noteq> Some T_RMVPE_GPU \<and> truthy (rmvpe_gpu_ids f),
        ''rmvpe_gpu_ids are only valid with rmvpe_gpu''),
      (\<exists>ids \<in> set_option (rmvpe_gpu_ids f). \<exists>gpu_id \<in> set ids. gpu_id < 0,
        ''RMVPE GPU IDs must be non-negative'')] f"

definition validate_inference_preset_config ::
  "inference_preset_config \<Rightarrow> string + inference_preset_config" where
  "validate_inference_preset_config i = checked
     [(outside (- 48) 48 (transpose i), ''transpose''),
      (float_outside 0 1 (index_rate i), ''index_rate''),
      (outside 0 7 (filter_radius i), ''filter_radius''),
      (resample_sr i \<noteq> 0 \<and> outside 16000 192000 (resample_sr i), ''resample_sr''),
      (float_outside 0 1 (rms_mix_rate i), ''rms_mix_rate''),
      (float_outside 0 (1/2) (protect i), ''protect'')] i"

definition validate_auto_inference_samples_config ::
  "auto_inference_samples_config \<Rightarrow> string + auto_inference_samples_config" where
  "validate_auto_inference_samples_config s =
     res_bind (validate_inference_preset_config (inference s)) (\<lambda>_. checked
       [(enabled s \<and> \<not> truthy (test_set_id s), ''enabled sample generation requires test_set_id''),
        (\<not> enabled s \<and> test_set_id s \<noteq> None,
          ''disabled sample generation requires test_set_id=null'')] s)"

text \<open>\<^verbatim>\<open>str.strip()\<close> on ASCII white space.\<close>

definition is_space :: "char \<Rightarrow> bool" where
  "is_space c \<longleftrightarrow> between 9 13 c \<or> between 28 32 c"

definition strip :: "string \<Rightarrow> string" where
  "strip s = rev (dropWhile is_space (rev (dropWhile is_space s)))"

definition validate_resource_requirements ::
  "resource_requirements \<Rightarrow> string + resource_requirements" where
  "validate_resource_requirements r =
     (let stripped = map strip (preferred_worker_tags r) in checked
       [(\<not> float_ge (min_vram_gb r) 0, ''min_vram_gb''),
        (\<not> isfinite (min_vram_gb r), ''minimum VRAM must be finite''),
        (64 < length (preferred_worker_tags r), ''preferred_worker_tags''),
        (\<exists>tag \<in> set stripped. tag = [], ''worker tags cannot be empty''),
        (\<not> distinct stripped, ''worker tags must be unique''),
        (outside 0 10 (priority r), ''priority'')]
       (r\<lparr>preferred_worker_tags := stripped\<rparr>))"

definition bad_identifier :: "string \<Rightarrow> bool" where
  "bad_identifier s \<longleftrightarrow> \<not> (1 \<le> length s \<and> length s \<le> 128) \<or> \<not> safe_identifier s"

definition validate_cross_fields :: "job_config \<Rightarrow> string + job_config" where
  "validate_cross_fields c =
     (let samples = auto_inference_samples c; rate = index_rate (inference samples) in checked
       [(rvc_version (rvc_backend c) \<noteq> None \<and>
           rvc_version (rvc_backend c) \<noteq> Some (version (model c)),
          ''backend and model RVC versions must match''),
        (use_f0 (model c) \<and> training_f0_method (f0_extraction c) = None,
          ''use_f0=true requires training_f0_method''),
        (\<not> use_f0 (model c) \<and> training_f0_method (f0_extraction c) \<noteq> None,
          ''use_f0=false requires training_f0_method=null''),
        (\<not> use_f0 (model c) \<and> truthy (rmvpe_gpu_ids (f0_extraction c)),
          ''use_f0=false cannot declare rmvpe_gpu_ids''),
        (enabled samples \<and> \<not> build_index (index c) \<and> \<not> float_is_zero rate,
          ''sample generation without an index requires index_rate=0''),
        (enabled samples \<and> \<not> collect_samples (artifacts c),
          ''sample generation requires collect_samples=true''),
        (enabled samples \<and> \<not> collect_small_model (artifacts c),
          ''sample generation requires collect_small_model=true''),
        (enabled samples \<and> float_gt rate 0 \<and> \<not> collect_index (artifacts c),
          ''sample generation with index_rate>0 requires collect_index=true''),
        (enabled samples \<and> float_gt rate 0 \<and> \<not> collect_added_index (index c),
          ''sample generation with index_rate>0 requires collect_added_index=true'')] c)"

definition validate_job_config :: "job_config \<Rightarrow> string + job_config" where
  "validate_job_config c =
     (if bad_identifier (job_name c) \<or> bad_identifier (experiment_id c) \<or>
         bad_identifier (dataset_id c)
      then Inl (''identifier may contain only letters, numbers, '.', '_' and '-'' @ [CHR 0x27])
      else
        res_bind (validate_model_config (model c)) (\<lambda>m.
        res_bind (validate_pretrained_config (pretrained c)) (\<lambda>p.
        res_bind (validate_training_config (training c)) (\<lambda>t.
        res_bind (validate_f0_extraction_config (f0_extraction c)) (\<lambda>f.
        res_bind (validate_auto_inference_samples_config (auto_inference_samples c)) (\<lambda>s.
        res_bind (validate_resource_requirements (resource c)) (\<lambda>r.
          validate_cross_fields
            (c\<lparr>model := m, pretrained := p, training := t, f0_extraction := f,
               auto_inference_samples := s, resource := r\<rparr>))))))))"

definition feature_directory :: "job_config \<Rightarrow> string" where
  "feature_directory c = feature_directory_for_version (version (model c))"

section \<open>model\_dump(mode="json")\<close>

definition opt_str :: "string option \<Rightarrow> json" where
  "opt_str x = (case x of None \<Rightarrow> JNull | Some s \<Rightarrow> JStr s)"

definition dump_inference_preset_config :: "inference_preset_config \<Rightarrow> json" where
  "dump_inference_preset_config i = JObj
     [(''inference_f0_method'', JStr (inference_f0_value (inference_f0_method i))),
      (''transpose'', JInt (transpose i)),
      (''index_rate'', JFloat (index_rate i)),
      (''filter_radius'', JInt (filter_radius i)),
      (''resample_sr'', JInt (resample_sr i)),
      (''rms_mix_rate'', JFloat (rms_mix_rate i)),
      (''protect'', JFloat (protect i))]"

definition dump_auto_inference_samples_config :: "auto_inference_samples_config \<Rightarrow> json" where
  "dump_auto_inference_samples_config s = JObj
     ([(''enabled'', JBool (enabled s)), (''test_set_id'', opt_str (test_set_id s))] @
      (case dump_inference_preset_config (inference s) of JObj kvs \<Rightarrow> kvs | _ \<Rightarrow> []))"

definition dump_job_config :: "job_config \<Rightarrow> json" where
  "dump_job_config c = JObj
     [(''schema_version'', JStr ''1.0''),
      (''job_name'', JStr (job_name c)),
      (''experiment_id'', JStr (experiment_id c)),
      (''dataset_id'', JStr (dataset_id c)),
      (''rvc_backend'', JObj
        [(''backend_type'', JStr ''rvc_webui''),
         (''repository'', JStr (repository (rvc_backend c))),
         (''rvc_version'', opt_str (map_option rvc_version_value (rvc_version (rvc_backend c)))),
         (''rvc_commit_hash'', opt_str (rvc_commit_hash (rvc_backend c)))]),
      (''model'', JObj
        [(''version'', JStr (rvc_version_value (version (model c)))),
         (''sample_rate'', JStr (sample_rate_value (model_sample_rate (model c)))),
         (''use_f0'', JBool (use_f0 (model c))),
         (''speaker_id'', JInt (speaker_id (model c)))]),
      (''pretrained'', JObj
        [(''mode'', JStr (case mode (pretrained c) of Auto \<Rightarrow> ''auto'' | Custom \<Rightarrow> ''custom'')),
         (''g_path'', opt_str (g_path (pretrained c))),
         (''d_path'', opt_str (d_path (pretrained c))),
         (''allow_custom_override'', JBool (allow_custom_override (pretrained c)))]),
      (''training_feature'', JObj
        [(''feature_dir_policy'', JStr ''auto''),
         (''v1_feature_dir'', JStr ''3_feature256''),
         (''v2_feature_dir'', JStr ''3_feature768'')]),
      (''training'', JObj
        [(''epochs'', JInt (epochs (training c))),
         (''batch_size_per_gpu'', JInt (batch_size_per_gpu (training c))),
         (''save_every_epoch'', JInt (save_every_epoch (training c))),
         (''save_only_latest'', JBool (save_only_latest (training c))),
         (''save_every_weights'', JBool (save_every_weights (training c))),
         (''cache_dataset_in_gpu'', JBool (cache_dataset_in_gpu (training c))),
         (''gpu_ids'', JList (map JInt (gpu_ids (training c))))]),
      (''f0_extraction'', JObj
        [(''training_f0_method'',
            opt_str (map_option training_f0_value (training_f0_method (f0_extraction c)))),
         (''rmvpe_gpu_ids'', case rmvpe_gpu_ids (f0_extraction c) of
            None \<Rightarrow> JNull | Some ids \<Rightarrow> JList (map JInt ids))]),
      (''index'', JObj
        [(''build_index'', JBool (build_index (index c))),
         (''collect_total_fea'', JBool (collect_total_fea (index c))),
         (''collect_added_index'', JBool (collect_added_index (index c)))]),
      (''auto_inference_samples'',
        dump_auto_inference_samples_config (auto_inference_samples c)),
      (''artifacts'', JObj
        [(''collect_checkpoints'', JBool (collect_checkpoints (artifacts c))),
         (''collect_small_model'', JBool (collect_small_model (artifacts c))),
         (''extract_small_model_if_missing'', JBool (extract_small_model_if_missing (artifacts c))),
         (''collect_index'', JBool (collect_index (artifacts c))),
         (''collect_tensorboard'', JBool (collect_tensorboard (artifacts c))),
         (''collect_logs'', JBool (collect_logs (artifacts c))),
         (''collect_samples'', JBool (collect_samples (artifacts c)))]),
      (''resource'', JObj
        [(''min_vram_gb'', JFloat (min_vram_gb (resource c))),
         (''preferred_worker_tags'', JList (map JStr (preferred_worker_tags (resource c)))),
         (''priority'', JInt (priority (resource c)))])]"

section \<open>Lemmas\<close>

lemma float_bounded_finite: "float_ge x lo \<Longrightarrow> float_le x hi \<Longrightarrow> isfinite x"
  by (cases x) simp_all

lemma float_gt_not_zero: "float_gt x 0 \<Longrightarrow> \<not> float_is_zero x"
  by (auto simp: float_is_zero_def)

lemma validate_inference_preset_eq:
  "validate_inference_preset_config i = Inr i' \<Longrightarrow> i' = i"
  by (auto simp: validate_inference_preset_config_def split: if_splits)

lemma validate_inference_preset_finite:
  assumes "validate_inference_preset_config i = Inr i'"
  shows "isfinite (index_rate i)" "isfinite (rms_mix_rate i)" "isfinite (protect i)"
  using assms
  by (auto simp: validate_inference_preset_config_def intro: float_bounded_finite)

lemmas config_validator_defs =
  validate_model_config_def validate_pretrained_config_def validate_training_config_def
  validate_f0_extraction_config_def validate_auto_inference_samples_config_def
  validate_resource_requirements_def validate_cross_fields_def

text \<open>Only the worker tags change on the way through validation.\<close>

lemma validate_job_config_value:
  assumes "validate_job_config c = Inr c'"
  shows "c' = c\<lparr>resource := (resource c)\<lparr>preferred_worker_tags :=
      map strip (preferred_worker_tags (resource c))\<rparr>\<rparr>"
  using assms
  by (auto simp: validate_job_config_def config_validator_defs Let_def
      split: if_splits)

lemma validate_job_config_parts:
  assumes "validate_job_config c = Inr c'"
  shows "validate_cross_fields c' = Inr c'"
    and "validate_auto_inference_samples_config (auto_inference_samples c') =
      Inr (auto_inference_samples c')"
    and "validate_f0_extraction_config (f0_extraction c') = Inr (f0_extraction c')"
    and "validate_training_config (training c') = Inr (training c')"
    and "validate_pretrained_config (pretrained c') = Inr (pretrained c')"
    and "validate_model_config (model c') = Inr (model c')"
    and "\<not> bad_identifier (job_name c') \<and> \<not> bad_identifier (experiment_id c') \<and>
      \<not> bad_identifier (dataset_id c')"
  using assms
  by (auto simp: validate_job_config_def config_validator_defs Let_def
      split: if_splits)

lemma validate_job_config_resource:
  assumes "validate_job_config c = Inr c'"
  shows "validate_resource_requirements (resource c) = Inr (resource c')"
  using assms
  by (auto simp: validate_job_config_def config_validator_defs Let_def
      split: if_splits)

lemma validated_resource:
  assumes "validate_resource_requirements r = Inr r'"
  shows "isfinite (min_vram_gb r')" "float_ge (min_vram_gb r') 0"
    "distinct (preferred_worker_tags r')" "0 \<le> priority r' \<and> priority r' \<le> 10"
  using assms by (auto simp: validate_resource_requirements_def Let_def)

lemma dump_validated_finite:
  assumes "validate_job_config c = Inr c'"
  shows "json_finite (dump_job_config c')"
proof -
  have "validate_inference_preset_config (inference (auto_inference_samples c')) =
      Inr (inference (auto_inference_samples c'))"
    using validate_job_config_parts(2) [OF assms] validate_inference_preset_eq
    by (auto simp: validate_auto_inference_samples_config_def)
  note fin = validate_inference_preset_finite [OF this]
  have "isfinite (min_vram_gb (resource c'))"
    by (rule validated_resource(1) [OF validate_job_config_resource [OF assms]])
  with fin show ?thesis
    by (simp add: dump_job_config_def dump_auto_inference_samples_config_def
        dump_inference_preset_config_def opt_str_def list_all_iff split: option.splits)
qed

lemma strip_idem [simp]: "strip (strip s) = strip s"
proof -
  define a where "a = dropWhile is_space s"
  define b where "b = rev (dropWhile is_space (rev a))"
  have ab: "a = b @ rev (takeWhile is_space (rev a))"
    by (metis b_def rev_append rev_rev_ident takeWhile_dropWhile_id)
  have "dropWhile is_space b = b"
  proof (cases b)
    case (Cons c u)
    from ab have "a = c # u @ rev (takeWhile is_space (rev a))" by (simp only: Cons append_Cons)
    then have "a \<noteq> []" "hd a = c" by (metis list.distinct(1), metis list.sel(1))
    then have "\<not> is_space c" unfolding a_def using hd_dropWhile by blast
    with Cons show ?thesis by simp
  qed simp
  moreover have "dropWhile is_space (rev b) = rev b" by (simp add: b_def)
  moreover have "strip s = b" by (simp add: strip_def a_def b_def)
  ultimately show ?thesis by (simp add: strip_def)
qed

lemma validate_job_config_idem:
  assumes "validate_job_config c = Inr c'"
  shows "validate_job_config c' = Inr c'"
proof -
  note parts = validate_job_config_parts [OF assms]
  have val: "c' = c\<lparr>resource := (resource c)\<lparr>preferred_worker_tags :=
      map strip (preferred_worker_tags (resource c))\<rparr>\<rparr>"
    by (rule validate_job_config_value [OF assms])
  have "validate_resource_requirements (resource c') = Inr (resource c')"
    using validate_job_config_resource [OF assms] val
    by (auto simp: validate_resource_requirements_def Let_def comp_def)
  with parts show ?thesis by (simp add: validate_job_config_def)
qed

end
