(* ===== verification/Platform.thy ===== *)
theory Platform
  imports Job_Config
begin

text \<open>
  The code outside the repository that the Manager calls, as one record of functions, and the
  settings its operations read (\<^verbatim>\<open>rvc_manager_api/config.py\<close>). Every operation takes both as
  arguments; nothing is assumed of them except where a statement says so.
\<close>

record platform =
  sha256 :: "string \<Rightarrow> string"
    \<comment> \<open>\<^verbatim>\<open>hashlib.sha256(data).hexdigest()\<close>\<close>
  hmac_sha256 :: "string \<Rightarrow> string \<Rightarrow> string"
    \<comment> \<open>\<^verbatim>\<open>hmac.new(key, data, hashlib.sha256).hexdigest()\<close>\<close>
  float_repr :: "pyfloat \<Rightarrow> string"
    \<comment> \<open>\<^verbatim>\<open>float.__repr__\<close>\<close>
  fsum :: "pyfloat list \<Rightarrow> pyfloat"
    \<comment> \<open>\<^verbatim>\<open>math.fsum\<close>\<close>
  parse_job_config :: "json \<Rightarrow> job_config option"
    \<comment> \<open>the field parsing of \<^verbatim>\<open>JobConfig.model_validate\<close>: types, defaults, forbidden extra keys\<close>

text \<open>
  What \<^verbatim>\<open>model_validate\<close> documents of the field parsing: a dumped model parses to itself. And the
  form of a SHA-256 hex digest.
\<close>

definition parses_dumps :: "platform \<Rightarrow> bool" where
  "parses_dumps pf \<longleftrightarrow> (\<forall>c. parse_job_config pf (dump_job_config c) = Some c)"

definition hex_digests :: "platform \<Rightarrow> bool" where
  "hex_digests pf \<longleftrightarrow> (\<forall>s. sha256_hex (sha256 pf s))"

definition model_validate_job_config :: "platform \<Rightarrow> json \<Rightarrow> job_config option" where
  "model_validate_job_config pf document =
     (case parse_job_config pf document of
        None \<Rightarrow> None
      | Some raw \<Rightarrow> (case validate_job_config raw of Inl _ \<Rightarrow> None | Inr c \<Rightarrow> Some c))"

datatype environment = Development | Test | Production

datatype storage_backend = Local | S3

record settings =
  environment :: environment
  worker_bootstrap_token :: "string option"
  worker_token_pepper :: string
  worker_token_rotation_ttl_seconds :: int
  lease_seconds :: int
  worker_offline_seconds :: int
  lease_recovery_max_attempts :: int
  allow_fake_workers :: bool
  approved_sample_runtime_bundles :: "(string \<times> string) list"
  auto_sample_jobs_enabled :: bool
  resolved_storage_backend :: storage_backend
  artifact_stream_chunk_bytes :: int
  test_set_max_items :: int
  test_set_max_total_bytes :: int
  test_set_max_total_duration_seconds :: pyfloat
  mlflow_enabled :: bool
  mlflow_processing_stale_seconds :: int
  mlflow_retry_max_seconds :: int
  jwt_secret :: string
  jwt_issuer :: string
  jwt_audience :: string
  jwt_access_ttl_seconds :: int
  jwt_leeway_seconds :: int
  sample_verification_timeout_seconds :: rat

text \<open>The bounds the settings class puts on the values the proofs depend on.\<close>

definition valid_settings :: "settings \<Rightarrow> bool" where
  "valid_settings st \<longleftrightarrow>
     60 \<le> worker_token_rotation_ttl_seconds st \<and> worker_token_rotation_ttl_seconds st \<le> 3600 \<and>
     15 \<le> lease_seconds st \<and> lease_seconds st \<le> 3600 \<and>
     30 \<le> worker_offline_seconds st \<and> worker_offline_seconds st \<le> 7200 \<and>
     0 \<le> lease_recovery_max_attempts st \<and> lease_recovery_max_attempts st \<le> 20 \<and>
     15 \<le> mlflow_processing_stale_seconds st \<and> mlflow_processing_stale_seconds st \<le> 3600 \<and>
     5 \<le> mlflow_retry_max_seconds st \<and> mlflow_retry_max_seconds st \<le> 3600 \<and>
     60 \<le> jwt_access_ttl_seconds st \<and> jwt_access_ttl_seconds st \<le> 3600 \<and>
     0 \<le> jwt_leeway_seconds st \<and> jwt_leeway_seconds st \<le> 60"

text \<open>
  The narrow view of the object storage that the claim uses: the URI of a key, where forming it may
  raise, and the chunks of an object, where reading it may raise.
\<close>

record claim_storage =
  backend :: storage_backend
  namespace_fingerprint :: string
  storage_uri :: "string \<Rightarrow> string option"
  stream_object :: "string \<Rightarrow> int \<Rightarrow> int \<Rightarrow> string list option"

section \<open>Hashing and validating configurations\<close>

lemma parsed_dump_validates:
  assumes "parses_dumps pf" "validate_job_config c = Inr c'"
  shows "model_validate_job_config pf (dump_job_config c') = Some c'"
  using assms validate_job_config_idem by (simp add: parses_dumps_def model_validate_job_config_def)

definition config_hash :: "platform \<Rightarrow> json \<Rightarrow> string option" where
  "config_hash pf = job_config_sha256 (sha256 pf) (float_repr pf)"

lemma config_hash_validated:
  assumes "validate_job_config c = Inr c'"
  shows "\<exists>h. config_hash pf (dump_job_config c') = Some h"
  using dump_validated_finite [OF assms]
  by (simp add: config_hash_def job_config_sha256_def canonical_job_config_bytes_def dumps_def)

lemma config_hash_hex:
  "hex_digests pf \<Longrightarrow> config_hash pf d = Some h \<Longrightarrow> sha256_hex h"
  by (auto simp: config_hash_def job_config_sha256_def hex_digests_def)

end
