(* ===== verification/Job_Status.thy ===== *)
theory Job_Status
  imports Prelude
begin

text \<open>
  The job status machine of \<^verbatim>\<open>rvc_orchestrator_contracts/status.py\<close>: the enumeration, its wire
  values, the table of allowed transitions and the two checks built on it. Stored statuses are
  always members of the enumeration, so the ledger's rows carry the datatype; the string-level
  functions keep the code's behaviour on values that are no status at all.

  The lemmas establish what the rest of the Manager relies on: wire values and members
  correspond one to one, the two final statuses have no way out, every status in which a Worker
  executes can fail or be cancelled, and a run that is not restarted moves strictly forward.
\<close>

section \<open>The enumeration\<close>

datatype job_status =
    QUEUED | ASSIGNED | DOWNLOADING_DATASET | VALIDATING_DATASET | PREPARING_FLAT_DATASET
  | PREPROCESSING | EXTRACTING_F0 | EXTRACTING_FEATURES | TRAINING | SAVING_CHECKPOINT
  | BUILDING_INDEX | COLLECTING_SMALL_MODEL | GENERATING_SAMPLES | EVALUATING
  | UPLOADING_ARTIFACTS | COMPLETED | FAILED | CANCELLED | RETRYING

definition all_job_statuses :: "job_status list" where
  "all_job_statuses =
     [QUEUED, ASSIGNED, DOWNLOADING_DATASET, VALIDATING_DATASET, PREPARING_FLAT_DATASET,
      PREPROCESSING, EXTRACTING_F0, EXTRACTING_FEATURES, TRAINING, SAVING_CHECKPOINT,
      BUILDING_INDEX, COLLECTING_SMALL_MODEL, GENERATING_SAMPLES, EVALUATING,
      UPLOADING_ARTIFACTS, COMPLETED, FAILED, CANCELLED, RETRYING]"

fun status_value :: "job_status \<Rightarrow> string" where
  "status_value QUEUED = ''queued''"
| "status_value ASSIGNED = ''assigned''"
| "status_value DOWNLOADING_DATASET = ''downloading_dataset''"
| "status_value VALIDATING_DATASET = ''validating_dataset''"
| "status_value PREPARING_FLAT_DATASET = ''preparing_flat_dataset''"
| "status_value PREPROCESSING = ''preprocessing''"
| "status_value EXTRACTING_F0 = ''extracting_f0''"
| "status_value EXTRACTING_FEATURES = ''extracting_features''"
| "status_value TRAINING = ''training''"
| "status_value SAVING_CHECKPOINT = ''saving_checkpoint''"
| "status_value BUILDING_INDEX = ''building_index''"
| "status_value COLLECTING_SMALL_MODEL = ''collecting_small_model''"
| "status_value GENERATING_SAMPLES = ''generating_samples''"
| "status_value EVALUATING = ''evaluating''"
| "status_value UPLOADING_ARTIFACTS = ''uploading_artifacts''"
| "status_value COMPLETED = ''completed''"
| "status_value FAILED = ''failed''"
| "status_value CANCELLED = ''cancelled''"
| "status_value RETRYING = ''retrying''"

text \<open>\<^verbatim>\<open>JobStatus(value)\<close>: the member with that value, or \<^verbatim>\<open>ValueError\<close>.\<close>

definition JobStatus :: "string \<Rightarrow> job_status option" where
  "JobStatus v = find (\<lambda>s. status_value s = v) all_job_statuses"

definition TERMINAL_JOB_STATUSES :: "job_status list" where
  "TERMINAL_JOB_STATUSES = [COMPLETED, FAILED, CANCELLED]"

abbreviation terminal :: "job_status \<Rightarrow> bool" where
  "terminal s \<equiv> s \<in> set TERMINAL_JOB_STATUSES"

section \<open>Transitions\<close>

definition failure_or_cancel :: "job_status list" where
  "failure_or_cancel = [FAILED, CANCELLED]"

fun ALLOWED_JOB_TRANSITIONS :: "job_status \<Rightarrow> job_status list" where
  "ALLOWED_JOB_TRANSITIONS QUEUED = [ASSIGNED, FAILED, CANCELLED]"
| "ALLOWED_JOB_TRANSITIONS ASSIGNED = DOWNLOADING_DATASET # failure_or_cancel"
| "ALLOWED_JOB_TRANSITIONS DOWNLOADING_DATASET = VALIDATING_DATASET # failure_or_cancel"
| "ALLOWED_JOB_TRANSITIONS VALIDATING_DATASET =
     PREPARING_FLAT_DATASET # PREPROCESSING # failure_or_cancel"
| "ALLOWED_JOB_TRANSITIONS PREPARING_FLAT_DATASET = PREPROCESSING # failure_or_cancel"
| "ALLOWED_JOB_TRANSITIONS PREPROCESSING =
     EXTRACTING_F0 # EXTRACTING_FEATURES # failure_or_cancel"
| "ALLOWED_JOB_TRANSITIONS EXTRACTING_F0 = EXTRACTING_FEATURES # failure_or_cancel"
| "ALLOWED_JOB_TRANSITIONS EXTRACTING_FEATURES = TRAINING # failure_or_cancel"
| "ALLOWED_JOB_TRANSITIONS TRAINING =
     SAVING_CHECKPOINT # BUILDING_INDEX # COLLECTING_SMALL_MODEL # failure_or_cancel"
| "ALLOWED_JOB_TRANSITIONS SAVING_CHECKPOINT =
     BUILDING_INDEX # COLLECTING_SMALL_MODEL # failure_or_cancel"
| "ALLOWED_JOB_TRANSITIONS BUILDING_INDEX = COLLECTING_SMALL_MODEL # failure_or_cancel"
| "ALLOWED_JOB_TRANSITIONS COLLECTING_SMALL_MODEL =
     GENERATING_SAMPLES # EVALUATING # UPLOADING_ARTIFACTS # failure_or_cancel"
| "ALLOWED_JOB_TRANSITIONS GENERATING_SAMPLES =
     EVALUATING # UPLOADING_ARTIFACTS # failure_or_cancel"
| "ALLOWED_JOB_TRANSITIONS EVALUATING = UPLOADING_ARTIFACTS # failure_or_cancel"
| "ALLOWED_JOB_TRANSITIONS UPLOADING_ARTIFACTS = COMPLETED # failure_or_cancel"
| "ALLOWED_JOB_TRANSITIONS COMPLETED = []"
| "ALLOWED_JOB_TRANSITIONS FAILED = [RETRYING]"
| "ALLOWED_JOB_TRANSITIONS CANCELLED = []"
| "ALLOWED_JOB_TRANSITIONS RETRYING = [QUEUED]"

definition can_transition_job :: "string \<Rightarrow> string \<Rightarrow> bool \<Rightarrow> bool" where
  "can_transition_job current target allow_same =
     (case (JobStatus current, JobStatus target) of
        (Some current_status, Some target_status) \<Rightarrow>
          (allow_same \<and> current_status = target_status) \<or>
          target_status \<in> set (ALLOWED_JOB_TRANSITIONS current_status)
      | _ \<Rightarrow> False)"

text \<open>
  The two ways in which \<^verbatim>\<open>validate_job_transition\<close> raises \<^verbatim>\<open>InvalidJobTransition\<close>, with the data its
  message is made of.
\<close>

datatype invalid_job_transition =
    Unknown_job_status
  | Invalid_job_transition job_status job_status

definition validate_job_transition ::
  "string \<Rightarrow> string \<Rightarrow> bool \<Rightarrow> invalid_job_transition + job_status" where
  "validate_job_transition current target allow_same =
     (case (JobStatus current, JobStatus target) of
        (Some current_status, Some target_status) \<Rightarrow>
          if \<not> can_transition_job (status_value current_status) (status_value target_status)
                 allow_same
          then Inl (Invalid_job_transition current_status target_status)
          else Inr target_status
      | _ \<Rightarrow> Inl Unknown_job_status)"

text \<open>The check on stored statuses, as the handlers call it (with \<^verbatim>\<open>allow_same=True\<close>).\<close>

abbreviation may_transition :: "job_status \<Rightarrow> job_status \<Rightarrow> bool" where
  "may_transition s t \<equiv> t = s \<or> t \<in> set (ALLOWED_JOB_TRANSITIONS s)"

text \<open>
  The statuses in which a Worker executes the job under a lease: neither waiting, nor being
  retried, nor terminal.
\<close>

definition executing :: "job_status \<Rightarrow> bool" where
  "executing s \<longleftrightarrow> s \<notin> set (QUEUED # RETRYING # TERMINAL_JOB_STATUSES)"

section \<open>Lemmas\<close>

lemma all_job_statuses_UNIV: "set all_job_statuses = UNIV"
proof -
  have "s \<in> set all_job_statuses" for s by (cases s) (simp_all add: all_job_statuses_def)
  then show ?thesis by blast
qed

instance job_status :: finite
proof
  show "finite (UNIV :: job_status set)"
    by (metis all_job_statuses_UNIV finite_set)
qed

lemma status_value_inject [simp]: "status_value s = status_value t \<longleftrightarrow> s = t"
  by (cases s; cases t) simp_all

lemma JobStatus_value [simp]: "JobStatus (status_value s) = Some s"
proof -
  have "find (\<lambda>t. t = s) all_job_statuses = Some s"
    by (cases s) (simp_all add: all_job_statuses_def)
  then show ?thesis by (simp add: JobStatus_def)
qed

lemma JobStatus_SomeD: "JobStatus v = Some s \<Longrightarrow> v = status_value s"
  by (auto simp: JobStatus_def find_Some_iff)

lemma terminal_simps [simp]:
  "terminal s \<longleftrightarrow> s = COMPLETED \<or> s = FAILED \<or> s = CANCELLED"
  by (simp add: TERMINAL_JOB_STATUSES_def)

lemma executing_simps:
  "executing s \<longleftrightarrow> s \<noteq> QUEUED \<and> s \<noteq> RETRYING \<and> s \<noteq> COMPLETED \<and> s \<noteq> FAILED \<and> s \<noteq> CANCELLED"
  by (auto simp: executing_def)

lemma validate_stored [simp]:
  "validate_job_transition (status_value s) (status_value t) True =
     (if may_transition s t then Inr t else Inl (Invalid_job_transition s t))"
  by (auto simp: validate_job_transition_def can_transition_job_def)

lemma executing_may_end:
  "executing s \<Longrightarrow> may_transition s FAILED \<and> may_transition s CANCELLED"
  by (cases s) (simp_all add: executing_simps failure_or_cancel_def)

lemma executing_step:
  "executing s \<Longrightarrow> may_transition s t \<Longrightarrow> executing t \<or> terminal t"
  by (cases s) (auto simp: executing_simps failure_or_cancel_def)

lemma not_executing_step:
  "may_transition s t \<Longrightarrow> executing t \<Longrightarrow> executing s \<or> (s = QUEUED \<and> t = ASSIGNED)"
  by (cases s) (auto simp: executing_simps failure_or_cancel_def)

subsection \<open>Forward progress\<close>

fun status_rank :: "job_status \<Rightarrow> nat" where
  "status_rank QUEUED = 0"
| "status_rank ASSIGNED = 1"
| "status_rank DOWNLOADING_DATASET = 2"
| "status_rank VALIDATING_DATASET = 3"
| "status_rank PREPARING_FLAT_DATASET = 4"
| "status_rank PREPROCESSING = 5"
| "status_rank EXTRACTING_F0 = 6"
| "status_rank EXTRACTING_FEATURES = 7"
| "status_rank TRAINING = 8"
| "status_rank SAVING_CHECKPOINT = 9"
| "status_rank BUILDING_INDEX = 10"
| "status_rank COLLECTING_SMALL_MODEL = 11"
| "status_rank GENERATING_SAMPLES = 12"
| "status_rank EVALUATING = 13"
| "status_rank UPLOADING_ARTIFACTS = 14"
| "status_rank COMPLETED = 15"
| "status_rank FAILED = 15"
| "status_rank CANCELLED = 15"
| "status_rank RETRYING = 0"

text \<open>A transition that is not part of a restart (failed, retrying, queued).\<close>

definition forward :: "job_status \<Rightarrow> job_status \<Rightarrow> bool" where
  "forward s t \<longleftrightarrow> t \<in> set (ALLOWED_JOB_TRANSITIONS s) \<and> s \<noteq> FAILED \<and> s \<noteq> RETRYING"

interpretation job_progress: ranked_steps forward status_rank 15
proof unfold_locales
  show "status_rank s < status_rank t" if "forward s t" for s t
    using that by (cases s) (auto simp: forward_def failure_or_cancel_def)
  show "status_rank s \<le> 15" for s by (cases s) simp_all
qed

text \<open>The statuses from which completion is still possible without a restart.\<close>

lemma forward_reaches_completed:
  assumes "\<not> terminal s" "s \<noteq> RETRYING"
  shows "forward\<^sup>*\<^sup>* s COMPLETED"
proof -
  let ?path = "[QUEUED, ASSIGNED, DOWNLOADING_DATASET, VALIDATING_DATASET,
    PREPARING_FLAT_DATASET, PREPROCESSING, EXTRACTING_F0, EXTRACTING_FEATURES, TRAINING,
    SAVING_CHECKPOINT, BUILDING_INDEX, COLLECTING_SMALL_MODEL, GENERATING_SAMPLES, EVALUATING,
    UPLOADING_ARTIFACTS, COMPLETED]"
  have "successively forward ?path" by (simp add: forward_def)
  moreover have "s \<in> set ?path" using assms by (cases s) simp_all
  ultimately show ?thesis using successively_rtranclp [of forward ?path s] by simp
qed

end
