(* ===== verification/Worker_Contract.thy ===== *)
theory Worker_Contract
  imports Platform Job_Status
begin

text \<open>
  The values that cross the boundary between Manager and Worker:
  \<^verbatim>\<open>rvc_orchestrator_contracts/worker.py\<close> and \<^verbatim>\<open>events.py\<close>. One record per contract class with the
  fields the class declares, one validation function per class that has bounds or validators, and
  the results the two sides rely on: a download path that passes validation names exactly one safe
  identifier below the Worker API, a validated claim is bound to its configuration hash, a status
  update carries telemetry counts only when it is terminal.
\<close>

section \<open>Worker capabilities\<close>

datatype worker_status = IDLE | BUSY | DRAINING

datatype worker_engine_mode = RVC_WEBUI | FAKE

record gpu_capability =
  gpu_index :: int
  gpu_uuid :: "string option"
  gpu_name :: string
  total_vram_mb :: int
  free_vram_mb :: int
  utilization_percent :: "pyfloat option"
  temperature_c :: "pyfloat option"

record worker_capabilities =
  engine_mode :: worker_engine_mode
  worker_version :: string
  cap_rvc_commit_hash :: string
  supported_rvc_versions :: "rvc_version list"
  supported_training_f0_methods :: "training_f0_method list"
  supported_inference_f0_methods :: "inference_f0_method list"
  fixed_test_set_inference_ready :: bool
  gpus :: "gpu_capability list"
  disk_free_bytes :: int
  tags :: "string list"
  rvc_assets_ready :: bool
  runtime_image_digest :: "string option"
  runtime_asset_manifest_sha256 :: "string option"
  max_concurrent_jobs :: int

definition validate_gpu_capability :: "gpu_capability \<Rightarrow> string + gpu_capability" where
  "validate_gpu_capability g = checked
     [(outside 0 1023 (gpu_index g), ''index''),
      (\<not> (1 \<le> length (gpu_name g) \<and> length (gpu_name g) \<le> 256), ''name''),
      (total_vram_mb g \<le> 0, ''total_vram_mb''),
      (free_vram_mb g < 0, ''free_vram_mb''),
      (\<exists>u \<in> set_option (utilization_percent g). float_outside 0 100 u, ''utilization_percent''),
      (\<exists>t \<in> set_option (temperature_c g). \<not> isfinite t, ''GPU temperature must be finite''),
      (free_vram_mb g > total_vram_mb g, ''free VRAM cannot exceed total VRAM'')] g"

definition image_digest :: "string \<Rightarrow> bool" where
  "image_digest s \<longleftrightarrow> take 7 s = ''sha256:'' \<and> sha256_hex (drop 7 s)"

definition validate_worker_capabilities :: "worker_capabilities \<Rightarrow> string + worker_capabilities" where
  "validate_worker_capabilities c =
     (let gpu_uuids = [u. g \<leftarrow> gpus c, u \<leftarrow> (case gpu_uuid g of None \<Rightarrow> [] | Some u \<Rightarrow> [u])] in checked
     [(\<not> (1 \<le> length (worker_version c) \<and> length (worker_version c) \<le> 128), ''worker_version''),
      (\<not> (7 \<le> length (cap_rvc_commit_hash c) \<and> length (cap_rvc_commit_hash c) \<le> 64),
        ''rvc_commit_hash''),
      (supported_rvc_versions c = [], ''supported_rvc_versions''),
      (supported_training_f0_methods c = [], ''supported_training_f0_methods''),
      (64 < length (gpus c), ''gpus''),
      (\<exists>g \<in> set (gpus c). isl (validate_gpu_capability g), ''gpus''),
      (disk_free_bytes c < 0, ''disk_free_bytes''),
      (64 < length (tags c), ''tags''),
      (\<exists>d \<in> set_option (runtime_image_digest c). \<not> image_digest d, ''runtime_image_digest''),
      (\<exists>d \<in> set_option (runtime_asset_manifest_sha256 c). \<not> sha256_hex d,
        ''runtime_asset_manifest_sha256''),
      (outside 1 64 (max_concurrent_jobs c), ''max_concurrent_jobs''),
      (\<not> distinct (supported_rvc_versions c) \<or> \<not> distinct (supported_training_f0_methods c) \<or>
         \<not> distinct (supported_inference_f0_methods c) \<or> \<not> distinct (tags c),
        ''capability values must be unique''),
      (\<not> distinct (map gpu_index (gpus c)), ''GPU indexes must be unique''),
      (\<not> distinct gpu_uuids, ''GPU UUIDs must be unique''),
      (fixed_test_set_inference_ready c \<and>
         (engine_mode c \<noteq> RVC_WEBUI \<or> \<not> rvc_assets_ready c \<or>
          supported_inference_f0_methods c = [] \<or> runtime_image_digest c = None \<or>
          runtime_asset_manifest_sha256 c = None),
        ''fixed TestSet inference readiness requires a real ready RVC runtime and an inference F0 capability'')]
     c)"

section \<open>Heartbeats, renewals and token rotation\<close>

record worker_heartbeat_request =
  hb_status :: worker_status
  hb_capabilities :: worker_capabilities
  hb_current_job_id :: "string option"
  hb_current_lease_id :: "string option"

definition validate_current_assignment ::
  "worker_heartbeat_request \<Rightarrow> string + worker_heartbeat_request" where
  "validate_current_assignment h = checked
     [(truthy (hb_current_job_id h) \<noteq> truthy (hb_current_lease_id h),
        ''current_job_id and current_lease_id must be provided together''),
      (hb_status h = BUSY \<and> \<not> truthy (hb_current_job_id h),
        ''busy heartbeat requires a current job and lease''),
      (hb_status h = IDLE \<and> truthy (hb_current_job_id h),
        ''idle heartbeat cannot include a current assignment'')] h"

record worker_heartbeat_response =
  server_time :: datetime
  hb_lease_expires_at :: "datetime option"
  cancel_job_ids :: "string list"

record worker_token_rotation_status =
  rs_worker_id :: string
  rs_token_issued_at :: datetime
  rs_pending :: bool
  rs_rotation_id :: "string option"
  rs_started_at :: "datetime option"
  rs_expires_at :: "datetime option"

definition validate_pending_fields ::
  "worker_token_rotation_status \<Rightarrow> string + worker_token_rotation_status" where
  "validate_pending_fields r = checked
     [(rs_pending r \<noteq>
         (rs_rotation_id r \<noteq> None \<and> rs_started_at r \<noteq> None \<and> rs_expires_at r \<noteq> None),
        ''pending token rotation fields must be provided together'')] r"

record job_status_update =
  su_lease_id :: string
  su_status :: job_status
  su_occurred_at :: datetime
  su_current_epoch :: "int option"
  su_telemetry_log_count :: "int option"
  su_telemetry_metric_count :: "int option"
  su_error_code :: "string option"
  su_error_message :: "string option"

definition validate_job_status_update :: "job_status_update \<Rightarrow> string + job_status_update" where
  "validate_job_status_update u = checked
     [(\<exists>e \<in> set_option (su_current_epoch u). e < 0, ''current_epoch''),
      (\<exists>n \<in> set_option (su_telemetry_log_count u). outside 0 2147483647 n, ''telemetry_log_count''),
      (\<exists>n \<in> set_option (su_telemetry_metric_count u). outside 0 2147483647 n,
        ''telemetry_metric_count''),
      (\<exists>s \<in> set_option (su_error_code u). 128 < length s, ''error_code''),
      (\<exists>s \<in> set_option (su_error_message u). 8192 < length s, ''error_message''),
      (su_status u = FAILED \<and> \<not> truthy (su_error_message u),
        ''failed status requires error_message''),
      (su_status u \<noteq> FAILED \<and> (truthy (su_error_code u) \<or> truthy (su_error_message u)),
        ''error fields are only valid for failed status''),
      ((su_telemetry_log_count u = None) \<noteq> (su_telemetry_metric_count u = None),
        ''terminal telemetry counts must be provided together''),
      (su_telemetry_log_count u \<noteq> None \<and> \<not> terminal (su_status u),
        ''telemetry counts are only valid for terminal status'')] u"

section \<open>Transfer descriptors\<close>

text \<open>\<^verbatim>\<open>^[A-Za-z0-9][A-Za-z0-9_.-]{0,127}$\<close>\<close>

definition safe_transfer_id :: "string \<Rightarrow> bool" where
  "safe_transfer_id s \<longleftrightarrow> safe_identifier s \<and> length s \<le> 128"

definition jobs_path :: string where "jobs_path = ''/api/v1/workers/jobs/''"

text \<open>The text between a prefix and a suffix, when the string has both around it.\<close>

definition middle :: "string \<Rightarrow> string \<Rightarrow> string \<Rightarrow> string option" where
  "middle pre suf s =
     (if length pre + length suf \<le> length s \<and> take (length pre) s = pre \<and>
         drop (length s - length suf) s = suf
      then Some (take (length s - length pre - length suf) (drop (length pre) s)) else None)"

definition dataset_download_path :: "string \<Rightarrow> bool" where
  "dataset_download_path p =
     (case middle jobs_path ''/dataset'' p of None \<Rightarrow> False | Some i \<Rightarrow> safe_transfer_id i)"

text \<open>\<^verbatim>\<open>jobs/<id>/test-set/items/<id>\<close>: the identifiers contain no slash.\<close>

definition test_set_item_download_path :: "string \<Rightarrow> bool" where
  "test_set_item_download_path p =
     (take (length jobs_path) p = jobs_path \<and>
      (case split_on (CHR ''/'') (drop (length jobs_path) p) of
         [i, t, m, k] \<Rightarrow> safe_transfer_id i \<and> t = ''test-set'' \<and> m = ''items'' \<and> safe_transfer_id k
       | _ \<Rightarrow> False))"

text \<open>
  The components of \<^verbatim>\<open>urlsplit\<close> that the checks ask for. A scheme is what precedes the first colon
  when it starts with a letter and has scheme characters only; a network location follows a double
  slash after it.
\<close>

definition url_scheme :: "string \<Rightarrow> string" where
  "url_scheme u =
     (let s = takeWhile (\<lambda>c. c \<noteq> CHR '':'') u in
      if CHR '':'' \<in> set u \<and> s \<noteq> [] \<and> (is_lower (hd s) \<or> is_upper (hd s)) \<and>
         list_all (\<lambda>c. is_alnum c \<or> c \<in> {CHR ''+'', CHR ''-'', CHR ''.''}) s
      then s else [])"

definition url_rest :: "string \<Rightarrow> string" where
  "url_rest u = (if url_scheme u = [] then u else drop (length (url_scheme u) + 1) u)"

definition url_netloc :: "string \<Rightarrow> string" where
  "url_netloc u =
     (if take 2 (url_rest u) = ''//''
      then takeWhile (\<lambda>c. c \<notin> {CHR ''/'', CHR ''?'', CHR ''#''}) (drop 2 (url_rest u)) else [])"

definition url_fragment :: "string \<Rightarrow> string" where
  "url_fragment u = drop 1 (dropWhile (\<lambda>c. c \<noteq> CHR ''#'') (url_rest u))"

definition url_query :: "string \<Rightarrow> string" where
  "url_query u =
     drop 1 (dropWhile (\<lambda>c. c \<noteq> CHR ''?'') (takeWhile (\<lambda>c. c \<noteq> CHR ''#'') (url_rest u)))"

definition unsafe_download_path :: "string \<Rightarrow> bool" where
  "unsafe_download_path v \<longleftrightarrow>
     prefix ''//'' v \<or> url_scheme v \<noteq> [] \<or> url_netloc v \<noteq> [] \<or> url_query v \<noteq> [] \<or>
     url_fragment v \<noteq> [] \<or> backslash \<in> set v \<or>
     (\<exists>part \<in> set (tl (split_on (CHR ''/'') v)). part \<in> {[], ''.'', ''..''})"

record dataset_transfer =
  dt_dataset_id :: string
  dt_download_path :: string
  dt_size_bytes :: int
  dt_sha256 :: string

definition validate_dataset_transfer :: "dataset_transfer \<Rightarrow> string + dataset_transfer" where
  "validate_dataset_transfer t = checked
     [(\<not> (1 \<le> length (dt_dataset_id t) \<and> length (dt_dataset_id t) \<le> 128), ''dataset_id''),
      (\<not> safe_identifier (dt_dataset_id t), ''dataset_id''),
      (\<not> (1 \<le> length (dt_download_path t) \<and> length (dt_download_path t) \<le> 512), ''download_path''),
      (dt_size_bytes t \<le> 0 \<or> 100 * 1024 ^ 3 < dt_size_bytes t, ''size_bytes''),
      (\<not> sha256_hex (dt_sha256 t), ''sha256''),
      (\<not> dataset_download_path (dt_download_path t) \<or> unsafe_download_path (dt_download_path t),
        ''dataset download_path must be a safe Manager-relative API path'')] t"

record test_set_transfer_item =
  ti_test_set_item_id :: string
  ti_item_key :: string
  ti_sort_order :: int
  ti_download_path :: string
  ti_filename :: string
  ti_size_bytes :: int
  ti_sha256 :: string
  ti_sample_rate_hz :: int
  ti_channels :: int
  ti_duration_seconds :: pyfloat

text \<open>\<^verbatim>\<open>^[a-z0-9][a-z0-9._-]{0,127}$\<close>\<close>

definition item_key_ok :: "string \<Rightarrow> bool" where
  "item_key_ok s \<longleftrightarrow> safe_transfer_id s \<and> list_all (\<lambda>c. \<not> is_upper c) s"

definition validate_item_descriptor :: "test_set_transfer_item \<Rightarrow> string + test_set_transfer_item" where
  "validate_item_descriptor i = checked
     [(\<not> safe_transfer_id (ti_test_set_item_id i), ''test_set_item_id''),
      (\<not> item_key_ok (ti_item_key i), ''item_key''),
      (outside 0 999999 (ti_sort_order i), ''sort_order''),
      (\<not> (1 \<le> length (ti_download_path i) \<and> length (ti_download_path i) \<le> 512), ''download_path''),
      (\<not> (5 \<le> length (ti_filename i) \<and> length (ti_filename i) \<le> 132), ''filename''),
      (outside 44 (2 * 1024 ^ 3) (ti_size_bytes i), ''size_bytes''),
      (\<not> sha256_hex (ti_sha256 i), ''sha256''),
      (outside 1 384000 (ti_sample_rate_hz i), ''sample_rate_hz''),
      (outside 1 32 (ti_channels i), ''channels''),
      (\<not> (float_gt (ti_duration_seconds i) 0 \<and> float_le (ti_duration_seconds i) 86400),
        ''duration_seconds''),
      (\<not> test_set_item_download_path (ti_download_path i) \<or>
         unsafe_download_path (ti_download_path i),
        ''TestSet item download_path must be a safe Manager-relative API path''),
      (ti_filename i \<noteq> ti_test_set_item_id i @ ''.wav'',
        ''TestSet item filename must be derived from its immutable ID'')] i"

record test_set_transfer =
  tt_test_set_id :: string
  tt_family_id :: string
  tt_revision :: int
  tt_manifest_sha256 :: string
  tt_sample_plan_sha256 :: string
  tt_inference_config :: inference_preset_config
  tt_inference_config_sha256 :: string
  tt_items :: "test_set_transfer_item list"

definition validate_snapshot :: "platform \<Rightarrow> test_set_transfer \<Rightarrow> string + test_set_transfer" where
  "validate_snapshot pf t =
     (let sort_orders = map ti_sort_order (tt_items t) in checked
     [(\<not> safe_transfer_id (tt_test_set_id t), ''test_set_id''),
      (\<not> safe_transfer_id (tt_family_id t), ''family_id''),
      (tt_revision t < 1, ''revision''),
      (\<not> sha256_hex (tt_manifest_sha256 t), ''manifest_sha256''),
      (\<not> sha256_hex (tt_sample_plan_sha256 t), ''sample_plan_sha256''),
      (isl (validate_inference_preset_config (tt_inference_config t)), ''inference_config''),
      (\<not> sha256_hex (tt_inference_config_sha256 t), ''inference_config_sha256''),
      (\<not> (1 \<le> length (tt_items t) \<and> length (tt_items t) \<le> 128), ''items''),
      (\<exists>i \<in> set (tt_items t). isl (validate_item_descriptor i), ''items''),
      (canonical_sha256 (sha256 pf) (float_repr pf)
         (dump_inference_preset_config (tt_inference_config t)) \<noteq>
           Some (tt_inference_config_sha256 t),
        ''TestSet inference config hash does not match its snapshot''),
      (\<not> distinct (map ti_test_set_item_id (tt_items t)) \<or> \<not> distinct (map ti_item_key (tt_items t)),
        ''TestSet transfer items must have unique IDs and keys''),
      (\<not> distinct sort_orders \<or> sort_orders \<noteq> sort sort_orders,
        ''TestSet transfer items must have unique ascending sort order''),
      (sum_list (map ti_size_bytes (tt_items t)) > 2 * 1024 ^ 3,
        ''TestSet transfer exceeds the wire total-size limit''),
      (float_gt (fsum pf (map ti_duration_seconds (tt_items t))) 3600,
        ''TestSet transfer exceeds the wire total-duration limit'')] t)"

section \<open>Claims\<close>

record job_claim =
  claim_job_id :: string
  claim_attempt_id :: string
  claim_attempt_number :: int
  claim_lease_id :: string
  claim_lease_expires_at :: datetime
  claim_config :: job_config
  claim_config_sha256 :: string
  claim_dataset_transfer :: "dataset_transfer option"
  claim_test_set_transfer :: "test_set_transfer option"

definition validate_job_claim :: "platform \<Rightarrow> job_claim \<Rightarrow> string + job_claim" where
  "validate_job_claim pf c =
     (let sample_config = auto_inference_samples (claim_config c);
          job_path = jobs_path @ claim_job_id c in
      checked
     [(\<not> safe_transfer_id (claim_job_id c), ''job_id''),
      (\<not> safe_transfer_id (claim_attempt_id c), ''attempt_id''),
      (claim_attempt_number c < 1, ''attempt_number''),
      (\<not> safe_transfer_id (claim_lease_id c), ''lease_id''),
      (\<not> sha256_hex (claim_config_sha256 c), ''config_sha256''),
      (config_hash pf (dump_job_config (claim_config c)) \<noteq> Some (claim_config_sha256 c),
        ''Job config hash does not match its snapshot''),
      (\<exists>d \<in> set_option (claim_dataset_transfer c). dt_dataset_id d \<noteq> dataset_id (claim_config c),
        ''dataset transfer does not match Job config''),
      (\<exists>d \<in> set_option (claim_dataset_transfer c). dt_download_path d \<noteq> job_path @ ''/dataset'',
        ''dataset transfer path does not match claimed Job''),
      (\<not> enabled sample_config \<and> claim_test_set_transfer c \<noteq> None,
        ''sample-disabled Job cannot include a TestSet transfer''),
      (enabled sample_config \<and> claim_test_set_transfer c = None,
        ''sample-enabled Job requires a verified TestSet transfer''),
      (enabled sample_config \<and> (\<exists>t \<in> set_option (claim_test_set_transfer c).
           Some (tt_test_set_id t) \<noteq> test_set_id sample_config),
        ''TestSet transfer does not match Job config''),
      (enabled sample_config \<and> (\<exists>t \<in> set_option (claim_test_set_transfer c).
           Inr (tt_inference_config t) \<noteq> validate_inference_preset_config (inference sample_config)),
        ''TestSet transfer inference config does not match Job config''),
      (enabled sample_config \<and> (\<exists>t \<in> set_option (claim_test_set_transfer c).
           \<exists>i \<in> set (tt_items t).
             ti_download_path i \<noteq> job_path @ ''/test-set/items/'' @ ti_test_set_item_id i),
        ''TestSet item path does not match claimed Job and item'')] c)"

section \<open>Telemetry and artifact batches\<close>

datatype log_level = DEBUG | INFO | WARNING | ERROR

text \<open>
  \<open>occurred_at_set\<close> tells whether the client sent the timestamp or the default was filled in
  (\<^verbatim>\<open>model_fields_set\<close>).
\<close>

record log_entry =
  le_sequence :: int
  le_level :: log_level
  le_message :: string
  le_occurred_at :: datetime
  le_occurred_at_set :: bool
  le_fields :: json

record log_batch =
  lb_lease_id :: string
  lb_attempt_id :: string
  lb_idempotency_key :: string
  lb_entries :: "log_entry list"

definition bad_idempotency_key :: "string \<Rightarrow> bool" where
  "bad_idempotency_key k \<longleftrightarrow> \<not> (8 \<le> length k \<and> length k \<le> 128)"

definition validate_log_batch :: "log_batch \<Rightarrow> string + log_batch" where
  "validate_log_batch b = checked
     [(bad_idempotency_key (lb_idempotency_key b), ''idempotency_key''),
      (\<not> (1 \<le> length (lb_entries b) \<and> length (lb_entries b) \<le> 1000), ''entries''),
      (\<exists>e \<in> set (lb_entries b). le_sequence e < 0, ''sequence''),
      (\<exists>e \<in> set (lb_entries b).
         \<not> (1 \<le> length (le_message e) \<and> length (le_message e) \<le> 32768), ''message''),
      (\<not> distinct (map le_sequence (lb_entries b)),
        ''log sequences must be unique within a batch'')] b"

record metric_entry =
  me_sequence :: int
  me_key :: string
  me_value :: pyfloat
  me_epoch :: "int option"
  me_step :: "int option"
  me_occurred_at :: datetime
  me_occurred_at_set :: bool

record metric_batch =
  mb_lease_id :: string
  mb_attempt_id :: string
  mb_idempotency_key :: string
  mb_entries :: "metric_entry list"

definition validate_metric_entry :: "metric_entry \<Rightarrow> string + metric_entry" where
  "validate_metric_entry e = checked
     [(me_sequence e < 0, ''sequence''),
      (\<not> (1 \<le> length (me_key e) \<and> length (me_key e) \<le> 128) \<or> \<not> list_all is_name_char (me_key e),
        ''key''),
      (\<exists>n \<in> set_option (me_epoch e). n < 0, ''epoch''),
      (\<exists>n \<in> set_option (me_step e). n < 0, ''step''),
      (\<not> isfinite (me_value e), ''metric values must be finite'')] e"

definition validate_metric_batch :: "metric_batch \<Rightarrow> string + metric_batch" where
  "validate_metric_batch b = checked
     [(bad_idempotency_key (mb_idempotency_key b), ''idempotency_key''),
      (\<not> (1 \<le> length (mb_entries b) \<and> length (mb_entries b) \<le> 1000), ''entries''),
      (\<exists>e \<in> set (mb_entries b). isl (validate_metric_entry e), ''entries''),
      (\<not> distinct (map me_sequence (mb_entries b)),
        ''metric sequences must be unique within a batch'')] b"

datatype artifact_type =
    FINAL_SMALL_MODEL | FINAL_INDEX | TOTAL_FEATURES | GENERATOR_CHECKPOINT
  | DISCRIMINATOR_CHECKPOINT | TRAIN_LOG | TENSORBOARD | SAMPLE | ENVIRONMENT | CONFIG
  | DATASET_REPORT

record artifact_item =
  ai_artifact_type :: artifact_type
  ai_filename :: string
  ai_storage_uri :: string
  ai_size_bytes :: int
  ai_sha256 :: string
  ai_mime_type :: "string option"
  ai_metadata :: "(string \<times> json) list"

text \<open>\<^verbatim>\<open>PurePath(value).name\<close>: the last part of the path, empty when there is none.\<close>

definition posix_name :: "string \<Rightarrow> string" where
  "posix_name p = (case rev (posix_parts p) of [] \<Rightarrow> [] | n # _ \<Rightarrow> n)"

definition safe_filename :: "string \<Rightarrow> bool" where
  "safe_filename v \<longleftrightarrow>
     \<not> (v = ''.'' \<or> v = ''..'' \<or> posix_name v \<noteq> v \<or> backslash \<in> set v)"

definition lower_char :: "char \<Rightarrow> char" where
  "lower_char c = (if is_upper c then char_of (of_char c + 32 :: nat) else c)"

definition hex_any_case :: "string \<Rightarrow> bool" where
  "hex_any_case s \<longleftrightarrow> length s = 64 \<and> list_all (\<lambda>c. is_digit c \<or> between 97 102 c \<or> between 65 70 c) s"

definition validate_artifact_item :: "artifact_item \<Rightarrow> string + artifact_item" where
  "validate_artifact_item a = checked
     [(\<not> (1 \<le> length (ai_filename a) \<and> length (ai_filename a) \<le> 255), ''filename''),
      (\<not> (1 \<le> length (ai_storage_uri a) \<and> length (ai_storage_uri a) \<le> 2048), ''storage_uri''),
      (ai_size_bytes a < 0, ''size_bytes''),
      (\<not> hex_any_case (ai_sha256 a), ''sha256''),
      (\<exists>m \<in> set_option (ai_mime_type a). 255 < length m, ''mime_type''),
      (\<not> safe_filename (ai_filename a), ''artifact filename must not contain a path'')]
     (a\<lparr>ai_sha256 := map lower_char (ai_sha256 a)\<rparr>)"

record artifact_batch =
  ab_lease_id :: string
  ab_attempt_id :: string
  ab_idempotency_key :: string
  ab_artifacts :: "artifact_item list"

definition validate_artifact_batch :: "artifact_batch \<Rightarrow> string + artifact_batch" where
  "validate_artifact_batch b =
     (let items = map validate_artifact_item (ab_artifacts b); value = map projr items in checked
     [(bad_idempotency_key (ab_idempotency_key b), ''idempotency_key''),
      (\<not> (1 \<le> length (ab_artifacts b) \<and> length (ab_artifacts b) \<le> 100), ''artifacts''),
      (\<exists>i \<in> set items. isl i, ''artifacts''),
      (\<not> distinct (map (\<lambda>i. (ai_artifact_type i, ai_sha256 i)) value),
        ''artifact type and checksum pairs must be unique within a batch'')]
     (b\<lparr>ab_artifacts := value\<rparr>))"

section \<open>Lemmas\<close>

lemma middle_Some: "middle pre suf s = Some m \<longleftrightarrow> s = pre @ m @ suf"
proof
  assume *: "middle pre suf s = Some m"
  then have len: "length pre + length suf \<le> length s" and pre: "take (length pre) s = pre"
    and suf: "drop (length s - length suf) s = suf"
    and m: "m = take (length s - length pre - length suf) (drop (length pre) s)"
    by (auto simp: middle_def split: if_splits)
  have "s = pre @ drop (length pre) s" using pre by (metis append_take_drop_id)
  also have "drop (length pre) s = m @ drop (length s - length pre - length suf) (drop (length pre) s)"
    using m by (simp only: append_take_drop_id)
  also have "drop (length s - length pre - length suf) (drop (length pre) s) = suf"
    using suf len by (simp add: drop_drop)
  finally show "s = pre @ m @ suf" .
next
  assume "s = pre @ m @ suf"
  then show "middle pre suf s = Some m" by (simp add: middle_def)
qed

lemma dataset_download_path_iff:
  "dataset_download_path p \<longleftrightarrow> (\<exists>i. p = jobs_path @ i @ ''/dataset'' \<and> safe_transfer_id i)"
proof
  assume "dataset_download_path p"
  then obtain i where "middle jobs_path ''/dataset'' p = Some i" "safe_transfer_id i"
    by (auto simp: dataset_download_path_def split: option.splits)
  then show "\<exists>i. p = jobs_path @ i @ ''/dataset'' \<and> safe_transfer_id i"
    by (auto simp: middle_Some)
next
  assume "\<exists>i. p = jobs_path @ i @ ''/dataset'' \<and> safe_transfer_id i"
  then obtain i where "middle jobs_path ''/dataset'' p = Some i" "safe_transfer_id i"
    by (auto simp: middle_Some)
  then show "dataset_download_path p" by (simp add: dataset_download_path_def)
qed

text \<open>A path built from a safe identifier splits into exactly its six segments.\<close>

lemma split_jobs_path:
  assumes "safe_transfer_id i"
  shows "split_on (CHR ''/'') (jobs_path @ i @ ''/dataset'') =
    [[], ''api'', ''v1'', ''workers'', ''jobs'', i, ''dataset'']"
proof -
  have "split_on (CHR ''/'') (i @ CHR ''/'' # ''dataset'') = [i, ''dataset'']"
    using assms safe_identifier_no_slash
    by (subst split_on_append) (simp add: split_on_no_sep safe_transfer_id_def)
  then show ?thesis by (simp add: jobs_path_def)
qed

lemma name_char_not_special:
  "is_name_char c \<Longrightarrow> c \<noteq> CHR '':'' \<and> c \<noteq> CHR ''?'' \<and> c \<noteq> CHR ''#'' \<and> c \<noteq> CHR ''/'' \<and> c \<noteq> backslash"
  by (auto simp: char_class_defs backslash_def)

lemma safe_transfer_id_chars: "safe_transfer_id i \<Longrightarrow> c \<in> set i \<Longrightarrow> is_name_char c"
  by (auto simp: safe_transfer_id_def safe_identifier_def is_name_char_def list_all_iff
      split: list.splits)

text \<open>
  The remaining conditions of the path check never reject a path that matches the pattern: they are
  a second line of defence.
\<close>

lemma pattern_path_safe:
  assumes "safe_transfer_id i"
  shows "\<not> unsafe_download_path (jobs_path @ i @ ''/dataset'')"
proof -
  let ?p = "jobs_path @ i @ ''/dataset''"
  have chars: "CHR '':'' \<notin> set ?p" "CHR ''?'' \<notin> set ?p" "CHR ''#'' \<notin> set ?p" "backslash \<notin> set ?p"
    using safe_transfer_id_chars [OF assms] name_char_not_special
    by (auto simp: jobs_path_def backslash_def)
  then have scheme: "url_scheme ?p = []" by (simp add: url_scheme_def)
  then have rest: "url_rest ?p = ?p" by (simp add: url_rest_def)
  have none: "c \<notin> set u \<Longrightarrow> dropWhile (\<lambda>d. d \<noteq> c) u = []" for c and u :: string
    by (induction u) auto
  have "url_netloc ?p = []" "prefix ''//'' ?p = False"
    unfolding url_netloc_def rest by (simp_all add: jobs_path_def)
  moreover have "url_fragment ?p = []" "url_query ?p = []"
    unfolding url_fragment_def url_query_def rest
    using none chars by (metis drop_Nil, metis drop_Nil set_takeWhileD)
  moreover have "i \<noteq> [] \<and> i \<noteq> ''.'' \<and> i \<noteq> ''..''"
    using assms safe_identifier_not_dots by (auto simp: safe_transfer_id_def)
  ultimately show ?thesis
    unfolding unsafe_download_path_def split_jobs_path [OF assms] using scheme chars(4) by simp
qed

lemma validated_dataset_path:
  assumes "validate_dataset_transfer t = Inr t'"
  shows "t' = t" "\<exists>i. dt_download_path t = jobs_path @ i @ ''/dataset'' \<and> safe_transfer_id i"
  using assms by (auto simp: validate_dataset_transfer_def dataset_download_path_iff)

lemma validate_job_claim_value: "validate_job_claim pf c = Inr c' \<Longrightarrow> c' = c"
  by (simp add: validate_job_claim_def Let_def)

lemma safe_filename_no_slash: "safe_filename v \<Longrightarrow> CHR ''/'' \<notin> set v"
proof -
  have parts: "CHR ''/'' \<notin> set q" if "q \<in> set (split_on (CHR ''/'') p)" for p q
    using that by (induction p arbitrary: q) (auto split: list.splits if_splits)
  assume "safe_filename v"
  then have eq: "posix_name v = v" by (auto simp: safe_filename_def)
  then have "v = [] \<or> v \<in> set (posix_parts v)"
    by (auto simp: posix_name_def split: list.splits)
  then show ?thesis using parts by (auto simp: posix_parts_def)
qed

end
