(* ===== verification/Ledger.thy ===== *)
theory Ledger
  imports Worker_Contract "HOL-Library.Product_Lexorder"
begin

text \<open>
  The relational ledger of the Manager (\<^verbatim>\<open>rvc_manager_api/models.py\<close>): one record per table row
  with the columns that the modelled operations read or write, one record \<open>ledger\<close> with a list per
  table. \<^verbatim>\<open>updated_at\<close> and the surrogate keys of the append-only tables are left out, and so are the
  JSON details of audit rows and the JSON payload of outbox rows: nothing in the modelled code reads
  them back. Status columns hold values of the enumerations the code stores there; the stored
  capabilities are the capability record whose JSON dump the column holds.

  The theory also has \<^verbatim>\<open>validated_job_config\<close> (\<^verbatim>\<open>services/job_configs.py\<close>), the integrity check
  that every operation on a claimed job makes, and the optimistic version counter that the ORM keeps
  on jobs, workers and experiments.
\<close>

section \<open>Rows\<close>

record worker_row =
  w_id :: ident
  w_row_version :: int
  w_name :: string
  w_token_hash :: string
  w_token_issued_at :: datetime
  w_token_rotation_id :: "string option"
  w_pending_token_hash :: "string option"
  w_token_rotation_started_at :: "datetime option"
  w_token_rotation_expires_at :: "datetime option"
  w_status :: worker_status
  w_capabilities_json :: worker_capabilities
  w_worker_version :: string
  w_rvc_commit_hash :: string
  w_last_heartbeat_at :: "datetime option"
  w_current_job_id :: "ident option"
  w_is_active :: bool
  w_created_at :: datetime

record dataset_row =
  d_id :: ident
  d_flat_storage_uri :: "string option"
  d_is_usable :: bool
  d_status :: string
  d_prepared_flat_size_bytes :: "int option"
  d_prepared_flat_sha256 :: "string option"
  d_created_by :: "ident option"

record dataset_upload_session =
  du_dataset_id :: ident
  du_generation :: int
  du_prepared_flat_object_key :: string
  du_storage_backend :: storage_backend
  du_storage_namespace_sha256 :: string
  du_status :: string
  du_finalized_at :: "datetime option"

record test_set_row =
  ts_id :: ident
  ts_family_id :: ident
  ts_name :: string
  ts_revision :: int
  ts_status :: string
  ts_manifest_storage_uri :: "string option"
  ts_manifest_sha256 :: "string option"
  ts_item_count :: int
  ts_created_by :: "ident option"

record test_set_item_upload_session =
  tu_id :: ident
  tu_test_set_id :: ident
  tu_item_key :: string
  tu_display_name :: string
  tu_sort_order :: int
  tu_filename :: string
  tu_content_type :: string
  tu_expected_size_bytes :: int
  tu_expected_sha256 :: string
  tu_license_reference :: string
  tu_provenance_reference :: string
  tu_canonical_object_key :: string
  tu_storage_backend :: storage_backend
  tu_storage_namespace_sha256 :: string
  tu_status :: string
  tu_finalized_at :: "datetime option"

record test_set_item_row =
  i_id :: ident
  i_test_set_id :: ident
  i_item_key :: string
  i_display_name :: string
  i_sort_order :: int
  i_storage_uri :: string
  i_original_filename :: string
  i_size_bytes :: int
  i_sha256 :: string
  i_mime_type :: string
  i_sample_rate_hz :: int
  i_channels :: int
  i_duration_seconds :: pyfloat
  i_license_reference :: string
  i_provenance_reference :: string

record experiment_row =
  x_id :: ident
  x_row_version :: int
  x_name :: string
  x_name_conflict_key :: "string option"
  x_dataset_id :: ident
  x_description :: "string option"
  x_created_by :: "ident option"
  x_created_at :: datetime

record job_row =
  j_id :: ident
  j_row_version :: int
  j_experiment_id :: ident
  j_dataset_id :: ident
  j_worker_id :: "ident option"
  j_job_name :: string
  j_status :: job_status
  j_config_json :: json
  j_config_sha256 :: "string option"
  j_test_set_id :: "ident option"
  j_preset_id :: "ident option"
  j_sample_plan_json :: "json option"
  j_sample_plan_sha256 :: "string option"
  j_priority :: int
  j_current_epoch :: "int option"
  j_total_epoch :: int
  j_attempt_count :: int
  j_current_attempt_id :: "ident option"
  j_cancel_requested_at :: "datetime option"
  j_error_code :: "string option"
  j_error_message :: "string option"
  j_started_at :: "datetime option"
  j_completed_at :: "datetime option"
  j_created_at :: datetime

record job_attempt_row =
  a_id :: ident
  a_job_id :: ident
  a_worker_id :: ident
  a_attempt_number :: int
  a_engine_mode :: worker_engine_mode
  a_rvc_commit_hash :: "string option"
  a_execution_provenance_version :: "string option"
  a_job_config_sha256 :: "string option"
  a_runtime_image_digest :: "string option"
  a_runtime_asset_manifest_sha256 :: "string option"
  a_telemetry_log_count :: "int option"
  a_telemetry_metric_count :: "int option"
  a_status :: job_status
  a_error_code :: "string option"
  a_error_message :: "string option"
  a_started_at :: datetime
  a_finished_at :: "datetime option"

record job_lease_row =
  l_id :: ident
  l_job_id :: ident
  l_attempt_id :: ident
  l_worker_id :: ident
  l_expires_at :: datetime
  l_last_renewed_at :: datetime
  l_released_at :: "datetime option"
  l_active :: bool

datatype event_source = Manager_source | Worker_source

record job_status_event =
  e_job_id :: ident
  e_attempt_id :: "ident option"
  e_previous_status :: "job_status option"
  e_status :: job_status
  e_occurred_at :: datetime
  e_source :: event_source

datatype batch_type = Logs | Metrics | Artifacts

record ingest_batch =
  b_job_id :: ident
  b_attempt_id :: ident
  b_batch_type :: batch_type
  b_idempotency_key :: string
  b_payload_fingerprint :: "string option"
  b_item_count :: int

record job_log_row =
  lg_job_id :: ident
  lg_attempt_id :: ident
  lg_sequence :: int
  lg_level :: log_level
  lg_message :: string
  lg_fields_json :: json
  lg_occurred_at :: datetime

record metric_row =
  m_job_id :: ident
  m_attempt_id :: ident
  m_sequence :: int
  m_epoch :: "int option"
  m_step :: "int option"
  m_key :: string
  m_value :: pyfloat
  m_occurred_at :: datetime

record artifact_row =
  ar_id :: ident
  ar_job_id :: ident
  ar_attempt_id :: ident
  ar_artifact_type :: artifact_type
  ar_filename :: string
  ar_storage_uri :: string
  ar_size_bytes :: int
  ar_sha256 :: string
  ar_mime_type :: "string option"
  ar_metadata_json :: "(string \<times> json) list"

record artifact_upload_session =
  au_id :: ident
  au_job_id :: ident
  au_attempt_id :: ident
  au_lease_id :: ident
  au_worker_id :: ident
  au_artifact_id :: "ident option"
  au_artifact_type :: artifact_type
  au_filename :: string
  au_content_type :: string
  au_expected_size_bytes :: int
  au_expected_sha256 :: string
  au_canonical_object_key :: string
  au_storage_backend :: storage_backend
  au_storage_namespace_sha256 :: string
  au_status :: string

datatype outbox_status = Pending | Processing | Synced

record mlflow_sync_event =
  o_id :: ident
  o_event_key :: string
  o_event_type :: string
  o_aggregate_type :: string
  o_aggregate_id :: ident
  o_status :: outbox_status
  o_attempt_count :: int
  o_next_attempt_at :: "datetime option"
  o_locked_at :: "datetime option"
  o_last_error_code :: "string option"
  o_synced_at :: "datetime option"
  o_created_at :: datetime

record audit_event =
  u_actor_type :: string
  u_actor_id :: "ident option"
  u_action :: string
  u_resource_type :: string
  u_resource_id :: "ident option"

record ledger =
  workers :: "worker_row list"
  datasets :: "dataset_row list"
  dataset_upload_sessions :: "dataset_upload_session list"
  test_sets :: "test_set_row list"
  test_set_item_upload_sessions :: "test_set_item_upload_session list"
  test_set_items :: "test_set_item_row list"
  experiments :: "experiment_row list"
  jobs :: "job_row list"
  job_attempts :: "job_attempt_row list"
  job_leases :: "job_lease_row list"
  job_status_events :: "job_status_event list"
  ingest_batches :: "ingest_batch list"
  job_logs :: "job_log_row list"
  metrics :: "metric_row list"
  artifacts_table :: "artifact_row list"
  artifact_upload_sessions :: "artifact_upload_session list"
  mlflow_sync_events :: "mlflow_sync_event list"
  audit_events :: "audit_event list"

type_synonym 'a handled = "'a res \<times> ledger"

text \<open>
  What the commit of a transaction may report: success, a lost optimistic version check
  (\<^verbatim>\<open>StaleDataError\<close>), a violated constraint (\<^verbatim>\<open>IntegrityError\<close>), a database lock or timeout
  (\<^verbatim>\<open>OperationalError\<close>).
\<close>

datatype commit = Committed | Stale | Integrity | Operational

section \<open>The tables through the common interface\<close>

interpretation worker_table: ledger_table workers workers_update w_id
  by unfold_locales (simp_all add: id_def)

interpretation job_table: ledger_table jobs jobs_update j_id
  by unfold_locales (simp_all add: id_def)

interpretation attempt_table: ledger_table job_attempts job_attempts_update a_id
  by unfold_locales (simp_all add: id_def)

interpretation lease_table: ledger_table job_leases job_leases_update l_id
  by unfold_locales (simp_all add: id_def)

interpretation experiment_table: ledger_table experiments experiments_update x_id
  by unfold_locales (simp_all add: id_def)

interpretation outbox_table: ledger_table mlflow_sync_events mlflow_sync_events_update o_id
  by unfold_locales (simp_all add: id_def)

abbreviation get_worker_row :: "ident \<Rightarrow> ledger \<Rightarrow> worker_row option" where
  "get_worker_row i d \<equiv> get_row w_id i (workers d)"

abbreviation get_job :: "ident \<Rightarrow> ledger \<Rightarrow> job_row option" where
  "get_job i d \<equiv> get_row j_id i (jobs d)"

abbreviation get_attempt :: "ident \<Rightarrow> ledger \<Rightarrow> job_attempt_row option" where
  "get_attempt i d \<equiv> get_row a_id i (job_attempts d)"

abbreviation get_lease :: "ident \<Rightarrow> ledger \<Rightarrow> job_lease_row option" where
  "get_lease i d \<equiv> get_row l_id i (job_leases d)"

abbreviation get_experiment_row :: "ident \<Rightarrow> ledger \<Rightarrow> experiment_row option" where
  "get_experiment_row i d \<equiv> get_row x_id i (experiments d)"

abbreviation get_dataset :: "ident \<Rightarrow> ledger \<Rightarrow> dataset_row option" where
  "get_dataset i d \<equiv> get_row d_id i (datasets d)"

abbreviation get_test_set :: "ident \<Rightarrow> ledger \<Rightarrow> test_set_row option" where
  "get_test_set i d \<equiv> get_row ts_id i (test_sets d)"

text \<open>
  A changed object is written with its version counter raised by one; an unchanged one is not
  written at all.
\<close>

definition orm_job :: "(job_row \<Rightarrow> job_row) \<Rightarrow> job_row \<Rightarrow> job_row" where
  "orm_job f j = (if f j = j then j else (f j)\<lparr>j_row_version := j_row_version j + 1\<rparr>)"

definition orm_worker :: "(worker_row \<Rightarrow> worker_row) \<Rightarrow> worker_row \<Rightarrow> worker_row" where
  "orm_worker f w = (if f w = w then w else (f w)\<lparr>w_row_version := w_row_version w + 1\<rparr>)"

definition orm_experiment :: "(experiment_row \<Rightarrow> experiment_row) \<Rightarrow> experiment_row \<Rightarrow> experiment_row" where
  "orm_experiment f x = (if f x = x then x else (f x)\<lparr>x_row_version := x_row_version x + 1\<rparr>)"

definition set_job :: "ident \<Rightarrow> (job_row \<Rightarrow> job_row) \<Rightarrow> ledger \<Rightarrow> ledger" where
  "set_job i f = jobs_update (upd_row j_id i (orm_job f))"

definition set_worker :: "ident \<Rightarrow> (worker_row \<Rightarrow> worker_row) \<Rightarrow> ledger \<Rightarrow> ledger" where
  "set_worker i f = workers_update (upd_row w_id i (orm_worker f))"

definition set_attempt :: "ident \<Rightarrow> (job_attempt_row \<Rightarrow> job_attempt_row) \<Rightarrow> ledger \<Rightarrow> ledger" where
  "set_attempt i f = job_attempts_update (upd_row a_id i f)"

definition set_lease :: "ident \<Rightarrow> (job_lease_row \<Rightarrow> job_lease_row) \<Rightarrow> ledger \<Rightarrow> ledger" where
  "set_lease i f = job_leases_update (upd_row l_id i f)"

definition add_status_event ::
  "ident \<Rightarrow> ident option \<Rightarrow> job_status option \<Rightarrow> job_status \<Rightarrow> datetime \<Rightarrow> event_source \<Rightarrow> ledger \<Rightarrow> ledger"
  where
  "add_status_event job att previous status occurred src =
     job_status_events_update (\<lambda>es. es @ [\<lparr>e_job_id = job, e_attempt_id = att,
       e_previous_status = previous, e_status = status, e_occurred_at = occurred,
       e_source = src\<rparr>])"

text \<open>\<^verbatim>\<open>audit.py\<close>\<close>

definition add_audit_event ::
  "string \<Rightarrow> ident option \<Rightarrow> string \<Rightarrow> string \<Rightarrow> ident option \<Rightarrow> ledger \<Rightarrow> ledger" where
  "add_audit_event actor_type actor action resource_type resource_id =
     audit_events_update (\<lambda>us. us @ [\<lparr>u_actor_type = actor_type, u_actor_id = actor,
       u_action = action, u_resource_type = resource_type, u_resource_id = resource_id\<rparr>])"

section \<open>The configuration snapshot of a job\<close>

text \<open>
  \<^verbatim>\<open>validated_job_config\<close>: \<open>None\<close> is \<^verbatim>\<open>InvalidJobConfigLedger\<close>.
\<close>

definition validated_job_config ::
  "platform \<Rightarrow> job_row \<Rightarrow> job_attempt_row option \<Rightarrow> job_config option" where
  "validated_job_config pf job att =
     (case j_config_sha256 job of
        None \<Rightarrow> None
      | Some stored_sha256 \<Rightarrow>
          if \<not> sha256_hex stored_sha256 then None
          else case (config_hash pf (j_config_json job),
                     model_validate_job_config pf (j_config_json job)) of
            (Some raw_sha256, Some config) \<Rightarrow>
              (case config_hash pf (dump_job_config config) of
                 None \<Rightarrow> None
               | Some normalized_sha256 \<Rightarrow>
                   if raw_sha256 \<noteq> stored_sha256 \<or> normalized_sha256 \<noteq> stored_sha256 then None
                   else if job_name config \<noteq> j_job_name job \<or>
                     experiment_id config \<noteq> j_experiment_id job \<or>
                     dataset_id config \<noteq> j_dataset_id job \<or>
                     epochs (training config) \<noteq> j_total_epoch job \<or>
                     priority (resource config) \<noteq> j_priority job \<or>
                     test_set_id (auto_inference_samples config) \<noteq> j_test_set_id job then None
                   else if (\<exists>a \<in> set_option att. a_job_id a \<noteq> j_id job \<or>
                     a_job_config_sha256 a \<noteq> Some stored_sha256) then None
                   else Some config)
          | _ \<Rightarrow> None)"


lemma validated_job_configD:
  assumes "validated_job_config pf job att = Some config"
  shows "\<exists>h. j_config_sha256 job = Some h \<and> sha256_hex h \<and> config_hash pf (j_config_json job) = Some h \<and>
      config_hash pf (dump_job_config config) = Some h \<and>
      (\<forall>a. att = Some a \<longrightarrow> a_job_id a = j_id job \<and> a_job_config_sha256 a = Some h)"
    and "model_validate_job_config pf (j_config_json job) = Some config"
    and "job_name config = j_job_name job" "experiment_id config = j_experiment_id job"
    and "dataset_id config = j_dataset_id job" "epochs (training config) = j_total_epoch job"
    and "priority (resource config) = j_priority job"
    and "test_set_id (auto_inference_samples config) = j_test_set_id job"
  using assms by (auto simp: validated_job_config_def split: option.splits if_splits)

text \<open>
  The check reads the immutable columns only: it gives the same answer for two versions of a row
  that agree on them.
\<close>

definition same_snapshot :: "job_row \<Rightarrow> job_row \<Rightarrow> bool" where
  "same_snapshot j k \<longleftrightarrow> j_id j = j_id k \<and> j_config_sha256 j = j_config_sha256 k \<and>
     j_config_json j = j_config_json k \<and> j_job_name j = j_job_name k \<and>
     j_experiment_id j = j_experiment_id k \<and> j_dataset_id j = j_dataset_id k \<and>
     j_total_epoch j = j_total_epoch k \<and> j_priority j = j_priority k \<and>
     j_test_set_id j = j_test_set_id k"

lemma validated_job_config_cong:
  "same_snapshot j k \<Longrightarrow> validated_job_config pf j att = validated_job_config pf k att"
  unfolding same_snapshot_def validated_job_config_def by (auto split: option.split)

lemma validated_attempt_job:
  "validated_job_config pf j (Some a) \<noteq> None \<Longrightarrow> a_job_id a = j_id j"
  using validated_job_configD(1) by blast

section \<open>Reading and writing rows\<close>

lemma orm_id [simp]:
  "(\<And>r. j_id (f r) = j_id r) \<Longrightarrow> j_id (orm_job f j) = j_id j"
  "(\<And>r. w_id (g r) = w_id r) \<Longrightarrow> w_id (orm_worker g w) = w_id w"
  "(\<And>r. x_id (h r) = x_id r) \<Longrightarrow> x_id (orm_experiment h x) = x_id x"
  by (simp_all add: orm_job_def orm_worker_def orm_experiment_def)

text \<open>A column other than the version counter has the value the update gave it.\<close>

lemma orm_job_fields [simp]:
  "j_id (orm_job f j) = j_id (f j)"
  "j_status (orm_job f j) = j_status (f j)"
  "j_worker_id (orm_job f j) = j_worker_id (f j)"
  "j_current_attempt_id (orm_job f j) = j_current_attempt_id (f j)"
  "j_cancel_requested_at (orm_job f j) = j_cancel_requested_at (f j)"
  "j_current_epoch (orm_job f j) = j_current_epoch (f j)"
  "j_total_epoch (orm_job f j) = j_total_epoch (f j)"
  "j_attempt_count (orm_job f j) = j_attempt_count (f j)"
  "j_config_json (orm_job f j) = j_config_json (f j)"
  "j_config_sha256 (orm_job f j) = j_config_sha256 (f j)"
  "j_job_name (orm_job f j) = j_job_name (f j)"
  "j_experiment_id (orm_job f j) = j_experiment_id (f j)"
  "j_dataset_id (orm_job f j) = j_dataset_id (f j)"
  "j_priority (orm_job f j) = j_priority (f j)"
  "j_test_set_id (orm_job f j) = j_test_set_id (f j)"
  "j_error_code (orm_job f j) = j_error_code (f j)"
  "j_error_message (orm_job f j) = j_error_message (f j)"
  "j_completed_at (orm_job f j) = j_completed_at (f j)"
  "j_started_at (orm_job f j) = j_started_at (f j)"
  "j_created_at (orm_job f j) = j_created_at (f j)"
  by (simp_all add: orm_job_def)

lemma orm_worker_fields [simp]:
  "w_id (orm_worker f w) = w_id (f w)"
  "w_name (orm_worker f w) = w_name (f w)"
  "w_token_hash (orm_worker f w) = w_token_hash (f w)"
  "w_token_issued_at (orm_worker f w) = w_token_issued_at (f w)"
  "w_token_rotation_id (orm_worker f w) = w_token_rotation_id (f w)"
  "w_pending_token_hash (orm_worker f w) = w_pending_token_hash (f w)"
  "w_token_rotation_started_at (orm_worker f w) = w_token_rotation_started_at (f w)"
  "w_token_rotation_expires_at (orm_worker f w) = w_token_rotation_expires_at (f w)"
  "w_status (orm_worker f w) = w_status (f w)"
  "w_capabilities_json (orm_worker f w) = w_capabilities_json (f w)"
  "w_last_heartbeat_at (orm_worker f w) = w_last_heartbeat_at (f w)"
  "w_current_job_id (orm_worker f w) = w_current_job_id (f w)"
  "w_is_active (orm_worker f w) = w_is_active (f w)"
  by (simp_all add: orm_worker_def)

text \<open>What each write leaves of the tables that the assignment of jobs to workers lives in.\<close>

lemma set_frames [simp]:
  "workers (set_job i f d) = workers d" "job_attempts (set_job i f d) = job_attempts d"
  "job_leases (set_job i f d) = job_leases d" "job_status_events (set_job i f d) = job_status_events d"
  "jobs (set_worker i g d) = jobs d" "job_attempts (set_worker i g d) = job_attempts d"
  "job_leases (set_worker i g d) = job_leases d"
  "job_status_events (set_worker i g d) = job_status_events d"
  "workers (set_attempt i h d) = workers d" "jobs (set_attempt i h d) = jobs d"
  "job_leases (set_attempt i h d) = job_leases d"
  "job_status_events (set_attempt i h d) = job_status_events d"
  "workers (set_lease i k d) = workers d" "jobs (set_lease i k d) = jobs d"
  "job_attempts (set_lease i k d) = job_attempts d"
  "job_status_events (set_lease i k d) = job_status_events d"
  "experiments (set_job i f d) = experiments d" "experiments (set_worker i g d) = experiments d"
  "experiments (set_attempt i h d) = experiments d" "experiments (set_lease i k d) = experiments d"
  by (simp_all add: set_job_def set_worker_def set_attempt_def set_lease_def)

lemma set_rows [simp]:
  "jobs (set_job i f d) = upd_row j_id i (orm_job f) (jobs d)"
  "workers (set_worker i g d) = upd_row w_id i (orm_worker g) (workers d)"
  "job_attempts (set_attempt i h d) = upd_row a_id i h (job_attempts d)"
  "job_leases (set_lease i k d) = upd_row l_id i k (job_leases d)"
  by (simp_all add: set_job_def set_worker_def set_attempt_def set_lease_def)

lemma telemetry_frames [simp]:
  "job_logs (set_job i f d) = job_logs d" "metrics (set_job i f d) = metrics d"
  "job_logs (set_worker i g d) = job_logs d" "metrics (set_worker i g d) = metrics d"
  "job_logs (set_attempt i h d) = job_logs d" "metrics (set_attempt i h d) = metrics d"
  "job_logs (set_lease i k d) = job_logs d" "metrics (set_lease i k d) = metrics d"
  "ingest_batches (set_job i f d) = ingest_batches d"
  "ingest_batches (set_worker i g d) = ingest_batches d"
  "ingest_batches (set_attempt i h d) = ingest_batches d"
  "ingest_batches (set_lease i k d) = ingest_batches d"
  by (simp_all add: set_job_def set_worker_def set_attempt_def set_lease_def)

lemma event_frames [simp]:
  "workers (add_status_event i a p s t c d) = workers d"
  "jobs (add_status_event i a p s t c d) = jobs d"
  "job_attempts (add_status_event i a p s t c d) = job_attempts d"
  "job_leases (add_status_event i a p s t c d) = job_leases d"
  "experiments (add_status_event i a p s t c d) = experiments d"
  "job_logs (add_status_event i a p s t c d) = job_logs d"
  "metrics (add_status_event i a p s t c d) = metrics d"
  "ingest_batches (add_status_event i a p s t c d) = ingest_batches d"
  "job_status_events (add_status_event i a p s t c d) = job_status_events d @
     [\<lparr>e_job_id = i, e_attempt_id = a, e_previous_status = p, e_status = s, e_occurred_at = t,
       e_source = c\<rparr>]"
  by (simp_all add: add_status_event_def)

lemma audit_frames [simp]:
  "workers (add_audit_event a b c r i d) = workers d"
  "jobs (add_audit_event a b c r i d) = jobs d"
  "job_attempts (add_audit_event a b c r i d) = job_attempts d"
  "job_leases (add_audit_event a b c r i d) = job_leases d"
  "job_status_events (add_audit_event a b c r i d) = job_status_events d"
  "experiments (add_audit_event a b c r i d) = experiments d"
  "job_logs (add_audit_event a b c r i d) = job_logs d"
  "metrics (add_audit_event a b c r i d) = metrics d"
  "ingest_batches (add_audit_event a b c r i d) = ingest_batches d"
  by (simp_all add: add_audit_event_def)

end
