(* ===== verification/Assignment.thy ===== *)
theory Assignment
  imports Ledger
begin

text \<open>
  The abstract specification of how jobs are assigned to workers. A \<open>board\<close> keeps what matters of
  the four tables that share an assignment: the status of each job with the attempt and the worker
  it names, the attempts, the leases, and the job each worker holds. \<open>board_step\<close> lists the moves the
  Manager may make on it. \<open>board_ok\<close> is the consistency that the handlers depend on: a live lease, the
  job it is for, the attempt it covers and the worker that holds it all point at each other.

  \<open>board_of\<close> abstracts the ledger; the theories of the handlers prove that every handler takes the
  board of its ledger to the board of its result by moves of this specification, which is all that
  is needed for the invariant to hold of the ledger in every reachable state.
\<close>

record job_slot =
  slot_status :: job_status
  slot_attempt :: "ident option"
  slot_worker :: "ident option"

record attempt_slot =
  run_job :: ident
  run_worker :: ident
  run_status :: job_status
  run_open :: bool
  run_unsealed :: bool

record lease_slot =
  held_job :: ident
  held_attempt :: ident
  held_worker :: ident
  held_live :: bool
  held_unreleased :: bool

record worker_slot =
  seat_job :: "ident option"
  seat_active :: bool
  seat_pending :: bool

record board =
  board_jobs :: "ident \<rightharpoonup> job_slot"
  board_attempts :: "ident \<rightharpoonup> attempt_slot"
  board_leases :: "ident \<rightharpoonup> lease_slot"
  board_workers :: "ident \<rightharpoonup> worker_slot"

section \<open>The moves\<close>

inductive board_step :: "board \<Rightarrow> board \<Rightarrow> bool" where
  enqueue:
    "board_jobs b j = None \<Longrightarrow>
     board_step b (b\<lparr>board_jobs := (board_jobs b)
       (j \<mapsto> \<lparr>slot_status = QUEUED, slot_attempt = None, slot_worker = None\<rparr>)\<rparr>)"
| wait:
    "\<lbrakk>board_jobs b j = Some s; \<not> executing (slot_status s); \<not> executing t;
      t \<in> set (ALLOWED_JOB_TRANSITIONS (slot_status s))\<rbrakk> \<Longrightarrow>
     board_step b (b\<lparr>board_jobs := (board_jobs b)
       (j \<mapsto> \<lparr>slot_status = t, slot_attempt = a, slot_worker = w\<rparr>)\<rparr>)"
| assign:
    "\<lbrakk>board_jobs b j = Some s; slot_status s = QUEUED; board_workers b w = Some v;
      seat_job v = None; seat_active v; \<not> seat_pending v; board_attempts b a = None;
      board_leases b l = None\<rbrakk> \<Longrightarrow>
     board_step b
       \<lparr>board_jobs = (board_jobs b)
          (j \<mapsto> \<lparr>slot_status = ASSIGNED, slot_attempt = Some a, slot_worker = Some w\<rparr>),
        board_attempts = (board_attempts b)
          (a \<mapsto> \<lparr>run_job = j, run_worker = w, run_status = ASSIGNED, run_open = True,
                 run_unsealed = True\<rparr>),
        board_leases = (board_leases b)
          (l \<mapsto> \<lparr>held_job = j, held_attempt = a, held_worker = w, held_live = True,
                 held_unreleased = True\<rparr>),
        board_workers = (board_workers b)(w \<mapsto> v\<lparr>seat_job := Some j\<rparr>)\<rparr>"
| progress:
    "\<lbrakk>board_leases b l = Some h; held_live h; board_jobs b (held_job h) = Some s;
      board_attempts b (held_attempt h) = Some r; executing t;
      t \<in> set (ALLOWED_JOB_TRANSITIONS (slot_status s))\<rbrakk> \<Longrightarrow>
     board_step b (b\<lparr>board_jobs := (board_jobs b)(held_job h \<mapsto> s\<lparr>slot_status := t\<rparr>),
       board_attempts := (board_attempts b)(held_attempt h \<mapsto> r\<lparr>run_status := t\<rparr>)\<rparr>)"
| finish:
    "\<lbrakk>board_leases b l = Some h; held_live h; board_jobs b (held_job h) = Some s;
      board_attempts b (held_attempt h) = Some r; board_workers b (held_worker h) = Some v;
      terminal t; t \<in> set (ALLOWED_JOB_TRANSITIONS (slot_status s))\<rbrakk> \<Longrightarrow>
     board_step b
       \<lparr>board_jobs = (board_jobs b)(held_job h \<mapsto> s\<lparr>slot_status := t\<rparr>),
        board_attempts = (board_attempts b)
          (held_attempt h \<mapsto> r\<lparr>run_status := t, run_open := False, run_unsealed := u\<rparr>),
        board_leases = (board_leases b)
          (l \<mapsto> h\<lparr>held_live := False, held_unreleased := False\<rparr>),
        board_workers = (board_workers b)(held_worker h \<mapsto> v\<lparr>seat_job := None\<rparr>)\<rparr>"
| register:
    "board_workers b w = None \<Longrightarrow>
     board_step b (b\<lparr>board_workers := (board_workers b)
       (w \<mapsto> \<lparr>seat_job = None, seat_active = True, seat_pending = False\<rparr>)\<rparr>)"
| administer:
    "\<lbrakk>board_workers b w = Some v; seat_job v = None\<rbrakk> \<Longrightarrow>
     board_step b (b\<lparr>board_workers := (board_workers b)
       (w \<mapsto> \<lparr>seat_job = None, seat_active = x, seat_pending = y\<rparr>)\<rparr>)"

section \<open>Consistency\<close>

definition backed :: "board \<Rightarrow> lease_slot \<Rightarrow> bool" where
  "backed b h \<longleftrightarrow>
     (case (board_jobs b (held_job h), board_attempts b (held_attempt h),
            board_workers b (held_worker h)) of
        (Some s, Some r, Some v) \<Rightarrow>
          executing (slot_status s) \<and> slot_attempt s = Some (held_attempt h) \<and>
          slot_worker s = Some (held_worker h) \<and> run_job r = held_job h \<and>
          run_worker r = held_worker h \<and> run_open r \<and> run_unsealed r \<and>
          run_status r = slot_status s \<and> seat_job v = Some (held_job h) \<and> seat_active v \<and>
          \<not> seat_pending v
      | _ \<Rightarrow> False)"

definition live :: "board \<Rightarrow> ident \<Rightarrow> lease_slot \<Rightarrow> bool" where
  "live b l h \<longleftrightarrow> board_leases b l = Some h \<and> held_live h"

definition board_ok :: "board \<Rightarrow> bool" where
  "board_ok b \<longleftrightarrow>
     (\<forall>l h. board_leases b l = Some h \<longrightarrow>
        held_live h = held_unreleased h \<and> board_attempts b (held_attempt h) \<noteq> None) \<and>
     (\<forall>l h. live b l h \<longrightarrow> backed b h) \<and>
     (\<forall>j s. board_jobs b j = Some s \<longrightarrow> executing (slot_status s) \<longrightarrow>
        (\<exists>l h. live b l h \<and> held_job h = j)) \<and>
     (\<forall>w v j. board_workers b w = Some v \<longrightarrow> seat_job v = Some j \<longrightarrow>
        (\<exists>l h. live b l h \<and> held_worker h = w \<and> held_job h = j)) \<and>
     (\<forall>l h m k. board_leases b l = Some h \<longrightarrow> board_leases b m = Some k \<longrightarrow>
        held_attempt h = held_attempt k \<longrightarrow> l = m) \<and>
     (\<forall>a r. board_attempts b a = Some r \<longrightarrow> run_open r \<longrightarrow>
        (\<exists>l h. live b l h \<and> held_attempt h = a))"

lemma backedE:
  assumes "backed b h"
  obtains s r v where "board_jobs b (held_job h) = Some s"
    "board_attempts b (held_attempt h) = Some r" "board_workers b (held_worker h) = Some v"
    "executing (slot_status s)" "slot_attempt s = Some (held_attempt h)"
    "slot_worker s = Some (held_worker h)" "run_job r = held_job h" "run_worker r = held_worker h"
    "run_open r" "run_unsealed r" "run_status r = slot_status s" "seat_job v = Some (held_job h)"
    "seat_active v" "\<not> seat_pending v"
  using assms by (auto simp: backed_def split: option.splits)

lemma board_okD:
  assumes "board_ok b"
  shows "board_leases b l = Some h \<Longrightarrow> held_live h = held_unreleased h"
    and "board_leases b l = Some h \<Longrightarrow> board_attempts b (held_attempt h) \<noteq> None"
    and "live b l h \<Longrightarrow> backed b h"
    and "board_jobs b j = Some s \<Longrightarrow> executing (slot_status s) \<Longrightarrow> \<exists>l h. live b l h \<and> held_job h = j"
    and "board_workers b w = Some v \<Longrightarrow> seat_job v = Some j \<Longrightarrow>
      \<exists>l h. live b l h \<and> held_worker h = w \<and> held_job h = j"
    and "board_leases b l = Some h \<Longrightarrow> board_leases b m = Some k \<Longrightarrow>
      held_attempt h = held_attempt k \<Longrightarrow> l = m"
    and "board_attempts b a = Some r \<Longrightarrow> run_open r \<Longrightarrow> \<exists>l h. live b l h \<and> held_attempt h = a"
  using assms unfolding board_ok_def by blast+

text \<open>A job has at most one live lease, and so has a worker.\<close>

lemma live_unique_job:
  assumes "board_ok b" "live b l h" "live b m k" "held_job h = held_job k"
  shows "l = m"
proof -
  have "held_attempt h = held_attempt k"
    using board_okD(3) [OF assms(1,2)] board_okD(3) [OF assms(1,3)] assms(4)
    by (auto elim!: backedE)
  then show ?thesis using assms board_okD(6) by (auto simp: live_def)
qed

lemma live_unique_worker:
  assumes "board_ok b" "live b l h" "live b m k" "held_worker h = held_worker k"
  shows "l = m"
proof -
  have "held_job h = held_job k"
    using board_okD(3) [OF assms(1,2)] board_okD(3) [OF assms(1,3)] assms(4)
    by (auto elim!: backedE)
  then show ?thesis using assms live_unique_job by blast
qed

lemma board_okI:
  assumes "\<And>l h. board_leases b l = Some h \<Longrightarrow> held_live h = held_unreleased h"
    and "\<And>l h. board_leases b l = Some h \<Longrightarrow> board_attempts b (held_attempt h) \<noteq> None"
    and "\<And>l h. live b l h \<Longrightarrow> backed b h"
    and "\<And>j s. board_jobs b j = Some s \<Longrightarrow> executing (slot_status s) \<Longrightarrow>
      \<exists>l h. live b l h \<and> held_job h = j"
    and "\<And>w v j. board_workers b w = Some v \<Longrightarrow> seat_job v = Some j \<Longrightarrow>
      \<exists>l h. live b l h \<and> held_worker h = w \<and> held_job h = j"
    and "\<And>l h m k. board_leases b l = Some h \<Longrightarrow> board_leases b m = Some k \<Longrightarrow>
      held_attempt h = held_attempt k \<Longrightarrow> l = m"
    and "\<And>a r. board_attempts b a = Some r \<Longrightarrow> run_open r \<Longrightarrow>
      \<exists>l h. live b l h \<and> held_attempt h = a"
  shows "board_ok b"
  unfolding board_ok_def by (intro conjI allI impI; use assms in blast)

subsection \<open>Every move keeps the board consistent\<close>

text \<open>A job that is not executing is named by no live lease, a worker without a job neither.\<close>

lemma waiting_not_live:
  assumes "board_ok b" "board_jobs b j = Some s" "\<not> executing (slot_status s)" "live b l h"
  shows "held_job h \<noteq> j"
  using board_okD(3) [OF assms(1,4)] assms(2,3) by (auto elim!: backedE)

lemma idle_not_live:
  assumes "board_ok b" "board_workers b w = Some v" "seat_job v = None" "live b l h"
  shows "held_worker h \<noteq> w"
  using board_okD(3) [OF assms(1,4)] assms(2,3) by (auto elim!: backedE)

lemma unknown_not_live:
  assumes "board_ok b" "live b l h"
  shows "board_jobs b (held_job h) \<noteq> None" "board_workers b (held_worker h) \<noteq> None"
    "board_attempts b (held_attempt h) \<noteq> None"
  using board_okD(3) [OF assms] by (auto elim!: backedE)

text \<open>Moves that touch one job which no live lease names.\<close>

lemma board_ok_job:
  assumes ok: "board_ok b" and nobody: "\<And>l h. live b l h \<Longrightarrow> held_job h \<noteq> j"
    and waiting: "\<not> executing (slot_status s)"
  shows "board_ok (b\<lparr>board_jobs := (board_jobs b)(j \<mapsto> s)\<rparr>)" (is "board_ok ?b")
proof -
  have live: "live ?b l h = live b l h" for l h by (simp add: live_def)
  show ?thesis
  proof (rule board_okI)
    fix l h assume "live ?b l h"
    then have "live b l h" by (simp add: live)
    then show "backed ?b h" using nobody board_okD(3) [OF ok] by (auto simp: backed_def)
  next
    fix i r assume "board_jobs ?b i = Some r" "executing (slot_status r)"
    then have "board_jobs b i = Some r" using waiting by (auto split: if_splits)
    then show "\<exists>l h. live ?b l h \<and> held_job h = i"
      using board_okD(4) [OF ok] \<open>executing (slot_status r)\<close> by (simp add: live)
  qed (use board_okD(1,2,5,6,7) [OF ok] live in auto)
qed

text \<open>Moves that touch one worker which no live lease names.\<close>

lemma board_ok_worker:
  assumes ok: "board_ok b" and nobody: "\<And>l h. live b l h \<Longrightarrow> held_worker h \<noteq> w"
    and idle: "seat_job v = None"
  shows "board_ok (b\<lparr>board_workers := (board_workers b)(w \<mapsto> v)\<rparr>)" (is "board_ok ?b")
proof -
  have live: "live ?b l h = live b l h" for l h by (simp add: live_def)
  show ?thesis
  proof (rule board_okI)
    fix l h assume "live ?b l h"
    then have "live b l h" by (simp add: live)
    then show "backed ?b h" using nobody board_okD(3) [OF ok] by (auto simp: backed_def)
  next
    fix u x j assume "board_workers ?b u = Some x" "seat_job x = Some j"
    then have "board_workers b u = Some x" using idle by (auto split: if_splits)
    then show "\<exists>l h. live ?b l h \<and> held_worker h = u \<and> held_job h = j"
      using board_okD(5) [OF ok] \<open>seat_job x = Some j\<close> by (simp add: live)
  qed (use board_okD(1,2,4,6,7) [OF ok] live in auto)
qed


lemma board_ok_assign:
  assumes ok: "board_ok b" and job: "board_jobs b j = Some s" "slot_status s = QUEUED"
    and worker: "board_workers b w = Some v" "seat_job v = None" "seat_active v" "\<not> seat_pending v"
    and fresh: "board_attempts b a = None" "board_leases b l = None"
    and b': "b' = \<lparr>board_jobs = (board_jobs b)
          (j \<mapsto> \<lparr>slot_status = ASSIGNED, slot_attempt = Some a, slot_worker = Some w\<rparr>),
        board_attempts = (board_attempts b)
          (a \<mapsto> \<lparr>run_job = j, run_worker = w, run_status = ASSIGNED, run_open = True,
                 run_unsealed = True\<rparr>),
        board_leases = (board_leases b)
          (l \<mapsto> \<lparr>held_job = j, held_attempt = a, held_worker = w, held_live = True,
                 held_unreleased = True\<rparr>),
        board_workers = (board_workers b)(w \<mapsto> v\<lparr>seat_job := Some j\<rparr>)\<rparr>"
  shows "board_ok b'"
proof -
  let ?h = "\<lparr>held_job = j, held_attempt = a, held_worker = w, held_live = True,
    held_unreleased = True\<rparr>"
  have live: "live b' m k \<longleftrightarrow> (m = l \<and> k = ?h) \<or> live b m k" for m k
    using fresh by (auto simp: live_def b')
  have other: "held_job k \<noteq> j" "held_worker k \<noteq> w" "held_attempt k \<noteq> a" if "live b m k" for m k
    using waiting_not_live [OF ok job(1) _ that] idle_not_live [OF ok worker(1,2) that]
      unknown_not_live(3) [OF ok that] job(2) fresh(1) by (auto simp: executing_simps)
  have attempt: "held_attempt k \<noteq> a" if "board_leases b m = Some k" for m k
    using board_okD(2) [OF ok that] fresh(1) by auto
  show ?thesis
  proof (rule board_okI)
    fix m k assume "live b' m k"
    then show "backed b' k"
      using board_okD(3) [OF ok, of m k] other [of m k] worker unfolding live
      by (auto simp: b' backed_def executing_simps)
  next
    fix i r assume *: "board_jobs b' i = Some r" "executing (slot_status r)"
    show "\<exists>m k. live b' m k \<and> held_job k = i"
    proof (cases "i = j")
      case True
      then show ?thesis by (intro exI [of _ l] exI [of _ ?h]) (simp add: live)
    next
      case False
      then show ?thesis using * board_okD(4) [OF ok, of i r] unfolding live by (auto simp: b')
    qed
  next
    fix u x i assume *: "board_workers b' u = Some x" "seat_job x = Some i"
    show "\<exists>m k. live b' m k \<and> held_worker k = u \<and> held_job k = i"
    proof (cases "u = w")
      case True
      then show ?thesis using * 
        unfolding live by (intro exI [of _ l] exI [of _ ?h]) (auto simp: b')
    next
      case False
      then show ?thesis using * board_okD(5) [OF ok, of u x i] unfolding live by (auto simp: b')
    qed
  next
    fix i r assume *: "board_attempts b' i = Some r" "run_open r"
    show "\<exists>m k. live b' m k \<and> held_attempt k = i"
    proof (cases "i = a")
      case True
      then show ?thesis by (intro exI [of _ l] exI [of _ ?h]) (simp add: live)
    next
      case False
      then show ?thesis using * board_okD(7) [OF ok, of i r] unfolding live by (auto simp: b')
    qed
  next
    fix m k n q assume "board_leases b' m = Some k" "board_leases b' n = Some q"
      "held_attempt k = held_attempt q"
    then show "m = n"
      using attempt [of m k] attempt [of n q] board_okD(6) [OF ok, of m k n q]
      by (auto simp: b' split: if_splits)
  qed (use board_okD(1,2) [OF ok] in \<open>auto simp: b' split: if_splits\<close>)
qed

lemma board_ok_progress:
  assumes ok: "board_ok b" and lease: "live b l h"
    and rows: "board_jobs b (held_job h) = Some s" "board_attempts b (held_attempt h) = Some r"
    and t: "executing t"
    and b': "b' = b\<lparr>board_jobs := (board_jobs b)(held_job h \<mapsto> s\<lparr>slot_status := t\<rparr>),
       board_attempts := (board_attempts b)(held_attempt h \<mapsto> r\<lparr>run_status := t\<rparr>)\<rparr>"
  shows "board_ok b'"
proof -
  have live: "live b' = live b" by (simp add: live_def b' fun_eq_iff)
  have other: "held_job k \<noteq> held_job h" "held_attempt k \<noteq> held_attempt h"
    if "live b m k" "m \<noteq> l" for m k
    using that live_unique_job [OF ok that(1) lease] board_okD(6) [OF ok, of m k l h] lease
    by (auto simp: live_def)
  show ?thesis
  proof (rule board_okI)
    fix m k assume m: "live b' m k"
    show "backed b' k"
    proof (cases "m = l")
      case True
      then have "k = h" using m lease by (simp add: live_def b')
      then show ?thesis using board_okD(3) [OF ok lease] rows t
        by (auto simp: backed_def b' split: option.splits)
    next
      case False
      then show ?thesis
        using m other [of m k] board_okD(3) [OF ok, of m k] unfolding live by (auto simp: backed_def b')
    qed
  next
    fix i q assume *: "board_jobs b' i = Some q" "executing (slot_status q)"
    show "\<exists>m k. live b' m k \<and> held_job k = i"
      using * lease board_okD(4) [OF ok, of i q] unfolding live
      by (cases "i = held_job h") (auto simp: b')
  next
    fix u x i assume "board_workers b' u = Some x" "seat_job x = Some i"
    then show "\<exists>m k. live b' m k \<and> held_worker k = u \<and> held_job k = i"
      using board_okD(5) [OF ok, of u x i] unfolding live by (auto simp: b')
  next
    fix i q assume *: "board_attempts b' i = Some q" "run_open q"
    show "\<exists>m k. live b' m k \<and> held_attempt k = i"
      using * lease board_okD(7) [OF ok, of i q] unfolding live
      by (cases "i = held_attempt h") (auto simp: b')
  qed (use board_okD(1,2,6) [OF ok] in \<open>auto simp: b' split: if_splits\<close>)
qed

lemma board_ok_finish:
  assumes ok: "board_ok b" and lease: "live b l h"
    and rows: "board_jobs b (held_job h) = Some s" "board_attempts b (held_attempt h) = Some r"
      "board_workers b (held_worker h) = Some v"
    and t: "terminal t"
    and b': "b' = \<lparr>board_jobs = (board_jobs b)(held_job h \<mapsto> s\<lparr>slot_status := t\<rparr>),
        board_attempts = (board_attempts b)
          (held_attempt h \<mapsto> r\<lparr>run_status := t, run_open := False, run_unsealed := u\<rparr>),
        board_leases = (board_leases b)
          (l \<mapsto> h\<lparr>held_live := False, held_unreleased := False\<rparr>),
        board_workers = (board_workers b)(held_worker h \<mapsto> v\<lparr>seat_job := None\<rparr>)\<rparr>"
  shows "board_ok b'"
proof -
  have live: "live b' m k \<longleftrightarrow> live b m k \<and> m \<noteq> l" for m k by (auto simp: live_def b')
  have other: "held_job k \<noteq> held_job h" "held_attempt k \<noteq> held_attempt h"
    "held_worker k \<noteq> held_worker h" if "live b m k" "m \<noteq> l" for m k
    using that live_unique_job [OF ok that(1) lease] live_unique_worker [OF ok that(1) lease]
      board_okD(6) [OF ok, of m k l h] lease by (auto simp: live_def)
  show ?thesis
  proof (rule board_okI)
    fix m k assume "live b' m k"
    then show "backed b' k"
      using other [of m k] board_okD(3) [OF ok, of m k] unfolding live by (auto simp: backed_def b')
  next
    fix i q assume *: "board_jobs b' i = Some q" "executing (slot_status q)"
    then have i: "i \<noteq> held_job h" using t by (auto simp: b' executing_simps split: if_splits)
    then obtain m k where "live b m k" "held_job k = i"
      using * board_okD(4) [OF ok, of i q] by (auto simp: b')
    with i lease have "live b' m k" by (auto simp: live_def b')
    then show "\<exists>m k. live b' m k \<and> held_job k = i" using \<open>held_job k = i\<close> by blast
  next
    fix u x i assume *: "board_workers b' u = Some x" "seat_job x = Some i"
    then have u: "u \<noteq> held_worker h" by (auto simp: b' split: if_splits)
    then obtain m k where "live b m k" "held_worker k = u" "held_job k = i"
      using * board_okD(5) [OF ok, of u x i] by (auto simp: b')
    moreover from this u lease have "live b' m k" by (auto simp: live_def b')
    ultimately show "\<exists>m k. live b' m k \<and> held_worker k = u \<and> held_job k = i" by blast
  next
    fix i q assume *: "board_attempts b' i = Some q" "run_open q"
    then have i: "i \<noteq> held_attempt h" by (auto simp: b' split: if_splits)
    then obtain m k where "live b m k" "held_attempt k = i"
      using * board_okD(7) [OF ok, of i q] by (auto simp: b')
    moreover from this i lease have "live b' m k" by (auto simp: live_def b')
    ultimately show "\<exists>m k. live b' m k \<and> held_attempt k = i" by blast
  next
    fix m k n q assume "board_leases b' m = Some k" "board_leases b' n = Some q"
      "held_attempt k = held_attempt q"
    moreover have "board_leases b l = Some h" using lease by (simp add: live_def)
    ultimately show "m = n" using board_okD(6) [OF ok] by (auto simp: b' split: if_splits)
  next
    fix m k assume "board_leases b' m = Some k"
    moreover have "board_leases b l = Some h" using lease by (simp add: live_def)
    ultimately show "board_attempts b' (held_attempt k) \<noteq> None"
      using board_okD(2) [OF ok] by (auto simp: b' split: if_splits)
  qed (use board_okD(1) [OF ok] in \<open>auto simp: b' split: if_splits\<close>)
qed

lemma board_step_ok:
  assumes "board_ok b" "board_step b b'"
  shows "board_ok b'"
  using assms(2)
proof (cases rule: board_step.cases)
  case (enqueue j)
  have "held_job h \<noteq> j" if "live b l h" for l h
    using unknown_not_live(1) [OF assms(1) that] enqueue by auto
  with enqueue assms(1) show ?thesis by (auto intro!: board_ok_job simp: executing_simps)
next
  case (wait j s t a w)
  then show ?thesis using waiting_not_live [OF assms(1), of j s] assms(1) by (auto intro!: board_ok_job)
next
  case (assign j s w v a l)
  then show ?thesis using board_ok_assign [OF assms(1), of j s w v a l] by simp
next
  case (progress l h s r t)
  then show ?thesis using board_ok_progress [OF assms(1), of l h s r t] by (simp add: live_def)
next
  case (finish l h s r v t u)
  then show ?thesis using board_ok_finish [OF assms(1), of l h s r v t] by (simp add: live_def)
next
  case (register w)
  have "held_worker h \<noteq> w" if "live b l h" for l h
    using unknown_not_live(2) [OF assms(1) that] register by auto
  with register assms(1) show ?thesis by (auto intro!: board_ok_worker)
next
  case (administer w v x y)
  then show ?thesis using idle_not_live [OF assms(1), of w v] assms(1) by (auto intro!: board_ok_worker)
qed

definition empty_board :: "board \<Rightarrow> bool" where
  "empty_board b \<longleftrightarrow> b = \<lparr>board_jobs = Map.empty, board_attempts = Map.empty,
     board_leases = Map.empty, board_workers = Map.empty\<rparr>"

interpretation board_machine: step_invariant empty_board board_step board_ok
proof unfold_locales
  show "board_ok b" if "empty_board b" for b
    using that by (simp add: empty_board_def board_ok_def live_def)
  show "board_ok c" if "board_ok b" "board_step b c" for b c
    using that by (rule board_step_ok)
qed


section \<open>The board of a ledger\<close>

definition slot_of :: "job_row \<Rightarrow> job_slot" where
  "slot_of j = \<lparr>slot_status = j_status j, slot_attempt = j_current_attempt_id j,
     slot_worker = j_worker_id j\<rparr>"

definition run_of :: "job_attempt_row \<Rightarrow> attempt_slot" where
  "run_of a = \<lparr>run_job = a_job_id a, run_worker = a_worker_id a, run_status = a_status a,
     run_open = (a_finished_at a = None),
     run_unsealed = (a_telemetry_log_count a = None \<and> a_telemetry_metric_count a = None)\<rparr>"

definition held_of :: "job_lease_row \<Rightarrow> lease_slot" where
  "held_of l = \<lparr>held_job = l_job_id l, held_attempt = l_attempt_id l, held_worker = l_worker_id l,
     held_live = l_active l, held_unreleased = (l_released_at l = None)\<rparr>"

definition seat_of :: "worker_row \<Rightarrow> worker_slot" where
  "seat_of w = \<lparr>seat_job = w_current_job_id w, seat_active = w_is_active w,
     seat_pending = (w_pending_token_hash w \<noteq> None)\<rparr>"

definition board_of :: "ledger \<Rightarrow> board" where
  "board_of d =
     \<lparr>board_jobs = (\<lambda>i. map_option slot_of (get_job i d)),
      board_attempts = (\<lambda>i. map_option run_of (get_attempt i d)),
      board_leases = (\<lambda>i. map_option held_of (get_lease i d)),
      board_workers = (\<lambda>i. map_option seat_of (get_worker_row i d))\<rparr>"

lemmas slot_defs = slot_of_def run_of_def held_of_def seat_of_def

definition keys_ok :: "ledger \<Rightarrow> bool" where
  "keys_ok d \<longleftrightarrow> wf_table j_id (jobs d) \<and> wf_table a_id (job_attempts d) \<and>
     wf_table l_id (job_leases d) \<and> wf_table w_id (workers d)"

text \<open>The invariant of the ledger: primary keys are keys, and the board is consistent.\<close>

definition assignment_ok :: "ledger \<Rightarrow> bool" where
  "assignment_ok d \<longleftrightarrow> keys_ok d \<and> board_ok (board_of d)"

text \<open>What it means for a handler to implement the specification, from a given ledger on.\<close>

definition implements :: "ledger \<Rightarrow> ledger \<Rightarrow> bool" where
  "implements d d' \<longleftrightarrow> keys_ok d' \<and> board_step\<^sup>*\<^sup>* (board_of d) (board_of d')"

lemma implements_ok: "assignment_ok d \<Longrightarrow> implements d d' \<Longrightarrow> assignment_ok d'"
  by (auto simp: assignment_ok_def implements_def intro: board_machine.run_inv)

lemma implements_refl: "assignment_ok d \<Longrightarrow> implements d d"
  by (simp add: assignment_ok_def implements_def)

lemma implements_trans: "implements c d \<Longrightarrow> implements d e \<Longrightarrow> implements c e"
  by (auto simp: implements_def)

lemma implements_frame:
  "assignment_ok d \<Longrightarrow> keys_ok d' \<Longrightarrow> board_of d' = board_of d \<Longrightarrow> implements d d'"
  by (simp add: implements_def)

lemma implements_step:
  "keys_ok d' \<Longrightarrow> board_step (board_of d) (board_of d') \<Longrightarrow> implements d d'"
  by (simp add: implements_def r_into_rtranclp)

lemma keys_okD:
  "keys_ok d \<Longrightarrow> wf_table j_id (jobs d)" "keys_ok d \<Longrightarrow> wf_table a_id (job_attempts d)"
  "keys_ok d \<Longrightarrow> wf_table l_id (job_leases d)" "keys_ok d \<Longrightarrow> wf_table w_id (workers d)"
  by (simp_all add: keys_ok_def)

lemma assignment_okD: "assignment_ok d \<Longrightarrow> keys_ok d" "assignment_ok d \<Longrightarrow> board_ok (board_of d)"
  by (simp_all add: assignment_ok_def)

lemma keys_ok_set [simp]:
  "(\<And>r. j_id (f r) = j_id r) \<Longrightarrow> keys_ok (set_job i f d) = keys_ok d"
  "(\<And>r. w_id (g r) = w_id r) \<Longrightarrow> keys_ok (set_worker i g d) = keys_ok d"
  "(\<And>r. a_id (h r) = a_id r) \<Longrightarrow> keys_ok (set_attempt i h d) = keys_ok d"
  "(\<And>r. l_id (k r) = l_id r) \<Longrightarrow> keys_ok (set_lease i k d) = keys_ok d"
  "keys_ok (add_status_event i a p s t c d) = keys_ok d"
  "keys_ok (add_audit_event x y z u v d) = keys_ok d"
  by (simp_all add: keys_ok_def)

lemma slot_orm [simp]: "slot_of (orm_job f j) = slot_of (f j)" "seat_of (orm_worker g w) = seat_of (g w)"
  by (simp_all add: slot_defs)

text \<open>How writing a row shows on the board.\<close>

lemma board_of_set_job:
  assumes "\<And>r. j_id (f r) = j_id r" "get_job i d = Some j"
  shows "board_of (set_job i f d) =
    (board_of d)\<lparr>board_jobs := (board_jobs (board_of d))(i \<mapsto> slot_of (f j))\<rparr>"
  using assms by (auto simp: board_of_def get_row_upd_row fun_eq_iff)

lemma board_of_set_worker:
  assumes "\<And>r. w_id (f r) = w_id r" "get_worker_row i d = Some w"
  shows "board_of (set_worker i f d) =
    (board_of d)\<lparr>board_workers := (board_workers (board_of d))(i \<mapsto> seat_of (f w))\<rparr>"
  using assms by (auto simp: board_of_def get_row_upd_row fun_eq_iff)

lemma board_of_set_attempt:
  assumes "\<And>r. a_id (f r) = a_id r" "get_attempt i d = Some a"
  shows "board_of (set_attempt i f d) =
    (board_of d)\<lparr>board_attempts := (board_attempts (board_of d))(i \<mapsto> run_of (f a))\<rparr>"
  using assms by (auto simp: board_of_def get_row_upd_row fun_eq_iff)

lemma board_of_set_lease:
  assumes "\<And>r. l_id (f r) = l_id r" "get_lease i d = Some l"
  shows "board_of (set_lease i f d) =
    (board_of d)\<lparr>board_leases := (board_leases (board_of d))(i \<mapsto> held_of (f l))\<rparr>"
  using assms by (auto simp: board_of_def get_row_upd_row fun_eq_iff)

lemma board_of_add [simp]:
  "board_of (add_status_event i a p s t c d) = board_of d"
  "board_of (add_audit_event x y z u v d) = board_of d"
  by (simp_all add: board_of_def)

text \<open>Writing rows without touching what the board shows.\<close>

lemma map_option_upd_row:
  assumes "\<And>r. key (f r) = key r" "\<And>r. v (f r) = v r"
  shows "map_option v (get_row key k (upd_row key i f rs)) = map_option v (get_row key k rs)"
  using assms by (induction rs) auto

lemma board_of_frame:
  "(\<And>r. j_id (f r) = j_id r) \<Longrightarrow> (\<And>r. slot_of (f r) = slot_of r) \<Longrightarrow> board_of (set_job i f d) = board_of d"
  "(\<And>r. w_id (g r) = w_id r) \<Longrightarrow> (\<And>r. seat_of (g r) = seat_of r) \<Longrightarrow> board_of (set_worker i g d) = board_of d"
  "(\<And>r. a_id (h r) = a_id r) \<Longrightarrow> (\<And>r. run_of (h r) = run_of r) \<Longrightarrow> board_of (set_attempt i h d) = board_of d"
  "(\<And>r. l_id (k r) = l_id r) \<Longrightarrow> (\<And>r. held_of (k r) = held_of r) \<Longrightarrow> board_of (set_lease i k d) = board_of d"
  by (simp_all add: board_of_def map_option_upd_row)

text \<open>A live lease of a consistent ledger, with the three rows behind it.\<close>

lemma live_lease_rows:
  assumes "assignment_ok d" "get_lease i d = Some l" "l_active l"
  obtains j a w where "get_job (l_job_id l) d = Some j" "get_attempt (l_attempt_id l) d = Some a"
    "get_worker_row (l_worker_id l) d = Some w" "executing (j_status j)"
    "j_current_attempt_id j = Some (l_attempt_id l)" "j_worker_id j = Some (l_worker_id l)"
    "a_job_id a = l_job_id l" "a_worker_id a = l_worker_id l" "a_finished_at a = None"
    "a_telemetry_log_count a = None" "a_telemetry_metric_count a = None"
    "a_status a = j_status j" "w_current_job_id w = Some (l_job_id l)" "w_is_active w"
    "w_pending_token_hash w = None" "l_released_at l = None"
proof -
  have live: "live (board_of d) i (held_of l)"
    using assms by (simp add: live_def board_of_def slot_defs)
  have "backed (board_of d) (held_of l)" "held_live (held_of l) = held_unreleased (held_of l)"
    using board_okD(1,3) [OF assignment_okD(2) [OF assms(1)]] live by (auto simp: live_def)
  then show thesis
    using that assms(3) by (auto simp: board_of_def slot_defs elim!: backedE)
qed


text \<open>An unfinished attempt is covered by the live lease that names it, and by no other.\<close>

lemma open_attempt_live:
  assumes "assignment_ok d" "get_lease i d = Some l" "get_attempt (l_attempt_id l) d = Some a"
    "a_finished_at a = None"
  shows "l_active l"
proof -
  let ?b = "board_of d"
  have ok: "board_ok ?b" using assms(1) by (rule assignment_okD)
  have "board_attempts ?b (l_attempt_id l) = Some (run_of a)" "run_open (run_of a)"
    using assms by (simp_all add: board_of_def slot_defs)
  then obtain m h where m: "live ?b m h" "held_attempt h = l_attempt_id l"
    using board_okD(7) [OF ok] by blast
  have "board_leases ?b i = Some (held_of l)" using assms(2) by (simp add: board_of_def)
  then have "m = i" using board_okD(6) [OF ok, of m h i "held_of l"] m
    by (simp add: live_def slot_defs)
  then show ?thesis using m \<open>board_leases ?b i = Some (held_of l)\<close> by (auto simp: live_def slot_defs)
qed

text \<open>
  Closing an assignment: the four rows of a live lease are written so that the attempt ends with a
  terminal status. The job either keeps that status or, after a failure, goes back to the queue.
\<close>

lemma implements_finish:
  assumes ok: "assignment_ok d" and lease: "get_lease i d = Some l" "l_active l"
    and rows: "get_job (l_job_id l) d = Some j" "get_attempt (l_attempt_id l) d = Some a"
      "get_worker_row (l_worker_id l) d = Some w"
    and keys: "\<And>r. j_id (fj r) = j_id r" "\<And>r. a_id (fa r) = a_id r" "\<And>r. l_id (fl r) = l_id r"
      "\<And>r. w_id (fw r) = w_id r"
    and tables: "jobs d' = upd_row j_id (l_job_id l) fj (jobs d)"
      "job_attempts d' = upd_row a_id (l_attempt_id l) fa (job_attempts d)"
      "job_leases d' = upd_row l_id i fl (job_leases d)"
      "workers d' = upd_row w_id (l_worker_id l) fw (workers d)"
    and t: "terminal t" "t \<in> set (ALLOWED_JOB_TRANSITIONS (j_status j))"
    and job: "slot_of (fj j) = (slot_of j)\<lparr>slot_status := t\<rparr> \<or> t = FAILED \<and> j_status (fj j) = QUEUED"
    and attempt: "run_of (fa a) = (run_of a)\<lparr>run_status := t, run_open := False, run_unsealed := u\<rparr>"
    and closed: "held_of (fl l) = (held_of l)\<lparr>held_live := False, held_unreleased := False\<rparr>"
    and idle: "seat_of (fw w) = (seat_of w)\<lparr>seat_job := None\<rparr>"
  shows "implements d d'"
proof -
  let ?b = "board_of d" and ?h = "held_of l"
  let ?c = "\<lparr>board_jobs = (board_jobs ?b)(held_job ?h \<mapsto> (slot_of j)\<lparr>slot_status := t\<rparr>),
        board_attempts = (board_attempts ?b)
          (held_attempt ?h \<mapsto> (run_of a)\<lparr>run_status := t, run_open := False, run_unsealed := u\<rparr>),
        board_leases = (board_leases ?b)
          (i \<mapsto> ?h\<lparr>held_live := False, held_unreleased := False\<rparr>),
        board_workers = (board_workers ?b)(held_worker ?h \<mapsto> (seat_of w)\<lparr>seat_job := None\<rparr>)\<rparr>"
  have board: "board_of d' = ?c\<lparr>board_jobs := (board_jobs ?c)(l_job_id l \<mapsto> slot_of (fj j))\<rparr>"
    using rows lease(1) attempt closed idle
    by (auto simp: board_of_def tables get_row_upd_row keys held_of_def fun_eq_iff)
  have first: "board_step ?b ?c"
    by (rule board_step.finish) (use lease rows t in \<open>simp_all add: board_of_def slot_defs\<close>)
  have "board_step\<^sup>*\<^sup>* ?c (board_of d')"
    using job
  proof
    assume "slot_of (fj j) = (slot_of j)\<lparr>slot_status := t\<rparr>"
    then have "board_of d' = ?c" unfolding board by (simp add: held_of_def)
    then show ?thesis by simp
  next
    assume q: "t = FAILED \<and> j_status (fj j) = QUEUED"
    let ?r = "\<lparr>slot_status = RETRYING, slot_attempt = None, slot_worker = None\<rparr>"
    let ?e = "?c\<lparr>board_jobs := (board_jobs ?c)(l_job_id l \<mapsto> ?r)\<rparr>"
    have slot: "slot_of (fj j) = \<lparr>slot_status = QUEUED, slot_attempt = slot_attempt (slot_of (fj j)),
        slot_worker = slot_worker (slot_of (fj j))\<rparr>"
      using q by (simp add: slot_of_def)
    have "board_step ?c ?e"
      by (rule board_step.wait [of _ _ "(slot_of j)\<lparr>slot_status := t\<rparr>"])
        (use q in \<open>simp_all add: executing_simps held_of_def\<close>)
    moreover have "board_of d' = ?e\<lparr>board_jobs := (board_jobs ?e)(l_job_id l \<mapsto> slot_of (fj j))\<rparr>"
      unfolding board by simp
    moreover have "board_step ?e (?e\<lparr>board_jobs := (board_jobs ?e)(l_job_id l \<mapsto> slot_of (fj j))\<rparr>)"
      by (subst slot, rule board_step.wait [of _ _ ?r]) (simp_all add: executing_simps)
    ultimately show ?thesis by auto
  qed
  with first have "board_step\<^sup>*\<^sup>* ?b (board_of d')" by (rule converse_rtranclp_into_rtranclp)
  moreover have "keys_ok d'"
    using assignment_okD(1) [OF ok] by (simp add: keys_ok_def tables keys)
  ultimately show ?thesis by (simp add: implements_def)
qed

end
