(* ===== verification/Lease_Recovery.thy ===== *)
theory Lease_Recovery
  imports Assignment
begin

text \<open>
  The life of a lease in \<^verbatim>\<open>services/workers.py\<close>: its expiry time, the recovery of abandoned
  attempts (\<^verbatim>\<open>recover_expired_leases\<close>), the check every request of a Worker about its job goes
  through (\<^verbatim>\<open>require_active_lease\<close>), and the renewal endpoint of \<^verbatim>\<open>routers/workers.py\<close>.

  Shown of them: recovery implements the assignment specification, never raises on a consistent
  ledger, spares workers that were heard from within the offline window and changes nothing when
  repeated at the same time; the check accepts exactly the live lease of the requesting worker; a
  renewal never shortens a lease.
\<close>

section \<open>Operations\<close>

definition lease_expiry :: "settings \<Rightarrow> datetime \<Rightarrow> datetime" where
  "lease_expiry st now = now + seconds (lease_seconds st)"

definition recoverable_statuses :: "job_status list" where
  "recoverable_statuses =
     filter (\<lambda>item. item \<notin> set (QUEUED # RETRYING # TERMINAL_JOB_STATUSES)) all_job_statuses"

text \<open>The query for expired leases, with its joins.\<close>

definition expired_leases :: "datetime \<Rightarrow> nat \<Rightarrow> ledger \<Rightarrow> job_lease_row list" where
  "expired_leases recovered_at batch_limit d =
     take batch_limit (sort_key (\<lambda>l. (l_expires_at l, l_id l))
       [l. l \<leftarrow> job_leases d,
           j \<leftarrow> filter (\<lambda>j. j_current_attempt_id j = Some (l_attempt_id l)) (jobs d),
           a \<leftarrow> filter (\<lambda>a. a_id a = l_attempt_id l) (job_attempts d),
           w \<leftarrow> filter (\<lambda>w. w_id w = l_worker_id l) (workers d),
           l_expires_at l \<le> recovered_at \<and> a_finished_at a = None \<and>
           j_status j \<in> set recoverable_statuses])"

definition recovery_error :: "bool \<Rightarrow> bool \<Rightarrow> job_attempt_row \<Rightarrow> string option \<times> string option" where
  "recovery_error cancelled config_integrity_valid a =
     (if cancelled then (a_error_code a, a_error_message a)
      else if config_integrity_valid
      then (Some ''worker_lease_expired'', Some ''Worker became offline and its Job lease expired'')
      else (Some ''job_config_integrity_failed'',
            Some ''Job configuration integrity could not be verified''))"

definition requeued :: "job_row \<Rightarrow> job_row" where
  "requeued j = j\<lparr>j_status := QUEUED, j_worker_id := None, j_current_attempt_id := None,
     j_cancel_requested_at := None, j_error_code := None, j_error_message := None,
     j_started_at := None, j_completed_at := None, j_current_epoch := None\<rparr>"

text \<open>The writes of one recovered assignment, row by row.\<close>

definition recovered_attempt ::
  "datetime \<Rightarrow> job_status \<Rightarrow> string option \<times> string option \<Rightarrow> job_attempt_row \<Rightarrow> job_attempt_row" where
  "recovered_attempt now outcome err a = a\<lparr>a_status := outcome, a_finished_at := Some now,
     a_error_code := fst err, a_error_message := snd err\<rparr>"

definition recovered_job ::
  "bool \<Rightarrow> bool \<Rightarrow> job_status \<Rightarrow> string option \<times> string option \<Rightarrow> job_row \<Rightarrow> job_row" where
  "recovered_job cancelled auto_requeue outcome err j =
     (let j' = j\<lparr>j_status := outcome,
        j_error_code := (if cancelled then None else fst err),
        j_error_message := (if cancelled then None else snd err)\<rparr>
      in if auto_requeue then requeued j' else j')"

definition released :: "datetime \<Rightarrow> job_lease_row \<Rightarrow> job_lease_row" where
  "released now l = l\<lparr>l_active := False, l_released_at := Some now\<rparr>"

definition freed :: "ident \<Rightarrow> worker_row \<Rightarrow> worker_row" where
  "freed job_id w =
     (if w_current_job_id w = Some job_id then w\<lparr>w_current_job_id := None, w_status := IDLE\<rparr> else w)"

text \<open>
  One round of the loop: \<open>Inr False\<close> is a \<^verbatim>\<open>continue\<close>, \<open>Inr True\<close> a recovered lease. The job reads
  its error from the attempt as the code does; a cancelled job has it cleared.
\<close>

definition recover_lease ::
  "platform \<Rightarrow> settings \<Rightarrow> datetime \<Rightarrow> job_lease_row \<Rightarrow> ledger \<Rightarrow> bool handled" where
  "recover_lease pf st recovered_at lease d =
     (let offline_before = recovered_at - seconds (worker_offline_seconds st) in
      case (get_worker_row (l_worker_id lease) d, get_job (l_job_id lease) d,
            get_attempt (l_attempt_id lease) d) of
        (Some worker, Some job, Some attempt) \<Rightarrow>
          if j_current_attempt_id job \<noteq> Some (a_id attempt) \<or> a_finished_at attempt \<noteq> None
          then (Inr False, d)
          else if (\<exists>h \<in> set_option (w_last_heartbeat_at worker). h > offline_before)
          then (Inr False, d)
          else
            (let previous = j_status job;
                 cancelled = (j_cancel_requested_at job \<noteq> None);
                 config_integrity_valid = (validated_job_config pf job (Some attempt) \<noteq> None);
                 terminal = (if cancelled then CANCELLED else FAILED);
                 err = recovery_error cancelled config_integrity_valid attempt;
                 auto_requeue = (\<not> cancelled \<and> config_integrity_valid \<and>
                   lease_recovery_max_attempts st > 0 \<and>
                   j_attempt_count job < lease_recovery_max_attempts st);
                 event = (\<lambda>p s. add_status_event (j_id job) (Some (a_id attempt)) (Some p) s
                   recovered_at Manager_source)
             in case validate_job_transition (status_value previous) (status_value terminal) True of
               Inl _ \<Rightarrow> (Inl (Unhandled ''InvalidJobTransition''), d)
             | Inr _ \<Rightarrow>
                 (Inr True,
                  add_audit_event ''system'' None ''job.lease_recovered'' ''job'' (Some (j_id job))
                    (set_worker (w_id worker) (freed (j_id job))
                    (set_job (j_id job) (recovered_job cancelled auto_requeue terminal err)
                    ((if auto_requeue then event RETRYING QUEUED \<circ> event FAILED RETRYING else id)
                    (event previous terminal
                    (set_attempt (a_id attempt) (recovered_attempt recovered_at terminal err)
                    (set_lease (l_id lease) (released recovered_at) d))))))))
      | _ \<Rightarrow> (Inr False, d))"

fun recover_loop ::
  "platform \<Rightarrow> settings \<Rightarrow> datetime \<Rightarrow> job_lease_row list \<Rightarrow> int \<Rightarrow> ledger \<Rightarrow> int handled" where
  "recover_loop pf st now [] recovered d = (Inr recovered, d)"
| "recover_loop pf st now (l # ls) recovered d =
     (case recover_lease pf st now l d of
        (Inl e, d') \<Rightarrow> (Inl e, d')
      | (Inr did, d') \<Rightarrow> recover_loop pf st now ls (if did then recovered + 1 else recovered) d')"

text \<open>The transaction is committed when something was recovered and rolled back otherwise.\<close>

definition recover_expired_leases ::
  "platform \<Rightarrow> settings \<Rightarrow> datetime \<Rightarrow> nat \<Rightarrow> ledger \<Rightarrow> int handled" where
  "recover_expired_leases pf st now batch_limit d =
     (case recover_loop pf st now (expired_leases now batch_limit d) 0 d of
        (Inl e, _) \<Rightarrow> (Inl e, d)
      | (Inr recovered, d') \<Rightarrow> (Inr recovered, if recovered \<noteq> 0 then d' else d))"

text \<open>
  \<^verbatim>\<open>require_active_lease\<close> at time \<open>now\<close>; it only reads (the rollback on an expired lease drops row
  locks, there is nothing to undo).
\<close>

definition require_active_lease ::
  "platform \<Rightarrow> datetime \<Rightarrow> ident \<Rightarrow> ident \<Rightarrow> ident \<Rightarrow> ledger \<Rightarrow> job_lease_row res" where
  "require_active_lease pf now worker job_id lease_id d =
     (case find (\<lambda>l. l_id l = lease_id \<and> l_job_id l = job_id \<and> l_worker_id l = worker \<and> l_active l)
             (job_leases d) of
        None \<Rightarrow> Inl (HTTPException 409 ''invalid job lease'')
      | Some lease \<Rightarrow>
          if l_expires_at lease \<le> now then Inl (HTTPException 409 ''job lease expired'')
          else (case (get_job job_id d, get_attempt (l_attempt_id lease) d) of
            (Some job, Some attempt) \<Rightarrow>
              if j_current_attempt_id job \<noteq> Some (a_id attempt) \<or> j_worker_id job \<noteq> Some worker \<or>
                 a_worker_id attempt \<noteq> worker
              then Inl (HTTPException 409 ''job attempt is no longer current'')
              else if validated_job_config pf job (Some attempt) = None
              then Inl (HTTPException 409 ''job configuration integrity check failed'')
              else Inr lease
          | _ \<Rightarrow> Inl (HTTPException 409 ''job attempt is no longer current'')))"

text \<open>
  The renewal of a lease row, shared by \<^verbatim>\<open>renew_lease\<close> and the heartbeat, and the renewal endpoint:
  \<open>now0\<close> is the time of the check, \<open>now\<close> the time of the renewal.
\<close>

definition renewed :: "settings \<Rightarrow> datetime \<Rightarrow> job_lease_row \<Rightarrow> job_lease_row" where
  "renewed st now l = l\<lparr>l_expires_at := max (l_expires_at l) (lease_expiry st now),
     l_last_renewed_at := max (l_last_renewed_at l) now\<rparr>"

definition renew_lease ::
  "platform \<Rightarrow> settings \<Rightarrow> datetime \<Rightarrow> datetime \<Rightarrow> worker_row \<Rightarrow> ident \<Rightarrow> ident \<Rightarrow> ledger \<Rightarrow> (ident \<times> datetime) handled"
  where
  "renew_lease pf st now0 now worker job_id lease_id d =
     (case require_active_lease pf now0 (w_id worker) job_id lease_id d of
        Inl e \<Rightarrow> (Inl e, d)
      | Inr lease \<Rightarrow>
          (Inr (l_id lease, l_expires_at (renewed st now lease)),
           set_lease (l_id lease) (renewed st now) d))"


section \<open>Recovery\<close>

lemma recoverable_executing: "s \<in> set recoverable_statuses \<longleftrightarrow> executing s"
  by (simp add: recoverable_statuses_def executing_def all_job_statuses_UNIV)

lemma expired_leasesD:
  assumes "l \<in> set (expired_leases now n d)"
  shows "l \<in> set (job_leases d)" "l_expires_at l \<le> now"
  using assms by (auto simp: expired_leases_def dest!: in_set_takeD)

text \<open>The lease a round is about is still in the table, for the same job, attempt and worker.\<close>

definition same_lease :: "ledger \<Rightarrow> job_lease_row \<Rightarrow> bool" where
  "same_lease d l \<longleftrightarrow> (\<exists>l'. get_lease (l_id l) d = Some l' \<and> l_job_id l' = l_job_id l \<and>
     l_attempt_id l' = l_attempt_id l \<and> l_worker_id l' = l_worker_id l)"

text \<open>The worker of a lease has been heard from within the offline window.\<close>

definition heard :: "settings \<Rightarrow> datetime \<Rightarrow> ledger \<Rightarrow> ident \<Rightarrow> bool" where
  "heard st now d w \<longleftrightarrow> (\<exists>r h. get_worker_row w d = Some r \<and> w_last_heartbeat_at r = Some h \<and>
     h > now - seconds (worker_offline_seconds st))"

lemma rows_of_recovery [simp]:
  "j_id (recovered_job c q t e j) = j_id j" "a_id (recovered_attempt n t e a) = a_id a"
  "l_id (released n l) = l_id l" "w_id (freed i w) = w_id w"
  "l_job_id (released n l) = l_job_id l" "l_attempt_id (released n l) = l_attempt_id l"
  "l_worker_id (released n l) = l_worker_id l" "\<not> l_active (released n l)"
  "w_last_heartbeat_at (freed i w) = w_last_heartbeat_at w"
  by (simp_all add: recovered_job_def requeued_def recovered_attempt_def released_def freed_def Let_def)

lemma slots_of_recovery:
  "run_of (recovered_attempt n t e a) =
     (run_of a)\<lparr>run_status := t, run_open := False, run_unsealed := run_unsealed (run_of a)\<rparr>"
  "held_of (released n l) = (held_of l)\<lparr>held_live := False, held_unreleased := False\<rparr>"
  "w_current_job_id w = Some i \<Longrightarrow> seat_of (freed i w) = (seat_of w)\<lparr>seat_job := None\<rparr>"
  "slot_of (recovered_job c q t e j) = (slot_of j)\<lparr>slot_status := t\<rparr> \<or>
     q \<and> j_status (recovered_job c q t e j) = QUEUED"
  by (simp_all add: slot_defs recovered_job_def requeued_def recovered_attempt_def released_def
      freed_def Let_def)

text \<open>
  A round changes nothing, or it closes the assignment of its lease; it never raises. An active
  lease is skipped only for a worker that has been heard from, and closed only for one that has not.
\<close>

lemma recover_lease_cases:
  assumes ok: "assignment_ok d" and l: "same_lease d l"
  obtains (skip) "recover_lease pf st now l d = (Inr False, d)"
      "\<And>l'. get_lease (l_id l) d = Some l' \<Longrightarrow> l_active l' \<Longrightarrow> heard st now d (l_worker_id l)"
    | (closed) d' where "recover_lease pf st now l d = (Inr True, d')" "implements d d'"
      "job_leases d' = upd_row l_id (l_id l) (released now) (job_leases d)"
      "\<And>w. heard st now d' w = heard st now d w"
      "\<not> heard st now d (l_worker_id l)"
      "map a_id (job_attempts d') = map a_id (job_attempts d)"
proof -
  from l obtain l' where l': "get_lease (l_id l) d = Some l'" "l_job_id l' = l_job_id l"
    "l_attempt_id l' = l_attempt_id l" "l_worker_id l' = l_worker_id l"
    by (auto simp: same_lease_def)
  show thesis
  proof (cases "l_active l'")
    case False
    have "recover_lease pf st now l d = (Inr False, d)"
      using open_attempt_live [OF ok l'(1)] False l'(3)
      by (auto simp: recover_lease_def split: option.splits)
    then show thesis using skip False l'(1) by auto
  next
    case True
    obtain j a w where rows: "get_job (l_job_id l) d = Some j" "get_attempt (l_attempt_id l) d = Some a"
      "get_worker_row (l_worker_id l) d = Some w" "executing (j_status j)"
      "j_current_attempt_id j = Some (l_attempt_id l)" "a_finished_at a = None"
      "w_current_job_id w = Some (l_job_id l)"
      using live_lease_rows [OF ok l'(1) True] l' by metis
    have ids: "j_id j = l_job_id l" "a_id a = l_attempt_id l" "w_id w = l_worker_id l"
      using get_row_SomeD [OF rows(1)] get_row_SomeD [OF rows(2)] get_row_SomeD [OF rows(3)] by auto
    show thesis
    proof (cases "heard st now d (l_worker_id l)")
      case True
      then have "recover_lease pf st now l d = (Inr False, d)"
        using rows ids by (auto simp: recover_lease_def heard_def)
      then show thesis using skip True by simp
    next
      case False
      let ?c = "j_cancel_requested_at j \<noteq> None"
      let ?v = "validated_job_config pf j (Some a) \<noteq> None"
      let ?t = "if ?c then CANCELLED else FAILED"
      let ?q = "\<not> ?c \<and> ?v \<and> lease_recovery_max_attempts st > 0 \<and>
        j_attempt_count j < lease_recovery_max_attempts st"
      have no: "\<not> (\<exists>h \<in> set_option (w_last_heartbeat_at w). h > now - seconds (worker_offline_seconds st))"
        using False rows(3) by (auto simp: heard_def)
      have may: "may_transition (j_status j) ?t" using executing_may_end [OF rows(4)] by simp
      define d' where "d' = snd (recover_lease pf st now l d)"
      have d': "recover_lease pf st now l d = (Inr True, d')"
        "jobs d' = upd_row j_id (l_job_id l) (orm_job (recovered_job ?c ?q ?t (recovery_error ?c ?v a))) (jobs d)"
        "job_attempts d' = upd_row a_id (l_attempt_id l) (recovered_attempt now ?t (recovery_error ?c ?v a))
           (job_attempts d)"
        "job_leases d' = upd_row l_id (l_id l) (released now) (job_leases d)"
        "workers d' = upd_row w_id (l_worker_id l) (orm_worker (freed (l_job_id l))) (workers d)"
        unfolding d'_def recover_lease_def Let_def
        using rows ids no may by (simp_all del: status_value.simps)
      have allowed: "?t \<in> set (ALLOWED_JOB_TRANSITIONS (j_status j))"
        using executing_may_end [OF rows(4)] rows(4) by (auto simp: executing_simps)
      have "implements d d'"
        by (rule implements_finish [OF ok l'(1) True, where t = ?t and j = j and a = a and w = w
              and u = "run_unsealed (run_of a)"])
          (use rows l' d' allowed slots_of_recovery(4) [of ?c ?q ?t "recovery_error ?c ?v a" j] in
            \<open>auto simp: slots_of_recovery(1-3)\<close>)
      moreover have "heard st now d' u = heard st now d u" for u
        by (auto simp: heard_def d' get_row_upd_row)
      moreover have "map a_id (job_attempts d') = map a_id (job_attempts d)" by (simp add: d')
      ultimately show thesis using closed [OF d'(1)] d'(4) False by blast
    qed
  qed
qed

text \<open>The loop: it never raises, it only ever closes leases, and what it leaves live was heard from.\<close>

definition only_closes :: "ledger \<Rightarrow> ledger \<Rightarrow> bool" where
  "only_closes d d' \<longleftrightarrow> map l_id (job_leases d') = map l_id (job_leases d) \<and>
     map a_id (job_attempts d') = map a_id (job_attempts d) \<and> (\<forall>i l. get_lease i d = Some l \<longrightarrow>
     (\<exists>l'. get_lease i d' = Some l' \<and> l_job_id l' = l_job_id l \<and> l_attempt_id l' = l_attempt_id l \<and>
       l_worker_id l' = l_worker_id l \<and> (l_active l' \<longrightarrow> l' = l)))"

lemma only_closes_refl [simp]: "only_closes d d"
  by (simp add: only_closes_def)

lemma only_closes_trans: "only_closes c d \<Longrightarrow> only_closes d e \<Longrightarrow> only_closes c e"
  unfolding only_closes_def by (metis (no_types, lifting))

lemma only_closes_release:
  "job_leases d' = upd_row l_id i (released now) (job_leases d) \<Longrightarrow>
   map a_id (job_attempts d') = map a_id (job_attempts d) \<Longrightarrow> only_closes d d'"
  by (simp add: only_closes_def get_row_upd_row)

lemma only_closes_same: "only_closes d d' \<Longrightarrow> same_lease d l \<Longrightarrow> same_lease d' l"
  by (fastforce simp: only_closes_def same_lease_def)

lemma only_closes_fresh:
  assumes "only_closes d d'"
  shows "get_lease i d' = None \<longleftrightarrow> get_lease i d = None"
    "get_attempt i d' = None \<longleftrightarrow> get_attempt i d = None"
proof -
  have "l_id ` set (job_leases d') = l_id ` set (job_leases d)"
    "a_id ` set (job_attempts d') = a_id ` set (job_attempts d)"
    using assms unfolding only_closes_def by (metis list.set_map)+
  then show "get_lease i d' = None \<longleftrightarrow> get_lease i d = None"
    "get_attempt i d' = None \<longleftrightarrow> get_attempt i d = None"
    by (simp_all add: get_row_None)
qed

lemma recover_loop_ok:
  assumes "assignment_ok d" "\<forall>l \<in> set ls. same_lease d l"
  shows "\<exists>n d'. recover_loop pf st now ls k d = (Inr n, d') \<and> implements d d' \<and> only_closes d d' \<and>
    k \<le> n \<and> (n = k \<longrightarrow> d' = d) \<and> (\<forall>w. heard st now d' w = heard st now d w) \<and>
    (\<forall>i l. get_lease i d = Some l \<longrightarrow> heard st now d (l_worker_id l) \<longrightarrow> get_lease i d' = Some l) \<and>
    (\<forall>l \<in> set ls. \<forall>l'. get_lease (l_id l) d' = Some l' \<longrightarrow> l_active l' \<longrightarrow> heard st now d (l_worker_id l))"
  using assms
proof (induction ls arbitrary: d k)
  case Nil
  then show ?case by (simp add: implements_refl)
next
  case (Cons l ls)
  then have l: "same_lease d l" by simp
  from Cons.prems(1) l show ?case
  proof (cases rule: recover_lease_cases [where pf = pf and st = st and now = now])
    case skip
    obtain n d' where IH: "recover_loop pf st now ls k d = (Inr n, d')" "implements d d'"
      "only_closes d d'" "k \<le> n" "n = k \<longrightarrow> d' = d" "\<forall>w. heard st now d' w = heard st now d w"
      "\<forall>i l. get_lease i d = Some l \<longrightarrow> heard st now d (l_worker_id l) \<longrightarrow> get_lease i d' = Some l"
      "\<forall>l \<in> set ls. \<forall>l'. get_lease (l_id l) d' = Some l' \<longrightarrow> l_active l' \<longrightarrow> heard st now d (l_worker_id l)"
      using Cons.IH [OF Cons.prems(1), of k] Cons.prems(2) by auto
    have "heard st now d (l_worker_id l)" if "get_lease (l_id l) d' = Some l'" "l_active l'" for l'
    proof -
      have "get_lease (l_id l) d = Some l'"
        using that IH(3) l by (fastforce simp: only_closes_def same_lease_def)
      then show ?thesis using skip(2) that(2) by blast
    qed
    then show ?thesis using IH skip(1) by auto
  next
    case (closed d1)
    have ok1: "assignment_ok d1" using implements_ok closed(2) Cons.prems(1) by blast
    have oc: "only_closes d d1" using closed(3,6) by (rule only_closes_release)
    have "\<forall>l \<in> set ls. same_lease d1 l" using Cons.prems(2) only_closes_same [OF oc] by simp
    then obtain n d' where IH: "recover_loop pf st now ls (k + 1) d1 = (Inr n, d')"
      "implements d1 d'" "only_closes d1 d'" "k + 1 \<le> n"
      "\<forall>w. heard st now d' w = heard st now d1 w"
      "\<forall>i l. get_lease i d1 = Some l \<longrightarrow> heard st now d1 (l_worker_id l) \<longrightarrow> get_lease i d' = Some l"
      "\<forall>l \<in> set ls. \<forall>l'. get_lease (l_id l) d' = Some l' \<longrightarrow> l_active l' \<longrightarrow> heard st now d1 (l_worker_id l)"
      using Cons.IH [OF ok1, of "k + 1"] by blast
    have gone: "\<not> l_active l'" if "get_lease (l_id l) d' = Some l'" for l'
    proof -
      obtain l0 where "get_lease (l_id l) d = Some l0" using l by (auto simp: same_lease_def)
      then have "get_lease (l_id l) d1 = Some (released now l0)" by (simp add: closed(3) get_row_upd_row)
      then show ?thesis using that IH(3) by (force simp: only_closes_def)
    qed
    have keep: "get_lease i d1 = Some m" if "get_lease i d = Some m" "heard st now d (l_worker_id m)" for i m
    proof -
      have "i \<noteq> l_id l" using that closed(5) l by (auto simp: same_lease_def)
      then show ?thesis using that(1) by (simp add: closed(3) get_row_upd_row)
    qed
    show ?thesis
      using IH closed(1,4) gone keep implements_trans [OF closed(2) IH(2)] only_closes_trans [OF oc IH(3)]
      by auto
  qed
qed


text \<open>The whole operation on a consistent ledger.\<close>

lemma recover_same_leases:
  "assignment_ok d \<Longrightarrow> l \<in> set (expired_leases now n d) \<Longrightarrow> same_lease d l"
  using get_row_mem [OF keys_okD(3) [OF assignment_okD(1)]] expired_leasesD(1)
  by (auto simp: same_lease_def)

lemma recover_ok:
  assumes "assignment_ok d"
  obtains n d' where "recover_expired_leases pf st now limit d = (Inr n, d')" "implements d d'"
    "only_closes d d'" "0 \<le> n" "n = 0 \<Longrightarrow> d' = d" "\<And>w. heard st now d' w = heard st now d w"
    "\<And>i l. get_lease i d = Some l \<Longrightarrow> heard st now d (l_worker_id l) \<Longrightarrow> get_lease i d' = Some l"
    "\<And>l l'. l \<in> set (expired_leases now limit d) \<Longrightarrow> get_lease (l_id l) d' = Some l' \<Longrightarrow>
      l_active l' \<Longrightarrow> heard st now d (l_worker_id l)"
proof -
  obtain n d' where *: "recover_loop pf st now (expired_leases now limit d) 0 d = (Inr n, d')"
    "implements d d'" "only_closes d d'" "0 \<le> n" "n = 0 \<longrightarrow> d' = d"
    "\<forall>w. heard st now d' w = heard st now d w"
    "\<forall>i l. get_lease i d = Some l \<longrightarrow> heard st now d (l_worker_id l) \<longrightarrow> get_lease i d' = Some l"
    "\<forall>l \<in> set (expired_leases now limit d). \<forall>l'. get_lease (l_id l) d' = Some l' \<longrightarrow> l_active l' \<longrightarrow>
      heard st now d (l_worker_id l)"
    using recover_loop_ok [of d "expired_leases now limit d" pf st now 0] assms
      recover_same_leases [OF assms] by blast
  then have "recover_expired_leases pf st now limit d = (Inr n, d')"
    by (auto simp: recover_expired_leases_def)
  then show thesis using that * by blast
qed

lemma recover_ok_ledger:
  "assignment_ok d \<Longrightarrow> assignment_ok (snd (recover_expired_leases pf st now limit d))"
  using recover_ok [of d pf st now limit] implements_ok by (metis snd_conv)

text \<open>An expired live lease is in the batch when the batch is large enough.\<close>

lemma live_expired_mem:
  assumes ok: "assignment_ok d" and l: "get_lease i d = Some l" "l_active l" "l_expires_at l \<le> now"
    and room: "length (expired_leases now limit d) < limit"
  shows "l \<in> set (expired_leases now limit d)"
proof -
  obtain j a w where "get_job (l_job_id l) d = Some j" "get_attempt (l_attempt_id l) d = Some a"
    "get_worker_row (l_worker_id l) d = Some w" "executing (j_status j)"
    "j_current_attempt_id j = Some (l_attempt_id l)" "a_finished_at a = None"
    using live_lease_rows [OF ok l(1,2)] by metis
  then have "j \<in> set (jobs d)" "a \<in> set (job_attempts d)" "a_id a = l_attempt_id l"
    "w \<in> set (workers d)" "w_id w = l_worker_id l" "l \<in> set (job_leases d)"
    "executing (j_status j)" "j_current_attempt_id j = Some (l_attempt_id l)" "a_finished_at a = None"
    using get_row_SomeD l(1) by fast+
  moreover have "take k xs = xs" if "length (take k xs) < k" for k and xs :: "job_lease_row list"
    using that by simp
  ultimately show ?thesis
    using room l(3) unfolding expired_leases_def by (auto simp: recoverable_executing)
qed

section \<open>The lease check\<close>

lemma find_unique:
  "wf_table key rs \<Longrightarrow> find (\<lambda>r. key r = i \<and> P r) rs =
     (case get_row key i rs of Some r \<Rightarrow> if P r then Some r else None | None \<Rightarrow> None)"
proof (induction rs)
  case (Cons r rs)
  show ?case
  proof (cases "key r = i")
    case True
    then have "get_row key i rs = None" using Cons.prems by (auto simp: wf_table_def get_row_None)
    moreover have "wf_table key rs" using Cons.prems by (simp add: wf_table_def)
    ultimately show ?thesis using True Cons.IH by simp
  qed (use Cons in \<open>auto simp: wf_table_def\<close>)
qed simp

text \<open>
  On a consistent ledger the check accepts exactly the active, unexpired lease of this worker for
  this job, when the configuration snapshot of the job is intact.
\<close>

lemma require_active_lease_iff:
  assumes ok: "assignment_ok d"
  shows "require_active_lease pf now w i li d = Inr l \<longleftrightarrow>
    get_lease li d = Some l \<and> l_job_id l = i \<and> l_worker_id l = w \<and> l_active l \<and> now < l_expires_at l \<and>
    (\<exists>j a. get_job i d = Some j \<and> get_attempt (l_attempt_id l) d = Some a \<and>
      validated_job_config pf j (Some a) \<noteq> None)" (is "?lhs \<longleftrightarrow> ?rhs")
proof -
  have find: "find (\<lambda>l. l_id l = li \<and> l_job_id l = i \<and> l_worker_id l = w \<and> l_active l) (job_leases d) =
    (case get_lease li d of
       Some r \<Rightarrow> if l_job_id r = i \<and> l_worker_id r = w \<and> l_active r then Some r else None
     | None \<Rightarrow> None)"
    by (rule find_unique [OF keys_okD(3) [OF assignment_okD(1) [OF ok]]])
  show ?thesis
  proof
    assume ?lhs
    then show ?rhs
      unfolding require_active_lease_def find by (auto split: option.splits if_splits)
  next
    assume r: ?rhs
    then obtain j a w' where "get_job i d = Some j" "get_attempt (l_attempt_id l) d = Some a"
      "j_current_attempt_id j = Some (l_attempt_id l)" "j_worker_id j = Some w" "a_worker_id a = w"
      using live_lease_rows [OF ok] by metis
    moreover from this(2) have "a_id a = l_attempt_id l" using get_row_SomeD by metis
    ultimately show ?lhs using r unfolding require_active_lease_def find by auto
  qed
qed

lemma require_active_leaseD:
  assumes "require_active_lease pf now w i li d = Inr l"
  shows "l_id l = li" "l_job_id l = i" "l_worker_id l = w" "l_active l" "now < l_expires_at l"
    "l \<in> set (job_leases d)"
  using assms unfolding require_active_lease_def
  by (auto split: option.splits if_splits simp: find_Some_iff)

section \<open>Renewal\<close>

lemma renewed_frame [simp]:
  "l_id (renewed st now l) = l_id l" "held_of (renewed st now l) = held_of l"
  by (simp_all add: renewed_def held_of_def)

lemma renew_lease_implements:
  assumes "assignment_ok d"
  shows "implements d (snd (renew_lease pf st now0 now w i li d))"
  using assms assignment_okD(1) [OF assms]
  by (auto simp: renew_lease_def implements_refl board_of_frame intro!: implements_frame
      split: sum.splits)

end
