(* ===== verification/Test_Set_Transfer.thy ===== *)
theory Test_Set_Transfer
  imports Ledger
begin

text \<open>
  What a claim hands to a Worker besides the configuration: the documents of
  \<^verbatim>\<open>services/test_sets.py\<close> (manifest, sample plan, object keys) and the two verifications of
  \<^verbatim>\<open>services/workers.py\<close> that build transfer descriptors from ledger rows,
  \<^verbatim>\<open>verified_test_set_transfer\<close> and \<^verbatim>\<open>_verified_dataset_transfer\<close>.

  Shown of them: a descriptor is only made from a ready dataset or test set whose rows, stored
  objects, manifest and sample plan agree, and its paths name the claimed job and nothing else.
\<close>

section \<open>Documents and object keys\<close>

definition test_set_item_manifest_document :: "test_set_item_row \<Rightarrow> (string \<times> json) list" where
  "test_set_item_manifest_document i =
     [(''item_key'', JStr (i_item_key i)),
      (''display_name'', JStr (i_display_name i)),
      (''sort_order'', JInt (i_sort_order i)),
      (''filename'', JStr (i_item_key i @ ''.wav'')),
      (''original_filename'', JStr (i_original_filename i)),
      (''size_bytes'', JInt (i_size_bytes i)),
      (''sha256'', JStr (i_sha256 i)),
      (''mime_type'', JStr (i_mime_type i)),
      (''sample_rate_hz'', JInt (i_sample_rate_hz i)),
      (''channels'', JInt (i_channels i)),
      (''duration_seconds'', JFloat (i_duration_seconds i)),
      (''license_reference'', JStr (i_license_reference i)),
      (''provenance_reference'', JStr (i_provenance_reference i))]"

definition item_order :: "test_set_item_row \<Rightarrow> int \<times> string \<times> string" where
  "item_order i = (i_sort_order i, i_item_key i, i_id i)"

definition build_test_set_manifest_document :: "test_set_row \<Rightarrow> test_set_item_row list \<Rightarrow> json" where
  "build_test_set_manifest_document test_set items =
     (let ordered = sort_key item_order items in JObj
       [(''schema_version'', JInt 1),
        (''test_set'', JObj [(''name'', JStr (ts_name test_set)),
                             (''revision'', JInt (ts_revision test_set))]),
        (''items'', JList (map (\<lambda>item. JObj (test_set_item_manifest_document item)) ordered))])"

text \<open>\<open>None\<close> is the \<^verbatim>\<open>ValueError\<close> of \<^verbatim>\<open>canonical_sha256\<close> on a float that is not finite.\<close>

definition build_sample_plan_document ::
  "platform \<Rightarrow> test_set_row \<Rightarrow> test_set_item_row list \<Rightarrow> inference_preset_config \<Rightarrow> json option" where
  "build_sample_plan_document pf test_set items inference_config =
     (let ordered = sort_key item_order items;
          preset = dump_inference_preset_config inference_config in
      map_option (\<lambda>digest. JObj
       [(''schema_version'', JInt 1),
        (''test_set'', JObj [(''id'', JStr (ts_id test_set)),
                             (''family_id'', JStr (ts_family_id test_set)),
                             (''revision'', JInt (ts_revision test_set)),
                             (''manifest_sha256'', opt_str (ts_manifest_sha256 test_set))]),
        (''items'', JList (map (\<lambda>item. JObj ((''test_set_item_id'', JStr (i_id item)) #
                              test_set_item_manifest_document item)) ordered)),
        (''inference_config'', preset),
        (''inference_config_sha256'', JStr digest)])
      (canonical_sha256 (sha256 pf) (float_repr pf) preset))"

definition test_set_item_object_key :: "ident \<Rightarrow> ident \<Rightarrow> string" where
  "test_set_item_object_key test_set upload =
     ''test-sets/verified/'' @ test_set @ ''/items/'' @ upload @ ''.wav''"

definition test_set_manifest_object_key :: "ident \<Rightarrow> string" where
  "test_set_manifest_object_key test_set = ''test-sets/verified/'' @ test_set @ ''/manifest.json''"

text \<open>
  Equality of two JSON values in Python: numbers and booleans by numeric value, dictionaries
  regardless of item order.
\<close>

fun py_number :: "json \<Rightarrow> json" where
  "py_number (JBool b) = JFloat (FNum (if b then 1 else 0))"
| "py_number (JInt i) = JFloat (FNum (of_int i))"
| "py_number (JFloat x) = JFloat (if x = FNegZero then FNum 0 else x)"
| "py_number (JList xs) = JList (map py_number xs)"
| "py_number (JObj kvs) = JObj (map (\<lambda>kv. (fst kv, py_number (snd kv))) kvs)"
| "py_number j = j"

fun json_has_nan :: "json \<Rightarrow> bool" where
  "json_has_nan (JFloat x) = (x = FNaN)"
| "json_has_nan (JList xs) = list_ex json_has_nan xs"
| "json_has_nan (JObj kvs) = list_ex (\<lambda>kv. json_has_nan (snd kv)) kvs"
| "json_has_nan _ = False"

definition py_eq :: "json \<Rightarrow> json \<Rightarrow> bool" where
  "py_eq a b \<longleftrightarrow> \<not> json_has_nan a \<and> sort_items (py_number a) = sort_items (py_number b)"

text \<open>\<^verbatim>\<open>x < y\<close> on floats.\<close>

fun float_less :: "pyfloat \<Rightarrow> pyfloat \<Rightarrow> bool" where
  "float_less x FPosInf = (x \<noteq> FPosInf \<and> x \<noteq> FNaN)"
| "float_less x (FNum y) = (case x of FNum q \<Rightarrow> q < y | FNegZero \<Rightarrow> 0 < y | FNegInf \<Rightarrow> True | _ \<Rightarrow> False)"
| "float_less x FNegZero = (case x of FNum q \<Rightarrow> q < 0 | FNegInf \<Rightarrow> True | _ \<Rightarrow> False)"
| "float_less x _ = False"

section \<open>Verification against storage and rows\<close>

definition object_matches_exact_bytes ::
  "platform \<Rightarrow> claim_storage \<Rightarrow> string \<Rightarrow> string \<Rightarrow> int \<Rightarrow> bool" where
  "object_matches_exact_bytes pf storage object_key expected_bytes chunk_size =
     (case stream_object storage object_key chunk_size (int (length expected_bytes) + 1) of
        None \<Rightarrow> False
      | Some chunks \<Rightarrow> length (concat chunks) = length expected_bytes \<and>
          sha256 pf (concat chunks) = sha256 pf expected_bytes)"

definition resolved_inference_config :: "job_config \<Rightarrow> string + inference_preset_config" where
  "resolved_inference_config config =
     validate_inference_preset_config (inference (auto_inference_samples config))"

definition upload_matches_test_set_item ::
  "test_set_item_upload_session \<Rightarrow> test_set_item_row \<Rightarrow> claim_storage \<Rightarrow> bool" where
  "upload_matches_test_set_item upload item storage =
     (let expected_key = test_set_item_object_key (i_test_set_id item) (tu_id upload) in
      case storage_uri storage expected_key of
        None \<Rightarrow> False
      | Some expected_uri \<Rightarrow>
          tu_status upload = ''completed'' \<and>
          tu_test_set_id upload = i_test_set_id item \<and>
          tu_item_key upload = i_item_key item \<and>
          tu_display_name upload = i_display_name item \<and>
          tu_sort_order upload = i_sort_order item \<and>
          tu_filename upload = i_original_filename item \<and>
          tu_content_type upload = i_mime_type item \<and> i_mime_type item = ''audio/wav'' \<and>
          tu_expected_size_bytes upload = i_size_bytes item \<and>
          tu_expected_sha256 upload = i_sha256 item \<and>
          tu_license_reference upload = i_license_reference item \<and>
          tu_provenance_reference upload = i_provenance_reference item \<and>
          tu_canonical_object_key upload = expected_key \<and>
          tu_storage_backend upload = backend storage \<and>
          tu_storage_namespace_sha256 upload = namespace_fingerprint storage \<and>
          i_storage_uri item = expected_uri)"

text \<open>The descriptor of one item, for the claimed job.\<close>

definition item_descriptor :: "ident \<Rightarrow> test_set_item_row \<Rightarrow> test_set_transfer_item" where
  "item_descriptor job_id item =
     \<lparr>ti_test_set_item_id = i_id item, ti_item_key = i_item_key item,
      ti_sort_order = i_sort_order item,
      ti_download_path = jobs_path @ job_id @ ''/test-set/items/'' @ i_id item,
      ti_filename = i_id item @ ''.wav'', ti_size_bytes = i_size_bytes item,
      ti_sha256 = i_sha256 item, ti_sample_rate_hz = i_sample_rate_hz item,
      ti_channels = i_channels item, ti_duration_seconds = i_duration_seconds item\<rparr>"

text \<open>
  The items with their uploads: \<open>Inr None\<close> when an item has no matching upload, an error when a
  descriptor does not validate.
\<close>

fun item_descriptors ::
  "claim_storage \<Rightarrow> ident \<Rightarrow> test_set_item_upload_session list \<Rightarrow> test_set_item_row list \<Rightarrow> test_set_transfer_item list option res"
  where
  "item_descriptors storage job_id uploads [] = Inr (Some [])"
| "item_descriptors storage job_id uploads (item # items) =
     (case find (\<lambda>u. tu_item_key u = i_item_key item) uploads of
        None \<Rightarrow> Inr None
      | Some selected_upload \<Rightarrow>
          if \<not> upload_matches_test_set_item selected_upload item storage then Inr None
          else (case validate_item_descriptor (item_descriptor job_id item) of
            Inl _ \<Rightarrow> Inl (Unhandled ''ValidationError'')
          | Inr t \<Rightarrow> res_bind (item_descriptors storage job_id uploads items)
              (\<lambda>ts. Inr (map_option (\<lambda>ts. t # ts) ts))))"

definition items_of :: "ident \<Rightarrow> ledger \<Rightarrow> test_set_item_row list" where
  "items_of test_set d =
     sort_key item_order (filter (\<lambda>i. i_test_set_id i = test_set) (test_set_items d))"

definition completed_uploads :: "ident \<Rightarrow> ledger \<Rightarrow> test_set_item_upload_session list" where
  "completed_uploads test_set d =
     filter (\<lambda>u. tu_test_set_id u = test_set \<and> tu_status u = ''completed'')
       (test_set_item_upload_sessions d)"

text \<open>Everything before the uploads are looked at: the snapshot of the job is the test set's.\<close>

definition snapshot_matches ::
  "platform \<Rightarrow> settings \<Rightarrow> claim_storage \<Rightarrow> job_row \<Rightarrow> job_config \<Rightarrow> test_set_row \<Rightarrow> test_set_item_row list \<Rightarrow> bool res"
  where
  "snapshot_matches pf st storage job config test_set items =
     (if int (length items) \<noteq> ts_item_count test_set \<or>
         int (length items) > test_set_max_items st \<or>
         sum_list (map i_size_bytes items) > test_set_max_total_bytes st \<or>
         float_less (test_set_max_total_duration_seconds st)
           (fsum pf (map i_duration_seconds items))
      then Inr False
      else case resolved_inference_config config of
        Inl _ \<Rightarrow> Inl (Unhandled ''ValidationError'')
      | Inr preset \<Rightarrow>
          (case canonical_json (float_repr pf) (build_test_set_manifest_document test_set items) of
             None \<Rightarrow> Inl (Unhandled ''ValueError'')
           | Some manifest_bytes \<Rightarrow>
               if Some (sha256 pf manifest_bytes) \<noteq> ts_manifest_sha256 test_set then Inr False
               else if storage_uri storage (test_set_manifest_object_key (ts_id test_set)) = None \<or>
                 ts_manifest_storage_uri test_set \<noteq>
                   storage_uri storage (test_set_manifest_object_key (ts_id test_set))
               then Inr False
               else if \<not> object_matches_exact_bytes pf storage
                 (test_set_manifest_object_key (ts_id test_set)) manifest_bytes
                 (artifact_stream_chunk_bytes st)
               then Inr False
               else (case build_sample_plan_document pf test_set items preset of
                 None \<Rightarrow> Inl (Unhandled ''ValueError'')
               | Some plan \<Rightarrow>
                   (case canonical_sha256 (sha256 pf) (float_repr pf) plan of
                      None \<Rightarrow> Inl (Unhandled ''ValueError'')
                    | Some plan_sha256 \<Rightarrow>
                        Inr ((\<exists>p \<in> set_option (j_sample_plan_json job). py_eq plan p) \<and>
                             Some plan_sha256 = j_sample_plan_sha256 job)))))"

definition verified_test_set_transfer ::
  "platform \<Rightarrow> settings \<Rightarrow> claim_storage \<Rightarrow> job_row \<Rightarrow> job_config \<Rightarrow> ledger \<Rightarrow> test_set_transfer option res"
  where
  "verified_test_set_transfer pf st storage job config d =
     (let sample = auto_inference_samples config in
      if \<not> enabled sample \<or> test_set_id sample = None \<or> j_test_set_id job \<noteq> test_set_id sample \<or>
         j_sample_plan_json job = None \<or> j_sample_plan_sha256 job = None
      then Inr None
      else case get_test_set (the (j_test_set_id job)) d of
        None \<Rightarrow> Inr None
      | Some test_set \<Rightarrow>
          if ts_status test_set \<noteq> ''ready'' \<or> ts_manifest_sha256 test_set = None \<or>
             ts_manifest_storage_uri test_set = None \<or> ts_item_count test_set < 1
          then Inr None
          else
            (let items = items_of (ts_id test_set) d;
                 uploads = completed_uploads (ts_id test_set) d in
             res_bind (snapshot_matches pf st storage job config test_set items) (\<lambda>matches.
             if \<not> matches \<or> length uploads \<noteq> length items \<or> \<not> distinct (map tu_item_key uploads)
             then Inr None
             else res_bind (item_descriptors storage (j_id job) uploads items) (\<lambda>descriptors.
             case (descriptors, resolved_inference_config config) of
               (Some items, Inr preset) \<Rightarrow>
                 (case canonical_sha256 (sha256 pf) (float_repr pf)
                         (dump_inference_preset_config preset) of
                    None \<Rightarrow> Inl (Unhandled ''ValueError'')
                  | Some digest \<Rightarrow>
                      (case validate_snapshot pf
                          \<lparr>tt_test_set_id = ts_id test_set, tt_family_id = ts_family_id test_set,
                           tt_revision = ts_revision test_set,
                           tt_manifest_sha256 = the (ts_manifest_sha256 test_set),
                           tt_sample_plan_sha256 = the (j_sample_plan_sha256 job),
                           tt_inference_config = preset, tt_inference_config_sha256 = digest,
                           tt_items = items\<rparr> of
                         Inl _ \<Rightarrow> Inl (Unhandled ''ValidationError'')
                       | Inr t \<Rightarrow> Inr (Some t)))
             | _ \<Rightarrow> Inr None))))"

text \<open>\<^verbatim>\<open>dataset_ready_for_training\<close> of \<^verbatim>\<open>services/datasets.py\<close>.\<close>

definition dataset_ready_for_training :: "dataset_row \<Rightarrow> bool" where
  "dataset_ready_for_training dataset \<longleftrightarrow>
     d_is_usable dataset \<and> d_status dataset \<in> {''ready'', ''legacy_imported''} \<and>
     d_flat_storage_uri dataset \<noteq> None"

text \<open>
  The latest completed upload of a dataset: \<^verbatim>\<open>ORDER BY finalized_at DESC, generation DESC LIMIT 1\<close>,
  where PostgreSQL puts a missing time first.
\<close>

definition latest_dataset_upload :: "ident \<Rightarrow> ledger \<Rightarrow> dataset_upload_session option" where
  "latest_dataset_upload dataset d =
     (case sort_key (\<lambda>u. (case du_finalized_at u of None \<Rightarrow> (0 :: int, 0) | Some t \<Rightarrow> (1, - t), - du_generation u))
        (filter (\<lambda>u. du_dataset_id u = dataset \<and> du_status u = ''completed'')
          (dataset_upload_sessions d)) of
        [] \<Rightarrow> None
      | u # _ \<Rightarrow> Some u)"

definition verified_dataset_transfer ::
  "settings \<Rightarrow> claim_storage \<Rightarrow> ident \<Rightarrow> dataset_row \<Rightarrow> ledger \<Rightarrow> dataset_transfer option res" where
  "verified_dataset_transfer st storage job_id dataset d =
     (case (d_prepared_flat_size_bytes dataset, d_prepared_flat_sha256 dataset) of
        (Some bytes, Some digest) \<Rightarrow>
          if d_status dataset \<noteq> ''ready'' \<or> \<not> d_is_usable dataset \<or> bytes \<le> 0 then Inr None
          else (case latest_dataset_upload (d_id dataset) d of
            None \<Rightarrow> Inr None
          | Some upload \<Rightarrow>
              if du_storage_backend upload \<noteq> resolved_storage_backend st \<or>
                 du_storage_backend upload \<noteq> backend storage \<or>
                 du_storage_namespace_sha256 upload \<noteq> namespace_fingerprint storage
              then Inr None
              else if storage_uri storage (du_prepared_flat_object_key upload) = None \<or>
                d_flat_storage_uri dataset \<noteq> storage_uri storage (du_prepared_flat_object_key upload)
              then Inr None
              else (case validate_dataset_transfer
                  \<lparr>dt_dataset_id = d_id dataset,
                   dt_download_path = jobs_path @ job_id @ ''/dataset'',
                   dt_size_bytes = bytes, dt_sha256 = digest\<rparr> of
                Inl _ \<Rightarrow> Inl (Unhandled ''ValidationError'')
              | Inr t \<Rightarrow> Inr (Some t)))
      | _ \<Rightarrow> Inr None)"


section \<open>What a descriptor guarantees\<close>

lemma sort_key_hd_mem: "sort_key f xs = u # ys \<Longrightarrow> u \<in> set xs"
  by (metis list.set_intros(1) set_sort)

lemma latest_dataset_upload_mem:
  "latest_dataset_upload i d = Some u \<Longrightarrow>
   u \<in> set (dataset_upload_sessions d) \<and> du_dataset_id u = i \<and> du_status u = ''completed''"
  by (auto simp: latest_dataset_upload_def split: list.splits dest: sort_key_hd_mem)

lemma verified_dataset_transferD:
  assumes "verified_dataset_transfer st storage i ds d = Inr (Some t)"
  shows "d_status ds = ''ready''" "d_is_usable ds" "dt_dataset_id t = d_id ds"
    "dt_download_path t = jobs_path @ i @ ''/dataset''"
    "d_prepared_flat_size_bytes ds = Some (dt_size_bytes t)" "0 < dt_size_bytes t"
    "d_prepared_flat_sha256 ds = Some (dt_sha256 t)" "validate_dataset_transfer t = Inr t"
    "\<exists>u. latest_dataset_upload (d_id ds) d = Some u \<and> du_storage_backend u = backend storage \<and>
       du_storage_namespace_sha256 u = namespace_fingerprint storage \<and>
       d_flat_storage_uri ds = storage_uri storage (du_prepared_flat_object_key u)"
proof -
  have v: "validate_dataset_transfer x = Inr y \<Longrightarrow> y = x" for x y
    using validated_dataset_path(1) .
  show "d_status ds = ''ready''" "d_is_usable ds" "dt_dataset_id t = d_id ds"
    "dt_download_path t = jobs_path @ i @ ''/dataset''"
    "d_prepared_flat_size_bytes ds = Some (dt_size_bytes t)" "0 < dt_size_bytes t"
    "d_prepared_flat_sha256 ds = Some (dt_sha256 t)" "validate_dataset_transfer t = Inr t"
    "\<exists>u. latest_dataset_upload (d_id ds) d = Some u \<and> du_storage_backend u = backend storage \<and>
       du_storage_namespace_sha256 u = namespace_fingerprint storage \<and>
       d_flat_storage_uri ds = storage_uri storage (du_prepared_flat_object_key u)"
    using assms
    by (auto simp: verified_dataset_transfer_def split: option.splits if_splits sum.splits dest: v)
qed

lemma item_descriptorsD:
  assumes "item_descriptors storage i us items = Inr (Some ts)"
  shows "ts = map (item_descriptor i) items \<and> (\<forall>item \<in> set items. \<exists>u \<in> set us.
    upload_matches_test_set_item u item storage)"
  using assms
proof (induction items arbitrary: ts)
  case (Cons item items)
  then obtain u where u: "find (\<lambda>u. tu_item_key u = i_item_key item) us = Some u"
    "upload_matches_test_set_item u item storage"
    by (auto split: option.splits if_splits)
  with Cons.prems obtain t where t: "validate_item_descriptor (item_descriptor i item) = Inr t"
    by (auto split: sum.splits)
  with Cons.prems u obtain ts' where ts': "item_descriptors storage i us items = Inr (Some ts')"
    "ts = t # ts'" by auto
  have "t = item_descriptor i item" using t by (simp add: validate_item_descriptor_def)
  moreover have "u \<in> set us" using u(1) by (auto simp: find_Some_iff)
  ultimately show ?case using Cons.IH [OF ts'(1)] ts'(2) u(2) by auto
qed simp

lemma verified_test_set_transferE:
  assumes "verified_test_set_transfer pf st storage job config d = Inr (Some t)"
  obtains ts preset digest where "enabled (auto_inference_samples config)"
    "j_test_set_id job = Some (ts_id ts)" "get_test_set (ts_id ts) d = Some ts"
    "ts_status ts = ''ready''" "j_sample_plan_sha256 job \<noteq> None"
    "snapshot_matches pf st storage job config ts (items_of (ts_id ts) d) = Inr True"
    "item_descriptors storage (j_id job) (completed_uploads (ts_id ts) d) (items_of (ts_id ts) d) =
       Inr (Some (tt_items t))"
    "resolved_inference_config config = Inr preset" "validate_snapshot pf t = Inr t"
    "t = \<lparr>tt_test_set_id = ts_id ts, tt_family_id = ts_family_id ts, tt_revision = ts_revision ts,
       tt_manifest_sha256 = the (ts_manifest_sha256 ts),
       tt_sample_plan_sha256 = the (j_sample_plan_sha256 job), tt_inference_config = preset,
       tt_inference_config_sha256 = digest, tt_items = tt_items t\<rparr>"
proof -
  let ?s = "auto_inference_samples config"
  note [simp] = verified_test_set_transfer_def Let_def
  have pre: "\<not> (\<not> enabled ?s \<or> test_set_id ?s = None \<or> j_test_set_id job \<noteq> test_set_id ?s \<or>
      j_sample_plan_json job = None \<or> j_sample_plan_sha256 job = None)"
    using assms by (auto split: if_splits)
  then obtain i where i: "j_test_set_id job = Some i" by (cases "j_test_set_id job") auto
  from assms pre i obtain ts where ts: "get_test_set i d = Some ts" by (auto split: option.splits)
  then have id: "ts_id ts = i" using get_row_SomeD by fast
  let ?items = "items_of (ts_id ts) d" and ?us = "completed_uploads (ts_id ts) d"
  have ready: "\<not> (ts_status ts \<noteq> ''ready'' \<or> ts_manifest_sha256 ts = None \<or>
      ts_manifest_storage_uri ts = None \<or> ts_item_count ts < 1)"
    using assms pre i ts by (auto split: if_splits)
  from assms pre i ts ready obtain m where
    m: "snapshot_matches pf st storage job config ts ?items = Inr m" by auto
  from assms pre i ts ready m have ok: "m" "\<not> (length ?us \<noteq> length ?items \<or> \<not> distinct (map tu_item_key ?us))"
    by (auto split: if_splits)
  from assms pre i ts ready m ok obtain ds where
    ds: "item_descriptors storage (j_id job) ?us ?items = Inr ds" by auto
  from assms pre i ts ready m ok ds obtain items where items: "ds = Some items"
    by (auto split: option.splits)
  from assms pre i ts ready m ok ds items obtain preset where
    preset: "resolved_inference_config config = Inr preset" by (auto split: sum.splits)
  from assms pre i ts ready m ok ds items preset obtain digest where
    digest: "canonical_sha256 (sha256 pf) (float_repr pf) (dump_inference_preset_config preset) = Some digest"
    by (auto split: option.splits)
  let ?t = "\<lparr>tt_test_set_id = ts_id ts, tt_family_id = ts_family_id ts, tt_revision = ts_revision ts,
       tt_manifest_sha256 = the (ts_manifest_sha256 ts),
       tt_sample_plan_sha256 = the (j_sample_plan_sha256 job), tt_inference_config = preset,
       tt_inference_config_sha256 = digest, tt_items = items\<rparr>"
  from assms pre i ts ready m ok ds items preset digest have "validate_snapshot pf ?t = Inr t"
    by (auto split: sum.splits)
  moreover have "validate_snapshot pf x = Inr y \<Longrightarrow> y = x" for x y
    by (simp add: validate_snapshot_def)
  ultimately have t: "t = ?t" "validate_snapshot pf t = Inr t" by auto
  show thesis
    by (rule that [of ts preset digest]) (use pre i ts id ready m ok ds items preset t in simp_all)
qed

lemma verified_test_set_transferD:
  assumes "verified_test_set_transfer pf st storage job config d = Inr (Some t)"
  shows "enabled (auto_inference_samples config)" "j_test_set_id job = Some (tt_test_set_id t)"
    "\<exists>ts. get_test_set (tt_test_set_id t) d = Some ts \<and> ts_status ts = ''ready'' \<and>
       tt_items t = map (item_descriptor (j_id job)) (items_of (ts_id ts) d)"
    "j_sample_plan_sha256 job = Some (tt_sample_plan_sha256 t)"
    "validate_snapshot pf t = Inr t"
    "resolved_inference_config config = Inr (tt_inference_config t)"
proof -
  from assms obtain ts preset digest where v: "enabled (auto_inference_samples config)"
    "j_test_set_id job = Some (ts_id ts)" "get_test_set (ts_id ts) d = Some ts"
    "ts_status ts = ''ready''" "j_sample_plan_sha256 job \<noteq> None"
    "item_descriptors storage (j_id job) (completed_uploads (ts_id ts) d) (items_of (ts_id ts) d) =
       Inr (Some (tt_items t))"
    "resolved_inference_config config = Inr preset" "validate_snapshot pf t = Inr t"
    and t: "t = \<lparr>tt_test_set_id = ts_id ts, tt_family_id = ts_family_id ts, tt_revision = ts_revision ts,
       tt_manifest_sha256 = the (ts_manifest_sha256 ts),
       tt_sample_plan_sha256 = the (j_sample_plan_sha256 job), tt_inference_config = preset,
       tt_inference_config_sha256 = digest, tt_items = tt_items t\<rparr>"
    by (rule verified_test_set_transferE)
  have f: "tt_test_set_id t = ts_id ts" "tt_sample_plan_sha256 t = the (j_sample_plan_sha256 job)"
    "tt_inference_config t = preset" by (subst t, simp)+
  show "enabled (auto_inference_samples config)" "j_test_set_id job = Some (tt_test_set_id t)"
    "\<exists>ts. get_test_set (tt_test_set_id t) d = Some ts \<and> ts_status ts = ''ready'' \<and>
       tt_items t = map (item_descriptor (j_id job)) (items_of (ts_id ts) d)"
    "j_sample_plan_sha256 job = Some (tt_sample_plan_sha256 t)"
    "validate_snapshot pf t = Inr t"
    "resolved_inference_config config = Inr (tt_inference_config t)"
    using v f item_descriptorsD [OF v(6)] by auto
qed

end
