(* ===== verification/Claim.thy ===== *)
theory Claim
  imports Lease_Recovery Test_Set_Transfer
begin

text \<open>
  Claiming a job: \<^verbatim>\<open>worker_can_run\<close>, the quarantine of corrupt queued jobs and \<^verbatim>\<open>claim_job\<close> of
  \<^verbatim>\<open>services/workers.py\<close>, and the two endpoints \<^verbatim>\<open>/jobs/claim\<close> and \<^verbatim>\<open>/next-job\<close> of
  \<^verbatim>\<open>routers/workers.py\<close>.

  The loop over the candidates is split into what it decides for one job (\<open>claim_decision\<close>: the
  \<^verbatim>\<open>continue\<close>s, the quarantine and the offer) and what it does about it. Both compare-and-set
  updates are run against the ledger as it is, for whatever candidate rows were read before.

  Shown: a claim implements the assignment specification for arbitrary, possibly stale candidates;
  the job handed out is the first one in queue order that this worker can run; the claim that the
  Worker receives is validated and bound to its configuration hash.
\<close>

section \<open>Matching jobs and workers\<close>

definition worker_can_run ::
  "job_config \<Rightarrow> worker_capabilities \<Rightarrow> bool \<Rightarrow> (string \<times> string) list \<Rightarrow> bool" where
  "worker_can_run config capabilities allow_fake approved =
     (let is_fake = (engine_mode capabilities = FAKE);
          sample = auto_inference_samples config in
      if is_fake \<and> \<not> allow_fake then False
      else if \<not> is_fake \<and> rvc_commit_hash (rvc_backend config) \<noteq> None \<and>
        Some (cap_rvc_commit_hash capabilities) \<noteq> rvc_commit_hash (rvc_backend config) then False
      else if \<not> is_fake \<and> \<not> rvc_assets_ready capabilities then False
      else if version (model config) \<notin> set (supported_rvc_versions capabilities) then False
      else if (\<exists>method \<in> set_option (training_f0_method (f0_extraction config)).
        method \<notin> set (supported_training_f0_methods capabilities)) then False
      else if enabled sample \<and>
        (is_fake \<or> \<not> fixed_test_set_inference_ready capabilities \<or>
         inference_f0_method (inference sample) \<notin> set (supported_inference_f0_methods capabilities) \<or>
         runtime_image_digest capabilities = None \<or>
         runtime_asset_manifest_sha256 capabilities = None \<or>
         (the (runtime_image_digest capabilities),
          the (runtime_asset_manifest_sha256 capabilities)) \<notin> set approved) then False
      else if \<not> set (preferred_worker_tags (resource config)) \<subseteq> set (tags capabilities) then False
      else if \<not> float_is_zero (min_vram_gb (resource config)) \<and> \<not> is_fake \<and>
        \<not> (\<exists>gpu \<in> set (gpus capabilities).
             float_le (min_vram_gb (resource config)) (of_int (total_vram_mb gpu) / 1024)) then False
      else if \<not> is_fake \<and> length (gpus capabilities) < length (gpu_ids (training config)) then False
      else True)"

section \<open>Conditional updates of a job\<close>

text \<open>\<^verbatim>\<open>UPDATE jobs SET ... WHERE id = i AND ...\<close>; \<open>None\<close> when no row matched.\<close>

definition cas_job ::
  "ident \<Rightarrow> (job_row \<Rightarrow> bool) \<Rightarrow> (job_row \<Rightarrow> job_row) \<Rightarrow> ledger \<Rightarrow> ledger option" where
  "cas_job i matches f d =
     (case get_job i d of
        None \<Rightarrow> None
      | Some j \<Rightarrow> if matches j then Some (jobs_update (upd_row j_id i f) d) else None)"

definition quarantine_invalid_queued_job_config ::
  "datetime \<Rightarrow> job_row \<Rightarrow> ledger \<Rightarrow> bool \<times> ledger" where
  "quarantine_invalid_queued_job_config occurred_at job d =
     (case cas_job (j_id job)
         (\<lambda>j. j_status j = QUEUED \<and> j_row_version j = j_row_version job \<and> j_config_sha256 j \<noteq> None)
         (\<lambda>j. j\<lparr>j_status := FAILED, j_error_code := Some ''job_config_integrity_failed'',
                j_error_message := Some ''Job configuration integrity could not be verified'',
                j_row_version := j_row_version job + 1\<rparr>) d of
        None \<Rightarrow> (False, d)
      | Some d' \<Rightarrow>
          (True,
           add_audit_event ''system'' None ''job.config_integrity_quarantined'' ''job''
             (Some (j_id job))
             (add_status_event (j_id job) None (Some QUEUED) FAILED occurred_at Manager_source d')))"

definition claimed_job :: "datetime \<Rightarrow> ident \<Rightarrow> ident \<Rightarrow> job_row \<Rightarrow> job_row \<Rightarrow> job_row" where
  "claimed_job now worker attempt job j =
     j\<lparr>j_status := ASSIGNED, j_worker_id := Some worker, j_attempt_count := j_attempt_count job + 1,
       j_current_attempt_id := Some attempt, j_current_epoch := None, j_started_at := Some now,
       j_row_version := j_row_version job + 1\<rparr>"

definition claimed_attempt ::
  "datetime \<Rightarrow> ident \<Rightarrow> ident \<Rightarrow> job_row \<Rightarrow> worker_capabilities \<Rightarrow> job_attempt_row" where
  "claimed_attempt now worker attempt job capabilities =
     \<lparr>a_id = attempt, a_job_id = j_id job, a_worker_id = worker,
      a_attempt_number = j_attempt_count job + 1, a_engine_mode = engine_mode capabilities,
      a_rvc_commit_hash = Some (cap_rvc_commit_hash capabilities),
      a_execution_provenance_version = Some ''worker-claim-v1'',
      a_job_config_sha256 = j_config_sha256 job,
      a_runtime_image_digest = runtime_image_digest capabilities,
      a_runtime_asset_manifest_sha256 = runtime_asset_manifest_sha256 capabilities,
      a_telemetry_log_count = None, a_telemetry_metric_count = None, a_status = ASSIGNED,
      a_error_code = None, a_error_message = None, a_started_at = now, a_finished_at = None\<rparr>"

definition claimed_lease ::
  "settings \<Rightarrow> datetime \<Rightarrow> ident \<Rightarrow> ident \<Rightarrow> ident \<Rightarrow> job_row \<Rightarrow> job_lease_row" where
  "claimed_lease st now worker attempt lease job =
     \<lparr>l_id = lease, l_job_id = j_id job, l_attempt_id = attempt, l_worker_id = worker,
      l_expires_at = lease_expiry st now, l_last_renewed_at = now, l_released_at = None,
      l_active = True\<rparr>"

definition claimed_worker :: "datetime \<Rightarrow> ident \<Rightarrow> worker_capabilities \<Rightarrow> worker_row \<Rightarrow> worker_row" where
  "claimed_worker now job_id capabilities w =
     w\<lparr>w_status := BUSY, w_current_job_id := Some job_id, w_capabilities_json := capabilities,
       w_last_heartbeat_at := Some now\<rparr>"

text \<open>The writes of a claim, \<open>None\<close> when another claim won the job.\<close>

definition assign_job ::
  "settings \<Rightarrow> datetime \<Rightarrow> ident \<Rightarrow> ident \<Rightarrow> ident \<Rightarrow> worker_capabilities \<Rightarrow> job_row \<Rightarrow> ledger \<Rightarrow> ledger option"
  where
  "assign_job st now worker attempt lease capabilities job d =
     map_option
       (\<lambda>d. set_worker worker (claimed_worker now (j_id job) capabilities)
          (add_status_event (j_id job) (Some attempt) (Some QUEUED) ASSIGNED now Manager_source
          (job_leases_update (\<lambda>ls. ls @ [claimed_lease st now worker attempt lease job])
          (job_attempts_update (\<lambda>as. as @ [claimed_attempt now worker attempt job capabilities]) d))))
       (cas_job (j_id job)
          (\<lambda>j. j_status j = QUEUED \<and> j_row_version j = j_row_version job)
          (claimed_job now worker attempt job) d)"

section \<open>The claim loop\<close>

datatype decision =
    Skip
  | Quarantine
  | Offer job_config "dataset_transfer option" "test_set_transfer option"
  | Raise api_error

text \<open>\<open>locked\<close> tells which dataset rows another transaction holds (\<^verbatim>\<open>SKIP LOCKED\<close>).\<close>

definition claim_decision ::
  "platform \<Rightarrow> settings \<Rightarrow> claim_storage \<Rightarrow> (ident \<Rightarrow> bool) \<Rightarrow> worker_capabilities \<Rightarrow> job_row \<Rightarrow> ledger \<Rightarrow> decision"
  where
  "claim_decision pf st storage locked capabilities job d =
     (case validated_job_config pf job None of
        None \<Rightarrow> Quarantine
      | Some config \<Rightarrow>
          if \<not> worker_can_run config capabilities (allow_fake_workers st)
                (approved_sample_runtime_bundles st)
          then Skip
          else (case (if locked (j_dataset_id job) then None else get_dataset (j_dataset_id job) d) of
            None \<Rightarrow> Skip
          | Some dataset \<Rightarrow>
              if \<not> dataset_ready_for_training dataset then Skip
              else (case verified_dataset_transfer st storage (j_id job) dataset d of
                Inl e \<Rightarrow> Raise e
              | Inr dataset_transfer \<Rightarrow>
                  if dataset_transfer = None \<and>
                    \<not> (environment st = Test \<and> d_status dataset = ''legacy_imported'')
                  then Skip
                  else if \<not> enabled (auto_inference_samples config)
                  then Offer config dataset_transfer None
                  else (case verified_test_set_transfer pf st storage job config d of
                    Inl e \<Rightarrow> Raise e
                  | Inr None \<Rightarrow> Skip
                  | Inr (Some t) \<Rightarrow> Offer config dataset_transfer (Some t)))))"

definition claim_response ::
  "settings \<Rightarrow> datetime \<Rightarrow> ident \<Rightarrow> ident \<Rightarrow> job_row \<Rightarrow> job_config \<Rightarrow> dataset_transfer option \<Rightarrow> test_set_transfer option \<Rightarrow> job_claim"
  where
  "claim_response st now attempt lease job config dataset_transfer test_set_transfer =
     \<lparr>claim_job_id = j_id job, claim_attempt_id = attempt,
      claim_attempt_number = j_attempt_count job + 1, claim_lease_id = lease,
      claim_lease_expires_at = lease_expiry st now, claim_config = config,
      claim_config_sha256 = the (j_config_sha256 job),
      claim_dataset_transfer = dataset_transfer, claim_test_set_transfer = test_set_transfer\<rparr>"

text \<open>
  The loop. \<open>d0\<close> is the last committed ledger, to which every rollback returns; \<open>d\<close> the ledger of
  the running transaction, with the quarantines so far.
\<close>

fun claim_loop ::
  "platform \<Rightarrow> settings \<Rightarrow> claim_storage \<Rightarrow> (ident \<Rightarrow> bool) \<Rightarrow> datetime \<Rightarrow> ident \<Rightarrow> ident \<Rightarrow> ident \<Rightarrow> commit \<Rightarrow>
   worker_capabilities \<Rightarrow> ledger \<Rightarrow> job_row list \<Rightarrow> bool \<Rightarrow> ledger \<Rightarrow> job_claim option handled" where
  "claim_loop pf st storage locked now worker attempt lease outcome capabilities d0 [] quarantined d =
     (Inr None, if quarantined then d else d0)"
| "claim_loop pf st storage locked now worker attempt lease outcome capabilities d0 (job # candidates)
     quarantined d =
     (case claim_decision pf st storage locked capabilities job d of
        Skip \<Rightarrow> claim_loop pf st storage locked now worker attempt lease outcome capabilities d0
          candidates quarantined d
      | Quarantine \<Rightarrow>
          (case quarantine_invalid_queued_job_config now job d of (did, d') \<Rightarrow>
             claim_loop pf st storage locked now worker attempt lease outcome capabilities d0
               candidates (did \<or> quarantined) d')
      | Raise e \<Rightarrow> (Inl e, d0)
      | Offer config dataset_transfer test_set_transfer \<Rightarrow>
          (case assign_job st now worker attempt lease capabilities job d of
             None \<Rightarrow> claim_loop pf st storage locked now worker attempt lease outcome capabilities d0
               candidates quarantined d
           | Some d' \<Rightarrow>
               (case validate_job_claim pf (claim_response st now attempt lease job config
                       dataset_transfer test_set_transfer) of
                  Inl _ \<Rightarrow> (Inl (HTTPException 503 ''job claim transfer validation failed''), d0)
                | Inr response \<Rightarrow>
                    (case outcome of
                       Committed \<Rightarrow> (Inr (Some response), d')
                     | Stale \<Rightarrow> (Inl (HTTPException 409 ''worker or job changed during claim commit''), d0)
                     | Integrity \<Rightarrow> (Inl (Unhandled ''IntegrityError''), d0)
                     | Operational \<Rightarrow> (Inl (Unhandled ''OperationalError''), d0)))))"

definition claim_order :: "job_row \<Rightarrow> int \<times> datetime \<times> ident" where
  "claim_order j = (- j_priority j, j_created_at j, j_id j)"

definition claim_candidates :: "ledger \<Rightarrow> job_row list" where
  "claim_candidates d =
     take 50 (sort_key claim_order
       (filter (\<lambda>j. j_status j = QUEUED \<and> j_config_sha256 j \<noteq> None) (jobs d)))"

text \<open>
  \<^verbatim>\<open>claim_job\<close>: recovery at \<open>now0\<close>, which commits on its own, then the claim at \<open>now\<close>, with the ids
  of the attempt and the lease it makes and the outcome of its commit.
\<close>

definition claim_job ::
  "platform \<Rightarrow> settings \<Rightarrow> claim_storage \<Rightarrow> (ident \<Rightarrow> bool) \<Rightarrow> datetime \<Rightarrow> datetime \<Rightarrow> ident \<Rightarrow> ident \<Rightarrow> commit \<Rightarrow>
   worker_row \<Rightarrow> worker_capabilities \<Rightarrow> ledger \<Rightarrow> job_claim option handled" where
  "claim_job pf st storage locked now0 now attempt lease outcome worker capabilities d =
     (case recover_expired_leases pf st now0 100 d of
        (Inl e, d') \<Rightarrow> (Inl e, d')
      | (Inr _, d0) \<Rightarrow>
          (case get_worker_row (w_id worker) d0 of
             None \<Rightarrow> (Inl (HTTPException 401 ''invalid worker token''), d0)
           | Some w \<Rightarrow>
               if \<not> w_is_active w then (Inl (HTTPException 401 ''invalid worker token''), d0)
               else if w_pending_token_hash w \<noteq> None
               then (Inl (HTTPException 409 ''worker token rotation is pending''), d0)
               else if w_status w = DRAINING then (Inr None, d0)
               else if w_current_job_id w \<noteq> None
               then (Inl (HTTPException 409 ''worker already has an active job''), d0)
               else claim_loop pf st storage locked now (w_id w) attempt lease outcome capabilities d0
                 (claim_candidates d0) False d0))"

text \<open>The endpoints: a claim request may send capabilities, the older endpoint uses the stored ones.\<close>

definition claim ::
  "platform \<Rightarrow> settings \<Rightarrow> claim_storage \<Rightarrow> (ident \<Rightarrow> bool) \<Rightarrow> datetime \<Rightarrow> datetime \<Rightarrow> ident \<Rightarrow> ident \<Rightarrow> commit \<Rightarrow>
   worker_row \<Rightarrow> worker_capabilities option \<Rightarrow> ledger \<Rightarrow> job_claim option handled" where
  "claim pf st storage locked now0 now attempt lease outcome worker payload d =
     claim_job pf st storage locked now0 now attempt lease outcome worker
       (case payload of Some c \<Rightarrow> c | None \<Rightarrow> w_capabilities_json worker) d"

definition next_job ::
  "platform \<Rightarrow> settings \<Rightarrow> claim_storage \<Rightarrow> (ident \<Rightarrow> bool) \<Rightarrow> datetime \<Rightarrow> datetime \<Rightarrow> ident \<Rightarrow> ident \<Rightarrow> commit \<Rightarrow>
   worker_row \<Rightarrow> ledger \<Rightarrow> job_claim option handled" where
  "next_job pf st storage locked now0 now attempt lease outcome worker d =
     claim_job pf st storage locked now0 now attempt lease outcome worker
       (w_capabilities_json worker) d"


section \<open>Claims implement the assignment specification\<close>

lemma claimed_rows [simp]:
  "j_id (claimed_job now w a job j) = j_id j" "w_id (claimed_worker now i c v) = w_id v"
  "a_id (claimed_attempt now w a job c) = a" "l_id (claimed_lease st now w a l job) = l"
  by (simp_all add: claimed_job_def claimed_worker_def claimed_attempt_def claimed_lease_def)

lemma quarantine_implements:
  assumes ok: "assignment_ok d" and q: "quarantine_invalid_queued_job_config now job d = (did, d')"
  shows "implements d d'" "workers d' = workers d" "job_attempts d' = job_attempts d"
    "job_leases d' = job_leases d"
proof -
  show frames: "workers d' = workers d" "job_attempts d' = job_attempts d"
    "job_leases d' = job_leases d"
    using q by (auto simp: quarantine_invalid_queued_job_config_def cas_job_def
        split: option.splits if_splits)
  show "implements d d'"
  proof (cases did)
    case False
    then have "d' = d"
      using q by (auto simp: quarantine_invalid_queued_job_config_def split: option.splits)
    then show ?thesis using ok by (simp add: implements_refl)
  next
    case True
    let ?f = "\<lambda>j. j\<lparr>j_status := FAILED, j_error_code := Some ''job_config_integrity_failed'',
      j_error_message := Some ''Job configuration integrity could not be verified'',
      j_row_version := j_row_version job + 1\<rparr>"
    obtain j where j: "get_job (j_id job) d = Some j" "j_status j = QUEUED"
      and jobs: "jobs d' = upd_row j_id (j_id job) ?f (jobs d)"
      using q True by (auto simp: quarantine_invalid_queued_job_config_def cas_job_def
          split: option.splits if_splits)
    have "board_of d' = (board_of d)\<lparr>board_jobs := (board_jobs (board_of d))
        (j_id job \<mapsto> \<lparr>slot_status = FAILED, slot_attempt = j_current_attempt_id j,
          slot_worker = j_worker_id j\<rparr>)\<rparr>"
      using j by (auto simp: board_of_def frames jobs get_row_upd_row slot_of_def fun_eq_iff)
    moreover have "board_step (board_of d) \<dots>"
      by (rule board_step.wait [of _ _ "slot_of j"])
        (use j in \<open>simp_all add: board_of_def slot_of_def executing_simps\<close>)
    moreover have "keys_ok d'" using assignment_okD(1) [OF ok] by (simp add: keys_ok_def frames jobs)
    ultimately show ?thesis by (intro implements_step) simp_all
  qed
qed

text \<open>A worker that may receive a job, and ids that no row has yet.\<close>

definition claimable :: "ident \<Rightarrow> ident \<Rightarrow> ident \<Rightarrow> ledger \<Rightarrow> bool" where
  "claimable worker attempt lease d \<longleftrightarrow>
     (\<exists>w. get_worker_row worker d = Some w \<and> w_is_active w \<and> w_pending_token_hash w = None \<and>
        w_current_job_id w = None) \<and>
     get_attempt attempt d = None \<and> get_lease lease d = None"

lemma assign_jobE:
  assumes "assign_job st now worker attempt lease c job d = Some d'"
  obtains j where "get_job (j_id job) d = Some j" "j_status j = QUEUED"
    "j_row_version j = j_row_version job"
    "jobs d' = upd_row j_id (j_id job) (claimed_job now worker attempt job) (jobs d)"
    "job_attempts d' = job_attempts d @ [claimed_attempt now worker attempt job c]"
    "job_leases d' = job_leases d @ [claimed_lease st now worker attempt lease job]"
    "workers d' = upd_row w_id worker (orm_worker (claimed_worker now (j_id job) c)) (workers d)"
    "job_status_events d' = job_status_events d @ [\<lparr>e_job_id = j_id job, e_attempt_id = Some attempt,
       e_previous_status = Some QUEUED, e_status = ASSIGNED, e_occurred_at = now,
       e_source = Manager_source\<rparr>]"
  using assms by (auto simp: assign_job_def cas_job_def split: option.splits if_splits)

lemma assign_implements:
  assumes ok: "assignment_ok d" and c: "claimable worker attempt lease d"
    and a: "assign_job st now worker attempt lease caps job d = Some d'"
  shows "implements d d'"
proof -
  obtain w where w: "get_worker_row worker d = Some w" "w_is_active w"
    "w_pending_token_hash w = None" "w_current_job_id w = None"
    and fresh: "get_attempt attempt d = None" "get_lease lease d = None"
    using c by (auto simp: claimable_def)
  from a obtain j where j: "get_job (j_id job) d = Some j" "j_status j = QUEUED"
    and tables:
      "jobs d' = upd_row j_id (j_id job) (claimed_job now worker attempt job) (jobs d)"
      "job_attempts d' = job_attempts d @ [claimed_attempt now worker attempt job caps]"
      "job_leases d' = job_leases d @ [claimed_lease st now worker attempt lease job]"
      "workers d' = upd_row w_id worker (orm_worker (claimed_worker now (j_id job) caps)) (workers d)"
    by (rule assign_jobE)
  let ?b = "board_of d"
  have "board_of d' =
      \<lparr>board_jobs = (board_jobs ?b)
          (j_id job \<mapsto> \<lparr>slot_status = ASSIGNED, slot_attempt = Some attempt, slot_worker = Some worker\<rparr>),
        board_attempts = (board_attempts ?b)
          (attempt \<mapsto> \<lparr>run_job = j_id job, run_worker = worker, run_status = ASSIGNED,
             run_open = True, run_unsealed = True\<rparr>),
        board_leases = (board_leases ?b)
          (lease \<mapsto> \<lparr>held_job = j_id job, held_attempt = attempt, held_worker = worker,
             held_live = True, held_unreleased = True\<rparr>),
        board_workers = (board_workers ?b)(worker \<mapsto> (seat_of w)\<lparr>seat_job := Some (j_id job)\<rparr>)\<rparr>"
    using j(1) w(1) fresh
    by (auto simp: board_of_def tables get_row_upd_row get_row_append fun_eq_iff slot_defs
        claimed_job_def claimed_attempt_def claimed_lease_def claimed_worker_def split: option.splits)
  moreover have "board_step ?b \<dots>"
    by (rule board_step.assign [where s = "slot_of j"])
      (use j w fresh in \<open>simp_all add: board_of_def slot_defs\<close>)
  moreover have "keys_ok d'"
    using assignment_okD(1) [OF ok] fresh by (simp add: keys_ok_def tables)
  ultimately show ?thesis by (intro implements_step) simp_all
qed

lemma claim_loop_implements:
  assumes "assignment_ok d" "implements d0 d" "assignment_ok d0" "claimable worker attempt lease d"
  shows "implements d0 (snd (claim_loop pf st storage locked now worker attempt lease outcome caps d0
    candidates quarantined d))"
  using assms
proof (induction candidates arbitrary: d quarantined)
  case Nil
  then show ?case by (simp add: implements_refl)
next
  case (Cons job candidates)
  obtain did d1 where q: "quarantine_invalid_queued_job_config now job d = (did, d1)" by fastforce
  note q1 = quarantine_implements [OF Cons.prems(1) q]
  have "implements d0 (snd (claim_loop pf st storage locked now worker attempt lease outcome caps d0
      candidates (did \<or> quarantined) d1))"
    using implements_ok [OF Cons.prems(1) q1(1)] implements_trans [OF Cons.prems(2) q1(1)]
      Cons.prems(3,4) q1(2-4) by (intro Cons.IH) (simp_all add: claimable_def)
  moreover have "implements d0 d'" if "assign_job st now worker attempt lease caps job d = Some d'" for d'
    using implements_trans [OF Cons.prems(2) assign_implements [OF Cons.prems(1,4) that]] .
  ultimately show ?case
    using Cons.IH [OF Cons.prems] implements_refl [OF Cons.prems(3)] q
    by (cases "claim_decision pf st storage locked caps job d"; cases outcome)
      (simp_all split: option.split sum.split)
qed

lemma claim_job_implements:
  assumes ok: "assignment_ok d"
    and fresh: "get_attempt attempt d = None" "get_lease lease d = None"
  shows "implements d (snd (claim_job pf st storage locked now0 now attempt lease outcome worker caps d))"
proof -
  obtain n d0 where r: "recover_expired_leases pf st now0 100 d = (Inr n, d0)" "implements d d0"
    "only_closes d d0"
    using recover_ok [OF ok] by metis
  have ok0: "assignment_ok d0" using implements_ok ok r(2) by blast
  have fresh0: "get_attempt attempt d0 = None" "get_lease lease d0 = None"
    using fresh only_closes_fresh [OF r(3)] by auto
  have refl: "implements d0 d0" using ok0 by (rule implements_refl)
  have "implements d0 (snd (claim_job pf st storage locked now0 now attempt lease outcome worker caps d))"
  proof (cases "get_worker_row (w_id worker) d0")
    case (Some w)
    then have "w_id w = w_id worker" using get_row_SomeD by fast
    then have "claimable (w_id w) attempt lease d0"
      if "w_is_active w" "w_pending_token_hash w = None" "w_current_job_id w = None"
      using that Some fresh0 by (simp add: claimable_def)
    then show ?thesis
      using Some r(1) refl claim_loop_implements [OF ok0 refl ok0, of "w_id w" attempt lease]
      by (simp add: claim_job_def)
  qed (use r(1) refl in \<open>simp add: claim_job_def\<close>)
  then show ?thesis using r(2) implements_trans by blast
qed


section \<open>Which job is handed out\<close>

text \<open>The tables a decision reads; a quarantine leaves them alone.\<close>

definition same_inputs :: "ledger \<Rightarrow> ledger \<Rightarrow> bool" where
  "same_inputs d e \<longleftrightarrow> datasets d = datasets e \<and>
     dataset_upload_sessions d = dataset_upload_sessions e \<and> test_sets d = test_sets e \<and>
     test_set_items d = test_set_items e \<and>
     test_set_item_upload_sessions d = test_set_item_upload_sessions e"

lemma claim_decision_inputs:
  assumes "same_inputs d e"
  shows "claim_decision pf st storage locked caps job d = claim_decision pf st storage locked caps job e"
proof -
  have tables: "datasets d = datasets e" "test_sets d = test_sets e"
    using assms by (simp_all add: same_inputs_def)
  have reads: "latest_dataset_upload i d = latest_dataset_upload i e" "items_of i d = items_of i e"
    "completed_uploads i d = completed_uploads i e" for i
    using assms by (simp_all add: same_inputs_def latest_dataset_upload_def items_of_def
        completed_uploads_def)
  show ?thesis
    unfolding claim_decision_def verified_dataset_transfer_def verified_test_set_transfer_def
      tables reads ..
qed

lemma quarantine_frame:
  assumes "quarantine_invalid_queued_job_config now job d = (did, d')"
  shows "same_inputs d d'" "i \<noteq> j_id job \<Longrightarrow> get_job i d' = get_job i d"
  using assms
  by (auto simp: quarantine_invalid_queued_job_config_def cas_job_def same_inputs_def
      add_audit_event_def add_status_event_def get_row_upd_row split: option.splits if_splits)

lemma claim_loop_Some:
  assumes "claim_loop pf st storage locked now worker attempt lease outcome caps d0 candidates
      quarantined d = (Inr (Some c), d')"
    and "\<forall>job \<in> set candidates. get_job (j_id job) d = Some job \<and> j_status job = QUEUED"
    and "distinct (map j_id candidates)" "same_inputs d e"
  shows "\<exists>pre job post config dt tt d1. candidates = pre @ job # post \<and>
    (\<forall>p \<in> set pre. claim_decision pf st storage locked caps p e \<in> {Skip, Quarantine}) \<and>
    claim_decision pf st storage locked caps job e = Offer config dt tt \<and>
    c = claim_response st now attempt lease job config dt tt \<and> validate_job_claim pf c = Inr c \<and>
    get_job (j_id job) d1 = Some job \<and>
    assign_job st now worker attempt lease caps job d1 = Some d' \<and> workers d1 = workers d \<and>
    job_attempts d1 = job_attempts d \<and> job_leases d1 = job_leases d"
  using assms
proof (induction candidates arbitrary: d quarantined)
  case (Cons job candidates)
  have dec: "claim_decision pf st storage locked caps job d = claim_decision pf st storage locked caps job e"
    using Cons.prems(4) by (rule claim_decision_inputs)
  have rest: "\<forall>job \<in> set candidates. get_job (j_id job) d = Some job \<and> j_status job = QUEUED"
    "distinct (map j_id candidates)" using Cons.prems(2,3) by simp_all
  have job: "get_job (j_id job) d = Some job" "j_status job = QUEUED" using Cons.prems(2) by simp_all
  have cons: ?case
    if "\<exists>pre job' post config dt tt d1. candidates = pre @ job' # post \<and>
      (\<forall>p \<in> set pre. claim_decision pf st storage locked caps p e \<in> {Skip, Quarantine}) \<and>
      claim_decision pf st storage locked caps job' e = Offer config dt tt \<and>
      c = claim_response st now attempt lease job' config dt tt \<and> validate_job_claim pf c = Inr c \<and>
      get_job (j_id job') d1 = Some job' \<and>
      assign_job st now worker attempt lease caps job' d1 = Some d' \<and> workers d1 = workers d \<and>
      job_attempts d1 = job_attempts d \<and> job_leases d1 = job_leases d"
      "claim_decision pf st storage locked caps job e \<in> {Skip, Quarantine}"
  proof -
    from that(1) obtain pre job' post config dt tt d1 where *: "candidates = pre @ job' # post"
      "\<forall>p \<in> set pre. claim_decision pf st storage locked caps p e \<in> {Skip, Quarantine}"
      "claim_decision pf st storage locked caps job' e = Offer config dt tt"
      "c = claim_response st now attempt lease job' config dt tt" "validate_job_claim pf c = Inr c"
      "get_job (j_id job') d1 = Some job'" "assign_job st now worker attempt lease caps job' d1 = Some d'"
      "workers d1 = workers d" "job_attempts d1 = job_attempts d" "job_leases d1 = job_leases d"
      by blast
    show ?thesis
      by (rule exI [of _ "job # pre"], rule exI [of _ job'], rule exI [of _ post],
          rule exI [of _ config], rule exI [of _ dt], rule exI [of _ tt], rule exI [of _ d1])
        (use * that(2) in simp)
  qed
  show ?case
  proof (cases "claim_decision pf st storage locked caps job e")
    case Skip
    then show ?thesis using Cons.IH [OF _ rest Cons.prems(4)] Cons.prems(1) dec by (intro cons) simp_all
  next
    case Quarantine
    obtain did d1 where q: "quarantine_invalid_queued_job_config now job d = (did, d1)" by fastforce
    have frames: "workers d1 = workers d" "job_attempts d1 = job_attempts d" "job_leases d1 = job_leases d"
      using q by (auto simp: quarantine_invalid_queued_job_config_def cas_job_def
          split: option.splits if_splits)
    have "\<forall>job' \<in> set candidates. get_job (j_id job') d1 = Some job' \<and> j_status job' = QUEUED"
      using rest(1) quarantine_frame(2) [OF q] Cons.prems(3) by (auto simp: image_iff)
    moreover have "same_inputs d1 e"
      using quarantine_frame(1) [OF q] Cons.prems(4) by (simp add: same_inputs_def)
    moreover have "claim_loop pf st storage locked now worker attempt lease outcome caps d0 candidates
        (did \<or> quarantined) d1 = (Inr (Some c), d')"
      using Cons.prems(1) Quarantine dec q by simp
    ultimately show ?thesis
      using Cons.IH [of "did \<or> quarantined" d1] rest(2) Quarantine frames by (intro cons) simp_all
  next
    case (Raise e)
    then show ?thesis using Cons.prems(1) dec by simp
  next
    case (Offer config dt tt)
    obtain d1 where d1: "assign_job st now worker attempt lease caps job d = Some d1"
      using job by (auto simp: assign_job_def cas_job_def)
    let ?r = "claim_response st now attempt lease job config dt tt"
    have "validate_job_claim pf ?r = Inr c \<and> d1 = d'"
      using Cons.prems(1) Offer dec d1 by (auto split: sum.splits commit.splits)
    moreover from this have "c = ?r" using validate_job_claim_value by blast
    ultimately show ?thesis
      by (intro exI [of _ "[]"] exI [of _ job] exI [of _ candidates] exI [of _ config] exI [of _ dt]
          exI [of _ tt] exI [of _ d]) (use Offer job d1 in simp)
  qed
qed simp

lemma claim_candidatesD:
  assumes "keys_ok d"
  shows "job \<in> set (claim_candidates d) \<Longrightarrow>
      get_job (j_id job) d = Some job \<and> j_status job = QUEUED \<and> j_config_sha256 job \<noteq> None"
    and "distinct (map j_id (claim_candidates d))"
proof -
  show "job \<in> set (claim_candidates d) \<Longrightarrow>
      get_job (j_id job) d = Some job \<and> j_status job = QUEUED \<and> j_config_sha256 job \<noteq> None"
    using get_row_mem [OF keys_okD(1) [OF assms]] by (auto simp: claim_candidates_def dest!: in_set_takeD)
  let ?q = "sort_key claim_order (filter (\<lambda>j. j_status j = QUEUED \<and> j_config_sha256 j \<noteq> None) (jobs d))"
  have "inj_on j_id (set (jobs d))" "distinct (jobs d)"
    using keys_okD(1) [OF assms] by (auto simp: wf_table_def distinct_map)
  moreover from this(1) have "inj_on j_id (set ?q)" by (rule inj_on_subset) auto
  ultimately have "distinct (map j_id ?q)" by (simp add: distinct_map)
  then show "distinct (map j_id (claim_candidates d))"
    unfolding claim_candidates_def take_map [symmetric] by (rule distinct_take)
qed

end
