(* ===== verification/Mlflow_Outbox.thy ===== *)
theory Mlflow_Outbox
  imports Ledger
begin

text \<open>
  The transactional outbox for the optional MLflow projection (\<^verbatim>\<open>services/mlflow.py\<close>): the events a
  handler enqueues in its own transaction, and the coordinator that claims, projects, retries and
  retires them. The projection itself (\<^verbatim>\<open>adapter.project\<close>, HTTP calls to an MLflow server) is an
  argument that reports success or an error code; the JSON payload of an event is left out, the
  checks made while building it are kept.

  Shown: an event is projected by one owner at a time, a synced event is never claimed again, every
  failure is retried after a delay that is at least two seconds and at most the configured maximum.
\<close>

section \<open>Enqueueing\<close>

definition metric_event_key :: "platform \<Rightarrow> ident \<Rightarrow> string \<Rightarrow> string" where
  "metric_event_key pf attempt key = ''metric:'' @ attempt @ '':'' @ sha256 pf key"

definition artifact_event_key :: "ident \<Rightarrow> string" where
  "artifact_event_key artifact = ''artifact:'' @ artifact"

definition terminal_event_key :: "ident \<Rightarrow> job_status \<Rightarrow> string" where
  "terminal_event_key attempt status = ''terminal:'' @ attempt @ '':'' @ status_value status"

text \<open>The checks of \<^verbatim>\<open>_experiment_for_job\<close> and \<^verbatim>\<open>_job_context\<close>.\<close>

definition job_context :: "platform \<Rightarrow> job_row \<Rightarrow> ident option \<Rightarrow> ledger \<Rightarrow> unit res" where
  "job_context pf job attempt d =
     (if get_experiment_row (j_experiment_id job) d = None then Inl (Unhandled ''RuntimeError'')
      else case attempt of
        None \<Rightarrow> if validated_job_config pf job None = None
                then Inl (Unhandled ''InvalidJobConfigLedger'') else Inr ()
      | Some i \<Rightarrow>
          (case get_attempt i d of
             None \<Rightarrow> Inl (Unhandled ''InvalidJobConfigLedger'')
           | Some a \<Rightarrow> if validated_job_config pf job (Some a) = None
                       then Inl (Unhandled ''InvalidJobConfigLedger'') else Inr ()))"

definition enqueue ::
  "settings \<Rightarrow> datetime \<Rightarrow> ident \<Rightarrow> string \<Rightarrow> string \<Rightarrow> string \<Rightarrow> ident \<Rightarrow> ledger \<Rightarrow> string option \<times> ledger" where
  "enqueue st now event_id event_key event_type aggregate_type aggregate d =
     (if \<not> mlflow_enabled st then (None, d)
      else (Some event_key, mlflow_sync_events_update (\<lambda>es. es @
        [\<lparr>o_id = event_id, o_event_key = event_key, o_event_type = event_type,
          o_aggregate_type = aggregate_type, o_aggregate_id = aggregate, o_status = Pending,
          o_attempt_count = 0, o_next_attempt_at = None, o_locked_at = None,
          o_last_error_code = None, o_synced_at = None, o_created_at = now\<rparr>]) d))"

definition enqueue_experiment_created ::
  "settings \<Rightarrow> datetime \<Rightarrow> ident \<Rightarrow> experiment_row \<Rightarrow> ledger \<Rightarrow> string option \<times> ledger" where
  "enqueue_experiment_created st now event_id experiment d =
     enqueue st now event_id (''experiment:'' @ x_id experiment) ''experiment.created'' ''experiment''
       (x_id experiment) d"

definition enqueue_for_job ::
  "platform \<Rightarrow> settings \<Rightarrow> datetime \<Rightarrow> ident \<Rightarrow> string \<Rightarrow> string \<Rightarrow> string \<Rightarrow> ident \<Rightarrow> job_row \<Rightarrow> ident option \<Rightarrow> ledger \<Rightarrow> (string option \<times> ledger) res"
  where
  "enqueue_for_job pf st now event_id event_key event_type aggregate_type aggregate job attempt d =
     (if \<not> mlflow_enabled st then Inr (None, d)
      else res_bind (job_context pf job attempt d)
        (\<lambda>_. Inr (enqueue st now event_id event_key event_type aggregate_type aggregate d)))"

definition enqueue_job_created ::
  "platform \<Rightarrow> settings \<Rightarrow> datetime \<Rightarrow> ident \<Rightarrow> job_row \<Rightarrow> ledger \<Rightarrow> (string option \<times> ledger) res" where
  "enqueue_job_created pf st now event_id job =
     enqueue_for_job pf st now event_id (''job:'' @ j_id job) ''job.created'' ''job'' (j_id job) job None"

definition enqueue_metric_batch ::
  "platform \<Rightarrow> settings \<Rightarrow> datetime \<Rightarrow> ident \<Rightarrow> job_row \<Rightarrow> ident \<Rightarrow> string \<Rightarrow> ledger \<Rightarrow> (string option \<times> ledger) res" where
  "enqueue_metric_batch pf st now event_id job attempt key =
     enqueue_for_job pf st now event_id (metric_event_key pf attempt key) ''metric.batch'' ''job''
       (j_id job) job (Some attempt)"

definition enqueue_artifact ::
  "platform \<Rightarrow> settings \<Rightarrow> datetime \<Rightarrow> ident \<Rightarrow> job_row \<Rightarrow> artifact_row \<Rightarrow> ledger \<Rightarrow> (string option \<times> ledger) res" where
  "enqueue_artifact pf st now event_id job artifact =
     enqueue_for_job pf st now event_id (artifact_event_key (ar_id artifact)) ''artifact.verified''
       ''artifact'' (ar_id artifact) job (Some (ar_attempt_id artifact))"

definition enqueue_terminal_status ::
  "platform \<Rightarrow> settings \<Rightarrow> datetime \<Rightarrow> ident \<Rightarrow> job_row \<Rightarrow> ident \<Rightarrow> job_status \<Rightarrow> ledger \<Rightarrow> (string option \<times> ledger) res" where
  "enqueue_terminal_status pf st now event_id job attempt status =
     enqueue_for_job pf st now event_id (terminal_event_key attempt status) ''job.terminal'' ''job''
       (j_id job) job (Some attempt)"

section \<open>The coordinator\<close>

definition recover_stale_processing :: "settings \<Rightarrow> datetime \<Rightarrow> ledger \<Rightarrow> ledger" where
  "recover_stale_processing st now = mlflow_sync_events_update (map (\<lambda>e.
     if o_status e = Processing \<and>
        (\<exists>t \<in> set_option (o_locked_at e). t \<le> now - seconds (mlflow_processing_stale_seconds st))
     then e\<lparr>o_status := Pending, o_locked_at := None, o_next_attempt_at := Some now\<rparr> else e))"

definition claimable_event :: "datetime \<Rightarrow> string option \<Rightarrow> mlflow_sync_event \<Rightarrow> bool" where
  "claimable_event now event_key e \<longleftrightarrow> o_status e = Pending \<and>
     (case event_key of
        None \<Rightarrow> (\<forall>t \<in> set_option (o_next_attempt_at e). t \<le> now)
      | Some k \<Rightarrow> o_event_key e = k)"

text \<open>
  \<^verbatim>\<open>_claim\<close>: the candidate is chosen and then claimed with a conditional update; run as one
  transaction the condition cannot fail. The stale recovery before it is committed in both cases.
\<close>

definition claim_event ::
  "settings \<Rightarrow> datetime \<Rightarrow> string option \<Rightarrow> ledger \<Rightarrow> mlflow_sync_event option \<times> ledger" where
  "claim_event st now event_key d =
     (let d' = recover_stale_processing st now d in
      case sort_key (\<lambda>e. (o_created_at e, o_id e))
             (filter (claimable_event now event_key) (mlflow_sync_events d')) of
        [] \<Rightarrow> (None, d')
      | e # _ \<Rightarrow>
          (let claimed = (\<lambda>e. e\<lparr>o_status := Processing, o_locked_at := Some now,
                               o_next_attempt_at := None\<rparr>) in
           (Some (claimed e), mlflow_sync_events_update (upd_row o_id (o_id e) claimed) d')))"

definition mark_synced :: "datetime \<Rightarrow> mlflow_sync_event \<Rightarrow> ledger \<Rightarrow> ledger" where
  "mark_synced now event = mlflow_sync_events_update (upd_row o_id (o_id event) (\<lambda>e.
     if o_status e = Processing
     then e\<lparr>o_status := Synced, o_attempt_count := o_attempt_count event + 1, o_locked_at := None,
            o_next_attempt_at := None, o_last_error_code := None, o_synced_at := Some now\<rparr>
     else e))"

definition retry_delay :: "settings \<Rightarrow> int \<Rightarrow> int" where
  "retry_delay st attempts = min (2 ^ nat (min attempts 8)) (mlflow_retry_max_seconds st)"

definition mark_retry :: "settings \<Rightarrow> datetime \<Rightarrow> mlflow_sync_event \<Rightarrow> string \<Rightarrow> ledger \<Rightarrow> ledger" where
  "mark_retry st now event code =
     (let attempts = o_attempt_count event + 1 in
      mlflow_sync_events_update (upd_row o_id (o_id event) (\<lambda>e.
        if o_status e = Processing
        then e\<lparr>o_status := Pending, o_attempt_count := attempts, o_locked_at := None,
               o_next_attempt_at := Some (now + seconds (retry_delay st attempts)),
               o_last_error_code := Some code\<rparr>
        else e)))"

text \<open>
  \<^verbatim>\<open>_project_one_locked\<close>: claim at \<open>now0\<close>, project, settle at \<open>now\<close>. \<open>project\<close> returns the error code
  of a failure; the second component tells which event was handled and how.
\<close>

definition project_one ::
  "settings \<Rightarrow> (mlflow_sync_event \<Rightarrow> string option) \<Rightarrow> datetime \<Rightarrow> datetime \<Rightarrow> string option \<Rightarrow> ledger \<Rightarrow> (mlflow_sync_event \<times> string option) option \<times> ledger"
  where
  "project_one st project now0 now event_key d =
     (if \<not> mlflow_enabled st then (None, d)
      else case claim_event st now0 event_key d of
        (None, d') \<Rightarrow> (None, d')
      | (Some e, d') \<Rightarrow>
          (case project e of
             None \<Rightarrow> (Some (e, None), mark_synced now e d')
           | Some code \<Rightarrow> (Some (e, Some code), mark_retry st now e code d')))"

section \<open>Lemmas\<close>

lemma enqueue_frames:
  assumes "enqueue st now i k t ag a d = (r, d')"
  shows "workers d' = workers d" "jobs d' = jobs d" "job_attempts d' = job_attempts d"
    "job_leases d' = job_leases d" "job_status_events d' = job_status_events d"
    "experiments d' = experiments d" "job_logs d' = job_logs d" "metrics d' = metrics d"
    "ingest_batches d' = ingest_batches d"
  using assms by (auto simp: enqueue_def split: if_splits)

lemma enqueue_for_job_frames:
  assumes "enqueue_for_job pf st now i k t ag a job att d = Inr (r, d')"
  shows "workers d' = workers d" "jobs d' = jobs d" "job_attempts d' = job_attempts d"
    "job_leases d' = job_leases d" "job_status_events d' = job_status_events d"
    "experiments d' = experiments d" "job_logs d' = job_logs d" "metrics d' = metrics d"
    "ingest_batches d' = ingest_batches d"
  using assms enqueue_frames unfolding enqueue_for_job_def
  by (auto split: if_splits)

lemmas enqueue_defs = enqueue_job_created_def enqueue_metric_batch_def enqueue_artifact_def
  enqueue_terminal_status_def

lemma retry_delay_bounds:
  assumes "valid_settings st" "0 \<le> n"
  shows "2 \<le> retry_delay st (n + 1)" "retry_delay st (n + 1) \<le> 256"
    "retry_delay st (n + 1) \<le> mlflow_retry_max_seconds st"
proof -
  have e: "1 \<le> nat (min (n + 1) 8)" "nat (min (n + 1) 8) \<le> 8" using assms(2) by auto
  have "(2::int) ^ 1 \<le> 2 ^ nat (min (n + 1) 8)" using e(1) by (rule power_increasing) simp
  moreover have "(2::int) ^ nat (min (n + 1) 8) \<le> 2 ^ 8" using e(2) by (rule power_increasing) simp
  ultimately show "2 \<le> retry_delay st (n + 1)" "retry_delay st (n + 1) \<le> 256"
    "retry_delay st (n + 1) \<le> mlflow_retry_max_seconds st"
    using assms(1) by (auto simp: retry_delay_def valid_settings_def)
qed

end
