(* ===== verification/Status_Update.thy ===== *)
theory Status_Update
  imports Claim Mlflow_Outbox
begin

text \<open>
  What a Worker reports while it holds a job: the heartbeat and the status update of
  \<^verbatim>\<open>routers/workers.py\<close>.

  A status update reads the job twice: first without locks, to reject what is wrong anyway, then,
  after possibly slow checks, again under row locks (the claim fence). Between the two the ledger
  may change arbitrarily, so the model takes two ledgers: \<open>d0\<close> for the first reads and \<open>d\<close> for the
  locked ones, and only \<open>d\<close> is written. Nothing relates the two in the theorems: the fence alone
  carries them. The handler calls itself again, with fresh reads, after a lost database lock and
  after a lost version check, at most once for each.

  The remaining part of the sample check, which compares registered sample rows and stored objects
  (\<^verbatim>\<open>services/samples.py\<close>), is the argument \<open>samples_verified\<close>; \<open>None\<close> is \<^verbatim>\<open>SampleCompletionUnavailable\<close>.
\<close>

section \<open>Heartbeat\<close>

text \<open>The lease, job, attempt and worker rows that a heartbeat with an assignment has locked.\<close>

definition heartbeat_lost ::
  "datetime \<Rightarrow> ident \<Rightarrow> ident \<Rightarrow> job_lease_row option \<Rightarrow> job_row option \<Rightarrow> job_attempt_row option \<Rightarrow> worker_row option \<Rightarrow> bool"
  where
  "heartbeat_lost now worker job_id lease job attempt locked_worker =
     (case (lease, job, attempt, locked_worker) of
        (Some l, Some j, Some a, Some w) \<Rightarrow>
          \<not> l_active l \<or> l_released_at l \<noteq> None \<or> l_expires_at l \<le> now \<or> l_worker_id l \<noteq> worker \<or>
          l_job_id l \<noteq> job_id \<or> j_worker_id j \<noteq> Some worker \<or>
          j_current_attempt_id j \<noteq> Some (l_attempt_id l) \<or> a_id a \<noteq> l_attempt_id l \<or>
          a_job_id a \<noteq> j_id j \<or> a_worker_id a \<noteq> worker \<or> a_finished_at a \<noteq> None \<or>
          w_current_job_id w \<noteq> Some job_id
      | _ \<Rightarrow> True)"

definition beaten :: "datetime \<Rightarrow> worker_heartbeat_request \<Rightarrow> worker_row \<Rightarrow> worker_row" where
  "beaten now payload w =
     w\<lparr>w_status := hb_status payload, w_capabilities_json := hb_capabilities payload,
       w_worker_version := worker_version (hb_capabilities payload),
       w_rvc_commit_hash := cap_rvc_commit_hash (hb_capabilities payload),
       w_last_heartbeat_at := Some now\<rparr>"

definition cancel_ids :: "ident \<Rightarrow> ledger \<Rightarrow> ident list" where
  "cancel_ids worker d =
     map j_id (filter (\<lambda>j. j_worker_id j = Some worker \<and> j_cancel_requested_at j \<noteq> None \<and>
       \<not> terminal (j_status j)) (jobs d))"

definition heartbeat ::
  "platform \<Rightarrow> settings \<Rightarrow> datetime \<Rightarrow> datetime \<Rightarrow> commit \<Rightarrow> worker_row \<Rightarrow> worker_heartbeat_request \<Rightarrow> ledger \<Rightarrow> worker_heartbeat_response handled"
  where
  "heartbeat pf st now0 now outcome worker payload d =
     (case recover_expired_leases pf st now0 100 d of
        (Inl e, d') \<Rightarrow> (Inl e, d')
      | (Inr _, d0) \<Rightarrow>
          (let finish = (\<lambda>renewed_until d1.
             let d2 = set_worker (w_id worker) (beaten now payload) d1 in
             case outcome of
               Committed \<Rightarrow> (Inr \<lparr>server_time = now, hb_lease_expires_at = renewed_until,
                                 cancel_job_ids = cancel_ids (w_id worker) d0\<rparr>, d2)
             | Stale \<Rightarrow> (Inl (HTTPException 409 ''Worker changed before heartbeat commit''), d0)
             | Integrity \<Rightarrow> (Inl (Unhandled ''IntegrityError''), d0)
             | Operational \<Rightarrow> (Inl (Unhandled ''OperationalError''), d0)) in
           if truthy (hb_current_job_id payload) then
             (let job_id = the (hb_current_job_id payload);
                  lease = get_lease (case hb_current_lease_id payload of None \<Rightarrow> [] | Some i \<Rightarrow> i) d0;
                  job = get_job job_id d0;
                  attempt = get_attempt (case lease of None \<Rightarrow> [] | Some l \<Rightarrow> l_attempt_id l) d0;
                  locked_worker = get_worker_row (w_id worker) d0 in
              if job \<noteq> None \<and> attempt \<noteq> None \<and> validated_job_config pf (the job) attempt = None
              then (Inl (HTTPException 409 ''job configuration integrity check failed''), d0)
              else if heartbeat_lost now (w_id worker) job_id lease job attempt locked_worker
              then (Inl (HTTPException 409 ''heartbeat lease is no longer current''), d0)
              else finish (Some (l_expires_at (renewed st now (the lease))))
                (set_lease (l_id (the lease)) (renewed st now) d0))
           else
             (case get_worker_row (w_id worker) d0 of
                None \<Rightarrow> (Inl (HTTPException 401 ''invalid worker token''), d0)
              | Some w \<Rightarrow>
                  if truthy (w_current_job_id w)
                  then (Inl (HTTPException 409 ''heartbeat omitted active job assignment''), d0)
                  else finish None d0)))"

section \<open>Checks of a status update\<close>

definition validate_current_epoch :: "job_row \<Rightarrow> int option \<Rightarrow> unit res" where
  "validate_current_epoch job current_epoch =
     (case current_epoch of
        None \<Rightarrow> Inr ()
      | Some e \<Rightarrow> checked
          [(e > j_total_epoch job, HTTPException 422 ''current_epoch exceeds total_epoch''),
           (\<exists>c \<in> set_option (j_current_epoch job). e < c,
             HTTPException 409 ''current_epoch cannot move backwards'')] ())"

definition transition_message :: "invalid_job_transition \<Rightarrow> string" where
  "transition_message e =
     (case e of
        Unknown_job_status \<Rightarrow> ''unknown job status''
      | Invalid_job_transition s t \<Rightarrow>
          [CHR 0x27] @ status_value s @ [CHR 0x27] @ '' to '' @ [CHR 0x27] @ status_value t @ [CHR 0x27])"

text \<open>The transition and cancellation checks, made in this order on each read of the job.\<close>

definition check_target :: "job_row \<Rightarrow> job_status_update \<Rightarrow> job_status res" where
  "check_target job payload =
     (case validate_job_transition (status_value (j_status job)) (status_value (su_status payload)) True of
        Inl e \<Rightarrow> Inl (HTTPException 409
          (''job status cannot transition from '' @ transition_message e))
      | Inr target \<Rightarrow>
          if j_cancel_requested_at job \<noteq> None \<and> target \<noteq> CANCELLED
          then Inl (HTTPException 409 ''job cancellation superseded status update'')
          else Inr target)"

definition allow_legacy_fake :: "settings \<Rightarrow> job_attempt_row \<Rightarrow> bool" where
  "allow_legacy_fake st a \<longleftrightarrow>
     a_engine_mode a = FAKE \<and> allow_fake_workers st \<and> environment st \<noteq> Production"

definition required_artifacts :: "job_config \<Rightarrow> artifact_type list" where
  "required_artifacts config =
     (if collect_small_model (artifacts config) then [FINAL_SMALL_MODEL] else []) @
     (if build_index (index config) \<and> collect_added_index (index config) \<and>
         collect_index (artifacts config) then [FINAL_INDEX] else [])"

definition required_artifacts_exist :: "platform \<Rightarrow> settings \<Rightarrow> job_row \<Rightarrow> ledger \<Rightarrow> bool" where
  "required_artifacts_exist pf st job d =
     (case (if truthy (j_current_attempt_id job)
            then get_attempt (the (j_current_attempt_id job)) d else None) of
        None \<Rightarrow> False
      | Some attempt \<Rightarrow>
          (case validated_job_config pf job (Some attempt) of
             None \<Rightarrow> False
           | Some config \<Rightarrow>
               (let required = required_artifacts config;
                    present = map ar_artifact_type (filter (\<lambda>a. ar_job_id a = j_id job \<and>
                      Some (ar_attempt_id a) = j_current_attempt_id job \<and>
                      ar_artifact_type a \<in> set required \<and>
                      (allow_legacy_fake st attempt \<or>
                       (\<exists>u \<in> set (artifact_upload_sessions d). au_artifact_id u = Some (ar_id a) \<and>
                          au_status u = ''completed''))) (artifacts_table d)) in
                required = [] \<or> set required \<subseteq> set present)))"

definition sample_completion_ready ::
  "platform \<Rightarrow> settings \<Rightarrow> claim_storage \<Rightarrow> (job_row \<Rightarrow> test_set_transfer \<Rightarrow> ledger \<Rightarrow> bool option) \<Rightarrow> ident \<Rightarrow> job_row \<Rightarrow> ledger \<Rightarrow> bool option res"
  where
  "sample_completion_ready pf st storage samples_verified worker job d =
     (case (case j_current_attempt_id job of None \<Rightarrow> None | Some i \<Rightarrow> get_attempt i d) of
        None \<Rightarrow> Inr (Some False)
      | Some attempt \<Rightarrow>
          (case validated_job_config pf job (Some attempt) of
             None \<Rightarrow> Inr (Some False)
           | Some config \<Rightarrow>
               if \<not> enabled (auto_inference_samples config) then Inr (Some True)
               else if a_job_id attempt \<noteq> j_id job \<or> a_worker_id attempt \<noteq> worker \<or>
                 a_runtime_image_digest attempt = None \<or>
                 a_runtime_asset_manifest_sha256 attempt = None \<or>
                 (the (a_runtime_image_digest attempt), the (a_runtime_asset_manifest_sha256 attempt))
                   \<notin> set (approved_sample_runtime_bundles st)
               then Inr (Some False)
               else res_bind (verified_test_set_transfer pf st storage job config d) (\<lambda>transfer.
                 case transfer of
                   None \<Rightarrow> Inr (Some False)
                 | Some t \<Rightarrow> Inr (samples_verified job t d))))"

section \<open>The claim fence\<close>

text \<open>The rows that a status update locks, or the reason why it must not write.\<close>

definition lock_current_status_claim ::
  "platform \<Rightarrow> datetime \<Rightarrow> ident \<Rightarrow> ident \<Rightarrow> ident \<Rightarrow> ident \<Rightarrow> job_status \<Rightarrow> ledger \<Rightarrow>
   (job_lease_row \<times> job_row \<times> job_attempt_row \<times> worker_row) res" where
  "lock_current_status_claim pf now job_id attempt_id lease_id worker expected_status d =
     (let lease = get_lease lease_id d; job = get_job job_id d; attempt = get_attempt attempt_id d;
          locked_worker = get_worker_row worker d;
          lost = Inl (HTTPException 409 ''job claim changed before status commit'') in
      if job \<noteq> None \<and> attempt \<noteq> None \<and> validated_job_config pf (the job) attempt = None
      then Inl (HTTPException 409 ''job configuration integrity check failed'')
      else (case (lease, job, attempt, locked_worker) of
        (Some l, Some j, Some a, Some w) \<Rightarrow>
          if \<not> l_active l \<or> l_released_at l \<noteq> None \<or> l_expires_at l \<le> now \<or> l_job_id l \<noteq> job_id \<or>
             l_attempt_id l \<noteq> attempt_id \<or> l_worker_id l \<noteq> worker \<or> j_worker_id j \<noteq> Some worker \<or>
             j_current_attempt_id j \<noteq> Some attempt_id \<or> j_status j \<noteq> expected_status \<or>
             terminal (j_status j) \<or> a_job_id a \<noteq> job_id \<or> a_worker_id a \<noteq> worker \<or>
             a_finished_at a \<noteq> None \<or> a_status a \<noteq> expected_status \<or> terminal (a_status a) \<or>
             \<not> w_is_active w \<or> w_current_job_id w \<noteq> Some job_id
          then lost else Inr (l, j, a, w)
      | _ \<Rightarrow> lost))"

definition validate_terminal_telemetry_watermarks ::
  "ident \<Rightarrow> int option \<Rightarrow> int option \<Rightarrow> ledger \<Rightarrow> unit res" where
  "validate_terminal_telemetry_watermarks attempt log_count metric_count d =
     (case (log_count, metric_count) of
        (Some lc, Some mc) \<Rightarrow> checked
          [(\<exists>r \<in> set (job_logs d). lg_attempt_id r = attempt \<and> lg_sequence r \<ge> lc,
             HTTPException 409 ''telemetry_log_count is below an ingested sequence''),
           (\<exists>r \<in> set (metrics d). m_attempt_id r = attempt \<and> m_sequence r \<ge> mc,
             HTTPException 409 ''telemetry_metric_count is below an ingested sequence'')] ()
      | _ \<Rightarrow> Inr ())"

section \<open>The writes of a status update\<close>

definition updated_job :: "datetime \<Rightarrow> job_status_update \<Rightarrow> job_status \<Rightarrow> job_row \<Rightarrow> job_row" where
  "updated_job now payload target j =
     j\<lparr>j_current_epoch := (case su_current_epoch payload of None \<Rightarrow> j_current_epoch j | Some e \<Rightarrow> Some e),
       j_error_code := su_error_code payload, j_error_message := su_error_message payload,
       j_status := target,
       j_completed_at := (if target = COMPLETED then Some now else j_completed_at j)\<rparr>"

definition updated_attempt :: "datetime \<Rightarrow> job_status_update \<Rightarrow> job_status \<Rightarrow> job_attempt_row \<Rightarrow> job_attempt_row" where
  "updated_attempt now payload target a =
     (let a' = a\<lparr>a_error_code := su_error_code payload, a_error_message := su_error_message payload,
                 a_status := target\<rparr> in
      if terminal target
      then a'\<lparr>a_telemetry_log_count := su_telemetry_log_count payload,
              a_telemetry_metric_count := su_telemetry_metric_count payload,
              a_finished_at := Some now\<rparr>
      else a')"

definition idled :: "worker_row \<Rightarrow> worker_row" where
  "idled w = w\<lparr>w_current_job_id := None, w_status := IDLE\<rparr>"

definition write_status ::
  "datetime \<Rightarrow> job_status_update \<Rightarrow> job_status \<Rightarrow> job_lease_row \<Rightarrow> job_row \<Rightarrow> job_attempt_row \<Rightarrow> worker_row \<Rightarrow> ledger \<Rightarrow> ledger"
  where
  "write_status now payload target lease job attempt worker d =
     (let changed = (if j_status job \<noteq> target
        then add_status_event (j_id job) (Some (a_id attempt)) (Some (j_status job)) target
               (su_occurred_at payload) Worker_source
        else id) in
      (if terminal target
       then set_worker (w_id worker) idled \<circ> set_lease (l_id lease) (released now) else id)
      (changed
      (set_attempt (a_id attempt) (updated_attempt now payload target)
      (set_job (j_id job) (updated_job now payload target) d))))"

record status_ack =
  ack_job_id :: ident
  ack_status :: job_status
  ack_lease_expires_at :: "datetime option"

section \<open>The handler\<close>

text \<open>The first phase, on unlocked reads.\<close>

definition status_precheck ::
  "platform \<Rightarrow> settings \<Rightarrow> claim_storage \<Rightarrow> (job_row \<Rightarrow> test_set_transfer \<Rightarrow> ledger \<Rightarrow> bool option) \<Rightarrow> datetime \<Rightarrow> ident \<Rightarrow> ident \<Rightarrow> job_status_update \<Rightarrow> ledger \<Rightarrow>
   (job_row \<times> job_attempt_row) res" where
  "status_precheck pf st storage samples_verified now actor job_id payload d0 =
     res_bind (require_active_lease pf now actor job_id (su_lease_id payload) d0) (\<lambda>lease.
     case (get_job job_id d0, get_attempt (l_attempt_id lease) d0) of
       (Some job, Some attempt) \<Rightarrow>
         if j_current_attempt_id job \<noteq> Some (a_id attempt)
         then Inl (HTTPException 409 ''job attempt is no longer current'')
         else
         res_bind (validate_current_epoch job (su_current_epoch payload)) (\<lambda>_.
         res_bind (check_target job payload) (\<lambda>target.
         if target \<noteq> COMPLETED then Inr (job, attempt)
         else if \<not> required_artifacts_exist pf st job d0
         then Inl (HTTPException 409 ''required artifacts are not registered'')
         else
         res_bind (sample_completion_ready pf st storage samples_verified actor job d0) (\<lambda>ready.
         case ready of
           None \<Rightarrow> Inl (HTTPException 503 ''sample completion verification is temporarily unavailable'')
         | Some False \<Rightarrow> Inl (HTTPException 409 ''required samples are not registered'')
         | Some True \<Rightarrow> Inr (job, attempt))))
     | _ \<Rightarrow> Inl (HTTPException 409 ''job attempt is no longer current''))"

text \<open>
  The second phase, under the locks: the rows are read again (once more after the write fence of a
  terminal update) and every decision is made anew. \<open>now1\<close> and \<open>now2\<close> are the times of the two
  locked reads, \<open>fence\<close> tells whether the write fence could be taken.
\<close>

datatype 'a attempted = Decided "'a res" | Fence_lost

type_synonym status_rows =
  "job_status \<times> job_lease_row \<times> job_row \<times> job_attempt_row \<times> worker_row"

definition status_recheck ::
  "platform \<Rightarrow> datetime \<Rightarrow> ident \<Rightarrow> ident \<Rightarrow> ident \<Rightarrow> job_status \<Rightarrow> job_status_update \<Rightarrow> ledger \<Rightarrow> status_rows res"
  where
  "status_recheck pf now actor job_id attempt_id expected_status payload d =
     res_bind (lock_current_status_claim pf now job_id attempt_id (su_lease_id payload) actor
       expected_status d) (\<lambda>(lease, job, attempt, worker).
     res_bind (check_target job payload) (\<lambda>target.
     res_bind (validate_current_epoch job (su_current_epoch payload)) (\<lambda>_.
     Inr (target, lease, job, attempt, worker))))"

definition status_conclude ::
  "platform \<Rightarrow> settings \<Rightarrow> job_status_update \<Rightarrow> ledger \<Rightarrow> status_rows \<Rightarrow> status_rows res" where
  "status_conclude pf st payload d rows =
     (case rows of (target, lease, job, attempt, worker) \<Rightarrow>
        if target = COMPLETED \<and> \<not> required_artifacts_exist pf st job d
        then Inl (HTTPException 409 ''required artifacts changed before commit'')
        else if terminal target
        then res_bind (validate_terminal_telemetry_watermarks (a_id attempt)
               (su_telemetry_log_count payload) (su_telemetry_metric_count payload) d)
               (\<lambda>_. Inr rows)
        else Inr rows)"

definition status_locked ::
  "platform \<Rightarrow> settings \<Rightarrow> datetime \<Rightarrow> datetime \<Rightarrow> bool \<Rightarrow> ident \<Rightarrow> ident \<Rightarrow> ident \<Rightarrow> job_status \<Rightarrow> job_status_update \<Rightarrow> ledger \<Rightarrow> status_rows attempted"
  where
  "status_locked pf st now1 now2 fence actor job_id attempt_id expected_status payload d =
     (case status_recheck pf now1 actor job_id attempt_id expected_status payload d of
        Inl e \<Rightarrow> Decided (Inl e)
      | Inr rows \<Rightarrow>
          if \<not> terminal (fst rows) then Decided (status_conclude pf st payload d rows)
          else if \<not> fence then Fence_lost
          else Decided (res_bind
            (status_recheck pf now2 actor job_id attempt_id expected_status payload d)
            (status_conclude pf st payload d)))"

text \<open>
  One pass of the handler: the reads, the writes, the outbox event and the commit. The ledger it
  leaves is the one it locked unless the commit succeeded.
\<close>

datatype pass = Answered "status_ack res" ledger | Lock_lost | Version_lost

record status_env =
  env_unlocked :: ledger
  env_locked :: ledger
  env_now0 :: datetime
  env_now1 :: datetime
  env_now2 :: datetime
  env_now3 :: datetime
  env_fence :: bool
  env_commit :: commit
  env_event_id :: ident

definition status_pass ::
  "platform \<Rightarrow> settings \<Rightarrow> claim_storage \<Rightarrow> (job_row \<Rightarrow> test_set_transfer \<Rightarrow> ledger \<Rightarrow> bool option) \<Rightarrow> ident \<Rightarrow> ident \<Rightarrow> job_status_update \<Rightarrow> status_env \<Rightarrow> pass"
  where
  "status_pass pf st storage samples_verified actor job_id payload env =
     (let d = env_locked env; now = env_now3 env in
      case status_precheck pf st storage samples_verified (env_now0 env) actor job_id payload
             (env_unlocked env) of
        Inl e \<Rightarrow> Answered (Inl e) d
      | Inr (job0, attempt0) \<Rightarrow>
          (case status_locked pf st (env_now1 env) (env_now2 env) (env_fence env) actor job_id
                  (a_id attempt0) (j_status job0) payload d of
             Fence_lost \<Rightarrow> Lock_lost
           | Decided (Inl e) \<Rightarrow> Answered (Inl e) d
           | Decided (Inr (target, lease, job, attempt, worker)) \<Rightarrow>
               (let written = write_status now payload target lease job attempt worker d in
                case (if terminal target
                      then enqueue_terminal_status pf st now (env_event_id env)
                             (updated_job now payload target job) (a_id attempt) target written
                      else Inr (None, written)) of
                  Inl e \<Rightarrow> Answered (Inl e) d
                | Inr (_, d') \<Rightarrow>
                    (case env_commit env of
                       Committed \<Rightarrow> Answered (Inr \<lparr>ack_job_id = j_id job, ack_status = target,
                         ack_lease_expires_at =
                           (if terminal target then None else Some (l_expires_at lease))\<rparr>) d'
                     | Stale \<Rightarrow> Version_lost
                     | Integrity \<Rightarrow> Answered (Inl (Unhandled ''IntegrityError'')) d
                     | Operational \<Rightarrow> Answered (Inl (Unhandled ''OperationalError'')) d))))"

text \<open>
  The handler with its retries: pass \<open>n\<close> runs in the environment \<open>env n\<close>; the two flags are the
  retry counters kept in \<^verbatim>\<open>session.info\<close>. A pass that lost left nothing behind.
\<close>

function update_job_status ::
  "platform \<Rightarrow> settings \<Rightarrow> claim_storage \<Rightarrow> (job_row \<Rightarrow> test_set_transfer \<Rightarrow> ledger \<Rightarrow> bool option) \<Rightarrow> ident \<Rightarrow> ident \<Rightarrow> job_status_update \<Rightarrow> (nat \<Rightarrow> status_env) \<Rightarrow> nat \<Rightarrow> bool \<Rightarrow> bool \<Rightarrow> status_ack handled"
  where
  "update_job_status pf st storage sv actor job_id payload env n fence_retried stale_retried =
     (let lost = (Inl (HTTPException 409 ''job claim changed before status commit''), env_locked (env n)) in
      case status_pass pf st storage sv actor job_id payload (env n) of
        Answered r d \<Rightarrow> (r, d)
      | Lock_lost \<Rightarrow> if \<not> fence_retried
          then update_job_status pf st storage sv actor job_id payload env (n + 1) True stale_retried
          else lost
      | Version_lost \<Rightarrow> if \<not> stale_retried
          then update_job_status pf st storage sv actor job_id payload env (n + 1) fence_retried True
          else lost)"
  by pat_completeness auto
termination
  by (relation "measure (\<lambda>(_, _, _, _, _, _, _, _, _, f, s).
    (if f then 0 else 1) + (if s then 0 else 1))") auto


section \<open>What a successful update has checked\<close>

lemma check_target_Inr:
  "check_target job payload = Inr t \<longleftrightarrow> t = su_status payload \<and> may_transition (j_status job) t \<and>
     (j_cancel_requested_at job = None \<or> t = CANCELLED)"
  by (auto simp: check_target_def)

lemma validate_current_epoch_Inr:
  "validate_current_epoch job e = Inr () \<longleftrightarrow>
     (\<forall>n. e = Some n \<longrightarrow> n \<le> j_total_epoch job \<and> (\<forall>c. j_current_epoch job = Some c \<longrightarrow> c \<le> n))"
  by (auto simp: validate_current_epoch_def split: option.splits)

lemma watermarks_Inr:
  "validate_terminal_telemetry_watermarks a lc mc d = Inr () \<longleftrightarrow>
     (\<forall>l m. lc = Some l \<longrightarrow> mc = Some m \<longrightarrow>
        (\<forall>r \<in> set (job_logs d). lg_attempt_id r = a \<longrightarrow> lg_sequence r < l) \<and>
        (\<forall>r \<in> set (metrics d). m_attempt_id r = a \<longrightarrow> m_sequence r < m))"
  by (cases lc; cases mc) (auto simp: validate_terminal_telemetry_watermarks_def)

text \<open>The rows behind the fence.\<close>

definition fenced ::
  "platform \<Rightarrow> datetime \<Rightarrow> ident \<Rightarrow> ident \<Rightarrow> ident \<Rightarrow> job_lease_row \<Rightarrow> job_row \<Rightarrow> job_attempt_row \<Rightarrow> worker_row \<Rightarrow> ledger \<Rightarrow> bool"
  where
  "fenced pf now actor job_id lease_id l j a w d \<longleftrightarrow>
     get_lease lease_id d = Some l \<and> get_job job_id d = Some j \<and>
     get_attempt (l_attempt_id l) d = Some a \<and> get_worker_row actor d = Some w \<and>
     l_active l \<and> l_released_at l = None \<and> now < l_expires_at l \<and> l_job_id l = job_id \<and>
     l_worker_id l = actor \<and> j_worker_id j = Some actor \<and>
     j_current_attempt_id j = Some (l_attempt_id l) \<and> \<not> terminal (j_status j) \<and>
     a_job_id a = job_id \<and> a_worker_id a = actor \<and> a_finished_at a = None \<and>
     a_status a = j_status j \<and> w_is_active w \<and> w_current_job_id w = Some job_id \<and>
     validated_job_config pf j (Some a) \<noteq> None"

lemma lock_current_status_claim_Inr:
  assumes "lock_current_status_claim pf now job_id attempt_id lease_id actor expected d = Inr (l, j, a, w)"
  shows "fenced pf now actor job_id lease_id l j a w d" "j_status j = expected" "l_attempt_id l = attempt_id"
proof -
  note u = lock_current_status_claim_def Let_def
  from assms have rows: "get_lease lease_id d = Some l" "get_job job_id d = Some j"
    "get_attempt attempt_id d = Some a" "get_worker_row actor d = Some w"
    unfolding u by (auto split: if_splits option.splits)
  with assms have cfg: "validated_job_config pf j (Some a) \<noteq> None"
    unfolding u by (auto split: if_splits)
  show "fenced pf now actor job_id lease_id l j a w d" "j_status j = expected" "l_attempt_id l = attempt_id"
    using assms rows cfg unfolding u by (auto simp: fenced_def split: if_splits)
qed

lemma status_recheckD:
  assumes "status_recheck pf now actor job_id attempt_id expected payload d = Inr (t, l, j, a, w)"
  shows "fenced pf now actor job_id (su_lease_id payload) l j a w d" "t = su_status payload"
    "may_transition (j_status j) t" "j_cancel_requested_at j = None \<or> t = CANCELLED"
    "validate_current_epoch j (su_current_epoch payload) = Inr ()"
  using assms lock_current_status_claim_Inr
  by (auto simp: status_recheck_def check_target_Inr)

lemma status_concludeD:
  assumes "status_conclude pf st payload d (t, l, j, a, w) = Inr r"
  shows "r = (t, l, j, a, w)" "t = COMPLETED \<Longrightarrow> required_artifacts_exist pf st j d"
    "terminal t \<Longrightarrow> validate_terminal_telemetry_watermarks (a_id a) (su_telemetry_log_count payload)
       (su_telemetry_metric_count payload) d = Inr ()"
  using assms by (auto simp: status_conclude_def split: if_splits)

lemma status_lockedD:
  assumes "status_locked pf st now1 now2 fence actor job_id attempt_id expected payload d =
      Decided (Inr (t, l, j, a, w))"
  shows "fenced pf (if terminal t then now2 else now1) actor job_id (su_lease_id payload) l j a w d"
    "t = su_status payload" "may_transition (j_status j) t"
    "j_cancel_requested_at j = None \<or> t = CANCELLED"
    "validate_current_epoch j (su_current_epoch payload) = Inr ()"
    "t = COMPLETED \<Longrightarrow> required_artifacts_exist pf st j d"
    "terminal t \<Longrightarrow> validate_terminal_telemetry_watermarks (a_id a) (su_telemetry_log_count payload)
       (su_telemetry_metric_count payload) d = Inr ()"
proof -
  obtain t1 l1 j1 a1 w1 where r1:
    "status_recheck pf now1 actor job_id attempt_id expected payload d = Inr (t1, l1, j1, a1, w1)"
    using assms by (auto simp: status_locked_def split: sum.splits)
  have t1: "t1 = su_status payload" using status_recheckD(2) [OF r1] .
  obtain now where r: "status_recheck pf now actor job_id attempt_id expected payload d = Inr (t, l, j, a, w)"
    and c: "status_conclude pf st payload d (t, l, j, a, w) = Inr (t, l, j, a, w)"
    and now: "now = (if terminal t then now2 else now1)"
  proof (cases "terminal t1")
    case False
    then have c: "status_conclude pf st payload d (t1, l1, j1, a1, w1) = Inr (t, l, j, a, w)"
      using assms r1 by (simp add: status_locked_def)
    then have "(t, l, j, a, w) = (t1, l1, j1, a1, w1)" using status_concludeD(1) by blast
    then show thesis using that [of now1] r1 c False by simp
  next
    case True
    then obtain t2 l2 j2 a2 w2 where
      r2: "status_recheck pf now2 actor job_id attempt_id expected payload d = Inr (t2, l2, j2, a2, w2)"
      and c: "status_conclude pf st payload d (t2, l2, j2, a2, w2) = Inr (t, l, j, a, w)"
      using assms r1 by (auto simp: status_locked_def split: if_splits)
    then have "(t, l, j, a, w) = (t2, l2, j2, a2, w2)" using status_concludeD(1) by blast
    then show thesis using that [of now2] r2 c True t1 status_recheckD(2) [OF r2] by simp
  qed
  show "fenced pf (if terminal t then now2 else now1) actor job_id (su_lease_id payload) l j a w d"
    "t = su_status payload" "may_transition (j_status j) t"
    "j_cancel_requested_at j = None \<or> t = CANCELLED"
    "validate_current_epoch j (su_current_epoch payload) = Inr ()"
    "t = COMPLETED \<Longrightarrow> required_artifacts_exist pf st j d"
    "terminal t \<Longrightarrow> validate_terminal_telemetry_watermarks (a_id a) (su_telemetry_log_count payload)
       (su_telemetry_metric_count payload) d = Inr ()"
    using status_recheckD [OF r] status_concludeD [OF c] unfolding now by blast+
qed

text \<open>The tables after the writes of a status update.\<close>

definition status_written ::
  "datetime \<Rightarrow> job_status_update \<Rightarrow> job_status \<Rightarrow> job_lease_row \<Rightarrow> job_row \<Rightarrow> job_attempt_row \<Rightarrow> worker_row \<Rightarrow> ledger \<Rightarrow> ledger \<Rightarrow> bool"
  where
  "status_written now payload t l j a w d d' \<longleftrightarrow>
     jobs d' = upd_row j_id (j_id j) (orm_job (updated_job now payload t)) (jobs d) \<and>
     job_attempts d' = upd_row a_id (a_id a) (updated_attempt now payload t) (job_attempts d) \<and>
     job_leases d' = (if terminal t then upd_row l_id (l_id l) (released now) (job_leases d)
       else job_leases d) \<and>
     workers d' = (if terminal t then upd_row w_id (w_id w) (orm_worker idled) (workers d)
       else workers d) \<and>
     job_status_events d' = (if j_status j \<noteq> t then job_status_events d @
         [\<lparr>e_job_id = j_id j, e_attempt_id = Some (a_id a), e_previous_status = Some (j_status j),
           e_status = t, e_occurred_at = su_occurred_at payload, e_source = Worker_source\<rparr>]
       else job_status_events d) \<and>
     job_logs d' = job_logs d \<and> metrics d' = metrics d \<and> ingest_batches d' = ingest_batches d \<and>
     experiments d' = experiments d"

lemma write_status_written:
  "status_written now payload t l j a w d (write_status now payload t l j a w d)"
  by (simp add: status_written_def write_status_def)

lemma status_passE:
  assumes "status_pass pf st storage sv actor job_id payload env = Answered (Inr ack) d'"
  obtains t l j a w where
    "fenced pf (if terminal t then env_now2 env else env_now1 env) actor job_id (su_lease_id payload)
       l j a w (env_locked env)"
    "t = su_status payload" "may_transition (j_status j) t"
    "j_cancel_requested_at j = None \<or> t = CANCELLED"
    "validate_current_epoch j (su_current_epoch payload) = Inr ()"
    "t = COMPLETED \<Longrightarrow> required_artifacts_exist pf st j (env_locked env)"
    "terminal t \<Longrightarrow> validate_terminal_telemetry_watermarks (a_id a) (su_telemetry_log_count payload)
       (su_telemetry_metric_count payload) (env_locked env) = Inr ()"
    "status_written (env_now3 env) payload t l j a w (env_locked env) d'"
    "ack = \<lparr>ack_job_id = j_id j, ack_status = t,
       ack_lease_expires_at = (if terminal t then None else Some (l_expires_at l))\<rparr>"
    "env_commit env = Committed"
proof -
  obtain job0 attempt0 where pre: "status_precheck pf st storage sv (env_now0 env) actor job_id payload
      (env_unlocked env) = Inr (job0, attempt0)"
    using assms by (auto simp: status_pass_def Let_def split: sum.splits)
  obtain t l j a w where locked: "status_locked pf st (env_now1 env) (env_now2 env) (env_fence env)
      actor job_id (a_id attempt0) (j_status job0) payload (env_locked env) = Decided (Inr (t, l, j, a, w))"
    using assms pre by (auto simp: status_pass_def Let_def split: attempted.splits sum.splits)
  let ?d = "env_locked env" and ?now = "env_now3 env"
  let ?written = "write_status ?now payload t l j a w ?d"
  let ?r = "if terminal t then enqueue_terminal_status pf st ?now (env_event_id env)
      (updated_job ?now payload t j) (a_id a) t ?written else Inr (None, ?written)"
  obtain k d1 where enq: "?r = Inr (k, d1)"
    using assms pre locked by (auto simp: status_pass_def Let_def split: sum.splits)
  have fin: "env_commit env = Committed" "d' = d1" "ack = \<lparr>ack_job_id = j_id j, ack_status = t,
       ack_lease_expires_at = (if terminal t then None else Some (l_expires_at l))\<rparr>"
    using assms pre locked enq by (auto simp: status_pass_def Let_def split: commit.splits)
  have "status_written ?now payload t l j a w ?d d1"
    using enq write_status_written [of ?now payload t l j a w ?d]
      enqueue_for_job_frames [of pf st ?now "env_event_id env" _ _ _ _ _ _ ?written k d1]
    by (auto simp: status_written_def enqueue_terminal_status_def split: if_splits)
  with fin status_lockedD [OF locked] show thesis using that [of t l j a w] by blast
qed


section \<open>Status updates and heartbeats implement the assignment specification\<close>

lemma update_rows [simp]:
  "j_id (updated_job now payload t j) = j_id j" "a_id (updated_attempt now payload t a) = a_id a"
  "w_id (idled w) = w_id w" "w_id (beaten now hb w) = w_id w" "seat_of (beaten now hb w) = seat_of w"
  by (simp_all add: updated_job_def updated_attempt_def idled_def beaten_def seat_of_def Let_def)

lemma update_slots:
  "slot_of (updated_job now payload t j) = (slot_of j)\<lparr>slot_status := t\<rparr>"
  "\<not> terminal t \<Longrightarrow> run_of (updated_attempt now payload t a) = (run_of a)\<lparr>run_status := t\<rparr>"
  "terminal t \<Longrightarrow> run_of (updated_attempt now payload t a) = (run_of a)\<lparr>run_status := t,
     run_open := False, run_unsealed := (su_telemetry_log_count payload = None \<and>
       su_telemetry_metric_count payload = None)\<rparr>"
  "seat_of (idled w) = (seat_of w)\<lparr>seat_job := None\<rparr>"
  by (simp_all add: updated_job_def updated_attempt_def idled_def slot_defs Let_def)

lemma implements_progress:
  assumes ok: "assignment_ok d" and lease: "get_lease i d = Some l" "l_active l"
    and rows: "get_job (l_job_id l) d = Some j" "get_attempt (l_attempt_id l) d = Some a"
    and keys: "\<And>r. j_id (fj r) = j_id r" "\<And>r. a_id (fa r) = a_id r"
    and tables: "jobs d' = upd_row j_id (l_job_id l) fj (jobs d)"
      "job_attempts d' = upd_row a_id (l_attempt_id l) fa (job_attempts d)"
      "job_leases d' = job_leases d" "workers d' = workers d"
    and t: "may_transition (j_status j) t" "executing t"
    and job: "slot_of (fj j) = (slot_of j)\<lparr>slot_status := t\<rparr>"
    and attempt: "run_of (fa a) = (run_of a)\<lparr>run_status := t\<rparr>"
  shows "implements d d'"
proof -
  let ?b = "board_of d" and ?h = "held_of l"
  let ?c = "?b\<lparr>board_jobs := (board_jobs ?b)(held_job ?h \<mapsto> (slot_of j)\<lparr>slot_status := t\<rparr>),
     board_attempts := (board_attempts ?b)(held_attempt ?h \<mapsto> (run_of a)\<lparr>run_status := t\<rparr>)\<rparr>"
  have board: "board_of d' = ?c"
    using rows job attempt by (auto simp: board_of_def tables get_row_upd_row keys held_of_def fun_eq_iff)
  have keys': "keys_ok d'" using assignment_okD(1) [OF ok] by (simp add: keys_ok_def tables keys)
  show ?thesis
  proof (cases "t = j_status j")
    case True
    obtain a' where "get_attempt (l_attempt_id l) d = Some a'" "a_status a' = j_status j"
      using live_lease_rows [OF ok lease] rows(1) by (metis option.inject)
    then have "?c = ?b" using True rows by (auto simp: board_of_def held_of_def slot_defs fun_eq_iff)
    then show ?thesis using board keys' by (simp add: implements_def)
  next
    case False
    have "board_step ?b ?c"
      by (rule board_step.progress [where l = i]) (use lease rows t False in \<open>simp_all add: board_of_def slot_defs\<close>)
    then show ?thesis using board keys' by (intro implements_step) simp_all
  qed
qed

lemma status_pass_implements:
  assumes ok: "assignment_ok (env_locked env)"
    and pass: "status_pass pf st storage sv actor job_id payload env = Answered r d'"
  shows "implements (env_locked env) d'"
proof (cases r)
  case (Inl e)
  have "d' = env_locked env"
    using pass unfolding Inl
    by (auto simp: status_pass_def Let_def split: sum.splits attempted.splits prod.splits commit.splits)
  then show ?thesis using ok by (simp add: implements_refl)
next
  case (Inr ack)
  let ?d = "env_locked env"
  from pass [unfolded Inr] obtain t l j a w where
    f: "fenced pf (if terminal t then env_now2 env else env_now1 env) actor job_id (su_lease_id payload)
       l j a w ?d"
    and t: "may_transition (j_status j) t"
    and wr: "status_written (env_now3 env) payload t l j a w ?d d'"
    by (rule status_passE)
  from f have lease: "get_lease (su_lease_id payload) ?d = Some l" "l_active l"
    and rows: "get_job (l_job_id l) ?d = Some j" "get_attempt (l_attempt_id l) ?d = Some a"
      "get_worker_row (l_worker_id l) ?d = Some w" and nt: "\<not> terminal (j_status j)"
    by (auto simp: fenced_def)
  have ids: "l_id l = su_lease_id payload" "j_id j = l_job_id l" "a_id a = l_attempt_id l"
    "w_id w = l_worker_id l"
    using get_row_SomeD [OF lease(1)] get_row_SomeD [OF rows(1)] get_row_SomeD [OF rows(2)]
      get_row_SomeD [OF rows(3)] by auto
  have ex: "executing (j_status j)"
    using live_lease_rows [OF ok lease] rows(1) by (metis option.inject)
  show ?thesis
  proof (cases "terminal t")
    case True
    have "t \<in> set (ALLOWED_JOB_TRANSITIONS (j_status j))" using t True nt by metis
    with wr True show ?thesis
      by (intro implements_finish [OF ok lease rows])
        (auto simp: status_written_def ids update_slots slots_of_recovery)
  next
    case False
    have "executing t" using executing_step [OF ex t] False by blast
    with wr False t show ?thesis
      by (intro implements_progress [OF ok lease rows(1,2)])
        (auto simp: status_written_def ids update_slots simp del: terminal_simps)
  qed
qed

lemma heartbeat_implements:
  assumes ok: "assignment_ok d"
  shows "implements d (snd (heartbeat pf st now0 now outcome worker payload d))"
proof -
  obtain n d0 where r: "recover_expired_leases pf st now0 100 d = (Inr n, d0)" "implements d d0"
    using recover_ok [OF ok] by metis
  have ok0: "assignment_ok d0" using implements_ok ok r(2) by blast
  have refl: "implements d0 d0" using ok0 by (rule implements_refl)
  have beat: "implements d0 (set_worker i (beaten now payload) d0)"
    "implements d0 (set_worker i (beaten now payload) (set_lease k (renewed st now) d0))" for i k
    using ok0 assignment_okD(1) [OF ok0] by (auto intro!: implements_frame simp: board_of_frame)
  have "implements d0 (snd (heartbeat pf st now0 now outcome worker payload d))"
    using r(1) refl beat by (cases outcome) (simp_all add: heartbeat_def Let_def split: option.split)
  then show ?thesis using r(2) implements_trans by blast
qed

end
