(* ===== verification/Worker_Auth.thy ===== *)
theory Worker_Auth
  imports Status_Update
begin

text \<open>
  The identity of a Worker: token hashing and bootstrap verification (\<^verbatim>\<open>security.py\<close>), bearer
  authentication (\<^verbatim>\<open>dependencies.py\<close>), and the endpoints of \<^verbatim>\<open>routers/workers.py\<close> that register a
  worker, rotate its token in two steps, re-enrol it and revoke it.

  A raw token is an argument (\<^verbatim>\<open>secrets.token_urlsafe\<close> is outside the repository). The unique
  constraints of the table are part of the commit: a conflicting insert reports \<open>Integrity\<close>.

  Shown: every endpoint implements the assignment specification; token hashes stay unique, so that a
  token authenticates at most one worker; the four rotation columns are set or unset together;
  activating a rotation makes the new token the only one that authenticates; a revoked worker
  authenticates with no token and holds no job.
\<close>

section \<open>Tokens\<close>

definition hash_worker_token :: "platform \<Rightarrow> settings \<Rightarrow> string \<Rightarrow> string" where
  "hash_worker_token pf st token = hmac_sha256 pf (worker_token_pepper st) token"

definition verify_bootstrap_token :: "string option \<Rightarrow> settings \<Rightarrow> bool" where
  "verify_bootstrap_token provided st =
     (case (worker_bootstrap_token st, provided) of
        (Some configured, Some p) \<Rightarrow> configured = p
      | _ \<Rightarrow> False)"

text \<open>\<^verbatim>\<open>require_worker\<close>; the credentials are the scheme and the token of the header.\<close>

definition require_worker ::
  "platform \<Rightarrow> settings \<Rightarrow> (string \<times> string) option \<Rightarrow> ledger \<Rightarrow> worker_row res" where
  "require_worker pf st credentials d =
     (case credentials of
        None \<Rightarrow> Inl (HTTPException 401 ''worker bearer token required'')
      | Some (scheme, token) \<Rightarrow>
          if map lower_char scheme \<noteq> ''bearer''
          then Inl (HTTPException 401 ''worker bearer token required'')
          else (case find (\<lambda>w. w_token_hash w = hash_worker_token pf st token \<and> w_is_active w) (workers d) of
            None \<Rightarrow> Inl (HTTPException 401 ''invalid worker token'')
          | Some w \<Rightarrow> Inr w))"

section \<open>Registration\<close>

record worker_register_request =
  reg_name :: string
  reg_capabilities :: worker_capabilities

record worker_register_response =
  resp_worker_id :: ident
  resp_worker_token :: string
  resp_issued_at :: datetime

text \<open>The unique constraints on the worker table that writing row \<open>r\<close> may violate.\<close>

definition worker_conflict :: "worker_row \<Rightarrow> ledger \<Rightarrow> bool" where
  "worker_conflict r d \<longleftrightarrow>
     (\<exists>w \<in> set (workers d). w_id w \<noteq> w_id r \<and>
        (w_name w = w_name r \<or> w_token_hash w = w_token_hash r \<or>
         (w_pending_token_hash w \<noteq> None \<and> w_pending_token_hash w = w_pending_token_hash r)))"

definition worker_commit :: "worker_row \<Rightarrow> commit \<Rightarrow> ledger \<Rightarrow> commit" where
  "worker_commit r outcome d = (if worker_conflict r d then Integrity else outcome)"

definition registered ::
  "platform \<Rightarrow> settings \<Rightarrow> datetime \<Rightarrow> ident \<Rightarrow> string \<Rightarrow> worker_register_request \<Rightarrow> worker_row" where
  "registered pf st now new_id raw_token payload =
     \<lparr>w_id = new_id, w_row_version = 1, w_name = reg_name payload,
      w_token_hash = hash_worker_token pf st raw_token, w_token_issued_at = now,
      w_token_rotation_id = None, w_pending_token_hash = None, w_token_rotation_started_at = None,
      w_token_rotation_expires_at = None, w_status = IDLE,
      w_capabilities_json = reg_capabilities payload,
      w_worker_version = worker_version (reg_capabilities payload),
      w_rvc_commit_hash = cap_rvc_commit_hash (reg_capabilities payload),
      w_last_heartbeat_at = Some now, w_current_job_id = None, w_is_active = True,
      w_created_at = now\<rparr>"

definition register_worker ::
  "platform \<Rightarrow> settings \<Rightarrow> datetime \<Rightarrow> ident \<Rightarrow> string \<Rightarrow> commit \<Rightarrow> string option \<Rightarrow> worker_register_request \<Rightarrow> ledger \<Rightarrow> worker_register_response handled"
  where
  "register_worker pf st now new_id raw_token outcome bootstrap payload d =
     (if worker_bootstrap_token st = None
      then (Inl (HTTPException 503 ''worker registration is disabled''), d)
      else if \<not> verify_bootstrap_token bootstrap st
      then (Inl (HTTPException 401 ''invalid worker bootstrap token''), d)
      else
        (let worker = registered pf st now new_id raw_token payload in
         if get_worker_row new_id d \<noteq> None
         then (Inl (HTTPException 409 ''worker name already registered''), d)
         else case worker_commit worker outcome d of
           Committed \<Rightarrow>
             (Inr \<lparr>resp_worker_id = new_id, resp_worker_token = raw_token, resp_issued_at = now\<rparr>,
              workers_update (\<lambda>ws. ws @ [worker]) d)
         | Operational \<Rightarrow> (Inl (Unhandled ''OperationalError''), d)
         | _ \<Rightarrow> (Inl (HTTPException 409 ''worker name already registered''), d)))"

section \<open>Token rotation\<close>

definition token_rotation_status :: "worker_row \<Rightarrow> worker_token_rotation_status res" where
  "token_rotation_status worker =
     (let pending = (w_pending_token_hash worker \<noteq> None) in
      case validate_pending_fields
        \<lparr>rs_worker_id = w_id worker, rs_token_issued_at = w_token_issued_at worker,
         rs_pending = pending,
         rs_rotation_id = (if pending then w_token_rotation_id worker else None),
         rs_started_at = (if pending then w_token_rotation_started_at worker else None),
         rs_expires_at = (if pending then w_token_rotation_expires_at worker else None)\<rparr> of
        Inl _ \<Rightarrow> Inl (Unhandled ''ValidationError'')
      | Inr r \<Rightarrow> Inr r)"

definition clear_token_rotation :: "worker_row \<Rightarrow> worker_row" where
  "clear_token_rotation w =
     w\<lparr>w_token_rotation_id := None, w_pending_token_hash := None,
       w_token_rotation_started_at := None, w_token_rotation_expires_at := None\<rparr>"

definition unreleased_leases :: "ident \<Rightarrow> ledger \<Rightarrow> job_lease_row list" where
  "unreleased_leases worker d =
     sort_key l_id (filter (\<lambda>l. l_worker_id l = worker \<and> l_active l \<and> l_released_at l = None)
       (job_leases d))"

definition lock_worker_token_rotation_boundary ::
  "ident \<Rightarrow> bool \<Rightarrow> ledger \<Rightarrow> (worker_row \<times> job_lease_row list) res" where
  "lock_worker_token_rotation_boundary worker allow_inactive d =
     (case get_worker_row worker d of
        None \<Rightarrow> Inl (HTTPException 401 ''invalid worker token'')
      | Some w \<Rightarrow>
          if \<not> allow_inactive \<and> \<not> w_is_active w
          then Inl (HTTPException 401 ''invalid worker token'')
          else Inr (w, unreleased_leases worker d))"

definition require_rotation_idle :: "worker_row \<Rightarrow> job_lease_row list \<Rightarrow> unit res" where
  "require_rotation_idle w leases =
     (if w_current_job_id w \<noteq> None \<or> leases \<noteq> []
      then Inl (HTTPException 409 ''worker token rotation requires an idle Worker with no active lease'')
      else Inr ())"

text \<open>
  The start of the three rotation endpoints: lock the boundary and make sure that the token the
  request was authenticated with is still the worker's.
\<close>

definition rotation_boundary :: "worker_row \<Rightarrow> ledger \<Rightarrow> (worker_row \<times> job_lease_row list) res" where
  "rotation_boundary authenticated d =
     res_bind (lock_worker_token_rotation_boundary (w_id authenticated) False d) (\<lambda>(w, leases).
     if w_token_hash w \<noteq> w_token_hash authenticated
     then Inl (HTTPException 401 ''worker token changed during rotation'')
     else Inr (w, leases))"

definition rotation_prepared ::
  "platform \<Rightarrow> settings \<Rightarrow> datetime \<Rightarrow> string \<Rightarrow> string \<Rightarrow> worker_row \<Rightarrow> worker_row" where
  "rotation_prepared pf st now rotation_id raw_token w =
     w\<lparr>w_token_rotation_id := Some rotation_id,
       w_pending_token_hash := Some (hash_worker_token pf st raw_token),
       w_token_rotation_started_at := Some now,
       w_token_rotation_expires_at := Some (now + seconds (worker_token_rotation_ttl_seconds st))\<rparr>"

definition prepare_token_rotation ::
  "platform \<Rightarrow> settings \<Rightarrow> datetime \<Rightarrow> string \<Rightarrow> commit \<Rightarrow> worker_row \<Rightarrow> string \<Rightarrow> ledger \<Rightarrow> (ident \<times> string \<times> string \<times> datetime) handled"
  where
  "prepare_token_rotation pf st now raw_token outcome authenticated rotation_id d =
     (case res_bind (rotation_boundary authenticated d)
             (\<lambda>(w, leases). res_bind (require_rotation_idle w leases) (\<lambda>_. Inr w)) of
        Inl e \<Rightarrow> (Inl e, d)
      | Inr w \<Rightarrow>
          if w_pending_token_hash w \<noteq> None \<and>
             \<not> (\<exists>t \<in> set_option (w_token_rotation_expires_at w). t \<le> now)
          then (Inl (HTTPException 409 ''a one-time Worker token rotation is already pending''), d)
          else
            (let write = rotation_prepared pf st now rotation_id raw_token;
                 audit = (\<lambda>action. add_audit_event ''worker'' (Some (w_id w)) action ''worker'' (Some (w_id w)));
                 expired = (if w_pending_token_hash w \<noteq> None
                   then audit ''worker.token_rotation_expired'' else id) in
             case worker_commit (write w) outcome d of
               Committed \<Rightarrow>
                 (Inr (w_id w, rotation_id, raw_token,
                       now + seconds (worker_token_rotation_ttl_seconds st)),
                  audit ''worker.token_rotation_prepared'' (expired (set_worker (w_id w) write d)))
             | Operational \<Rightarrow> (Inl (Unhandled ''OperationalError''), d)
             | _ \<Rightarrow> (Inl (HTTPException 409 ''Worker token rotation conflicted''), d)))"

definition abort_token_rotation ::
  "commit \<Rightarrow> worker_row \<Rightarrow> string \<Rightarrow> ledger \<Rightarrow> worker_token_rotation_status handled" where
  "abort_token_rotation outcome authenticated rotation_id d =
     (case rotation_boundary authenticated d of
        Inl e \<Rightarrow> (Inl e, d)
      | Inr (w, _) \<Rightarrow>
          if w_pending_token_hash w = None then (token_rotation_status w, d)
          else if w_token_rotation_id w \<noteq> Some rotation_id
          then (Inl (HTTPException 409 ''a different Worker token rotation is pending''), d)
          else (case worker_commit (clear_token_rotation w) outcome d of
            Committed \<Rightarrow>
              (token_rotation_status (clear_token_rotation w),
               add_audit_event ''worker'' (Some (w_id w)) ''worker.token_rotation_aborted'' ''worker''
                 (Some (w_id w)) (set_worker (w_id w) clear_token_rotation d))
          | Stale \<Rightarrow> (Inl (HTTPException 409 ''Worker token rotation changed before abort commit''), d)
          | Integrity \<Rightarrow> (Inl (Unhandled ''IntegrityError''), d)
          | Operational \<Rightarrow> (Inl (Unhandled ''OperationalError''), d)))"

definition rotation_activated :: "datetime \<Rightarrow> worker_row \<Rightarrow> worker_row" where
  "rotation_activated now w =
     clear_token_rotation (w\<lparr>w_token_hash := the (w_pending_token_hash w), w_token_issued_at := now\<rparr>)"

definition activate_token_rotation ::
  "platform \<Rightarrow> settings \<Rightarrow> datetime \<Rightarrow> commit \<Rightarrow> worker_row \<Rightarrow> string \<Rightarrow> string option \<Rightarrow> ledger \<Rightarrow> (ident \<times> string \<times> datetime) handled"
  where
  "activate_token_rotation pf st now outcome authenticated rotation_id pending_token d =
     (case pending_token of
        None \<Rightarrow> (Inl (HTTPException 401 ''pending Worker token required''), d)
      | Some token \<Rightarrow>
          (case res_bind (rotation_boundary authenticated d)
                  (\<lambda>(w, leases). res_bind (require_rotation_idle w leases) (\<lambda>_. Inr w)) of
             Inl e \<Rightarrow> (Inl e, d)
           | Inr w \<Rightarrow>
               if w_token_rotation_id w \<noteq> Some rotation_id \<or> w_pending_token_hash w = None \<or>
                  \<not> (\<exists>t \<in> set_option (w_token_rotation_expires_at w). now < t) \<or>
                  w_pending_token_hash w \<noteq> Some (hash_worker_token pf st token)
               then (Inl (HTTPException 409 ''pending Worker token rotation is invalid''), d)
               else (case worker_commit (rotation_activated now w) outcome d of
                 Committed \<Rightarrow>
                   (Inr (w_id w, rotation_id, now),
                    add_audit_event ''worker'' (Some (w_id w)) ''worker.token_rotated'' ''worker''
                      (Some (w_id w)) (set_worker (w_id w) (rotation_activated now) d))
               | Stale \<Rightarrow>
                   (Inl (HTTPException 409 ''Worker token rotation changed before activation commit''), d)
               | Integrity \<Rightarrow> (Inl (Unhandled ''IntegrityError''), d)
               | Operational \<Rightarrow> (Inl (Unhandled ''OperationalError''), d))))"

section \<open>Re-enrolment\<close>

definition re_enrolled ::
  "platform \<Rightarrow> settings \<Rightarrow> datetime \<Rightarrow> string \<Rightarrow> worker_capabilities \<Rightarrow> worker_row \<Rightarrow> worker_row" where
  "re_enrolled pf st now raw_token capabilities w =
     clear_token_rotation (w\<lparr>w_token_hash := hash_worker_token pf st raw_token, w_token_issued_at := now,
       w_status := IDLE, w_capabilities_json := capabilities,
       w_worker_version := worker_version capabilities,
       w_rvc_commit_hash := cap_rvc_commit_hash capabilities,
       w_last_heartbeat_at := None, w_is_active := True\<rparr>)"

definition re_enroll_worker ::
  "platform \<Rightarrow> settings \<Rightarrow> datetime \<Rightarrow> string \<Rightarrow> commit \<Rightarrow> string option \<Rightarrow> ident \<Rightarrow> worker_register_request \<Rightarrow> ledger \<Rightarrow> worker_register_response handled"
  where
  "re_enroll_worker pf st now raw_token outcome bootstrap worker_id payload d =
     (if worker_bootstrap_token st = None
      then (Inl (HTTPException 503 ''worker re-enrollment is disabled''), d)
      else if \<not> verify_bootstrap_token bootstrap st
      then (Inl (HTTPException 401 ''invalid worker bootstrap token''), d)
      else (case lock_worker_token_rotation_boundary worker_id True d of
        Inl e \<Rightarrow> (Inl e, d)
      | Inr (w, leases) \<Rightarrow>
          if w_name w \<noteq> reg_name payload
          then (Inl (HTTPException 409 ''Worker re-enrollment identity does not match''), d)
          else if w_is_active w \<or> w_current_job_id w \<noteq> None \<or> leases \<noteq> []
          then (Inl (HTTPException 409 ''only an inactive unassigned Worker can be re-enrolled''), d)
          else
            (let write = re_enrolled pf st now raw_token (reg_capabilities payload) in
             case worker_commit (write w) outcome d of
               Committed \<Rightarrow>
                 (Inr \<lparr>resp_worker_id = w_id w, resp_worker_token = raw_token, resp_issued_at = now\<rparr>,
                  add_audit_event ''system'' None ''worker.re_enrolled'' ''worker'' (Some (w_id w))
                    (set_worker (w_id w) write d))
             | Operational \<Rightarrow> (Inl (Unhandled ''OperationalError''), d)
             | _ \<Rightarrow> (Inl (HTTPException 409 ''Worker re-enrollment conflicted''), d))))"

section \<open>Revocation\<close>

record worker_token_revoke_request =
  rv_expected_worker_name :: string
  rv_reason_code :: string
  rv_force_cancel_active :: bool

definition revoked_job :: "datetime \<Rightarrow> job_row \<Rightarrow> job_row" where
  "revoked_job now j = j\<lparr>j_status := CANCELLED, j_cancel_requested_at := Some now,
     j_error_code := Some ''worker_token_emergency_revoked'',
     j_error_message := Some ''The assigned Worker credential was revoked by an administrator.''\<rparr>"

definition revoked_attempt :: "datetime \<Rightarrow> job_attempt_row \<Rightarrow> job_attempt_row" where
  "revoked_attempt now a = a\<lparr>a_status := CANCELLED,
     a_error_code := Some ''worker_token_emergency_revoked'',
     a_error_message := Some ''The assigned Worker credential was revoked by an administrator.'',
     a_finished_at := Some now\<rparr>"

definition revoked_worker ::
  "platform \<Rightarrow> settings \<Rightarrow> datetime \<Rightarrow> string \<Rightarrow> worker_row \<Rightarrow> worker_row" where
  "revoked_worker pf st now raw_token w =
     clear_token_rotation (w\<lparr>w_token_hash := hash_worker_token pf st raw_token,
       w_token_issued_at := now, w_is_active := False, w_status := DRAINING,
       w_current_job_id := None\<rparr>)"

definition inconsistent_assignment :: "api_error" where
  "inconsistent_assignment =
     HTTPException 409 ''Worker assignment ledger is inconsistent; revoke was not applied''"

text \<open>One round of the loop over the leases; \<open>event_id\<close> names the outbox row it may insert.\<close>

definition revoke_lease ::
  "platform \<Rightarrow> settings \<Rightarrow> datetime \<Rightarrow> ident \<Rightarrow> ident \<Rightarrow> job_lease_row \<Rightarrow> ledger \<Rightarrow> ledger res" where
  "revoke_lease pf st now event_id worker lease d =
     (case (get_job (l_job_id lease) d, get_attempt (l_attempt_id lease) d) of
        (Some job, Some attempt) \<Rightarrow>
          if l_worker_id lease \<noteq> worker \<or> j_worker_id job \<noteq> Some worker \<or>
             j_current_attempt_id job \<noteq> Some (a_id attempt) \<or> a_job_id attempt \<noteq> j_id job \<or>
             a_worker_id attempt \<noteq> worker \<or> a_finished_at attempt \<noteq> None \<or> terminal (j_status job)
          then Inl inconsistent_assignment
          else res_bind
            (enqueue_terminal_status pf st now event_id (revoked_job now job) (a_id attempt) CANCELLED
              (add_status_event (j_id job) (Some (a_id attempt)) (Some (j_status job)) CANCELLED now
                 Manager_source
              (set_lease (l_id lease) (released now)
              (set_attempt (a_id attempt) (revoked_attempt now)
              (set_job (j_id job) (revoked_job now) d)))))
            (\<lambda>(_, d'). Inr d')
      | _ \<Rightarrow> Inl inconsistent_assignment)"

fun revoke_leases ::
  "platform \<Rightarrow> settings \<Rightarrow> datetime \<Rightarrow> (ident \<Rightarrow> ident) \<Rightarrow> ident \<Rightarrow> job_lease_row list \<Rightarrow> ledger \<Rightarrow> ledger res" where
  "revoke_leases pf st now event_ids worker [] d = Inr d"
| "revoke_leases pf st now event_ids worker (l # ls) d =
     res_bind (revoke_lease pf st now (event_ids (l_id l)) worker l d)
       (revoke_leases pf st now event_ids worker ls)"

text \<open>
  \<^verbatim>\<open>_worker_to_read\<close>; \<open>updated_at\<close> is not a column of the model, the stored capabilities are
  the capability record.
\<close>

record worker_read =
  wr_id :: ident
  wr_name :: string
  wr_status :: worker_status
  wr_capabilities :: worker_capabilities
  wr_worker_version :: string
  wr_rvc_commit_hash :: string
  wr_last_heartbeat_at :: "datetime option"
  wr_current_job_id :: "ident option"
  wr_is_active :: bool
  wr_online :: bool
  wr_token_issued_at :: datetime
  wr_token_rotation_pending :: bool
  wr_token_rotation_expires_at :: "datetime option"
  wr_created_at :: datetime

definition worker_to_read :: "settings \<Rightarrow> datetime \<Rightarrow> worker_row \<Rightarrow> worker_read" where
  "worker_to_read st now w =
     (let online_after = now - seconds (worker_offline_seconds st) in
      \<lparr>wr_id = w_id w, wr_name = w_name w, wr_status = w_status w,
       wr_capabilities = w_capabilities_json w, wr_worker_version = w_worker_version w,
       wr_rvc_commit_hash = w_rvc_commit_hash w, wr_last_heartbeat_at = w_last_heartbeat_at w,
       wr_current_job_id = w_current_job_id w, wr_is_active = w_is_active w,
       wr_online = (w_is_active w \<and> (\<exists>t \<in> set_option (w_last_heartbeat_at w). t \<ge> online_after)),
       wr_token_issued_at = w_token_issued_at w,
       wr_token_rotation_pending = (w_pending_token_hash w \<noteq> None),
       wr_token_rotation_expires_at = w_token_rotation_expires_at w, wr_created_at = w_created_at w\<rparr>)"

text \<open>
  One pass of \<^verbatim>\<open>revoke_worker_token\<close>, up to the commit, and the handler with its one retry on fresh
  reads: \<open>env n\<close> is what pass \<open>n\<close> finds.
\<close>

record revoke_env =
  rv_ledger :: ledger
  rv_now :: datetime
  rv_raw_token :: string
  rv_event_ids :: "ident \<Rightarrow> ident"
  rv_commit :: commit

datatype revoke_outcome = Revoke_answered "worker_read res" ledger | Revoke_stale

definition revoke_pass ::
  "platform \<Rightarrow> settings \<Rightarrow> ident \<Rightarrow> ident \<Rightarrow> worker_token_revoke_request \<Rightarrow> revoke_env \<Rightarrow> revoke_outcome" where
  "revoke_pass pf st admin worker_id payload env =
     (let d = rv_ledger env; now = rv_now env; leases = unreleased_leases worker_id d;
          refuse = (\<lambda>e. Revoke_answered (Inl e) d) in
      case get_worker_row worker_id d of
        None \<Rightarrow> refuse (HTTPException 404 ''worker not found'')
      | Some w \<Rightarrow>
          if w_name w \<noteq> rv_expected_worker_name payload
          then refuse (HTTPException 409 ''Worker revocation identity does not match'')
          else if (w_current_job_id w \<noteq> None \<or> leases \<noteq> []) \<and> \<not> rv_force_cancel_active payload
          then refuse (HTTPException 409 ''active Worker revocation requires explicit force_cancel_active'')
          else if truthy (w_current_job_id w) \<noteq> (leases \<noteq> []) \<or> length leases > 1 \<or>
            (\<exists>j \<in> set_option (w_current_job_id w). j \<notin> l_job_id ` set leases)
          then refuse inconsistent_assignment
          else (case revoke_leases pf st now (rv_event_ids env) (w_id w) leases d of
            Inl e \<Rightarrow> refuse e
          | Inr d' \<Rightarrow>
              (let write = revoked_worker pf st now (rv_raw_token env) in
               case worker_commit (write w) (rv_commit env) d of
                 Committed \<Rightarrow> Revoke_answered (Inr (worker_to_read st now (write w)))
                   (add_audit_event ''user'' (Some admin) ''worker.token_revoked'' ''worker''
                     (Some (w_id w)) (set_worker (w_id w) write d'))
               | Stale \<Rightarrow> Revoke_stale
               | Integrity \<Rightarrow> refuse (Unhandled ''IntegrityError'')
               | Operational \<Rightarrow> refuse (Unhandled ''OperationalError''))))"

definition revoke_worker_token ::
  "platform \<Rightarrow> settings \<Rightarrow> ident \<Rightarrow> ident \<Rightarrow> worker_token_revoke_request \<Rightarrow> (nat \<Rightarrow> revoke_env) \<Rightarrow> worker_read handled"
  where
  "revoke_worker_token pf st admin worker_id payload env =
     (case revoke_pass pf st admin worker_id payload (env 0) of
        Revoke_answered r d \<Rightarrow> (r, d)
      | Revoke_stale \<Rightarrow>
          (case revoke_pass pf st admin worker_id payload (env 1) of
             Revoke_answered r d \<Rightarrow> (r, d)
           | Revoke_stale \<Rightarrow>
               (Inl (HTTPException 409 ''Worker revocation raced with another assignment update''),
                rv_ledger (env 1))))"


section \<open>Credentials\<close>

text \<open>
  What authentication reads of the worker table. The handlers of the assignment (claim, heartbeat,
  status, recovery) leave it alone; only the endpoints of this theory change it.
\<close>

definition credential :: "worker_row \<Rightarrow> ident \<times> string \<times> string \<times> bool \<times> string option \<times> string option \<times> datetime option \<times> datetime option" where
  "credential w = (w_id w, w_name w, w_token_hash w, w_is_active w, w_pending_token_hash w,
     w_token_rotation_id w, w_token_rotation_started_at w, w_token_rotation_expires_at w)"

definition credentials :: "ledger \<Rightarrow> (ident \<times> string \<times> string \<times> bool \<times> string option \<times> string option \<times> datetime option \<times> datetime option) list" where
  "credentials d = map credential (workers d)"

text \<open>The four columns of a rotation are set together or not at all.\<close>

definition rotation_together :: "worker_row \<Rightarrow> bool" where
  "rotation_together w \<longleftrightarrow>
     (w_pending_token_hash w = None) = (w_token_rotation_id w = None) \<and>
     (w_pending_token_hash w = None) = (w_token_rotation_started_at w = None) \<and>
     (w_pending_token_hash w = None) = (w_token_rotation_expires_at w = None)"

lemma rotation_together_orm [simp]: "rotation_together (orm_worker f w) = rotation_together (f w)"
  by (simp add: rotation_together_def)

definition tokens_ok :: "ledger \<Rightarrow> bool" where
  "tokens_ok d \<longleftrightarrow> distinct (map w_token_hash (workers d)) \<and> distinct (map w_name (workers d)) \<and>
     (\<forall>w \<in> set (workers d). rotation_together w)"

lemma credentials_maps:
  "map w_token_hash (workers d) = map (\<lambda>(_, _, h, _). h) (credentials d)"
  "map w_name (workers d) = map (\<lambda>(_, n, _). n) (credentials d)"
  "(\<forall>w \<in> set (workers d). rotation_together w) \<longleftrightarrow>
     (\<forall>(_, _, _, _, p, i, s, e) \<in> set (credentials d).
        (p = None) = (i = None) \<and> (p = None) = (s = None) \<and> (p = None) = (e = None))"
  by (auto simp: credentials_def credential_def rotation_together_def)

lemma tokens_ok_credentials: "credentials d' = credentials d \<Longrightarrow> tokens_ok d' = tokens_ok d"
  by (simp add: tokens_ok_def credentials_maps)

lemma credentials_workers: "workers d' = workers d \<Longrightarrow> credentials d' = credentials d"
  by (simp add: credentials_def)

lemma credential_orm [simp]: "credential (orm_worker f w) = credential (f w)"
  by (simp add: credential_def)

lemma credentials_upd_row:
  "(\<And>w. credential (f w) = credential w) \<Longrightarrow> map credential (upd_row w_id i f ws) = map credential ws"
  by (induction ws) auto

lemma credentials_set_worker:
  "(\<And>w. credential (f w) = credential w) \<Longrightarrow> credentials (set_worker i f d) = credentials d"
  by (simp add: credentials_def credentials_upd_row)

lemma credential_frames [simp]:
  "credential (freed i w) = credential w" "credential (idled w) = credential w"
  "credential (beaten now hb w) = credential w"
  by (simp_all add: credential_def freed_def idled_def beaten_def)

text \<open>A token belongs to at most one worker, and opens the door only while that worker is active.\<close>

lemma find_distinct:
  assumes "distinct (map f xs)"
  shows "find (\<lambda>x. f x = k \<and> P x) xs = Some x \<longleftrightarrow> x \<in> set xs \<and> f x = k \<and> P x"
  using assms by (induction xs) (auto simp: image_iff)

lemma require_worker_iff:
  assumes "tokens_ok d"
  shows "require_worker pf st (Some (scheme, token)) d = Inr w \<longleftrightarrow>
    map lower_char scheme = ''bearer'' \<and> w \<in> set (workers d) \<and>
    w_token_hash w = hash_worker_token pf st token \<and> w_is_active w"
  using assms find_distinct [of w_token_hash "workers d" "hash_worker_token pf st token" w_is_active w]
  by (auto simp: require_worker_def tokens_ok_def split: option.splits)

text \<open>Writing a row that violates no unique constraint keeps the table in order.\<close>

lemma distinct_upd_row:
  assumes keys: "\<And>r. key (f r) = key r" and d: "distinct (map g rs)" "wf_table key rs"
    and r: "get_row key i rs = Some r" and new: "\<And>s. s \<in> set rs \<Longrightarrow> key s \<noteq> i \<Longrightarrow> g s \<noteq> g (f r)"
  shows "distinct (map g (upd_row key i f rs))"
  using d r new
proof (induction rs)
  case (Cons s rs)
  show ?case
  proof (cases "key s = i")
    case True
    then have [simp]: "s = r" "key r = i" using Cons.prems by simp_all
    have "i \<notin> key ` set rs" using Cons.prems(2) by (auto simp: wf_table_def)
    then have "upd_row key i f rs = rs" "\<And>x. x \<in> set rs \<Longrightarrow> key x \<noteq> i" by (auto intro: upd_row_id)
    then show ?thesis using Cons.prems(1,4) by (auto simp: wf_table_def) metis
  next
    case False
    then have r: "get_row key i rs = Some r" using Cons.prems by simp
    have "distinct (map g (upd_row key i f rs))"
      by (rule Cons.IH) (use Cons.prems False r in \<open>auto simp: wf_table_def\<close>)
    moreover have "g s \<notin> g ` set (upd_row key i f rs)"
    proof
      assume "g s \<in> g ` set (upd_row key i f rs)"
      then obtain x where x: "x \<in> set (upd_row key i f rs)" "g s = g x" by auto
      from x(1) show False
      proof (cases rule: set_upd_rowE)
        case 1
        then show False using x(2) Cons.prems(1) by auto
      next
        case (2 r0)
        then have "r0 = r" using r Cons.prems(2) get_row_iff [of key rs i r0]
          by (auto simp: wf_table_def)
        then show False using Cons.prems(4) [of s] False 2 x(2) by auto
      qed
    qed
    ultimately show ?thesis using False by simp
  qed
qed simp

lemma tokens_ok_write:
  assumes ok: "tokens_ok d" "wf_table w_id (workers d)" and w: "get_worker_row i d = Some w"
    and keys: "\<And>r. w_id (f r) = w_id r" and clean: "\<not> worker_conflict (f w) d"
    and together: "rotation_together (f w)"
    and tables: "workers d' = upd_row w_id i (orm_worker f) (workers d)"
  shows "tokens_ok d'"
proof -
  have id: "w_id w = i" using get_row_SomeD [OF w] by simp
  have other: "w_token_hash s \<noteq> w_token_hash (orm_worker f w)" "w_name s \<noteq> w_name (orm_worker f w)"
    if "s \<in> set (workers d)" "w_id s \<noteq> i" for s
    using that clean keys id by (auto simp: worker_conflict_def)
  have "rotation_together v" if "v \<in> set (workers d')" for v
    using that unfolding tables
  proof (cases rule: set_upd_rowE)
    case 1
    then show ?thesis using ok(1) by (simp add: tokens_ok_def)
  next
    case (2 r0)
    then have "get_worker_row i d = Some r0" by (simp add: get_row_iff [OF ok(2)])
    then have "r0 = w" using w by simp
    then show ?thesis using together 2(3) by simp
  qed
  moreover have "distinct (map w_token_hash (workers d'))" "distinct (map w_name (workers d'))"
    unfolding tables
    by (rule distinct_upd_row [OF _ _ ok(2) w]; use ok(1) other keys in \<open>simp add: tokens_ok_def\<close>)+
  ultimately show ?thesis by (simp add: tokens_ok_def)
qed


section \<open>What the endpoints do\<close>

text \<open>The one row an endpoint writes, with everything else of the assignment left as it was.\<close>

definition worker_written :: "worker_row \<Rightarrow> (worker_row \<Rightarrow> worker_row) \<Rightarrow> ledger \<Rightarrow> ledger \<Rightarrow> bool" where
  "worker_written w f d d' \<longleftrightarrow> get_worker_row (w_id w) d = Some w \<and> \<not> worker_conflict (f w) d \<and>
     workers d' = upd_row w_id (w_id w) (orm_worker f) (workers d) \<and> jobs d' = jobs d \<and>
     job_attempts d' = job_attempts d \<and> job_leases d' = job_leases d"

lemma worker_commitD: "worker_commit r outcome d = Committed \<Longrightarrow> \<not> worker_conflict r d"
  by (auto simp: worker_commit_def)

lemma auth_ids [simp]:
  "w_id (clear_token_rotation w) = w_id w" "w_id (rotation_prepared pf st now r t w) = w_id w"
  "w_id (rotation_activated now w) = w_id w" "w_id (re_enrolled pf st now t c w) = w_id w"
  "w_id (revoked_worker pf st now t w) = w_id w" "w_id (registered pf st now i t p) = i"
  "j_id (revoked_job now j) = j_id j" "a_id (revoked_attempt now a) = a_id a"
  by (simp_all add: clear_token_rotation_def rotation_prepared_def rotation_activated_def
      re_enrolled_def revoked_worker_def registered_def revoked_job_def revoked_attempt_def)

lemma auth_together [simp]:
  "rotation_together (clear_token_rotation w)" "rotation_together (rotation_prepared pf st now r t w)"
  "rotation_together (rotation_activated now w)" "rotation_together (re_enrolled pf st now t c w)"
  "rotation_together (revoked_worker pf st now t w)" "rotation_together (registered pf st now i t p)"
  by (simp_all add: rotation_together_def clear_token_rotation_def rotation_prepared_def
      rotation_activated_def re_enrolled_def revoked_worker_def registered_def)

lemma rotation_boundary_Inr:
  assumes "rotation_boundary authenticated d = Inr (w, leases)"
  shows "get_worker_row (w_id authenticated) d = Some w" "w_id w = w_id authenticated" "w_is_active w"
    "w_token_hash w = w_token_hash authenticated" "leases = unreleased_leases (w_id w) d"
  using assms get_row_SomeD [of w_id "w_id authenticated" "workers d" w]
  by (auto simp: rotation_boundary_def lock_worker_token_rotation_boundary_def
      split: option.splits if_splits)

lemma require_rotation_idle_Inr:
  "require_rotation_idle w leases = Inr () \<longleftrightarrow> w_current_job_id w = None \<and> leases = []"
  by (simp add: require_rotation_idle_def)

lemma prepare_token_rotationD:
  assumes "prepare_token_rotation pf st now raw outcome authenticated rid d = (Inr r, d')"
  obtains w where "worker_written w (rotation_prepared pf st now rid raw) d d'"
    "w_id w = w_id authenticated" "w_token_hash w = w_token_hash authenticated" "w_is_active w"
    "w_current_job_id w = None" "unreleased_leases (w_id w) d = []"
    "w_pending_token_hash w \<noteq> None \<Longrightarrow> \<exists>t. w_token_rotation_expires_at w = Some t \<and> t \<le> now"
    "r = (w_id w, rid, raw, now + seconds (worker_token_rotation_ttl_seconds st))"
proof -
  obtain w leases where b: "rotation_boundary authenticated d = Inr (w, leases)"
    "require_rotation_idle w leases = Inr ()"
    using assms by (auto simp: prepare_token_rotation_def split: sum.splits)
  have w: "get_worker_row (w_id authenticated) d = Some w" "w_id w = w_id authenticated" "w_is_active w"
    "w_token_hash w = w_token_hash authenticated" "leases = unreleased_leases (w_id w) d"
    using rotation_boundary_Inr [OF b(1)] by auto
  have idle: "w_current_job_id w = None" "leases = []" using b(2) by (simp_all add: require_rotation_idle_Inr)
  have free: "w_pending_token_hash w \<noteq> None \<Longrightarrow> \<exists>t. w_token_rotation_expires_at w = Some t \<and> t \<le> now"
    using assms b by (auto simp: prepare_token_rotation_def split: if_splits)
  have c: "worker_commit (rotation_prepared pf st now rid raw w) outcome d = Committed"
    using assms b by (auto simp: prepare_token_rotation_def Let_def split: if_splits commit.splits)
  have "worker_written w (rotation_prepared pf st now rid raw) d d'"
    "r = (w_id w, rid, raw, now + seconds (worker_token_rotation_ttl_seconds st))"
    using assms b c w worker_commitD [OF c] unfolding worker_written_def
    by (auto simp: prepare_token_rotation_def Let_def split: if_splits)
  then show thesis using that w idle free by metis
qed


lemma abort_token_rotationD:
  assumes "abort_token_rotation outcome authenticated rid d = (r, d')"
  obtains "d' = d" | w where "worker_written w clear_token_rotation d d'"
    "w_id w = w_id authenticated" "w_pending_token_hash w \<noteq> None" "w_token_rotation_id w = Some rid"
proof (cases "rotation_boundary authenticated d")
  case (Inl e)
  then show thesis using assms that by (simp add: abort_token_rotation_def)
next
  case (Inr p)
  obtain w leases where b: "rotation_boundary authenticated d = Inr (w, leases)"
    using Inr by (cases p) simp
  show thesis
  proof (cases "w_pending_token_hash w \<noteq> None \<and> w_token_rotation_id w = Some rid \<and>
      worker_commit (clear_token_rotation w) outcome d = Committed")
    case True
    then have "worker_written w clear_token_rotation d d'"
      using assms b rotation_boundary_Inr [OF b] worker_commitD [of "clear_token_rotation w"]
      unfolding worker_written_def by (auto simp: abort_token_rotation_def)
    then show thesis using that True rotation_boundary_Inr [OF b] by metis
  next
    case False
    then have "d' = d"
      using assms b by (auto simp: abort_token_rotation_def split: if_splits commit.splits)
    then show thesis using that by simp
  qed
qed

lemma activate_token_rotationD:
  assumes "activate_token_rotation pf st now outcome authenticated rid pending d = (Inr r, d')"
  obtains w token where "worker_written w (rotation_activated now) d d'" "pending = Some token"
    "w_id w = w_id authenticated" "w_token_hash w = w_token_hash authenticated" "w_is_active w"
    "w_current_job_id w = None" "unreleased_leases (w_id w) d = []"
    "w_token_rotation_id w = Some rid" "w_pending_token_hash w = Some (hash_worker_token pf st token)"
    "\<exists>t. w_token_rotation_expires_at w = Some t \<and> now < t" "r = (w_id w, rid, now)"
proof -
  note u = activate_token_rotation_def
  obtain token where p: "pending = Some token" using assms by (auto simp: u split: option.splits)
  obtain w leases where b: "rotation_boundary authenticated d = Inr (w, leases)"
    "require_rotation_idle w leases = Inr ()"
    using assms p by (auto simp: u split: sum.splits)
  have ok: "w_token_rotation_id w = Some rid" "w_pending_token_hash w = Some (hash_worker_token pf st token)"
    "\<exists>t. w_token_rotation_expires_at w = Some t \<and> now < t"
    using assms b p by (auto simp: u split: if_splits)
  then have c: "worker_commit (rotation_activated now w) outcome d = Committed"
    using assms b p by (auto simp: u split: commit.splits)
  have "worker_written w (rotation_activated now) d d'" "r = (w_id w, rid, now)"
    using assms b c p ok rotation_boundary_Inr [OF b(1)] worker_commitD [OF c]
    unfolding worker_written_def by (auto simp: u)
  then show thesis
    using that p ok rotation_boundary_Inr [OF b(1)] b(2) [unfolded require_rotation_idle_Inr] by metis
qed

lemma re_enroll_workerD:
  assumes "re_enroll_worker pf st now raw outcome bootstrap i payload d = (Inr r, d')"
  obtains w where "worker_written w (re_enrolled pf st now raw (reg_capabilities payload)) d d'"
    "w_id w = i" "w_name w = reg_name payload" "\<not> w_is_active w" "w_current_job_id w = None"
    "verify_bootstrap_token bootstrap st"
    "r = \<lparr>resp_worker_id = i, resp_worker_token = raw, resp_issued_at = now\<rparr>"
proof -
  note u = re_enroll_worker_def lock_worker_token_rotation_boundary_def
  obtain w where w: "get_worker_row i d = Some w" using assms by (auto simp: u split: if_splits option.splits)
  then have id: "w_id w = i" using get_row_SomeD by metis
  have ok: "w_name w = reg_name payload" "\<not> w_is_active w" "w_current_job_id w = None"
    "verify_bootstrap_token bootstrap st"
    using assms w by (auto simp: u split: if_splits)
  have c: "worker_commit (re_enrolled pf st now raw (reg_capabilities payload) w) outcome d = Committed"
    using assms w by (auto simp: u Let_def split: if_splits commit.splits)
  have "worker_written w (re_enrolled pf st now raw (reg_capabilities payload)) d d'"
    "r = \<lparr>resp_worker_id = i, resp_worker_token = raw, resp_issued_at = now\<rparr>"
    using assms w c id worker_commitD [OF c] unfolding worker_written_def
    by (auto simp: u Let_def split: if_splits)
  then show thesis using that ok id by metis
qed

lemma failed_endpoints:
  "prepare_token_rotation pf st now raw outcome auth rid d = (Inl e, d') \<Longrightarrow> d' = d"
  "activate_token_rotation pf st now outcome auth rid pending d = (Inl e, d') \<Longrightarrow> d' = d"
  "re_enroll_worker pf st now raw outcome bootstrap i payload d = (Inl e, d') \<Longrightarrow> d' = d"
  "register_worker pf st now i raw outcome bootstrap payload d = (Inl e, d') \<Longrightarrow> d' = d"
  by (auto simp: prepare_token_rotation_def activate_token_rotation_def re_enroll_worker_def
      register_worker_def Let_def split: sum.splits if_splits commit.splits option.splits)


section \<open>The endpoints implement the assignment specification\<close>

lemma implements_administer:
  assumes w: "get_worker_row i d = Some w" "w_current_job_id w = None" and keys: "keys_ok d'"
    and board: "board_of d' = (board_of d)\<lparr>board_workers := (board_workers (board_of d))(i \<mapsto> v)\<rparr>"
    and v: "seat_job v = None"
  shows "implements d d'"
proof (rule implements_step [OF keys])
  have v: "v = \<lparr>seat_job = None, seat_active = seat_active v, seat_pending = seat_pending v\<rparr>"
    using v by simp
  show "board_step (board_of d) (board_of d')"
    unfolding board by (subst v, rule board_step.administer [where v = "seat_of w"])
      (use w in \<open>simp_all add: board_of_def seat_of_def\<close>)
qed

lemma worker_written_implements:
  assumes ok: "assignment_ok d" and wr: "worker_written w f d d'"
    and f: "\<And>r. w_id (f r) = w_id r" and idle: "w_current_job_id w = None" "w_current_job_id (f w) = None"
  shows "implements d d'"
proof (rule implements_administer [where v = "seat_of (f w)"])
  show "get_worker_row (w_id w) d = Some w" using wr by (simp add: worker_written_def)
  show "keys_ok d'"
    using assignment_okD(1) [OF ok] wr f by (simp add: keys_ok_def worker_written_def)
  show "board_of d' = (board_of d)\<lparr>board_workers := (board_workers (board_of d))(w_id w \<mapsto> seat_of (f w))\<rparr>"
    using wr f by (auto simp: worker_written_def board_of_def get_row_upd_row fun_eq_iff)
qed (use idle in \<open>simp_all add: seat_of_def\<close>)

text \<open>A worker with a prepared rotation holds no job, so that a rotation never meets an assignment.\<close>

lemma pending_idle:
  assumes ok: "assignment_ok d" and w: "get_worker_row i d = Some w" "w_pending_token_hash w \<noteq> None"
  shows "w_current_job_id w = None"
proof (rule ccontr)
  assume "w_current_job_id w \<noteq> None"
  then obtain j where "board_workers (board_of d) i = Some (seat_of w)" "seat_job (seat_of w) = Some j"
    using w by (auto simp: board_of_def seat_of_def)
  then obtain l h where "live (board_of d) l h" "held_worker h = i"
    using board_okD(5) [OF assignment_okD(2) [OF ok]] by blast
  then have "\<not> seat_pending (seat_of w)"
    using board_okD(3) [OF assignment_okD(2) [OF ok]] w(1) by (fastforce simp: board_of_def elim!: backedE)
  then show False using w(2) by (simp add: seat_of_def)
qed

lemma register_workerD:
  assumes "register_worker pf st now i raw outcome bootstrap payload d = (Inr r, d')"
  shows "verify_bootstrap_token bootstrap st" "get_worker_row i d = None"
    "\<not> worker_conflict (registered pf st now i raw payload) d"
    "d' = workers_update (\<lambda>ws. ws @ [registered pf st now i raw payload]) d"
    "r = \<lparr>resp_worker_id = i, resp_worker_token = raw, resp_issued_at = now\<rparr>"
  using assms worker_commitD [of "registered pf st now i raw payload" outcome d]
  by (auto simp: register_worker_def Let_def split: if_splits commit.splits)

lemma register_implements:
  assumes ok: "assignment_ok d"
  shows "implements d (snd (register_worker pf st now i raw outcome bootstrap payload d))"
proof (cases "register_worker pf st now i raw outcome bootstrap payload d")
  case (Pair r d')
  show ?thesis
  proof (cases r)
    case (Inl e)
    then show ?thesis using failed_endpoints(4) Pair implements_refl [OF ok] by fastforce
  next
    case (Inr x)
    note D = register_workerD [OF Pair [unfolded Inr]]
    have board: "board_of d' = (board_of d)\<lparr>board_workers := (board_workers (board_of d))
        (i \<mapsto> \<lparr>seat_job = None, seat_active = True, seat_pending = False\<rparr>)\<rparr>"
      using D(2) unfolding D(4)
      by (auto simp: board_of_def get_row_append fun_eq_iff seat_of_def registered_def split: option.splits)
    have "board_step (board_of d) (board_of d')"
      unfolding board by (rule board_step.register) (use D(2) in \<open>simp add: board_of_def\<close>)
    moreover have "keys_ok d'"
      using assignment_okD(1) [OF ok] D(2) unfolding D(4) by (simp add: keys_ok_def)
    ultimately show ?thesis using Pair by (simp add: implements_step)
  qed
qed

lemma auth_idle [simp]:
  "w_current_job_id (clear_token_rotation w) = w_current_job_id w"
  "w_current_job_id (rotation_prepared pf st now rid raw w) = w_current_job_id w"
  "w_current_job_id (rotation_activated now w) = w_current_job_id w"
  "w_current_job_id (re_enrolled pf st now raw c w) = w_current_job_id w"
  "w_current_job_id (revoked_worker pf st now raw w) = None"
  by (simp_all add: clear_token_rotation_def rotation_prepared_def rotation_activated_def
      re_enrolled_def revoked_worker_def)

text \<open>
  The common shape of the endpoints: a refusal changes nothing, a success writes one idle worker
  row. It keeps both the assignment and the credentials in order.
\<close>

lemma endpoint_ok:
  assumes ok: "assignment_ok d" and refused: "\<And>e d'. h = (Inl e, d') \<Longrightarrow> d' = d"
    and written: "\<And>x d'. h = (Inr x, d') \<Longrightarrow> \<exists>w f. worker_written w f d d' \<and>
      (\<forall>r. w_id (f r) = w_id r) \<and> w_current_job_id w = None \<and> w_current_job_id (f w) = None \<and>
      rotation_together (f w)"
  shows "implements d (snd h)" "tokens_ok d \<Longrightarrow> tokens_ok (snd h)"
proof -
  obtain r d' where h: "h = (r, d')" by fastforce
  have "implements d d' \<and> (tokens_ok d \<longrightarrow> tokens_ok d')"
  proof (cases r)
    case (Inl e)
    then have "d' = d" using refused h by blast
    then show ?thesis using implements_refl [OF ok] by simp
  next
    case (Inr x)
    then obtain w f where w: "worker_written w f d d'" "\<forall>r. w_id (f r) = w_id r"
      "w_current_job_id w = None" "w_current_job_id (f w) = None" "rotation_together (f w)"
      using written h by blast
    have "implements d d'" using worker_written_implements [OF ok w(1)] w(2-4) by simp
    moreover have "tokens_ok d \<longrightarrow> tokens_ok d'"
      using tokens_ok_write [of d "w_id w" w f d'] w keys_okD(4) [OF assignment_okD(1) [OF ok]]
      by (simp add: worker_written_def)
    ultimately show ?thesis ..
  qed
  then show "implements d (snd h)" "tokens_ok d \<Longrightarrow> tokens_ok (snd h)" using h by simp_all
qed

lemma prepare_ok:
  assumes "assignment_ok d"
  shows "implements d (snd (prepare_token_rotation pf st now raw outcome auth rid d))"
    "tokens_ok d \<Longrightarrow> tokens_ok (snd (prepare_token_rotation pf st now raw outcome auth rid d))"
  by (rule endpoint_ok [OF assms failed_endpoints(1)];
      (elim prepare_token_rotationD, metis auth_ids(2) auth_idle(2) auth_together(2))?; assumption?)+

lemma activate_ok:
  assumes "assignment_ok d"
  shows "implements d (snd (activate_token_rotation pf st now outcome auth rid pending d))"
    "tokens_ok d \<Longrightarrow> tokens_ok (snd (activate_token_rotation pf st now outcome auth rid pending d))"
  by (rule endpoint_ok [OF assms failed_endpoints(2)];
      (elim activate_token_rotationD, metis auth_ids(3) auth_idle(3) auth_together(3))?; assumption?)+

lemma re_enroll_ok:
  assumes "assignment_ok d"
  shows "implements d (snd (re_enroll_worker pf st now raw outcome bootstrap i payload d))"
    "tokens_ok d \<Longrightarrow> tokens_ok (snd (re_enroll_worker pf st now raw outcome bootstrap i payload d))"
  by (rule endpoint_ok [OF assms failed_endpoints(3)];
      (elim re_enroll_workerD, metis auth_ids(4) auth_idle(4) auth_together(4))?; assumption?)+

lemma abort_ok:
  assumes ok: "assignment_ok d"
  shows "implements d (snd (abort_token_rotation outcome auth rid d))"
    "tokens_ok d \<Longrightarrow> tokens_ok (snd (abort_token_rotation outcome auth rid d))"
proof -
  obtain r d' where h: "abort_token_rotation outcome auth rid d = (r, d')" by fastforce
  have "implements d d' \<and> (tokens_ok d \<longrightarrow> tokens_ok d')"
    using h
  proof (cases rule: abort_token_rotationD)
    case 1
    then show ?thesis using ok by (simp add: implements_refl)
  next
    case (2 w)
    then have "w_current_job_id w = None"
      using pending_idle [OF ok, of "w_id w" w] by (simp add: worker_written_def)
    then show ?thesis
      using worker_written_implements [OF ok 2(1)] 2(1) keys_okD(4) [OF assignment_okD(1) [OF ok]]
        tokens_ok_write [of d "w_id w" w clear_token_rotation d'] by (simp add: worker_written_def)
  qed
  then show "implements d (snd (abort_token_rotation outcome auth rid d))"
    "tokens_ok d \<Longrightarrow> tokens_ok (snd (abort_token_rotation outcome auth rid d))"
    using h by simp_all
qed

lemma register_tokens_ok:
  assumes "tokens_ok d"
  shows "tokens_ok (snd (register_worker pf st now i raw outcome bootstrap payload d))"
proof (cases "register_worker pf st now i raw outcome bootstrap payload d")
  case (Pair r d')
  show ?thesis
  proof (cases r)
    case (Inl e)
    then show ?thesis using failed_endpoints(4) Pair assms by fastforce
  next
    case (Inr x)
    note D = register_workerD [OF Pair [unfolded Inr]]
    let ?w = "registered pf st now i raw payload"
    have "w_token_hash ?w \<notin> w_token_hash ` set (workers d)" "w_name ?w \<notin> w_name ` set (workers d)"
      using D(2,3) by (auto simp: worker_conflict_def get_row_None)
    then show ?thesis using assms Pair unfolding D(4) by (simp add: tokens_ok_def)
  qed
qed

subsection \<open>Revocation\<close>

text \<open>
  On a consistent ledger the leases a revocation finds are the live lease of the worker, if it has
  one, and none of the consistency checks fails.
\<close>

lemma unreleased_leases_live:
  assumes ok: "assignment_ok d" and l: "l \<in> set (unreleased_leases i d)"
  shows "get_lease (l_id l) d = Some l" "l_active l" "l_worker_id l = i"
  using l get_row_mem [OF keys_okD(3) [OF assignment_okD(1) [OF ok]]]
  by (auto simp: unreleased_leases_def)

lemma revoke_leaseD:
  assumes "revoke_lease pf st now event_id worker l d = Inr d'"
  obtains j a where "get_job (l_job_id l) d = Some j" "get_attempt (l_attempt_id l) d = Some a"
    "j_worker_id j = Some worker" "\<not> terminal (j_status j)" "a_finished_at a = None"
    "jobs d' = upd_row j_id (l_job_id l) (orm_job (revoked_job now)) (jobs d)"
    "job_attempts d' = upd_row a_id (l_attempt_id l) (revoked_attempt now) (job_attempts d)"
    "job_leases d' = upd_row l_id (l_id l) (released now) (job_leases d)"
    "workers d' = workers d" "experiments d' = experiments d"
    "job_status_events d' = job_status_events d @ [\<lparr>e_job_id = l_job_id l,
       e_attempt_id = Some (l_attempt_id l), e_previous_status = Some (j_status j),
       e_status = CANCELLED, e_occurred_at = now, e_source = Manager_source\<rparr>]"
    "job_logs d' = job_logs d" "metrics d' = metrics d" "ingest_batches d' = ingest_batches d"
proof -
  obtain j a where rows: "get_job (l_job_id l) d = Some j" "get_attempt (l_attempt_id l) d = Some a"
    using assms by (auto simp: revoke_lease_def split: option.splits)
  have ids: "j_id j = l_job_id l" "a_id a = l_attempt_id l"
    using get_row_SomeD [OF rows(1)] get_row_SomeD [OF rows(2)] by auto
  have checks: "j_worker_id j = Some worker" "\<not> terminal (j_status j)" "a_finished_at a = None"
    using assms rows by (auto simp: revoke_lease_def split: if_splits)
  obtain k where "enqueue_terminal_status pf st now event_id (revoked_job now j) (a_id a) CANCELLED
      (add_status_event (j_id j) (Some (a_id a)) (Some (j_status j)) CANCELLED now Manager_source
        (set_lease (l_id l) (released now)
        (set_attempt (a_id a) (revoked_attempt now) (set_job (j_id j) (revoked_job now) d)))) = Inr (k, d')"
    using assms rows by (auto simp: revoke_lease_def split: if_splits)
  from enqueue_for_job_frames [OF this [unfolded enqueue_terminal_status_def]]
  show thesis using that [OF rows checks] by (simp add: ids)
qed

lemma revoked_slots:
  "slot_of (revoked_job now j) = (slot_of j)\<lparr>slot_status := CANCELLED\<rparr>"
  "run_of (revoked_attempt now a) = (run_of a)\<lparr>run_status := CANCELLED, run_open := False,
     run_unsealed := run_unsealed (run_of a)\<rparr>"
  by (simp_all add: revoked_job_def revoked_attempt_def slot_of_def run_of_def)

lemma revoke_lease_implements:
  assumes ok: "assignment_ok d" and l: "get_lease (l_id l) d = Some l" "l_active l"
    and r: "revoke_lease pf st now event_id (l_worker_id l) l d = Inr d1"
    and w: "get_worker_row (l_worker_id l) d = Some w"
    and d': "workers d' = upd_row w_id (l_worker_id l) (orm_worker (revoked_worker pf st now raw)) (workers d1)"
      "jobs d' = jobs d1" "job_attempts d' = job_attempts d1" "job_leases d' = job_leases d1"
  shows "implements d d'"
proof -
  from r obtain j a where rows: "get_job (l_job_id l) d = Some j" "get_attempt (l_attempt_id l) d = Some a"
    and checks: "\<not> terminal (j_status j)"
    and tables: "jobs d1 = upd_row j_id (l_job_id l) (orm_job (revoked_job now)) (jobs d)"
    "job_attempts d1 = upd_row a_id (l_attempt_id l) (revoked_attempt now) (job_attempts d)"
    "job_leases d1 = upd_row l_id (l_id l) (released now) (job_leases d)" "workers d1 = workers d"
    by (rule revoke_leaseD)
  define dm where "dm = set_worker (l_worker_id l) idled d1"
  have "executing (j_status j)" using live_lease_rows [OF ok l] rows(1) by (metis option.inject)
  then have t: "CANCELLED \<in> set (ALLOWED_JOB_TRANSITIONS (j_status j))"
    using executing_may_end [of "j_status j"] checks by (auto simp: executing_simps)
  have first: "implements d dm"
    by (rule implements_finish [OF ok l rows w, where t = CANCELLED and u = "run_unsealed (run_of a)"
          and fj = "orm_job (revoked_job now)" and fa = "revoked_attempt now" and fl = "released now"
          and fw = "orm_worker idled"])
      (use t in \<open>simp_all add: dm_def tables update_slots slots_of_recovery(2) revoked_slots\<close>)
  have "implements dm d'"
  proof (rule implements_administer [where i = "l_worker_id l" and w = "orm_worker idled w"
        and v = "seat_of (revoked_worker pf st now raw w)"])
    show "keys_ok d'"
      using assignment_okD(1) [OF ok] by (simp add: keys_ok_def d' tables)
    show "board_of d' = (board_of dm)\<lparr>board_workers :=
        (board_workers (board_of dm))(l_worker_id l \<mapsto> seat_of (revoked_worker pf st now raw w))\<rparr>"
      using w by (auto simp: dm_def board_of_def d' tables get_row_upd_row fun_eq_iff)
  qed (use w in \<open>simp_all add: dm_def tables get_row_upd_row idled_def seat_of_def\<close>)
  with first show ?thesis by (rule implements_trans)
qed


lemma revoke_passD:
  assumes pass: "revoke_pass pf st admin i payload env = Revoke_answered (Inr r) d'"
  obtains w d1 where "get_worker_row i (rv_ledger env) = Some w" "w_id w = i"
    "w_name w = rv_expected_worker_name payload"
    "\<not> worker_conflict (revoked_worker pf st (rv_now env) (rv_raw_token env) w) (rv_ledger env)"
    "unreleased_leases i (rv_ledger env) = [] \<and> w_current_job_id w = None \<and> d1 = rv_ledger env \<or>
     (\<exists>l. unreleased_leases i (rv_ledger env) = [l] \<and> rv_force_cancel_active payload \<and>
        revoke_lease pf st (rv_now env) (rv_event_ids env (l_id l)) i l (rv_ledger env) = Inr d1)"
    "workers d' = upd_row w_id i (orm_worker (revoked_worker pf st (rv_now env) (rv_raw_token env)))
       (workers d1)"
    "jobs d' = jobs d1" "job_attempts d' = job_attempts d1" "job_leases d' = job_leases d1"
    "r = worker_to_read st (rv_now env) (revoked_worker pf st (rv_now env) (rv_raw_token env) w)"
proof -
  let ?d = "rv_ledger env" and ?wrote = "revoked_worker pf st (rv_now env) (rv_raw_token env)"
  obtain w where w: "get_worker_row i ?d = Some w"
    using pass by (auto simp: revoke_pass_def Let_def split: option.splits)
  then have id: "w_id w = i" using get_row_SomeD by metis
  note u = revoke_pass_def Let_def
  have name: "w_name w = rv_expected_worker_name payload" using pass w by (auto simp: u split: if_splits)
  have ok: "\<not> (truthy (w_current_job_id w) \<noteq> (unreleased_leases i ?d \<noteq> []) \<or>
      length (unreleased_leases i ?d) > 1 \<or>
      (\<exists>j \<in> set_option (w_current_job_id w). j \<notin> l_job_id ` set (unreleased_leases i ?d)))"
    "unreleased_leases i ?d \<noteq> [] \<longrightarrow> rv_force_cancel_active payload"
    using pass w name by (auto simp: u split: if_splits)
  obtain d1 where d1: "revoke_leases pf st (rv_now env) (rv_event_ids env) i (unreleased_leases i ?d) ?d = Inr d1"
    using pass w name id unfolding u by (auto split: if_splits sum.splits)
  have c: "worker_commit (?wrote w) (rv_commit env) ?d = Committed"
    using pass w name id d1 unfolding u by (auto split: if_splits commit.splits)
  have d': "d' = add_audit_event ''user'' (Some admin) ''worker.token_revoked'' ''worker'' (Some i)
      (set_worker i ?wrote d1)" "r = worker_to_read st (rv_now env) (?wrote w)"
    using pass w name id d1 c unfolding u by (auto split: if_splits)
  have "unreleased_leases i ?d = [] \<and> w_current_job_id w = None \<and> d1 = ?d \<or>
     (\<exists>l. unreleased_leases i ?d = [l] \<and> rv_force_cancel_active payload \<and>
        revoke_lease pf st (rv_now env) (rv_event_ids env (l_id l)) i l ?d = Inr d1)"
  proof (cases "unreleased_leases i ?d")
    case Nil
    then show ?thesis using d1 ok by (cases "w_current_job_id w") (auto simp: truthy_def)
  next
    case (Cons l ls)
    then have "ls = []" using ok(1) by simp
    then show ?thesis using Cons d1 ok(2) by auto
  qed
  then show thesis using that [of w d1] w id name worker_commitD [OF c] d' by simp
qed

lemma revoke_pass_ok:
  assumes ok: "assignment_ok (rv_ledger env)"
    and pass: "revoke_pass pf st admin i payload env = Revoke_answered r d'"
  shows "implements (rv_ledger env) d'" "tokens_ok (rv_ledger env) \<Longrightarrow> tokens_ok d'"
proof -
  let ?d = "rv_ledger env" and ?wrote = "revoked_worker pf st (rv_now env) (rv_raw_token env)"
  have "implements ?d d' \<and> (tokens_ok ?d \<longrightarrow> tokens_ok d')"
  proof (cases r)
    case (Inl e)
    have "d' = ?d"
      using pass unfolding Inl revoke_pass_def Let_def
      by (auto split: option.splits if_splits sum.splits commit.splits)
    then show ?thesis using ok by (simp add: implements_refl)
  next
    case (Inr x)
    from pass [unfolded Inr] obtain w d1 where w: "get_worker_row i ?d = Some w" "w_id w = i"
      "\<not> worker_conflict (?wrote w) ?d"
      and how: "unreleased_leases i ?d = [] \<and> w_current_job_id w = None \<and> d1 = ?d \<or>
       (\<exists>l. unreleased_leases i ?d = [l] \<and> rv_force_cancel_active payload \<and>
          revoke_lease pf st (rv_now env) (rv_event_ids env (l_id l)) i l ?d = Inr d1)"
      and d': "workers d' = upd_row w_id i (orm_worker ?wrote) (workers d1)"
        "jobs d' = jobs d1" "job_attempts d' = job_attempts d1" "job_leases d' = job_leases d1"
      by (rule revoke_passD)
    have same: "workers d1 = workers ?d"
      using how by (auto elim: revoke_leaseD)
    have "implements ?d d'"
      using how
    proof
      assume "unreleased_leases i ?d = [] \<and> w_current_job_id w = None \<and> d1 = ?d"
      then show ?thesis using w d' by (intro worker_written_implements [OF ok, where w = w and f = ?wrote])
          (simp_all add: worker_written_def)
    next
      assume "\<exists>l. unreleased_leases i ?d = [l] \<and> rv_force_cancel_active payload \<and>
        revoke_lease pf st (rv_now env) (rv_event_ids env (l_id l)) i l ?d = Inr d1"
      then obtain l where l: "unreleased_leases i ?d = [l]"
        "revoke_lease pf st (rv_now env) (rv_event_ids env (l_id l)) i l ?d = Inr d1" by blast
      have live: "get_lease (l_id l) ?d = Some l" "l_active l" "l_worker_id l = i"
        using unreleased_leases_live [OF ok, of l i] l(1) by simp_all
      show ?thesis
        by (rule revoke_lease_implements [OF ok live(1,2)]) (use l w d' live(3) in simp_all)
    qed
    moreover have "tokens_ok ?d \<longrightarrow> tokens_ok d'"
      using tokens_ok_write [of ?d i w ?wrote d'] w d' same keys_okD(4) [OF assignment_okD(1) [OF ok]]
      by simp
    ultimately show ?thesis ..
  qed
  then show "implements ?d d'" "tokens_ok ?d \<Longrightarrow> tokens_ok d'" by simp_all
qed

text \<open>
  What is left after a revocation: the worker is inactive and without a job, no lease of its is
  live, and a job it held is cancelled.
\<close>

lemma revoke_pass_effect:
  assumes ok: "assignment_ok (rv_ledger env)"
    and pass: "revoke_pass pf st admin i payload env = Revoke_answered (Inr r) d'"
  obtains w' where "get_worker_row i d' = Some w'" "\<not> w_is_active w'" "w_current_job_id w' = None"
    "w_pending_token_hash w' = None" "w_token_hash w' = hash_worker_token pf st (rv_raw_token env)"
    "unreleased_leases i d' = []"
    "\<And>j job. get_job j (rv_ledger env) = Some job \<Longrightarrow> j_worker_id job = Some i \<Longrightarrow>
      executing (j_status job) \<Longrightarrow> \<exists>job'. get_job j d' = Some job' \<and> j_status job' = CANCELLED"
proof -
  let ?d = "rv_ledger env" and ?wrote = "revoked_worker pf st (rv_now env) (rv_raw_token env)"
  from pass obtain w d1 where w: "get_worker_row i ?d = Some w"
    and how: "unreleased_leases i ?d = [] \<and> w_current_job_id w = None \<and> d1 = ?d \<or>
     (\<exists>l. unreleased_leases i ?d = [l] \<and> rv_force_cancel_active payload \<and>
        revoke_lease pf st (rv_now env) (rv_event_ids env (l_id l)) i l ?d = Inr d1)"
    and d': "workers d' = upd_row w_id i (orm_worker ?wrote) (workers d1)"
      "jobs d' = jobs d1" "job_leases d' = job_leases d1"
    by (rule revoke_passD)
  have same: "workers d1 = workers ?d" using how by (auto elim: revoke_leaseD)
  have w': "get_worker_row i d' = Some (orm_worker ?wrote w)"
    using w by (simp add: d' same get_row_upd_row)
  have ok': "assignment_ok d'" using implements_ok ok revoke_pass_ok(1) [OF ok pass] by blast
  have "unreleased_leases i d' = []"
  proof (rule ccontr)
    assume "unreleased_leases i d' \<noteq> []"
    then obtain l where l: "l \<in> set (unreleased_leases i d')" using hd_in_set by blast
    note lv = unreleased_leases_live [OF ok' l]
    then show False using live_lease_rows [OF ok' lv(1,2)] w' lv(3)
      by (metis auth_idle(5) option.distinct(1) option.inject orm_worker_fields(12))
  qed
  moreover have "\<exists>job'. get_job j d' = Some job' \<and> j_status job' = CANCELLED"
    if j: "get_job j ?d = Some job" "j_worker_id job = Some i" "executing (j_status job)" for j job
  proof -
    obtain m h where "live (board_of ?d) m h" "held_job h = j"
      using board_okD(4) [OF assignment_okD(2) [OF ok], of j "slot_of job"] j
      by (auto simp: board_of_def slot_of_def)
    then obtain l where l: "get_lease m ?d = Some l" "l_active l" "l_job_id l = j"
      by (auto simp: live_def board_of_def held_of_def)
    obtain "l_worker_id l = i" "l_released_at l = None"
      using live_lease_rows [OF ok l(1,2)] l(3) j by (metis option.inject)
    then have "l \<in> set (unreleased_leases i ?d)"
      using l get_row_SomeD [OF l(1)] by (simp add: unreleased_leases_def)
    then have "revoke_lease pf st (rv_now env) (rv_event_ids env (l_id l)) i l ?d = Inr d1"
      using how by auto
    then show ?thesis
      by (rule revoke_leaseD) (use j l in \<open>simp add: d' get_row_upd_row revoked_job_def\<close>)
  qed
  ultimately show thesis using that w' by (simp add: revoked_worker_def clear_token_rotation_def)
qed

section \<open>Which tokens authenticate after a write\<close>

lemma require_worker_InrD:
  assumes "require_worker pf st (Some (scheme, token)) d = Inr v"
  shows "v \<in> set (workers d)" "w_token_hash v = hash_worker_token pf st token" "w_is_active v"
  using assms by (auto simp: require_worker_def find_Some_iff split: if_splits option.splits)

lemma upd_worker_rows:
  assumes "wf_table w_id (workers d)" "get_worker_row (w_id w) d = Some w"
    and "workers d' = upd_row w_id (w_id w) f (workers d)"
  shows "set (workers d') = insert (f w) {v \<in> set (workers d). w_id v \<noteq> w_id w}"
proof -
  have "{v \<in> set (workers d). w_id v = w_id w} = {w}"
    using assms(1,2) get_row_SomeD [OF assms(2)] by (auto simp: wf_table_def distinct_map dest: inj_onD)
  then show ?thesis by (simp add: assms(3) set_upd_row)
qed

text \<open>
  Once the row of a worker has been rewritten with another token hash, or deactivated, no token that
  had its old hash authenticates anybody.
\<close>

lemma replaced_token_rejected:
  assumes ok: "tokens_ok d" and keys: "wf_table w_id (workers d)" and w: "get_worker_row (w_id w) d = Some w"
    and d': "workers d' = upd_row w_id (w_id w) f (workers d)"
    and gone: "w_token_hash (f w) \<noteq> w_token_hash w \<or> \<not> w_is_active (f w)"
    and old: "hash_worker_token pf st token = w_token_hash w"
  shows "require_worker pf st (Some (scheme, token)) d' \<noteq> Inr v"
proof
  assume "require_worker pf st (Some (scheme, token)) d' = Inr v"
  note v = require_worker_InrD [OF this]
  have "v \<noteq> f w" using v gone old by auto
  then have "v \<in> set (workers d)" "w_id v \<noteq> w_id w"
    using v(1) upd_worker_rows [OF keys w d'] by auto
  moreover have "w \<in> set (workers d)" using get_row_SomeD [OF w] by simp
  ultimately show False
    using v(2) old ok by (auto simp: tokens_ok_def distinct_map dest: inj_onD)
qed

lemma written_token_accepted:
  assumes ok: "tokens_ok d'" and keys: "wf_table w_id (workers d)" and w: "get_worker_row (w_id w) d = Some w"
    and d': "workers d' = upd_row w_id (w_id w) f (workers d)"
    and new: "w_token_hash (f w) = hash_worker_token pf st token" "w_is_active (f w)"
    and scheme: "map lower_char scheme = ''bearer''"
  shows "require_worker pf st (Some (scheme, token)) d' = Inr (f w)"
  using require_worker_iff [OF ok] upd_worker_rows [OF keys w d'] new scheme by simp

end
