(* ===== verification/Telemetry_Ingest.thy ===== *)
theory Telemetry_Ingest
  imports Status_Update
begin

text \<open>
  Telemetry: the log, metric and artifact batches that a Worker sends (\<^verbatim>\<open>routers/workers.py\<close>) and the
  redaction of log fields (\<^verbatim>\<open>services/job_observability.py\<close>).

  A batch is accepted from the live lease of the job or, late, from the released lease of an attempt
  that ended with declared watermarks. The rows of the claim are locked from the first read to the
  commit, so that all reads of a request see one ledger; the write fence reads it again at a later
  time. When the commit fails, the ledger found afterwards is another one (\<open>ie_after\<close>).

  The substitutions by regular expressions of \<^verbatim>\<open>redact_log_text\<close> and \<^verbatim>\<open>str.casefold\<close> are the functions
  of a record \<open>text_tools\<close>.

  Shown: batches are append-only and keep one row per sequence number; repeating a batch, with the
  same or with another idempotency key, stores nothing twice; no sequence number reaches the
  watermark of its attempt; the epoch of a job only grows and never exceeds the total.
\<close>

section \<open>Redaction\<close>

record text_tools =
  redact_text :: "string \<Rightarrow> string"
  casefold :: "string \<Rightarrow> string"

definition sensitive_key_parts :: "string list" where
  "sensitive_key_parts =
     [''api-key'', ''apikey'', ''authorization'', ''cookie'', ''credential'', ''password'', ''passwd'',
      ''private-key'', ''proxy-authorization'', ''secret'', ''set-cookie'', ''signature'', ''token'']"

text \<open>The non-empty parts of a string between characters outside \<^verbatim>\<open>[a-z0-9]\<close>.\<close>

fun alnum_parts :: "string \<Rightarrow> string \<Rightarrow> string list" where
  "alnum_parts part [] = (if part = [] then [] else [part])"
| "alnum_parts part (c # cs) =
     (if is_lower c \<or> is_digit c then alnum_parts (part @ [c]) cs
      else (if part = [] then [] else [part]) @ alnum_parts [] cs)"

definition sensitive_key :: "text_tools \<Rightarrow> string \<Rightarrow> bool" where
  "sensitive_key tt key =
     (let normalized_parts = alnum_parts [] (casefold tt key);
          normalized_key = join ''-'' normalized_parts in
      normalized_key \<in> set sensitive_key_parts \<or>
      set normalized_parts \<inter> set sensitive_key_parts \<noteq> {})"

definition REDACTED :: json where "REDACTED = JStr ''[REDACTED]''"

fun redact_log_fields :: "text_tools \<Rightarrow> nat \<Rightarrow> json \<Rightarrow> json" where
  "redact_log_fields tt depth (JObj kvs) =
     (if depth \<ge> 12 then REDACTED
      else JObj (map (\<lambda>kv. (fst kv, if sensitive_key tt (fst kv) then REDACTED
                                     else redact_log_fields tt (depth + 1) (snd kv))) kvs))"
| "redact_log_fields tt depth (JList xs) =
     (if depth \<ge> 12 then REDACTED else JList (map (redact_log_fields tt (depth + 1)) xs))"
| "redact_log_fields tt depth (JStr s) = (if depth \<ge> 12 then REDACTED else JStr (redact_text tt s))"
| "redact_log_fields tt depth v = (if depth \<ge> 12 then REDACTED else v)"

section \<open>Fingerprints\<close>

text \<open>
  \<^verbatim>\<open>datetime.isoformat\<close> of a UTC time: the civil date of a day number, and the digits of a field.
\<close>

definition civil_from_days :: "int \<Rightarrow> int \<times> int \<times> int" where
  "civil_from_days day =
     (let z = day + 719468; era = z div 146097; doe = z - era * 146097;
          yoe = (doe - doe div 1460 + doe div 36524 - doe div 146096) div 365;
          doy = doe - (365 * yoe + yoe div 4 - yoe div 100);
          mp = (5 * doy + 2) div 153;
          m = (if mp < 10 then mp + 3 else mp - 9) in
      (yoe + era * 400 + (if m \<le> 2 then 1 else 0), m, doy - (153 * mp + 2) div 5 + 1))"

definition padded :: "nat \<Rightarrow> int \<Rightarrow> string" where
  "padded n i = (let s = int_str i in replicate (n - length s) (CHR ''0'') @ s)"

definition isoformat :: "datetime \<Rightarrow> string" where
  "isoformat t =
     (let micro = t mod 1000000; s = t div 1000000; second_of_day = s mod 86400;
          (y, m, dd) = civil_from_days (s div 86400) in
      padded 4 y @ ''-'' @ padded 2 m @ ''-'' @ padded 2 dd @ ''T'' @
      padded 2 (second_of_day div 3600) @ '':'' @ padded 2 (second_of_day div 60 mod 60) @ '':'' @
      padded 2 (second_of_day mod 60) @
      (if micro = 0 then [] else ''.'' @ padded 6 micro) @ ''+00:00'')"

definition canonical_fingerprint :: "platform \<Rightarrow> json \<Rightarrow> string res" where
  "canonical_fingerprint pf document =
     (case canonical_sha256 (sha256 pf) (float_repr pf) document of
        None \<Rightarrow> Inl (HTTPException 422 ''telemetry payload is not canonical JSON'')
      | Some h \<Rightarrow> Inr h)"

fun log_level_value :: "log_level \<Rightarrow> string" where
  "log_level_value DEBUG = ''debug''"
| "log_level_value INFO = ''info''"
| "log_level_value WARNING = ''warning''"
| "log_level_value ERROR = ''error''"

definition log_batch_fingerprint :: "platform \<Rightarrow> text_tools \<Rightarrow> log_batch \<Rightarrow> string res" where
  "log_batch_fingerprint pf tt payload = canonical_fingerprint pf (JList (map (\<lambda>e. JObj
     ([(''sequence'', JInt (le_sequence e)), (''level'', JStr (log_level_value (le_level e))),
       (''message'', JStr (redact_text tt (le_message e))),
       (''fields'', redact_log_fields tt 0 (le_fields e))] @
      (if le_occurred_at_set e then [(''occurred_at'', JStr (isoformat (le_occurred_at e)))] else [])))
     (lb_entries payload)))"

definition opt_int :: "int option \<Rightarrow> json" where
  "opt_int x = (case x of None \<Rightarrow> JNull | Some i \<Rightarrow> JInt i)"

definition metric_batch_fingerprint :: "platform \<Rightarrow> metric_batch \<Rightarrow> string res" where
  "metric_batch_fingerprint pf payload = canonical_fingerprint pf (JList (map (\<lambda>e. JObj
     ([(''sequence'', JInt (me_sequence e)), (''key'', JStr (me_key e)), (''value'', JFloat (me_value e)),
       (''epoch'', opt_int (me_epoch e)), (''step'', opt_int (me_step e))] @
      (if me_occurred_at_set e then [(''occurred_at'', JStr (isoformat (me_occurred_at e)))] else [])))
     (mb_entries payload)))"

section \<open>The telemetry claim\<close>

definition find_ingest_batch :: "ident \<Rightarrow> batch_type \<Rightarrow> string \<Rightarrow> ledger \<Rightarrow> ingest_batch option" where
  "find_ingest_batch attempt batch_type key d =
     find (\<lambda>b. b_attempt_id b = attempt \<and> b_batch_type b = batch_type \<and> b_idempotency_key b = key)
       (ingest_batches d)"

definition validate_batch_replay :: "ingest_batch \<Rightarrow> string \<Rightarrow> unit res" where
  "validate_batch_replay existing fingerprint =
     (if b_payload_fingerprint existing \<noteq> Some fingerprint
      then Inl (HTTPException 409 ''telemetry idempotency key conflicts with a prior batch'')
      else Inr ())"

definition lock_telemetry_claim ::
  "platform \<Rightarrow> datetime \<Rightarrow> ident \<Rightarrow> ident \<Rightarrow> ident \<Rightarrow> ident \<Rightarrow> batch_type \<Rightarrow> int list \<Rightarrow> ledger \<Rightarrow>
   (job_lease_row \<times> job_row \<times> job_attempt_row \<times> bool) res" where
  "lock_telemetry_claim pf now worker job_id lease_id attempt_id batch_type sequences d =
     (let changed = Inl (HTTPException 409 ''job claim changed before telemetry commit'') in
      case find (\<lambda>l. l_id l = lease_id \<and> l_job_id l = job_id \<and> l_worker_id l = worker) (job_leases d) of
        None \<Rightarrow> Inl (HTTPException 409 ''invalid job lease'')
      | Some l \<Rightarrow>
          if l_attempt_id l \<noteq> attempt_id
          then Inl (HTTPException 409 ''batch attempt does not match lease'')
          else (case (get_job job_id d, get_attempt attempt_id d, get_worker_row worker d) of
            (Some j, Some a, Some w) \<Rightarrow>
              if a_job_id a \<noteq> job_id \<or> a_worker_id a \<noteq> worker \<or> \<not> w_is_active w then changed
              else if validated_job_config pf j (Some a) = None
              then Inl (HTTPException 409 ''job configuration integrity check failed'')
              else if l_active l \<and> l_released_at l = None then
                (if l_expires_at l \<le> now then Inl (HTTPException 409 ''job lease expired'')
                 else if j_worker_id j \<noteq> Some worker \<or> j_current_attempt_id j \<noteq> Some attempt_id \<or>
                   terminal (j_status j) \<or> a_finished_at a \<noteq> None \<or> a_status a \<noteq> j_status j \<or>
                   terminal (a_status a) \<or> a_telemetry_log_count a \<noteq> None \<or>
                   a_telemetry_metric_count a \<noteq> None \<or> w_current_job_id w \<noteq> Some job_id
                 then changed else Inr (l, j, a, False))
              else if l_active l \<or> l_released_at l = None \<or> a_finished_at a = None \<or>
                \<not> terminal (a_status a)
              then Inl (HTTPException 409 ''job lease is not a terminal telemetry lease'')
              else (case (a_telemetry_log_count a, a_telemetry_metric_count a) of
                (Some log_count, Some metric_count) \<Rightarrow>
                  (let watermark = (if batch_type = Logs then log_count else metric_count) in
                   if \<exists>s \<in> set sequences. s \<ge> watermark
                   then Inl (HTTPException 409 ''telemetry sequence exceeds terminal watermark'')
                   else Inr (l, j, a, True))
              | _ \<Rightarrow> Inl (HTTPException 409 ''terminal attempt has no telemetry watermarks''))
          | _ \<Rightarrow> changed))"

definition retryable_telemetry_fence_conflict :: api_error where
  "retryable_telemetry_fence_conflict =
     HTTPException 503 ''telemetry claim changed; retry against the terminal watermark''"

text \<open>
  The write fence: a conditional update that writes the row back unchanged (\<open>now1\<close>), then the claim
  is locked once more (\<open>now2\<close>). \<open>available\<close> is whether the update got its database lock.
\<close>

definition acquire_active_telemetry_write_fence ::
  "platform \<Rightarrow> datetime \<Rightarrow> datetime \<Rightarrow> bool \<Rightarrow> ident \<Rightarrow> ident \<Rightarrow> ident \<Rightarrow> ident \<Rightarrow> batch_type \<Rightarrow> int list \<Rightarrow> ledger \<Rightarrow>
   (job_lease_row \<times> job_row \<times> job_attempt_row) res" where
  "acquire_active_telemetry_write_fence pf now1 now2 available worker job_id lease_id attempt_id
       batch_type sequences d =
     (let lost = Inl retryable_telemetry_fence_conflict;
          active_lease_exists = (\<exists>l \<in> set (job_leases d). l_id l = lease_id \<and> l_job_id l = job_id \<and>
            l_attempt_id l = attempt_id \<and> l_worker_id l = worker \<and> l_active l \<and>
            l_released_at l = None \<and> l_expires_at l > now1);
          fenced = (\<exists>j \<in> set (jobs d). j_id j = job_id \<and> j_worker_id j = Some worker \<and>
            j_current_attempt_id j = Some attempt_id \<and> j_cancel_requested_at j = None \<and>
            \<not> terminal (j_status j) \<and> active_lease_exists) in
      if \<not> available \<or> \<not> fenced then lost
      else res_bind
        (lock_telemetry_claim pf now2 worker job_id lease_id attempt_id batch_type sequences d)
        (\<lambda>(l, j, a, late). if late \<or> j_cancel_requested_at j \<noteq> None then lost else Inr (l, j, a)))"

section \<open>Entries and rows\<close>

text \<open>
  Both kinds of telemetry keep one row per attempt and sequence number. \<open>stored_at\<close> is the row under
  a key, \<open>fresh_entries\<close> the entries of a batch that have none yet, \<open>conflicting\<close> whether an entry
  disagrees with the row it has.
\<close>

definition stored_at ::
  "('r \<Rightarrow> ident) \<Rightarrow> ('r \<Rightarrow> int) \<Rightarrow> ident \<Rightarrow> 'r list \<Rightarrow> int \<Rightarrow> 'r option" where
  "stored_at row_attempt row_sequence attempt rows sequence =
     find (\<lambda>r. row_attempt r = attempt \<and> row_sequence r = sequence) rows"

definition fresh_entries :: "('e \<Rightarrow> int) \<Rightarrow> (int \<Rightarrow> 'r option) \<Rightarrow> 'e list \<Rightarrow> 'e list" where
  "fresh_entries entry_sequence existing entries =
     filter (\<lambda>e. existing (entry_sequence e) = None) entries"

definition conflicting :: "('e \<Rightarrow> int) \<Rightarrow> ('r \<Rightarrow> 'e \<Rightarrow> bool) \<Rightarrow> (int \<Rightarrow> 'r option) \<Rightarrow> 'e list \<Rightarrow> bool" where
  "conflicting entry_sequence matches existing entries \<longleftrightarrow>
     (\<exists>e \<in> set entries. \<exists>r \<in> set_option (existing (entry_sequence e)). \<not> matches r e)"

definition float_eq :: "pyfloat \<Rightarrow> pyfloat \<Rightarrow> bool" where
  "float_eq x y = py_eq (JFloat x) (JFloat y)"

definition log_entry_matches :: "text_tools \<Rightarrow> job_log_row \<Rightarrow> log_entry \<Rightarrow> bool" where
  "log_entry_matches tt stored e \<longleftrightarrow> lg_level stored = le_level e \<and>
     lg_message stored = redact_text tt (le_message e) \<and>
     py_eq (lg_fields_json stored) (redact_log_fields tt 0 (le_fields e)) \<and>
     (\<not> le_occurred_at_set e \<or> lg_occurred_at stored = le_occurred_at e)"

definition metric_entry_matches :: "metric_row \<Rightarrow> metric_entry \<Rightarrow> bool" where
  "metric_entry_matches stored e \<longleftrightarrow> m_key stored = me_key e \<and> float_eq (m_value stored) (me_value e) \<and>
     m_epoch stored = me_epoch e \<and> m_step stored = me_step e \<and>
     (\<not> me_occurred_at_set e \<or> m_occurred_at stored = me_occurred_at e)"

definition log_row :: "text_tools \<Rightarrow> ident \<Rightarrow> ident \<Rightarrow> log_entry \<Rightarrow> job_log_row" where
  "log_row tt job_id attempt e = \<lparr>lg_job_id = job_id, lg_attempt_id = attempt,
     lg_sequence = le_sequence e, lg_level = le_level e, lg_message = redact_text tt (le_message e),
     lg_fields_json = redact_log_fields tt 0 (le_fields e), lg_occurred_at = le_occurred_at e\<rparr>"

definition metric_row_of :: "ident \<Rightarrow> ident \<Rightarrow> metric_entry \<Rightarrow> metric_row" where
  "metric_row_of job_id attempt e = \<lparr>m_job_id = job_id, m_attempt_id = attempt,
     m_sequence = me_sequence e, m_epoch = me_epoch e, m_step = me_step e, m_key = me_key e,
     m_value = me_value e, m_occurred_at = me_occurred_at e\<rparr>"

text \<open>\<^verbatim>\<open>float.is_integer\<close> together with \<^verbatim>\<open>int(value)\<close>.\<close>

fun float_int :: "pyfloat \<Rightarrow> int option" where
  "float_int (FNum q) = (if of_int \<lfloor>q\<rfloor> = q then Some \<lfloor>q\<rfloor> else None)"
| "float_int FNegZero = Some 0"
| "float_int _ = None"

definition metric_epoch :: "metric_entry \<Rightarrow> int \<Rightarrow> int option res" where
  "metric_epoch e total_epoch =
     (let n = float_int (me_value e) in
      if \<exists>k \<in> set_option (me_epoch e). k > total_epoch
      then Inl (HTTPException 422 ''metric epoch exceeds total_epoch'')
      else if me_key e = ''total_epoch'' \<and> n \<noteq> Some total_epoch
      then Inl (HTTPException 422 ''total_epoch metric does not match Job'')
      else if me_key e \<noteq> ''current_epoch'' then Inr (me_epoch e)
      else (case n of
        None \<Rightarrow> Inl (HTTPException 422 ''current_epoch metric must be an integer'')
      | Some current_epoch \<Rightarrow>
          if current_epoch < 0
          then Inl (HTTPException 422 ''current_epoch metric must be an integer'')
          else if current_epoch > total_epoch
          then Inl (HTTPException 422 ''current_epoch metric exceeds total_epoch'')
          else if \<exists>k \<in> set_option (me_epoch e). k \<noteq> current_epoch
          then Inl (HTTPException 422 ''current_epoch metric conflicts with epoch'')
          else Inr (Some current_epoch)))"

fun metric_epochs :: "int \<Rightarrow> metric_entry list \<Rightarrow> int option list res" where
  "metric_epochs total_epoch [] = Inr []"
| "metric_epochs total_epoch (e # es) =
     res_bind (metric_epoch e total_epoch) (\<lambda>x. res_bind (metric_epochs total_epoch es) (\<lambda>xs. Inr (x # xs)))"

section \<open>The handlers\<close>

record operation_ack =
  accepted :: int
  duplicate :: bool

record ingest_env =
  ie_now0 :: datetime
  ie_now1 :: datetime
  ie_now2 :: datetime
  ie_now3 :: datetime
  ie_fence :: bool
  ie_commit :: commit
  ie_event_id :: ident
  ie_after :: ledger

definition duplicate_ack :: operation_ack where
  "duplicate_ack = \<lparr>accepted = 0, duplicate = True\<rparr>"

text \<open>What a batch leaves besides its rows, and the answer when its commit failed.\<close>

definition add_ingest_batch ::
  "ident \<Rightarrow> ident \<Rightarrow> batch_type \<Rightarrow> string \<Rightarrow> string option \<Rightarrow> nat \<Rightarrow> ledger \<Rightarrow> ledger" where
  "add_ingest_batch job_id attempt batch_type key fingerprint count =
     ingest_batches_update (\<lambda>bs. bs @ [\<lparr>b_job_id = job_id, b_attempt_id = attempt,
       b_batch_type = batch_type, b_idempotency_key = key, b_payload_fingerprint = fingerprint,
       b_item_count = int count\<rparr>])"

definition telemetry_raced ::
  "platform \<Rightarrow> ingest_env \<Rightarrow> ident \<Rightarrow> ident \<Rightarrow> ident \<Rightarrow> ident \<Rightarrow> batch_type \<Rightarrow> string \<Rightarrow> int list \<Rightarrow> string \<Rightarrow> operation_ack handled"
  where
  "telemetry_raced pf env actor job_id lease_id attempt_id batch_type key sequences fingerprint =
     (let d = ie_after env in
      case find_ingest_batch attempt_id batch_type key d of
        None \<Rightarrow> (Inl (HTTPException 409 ''telemetry ingest conflicted''), d)
      | Some raced \<Rightarrow>
          (res_bind (validate_batch_replay raced fingerprint) (\<lambda>_.
           res_bind (lock_telemetry_claim pf (ie_now3 env) actor job_id lease_id attempt_id batch_type
             sequences d) (\<lambda>_. Inr duplicate_ack)), d))"

text \<open>
  The commit of a batch reports a violated constraint when two of its new rows have one sequence
  number; that a row or a batch under the same key exists already is excluded by the reads.
\<close>

definition telemetry_commit :: "int list \<Rightarrow> commit \<Rightarrow> commit" where
  "telemetry_commit new_sequences outcome = (if distinct new_sequences then outcome else Integrity)"

definition ingest_logs ::
  "platform \<Rightarrow> text_tools \<Rightarrow> ingest_env \<Rightarrow> ident \<Rightarrow> ident \<Rightarrow> log_batch \<Rightarrow> ledger \<Rightarrow> operation_ack handled" where
  "ingest_logs pf tt env actor job_id payload d =
     (case log_batch_fingerprint pf tt payload of
        Inl e \<Rightarrow> (Inl e, d)
      | Inr fingerprint \<Rightarrow>
          (let sequences = map le_sequence (lb_entries payload);
               key = lb_idempotency_key payload in
           case lock_telemetry_claim pf (ie_now0 env) actor job_id (lb_lease_id payload)
                  (lb_attempt_id payload) Logs sequences d of
             Inl e \<Rightarrow> (Inl e, d)
           | Inr (lease, _, _, late) \<Rightarrow>
               (case find_ingest_batch (l_attempt_id lease) Logs key d of
                  Some replay \<Rightarrow>
                    (res_bind (validate_batch_replay replay fingerprint) (\<lambda>_. Inr duplicate_ack), d)
                | None \<Rightarrow>
                    (let existing = stored_at lg_attempt_id lg_sequence (l_attempt_id lease) (job_logs d);
                         new_entries = fresh_entries le_sequence existing (lb_entries payload) in
                     if conflicting le_sequence (log_entry_matches tt) existing (lb_entries payload)
                     then (Inl (HTTPException 409 ''log sequence conflicts with prior payload''), d)
                     else (case (if late then Inr lease else
                             res_bind (acquire_active_telemetry_write_fence pf (ie_now1 env) (ie_now2 env)
                               (ie_fence env) actor job_id (lb_lease_id payload) (lb_attempt_id payload)
                               Logs sequences d) (\<lambda>(l, _, _). Inr l)) of
                       Inl e \<Rightarrow> (Inl e, d)
                     | Inr l \<Rightarrow>
                         (case telemetry_commit (map le_sequence new_entries) (ie_commit env) of
                            Committed \<Rightarrow>
                              (Inr \<lparr>accepted = int (length new_entries), duplicate = False\<rparr>,
                               add_ingest_batch job_id (l_attempt_id l) Logs key (Some fingerprint)
                                 (length new_entries)
                                 (job_logs_update (\<lambda>rows. rows @
                                    map (log_row tt job_id (l_attempt_id l)) new_entries) d))
                          | Operational \<Rightarrow> (Inl retryable_telemetry_fence_conflict, d)
                          | _ \<Rightarrow> telemetry_raced pf env actor job_id (lb_lease_id payload)
                                   (lb_attempt_id payload) Logs key sequences fingerprint))))))"

text \<open>The epochs that the new entries of a metric batch project onto the job.\<close>

definition projected_epochs :: "metric_entry list \<Rightarrow> int option list \<Rightarrow> metric_entry list \<Rightarrow> int list" where
  "projected_epochs entries incoming new_entries =
     [the k. (e, k) \<leftarrow> zip entries incoming, me_sequence e \<in> me_sequence ` set new_entries \<and> k \<noteq> None]"

definition project_epoch :: "bool \<Rightarrow> int list \<Rightarrow> job_row \<Rightarrow> job_row" where
  "project_epoch late projected j =
     (if projected \<noteq> [] \<and> \<not> late \<and>
         (\<forall>c \<in> set_option (j_current_epoch j). Max (set projected) > c)
      then j\<lparr>j_current_epoch := Some (Max (set projected))\<rparr> else j)"

definition write_metrics ::
  "ident \<Rightarrow> ident \<Rightarrow> bool \<Rightarrow> int list \<Rightarrow> string \<Rightarrow> string \<Rightarrow> metric_entry list \<Rightarrow> ledger \<Rightarrow> ledger" where
  "write_metrics job_id attempt late projected key fingerprint new_entries d =
     add_ingest_batch job_id attempt Metrics key (Some fingerprint) (length new_entries)
       (metrics_update (\<lambda>rows. rows @ map (metric_row_of job_id attempt) new_entries)
         (set_job job_id (project_epoch late projected) d))"

definition ingest_metrics ::
  "platform \<Rightarrow> settings \<Rightarrow> ingest_env \<Rightarrow> ident \<Rightarrow> ident \<Rightarrow> metric_batch \<Rightarrow> ledger \<Rightarrow> operation_ack handled" where
  "ingest_metrics pf st env actor job_id payload d =
     (case metric_batch_fingerprint pf payload of
        Inl e \<Rightarrow> (Inl e, d)
      | Inr fingerprint \<Rightarrow>
          (let entries = mb_entries payload; sequences = map me_sequence entries;
               key = mb_idempotency_key payload in
           case lock_telemetry_claim pf (ie_now0 env) actor job_id (mb_lease_id payload)
                  (mb_attempt_id payload) Metrics sequences d of
             Inl e \<Rightarrow> (Inl e, d)
           | Inr (lease, job, attempt, late) \<Rightarrow>
               (case find_ingest_batch (l_attempt_id lease) Metrics key d of
                  Some replay \<Rightarrow>
                    (res_bind (validate_batch_replay replay fingerprint) (\<lambda>_. Inr duplicate_ack), d)
                | None \<Rightarrow>
                    (let existing = stored_at m_attempt_id m_sequence (l_attempt_id lease) (metrics d);
                         new_entries = fresh_entries me_sequence existing entries in
                     case metric_epochs (j_total_epoch job) entries of
                       Inl e \<Rightarrow> (Inl e, d)
                     | Inr incoming \<Rightarrow>
                     if conflicting me_sequence metric_entry_matches existing entries
                     then (Inl (HTTPException 409 ''metric sequence conflicts with prior payload''), d)
                     else (case (if late then Inr (lease, job, attempt) else
                             acquire_active_telemetry_write_fence pf (ie_now1 env) (ie_now2 env)
                               (ie_fence env) actor job_id (mb_lease_id payload) (mb_attempt_id payload)
                               Metrics sequences d) of
                       Inl e \<Rightarrow> (Inl e, d)
                     | Inr (l, j, a) \<Rightarrow>
                         (let projected = projected_epochs entries incoming new_entries in
                          case enqueue_metric_batch pf st (ie_now2 env) (ie_event_id env)
                                 (project_epoch late projected j) (a_id a) key
                                 (write_metrics job_id (l_attempt_id l) late projected key fingerprint
                                    new_entries d) of
                            Inl e \<Rightarrow> (Inl e, d)
                          | Inr (_, d') \<Rightarrow>
                              (case telemetry_commit (map me_sequence new_entries) (ie_commit env) of
                                 Committed \<Rightarrow>
                                   (Inr \<lparr>accepted = int (length new_entries), duplicate = False\<rparr>, d')
                               | Operational \<Rightarrow> (Inl retryable_telemetry_fence_conflict, d)
                               | _ \<Rightarrow> telemetry_raced pf env actor job_id (mb_lease_id payload)
                                        (mb_attempt_id payload) Metrics key sequences fingerprint)))))))"

text \<open>
  Artifacts without stored bytes, for fake engines only; \<open>new_ids\<close> are the keys of the new rows and
  \<open>event_ids\<close> those of their outbox rows.
\<close>

definition artifact_row_of :: "ident \<Rightarrow> ident \<Rightarrow> ident \<Rightarrow> artifact_item \<Rightarrow> artifact_row" where
  "artifact_row_of new_id job_id attempt i = \<lparr>ar_id = new_id, ar_job_id = job_id,
     ar_attempt_id = attempt, ar_artifact_type = ai_artifact_type i, ar_filename = ai_filename i,
     ar_storage_uri = ai_storage_uri i, ar_size_bytes = ai_size_bytes i, ar_sha256 = ai_sha256 i,
     ar_mime_type = ai_mime_type i, ar_metadata_json = ai_metadata i\<rparr>"

fun enqueue_artifacts ::
  "platform \<Rightarrow> settings \<Rightarrow> datetime \<Rightarrow> (ident \<Rightarrow> ident) \<Rightarrow> job_row \<Rightarrow> artifact_row list \<Rightarrow> ledger \<Rightarrow> ledger res" where
  "enqueue_artifacts pf st now event_ids job [] d = Inr d"
| "enqueue_artifacts pf st now event_ids job (a # as) d =
     res_bind (enqueue_artifact pf st now (event_ids (ar_id a)) job a d)
       (\<lambda>(_, d'). enqueue_artifacts pf st now event_ids job as d')"

definition fresh_artifacts :: "ident \<Rightarrow> artifact_batch \<Rightarrow> ledger \<Rightarrow> artifact_item list" where
  "fresh_artifacts attempt payload d =
     (let existing = (\<lambda>a. (ar_artifact_type a, ar_sha256 a)) `
        set (filter (\<lambda>a. ar_attempt_id a = attempt) (artifacts_table d)) in
      filter (\<lambda>i. (ai_artifact_type i, ai_sha256 i) \<notin> existing) (ab_artifacts payload))"

definition artifact_rows :: "(nat \<Rightarrow> ident) \<Rightarrow> ident \<Rightarrow> ident \<Rightarrow> artifact_item list \<Rightarrow> artifact_row list" where
  "artifact_rows new_ids job_id attempt items =
     map (\<lambda>(n, i). artifact_row_of (new_ids n) job_id attempt i) (enumerate 0 items)"

definition write_artifacts :: "ident \<Rightarrow> ident \<Rightarrow> string \<Rightarrow> artifact_row list \<Rightarrow> ledger \<Rightarrow> ledger" where
  "write_artifacts job_id attempt key new_rows d =
     add_ingest_batch job_id attempt Artifacts key None (length new_rows)
       (artifacts_table_update (\<lambda>rows. rows @ new_rows) d)"

definition ingest_artifacts ::
  "platform \<Rightarrow> settings \<Rightarrow> datetime \<Rightarrow> commit \<Rightarrow> (nat \<Rightarrow> ident) \<Rightarrow> (ident \<Rightarrow> ident) \<Rightarrow> ident \<Rightarrow> ident \<Rightarrow> artifact_batch \<Rightarrow> ledger \<Rightarrow> operation_ack handled"
  where
  "ingest_artifacts pf st now outcome new_ids event_ids actor job_id payload d =
     (case require_active_lease pf now actor job_id (ab_lease_id payload) d of
        Inl e \<Rightarrow> (Inl e, d)
      | Inr lease \<Rightarrow>
          if l_attempt_id lease \<noteq> ab_attempt_id payload
          then (Inl (HTTPException 409 ''batch attempt does not match lease''), d)
          else if \<not> (\<exists>a \<in> set_option (get_attempt (l_attempt_id lease) d). allow_legacy_fake st a)
          then (Inl (HTTPException 403 ''metadata-only artifacts are restricted to fake test workers''), d)
          else if \<exists>i \<in> set (ab_artifacts payload). url_scheme (ai_storage_uri i) \<noteq> ''file'' \<or>
            map_of (ai_metadata i) ''fake'' \<noteq> Some (JBool True)
          then (Inl (HTTPException 422
            ''fake metadata artifacts require file:// URIs and fake=true metadata''), d)
          else if find_ingest_batch (l_attempt_id lease) Artifacts (ab_idempotency_key payload) d \<noteq> None
          then (Inr duplicate_ack, d)
          else
            (let new_items = fresh_artifacts (l_attempt_id lease) payload d;
                 new_rows = artifact_rows new_ids job_id (l_attempt_id lease) new_items;
                 written = write_artifacts job_id (l_attempt_id lease) (ab_idempotency_key payload)
                   new_rows d in
             case get_job job_id d of
               None \<Rightarrow> (Inl (HTTPException 409 ''job is no longer available''), d)
             | Some job \<Rightarrow>
                 (case enqueue_artifacts pf st now event_ids job new_rows written of
                    Inl e \<Rightarrow> (Inl e, d)
                  | Inr d' \<Rightarrow>
                      (case outcome of
                         Committed \<Rightarrow>
                           (Inr \<lparr>accepted = int (length new_items), duplicate = False\<rparr>, d')
                       | Stale \<Rightarrow> (Inl (Unhandled ''StaleDataError''), d)
                       | Integrity \<Rightarrow> (Inl (Unhandled ''IntegrityError''), d)
                       | Operational \<Rightarrow> (Inl (Unhandled ''OperationalError''), d)))))"

section \<open>One row per sequence number\<close>

text \<open>
  The contract between a kind of telemetry entry and the rows it is stored in: a row carries the
  attempt and the sequence number of its entry, and a well-formed entry matches its own row.
\<close>

locale sequence_rows =
  fixes row_attempt :: "'r \<Rightarrow> ident"
    and row_sequence :: "'r \<Rightarrow> int"
    and entry_sequence :: "'e \<Rightarrow> int"
    and make :: "ident \<Rightarrow> ident \<Rightarrow> 'e \<Rightarrow> 'r"
    and matches :: "'r \<Rightarrow> 'e \<Rightarrow> bool"
    and well_formed :: "'e \<Rightarrow> bool"
  assumes made_attempt: "row_attempt (make job attempt e) = attempt"
    and made_sequence: "row_sequence (make job attempt e) = entry_sequence e"
    and made_matches: "well_formed e \<Longrightarrow> matches (make job attempt e) e"
begin

abbreviation "key_of r \<equiv> (row_attempt r, row_sequence r)"
abbreviation "look a rows \<equiv> stored_at row_attempt row_sequence a rows"
abbreviation "fresh a rows es \<equiv> fresh_entries entry_sequence (look a rows) es"
abbreviation "grown job a rows es \<equiv> rows @ map (make job a) (fresh a rows es)"

lemma look_None: "look a rows n = None \<longleftrightarrow> (\<forall>r \<in> set rows. key_of r \<noteq> (a, n))"
  by (auto simp: stored_at_def find_None_iff)

lemma look_Some: "look a rows n = Some r \<Longrightarrow> r \<in> set rows \<and> row_attempt r = a \<and> row_sequence r = n"
  by (auto simp: stored_at_def find_Some_iff)

lemma look_append: "look a (rows @ later) n = (case look a rows n of Some r \<Rightarrow> Some r | None \<Rightarrow> look a later n)"
  unfolding stored_at_def by (induction rows) auto

text \<open>Storing the fresh entries of a batch keeps one row per key.\<close>

lemma grown_distinct:
  assumes "distinct (map key_of rows)" "distinct (map entry_sequence (fresh a rows es))"
  shows "distinct (map key_of (grown job a rows es))"
proof -
  have "key_of ` set rows \<inter> (\<lambda>e. (a, entry_sequence e)) ` set (fresh a rows es) = {}"
    by (auto simp: fresh_entries_def look_None)
  moreover have "distinct (map (\<lambda>e. (a, entry_sequence e)) (fresh a rows es))"
    using assms(2) by (simp add: distinct_map inj_on_def)
  ultimately show ?thesis
    using assms(1) by (simp add: made_attempt made_sequence comp_def image_image)
qed

text \<open>Afterwards every entry of the batch has its row, so that nothing is fresh any more.\<close>

lemma grown_covers:
  assumes "e \<in> set es"
  shows "\<exists>r. look a (grown job a rows es) (entry_sequence e) = Some r"
proof (cases "look a rows (entry_sequence e)")
  case None
  then have "make job a e \<in> set (map (make job a) (fresh a rows es))"
    using assms by (simp add: fresh_entries_def)
  then have "look a (map (make job a) (fresh a rows es)) (entry_sequence e) \<noteq> None"
    unfolding look_None by (intro notI) (drule (1) bspec, simp add: made_attempt made_sequence)
  then show ?thesis using None by (auto simp: look_append)
qed (simp add: look_append)

lemma grown_nothing_fresh: "fresh a (grown job a rows es) es = []"
  using grown_covers [of _ es a rows job] by (fastforce simp: fresh_entries_def filter_empty_conv)

text \<open>And a batch of distinct, well-formed entries does not conflict with itself when repeated.\<close>

lemma grown_no_conflict:
  assumes ok: "\<not> conflicting entry_sequence matches (look a rows) es"
    and wf: "\<forall>e \<in> set es. well_formed e" and d: "distinct (map entry_sequence es)"
  shows "\<not> conflicting entry_sequence matches (look a (grown job a rows es)) es"
proof
  assume "conflicting entry_sequence matches (look a (grown job a rows es)) es"
  then obtain e r where e: "e \<in> set es" "look a (grown job a rows es) (entry_sequence e) = Some r"
    "\<not> matches r e" by (auto simp: conflicting_def)
  show False
  proof (cases "look a rows (entry_sequence e)")
    case (Some r')
    then show False using e ok by (auto simp: look_append conflicting_def)
  next
    case None
    then have "look a (map (make job a) (fresh a rows es)) (entry_sequence e) = Some r"
      using e(2) by (simp add: look_append)
    from look_Some [OF this] obtain e' where e': "e' \<in> set es" "r = make job a e'"
      "entry_sequence e' = entry_sequence e"
      by (auto simp: fresh_entries_def made_sequence)
    then have "e' = e" using d e(1) by (auto simp: distinct_map inj_on_def)
    then show False using e' e(3) wf e(1) made_matches by blast
  qed
qed

end

lemma py_eq_refl: "\<not> json_has_nan v \<Longrightarrow> py_eq v v"
  by (simp add: py_eq_def)

definition well_formed_log :: "text_tools \<Rightarrow> log_entry \<Rightarrow> bool" where
  "well_formed_log tt e \<longleftrightarrow> json_finite (redact_log_fields tt 0 (le_fields e))"

definition well_formed_metric :: "metric_entry \<Rightarrow> bool" where
  "well_formed_metric e \<longleftrightarrow> isfinite (me_value e)"

lemma json_finite_no_nan: "json_finite v \<Longrightarrow> \<not> json_has_nan v"
proof (induction v)
  case (JObj kvs)
  then show ?case by (auto simp: list_all_iff list_ex_iff snds.simps)
qed (auto simp: list_all_iff list_ex_iff)

interpretation log_rows: sequence_rows lg_attempt_id lg_sequence le_sequence "log_row tt"
  "log_entry_matches tt" "well_formed_log tt" for tt
  by unfold_locales
    (simp_all add: log_row_def log_entry_matches_def well_formed_log_def py_eq_refl json_finite_no_nan)

interpretation metric_rows: sequence_rows m_attempt_id m_sequence me_sequence metric_row_of
  metric_entry_matches well_formed_metric
  by unfold_locales
    (auto simp: metric_row_of_def metric_entry_matches_def well_formed_metric_def float_eq_def
      intro!: py_eq_refl)


section \<open>What the handlers do\<close>

text \<open>The rows of an accepted telemetry claim; a late one lies below the watermarks.\<close>

lemma lock_telemetry_claimD:
  assumes "lock_telemetry_claim pf now worker job_id lease_id attempt_id ty sequences d = Inr (l, j, a, late)"
  shows "l_attempt_id l = attempt_id" "get_job job_id d = Some j" "get_attempt attempt_id d = Some a"
    "a_job_id a = job_id" "l \<in> set (job_leases d)" "l_id l = lease_id"
    "validated_job_config pf j (Some a) \<noteq> None"
    "\<not> late \<Longrightarrow> l_active l \<and> a_telemetry_log_count a = None \<and> a_telemetry_metric_count a = None \<and>
       a_finished_at a = None"
    "late \<Longrightarrow> a_finished_at a \<noteq> None \<and>
       (\<exists>lc mc. a_telemetry_log_count a = Some lc \<and> a_telemetry_metric_count a = Some mc \<and>
          (\<forall>s \<in> set sequences. s < (if ty = Logs then lc else mc)))"
proof -
  note u = lock_telemetry_claim_def Let_def
  obtain w where rows: "find (\<lambda>l. l_id l = lease_id \<and> l_job_id l = job_id \<and> l_worker_id l = worker)
      (job_leases d) = Some l" "l_attempt_id l = attempt_id"
    "get_job job_id d = Some j" "get_attempt attempt_id d = Some a" "get_worker_row worker d = Some w"
    using assms unfolding u by (auto split: option.splits if_splits)
  show "l_attempt_id l = attempt_id" "get_job job_id d = Some j" "get_attempt attempt_id d = Some a"
    using rows by simp_all
  show "l \<in> set (job_leases d)" "l_id l = lease_id" using rows(1) by (auto simp: find_Some_iff)
  show "a_job_id a = job_id" "validated_job_config pf j (Some a) \<noteq> None"
    using assms rows unfolding u by (auto split: option.splits if_splits)
  show "\<not> late \<Longrightarrow> l_active l \<and> a_telemetry_log_count a = None \<and> a_telemetry_metric_count a = None \<and>
       a_finished_at a = None"
    using assms rows unfolding u by (auto split: option.splits if_splits)
  show "late \<Longrightarrow> a_finished_at a \<noteq> None \<and>
       (\<exists>lc mc. a_telemetry_log_count a = Some lc \<and> a_telemetry_metric_count a = Some mc \<and>
          (\<forall>s \<in> set sequences. s < (if ty = Logs then lc else mc)))"
    using assms rows unfolding u by (auto split: option.splits if_splits simp: not_le)
qed

lemma telemetry_fenceD:
  assumes "acquire_active_telemetry_write_fence pf now1 now2 available worker job_id lease_id attempt_id
      ty sequences d = Inr (l, j, a)"
  shows "lock_telemetry_claim pf now2 worker job_id lease_id attempt_id ty sequences d = Inr (l, j, a, False)"
    "j_cancel_requested_at j = None"
  using assms unfolding acquire_active_telemetry_write_fence_def Let_def
  by (auto split: if_splits)

lemma telemetry_raced_result:
  assumes "telemetry_raced pf env w i l a ty k s f = (r, d')"
  shows "d' = ie_after env" "isl r \<or> r = Inr duplicate_ack"
proof -
  have *: "isl (res_bind x f) \<or> res_bind x f = Inr duplicate_ack"
    if "\<And>y. isl (f y) \<or> f y = Inr duplicate_ack" for x and f :: "'b \<Rightarrow> operation_ack res"
    using that by (cases x) auto
  show "d' = ie_after env" "isl r \<or> r = Inr duplicate_ack"
    using assms by (auto simp: telemetry_raced_def Let_def intro!: * split: option.splits)
qed

lemma ingest_logs_cases:
  assumes "ingest_logs pf tt env actor job_id payload d = (r, d')"
  obtains (kept) "d' = d" "isl r \<or> r = Inr duplicate_ack"
    | (raced) "d' = ie_after env" "isl r \<or> r = Inr duplicate_ack"
    | (stored) l j a late fingerprint new_entries
      where "log_batch_fingerprint pf tt payload = Inr fingerprint"
        "lock_telemetry_claim pf (ie_now0 env) actor job_id (lb_lease_id payload) (lb_attempt_id payload)
           Logs (map le_sequence (lb_entries payload)) d = Inr (l, j, a, late)"
        "find_ingest_batch (lb_attempt_id payload) Logs (lb_idempotency_key payload) d = None"
        "\<not> conflicting le_sequence (log_entry_matches tt)
           (stored_at lg_attempt_id lg_sequence (lb_attempt_id payload) (job_logs d)) (lb_entries payload)"
        "new_entries = fresh_entries le_sequence
           (stored_at lg_attempt_id lg_sequence (lb_attempt_id payload) (job_logs d)) (lb_entries payload)"
        "distinct (map le_sequence new_entries)"
        "r = Inr \<lparr>accepted = int (length new_entries), duplicate = False\<rparr>"
        "d' = add_ingest_batch job_id (lb_attempt_id payload) Logs (lb_idempotency_key payload)
           (Some fingerprint) (length new_entries)
           (job_logs_update (\<lambda>rows. rows @ map (log_row tt job_id (lb_attempt_id payload)) new_entries) d)"
proof -
  let ?a = "lb_attempt_id payload" and ?es = "lb_entries payload"
  let ?seqs = "map le_sequence ?es"
  let ?look = "stored_at lg_attempt_id lg_sequence ?a (job_logs d)"
  let ?new = "fresh_entries le_sequence ?look ?es"
  note u = ingest_logs_def Let_def
  show thesis
  proof (cases "log_batch_fingerprint pf tt payload")
    case (Inl e)
    then show thesis using assms kept by (auto simp: u)
  next
    case fp: (Inr f)
    show thesis
    proof (cases "lock_telemetry_claim pf (ie_now0 env) actor job_id (lb_lease_id payload) ?a Logs ?seqs d")
      case (Inl e)
      then show thesis using assms fp kept by (auto simp: u)
    next
      case (Inr p)
      then obtain l j a late where claim: "lock_telemetry_claim pf (ie_now0 env) actor job_id
        (lb_lease_id payload) ?a Logs ?seqs d = Inr (l, j, a, late)" by (cases p) auto
      have la: "l_attempt_id l = ?a" using lock_telemetry_claimD(1) [OF claim] .
      show thesis
      proof (cases "find_ingest_batch ?a Logs (lb_idempotency_key payload) d \<noteq> None \<or>
          conflicting le_sequence (log_entry_matches tt) ?look ?es")
        case True
        then have "d' = d \<and> (isl r \<or> r = Inr duplicate_ack)"
          using assms fp claim la by (auto simp: u validate_batch_replay_def split: option.splits if_splits)
        then show thesis using kept by blast
      next
        case False
        then have fresh: "find_ingest_batch ?a Logs (lb_idempotency_key payload) d = None"
          "\<not> conflicting le_sequence (log_entry_matches tt) ?look ?es" by auto
        let ?fence = "if late then Inr l else res_bind (acquire_active_telemetry_write_fence pf
          (ie_now1 env) (ie_now2 env) (ie_fence env) actor job_id (lb_lease_id payload) ?a Logs ?seqs d)
          (\<lambda>(l, _, _). Inr l)"
        show thesis
        proof (cases ?fence)
          case (Inl e)
          then show thesis using assms fp claim la fresh kept by (auto simp: u)
        next
          case (Inr m)
          have ma: "l_attempt_id m = ?a"
            using Inr la telemetry_fenceD(1) lock_telemetry_claimD(1) by (fastforce split: if_splits)
          let ?commit = "telemetry_commit (map le_sequence ?new) (ie_commit env)"
          show thesis
          proof (cases "?commit = Committed")
            case True
            then have "distinct (map le_sequence ?new)" by (auto simp: telemetry_commit_def split: if_splits)
            then show thesis
              using stored [OF fp claim fresh] assms fp claim la fresh Inr ma True by (simp add: u)
          next
            case False
            then have "d' = d \<and> isl r \<or> telemetry_raced pf env actor job_id
                (lb_lease_id payload) ?a Logs (lb_idempotency_key payload) ?seqs f = (r, d')"
              using assms fp claim la fresh Inr ma by (cases ?commit) (auto simp add: u)
            then show thesis by (elim disjE conjE) (use kept raced telemetry_raced_result in metis)+
          qed
        qed
      qed
    qed
  qed
qed


lemma ingest_metrics_cases:
  assumes "ingest_metrics pf st env actor job_id payload d = (r, d')"
  obtains (kept) "d' = d" "isl r \<or> r = Inr duplicate_ack"
    | (raced) "d' = ie_after env" "isl r \<or> r = Inr duplicate_ack"
    | (stored) l j a late fingerprint incoming new_entries k
      where "metric_batch_fingerprint pf payload = Inr fingerprint"
        "lock_telemetry_claim pf (if late then ie_now0 env else ie_now2 env) actor job_id
           (mb_lease_id payload) (mb_attempt_id payload) Metrics
           (map me_sequence (mb_entries payload)) d = Inr (l, j, a, late)"
        "find_ingest_batch (mb_attempt_id payload) Metrics (mb_idempotency_key payload) d = None"
        "metric_epochs (j_total_epoch j) (mb_entries payload) = Inr incoming"
        "\<not> conflicting me_sequence metric_entry_matches
           (stored_at m_attempt_id m_sequence (mb_attempt_id payload) (metrics d)) (mb_entries payload)"
        "new_entries = fresh_entries me_sequence
           (stored_at m_attempt_id m_sequence (mb_attempt_id payload) (metrics d)) (mb_entries payload)"
        "distinct (map me_sequence new_entries)"
        "r = Inr \<lparr>accepted = int (length new_entries), duplicate = False\<rparr>"
        "enqueue_metric_batch pf st (ie_now2 env) (ie_event_id env)
           (project_epoch late (projected_epochs (mb_entries payload) incoming new_entries) j)
           (a_id a) (mb_idempotency_key payload)
           (write_metrics job_id (mb_attempt_id payload) late
              (projected_epochs (mb_entries payload) incoming new_entries) (mb_idempotency_key payload)
              fingerprint new_entries d) = Inr (k, d')"
proof -
  let ?at = "mb_attempt_id payload" and ?es = "mb_entries payload" and ?key = "mb_idempotency_key payload"
  let ?seqs = "map me_sequence ?es"
  let ?look = "stored_at m_attempt_id m_sequence ?at (metrics d)"
  let ?new = "fresh_entries me_sequence ?look ?es"
  note u = ingest_metrics_def Let_def
  show thesis
  proof (cases "metric_batch_fingerprint pf payload")
    case (Inl e)
    then show thesis using assms kept by (auto simp: u)
  next
    case fp: (Inr f)
    show thesis
    proof (cases "lock_telemetry_claim pf (ie_now0 env) actor job_id (mb_lease_id payload) ?at Metrics ?seqs d")
      case (Inl e)
      then show thesis using assms fp kept by (auto simp: u)
    next
      case (Inr p)
      then obtain l0 j0 a0 late where claim: "lock_telemetry_claim pf (ie_now0 env) actor job_id
        (mb_lease_id payload) ?at Metrics ?seqs d = Inr (l0, j0, a0, late)" by (cases p) auto
      note D = lock_telemetry_claimD [OF claim]
      show thesis
      proof (cases "find_ingest_batch ?at Metrics ?key d \<noteq> None \<or> isl (metric_epochs (j_total_epoch j0) ?es) \<or>
          conflicting me_sequence metric_entry_matches ?look ?es")
        case True
        then have "d' = d \<and> (isl r \<or> r = Inr duplicate_ack)"
          using assms fp claim D(1)
          by (auto simp: u validate_batch_replay_def isl_def split: option.splits sum.splits if_splits)
        then show thesis using kept by blast
      next
        case False
        then obtain incoming where fresh: "find_ingest_batch ?at Metrics ?key d = None"
          "metric_epochs (j_total_epoch j0) ?es = Inr incoming"
          "\<not> conflicting me_sequence metric_entry_matches ?look ?es" by (auto simp: isl_def)
             (metis sum.exhaust)
        let ?fence = "if late then Inr (l0, j0, a0) else acquire_active_telemetry_write_fence pf
          (ie_now1 env) (ie_now2 env) (ie_fence env) actor job_id (mb_lease_id payload) ?at Metrics ?seqs d"
        show thesis
        proof (cases ?fence)
          case (Inl e)
          then show thesis using assms fp claim D(1) fresh kept by (auto simp: u)
        next
          case (Inr q)
          obtain l j a where q: "q = (l, j, a)" by (cases q)
          have again: "lock_telemetry_claim pf (if late then ie_now0 env else ie_now2 env) actor job_id
            (mb_lease_id payload) ?at Metrics ?seqs d = Inr (l, j, a, late)"
            using Inr q claim telemetry_fenceD(1) by (auto split: if_splits)
          note E = lock_telemetry_claimD [OF again]
          have j: "j = j0" using D(2) E(2) by simp
          let ?proj = "projected_epochs ?es incoming ?new"
          let ?enq = "enqueue_metric_batch pf st (ie_now2 env) (ie_event_id env) (project_epoch late ?proj j)
            (a_id a) ?key (write_metrics job_id ?at late ?proj ?key f ?new d)"
          let ?commit = "telemetry_commit (map me_sequence ?new) (ie_commit env)"
          show thesis
          proof (cases ?enq)
            case (Inl e)
            then show thesis using assms fp claim D(1) E(1) fresh \<open>?fence = Inr q\<close> q kept
              by (auto simp: u)
          next
            case enq: (Inr p)
            obtain k d1 where p: "p = (k, d1)" by (cases p)
            note facts = assms fp claim D(1) E(1) fresh \<open>?fence = Inr q\<close> q enq p
            show thesis
            proof (cases "?commit = Committed")
              case True
              then have "distinct (map me_sequence ?new)" by (auto simp: telemetry_commit_def split: if_splits)
              then show thesis
                using stored [OF fp again fresh(1) _ fresh(3) refl] facts j True by (simp add: u)
            next
              case False
              then have "d' = d \<and> isl r \<or> telemetry_raced pf env actor job_id
                  (mb_lease_id payload) ?at Metrics ?key ?seqs f = (r, d')"
                using facts by (cases ?commit) (auto simp add: u)
              then show thesis by (elim disjE conjE) (use kept raced telemetry_raced_result in metis)+
            qed
          qed
        qed
      qed
    qed
  qed
qed

lemma enqueue_artifacts_frames:
  assumes "enqueue_artifacts pf st now ids job as d = Inr d'"
  shows "workers d' = workers d" "jobs d' = jobs d" "job_attempts d' = job_attempts d"
    "job_leases d' = job_leases d" "job_status_events d' = job_status_events d"
    "experiments d' = experiments d" "job_logs d' = job_logs d" "metrics d' = metrics d"
    "ingest_batches d' = ingest_batches d"
proof -
  have "workers d' = workers d \<and> jobs d' = jobs d \<and> job_attempts d' = job_attempts d \<and>
    job_leases d' = job_leases d \<and> job_status_events d' = job_status_events d \<and>
    experiments d' = experiments d \<and> job_logs d' = job_logs d \<and> metrics d' = metrics d \<and>
    ingest_batches d' = ingest_batches d"
    using assms
  proof (induction as arbitrary: d)
    case (Cons a as)
    then obtain k d1 where e: "enqueue_artifact pf st now (ids (ar_id a)) job a d = Inr (k, d1)"
      "enqueue_artifacts pf st now ids job as d1 = Inr d'" by auto
    from enqueue_for_job_frames [OF e(1) [unfolded enqueue_artifact_def]] Cons.IH [OF e(2)]
    show ?case by simp
  qed simp
  then show "workers d' = workers d" "jobs d' = jobs d" "job_attempts d' = job_attempts d"
    "job_leases d' = job_leases d" "job_status_events d' = job_status_events d"
    "experiments d' = experiments d" "job_logs d' = job_logs d" "metrics d' = metrics d"
    "ingest_batches d' = ingest_batches d"
    by simp_all
qed

lemma batch_frames [simp]:
  "workers (add_ingest_batch i a ty k f n d) = workers d" "jobs (add_ingest_batch i a ty k f n d) = jobs d"
  "job_attempts (add_ingest_batch i a ty k f n d) = job_attempts d"
  "job_leases (add_ingest_batch i a ty k f n d) = job_leases d"
  "job_status_events (add_ingest_batch i a ty k f n d) = job_status_events d"
  "job_logs (add_ingest_batch i a ty k f n d) = job_logs d"
  "metrics (add_ingest_batch i a ty k f n d) = metrics d"
  "ingest_batches (add_ingest_batch i a ty k f n d) = ingest_batches d @
     [\<lparr>b_job_id = i, b_attempt_id = a, b_batch_type = ty, b_idempotency_key = k,
       b_payload_fingerprint = f, b_item_count = int n\<rparr>]"
  by (simp_all add: add_ingest_batch_def)


lemma ingest_artifacts_cases:
  assumes "ingest_artifacts pf st now outcome new_ids event_ids actor job_id payload d = (r, d')"
  obtains (kept) "d' = d"
    | (stored) l n where
        "require_active_lease pf now actor job_id (ab_lease_id payload) d = Inr l"
        "l_attempt_id l = ab_attempt_id payload"
        "find_ingest_batch (ab_attempt_id payload) Artifacts (ab_idempotency_key payload) d = None"
        "workers d' = workers d" "jobs d' = jobs d" "job_attempts d' = job_attempts d"
        "job_leases d' = job_leases d" "job_status_events d' = job_status_events d"
        "job_logs d' = job_logs d" "metrics d' = metrics d"
        "ingest_batches d' = ingest_batches d @ [\<lparr>b_job_id = job_id,
           b_attempt_id = ab_attempt_id payload, b_batch_type = Artifacts,
           b_idempotency_key = ab_idempotency_key payload, b_payload_fingerprint = None,
           b_item_count = n\<rparr>]"
proof -
  note u = ingest_artifacts_def Let_def
  show thesis
  proof (cases "d' = d")
    case False
    then obtain l where l: "require_active_lease pf now actor job_id (ab_lease_id payload) d = Inr l"
      using assms by (auto simp: u split: sum.splits)
    have la: "l_attempt_id l = ab_attempt_id payload"
      "find_ingest_batch (ab_attempt_id payload) Artifacts (ab_idempotency_key payload) d = None"
      using assms False l by (auto simp: u split: if_splits)
    let ?rows = "artifact_rows new_ids job_id (l_attempt_id l) (fresh_artifacts (l_attempt_id l) payload d)"
    let ?written = "write_artifacts job_id (l_attempt_id l) (ab_idempotency_key payload) ?rows d"
    obtain job where "enqueue_artifacts pf st now event_ids job ?rows ?written = Inr d'"
      using assms False l by (auto simp: u split: if_splits option.splits sum.splits commit.splits)
    from enqueue_artifacts_frames [OF this] show thesis
      by (intro stored [OF l la]) (simp_all add: la write_artifacts_def)
  qed (rule kept)
qed

section \<open>The telemetry invariant\<close>

definition log_key :: "job_log_row \<Rightarrow> ident \<times> int" where
  "log_key = (\<lambda>r. (lg_attempt_id r, lg_sequence r))"

definition metric_key :: "metric_row \<Rightarrow> ident \<times> int" where
  "metric_key = (\<lambda>r. (m_attempt_id r, m_sequence r))"

definition sealed_below :: "ledger \<Rightarrow> job_attempt_row \<Rightarrow> bool" where
  "sealed_below d a \<longleftrightarrow>
     (\<forall>n. a_telemetry_log_count a = Some n \<longrightarrow>
        (\<forall>r \<in> set (job_logs d). lg_attempt_id r = a_id a \<longrightarrow> lg_sequence r < n)) \<and>
     (\<forall>n. a_telemetry_metric_count a = Some n \<longrightarrow>
        (\<forall>r \<in> set (metrics d). m_attempt_id r = a_id a \<longrightarrow> m_sequence r < n))"

definition epoch_bounded :: "job_row \<Rightarrow> bool" where
  "epoch_bounded j \<longleftrightarrow> (\<forall>n. j_current_epoch j = Some n \<longrightarrow> n \<le> j_total_epoch j)"

text \<open>
  One row per sequence number, no row at or above a watermark, no epoch above the total.
\<close>

definition telemetry_ok :: "ledger \<Rightarrow> bool" where
  "telemetry_ok d \<longleftrightarrow> distinct (map log_key (job_logs d)) \<and> distinct (map metric_key (metrics d)) \<and>
     (\<forall>a \<in> set (job_attempts d). sealed_below d a) \<and> (\<forall>j \<in> set (jobs d). epoch_bounded j)"

lemma telemetry_okD:
  assumes "telemetry_ok d"
  shows "distinct (map log_key (job_logs d))" "distinct (map metric_key (metrics d))"
    "a \<in> set (job_attempts d) \<Longrightarrow> sealed_below d a" "j \<in> set (jobs d) \<Longrightarrow> epoch_bounded j"
  using assms by (auto simp: telemetry_ok_def)

lemma fresh_subset: "e \<in> set (fresh_entries q look es) \<Longrightarrow> e \<in> set es"
  by (simp add: fresh_entries_def)

lemma ingest_logs_telemetry_ok:
  assumes keys: "keys_ok d" and ok: "telemetry_ok d" and after: "telemetry_ok (ie_after env)"
  shows "telemetry_ok (snd (ingest_logs pf tt env actor job_id payload d))"
proof (cases "ingest_logs pf tt env actor job_id payload d")
  case (Pair r d')
  from Pair show ?thesis
  proof (cases rule: ingest_logs_cases)
    case (stored l j a late f new)
    let ?a = "lb_attempt_id payload"
    have logs: "job_logs d' = job_logs d @ map (log_row tt job_id ?a) new"
      and rest: "metrics d' = metrics d" "job_attempts d' = job_attempts d" "jobs d' = jobs d"
      using stored(8) by simp_all
    have "distinct (map log_key (job_logs d'))"
      using log_rows.grown_distinct [OF telemetry_okD(1) [OF ok, unfolded log_key_def],
          where a = ?a and job = job_id and tt = tt and es = "lb_entries payload"]
        stored(5,6) by (simp add: logs log_key_def)
    moreover have "sealed_below d' b" if b: "b \<in> set (job_attempts d')" for b
    proof -
      have below: "sealed_below d b" using b rest telemetry_okD(3) [OF ok] by simp
      have "le_sequence e < n" if "e \<in> set new" "?a = a_id b" "a_telemetry_log_count b = Some n" for e n
      proof -
        have "get_attempt ?a d = Some b"
          using b rest(2) that(2) get_row_mem [OF keys_okD(2) [OF keys]] by simp
        then have "a = b" using lock_telemetry_claimD(3) [OF stored(2)] by simp
        moreover have "e \<in> set (lb_entries payload)" using that(1) stored(5) fresh_subset by metis
        ultimately show ?thesis
          using lock_telemetry_claimD(8,9) [OF stored(2)] that(3) by (cases late) auto
      qed
      then show ?thesis using below unfolding sealed_below_def logs rest by (auto simp: log_row_def)
    qed
    ultimately show ?thesis using Pair ok by (simp add: telemetry_ok_def rest)
  qed (use Pair ok after in simp_all)
qed

text \<open>The epochs of a batch, and what they do to the job.\<close>

lemma metric_epoch_bound:
  "metric_epoch e top_epoch = Inr (Some n) \<Longrightarrow> n \<le> top_epoch"
  by (auto simp: metric_epoch_def Let_def split: if_splits option.splits)

lemma metric_epochs_bound:
  "metric_epochs top_epoch es = Inr xs \<Longrightarrow> Some n \<in> set xs \<Longrightarrow> n \<le> top_epoch"
  by (induction es arbitrary: xs) (auto dest: metric_epoch_bound)

lemma projected_bound:
  assumes "metric_epochs top_epoch es = Inr xs" "n \<in> set (projected_epochs es xs new)"
  shows "n \<le> top_epoch"
proof -
  have "Some n \<in> set xs" using assms(2) by (auto simp: projected_epochs_def dest!: set_zip_rightD)
  then show ?thesis using metric_epochs_bound [OF assms(1)] by blast
qed

lemma project_epoch_fields [simp]:
  "j_id (project_epoch late ps j) = j_id j" "slot_of (project_epoch late ps j) = slot_of j"
  "j_total_epoch (project_epoch late ps j) = j_total_epoch j"
  by (simp_all add: project_epoch_def slot_of_def)

lemma project_epoch_bounded:
  assumes "epoch_bounded j" "\<And>n. n \<in> set ps \<Longrightarrow> n \<le> j_total_epoch j"
  shows "epoch_bounded (project_epoch late ps j)"
  using assms by (auto simp: epoch_bounded_def project_epoch_def)

lemma project_epoch_mono:
  "j_current_epoch j = Some n \<Longrightarrow> \<exists>m. j_current_epoch (project_epoch late ps j) = Some m \<and> n \<le> m"
  by (auto simp: project_epoch_def)


text \<open>The tables after a stored metric batch.\<close>

lemma stored_metrics_tables:
  assumes "enqueue_metric_batch pf st now i job u k
    (write_metrics job_id att late ps key f new d) = Inr (x, d')"
  shows "metrics d' = metrics d @ map (metric_row_of job_id att) new"
    "jobs d' = upd_row j_id job_id (orm_job (project_epoch late ps)) (jobs d)"
    "job_attempts d' = job_attempts d" "job_leases d' = job_leases d" "workers d' = workers d"
    "job_logs d' = job_logs d" "job_status_events d' = job_status_events d"
    "ingest_batches d' = ingest_batches d @ [\<lparr>b_job_id = job_id, b_attempt_id = att,
       b_batch_type = Metrics, b_idempotency_key = key, b_payload_fingerprint = Some f,
       b_item_count = int (length new)\<rparr>]"
  using enqueue_for_job_frames [OF assms [unfolded enqueue_metric_batch_def]]
  by (simp_all add: write_metrics_def)

lemma ingest_metrics_telemetry_ok:
  assumes keys: "keys_ok d" and ok: "telemetry_ok d" and after: "telemetry_ok (ie_after env)"
  shows "telemetry_ok (snd (ingest_metrics pf st env actor job_id payload d))"
proof (cases "ingest_metrics pf st env actor job_id payload d")
  case (Pair r d')
  from Pair show ?thesis
  proof (cases rule: ingest_metrics_cases)
    case (stored l j a late f incoming new k)
    let ?a = "mb_attempt_id payload" and ?ps = "projected_epochs (mb_entries payload) incoming new"
    note T = stored_metrics_tables [OF stored(9)] and C = lock_telemetry_claimD [OF stored(2)]
    have "distinct (map metric_key (metrics d'))"
      using metric_rows.grown_distinct [OF telemetry_okD(2) [OF ok, unfolded metric_key_def],
          where a = ?a and job = job_id and es = "mb_entries payload"]
        stored(6,7) by (simp add: T metric_key_def)
    moreover have "sealed_below d' b" if b: "b \<in> set (job_attempts d')" for b
    proof -
      have below: "sealed_below d b" using b T telemetry_okD(3) [OF ok] by simp
      have "me_sequence e < n" if "e \<in> set new" "?a = a_id b" "a_telemetry_metric_count b = Some n" for e n
      proof -
        have "get_attempt ?a d = Some b"
          using b T(3) that(2) get_row_mem [OF keys_okD(2) [OF keys]] by simp
        then have "a = b" using C(3) by simp
        moreover have "e \<in> set (mb_entries payload)" using that(1) stored(6) fresh_subset by metis
        ultimately show ?thesis using C(8,9) that(3) by (cases late) auto
      qed
      then show ?thesis using below unfolding sealed_below_def T by (auto simp: metric_row_of_def)
    qed
    moreover have "epoch_bounded b" if b: "b \<in> set (jobs d')" for b
      using b unfolding T(2)
    proof (cases rule: set_upd_rowE)
      case 1
      then show ?thesis using telemetry_okD(4) [OF ok] by simp
    next
      case (2 b0)
      then have "b0 = j" using C(2) get_row_mem [OF keys_okD(1) [OF keys]] by force
      then have "epoch_bounded (project_epoch late ?ps b0)"
        using project_epoch_bounded [of b0 ?ps late] telemetry_okD(4) [OF ok] 2(1)
          projected_bound [OF stored(4)] by simp
      then show ?thesis using 2(3) by (simp add: epoch_bounded_def)
    qed
    moreover have "distinct (map log_key (job_logs d'))" using ok by (simp add: T telemetry_ok_def)
    ultimately show ?thesis using Pair by (simp add: telemetry_ok_def)
  qed (use Pair ok after in simp_all)
qed

lemma telemetry_ok_frame:
  assumes "telemetry_ok d" "job_logs d' = job_logs d" "metrics d' = metrics d"
    "\<And>a. a \<in> set (job_attempts d') \<Longrightarrow> sealed_below d a" "\<And>j. j \<in> set (jobs d') \<Longrightarrow> epoch_bounded j"
  shows "telemetry_ok d'"
  using assms by (simp add: telemetry_ok_def sealed_below_def)

lemma ingest_artifacts_telemetry_ok:
  assumes "telemetry_ok d"
  shows "telemetry_ok (snd (ingest_artifacts pf st now c ni ei actor job_id payload d))"
proof (cases "ingest_artifacts pf st now c ni ei actor job_id payload d")
  case (Pair r d')
  from Pair show ?thesis
    by (cases rule: ingest_artifacts_cases)
      (use Pair assms in \<open>auto intro!: telemetry_ok_frame [OF assms] dest: telemetry_okD\<close>)
qed

text \<open>A status update seals an attempt above everything that was ingested for it.\<close>

lemma status_pass_telemetry_ok:
  assumes ok: "telemetry_ok (env_locked env)" and keys: "keys_ok (env_locked env)"
    and valid: "validate_job_status_update payload = Inr payload"
    and pass: "status_pass pf st storage sv actor job_id payload env = Answered r d'"
  shows "telemetry_ok d'"
proof (cases r)
  case (Inl e)
  have "d' = env_locked env"
    using pass unfolding Inl
    by (auto simp: status_pass_def Let_def split: sum.splits attempted.splits prod.splits commit.splits)
  then show ?thesis using ok by simp
next
  case (Inr ack)
  let ?d = "env_locked env"
  from pass [unfolded Inr] obtain t l j a w where
    f: "fenced pf (if terminal t then env_now2 env else env_now1 env) actor job_id (su_lease_id payload)
       l j a w ?d"
    and epoch: "validate_current_epoch j (su_current_epoch payload) = Inr ()"
    and marks: "terminal t \<longrightarrow> validate_terminal_telemetry_watermarks (a_id a)
       (su_telemetry_log_count payload) (su_telemetry_metric_count payload) ?d = Inr ()"
    and wr: "status_written (env_now3 env) payload t l j a w ?d d'"
    by (rule status_passE) blast
  have rows: "get_job job_id ?d = Some j" "get_attempt (l_attempt_id l) ?d = Some a"
    using f by (simp_all add: fenced_def)
  have both: "(su_telemetry_log_count payload = None) = (su_telemetry_metric_count payload = None)"
    using valid by (simp add: validate_job_status_update_def)
  show ?thesis
  proof (rule telemetry_ok_frame [OF ok])
    show "job_logs d' = job_logs ?d" "metrics d' = metrics ?d" using wr by (simp_all add: status_written_def)
    fix b assume "b \<in> set (job_attempts d')"
    then show "sealed_below ?d b"
      using wr unfolding status_written_def
    proof (elim conjE, simp)
      assume "b \<in> set (upd_row a_id (a_id a) (updated_attempt (env_now3 env) payload t) (job_attempts ?d))"
      then show "sealed_below ?d b"
      proof (cases rule: set_upd_rowE)
        case 1
        then show ?thesis using telemetry_okD(3) [OF ok] by simp
      next
        case (2 b0)
        then have below: "sealed_below ?d b0" using telemetry_okD(3) [OF ok] by simp
        show ?thesis
        proof (cases "terminal t")
          case False
          then show ?thesis using below 2(3) by (simp add: sealed_below_def updated_attempt_def Let_def)
        next
          case True
          then show ?thesis using marks True both 2(2,3)
            by (auto simp: sealed_below_def updated_attempt_def Let_def watermarks_Inr)
        qed
      qed
    qed
  next
    fix b assume "b \<in> set (jobs d')"
    then have "b \<in> set (upd_row j_id (j_id j) (orm_job (updated_job (env_now3 env) payload t)) (jobs ?d))"
      using wr by (simp add: status_written_def)
    then show "epoch_bounded b"
    proof (cases rule: set_upd_rowE)
      case 1
      then show ?thesis using telemetry_okD(4) [OF ok] by simp
    next
      case (2 b0)
      have "get_job (j_id j) ?d = Some b0" using 2(1,2) get_row_mem [OF keys_okD(1) [OF keys]] by force
      moreover have "j_id j = job_id" using get_row_SomeD [OF rows(1)] by simp
      ultimately have "b0 = j" using rows(1) by simp
      then show ?thesis
        using 2(3) epoch telemetry_okD(4) [OF ok 2(1)]
        by (auto simp: epoch_bounded_def updated_job_def validate_current_epoch_Inr split: option.splits)
    qed
  qed
qed


section \<open>The assignment is untouched\<close>

lemma implements_tables:
  assumes "assignment_ok d" "workers d' = workers d" "job_leases d' = job_leases d"
    "job_attempts d' = job_attempts d" "jobs d' = upd_row j_id i (orm_job f) (jobs d)"
    "\<And>r. j_id (f r) = j_id r" "\<And>r. slot_of (f r) = slot_of r"
  shows "implements d d'"
  using assms assignment_okD(1) [OF assms(1)]
  by (auto intro!: implements_frame simp: keys_ok_def board_of_def map_option_upd_row)

lemma implements_same_tables:
  assumes "assignment_ok d" "workers d' = workers d" "job_leases d' = job_leases d"
    "job_attempts d' = job_attempts d" "jobs d' = jobs d"
  shows "implements d d'"
  using assms assignment_okD(1) [OF assms(1)]
  by (auto intro!: implements_frame simp: keys_ok_def board_of_def)

lemma ingest_logs_implements:
  assumes ok: "assignment_ok d" and after: "ie_after env = d"
  shows "implements d (snd (ingest_logs pf tt env actor job_id payload d))"
proof (cases "ingest_logs pf tt env actor job_id payload d")
  case (Pair r d')
  from Pair show ?thesis
    by (cases rule: ingest_logs_cases)
      (use Pair ok after in \<open>simp_all add: implements_refl implements_same_tables\<close>)
qed

lemma ingest_metrics_implements:
  assumes ok: "assignment_ok d" and after: "ie_after env = d"
  shows "implements d (snd (ingest_metrics pf st env actor job_id payload d))"
proof (cases "ingest_metrics pf st env actor job_id payload d")
  case (Pair r d')
  from Pair show ?thesis
  proof (cases rule: ingest_metrics_cases)
    case (stored l j a late f incoming new k)
    then show ?thesis
      using Pair stored_metrics_tables [OF stored(9)]
      by (auto intro!: implements_tables [OF ok])
  qed (use Pair ok after in \<open>simp_all add: implements_refl\<close>)
qed

lemma ingest_artifacts_implements:
  assumes ok: "assignment_ok d"
  shows "implements d (snd (ingest_artifacts pf st now c ni ei actor job_id payload d))"
proof (cases "ingest_artifacts pf st now c ni ei actor job_id payload d")
  case (Pair r d')
  from Pair show ?thesis
    by (cases rule: ingest_artifacts_cases)
      (use Pair ok in \<open>simp_all add: implements_refl implements_same_tables\<close>)
qed

section \<open>Repeating a batch\<close>

lemma find_batch_append:
  "find_ingest_batch a ty k d = None \<Longrightarrow>
   ingest_batches d' = ingest_batches d @ [b] \<Longrightarrow>
   b_attempt_id b = a \<Longrightarrow> b_batch_type b = ty \<Longrightarrow> b_idempotency_key b = k \<Longrightarrow>
   find_ingest_batch a ty k d' = Some b"
proof -
  have "find P (xs @ [b]) = Some b" if "find P xs = None" "P b" for P and xs :: "ingest_batch list"
    using that by (induction xs) (auto split: if_splits)
  then show "find_ingest_batch a ty k d = None \<Longrightarrow> ingest_batches d' = ingest_batches d @ [b] \<Longrightarrow>
    b_attempt_id b = a \<Longrightarrow> b_batch_type b = ty \<Longrightarrow> b_idempotency_key b = k \<Longrightarrow>
    find_ingest_batch a ty k d' = Some b"
    by (simp add: find_ingest_batch_def)
qed

text \<open>
  A stored log batch sent again, while its claim is still accepted, is recognised as a duplicate;
  its entries sent again under any key add no row.
\<close>

lemma ingest_logs_stored:
  assumes "ingest_logs pf tt env actor job_id payload d = (Inr ack, d')" "\<not> duplicate ack"
  obtains f b where "log_batch_fingerprint pf tt payload = Inr f"
    "find_ingest_batch (lb_attempt_id payload) Logs (lb_idempotency_key payload) d' = Some b"
    "b_payload_fingerprint b = Some f"
    "\<not> conflicting le_sequence (log_entry_matches tt)
       (stored_at lg_attempt_id lg_sequence (lb_attempt_id payload) (job_logs d)) (lb_entries payload)"
    "job_logs d' = job_logs d @ map (log_row tt job_id (lb_attempt_id payload)) (fresh_entries le_sequence
       (stored_at lg_attempt_id lg_sequence (lb_attempt_id payload) (job_logs d)) (lb_entries payload))"
  using assms(1)
proof (cases rule: ingest_logs_cases)
  case (stored l j a late f new)
  show thesis
  proof (rule that [OF stored(1) _ _ stored(4)])
    show "find_ingest_batch (lb_attempt_id payload) Logs (lb_idempotency_key payload) d' =
      Some \<lparr>b_job_id = job_id, b_attempt_id = lb_attempt_id payload, b_batch_type = Logs,
        b_idempotency_key = lb_idempotency_key payload, b_payload_fingerprint = Some f,
        b_item_count = int (length new)\<rparr>"
      by (rule find_batch_append [OF stored(3)]) (simp_all add: stored(8))
  qed (use stored(5,8) in simp_all)
qed (use assms(2) in \<open>auto simp: duplicate_ack_def\<close>)

lemma ingest_logs_replay:
  assumes first: "ingest_logs pf tt env actor job_id payload d = (Inr ack, d')" "\<not> duplicate ack"
    and claim: "lock_telemetry_claim pf (ie_now0 env2) actor job_id (lb_lease_id payload)
      (lb_attempt_id payload) Logs (map le_sequence (lb_entries payload)) d' = Inr c"
  shows "ingest_logs pf tt env2 actor job_id payload d' = (Inr duplicate_ack, d')"
proof -
  obtain l j a late where c: "c = (l, j, a, late)" by (cases c)
  from first obtain f b where "log_batch_fingerprint pf tt payload = Inr f"
    "find_ingest_batch (lb_attempt_id payload) Logs (lb_idempotency_key payload) d' = Some b"
    "b_payload_fingerprint b = Some f"
    by (rule ingest_logs_stored)
  then show ?thesis
    using claim c lock_telemetry_claimD(1) [OF claim [unfolded c]]
    by (simp add: ingest_logs_def Let_def validate_batch_replay_def)
qed

lemma ingest_logs_resend:
  assumes first: "ingest_logs pf tt env actor job_id payload d = (Inr ack, d')" "\<not> duplicate ack"
    and same: "lb_entries payload2 = lb_entries payload" "lb_attempt_id payload2 = lb_attempt_id payload"
    and after: "ie_after env2 = d'"
  shows "job_logs (snd (ingest_logs pf tt env2 actor2 job_id2 payload2 d')) = job_logs d'"
proof (cases "ingest_logs pf tt env2 actor2 job_id2 payload2 d'")
  case (Pair r d'')
  from Pair show ?thesis
  proof (cases rule: ingest_logs_cases)
    case (stored l j a late f new)
    have "new = []"
      using stored(5) ingest_logs_stored [OF first] log_rows.grown_nothing_fresh same by metis
    then show ?thesis using Pair stored(8) by simp
  qed (use Pair after in simp_all)
qed

text \<open>The same for metrics.\<close>

lemma ingest_metrics_stored:
  assumes "ingest_metrics pf st env actor job_id payload d = (Inr ack, d')" "\<not> duplicate ack"
  obtains f b where "metric_batch_fingerprint pf payload = Inr f"
    "find_ingest_batch (mb_attempt_id payload) Metrics (mb_idempotency_key payload) d' = Some b"
    "b_payload_fingerprint b = Some f"
    "metrics d' = metrics d @ map (metric_row_of job_id (mb_attempt_id payload)) (fresh_entries me_sequence
       (stored_at m_attempt_id m_sequence (mb_attempt_id payload) (metrics d)) (mb_entries payload))"
  using assms(1)
proof (cases rule: ingest_metrics_cases)
  case (stored l j a late f incoming new k)
  note T = stored_metrics_tables [OF stored(9)]
  show thesis
  proof (rule that [OF stored(1)])
    show "find_ingest_batch (mb_attempt_id payload) Metrics (mb_idempotency_key payload) d' =
      Some \<lparr>b_job_id = job_id, b_attempt_id = mb_attempt_id payload, b_batch_type = Metrics,
        b_idempotency_key = mb_idempotency_key payload, b_payload_fingerprint = Some f,
        b_item_count = int (length new)\<rparr>"
      by (rule find_batch_append [OF stored(3) T(8)]) simp_all
  qed (use stored(6) T(1) in simp_all)
qed (use assms(2) in \<open>auto simp: duplicate_ack_def\<close>)

lemma ingest_metrics_replay:
  assumes first: "ingest_metrics pf st env actor job_id payload d = (Inr ack, d')" "\<not> duplicate ack"
    and claim: "lock_telemetry_claim pf (ie_now0 env2) actor job_id (mb_lease_id payload)
      (mb_attempt_id payload) Metrics (map me_sequence (mb_entries payload)) d' = Inr c"
  shows "ingest_metrics pf st env2 actor job_id payload d' = (Inr duplicate_ack, d')"
proof -
  obtain l j a late where c: "c = (l, j, a, late)" by (cases c)
  from first obtain f b where "metric_batch_fingerprint pf payload = Inr f"
    "find_ingest_batch (mb_attempt_id payload) Metrics (mb_idempotency_key payload) d' = Some b"
    "b_payload_fingerprint b = Some f"
    by (rule ingest_metrics_stored)
  then show ?thesis
    using claim c lock_telemetry_claimD(1) [OF claim [unfolded c]]
    by (simp add: ingest_metrics_def Let_def validate_batch_replay_def)
qed

lemma ingest_metrics_resend:
  assumes first: "ingest_metrics pf st env actor job_id payload d = (Inr ack, d')" "\<not> duplicate ack"
    and same: "mb_entries payload2 = mb_entries payload" "mb_attempt_id payload2 = mb_attempt_id payload"
    and after: "ie_after env2 = d'"
  shows "metrics (snd (ingest_metrics pf st env2 actor2 job_id2 payload2 d')) = metrics d'"
proof (cases "ingest_metrics pf st env2 actor2 job_id2 payload2 d'")
  case (Pair r d'')
  from Pair show ?thesis
  proof (cases rule: ingest_metrics_cases)
    case (stored l j a late f incoming new k)
    have "new = []"
      using stored(6) ingest_metrics_stored [OF first] metric_rows.grown_nothing_fresh same by metis
    then show ?thesis using Pair stored_metrics_tables(1) [OF stored(9)] by simp
  qed (use Pair after in simp_all)
qed

section \<open>Redacted documents\<close>

text \<open>
  A document is clean at a depth when below it no sensitive key has a value other than the mark, every
  text has gone through the redaction of texts, and nothing is nested deeper than twelve levels.
\<close>

fun clean_fields :: "text_tools \<Rightarrow> nat \<Rightarrow> json \<Rightarrow> bool" where
  "clean_fields tt depth (JObj kvs) \<longleftrightarrow> depth < 12 \<and>
     (\<forall>kv \<in> set kvs. if sensitive_key tt (fst kv) then snd kv = REDACTED
        else clean_fields tt (depth + 1) (snd kv))"
| "clean_fields tt depth (JList xs) \<longleftrightarrow> depth < 12 \<and> (\<forall>x \<in> set xs. clean_fields tt (depth + 1) x)"
| "clean_fields tt depth (JStr s) \<longleftrightarrow> JStr s = REDACTED \<or> depth < 12 \<and> (\<exists>t. s = redact_text tt t)"
| "clean_fields tt depth v \<longleftrightarrow> depth < 12"

lemma REDACTED_clean [simp]: "clean_fields tt depth REDACTED"
  by (simp add: REDACTED_def)

lemma redact_log_fields_clean: "clean_fields tt depth (redact_log_fields tt depth v)"
  by (induction tt depth v rule: redact_log_fields.induct) auto

text \<open>Redacting twice changes nothing, provided that redacting a text twice does not.\<close>

lemma redact_log_fields_idem:
  assumes "\<And>s. redact_text tt (redact_text tt s) = redact_text tt s" "redact_text tt ''[REDACTED]'' = ''[REDACTED]''"
  shows "redact_log_fields tt depth (redact_log_fields tt depth v) = redact_log_fields tt depth v"
  using assms by (induction tt depth v rule: redact_log_fields.induct) (auto simp: REDACTED_def)

end
