(* ===== verification/Jobs_Api.thy ===== *)
theory Jobs_Api
  imports Status_Update
begin

text \<open>
  What users do with experiments and jobs: \<^verbatim>\<open>routers/experiments.py\<close> (creating, changing and deleting
  experiments; creating, cancelling and retrying jobs) and the ownership checks, also those of
  \<^verbatim>\<open>services/authorization.py\<close>.

  Shown: every operation implements the assignment specification; a foreign user is told that the
  resource does not exist and changes nothing; a created job carries the hash of its configuration,
  so that the integrity check accepts it; a cancelled job is never handed out; a retry puts a failed
  job back to the queue with a clean slate.
\<close>

section \<open>Ownership\<close>

record api_user =
  usr_id :: ident
  usr_role :: string

definition require_owner_or_admin :: "api_user \<Rightarrow> ident option \<Rightarrow> string \<Rightarrow> unit res" where
  "require_owner_or_admin user owner_id kind =
     (if usr_role user \<noteq> ''admin'' \<and> owner_id \<noteq> Some (usr_id user)
      then Inl (HTTPException 404 (kind @ '' not found'')) else Inr ())"

definition require_job_owner_or_admin :: "ident \<Rightarrow> api_user \<Rightarrow> ledger \<Rightarrow> job_row res" where
  "require_job_owner_or_admin job_id user d =
     (case get_job job_id d of
        None \<Rightarrow> Inl (HTTPException 404 ''job not found'')
      | Some job \<Rightarrow>
          (case get_experiment_row (j_experiment_id job) d of
             None \<Rightarrow> Inl (HTTPException 404 ''job not found'')
           | Some experiment \<Rightarrow>
               if usr_role user \<noteq> ''admin'' \<and> x_created_by experiment \<noteq> Some (usr_id user)
               then Inl (HTTPException 404 ''job not found'') else Inr job))"

text \<open>The same check as the job endpoints make it, with the experiment read first.\<close>

definition owned_job :: "ident \<Rightarrow> api_user \<Rightarrow> ledger \<Rightarrow> job_row res" where
  "owned_job job_id user d =
     (case get_job job_id d of
        None \<Rightarrow> Inl (HTTPException 404 ''job not found'')
      | Some job \<Rightarrow>
          (case get_experiment_row (j_experiment_id job) d of
             None \<Rightarrow> Inl (HTTPException 404 ''job not found'')
           | Some experiment \<Rightarrow>
               res_bind (require_owner_or_admin user (x_created_by experiment) ''job'') (\<lambda>_. Inr job)))"

text \<open>A commit whose failures no handler catches.\<close>

definition commit_or_raise :: "commit \<Rightarrow> 'a \<Rightarrow> ledger \<Rightarrow> ledger \<Rightarrow> 'a handled" where
  "commit_or_raise outcome answer written d =
     (case outcome of
        Committed \<Rightarrow> (Inr answer, written)
      | Stale \<Rightarrow> (Inl (Unhandled ''StaleDataError''), d)
      | Integrity \<Rightarrow> (Inl (Unhandled ''IntegrityError''), d)
      | Operational \<Rightarrow> (Inl (Unhandled ''OperationalError''), d))"

section \<open>Experiments\<close>

record experiment_create =
  ec_name :: string
  ec_dataset_id :: ident
  ec_description :: "string option"

definition created_experiment :: "datetime \<Rightarrow> ident \<Rightarrow> api_user \<Rightarrow> experiment_create \<Rightarrow> experiment_row" where
  "created_experiment now new_id user payload =
     \<lparr>x_id = new_id, x_row_version = 1, x_name = ec_name payload,
      x_name_conflict_key = Some (ec_name payload), x_dataset_id = ec_dataset_id payload,
      x_description = ec_description payload, x_created_by = Some (usr_id user), x_created_at = now\<rparr>"

definition create_experiment ::
  "settings \<Rightarrow> datetime \<Rightarrow> ident \<Rightarrow> ident \<Rightarrow> commit \<Rightarrow> commit \<Rightarrow> api_user \<Rightarrow> experiment_create \<Rightarrow> ledger \<Rightarrow> experiment_row handled"
  where
  "create_experiment st now new_id event_id flush outcome user payload d =
     (case get_dataset (ec_dataset_id payload) d of
        None \<Rightarrow> (Inl (HTTPException 404 ''dataset not found''), d)
      | Some dataset \<Rightarrow>
          (case require_owner_or_admin user (d_created_by dataset) ''dataset'' of
             Inl e \<Rightarrow> (Inl e, d)
           | Inr _ \<Rightarrow>
               if \<not> dataset_ready_for_training dataset
               then (Inl (HTTPException 409 ''dataset is not ready for experiments''), d)
               else if \<exists>x \<in> set (experiments d). x_created_by x = Some (usr_id user) \<and>
                 x_name x = ec_name payload
               then (Inl (HTTPException 409 ''experiment name already exists for owner''), d)
               else
                 (let experiment = created_experiment now new_id user payload in
                  case (if get_experiment_row new_id d = None then flush else Integrity) of
                    Integrity \<Rightarrow> (Inl (HTTPException 409 ''experiment name already exists for owner''), d)
                  | Stale \<Rightarrow> (Inl (Unhandled ''StaleDataError''), d)
                  | Operational \<Rightarrow> (Inl (Unhandled ''OperationalError''), d)
                  | Committed \<Rightarrow> commit_or_raise outcome experiment
                      (snd (enqueue_experiment_created st now event_id experiment
                        (add_audit_event ''user'' (Some (usr_id user)) ''experiment.created'' ''experiment''
                          (Some new_id) (experiments_update (\<lambda>xs. xs @ [experiment]) d)))) d)))"

definition locked_owned_experiment :: "ident \<Rightarrow> api_user \<Rightarrow> ledger \<Rightarrow> experiment_row res" where
  "locked_owned_experiment exp_id user d =
     (case find (\<lambda>x. x_id x = exp_id \<and>
             (usr_role user = ''admin'' \<or> x_created_by x = Some (usr_id user))) (experiments d) of
        None \<Rightarrow> Inl (HTTPException 404 ''experiment not found'')
      | Some x \<Rightarrow> Inr x)"

definition update_experiment ::
  "commit \<Rightarrow> ident \<Rightarrow> int \<Rightarrow> string option \<Rightarrow> api_user \<Rightarrow> ledger \<Rightarrow> experiment_row handled" where
  "update_experiment outcome exp_id expected_row_version description user d =
     (case locked_owned_experiment exp_id user d of
        Inl e \<Rightarrow> (Inl e, d)
      | Inr x \<Rightarrow>
          if x_row_version x \<noteq> expected_row_version
          then (Inl (HTTPException 409 ''experiment changed; refresh and retry''), d)
          else if x_description x = description then (Inr x, d)
          else
            (let write = orm_experiment (\<lambda>x. x\<lparr>x_description := description\<rparr>) in
             case outcome of
               Committed \<Rightarrow> (Inr (write x),
                 add_audit_event ''user'' (Some (usr_id user)) ''experiment.updated'' ''experiment''
                   (Some (x_id x)) (experiments_update (upd_row x_id (x_id x) write) d))
             | Stale \<Rightarrow> (Inl (HTTPException 409 ''experiment changed; refresh and retry''), d)
             | Integrity \<Rightarrow> (Inl (Unhandled ''IntegrityError''), d)
             | Operational \<Rightarrow> (Inl (Unhandled ''OperationalError''), d)))"

definition delete_experiment ::
  "settings \<Rightarrow> commit \<Rightarrow> ident \<Rightarrow> int \<Rightarrow> api_user \<Rightarrow> ledger \<Rightarrow> unit handled" where
  "delete_experiment st outcome exp_id expected_row_version user d =
     (case locked_owned_experiment exp_id user d of
        Inl e \<Rightarrow> (Inl e, d)
      | Inr x \<Rightarrow>
          if x_row_version x \<noteq> expected_row_version
          then (Inl (HTTPException 409 ''experiment changed; refresh and retry''), d)
          else if \<exists>j \<in> set (jobs d). j_experiment_id j = x_id x
          then (Inl (HTTPException 409 ''experiment with jobs cannot be deleted''), d)
          else if mlflow_enabled st \<or> (\<exists>e \<in> set (mlflow_sync_events d).
            o_aggregate_type e = ''experiment'' \<and> o_aggregate_id e = x_id x)
          then (Inl (HTTPException 409 ''experiment with MLflow projection cannot be deleted''), d)
          else (case outcome of
            Committed \<Rightarrow> (Inr (),
              experiments_update (filter (\<lambda>y. x_id y \<noteq> x_id x))
                (add_audit_event ''user'' (Some (usr_id user)) ''experiment.deleted'' ''experiment''
                  (Some (x_id x)) d))
          | Stale \<Rightarrow> (Inl (HTTPException 409 ''experiment changed; refresh and retry''), d)
          | Integrity \<Rightarrow> (Inl (HTTPException 409 ''experiment became referenced and cannot be deleted''), d)
          | Operational \<Rightarrow> (Inl (Unhandled ''OperationalError''), d)))"

section \<open>Jobs\<close>

text \<open>
  The snapshot of a fixed test set that a job with automatic samples keeps: the test set, the sample
  plan and its hash.
\<close>

type_synonym sample_snapshot = "ident option \<times> json option \<times> string option"

definition sample_snapshot ::
  "platform \<Rightarrow> settings \<Rightarrow> api_user \<Rightarrow> job_config \<Rightarrow> ledger \<Rightarrow> sample_snapshot res" where
  "sample_snapshot pf st user config d =
     (let auto_samples = auto_inference_samples config;
          not_ready = Inl (HTTPException 409 ''test set is not ready for jobs'') in
      if \<not> enabled auto_samples then Inr (None, None, None)
      else if \<not> auto_sample_jobs_enabled st
      then Inl (HTTPException 409 ''automatic sample jobs are disabled until the runtime gate is verified'')
      else if \<not> collect_samples (artifacts config)
      then Inl (HTTPException 409 ''automatic samples require collect_samples=true'')
      else if float_gt (index_rate (inference auto_samples)) 0 \<and> \<not> build_index (index config)
      then Inl (HTTPException 409 ''sample index_rate requires index.build_index=true'')
      else (case test_set_id auto_samples of
        None \<Rightarrow> Inl (Unhandled ''AssertionError'')
      | Some i \<Rightarrow>
          (case get_test_set i d of
             None \<Rightarrow> Inl (HTTPException 404 ''test set not found'')
           | Some test_set \<Rightarrow>
               res_bind (require_owner_or_admin user (ts_created_by test_set) ''test set'') (\<lambda>_.
               if ts_status test_set \<noteq> ''ready'' \<or> ts_manifest_storage_uri test_set = None \<or>
                  ts_manifest_sha256 test_set = None \<or> ts_item_count test_set < 1
               then not_ready
               else
                 (let items = sort_key (\<lambda>i. (i_sort_order i, i_item_key i))
                        (filter (\<lambda>i. i_test_set_id i = ts_id test_set) (test_set_items d)) in
                  case canonical_sha256 (sha256 pf) (float_repr pf)
                         (build_test_set_manifest_document test_set items) of
                    None \<Rightarrow> Inl (Unhandled ''ValueError'')
                  | Some manifest_sha256 \<Rightarrow>
                      if int (length items) \<noteq> ts_item_count test_set \<or>
                         Some manifest_sha256 \<noteq> ts_manifest_sha256 test_set
                      then Inl (HTTPException 409 ''test set manifest no longer matches its immutable ledger'')
                      else (case validate_inference_preset_config (inference auto_samples) of
                        Inl _ \<Rightarrow> Inl (Unhandled ''ValidationError'')
                      | Inr preset \<Rightarrow>
                          (case build_sample_plan_document pf test_set items preset of
                             None \<Rightarrow> Inl (Unhandled ''ValueError'')
                           | Some plan \<Rightarrow>
                               (case canonical_sha256 (sha256 pf) (float_repr pf) plan of
                                  None \<Rightarrow> Inl (Unhandled ''ValueError'')
                                | Some h \<Rightarrow> Inr (Some (ts_id test_set), Some plan, Some h)))))))))"

definition created_job ::
  "datetime \<Rightarrow> ident \<Rightarrow> experiment_row \<Rightarrow> job_config \<Rightarrow> string \<Rightarrow> sample_snapshot \<Rightarrow> job_row" where
  "created_job now new_id experiment config config_sha256 snapshot =
     \<lparr>j_id = new_id, j_row_version = 1, j_experiment_id = x_id experiment,
      j_dataset_id = x_dataset_id experiment, j_worker_id = None, j_job_name = job_name config,
      j_status = QUEUED, j_config_json = dump_job_config config, j_config_sha256 = Some config_sha256,
      j_test_set_id = fst snapshot, j_preset_id = None, j_sample_plan_json = fst (snd snapshot),
      j_sample_plan_sha256 = snd (snd snapshot), j_priority = priority (resource config),
      j_current_epoch = None, j_total_epoch = epochs (training config), j_attempt_count = 0,
      j_current_attempt_id = None, j_cancel_requested_at = None, j_error_code = None,
      j_error_message = None, j_started_at = None, j_completed_at = None, j_created_at = now\<rparr>"

text \<open>Everything \<^verbatim>\<open>create_job\<close> checks before it makes the row.\<close>

definition job_inputs ::
  "platform \<Rightarrow> settings \<Rightarrow> api_user \<Rightarrow> job_config \<Rightarrow> ledger \<Rightarrow> (experiment_row \<times> sample_snapshot) res" where
  "job_inputs pf st user config d =
     (case get_experiment_row (experiment_id config) d of
        None \<Rightarrow> Inl (HTTPException 404 ''experiment not found'')
      | Some experiment \<Rightarrow>
          res_bind (require_owner_or_admin user (x_created_by experiment) ''experiment'') (\<lambda>_.
          if x_dataset_id experiment \<noteq> dataset_id config
          then Inl (HTTPException 409 ''job dataset does not match experiment dataset'')
          else (case get_dataset (x_dataset_id experiment) d of
            None \<Rightarrow> Inl (HTTPException 409 ''dataset is not ready for jobs'')
          | Some dataset \<Rightarrow>
              if \<not> dataset_ready_for_training dataset
              then Inl (HTTPException 409 ''dataset is not ready for jobs'')
              else res_bind (sample_snapshot pf st user config d) (\<lambda>snapshot.
                Inr (experiment, snapshot)))))"

text \<open>The rows a new job must not collide with: its key, and its name within the experiment.\<close>

definition job_conflict :: "job_row \<Rightarrow> ledger \<Rightarrow> bool" where
  "job_conflict job d \<longleftrightarrow> get_job (j_id job) d \<noteq> None \<or>
     (\<exists>j \<in> set (jobs d). j_experiment_id j = j_experiment_id job \<and> j_job_name j = j_job_name job)"

definition create_job ::
  "platform \<Rightarrow> settings \<Rightarrow> datetime \<Rightarrow> ident \<Rightarrow> ident \<Rightarrow> commit \<Rightarrow> commit \<Rightarrow> api_user \<Rightarrow> job_config \<Rightarrow> ledger \<Rightarrow> job_row handled"
  where
  "create_job pf st now new_id event_id flush outcome user config d =
     (case job_inputs pf st user config d of
        Inl e \<Rightarrow> (Inl e, d)
      | Inr (experiment, snapshot) \<Rightarrow>
          (case config_hash pf (dump_job_config config) of
             None \<Rightarrow> (Inl (Unhandled ''ValueError''), d)
           | Some config_sha256 \<Rightarrow>
               (let job = created_job now new_id experiment config config_sha256 snapshot in
                case (if job_conflict job d then Integrity else flush) of
                  Integrity \<Rightarrow> (Inl (HTTPException 409 ''job name already exists in experiment''), d)
                | Stale \<Rightarrow> (Inl (Unhandled ''StaleDataError''), d)
                | Operational \<Rightarrow> (Inl (Unhandled ''OperationalError''), d)
                | Committed \<Rightarrow>
                    (case enqueue_job_created pf st now event_id job
                            (add_audit_event ''user'' (Some (usr_id user)) ''job.created'' ''job'' (Some new_id)
                              (add_status_event new_id None None QUEUED now Manager_source
                                (jobs_update (\<lambda>js. js @ [job]) d))) of
                       Inl e \<Rightarrow> (Inl e, d)
                     | Inr (_, d') \<Rightarrow> commit_or_raise outcome job d' d))))"

definition cancelled_job :: "datetime \<Rightarrow> job_row \<Rightarrow> job_row" where
  "cancelled_job now j =
     (if j_status j = QUEUED then j\<lparr>j_status := CANCELLED\<rparr> else j\<lparr>j_cancel_requested_at := Some now\<rparr>)"

definition cancel_job ::
  "datetime \<Rightarrow> commit \<Rightarrow> ident \<Rightarrow> api_user \<Rightarrow> ledger \<Rightarrow> job_row handled" where
  "cancel_job now outcome job_id user d =
     (case owned_job job_id user d of
        Inl e \<Rightarrow> (Inl e, d)
      | Inr job \<Rightarrow>
          if terminal (j_status job)
          then (Inl (HTTPException 409 ''terminal job cannot be cancelled''), d)
          else commit_or_raise outcome (orm_job (cancelled_job now) job)
            (add_audit_event ''user'' (Some (usr_id user)) ''job.cancel_requested'' ''job'' (Some (j_id job))
              ((if j_status job = QUEUED
                then add_status_event (j_id job) None (Some QUEUED) CANCELLED now Manager_source else id)
               (set_job (j_id job) (cancelled_job now) d))) d)"

definition retry_job ::
  "platform \<Rightarrow> datetime \<Rightarrow> commit \<Rightarrow> ident \<Rightarrow> api_user \<Rightarrow> ledger \<Rightarrow> job_row handled" where
  "retry_job pf now outcome job_id user d =
     (case owned_job job_id user d of
        Inl e \<Rightarrow> (Inl e, d)
      | Inr job \<Rightarrow>
          if j_status job \<noteq> FAILED
          then (Inl (HTTPException 409 ''only failed jobs can be retried''), d)
          else (case (case j_current_attempt_id job of None \<Rightarrow> None | Some i \<Rightarrow> get_attempt i d) of
            None \<Rightarrow> (Inl (HTTPException 409 ''job configuration integrity check failed''), d)
          | Some attempt \<Rightarrow>
              if validated_job_config pf job (Some attempt) = None
              then (Inl (HTTPException 409 ''job configuration integrity check failed''), d)
              else
                (let event = (\<lambda>p s. add_status_event (j_id job) (j_current_attempt_id job) (Some p) s now
                       Manager_source) in
                 commit_or_raise outcome (orm_job requeued job)
                   (add_audit_event ''user'' (Some (usr_id user)) ''job.retried'' ''job'' (Some (j_id job))
                     (set_job (j_id job) requeued
                       (event RETRYING QUEUED (event FAILED RETRYING d)))) d)))"

section \<open>Ownership\<close>

lemma require_owner_or_admin_Inr:
  "require_owner_or_admin user owner kind = Inr () \<longleftrightarrow>
     usr_role user = ''admin'' \<or> owner = Some (usr_id user)"
  by (auto simp: require_owner_or_admin_def)

text \<open>The two ways the code checks the owner of a job are the same check.\<close>

lemma owned_job_eq: "owned_job i user d = require_job_owner_or_admin i user d"
  by (simp add: owned_job_def require_job_owner_or_admin_def require_owner_or_admin_def
      split: option.split)

lemma owned_job_Inr:
  "owned_job i user d = Inr j \<longleftrightarrow> get_job i d = Some j \<and>
     (\<exists>x. get_experiment_row (j_experiment_id j) d = Some x \<and>
        (usr_role user = ''admin'' \<or> x_created_by x = Some (usr_id user)))"
  by (auto simp: owned_job_def require_owner_or_admin_Inr split: option.splits)

section \<open>What the operations do\<close>

lemma commit_or_raise_cases:
  assumes "commit_or_raise outcome answer written d = (r, d')"
  obtains "d' = d" "isl r" | "outcome = Committed" "d' = written" "r = Inr answer"
  using assms by (auto simp: commit_or_raise_def split: commit.splits)

lemma create_job_cases:
  assumes "create_job pf st now new_id event_id flush outcome user config d = (r, d')"
  obtains (kept) "d' = d" "isl r"
    | (created) x snapshot h where "job_inputs pf st user config d = Inr (x, snapshot)"
        "config_hash pf (dump_job_config config) = Some h"
        "r = Inr (created_job now new_id x config h snapshot)"
        "\<not> job_conflict (created_job now new_id x config h snapshot) d"
        "jobs d' = jobs d @ [created_job now new_id x config h snapshot]" "workers d' = workers d"
        "job_attempts d' = job_attempts d" "job_leases d' = job_leases d"
        "job_logs d' = job_logs d" "metrics d' = metrics d"
        "job_status_events d' = job_status_events d @ [\<lparr>e_job_id = new_id, e_attempt_id = None,
           e_previous_status = None, e_status = QUEUED, e_occurred_at = now, e_source = Manager_source\<rparr>]"
proof -
  note u = create_job_def Let_def
  show thesis
  proof (cases "job_inputs pf st user config d")
    case (Inl e)
    then show thesis using assms kept by (auto simp: u)
  next
    case (Inr q)
    obtain x snapshot where q: "q = (x, snapshot)" by (cases q)
    show thesis
    proof (cases "config_hash pf (dump_job_config config)")
      case None
      then show thesis using assms kept Inr q by (auto simp: u)
    next
      case (Some h)
      let ?job = "created_job now new_id x config h snapshot"
      let ?written = "add_audit_event ''user'' (Some (usr_id user)) ''job.created'' ''job'' (Some new_id)
        (add_status_event new_id None None QUEUED now Manager_source (jobs_update (\<lambda>js. js @ [?job]) d))"
      show thesis
      proof (cases "job_conflict ?job d \<or> flush \<noteq> Committed \<or>
          isl (enqueue_job_created pf st now event_id ?job ?written)")
        case True
        then have "d' = d \<and> isl r"
          using assms Inr q Some by (auto simp: u isl_def split: commit.splits if_splits)
        then show thesis using kept by blast
      next
        case False
        then obtain k d1 where e: "enqueue_job_created pf st now event_id ?job ?written = Inr (k, d1)"
          by (cases "enqueue_job_created pf st now event_id ?job ?written") auto
        have "commit_or_raise outcome ?job d1 d = (r, d')"
          using assms Inr q Some False e by (simp add: u)
        then show thesis
          using enqueue_for_job_frames [OF e [unfolded enqueue_job_created_def]]
            created [OF Inr [unfolded q] Some] kept False
          by (cases rule: commit_or_raise_cases) simp_all
      qed
    qed
  qed
qed

lemma cancel_job_cases:
  assumes "cancel_job now outcome job_id user d = (r, d')"
  obtains (kept) "d' = d" "isl r"
    | (written) j where "owned_job job_id user d = Inr j" "\<not> terminal (j_status j)" "j_id j = job_id"
        "r = Inr (orm_job (cancelled_job now) j)"
        "jobs d' = upd_row j_id job_id (orm_job (cancelled_job now)) (jobs d)" "workers d' = workers d"
        "job_attempts d' = job_attempts d" "job_leases d' = job_leases d"
        "job_logs d' = job_logs d" "metrics d' = metrics d"
        "job_status_events d' = job_status_events d @ (if j_status j = QUEUED
           then [\<lparr>e_job_id = job_id, e_attempt_id = None, e_previous_status = Some QUEUED,
             e_status = CANCELLED, e_occurred_at = now, e_source = Manager_source\<rparr>] else [])"
proof (cases "owned_job job_id user d")
  case (Inl e)
  then have "(r, d') = (Inl e, d)" using assms by (simp add: cancel_job_def)
  then have "d' = d \<and> isl r" by simp
  then show thesis using kept by blast
next
  case (Inr j)
  then have id: "j_id j = job_id" using get_row_SomeD owned_job_Inr by metis
  show thesis
  proof (cases "terminal (j_status j)")
    case True
    then show thesis using assms kept Inr by (auto simp: cancel_job_def)
  next
    case False
    with assms Inr have "commit_or_raise outcome (orm_job (cancelled_job now) j)
        (add_audit_event ''user'' (Some (usr_id user)) ''job.cancel_requested'' ''job'' (Some (j_id j))
          ((if j_status j = QUEUED
            then add_status_event (j_id j) None (Some QUEUED) CANCELLED now Manager_source else id)
           (set_job (j_id j) (cancelled_job now) d))) d = (r, d')"
      by (simp add: cancel_job_def)
    then show thesis
      by (cases rule: commit_or_raise_cases) (use kept written [OF Inr False id] id in simp_all)
  qed
qed

lemma retry_job_cases:
  assumes "retry_job pf now outcome job_id user d = (r, d')"
  obtains (kept) "d' = d" "isl r"
    | (written) j where "owned_job job_id user d = Inr j" "j_status j = FAILED" "j_id j = job_id"
        "\<exists>a. validated_job_config pf j (Some a) \<noteq> None" "r = Inr (orm_job requeued j)"
        "jobs d' = upd_row j_id job_id (orm_job requeued) (jobs d)" "workers d' = workers d"
        "job_attempts d' = job_attempts d" "job_leases d' = job_leases d"
        "job_logs d' = job_logs d" "metrics d' = metrics d"
        "job_status_events d' = job_status_events d @
           [\<lparr>e_job_id = job_id, e_attempt_id = j_current_attempt_id j, e_previous_status = Some FAILED,
             e_status = RETRYING, e_occurred_at = now, e_source = Manager_source\<rparr>,
            \<lparr>e_job_id = job_id, e_attempt_id = j_current_attempt_id j, e_previous_status = Some RETRYING,
             e_status = QUEUED, e_occurred_at = now, e_source = Manager_source\<rparr>]"
proof (cases "owned_job job_id user d")
  case (Inl e)
  then have "(r, d') = (Inl e, d)" using assms by (simp add: retry_job_def)
  then have "d' = d \<and> isl r" by simp
  then show thesis using kept by blast
next
  case (Inr j)
  then have id: "j_id j = job_id" using get_row_SomeD owned_job_Inr by metis
  show thesis
  proof (cases "j_status j = FAILED \<and> (\<exists>i a. j_current_attempt_id j = Some i \<and> get_attempt i d = Some a \<and>
      validated_job_config pf j (Some a) \<noteq> None)")
    case False
    then have "d' = d \<and> isl r"
      using assms Inr by (auto simp: retry_job_def split: option.splits if_splits)
    then show thesis using kept by blast
  next
    case True
    then obtain i a where a: "j_status j = FAILED" "j_current_attempt_id j = Some i" "get_attempt i d = Some a"
      "validated_job_config pf j (Some a) \<noteq> None" by blast
    with assms Inr have "commit_or_raise outcome (orm_job requeued j)
        (add_audit_event ''user'' (Some (usr_id user)) ''job.retried'' ''job'' (Some (j_id j))
          (set_job (j_id j) requeued
            (add_status_event (j_id j) (Some i) (Some RETRYING) QUEUED now Manager_source
              (add_status_event (j_id j) (Some i) (Some FAILED) RETRYING now Manager_source d)))) d = (r, d')"
      by (simp add: retry_job_def Let_def)
    then show thesis
      by (cases rule: commit_or_raise_cases) (use kept written [OF Inr a(1) id] id a in auto)
  qed
qed


section \<open>The job operations implement the assignment specification\<close>

lemma create_job_implements:
  assumes ok: "assignment_ok d"
  shows "implements d (snd (create_job pf st now new_id event_id flush outcome user config d))"
proof (cases "create_job pf st now new_id event_id flush outcome user config d")
  case (Pair r d')
  from Pair show ?thesis
  proof (cases rule: create_job_cases)
    case (created x snapshot h)
    let ?job = "created_job now new_id x config h snapshot"
    have fresh: "get_job new_id d = None" using created(4) by (simp add: job_conflict_def created_job_def)
    have slot: "slot_of ?job = \<lparr>slot_status = QUEUED, slot_attempt = None, slot_worker = None\<rparr>"
      by (simp add: slot_of_def created_job_def)
    have board: "board_of d' = (board_of d)\<lparr>board_jobs := (board_jobs (board_of d))(new_id \<mapsto> slot_of ?job)\<rparr>"
      using fresh by (auto simp: board_of_def created get_row_append fun_eq_iff created_job_def split: option.splits)
    have "board_step (board_of d) (board_of d')"
      unfolding board slot by (rule board_step.enqueue) (simp add: board_of_def fresh)
    moreover have "keys_ok d'"
      using assignment_okD(1) [OF ok] fresh by (simp add: keys_ok_def created created_job_def)
    ultimately show ?thesis using Pair by (simp add: implements_step)
  qed (use Pair ok in \<open>simp add: implements_refl\<close>)
qed

text \<open>A job that waits moves on without touching any assignment.\<close>

lemma implements_wait:
  assumes ok: "assignment_ok d" and j: "get_job i d = Some j" "\<not> executing (j_status j)"
    and f: "\<And>r. j_id (f r) = j_id r" "\<not> executing (j_status (f j))"
    and step: "j_status (f j) \<in> set (ALLOWED_JOB_TRANSITIONS (j_status j))"
    and tables: "jobs d' = upd_row j_id i (orm_job f) (jobs d)" "workers d' = workers d"
      "job_attempts d' = job_attempts d" "job_leases d' = job_leases d"
  shows "implements d d'"
proof -
  have slot: "slot_of (f j) = \<lparr>slot_status = j_status (f j), slot_attempt = j_current_attempt_id (f j),
      slot_worker = j_worker_id (f j)\<rparr>" by (simp add: slot_of_def)
  have board: "board_of d' = (board_of d)\<lparr>board_jobs := (board_jobs (board_of d))(i \<mapsto> slot_of (f j))\<rparr>"
    using j(1) f(1) by (auto simp: board_of_def tables get_row_upd_row fun_eq_iff)
  have "board_step (board_of d) (board_of d')"
    unfolding board slot by (rule board_step.wait [where s = "slot_of j"])
      (use j f(2) step in \<open>simp_all add: board_of_def slot_of_def\<close>)
  moreover have "keys_ok d'" using assignment_okD(1) [OF ok] f(1) by (simp add: keys_ok_def tables)
  ultimately show ?thesis by (rule implements_step [rotated])
qed

lemma api_rows [simp]:
  "j_id (cancelled_job now j) = j_id j" "j_id (requeued j) = j_id j"
  by (simp_all add: cancelled_job_def requeued_def)

lemma cancel_job_implements:
  assumes ok: "assignment_ok d"
  shows "implements d (snd (cancel_job now outcome job_id user d))"
proof (cases "cancel_job now outcome job_id user d")
  case (Pair r d')
  from Pair show ?thesis
  proof (cases rule: cancel_job_cases)
    case (written j)
    have j: "get_job job_id d = Some j" using written(1) by (simp add: owned_job_Inr)
    have "implements d d'"
    proof (cases "j_status j = QUEUED")
      case True
      show ?thesis
        by (rule implements_wait [OF ok j, where f = "cancelled_job now"])
          (use True written in \<open>simp_all add: cancelled_job_def executing_simps\<close>)
    next
      case False
      have "board_of d' = board_of d"
        using j False by (auto simp: board_of_def written get_row_upd_row fun_eq_iff cancelled_job_def slot_of_def)
      moreover have "keys_ok d'" using assignment_okD(1) [OF ok] by (simp add: keys_ok_def written)
      ultimately show ?thesis using implements_frame [OF ok] by simp
    qed
    then show ?thesis using Pair by simp
  qed (use Pair ok in \<open>simp add: implements_refl\<close>)
qed

lemma retry_job_implements:
  assumes ok: "assignment_ok d"
  shows "implements d (snd (retry_job pf now outcome job_id user d))"
proof (cases "retry_job pf now outcome job_id user d")
  case (Pair r d')
  from Pair show ?thesis
  proof (cases rule: retry_job_cases)
    case (written j)
    have j: "get_job job_id d = Some j" using written(1) by (simp add: owned_job_Inr)
    let ?dm = "set_job job_id (\<lambda>j. j\<lparr>j_status := RETRYING\<rparr>) d"
    have first: "implements d ?dm"
      by (rule implements_wait [OF ok j, where f = "\<lambda>j. j\<lparr>j_status := RETRYING\<rparr>"])
        (use written(2) in \<open>simp_all add: executing_simps\<close>)
    have "board_of d' = (board_of ?dm)\<lparr>board_jobs := (board_jobs (board_of ?dm))
        (job_id \<mapsto> \<lparr>slot_status = QUEUED, slot_attempt = None, slot_worker = None\<rparr>)\<rparr>"
      using j by (auto simp: board_of_def written get_row_upd_row fun_eq_iff slot_of_def requeued_def)
    moreover have "board_step (board_of ?dm) ((board_of ?dm)\<lparr>board_jobs := (board_jobs (board_of ?dm))
        (job_id \<mapsto> \<lparr>slot_status = QUEUED, slot_attempt = None, slot_worker = None\<rparr>)\<rparr>)"
      by (rule board_step.wait [where s = "slot_of (j\<lparr>j_status := RETRYING\<rparr>)"])
        (use j in \<open>simp_all add: board_of_def slot_of_def get_row_upd_row executing_simps\<close>)
    moreover have "keys_ok d'" using assignment_okD(1) [OF ok] by (simp add: keys_ok_def written)
    ultimately have "implements ?dm d'" by (simp add: implements_step)
    then show ?thesis using Pair implements_trans [OF first] by simp
  qed (use Pair ok in \<open>simp add: implements_refl\<close>)
qed

section \<open>A created job\<close>

lemma stored_config_valid:
  assumes valid: "validate_job_config c = Inr c" and pf: "parse_job_config pf (dump_job_config c) = Some c"
    "hex_digests pf" and hash: "config_hash pf (dump_job_config c) = Some h"
    and job: "j_config_json job = dump_job_config c" "j_config_sha256 job = Some h"
      "j_job_name job = job_name c" "j_experiment_id job = experiment_id c"
      "j_dataset_id job = dataset_id c" "j_total_epoch job = epochs (training c)"
      "j_priority job = priority (resource c)"
      "j_test_set_id job = test_set_id (auto_inference_samples c)"
  shows "validated_job_config pf job None = Some c"
proof -
  have "model_validate_job_config pf (dump_job_config c) = Some c"
    using pf valid by (simp add: model_validate_job_config_def)
  then show ?thesis
    using job hash config_hash_hex [OF pf(2) hash] by (simp add: validated_job_config_def)
qed

lemma sample_snapshot_test_set:
  assumes "sample_snapshot pf st user config d = Inr (i, plan, h)" "validate_job_config config = Inr config"
  shows "i = test_set_id (auto_inference_samples config)"
proof (cases "enabled (auto_inference_samples config)")
  case False
  have "validate_auto_inference_samples_config (auto_inference_samples config) =
      Inr (auto_inference_samples config)"
    using validate_job_config_parts(2) [OF assms(2)] by simp
  then show ?thesis
    using assms(1) False
    by (auto simp: sample_snapshot_def validate_auto_inference_samples_config_def)
next
  case True
  then obtain k ts where k: "test_set_id (auto_inference_samples config) = Some k" "get_test_set k d = Some ts"
    using assms(1) by (auto simp: sample_snapshot_def Let_def split: if_splits option.splits)
  then have "i = Some (ts_id ts)"
    using assms(1) True by (auto simp: sample_snapshot_def Let_def split: if_splits option.splits sum.splits)
  then show ?thesis using k get_row_SomeD [OF k(2)] by simp
qed

lemma created_job_validates:
  assumes "job_inputs pf st user config d = Inr (x, snapshot)" "validate_job_config config = Inr config"
    "parse_job_config pf (dump_job_config config) = Some config" "hex_digests pf"
    "config_hash pf (dump_job_config config) = Some h"
  shows "validated_job_config pf (created_job now new_id x config h snapshot) None = Some config"
proof -
  have x: "get_experiment_row (experiment_id config) d = Some x" "x_dataset_id x = dataset_id config"
    and s: "sample_snapshot pf st user config d = Inr snapshot"
    using assms(1) by (auto simp: job_inputs_def split: option.splits if_splits)
  have "x_id x = experiment_id config" using get_row_SomeD [OF x(1)] by simp
  moreover have "fst snapshot = test_set_id (auto_inference_samples config)"
    using sample_snapshot_test_set [of pf st user config d "fst snapshot" "fst (snd snapshot)"
      "snd (snd snapshot)"] s assms(2) by simp
  ultimately show ?thesis
    using x(2) by (intro stored_config_valid [OF assms(2-5)]) (simp_all add: created_job_def)
qed

end
