(* ===== verification/History.thy ===== *)
theory History
  imports Worker_Auth Telemetry_Ingest Jobs_Api
begin

text \<open>
  The history of a job as the ledger records it. Every change of a job's status is written together
  with a row of \<^verbatim>\<open>job_status_events\<close>; \<open>history_ok\<close> says that the rows of a job, in the order they were
  written, form a path of the status machine from its creation to its present status.

  With it the theory collects the invariants of the ledger (\<open>ledger_ok\<close>): the assignment, the
  credentials, the telemetry and the history, and shows that every operation keeps them.
\<close>

section \<open>Legal histories\<close>

definition legal_step :: "job_status option \<Rightarrow> job_status \<Rightarrow> bool" where
  "legal_step s t = (case s of None \<Rightarrow> t = QUEUED | Some p \<Rightarrow> t \<in> set (ALLOWED_JOB_TRANSITIONS p))"

fun legal_path :: "job_status option \<Rightarrow> job_status_event list \<Rightarrow> job_status option \<Rightarrow> bool" where
  "legal_path s [] t \<longleftrightarrow> s = t"
| "legal_path s (e # es) t \<longleftrightarrow>
     e_previous_status e = s \<and> legal_step s (e_status e) \<and> legal_path (Some (e_status e)) es t"

definition history :: "ledger \<Rightarrow> ident \<Rightarrow> job_status_event list" where
  "history d i = filter (\<lambda>e. e_job_id e = i) (job_status_events d)"

definition history_ok :: "ledger \<Rightarrow> bool" where
  "history_ok d \<longleftrightarrow>
     (\<forall>j \<in> set (jobs d). legal_path None (history d (j_id j)) (Some (j_status j))) \<and>
     (\<forall>e \<in> set (job_status_events d). e_job_id e \<in> j_id ` set (jobs d))"

lemma legal_path_append:
  "legal_path s (xs @ ys) t \<longleftrightarrow> (\<exists>u. legal_path s xs u \<and> legal_path u ys t)"
  by (induction xs arbitrary: s) auto

lemma history_same:
  "history_ok d \<Longrightarrow> jobs d' = jobs d \<Longrightarrow> job_status_events d' = job_status_events d \<Longrightarrow> history_ok d'"
  by (simp add: history_ok_def history_def)

text \<open>Writing one job together with the events of its change extends its history and no other.\<close>

lemma history_advance:
  assumes ok: "history_ok d" and keys: "wf_table j_id (jobs d)" and j: "get_job i d = Some j"
    and f: "\<And>r. j_id (f r) = j_id r" and jobs: "jobs d' = upd_row j_id i f (jobs d)"
    and events: "job_status_events d' = job_status_events d @ es" and es: "list_all (\<lambda>e. e_job_id e = i) es"
    and path: "legal_path (Some (j_status j)) es (Some (j_status (f j)))"
  shows "history_ok d'"
proof -
  have hist: "history d' k = history d k @ (if k = i then es else [])" for k
  proof (cases "k = i")
    case True
    then show ?thesis using es by (simp add: history_def events filter_id_conv list_all_iff)
  next
    case False
    then show ?thesis using es by (auto simp: history_def events filter_empty_conv list_all_iff)
  qed
  have "legal_path None (history d' (j_id k)) (Some (j_status k))" if "k \<in> set (jobs d')" for k
    using that unfolding jobs
  proof (cases rule: set_upd_rowE)
    case 1
    then show ?thesis using ok by (simp add: hist history_ok_def)
  next
    case (2 k0)
    then have "get_job i d = Some k0" by (simp add: get_row_iff [OF keys])
    then have "k0 = j" using j by simp
    moreover have "legal_path None (history d i) (Some (j_status k0))"
      using ok 2 by (auto simp: history_ok_def)
    ultimately show ?thesis using 2 path f by (auto simp: hist legal_path_append)
  qed
  moreover have "j_id ` set (jobs d') = j_id ` set (jobs d)"
    unfolding jobs by (metis f list.set_map map_key_upd_row)
  moreover have "i \<in> j_id ` set (jobs d)" using get_row_SomeD [OF j] by auto
  ultimately show ?thesis using ok es unfolding history_ok_def events list_all_iff by auto
qed

lemma history_created:
  assumes ok: "history_ok d" and fresh: "get_job i d = None" and job: "j_id job = i" "j_status job = QUEUED"
    and jobs: "jobs d' = jobs d @ [job]"
    and events: "job_status_events d' = job_status_events d @ [\<lparr>e_job_id = i, e_attempt_id = a,
      e_previous_status = None, e_status = QUEUED, e_occurred_at = now, e_source = c\<rparr>]"
  shows "history_ok d'"
proof -
  have none: "history d i = []"
    using ok fresh by (auto simp: history_def history_ok_def filter_empty_conv get_row_None)
  have same: "history d' k = history d k" if "k \<noteq> i" for k using that by (simp add: history_def events)
  have other: "j_id k \<noteq> i" if "k \<in> set (jobs d)" for k using that fresh by (auto simp: get_row_None)
  have new: "legal_path None (history d' i) (Some QUEUED)"
    using none by (simp add: history_def events legal_step_def)
  have "legal_path None (history d' (j_id k)) (Some (j_status k))" if "k \<in> set (jobs d')" for k
  proof (cases "k = job")
    case True
    then show ?thesis using new job by simp
  next
    case False
    then have "k \<in> set (jobs d)" using that by (simp add: jobs)
    then show ?thesis using ok same [OF other] by (simp add: history_ok_def)
  qed
  moreover have "e_job_id e \<in> j_id ` set (jobs d')" if "e \<in> set (job_status_events d')" for e
    using that ok job by (auto simp: history_ok_def events jobs)
  ultimately show ?thesis unfolding history_ok_def by blast
qed

section \<open>The invariants of the ledger\<close>

definition ledger_ok :: "ledger \<Rightarrow> bool" where
  "ledger_ok d \<longleftrightarrow> assignment_ok d \<and> tokens_ok d \<and> telemetry_ok d \<and> history_ok d"

lemma ledger_okD:
  assumes "ledger_ok d"
  shows "assignment_ok d" "tokens_ok d" "telemetry_ok d" "history_ok d" "keys_ok d"
  using assms assignment_okD(1) by (auto simp: ledger_ok_def)

lemma ledger_okI:
  assumes "ledger_ok d" "implements d d'" "credentials d' = credentials d" "telemetry_ok d'" "history_ok d'"
  shows "ledger_ok d'"
  using implements_ok [OF ledger_okD(1) [OF assms(1)] assms(2)] ledger_okD(2) [OF assms(1)]
    tokens_ok_credentials [OF assms(3)] assms(4,5) by (simp add: ledger_ok_def)

text \<open>Operations that leave jobs, attempts, logs, metrics and events alone.\<close>

lemma ledger_ok_workers:
  assumes "ledger_ok d" "implements d d'" "tokens_ok d'" "jobs d' = jobs d" "job_attempts d' = job_attempts d"
    "job_logs d' = job_logs d" "metrics d' = metrics d" "job_status_events d' = job_status_events d"
  shows "ledger_ok d'"
proof -
  have "telemetry_ok d'"
    by (rule telemetry_ok_frame [OF ledger_okD(3) [OF assms(1)]])
      (use assms telemetry_okD [OF ledger_okD(3) [OF assms(1)]] in auto)
  moreover have "history_ok d'" by (rule history_same [OF ledger_okD(4) [OF assms(1)] assms(4,8)])
  ultimately show ?thesis
    using implements_ok [OF ledger_okD(1) [OF assms(1)] assms(2)] assms(3) by (simp add: ledger_ok_def)
qed

text \<open>Writing attempts and jobs without moving a watermark or raising an epoch.\<close>

lemma telemetry_ok_write:
  assumes ok: "telemetry_ok d" and same: "job_logs d' = job_logs d" "metrics d' = metrics d"
    and attempts: "job_attempts d' = upd_row a_id i f (job_attempts d)"
    and f: "\<And>a. a_id (f a) = a_id a \<and> a_telemetry_log_count (f a) = a_telemetry_log_count a \<and>
      a_telemetry_metric_count (f a) = a_telemetry_metric_count a"
    and jobs: "jobs d' = upd_row j_id k g (jobs d)"
    and g: "\<And>j. j_total_epoch (g j) = j_total_epoch j \<and>
      (j_current_epoch (g j) = None \<or> j_current_epoch (g j) = j_current_epoch j)"
  shows "telemetry_ok d'"
proof (rule telemetry_ok_frame [OF ok same])
  fix a assume "a \<in> set (job_attempts d')"
  then show "sealed_below d a"
    unfolding attempts
  proof (cases rule: set_upd_rowE)
    case (2 b)
    then show ?thesis using telemetry_okD(3) [OF ok 2(1)] f [of b] by (simp add: sealed_below_def)
  qed (use telemetry_okD(3) [OF ok] in simp)
next
  fix j assume "j \<in> set (jobs d')"
  then show "epoch_bounded j"
    unfolding jobs
  proof (cases rule: set_upd_rowE)
    case (2 b)
    then show ?thesis using telemetry_okD(4) [OF ok 2(1)] g [of b] by (auto simp: epoch_bounded_def)
  qed (use telemetry_okD(4) [OF ok] in simp)
qed

section \<open>Recovery and claims\<close>

lemma recover_lease_effect:
  assumes "recover_lease pf st now l d = (r, d')"
  obtains (same) "d' = d" "r \<noteq> Inr True"
    | (closed) j a w c q e es where "get_job (l_job_id l) d = Some j" "get_attempt (l_attempt_id l) d = Some a"
      "get_worker_row (l_worker_id l) d = Some w" "j_current_attempt_id j = Some (l_attempt_id l)"
      "a_finished_at a = None" "q \<Longrightarrow> \<not> c"
      "jobs d' = upd_row j_id (l_job_id l)
         (orm_job (recovered_job c q (if c then CANCELLED else FAILED) e)) (jobs d)"
      "job_attempts d' = upd_row a_id (l_attempt_id l)
         (recovered_attempt now (if c then CANCELLED else FAILED) e) (job_attempts d)"
      "workers d' = upd_row w_id (l_worker_id l) (orm_worker (freed (l_job_id l))) (workers d)"
      "job_logs d' = job_logs d" "metrics d' = metrics d"
      "job_status_events d' = job_status_events d @ es" "list_all (\<lambda>e. e_job_id e = l_job_id l) es"
      "map (\<lambda>e. (e_previous_status e, e_status e)) es =
         (Some (j_status j), if c then CANCELLED else FAILED) #
         (if q then [(Some FAILED, RETRYING), (Some RETRYING, QUEUED)] else [])"
      "c \<longleftrightarrow> j_cancel_requested_at j \<noteq> None"
      "q \<longleftrightarrow> \<not> c \<and> validated_job_config pf j (Some a) \<noteq> None \<and> lease_recovery_max_attempts st > 0 \<and>
         j_attempt_count j < lease_recovery_max_attempts st"
proof (cases "r = Inr True")
  case True
  note u = recover_lease_def Let_def
  obtain j a w where rows: "get_job (l_job_id l) d = Some j" "get_attempt (l_attempt_id l) d = Some a"
    "get_worker_row (l_worker_id l) d = Some w"
    using assms True by (auto simp: u split: option.splits)
  have ids: "j_id j = l_job_id l" "a_id a = l_attempt_id l" "w_id w = l_worker_id l"
    using get_row_SomeD [OF rows(1)] get_row_SomeD [OF rows(2)] get_row_SomeD [OF rows(3)] by auto
  have cur: "j_current_attempt_id j = Some (l_attempt_id l)" "a_finished_at a = None"
    and off: "\<not> (\<exists>h \<in> set_option (w_last_heartbeat_at w). h > now - seconds (worker_offline_seconds st))"
    using assms True rows ids by (auto simp: u split: if_splits)
  define c v where "c \<longleftrightarrow> j_cancel_requested_at j \<noteq> None" and "v \<longleftrightarrow> validated_job_config pf j (Some a) \<noteq> None"
  define q where "q \<longleftrightarrow> \<not> c \<and> v \<and> lease_recovery_max_attempts st > 0 \<and>
    j_attempt_count j < lease_recovery_max_attempts st"
  define e where "e = recovery_error c v a"
  let ?t = "if c then CANCELLED else FAILED"
  let ?event = "\<lambda>p s. add_status_event (j_id j) (Some (a_id a)) (Some p) s now Manager_source"
  let ?d = "add_audit_event ''system'' None ''job.lease_recovered'' ''job'' (Some (j_id j))
      (set_worker (w_id w) (freed (j_id j)) (set_job (j_id j) (recovered_job c q ?t e)
      ((if q then ?event RETRYING QUEUED \<circ> ?event FAILED RETRYING else id)
      (?event (j_status j) ?t (set_attempt (a_id a) (recovered_attempt now ?t e)
      (set_lease (l_id l) (released now) d))))))"
  have "recover_lease pf st now l d =
      (case validate_job_transition (status_value (j_status j)) (status_value ?t) True of
         Inl _ \<Rightarrow> (Inl (Unhandled ''InvalidJobTransition''), d) | Inr _ \<Rightarrow> (Inr True, ?d))"
    using rows ids cur off unfolding u c_def v_def q_def e_def by simp
  then have d': "d' = ?d" using assms True by (auto split: sum.splits)
  have q: "q \<Longrightarrow> \<not> c" by (simp add: q_def)
  let ?row = "\<lambda>p s. \<lparr>e_job_id = l_job_id l, e_attempt_id = Some (l_attempt_id l), e_previous_status = p,
    e_status = s, e_occurred_at = now, e_source = Manager_source\<rparr>"
  show thesis
    by (rule closed [where j = j and a = a and w = w and c = c and q = q and e = e and
          es = "?row (Some (j_status j)) ?t #
            (if q then [?row (Some FAILED) RETRYING, ?row (Some RETRYING) QUEUED] else [])"])
      (use rows cur q in \<open>simp_all add: d' ids q_def c_def v_def\<close>)
qed (use assms same in \<open>auto simp: recover_lease_def Let_def split: option.splits if_splits sum.splits\<close>)


text \<open>A round of recovery keeps the invariants.\<close>

lemma recovered_fields:
  "j_total_epoch (recovered_job c q t e j) = j_total_epoch j"
  "j_current_epoch (recovered_job c q t e j) = None \<or> j_current_epoch (recovered_job c q t e j) = j_current_epoch j"
  "a_telemetry_log_count (recovered_attempt now t e a) = a_telemetry_log_count a"
  "a_telemetry_metric_count (recovered_attempt now t e a) = a_telemetry_metric_count a"
  "j_status (recovered_job c q t e j) = (if q then QUEUED else t)"
  by (simp_all add: recovered_job_def requeued_def recovered_attempt_def Let_def)

lemma recover_lease_ledger_ok:
  assumes ok: "ledger_ok d" and l: "same_lease d l" and r: "recover_lease pf st now l d = (r, d')"
  shows "ledger_ok d'"
  using r
proof (cases rule: recover_lease_effect)
  case (closed j a w c q e es)
  let ?t = "if c then CANCELLED else FAILED"
  note asg = ledger_okD(1) [OF ok]
  from l obtain l' where l': "get_lease (l_id l) d = Some l'" "l_job_id l' = l_job_id l"
    "l_attempt_id l' = l_attempt_id l" by (auto simp: same_lease_def)
  have "l_active l'" using open_attempt_live [OF asg l'(1)] closed(2,5) l'(3) by simp
  then have ex: "executing (j_status j)"
    using live_lease_rows [OF asg l'(1)] closed(1) l'(2) by (metis option.inject)
  have "?t \<in> set (ALLOWED_JOB_TRANSITIONS (j_status j))"
    using executing_may_end [OF ex] ex by (auto simp: executing_simps)
  then have path: "legal_path (Some (j_status j)) es (Some (j_status (orm_job (recovered_job c q ?t e) j)))"
    using closed(6,14) by (cases es) (auto simp: recovered_fields legal_step_def)
  show ?thesis
  proof (rule ledger_okI [OF ok])
    from asg l show "implements d d'"
      by (cases rule: recover_lease_cases [where pf = pf and st = st and now = now])
        (use r implements_refl [OF asg] in simp_all)
    show "credentials d' = credentials d" by (simp add: credentials_def closed(9) credentials_upd_row)
    show "telemetry_ok d'"
      by (rule telemetry_ok_write [OF ledger_okD(3) [OF ok] closed(10,11,8) _ closed(7)])
        (simp_all add: recovered_fields)
    show "history_ok d'"
      by (rule history_advance [OF ledger_okD(4) [OF ok] keys_okD(1) [OF ledger_okD(5) [OF ok]] closed(1)
            _ closed(7,12,13) path]) simp
  qed
qed (use ok in simp)


lemma recover_loop_ledger_ok:
  assumes "ledger_ok d" "\<forall>l \<in> set ls. same_lease d l"
  shows "ledger_ok (snd (recover_loop pf st now ls k d))"
  using assms
proof (induction ls arbitrary: d k)
  case (Cons l ls)
  obtain r d1 where r: "recover_lease pf st now l d = (r, d1)" by fastforce
  have ok1: "ledger_ok d1" using recover_lease_ledger_ok [OF Cons.prems(1) _ r] Cons.prems(2) by simp
  have "same_lease d l" using Cons.prems(2) by simp
  with ledger_okD(1) [OF Cons.prems(1)] have "only_closes d d1"
    by (cases rule: recover_lease_cases [where l = l and pf = pf and st = st and now = now])
      (use r only_closes_release in auto)
  then have same: "\<forall>l \<in> set ls. same_lease d1 l" using Cons.prems(2) only_closes_same by auto
  show ?case
  proof (cases r)
    case (Inl e)
    then show ?thesis using ok1 r by simp
  next
    case (Inr did)
    then show ?thesis using r Cons.IH [OF ok1 same] by simp
  qed
qed simp

lemma recover_ledger_ok:
  assumes "ledger_ok d"
  shows "ledger_ok (snd (recover_expired_leases pf st now limit d))"
proof -
  have "ledger_ok (snd (recover_loop pf st now (expired_leases now limit d) 0 d))"
    using recover_loop_ledger_ok assms recover_same_leases [OF ledger_okD(1) [OF assms]] by blast
  then show ?thesis
    using assms by (auto simp: recover_expired_leases_def split: prod.splits sum.splits)
qed

subsection \<open>Claims\<close>

lemma quarantine_ledger_ok:
  assumes ok: "ledger_ok d" and q: "quarantine_invalid_queued_job_config now job d = (did, d')"
  shows "ledger_ok d'"
proof (cases did)
  case False
  then have "d' = d" using q by (auto simp: quarantine_invalid_queued_job_config_def split: option.splits)
  then show ?thesis using ok by simp
next
  case True
  let ?f = "\<lambda>j. j\<lparr>j_status := FAILED, j_error_code := Some ''job_config_integrity_failed'',
    j_error_message := Some ''Job configuration integrity could not be verified'',
    j_row_version := j_row_version job + 1\<rparr>"
  obtain j where j: "get_job (j_id job) d = Some j" "j_status j = QUEUED"
    and tables: "jobs d' = upd_row j_id (j_id job) ?f (jobs d)" "job_logs d' = job_logs d"
      "metrics d' = metrics d"
      "job_status_events d' = job_status_events d @ [\<lparr>e_job_id = j_id job, e_attempt_id = None,
        e_previous_status = Some QUEUED, e_status = FAILED, e_occurred_at = now, e_source = Manager_source\<rparr>]"
    using q True by (auto simp: quarantine_invalid_queued_job_config_def cas_job_def
        split: option.splits if_splits)
  note Q = quarantine_implements [OF ledger_okD(1) [OF ok] q]
  show ?thesis
  proof (rule ledger_okI [OF ok Q(1)])
    show "credentials d' = credentials d" using Q(2) by (rule credentials_workers)
    show "telemetry_ok d'"
      by (rule telemetry_ok_write [OF ledger_okD(3) [OF ok] tables(2,3) _ _ tables(1), where f = id and i = "[]"])
        (simp_all add: Q(3) upd_row_id)
    show "history_ok d'"
      by (rule history_advance [OF ledger_okD(4) [OF ok] keys_okD(1) [OF ledger_okD(5) [OF ok]] j(1)
            _ tables(1,4)]) (simp_all add: j legal_step_def)
  qed
qed

lemma assign_ledger_ok:
  assumes ok: "ledger_ok d" and c: "claimable worker attempt lease d"
    and a: "assign_job st now worker attempt lease caps job d = Some d'"
  shows "ledger_ok d'"
proof -
  from a obtain j where j: "get_job (j_id job) d = Some j" "j_status j = QUEUED"
    and tables: "jobs d' = upd_row j_id (j_id job) (claimed_job now worker attempt job) (jobs d)"
      "job_attempts d' = job_attempts d @ [claimed_attempt now worker attempt job caps]"
      "workers d' = upd_row w_id worker (orm_worker (claimed_worker now (j_id job) caps)) (workers d)"
      "job_status_events d' = job_status_events d @ [\<lparr>e_job_id = j_id job, e_attempt_id = Some attempt,
        e_previous_status = Some QUEUED, e_status = ASSIGNED, e_occurred_at = now,
        e_source = Manager_source\<rparr>]"
    by (rule assign_jobE)
  have same: "job_logs d' = job_logs d" "metrics d' = metrics d"
    using a by (auto simp: assign_job_def cas_job_def split: option.splits if_splits)
  note T = telemetry_okD [OF ledger_okD(3) [OF ok]]
  show ?thesis
  proof (rule ledger_okI [OF ok assign_implements [OF ledger_okD(1) [OF ok] c a]])
    show "credentials d' = credentials d"
      unfolding credentials_def tables by (rule credentials_upd_row) (simp add: credential_def claimed_worker_def)
    show "telemetry_ok d'"
    proof (rule telemetry_ok_frame [OF ledger_okD(3) [OF ok] same])
      fix b assume "b \<in> set (job_attempts d')"
      then show "sealed_below d b"
        using T(3) by (auto simp: tables sealed_below_def claimed_attempt_def)
    next
      fix b assume "b \<in> set (jobs d')"
      then show "epoch_bounded b"
        unfolding tables by (cases rule: set_upd_rowE) (use T(4) in \<open>auto simp: epoch_bounded_def claimed_job_def\<close>)
    qed
    show "history_ok d'"
      by (rule history_advance [OF ledger_okD(4) [OF ok] keys_okD(1) [OF ledger_okD(5) [OF ok]] j(1)
            _ tables(1,4)]) (simp_all add: j legal_step_def claimed_job_def)
  qed
qed

lemma claim_loop_ledger_ok:
  assumes "ledger_ok d" "ledger_ok d0" "claimable worker attempt lease d"
  shows "ledger_ok (snd (claim_loop pf st storage locked now worker attempt lease outcome caps d0
    candidates quarantined d))"
  using assms
proof (induction candidates arbitrary: d quarantined)
  case Nil
  then show ?case by simp
next
  case (Cons job candidates)
  obtain did d1 where q: "quarantine_invalid_queued_job_config now job d = (did, d1)" by fastforce
  note Q = quarantine_implements [OF ledger_okD(1) [OF Cons.prems(1)] q]
  have "ledger_ok (snd (claim_loop pf st storage locked now worker attempt lease outcome caps d0
      candidates (did \<or> quarantined) d1))"
    using quarantine_ledger_ok [OF Cons.prems(1) q] Cons.prems(2,3) Q(2-4)
    by (intro Cons.IH) (simp_all add: claimable_def)
  then show ?case
    using Cons.IH [OF Cons.prems] Cons.prems(2) q assign_ledger_ok [OF Cons.prems(1,3)]
    by (cases "claim_decision pf st storage locked caps job d"; cases outcome)
      (simp_all split: option.split sum.split)
qed

lemma claim_job_ledger_ok:
  assumes ok: "ledger_ok d" and fresh: "get_attempt attempt d = None" "get_lease lease d = None"
  shows "ledger_ok (snd (claim_job pf st storage locked now0 now attempt lease outcome worker caps d))"
proof -
  obtain n d0 where r: "recover_expired_leases pf st now0 100 d = (Inr n, d0)" "only_closes d d0"
    using recover_ok [OF ledger_okD(1) [OF ok]] by metis
  have ok0: "ledger_ok d0" using recover_ledger_ok [OF ok, of pf st now0 100] r(1) by simp
  show ?thesis
  proof (cases "get_worker_row (w_id worker) d0")
    case (Some w)
    then have "w_id w = w_id worker" using get_row_SomeD by fast
    then have "claimable (w_id w) attempt lease d0"
      if "w_is_active w" "w_pending_token_hash w = None" "w_current_job_id w = None"
      using that Some fresh only_closes_fresh [OF r(2)] by (simp add: claimable_def)
    then show ?thesis
      using Some r(1) ok0 claim_loop_ledger_ok [OF ok0 ok0, of "w_id w" attempt lease]
      by (simp add: claim_job_def)
  qed (use r(1) ok0 in \<open>simp add: claim_job_def\<close>)
qed


section \<open>Leases, heartbeats and status updates\<close>

lemma renew_lease_ledger_ok:
  assumes ok: "ledger_ok d"
  shows "ledger_ok (snd (renew_lease pf st now0 now w i li d))"
proof (cases "require_active_lease pf now0 (w_id w) i li d")
  case (Inr l)
  then have d': "snd (renew_lease pf st now0 now w i li d) = set_lease (l_id l) (renewed st now) d"
    by (simp add: renew_lease_def)
  show ?thesis
    by (rule ledger_ok_workers [OF ok renew_lease_implements [OF ledger_okD(1) [OF ok]]])
      (use ledger_okD(2) [OF ok] tokens_ok_credentials [of "set_lease (l_id l) (renewed st now) d" d] in
        \<open>simp_all add: d' credentials_def\<close>)
qed (use ok in \<open>simp add: renew_lease_def\<close>)

lemma heartbeat_ledger_ok:
  assumes ok: "ledger_ok d"
  shows "ledger_ok (snd (heartbeat pf st now0 now outcome worker payload d))"
proof -
  obtain n d0 where r: "recover_expired_leases pf st now0 100 d = (Inr n, d0)"
    using recover_ok [OF ledger_okD(1) [OF ok]] by metis
  have ok0: "ledger_ok d0" using recover_ledger_ok [OF ok, of pf st now0 100] r by simp
  note asg = ledger_okD(1) [OF ok0] ledger_okD(5) [OF ok0]
  have "credentials (set_worker i (beaten now payload) d0) = credentials d0"
    "credentials (set_worker i (beaten now payload) (set_lease k (renewed st now) d0)) = credentials d0" for i k
    by (simp_all add: credentials_def credentials_upd_row)
  from this [THEN tokens_ok_credentials] ledger_okD(2) [OF ok0]
  have tokens: "tokens_ok (set_worker i (beaten now payload) d0)"
    "tokens_ok (set_worker i (beaten now payload) (set_lease k (renewed st now) d0))" for i k
    by blast+
  have beat: "ledger_ok (set_worker i (beaten now payload) d0)"
    "ledger_ok (set_worker i (beaten now payload) (set_lease k (renewed st now) d0))" for i k
    by (rule ledger_ok_workers [OF ok0 implements_frame [OF asg(1)]];
        use asg tokens(1) [of i] tokens(2) [of i k] in \<open>simp add: board_of_frame\<close>)+
  show ?thesis
    using r ok0 beat by (cases outcome) (simp_all add: heartbeat_def Let_def split: option.split)
qed

lemma status_pass_ledger_ok:
  assumes ok: "ledger_ok (env_locked env)" and valid: "validate_job_status_update payload = Inr payload"
    and pass: "status_pass pf st storage sv actor job_id payload env = Answered r d'"
  shows "ledger_ok d'"
proof (cases r)
  case (Inl e)
  have "d' = env_locked env"
    using pass unfolding Inl
    by (auto simp: status_pass_def Let_def split: sum.splits attempted.splits prod.splits commit.splits)
  then show ?thesis using ok by simp
next
  case (Inr ack)
  let ?d = "env_locked env" and ?now = "env_now3 env"
  from pass [unfolded Inr] obtain t l j a w where
    f: "fenced pf (if terminal t then env_now2 env else env_now1 env) actor job_id (su_lease_id payload)
       l j a w ?d"
    and t: "may_transition (j_status j) t"
    and wr: "status_written ?now payload t l j a w ?d d'"
    by (rule status_passE)
  have j: "get_job job_id ?d = Some j" "j_id j = job_id"
    using f get_row_SomeD [of j_id job_id "jobs ?d" j] by (simp_all add: fenced_def)
  show ?thesis
  proof (rule ledger_okI [OF ok status_pass_implements [OF ledger_okD(1) [OF ok] pass]])
    show "credentials d' = credentials ?d"
      using wr by (simp add: credentials_def status_written_def credentials_upd_row)
    show "telemetry_ok d'"
      by (rule status_pass_telemetry_ok [OF ledger_okD(3,5) [OF ok] valid pass])
    show "history_ok d'"
      by (rule history_advance [OF ledger_okD(4) [OF ok] keys_okD(1) [OF ledger_okD(5) [OF ok]] j(1),
            where f = "orm_job (updated_job ?now payload t)" and
            es = "if j_status j \<noteq> t then [\<lparr>e_job_id = j_id j, e_attempt_id = Some (a_id a),
              e_previous_status = Some (j_status j), e_status = t,
              e_occurred_at = su_occurred_at payload, e_source = Worker_source\<rparr>] else []"])
        (use wr t j(2) in \<open>auto simp: status_written_def legal_step_def updated_job_def\<close>)
  qed
qed

section \<open>Telemetry\<close>

lemma ingest_ledger_ok:
  assumes ok: "ledger_ok d" and after: "ie_after env = d"
  shows "ledger_ok (snd (ingest_logs pf tt env actor job_id logs_payload d))"
    "ledger_ok (snd (ingest_metrics pf st env actor job_id metrics_payload d))"
proof -
  note asg = ledger_okD(1) [OF ok] and keys = ledger_okD(5) [OF ok] and tel = ledger_okD(3) [OF ok]
  obtain r d' where i: "ingest_logs pf tt env actor job_id logs_payload d = (r, d')" by fastforce
  have "workers d' = workers d \<and> jobs d' = jobs d \<and> job_status_events d' = job_status_events d"
    using i by (cases rule: ingest_logs_cases) (use after in simp_all)
  then have "credentials d' = credentials d" "history_ok d'"
    using history_same [OF ledger_okD(4) [OF ok]] credentials_workers by blast+
  then show "ledger_ok (snd (ingest_logs pf tt env actor job_id logs_payload d))"
    using ingest_logs_implements [OF asg after, of pf tt actor job_id logs_payload]
      ingest_logs_telemetry_ok [OF keys tel, of env pf tt actor job_id logs_payload] after tel i
      ledger_okI [OF ok] by simp
next
  note asg = ledger_okD(1) [OF ok] and keys = ledger_okD(5) [OF ok] and tel = ledger_okD(3) [OF ok]
  obtain r d' where i: "ingest_metrics pf st env actor job_id metrics_payload d = (r, d')" by fastforce
  have "credentials d' = credentials d \<and> history_ok d'"
    using i
  proof (cases rule: ingest_metrics_cases)
    case (stored l j a late f incoming new k)
    note T = stored_metrics_tables [OF stored(9)]
    have "history_ok d'"
      by (rule history_advance [OF ledger_okD(4) [OF ok] keys_okD(1) [OF keys]
            lock_telemetry_claimD(2) [OF stored(2)] _ T(2), where es = "[]"])
        (simp_all add: T(7) project_epoch_def)
    then show ?thesis using credentials_workers [OF T(5)] by simp
  qed (use after ledger_okD(4) [OF ok] in simp_all)
  then show "ledger_ok (snd (ingest_metrics pf st env actor job_id metrics_payload d))"
    using ingest_metrics_implements [OF asg after, of pf st actor job_id metrics_payload]
      ingest_metrics_telemetry_ok [OF keys tel, of env pf st actor job_id metrics_payload] after tel i
      ledger_okI [OF ok] by simp
qed

lemma ingest_artifacts_ledger_ok:
  assumes ok: "ledger_ok d"
  shows "ledger_ok (snd (ingest_artifacts pf st now c ni ei actor job_id payload d))"
proof -
  obtain r d' where i: "ingest_artifacts pf st now c ni ei actor job_id payload d = (r, d')" by fastforce
  have "workers d' = workers d \<and> jobs d' = jobs d \<and> job_status_events d' = job_status_events d"
    using i by (cases rule: ingest_artifacts_cases) simp_all
  then have "credentials d' = credentials d" "history_ok d'"
    using history_same [OF ledger_okD(4) [OF ok]] credentials_workers by blast+
  then show ?thesis
    using ingest_artifacts_implements [OF ledger_okD(1) [OF ok], of pf st now c ni ei actor job_id payload]
      ingest_artifacts_telemetry_ok [OF ledger_okD(3) [OF ok], of pf st now c ni ei actor job_id payload] i
      ledger_okI [OF ok] by simp
qed


section \<open>Credentials\<close>

definition same_work :: "ledger \<Rightarrow> ledger \<Rightarrow> bool" where
  "same_work d d' \<longleftrightarrow> jobs d' = jobs d \<and> job_attempts d' = job_attempts d \<and> job_logs d' = job_logs d \<and>
     metrics d' = metrics d \<and> job_status_events d' = job_status_events d"

lemma same_work_refl [simp]: "same_work d d"
  by (simp add: same_work_def)

lemma auth_same_work:
  "same_work d (snd (register_worker pf st now i raw outcome bootstrap reg d))"
  "same_work d (snd (prepare_token_rotation pf st now raw outcome auth rid d))"
  "same_work d (snd (abort_token_rotation outcome auth rid d))"
  "same_work d (snd (activate_token_rotation pf st now outcome auth rid pending d))"
  "same_work d (snd (re_enroll_worker pf st now raw outcome bootstrap i reg d))"
proof -
  have w: "same_work d (add_audit_event a b c e f (set_worker i g d))"
    "same_work d (add_audit_event a b c e f (add_audit_event a' b' c' e' f' (set_worker i g d)))"
    "same_work d (workers_update h d)" for a b c e f a' b' c' e' f' i g h
    by (simp_all add: same_work_def)
  show "same_work d (snd (register_worker pf st now i raw outcome bootstrap reg d))"
    using w by (simp add: register_worker_def Let_def split: commit.split)
  show "same_work d (snd (prepare_token_rotation pf st now raw outcome auth rid d))"
    using w by (auto simp: prepare_token_rotation_def Let_def split: sum.split commit.split)
  show "same_work d (snd (abort_token_rotation outcome auth rid d))"
    using w by (auto simp: abort_token_rotation_def Let_def split: sum.split commit.split)
  show "same_work d (snd (activate_token_rotation pf st now outcome auth rid pending d))"
    using w by (auto simp: activate_token_rotation_def Let_def split: option.split sum.split commit.split)
  show "same_work d (snd (re_enroll_worker pf st now raw outcome bootstrap i reg d))"
    using w by (auto simp: re_enroll_worker_def Let_def split: sum.split commit.split)
qed

lemma same_work_ledger_ok:
  assumes "ledger_ok d" "implements d d'" "tokens_ok d'" "same_work d d'"
  shows "ledger_ok d'"
  using ledger_ok_workers [OF assms(1-3)] assms(4) by (simp add: same_work_def)

lemma auth_ledger_ok:
  assumes ok: "ledger_ok d"
  shows "ledger_ok (snd (register_worker pf st now i raw outcome bootstrap reg d))"
    "ledger_ok (snd (prepare_token_rotation pf st now raw outcome auth rid d))"
    "ledger_ok (snd (abort_token_rotation outcome auth rid d))"
    "ledger_ok (snd (activate_token_rotation pf st now outcome auth rid pending d))"
    "ledger_ok (snd (re_enroll_worker pf st now raw outcome bootstrap i reg d))"
proof -
  note asg = ledger_okD(1) [OF ok] and tok = ledger_okD(2) [OF ok]
  note keep = same_work_ledger_ok [OF ok]
  show "ledger_ok (snd (register_worker pf st now i raw outcome bootstrap reg d))"
    by (rule keep [OF register_implements [OF asg] register_tokens_ok [OF tok] auth_same_work(1)])
  show "ledger_ok (snd (prepare_token_rotation pf st now raw outcome auth rid d))"
    by (rule keep [OF prepare_ok(1) [OF asg] prepare_ok(2) [OF asg tok] auth_same_work(2)])
  show "ledger_ok (snd (abort_token_rotation outcome auth rid d))"
    by (rule keep [OF abort_ok(1) [OF asg] abort_ok(2) [OF asg tok] auth_same_work(3)])
  show "ledger_ok (snd (activate_token_rotation pf st now outcome auth rid pending d))"
    by (rule keep [OF activate_ok(1) [OF asg] activate_ok(2) [OF asg tok] auth_same_work(4)])
  show "ledger_ok (snd (re_enroll_worker pf st now raw outcome bootstrap i reg d))"
    by (rule keep [OF re_enroll_ok(1) [OF asg] re_enroll_ok(2) [OF asg tok] auth_same_work(5)])
qed

lemma revoke_pass_ledger_ok:
  assumes ok: "ledger_ok (rv_ledger env)"
    and pass: "revoke_pass pf st admin i payload env = Revoke_answered r d'"
  shows "ledger_ok d'"
proof (cases r)
  case (Inl e)
  have "d' = rv_ledger env"
    using pass unfolding Inl revoke_pass_def Let_def
    by (auto split: option.splits if_splits sum.splits commit.splits)
  then show ?thesis using ok by simp
next
  case (Inr x)
  let ?d = "rv_ledger env"
  note asg = ledger_okD(1) [OF ok] and keys = ledger_okD(5) [OF ok]
  have tel: "job_logs d' = job_logs d1 \<and> metrics d' = metrics d1 \<and> job_status_events d' = job_status_events d1"
    if "revoke_leases pf st (rv_now env) (rv_event_ids env) i (unreleased_leases i ?d) ?d = Inr d1" for d1
  proof -
    obtain w where "get_worker_row i ?d = Some w" "w_id w = i"
      using revoke_passD [OF pass [unfolded Inr]] by metis
    then show ?thesis using pass that unfolding Inr revoke_pass_def Let_def
      by (auto split: if_splits commit.splits)
  qed
  from pass [unfolded Inr] obtain w d1 where "get_worker_row i ?d = Some w"
    and how: "unreleased_leases i ?d = [] \<and> w_current_job_id w = None \<and> d1 = ?d \<or>
     (\<exists>l. unreleased_leases i ?d = [l] \<and> rv_force_cancel_active payload \<and>
        revoke_lease pf st (rv_now env) (rv_event_ids env (l_id l)) i l ?d = Inr d1)"
    and d': "jobs d' = jobs d1" "job_attempts d' = job_attempts d1"
    by (rule revoke_passD)
  have "telemetry_ok d' \<and> history_ok d'"
    using how
  proof
    assume n: "unreleased_leases i ?d = [] \<and> w_current_job_id w = None \<and> d1 = ?d"
    then have "same_work ?d d'" using tel [of ?d] d' by (simp add: same_work_def)
    then show ?thesis
      using telemetry_ok_frame [OF ledger_okD(3) [OF ok], of d'] telemetry_okD [OF ledger_okD(3) [OF ok]]
        history_same [OF ledger_okD(4) [OF ok], of d'] by (simp add: same_work_def)
  next
    assume "\<exists>l. unreleased_leases i ?d = [l] \<and> rv_force_cancel_active payload \<and>
      revoke_lease pf st (rv_now env) (rv_event_ids env (l_id l)) i l ?d = Inr d1"
    then obtain l where l: "unreleased_leases i ?d = [l]"
      "revoke_lease pf st (rv_now env) (rv_event_ids env (l_id l)) i l ?d = Inr d1" by blast
    note lv = unreleased_leases_live [OF asg, of l i]
    have T: "job_logs d' = job_logs d1" "metrics d' = metrics d1" "job_status_events d' = job_status_events d1"
      using tel [of d1] l by simp_all
    from l(2) show ?thesis
    proof (rule revoke_leaseD)
      fix j a
      assume j: "get_job (l_job_id l) ?d = Some j" and nt: "\<not> terminal (j_status j)"
        and tables: "jobs d1 = upd_row j_id (l_job_id l) (orm_job (revoked_job (rv_now env))) (jobs ?d)"
          "job_attempts d1 = upd_row a_id (l_attempt_id l) (revoked_attempt (rv_now env)) (job_attempts ?d)"
          "job_logs d1 = job_logs ?d" "metrics d1 = metrics ?d"
          "job_status_events d1 = job_status_events ?d @ [\<lparr>e_job_id = l_job_id l,
             e_attempt_id = Some (l_attempt_id l), e_previous_status = Some (j_status j),
             e_status = CANCELLED, e_occurred_at = rv_now env, e_source = Manager_source\<rparr>]"
      have ex: "executing (j_status j)"
        using live_lease_rows [OF asg lv(1,2)] l(1) j by (metis list.set_intros(1) option.inject)
      have "CANCELLED \<in> set (ALLOWED_JOB_TRANSITIONS (j_status j))"
        using executing_may_end [OF ex] nt by (auto simp: executing_simps)
      then have "history_ok d'"
        by (intro history_advance [OF ledger_okD(4) [OF ok] keys_okD(1) [OF keys] j
              _ trans [OF d'(1) tables(1)] trans [OF T(3) tables(5)]])
          (simp_all add: legal_step_def revoked_job_def)
      moreover have "telemetry_ok d'"
        by (rule telemetry_ok_write [OF ledger_okD(3) [OF ok], where f = "revoked_attempt (rv_now env)"
              and g = "orm_job (revoked_job (rv_now env))"])
          (simp_all add: d' T tables revoked_attempt_def revoked_job_def)
      ultimately show ?thesis by simp
    qed
  qed
  then show ?thesis
    using implements_ok [OF asg revoke_pass_ok(1) [OF asg pass]] revoke_pass_ok(2) [OF asg pass]
      ledger_okD(2) [OF ok] by (simp add: ledger_ok_def)
qed


section \<open>Jobs and experiments\<close>

lemma create_job_ledger_ok:
  assumes ok: "ledger_ok d"
  shows "ledger_ok (snd (create_job pf st now new_id event_id flush outcome user config d))"
proof (cases "create_job pf st now new_id event_id flush outcome user config d")
  case (Pair r d')
  from Pair show ?thesis
  proof (cases rule: create_job_cases)
    case (created x snapshot h)
    let ?job = "created_job now new_id x config h snapshot"
    have fresh: "get_job new_id d = None" using created(4) by (simp add: job_conflict_def created_job_def)
    have "implements d d'" using create_job_implements [OF ledger_okD(1) [OF ok]] Pair by (metis snd_conv)
    moreover have "telemetry_ok d'"
      by (rule telemetry_ok_frame [OF ledger_okD(3) [OF ok] created(9,10)])
        (use telemetry_okD [OF ledger_okD(3) [OF ok]] in
          \<open>auto simp: created epoch_bounded_def created_job_def\<close>)
    moreover have "history_ok d'"
      by (rule history_created [OF ledger_okD(4) [OF ok] fresh _ _ created(5,11)])
        (simp_all add: created_job_def)
    ultimately show ?thesis
      using Pair ledger_okI [OF ok] credentials_workers [OF created(6)] by simp
  qed (use Pair ok in simp)
qed

lemma telemetry_ok_jobs:
  assumes ok: "telemetry_ok d" and same: "job_logs d' = job_logs d" "metrics d' = metrics d"
      "job_attempts d' = job_attempts d"
    and jobs: "jobs d' = upd_row j_id k g (jobs d)"
    and g: "\<And>j. j_total_epoch (g j) = j_total_epoch j \<and>
      (j_current_epoch (g j) = None \<or> j_current_epoch (g j) = j_current_epoch j)"
  shows "telemetry_ok d'"
  by (rule telemetry_ok_write [OF ok same(1,2) _ _ jobs g, where f = id and i = "[]"])
    (simp_all add: same(3) upd_row_id)

lemma cancel_job_ledger_ok:
  assumes ok: "ledger_ok d"
  shows "ledger_ok (snd (cancel_job now outcome job_id user d))"
proof (cases "cancel_job now outcome job_id user d")
  case (Pair r d')
  from Pair show ?thesis
  proof (cases rule: cancel_job_cases)
    case (written j)
    have j: "get_job job_id d = Some j" using written(1) by (simp add: owned_job_Inr)
    have "implements d d'" using cancel_job_implements [OF ledger_okD(1) [OF ok]] Pair by (metis snd_conv)
    moreover have "telemetry_ok d'"
      by (rule telemetry_ok_jobs [OF ledger_okD(3) [OF ok] written(9,10,7,5)]) (simp add: cancelled_job_def)
    moreover have "history_ok d'"
      by (rule history_advance [OF ledger_okD(4) [OF ok] keys_okD(1) [OF ledger_okD(5) [OF ok]] j
            _ written(5,11)]) (auto simp: legal_step_def cancelled_job_def)
    ultimately show ?thesis
      using Pair ledger_okI [OF ok] credentials_workers [OF written(6)] by simp
  qed (use Pair ok in simp)
qed

lemma retry_job_ledger_ok:
  assumes ok: "ledger_ok d"
  shows "ledger_ok (snd (retry_job pf now outcome job_id user d))"
proof (cases "retry_job pf now outcome job_id user d")
  case (Pair r d')
  from Pair show ?thesis
  proof (cases rule: retry_job_cases)
    case (written j)
    have j: "get_job job_id d = Some j" using written(1) by (simp add: owned_job_Inr)
    have "implements d d'" using retry_job_implements [OF ledger_okD(1) [OF ok]] Pair by (metis snd_conv)
    moreover have "telemetry_ok d'"
      by (rule telemetry_ok_jobs [OF ledger_okD(3) [OF ok] written(10,11,8,6)]) (simp add: requeued_def)
    moreover have "history_ok d'"
      by (rule history_advance [OF ledger_okD(4) [OF ok] keys_okD(1) [OF ledger_okD(5) [OF ok]] j
            _ written(6,12)]) (auto simp: legal_step_def requeued_def written(2))
    ultimately show ?thesis
      using Pair ledger_okI [OF ok] credentials_workers [OF written(7)] by simp
  qed (use Pair ok in simp)
qed

text \<open>The operations on experiments and the outbox do not touch these tables.\<close>

lemma untouched_ledger_ok:
  assumes ok: "ledger_ok d" and "same_work d d'" "workers d' = workers d" "job_leases d' = job_leases d"
  shows "ledger_ok d'"
proof (rule same_work_ledger_ok [OF ok])
  show "implements d d'"
    using assms ledger_okD(1) [OF ok] by (intro implements_same_tables) (simp_all add: same_work_def)
  show "tokens_ok d'"
    using ledger_okD(2) [OF ok] tokens_ok_credentials [OF credentials_workers [OF assms(3)]] by simp
qed (fact assms(2))

lemma project_one_frames:
  assumes "project_one st project now0 now k d = (r, d')"
  shows "same_work d d'" "workers d' = workers d" "job_leases d' = job_leases d"
proof -
  have *: "same_work d (mlflow_sync_events_update f d) \<and>
      workers (mlflow_sync_events_update f d) = workers d \<and>
      job_leases (mlflow_sync_events_update f d) = job_leases d" for f d by (simp add: same_work_def)
  obtain e d1 where c: "claim_event st now0 k d = (e, d1)" by fastforce
  have d1: "same_work d d1 \<and> workers d1 = workers d \<and> job_leases d1 = job_leases d"
    using c by (auto simp: claim_event_def recover_stale_processing_def Let_def same_work_def split: list.splits)
  have "same_work d d' \<and> workers d' = workers d \<and> job_leases d' = job_leases d"
    using assms c d1
    by (auto simp: project_one_def mark_synced_def mark_retry_def Let_def same_work_def
        split: if_splits option.splits)
  then show "same_work d d'" "workers d' = workers d" "job_leases d' = job_leases d" by simp_all
qed

lemma experiment_frames:
  "same_work d (snd (create_experiment st now i ev flush outcome user ec d)) \<and>
     workers (snd (create_experiment st now i ev flush outcome user ec d)) = workers d \<and>
     job_leases (snd (create_experiment st now i ev flush outcome user ec d)) = job_leases d"
  "same_work d (snd (update_experiment outcome i v desc user d)) \<and>
     workers (snd (update_experiment outcome i v desc user d)) = workers d \<and>
     job_leases (snd (update_experiment outcome i v desc user d)) = job_leases d"
  "same_work d (snd (delete_experiment st outcome i v user d)) \<and>
     workers (snd (delete_experiment st outcome i v user d)) = workers d \<and>
     job_leases (snd (delete_experiment st outcome i v user d)) = job_leases d"
proof -
  have enq: "same_work d d' \<and> workers d' = workers d \<and> job_leases d' = job_leases d"
    if "d' = snd (enqueue_experiment_created st now ev x (add_audit_event a b c e f (experiments_update g d)))"
    for d' x a b c e f g
    using that by (simp add: enqueue_experiment_created_def enqueue_def same_work_def)
  show "same_work d (snd (create_experiment st now i ev flush outcome user ec d)) \<and>
     workers (snd (create_experiment st now i ev flush outcome user ec d)) = workers d \<and>
     job_leases (snd (create_experiment st now i ev flush outcome user ec d)) = job_leases d"
    using enq [OF refl]
    by (simp add: create_experiment_def commit_or_raise_def Let_def split: option.split sum.split commit.split)
  show "same_work d (snd (update_experiment outcome i v desc user d)) \<and>
     workers (snd (update_experiment outcome i v desc user d)) = workers d \<and>
     job_leases (snd (update_experiment outcome i v desc user d)) = job_leases d"
    by (simp add: update_experiment_def Let_def same_work_def split: sum.split commit.split)
  show "same_work d (snd (delete_experiment st outcome i v user d)) \<and>
     workers (snd (delete_experiment st outcome i v user d)) = workers d \<and>
     job_leases (snd (delete_experiment st outcome i v user d)) = job_leases d"
    by (simp add: delete_experiment_def Let_def same_work_def split: sum.split commit.split)
qed

end
