(* ===== verification/System.thy ===== *)
theory System
  imports History
begin

text \<open>
  The manager as a transition system over its database: one rule per handler of \<^verbatim>\<open>routers/workers.py\<close>
  and \<^verbatim>\<open>routers/experiments.py\<close>, the background outbox worker, and the transactions of the other routers,
  which leave workers, jobs, attempts, leases, status events and telemetry alone. Every rule takes the
  ledger its locked rows are read from; a value that was read before the locks (the prechecks of a
  status update, the ledger seen after a lost telemetry commit) is unconstrained or the ledger itself,
  so that other transactions may run in between. Identifiers the server draws (\<^verbatim>\<open>uuid4\<close>) are fresh.
\<close>

section \<open>Steps\<close>

inductive manager_step :: "platform \<Rightarrow> settings \<Rightarrow> ledger \<Rightarrow> ledger \<Rightarrow> bool"
  for pf :: platform and st :: settings
  where
    register: "register_worker pf st now i raw outcome bootstrap reg d = (r, d') \<Longrightarrow> manager_step pf st d d'"
  | prepare: "prepare_token_rotation pf st now raw outcome worker rid d = (s, d') \<Longrightarrow> manager_step pf st d d'"
  | abort: "abort_token_rotation outcome worker rid d = (t, d') \<Longrightarrow> manager_step pf st d d'"
  | activate: "activate_token_rotation pf st now outcome worker rid pending d = (u, d') \<Longrightarrow>
      manager_step pf st d d'"
  | re_enroll: "re_enroll_worker pf st now raw outcome bootstrap i reg d = (r, d') \<Longrightarrow> manager_step pf st d d'"
  | revoke: "rv_ledger env = d \<Longrightarrow> revoke_pass pf st admin i request env = Revoke_answered v d' \<Longrightarrow>
      manager_step pf st d d'"
  | beat: "heartbeat pf st now0 now outcome worker alive d = (b, d') \<Longrightarrow> manager_step pf st d d'"
  | claim: "get_attempt attempt d = None \<Longrightarrow> get_lease lease d = None \<Longrightarrow>
      claim_job pf st storage locked now0 now attempt lease outcome worker caps d = (c, d') \<Longrightarrow>
      manager_step pf st d d'"
  | renew: "renew_lease pf st now0 now worker job_id lease d = (n, d') \<Longrightarrow> manager_step pf st d d'"
  | recover: "recover_expired_leases pf st now batch_limit d = (k, d') \<Longrightarrow> manager_step pf st d d'"
  | report: "env_locked report_env = d \<Longrightarrow> validate_job_status_update payload = Inr payload \<Longrightarrow>
      status_pass pf st storage samples_verified actor job_id payload report_env = Answered q d' \<Longrightarrow>
      manager_step pf st d d'"
  | logs: "ie_after ingest = d \<Longrightarrow> ingest_logs pf tt ingest actor job_id batch d = (o1, d') \<Longrightarrow>
      manager_step pf st d d'"
  | metrics: "ie_after ingest = d \<Longrightarrow> ingest_metrics pf st ingest actor job_id points d = (o1, d') \<Longrightarrow>
      manager_step pf st d d'"
  | artifacts: "ingest_artifacts pf st now outcome new_id event_id actor job_id items d = (o1, d') \<Longrightarrow>
      manager_step pf st d d'"
  | submit: "create_job pf st now new_job event flush outcome user config d = (j, d') \<Longrightarrow>
      manager_step pf st d d'"
  | cancel: "cancel_job now outcome job_id user d = (j, d') \<Longrightarrow> manager_step pf st d d'"
  | retry: "retry_job pf now outcome job_id user d = (j, d') \<Longrightarrow> manager_step pf st d d'"
  | new_experiment: "create_experiment st now x_new event flush outcome user x_form d = (x, d') \<Longrightarrow>
      manager_step pf st d d'"
  | edit_experiment: "update_experiment outcome x_old vsn desc user d = (x, d') \<Longrightarrow>
      manager_step pf st d d'"
  | drop_experiment: "delete_experiment st outcome x_old vsn user d = (nothing, d') \<Longrightarrow>
      manager_step pf st d d'"
  | project: "project_one st mlflow now0 now key d = (p, d') \<Longrightarrow> manager_step pf st d d'"
  | elsewhere: "same_work d d' \<Longrightarrow> workers d' = workers d \<Longrightarrow> job_leases d' = job_leases d \<Longrightarrow>
      manager_step pf st d d'"

text \<open>The database after the migrations, before the first worker has registered.\<close>

definition fresh_ledger :: "ledger \<Rightarrow> bool" where
  "fresh_ledger d \<longleftrightarrow> workers d = [] \<and> jobs d = [] \<and> job_attempts d = [] \<and> job_leases d = [] \<and>
     job_status_events d = [] \<and> job_logs d = [] \<and> metrics d = []"

lemma fresh_ledger_ok:
  assumes "fresh_ledger d"
  shows "ledger_ok d"
  using assms
  by (simp add: fresh_ledger_def ledger_ok_def assignment_ok_def keys_ok_def wf_table_def board_ok_def
      live_def board_of_def tokens_ok_def telemetry_ok_def history_ok_def)

text \<open>Every handler keeps the invariant of the ledger.\<close>

lemma manager_step_ledger_ok:
  assumes "manager_step pf st d d'" "ledger_ok d"
  shows "ledger_ok d'"
  using assms(1)
proof cases
  case register then show ?thesis using auth_ledger_ok(1) [OF assms(2)] by (metis snd_conv)
next
  case prepare then show ?thesis using auth_ledger_ok(2) [OF assms(2)] by (metis snd_conv)
next
  case abort then show ?thesis using auth_ledger_ok(3) [OF assms(2)] by (metis snd_conv)
next
  case activate then show ?thesis using auth_ledger_ok(4) [OF assms(2)] by (metis snd_conv)
next
  case re_enroll then show ?thesis using auth_ledger_ok(5) [OF assms(2)] by (metis snd_conv)
next
  case revoke then show ?thesis using revoke_pass_ledger_ok assms(2) by blast
next
  case beat then show ?thesis using heartbeat_ledger_ok [OF assms(2)] by (metis snd_conv)
next
  case claim then show ?thesis using claim_job_ledger_ok [OF assms(2)] by (metis snd_conv)
next
  case renew then show ?thesis using renew_lease_ledger_ok [OF assms(2)] by (metis snd_conv)
next
  case recover then show ?thesis using recover_ledger_ok [OF assms(2)] by (metis snd_conv)
next
  case report then show ?thesis using status_pass_ledger_ok assms(2) by blast
next
  case logs then show ?thesis using ingest_ledger_ok(1) [OF assms(2)] by (metis snd_conv)
next
  case metrics then show ?thesis using ingest_ledger_ok(2) [OF assms(2)] by (metis snd_conv)
next
  case artifacts then show ?thesis using ingest_artifacts_ledger_ok [OF assms(2)] by (metis snd_conv)
next
  case submit then show ?thesis using create_job_ledger_ok [OF assms(2)] by (metis snd_conv)
next
  case cancel then show ?thesis using cancel_job_ledger_ok [OF assms(2)] by (metis snd_conv)
next
  case retry then show ?thesis using retry_job_ledger_ok [OF assms(2)] by (metis snd_conv)
next
  case (new_experiment now x_new event flush outcome user x_form x)
  then show ?thesis
    using untouched_ledger_ok [OF assms(2)] experiment_frames(1) [of d st now x_new event flush outcome user x_form]
    by simp
next
  case (edit_experiment outcome x_old vsn desc user x)
  then show ?thesis
    using untouched_ledger_ok [OF assms(2)] experiment_frames(2) [of d outcome x_old vsn desc user] by simp
next
  case (drop_experiment outcome x_old vsn user nothing)
  then show ?thesis
    using untouched_ledger_ok [OF assms(2)] experiment_frames(3) [of d st outcome x_old vsn user] by simp
next
  case project then show ?thesis using untouched_ledger_ok [OF assms(2) project_one_frames [OF project]] by simp
next
  case elsewhere then show ?thesis using untouched_ledger_ok [OF assms(2)] by blast
qed

interpretation manager: step_invariant fresh_ledger "manager_step pf st" ledger_ok for pf st
  by unfold_locales (rule fresh_ledger_ok, assumption, rule manager_step_ledger_ok, assumption+)

text \<open>Every handler refines the assignment specification.\<close>

lemma manager_step_implements:
  assumes "manager_step pf st d d'" "ledger_ok d"
  shows "implements d d'"
  using assms(1)
proof cases
  note ok = ledger_okD(1) [OF assms(2)]
  {
    case register then show ?thesis using register_implements [OF ok] by (metis snd_conv)
  next
    case prepare then show ?thesis using prepare_ok(1) [OF ok] by (metis snd_conv)
  next
    case abort then show ?thesis using abort_ok(1) [OF ok] by (metis snd_conv)
  next
    case activate then show ?thesis using activate_ok(1) [OF ok] by (metis snd_conv)
  next
    case re_enroll then show ?thesis using re_enroll_ok(1) [OF ok] by (metis snd_conv)
  next
    case revoke then show ?thesis using revoke_pass_ok(1) ok by blast
  next
    case beat then show ?thesis using heartbeat_implements [OF ok] by (metis snd_conv)
  next
    case claim then show ?thesis using claim_job_implements [OF ok] by (metis snd_conv)
  next
    case renew then show ?thesis using renew_lease_implements [OF ok] by (metis snd_conv)
  next
    case recover then show ?thesis using recover_ok [OF ok] by (metis Pair_inject)
  next
    case report then show ?thesis using status_pass_implements ok by blast
  next
    case logs then show ?thesis using ingest_logs_implements [OF ok] by (metis snd_conv)
  next
    case metrics then show ?thesis using ingest_metrics_implements [OF ok] by (metis snd_conv)
  next
    case artifacts then show ?thesis using ingest_artifacts_implements [OF ok] by (metis snd_conv)
  next
    case submit then show ?thesis using create_job_implements [OF ok] by (metis snd_conv)
  next
    case cancel then show ?thesis using cancel_job_implements [OF ok] by (metis snd_conv)
  next
    case retry then show ?thesis using retry_job_implements [OF ok] by (metis snd_conv)
  next
    case (new_experiment now x_new event flush outcome user x_form x)
    then show ?thesis
      using experiment_frames(1) [of d st now x_new event flush outcome user x_form]
      by (intro implements_same_tables [OF ok]) (simp_all add: same_work_def)
  next
    case (edit_experiment outcome x_old vsn desc user x)
    then show ?thesis
      using experiment_frames(2) [of d outcome x_old vsn desc user]
      by (intro implements_same_tables [OF ok]) (simp_all add: same_work_def)
  next
    case (drop_experiment outcome x_old vsn user nothing)
    then show ?thesis
      using experiment_frames(3) [of d st outcome x_old vsn user]
      by (intro implements_same_tables [OF ok]) (simp_all add: same_work_def)
  next
    case project
    then show ?thesis
      using project_one_frames [OF project]
      by (intro implements_same_tables [OF ok]) (simp_all add: same_work_def)
  next
    case elsewhere
    then show ?thesis by (intro implements_same_tables [OF ok]) (simp_all add: same_work_def)
  }
qed

lemma manager_run_board:
  assumes "(manager_step pf st)\<^sup>*\<^sup>* d d'" "ledger_ok d"
  shows "board_step\<^sup>*\<^sup>* (board_of d) (board_of d') \<and> ledger_ok d'"
  using assms
proof (induction rule: rtranclp_induct)
  case (step d1 d2)
  then have "board_step\<^sup>*\<^sup>* (board_of d1) (board_of d2)"
    using manager_step_implements by (simp add: implements_def)
  then show ?case using step manager_step_ledger_ok by (meson rtranclp_trans)
qed simp

text \<open>A job whose status has no successor keeps it.\<close>

lemma board_step_final:
  assumes "board_step b b'" "board_jobs b j = Some s" "ALLOWED_JOB_TRANSITIONS (slot_status s) = []"
  shows "\<exists>s'. board_jobs b' j = Some s' \<and> slot_status s' = slot_status s"
  using assms by cases auto

lemma board_run_final:
  assumes "board_step\<^sup>*\<^sup>* b b'" "board_jobs b j = Some s" "ALLOWED_JOB_TRANSITIONS (slot_status s) = []"
  shows "\<exists>s'. board_jobs b' j = Some s' \<and> slot_status s' = slot_status s"
  using assms by (induction rule: rtranclp_induct) (auto dest: board_step_final)

section \<open>The retried handlers\<close>

text \<open>
  A request that is retried answers from the pass that was not disturbed, so the ledger it leaves is
  one step from the ledger of one of its environments.
\<close>

lemma update_job_status_step:
  assumes "validate_job_status_update payload = Inr payload"
  shows "\<exists>k. k \<le> n + (if fence_retried then 0 else 1) + (if stale_retried then 0 else 1) \<and>
    (manager_step pf st)\<^sup>=\<^sup>= (env_locked (env k))
      (snd (update_job_status pf st storage sv actor job_id payload env n fence_retried stale_retried))"
  using assms
proof (induction pf st storage sv actor job_id payload env n fence_retried stale_retried
    rule: update_job_status.induct)
  case (1 pf st storage sv actor job_id payload env n fence_retried stale_retried)
  then show ?case
  proof (cases "status_pass pf st storage sv actor job_id payload (env n)")
    case (Answered r d)
    then have "manager_step pf st (env_locked (env n)) d"
      using 1 by (intro report [OF refl]) auto
    then show ?thesis using Answered by (intro exI [of _ n]) (simp add: update_job_status.simps)
  next
    case Lock_lost
    show ?thesis
    proof (cases fence_retried)
      case False
      then show ?thesis using 1 Lock_lost by (subst update_job_status.simps) (fastforce simp: Let_def)
    qed (auto simp: update_job_status.simps Lock_lost intro!: exI [of _ n])
  next
    case Version_lost
    show ?thesis
    proof (cases stale_retried)
      case False
      then show ?thesis using 1 Version_lost by (subst update_job_status.simps) (fastforce simp: Let_def)
    qed (auto simp: update_job_status.simps Version_lost intro!: exI [of _ n])
  qed
qed

lemma revoke_worker_token_step:
  "\<exists>k \<le> 1. (manager_step pf st)\<^sup>=\<^sup>= (rv_ledger (env k)) (snd (revoke_worker_token pf st admin i request env))"
proof (cases "revoke_pass pf st admin i request (env 0)")
  case (Revoke_answered r d)
  then show ?thesis
    using revoke [OF refl Revoke_answered] by (intro exI [of _ 0]) (simp add: revoke_worker_token_def)
next
  case Revoke_stale
  then show ?thesis
    using revoke [OF refl, of pf st admin i request "env 1"]
    by (intro exI [of _ 1])
      (cases "revoke_pass pf st admin i request (env 1)"; simp add: revoke_worker_token_def)
qed

end
