(* ===== verification/Examples.thy ===== *)
theory Examples
  imports Status_Update
begin

text \<open>
  Concrete values on which the properties are exercised: a platform whose functions satisfy the
  documented behaviour the hypotheses ask for, settings within their bounds, a job configuration, and
  a ledger with one worker, one ready dataset and one queued job.
\<close>

definition ex_zero :: string where "ex_zero = replicate 64 (CHR ''0'')"

text \<open>
  A rendering of floats that tells them apart: numerator, point, denominator.
\<close>

definition ex_float_repr :: "pyfloat \<Rightarrow> string" where
  "ex_float_repr x =
     (case x of
        FNum q \<Rightarrow> int_str (fst (quotient_of q)) @ ''.'' @ int_str (snd (quotient_of q))
      | FNegZero \<Rightarrow> ''-0e0'' | _ \<Rightarrow> ''nan'')"

definition ex_config :: job_config where
  "ex_config =
     \<lparr>job_name = ''voice-a'', experiment_id = ''exp-1'', dataset_id = ''ds-1'',
      rvc_backend = \<lparr>repository = ''rvc'', rvc_version = Some V2, rvc_commit_hash = None\<rparr>,
      model = \<lparr>version = V2, model_sample_rate = KHZ_40, use_f0 = True, speaker_id = 0\<rparr>,
      pretrained = \<lparr>mode = Auto, g_path = None, d_path = None, allow_custom_override = False\<rparr>,
      training = \<lparr>epochs = 20, batch_size_per_gpu = 8, save_every_epoch = 5, save_only_latest = True,
        save_every_weights = False, cache_dataset_in_gpu = False, gpu_ids = [0]\<rparr>,
      f0_extraction = \<lparr>training_f0_method = Some T_RMVPE, rmvpe_gpu_ids = None\<rparr>,
      index = \<lparr>build_index = True, collect_total_fea = False, collect_added_index = True\<rparr>,
      auto_inference_samples = \<lparr>enabled = False, test_set_id = None,
        inference = \<lparr>inference_f0_method = I_RMVPE, transpose = 0, index_rate = FNum 0,
          filter_radius = 3, resample_sr = 0, rms_mix_rate = FNum 1, protect = FNum 0\<rparr>\<rparr>,
      artifacts = \<lparr>collect_checkpoints = False, collect_small_model = True,
        extract_small_model_if_missing = True, collect_index = True, collect_tensorboard = False,
        collect_logs = True, collect_samples = False\<rparr>,
      resource = \<lparr>min_vram_gb = FNum 8, preferred_worker_tags = [''lab''], priority = 5\<rparr>\<rparr>"

definition ex_platform :: platform where
  "ex_platform =
     \<lparr>sha256 = (\<lambda>_. ex_zero), hmac_sha256 = (\<lambda>k m. k @ '':'' @ m), float_repr = ex_float_repr,
      fsum = (\<lambda>_. FNum 0),
      parse_job_config = (\<lambda>doc. if doc = dump_job_config ex_config then Some ex_config else None)\<rparr>"

definition ex_settings :: settings where
  "ex_settings =
     \<lparr>environment = Production, worker_bootstrap_token = Some ''boot'', worker_token_pepper = ''p'',
      worker_token_rotation_ttl_seconds = 600, lease_seconds = 60, worker_offline_seconds = 120,
      lease_recovery_max_attempts = 3, allow_fake_workers = False,
      approved_sample_runtime_bundles = [], auto_sample_jobs_enabled = False,
      resolved_storage_backend = S3, artifact_stream_chunk_bytes = 65536, test_set_max_items = 10,
      test_set_max_total_bytes = 1000, test_set_max_total_duration_seconds = FNum 100,
      mlflow_enabled = False, mlflow_processing_stale_seconds = 60, mlflow_retry_max_seconds = 60,
      jwt_secret = ''jwt'', jwt_issuer = ''iss'', jwt_audience = ''aud'', jwt_access_ttl_seconds = 900,
      jwt_leeway_seconds = 5, sample_verification_timeout_seconds = 120\<rparr>"

definition ex_storage :: claim_storage where
  "ex_storage = \<lparr>backend = S3, namespace_fingerprint = ''ns'',
     storage_uri = (\<lambda>k. Some (''s3://'' @ k)), stream_object = (\<lambda>_ _ _. None)\<rparr>"

definition ex_capabilities :: worker_capabilities where
  "ex_capabilities =
     \<lparr>engine_mode = RVC_WEBUI, worker_version = ''1.0'', cap_rvc_commit_hash = ''abcdef0'',
      supported_rvc_versions = [V2], supported_training_f0_methods = [T_RMVPE],
      supported_inference_f0_methods = [I_RMVPE], fixed_test_set_inference_ready = False,
      gpus = [\<lparr>gpu_index = 0, gpu_uuid = None, gpu_name = ''gpu'', total_vram_mb = 16000,
        free_vram_mb = 16000, utilization_percent = None, temperature_c = None\<rparr>],
      disk_free_bytes = 1000, tags = [''lab''], rvc_assets_ready = True, runtime_image_digest = None,
      runtime_asset_manifest_sha256 = None, max_concurrent_jobs = 1\<rparr>"

definition ex_worker :: worker_row where
  "ex_worker =
     \<lparr>w_id = ''w1'', w_row_version = 1, w_name = ''worker'', w_token_hash = ''p:t0'',
      w_token_issued_at = 0, w_token_rotation_id = None, w_pending_token_hash = None,
      w_token_rotation_started_at = None, w_token_rotation_expires_at = None, w_status = IDLE,
      w_capabilities_json = ex_capabilities, w_worker_version = ''1.0'',
      w_rvc_commit_hash = ''abcdef0'', w_last_heartbeat_at = Some 0, w_current_job_id = None,
      w_is_active = True, w_created_at = 0\<rparr>"

definition ex_dataset :: dataset_row where
  "ex_dataset =
     \<lparr>d_id = ''ds-1'', d_flat_storage_uri = Some ''s3://flat'', d_is_usable = True,
      d_status = ''ready'', d_prepared_flat_size_bytes = Some 100,
      d_prepared_flat_sha256 = Some ex_zero, d_created_by = Some ''u1''\<rparr>"

definition ex_dataset_upload :: dataset_upload_session where
  "ex_dataset_upload =
     \<lparr>du_dataset_id = ''ds-1'', du_generation = 1, du_prepared_flat_object_key = ''flat'',
      du_storage_backend = S3, du_storage_namespace_sha256 = ''ns'', du_status = ''completed'',
      du_finalized_at = Some 0\<rparr>"

definition ex_experiment :: experiment_row where
  "ex_experiment =
     \<lparr>x_id = ''exp-1'', x_row_version = 1, x_name = ''exp'', x_name_conflict_key = Some ''exp'',
      x_dataset_id = ''ds-1'', x_description = None, x_created_by = Some ''u1'', x_created_at = 0\<rparr>"

definition ex_job :: job_row where
  "ex_job =
     \<lparr>j_id = ''j1'', j_row_version = 1, j_experiment_id = ''exp-1'', j_dataset_id = ''ds-1'',
      j_worker_id = None, j_job_name = ''voice-a'', j_status = QUEUED,
      j_config_json = dump_job_config ex_config, j_config_sha256 = Some ex_zero,
      j_test_set_id = None, j_preset_id = None, j_sample_plan_json = None,
      j_sample_plan_sha256 = None, j_priority = 5, j_current_epoch = None, j_total_epoch = 20,
      j_attempt_count = 0, j_current_attempt_id = None, j_cancel_requested_at = None,
      j_error_code = None, j_error_message = None, j_started_at = None, j_completed_at = None,
      j_created_at = 0\<rparr>"

definition ex_ledger :: ledger where
  "ex_ledger =
     \<lparr>workers = [ex_worker], datasets = [ex_dataset],
      dataset_upload_sessions = [ex_dataset_upload], test_sets = [],
      test_set_item_upload_sessions = [], test_set_items = [], experiments = [ex_experiment],
      jobs = [ex_job], job_attempts = [], job_leases = [],
      job_status_events = [\<lparr>e_job_id = ''j1'', e_attempt_id = None, e_previous_status = None,
        e_status = QUEUED, e_occurred_at = 0, e_source = Manager_source\<rparr>],
      ingest_batches = [], job_logs = [], metrics = [], artifacts_table = [],
      artifact_upload_sessions = [], mlflow_sync_events = [], audit_events = []\<rparr>"

text \<open>The same ledger after the worker has claimed the job at time 1000000 (one second).\<close>

definition ex_claimed_job :: job_row where
  "ex_claimed_job = claimed_job 1000000 ''w1'' ''a1'' ex_job ex_job"

definition ex_lease :: job_lease_row where
  "ex_lease = claimed_lease ex_settings 1000000 ''w1'' ''a1'' ''l1'' ex_job"

definition ex_attempt :: job_attempt_row where
  "ex_attempt = claimed_attempt 1000000 ''w1'' ''a1'' ex_job ex_capabilities"

definition ex_claimed :: ledger where
  "ex_claimed = the (assign_job ex_settings 1000000 ''w1'' ''a1'' ''l1'' ex_capabilities ex_job ex_ledger)"

section \<open>The rendering of floats of the example\<close>

lemma ex_int_chars: "list_all (\<lambda>c. is_digit c \<or> c = CHR ''-'') (int_str i)"
proof -
  have "list_all is_digit (nat_digits n)" for n
  proof (induction n rule: nat_digits.induct)
    case (1 n)
    have "is_digit (char_of (48 + k))" if "k < 10" for k :: nat
      using that by (simp add: is_digit_def between_def of_char_of)
    then show ?case using 1 by (subst nat_digits.simps) auto
  qed
  then show ?thesis by (auto simp: int_str_def list_all_iff)
qed

lemma ex_int_no_dot: "CHR ''.'' \<notin> set (int_str i)" "CHR ''e'' \<notin> set (int_str i)"
  using ex_int_chars [of i] by (auto simp: list_all_iff char_class_defs)

lemma ex_float_repr_inject:
  assumes "isfinite x" "isfinite y" "ex_float_repr x = ex_float_repr y"
  shows "x = y"
proof (cases x; cases y)
  fix q r assume xy: "x = FNum q" "y = FNum r"
  let ?f = "takeWhile (\<lambda>c. c \<noteq> CHR ''.'')" and ?g = "dropWhile (\<lambda>c. c \<noteq> CHR ''.'')"
  have take: "?f (int_str a @ ''.'' @ int_str b) = int_str a" for a b
    using ex_int_no_dot [of a] by (subst takeWhile_append2) auto
  have drop: "?g (int_str a @ ''.'' @ int_str b) = ''.'' @ int_str b" for a b
    using ex_int_no_dot [of a] by (subst dropWhile_append2) auto
  obtain a b where q: "quotient_of q = (a, b)" by fastforce
  obtain c d where r: "quotient_of r = (c, d)" by fastforce
  have eq: "int_str a @ ''.'' @ int_str b = int_str c @ ''.'' @ int_str d"
    using assms(3) xy q r by (simp add: ex_float_repr_def)
  have "int_str a = int_str c" using eq take by metis
  moreover have "int_str b = int_str d" using eq drop by (metis append_Cons append_Nil list.inject)
  ultimately have "quotient_of q = quotient_of r" using q r by (simp add: int_str_inject)
  then show ?thesis using xy quotient_of_inject by simp
qed (use assms in \<open>auto simp: ex_float_repr_def dest: arg_cong [of _ _ "\<lambda>s. CHR ''e'' \<in> set s"]
      simp: ex_int_no_dot\<close>)

lemma ex_float_repr_ok: "float_repr_ok ex_float_repr"
proof -
  have "ex_float_repr x \<noteq> [] \<and> list_all is_number_char (ex_float_repr x) \<and>
      (CHR ''.'' \<in> set (ex_float_repr x) \<or> CHR ''e'' \<in> set (ex_float_repr x))" if "isfinite x" for x
    using that ex_int_chars
    by (cases x) (auto simp: ex_float_repr_def is_number_char_def list_all_iff char_class_defs)
  then show ?thesis unfolding float_repr_ok_def using ex_float_repr_inject by blast
qed

section \<open>The configuration of the example\<close>

lemma ex_zero_hex [simp]: "sha256_hex ex_zero"
  by (simp add: sha256_hex_def ex_zero_def list_all_iff char_class_defs)

lemma ex_identifiers:
  "\<not> bad_identifier ''voice-a''" "\<not> bad_identifier ''exp-1''" "\<not> bad_identifier ''ds-1''"
  by (simp_all add: bad_identifier_def safe_identifier_def char_class_defs)

lemma ex_config_valid: "validate_job_config ex_config = Inr ex_config"
proof -
  have strip: "strip ''lab'' = ''lab''" by (simp add: strip_def is_space_def between_def)
  show ?thesis
    using ex_identifiers
    by (simp add: validate_job_config_def ex_config_def config_validator_defs checked_simps strip
        float_is_zero_def validate_cross_fields_def truthy_def validate_inference_preset_config_def)
qed

lemma ex_hash: "config_hash ex_platform (dump_job_config ex_config) = Some ex_zero"
  using dump_validated_finite [OF ex_config_valid]
  by (simp add: config_hash_def job_config_sha256_def canonical_job_config_bytes_def dumps_def
      ex_platform_def)

lemma ex_model_validate:
  "model_validate_job_config ex_platform (dump_job_config ex_config) = Some ex_config"
  by (simp add: model_validate_job_config_def ex_platform_def ex_config_valid)

lemma ex_parses: "parse_job_config ex_platform (dump_job_config ex_config) = Some ex_config"
  by (simp add: ex_platform_def)

lemma ex_hex_digests: "hex_digests ex_platform"
  by (simp add: hex_digests_def ex_platform_def)

lemma ex_fields:
  "job_name ex_config = ''voice-a''" "experiment_id ex_config = ''exp-1''"
  "dataset_id ex_config = ''ds-1''" "epochs (training ex_config) = 20"
  "priority (resource ex_config) = 5" "test_set_id (auto_inference_samples ex_config) = None"
  "\<not> enabled (auto_inference_samples ex_config)"
  by (simp_all add: ex_config_def)

text \<open>Every version of the job whose immutable columns are those of the example passes the check.\<close>

lemma ex_validated:
  "same_snapshot j ex_job \<Longrightarrow> validated_job_config ex_platform j None = Some ex_config"
  "same_snapshot j ex_job \<Longrightarrow> a_job_id a = ''j1'' \<Longrightarrow> a_job_config_sha256 a = Some ex_zero \<Longrightarrow>
   validated_job_config ex_platform j (Some a) = Some ex_config"
proof -
  have "validated_job_config ex_platform ex_job att = Some ex_config"
    if "\<forall>a \<in> set_option att. a_job_id a = ''j1'' \<and> a_job_config_sha256 a = Some ex_zero" for att
    using that by (auto simp: validated_job_config_def ex_job_def ex_hash ex_model_validate ex_fields)
  then show "same_snapshot j ex_job \<Longrightarrow> validated_job_config ex_platform j None = Some ex_config"
    "same_snapshot j ex_job \<Longrightarrow> a_job_id a = ''j1'' \<Longrightarrow> a_job_config_sha256 a = Some ex_zero \<Longrightarrow>
     validated_job_config ex_platform j (Some a) = Some ex_config"
    by (simp_all add: validated_job_config_cong)
qed


section \<open>The ledgers of the example\<close>

lemma ex_ledger_ok: "assignment_ok ex_ledger"
  by (simp add: assignment_ok_def keys_ok_def wf_table_def ex_ledger_def board_ok_def live_def
      board_of_def slot_defs ex_job_def ex_worker_def executing_simps)

definition ex_dataset_transfer :: dataset_transfer where
  "ex_dataset_transfer = \<lparr>dt_dataset_id = ''ds-1'',
     dt_download_path = jobs_path @ ''j1'' @ ''/dataset'', dt_size_bytes = 100, dt_sha256 = ex_zero\<rparr>"

lemma ex_ids: "safe_transfer_id ''j1''" "safe_transfer_id ''a1''" "safe_transfer_id ''l1''"
    "safe_identifier ''ds-1''"
  by (simp_all add: safe_transfer_id_def safe_identifier_def char_class_defs)

lemma ex_transfer_valid: "validate_dataset_transfer ex_dataset_transfer = Inr ex_dataset_transfer"
proof -
  have "dataset_download_path (jobs_path @ ''j1'' @ ''/dataset'')"
    using ex_ids(1) dataset_download_path_iff by blast
  moreover have "\<not> unsafe_download_path (jobs_path @ ''j1'' @ ''/dataset'')"
    using ex_ids(1) by (rule pattern_path_safe)
  ultimately show ?thesis
    using ex_ids(4) by (simp add: validate_dataset_transfer_def ex_dataset_transfer_def jobs_path_def)
qed

lemma ex_runs: "worker_can_run ex_config ex_capabilities False []"
  by (simp add: worker_can_run_def ex_config_def ex_capabilities_def float_is_zero_def)

lemma ex_offer:
  "claim_decision ex_platform ex_settings ex_storage (\<lambda>_. False) ex_capabilities ex_job ex_ledger =
     Offer ex_config (Some ex_dataset_transfer) None"
proof -
  have v: "validated_job_config ex_platform ex_job None = Some ex_config"
    by (rule ex_validated) (simp add: same_snapshot_def)
  have d: "get_dataset (j_dataset_id ex_job) ex_ledger = Some ex_dataset"
    by (simp add: ex_job_def ex_ledger_def ex_dataset_def)
  have r: "dataset_ready_for_training ex_dataset"
    by (simp add: dataset_ready_for_training_def ex_dataset_def)
  have u: "latest_dataset_upload (d_id ex_dataset) ex_ledger = Some ex_dataset_upload"
    by (simp add: latest_dataset_upload_def ex_ledger_def ex_dataset_def ex_dataset_upload_def)
  have t: "verified_dataset_transfer ex_settings ex_storage (j_id ex_job) ex_dataset ex_ledger =
      Inr (Some ex_dataset_transfer)"
    using u ex_transfer_valid
    by (simp add: verified_dataset_transfer_def ex_dataset_def ex_dataset_upload_def ex_settings_def
        ex_storage_def ex_job_def ex_dataset_transfer_def)
  show ?thesis
    using v d r t ex_runs
    by (simp add: claim_decision_def ex_settings_def ex_config_def ex_job_def)
qed

lemma ex_claimed_Some:
  "assign_job ex_settings 1000000 ''w1'' ''a1'' ''l1'' ex_capabilities ex_job ex_ledger = Some ex_claimed"
  by (simp add: ex_claimed_def assign_job_def cas_job_def ex_ledger_def ex_job_def)

lemma ex_claimed_tables:
  "jobs ex_claimed = [ex_claimed_job]" "job_attempts ex_claimed = [ex_attempt]"
  "job_leases ex_claimed = [ex_lease]"
  "workers ex_claimed = [orm_worker (claimed_worker 1000000 ''j1'' ex_capabilities) ex_worker]"
  "job_logs ex_claimed = []" "metrics ex_claimed = []" "ingest_batches ex_claimed = []"
  "experiments ex_claimed = [ex_experiment]"
  by (simp_all add: ex_claimed_def assign_job_def cas_job_def ex_ledger_def ex_job_def ex_worker_def
      ex_claimed_job_def ex_attempt_def ex_lease_def)

lemma ex_claimed_ok: "assignment_ok ex_claimed"
proof -
  have "claimable ''w1'' ''a1'' ''l1'' ex_ledger"
    by (simp add: claimable_def ex_ledger_def ex_worker_def)
  then show ?thesis using assign_implements [OF ex_ledger_ok] ex_claimed_Some implements_ok ex_ledger_ok by blast
qed

lemma ex_response_valid:
  "validate_job_claim ex_platform (claim_response ex_settings 1000000 ''a1'' ''l1'' ex_job ex_config
     (Some ex_dataset_transfer) None) =
   Inr (claim_response ex_settings 1000000 ''a1'' ''l1'' ex_job ex_config (Some ex_dataset_transfer) None)"
  using ex_ids ex_hash
  by (simp add: validate_job_claim_def claim_response_def ex_job_def ex_dataset_transfer_def ex_fields)

lemma ex_no_expired: "expired_leases 1000000 100 ex_ledger = []"
  by (simp add: expired_leases_def ex_ledger_def)

lemma ex_claim:
  "claim_job ex_platform ex_settings ex_storage (\<lambda>_. False) 1000000 1000000 ''a1'' ''l1'' Committed
     ex_worker ex_capabilities ex_ledger =
   (Inr (Some (claim_response ex_settings 1000000 ''a1'' ''l1'' ex_job ex_config
      (Some ex_dataset_transfer) None)), ex_claimed)"
proof -
  have "recover_expired_leases ex_platform ex_settings 1000000 100 ex_ledger = (Inr 0, ex_ledger)"
    by (simp add: recover_expired_leases_def ex_no_expired)
  moreover have "claim_candidates ex_ledger = [ex_job]"
    by (simp add: claim_candidates_def ex_ledger_def ex_job_def)
  moreover have "get_worker_row (w_id ex_worker) ex_ledger = Some ex_worker" "w_id ex_worker = ''w1''"
    "w_is_active ex_worker" "w_pending_token_hash ex_worker = None" "w_status ex_worker \<noteq> DRAINING"
    "w_current_job_id ex_worker = None"
    by (simp_all add: ex_ledger_def ex_worker_def)
  ultimately show ?thesis
    by (simp add: claim_job_def ex_offer ex_claimed_Some ex_response_valid)
qed

end
