(* ===== verification/Example_Run.thy ===== *)
theory Example_Run
  imports System Examples
begin

text \<open>
  A run of the manager that reaches the ledgers of the examples: the dataset and the experiment are
  there, the worker registers, the job is submitted, and the worker claims it.
\<close>

definition ex_empty :: ledger where
  "ex_empty = ex_ledger\<lparr>workers := [], jobs := [], job_status_events := []\<rparr>"

definition ex_user :: api_user where
  "ex_user = \<lparr>usr_id = ''u1'', usr_role = ''user''\<rparr>"

definition ex_registration :: worker_register_request where
  "ex_registration = \<lparr>reg_name = ''worker'', reg_capabilities = ex_capabilities\<rparr>"

definition ex_registered :: ledger where
  "ex_registered = ex_empty\<lparr>workers := [ex_worker]\<rparr>"

lemma ex_fresh: "fresh_ledger ex_empty"
  by (simp add: fresh_ledger_def ex_empty_def ex_ledger_def)

lemma ex_register:
  "register_worker ex_platform ex_settings 0 ''w1'' ''t0'' Committed (Some ''boot'') ex_registration ex_empty =
     (Inr \<lparr>resp_worker_id = ''w1'', resp_worker_token = ''t0'', resp_issued_at = 0\<rparr>, ex_registered)"
  by (simp add: register_worker_def registered_def verify_bootstrap_token_def worker_commit_def
      worker_conflict_def hash_worker_token_def ex_empty_def ex_ledger_def ex_registered_def
      ex_registration_def ex_settings_def ex_platform_def ex_worker_def ex_capabilities_def)

lemma ex_job_created: "ex_job = created_job 0 ''j1'' ex_experiment ex_config ex_zero (None, None, None)"
  by (simp add: created_job_def ex_job_def ex_experiment_def ex_fields)

lemma ex_inputs:
  "job_inputs ex_platform ex_settings ex_user ex_config ex_registered = Inr (ex_experiment, None, None, None)"
proof -
  have "get_experiment_row (experiment_id ex_config) ex_registered = Some ex_experiment"
    "get_dataset (x_dataset_id ex_experiment) ex_registered = Some ex_dataset"
    by (simp_all add: ex_registered_def ex_empty_def ex_ledger_def ex_experiment_def ex_dataset_def ex_fields)
  then show ?thesis
    by (simp add: job_inputs_def require_owner_or_admin_def sample_snapshot_def ex_user_def ex_fields
        ex_experiment_def dataset_ready_for_training_def ex_dataset_def)
qed

definition ex_submitted :: ledger where
  "ex_submitted = ex_ledger\<lparr>audit_events := audit_events (add_audit_event ''user'' (Some ''u1'')
     ''job.created'' ''job'' (Some ''j1'') ex_ledger)\<rparr>"

lemma ex_submit:
  "create_job ex_platform ex_settings 0 ''j1'' ''o1'' Committed Committed ex_user ex_config ex_registered =
     (Inr ex_job, ex_submitted)"
proof -
  have "\<not> job_conflict ex_job ex_registered"
    by (simp add: job_conflict_def ex_registered_def ex_empty_def)
  moreover have "add_audit_event ''user'' (Some ''u1'') ''job.created'' ''job'' (Some ''j1'')
      (add_status_event ''j1'' None None QUEUED 0 Manager_source (jobs_update (\<lambda>js. js @ [ex_job]) ex_registered)) =
      ex_submitted"
    by (simp add: ex_submitted_def ex_registered_def ex_empty_def ex_ledger_def add_audit_event_def
        add_status_event_def)
  moreover have "usr_id ex_user = ''u1''" "\<not> mlflow_enabled ex_settings"
    by (simp_all add: ex_user_def ex_settings_def)
  ultimately show ?thesis
    by (simp add: create_job_def ex_inputs ex_hash ex_job_created [symmetric] commit_or_raise_def
        enqueue_job_created_def enqueue_for_job_def)
qed

lemma ex_run: "(manager_step ex_platform ex_settings)\<^sup>*\<^sup>* ex_empty ex_ledger"
proof -
  have "manager_step ex_platform ex_settings ex_empty ex_registered"
    by (rule register [OF ex_register])
  moreover have "manager_step ex_platform ex_settings ex_registered ex_submitted"
    by (rule submit [OF ex_submit])
  moreover have "manager_step ex_platform ex_settings ex_submitted ex_ledger"
    by (rule elsewhere) (simp_all add: ex_submitted_def same_work_def)
  ultimately show ?thesis by (blast intro: converse_rtranclp_into_rtranclp)
qed

lemma ex_run_claimed: "(manager_step ex_platform ex_settings)\<^sup>*\<^sup>* ex_empty ex_claimed"
proof -
  have "manager_step ex_platform ex_settings ex_ledger ex_claimed"
    by (rule claim [OF _ _ ex_claim]) (simp_all add: ex_ledger_def)
  then show ?thesis using ex_run by simp
qed

lemmas ex_ledgers_ok = manager.reachable_inv [OF ex_fresh ex_run] manager.reachable_inv [OF ex_fresh ex_run_claimed]

section \<open>Telemetry and the end of the attempt\<close>

definition ex_tools :: text_tools where
  "ex_tools = \<lparr>redact_text = id, casefold = map lower_char\<rparr>"

definition ex_log_batch :: log_batch where
  "ex_log_batch = \<lparr>lb_lease_id = ''l1'', lb_attempt_id = ''a1'', lb_idempotency_key = ''batch-01'',
     lb_entries = [\<lparr>le_sequence = 0, le_level = INFO, le_message = ''start'', le_occurred_at = 2000000,
       le_occurred_at_set = True, le_fields = JObj [(''token'', JStr ''s3cret'')]\<rparr>]\<rparr>"

definition ex_ingest_env :: "ledger \<Rightarrow> ingest_env" where
  "ex_ingest_env d = \<lparr>ie_now0 = 2000000, ie_now1 = 2000000, ie_now2 = 2000000, ie_now3 = 2000000,
     ie_fence = True, ie_commit = Committed, ie_event_id = ''o2'', ie_after = d\<rparr>"

definition ex_metric_batch :: metric_batch where
  "ex_metric_batch = \<lparr>mb_lease_id = ''l1'', mb_attempt_id = ''a1'', mb_idempotency_key = ''batch-02'',
     mb_entries = [\<lparr>me_sequence = 0, me_key = ''current_epoch'', me_value = FNum 3, me_epoch = None,
       me_step = None, me_occurred_at = 2000000, me_occurred_at_set = True\<rparr>]\<rparr>"

definition ex_failure :: job_status_update where
  "ex_failure = \<lparr>su_lease_id = ''l1'', su_status = FAILED, su_occurred_at = 3000000,
     su_current_epoch = None, su_telemetry_log_count = Some 1, su_telemetry_metric_count = Some 1,
     su_error_code = Some ''oom'', su_error_message = Some ''out of memory''\<rparr>"

definition ex_claimed_worker :: worker_row where
  "ex_claimed_worker = orm_worker (claimed_worker 1000000 ''j1'' ex_capabilities) ex_worker"

lemma ex_claimed_rows:
  "get_lease ''l1'' ex_claimed = Some ex_lease" "get_job ''j1'' ex_claimed = Some ex_claimed_job"
  "get_attempt ''a1'' ex_claimed = Some ex_attempt"
  "get_worker_row ''w1'' ex_claimed = Some ex_claimed_worker"
  by (simp_all add: ex_claimed_worker_def ex_claimed_tables ex_lease_def ex_claimed_job_def claimed_job_def ex_job_def
      ex_attempt_def ex_worker_def)

lemma ex_claimed_fields:
  "l_id ex_lease = ''l1''" "l_job_id ex_lease = ''j1''" "l_attempt_id ex_lease = ''a1''"
  "l_worker_id ex_lease = ''w1''" "l_active ex_lease" "l_released_at ex_lease = None"
  "l_expires_at ex_lease = 61000000"
  "j_id ex_claimed_job = ''j1''" "j_status ex_claimed_job = ASSIGNED" "j_worker_id ex_claimed_job = Some ''w1''"
  "j_current_attempt_id ex_claimed_job = Some ''a1''" "j_cancel_requested_at ex_claimed_job = None"
  "j_total_epoch ex_claimed_job = 20" "j_current_epoch ex_claimed_job = None"
  "a_id ex_attempt = ''a1''" "a_job_id ex_attempt = ''j1''" "a_worker_id ex_attempt = ''w1''"
  "a_status ex_attempt = ASSIGNED" "a_finished_at ex_attempt = None"
  "a_telemetry_log_count ex_attempt = None" "a_telemetry_metric_count ex_attempt = None"
  by (simp_all add: ex_lease_def claimed_lease_def ex_claimed_job_def claimed_job_def ex_job_def
      ex_attempt_def claimed_attempt_def lease_expiry_def ex_settings_def)

lemma ex_claimed_seat:
  "w_is_active ex_claimed_worker" "w_current_job_id ex_claimed_worker = Some ''j1''" "w_id ex_claimed_worker = ''w1''"
  by (simp_all add: ex_claimed_worker_def claimed_worker_def ex_worker_def)

lemma ex_claimed_valid: "validated_job_config ex_platform ex_claimed_job (Some ex_attempt) = Some ex_config"
  by (rule ex_validated)
    (simp_all add: same_snapshot_def ex_claimed_job_def claimed_job_def ex_job_def ex_attempt_def claimed_attempt_def)

lemma ex_telemetry_claim:
  "lock_telemetry_claim ex_platform 2000000 ''w1'' ''j1'' ''l1'' ''a1'' ty ns ex_claimed =
     Inr (ex_lease, ex_claimed_job, ex_attempt, False)"
  using ex_claimed_valid
  by (simp add: lock_telemetry_claim_def Let_def ex_claimed_rows ex_claimed_tables(3) ex_claimed_fields ex_claimed_seat)

lemma ex_fence:
  "acquire_active_telemetry_write_fence ex_platform 2000000 2000000 True ''w1'' ''j1'' ''l1'' ''a1'' ty ns
     ex_claimed = Inr (ex_lease, ex_claimed_job, ex_attempt)"
  using ex_telemetry_claim [of ty ns]
  by (simp add: acquire_active_telemetry_write_fence_def ex_claimed_tables ex_claimed_fields)

lemma ex_log_fingerprint: "log_batch_fingerprint ex_platform ex_tools ex_log_batch = Inr ex_zero"
  by (simp add: log_batch_fingerprint_def canonical_fingerprint_def canonical_sha256_def canonical_json_def
      ex_log_batch_def ex_platform_def dumps_def ex_tools_def REDACTED_def)

lemma ex_log_entries: "lb_lease_id ex_log_batch = ''l1''" "lb_attempt_id ex_log_batch = ''a1''"
  by (simp_all add: ex_log_batch_def)

definition ex_logged :: ledger where
  "ex_logged = snd (ingest_logs ex_platform ex_tools (ex_ingest_env ex_claimed) ''w1'' ''j1'' ex_log_batch ex_claimed)"

lemma ex_ingest:
  "ingest_logs ex_platform ex_tools (ex_ingest_env ex_claimed) ''w1'' ''j1'' ex_log_batch ex_claimed =
     (Inr \<lparr>accepted = 1, duplicate = False\<rparr>, ex_logged)"
  using ex_telemetry_claim [of Logs "map le_sequence (lb_entries ex_log_batch)"]
    ex_fence [of Logs "map le_sequence (lb_entries ex_log_batch)"]
  by (simp add: ex_logged_def ingest_logs_def ex_log_fingerprint ex_ingest_env_def ex_log_entries Let_def
      ex_claimed_fields find_ingest_batch_def ex_claimed_tables conflicting_def stored_at_def
      fresh_entries_def telemetry_commit_def) (simp add: ex_log_batch_def)

lemma ex_run_logged: "(manager_step ex_platform ex_settings)\<^sup>*\<^sup>* ex_empty ex_logged"
proof -
  have "manager_step ex_platform ex_settings ex_claimed ex_logged"
    by (rule logs [OF _ ex_ingest]) (simp add: ex_ingest_env_def)
  then show ?thesis using ex_run_claimed by simp
qed

lemma ex_metric_fingerprint: "metric_batch_fingerprint ex_platform ex_metric_batch = Inr ex_zero"
  by (simp add: metric_batch_fingerprint_def canonical_fingerprint_def canonical_sha256_def canonical_json_def
      ex_metric_batch_def ex_platform_def dumps_def opt_int_def)

lemma ex_metric_ids: "mb_lease_id ex_metric_batch = ''l1''" "mb_attempt_id ex_metric_batch = ''a1''"
  by (simp_all add: ex_metric_batch_def)

lemma ex_metric_epochs: "metric_epochs 20 (mb_entries ex_metric_batch) = Inr [Some 3]"
  by (simp add: ex_metric_batch_def metric_epoch_def)

definition ex_measured :: ledger where
  "ex_measured = snd (ingest_metrics ex_platform ex_settings (ex_ingest_env ex_claimed) ''w1'' ''j1''
     ex_metric_batch ex_claimed)"

lemma ex_ingest_metrics:
  "ingest_metrics ex_platform ex_settings (ex_ingest_env ex_claimed) ''w1'' ''j1'' ex_metric_batch ex_claimed =
     (Inr \<lparr>accepted = 1, duplicate = False\<rparr>, ex_measured)"
proof -
  have "\<not> mlflow_enabled ex_settings" by (simp add: ex_settings_def)
  then show ?thesis
    using ex_telemetry_claim [of Metrics "map me_sequence (mb_entries ex_metric_batch)"]
      ex_fence [of Metrics "map me_sequence (mb_entries ex_metric_batch)"]
    by (simp add: ex_measured_def ingest_metrics_def ex_metric_fingerprint ex_ingest_env_def ex_metric_ids Let_def
        ex_claimed_fields find_ingest_batch_def ex_claimed_tables conflicting_def stored_at_def ex_metric_epochs
        fresh_entries_def telemetry_commit_def enqueue_metric_batch_def enqueue_for_job_def)
      (simp add: ex_metric_batch_def)
qed

lemma ex_metric_job: "jobs ex_measured = [orm_job (project_epoch False [3]) ex_claimed_job]"
proof -
  have "\<not> mlflow_enabled ex_settings" by (simp add: ex_settings_def)
  then have "jobs ex_measured = upd_row j_id ''j1'' (orm_job (project_epoch False
      (projected_epochs (mb_entries ex_metric_batch) [Some 3] (mb_entries ex_metric_batch)))) (jobs ex_claimed)"
    using ex_telemetry_claim [of Metrics "map me_sequence (mb_entries ex_metric_batch)"]
      ex_fence [of Metrics "map me_sequence (mb_entries ex_metric_batch)"]
    by (simp add: ex_measured_def ingest_metrics_def ex_metric_fingerprint ex_ingest_env_def ex_metric_ids Let_def
        ex_claimed_fields find_ingest_batch_def ex_claimed_tables conflicting_def stored_at_def ex_metric_epochs
        fresh_entries_def telemetry_commit_def enqueue_metric_batch_def enqueue_for_job_def write_metrics_def)
      (simp add: ex_metric_batch_def)
  moreover have "projected_epochs (mb_entries ex_metric_batch) [Some 3] (mb_entries ex_metric_batch) = [3]"
    by (simp add: projected_epochs_def ex_metric_batch_def)
  ultimately show ?thesis by (simp add: ex_claimed_tables ex_claimed_fields)
qed

lemma ex_run_measured: "(manager_step ex_platform ex_settings)\<^sup>*\<^sup>* ex_empty ex_measured"
proof -
  have "manager_step ex_platform ex_settings ex_claimed ex_measured"
    by (rule metrics [OF _ ex_ingest_metrics]) (simp add: ex_ingest_env_def)
  then show ?thesis using ex_run_claimed by simp
qed

definition ex_status_env :: "ledger \<Rightarrow> status_env" where
  "ex_status_env d = \<lparr>env_unlocked = d, env_locked = d, env_now0 = 3000000, env_now1 = 3000000,
     env_now2 = 3000000, env_now3 = 3000000, env_fence = True, env_commit = Committed, env_event_id = ''o3''\<rparr>"

definition ex_no_samples :: "job_row \<Rightarrow> test_set_transfer \<Rightarrow> ledger \<Rightarrow> bool option" where
  "ex_no_samples job transfer d = Some False"

definition ex_failed :: ledger where
  "ex_failed = write_status 3000000 ex_failure FAILED ex_lease ex_claimed_job ex_attempt ex_claimed_worker ex_claimed"

lemma ex_failure_valid: "validate_job_status_update ex_failure = Inr ex_failure"
  by (simp add: validate_job_status_update_def ex_failure_def truthy_def)

lemma ex_status_claim:
  "lock_current_status_claim ex_platform 3000000 ''j1'' ''a1'' ''l1'' ''w1'' ASSIGNED ex_claimed =
     Inr (ex_lease, ex_claimed_job, ex_attempt, ex_claimed_worker)"
  using ex_claimed_valid
  by (simp add: lock_current_status_claim_def Let_def ex_claimed_rows ex_claimed_fields ex_claimed_seat)

lemma ex_require_lease: "require_active_lease ex_platform 3000000 ''w1'' ''j1'' ''l1'' ex_claimed = Inr ex_lease"
  using ex_claimed_valid
  by (simp add: require_active_lease_iff [OF ex_claimed_ok] ex_claimed_rows ex_claimed_fields)

lemma ex_target: "check_target ex_claimed_job ex_failure = Inr FAILED"
  by (simp add: check_target_Inr ex_claimed_fields ex_failure_def failure_or_cancel_def)

lemma ex_epoch: "validate_current_epoch ex_claimed_job (su_current_epoch ex_failure) = Inr ()"
  by (simp add: validate_current_epoch_Inr ex_failure_def)

lemma ex_failure_pass:
  "status_pass ex_platform ex_settings ex_storage ex_no_samples ''w1'' ''j1'' ex_failure (ex_status_env ex_claimed) =
     Answered (Inr \<lparr>ack_job_id = ''j1'', ack_status = FAILED, ack_lease_expires_at = None\<rparr>) ex_failed"
proof -
  have lease: "su_lease_id ex_failure = ''l1''" by (simp add: ex_failure_def)
  have pre: "status_precheck ex_platform ex_settings ex_storage ex_no_samples 3000000 ''w1'' ''j1'' ex_failure ex_claimed =
      Inr (ex_claimed_job, ex_attempt)"
    by (simp add: status_precheck_def lease ex_require_lease ex_claimed_rows ex_claimed_fields ex_target ex_epoch)
  have recheck: "status_recheck ex_platform 3000000 ''w1'' ''j1'' ''a1'' ASSIGNED ex_failure ex_claimed =
      Inr (FAILED, ex_lease, ex_claimed_job, ex_attempt, ex_claimed_worker)"
    by (simp add: status_recheck_def lease ex_status_claim ex_target ex_epoch)
  have locked: "status_locked ex_platform ex_settings 3000000 3000000 True ''w1'' ''j1'' ''a1'' ASSIGNED ex_failure
      ex_claimed = Decided (Inr (FAILED, ex_lease, ex_claimed_job, ex_attempt, ex_claimed_worker))"
    by (simp add: status_locked_def recheck status_conclude_def validate_terminal_telemetry_watermarks_def
        ex_claimed_tables split: option.split)
  have "\<not> mlflow_enabled ex_settings" by (simp add: ex_settings_def)
  then show ?thesis
    by (simp add: status_pass_def ex_status_env_def pre locked ex_claimed_fields enqueue_terminal_status_def
        enqueue_for_job_def ex_failed_def Let_def)
qed

lemma ex_run_failed: "(manager_step ex_platform ex_settings)\<^sup>*\<^sup>* ex_empty ex_failed"
proof -
  have "manager_step ex_platform ex_settings ex_claimed ex_failed"
    by (rule report [OF _ ex_failure_valid ex_failure_pass]) (simp add: ex_status_env_def)
  then show ?thesis using ex_run_claimed by simp
qed

section \<open>Cancelling the queued job\<close>

definition ex_cancelled :: ledger where
  "ex_cancelled = snd (cancel_job 500000 Committed ''j1'' ex_user ex_ledger)"

lemma ex_owned: "owned_job ''j1'' ex_user ex_ledger = Inr ex_job"
  by (simp add: owned_job_Inr ex_ledger_def ex_job_def ex_experiment_def ex_user_def)

lemma ex_cancel:
  "cancel_job 500000 Committed ''j1'' ex_user ex_ledger = (Inr (orm_job (cancelled_job 500000) ex_job), ex_cancelled)"
  by (simp add: ex_cancelled_def cancel_job_def ex_owned Let_def commit_or_raise_def) (simp add: ex_job_def)

lemma ex_run_cancelled: "(manager_step ex_platform ex_settings)\<^sup>*\<^sup>* ex_empty ex_cancelled"
  using ex_run manager_step.cancel [OF ex_cancel] by (rule rtranclp.rtrancl_into_rtrancl)

end
