(* ===== verification/Example_Requests.thy ===== *)
theory Example_Requests
  imports Example_Run
begin

text \<open>
  Further requests of the examples: the worker rotates its token while it is idle, its token is revoked
  while it executes the job, and it sends its telemetry again.
\<close>

section \<open>Rotation\<close>

definition ex_prepared :: ledger where
  "ex_prepared = snd (prepare_token_rotation ex_platform ex_settings 10000000 ''t1'' Committed ex_worker ''r1'' ex_ledger)"

definition ex_preparing :: worker_row where
  "ex_preparing = orm_worker (rotation_prepared ex_platform ex_settings 10000000 ''r1'' ''t1'') ex_worker"

definition ex_rotated :: ledger where
  "ex_rotated = snd (activate_token_rotation ex_platform ex_settings 20000000 Committed ex_preparing ''r1'' (Some ''t1'') ex_prepared)"

lemma ex_worker_row: "get_worker_row ''w1'' ex_ledger = Some ex_worker" "w_id ex_worker = ''w1''"
  "w_is_active ex_worker" "w_current_job_id ex_worker = None" "w_pending_token_hash ex_worker = None"
  "unreleased_leases ''w1'' ex_ledger = []"
  by (simp_all add: ex_ledger_def ex_worker_def unreleased_leases_def)

lemma ex_no_conflict: "worker_commit r c ex_ledger = c" if "w_id r = ''w1''"
  using that by (simp add: worker_commit_def worker_conflict_def ex_ledger_def ex_worker_def)

lemma ex_prepare_step: "manager_step ex_platform ex_settings ex_ledger ex_prepared"
  unfolding ex_prepared_def by (rule manager_step.prepare) (rule prod.collapse [symmetric])

lemma ex_prepared_ok: "ledger_ok ex_prepared"
  using manager_step_ledger_ok [OF ex_prepare_step ex_ledgers_ok(1)] .

lemma ex_prepared_tables: "workers ex_prepared = [ex_preparing]" "job_leases ex_prepared = []"
proof -
  have "rotation_boundary ex_worker ex_ledger = Inr (ex_worker, [])"
    using ex_worker_row by (simp add: rotation_boundary_def lock_worker_token_rotation_boundary_def)
  then show "workers ex_prepared = [ex_preparing]" "job_leases ex_prepared = []"
    using ex_worker_row ex_no_conflict
    by (simp_all add: ex_prepared_def prepare_token_rotation_def require_rotation_idle_def Let_def ex_preparing_def)
      (simp_all add: ex_ledger_def ex_worker_def)
qed

lemma ex_preparing_fields:
  "w_id ex_preparing = ''w1''" "w_is_active ex_preparing" "w_current_job_id ex_preparing = None"
  "w_token_rotation_id ex_preparing = Some ''r1''" "w_token_hash ex_preparing = ''p:t0''"
  "w_pending_token_hash ex_preparing = Some (hash_worker_token ex_platform ex_settings ''t1'')"
  "w_token_rotation_expires_at ex_preparing = Some 610000000"
  by (simp_all add: ex_preparing_def rotation_prepared_def ex_worker_def ex_settings_def)

lemma ex_activate:
  "\<exists>r. activate_token_rotation ex_platform ex_settings 20000000 Committed ex_preparing ''r1'' (Some ''t1'') ex_prepared =
     (Inr r, ex_rotated)"
proof -
  have "rotation_boundary ex_preparing ex_prepared = Inr (ex_preparing, [])"
    by (simp add: rotation_boundary_def lock_worker_token_rotation_boundary_def unreleased_leases_def
        ex_prepared_tables ex_preparing_fields)
  moreover have "worker_commit (rotation_activated 20000000 ex_preparing) Committed ex_prepared = Committed"
    by (simp add: worker_commit_def worker_conflict_def ex_prepared_tables)
  ultimately show ?thesis
    by (simp add: ex_rotated_def activate_token_rotation_def require_rotation_idle_def ex_preparing_fields)
qed

section \<open>Revocation\<close>

definition ex_revocation :: worker_token_revoke_request where
  "ex_revocation = \<lparr>rv_expected_worker_name = ''worker'', rv_reason_code = ''compromised'', rv_force_cancel_active = True\<rparr>"

definition ex_revoke_env :: revoke_env where
  "ex_revoke_env = \<lparr>rv_ledger = ex_claimed, rv_now = 5000000, rv_raw_token = ''dead'', rv_event_ids = id,
     rv_commit = Committed\<rparr>"

lemma ex_claimed_leases: "unreleased_leases ''w1'' ex_claimed = [ex_lease]"
  by (simp add: unreleased_leases_def ex_claimed_tables ex_claimed_fields)

lemma ex_revoke:
  "\<exists>r d'. revoke_pass ex_platform ex_settings ''admin'' ''w1'' ex_revocation ex_revoke_env = Revoke_answered (Inr r) d'"
proof -
  have "\<not> mlflow_enabled ex_settings" by (simp add: ex_settings_def)
  then obtain d1 where d1: "revoke_lease ex_platform ex_settings 5000000 ''l1'' ''w1'' ex_lease ex_claimed = Inr d1"
    by (auto simp: revoke_lease_def ex_claimed_rows ex_claimed_fields enqueue_terminal_status_def enqueue_for_job_def)
  have "w_name ex_claimed_worker = ''worker''"
    by (simp add: ex_claimed_worker_def claimed_worker_def ex_worker_def)
  moreover have "worker_commit (revoked_worker ex_platform ex_settings 5000000 ''dead'' ex_claimed_worker) Committed
      ex_claimed = Committed"
    by (simp add: worker_commit_def worker_conflict_def ex_claimed_tables ex_claimed_seat)
      (simp add: ex_worker_def claimed_worker_def)
  ultimately show ?thesis
    using d1 by (simp add: revoke_pass_def ex_revoke_env_def ex_revocation_def ex_claimed_rows ex_claimed_leases
        ex_claimed_seat ex_claimed_fields truthy_def Let_def)
qed

section \<open>Telemetry that is sent again\<close>

lemma ex_logged_tables:
  "jobs ex_logged = jobs ex_claimed" "job_leases ex_logged = job_leases ex_claimed"
  "job_attempts ex_logged = job_attempts ex_claimed" "workers ex_logged = workers ex_claimed"
proof -
  from ex_ingest have "jobs ex_logged = jobs ex_claimed \<and> job_leases ex_logged = job_leases ex_claimed \<and>
    job_attempts ex_logged = job_attempts ex_claimed \<and> workers ex_logged = workers ex_claimed"
  proof (cases rule: ingest_logs_cases)
    case (stored l j a late fingerprint new_entries)
    show ?thesis unfolding stored(8) by simp
  next
    case raced
    show ?thesis unfolding raced(1) by (simp add: ex_ingest_env_def)
  qed simp
  then show "jobs ex_logged = jobs ex_claimed" "job_leases ex_logged = job_leases ex_claimed"
    "job_attempts ex_logged = job_attempts ex_claimed" "workers ex_logged = workers ex_claimed" by simp_all
qed

lemma ex_logged_claim:
  "lock_telemetry_claim ex_platform 2000000 ''w1'' ''j1'' ''l1'' ''a1'' ty ns ex_logged =
     Inr (ex_lease, ex_claimed_job, ex_attempt, False)"
proof -
  have "lock_telemetry_claim ex_platform 2000000 ''w1'' ''j1'' ''l1'' ''a1'' ty ns ex_logged =
      lock_telemetry_claim ex_platform 2000000 ''w1'' ''j1'' ''l1'' ''a1'' ty ns ex_claimed"
    unfolding lock_telemetry_claim_def ex_logged_tables by (rule refl)
  then show ?thesis using ex_telemetry_claim by simp
qed

lemma ex_measured_tables:
  "job_leases ex_measured = job_leases ex_claimed" "job_attempts ex_measured = job_attempts ex_claimed"
  "workers ex_measured = workers ex_claimed"
proof -
  from ex_ingest_metrics have "job_leases ex_measured = job_leases ex_claimed \<and>
    job_attempts ex_measured = job_attempts ex_claimed \<and> workers ex_measured = workers ex_claimed"
  proof (cases rule: ingest_metrics_cases)
    case (stored l j a late f incoming new k)
    show ?thesis using stored_metrics_tables [OF stored(9)] by blast
  next
    case raced
    show ?thesis unfolding raced(1) by (simp add: ex_ingest_env_def)
  qed simp
  then show "job_leases ex_measured = job_leases ex_claimed" "job_attempts ex_measured = job_attempts ex_claimed"
    "workers ex_measured = workers ex_claimed" by simp_all
qed

lemma ex_measured_claim:
  "lock_telemetry_claim ex_platform 2000000 ''w1'' ''j1'' ''l1'' ''a1'' ty ns ex_measured =
     Inr (ex_lease, orm_job (project_epoch False [3]) ex_claimed_job, ex_attempt, False)"
proof -
  let ?j = "orm_job (project_epoch False [3]) ex_claimed_job"
  have j: "get_job ''j1'' ex_measured = Some ?j"
    by (simp add: ex_metric_job ex_claimed_fields)
  have rows: "get_attempt ''a1'' ex_measured = Some ex_attempt" "get_worker_row ''w1'' ex_measured = Some ex_claimed_worker"
    unfolding ex_measured_tables by (rule ex_claimed_rows)+
  have "same_snapshot ?j ex_job" by (simp add: same_snapshot_def project_epoch_def ex_claimed_job_def claimed_job_def ex_job_def)
  then have v: "validated_job_config ex_platform ?j (Some ex_attempt) = Some ex_config"
    using ex_validated(2) [of ?j ex_attempt] by (simp add: ex_attempt_def claimed_attempt_def ex_job_def)
  let ?p = "project_epoch False [3] ex_claimed_job"
  have f: "j_worker_id ?p = Some ''w1''" "j_current_attempt_id ?p = Some ''a1''" "j_status ?p = ASSIGNED"
    by (simp_all add: project_epoch_def ex_claimed_fields)
  show ?thesis
    using v by (simp add: lock_telemetry_claim_def Let_def j f rows ex_measured_tables(1)
        ex_claimed_tables(3) ex_claimed_fields ex_claimed_seat)
qed

section \<open>Cancelling the running job\<close>

definition ex_stopping_job :: job_row where
  "ex_stopping_job = orm_job (cancelled_job 4000000) ex_claimed_job"

definition ex_stopping :: ledger where
  "ex_stopping = snd (cancel_job 4000000 Committed ''j1'' ex_user ex_claimed)"

definition ex_beat :: worker_heartbeat_request where
  "ex_beat = \<lparr>hb_status = BUSY, hb_capabilities = ex_capabilities, hb_current_job_id = Some ''j1'',
     hb_current_lease_id = Some ''l1''\<rparr>"

lemma ex_owned_running: "owned_job ''j1'' ex_user ex_claimed = Inr ex_claimed_job"
  using ex_claimed_rows(2)
  by (simp add: owned_job_Inr) (simp add: ex_claimed_job_def claimed_job_def ex_job_def ex_claimed_tables ex_experiment_def ex_user_def)

lemma ex_stop: "cancel_job 4000000 Committed ''j1'' ex_user ex_claimed = (Inr ex_stopping_job, ex_stopping)"
  by (simp add: ex_stopping_def cancel_job_def ex_owned_running commit_or_raise_def ex_claimed_fields ex_stopping_job_def)

lemma ex_stopping_tables:
  "jobs ex_stopping = [ex_stopping_job]" "job_leases ex_stopping = [ex_lease]" "job_attempts ex_stopping = [ex_attempt]"
  "workers ex_stopping = [ex_claimed_worker]"
  by (simp_all add: ex_stopping_def cancel_job_def ex_owned_running commit_or_raise_def ex_claimed_fields
      ex_claimed_tables ex_stopping_job_def ex_claimed_worker_def)

lemma ex_stopping_fields:
  "j_id ex_stopping_job = ''j1''" "j_status ex_stopping_job = ASSIGNED" "j_worker_id ex_stopping_job = Some ''w1''"
  "j_current_attempt_id ex_stopping_job = Some ''a1''" "j_cancel_requested_at ex_stopping_job = Some 4000000"
  by (simp_all add: ex_stopping_job_def cancelled_job_def ex_claimed_fields)

lemma ex_stopping_quiet: "recover_expired_leases ex_platform ex_settings 5000000 100 ex_stopping = (Inr 0, ex_stopping)"
  by (simp add: recover_expired_leases_def expired_leases_def ex_stopping_tables ex_claimed_fields)

lemma ex_stopping_valid: "validated_job_config ex_platform ex_stopping_job (Some ex_attempt) = Some ex_config"
  by (rule ex_validated)
    (simp_all add: same_snapshot_def ex_stopping_job_def cancelled_job_def ex_claimed_job_def claimed_job_def
      ex_job_def ex_attempt_def claimed_attempt_def)

lemma ex_heartbeat:
  "\<exists>resp d'. heartbeat ex_platform ex_settings 5000000 5000000 Committed ex_claimed_worker ex_beat ex_stopping = (Inr resp, d')"
proof -
  have "get_lease ''l1'' ex_stopping = Some ex_lease" "get_job ''j1'' ex_stopping = Some ex_stopping_job"
    "get_attempt ''a1'' ex_stopping = Some ex_attempt" "get_worker_row ''w1'' ex_stopping = Some ex_claimed_worker"
    by (simp_all add: ex_stopping_tables ex_claimed_fields ex_claimed_seat ex_stopping_fields)
  then show ?thesis
    using ex_stopping_valid
    by (simp add: heartbeat_def ex_stopping_quiet ex_beat_def truthy_def Let_def ex_claimed_fields ex_claimed_seat
        ex_stopping_fields heartbeat_lost_def)
qed

section \<open>Retrying the failed job\<close>

definition ex_failed_job :: job_row where
  "ex_failed_job = orm_job (updated_job 3000000 ex_failure FAILED) ex_claimed_job"

lemma ex_failed_rows:
  "get_job ''j1'' ex_failed = Some ex_failed_job"
  "get_attempt ''a1'' ex_failed = Some (updated_attempt 3000000 ex_failure FAILED ex_attempt)"
  "experiments ex_failed = [ex_experiment]"
  by (simp_all add: ex_failed_def write_status_def ex_claimed_fields ex_claimed_tables ex_failed_job_def)

lemma ex_failed_fields: "j_status ex_failed_job = FAILED" "j_current_attempt_id ex_failed_job = Some ''a1''"
  "j_experiment_id ex_failed_job = ''exp-1''" "j_id ex_failed_job = ''j1''"
  by (simp_all add: ex_failed_job_def updated_job_def ex_claimed_fields)
    (simp add: ex_claimed_job_def claimed_job_def ex_job_def)

lemma ex_failed_valid:
  "validated_job_config ex_platform ex_failed_job (Some (updated_attempt 3000000 ex_failure FAILED ex_attempt)) = Some ex_config"
  by (rule ex_validated)
    (simp_all add: same_snapshot_def ex_failed_job_def updated_job_def ex_claimed_job_def claimed_job_def
      ex_job_def ex_attempt_def claimed_attempt_def updated_attempt_def)

lemma ex_retry:
  "\<exists>d'. retry_job ex_platform 6000000 Committed ''j1'' ex_user ex_failed = (Inr (orm_job requeued ex_failed_job), d')"
proof -
  have "owned_job ''j1'' ex_user ex_failed = Inr ex_failed_job"
    using ex_failed_rows(1)
    by (simp add: owned_job_Inr ex_failed_fields ex_failed_rows(3)) (simp add: ex_experiment_def ex_user_def)
  then show ?thesis
    using ex_failed_valid ex_failed_rows by (simp add: retry_job_def ex_failed_fields commit_or_raise_def)
qed

lemma ex_failed_ok: "ledger_ok ex_failed"
  by (rule manager.reachable_inv [OF ex_fresh ex_run_failed])

end
