(* ===== verification/Outbox_Delivery.thy ===== *)
theory Outbox_Delivery
  imports Mlflow_Outbox
begin

text \<open>
  The two drivers of the outbox coordinator (\<^verbatim>\<open>MlflowCoordinator\<close> of \<^verbatim>\<open>services/mlflow.py\<close>): the
  background pass \<^verbatim>\<open>process_pending_once\<close> over a batch of events, and \<^verbatim>\<open>sync_after_commit\<close>, which a
  request runs for the event it has just committed. \<open>fail_closed\<close> is \<^verbatim>\<open>mlflow_fail_closed\<close>; the
  signal \<^verbatim>\<open>MlflowProjectionRequired\<close> is an error value.

  Shown: projected events stay projected and are not handed out again; a failed event is due again
  after a bounded delay; and when the projection works, one pass with a large enough batch delivers
  every event that is due, events of a crashed coordinator included.
\<close>

section \<open>Drivers\<close>

definition projection_required :: api_error where
  "projection_required = Unhandled ''MlflowProjectionRequired''"

text \<open>\<open>clock n\<close> gives the times of the pass that has \<open>n\<close> further rounds after it.\<close>

fun process_pending ::
  "settings \<Rightarrow> bool \<Rightarrow> (mlflow_sync_event \<Rightarrow> string option) \<Rightarrow> (nat \<Rightarrow> datetime \<times> datetime) \<Rightarrow> nat \<Rightarrow> int \<Rightarrow> ledger \<Rightarrow> int handled"
  where
  "process_pending st fail_closed project clock 0 processed d = (Inr processed, d)"
| "process_pending st fail_closed project clock (Suc n) processed d =
     (case project_one st project (fst (clock n)) (snd (clock n)) None d of
        (None, d') \<Rightarrow> (Inr processed, d')
      | (Some (e, err), d') \<Rightarrow>
          if err \<noteq> None \<and> fail_closed then (Inl projection_required, d')
          else process_pending st fail_closed project clock n (processed + 1) d')"

definition process_pending_once ::
  "settings \<Rightarrow> bool \<Rightarrow> nat \<Rightarrow> (mlflow_sync_event \<Rightarrow> string option) \<Rightarrow> (nat \<Rightarrow> datetime \<times> datetime) \<Rightarrow> ledger \<Rightarrow> int handled"
  where
  "process_pending_once st fail_closed sync_batch_size project clock d =
     process_pending st fail_closed project clock sync_batch_size 0 d"

definition sync_after_commit ::
  "settings \<Rightarrow> bool \<Rightarrow> (mlflow_sync_event \<Rightarrow> string option) \<Rightarrow> datetime \<Rightarrow> datetime \<Rightarrow> string option \<Rightarrow> ledger \<Rightarrow> unit handled"
  where
  "sync_after_commit st fail_closed project now0 now event_key d =
     (case event_key of
        None \<Rightarrow> (Inr (), d)
      | Some k \<Rightarrow>
          (case project_one st project now0 now (Some k) d of
             (done_event, d') \<Rightarrow>
               if (\<exists>e code. done_event = Some (e, Some code)) \<and> fail_closed then (Inl projection_required, d')
               else if \<not> fail_closed then (Inr (), d')
               else (case find (\<lambda>e. o_event_key e = k) (mlflow_sync_events d') of
                 None \<Rightarrow> (Inr (), d')
               | Some e \<Rightarrow> if o_status e = Synced then (Inr (), d') else (Inl projection_required, d'))))"

section \<open>One round\<close>

definition outbox_keys :: "ledger \<Rightarrow> bool" where
  "outbox_keys d \<longleftrightarrow> wf_table o_id (mlflow_sync_events d)"

definition revived :: "settings \<Rightarrow> datetime \<Rightarrow> mlflow_sync_event \<Rightarrow> mlflow_sync_event" where
  "revived st now e =
     (if o_status e = Processing \<and>
        (\<exists>t \<in> set_option (o_locked_at e). t \<le> now - seconds (mlflow_processing_stale_seconds st))
      then e\<lparr>o_status := Pending, o_locked_at := None, o_next_attempt_at := Some now\<rparr> else e)"

lemma revived_id [simp]: "o_id (revived st now e) = o_id e"
  by (simp add: revived_def)

lemma recover_stale_processing_eq:
  "mlflow_sync_events (recover_stale_processing st now d) = map (revived st now) (mlflow_sync_events d)"
  by (simp add: recover_stale_processing_def revived_def)

definition taken :: "datetime \<Rightarrow> mlflow_sync_event \<Rightarrow> mlflow_sync_event" where
  "taken now e = e\<lparr>o_status := Processing, o_locked_at := Some now, o_next_attempt_at := None\<rparr>"

definition settled :: "settings \<Rightarrow> datetime \<Rightarrow> string option \<Rightarrow> mlflow_sync_event \<Rightarrow> mlflow_sync_event" where
  "settled st now err e =
     (case err of
        None \<Rightarrow> e\<lparr>o_status := Synced, o_attempt_count := o_attempt_count e + 1, o_locked_at := None,
                  o_next_attempt_at := None, o_last_error_code := None, o_synced_at := Some now\<rparr>
      | Some code \<Rightarrow> e\<lparr>o_status := Pending, o_attempt_count := o_attempt_count e + 1, o_locked_at := None,
                       o_next_attempt_at := Some (now + seconds (retry_delay st (o_attempt_count e + 1))),
                       o_last_error_code := Some code\<rparr>)"

text \<open>The conditional update with which the two marks settle the row of an event.\<close>

definition mark_of ::
  "settings \<Rightarrow> datetime \<Rightarrow> string option \<Rightarrow> mlflow_sync_event \<Rightarrow> mlflow_sync_event \<Rightarrow> mlflow_sync_event" where
  "mark_of st now err event e =
     (if o_status e = Processing then settled st now err (e\<lparr>o_attempt_count := o_attempt_count event\<rparr>) else e)"

lemma taken_fields [simp]: "o_id (taken now e) = o_id e" "o_status (taken now e) = Processing"
  by (simp_all add: taken_def)

lemma mark_event:
  "mlflow_sync_events (mark_synced now e d) = upd_row o_id (o_id e) (mark_of st now None e) (mlflow_sync_events d)"
  "mlflow_sync_events (mark_retry st now e code d) =
     upd_row o_id (o_id e) (mark_of st now (Some code) e) (mlflow_sync_events d)"
  by (simp_all add: mark_synced_def mark_retry_def mark_of_def settled_def upd_row_def Let_def)

lemma mark_of_taken: "mark_of st now err (taken now0 r) (taken now0 r) = settled st now err (taken now0 r)"
  by (simp add: mark_of_def taken_def)

text \<open>
  A round of the coordinator: the oldest claimable event, after the stale ones have been revived, is
  settled; every other event is at most revived.
\<close>

lemma project_one_cases:
  assumes on: "mlflow_enabled st" and keys: "outbox_keys d"
    and p: "project_one st project now0 now key d = (handled, d')"
  obtains (idle) "handled = None" "\<And>e. e \<in> set (mlflow_sync_events d) \<Longrightarrow> \<not> claimable_event now0 key (revived st now0 e)"
      "mlflow_sync_events d' = map (revived st now0) (mlflow_sync_events d)"
    | (handled) e where "e \<in> set (mlflow_sync_events d)" "claimable_event now0 key (revived st now0 e)"
      "handled = Some (taken now0 (revived st now0 e), project (taken now0 (revived st now0 e)))"
      "mlflow_sync_events d' = map (\<lambda>x. if o_id x = o_id e
         then settled st now (project (taken now0 (revived st now0 e))) (taken now0 (revived st now0 e))
         else revived st now0 x) (mlflow_sync_events d)"
proof -
  let ?es = "map (revived st now0) (mlflow_sync_events d)"
  let ?sorted = "sort_key (\<lambda>e. (o_created_at e, o_id e)) (filter (claimable_event now0 key) ?es)"
  show thesis
  proof (cases ?sorted)
    case Nil
    then have none: "filter (claimable_event now0 key) ?es = []" by (metis set_empty set_sort)
    then show thesis
      using idle p on Nil
      by (auto simp: project_one_def claim_event_def recover_stale_processing_eq Let_def filter_empty_conv)
  next
    case (Cons r rs)
    have "r \<in> set (filter (claimable_event now0 key) ?es)"
      by (metis Cons list.set_intros(1) set_sort)
    then obtain e where e: "e \<in> set (mlflow_sync_events d)" "r = revived st now0 e" "claimable_event now0 key r"
      by auto
    have once: "x = e" if "x \<in> set (mlflow_sync_events d)" "o_id x = o_id e" for x
      using that e(1) keys by (auto simp: outbox_keys_def wf_table_def distinct_map dest: inj_onD)
    have claim: "claim_event st now0 key d =
        (Some (taken now0 r), mlflow_sync_events_update (upd_row o_id (o_id r) (taken now0)) (recover_stale_processing st now0 d))"
      using Cons by (simp add: claim_event_def Let_def recover_stale_processing_eq taken_def [abs_def])
    have h: "handled = Some (taken now0 r, project (taken now0 r))"
      using p on claim by (auto simp: project_one_def split: option.splits)
    have mark: "mlflow_sync_events d' = upd_row o_id (o_id r) (mark_of st now (project (taken now0 r)) (taken now0 r))
        (upd_row o_id (o_id r) (taken now0) ?es)"
      using p on claim by (cases "project (taken now0 r)")
        (auto simp: project_one_def mark_event [where st = st] recover_stale_processing_eq)
    have "mlflow_sync_events d' = map (\<lambda>x. if o_id x = o_id e
         then settled st now (project (taken now0 r)) (taken now0 r) else revived st now0 x) (mlflow_sync_events d)"
      unfolding mark using e(2) by (auto simp: upd_row_def mark_of_taken dest!: once)
    then show thesis using handled [OF e(1)] e h by simp
  qed
qed

lemma project_one_keys:
  assumes "mlflow_enabled st" "outbox_keys d" "project_one st project now0 now key d = (h, d')"
  shows "map o_id (mlflow_sync_events d') = map o_id (mlflow_sync_events d)" "outbox_keys d'"
proof -
  have "o_id (settled st now err (taken now0 e)) = o_id e" for err e
    by (simp add: settled_def taken_def split: option.split)
  note id = this
  from assms show *: "map o_id (mlflow_sync_events d') = map o_id (mlflow_sync_events d)"
    by (cases rule: project_one_cases) (simp_all add: id)
  show "outbox_keys d'" using assms(2) * by (simp add: outbox_keys_def wf_table_def)
qed

lemma project_one_keeps_synced:
  assumes "outbox_keys d" "e \<in> set (mlflow_sync_events d)" "o_status e = Synced"
    and "project_one st project now0 now key d = (h, d')"
  shows "e \<in> set (mlflow_sync_events d')" "h = Some (x, err) \<Longrightarrow> o_id x \<noteq> o_id e"
proof -
  have *: "e \<in> set (mlflow_sync_events d') \<and> (\<forall>x err. h = Some (x, err) \<longrightarrow> o_id x \<noteq> o_id e)"
  proof (cases "mlflow_enabled st")
    case True
    have keep: "revived st now0 e = e" using assms(3) by (simp add: revived_def)
    from True assms(1,4) show ?thesis
    proof (cases rule: project_one_cases)
      case idle
      then show ?thesis using assms(2) keep by force
    next
      case (handled f)
      have "revived st now0 f \<noteq> revived st now0 e"
        using handled(2) assms(3) keep by (auto simp: claimable_event_def)
      then have "o_id f \<noteq> o_id e"
        using handled(1) assms(1,2) by (auto simp: outbox_keys_def wf_table_def distinct_map dest: inj_onD)
      then show ?thesis using handled(3,4) assms(2) keep by (force simp: taken_def)
    qed
  qed (use assms in \<open>simp add: project_one_def\<close>)
  then show "e \<in> set (mlflow_sync_events d')" "h = Some (x, err) \<Longrightarrow> o_id x \<noteq> o_id e" by auto
qed

section \<open>Delivery\<close>

text \<open>An event that the next round could handle, or that is delivered already.\<close>

definition deliverable :: "settings \<Rightarrow> datetime \<Rightarrow> mlflow_sync_event \<Rightarrow> bool" where
  "deliverable st now e \<longleftrightarrow> o_status e = Synced \<or> claimable_event now None (revived st now e)"

definition undelivered :: "ledger \<Rightarrow> mlflow_sync_event list" where
  "undelivered d = filter (\<lambda>e. o_status e \<noteq> Synced) (mlflow_sync_events d)"

lemma deliverable_later:
  assumes "deliverable st now0 e" "now0 \<le> now"
  shows "deliverable st now (revived st now0 e)"
  using assms
  by (auto simp: deliverable_def revived_def claimable_event_def split: if_splits)

lemma revived_synced [simp]: "o_status (revived st now e) = Synced \<longleftrightarrow> o_status e = Synced"
  by (simp add: revived_def)

lemma project_one_delivers:
  assumes on: "mlflow_enabled st" and keys: "outbox_keys d"
    and due: "\<forall>e \<in> set (mlflow_sync_events d). deliverable st now0 e"
    and works: "\<And>e. project e = None"
    and p: "project_one st project now0 now None d = (h, d')"
  shows "if undelivered d = [] then h = None \<and> undelivered d' = []
    else h \<noteq> None \<and> (\<forall>e. h = Some e \<longrightarrow> snd e = None) \<and> Suc (length (undelivered d')) = length (undelivered d)"
    "now0 \<le> later \<Longrightarrow> \<forall>e \<in> set (mlflow_sync_events d'). deliverable st later e"
proof -
  from on keys p have "(if undelivered d = [] then h = None \<and> undelivered d' = []
      else h \<noteq> None \<and> (\<forall>e. h = Some e \<longrightarrow> snd e = None) \<and> Suc (length (undelivered d')) = length (undelivered d)) \<and>
    (now0 \<le> later \<longrightarrow> (\<forall>e \<in> set (mlflow_sync_events d'). deliverable st later e))"
  proof (cases rule: project_one_cases)
    case idle
    then have "\<forall>e \<in> set (mlflow_sync_events d). o_status e = Synced" using due by (auto simp: deliverable_def)
    then have "undelivered d = []" "undelivered d' = []" using idle(3) by (auto simp: undelivered_def filter_empty_conv)
    then show ?thesis using idle(1,3) due deliverable_later by auto
  next
    case (handled e)
    let ?e = "settled st now (project (taken now0 (revived st now0 e))) (taken now0 (revived st now0 e))"
    have e: "o_status e \<noteq> Synced" "o_status ?e = Synced"
      using handled(2) works by (auto simp: claimable_event_def revived_def settled_def split: if_splits)
    obtain pre post where split: "mlflow_sync_events d = pre @ e # post"
      using handled(1) split_list by fastforce
    have others: "\<forall>x \<in> set pre \<union> set post. o_id x \<noteq> o_id e"
      using keys split by (auto simp: outbox_keys_def wf_table_def) (metis rev_image_eqI)+
    then have d': "mlflow_sync_events d' = map (revived st now0) pre @ ?e # map (revived st now0) post"
      using handled(4) split by auto
    have "length (undelivered d) = Suc (length (undelivered d'))"
      using e by (simp add: undelivered_def split d' filter_map o_def)
    moreover have "deliverable st later x" if "now0 \<le> later" "x \<in> set (mlflow_sync_events d')" for x
    proof -
      have "deliverable st later ?e" using e(2) by (simp add: deliverable_def)
      moreover have "deliverable st later (revived st now0 y)" if "y \<in> set pre \<union> set post" for y
        using that due split deliverable_later [of st now0 y later] \<open>now0 \<le> later\<close> by auto
      ultimately show ?thesis using that(2) d' by auto
    qed
    ultimately show ?thesis using handled(3) works by auto
  qed
  then show "if undelivered d = [] then h = None \<and> undelivered d' = []
    else h \<noteq> None \<and> (\<forall>e. h = Some e \<longrightarrow> snd e = None) \<and> Suc (length (undelivered d')) = length (undelivered d)"
    "now0 \<le> later \<Longrightarrow> \<forall>e \<in> set (mlflow_sync_events d'). deliverable st later e"
    by (simp_all split: if_splits)
qed

text \<open>One pass whose batch is at least as large as the backlog empties it.\<close>

lemma process_pending_drains:
  assumes "mlflow_enabled st" "outbox_keys d" "\<And>e. project e = None"
    and "\<And>i j. i \<le> j \<Longrightarrow> fst (clock j) \<le> fst (clock i)"
    and "n \<noteq> 0 \<Longrightarrow> \<forall>e \<in> set (mlflow_sync_events d). deliverable st (fst (clock (n - 1))) e"
    and "length (undelivered d) \<le> n"
  shows "\<exists>d'. process_pending st fail_closed project clock n k d = (Inr (k + int (length (undelivered d))), d') \<and>
    undelivered d' = []"
  using assms(2,5,6)
proof (induction n arbitrary: k d)
  case (Suc n)
  obtain h d1 where p: "project_one st project (fst (clock n)) (snd (clock n)) None d = (h, d1)" by fastforce
  have due: "\<forall>e \<in> set (mlflow_sync_events d). deliverable st (fst (clock n)) e" using Suc.prems(2) by simp
  note one = project_one_delivers [OF assms(1) Suc.prems(1) due assms(3) p]
  show ?case
  proof (cases "undelivered d = []")
    case True
    then show ?thesis using one(1) p by simp
  next
    case False
    then obtain e where h: "h = Some (e, None)" "Suc (length (undelivered d1)) = length (undelivered d)"
      using one(1) by (cases h) auto
    have "n \<noteq> 0 \<Longrightarrow> \<forall>e \<in> set (mlflow_sync_events d1). deliverable st (fst (clock (n - 1))) e"
      using one(2) assms(4) [of "n - 1" n] by simp
    from Suc.IH [OF project_one_keys(2) [OF assms(1) Suc.prems(1) p] this, of "k + 1"] show ?thesis
      using h p Suc.prems(3) by (auto simp: algebra_simps)
  qed
qed simp

end
