(* ===== verification/Example_Outbox.thy ===== *)
theory Example_Outbox
  imports Example_Run Outbox_Delivery
begin

text \<open>
  An outbox of three events on which the coordinator is exercised: one delivered, one pending, and one
  that a crashed coordinator left in processing.
\<close>

section \<open>An outbox with a delivered, a pending and an abandoned event\<close>

definition ex_outbox_settings :: settings where
  "ex_outbox_settings = ex_settings\<lparr>mlflow_enabled := True\<rparr>"

definition ex_event :: "string \<Rightarrow> outbox_status \<Rightarrow> datetime \<Rightarrow> mlflow_sync_event" where
  "ex_event i s t = \<lparr>o_id = i, o_event_key = ''k'' @ tl i, o_event_type = ''job.created'', o_aggregate_type = ''job'',
     o_aggregate_id = ''j1'', o_status = s, o_attempt_count = 0, o_next_attempt_at = None,
     o_locked_at = (if s = Processing then Some t else None), o_last_error_code = None, o_synced_at = None,
     o_created_at = 0\<rparr>"

definition ex_outbox :: ledger where
  "ex_outbox = ex_ledger\<lparr>mlflow_sync_events :=
     [ex_event ''o1'' Synced 0, ex_event ''o2'' Pending 0, ex_event ''o3'' Processing 1000000]\<rparr>"

lemma ex_outbox_keys: "outbox_keys ex_outbox"
  by (simp add: outbox_keys_def wf_table_def ex_outbox_def ex_event_def)

lemma ex_outbox_fails:
  "\<exists>e d'. project_one ex_outbox_settings (\<lambda>_. Some ''down'') 70000000 71000000 (Some ''k2'') ex_outbox =
     (Some (e, Some ''down''), d')"
proof -
  obtain h d' where p: "project_one ex_outbox_settings (\<lambda>_. Some ''down'') 70000000 71000000 (Some ''k2'') ex_outbox = (h, d')"
    by fastforce
  have on: "mlflow_enabled ex_outbox_settings" by (simp add: ex_outbox_settings_def)
  have mem: "ex_event ''o2'' Pending 0 \<in> set (mlflow_sync_events ex_outbox)"
    and due: "claimable_event 70000000 (Some ''k2'') (revived ex_outbox_settings 70000000 (ex_event ''o2'' Pending 0))"
    by (simp_all add: ex_outbox_def claimable_event_def ex_event_def revived_def)
  from on ex_outbox_keys p show ?thesis
    by (cases rule: project_one_cases) (use p mem due in auto)
qed

end
