(* ===== verification/Artifact_Binding.thy ===== *)
theory Artifact_Binding
  imports Ledger
begin

text \<open>
  The binding of an artifact row to the upload session that produced it, and the re-reading of the
  stored object (\<^verbatim>\<open>services/samples.py\<close>, \<^verbatim>\<open>services/artifacts.py\<close>). The object store is the record
  of the claim with one more function, which tells the errors of reading apart; the temporary file a
  verification spools to and the clock of the event loop are arguments.
\<close>

section \<open>Objects of the store\<close>

fun artifact_type_value :: "artifact_type \<Rightarrow> string" where
  "artifact_type_value FINAL_SMALL_MODEL = ''final_small_model''"
| "artifact_type_value FINAL_INDEX = ''final_index''"
| "artifact_type_value TOTAL_FEATURES = ''total_features''"
| "artifact_type_value GENERATOR_CHECKPOINT = ''generator_checkpoint''"
| "artifact_type_value DISCRIMINATOR_CHECKPOINT = ''discriminator_checkpoint''"
| "artifact_type_value TRAIN_LOG = ''train_log''"
| "artifact_type_value TENSORBOARD = ''tensorboard''"
| "artifact_type_value SAMPLE = ''sample''"
| "artifact_type_value ENVIRONMENT = ''environment''"
| "artifact_type_value CONFIG = ''config''"
| "artifact_type_value DATASET_REPORT = ''dataset_report''"

fun storage_backend_value :: "storage_backend \<Rightarrow> string" where
  "storage_backend_value Local = ''local''"
| "storage_backend_value S3 = ''s3''"

definition canonical_object_key :: "ident \<Rightarrow> ident \<Rightarrow> artifact_type \<Rightarrow> ident \<Rightarrow> string" where
  "canonical_object_key job_id attempt_id ty upload_id =
     ''artifacts/verified/'' @ job_id @ ''/'' @ attempt_id @ ''/'' @ artifact_type_value ty @ ''/'' @
     upload_id"

text \<open>
  What iterating \<^verbatim>\<open>stream_object(key, chunk_size, max_bytes)\<close> gives: the chunks, or the exception
  that ends it.
\<close>

datatype object_stream = Chunks "string list" | Object_Not_Found | Object_Too_Large | Storage_Error

record artifact_storage = claim_storage +
  read_object :: "string \<Rightarrow> int \<Rightarrow> int \<Rightarrow> object_stream"

definition storage_namespace_matches ::
  "storage_backend \<Rightarrow> string \<Rightarrow> 'a claim_storage_scheme \<Rightarrow> bool" where
  "storage_namespace_matches upload_backend namespace_sha256 storage \<longleftrightarrow>
     upload_backend = backend storage \<and> namespace_sha256 = namespace_fingerprint storage"

section \<open>Bindings\<close>

record artifact_binding =
  vb_artifact :: artifact_row
  vb_upload :: artifact_upload_session

datatype sample_failure = Sample_Storage_Unavailable | Sample_Completion_Unavailable

definition verified_binding_from_rows ::
  "artifact_row \<Rightarrow> artifact_upload_session \<Rightarrow> 'a claim_storage_scheme \<Rightarrow> ident \<Rightarrow> ident \<Rightarrow>
   artifact_type \<Rightarrow> string option \<Rightarrow> ident option \<Rightarrow> ident option \<Rightarrow>
   sample_failure + artifact_binding option" where
  "verified_binding_from_rows artifact upload storage job_id attempt_id ty expected_sha lease worker =
     (if \<not> storage_namespace_matches (au_storage_backend upload) (au_storage_namespace_sha256 upload)
           storage then Inl Sample_Storage_Unavailable
      else let expected_key = canonical_object_key job_id attempt_id ty (au_id upload) in
        (case storage_uri storage expected_key of
           None \<Rightarrow> Inl Sample_Storage_Unavailable
         | Some expected_uri \<Rightarrow>
             (case map_of (ar_metadata_json artifact) ''manager_verification'' of
                Some (JObj verification) \<Rightarrow>
                  if au_artifact_id upload \<noteq> Some (ar_id artifact) \<or>
                     au_status upload \<noteq> ''completed'' \<or>
                     ar_job_id artifact \<noteq> job_id \<or>
                     ar_attempt_id artifact \<noteq> attempt_id \<or>
                     ar_artifact_type artifact \<noteq> ty \<or>
                     (\<exists>h \<in> set_option expected_sha. ar_sha256 artifact \<noteq> h) \<or>
                     ar_size_bytes artifact \<le> 0 \<or>
                     ar_storage_uri artifact \<noteq> expected_uri \<or>
                     au_job_id upload \<noteq> job_id \<or>
                     au_attempt_id upload \<noteq> attempt_id \<or>
                     au_artifact_type upload \<noteq> ty \<or>
                     au_canonical_object_key upload \<noteq> expected_key \<or>
                     au_expected_size_bytes upload \<noteq> ar_size_bytes artifact \<or>
                     au_expected_sha256 upload \<noteq> ar_sha256 artifact \<or>
                     Some (au_content_type upload) \<noteq> ar_mime_type artifact \<or>
                     au_filename upload \<noteq> ar_filename artifact \<or>
                     (\<exists>i \<in> set_option lease. au_lease_id upload \<noteq> i) \<or>
                     (\<exists>i \<in> set_option worker. au_worker_id upload \<noteq> i) \<or>
                     map_of verification ''algorithm'' \<noteq> Some (JStr ''sha256'') \<or>
                     map_of verification ''bounded_stream'' \<noteq> Some (JBool True) \<or>
                     map_of verification ''upload_session_id'' \<noteq> Some (JStr (au_id upload)) \<or>
                     map_of verification ''storage_backend'' \<noteq>
                       Some (JStr (storage_backend_value (backend storage)))
                  then Inr None
                  else Inr (Some \<lparr>vb_artifact = artifact, vb_upload = upload\<rparr>)
              | _ \<Rightarrow> Inr None)))"

definition verified_artifact_binding ::
  "'a claim_storage_scheme \<Rightarrow> ident \<Rightarrow> ident \<Rightarrow> ident \<Rightarrow> artifact_type \<Rightarrow> string option \<Rightarrow>
   ident option \<Rightarrow> ident option \<Rightarrow> ledger \<Rightarrow> sample_failure + artifact_binding option" where
  "verified_artifact_binding storage artifact_id job_id attempt_id ty expected_sha lease worker d =
     (case (get_row ar_id artifact_id (artifacts_table d),
            find (\<lambda>u. au_artifact_id u = Some artifact_id \<and> au_status u = ''completed'')
              (artifact_upload_sessions d)) of
        (Some artifact, Some upload) \<Rightarrow>
          verified_binding_from_rows artifact upload storage job_id attempt_id ty expected_sha lease
            worker
      | _ \<Rightarrow> Inr None)"

definition verified_artifact_by_hash ::
  "'a claim_storage_scheme \<Rightarrow> ident \<Rightarrow> ident \<Rightarrow> artifact_type \<Rightarrow> string \<Rightarrow>
   ident option \<Rightarrow> ident option \<Rightarrow> ledger \<Rightarrow> sample_failure + artifact_binding option" where
  "verified_artifact_by_hash storage job_id attempt_id ty expected_sha lease worker d =
     (case [ar_id a. a \<leftarrow> artifacts_table d, ar_job_id a = job_id \<and> ar_attempt_id a = attempt_id \<and>
              ar_artifact_type a = ty \<and> ar_sha256 a = expected_sha] of
        [artifact_id] \<Rightarrow> verified_artifact_binding storage artifact_id job_id attempt_id ty
          (Some expected_sha) lease worker d
      | _ \<Rightarrow> Inr None)"

section \<open>Reading an object again\<close>

text \<open>
  What may happen to the temporary file of one verification: an \<^verbatim>\<open>OSError\<close> while it is created or
  written, an \<^verbatim>\<open>OSError\<close> when a partial file is removed after a failure, the timeout of the whole
  operation, an error when the verified file is removed.
\<close>

record spool_env =
  sp_io_error :: bool
  sp_partial_cleanup_error :: bool
  sp_timeout :: bool
  sp_remove_error :: bool

datatype spool_failure =
    Artifact_Spool_Error | Verification_Mismatch string | Spool_Object_Not_Found
  | Spool_Object_Too_Large | Spool_Storage_Error | Spool_Timeout

definition verify_object_to_spool ::
  "platform \<Rightarrow> settings \<Rightarrow> artifact_storage \<Rightarrow> spool_env \<Rightarrow> string \<Rightarrow> int \<Rightarrow> string \<Rightarrow>
   spool_failure + unit" where
  "verify_object_to_spool pf st storage sp object_key expected_size expected_sha =
     (let failed = (\<lambda>e. Inl (if sp_partial_cleanup_error sp then Artifact_Spool_Error else e)) in
      if sp_timeout sp then Inl Spool_Timeout
      else if sp_io_error sp then Inl Artifact_Spool_Error
      else case read_object storage object_key (artifact_stream_chunk_bytes st) (expected_size + 1) of
          Object_Not_Found \<Rightarrow> failed Spool_Object_Not_Found
        | Object_Too_Large \<Rightarrow> failed Spool_Object_Too_Large
        | Storage_Error \<Rightarrow> failed Spool_Storage_Error
        | Chunks chunks \<Rightarrow>
            if int (length (concat chunks)) \<noteq> expected_size
            then failed (Verification_Mismatch ''size_mismatch'')
            else if sha256 pf (concat chunks) \<noteq> expected_sha
            then failed (Verification_Mismatch ''sha256_mismatch'')
            else Inr ())"

definition verify_current_artifact_bytes ::
  "platform \<Rightarrow> settings \<Rightarrow> artifact_storage \<Rightarrow> spool_env \<Rightarrow> rat \<Rightarrow> artifact_binding \<Rightarrow>
   sample_failure + bool" where
  "verify_current_artifact_bytes pf st storage sp remaining binding =
     (if remaining \<le> 0 then Inr False
      else case verify_object_to_spool pf st storage sp
          (au_canonical_object_key (vb_upload binding)) (ar_size_bytes (vb_artifact binding))
          (ar_sha256 (vb_artifact binding)) of
        Inr _ \<Rightarrow> if sp_remove_error sp then Inl Sample_Completion_Unavailable else Inr True
      | Inl (Verification_Mismatch _) \<Rightarrow> Inr False
      | Inl Spool_Object_Not_Found \<Rightarrow> Inr False
      | Inl Spool_Object_Too_Large \<Rightarrow> Inr False
      | Inl _ \<Rightarrow> Inl Sample_Completion_Unavailable)"

text \<open>The object now under the canonical key of a binding has the bytes its ledger row records.\<close>

definition stored_bytes_match :: "platform \<Rightarrow> settings \<Rightarrow> artifact_storage \<Rightarrow> artifact_binding \<Rightarrow> bool" where
  "stored_bytes_match pf st storage binding \<longleftrightarrow>
     (case read_object storage (au_canonical_object_key (vb_upload binding))
         (artifact_stream_chunk_bytes st) (ar_size_bytes (vb_artifact binding) + 1) of
        Chunks chunks \<Rightarrow> int (length (concat chunks)) = ar_size_bytes (vb_artifact binding) \<and>
          sha256 pf (concat chunks) = ar_sha256 (vb_artifact binding)
      | _ \<Rightarrow> False)"

section \<open>Lemmas\<close>

lemma verified_bindingD:
  assumes "verified_artifact_binding storage i job_id attempt_id ty sha lease worker d = Inr (Some b)"
  shows "ar_id (vb_artifact b) = i" "vb_artifact b \<in> set (artifacts_table d)"
    "vb_upload b \<in> set (artifact_upload_sessions d)"
    "ar_job_id (vb_artifact b) = job_id" "ar_attempt_id (vb_artifact b) = attempt_id"
    "ar_artifact_type (vb_artifact b) = ty" "0 < ar_size_bytes (vb_artifact b)"
    "au_canonical_object_key (vb_upload b) = canonical_object_key job_id attempt_id ty (au_id (vb_upload b))"
    "storage_uri storage (au_canonical_object_key (vb_upload b)) = Some (ar_storage_uri (vb_artifact b))"
    "\<And>w. worker = Some w \<Longrightarrow> au_worker_id (vb_upload b) = w"
proof -
  from assms obtain artifact upload where
    rows: "get_row ar_id i (artifacts_table d) = Some artifact"
      "find (\<lambda>u. au_artifact_id u = Some i \<and> au_status u = ''completed'') (artifact_upload_sessions d) =
        Some upload"
    and bound: "verified_binding_from_rows artifact upload storage job_id attempt_id ty sha lease worker =
      Inr (Some b)"
    by (auto simp: verified_artifact_binding_def split: option.splits)
  from bound have b: "b = \<lparr>vb_artifact = artifact, vb_upload = upload\<rparr>"
    and facts: "ar_job_id artifact = job_id" "ar_attempt_id artifact = attempt_id"
      "ar_artifact_type artifact = ty" "0 < ar_size_bytes artifact"
      "au_canonical_object_key upload = canonical_object_key job_id attempt_id ty (au_id upload)"
      "storage_uri storage (au_canonical_object_key upload) = Some (ar_storage_uri artifact)"
      "\<forall>w. worker = Some w \<longrightarrow> au_worker_id upload = w"
    by (auto simp: verified_binding_from_rows_def Let_def split: if_splits option.splits json.splits)
  show "ar_id (vb_artifact b) = i" "vb_artifact b \<in> set (artifacts_table d)"
    "vb_upload b \<in> set (artifact_upload_sessions d)"
    using rows by (auto simp: b get_row_def find_Some_iff)
  show "ar_job_id (vb_artifact b) = job_id" "ar_attempt_id (vb_artifact b) = attempt_id"
    "ar_artifact_type (vb_artifact b) = ty" "0 < ar_size_bytes (vb_artifact b)"
    "au_canonical_object_key (vb_upload b) = canonical_object_key job_id attempt_id ty (au_id (vb_upload b))"
    "storage_uri storage (au_canonical_object_key (vb_upload b)) = Some (ar_storage_uri (vb_artifact b))"
    "\<And>w. worker = Some w \<Longrightarrow> au_worker_id (vb_upload b) = w"
    using facts by (simp_all add: b)
qed

lemma verified_bytesD:
  assumes "verify_current_artifact_bytes pf st storage sp remaining b = Inr True"
  shows "stored_bytes_match pf st storage b"
  using assms
  by (auto simp: verify_current_artifact_bytes_def verify_object_to_spool_def stored_bytes_match_def Let_def
      split: if_splits sum.splits spool_failure.splits object_stream.splits)

end
