(* ===== verification/Python_Text.thy ===== *)
theory Python_Text
  imports Prelude
begin

text \<open>
  What the identity code uses of Python's text type: the characters of a string, its length,
  \<^verbatim>\<open>strip\<close>, white space, and which texts \<^verbatim>\<open>uuid.UUID\<close> accepts. A string of the development is the list
  of its UTF-8 bytes, so a character is a start byte with the continuation bytes behind it. Decimal
  digits outside ASCII, which \<^verbatim>\<open>int\<close> would also read, are not accepted by \<open>uuid_ok\<close>.
\<close>

section \<open>Characters of a string\<close>

definition is_continuation :: "char \<Rightarrow> bool" where
  "is_continuation = between 128 191"

function utf8_chars :: "string \<Rightarrow> string list" where
  "utf8_chars [] = []"
| "utf8_chars (c # cs) =
     (c # takeWhile is_continuation cs) # utf8_chars (dropWhile is_continuation cs)"
  by pat_completeness auto

termination
  by (relation "measure length") (simp_all add: less_Suc_eq_le length_dropWhile_le)

lemma concat_utf8_chars [simp]: "concat (utf8_chars s) = s"
  by (induction s rule: utf8_chars.induct) simp_all

lemma utf8_chars_nonempty: "u \<in> set (utf8_chars s) \<Longrightarrow> u \<noteq> []"
  by (induction s rule: utf8_chars.induct) auto

text \<open>\<^verbatim>\<open>len\<close>\<close>

definition str_len :: "string \<Rightarrow> nat" where
  "str_len s = length (utf8_chars s)"

lemma str_len_le: "str_len s \<le> length s"
proof -
  have "length (utf8_chars s) \<le> length s"
  proof (induction s rule: utf8_chars.induct)
    case (2 c cs)
    then show ?case using length_dropWhile_le [of is_continuation cs] by simp
  qed simp
  then show ?thesis by (simp add: str_len_def)
qed

lemma str_len_pos: "s \<noteq> [] \<Longrightarrow> 1 \<le> str_len s"
  by (cases s) (simp_all add: str_len_def)

definition ascii :: "string \<Rightarrow> bool" where
  "ascii s \<longleftrightarrow> list_all (between 0 127) s"

lemma utf8_chars_ascii: "ascii s \<Longrightarrow> utf8_chars s = map (\<lambda>c. [c]) s"
proof (induction s rule: utf8_chars.induct)
  case (2 c cs)
  have "takeWhile is_continuation cs = [] \<and> dropWhile is_continuation cs = cs"
    using 2(2) by (cases cs) (auto simp: ascii_def is_continuation_def between_def)
  then show ?case using 2 by (simp add: ascii_def)
qed simp

lemma str_len_ascii: "ascii s \<Longrightarrow> str_len s = length s"
  by (simp add: str_len_def utf8_chars_ascii)

text \<open>White space as \<^verbatim>\<open>str.strip\<close> and the class \<^verbatim>\<open>\s\<close> of a text pattern know it.\<close>

definition wide_spaces :: "nat list list" where
  "wide_spaces = [[0xC2, 0x85], [0xC2, 0xA0], [0xE1, 0x9A, 0x80]] @
     map (\<lambda>i. [0xE2, 0x80, i]) ([0x80..<0x8B] @ [0xA8, 0xA9, 0xAF]) @
     [[0xE2, 0x81, 0x9F], [0xE3, 0x80, 0x80]]"

definition is_space :: "string \<Rightarrow> bool" where
  "is_space u \<longleftrightarrow>
     (case u of [c] \<Rightarrow> between 9 13 c \<or> between 28 32 c | _ \<Rightarrow> map of_char u \<in> set wide_spaces)"

definition strip :: "string \<Rightarrow> string" where
  "strip s = concat (rev (dropWhile is_space (rev (dropWhile is_space (utf8_chars s)))))"

section \<open>Identifiers\<close>

text \<open>\<^verbatim>\<open>str.replace(pattern, "")\<close> for a pattern that is not empty.\<close>

fun remove_all :: "string \<Rightarrow> string \<Rightarrow> string" where
  "remove_all pattern [] = []"
| "remove_all pattern (c # cs) =
     (if pattern \<noteq> [] \<and> take (length pattern) (c # cs) = pattern
      then remove_all pattern (drop (length pattern - 1) cs)
      else c # remove_all pattern cs)"

definition strip_of :: "char set \<Rightarrow> string \<Rightarrow> string" where
  "strip_of cs s = rev (dropWhile (\<lambda>c. c \<in> cs) (rev (dropWhile (\<lambda>c. c \<in> cs) s)))"

text \<open>
  The texts \<^verbatim>\<open>int(text, 16)\<close> reads: white space around, a sign, the prefix \<^verbatim>\<open>0x\<close>, digits with single
  underscores between them. The flag says whether the last character was a digit.
\<close>

fun hex_body :: "bool \<Rightarrow> string \<Rightarrow> bool" where
  "hex_body digit [] = digit"
| "hex_body digit (c # cs) =
     (if c = CHR ''_'' then digit \<and> hex_body False cs
      else (is_hex c \<or> between 65 70 c) \<and> hex_body True cs)"

definition drop_if :: "(char \<Rightarrow> bool) \<Rightarrow> string \<Rightarrow> string" where
  "drop_if P s = (case s of [] \<Rightarrow> [] | c # cs \<Rightarrow> if P c then cs else s)"

definition int16_ok :: "string \<Rightarrow> bool" where
  "int16_ok text =
     (let unsigned = drop_if (\<lambda>c. c = CHR ''+'' \<or> c = CHR ''-'') (strip text) in
      hex_body False
        (if take 2 unsigned \<in> {''0x'', ''0X''} then drop_if (\<lambda>c. c = CHR ''_'') (drop 2 unsigned)
         else unsigned))"

text \<open>\<^verbatim>\<open>uuid.UUID(text)\<close> does not raise.\<close>

definition uuid_ok :: "string \<Rightarrow> bool" where
  "uuid_ok text =
     (let digits = filter (\<lambda>c. c \<noteq> CHR ''-'')
        (strip_of {CHR ''{'', CHR ''}''} (remove_all ''uuid:'' (remove_all ''urn:'' text))) in
      str_len digits = 32 \<and> int16_ok digits)"

end
