(* ===== verification/Identity.thy ===== *)
theory Identity
  imports Ledger Python_Text
begin

text \<open>
  Who a request comes from: the user table, passwords and access tokens (\<^verbatim>\<open>security.py\<close>) and the
  bearer authentication of users (\<^verbatim>\<open>dependencies.py\<close>).

  The libraries the code calls, a JSON Web Token codec (\<^verbatim>\<open>jwt\<close>) and a password hash (\<^verbatim>\<open>pwdlib\<close>), are
  the fields of \<open>identity_tools\<close>, and so is the case folding of the Unicode database. A function that
  may raise returns an option. The clock is an argument.
\<close>

section \<open>Users\<close>

record user_row =
  ur_id :: ident
  ur_row_version :: int
  ur_email :: string
  ur_password_hash :: string
  ur_role :: string
  ur_disabled :: bool
  ur_access_token_version :: int
  ur_created_at :: datetime
  ur_updated_at :: datetime

definition active_admin :: "user_row \<Rightarrow> bool" where
  "active_admin u \<longleftrightarrow> ur_role u = ''admin'' \<and> \<not> ur_disabled u"

record revoked_access_token =
  rt_jti :: ident
  rt_user_id :: ident
  rt_expires_at :: datetime
  rt_revoked_at :: datetime

section \<open>The libraries\<close>

record identity_tools =
  str_casefold :: "string \<Rightarrow> string"
    \<comment> \<open>\<^verbatim>\<open>str.casefold\<close>\<close>
  password_hash_of :: "string \<Rightarrow> string \<Rightarrow> string"
    \<comment> \<open>\<^verbatim>\<open>PasswordHash.hash(password)\<close> with the salt it draws\<close>
  password_verify :: "string \<Rightarrow> string \<Rightarrow> bool option"
    \<comment> \<open>\<^verbatim>\<open>PasswordHash.verify(password, encoded)\<close>; raises for a text that is not a hash\<close>
  dummy_salt :: string
    \<comment> \<open>the salt of the process-local hash of the dummy password\<close>
  jwt_encode :: "(string \<times> json) list \<Rightarrow> string \<Rightarrow> string"
    \<comment> \<open>\<^verbatim>\<open>jwt.encode(payload, secret, algorithm="HS256")\<close>\<close>
  jwt_decode :: "datetime \<Rightarrow> string \<Rightarrow> string \<Rightarrow> string \<Rightarrow> string \<Rightarrow> int \<Rightarrow> (string \<times> json) list option"
    \<comment> \<open>\<^verbatim>\<open>jwt.decode\<close> at a time, of a token, with secret, audience, issuer and leeway\<close>

text \<open>
  What \<^verbatim>\<open>jwt\<close> documents of a token it has signed itself: it decodes to its payload under the same
  secret, for the audience and issuer it names, from its time of issue (less the leeway) until its
  expiry (plus the leeway).
\<close>

definition jwt_payload :: "string \<Rightarrow> string \<Rightarrow> int \<Rightarrow> int \<Rightarrow> string \<Rightarrow> string \<Rightarrow> int \<Rightarrow> (string \<times> json) list" where
  "jwt_payload sub jti iat expiry iss aud ver =
     [(''sub'', JStr sub), (''jti'', JStr jti), (''iat'', JInt iat), (''exp'', JInt expiry),
      (''iss'', JStr iss), (''aud'', JStr aud), (''ver'', JInt ver)]"

definition jwt_roundtrip :: "identity_tools \<Rightarrow> bool" where
  "jwt_roundtrip lib \<longleftrightarrow>
     (\<forall>now secret leeway sub jti iat expiry iss aud ver.
        seconds iat \<le> now + seconds leeway \<longrightarrow> now < seconds (expiry + leeway) \<longrightarrow>
        jwt_decode lib now (jwt_encode lib (jwt_payload sub jti iat expiry iss aud ver) secret) secret aud iss leeway =
          Some (jwt_payload sub jti iat expiry iss aud ver))"

text \<open>What a password hash promises: the password it was made of verifies, whatever the salt.\<close>

definition hashes_verify :: "identity_tools \<Rightarrow> bool" where
  "hashes_verify lib \<longleftrightarrow>
     (\<forall>salt password. password_verify lib password (password_hash_of lib salt password) = Some True \<and>
        password_hash_of lib salt password \<noteq> [])"

section \<open>Emails and passwords\<close>

text \<open>The pattern \<^verbatim>\<open>^[^@\s]+@[^@\s]+\.[^@\s]+$\<close>, matched in full.\<close>

definition email_pattern :: "string \<Rightarrow> bool" where
  "email_pattern s =
     (let us = utf8_chars s; local = takeWhile (\<lambda>u. u \<noteq> ''@'') us;
          domain = tl (dropWhile (\<lambda>u. u \<noteq> ''@'') us) in
      (\<forall>u \<in> set us. \<not> is_space u) \<and> ''@'' \<in> set us \<and> local \<noteq> [] \<and> ''@'' \<notin> set domain \<and>
      ''.'' \<in> set (butlast (tl domain)))"

text \<open>\<^verbatim>\<open>None\<close> is \<^verbatim>\<open>ValueError\<close>, here and in the two functions below.\<close>

definition normalize_email :: "identity_tools \<Rightarrow> string \<Rightarrow> string option" where
  "normalize_email lib text =
     (let normalized = str_casefold lib (strip text) in
      if \<not> (3 \<le> str_len normalized \<and> str_len normalized \<le> 320) \<or> \<not> email_pattern normalized then None
      else Some normalized)"

definition hash_password :: "identity_tools \<Rightarrow> string \<Rightarrow> string \<Rightarrow> string option" where
  "hash_password lib salt password =
     (if \<not> (12 \<le> str_len password \<and> str_len password \<le> 1024) then None
      else Some (password_hash_of lib salt password))"

definition forbidden_passwords :: "string set" where
  "forbidden_passwords =
     {''passwordpassword'', ''administrator'', ''changemechangeme'', ''correcthorsebatterystaple''}"

definition validate_management_password :: "identity_tools \<Rightarrow> string \<Rightarrow> string \<Rightarrow> unit option" where
  "validate_management_password lib password email =
     (if \<not> (16 \<le> str_len password \<and> str_len password \<le> 1024) then None
      else if \<exists>c \<in> set password. (of_char c :: nat) < 32 \<or> (of_char c :: nat) = 127 then None
      else
        (let folded = str_casefold lib password;
             local_part = str_casefold lib (takeWhile (\<lambda>c. c \<noteq> CHR ''@'') email) in
         if card (set (utf8_chars password)) < 8 \<or> (3 \<le> str_len local_part \<and> sublist local_part folded)
         then None
         else if filter (\<lambda>c. is_lower c \<or> is_digit c) folded \<in> forbidden_passwords then None
         else Some ()))"

text \<open>
  A missing or empty stored hash is replaced by the dummy one, so that the expensive check runs in any
  case; a hash the library refuses makes the answer \<open>False\<close> after a second such check.
\<close>

definition dummy_password_hash :: "identity_tools \<Rightarrow> string" where
  "dummy_password_hash lib = password_hash_of lib (dummy_salt lib) ''rvc-login-enumeration-dummy-password''"

definition verify_password :: "identity_tools \<Rightarrow> string \<Rightarrow> string option \<Rightarrow> bool res" where
  "verify_password lib password encoded_hash =
     (let candidate_hash = (case encoded_hash of
            Some h \<Rightarrow> if h = [] then dummy_password_hash lib else h
          | None \<Rightarrow> dummy_password_hash lib) in
      case password_verify lib password candidate_hash of
        None \<Rightarrow>
          if encoded_hash \<noteq> None \<and> password_verify lib password (dummy_password_hash lib) = None
          then Inl (Unhandled ''PwdlibError'') else Inr False
      | Some verified \<Rightarrow> Inr (encoded_hash \<noteq> None \<and> verified))"

section \<open>Access tokens\<close>

record access_token_claims =
  tc_subject :: ident
  tc_jti :: ident
  tc_issued_at :: datetime
  tc_expires_at :: datetime
  tc_access_token_version :: int

definition issue_access_token ::
  "identity_tools \<Rightarrow> settings \<Rightarrow> ident \<Rightarrow> int \<Rightarrow> datetime \<Rightarrow> ident \<Rightarrow> (string \<times> access_token_claims) res" where
  "issue_access_token lib st user_id access_token_version now token_jti =
     (if access_token_version < 1 then Inl (Unhandled ''ValueError'')
      else
        (let issued_at = now - now mod seconds 1;
             expires_at = issued_at + seconds (jwt_access_ttl_seconds st);
             payload = jwt_payload user_id token_jti (issued_at div seconds 1) (expires_at div seconds 1)
               (jwt_issuer st) (jwt_audience st) access_token_version in
         Inr (jwt_encode lib payload (jwt_secret st),
           \<lparr>tc_subject = user_id, tc_jti = token_jti, tc_issued_at = issued_at,
            tc_expires_at = expires_at, tc_access_token_version = access_token_version\<rparr>)))"

text \<open>\<^verbatim>\<open>isinstance(x, int)\<close> holds of truth values too; \<^verbatim>\<open>type(x) is int\<close> does not.\<close>

fun py_int :: "json \<Rightarrow> int option" where
  "py_int (JInt i) = Some i"
| "py_int (JBool b) = Some (if b then 1 else 0)"
| "py_int _ = None"

text \<open>
  \<^verbatim>\<open>datetime.fromtimestamp(s, UTC)\<close> raises outside the years 1 to 9999; nothing catches that.
\<close>

datatype token_error = InvalidAccessToken | Timestamp_Range

definition fromtimestamp :: "int \<Rightarrow> token_error + datetime" where
  "fromtimestamp s =
     (if - 62135596800 \<le> s \<and> s \<le> 253402300799 then Inr (seconds s) else Inl Timestamp_Range)"

definition decode_access_token ::
  "identity_tools \<Rightarrow> settings \<Rightarrow> datetime \<Rightarrow> string \<Rightarrow> token_error + access_token_claims" where
  "decode_access_token lib st now token =
     (case jwt_decode lib now token (jwt_secret st) (jwt_audience st) (jwt_issuer st) (jwt_leeway_seconds st) of
        None \<Rightarrow> Inl InvalidAccessToken
      | Some payload \<Rightarrow>
          (case (map_of payload ''sub'', map_of payload ''jti'',
              Option.bind (map_of payload ''iat'') py_int, Option.bind (map_of payload ''exp'') py_int,
              map_of payload ''ver'') of
             (Some (JStr subject), Some (JStr token_jti), Some issued_at, Some expires_at, Some (JInt ver)) \<Rightarrow>
               if ver < 1 \<or> \<not> uuid_ok subject \<or> \<not> uuid_ok token_jti then Inl InvalidAccessToken
               else res_bind (fromtimestamp issued_at) (\<lambda>issued.
                 res_bind (fromtimestamp expires_at) (\<lambda>expires.
                   Inr \<lparr>tc_subject = subject, tc_jti = token_jti, tc_issued_at = issued,
                        tc_expires_at = expires, tc_access_token_version = ver\<rparr>))
           | _ \<Rightarrow> Inl InvalidAccessToken))"

section \<open>Authentication\<close>

definition unauthorized :: api_error where
  "unauthorized = HTTPException 401 ''invalid or expired access token''"

definition require_user_auth ::
  "identity_tools \<Rightarrow> settings \<Rightarrow> datetime \<Rightarrow> (string \<times> string) option \<Rightarrow>
   revoked_access_token list \<Rightarrow> user_row list \<Rightarrow> (user_row \<times> access_token_claims) res" where
  "require_user_auth lib st now credentials revoked us =
     (case credentials of
        None \<Rightarrow> Inl (HTTPException 401 ''user bearer token required'')
      | Some (scheme, token) \<Rightarrow>
          if map lower_char scheme \<noteq> ''bearer''
          then Inl (HTTPException 401 ''user bearer token required'')
          else (case decode_access_token lib st now token of
             Inl InvalidAccessToken \<Rightarrow> Inl unauthorized
           | Inl Timestamp_Range \<Rightarrow> Inl (Unhandled ''ValueError'')
           | Inr claims \<Rightarrow>
               if get_row rt_jti (tc_jti claims) revoked \<noteq> None then Inl unauthorized
               else (case get_row ur_id (tc_subject claims) us of
                  None \<Rightarrow> Inl unauthorized
                | Some user \<Rightarrow>
                    if ur_disabled user \<or> ur_access_token_version user \<noteq> tc_access_token_version claims
                    then Inl unauthorized else Inr (user, claims))))"

definition require_admin_user :: "user_row \<times> access_token_claims \<Rightarrow> user_row res" where
  "require_admin_user auth =
     (if ur_role (fst auth) \<noteq> ''admin'' then Inl (HTTPException 403 ''administrator role required'')
      else Inr (fst auth))"

section \<open>What the functions give\<close>

text \<open>The claims of a decoded token are well-formed.\<close>

lemma decoded_claims:
  assumes "decode_access_token lib st now token = Inr claims"
  shows "uuid_ok (tc_subject claims)" "uuid_ok (tc_jti claims)" "1 \<le> tc_access_token_version claims"
  using assms unfolding decode_access_token_def
  by (auto split: option.splits json.splits if_splits prod.splits)

lemma fromtimestamp_Inr [simp]:
  "fromtimestamp s = Inr t \<longleftrightarrow> t = seconds s \<and> - 62135596800 \<le> s \<and> s \<le> 253402300799"
  by (auto simp: fromtimestamp_def)

text \<open>A token just issued decodes, while it lasts, to the claims it was issued with.\<close>

lemma issued_token_decodes:
  assumes "jwt_roundtrip lib" "issue_access_token lib st user_id v issued token_jti = Inr (token, claims)"
    and "uuid_ok user_id" "uuid_ok token_jti"
    and "tc_issued_at claims \<le> now + seconds (jwt_leeway_seconds st)"
    and "now < tc_expires_at claims + seconds (jwt_leeway_seconds st)"
    and "- 62135596800 \<le> issued div seconds 1" "tc_expires_at claims \<le> seconds 253402300799"
    and "0 \<le> jwt_access_ttl_seconds st"
  shows "decode_access_token lib st now token = Inr claims"
proof -
  define i where "i = issued div seconds 1"
  define ttl where "ttl = jwt_access_ttl_seconds st"
  have i: "issued - issued mod 1000000 = seconds i"
    by (simp add: i_def minus_mod_eq_mult_div)
  have v: "1 \<le> v" and token: "token = jwt_encode lib (jwt_payload user_id token_jti i (i + ttl)
        (jwt_issuer st) (jwt_audience st) v) (jwt_secret st)"
    and claims: "claims = \<lparr>tc_subject = user_id, tc_jti = token_jti, tc_issued_at = seconds i,
      tc_expires_at = seconds (i + ttl), tc_access_token_version = v\<rparr>"
    using assms(2) unfolding issue_access_token_def
    by (auto simp: i ttl_def Let_def distrib_right add.commute split: if_splits)
  have "jwt_decode lib now token (jwt_secret st) (jwt_audience st) (jwt_issuer st) (jwt_leeway_seconds st) =
      Some (jwt_payload user_id token_jti i (i + ttl) (jwt_issuer st) (jwt_audience st) v)"
    using assms(1,5,6) unfolding token jwt_roundtrip_def claims by (simp add: distrib_right)
  then show ?thesis
    using assms(3,4,7-) v unfolding decode_access_token_def claims i_def [symmetric] ttl_def [symmetric]
    by (simp add: jwt_payload_def)
qed

lemma require_user_auth_iff:
  "require_user_auth lib st now credentials revoked us = Inr (user, claims) \<longleftrightarrow>
     (\<exists>scheme token. credentials = Some (scheme, token) \<and> map lower_char scheme = ''bearer'' \<and>
        decode_access_token lib st now token = Inr claims \<and>
        get_row rt_jti (tc_jti claims) revoked = None \<and>
        get_row ur_id (tc_subject claims) us = Some user \<and> \<not> ur_disabled user \<and>
        ur_access_token_version user = tc_access_token_version claims)"
  unfolding require_user_auth_def
  by (auto split: option.splits sum.splits token_error.splits if_splits)

text \<open>A new or reset password is also one the login accepts, and hashing it cannot fail.\<close>

lemma management_password_hashes:
  assumes "validate_management_password lib password email = Some ()"
  shows "hash_password lib salt password = Some (password_hash_of lib salt password)"
  using assms by (auto simp: validate_management_password_def hash_password_def split: if_splits)

lemma hashed_password_verifies:
  assumes "hashes_verify lib" "hash_password lib salt password = Some h"
  shows "verify_password lib password (Some h) = Inr True"
  using assms by (auto simp: verify_password_def hash_password_def hashes_verify_def split: if_splits)

lemma normalized_email:
  assumes "normalize_email lib text = Some email"
  shows "3 \<le> str_len email" "str_len email \<le> 320" "email_pattern email"
  using assms by (auto simp: normalize_email_def Let_def split: if_splits)

end
