(* ===== verification/Model_Registry.thy ===== *)
theory Model_Registry
  imports Artifact_Binding Identity
begin

text \<open>
  The reviewed-model registry of an experiment (\<^verbatim>\<open>services/model_registry.py\<close>,
  \<^verbatim>\<open>routers/model_registry.py\<close>, the tables \<^verbatim>\<open>ExperimentModelRegistry\<close>, \<^verbatim>\<open>ModelRegistryEntry\<close> and
  \<^verbatim>\<open>ModelRegistryOperation\<close> of \<^verbatim>\<open>models.py\<close>). A mutation reads once without locks, re-reads the
  artifact bytes, drops its transaction, takes the lock of the experiment and then decides on what it
  reads under the lock; both readings, and the one after a failed commit, are separate states of the
  request's environment. The format checks of the digest columns of the operations table and the
  foreign keys are left out.
\<close>

section \<open>Tables\<close>

record model_registry_row =
  g_experiment_id :: ident
  g_row_version :: int

datatype entry_status = Candidate | Approved | Revoked

datatype revoke_reason = Quality_Rejected | Security_Issue | Operator_Request

record model_registry_entry =
  n_id :: ident
  n_experiment_id :: ident
  n_row_version :: int
  n_status :: entry_status
  n_active_slot :: "int option"
  n_source_job_id :: ident
  n_source_attempt_id :: ident
  n_source_job_name :: string
  n_source_attempt_number :: int
  n_engine_mode :: worker_engine_mode
  n_job_config_sha256 :: string
  n_rvc_commit_hash :: string
  n_execution_provenance_version :: string
  n_runtime_image_digest :: string
  n_runtime_asset_manifest_sha256 :: string
  n_model_artifact_id :: ident
  n_model_filename :: string
  n_model_size_bytes :: int
  n_model_sha256 :: string
  n_index_artifact_id :: "ident option"
  n_index_filename :: "string option"
  n_index_size_bytes :: "int option"
  n_index_sha256 :: "string option"
  n_created_by :: ident
  n_approved_by :: "ident option"
  n_revoked_by :: "ident option"
  n_approved_at :: "datetime option"
  n_revoked_at :: "datetime option"
  n_revoke_reason :: "revoke_reason option"
  n_created_at :: datetime

record registry_artifact_read =
  ra_id :: ident
  ra_filename :: string
  ra_size_bytes :: int
  ra_sha256 :: string

record registry_entry_read =
  rd_id :: ident
  rd_experiment_id :: ident
  rd_row_version :: int
  rd_status :: entry_status
  rd_is_active :: bool
  rd_source_job_id :: ident
  rd_source_attempt_id :: ident
  rd_source_job_name :: string
  rd_source_attempt_number :: int
  rd_job_config_sha256 :: string
  rd_rvc_commit_hash :: string
  rd_runtime_image_digest :: string
  rd_runtime_asset_manifest_sha256 :: string
  rd_model :: registry_artifact_read
  rd_index :: "registry_artifact_read option"
  rd_created_at :: datetime
  rd_approved_at :: "datetime option"
  rd_revoked_at :: "datetime option"
  rd_revoke_reason :: "revoke_reason option"

record registry_mutation_read =
  mr_experiment_id :: ident
  mr_registry_row_version :: int
  mr_active_entry_id :: "ident option"
  mr_entry :: registry_entry_read

datatype registry_operation_type = Op_Candidate | Op_Promote | Op_Revoke

record model_registry_operation =
  p_actor_id :: ident
  p_idempotency_key_hash :: string
  p_request_fingerprint :: string
  p_operation_type :: registry_operation_type
  p_experiment_id :: ident
  p_entry_id :: ident
  p_response :: registry_mutation_read

text \<open>The database as the registry sees it: its own three tables, the users, the rest of the ledger.\<close>

record registry_db =
  base :: ledger
  users :: "user_row list"
  registries :: "model_registry_row list"
  registry_entries :: "model_registry_entry list"
  registry_operations :: "model_registry_operation list"

interpretation registry_table: ledger_table registries registries_update g_experiment_id
  by unfold_locales (simp_all add: id_def)

interpretation entry_table: ledger_table registry_entries registry_entries_update n_id
  by unfold_locales (simp_all add: id_def)

abbreviation get_registry_row :: "ident \<Rightarrow> registry_db \<Rightarrow> model_registry_row option" where
  "get_registry_row i s \<equiv> get_row g_experiment_id i (registries s)"

abbreviation get_entry :: "ident \<Rightarrow> registry_db \<Rightarrow> model_registry_entry option" where
  "get_entry i s \<equiv> get_row n_id i (registry_entries s)"

datatype registry_error =
    ModelRegistryNotFound string
  | ModelRegistryConflict string
  | ModelRegistryUnavailable string
  | ModelRegistryAuthenticationChanged string
  | Registry_Unhandled string

abbreviation registry_changed :: registry_error where
  "registry_changed \<equiv> ModelRegistryConflict ''model registry changed; refresh and retry''"

subsection \<open>Constraints\<close>

abbreviation lowercase :: "string \<Rightarrow> bool" where
  "lowercase s \<equiv> map lower_char s = s"

definition entry_checks :: "model_registry_entry \<Rightarrow> bool" where
  "entry_checks n \<longleftrightarrow>
     1 \<le> n_row_version n \<and>
     (n_active_slot n = None \<or> n_active_slot n = Some 1) \<and>
     (n_status n = Candidate \<and> n_active_slot n = None \<and> n_approved_by n = None \<and>
        n_revoked_by n = None \<and> n_approved_at n = None \<and> n_revoked_at n = None \<and>
        n_revoke_reason n = None \<or>
      n_status n = Approved \<and> n_approved_at n \<noteq> None \<and> n_approved_by n \<noteq> None \<and>
        n_revoked_by n = None \<and> n_revoked_at n = None \<and> n_revoke_reason n = None \<or>
      n_status n = Revoked \<and> n_active_slot n = None \<and> n_revoked_by n \<noteq> None \<and>
        n_revoked_at n \<noteq> None \<and> n_revoke_reason n \<noteq> None) \<and>
     (n_active_slot n = None \<or> n_status n = Approved) \<and>
     (n_approved_by n = None \<longleftrightarrow> n_approved_at n = None) \<and>
     1 \<le> n_source_attempt_number n \<and> 0 < n_model_size_bytes n \<and>
     length (n_model_sha256 n) = 64 \<and> lowercase (n_model_sha256 n) \<and>
     length (n_job_config_sha256 n) = 64 \<and> lowercase (n_job_config_sha256 n) \<and>
     n_engine_mode n = RVC_WEBUI \<and> n_execution_provenance_version n = ''worker-claim-v1'' \<and>
     length (n_rvc_commit_hash n) = 40 \<and> lowercase (n_rvc_commit_hash n) \<and>
     length (n_runtime_image_digest n) = 71 \<and> take 7 (n_runtime_image_digest n) = ''sha256:'' \<and>
     lowercase (n_runtime_image_digest n) \<and>
     length (n_runtime_asset_manifest_sha256 n) = 64 \<and> lowercase (n_runtime_asset_manifest_sha256 n) \<and>
     (case (n_index_artifact_id n, n_index_filename n, n_index_size_bytes n, n_index_sha256 n) of
        (None, None, None, None) \<Rightarrow> True
      | (Some _, Some _, Some bytes, Some h) \<Rightarrow> 0 < bytes \<and> length h = 64 \<and> lowercase h
      | _ \<Rightarrow> False)"

definition active_in :: "ident \<Rightarrow> model_registry_entry \<Rightarrow> bool" where
  "active_in exp_id n \<longleftrightarrow> n_experiment_id n = exp_id \<and> n_active_slot n = Some 1"

definition registry_constraints :: "registry_db \<Rightarrow> bool" where
  "registry_constraints s \<longleftrightarrow>
     list_all entry_checks (registry_entries s) \<and>
     distinct (map n_id (registry_entries s)) \<and>
     distinct (map n_model_artifact_id (registry_entries s)) \<and>
     distinct [(n_experiment_id n, n_active_slot n). n \<leftarrow> registry_entries s, n_active_slot n \<noteq> None] \<and>
     distinct (map g_experiment_id (registries s)) \<and>
     list_all (\<lambda>g. 1 \<le> g_row_version g) (registries s)"

section \<open>Helpers\<close>

definition entry_to_read :: "model_registry_entry \<Rightarrow> registry_entry_read" where
  "entry_to_read n =
     \<lparr>rd_id = n_id n, rd_experiment_id = n_experiment_id n, rd_row_version = n_row_version n,
      rd_status = n_status n, rd_is_active = (n_active_slot n = Some 1),
      rd_source_job_id = n_source_job_id n, rd_source_attempt_id = n_source_attempt_id n,
      rd_source_job_name = n_source_job_name n, rd_source_attempt_number = n_source_attempt_number n,
      rd_job_config_sha256 = n_job_config_sha256 n, rd_rvc_commit_hash = n_rvc_commit_hash n,
      rd_runtime_image_digest = n_runtime_image_digest n,
      rd_runtime_asset_manifest_sha256 = n_runtime_asset_manifest_sha256 n,
      rd_model = \<lparr>ra_id = n_model_artifact_id n, ra_filename = n_model_filename n,
        ra_size_bytes = n_model_size_bytes n, ra_sha256 = n_model_sha256 n\<rparr>,
      rd_index = map_option (\<lambda>i. \<lparr>ra_id = i, ra_filename = the (n_index_filename n),
        ra_size_bytes = the (n_index_size_bytes n), ra_sha256 = the (n_index_sha256 n)\<rparr>)
        (n_index_artifact_id n),
      rd_created_at = n_created_at n, rd_approved_at = n_approved_at n,
      rd_revoked_at = n_revoked_at n, rd_revoke_reason = n_revoke_reason n\<rparr>"

definition actor_key_hash :: "platform \<Rightarrow> ident \<Rightarrow> string \<Rightarrow> string" where
  "actor_key_hash pf actor_id idempotency_key = sha256 pf (actor_id @ [CHR 0x1F] @ idempotency_key)"

fun operation_type_value :: "registry_operation_type \<Rightarrow> string" where
  "operation_type_value Op_Candidate = ''candidate''"
| "operation_type_value Op_Promote = ''promote''"
| "operation_type_value Op_Revoke = ''revoke''"

definition request_fingerprint ::
  "platform \<Rightarrow> settings \<Rightarrow> registry_operation_type \<Rightarrow> string \<Rightarrow> json \<Rightarrow> string" where
  "request_fingerprint pf st operation_type path document =
     hmac_sha256 pf (jwt_secret st) (render (float_repr pf) (JObj
       [(''method'', JStr ''POST''), (''operation_type'', JStr (operation_type_value operation_type)),
        (''path'', JStr path), (''document'', document)]))"

definition require_visible_experiment ::
  "experiment_row option \<Rightarrow> user_row \<Rightarrow> registry_error + experiment_row" where
  "require_visible_experiment experiment actor =
     (case experiment of
        None \<Rightarrow> Inl (ModelRegistryNotFound ''experiment not found'')
      | Some x \<Rightarrow>
          if ur_role actor \<noteq> ''admin'' \<and> x_created_by x \<noteq> Some (ur_id actor)
          then Inl (ModelRegistryNotFound ''experiment not found'')
          else Inr x)"

definition visible_experiment ::
  "ident \<Rightarrow> user_row \<Rightarrow> registry_db \<Rightarrow> registry_error + experiment_row" where
  "visible_experiment exp_id actor s =
     require_visible_experiment (get_experiment_row exp_id (base s)) actor"

definition lock_experiment_fence ::
  "ident \<Rightarrow> ident \<Rightarrow> int \<Rightarrow> registry_db \<Rightarrow> registry_error + user_row" where
  "lock_experiment_fence exp_id actor_id token_version s =
     (case get_experiment_row exp_id (base s) of
        None \<Rightarrow> Inl (ModelRegistryNotFound ''experiment not found'')
      | Some x \<Rightarrow>
          (case get_row ur_id actor_id (users s) of
             None \<Rightarrow> Inl (ModelRegistryAuthenticationChanged ''authentication state changed'')
           | Some actor \<Rightarrow>
               if ur_disabled actor \<or> ur_access_token_version actor \<noteq> token_version
               then Inl (ModelRegistryAuthenticationChanged ''authentication state changed'')
               else res_bind (require_visible_experiment (Some x) actor) (\<lambda>_. Inr actor)))"

definition replay_or_none ::
  "ident \<Rightarrow> string \<Rightarrow> registry_operation_type \<Rightarrow> string \<Rightarrow> registry_db \<Rightarrow>
   registry_error + registry_mutation_read option" where
  "replay_or_none actor_id key_hash operation_type fingerprint s =
     (case find (\<lambda>p. p_actor_id p = actor_id \<and> p_idempotency_key_hash p = key_hash)
         (registry_operations s) of
        None \<Rightarrow> Inr None
      | Some p \<Rightarrow>
          if p_operation_type p \<noteq> operation_type \<or> p_request_fingerprint p \<noteq> fingerprint
          then Inl (ModelRegistryConflict
            ''idempotency key conflicts with a prior model registry request'')
          else Inr (Some (p_response p)))"

definition record_operation ::
  "ident \<Rightarrow> string \<Rightarrow> string \<Rightarrow> registry_operation_type \<Rightarrow> registry_mutation_read \<Rightarrow>
   registry_db \<Rightarrow> registry_db" where
  "record_operation actor_id key_hash fingerprint operation_type result =
     registry_operations_update (\<lambda>ps. ps @
       [\<lparr>p_actor_id = actor_id, p_idempotency_key_hash = key_hash,
         p_request_fingerprint = fingerprint, p_operation_type = operation_type,
         p_experiment_id = mr_experiment_id result, p_entry_id = rd_id (mr_entry result),
         p_response = result\<rparr>])"

definition active_entry :: "ident \<Rightarrow> registry_db \<Rightarrow> model_registry_entry option" where
  "active_entry exp_id s = find (active_in exp_id) (registry_entries s)"

definition require_registry_version ::
  "model_registry_row option \<Rightarrow> int \<Rightarrow> registry_error + unit" where
  "require_registry_version registry expected =
     (if (case registry of None \<Rightarrow> 0 | Some g \<Rightarrow> g_row_version g) \<noteq> expected
      then Inl registry_changed else Inr ())"

definition flush_or_conflict :: "registry_db \<Rightarrow> registry_error + registry_db" where
  "flush_or_conflict s = (if registry_constraints s then Inr s else Inl registry_changed)"

definition advance_registry :: "ident \<Rightarrow> registry_db \<Rightarrow> registry_error + registry_db" where
  "advance_registry exp_id s =
     flush_or_conflict
       (case get_registry_row exp_id s of
          None \<Rightarrow> registries_update (\<lambda>gs. gs @ [\<lparr>g_experiment_id = exp_id, g_row_version = 1\<rparr>]) s
        | Some _ \<Rightarrow> registries_update (upd_row g_experiment_id exp_id
            (g_row_version_update (\<lambda>v. v + 1))) s)"

text \<open>A changed entry is written with its version counter raised by one.\<close>

definition set_entry ::
  "ident \<Rightarrow> (model_registry_entry \<Rightarrow> model_registry_entry) \<Rightarrow> registry_db \<Rightarrow> registry_db" where
  "set_entry i f = registry_entries_update (upd_row n_id i (\<lambda>n. (f n)\<lparr>n_row_version := n_row_version n + 1\<rparr>))"

definition registry_version :: "ident \<Rightarrow> registry_db \<Rightarrow> int" where
  "registry_version exp_id s =
     (case get_registry_row exp_id s of None \<Rightarrow> 0 | Some g \<Rightarrow> g_row_version g)"

section \<open>The eligibility of a candidate\<close>

definition RVC_REVIEWED_COMMIT :: string where
  "RVC_REVIEWED_COMMIT = ''7ef19867780cf703841ebafb565a4e47d1ea86ff''"

record candidate_context_row =
  cx_job :: job_row
  cx_attempt :: job_attempt_row
  cx_model :: artifact_binding
  cx_index :: "artifact_binding option"
  cx_job_config_sha256 :: string

definition registry_binding ::
  "artifact_storage \<Rightarrow> ident \<Rightarrow> ident \<Rightarrow> ident \<Rightarrow> artifact_type \<Rightarrow> ident \<Rightarrow> ledger \<Rightarrow>
   registry_error + artifact_binding" where
  "registry_binding storage artifact_id job_id attempt_id ty worker_id d =
     (case verified_artifact_binding storage artifact_id job_id attempt_id ty None None (Some worker_id) d of
        Inl _ \<Rightarrow> Inl (ModelRegistryUnavailable ''artifact storage namespace is unavailable'')
      | Inr None \<Rightarrow> Inl (ModelRegistryConflict ''model registry artifact ledger is inconsistent'')
      | Inr (Some b) \<Rightarrow> Inr b)"

definition registry_config_matches :: "job_config \<Rightarrow> job_row \<Rightarrow> bool" where
  "registry_config_matches config job \<longleftrightarrow>
     job_name config = j_job_name job \<and> experiment_id config = j_experiment_id job \<and>
     dataset_id config = j_dataset_id job \<and> epochs (training config) = j_total_epoch job \<and>
     priority (resource config) = j_priority job \<and>
     (case rvc_commit_hash (rvc_backend config) of
        None \<Rightarrow> True
      | Some h \<Rightarrow> h = [] \<or> h = RVC_REVIEWED_COMMIT)"

definition registry_current_matches :: "job_row \<Rightarrow> job_attempt_row \<Rightarrow> bool" where
  "registry_current_matches job att \<longleftrightarrow>
     j_current_attempt_id job = Some (a_id att) \<and> j_status job = COMPLETED \<and>
     j_worker_id job = Some (a_worker_id att) \<and> j_attempt_count job = a_attempt_number att"

definition registry_eligible ::
  "settings \<Rightarrow> ident \<Rightarrow> bool \<Rightarrow> job_config \<Rightarrow> job_row \<Rightarrow> job_attempt_row \<Rightarrow> bool" where
  "registry_eligible st exp_id require_current config job att \<longleftrightarrow>
     j_experiment_id job = exp_id \<and> a_job_id att = j_id job \<and>
     registry_config_matches config job \<and>
     (require_current \<longrightarrow> registry_current_matches job att) \<and>
     a_status att = COMPLETED \<and>
     (case a_finished_at att of None \<Rightarrow> False | Some t \<Rightarrow> a_started_at att \<le> t) \<and>
     a_engine_mode att = RVC_WEBUI \<and>
     a_execution_provenance_version att = Some ''worker-claim-v1'' \<and>
     a_rvc_commit_hash att = Some RVC_REVIEWED_COMMIT \<and>
     (case (a_runtime_image_digest att, a_runtime_asset_manifest_sha256 att) of
        (Some digest, Some manifest) \<Rightarrow> (digest, manifest) \<in> set (approved_sample_runtime_bundles st)
      | _ \<Rightarrow> False)"

definition final_artifact_ids :: "job_row \<Rightarrow> job_attempt_row \<Rightarrow> artifact_type \<Rightarrow> ledger \<Rightarrow> ident list" where
  "final_artifact_ids job att ty d =
     [ar_id a. a \<leftarrow> artifacts_table d, ar_job_id a = j_id job \<and> ar_attempt_id a = a_id att \<and>
       ar_artifact_type a = ty]"

definition candidate_context ::
  "platform \<Rightarrow> settings \<Rightarrow> artifact_storage \<Rightarrow> ident \<Rightarrow> ident \<Rightarrow> ident \<Rightarrow> ident \<Rightarrow> bool \<Rightarrow> ledger \<Rightarrow>
   registry_error + candidate_context_row" where
  "candidate_context pf st storage exp_id source_job_id source_attempt_id model_artifact_id
      require_current d =
     (case (get_job source_job_id d, get_attempt source_attempt_id d) of
        (Some job, Some att) \<Rightarrow>
          (case validated_job_config pf job (Some att) of
             None \<Rightarrow> Inl (ModelRegistryConflict ''model registry Job configuration is invalid'')
           | Some config \<Rightarrow>
               if \<not> registry_eligible st exp_id require_current config job att
               then Inl (ModelRegistryConflict ''model registry candidate is not eligible'')
               else if final_artifact_ids job att FINAL_SMALL_MODEL d \<noteq> [model_artifact_id]
               then Inl (ModelRegistryConflict ''model registry final model ledger is ambiguous'')
               else res_bind
                 (registry_binding storage model_artifact_id (j_id job) (a_id att) FINAL_SMALL_MODEL
                   (a_worker_id att) d)
                 (\<lambda>model.
                   case final_artifact_ids job att FINAL_INDEX d of
                     [] \<Rightarrow> Inr \<lparr>cx_job = job, cx_attempt = att, cx_model = model, cx_index = None,
                       cx_job_config_sha256 = the (j_config_sha256 job)\<rparr>
                   | [index_id] \<Rightarrow> res_bind
                       (registry_binding storage index_id (j_id job) (a_id att) FINAL_INDEX
                         (a_worker_id att) d)
                       (\<lambda>index. Inr \<lparr>cx_job = job, cx_attempt = att, cx_model = model,
                         cx_index = Some index, cx_job_config_sha256 = the (j_config_sha256 job)\<rparr>)
                   | _ \<Rightarrow> Inl (ModelRegistryConflict ''model registry final index ledger is ambiguous'')))
      | _ \<Rightarrow> Inl (ModelRegistryConflict ''model registry candidate is not eligible''))"

fun job_engine_value :: "worker_engine_mode \<Rightarrow> string" where
  "job_engine_value RVC_WEBUI = ''rvc_webui''"
| "job_engine_value FAKE = ''fake''"

definition binding_document :: "artifact_binding \<Rightarrow> json" where
  "binding_document b =
     (let artifact = vb_artifact b; upload = vb_upload b in JObj
       [(''id'', JStr (ar_id artifact)), (''job_id'', JStr (ar_job_id artifact)),
        (''attempt_id'', JStr (ar_attempt_id artifact)),
        (''type'', JStr (artifact_type_value (ar_artifact_type artifact))),
        (''filename'', JStr (ar_filename artifact)), (''size'', JInt (ar_size_bytes artifact)),
        (''sha256'', JStr (ar_sha256 artifact)), (''uri'', JStr (ar_storage_uri artifact)),
        (''metadata'', JObj (ar_metadata_json artifact)), (''upload_id'', JStr (au_id upload)),
        (''upload_status'', JStr (au_status upload)),
        (''canonical_key'', JStr (au_canonical_object_key upload)),
        (''namespace'', JStr (au_storage_namespace_sha256 upload)),
        (''expected_size'', JInt (au_expected_size_bytes upload)),
        (''expected_sha256'', JStr (au_expected_sha256 upload))])"

text \<open>\<open>None\<close> is the \<^verbatim>\<open>ValueError\<close> of a metadata number that is not finite.\<close>

definition context_fingerprint :: "platform \<Rightarrow> candidate_context_row \<Rightarrow> string option" where
  "context_fingerprint pf cx =
     (let job = cx_job cx; att = cx_attempt cx in
      canonical_sha256 (sha256 pf) (float_repr pf) (JObj
        [(''job'', JObj
           [(''id'', JStr (j_id job)), (''experiment_id'', JStr (j_experiment_id job)),
            (''name'', JStr (j_job_name job)), (''status'', JStr (status_value (j_status job))),
            (''current_attempt_id'', opt_str (j_current_attempt_id job)),
            (''config_sha256'', JStr (cx_job_config_sha256 cx))]),
         (''attempt'', JObj
           [(''id'', JStr (a_id att)), (''job_id'', JStr (a_job_id att)),
            (''number'', JInt (a_attempt_number att)), (''status'', JStr (status_value (a_status att))),
            (''engine'', JStr (job_engine_value (a_engine_mode att))),
            (''rvc_commit'', opt_str (a_rvc_commit_hash att)),
            (''provenance_version'', opt_str (a_execution_provenance_version att)),
            (''runtime_image'', opt_str (a_runtime_image_digest att)),
            (''runtime_assets'', opt_str (a_runtime_asset_manifest_sha256 att)),
            (''job_config_sha256'', opt_str (a_job_config_sha256 att))]),
         (''artifacts'', JList (map binding_document (cx_model cx # (case cx_index cx of
            None \<Rightarrow> [] | Some i \<Rightarrow> [i]))))]))"

text \<open>
  The surroundings of one verification: whether a slot of the semaphore is free in time, the
  successive readings of \<^verbatim>\<open>time.monotonic()\<close>, and the temporary file of each object.
\<close>

record verify_env =
  vf_slot :: bool
  vf_clock :: "nat \<Rightarrow> rat"
  vf_spool :: "nat \<Rightarrow> spool_env"

fun verify_bindings ::
  "platform \<Rightarrow> settings \<Rightarrow> artifact_storage \<Rightarrow> verify_env \<Rightarrow> rat \<Rightarrow> nat \<Rightarrow> artifact_binding list \<Rightarrow>
   registry_error + unit" where
  "verify_bindings pf st storage env deadline k [] = Inr ()"
| "verify_bindings pf st storage env deadline k (b # bs) =
     (if deadline \<le> vf_clock env (2 * k + 2)
      then Inl (ModelRegistryUnavailable ''model registry artifact verification timed out'')
      else case verify_current_artifact_bytes pf st storage (vf_spool env k)
          (deadline - vf_clock env (2 * k + 3)) b of
        Inl _ \<Rightarrow> Inl (ModelRegistryUnavailable ''model registry artifact verification is unavailable'')
      | Inr verified \<Rightarrow>
          if \<not> verified
          then Inl (ModelRegistryConflict ''model registry artifact bytes do not match ledger'')
          else verify_bindings pf st storage env deadline (Suc k) bs)"

definition verify_context_bytes ::
  "platform \<Rightarrow> settings \<Rightarrow> artifact_storage \<Rightarrow> verify_env \<Rightarrow> candidate_context_row \<Rightarrow>
   registry_error + unit" where
  "verify_context_bytes pf st storage env cx =
     (let deadline = vf_clock env 0 + sample_verification_timeout_seconds st in
      if deadline - vf_clock env 1 \<le> 0
      then Inl (ModelRegistryUnavailable ''model registry artifact verification timed out'')
      else if \<not> vf_slot env
      then Inl (ModelRegistryUnavailable ''model registry artifact verification slot is unavailable'')
      else verify_bindings pf st storage env deadline 0
        (cx_model cx # (case cx_index cx of None \<Rightarrow> [] | Some i \<Rightarrow> [i])))"

definition unserializable :: registry_error where
  "unserializable = Registry_Unhandled ''ValueError''"

definition preflight_context ::
  "platform \<Rightarrow> settings \<Rightarrow> artifact_storage \<Rightarrow> verify_env \<Rightarrow> ident \<Rightarrow> ident \<Rightarrow> ident \<Rightarrow> ident \<Rightarrow> bool \<Rightarrow>
   ledger \<Rightarrow> registry_error + candidate_context_row \<times> string" where
  "preflight_context pf st storage env exp_id source_job_id source_attempt_id model_artifact_id
      require_current d =
     res_bind (candidate_context pf st storage exp_id source_job_id source_attempt_id
         model_artifact_id require_current d)
       (\<lambda>cx. case context_fingerprint pf cx of
          None \<Rightarrow> Inl unserializable
        | Some fp \<Rightarrow> res_bind (verify_context_bytes pf st storage env cx) (\<lambda>_. Inr (cx, fp)))"

definition context_matches_entry :: "candidate_context_row \<Rightarrow> model_registry_entry \<Rightarrow> bool" where
  "context_matches_entry cx n \<longleftrightarrow>
     (let job = cx_job cx; att = cx_attempt cx; model = vb_artifact (cx_model cx);
          index = map_option vb_artifact (cx_index cx) in
      j_id job = n_source_job_id n \<and> a_id att = n_source_attempt_id n \<and>
      j_job_name job = n_source_job_name n \<and> a_attempt_number att = n_source_attempt_number n \<and>
      a_engine_mode att = n_engine_mode n \<and> cx_job_config_sha256 cx = n_job_config_sha256 n \<and>
      a_rvc_commit_hash att = Some (n_rvc_commit_hash n) \<and>
      a_execution_provenance_version att = Some (n_execution_provenance_version n) \<and>
      a_runtime_image_digest att = Some (n_runtime_image_digest n) \<and>
      a_runtime_asset_manifest_sha256 att = Some (n_runtime_asset_manifest_sha256 n) \<and>
      ar_id model = n_model_artifact_id n \<and> ar_filename model = n_model_filename n \<and>
      ar_size_bytes model = n_model_size_bytes n \<and> ar_sha256 model = n_model_sha256 n \<and>
      map_option ar_id index = n_index_artifact_id n \<and>
      map_option ar_filename index = n_index_filename n \<and>
      map_option ar_size_bytes index = n_index_size_bytes n \<and>
      map_option ar_sha256 index = n_index_sha256 n)"

section \<open>Mutations\<close>

record candidate_create =
  cc_expected_registry_row_version :: int
  cc_source_job_id :: ident
  cc_source_attempt_id :: ident
  cc_model_artifact_id :: ident

record entry_promote =
  ep_expected_registry_row_version :: int
  ep_expected_entry_row_version :: int

record entry_revoke =
  ev_expected_registry_row_version :: int
  ev_expected_entry_row_version :: int
  ev_reason_code :: revoke_reason

fun revoke_reason_value :: "revoke_reason \<Rightarrow> string" where
  "revoke_reason_value Quality_Rejected = ''quality_rejected''"
| "revoke_reason_value Security_Issue = ''security_issue''"
| "revoke_reason_value Operator_Request = ''operator_request''"

text \<open>The JSON documents the fingerprints are taken of (\<^verbatim>\<open>payload.model_dump(mode="json")\<close>).\<close>

definition candidate_document :: "candidate_create \<Rightarrow> json" where
  "candidate_document c = JObj
     [(''expected_registry_row_version'', JInt (cc_expected_registry_row_version c)),
      (''source_job_id'', JStr (cc_source_job_id c)),
      (''source_attempt_id'', JStr (cc_source_attempt_id c)),
      (''model_artifact_id'', JStr (cc_model_artifact_id c))]"

definition promote_document :: "entry_promote \<Rightarrow> json" where
  "promote_document p = JObj
     [(''expected_registry_row_version'', JInt (ep_expected_registry_row_version p)),
      (''expected_entry_row_version'', JInt (ep_expected_entry_row_version p))]"

definition revoke_document :: "entry_revoke \<Rightarrow> json" where
  "revoke_document v = JObj
     [(''expected_registry_row_version'', JInt (ev_expected_registry_row_version v)),
      (''expected_entry_row_version'', JInt (ev_expected_entry_row_version v)),
      (''reason_code'', JStr (revoke_reason_value (ev_reason_code v)))]"

text \<open>
  What one request meets: the database it reads before the lock, under the lock and after a commit
  that failed, the clock, the identifier it draws, the outcome of its commit.
\<close>

record registry_env =
  rq_seen :: registry_db
  rq_locked :: registry_db
  rq_after :: registry_db
  rq_now :: datetime
  rq_new_id :: ident
  rq_outcome :: commit
  rq_verify :: verify_env

text \<open>Who asks what: the actor, its token version, the hashed key and the fingerprint of the request.\<close>

record registry_request =
  rr_experiment_id :: ident
  rr_actor :: user_row
  rr_token_version :: int
  rr_key_hash :: string
  rr_fingerprint :: string
  rr_operation :: registry_operation_type

type_synonym 'a phase = "registry_error + (registry_mutation_read + 'a)"

definition unless_replayed ::
  "ident \<Rightarrow> registry_request \<Rightarrow> registry_db \<Rightarrow> (registry_error + 'a) \<Rightarrow> 'a phase" where
  "unless_replayed actor_id rr s r =
     (case replay_or_none actor_id (rr_key_hash rr) (rr_operation rr) (rr_fingerprint rr) s of
        Inl e \<Rightarrow> Inl e
      | Inr (Some replay) \<Rightarrow> Inr (Inl replay)
      | Inr None \<Rightarrow> map_sum id Inr r)"

text \<open>The visibility check and the first search for a replay, common to the three mutations.\<close>

definition before_lock :: "registry_request \<Rightarrow> registry_db \<Rightarrow> (registry_error + 'a) \<Rightarrow> 'a phase" where
  "before_lock rr s r =
     res_bind (visible_experiment (rr_experiment_id rr) (rr_actor rr) s)
       (\<lambda>_. unless_replayed (ur_id (rr_actor rr)) rr s r)"

text \<open>The fence and the second search for a replay; the continuation gets the locked actor.\<close>

definition under_lock ::
  "registry_request \<Rightarrow> registry_db \<Rightarrow> (user_row \<Rightarrow> registry_error + 'a) \<Rightarrow> 'a phase" where
  "under_lock rr s f =
     res_bind (lock_experiment_fence (rr_experiment_id rr) (ur_id (rr_actor rr)) (rr_token_version rr) s)
       (\<lambda>actor. unless_replayed (ur_id actor) rr s (f actor))"

text \<open>The commit, and the last search for a replay when it failed.\<close>

definition commit_mutation ::
  "registry_env \<Rightarrow> registry_request \<Rightarrow> registry_mutation_read \<times> registry_db \<Rightarrow>
   (registry_error + registry_mutation_read \<times> bool) \<times> registry_db" where
  "commit_mutation env rr outcome =
     (case rq_outcome env of
        Committed \<Rightarrow> (Inr (fst outcome, False), snd outcome)
      | Operational \<Rightarrow> (Inl (Registry_Unhandled ''OperationalError''), rq_locked env)
      | _ \<Rightarrow>
          ((case replay_or_none (ur_id (rr_actor rr)) (rr_key_hash rr) (rr_operation rr)
                (rr_fingerprint rr) (rq_after env) of
              Inl e \<Rightarrow> Inl e
            | Inr (Some replay) \<Rightarrow> Inr (replay, True)
            | Inr None \<Rightarrow> Inl registry_changed), rq_locked env))"

definition run_mutation ::
  "registry_env \<Rightarrow> registry_request \<Rightarrow> 'a phase \<Rightarrow> ('a \<Rightarrow> (registry_mutation_read \<times> registry_db) phase) \<Rightarrow>
   (registry_error + registry_mutation_read \<times> bool) \<times> registry_db" where
  "run_mutation env rr first second =
     (case first of
        Inl e \<Rightarrow> (Inl e, rq_locked env)
      | Inr (Inl replay) \<Rightarrow> (Inr (replay, True), rq_locked env)
      | Inr (Inr x) \<Rightarrow>
          (case second x of
             Inl e \<Rightarrow> (Inl e, rq_locked env)
           | Inr (Inl replay) \<Rightarrow> (Inr (replay, True), rq_locked env)
           | Inr (Inr outcome) \<Rightarrow> commit_mutation env rr outcome))"

definition mutation_result ::
  "ident \<Rightarrow> ident option \<Rightarrow> model_registry_entry \<Rightarrow> registry_db \<Rightarrow> registry_mutation_read" where
  "mutation_result exp_id active_id n s =
     \<lparr>mr_experiment_id = exp_id, mr_registry_row_version = registry_version exp_id s,
      mr_active_entry_id = active_id, mr_entry = entry_to_read n\<rparr>"

text \<open>The operation row and the audit row of a mutation.\<close>

definition file_mutation ::
  "registry_request \<Rightarrow> user_row \<Rightarrow> string \<Rightarrow> registry_mutation_read \<Rightarrow> registry_db \<Rightarrow>
   registry_mutation_read \<times> registry_db" where
  "file_mutation rr actor action result s =
     (result, base_update
       (add_audit_event ''user'' (Some (ur_id actor)) action ''model_registry_entry''
         (Some (rd_id (mr_entry result))))
       (record_operation (ur_id actor) (rr_key_hash rr) (rr_fingerprint rr) (rr_operation rr) result s))"

subsection \<open>create\_candidate\<close>

definition candidate_entry ::
  "ident \<Rightarrow> datetime \<Rightarrow> ident \<Rightarrow> user_row \<Rightarrow> candidate_context_row \<Rightarrow> model_registry_entry" where
  "candidate_entry new_id now exp_id actor cx =
     (let job = cx_job cx; att = cx_attempt cx; model = vb_artifact (cx_model cx);
          index = map_option vb_artifact (cx_index cx) in
      \<lparr>n_id = new_id, n_experiment_id = exp_id, n_row_version = 1, n_status = Candidate,
       n_active_slot = None, n_source_job_id = j_id job, n_source_attempt_id = a_id att,
       n_source_job_name = j_job_name job, n_source_attempt_number = a_attempt_number att,
       n_engine_mode = RVC_WEBUI, n_job_config_sha256 = cx_job_config_sha256 cx,
       n_rvc_commit_hash = the (a_rvc_commit_hash att),
       n_execution_provenance_version = the (a_execution_provenance_version att),
       n_runtime_image_digest = the (a_runtime_image_digest att),
       n_runtime_asset_manifest_sha256 = the (a_runtime_asset_manifest_sha256 att),
       n_model_artifact_id = ar_id model, n_model_filename = ar_filename model,
       n_model_size_bytes = ar_size_bytes model, n_model_sha256 = ar_sha256 model,
       n_index_artifact_id = map_option ar_id index, n_index_filename = map_option ar_filename index,
       n_index_size_bytes = map_option ar_size_bytes index,
       n_index_sha256 = map_option ar_sha256 index,
       n_created_by = ur_id actor, n_approved_by = None, n_revoked_by = None, n_approved_at = None,
       n_revoked_at = None, n_revoke_reason = None, n_created_at = now\<rparr>)"

definition artifact_registered :: "ident \<Rightarrow> registry_db \<Rightarrow> bool" where
  "artifact_registered artifact_id s \<longleftrightarrow> (\<exists>n \<in> set (registry_entries s). n_model_artifact_id n = artifact_id)"

definition already_registered :: registry_error where
  "already_registered = ModelRegistryConflict ''model artifact already has a registry entry''"

definition candidate_preflight ::
  "platform \<Rightarrow> settings \<Rightarrow> artifact_storage \<Rightarrow> verify_env \<Rightarrow> ident \<Rightarrow> candidate_create \<Rightarrow> registry_db \<Rightarrow>
   registry_error + string" where
  "candidate_preflight pf st storage verify exp_id payload s =
     res_bind (require_registry_version (get_registry_row exp_id s) (cc_expected_registry_row_version payload))
       (\<lambda>_. if artifact_registered (cc_model_artifact_id payload) s then Inl already_registered
         else res_bind (preflight_context pf st storage verify exp_id (cc_source_job_id payload)
             (cc_source_attempt_id payload) (cc_model_artifact_id payload) True (base s))
           (\<lambda>(_, fp). Inr fp))"

definition candidate_locked ::
  "platform \<Rightarrow> settings \<Rightarrow> artifact_storage \<Rightarrow> registry_env \<Rightarrow> registry_request \<Rightarrow> candidate_create \<Rightarrow>
   string \<Rightarrow> user_row \<Rightarrow> registry_error + registry_mutation_read \<times> registry_db" where
  "candidate_locked pf st storage env rr payload preflight_fp actor =
     (let s = rq_locked env; exp_id = rr_experiment_id rr in
      res_bind (require_registry_version (get_registry_row exp_id s) (cc_expected_registry_row_version payload))
        (\<lambda>_. if artifact_registered (cc_model_artifact_id payload) s then Inl already_registered
          else res_bind (candidate_context pf st storage exp_id (cc_source_job_id payload)
              (cc_source_attempt_id payload) (cc_model_artifact_id payload) True (base s))
            (\<lambda>cx. case context_fingerprint pf cx of
               None \<Rightarrow> Inl unserializable
             | Some fp \<Rightarrow>
                 if preflight_fp \<noteq> fp
                 then Inl (ModelRegistryConflict
                   ''model registry artifact ledger changed during verification'')
                 else res_bind (advance_registry exp_id s) (\<lambda>s1.
                   let n = candidate_entry (rq_new_id env) (rq_now env) exp_id actor cx in
                   res_bind (flush_or_conflict (registry_entries_update (\<lambda>ns. ns @ [n]) s1)) (\<lambda>s2.
                     Inr (file_mutation rr actor ''model_registry.candidate_created''
                       (mutation_result exp_id (map_option n_id (active_entry exp_id s2)) n s2) s2))))))"

definition registry_request_of ::
  "platform \<Rightarrow> settings \<Rightarrow> registry_operation_type \<Rightarrow> json \<Rightarrow> ident \<Rightarrow> user_row \<Rightarrow> int \<Rightarrow> string \<Rightarrow>
   string \<Rightarrow> registry_request" where
  "registry_request_of pf st operation document exp_id actor token_version idempotency_key path =
     \<lparr>rr_experiment_id = exp_id, rr_actor = actor, rr_token_version = token_version,
      rr_key_hash = actor_key_hash pf (ur_id actor) idempotency_key,
      rr_fingerprint = request_fingerprint pf st operation path document,
      rr_operation = operation\<rparr>"

definition create_candidate ::
  "platform \<Rightarrow> settings \<Rightarrow> artifact_storage \<Rightarrow> registry_env \<Rightarrow> ident \<Rightarrow> user_row \<Rightarrow> int \<Rightarrow>
   candidate_create \<Rightarrow> string \<Rightarrow> string \<Rightarrow>
   (registry_error + registry_mutation_read \<times> bool) \<times> registry_db" where
  "create_candidate pf st storage env exp_id actor token_version payload idempotency_key path =
     (let rr = registry_request_of pf st Op_Candidate (candidate_document payload) exp_id actor
            token_version idempotency_key path in
      run_mutation env rr
        (before_lock rr (rq_seen env)
          (candidate_preflight pf st storage (rq_verify env) exp_id payload (rq_seen env)))
        (\<lambda>fp. under_lock rr (rq_locked env) (candidate_locked pf st storage env rr payload fp)))"

subsection \<open>promote\_entry\<close>

definition entry_of :: "ident \<Rightarrow> ident \<Rightarrow> registry_db \<Rightarrow> model_registry_entry option" where
  "entry_of exp_id entry_id s =
     find (\<lambda>n. n_id n = entry_id \<and> n_experiment_id n = exp_id) (registry_entries s)"

definition promotable :: "ident \<Rightarrow> ident \<Rightarrow> entry_promote \<Rightarrow> registry_db \<Rightarrow> registry_error + model_registry_entry" where
  "promotable exp_id entry_id payload s =
     (case entry_of exp_id entry_id s of
        None \<Rightarrow> Inl (ModelRegistryNotFound ''model registry entry not found'')
      | Some n \<Rightarrow>
          if n_row_version n \<noteq> ep_expected_entry_row_version payload
          then Inl (ModelRegistryConflict ''model registry entry changed; refresh and retry'')
          else if n_status n = Revoked
          then Inl (ModelRegistryConflict ''revoked model registry entry cannot be promoted'')
          else if n_active_slot n = Some 1
          then Inl (ModelRegistryConflict ''model registry entry is already active'')
          else Inr n)"

definition inconsistent_snapshot :: registry_error where
  "inconsistent_snapshot = ModelRegistryConflict ''model registry frozen snapshot is inconsistent''"

definition promote_preflight ::
  "platform \<Rightarrow> settings \<Rightarrow> artifact_storage \<Rightarrow> verify_env \<Rightarrow> ident \<Rightarrow> ident \<Rightarrow> entry_promote \<Rightarrow>
   registry_db \<Rightarrow> registry_error + string" where
  "promote_preflight pf st storage verify exp_id entry_id payload s =
     res_bind (require_registry_version (get_registry_row exp_id s) (ep_expected_registry_row_version payload))
       (\<lambda>_. res_bind (promotable exp_id entry_id payload s)
         (\<lambda>n. res_bind (preflight_context pf st storage verify exp_id (n_source_job_id n)
               (n_source_attempt_id n) (n_model_artifact_id n) False (base s))
           (\<lambda>(cx, fp). if \<not> context_matches_entry cx n then Inl inconsistent_snapshot else Inr fp)))"

definition approved_entry :: "datetime \<Rightarrow> user_row \<Rightarrow> model_registry_entry \<Rightarrow> model_registry_entry" where
  "approved_entry now actor n =
     (let n1 = n\<lparr>n_status := Approved, n_active_slot := Some 1\<rparr> in
      if n_approved_at n = None
      then n1\<lparr>n_approved_at := Some now, n_approved_by := Some (ur_id actor)\<rparr> else n1)"

definition promote_locked ::
  "platform \<Rightarrow> settings \<Rightarrow> artifact_storage \<Rightarrow> registry_env \<Rightarrow> registry_request \<Rightarrow> ident \<Rightarrow> entry_promote \<Rightarrow>
   string \<Rightarrow> user_row \<Rightarrow> registry_error + registry_mutation_read \<times> registry_db" where
  "promote_locked pf st storage env rr entry_id payload preflight_fp actor =
     (let s = rq_locked env; exp_id = rr_experiment_id rr in
      res_bind (require_registry_version (get_registry_row exp_id s) (ep_expected_registry_row_version payload))
        (\<lambda>_. if get_registry_row exp_id s = None then Inl registry_changed
          else res_bind (promotable exp_id entry_id payload s)
            (\<lambda>n. res_bind (candidate_context pf st storage exp_id (n_source_job_id n)
                  (n_source_attempt_id n) (n_model_artifact_id n) False (base s))
              (\<lambda>cx. case context_fingerprint pf cx of
                 None \<Rightarrow> Inl unserializable
               | Some fp \<Rightarrow>
                   if preflight_fp \<noteq> fp \<or> \<not> context_matches_entry cx n then Inl inconsistent_snapshot
                   else res_bind
                     (case active_entry exp_id s of
                        None \<Rightarrow> Inr s
                      | Some previous \<Rightarrow>
                          flush_or_conflict (set_entry (n_id previous) (n_active_slot_update (\<lambda>_. None)) s))
                     (\<lambda>s1. res_bind
                        (flush_or_conflict (set_entry entry_id (approved_entry (rq_now env) actor) s1))
                        (\<lambda>s2. res_bind (advance_registry exp_id s2) (\<lambda>s3.
                           Inr (file_mutation rr actor ''model_registry.entry_promoted''
                             (mutation_result exp_id (Some entry_id) (the (get_entry entry_id s3)) s3) s3))))))))"

definition promote_entry ::
  "platform \<Rightarrow> settings \<Rightarrow> artifact_storage \<Rightarrow> registry_env \<Rightarrow> ident \<Rightarrow> ident \<Rightarrow> user_row \<Rightarrow> int \<Rightarrow>
   entry_promote \<Rightarrow> string \<Rightarrow> string \<Rightarrow>
   (registry_error + registry_mutation_read \<times> bool) \<times> registry_db" where
  "promote_entry pf st storage env exp_id entry_id actor token_version payload idempotency_key path =
     (let rr = registry_request_of pf st Op_Promote (promote_document payload) exp_id actor
            token_version idempotency_key path in
      run_mutation env rr
        (before_lock rr (rq_seen env)
          (promote_preflight pf st storage (rq_verify env) exp_id entry_id payload (rq_seen env)))
        (\<lambda>fp. under_lock rr (rq_locked env) (promote_locked pf st storage env rr entry_id payload fp)))"

subsection \<open>revoke\_entry\<close>

definition revoked_entry :: "datetime \<Rightarrow> user_row \<Rightarrow> revoke_reason \<Rightarrow> model_registry_entry \<Rightarrow> model_registry_entry" where
  "revoked_entry now actor reason n =
     n\<lparr>n_status := Revoked, n_active_slot := None, n_revoked_by := Some (ur_id actor),
       n_revoked_at := Some now, n_revoke_reason := Some reason\<rparr>"

definition revoke_locked ::
  "registry_env \<Rightarrow> registry_request \<Rightarrow> ident \<Rightarrow> entry_revoke \<Rightarrow> user_row \<Rightarrow>
   registry_error + registry_mutation_read \<times> registry_db" where
  "revoke_locked env rr entry_id payload actor =
     (let s = rq_locked env; exp_id = rr_experiment_id rr in
      res_bind (require_registry_version (get_registry_row exp_id s) (ev_expected_registry_row_version payload))
        (\<lambda>_. if get_registry_row exp_id s = None then Inl registry_changed
          else case entry_of exp_id entry_id s of
            None \<Rightarrow> Inl (ModelRegistryNotFound ''model registry entry not found'')
          | Some n \<Rightarrow>
              if n_row_version n \<noteq> ev_expected_entry_row_version payload
              then Inl (ModelRegistryConflict ''model registry entry changed; refresh and retry'')
              else if n_status n = Revoked
              then Inl (ModelRegistryConflict ''model registry entry is already revoked'')
              else res_bind
                (flush_or_conflict
                  (set_entry entry_id (revoked_entry (rq_now env) actor (ev_reason_code payload)) s))
                (\<lambda>s1. res_bind (advance_registry exp_id s1) (\<lambda>s2.
                   Inr (file_mutation rr actor ''model_registry.entry_revoked''
                     (mutation_result exp_id (map_option n_id (active_entry exp_id s2))
                       (the (get_entry entry_id s2)) s2) s2)))))"

definition revoke_entry ::
  "platform \<Rightarrow> settings \<Rightarrow> registry_env \<Rightarrow> ident \<Rightarrow> ident \<Rightarrow> user_row \<Rightarrow> int \<Rightarrow> entry_revoke \<Rightarrow>
   string \<Rightarrow> string \<Rightarrow> (registry_error + registry_mutation_read \<times> bool) \<times> registry_db" where
  "revoke_entry pf st env exp_id entry_id actor token_version payload idempotency_key path =
     (let rr = registry_request_of pf st Op_Revoke (revoke_document payload) exp_id actor
            token_version idempotency_key path in
      run_mutation env rr (before_lock rr (rq_seen env) (Inr ()))
        (\<lambda>_. under_lock rr (rq_locked env) (revoke_locked env rr entry_id payload)))"

section \<open>Reading the registry\<close>

record registry_read =
  gr_registry_row_version :: int
  gr_active_entry_id :: "ident option"
  gr_items :: "registry_entry_read list"
  gr_total :: nat

text \<open>
  The listing reads the version and the active entry twice, around the page: \<open>s1\<close> is the database of
  the first reads, \<open>s2\<close> of the page, \<open>s3\<close> of the last reads.
\<close>

definition get_registry ::
  "ident \<Rightarrow> user_row \<Rightarrow> nat \<Rightarrow> nat \<Rightarrow> registry_db \<Rightarrow> registry_db \<Rightarrow> registry_db \<Rightarrow> registry_error + registry_read" where
  "get_registry exp_id actor offset limit s1 s2 s3 =
     res_bind (visible_experiment exp_id actor s1) (\<lambda>_.
       case get_registry_row exp_id s1 of
         None \<Rightarrow>
           if get_registry_row exp_id s3 \<noteq> None
           then Inl (ModelRegistryConflict ''model registry changed while reading; retry'')
           else Inr \<lparr>gr_registry_row_version = 0, gr_active_entry_id = None, gr_items = [], gr_total = 0\<rparr>
       | Some g \<Rightarrow>
           let entries = filter (\<lambda>n. n_experiment_id n = exp_id) (registry_entries s2);
               page = take limit (drop offset (rev (sort_key (\<lambda>n. (n_created_at n, n_id n)) entries)));
               final_active = active_entry exp_id s3 in
           if map_option g_row_version (get_registry_row exp_id s3) \<noteq> Some (g_row_version g) \<or>
              map_option n_id final_active \<noteq> map_option n_id (active_entry exp_id s1) \<or>
              (\<exists>n \<in> set_option final_active. n_status n \<noteq> Approved \<or> n_active_slot n \<noteq> Some 1)
           then Inl (ModelRegistryConflict ''model registry changed while reading; retry'')
           else Inr \<lparr>gr_registry_row_version = g_row_version g,
             gr_active_entry_id = map_option n_id (active_entry exp_id s1),
             gr_items = map entry_to_read page, gr_total = length entries\<rparr>)"

section \<open>The routes\<close>

fun raise_registry_error :: "registry_error \<Rightarrow> api_error" where
  "raise_registry_error (ModelRegistryNotFound m) = HTTPException 404 m"
| "raise_registry_error (ModelRegistryAuthenticationChanged m) =
     HTTPException 401 ''invalid or expired access token''"
| "raise_registry_error (ModelRegistryConflict m) = HTTPException 409 m"
| "raise_registry_error (ModelRegistryUnavailable m) = HTTPException 503 m"
| "raise_registry_error (Registry_Unhandled m) = Unhandled m"

definition require_expected_actor :: "ident \<Rightarrow> ident option \<Rightarrow> registry_error + unit" where
  "require_expected_actor actual expected =
     (if (\<exists>i \<in> set_option expected. i \<noteq> actual)
      then Inl (ModelRegistryConflict ''authenticated actor changed; reload before retry'') else Inr ())"

definition registry_route ::
  "ident \<Rightarrow> ident option \<Rightarrow> registry_env \<Rightarrow>
   (registry_error + registry_mutation_read \<times> bool) \<times> registry_db \<Rightarrow>
   (registry_mutation_read \<times> bool) res \<times> registry_db" where
  "registry_route actual expected env answer =
     (case require_expected_actor actual expected of
        Inl e \<Rightarrow> (Inl (raise_registry_error e), rq_locked env)
      | Inr _ \<Rightarrow> map_prod (map_sum raise_registry_error id) id answer)"

definition create_model_registry_candidate where
  "create_model_registry_candidate pf st storage env exp_id actor token_version expected_actor payload
      idempotency_key path =
     registry_route (ur_id actor) expected_actor env
       (create_candidate pf st storage env exp_id actor token_version payload idempotency_key path)"

definition promote_model_registry_entry where
  "promote_model_registry_entry pf st storage env exp_id entry_id actor token_version expected_actor
      payload idempotency_key path =
     registry_route (ur_id actor) expected_actor env
       (promote_entry pf st storage env exp_id entry_id actor token_version payload idempotency_key path)"

definition revoke_model_registry_entry where
  "revoke_model_registry_entry pf st env exp_id entry_id actor token_version expected_actor payload
      idempotency_key path =
     registry_route (ur_id actor) expected_actor env
       (revoke_entry pf st env exp_id entry_id actor token_version payload idempotency_key path)"

end
