(* ===== verification/Registry_Spec.thy ===== *)
theory Registry_Spec
  imports Model_Registry "HOL-Library.Sublist"
begin

text \<open>
  The specification of the model registry and the proof that the mutations implement it. A \<open>shelf\<close>
  is what one experiment's registry is to its readers: a version, the active entry, the review status
  of every entry; \<open>shelf_apply\<close> is what a recorded operation does to it. Shown: every mutation that
  commits applies exactly its recorded operation to the shelf of its experiment and leaves the others
  alone, so the operations table is a complete history: folding it from the empty shelf gives the
  present state, and every stored response is the state right after its operation.
\<close>

section \<open>Shelves\<close>

record shelf =
  sh_version :: int
  sh_active :: "ident option"
  sh_status :: "ident \<Rightarrow> entry_status option"

definition empty_shelf :: shelf where
  "empty_shelf = \<lparr>sh_version = 0, sh_active = None, sh_status = (\<lambda>_. None)\<rparr>"

definition shelf_step :: "registry_operation_type \<Rightarrow> ident \<Rightarrow> shelf \<Rightarrow> shelf" where
  "shelf_step operation i sh =
     (let next_version = sh_version sh + 1 in
      case operation of
        Op_Candidate \<Rightarrow> sh\<lparr>sh_version := next_version, sh_status := (sh_status sh)(i \<mapsto> Candidate)\<rparr>
      | Op_Promote \<Rightarrow> \<lparr>sh_version = next_version, sh_active = Some i,
          sh_status = (sh_status sh)(i \<mapsto> Approved)\<rparr>
      | Op_Revoke \<Rightarrow> \<lparr>sh_version = next_version,
          sh_active = (if sh_active sh = Some i then None else sh_active sh),
          sh_status = (sh_status sh)(i \<mapsto> Revoked)\<rparr>)"

lemma shelf_step_version [simp]: "sh_version (shelf_step operation i sh) = sh_version sh + 1"
  by (cases operation) (simp_all add: shelf_step_def Let_def)

definition shelf_apply :: "model_registry_operation \<Rightarrow> shelf \<Rightarrow> shelf" where
  "shelf_apply p = shelf_step (p_operation_type p) (p_entry_id p)"

definition shelf_of :: "ident \<Rightarrow> registry_db \<Rightarrow> shelf" where
  "shelf_of e s = \<lparr>sh_version = registry_version e s, sh_active = map_option n_id (active_entry e s),
     sh_status = (\<lambda>i. map_option n_status (entry_of e i s))\<rparr>"

definition operations_of :: "ident \<Rightarrow> registry_db \<Rightarrow> model_registry_operation list" where
  "operations_of e s = filter (\<lambda>p. p_experiment_id p = e) (registry_operations s)"

definition response_shows :: "model_registry_operation \<Rightarrow> shelf \<Rightarrow> bool" where
  "response_shows p sh \<longleftrightarrow>
     mr_registry_row_version (p_response p) = sh_version sh \<and>
     mr_active_entry_id (p_response p) = sh_active sh \<and>
     sh_status sh (p_entry_id p) = Some (rd_status (mr_entry (p_response p)))"

definition history_recorded :: "ident \<Rightarrow> registry_db \<Rightarrow> bool" where
  "history_recorded e s \<longleftrightarrow>
     shelf_of e s = fold shelf_apply (operations_of e s) empty_shelf \<and>
     (\<forall>k < length (operations_of e s).
        response_shows (operations_of e s ! k)
          (fold shelf_apply (take (Suc k) (operations_of e s)) empty_shelf))"

definition registry_ok :: "registry_db \<Rightarrow> bool" where
  "registry_ok s \<longleftrightarrow> registry_constraints s \<and>
     distinct (map (\<lambda>p. (p_actor_id p, p_idempotency_key_hash p)) (registry_operations s)) \<and>
     (\<forall>n \<in> set (registry_entries s). get_registry_row (n_experiment_id n) s \<noteq> None) \<and>
     (\<forall>e. history_recorded e s)"

section \<open>Reading the tables\<close>

lemma find_conj: "find (\<lambda>x. P x \<and> Q x) xs = find Q (filter P xs)"
  by (induction xs) auto

lemma find_unique_pair:
  assumes "distinct (map (\<lambda>p. (a p, b p)) ps)" "p \<in> set ps" "a p = i" "b p = k"
  shows "find (\<lambda>q. a q = i \<and> b q = k) ps = Some p"
  using assms by (induction ps) force+

lemma active_entry_filter:
  "active_entry e s =
     find (\<lambda>n. n_active_slot n = Some 1) (filter (\<lambda>n. n_experiment_id n = e) (registry_entries s))"
  unfolding active_entry_def active_in_def by (rule find_conj)

lemma entry_of_filter:
  "entry_of e i s = get_row n_id i (filter (\<lambda>n. n_experiment_id n = e) (registry_entries s))"
proof -
  have "entry_of e i s = find (\<lambda>n. n_experiment_id n = e \<and> n_id n = i) (registry_entries s)"
    unfolding entry_of_def by (rule arg_cong [where f = "\<lambda>p. find p _"]) auto
  then show ?thesis by (simp add: find_conj get_row_def)
qed

lemma shelf_frame:
  assumes "filter (\<lambda>n. n_experiment_id n = e) (registry_entries s') =
      filter (\<lambda>n. n_experiment_id n = e) (registry_entries s)"
    and "registry_version e s' = registry_version e s"
  shows "shelf_of e s' = shelf_of e s"
  using assms by (simp add: shelf_of_def active_entry_filter entry_of_filter)

lemma registry_constraintsD:
  assumes "registry_constraints s"
  shows "n \<in> set (registry_entries s) \<Longrightarrow> entry_checks n" "wf_table n_id (registry_entries s)"
    "wf_table g_experiment_id (registries s)" "distinct (map n_model_artifact_id (registry_entries s))"
  using assms by (simp_all add: registry_constraints_def wf_table_def list_all_iff)

lemma entry_unique:
  assumes "registry_constraints s" "n \<in> set (registry_entries s)" "m \<in> set (registry_entries s)"
    and "n_id n = n_id m"
  shows "n = m"
  using registry_constraintsD(2) [OF assms(1)] assms(2-) unfolding wf_table_def distinct_map
  by (auto dest: inj_onD)

lemma distinct_slots:
  assumes "distinct [(n_experiment_id n, n_active_slot n). n \<leftarrow> ns, n_active_slot n \<noteq> None]"
    and "n \<in> set ns" "m \<in> set ns" "active_in e n" "active_in e m"
  shows "n = m"
proof -
  have "distinct (map (\<lambda>n. (n_experiment_id n, n_active_slot n)) (filter (\<lambda>n. n_active_slot n \<noteq> None) ns))"
    using assms(1) by (induction ns) (auto split: if_splits)
  then show ?thesis
    using assms(2-) by (auto simp: distinct_map active_in_def intro: inj_onD)
qed

lemma active_entry_iff:
  assumes "registry_constraints s"
  shows "active_entry e s = Some n \<longleftrightarrow> n \<in> set (registry_entries s) \<and> active_in e n"
proof
  assume "active_entry e s = Some n"
  then show "n \<in> set (registry_entries s) \<and> active_in e n"
    by (auto simp: active_entry_def find_Some_iff)
next
  assume n: "n \<in> set (registry_entries s) \<and> active_in e n"
  then obtain m where m: "active_entry e s = Some m"
    by (cases "active_entry e s") (auto simp: active_entry_def find_None_iff)
  then have "m \<in> set (registry_entries s)" "active_in e m"
    by (auto simp: active_entry_def find_Some_iff)
  then have "n = m" using n distinct_slots assms unfolding registry_constraints_def by blast
  with m show "active_entry e s = Some n" by simp
qed

lemma entry_of_iff:
  assumes "registry_constraints s"
  shows "entry_of e i s = Some n \<longleftrightarrow>
    n \<in> set (registry_entries s) \<and> n_id n = i \<and> n_experiment_id n = e"
proof -
  have "wf_table n_id (filter (\<lambda>n. n_experiment_id n = e) (registry_entries s))"
    using registry_constraintsD(2) [OF assms] by (simp add: wf_table_def distinct_map_filter)
  then show ?thesis by (auto simp: entry_of_filter get_row_iff)
qed

lemma entry_of_eq_get_entry:
  assumes "registry_constraints s" "entry_of e i s = Some n"
  shows "get_entry i s = Some n"
  using assms get_row_iff [OF registry_constraintsD(2) [OF assms(1)]] by (auto simp: entry_of_iff)

section \<open>Writing the tables\<close>

lemma flush_or_conflict_Inr [simp]: "flush_or_conflict s = Inr t \<longleftrightarrow> t = s \<and> registry_constraints s"
  by (auto simp: flush_or_conflict_def)

text \<open>The written state of \<^verbatim>\<open>_advance_registry\<close>.\<close>

definition advanced :: "ident \<Rightarrow> registry_db \<Rightarrow> registry_db" where
  "advanced e s = (case get_registry_row e s of
      None \<Rightarrow> registries_update (\<lambda>gs. gs @ [\<lparr>g_experiment_id = e, g_row_version = 1\<rparr>]) s
    | Some _ \<Rightarrow> registries_update (upd_row g_experiment_id e (g_row_version_update (\<lambda>v. v + 1))) s)"

lemma advance_registry_Inr [simp]:
  "advance_registry e s = Inr t \<longleftrightarrow> t = advanced e s \<and> registry_constraints (advanced e s)"
  by (auto simp: advance_registry_def advanced_def)

lemma advanced_frame [simp]:
  "registry_entries (advanced e s) = registry_entries s" "base (advanced e s) = base s"
  "users (advanced e s) = users s" "registry_operations (advanced e s) = registry_operations s"
  "active_entry e' (advanced e s) = active_entry e' s" "entry_of e' i (advanced e s) = entry_of e' i s"
  by (simp_all add: advanced_def active_entry_def entry_of_def split: option.split)

lemma registry_version_advanced:
  "registry_version e' (advanced e s) = registry_version e' s + (if e' = e then 1 else 0)"
  by (auto simp: registry_version_def advanced_def get_row_append get_row_upd_row split: option.split)

lemma advanced_row: "get_registry_row e' (advanced e s) = None \<longleftrightarrow> get_registry_row e' s = None \<and> e' \<noteq> e"
  by (auto simp: advanced_def get_row_append get_row_upd_row split: option.split)

lemma set_entry_frame [simp]:
  "registries (set_entry i f s) = registries s" "base (set_entry i f s) = base s"
  "users (set_entry i f s) = users s" "registry_operations (set_entry i f s) = registry_operations s"
  "registry_version e (set_entry i f s) = registry_version e s"
  by (simp_all add: set_entry_def registry_version_def)

text \<open>The row a write leaves: the change and the next version.\<close>

definition bumped :: "(model_registry_entry \<Rightarrow> model_registry_entry) \<Rightarrow> model_registry_entry \<Rightarrow> model_registry_entry" where
  "bumped f n = (f n)\<lparr>n_row_version := n_row_version n + 1\<rparr>"

lemma set_entry_rows: "registry_entries (set_entry i f s) = upd_row n_id i (bumped f) (registry_entries s)"
  by (simp add: set_entry_def bumped_def [abs_def])

lemma bumped_sel [simp]:
  "n_id (bumped f n) = n_id (f n)" "n_experiment_id (bumped f n) = n_experiment_id (f n)"
  "n_status (bumped f n) = n_status (f n)" "n_active_slot (bumped f n) = n_active_slot (f n)"
  "n_row_version (bumped f n) = n_row_version n + 1"
  by (simp_all add: bumped_def)

lemma filter_upd_row_other:
  assumes "\<And>r. r \<in> set rs \<Longrightarrow> key r = i \<Longrightarrow> \<not> P r \<and> \<not> P (f r)"
  shows "filter P (upd_row key i f rs) = filter P rs"
  using assms by (induction rs) auto

text \<open>A write to an entry of one experiment is not seen by the others.\<close>

lemma set_entry_elsewhere:
  assumes "registry_constraints s" "entry_of e i s = Some n" "\<And>n. n_experiment_id (f n) = n_experiment_id n"
    and "e' \<noteq> e"
  shows "shelf_of e' (set_entry i f s) = shelf_of e' s"
proof (rule shelf_frame)
  have "m = n" if "m \<in> set (registry_entries s)" "n_id m = i" for m
    using that assms(1,2) by (intro entry_unique [OF assms(1) that(1)]) (simp_all add: entry_of_iff)
  moreover have "n_experiment_id n = e" using assms(1,2) by (simp add: entry_of_iff)
  ultimately show "filter (\<lambda>n. n_experiment_id n = e') (registry_entries (set_entry i f s)) =
      filter (\<lambda>n. n_experiment_id n = e') (registry_entries s)"
    using assms(3,4) unfolding set_entry_rows by (intro filter_upd_row_other) auto
qed simp

lemma entry_of_set_entry:
  assumes "\<And>n. n_id (f n) = n_id n" "\<And>n. n_experiment_id (f n) = n_experiment_id n"
  shows "entry_of e j (set_entry i f s) = map_option (if j = i then bumped f else id) (entry_of e j s)"
proof -
  have "get_row n_id j (filter P (upd_row n_id i (bumped f) ns)) =
      map_option (if j = i then bumped f else id) (get_row n_id j (filter P ns))"
    if "P = (\<lambda>n. n_experiment_id n = e)" for P ns
    using assms that by (induction ns) auto
  then show ?thesis by (simp add: entry_of_filter set_entry_rows)
qed

text \<open>
  The columns of an entry that are frozen when it is created, and how a row may change: the frozen
  columns and the key stay, the version grows, and a revoked row is not written again.
\<close>

definition entry_snapshot where
  "entry_snapshot n =
     ((n_experiment_id n, n_source_job_id n, n_source_attempt_id n, n_source_job_name n,
       n_source_attempt_number n, n_engine_mode n, n_job_config_sha256 n, n_rvc_commit_hash n,
       n_execution_provenance_version n, n_runtime_image_digest n, n_runtime_asset_manifest_sha256 n),
      (n_model_artifact_id n, n_model_filename n, n_model_size_bytes n, n_model_sha256 n,
       n_index_artifact_id n, n_index_filename n, n_index_size_bytes n, n_index_sha256 n),
      n_created_by n, n_created_at n)"

definition entry_evolves :: "model_registry_entry \<Rightarrow> model_registry_entry \<Rightarrow> bool" where
  "entry_evolves n m \<longleftrightarrow> n_id m = n_id n \<and> entry_snapshot m = entry_snapshot n \<and>
     n_row_version n \<le> n_row_version m \<and> (n_status n = Revoked \<longrightarrow> m = n)"

definition entries_evolve :: "registry_db \<Rightarrow> registry_db \<Rightarrow> bool" where
  "entries_evolve s t \<longleftrightarrow>
     (\<forall>n \<in> set (registry_entries s). \<exists>m \<in> set (registry_entries t). entry_evolves n m)"

lemma entry_evolves_refl [simp, intro]: "entry_evolves n n"
  by (simp add: entry_evolves_def)

lemma entry_evolves_trans [trans]: "entry_evolves n m \<Longrightarrow> entry_evolves m k \<Longrightarrow> entry_evolves n k"
  by (fastforce simp: entry_evolves_def)

lemma entries_evolve_trans [trans]: "entries_evolve s t \<Longrightarrow> entries_evolve t u \<Longrightarrow> entries_evolve s u"
  unfolding entries_evolve_def by (meson entry_evolves_trans)

lemma entries_evolve_mono:
  "set (registry_entries s) \<subseteq> set (registry_entries t) \<Longrightarrow> entries_evolve s t"
  by (auto simp: entries_evolve_def)

lemma entries_evolve_set_entry:
  assumes "\<And>n. n_id (f n) = n_id n" "\<And>n. entry_snapshot (f n) = entry_snapshot n"
    and "\<And>n. n \<in> set (registry_entries s) \<Longrightarrow> n_id n = i \<Longrightarrow> n_status n \<noteq> Revoked"
  shows "entries_evolve s (set_entry i f s)"
proof -
  have "entry_snapshot (bumped f n) = entry_snapshot n" for n
    using assms(2) by (simp add: bumped_def entry_snapshot_def)
  then have "entry_evolves n (bumped f n)" if "n \<in> set (registry_entries s)" "n_id n = i" for n
    using assms(1,3) that by (simp add: entry_evolves_def)
  note changed = this
  have "\<exists>m \<in> set (registry_entries (set_entry i f s)). entry_evolves n m"
    if "n \<in> set (registry_entries s)" for n
  proof (cases "n_id n = i")
    case True
    with changed [OF that] that show ?thesis by (auto simp: set_entry_rows set_upd_row)
  qed (use that in \<open>auto simp: set_entry_rows set_upd_row\<close>)
  then show ?thesis by (simp add: entries_evolve_def)
qed

section \<open>What a mutation writes\<close>

definition mutation_effect ::
  "registry_request \<Rightarrow> user_row \<Rightarrow> registry_db \<Rightarrow> registry_mutation_read \<times> registry_db \<Rightarrow> bool" where
  "mutation_effect rr actor s out \<longleftrightarrow>
     (\<exists>action n t. let e = rr_experiment_id rr in
        out = file_mutation rr actor action (mutation_result e (map_option n_id (active_entry e t)) n t) t \<and>
        registry_constraints t \<and> base t = base s \<and> users t = users s \<and>
        registry_operations t = registry_operations s \<and>
        (\<forall>m \<in> set (registry_entries t). get_registry_row (n_experiment_id m) t \<noteq> None) \<and>
        entry_of e (n_id n) t = Some n \<and>
        shelf_of e t = shelf_step (rr_operation rr) (n_id n) (shelf_of e s) \<and>
        (\<forall>e'. e' \<noteq> e \<longrightarrow> shelf_of e' t = shelf_of e' s) \<and>
        entries_evolve s t)"

lemma shelf_of_advanced:
  "shelf_of e' (advanced e s) = (shelf_of e' s)\<lparr>sh_version := registry_version e' s + (if e' = e then 1 else 0)\<rparr>"
  by (simp add: shelf_of_def registry_version_advanced)

lemma rows_advanced:
  assumes "\<forall>m \<in> set (registry_entries s). get_registry_row (n_experiment_id m) s \<noteq> None"
  shows "\<forall>m \<in> set (registry_entries (advanced e s)). get_registry_row (n_experiment_id m) (advanced e s) \<noteq> None"
  using assms advanced_row by auto

lemma rows_set_entry:
  assumes "\<forall>m \<in> set (registry_entries s). get_registry_row (n_experiment_id m) s \<noteq> None"
    and "\<And>n. n_experiment_id (f n) = n_experiment_id n"
  shows "\<forall>m \<in> set (registry_entries (set_entry i f s)).
    get_registry_row (n_experiment_id m) (set_entry i f s) \<noteq> None"
  using assms by (auto simp: set_entry_rows set_upd_row)

lemma registry_okD:
  assumes "registry_ok s"
  shows "registry_constraints s"
    "\<forall>n \<in> set (registry_entries s). get_registry_row (n_experiment_id n) s \<noteq> None"
    "history_recorded e s"
    "distinct (map (\<lambda>p. (p_actor_id p, p_idempotency_key_hash p)) (registry_operations s))"
  using assms by (simp_all add: registry_ok_def)

subsection \<open>Candidates\<close>

lemma candidate_locked_effect:
  assumes ok: "registry_ok (rq_locked env)" and fresh: "get_entry (rq_new_id env) (rq_locked env) = None"
    and op: "rr_operation rr = Op_Candidate"
    and run: "candidate_locked pf st storage env rr payload fp actor = Inr out"
  shows "mutation_effect rr actor (rq_locked env) out"
proof -
  define s where "s = rq_locked env"
  define e where "e = rr_experiment_id rr"
  note ok = registry_okD [OF ok, folded s_def]
  obtain cx where out: "out = file_mutation rr actor ''model_registry.candidate_created''
      (let n = candidate_entry (rq_new_id env) (rq_now env) e actor cx;
           t = registry_entries_update (\<lambda>ns. ns @ [n]) (advanced e s) in
       mutation_result e (map_option n_id (active_entry e t)) n t)
      (registry_entries_update
        (\<lambda>ns. ns @ [candidate_entry (rq_new_id env) (rq_now env) e actor cx]) (advanced e s))"
    and written: "registry_constraints (registry_entries_update
        (\<lambda>ns. ns @ [candidate_entry (rq_new_id env) (rq_now env) e actor cx]) (advanced e s))"
    using run
    by (auto simp: candidate_locked_def Let_def s_def [symmetric] e_def [symmetric]
        split: if_splits option.splits)
  define n where "n = candidate_entry (rq_new_id env) (rq_now env) e actor cx"
  define t where "t = registry_entries_update (\<lambda>ns. ns @ [n]) (advanced e s)"
  have n: "n_id n = rq_new_id env" "n_experiment_id n = e" "n_active_slot n = None" "n_status n = Candidate"
    by (simp_all add: n_def candidate_entry_def Let_def)
  have rows: "registry_entries t = registry_entries s @ [n]" "base t = base s" "users t = users s"
    "registry_operations t = registry_operations s" "registries t = registries (advanced e s)"
    by (simp_all add: t_def)
  have version: "registry_version e' t = registry_version e' s + (if e' = e then 1 else 0)" for e'
    using registry_version_advanced [of e' e s] rows(5) by (simp add: registry_version_def)
  have t_ok: "registry_constraints t" using written by (simp add: t_def n_def)
  have unused: "entry_of e' (n_id n) s = None" for e'
    using fresh n(1) by (auto simp: entry_of_filter get_row_None s_def)
  have active: "active_entry e' t = active_entry e' s" for e'
    by (auto simp: active_entry_def rows find_append active_in_def n split: option.split)
  have entry: "entry_of e' i t = (if e' = e \<and> i = n_id n then Some n else entry_of e' i s)" for e' i
    using unused by (auto simp: entry_of_filter rows get_row_append n split: option.split)
  have "shelf_of e t = shelf_step (rr_operation rr) (n_id n) (shelf_of e s)"
    by (simp add: shelf_of_def op shelf_step_def version active entry n fun_eq_iff)
  moreover have "\<forall>e'. e' \<noteq> e \<longrightarrow> shelf_of e' t = shelf_of e' s"
    by (simp add: shelf_of_def version active entry)
  moreover have "\<forall>m \<in> set (registry_entries t). get_registry_row (n_experiment_id m) t \<noteq> None"
    using ok(2) advanced_row [of _ e s] by (auto simp: rows n)
  moreover have "entries_evolve s t" by (rule entries_evolve_mono) (auto simp: rows)
  moreover have "out = file_mutation rr actor ''model_registry.candidate_created''
      (mutation_result e (map_option n_id (active_entry e t)) n t) t"
    using out by (simp add: t_def n_def Let_def)
  ultimately show ?thesis
    using t_ok rows(2-4) entry [of e "n_id n"]
    unfolding mutation_effect_def Let_def e_def [symmetric] s_def [symmetric]
    by (intro exI [of _ "''model_registry.candidate_created''"] exI [of _ n] exI [of _ t]) simp
qed

subsection \<open>Revocations\<close>

lemma revoked_entry_sel [simp]:
  "n_id (revoked_entry now actor reason n) = n_id n"
  "n_experiment_id (revoked_entry now actor reason n) = n_experiment_id n"
  "entry_snapshot (revoked_entry now actor reason n) = entry_snapshot n"
  "n_status (revoked_entry now actor reason n) = Revoked"
  "n_active_slot (revoked_entry now actor reason n) = None"
  by (simp_all add: revoked_entry_def entry_snapshot_def)

lemma approved_entry_sel [simp]:
  "n_id (approved_entry now actor n) = n_id n"
  "n_experiment_id (approved_entry now actor n) = n_experiment_id n"
  "entry_snapshot (approved_entry now actor n) = entry_snapshot n"
  "n_status (approved_entry now actor n) = Approved"
  "n_active_slot (approved_entry now actor n) = Some 1"
  by (simp_all add: approved_entry_def entry_snapshot_def Let_def)

text \<open>The active entry after a write, told from the rows.\<close>

lemma active_entry_set_entry:
  assumes "registry_constraints s" "registry_constraints (set_entry i f s)"
    and "entry_of e i s = Some n" "\<And>n. n_id (f n) = n_id n" "n_experiment_id (f n) = n_experiment_id n"
  shows "map_option n_id (active_entry e (set_entry i f s)) =
    (if n_active_slot (f n) = Some 1 then Some i
     else if map_option n_id (active_entry e s) = Some i then None
     else map_option n_id (active_entry e s))"
proof -
  have n: "n \<in> set (registry_entries s)" "n_id n = i" "n_experiment_id n = e"
    using assms(1,3) by (simp_all add: entry_of_iff)
  have only: "m = n" if "m \<in> set (registry_entries s)" "n_id m = i" for m
    using entry_unique [OF assms(1) that(1) n(1)] that n by simp
  have rows: "set (registry_entries (set_entry i f s)) =
      {m \<in> set (registry_entries s). n_id m \<noteq> i} \<union> {bumped f n}"
  proof -
    have "{m \<in> set (registry_entries s). n_id m = i} = {n}" using n only by blast
    then show ?thesis by (simp only: set_entry_rows set_upd_row image_insert image_empty)
  qed
  have other: "active_entry e (set_entry i f s) = Some m" if "active_entry e s = Some m" "n_id m \<noteq> i" for m
    using that by (simp add: active_entry_iff [OF assms(1)] active_entry_iff [OF assms(2)] rows)
  have earlier: "active_entry e s = Some m"
    if "active_entry e (set_entry i f s) = Some m" "m \<noteq> bumped f n" for m
    using that by (simp add: active_entry_iff [OF assms(1)] active_entry_iff [OF assms(2)] rows)
  show ?thesis
  proof (cases "n_active_slot (f n) = Some 1")
    case True
    then have "active_entry e (set_entry i f s) = Some (bumped f n)"
      using assms(5) n by (simp add: active_entry_iff [OF assms(2)] rows active_in_def)
    then show ?thesis using True assms(4) n by simp
  next
    case False
    then have not_new: "active_entry e (set_entry i f s) \<noteq> Some (bumped f n)"
      by (simp add: active_entry_iff [OF assms(2)] active_in_def)
    have not_i: "n_id m \<noteq> i" if "active_entry e (set_entry i f s) = Some m" for m
      using that not_new by (auto simp: active_entry_iff [OF assms(2)] rows)
    show ?thesis
      using False not_new not_i earlier other
      by (cases "active_entry e s"; cases "active_entry e (set_entry i f s)") auto
  qed
qed

lemma shelf_of_set_entry:
  assumes "registry_constraints s" "registry_constraints (set_entry i f s)"
    and "entry_of e i s = Some n" "\<And>n. n_id (f n) = n_id n"
    and "\<And>n. n_experiment_id (f n) = n_experiment_id n"
  shows "shelf_of e (set_entry i f s) =
    \<lparr>sh_version = registry_version e s,
     sh_active = (if n_active_slot (f n) = Some 1 then Some i
       else if sh_active (shelf_of e s) = Some i then None else sh_active (shelf_of e s)),
     sh_status = (sh_status (shelf_of e s))(i \<mapsto> n_status (f n))\<rparr>"
  using active_entry_set_entry [OF assms(1-4) assms(5)] assms(3)
  by (auto simp: shelf_of_def entry_of_set_entry [where f = f, OF assms(4,5)] option.map_comp
      fun_eq_iff o_def cong: option.map_cong)

lemma revoke_locked_effect:
  assumes ok: "registry_ok (rq_locked env)" and op: "rr_operation rr = Op_Revoke"
    and run: "revoke_locked env rr entry_id payload actor = Inr out"
  shows "mutation_effect rr actor (rq_locked env) out"
proof -
  define s where "s = rq_locked env"
  define e where "e = rr_experiment_id rr"
  define f where "f = revoked_entry (rq_now env) actor (ev_reason_code payload)"
  define t where "t = advanced e (set_entry entry_id f s)"
  note ok = registry_okD [OF ok, folded s_def]
  obtain n where n: "entry_of e entry_id s = Some n" "n_status n \<noteq> Revoked"
    and out: "out = file_mutation rr actor ''model_registry.entry_revoked''
      (mutation_result e (map_option n_id (active_entry e t)) (the (get_entry entry_id t)) t) t"
    and written: "registry_constraints (set_entry entry_id f s)" and t_ok: "registry_constraints t"
    using run
    by (auto simp: revoke_locked_def Let_def s_def [symmetric] e_def [symmetric] f_def [symmetric]
        t_def [symmetric] simp del: advanced_frame split: if_splits option.splits)
  have f: "\<And>n. n_id (f n) = n_id n" "\<And>n. n_experiment_id (f n) = n_experiment_id n"
    "\<And>n. entry_snapshot (f n) = entry_snapshot n"
    by (simp_all add: f_def)
  have entry: "entry_of e entry_id t = Some (bumped f n)"
    using n by (simp add: t_def entry_of_set_entry [where f = f, OF f(1,2)])
  then have "get_entry entry_id t = Some (bumped f n)" by (rule entry_of_eq_get_entry [OF t_ok])
  moreover have id: "n_id (bumped f n) = entry_id" using n f ok(1) by (simp add: entry_of_iff)
  moreover have "shelf_of e t = shelf_step (rr_operation rr) entry_id (shelf_of e s)"
    using shelf_of_set_entry [OF ok(1) written n(1) f(1,2)]
    by (simp add: t_def shelf_of_advanced op shelf_step_def f_def) (simp add: shelf_of_def)
  moreover have "\<forall>e'. e' \<noteq> e \<longrightarrow> shelf_of e' t = shelf_of e' s"
    using set_entry_elsewhere [OF ok(1) n(1) f(2)]
    by (simp add: t_def shelf_of_advanced) (simp add: shelf_of_def)
  moreover have "\<forall>m \<in> set (registry_entries t). get_registry_row (n_experiment_id m) t \<noteq> None"
    unfolding t_def by (rule rows_advanced [OF rows_set_entry [OF ok(2) f(2)]])
  moreover have "entries_evolve s (set_entry entry_id f s)"
    using n(2) entry_unique [OF ok(1)] iffD1 [OF entry_of_iff [OF ok(1)] n(1)]
    by (intro entries_evolve_set_entry [OF f(1,3)]) blast
  then have "entries_evolve s t" by (simp add: t_def entries_evolve_def)
  moreover have "base t = base s" "users t = users s" "registry_operations t = registry_operations s"
    by (simp_all add: t_def)
  ultimately show ?thesis
    using t_ok out entry
    unfolding mutation_effect_def Let_def e_def [symmetric] s_def [symmetric]
    by (intro exI [of _ "''model_registry.entry_revoked''"] exI [of _ "bumped f n"] exI [of _ t]) simp
qed

subsection \<open>Promotions\<close>

text \<open>The state after the previously active entry has given up its slot.\<close>

definition slot_freed :: "ident \<Rightarrow> registry_db \<Rightarrow> registry_db" where
  "slot_freed e s = (case active_entry e s of
      None \<Rightarrow> s
    | Some previous \<Rightarrow> set_entry (n_id previous) (n_active_slot_update (\<lambda>_. None)) s)"

lemma slot_freed_frame [simp]:
  "registries (slot_freed e s) = registries s" "base (slot_freed e s) = base s"
  "users (slot_freed e s) = users s" "registry_operations (slot_freed e s) = registry_operations s"
  "registry_version e' (slot_freed e s) = registry_version e' s"
  by (simp_all add: slot_freed_def split: option.split)

lemma active_is_approved:
  assumes "registry_constraints s" "active_entry e s = Some n"
  shows "n_status n = Approved" "n_active_slot n = Some 1" "entry_of e (n_id n) s = Some n"
proof -
  have n: "n \<in> set (registry_entries s)" "active_in e n" using assms by (simp_all add: active_entry_iff)
  then show "n_active_slot n = Some 1" "entry_of e (n_id n) s = Some n"
    using assms(1) by (simp_all add: active_in_def entry_of_iff)
  then show "n_status n = Approved"
    using registry_constraintsD(1) [OF assms(1) n(1)] by (auto simp: entry_checks_def)
qed

lemma slot_freed_entry:
  assumes "registry_constraints s" "entry_of e i s = Some n" "n_active_slot n \<noteq> Some 1"
  shows "entry_of e i (slot_freed e s) = Some n"
proof (cases "active_entry e s")
  case (Some p)
  then have "n_id p \<noteq> i" using active_is_approved [OF assms(1) Some] assms(2,3) by auto
  then show ?thesis using Some assms(2) by (simp add: slot_freed_def entry_of_set_entry)
qed (simp add: slot_freed_def assms)

lemma slot_freed_status:
  "sh_status (shelf_of e' (slot_freed e s)) = sh_status (shelf_of e' s)"
  by (auto simp: shelf_of_def slot_freed_def entry_of_set_entry option.map_comp o_def fun_eq_iff
      split: option.split intro!: option.map_cong)

lemma slot_freed_elsewhere:
  assumes "registry_constraints s" "e' \<noteq> e"
  shows "shelf_of e' (slot_freed e s) = shelf_of e' s"
  using set_entry_elsewhere [OF assms(1) active_is_approved(3) [OF assms(1)]] assms(2)
  by (auto simp: slot_freed_def split: option.split)

lemma slot_freed_evolve:
  assumes "registry_constraints s"
  shows "entries_evolve s (slot_freed e s)"
proof (cases "active_entry e s")
  case None
  then show ?thesis by (simp add: slot_freed_def entries_evolve_mono)
next
  case (Some p)
  have "n_status m \<noteq> Revoked" if "m \<in> set (registry_entries s)" "n_id m = n_id p" for m
  proof -
    have "m = p"
      using entry_unique [OF assms that(1)] Some that(2) by (simp add: active_entry_iff [OF assms])
    then show ?thesis using active_is_approved(1) [OF assms Some] by simp
  qed
  then show ?thesis
    using Some by (auto simp: slot_freed_def entry_snapshot_def intro!: entries_evolve_set_entry)
qed

lemma slot_freed_rows:
  assumes "\<forall>m \<in> set (registry_entries s). get_registry_row (n_experiment_id m) s \<noteq> None"
  shows "\<forall>m \<in> set (registry_entries (slot_freed e s)).
    get_registry_row (n_experiment_id m) (slot_freed e s) \<noteq> None"
proof (cases "active_entry e s")
  case (Some p)
  then show ?thesis using rows_set_entry [OF assms, of "n_active_slot_update (\<lambda>_. None)" "n_id p"]
    by (simp add: slot_freed_def)
qed (use assms in \<open>simp add: slot_freed_def\<close>)

lemma promote_lockedD:
  assumes "promote_locked pf st storage env rr entry_id payload fp actor = Inr out"
    and "s = rq_locked env" "e = rr_experiment_id rr" "registry_constraints s"
    and "t = advanced e (set_entry entry_id (approved_entry (rq_now env) actor) (slot_freed e s))"
  shows "\<exists>n cx. entry_of e entry_id s = Some n \<and> n_status n \<noteq> Revoked \<and> n_active_slot n \<noteq> Some 1 \<and>
      n_row_version n = ep_expected_entry_row_version payload \<and>
      registry_version e s = ep_expected_registry_row_version payload \<and>
      candidate_context pf st storage e (n_source_job_id n) (n_source_attempt_id n)
        (n_model_artifact_id n) False (base s) = Inr cx \<and>
      context_fingerprint pf cx = Some fp \<and> context_matches_entry cx n \<and>
      registry_constraints (slot_freed e s) \<and>
      registry_constraints (set_entry entry_id (approved_entry (rq_now env) actor) (slot_freed e s)) \<and>
      registry_constraints t \<and>
      out = file_mutation rr actor ''model_registry.entry_promoted''
        (mutation_result e (Some entry_id) (the (get_entry entry_id t)) t) t"
proof -
  obtain n cx where n: "entry_of e entry_id s = Some n" "n_status n \<noteq> Revoked" "n_active_slot n \<noteq> Some 1"
      "n_row_version n = ep_expected_entry_row_version payload"
      "registry_version e s = ep_expected_registry_row_version payload"
    and cx: "candidate_context pf st storage e (n_source_job_id n) (n_source_attempt_id n)
        (n_model_artifact_id n) False (base s) = Inr cx"
      "context_fingerprint pf cx = Some fp" "context_matches_entry cx n"
    and written: "res_bind
         (case active_entry e s of
            None \<Rightarrow> Inr s
          | Some previous \<Rightarrow>
              flush_or_conflict (set_entry (n_id previous) (n_active_slot_update (\<lambda>_. None)) s))
         (\<lambda>s1. res_bind
            (flush_or_conflict (set_entry entry_id (approved_entry (rq_now env) actor) s1))
            (\<lambda>s2. res_bind (advance_registry e s2) (\<lambda>s3.
               Inr (file_mutation rr actor ''model_registry.entry_promoted''
                 (mutation_result e (Some entry_id) (the (get_entry entry_id s3)) s3) s3)))) = Inr out"
    using assms(1)
    by (auto simp: promote_locked_def Let_def promotable_def require_registry_version_def registry_version_def
        assms(2,3) [symmetric]
        simp del: res_bind_eq_Inr split: if_splits option.splits
        elim!: res_bind_eq_Inr [THEN iffD1, elim_format])
  from written assms(4) have "registry_constraints (slot_freed e s) \<and>
      registry_constraints (set_entry entry_id (approved_entry (rq_now env) actor) (slot_freed e s)) \<and>
      registry_constraints t \<and>
      out = file_mutation rr actor ''model_registry.entry_promoted''
        (mutation_result e (Some entry_id) (the (get_entry entry_id t)) t) t"
    by (auto simp: slot_freed_def assms(5) simp del: advanced_frame split: option.splits)
  with n cx show ?thesis by blast
qed

lemma promote_locked_effect:
  assumes ok: "registry_ok (rq_locked env)" and op: "rr_operation rr = Op_Promote"
    and run: "promote_locked pf st storage env rr entry_id payload fp actor = Inr out"
  shows "mutation_effect rr actor (rq_locked env) out"
proof -
  define s where "s = rq_locked env"
  define e where "e = rr_experiment_id rr"
  define f where "f = approved_entry (rq_now env) actor"
  define t where "t = advanced e (set_entry entry_id f (slot_freed e s))"
  note ok = registry_okD [OF ok, folded s_def]
  obtain n where n: "entry_of e entry_id s = Some n" "n_status n \<noteq> Revoked" "n_active_slot n \<noteq> Some 1"
    and freed: "registry_constraints (slot_freed e s)"
    and written: "registry_constraints (set_entry entry_id f (slot_freed e s))"
    and t_ok: "registry_constraints t"
    and out: "out = file_mutation rr actor ''model_registry.entry_promoted''
      (mutation_result e (Some entry_id) (the (get_entry entry_id t)) t) t"
    using promote_lockedD [OF run s_def e_def ok(1) t_def [unfolded f_def]] unfolding f_def by blast
  have f: "\<And>n. n_id (f n) = n_id n" "\<And>n. n_experiment_id (f n) = n_experiment_id n"
    "\<And>n. entry_snapshot (f n) = entry_snapshot n" "n_active_slot (f n) = Some 1" "n_status (f n) = Approved"
    by (simp_all add: f_def)
  have n1: "entry_of e entry_id (slot_freed e s) = Some n" by (rule slot_freed_entry [OF ok(1) n(1,3)])
  have entry: "entry_of e entry_id t = Some (bumped f n)"
    using n1 by (simp add: t_def entry_of_set_entry [where f = f, OF f(1,2)])
  then have "get_entry entry_id t = Some (bumped f n)" by (rule entry_of_eq_get_entry [OF t_ok])
  moreover have id: "n_id (bumped f n) = entry_id" using n f ok(1) by (simp add: entry_of_iff)
  have shelf: "shelf_of e t = shelf_step (rr_operation rr) entry_id (shelf_of e s)"
    using shelf_of_set_entry [OF freed written n1 f(1,2)] slot_freed_status [of e e s]
    by (simp add: t_def shelf_of_advanced op shelf_step_def f(4,5)) (simp add: shelf_of_def)
  have "map_option n_id (active_entry e t) = Some entry_id"
    using arg_cong [OF shelf, of sh_active] by (simp add: op shelf_step_def) (simp add: shelf_of_def)
  then have "out = file_mutation rr actor ''model_registry.entry_promoted''
      (mutation_result e (map_option n_id (active_entry e t)) (the (get_entry entry_id t)) t) t"
    using out by (simp only:)
  moreover note shelf id
  moreover have "\<forall>e'. e' \<noteq> e \<longrightarrow> shelf_of e' t = shelf_of e' s"
    using set_entry_elsewhere [OF freed n1 f(2)] slot_freed_elsewhere [OF ok(1)]
    by (simp add: t_def shelf_of_advanced) (simp add: shelf_of_def)
  moreover have "\<forall>m \<in> set (registry_entries t). get_registry_row (n_experiment_id m) t \<noteq> None"
    unfolding t_def by (rule rows_advanced [OF rows_set_entry [OF slot_freed_rows [OF ok(2)] f(2)]])
  moreover have "entries_evolve s (set_entry entry_id f (slot_freed e s))"
    using n(2) entry_unique [OF freed] iffD1 [OF entry_of_iff [OF freed] n1]
    by (intro entries_evolve_trans [OF slot_freed_evolve [OF ok(1), of e]] entries_evolve_set_entry [OF f(1,3)]) blast
  then have "entries_evolve s t" by (simp add: t_def entries_evolve_def)
  moreover have "base t = base s" "users t = users s" "registry_operations t = registry_operations s"
    by (simp_all add: t_def)
  ultimately show ?thesis
    using t_ok out entry
    unfolding mutation_effect_def Let_def e_def [symmetric] s_def [symmetric]
    by (intro exI [of _ "''model_registry.entry_promoted''"] exI [of _ "bumped f n"] exI [of _ t]) simp
qed

section \<open>The contract of a mutation\<close>

text \<open>The four ways a request ends: an error, a replay, a lost commit, a commit.\<close>

lemma run_mutationD:
  assumes "run_mutation env rr first second = (r, s')"
  shows "s' = rq_locked env \<and> (\<forall>x. r \<noteq> Inr (x, False)) \<or>
    (\<exists>x out. first = Inr (Inr x) \<and> second x = Inr (Inr out) \<and> rq_outcome env = Committed \<and>
       r = Inr (fst out, False) \<and> s' = snd out)"
  using assms
  by (auto simp: run_mutation_def commit_mutation_def split: sum.splits commit.splits option.splits)

lemma unless_replayed_fresh:
  "unless_replayed i rr s r = Inr (Inr y) \<longleftrightarrow>
     replay_or_none i (rr_key_hash rr) (rr_operation rr) (rr_fingerprint rr) s = Inr None \<and> r = Inr y"
  by (cases r) (auto simp: unless_replayed_def split: sum.splits option.splits)

lemma under_lockD:
  assumes "under_lock rr s f = Inr (Inr out)"
  shows "\<exists>actor. lock_experiment_fence (rr_experiment_id rr) (ur_id (rr_actor rr)) (rr_token_version rr) s =
      Inr actor \<and> ur_id actor = ur_id (rr_actor rr) \<and> f actor = Inr out \<and>
    replay_or_none (ur_id (rr_actor rr)) (rr_key_hash rr) (rr_operation rr) (rr_fingerprint rr) s = Inr None"
proof -
  obtain actor where actor: "lock_experiment_fence (rr_experiment_id rr) (ur_id (rr_actor rr))
      (rr_token_version rr) s = Inr actor" "unless_replayed (ur_id actor) rr s (f actor) = Inr (Inr out)"
    using assms by (auto simp: under_lock_def)
  then have "ur_id actor = ur_id (rr_actor rr)"
    by (auto simp: lock_experiment_fence_def dest: get_row_SomeD split: option.splits if_splits)
  with actor show ?thesis by (auto simp: unless_replayed_fresh)
qed

text \<open>The operation row a mutation adds.\<close>

definition operation_row ::
  "registry_request \<Rightarrow> user_row \<Rightarrow> registry_mutation_read \<Rightarrow> model_registry_operation" where
  "operation_row rr actor result =
     \<lparr>p_actor_id = ur_id actor, p_idempotency_key_hash = rr_key_hash rr,
      p_request_fingerprint = rr_fingerprint rr, p_operation_type = rr_operation rr,
      p_experiment_id = mr_experiment_id result, p_entry_id = rd_id (mr_entry result),
      p_response = result\<rparr>"

lemma mutation_effectD:
  assumes "mutation_effect rr actor s (result, s')" "e = rr_experiment_id rr"
    and "p = operation_row rr actor result"
  shows "registry_operations s' = registry_operations s @ [p]"
    "registry_constraints s'" "users s' = users s"
    "\<forall>m \<in> set (registry_entries s'). get_registry_row (n_experiment_id m) s' \<noteq> None"
    "shelf_of e s' = shelf_apply p (shelf_of e s)" "\<And>e'. e' \<noteq> e \<Longrightarrow> shelf_of e' s' = shelf_of e' s"
    "response_shows p (shelf_of e s')" "entries_evolve s s'" "p_experiment_id p = e"
    "\<exists>action. base s' = add_audit_event ''user'' (Some (ur_id actor)) action ''model_registry_entry''
       (Some (rd_id (mr_entry result))) (base s)"
    "mr_registry_row_version result = registry_version e s + 1"
    "\<exists>n. entry_of e (n_id n) s' = Some n \<and> mr_entry result = entry_to_read n \<and> p_entry_id p = n_id n"
proof -
  obtain action n t where t:
    "(result, s') = file_mutation rr actor action
       (mutation_result e (map_option n_id (active_entry e t)) n t) t"
    "registry_constraints t" "base t = base s" "users t = users s"
    "registry_operations t = registry_operations s"
    "\<forall>m \<in> set (registry_entries t). get_registry_row (n_experiment_id m) t \<noteq> None"
    "entry_of e (n_id n) t = Some n"
    "shelf_of e t = shelf_step (rr_operation rr) (n_id n) (shelf_of e s)"
    "\<forall>e'. e' \<noteq> e \<longrightarrow> shelf_of e' t = shelf_of e' s" "entries_evolve s t"
    using assms(1) unfolding mutation_effect_def Let_def assms(2) by blast
  have result: "result = mutation_result e (map_option n_id (active_entry e t)) n t"
    and s': "s' = base_update (add_audit_event ''user'' (Some (ur_id actor)) action ''model_registry_entry''
        (Some (n_id n))) (registry_operations_update (\<lambda>ps. ps @ [p]) t)"
    using t(1) assms(3)
    by (simp_all add: file_mutation_def record_operation_def operation_row_def mutation_result_def entry_to_read_def)
  have shelf: "shelf_of e' s' = shelf_of e' t" for e'
    by (simp add: s' shelf_of_def registry_version_def active_entry_def entry_of_def)
  have p: "p_entry_id p = n_id n" "p_operation_type p = rr_operation rr" "p_response p = result"
    "p_experiment_id p = e"
    by (simp_all add: assms(3) operation_row_def result mutation_result_def entry_to_read_def)
  show "registry_operations s' = registry_operations s @ [p]" "users s' = users s"
    "registry_constraints s'" "entries_evolve s s'" "p_experiment_id p = e"
    "\<forall>m \<in> set (registry_entries s'). get_registry_row (n_experiment_id m) s' \<noteq> None"
    using t(2-6,10) p(4) by (simp_all add: s' registry_constraints_def entries_evolve_def)
  show "shelf_of e s' = shelf_apply p (shelf_of e s)" "\<And>e'. e' \<noteq> e \<Longrightarrow> shelf_of e' s' = shelf_of e' s"
    using t(8,9) p by (simp_all add: shelf shelf_apply_def)
  show "response_shows p (shelf_of e s')"
    using t(7) p by (simp add: response_shows_def shelf) (simp add: shelf_of_def result mutation_result_def entry_to_read_def)
  show "\<exists>action. base s' = add_audit_event ''user'' (Some (ur_id actor)) action ''model_registry_entry''
      (Some (rd_id (mr_entry result))) (base s)"
    using t(3) by (auto simp: s' result mutation_result_def entry_to_read_def)
  have "sh_version (shelf_of e t) = registry_version e s + 1"
    by (simp add: t(8)) (simp add: shelf_of_def)
  then show "mr_registry_row_version result = registry_version e s + 1"
    by (simp add: result mutation_result_def shelf_of_def)
  show "\<exists>n. entry_of e (n_id n) s' = Some n \<and> mr_entry result = entry_to_read n \<and> p_entry_id p = n_id n"
    using t(7) p(1) by (auto simp: s' result mutation_result_def entry_of_def)
qed

lemma replay_none_fresh:
  "replay_or_none i k operation fp s = Inr None \<Longrightarrow>
   (i, k) \<notin> set (map (\<lambda>p. (p_actor_id p, p_idempotency_key_hash p)) (registry_operations s))"
  by (auto simp: replay_or_none_def find_None_iff split: option.splits if_splits)

lemma history_recorded_snoc:
  assumes "history_recorded e s" "operations_of e s' = operations_of e s @ [p]"
    and "shelf_of e s' = shelf_apply p (shelf_of e s)" "response_shows p (shelf_of e s')"
  shows "history_recorded e s'"
  using assms by (auto simp: history_recorded_def nth_append less_Suc_eq take_Suc_conv_app_nth)

lemma mutation_effect_ok:
  assumes "mutation_effect rr actor s (result, s')" "registry_ok s"
    and "replay_or_none (ur_id actor) (rr_key_hash rr) (rr_operation rr) (rr_fingerprint rr) s = Inr None"
  shows "registry_ok s'"
proof -
  define e where "e = rr_experiment_id rr"
  define p where "p = operation_row rr actor result"
  note eff = mutation_effectD [OF assms(1) e_def p_def]
  have "history_recorded e' s'" for e'
  proof (cases "e' = e")
    case True
    then show ?thesis
      using history_recorded_snoc [OF registry_okD(3) [OF assms(2)] _ eff(5,7)] eff(1,9)
      by (simp add: operations_of_def)
  next
    case False
    then show ?thesis
      using registry_okD(3) [OF assms(2), of e'] eff(1,9) eff(6) [OF False]
      by (simp add: history_recorded_def operations_of_def)
  qed
  moreover have "distinct (map (\<lambda>p. (p_actor_id p, p_idempotency_key_hash p)) (registry_operations s'))"
    using registry_okD(4) [OF assms(2)] replay_none_fresh [OF assms(3)]
    by (simp add: eff(1) p_def operation_row_def)
  ultimately show ?thesis using eff(2,4) by (simp add: registry_ok_def)
qed

text \<open>
  What the three mutations promise: the operation they record, the registry version they were asked
  to start from, and that the rows they write under the lock are those of \<open>mutation_effect\<close>. The
  lemmas below hold of each of them whatever it read before the lock.
\<close>

locale registry_mutation =
  fixes operation :: registry_operation_type
    and expected :: int
    and locked :: "registry_env \<Rightarrow> registry_request \<Rightarrow> 'x \<Rightarrow> user_row \<Rightarrow>
      registry_error + registry_mutation_read \<times> registry_db"
  assumes locked_effect:
      "registry_ok (rq_locked env) \<Longrightarrow> get_entry (rq_new_id env) (rq_locked env) = None \<Longrightarrow>
       rr_operation rr = operation \<Longrightarrow> locked env rr x actor = Inr out \<Longrightarrow>
       mutation_effect rr actor (rq_locked env) out"
    and locked_version:
      "locked env rr x actor = Inr out \<Longrightarrow> registry_version (rr_experiment_id rr) (rq_locked env) = expected"
begin

lemma commit_effect:
  assumes "run_mutation env rr first (\<lambda>x. under_lock rr (rq_locked env) (locked env rr x)) = (r, s')"
    and "registry_ok (rq_locked env)" "get_entry (rq_new_id env) (rq_locked env) = None"
    and "rr_operation rr = operation"
  shows "s' = rq_locked env \<and> (\<forall>x. r \<noteq> Inr (x, False)) \<or>
    (\<exists>result actor. r = Inr (result, False) \<and> mutation_effect rr actor (rq_locked env) (result, s') \<and>
       lock_experiment_fence (rr_experiment_id rr) (ur_id (rr_actor rr)) (rr_token_version rr)
         (rq_locked env) = Inr actor \<and> ur_id actor = ur_id (rr_actor rr) \<and>
       registry_version (rr_experiment_id rr) (rq_locked env) = expected \<and>
       replay_or_none (ur_id (rr_actor rr)) (rr_key_hash rr) (rr_operation rr) (rr_fingerprint rr)
         (rq_locked env) = Inr None)"
  using run_mutationD [OF assms(1)]
proof
  assume "\<exists>x out. first = Inr (Inr x) \<and> under_lock rr (rq_locked env) (locked env rr x) = Inr (Inr out) \<and>
    rq_outcome env = Committed \<and> r = Inr (fst out, False) \<and> s' = snd out"
  then obtain x out where out: "under_lock rr (rq_locked env) (locked env rr x) = Inr (Inr out)"
    "r = Inr (fst out, False)" "s' = snd out" by blast
  from under_lockD [OF out(1)] obtain actor where
    actor: "lock_experiment_fence (rr_experiment_id rr) (ur_id (rr_actor rr))
      (rr_token_version rr) (rq_locked env) = Inr actor" "ur_id actor = ur_id (rr_actor rr)"
    "locked env rr x actor = Inr out"
    "replay_or_none (ur_id (rr_actor rr)) (rr_key_hash rr) (rr_operation rr) (rr_fingerprint rr)
       (rq_locked env) = Inr None"
    by blast
  then show ?thesis
    using locked_effect [OF assms(2-4) actor(3)] locked_version [OF actor(3)] out(2,3) by auto
qed simp

lemma keeps_ok:
  assumes "run_mutation env rr first (\<lambda>x. under_lock rr (rq_locked env) (locked env rr x)) = (r, s')"
    and "registry_ok (rq_locked env)" "get_entry (rq_new_id env) (rq_locked env) = None"
    and "rr_operation rr = operation"
  shows "registry_ok s'"
  using commit_effect [OF assms] mutation_effect_ok assms(2) by fastforce

text \<open>Nothing is lost: operations are only appended, entries only move forward, versions only grow.\<close>

lemma moves_forward:
  assumes "run_mutation env rr first (\<lambda>x. under_lock rr (rq_locked env) (locked env rr x)) = (r, s')"
    and "registry_ok (rq_locked env)" "get_entry (rq_new_id env) (rq_locked env) = None"
    and "rr_operation rr = operation"
  shows "prefix (registry_operations (rq_locked env)) (registry_operations s')"
    "entries_evolve (rq_locked env) s'" "registry_version e (rq_locked env) \<le> registry_version e s'"
    "users s' = users (rq_locked env)"
proof -
  have "prefix (registry_operations (rq_locked env)) (registry_operations s') \<and>
    entries_evolve (rq_locked env) s' \<and> registry_version e (rq_locked env) \<le> registry_version e s' \<and>
    users s' = users (rq_locked env)"
    using commit_effect [OF assms]
  proof (elim disjE exE conjE)
    assume "s' = rq_locked env"
    then show ?thesis by (simp add: entries_evolve_mono)
  next
    fix result actor
    assume "mutation_effect rr actor (rq_locked env) (result, s')"
    note eff = mutation_effectD [OF this refl refl]
    have "registry_version e (rq_locked env) \<le> registry_version e s'"
    proof (cases "e = rr_experiment_id rr")
      case True
      then show ?thesis
        using arg_cong [OF eff(5), of sh_version] by (simp add: shelf_apply_def) (simp add: shelf_of_def)
    next
      case False
      then show ?thesis using arg_cong [OF eff(6), of _ sh_version] by (simp add: shelf_of_def)
    qed
    then show ?thesis using eff(1,3,8) by simp
  qed
  then show "prefix (registry_operations (rq_locked env)) (registry_operations s')"
    "entries_evolve (rq_locked env) s'" "registry_version e (rq_locked env) \<le> registry_version e s'"
    "users s' = users (rq_locked env)" by blast+
qed

text \<open>The ledger outside the registry gets at most one audit row.\<close>

lemma ledger_frame:
  assumes "run_mutation env rr first (\<lambda>x. under_lock rr (rq_locked env) (locked env rr x)) = (r, s')"
    and "registry_ok (rq_locked env)" "get_entry (rq_new_id env) (rq_locked env) = None"
    and "rr_operation rr = operation"
  shows "\<exists>rows. base s' = audit_events_update (\<lambda>us. us @ rows) (base (rq_locked env))"
  using commit_effect [OF assms]
proof (elim disjE exE conjE)
  assume "s' = rq_locked env"
  then show ?thesis by (intro exI [of _ "[]"]) simp
next
  fix result actor
  assume "mutation_effect rr actor (rq_locked env) (result, s')"
  from mutation_effectD(10) [OF this refl refl] show ?thesis by (auto simp: add_audit_event_def)
qed

text \<open>
  A committed request that is sent again is answered from the operations table, in any later state in
  which its actor still sees the experiment, and changes nothing.
\<close>

lemma resend_replays:
  assumes "run_mutation env rr first (\<lambda>x. under_lock rr (rq_locked env) (locked env rr x)) =
      (Inr (result, False), s')"
    and "registry_ok (rq_locked env)" "get_entry (rq_new_id env) (rq_locked env) = None"
    and "rr_operation rr = operation"
    and "prefix (registry_operations s') (registry_operations (rq_seen later))" "registry_ok (rq_seen later)"
    and "visible_experiment (rr_experiment_id rr) (rr_actor rr) (rq_seen later) = Inr x"
  shows "run_mutation later rr (before_lock rr (rq_seen later) checks) second =
    (Inr (result, True), rq_locked later)"
proof -
  obtain actor where eff: "mutation_effect rr actor (rq_locked env) (result, s')"
    "ur_id actor = ur_id (rr_actor rr)"
    using commit_effect [OF assms(1-4)] by auto
  define p where "p = operation_row rr actor result"
  have "p \<in> set (registry_operations s')" using mutation_effectD(1) [OF eff(1) refl p_def] by simp
  then have mem: "p \<in> set (registry_operations (rq_seen later))" using assms(5) set_mono_prefix by blast
  have "find (\<lambda>q. p_actor_id q = ur_id (rr_actor rr) \<and> p_idempotency_key_hash q = rr_key_hash rr)
      (registry_operations (rq_seen later)) = Some p"
    using registry_okD(4) [OF assms(6)] mem eff(2)
    by (intro find_unique_pair) (simp_all add: p_def operation_row_def)
  then show ?thesis
    using assms(7)
    by (simp add: run_mutation_def before_lock_def unless_replayed_def replay_or_none_def p_def operation_row_def)
qed

end

lemma required_version:
  assumes "r = Inr out \<Longrightarrow> \<exists>u. require_registry_version (get_registry_row e s) v = Inr u" "r = Inr out"
  shows "registry_version e s = v"
  using assms by (auto simp: require_registry_version_def registry_version_def split: if_splits)

interpretation candidate: registry_mutation Op_Candidate "cc_expected_registry_row_version payload"
  "\<lambda>env rr. candidate_locked pf st storage env rr payload" for pf st storage payload
proof unfold_locales
  fix env rr x actor out
  assume "candidate_locked pf st storage env rr payload x actor = Inr out"
  then show "registry_version (rr_experiment_id rr) (rq_locked env) = cc_expected_registry_row_version payload"
    by (elim required_version [rotated]) (simp add: candidate_locked_def Let_def)
qed (rule candidate_locked_effect)

interpretation promotion: registry_mutation Op_Promote "ep_expected_registry_row_version payload"
  "\<lambda>env rr. promote_locked pf st storage env rr entry_id payload" for pf st storage entry_id payload
proof unfold_locales
  fix env rr x actor out
  assume "promote_locked pf st storage env rr entry_id payload x actor = Inr out"
  then show "registry_version (rr_experiment_id rr) (rq_locked env) = ep_expected_registry_row_version payload"
    by (elim required_version [rotated]) (simp add: promote_locked_def Let_def)
qed (rule promote_locked_effect)

interpretation revocation: registry_mutation Op_Revoke "ev_expected_registry_row_version payload"
  "\<lambda>env rr _. revoke_locked env rr entry_id payload" for entry_id payload
proof unfold_locales
  fix env rr x actor out
  assume "revoke_locked env rr entry_id payload actor = Inr out"
  then show "registry_version (rr_experiment_id rr) (rq_locked env) = ev_expected_registry_row_version payload"
    by (elim required_version [rotated]) (simp add: revoke_locked_def Let_def)
qed (rule revoke_locked_effect)

end
