(* ===== verification/Registry_System.thy ===== *)
theory Registry_System
  imports System Registry_Spec
begin

text \<open>
  The manager together with its model registry. A step of the deployment is a step of the manager on
  the ledger, a change of the user accounts, or one of the three registry mutations; the locked reading
  of a mutation is the present state, its other readings are arbitrary, so that anything may happen
  between them. Shown: both invariants hold in every reachable state, the registry only moves forward,
  and a mutation that commits started from the version it was asked to start from.
\<close>

inductive deployment_step :: "platform \<Rightarrow> settings \<Rightarrow> registry_db \<Rightarrow> registry_db \<Rightarrow> bool"
  for pf :: platform and st :: settings
  where
    work: "manager_step pf st (base s) d' \<Longrightarrow> deployment_step pf st s (s\<lparr>base := d'\<rparr>)"
  | accounts: "deployment_step pf st s (s\<lparr>users := us\<rparr>)"
  | candidate: "rq_locked env = s \<Longrightarrow> get_entry (rq_new_id env) s = None \<Longrightarrow>
      create_candidate pf st storage env e actor token_version payload key path = (r, s') \<Longrightarrow>
      deployment_step pf st s s'"
  | promotion: "rq_locked env = s \<Longrightarrow> get_entry (rq_new_id env) s = None \<Longrightarrow>
      promote_entry pf st storage env e entry_id actor token_version pr_payload key path = (r, s') \<Longrightarrow>
      deployment_step pf st s s'"
  | revocation: "rq_locked env = s \<Longrightarrow> get_entry (rq_new_id env) s = None \<Longrightarrow>
      revoke_entry pf st env e entry_id actor token_version rv_payload key path = (r, s') \<Longrightarrow>
      deployment_step pf st s s'"

text \<open>
  The start: the empty tables of the registry, created beside a ledger that satisfies its invariant
  (for instance a fresh one).
\<close>

definition fresh_deployment :: "registry_db \<Rightarrow> bool" where
  "fresh_deployment s \<longleftrightarrow> ledger_ok (base s) \<and> registries s = [] \<and> registry_entries s = [] \<and>
     registry_operations s = []"

definition deployment_ok :: "registry_db \<Rightarrow> bool" where
  "deployment_ok s \<longleftrightarrow> ledger_ok (base s) \<and> registry_ok s"

text \<open>What every step keeps or only extends.\<close>

definition registry_forward :: "registry_db \<Rightarrow> registry_db \<Rightarrow> bool" where
  "registry_forward s t \<longleftrightarrow> prefix (registry_operations s) (registry_operations t) \<and>
     entries_evolve s t \<and> (\<forall>e. registry_version e s \<le> registry_version e t)"

lemma registry_forward_refl [simp]: "registry_forward s s"
  by (simp add: registry_forward_def entries_evolve_mono)

lemma registry_forward_trans [trans]:
  "registry_forward s t \<Longrightarrow> registry_forward t u \<Longrightarrow> registry_forward s u"
  unfolding registry_forward_def using entries_evolve_trans order_trans prefix_order.trans by metis

lemma request_operation [simp]:
  "rr_operation (registry_request_of pf st operation document e actor token_version key path) = operation"
  "rr_experiment_id (registry_request_of pf st operation document e actor token_version key path) = e"
  "rr_actor (registry_request_of pf st operation document e actor token_version key path) = actor"
  by (simp_all add: registry_request_of_def)

lemmas mutation_runs =
  create_candidate_def [unfolded Let_def] promote_entry_def [unfolded Let_def]
  revoke_entry_def [unfolded Let_def]

text \<open>The three mutations, each through the interpretation of the contract.\<close>

lemma mutation_keeps:
  assumes "registry_ok (rq_locked env)" "get_entry (rq_new_id env) (rq_locked env) = None"
    and "create_candidate pf st storage env e actor v payload key path = (r, s') \<or>
      promote_entry pf st storage env e entry_id actor v pr_payload key path = (r, s') \<or>
      revoke_entry pf st env e entry_id actor v rv_payload key path = (r, s')"
  shows "registry_ok s' \<and> registry_forward (rq_locked env) s' \<and>
    (\<exists>rows. base s' = audit_events_update (\<lambda>us. us @ rows) (base (rq_locked env)))"
  using assms(3)
proof (elim disjE)
  assume "create_candidate pf st storage env e actor v payload key path = (r, s')"
  note run = this [unfolded mutation_runs]
  show ?thesis
    using candidate.keeps_ok [OF run assms(1,2)] candidate.moves_forward [OF run assms(1,2)]
      candidate.ledger_frame [OF run assms(1,2)] by (simp add: registry_forward_def)
next
  assume "promote_entry pf st storage env e entry_id actor v pr_payload key path = (r, s')"
  note run = this [unfolded mutation_runs]
  show ?thesis
    using promotion.keeps_ok [OF run assms(1,2)] promotion.moves_forward [OF run assms(1,2)]
      promotion.ledger_frame [OF run assms(1,2)] by (simp add: registry_forward_def)
next
  assume "revoke_entry pf st env e entry_id actor v rv_payload key path = (r, s')"
  note run = this [unfolded mutation_runs]
  show ?thesis
    using revocation.keeps_ok [OF run assms(1,2)] revocation.moves_forward [OF run assms(1,2)]
      revocation.ledger_frame [OF run assms(1,2)] by (simp add: registry_forward_def)
qed

lemma audit_rows_step: "manager_step pf st d (audit_events_update f d)"
  by (rule elsewhere) (simp_all add: same_work_def)

lemma mutation_step_effect:
  assumes "registry_ok (rq_locked env)" "get_entry (rq_new_id env) (rq_locked env) = None"
    and "create_candidate pf st storage env e actor v payload key path = (r, s') \<or>
      promote_entry pf st storage env e entry_id actor v pr_payload key path = (r, s') \<or>
      revoke_entry pf st env e entry_id actor v rv_payload key path = (r, s')"
  shows "registry_ok s' \<and> registry_forward (rq_locked env) s' \<and>
    (manager_step pf st)\<^sup>=\<^sup>= (base (rq_locked env)) (base s')"
  using mutation_keeps [OF assms] audit_rows_step [of pf st "base (rq_locked env)"] by auto

lemma registry_ok_frame:
  assumes "registry_ok s" "registries t = registries s" "registry_entries t = registry_entries s"
    and "registry_operations t = registry_operations s"
  shows "registry_ok t" "registry_forward s t"
proof -
  have "shelf_of e t = shelf_of e s" "operations_of e t = operations_of e s" for e
    using assms(2-) by (simp_all add: shelf_of_def registry_version_def active_entry_def entry_of_def operations_of_def)
  then show "registry_ok t"
    using assms by (simp add: registry_ok_def registry_constraints_def history_recorded_def)
  show "registry_forward s t"
    using assms(2-) by (simp add: registry_forward_def registry_version_def entries_evolve_mono)
qed

lemma deployment_step_effect:
  assumes "deployment_step pf st s s'" "registry_ok s"
  shows "registry_ok s' \<and> registry_forward s s' \<and> (manager_step pf st)\<^sup>=\<^sup>= (base s) (base s')"
  using assms(1)
proof cases
  case (work d')
  then show ?thesis using registry_ok_frame [OF assms(2), of s'] by simp
next
  case (accounts us)
  then show ?thesis using registry_ok_frame [OF assms(2), of s'] by simp
next
  case candidate
  then show ?thesis
    using mutation_step_effect [OF _ _ disjI1 [OF candidate(3)]] assms(2) by simp
next
  case promotion
  then show ?thesis
    using mutation_step_effect [OF _ _ disjI2 [OF disjI1 [OF promotion(3)]]] assms(2) by simp
next
  case revocation
  then show ?thesis
    using mutation_step_effect [OF _ _ disjI2 [OF disjI2 [OF revocation(3)]]] assms(2) by simp
qed

lemma fresh_deployment_ok: "fresh_deployment s \<Longrightarrow> deployment_ok s"
  by (auto simp: fresh_deployment_def deployment_ok_def registry_ok_def registry_constraints_def
      history_recorded_def operations_of_def shelf_of_def empty_shelf_def registry_version_def
      active_entry_def entry_of_def)

interpretation deployment: step_invariant fresh_deployment "deployment_step pf st" deployment_ok for pf st
proof unfold_locales
  fix s t
  assume "deployment_ok s" "deployment_step pf st s t"
  then show "deployment_ok t"
    using deployment_step_effect [of pf st s t] manager_step_ledger_ok by (auto simp: deployment_ok_def)
qed (rule fresh_deployment_ok)

text \<open>A run of the deployment is a run of the manager on the ledger and moves the registry forward.\<close>

lemma deployment_run:
  assumes "(deployment_step pf st)\<^sup>*\<^sup>* s t" "deployment_ok s"
  shows "(manager_step pf st)\<^sup>*\<^sup>* (base s) (base t) \<and> registry_forward s t \<and> deployment_ok t"
  using assms
proof (induction rule: rtranclp_induct)
  case (step t u)
  then have ok: "deployment_ok t" by simp
  have "registry_forward t u" "(manager_step pf st)\<^sup>=\<^sup>= (base t) (base u)"
    using deployment_step_effect [OF step(2)] ok by (simp_all add: deployment_ok_def)
  then show ?case
    using step registry_forward_trans deployment.step_inv [OF ok step(2)]
    by (auto intro: rtranclp.rtrancl_into_rtrancl)
qed simp

end
