(* ===== verification/Registry_Promotion.thy ===== *)
theory Registry_Promotion
  imports Registry_Spec
begin

text \<open>
  What a promotion needs and what it guarantees: the entry it activates comes from a completed attempt
  on an approved runtime whose stored objects were read again and hash to the frozen digests; and when
  nothing interferes, a promotable entry is promoted: freeing the slot of the previous entry first
  keeps every constraint of the table at every flush.
\<close>

section \<open>What has been verified\<close>

lemma candidate_contextD:
  assumes "candidate_context pf st storage e job_id attempt_id model_id require_current d = Inr cx"
  shows "get_job job_id d = Some (cx_job cx)" "get_attempt attempt_id d = Some (cx_attempt cx)"
    "\<exists>config. validated_job_config pf (cx_job cx) (Some (cx_attempt cx)) = Some config \<and>
       registry_eligible st e require_current config (cx_job cx) (cx_attempt cx)"
    "verified_artifact_binding storage model_id (j_id (cx_job cx)) (a_id (cx_attempt cx)) FINAL_SMALL_MODEL
       None None (Some (a_worker_id (cx_attempt cx))) d = Inr (Some (cx_model cx))"
    "\<And>b. cx_index cx = Some b \<Longrightarrow> \<exists>i. verified_artifact_binding storage i (j_id (cx_job cx))
       (a_id (cx_attempt cx)) FINAL_INDEX None None (Some (a_worker_id (cx_attempt cx))) d = Inr (Some b)"
  using assms
  by (auto simp: candidate_context_def registry_binding_def
      split: option.splits if_splits sum.splits list.splits)

lemma verify_bindingsD:
  "verify_bindings pf st storage env deadline k bs = Inr u \<Longrightarrow> b \<in> set bs \<Longrightarrow>
   stored_bytes_match pf st storage b"
proof (induction pf st storage env deadline k bs rule: verify_bindings.induct)
  case (2 pf st storage env deadline k c cs)
  then show ?case by (auto split: if_splits sum.splits dest: verified_bytesD)
qed simp

lemma verify_context_bytesD:
  assumes "verify_context_bytes pf st storage env cx = Inr u"
  shows "stored_bytes_match pf st storage (cx_model cx)"
    "\<And>b. cx_index cx = Some b \<Longrightarrow> stored_bytes_match pf st storage b"
proof -
  obtain deadline where run: "verify_bindings pf st storage env deadline 0
      (cx_model cx # (case cx_index cx of None \<Rightarrow> [] | Some i \<Rightarrow> [i])) = Inr u"
    using assms by (auto simp only: verify_context_bytes_def Let_def split: if_splits)
  show "stored_bytes_match pf st storage (cx_model cx)"
    "\<And>b. cx_index cx = Some b \<Longrightarrow> stored_bytes_match pf st storage b"
    by (rule verify_bindingsD [OF run], simp)+
qed

text \<open>
  The stored object of an artifact, read under the canonical key of one of its upload sessions, has
  the size and the digest given.
\<close>

definition object_has_digest ::
  "platform \<Rightarrow> settings \<Rightarrow> artifact_storage \<Rightarrow> ident \<Rightarrow> ident \<Rightarrow> artifact_type \<Rightarrow> int \<Rightarrow> string \<Rightarrow> bool" where
  "object_has_digest pf st storage job_id attempt_id ty bytes digest \<longleftrightarrow>
     (\<exists>upload_id chunks.
        read_object storage (canonical_object_key job_id attempt_id ty upload_id)
          (artifact_stream_chunk_bytes st) (bytes + 1) = Chunks chunks \<and>
        int (length (concat chunks)) = bytes \<and> sha256 pf (concat chunks) = digest)"

lemma bound_object_has_digest:
  assumes "verified_artifact_binding storage i job_id attempt_id ty sha lease worker d = Inr (Some b)"
    and "stored_bytes_match pf st storage b"
  shows "object_has_digest pf st storage job_id attempt_id ty (ar_size_bytes (vb_artifact b))
    (ar_sha256 (vb_artifact b))"
  using assms(2) verified_bindingD(8) [OF assms(1)]
  by (fastforce simp: object_has_digest_def stored_bytes_match_def split: object_stream.splits)

lemma preflight_contextD:
  assumes "preflight_context pf st storage env e job_id attempt_id model_id require_current d = Inr (cx, fp)"
    and "context_matches_entry cx n"
  shows "candidate_context pf st storage e job_id attempt_id model_id require_current d = Inr cx"
    "context_fingerprint pf cx = Some fp"
    "object_has_digest pf st storage (n_source_job_id n) (n_source_attempt_id n) FINAL_SMALL_MODEL
       (n_model_size_bytes n) (n_model_sha256 n)"
    "\<And>bytes digest. n_index_size_bytes n = Some bytes \<Longrightarrow> n_index_sha256 n = Some digest \<Longrightarrow>
       object_has_digest pf st storage (n_source_job_id n) (n_source_attempt_id n) FINAL_INDEX bytes digest"
proof -
  have cx: "candidate_context pf st storage e job_id attempt_id model_id require_current d = Inr cx"
    and verified: "verify_context_bytes pf st storage env cx = Inr ()"
    using assms(1) by (auto simp: preflight_context_def split: option.splits)
  show "candidate_context pf st storage e job_id attempt_id model_id require_current d = Inr cx"
    by (rule cx)
  show "context_fingerprint pf cx = Some fp"
    using assms(1) by (auto simp: preflight_context_def split: option.splits)
  have n: "j_id (cx_job cx) = n_source_job_id n" "a_id (cx_attempt cx) = n_source_attempt_id n"
    "ar_size_bytes (vb_artifact (cx_model cx)) = n_model_size_bytes n"
    "ar_sha256 (vb_artifact (cx_model cx)) = n_model_sha256 n"
    "map_option (ar_size_bytes \<circ> vb_artifact) (cx_index cx) = n_index_size_bytes n"
    "map_option (ar_sha256 \<circ> vb_artifact) (cx_index cx) = n_index_sha256 n"
    using assms(2) by (simp_all add: context_matches_entry_def Let_def option.map_comp)
  show "object_has_digest pf st storage (n_source_job_id n) (n_source_attempt_id n) FINAL_SMALL_MODEL
      (n_model_size_bytes n) (n_model_sha256 n)"
    using bound_object_has_digest [OF candidate_contextD(4) [OF cx] verify_context_bytesD(1) [OF verified]] n
    by simp
  fix bytes digest
  assume "n_index_size_bytes n = Some bytes" "n_index_sha256 n = Some digest"
  then obtain b where b: "cx_index cx = Some b" "ar_size_bytes (vb_artifact b) = bytes"
    "ar_sha256 (vb_artifact b) = digest" using n(5,6) by (auto simp: option.map_comp)
  then show "object_has_digest pf st storage (n_source_job_id n) (n_source_attempt_id n) FINAL_INDEX bytes digest"
    using bound_object_has_digest [OF _ verify_context_bytesD(2) [OF verified b(1)]]
      candidate_contextD(5) [OF cx b(1)] n(1,2) by auto
qed

section \<open>The constraints at every flush\<close>

lemma slots_distinct:
  assumes "wf_table n_id ns" "\<And>n. n \<in> set ns \<Longrightarrow> entry_checks n"
    and "\<And>n m e. n \<in> set ns \<Longrightarrow> m \<in> set ns \<Longrightarrow> active_in e n \<Longrightarrow> active_in e m \<Longrightarrow> n = m"
  shows "distinct [(n_experiment_id n, n_active_slot n). n \<leftarrow> ns, n_active_slot n \<noteq> None]"
proof -
  have slot: "n_active_slot n = Some 1" if "n \<in> set ns" "n_active_slot n \<noteq> None" for n
    using assms(2) [OF that(1)] that(2) by (auto simp: entry_checks_def)
  have "inj_on (\<lambda>n. (n_experiment_id n, n_active_slot n)) (set (filter (\<lambda>n. n_active_slot n \<noteq> None) ns))"
  proof (rule inj_onI)
    fix n m
    assume "n \<in> set (filter (\<lambda>n. n_active_slot n \<noteq> None) ns)" "m \<in> set (filter (\<lambda>n. n_active_slot n \<noteq> None) ns)"
      and eq: "(n_experiment_id n, n_active_slot n) = (n_experiment_id m, n_active_slot m)"
    then have "n \<in> set ns" "m \<in> set ns" "n_active_slot n = Some 1" "n_active_slot m = Some 1"
      using slot [of n] slot [of m] by simp_all
    then show "n = m" using eq by (intro assms(3) [of n m "n_experiment_id n"]) (simp_all add: active_in_def)
  qed
  moreover have "distinct (filter (\<lambda>n. n_active_slot n \<noteq> None) ns)"
    using assms(1) unfolding wf_table_def by (simp add: distinct_map)
  ultimately have "distinct (map (\<lambda>n. (n_experiment_id n, n_active_slot n))
      (filter (\<lambda>n. n_active_slot n \<noteq> None) ns))" by (simp add: distinct_map)
  also have "map (\<lambda>n. (n_experiment_id n, n_active_slot n)) (filter (\<lambda>n. n_active_slot n \<noteq> None) ns) =
      [(n_experiment_id n, n_active_slot n). n \<leftarrow> ns, n_active_slot n \<noteq> None]"
    by (induction ns) auto
  finally show ?thesis .
qed

lemma constraints_set_entry:
  assumes "registry_constraints s" "\<And>n. n_id (f n) = n_id n" "\<And>n. entry_snapshot (f n) = entry_snapshot n"
    and "\<And>n. n \<in> set (registry_entries s) \<Longrightarrow> n_id n = i \<Longrightarrow> entry_checks (bumped f n)"
    and "\<And>n m e. n \<in> set (registry_entries s) \<Longrightarrow> n_id n = i \<Longrightarrow> active_in e (bumped f n) \<Longrightarrow>
      m \<in> set (registry_entries s) \<Longrightarrow> n_id m \<noteq> i \<Longrightarrow> \<not> active_in e m"
  shows "registry_constraints (set_entry i f s)"
proof -
  have art: "n_model_artifact_id (bumped f n) = n_model_artifact_id n" for n
    using assms(3) [of n] by (simp add: bumped_def entry_snapshot_def)
  have id: "n_id (bumped f n) = n_id n" for n using assms(2) by simp
  let ?ns = "upd_row n_id i (bumped f) (registry_entries s)"
  have wf: "wf_table n_id ?ns" using registry_constraintsD(2) [OF assms(1)] id by simp
  have checks: "entry_checks n" if "n \<in> set ?ns" for n
    using that by (rule set_upd_rowE) (use registry_constraintsD(1) [OF assms(1)] assms(4) in auto)
  have "map n_model_artifact_id ?ns = map n_model_artifact_id (registry_entries s)"
    using art by (simp add: upd_row_def)
  moreover have "n = m" if "n \<in> set ?ns" "m \<in> set ?ns" "active_in e n" "active_in e m" for n m e
    using that(1)
  proof (rule set_upd_rowE)
    assume n: "n \<in> set (registry_entries s)" "n_id n \<noteq> i"
    show ?thesis using that(2)
    proof (rule set_upd_rowE)
      assume "m \<in> set (registry_entries s)"
      then show ?thesis
        using that(3,4) n(1) active_entry_iff [OF assms(1), of e n] active_entry_iff [OF assms(1), of e m] by simp
    qed (use that(3,4) n assms(5) in blast)
  next
    fix n0
    assume n: "n0 \<in> set (registry_entries s)" "n_id n0 = i" "n = bumped f n0"
    show ?thesis using that(2)
    proof (rule set_upd_rowE)
      fix m0
      assume "m0 \<in> set (registry_entries s)" "n_id m0 = i" "m = bumped f m0"
      then show ?thesis using n entry_unique [OF assms(1) n(1)] by simp
    qed (use that(3,4) n assms(5) in blast)
  qed
  ultimately show ?thesis
    using slots_distinct [OF wf checks] wf checks assms(1)
    by (simp add: registry_constraints_def set_entry_rows wf_table_def list_all_iff)
qed

lemma constraints_advanced:
  assumes "registry_constraints s"
  shows "registry_constraints (advanced e s)"
  using assms
  by (auto simp: registry_constraints_def advanced_def get_row_None list_all_iff set_upd_row
      split: option.split)

lemma slot_freed_constraints:
  assumes "registry_constraints s"
  shows "registry_constraints (slot_freed e s)"
proof (cases "active_entry e s")
  case (Some p)
  have p: "p \<in> set (registry_entries s)" using Some by (simp add: active_entry_iff [OF assms])
  have "entry_checks (bumped (n_active_slot_update (\<lambda>_. None)) n)"
    if "n \<in> set (registry_entries s)" "n_id n = n_id p" for n
    using registry_constraintsD(1) [OF assms p] active_is_approved(1) [OF assms Some]
      entry_unique [OF assms that(1) p that(2)]
    by (simp add: entry_checks_def bumped_def)
  then show ?thesis
    using Some by (auto simp: slot_freed_def active_in_def entry_snapshot_def intro!: constraints_set_entry [OF assms])
qed (simp add: slot_freed_def assms)

lemma slot_freed_inactive:
  assumes "registry_constraints s" "m \<in> set (registry_entries (slot_freed e s))"
  shows "\<not> active_in e m"
proof -
  note freed = slot_freed_constraints [OF assms(1), of e]
  have "active_entry e (slot_freed e s) = None"
  proof (cases "active_entry e s")
    case (Some p)
    note p = active_is_approved [OF assms(1) Some]
    have "map_option n_id (active_entry e (slot_freed e s)) = None"
      using active_entry_set_entry [OF assms(1) _ p(3), of "n_active_slot_update (\<lambda>_. None)"] freed Some
      by (simp add: slot_freed_def)
    then show ?thesis by simp
  qed (simp add: slot_freed_def)
  then show ?thesis using assms(2) active_entry_iff [OF freed, of e m] by auto
qed

lemma approved_constraints:
  assumes "registry_constraints s" "entry_of e i s = Some n" "n_status n \<noteq> Revoked" "n_active_slot n \<noteq> Some 1"
  shows "registry_constraints (set_entry i (approved_entry now actor) (slot_freed e s))"
proof -
  note freed = slot_freed_constraints [OF assms(1), of e]
  have n: "n \<in> set (registry_entries (slot_freed e s))" "n_id n = i" "n_experiment_id n = e"
    using slot_freed_entry [OF assms(1,2,4)] by (simp_all add: entry_of_iff [OF freed])
  have "entry_checks (bumped (approved_entry now actor) n)"
    using registry_constraintsD(1) [OF freed n(1)] assms(3)
    by (cases "n_status n") (auto simp: entry_checks_def bumped_def approved_entry_def Let_def cong: option.case_cong)
  then have checks: "entry_checks (bumped (approved_entry now actor) m)"
    if "m \<in> set (registry_entries (slot_freed e s))" "n_id m = i" for m
    using entry_unique [OF freed that(1) n(1)] that(2) n(2) by simp
  show ?thesis
  proof (rule constraints_set_entry [OF freed])
    fix m m' e'
    assume m: "m \<in> set (registry_entries (slot_freed e s))" "n_id m = i"
      "active_in e' (bumped (approved_entry now actor) m)" "m' \<in> set (registry_entries (slot_freed e s))"
    then have "e' = e" using entry_unique [OF freed m(1) n(1)] n by (simp add: active_in_def)
    then show "\<not> active_in e' m'" using slot_freed_inactive [OF assms(1) m(4)] by simp
  qed (use checks in simp_all)
qed

lemma promote_locked_succeeds:
  assumes "registry_constraints s" "s = rq_locked env" "e = rr_experiment_id rr"
    and "get_registry_row e s \<noteq> None" "registry_version e s = ep_expected_registry_row_version payload"
    and "promotable e i payload s = Inr n"
    and "candidate_context pf st storage e (n_source_job_id n) (n_source_attempt_id n)
      (n_model_artifact_id n) False (base s) = Inr cx"
    and "context_fingerprint pf cx = Some fp" "context_matches_entry cx n"
    and "t = advanced e (set_entry i (approved_entry (rq_now env) actor) (slot_freed e s))"
  shows "promote_locked pf st storage env rr i payload fp actor =
    Inr (file_mutation rr actor ''model_registry.entry_promoted''
      (mutation_result e (Some i) (the (get_entry i t)) t) t)"
proof -
  have n: "entry_of e i s = Some n" "n_status n \<noteq> Revoked" "n_active_slot n \<noteq> Some 1"
    using assms(6) by (auto simp: promotable_def split: option.splits if_splits)
  have written: "registry_constraints (set_entry i (approved_entry (rq_now env) actor) (slot_freed e s))"
    by (rule approved_constraints [OF assms(1) n])
  have flushed: "(case active_entry e s of
        None \<Rightarrow> Inr s
      | Some previous \<Rightarrow>
          flush_or_conflict (set_entry (n_id previous) (n_active_slot_update (\<lambda>_. None)) s)) =
      Inr (slot_freed e s)"
    using slot_freed_constraints [OF assms(1), of e] by (auto simp: slot_freed_def split: option.splits)
  have version: "require_registry_version (get_registry_row e s) (ep_expected_registry_row_version payload) = Inr ()"
    using assms(5) by (simp add: require_registry_version_def registry_version_def)
  have steps: "flush_or_conflict (set_entry i (approved_entry (rq_now env) actor) (slot_freed e s)) =
      Inr (set_entry i (approved_entry (rq_now env) actor) (slot_freed e s))"
    "advance_registry e (set_entry i (approved_entry (rq_now env) actor) (slot_freed e s)) = Inr t"
    using written constraints_advanced [OF written] by (simp_all add: assms(10))
  show ?thesis
    unfolding promote_locked_def Let_def assms(2) [symmetric] assms(3) [symmetric]
    using assms(4,6-9) by (simp only: version flushed steps res_bind_simps option.case if_False) simp
qed

section \<open>The whole request\<close>

lemma fence_visible:
  assumes "lock_experiment_fence e (ur_id actor) v s = Inr actor"
  shows "\<exists>x. visible_experiment e actor s = Inr x"
  using assms
  by (auto simp: lock_experiment_fence_def visible_experiment_def split: option.splits if_splits)

lemma unused_key:
  assumes "\<And>p. p \<in> set (registry_operations s) \<Longrightarrow> (p_actor_id p, p_idempotency_key_hash p) \<noteq> (i, k)"
  shows "replay_or_none i k operation fp s = Inr None"
proof -
  have "find (\<lambda>p. p_actor_id p = i \<and> p_idempotency_key_hash p = k) (registry_operations s) = None"
    using assms by (auto simp: find_None_iff)
  then show ?thesis by (simp add: replay_or_none_def)
qed

lemma promote_entry_succeeds:
  assumes "registry_ok s" "rq_seen env = s" "rq_locked env = s" "rq_outcome env = Committed"
    and "lock_experiment_fence e (ur_id actor) v s = Inr actor"
    and "\<And>p. p \<in> set (registry_operations s) \<Longrightarrow>
      (p_actor_id p, p_idempotency_key_hash p) \<noteq> (ur_id actor, actor_key_hash pf (ur_id actor) key)"
    and "registry_version e s = ep_expected_registry_row_version payload"
    and "promotable e i payload s = Inr n"
    and "preflight_context pf st storage (rq_verify env) e (n_source_job_id n) (n_source_attempt_id n)
      (n_model_artifact_id n) False (base s) = Inr (cx, fp)"
    and "context_matches_entry cx n"
    and "rr = registry_request_of pf st Op_Promote (promote_document payload) e actor v key path"
    and "t = advanced e (set_entry i (approved_entry (rq_now env) actor) (slot_freed e s))"
  shows "promote_entry pf st storage env e i actor v payload key path =
    (Inr (mutation_result e (Some i) (the (get_entry i t)) t, False),
     snd (file_mutation rr actor ''model_registry.entry_promoted''
       (mutation_result e (Some i) (the (get_entry i t)) t) t))"
proof -
  note ok = registry_okD [OF assms(1)]
  have rr: "rr_experiment_id rr = e" "rr_actor rr = actor" "rr_token_version rr = v"
    "rr_key_hash rr = actor_key_hash pf (ur_id actor) key"
    by (simp_all add: assms(11) registry_request_of_def)
  have n: "n \<in> set (registry_entries s)" "n_experiment_id n = e"
    using assms(8) by (auto simp: promotable_def entry_of_iff [OF ok(1)] split: option.splits if_splits)
  have row: "get_registry_row e s \<noteq> None" using ok(2) n by auto
  note found = preflight_contextD [OF assms(9,10)]
  have fresh: "unless_replayed (ur_id actor) rr s r = map_sum id Inr r" for r :: "registry_error + 'y"
    using unused_key [OF assms(6)] by (simp add: unless_replayed_def rr)
  obtain x where x: "visible_experiment e actor s = Inr x" using fence_visible [OF assms(5)] by blast
  have first: "before_lock rr s (promote_preflight pf st storage (rq_verify env) e i payload s) = Inr (Inr fp)"
    using assms(7-10) x
    by (simp add: before_lock_def rr fresh promote_preflight_def require_registry_version_def registry_version_def)
  have second: "under_lock rr s (promote_locked pf st storage env rr i payload fp) =
      Inr (Inr (file_mutation rr actor ''model_registry.entry_promoted''
        (mutation_result e (Some i) (the (get_entry i t)) t) t))"
    using promote_locked_succeeds [OF ok(1) assms(3) [symmetric] rr(1) [symmetric] row assms(7,8) found(1,2)
        assms(10,12)] assms(5)
    by (simp add: under_lock_def rr fresh)
  show ?thesis
    unfolding promote_entry_def Let_def assms(11) [symmetric] run_mutation_def assms(2,3) first
    by (simp add: second commit_mutation_def assms(4) file_mutation_def)
qed

end
