(* ===== verification/Registry_Requests.thy ===== *)
theory Registry_Requests
  imports Registry_System Registry_Promotion
begin

text \<open>
  The three registry requests seen from outside: what a committed one has done to the versions, what a
  resent one answers, and what a committed promotion had verified.
\<close>

lemma fold_version: "sh_version (fold shelf_apply ps sh) = sh_version sh + int (length ps)"
  by (induction ps arbitrary: sh) (simp_all add: shelf_apply_def)

lemma empty_shelf_version [simp]: "sh_version empty_shelf = 0"
  by (simp add: empty_shelf_def)

lemma effect_version:
  assumes "mutation_effect rr actor s (result, s')"
  shows "registry_version (rr_experiment_id rr) s' = registry_version (rr_experiment_id rr) s + 1"
  using arg_cong [OF mutation_effectD(5) [OF assms refl refl], of sh_version]
  by (simp add: shelf_apply_def) (simp add: shelf_of_def)

lemma revoked_version:
  assumes "revoke_entry pf st env e i actor v payload key path = (Inr (result, False), s')"
    and "registry_ok (rq_locked env)" "get_entry (rq_new_id env) (rq_locked env) = None"
  shows "registry_version e (rq_locked env) = ev_expected_registry_row_version payload"
    "registry_version e s' = registry_version e (rq_locked env) + 1"
  using revocation.commit_effect [OF assms(1) [unfolded mutation_runs] assms(2,3)] effect_version
  by (fastforce simp: request_operation)+

lemma promoted_version:
  assumes "promote_entry pf st storage env e i actor v payload key path = (Inr (result, False), s')"
    and "registry_ok (rq_locked env)" "get_entry (rq_new_id env) (rq_locked env) = None"
  shows "registry_version e (rq_locked env) = ep_expected_registry_row_version payload"
    "registry_version e s' = registry_version e (rq_locked env) + 1"
  using promotion.commit_effect [OF assms(1) [unfolded mutation_runs] assms(2,3)] effect_version
  by (fastforce simp: request_operation)+

lemma promoted_locked:
  assumes "promote_entry pf st storage env e i actor v payload key path = (Inr (result, False), s')"
  obtains fp locked_actor rr where
    "rr = registry_request_of pf st Op_Promote (promote_document payload) e actor v key path"
    "promote_preflight pf st storage (rq_verify env) e i payload (rq_seen env) = Inr fp"
    "promote_locked pf st storage env rr i payload fp locked_actor = Inr (result, s')"
proof -
  define rr where "rr = registry_request_of pf st Op_Promote (promote_document payload) e actor v key path"
  from run_mutationD [OF assms [unfolded mutation_runs, folded rr_def]] obtain fp out where
    first: "before_lock rr (rq_seen env)
      (promote_preflight pf st storage (rq_verify env) e i payload (rq_seen env)) = Inr (Inr fp)"
    and second: "under_lock rr (rq_locked env) (promote_locked pf st storage env rr i payload fp) = Inr (Inr out)"
    and out: "result = fst out" "s' = snd out"
    by auto
  have "promote_preflight pf st storage (rq_verify env) e i payload (rq_seen env) = Inr fp"
    using first by (auto simp: before_lock_def unless_replayed_fresh)
  moreover obtain locked_actor where "promote_locked pf st storage env rr i payload fp locked_actor = Inr out"
    using under_lockD [OF second] by blast
  ultimately show ?thesis using that rr_def out by simp
qed

lemma revoked_not_promoted:
  assumes "registry_constraints t" "rq_locked env = t" "n \<in> set (registry_entries t)" "n_status n = Revoked"
  shows "fst (promote_entry pf st storage env e (n_id n) actor v payload key path) \<noteq> Inr (x, False)"
proof
  assume "fst (promote_entry pf st storage env e (n_id n) actor v payload key path) = Inr (x, False)"
  then have "promote_entry pf st storage env e (n_id n) actor v payload key path =
      (Inr (x, False), snd (promote_entry pf st storage env e (n_id n) actor v payload key path))"
    by (simp add: prod_eq_iff)
  then obtain fp a rr where "rr = registry_request_of pf st Op_Promote (promote_document payload) e actor v key path"
    "promote_locked pf st storage env rr (n_id n) payload fp a =
      Inr (x, snd (promote_entry pf st storage env e (n_id n) actor v payload key path))"
    by (rule promoted_locked) blast
  then obtain m where m: "entry_of e (n_id n) t = Some m" "n_status m \<noteq> Revoked"
    using promote_lockedD [OF _ assms(2) [symmetric] _ assms(1) refl] by fastforce
  then show False
    using entry_unique [OF assms(1) assms(3), of m] assms(4) by (auto simp: entry_of_iff [OF assms(1)])
qed

lemma resent_request:
  assumes "promote_entry pf st storage env e i actor v payload key path = (Inr (result, False), s')"
    and "registry_ok (rq_locked env)" "get_entry (rq_new_id env) (rq_locked env) = None"
    and "prefix (registry_operations s') (registry_operations (rq_seen later))" "registry_ok (rq_seen later)"
    and "visible_experiment e actor (rq_seen later) = Inr x"
  shows "promote_entry pf st storage' later e i actor v payload key path = (Inr (result, True), rq_locked later)"
  unfolding mutation_runs
  by (rule promotion.resend_replays [OF assms(1) [unfolded mutation_runs] assms(2,3) _ assms(4,5)])
    (simp_all add: assms(6))

text \<open>The entry of a committed promotion, its snapshot and the objects behind it.\<close>

lemma promotion_verified:
  assumes "registry_ok (rq_locked env)" "get_entry (rq_new_id env) (rq_locked env) = None"
    and "registry_constraints (rq_seen env)" "entries_evolve (rq_seen env) (rq_locked env)"
    and "promote_entry pf st storage env e i actor v payload key path = (Inr (result, False), s')"
  shows "\<exists>n att. active_entry e s' = Some n \<and> n_id n = i \<and>
    object_has_digest pf st storage (n_source_job_id n) (n_source_attempt_id n) FINAL_SMALL_MODEL
      (n_model_size_bytes n) (n_model_sha256 n) \<and>
    get_attempt (n_source_attempt_id n) (base (rq_locked env)) = Some att \<and> a_status att = COMPLETED \<and>
    a_rvc_commit_hash att = Some RVC_REVIEWED_COMMIT \<and>
    (n_runtime_image_digest n, n_runtime_asset_manifest_sha256 n) \<in> set (approved_sample_runtime_bundles st)"
proof -
  note locked_ok = registry_okD(1) [OF assms(1)]
  obtain fp a rr where
    rr: "rr = registry_request_of pf st Op_Promote (promote_document payload) e actor v key path"
    and first: "promote_preflight pf st storage (rq_verify env) e i payload (rq_seen env) = Inr fp"
    and second: "promote_locked pf st storage env rr i payload fp a = Inr (result, s')"
    by (rule promoted_locked [OF assms(5)])
  have e: "e = rr_experiment_id rr" by (simp add: rr)
  obtain n0 cx0 where n0: "entry_of e i (rq_seen env) = Some n0" "context_matches_entry cx0 n0"
    and pre: "preflight_context pf st storage (rq_verify env) e (n_source_job_id n0) (n_source_attempt_id n0)
      (n_model_artifact_id n0) False (base (rq_seen env)) = Inr (cx0, fp)"
    using first by (auto simp: promote_preflight_def promotable_def split: option.splits if_splits)
  obtain n cx where n: "entry_of e i (rq_locked env) = Some n" "n_active_slot n \<noteq> Some 1"
    and cx: "candidate_context pf st storage e (n_source_job_id n) (n_source_attempt_id n)
      (n_model_artifact_id n) False (base (rq_locked env)) = Inr cx" "context_matches_entry cx n"
    using promote_lockedD [OF second refl e locked_ok refl] by blast
  have op: "rr_operation rr = Op_Promote" by (simp add: rr)
  note eff = mutation_effectD [OF promote_locked_effect [OF assms(1) op second] e refl]
  have snapshot: "entry_snapshot n = entry_snapshot n0"
  proof -
    have "n0 \<in> set (registry_entries (rq_seen env))" "n_id n0 = i"
      using n0(1) by (simp_all add: entry_of_iff [OF assms(3)])
    then obtain m where m: "m \<in> set (registry_entries (rq_locked env))" "n_id m = i"
      "entry_snapshot m = entry_snapshot n0"
      using assms(4) by (fastforce simp: entries_evolve_def entry_evolves_def)
    then show ?thesis
      using entry_unique [OF locked_ok m(1), of n] n(1) by (simp add: entry_of_iff [OF locked_ok])
  qed
  have "mr_active_entry_id result = Some i"
    using promote_lockedD [OF second refl e locked_ok refl] by (auto simp: file_mutation_def mutation_result_def)
  then have "map_option n_id (active_entry e s') = Some i"
    using eff(7) by (simp add: response_shows_def shelf_of_def operation_row_def)
  then obtain n' where n': "active_entry e s' = Some n'" "n_id n' = i" by blast
  have kept: "entry_snapshot n' = entry_snapshot n"
  proof -
    have "n \<in> set (registry_entries (rq_locked env))" "n_id n = i"
      using n(1) by (simp_all add: entry_of_iff [OF locked_ok])
    then obtain m where "m \<in> set (registry_entries s')" "n_id m = i" "entry_snapshot m = entry_snapshot n"
      using eff(8) by (fastforce simp: entries_evolve_def entry_evolves_def)
    then show ?thesis
      using entry_unique [OF eff(2), of m n'] n' by (simp add: active_entry_iff [OF eff(2)])
  qed
  obtain config where "registry_eligible st e False config (cx_job cx) (cx_attempt cx)"
    using candidate_contextD(3) [OF cx(1)] by blast
  then have "a_status (cx_attempt cx) = COMPLETED" "a_rvc_commit_hash (cx_attempt cx) = Some RVC_REVIEWED_COMMIT"
    "(n_runtime_image_digest n, n_runtime_asset_manifest_sha256 n) \<in> set (approved_sample_runtime_bundles st)"
    using cx(2) by (auto simp: registry_eligible_def context_matches_entry_def Let_def)
  moreover have "object_has_digest pf st storage (n_source_job_id n0) (n_source_attempt_id n0) FINAL_SMALL_MODEL
      (n_model_size_bytes n0) (n_model_sha256 n0)"
    by (rule preflight_contextD(3) [OF pre n0(2)])
  moreover have "get_attempt (n_source_attempt_id n) (base (rq_locked env)) = Some (cx_attempt cx)"
    by (rule candidate_contextD(2) [OF cx(1)])
  ultimately show ?thesis
    using n' kept snapshot by (intro exI [of _ n'] exI [of _ "cx_attempt cx"]) (simp add: entry_snapshot_def)
qed

text \<open>The outcome of an undisturbed promotion.\<close>

lemma promote_entry_outcome:
  assumes "registry_ok s" "rq_seen env = s" "rq_locked env = s" "rq_outcome env = Committed"
    and "lock_experiment_fence e (ur_id actor) v s = Inr actor"
    and "\<And>p. p \<in> set (registry_operations s) \<Longrightarrow>
      (p_actor_id p, p_idempotency_key_hash p) \<noteq> (ur_id actor, actor_key_hash pf (ur_id actor) key)"
    and "registry_version e s = ep_expected_registry_row_version payload"
    and "promotable e i payload s = Inr n"
    and "preflight_context pf st storage (rq_verify env) e (n_source_job_id n) (n_source_attempt_id n)
      (n_model_artifact_id n) False (base s) = Inr (cx, fp)"
    and "context_matches_entry cx n"
  shows "\<exists>result s'. promote_entry pf st storage env e i actor v payload key path = (Inr (result, False), s') \<and>
    mr_active_entry_id result = Some i \<and> map_option n_id (active_entry e s') = Some i \<and>
    registry_version e s' = registry_version e s + 1"
proof -
  define t where "t = advanced e (set_entry i (approved_entry (rq_now env) actor) (slot_freed e s))"
  define result where "result = mutation_result e (Some i) (the (get_entry i t)) t"
  obtain s' where run: "promote_entry pf st storage env e i actor v payload key path = (Inr (result, False), s')"
    using promote_entry_succeeds [OF assms(1-10) refl t_def] unfolding result_def by blast
  then obtain fp' a rr where
    rr: "rr = registry_request_of pf st Op_Promote (promote_document payload) e actor v key path"
    and locked: "promote_locked pf st storage env rr i payload fp' a = Inr (result, s')"
    by (rule promoted_locked)
  have op: "rr_operation rr = Op_Promote" "e = rr_experiment_id rr" by (simp_all add: rr)
  have eff: "mutation_effect rr a s (result, s')"
    using promote_locked_effect [OF _ op(1) locked] assms(1,3) by simp
  have "mr_active_entry_id result = Some i" by (simp add: result_def mutation_result_def)
  moreover from this have "map_option n_id (active_entry e s') = Some i"
    using mutation_effectD(7) [OF eff op(2) refl] by (simp add: response_shows_def shelf_of_def operation_row_def)
  moreover have "registry_version e s' = registry_version e s + 1"
    using effect_version [OF eff] op(2) by simp
  ultimately show ?thesis using run by blast
qed

end
