(* ===== verification/Example_Registry.thy ===== *)
theory Example_Registry
  imports Registry_Requests Example_Run
begin

text \<open>
  A registry on which the properties are exercised: the job of the examples has completed, its attempt
  has one verified model; the model is registered as a candidate, promoted, and revoked.
\<close>

section \<open>The completed job\<close>

definition ex_digest :: string where "ex_digest = ''sha256:'' @ ex_zero"

definition ex_registry_settings :: settings where
  "ex_registry_settings = ex_settings\<lparr>approved_sample_runtime_bundles := [(ex_digest, ex_zero)]\<rparr>"

definition ex_done_job :: job_row where
  "ex_done_job = ex_job\<lparr>j_status := COMPLETED, j_current_attempt_id := Some ''a1'',
     j_worker_id := Some ''w1'', j_attempt_count := 1\<rparr>"

definition ex_done_attempt :: job_attempt_row where
  "ex_done_attempt =
     \<lparr>a_id = ''a1'', a_job_id = ''j1'', a_worker_id = ''w1'', a_attempt_number = 1,
      a_engine_mode = RVC_WEBUI, a_rvc_commit_hash = Some RVC_REVIEWED_COMMIT,
      a_execution_provenance_version = Some ''worker-claim-v1'', a_job_config_sha256 = Some ex_zero,
      a_runtime_image_digest = Some ex_digest, a_runtime_asset_manifest_sha256 = Some ex_zero,
      a_telemetry_log_count = Some 0, a_telemetry_metric_count = Some 0, a_status = COMPLETED,
      a_error_code = None, a_error_message = None, a_started_at = 10, a_finished_at = Some 20\<rparr>"

definition ex_model_key :: string where
  "ex_model_key = canonical_object_key ''j1'' ''a1'' FINAL_SMALL_MODEL ''up1''"

definition ex_model :: artifact_row where
  "ex_model =
     \<lparr>ar_id = ''m1'', ar_job_id = ''j1'', ar_attempt_id = ''a1'', ar_artifact_type = FINAL_SMALL_MODEL,
      ar_filename = ''voice.pth'', ar_storage_uri = ''s3://'' @ ex_model_key, ar_size_bytes = 3,
      ar_sha256 = ex_zero, ar_mime_type = Some ''application/octet-stream'',
      ar_metadata_json = [(''manager_verification'', JObj
        [(''algorithm'', JStr ''sha256''), (''bounded_stream'', JBool True),
         (''upload_session_id'', JStr ''up1''), (''storage_backend'', JStr ''s3'')])]\<rparr>"

definition ex_upload :: artifact_upload_session where
  "ex_upload =
     \<lparr>au_id = ''up1'', au_job_id = ''j1'', au_attempt_id = ''a1'', au_lease_id = ''l1'',
      au_worker_id = ''w1'', au_artifact_id = Some ''m1'', au_artifact_type = FINAL_SMALL_MODEL,
      au_filename = ''voice.pth'', au_content_type = ''application/octet-stream'',
      au_expected_size_bytes = 3, au_expected_sha256 = ex_zero,
      au_canonical_object_key = ex_model_key, au_storage_backend = S3,
      au_storage_namespace_sha256 = ''ns'', au_status = ''completed''\<rparr>"

definition ex_artifact_storage :: artifact_storage where
  "ex_artifact_storage = \<lparr>backend = S3, namespace_fingerprint = ''ns'',
     storage_uri = (\<lambda>k. Some (''s3://'' @ k)), stream_object = (\<lambda>_ _ _. None),
     read_object = (\<lambda>_ _ _. Chunks [''ab'', ''c''])\<rparr>"

definition ex_path :: "job_status list" where
  "ex_path = [QUEUED, ASSIGNED, DOWNLOADING_DATASET, VALIDATING_DATASET, PREPROCESSING, EXTRACTING_FEATURES,
     TRAINING, COLLECTING_SMALL_MODEL, UPLOADING_ARTIFACTS, COMPLETED]"

definition ex_done :: ledger where
  "ex_done = ex_ledger\<lparr>jobs := [ex_done_job], job_attempts := [ex_done_attempt],
     artifacts_table := [ex_model], artifact_upload_sessions := [ex_upload],
     job_status_events := map (\<lambda>(p, t). \<lparr>e_job_id = ''j1'', e_attempt_id = None, e_previous_status = p,
       e_status = t, e_occurred_at = 0, e_source = Worker_source\<rparr>)
       (zip (None # map Some ex_path) ex_path)\<rparr>"

lemma ex_done_tables:
  "jobs ex_done = [ex_done_job]" "job_attempts ex_done = [ex_done_attempt]"
  "artifacts_table ex_done = [ex_model]" "artifact_upload_sessions ex_done = [ex_upload]"
  "experiments ex_done = [ex_experiment]" "workers ex_done = [ex_worker]" "job_leases ex_done = []"
  "job_logs ex_done = []" "metrics ex_done = []"
  by (simp_all add: ex_done_def ex_ledger_def)

lemma ex_done_fields:
  "j_id ex_done_job = ''j1''" "j_status ex_done_job = COMPLETED" "j_config_sha256 ex_done_job = Some ex_zero"
  "j_experiment_id ex_done_job = ''exp-1''" "j_job_name ex_done_job = ''voice-a''"
  "j_current_attempt_id ex_done_job = Some ''a1''" "j_worker_id ex_done_job = Some ''w1''"
  "j_attempt_count ex_done_job = 1" "j_current_epoch ex_done_job = None"
  by (simp_all add: ex_done_job_def ex_job_def)

lemma ex_done_ok: "ledger_ok ex_done"
proof -
  have "assignment_ok ex_done"
    by (simp add: assignment_ok_def keys_ok_def wf_table_def ex_done_tables board_ok_def live_def
        board_of_def slot_defs ex_done_fields ex_worker_def executing_simps) (simp add: ex_done_attempt_def)
  moreover have "tokens_ok ex_done"
    by (simp add: tokens_ok_def ex_done_tables rotation_together_def ex_worker_def)
  moreover have "telemetry_ok ex_done"
    by (simp add: telemetry_ok_def ex_done_tables sealed_below_def epoch_bounded_def ex_done_fields)
  moreover have "history_ok ex_done"
    by (simp add: history_ok_def history_def ex_done_tables ex_done_fields)
      (simp add: ex_done_def ex_path_def legal_step_def failure_or_cancel_def)
  ultimately show ?thesis by (simp add: ledger_ok_def)
qed

lemma ex_done_valid: "validated_job_config ex_platform ex_done_job (Some ex_done_attempt) = Some ex_config"
  by (rule ex_validated) (simp_all add: same_snapshot_def ex_done_job_def ex_done_attempt_def)

section \<open>The candidate\<close>

text \<open>The ledgers that differ from this one in the audit rows only.\<close>

definition ex_like :: "ledger \<Rightarrow> bool" where
  "ex_like d \<longleftrightarrow> jobs d = jobs ex_done \<and> job_attempts d = job_attempts ex_done \<and>
     artifacts_table d = artifacts_table ex_done \<and> experiments d = experiments ex_done \<and>
     artifact_upload_sessions d = artifact_upload_sessions ex_done"

lemma ex_like [simp]: "ex_like ex_done" "ex_like (audit_events_update f d) \<longleftrightarrow> ex_like d"
  by (simp_all add: ex_like_def)

definition ex_context :: candidate_context_row where
  "ex_context = \<lparr>cx_job = ex_done_job, cx_attempt = ex_done_attempt,
     cx_model = \<lparr>vb_artifact = ex_model, vb_upload = ex_upload\<rparr>, cx_index = None,
     cx_job_config_sha256 = ex_zero\<rparr>"

lemma ex_binding:
  "ex_like d \<Longrightarrow> registry_binding ex_artifact_storage ''m1'' ''j1'' ''a1'' FINAL_SMALL_MODEL ''w1'' d =
     Inr \<lparr>vb_artifact = ex_model, vb_upload = ex_upload\<rparr>"
  by (simp add: ex_like_def registry_binding_def verified_artifact_binding_def verified_binding_from_rows_def ex_done_tables)
    (simp add: ex_model_def ex_upload_def ex_artifact_storage_def storage_namespace_matches_def ex_model_key_def)

lemma ex_candidate_context:
  assumes "ex_like d"
  shows "candidate_context ex_platform ex_registry_settings ex_artifact_storage ''exp-1'' ''j1'' ''a1'' ''m1'' rc d =
     Inr ex_context"
proof -
  have "registry_eligible ex_registry_settings ''exp-1'' rc ex_config ex_done_job ex_done_attempt"
    by (simp add: registry_eligible_def registry_config_matches_def registry_current_matches_def ex_done_fields
        ex_done_attempt_def ex_registry_settings_def)
      (simp add: ex_config_def ex_done_job_def ex_job_def)
  moreover have "final_artifact_ids ex_done_job ex_done_attempt FINAL_SMALL_MODEL d = [''m1'']"
    "final_artifact_ids ex_done_job ex_done_attempt FINAL_INDEX d = []"
    using assms
    by (simp_all add: ex_like_def final_artifact_ids_def ex_done_tables ex_done_fields ex_model_def ex_done_attempt_def)
  moreover have "a_id ex_done_attempt = ''a1''" "a_worker_id ex_done_attempt = ''w1''"
    by (simp_all add: ex_done_attempt_def)
  moreover have "get_job ''j1'' d = Some ex_done_job" "get_attempt ''a1'' d = Some ex_done_attempt"
    using assms by (simp_all add: ex_like_def ex_done_tables ex_done_fields) (simp add: ex_done_attempt_def)
  ultimately show ?thesis
    by (simp add: candidate_context_def ex_done_fields ex_done_valid ex_binding [OF assms] ex_context_def)
qed

lemma ex_context_fingerprint: "context_fingerprint ex_platform ex_context = Some ex_zero"
  by (simp add: context_fingerprint_def Let_def canonical_sha256_def canonical_json_def dumps_def ex_context_def
      binding_document_def ex_model_def opt_str_def ex_platform_def split: option.split)

definition ex_verify :: verify_env where
  "ex_verify = \<lparr>vf_slot = True, vf_clock = (\<lambda>_. 0), vf_spool = (\<lambda>_. \<lparr>sp_io_error = False,
     sp_partial_cleanup_error = False, sp_timeout = False, sp_remove_error = False\<rparr>)\<rparr>"

lemma ex_verified:
  "verify_context_bytes ex_platform ex_registry_settings ex_artifact_storage ex_verify ex_context = Inr ()"
  by (simp add: verify_context_bytes_def ex_context_def ex_verify_def ex_registry_settings_def ex_settings_def
      verify_current_artifact_bytes_def verify_object_to_spool_def ex_artifact_storage_def ex_model_def
      ex_platform_def)

lemma ex_preflight:
  "ex_like d \<Longrightarrow> preflight_context ex_platform ex_registry_settings ex_artifact_storage ex_verify ''exp-1'' ''j1'' ''a1'' ''m1''
     rc d = Inr (ex_context, ex_zero)"
  by (simp add: preflight_context_def ex_candidate_context ex_context_fingerprint ex_verified)

definition ex_owner :: user_row where
  "ex_owner = \<lparr>ur_id = ''u1'', ur_row_version = 1, ur_email = ''u1@lab.example'', ur_password_hash = ''h'',
     ur_role = ''user'', ur_disabled = False, ur_access_token_version = 1, ur_created_at = 1, ur_updated_at = 1\<rparr>"

definition ex_reviewer :: user_row where
  "ex_reviewer = \<lparr>ur_id = ''u2'', ur_row_version = 1, ur_email = ''u2@lab.example'', ur_password_hash = ''h'',
     ur_role = ''admin'', ur_disabled = False, ur_access_token_version = 1, ur_created_at = 1, ur_updated_at = 1\<rparr>"

definition ex_auditor :: user_row where
  "ex_auditor = \<lparr>ur_id = ''u3'', ur_row_version = 1, ur_email = ''u3@lab.example'', ur_password_hash = ''h'',
     ur_role = ''admin'', ur_disabled = False, ur_access_token_version = 1, ur_created_at = 1, ur_updated_at = 1\<rparr>"

definition ex_unregistered :: registry_db where
  "ex_unregistered = \<lparr>base = ex_done, users = [ex_owner, ex_reviewer, ex_auditor], registries = [], registry_entries = [],
     registry_operations = []\<rparr>"

lemma ex_unregistered_fresh: "fresh_deployment ex_unregistered"
  by (simp add: fresh_deployment_def ex_unregistered_def ex_done_ok)

definition ex_registry_env :: "registry_db \<Rightarrow> ident \<Rightarrow> registry_env" where
  "ex_registry_env s i = \<lparr>rq_seen = s, rq_locked = s, rq_after = s, rq_now = 30, rq_new_id = i,
     rq_outcome = Committed, rq_verify = ex_verify\<rparr>"

definition ex_candidate_create :: candidate_create where
  "ex_candidate_create = \<lparr>cc_expected_registry_row_version = 0, cc_source_job_id = ''j1'',
     cc_source_attempt_id = ''a1'', cc_model_artifact_id = ''m1''\<rparr>"

definition ex_entry :: model_registry_entry where
  "ex_entry = candidate_entry ''n1'' 30 ''exp-1'' ex_owner ex_context"

lemma ex_entry_fields:
  "n_id ex_entry = ''n1''" "n_experiment_id ex_entry = ''exp-1''" "n_status ex_entry = Candidate"
  "n_active_slot ex_entry = None" "n_row_version ex_entry = 1" "n_source_job_id ex_entry = ''j1''"
  "n_source_attempt_id ex_entry = ''a1''" "n_model_artifact_id ex_entry = ''m1''"
  by (simp_all add: ex_entry_def candidate_entry_def Let_def ex_context_def ex_done_fields ex_done_attempt_def
      ex_model_def)

lemma ex_zero_lowercase: "lowercase ex_zero" "lowercase RVC_REVIEWED_COMMIT" "lowercase ex_digest"
  "length ex_zero = 64" "length RVC_REVIEWED_COMMIT = 40" "length ex_digest = 71"
  by (simp_all add: ex_zero_def ex_digest_def RVC_REVIEWED_COMMIT_def lower_char_def char_class_defs)

lemma ex_entry_checks: "entry_checks ex_entry"
  using ex_zero_lowercase
  by (simp add: entry_checks_def ex_entry_def candidate_entry_def Let_def ex_context_def ex_done_attempt_def
      ex_model_def ex_digest_def)

definition ex_candidate_read :: registry_mutation_read where
  "ex_candidate_read = \<lparr>mr_experiment_id = ''exp-1'', mr_registry_row_version = 1, mr_active_entry_id = None,
     mr_entry = entry_to_read ex_entry\<rparr>"

definition ex_candidate_db :: registry_db where
  "ex_candidate_db = snd (file_mutation
     (registry_request_of ex_platform ex_registry_settings Op_Candidate (candidate_document ex_candidate_create)
       ''exp-1'' ex_owner 1 ''key-1'' ''/candidates'') ex_owner ''model_registry.candidate_created''
     ex_candidate_read
     (registry_entries_update (\<lambda>ns. ns @ [ex_entry])
       (registries_update (\<lambda>gs. gs @ [\<lparr>g_experiment_id = ''exp-1'', g_row_version = 1\<rparr>]) ex_unregistered)))"

lemma ex_actor_fence:
  assumes "ex_like (base s)" "users s = [ex_owner, ex_reviewer, ex_auditor]"
  shows "lock_experiment_fence ''exp-1'' ''u1'' 1 s = Inr ex_owner"
    "visible_experiment ''exp-1'' ex_owner s = Inr ex_experiment"
    "lock_experiment_fence ''exp-1'' (ur_id ex_reviewer) 1 s = Inr ex_reviewer"
    "visible_experiment ''exp-1'' ex_reviewer s = Inr ex_experiment"
    "lock_experiment_fence ''exp-1'' (ur_id ex_auditor) 1 s = Inr ex_auditor"
    "visible_experiment ''exp-1'' ex_auditor s = Inr ex_experiment"
  using assms
  by (simp_all add: ex_like_def lock_experiment_fence_def visible_experiment_def require_visible_experiment_def
      ex_done_tables ex_experiment_def ex_owner_def ex_reviewer_def ex_auditor_def)

lemma ex_unregistered_tables:
  "registries ex_unregistered = []" "registry_entries ex_unregistered = []"
  "registry_operations ex_unregistered = []" "base ex_unregistered = ex_done"
  "users ex_unregistered = [ex_owner, ex_reviewer, ex_auditor]" "ur_id ex_owner = ''u1''"
  by (simp_all add: ex_unregistered_def ex_owner_def)

lemma ex_create:
  "create_candidate ex_platform ex_registry_settings ex_artifact_storage (ex_registry_env ex_unregistered ''n1'')
     ''exp-1'' ex_owner 1 ex_candidate_create ''key-1'' ''/candidates'' =
   (Inr (ex_candidate_read, False), ex_candidate_db)"
  using ex_entry_checks ex_actor_fence [of ex_unregistered]
  by (simp add: create_candidate_def run_mutation_def before_lock_def unless_replayed_def replay_or_none_def
      under_lock_def candidate_preflight_def candidate_locked_def require_registry_version_def
      artifact_registered_def ex_registry_env_def ex_candidate_create_def registry_request_of_def
      ex_unregistered_tables ex_preflight ex_candidate_context ex_context_fingerprint advance_registry_def
      flush_or_conflict_def registry_constraints_def ex_entry_def [symmetric] ex_entry_fields commit_mutation_def
      file_mutation_def mutation_result_def registry_version_def active_entry_def active_in_def Let_def
      ex_candidate_db_def ex_candidate_read_def)

lemma ex_candidate_tables:
  "registries ex_candidate_db = [\<lparr>g_experiment_id = ''exp-1'', g_row_version = 1\<rparr>]"
  "registry_entries ex_candidate_db = [ex_entry]"
  "users ex_candidate_db = [ex_owner, ex_reviewer, ex_auditor]" "ex_like (base ex_candidate_db)"
  "map p_actor_id (registry_operations ex_candidate_db) = [''u1'']"
  by (simp_all add: ex_candidate_db_def file_mutation_def record_operation_def ex_unregistered_tables
      add_audit_event_def)

lemma ex_candidate_step: "deployment_step ex_platform ex_registry_settings ex_unregistered ex_candidate_db"
  by (rule candidate [OF _ _ ex_create]) (simp_all add: ex_registry_env_def ex_unregistered_def)

lemma ex_candidate_ok: "deployment_ok ex_candidate_db"
  using deployment.step_inv [OF fresh_deployment_ok [OF ex_unregistered_fresh] ex_candidate_step] .

section \<open>The promotion\<close>

definition ex_promote :: entry_promote where
  "ex_promote = \<lparr>ep_expected_registry_row_version = 1, ep_expected_entry_row_version = 1\<rparr>"

definition ex_promoted_entry :: model_registry_entry where
  "ex_promoted_entry = bumped (approved_entry 30 ex_reviewer) ex_entry"

definition ex_promoted_read :: registry_mutation_read where
  "ex_promoted_read = \<lparr>mr_experiment_id = ''exp-1'', mr_registry_row_version = 2, mr_active_entry_id = Some ''n1'',
     mr_entry = entry_to_read ex_promoted_entry\<rparr>"

definition ex_promoted_db :: registry_db where
  "ex_promoted_db = snd (file_mutation
     (registry_request_of ex_platform ex_registry_settings Op_Promote (promote_document ex_promote)
       ''exp-1'' ex_reviewer 1 ''key-2'' ''/promote'') ex_reviewer ''model_registry.entry_promoted''
     ex_promoted_read
     (advanced ''exp-1'' (set_entry ''n1'' (approved_entry 30 ex_reviewer) ex_candidate_db)))"

lemma ex_promotable:
  "promotable ''exp-1'' ''n1'' ex_promote ex_candidate_db = Inr ex_entry"
  "active_entry ''exp-1'' ex_candidate_db = None" "registry_version ''exp-1'' ex_candidate_db = 1"
  by (simp_all add: promotable_def entry_of_def active_entry_def active_in_def ex_candidate_tables ex_entry_fields
      ex_promote_def registry_version_def)

lemma ex_context_matches: "context_matches_entry ex_context ex_entry"
  by (simp add: context_matches_entry_def ex_entry_def candidate_entry_def Let_def ex_context_def
      ex_done_attempt_def)

lemma ex_unused_key:
  "(ur_id ex_reviewer, k) \<notin> set (map (\<lambda>p. (p_actor_id p, p_idempotency_key_hash p)) (registry_operations ex_candidate_db))"
proof
  assume "(ur_id ex_reviewer, k) \<in> set (map (\<lambda>p. (p_actor_id p, p_idempotency_key_hash p)) (registry_operations ex_candidate_db))"
  then have "ur_id ex_reviewer \<in> set (map p_actor_id (registry_operations ex_candidate_db))" by auto
  then show False by (simp add: ex_candidate_tables ex_reviewer_def)
qed

lemma ex_promoted:
  "promote_entry ex_platform ex_registry_settings ex_artifact_storage (ex_registry_env ex_candidate_db ''n2'')
     ''exp-1'' ''n1'' ex_reviewer 1 ex_promote ''key-2'' ''/promote'' =
   (Inr (ex_promoted_read, False), ex_promoted_db)"
proof -
  have env: "rq_seen (ex_registry_env ex_candidate_db ''n2'') = ex_candidate_db"
    "rq_locked (ex_registry_env ex_candidate_db ''n2'') = ex_candidate_db"
    "rq_outcome (ex_registry_env ex_candidate_db ''n2'') = Committed"
    "rq_verify (ex_registry_env ex_candidate_db ''n2'') = ex_verify"
    "rq_now (ex_registry_env ex_candidate_db ''n2'') = 30"
    by (simp_all add: ex_registry_env_def)
  have fence: "lock_experiment_fence ''exp-1'' (ur_id ex_reviewer) 1 ex_candidate_db = Inr ex_reviewer"
    using ex_actor_fence(3) [OF ex_candidate_tables(4,3)] .
  have unused: "(p_actor_id p, p_idempotency_key_hash p) \<noteq>
      (ur_id ex_reviewer, actor_key_hash ex_platform (ur_id ex_reviewer) ''key-2'')"
    if "p \<in> set (registry_operations ex_candidate_db)" for p
    using ex_unused_key that by force
  define t where "t = advanced ''exp-1'' (set_entry ''n1'' (approved_entry 30 ex_reviewer) ex_candidate_db)"
  have freed: "slot_freed ''exp-1'' ex_candidate_db = ex_candidate_db"
    by (simp add: slot_freed_def ex_promotable)
  have "registry_entries t = [ex_promoted_entry]"
    by (simp add: t_def set_entry_rows ex_candidate_tables ex_entry_fields ex_promoted_entry_def)
  moreover have "registry_version ''exp-1'' t = 2"
    by (simp add: t_def registry_version_advanced ex_promotable)
  ultimately have read: "mutation_result ''exp-1'' (Some ''n1'') (the (get_entry ''n1'' t)) t = ex_promoted_read"
    by (simp add: mutation_result_def ex_promoted_read_def ex_promoted_entry_def ex_entry_fields)
  show ?thesis
    using promote_entry_succeeds [where env = "ex_registry_env ex_candidate_db ''n2''" and s = ex_candidate_db,
        OF _ env(1-3) fence unused _ ex_promotable(1) _ ex_context_matches refl refl, of ex_registry_settings
        ex_artifact_storage ex_zero "''/promote''"]
      ex_candidate_ok ex_preflight [OF ex_candidate_tables(4), of False]
    by (simp add: env ex_promotable freed ex_entry_fields deployment_ok_def t_def [symmetric] read
        ex_promoted_db_def del: advanced_frame) (simp add: ex_promote_def)
qed

lemma ex_promoted_tables:
  "registries ex_promoted_db = [\<lparr>g_experiment_id = ''exp-1'', g_row_version = 2\<rparr>]"
  "registry_entries ex_promoted_db = [ex_promoted_entry]"
  "users ex_promoted_db = [ex_owner, ex_reviewer, ex_auditor]" "ex_like (base ex_promoted_db)"
  "map p_actor_id (registry_operations ex_promoted_db) = [''u1'', ''u2'']"
proof -
  have "registries (advanced ''exp-1'' (set_entry ''n1'' (approved_entry 30 ex_reviewer) ex_candidate_db)) =
      [\<lparr>g_experiment_id = ''exp-1'', g_row_version = 2\<rparr>]"
    by (simp add: advanced_def ex_candidate_tables)
  then show "registries ex_promoted_db = [\<lparr>g_experiment_id = ''exp-1'', g_row_version = 2\<rparr>]"
    "registry_entries ex_promoted_db = [ex_promoted_entry]"
    "users ex_promoted_db = [ex_owner, ex_reviewer, ex_auditor]" "ex_like (base ex_promoted_db)"
    "map p_actor_id (registry_operations ex_promoted_db) = [''u1'', ''u2'']"
    by (simp_all add: ex_promoted_db_def file_mutation_def record_operation_def set_entry_rows ex_candidate_tables
        ex_entry_fields ex_promoted_entry_def add_audit_event_def ex_reviewer_def)
qed

lemma ex_promoted_step: "deployment_step ex_platform ex_registry_settings ex_candidate_db ex_promoted_db"
  by (rule promotion [OF _ _ ex_promoted]) (simp_all add: ex_registry_env_def ex_candidate_tables ex_entry_fields)

lemma ex_promoted_run: "(deployment_step ex_platform ex_registry_settings)\<^sup>*\<^sup>* ex_unregistered ex_promoted_db"
  using ex_candidate_step ex_promoted_step by (meson converse_rtranclp_into_rtranclp rtranclp.rtrancl_refl)

lemma ex_promoted_ok: "deployment_ok ex_promoted_db"
  by (rule deployment.step_inv [OF ex_candidate_ok ex_promoted_step])

lemma ex_promoted_version: "registry_version ''exp-1'' ex_promoted_db = 2"
  by (simp add: registry_version_def ex_promoted_tables)

section \<open>The revocation\<close>

definition ex_revoke :: entry_revoke where
  "ex_revoke = \<lparr>ev_expected_registry_row_version = 2, ev_expected_entry_row_version = 2,
     ev_reason_code = Security_Issue\<rparr>"

definition ex_revoked_entry :: model_registry_entry where
  "ex_revoked_entry = bumped (revoked_entry 30 ex_auditor Security_Issue) ex_promoted_entry"

definition ex_revoked_read :: registry_mutation_read where
  "ex_revoked_read = \<lparr>mr_experiment_id = ''exp-1'', mr_registry_row_version = 3, mr_active_entry_id = None,
     mr_entry = entry_to_read ex_revoked_entry\<rparr>"

definition ex_revoked_db :: registry_db where
  "ex_revoked_db = snd (file_mutation
     (registry_request_of ex_platform ex_registry_settings Op_Revoke (revoke_document ex_revoke)
       ''exp-1'' ex_auditor 1 ''key-3'' ''/revoke'') ex_auditor ''model_registry.entry_revoked''
     ex_revoked_read
     (advanced ''exp-1'' (set_entry ''n1'' (revoked_entry 30 ex_auditor Security_Issue) ex_promoted_db)))"

lemma ex_promoted_entry_fields:
  "n_id ex_promoted_entry = ''n1''" "n_experiment_id ex_promoted_entry = ''exp-1''"
  "n_status ex_promoted_entry = Approved" "n_row_version ex_promoted_entry = 2"
  by (simp_all add: ex_promoted_entry_def ex_entry_fields)

lemma ex_revoked_entry_checks: "entry_checks ex_revoked_entry"
  using registry_constraintsD(1) [of ex_promoted_db ex_promoted_entry] ex_promoted_ok ex_promoted_entry_fields
  by (auto simp: deployment_ok_def registry_ok_def ex_promoted_tables ex_revoked_entry_def bumped_def
      revoked_entry_def entry_checks_def cong: option.case_cong)

lemma ex_revoked:
  "revoke_entry ex_platform ex_registry_settings (ex_registry_env ex_promoted_db ''n3'') ''exp-1'' ''n1''
     ex_auditor 1 ex_revoke ''key-3'' ''/revoke'' = (Inr (ex_revoked_read, False), ex_revoked_db)"
proof -
  define t where "t = set_entry ''n1'' (revoked_entry 30 ex_auditor Security_Issue) ex_promoted_db"
  have rows: "registry_entries t = [ex_revoked_entry]"
    by (simp add: t_def set_entry_rows ex_promoted_tables ex_promoted_entry_fields ex_revoked_entry_def)
  have c: "registry_constraints t"
    using ex_revoked_entry_checks
    by (simp add: registry_constraints_def rows) (simp add: t_def ex_promoted_tables ex_revoked_entry_def)
  have read: "mutation_result ''exp-1'' (map_option n_id (active_entry ''exp-1'' (advanced ''exp-1'' t)))
      (the (get_entry ''n1'' (advanced ''exp-1'' t))) (advanced ''exp-1'' t) = ex_revoked_read"
    by (simp add: mutation_result_def registry_version_advanced ex_revoked_read_def rows active_entry_def
        active_in_def ex_revoked_entry_def ex_promoted_entry_fields)
      (simp add: t_def ex_promoted_version)
  have unused: "replay_or_none (ur_id ex_auditor) k operation fp ex_promoted_db = Inr None" for k operation fp
  proof (rule unused_key)
    fix p assume "p \<in> set (registry_operations ex_promoted_db)"
    then have "p_actor_id p \<in> set (map p_actor_id (registry_operations ex_promoted_db))" by simp
    then show "(p_actor_id p, p_idempotency_key_hash p) \<noteq> (ur_id ex_auditor, k)"
      by (auto simp: ex_promoted_tables ex_auditor_def)
  qed
  have "revoke_locked (ex_registry_env ex_promoted_db ''n3'') rr ''n1'' ex_revoke ex_auditor =
      Inr (file_mutation rr ex_auditor ''model_registry.entry_revoked'' ex_revoked_read (advanced ''exp-1'' t))"
    if "rr_experiment_id rr = ''exp-1''" for rr
    using c constraints_advanced [OF c] that
    by (simp add: revoke_locked_def ex_registry_env_def require_registry_version_def ex_promoted_tables ex_revoke_def
        entry_of_def ex_promoted_entry_fields t_def [symmetric] flush_or_conflict_def
        advance_registry_def [folded advanced_def] read del: advanced_frame)
  then show ?thesis
    using ex_actor_fence [OF ex_promoted_tables(4,3)]
    by (simp add: revoke_entry_def Let_def run_mutation_def before_lock_def under_lock_def unless_replayed_def unused
        commit_mutation_def file_mutation_def)
      (simp add: ex_registry_env_def ex_revoked_db_def t_def file_mutation_def registry_request_of_def unused
        unless_replayed_def commit_mutation_def)
qed

lemma ex_revoked_tables: "registry_entries ex_revoked_db = [ex_revoked_entry]"
  by (simp add: ex_revoked_db_def file_mutation_def record_operation_def set_entry_rows ex_promoted_tables
      ex_promoted_entry_fields ex_revoked_entry_def)

lemma ex_revoked_ok: "deployment_ok ex_revoked_db"
  by (rule deployment.step_inv [OF ex_promoted_ok revocation [OF _ _ ex_revoked]])
    (simp_all add: ex_registry_env_def ex_promoted_tables ex_promoted_entry_fields)

end
