(* ===== verification/Registry_Claims.thy ===== *)
theory Registry_Claims
  imports Example_Registry
begin

text \<open>
  The properties of the model registry, each with an application to the registry of the examples.
\<close>

section \<open>Every reachable registry\<close>

text \<open>
  C8. In every state that a deployment reaches from an empty registry, an experiment has at most one
  active entry; it is approved, by a recorded person, and the ledger beside it is consistent.
\<close>

theorem single_active_model:
  assumes "fresh_deployment s0" "(deployment_step pf st)\<^sup>*\<^sup>* s0 s"
    and "n \<in> set (registry_entries s)" "m \<in> set (registry_entries s)" "active_in e n" "active_in e m"
  shows "n = m \<and> n_status n = Approved \<and> n_approved_by n \<noteq> None \<and> ledger_ok (base s)"
proof -
  have ok: "deployment_ok s" by (rule deployment.reachable_inv [OF assms(1,2)])
  then have c: "registry_constraints s" by (simp add: deployment_ok_def registry_ok_def)
  have "active_entry e s = Some n" "active_entry e s = Some m"
    using assms(3-6) by (simp_all add: active_entry_iff [OF c])
  then show ?thesis
    using ok active_is_approved [OF c] registry_constraintsD(1) [OF c assms(3)]
    by (auto simp: deployment_ok_def entry_checks_def)
qed

theorem single_active_model_witness:
  "ex_promoted_entry \<in> set (registry_entries ex_promoted_db) \<and> active_in ''exp-1'' ex_promoted_entry \<and>
   n_status ex_promoted_entry = Approved \<and> ledger_ok (base ex_promoted_db)"
proof -
  have mem: "ex_promoted_entry \<in> set (registry_entries ex_promoted_db)" "active_in ''exp-1'' ex_promoted_entry"
    by (simp_all add: ex_promoted_tables ex_promoted_entry_def active_in_def ex_entry_fields)
  show ?thesis
    using single_active_model [OF ex_unregistered_fresh ex_promoted_run mem(1,1,2,2)] mem by simp
qed

text \<open>
  C9. The operations table is the complete history of every registry: in every reachable state, applying
  the recorded operations of an experiment in order to the empty registry gives its present version,
  active entry and review statuses; the version counts the operations; and every stored response shows
  the state right after its operation.
\<close>

theorem registry_replays_history:
  assumes "fresh_deployment s0" "(deployment_step pf st)\<^sup>*\<^sup>* s0 s"
  shows "shelf_of e s = fold shelf_apply (operations_of e s) empty_shelf \<and>
    registry_version e s = int (length (operations_of e s)) \<and>
    list_all (\<lambda>k. response_shows (operations_of e s ! k)
       (fold shelf_apply (take (Suc k) (operations_of e s)) empty_shelf)) [0..<length (operations_of e s)]"
proof -
  have "history_recorded e s"
    using deployment.reachable_inv [OF assms] registry_okD(3) by (auto simp: deployment_ok_def)
  then have h: "shelf_of e s = fold shelf_apply (operations_of e s) empty_shelf"
    and shown: "\<forall>k < length (operations_of e s). response_shows (operations_of e s ! k)
      (fold shelf_apply (take (Suc k) (operations_of e s)) empty_shelf)"
    by (simp_all add: history_recorded_def)
  have "registry_version e s = sh_version (shelf_of e s)" by (simp add: shelf_of_def)
  then show ?thesis using h shown by (simp add: fold_version list_all_iff)
qed

theorem registry_replays_history_witness:
  "fold shelf_apply (operations_of ''exp-1'' ex_promoted_db) empty_shelf = shelf_of ''exp-1'' ex_promoted_db \<and>
   registry_version ''exp-1'' ex_promoted_db = 2 \<and> length (operations_of ''exp-1'' ex_promoted_db) = 2"
  using registry_replays_history [OF ex_unregistered_fresh ex_promoted_run, of "''exp-1''"] ex_promoted_version
  by simp

text \<open>
  A revoked entry stays as it is for ever: whatever the deployment does afterwards, its row is not
  written again, it is not active, and no request promotes it.
\<close>

theorem revoked_entry_stays_revoked:
  assumes "deployment_ok s" "(deployment_step pf st)\<^sup>*\<^sup>* s t"
    and "n \<in> set (registry_entries s)" "n_status n = Revoked"
  shows "n \<in> set (registry_entries t) \<and> active_entry e t \<noteq> Some n \<and>
    fst (promote_entry pf st storage (env\<lparr>rq_locked := t\<rparr>) e' (n_id n) actor v payload key path) \<noteq> Inr (x, False)"
proof -
  have t: "deployment_ok t" "registry_forward s t" using deployment_run [OF assms(2,1)] by simp_all
  then have c: "registry_constraints t" by (simp add: deployment_ok_def registry_ok_def)
  obtain m where "m \<in> set (registry_entries t)" "entry_evolves n m"
    using t(2) assms(3) by (auto simp: registry_forward_def entries_evolve_def)
  then have n: "n \<in> set (registry_entries t)" using assms(4) by (auto simp: entry_evolves_def)
  moreover have "active_entry e t \<noteq> Some n"
    using active_is_approved(1) [OF c, of e n] assms(4) by auto
  moreover have "fst (promote_entry pf st storage (env\<lparr>rq_locked := t\<rparr>) e' (n_id n) actor v payload key path) \<noteq>
      Inr (x, False)"
    by (rule revoked_not_promoted [OF c _ n assms(4)]) simp
  ultimately show ?thesis by blast
qed

theorem revoked_entry_stays_revoked_witness:
  "ex_revoked_entry \<in> set (registry_entries ex_revoked_db) \<and>
   active_entry ''exp-1'' ex_revoked_db \<noteq> Some ex_revoked_entry \<and>
   fst (promote_entry ex_platform ex_registry_settings ex_artifact_storage
     ((ex_registry_env ex_promoted_db ''n3'')\<lparr>rq_locked := ex_revoked_db\<rparr>) ''exp-1'' (n_id ex_revoked_entry) ex_reviewer 1
     ex_promote ''key-4'' ''/promote'') \<noteq> Inr (ex_promoted_read, False)"
  by (rule revoked_entry_stays_revoked [OF ex_revoked_ok rtranclp.rtrancl_refl])
    (simp_all add: ex_revoked_tables ex_revoked_entry_def)

section \<open>Mutations\<close>

text \<open>
  A promotion that committed and is sent again, with the same key and body, gets the stored answer,
  marked as a replay, and changes nothing, in every later state in which its actor still sees the
  experiment.
\<close>

theorem resent_promotion_replays:
  assumes "deployment_ok (rq_locked env)" "get_entry (rq_new_id env) (rq_locked env) = None"
    and "promote_entry pf st storage env e i actor v payload key path = (Inr (result, False), s')"
    and "(deployment_step pf st)\<^sup>*\<^sup>* s' (rq_seen later)"
    and "visible_experiment e actor (rq_seen later) = Inr x"
  shows "promote_entry pf st storage' later e i actor v payload key path = (Inr (result, True), rq_locked later)"
proof -
  have s': "deployment_ok s'"
    using deployment.step_inv [OF assms(1) promotion [OF refl assms(2,3)]] .
  then have later: "registry_ok (rq_seen later)" "prefix (registry_operations s') (registry_operations (rq_seen later))"
    using deployment_run [OF assms(4)] by (simp_all add: deployment_ok_def registry_forward_def)
  have ok: "registry_ok (rq_locked env)" using assms(1) by (simp add: deployment_ok_def)
  show ?thesis
    by (rule resent_request [OF assms(3) ok assms(2) later(2,1) assms(5)])
qed

theorem resent_promotion_replays_witness:
  "promote_entry ex_platform ex_registry_settings ex_artifact_storage (ex_registry_env ex_promoted_db ''n3'')
     ''exp-1'' ''n1'' ex_reviewer 1 ex_promote ''key-2'' ''/promote'' =
   (Inr (ex_promoted_read, True), ex_promoted_db)"
  using resent_promotion_replays [OF _ _ ex_promoted, of "ex_registry_env ex_promoted_db ''n3''"]
    ex_candidate_ok ex_actor_fence(4) [OF ex_promoted_tables(4,3)]
  by (simp add: ex_registry_env_def ex_candidate_tables ex_entry_fields)

text \<open>
  No lost update: once a revocation has committed, a promotion that was prepared for the same
  version of the registry cannot commit, however the requests interleave.
\<close>

theorem revocation_beats_stale_promotion:
  assumes "deployment_ok (rq_locked env)" "get_entry (rq_new_id env) (rq_locked env) = None"
    and "revoke_entry pf st env e i actor v rv_payload key path = (Inr (result, False), s')"
    and "(deployment_step pf st)\<^sup>*\<^sup>* s' (rq_locked later)" "get_entry (rq_new_id later) (rq_locked later) = None"
    and "ep_expected_registry_row_version payload = ev_expected_registry_row_version rv_payload"
  shows "fst (promote_entry pf st storage later e i' actor' v' payload key' path') \<noteq> Inr (x, False)"
proof -
  have s': "deployment_ok s'" using deployment.step_inv [OF assms(1) revocation [OF refl assms(2,3)]] .
  have ok: "registry_ok (rq_locked env)" using assms(1) by (simp add: deployment_ok_def)
  have later: "registry_ok (rq_locked later)" "registry_version e s' \<le> registry_version e (rq_locked later)"
    using deployment_run [OF assms(4) s'] by (simp_all add: deployment_ok_def registry_forward_def)
  have first: "registry_version e (rq_locked env) = ev_expected_registry_row_version rv_payload"
    "registry_version e s' = registry_version e (rq_locked env) + 1"
    using revoked_version [OF assms(3) ok assms(2)] by simp_all
  have "registry_version e (rq_locked later) = ep_expected_registry_row_version payload"
    if "promote_entry pf st storage later e i' actor' v' payload key' path' = (Inr (x, False), u)" for u
    using promoted_version [OF that later(1) assms(5)] by simp
  then show ?thesis using first later(2) assms(6) by (metis add_le_same_cancel1 not_one_le_zero prod.collapse)
qed

theorem revocation_beats_stale_promotion_witness:
  "\<forall>x. fst (promote_entry ex_platform ex_registry_settings ex_artifact_storage (ex_registry_env ex_revoked_db ''n3'')
     ''exp-1'' ''n1'' ex_reviewer 1 \<lparr>ep_expected_registry_row_version = 2, ep_expected_entry_row_version = 2\<rparr>
     ''key-4'' ''/promote'') \<noteq> Inr (x, False)"
  by (rule allI, rule revocation_beats_stale_promotion [OF _ _ ex_revoked])
    (simp_all add: ex_registry_env_def ex_promoted_ok ex_promoted_tables ex_revoked_tables ex_revoke_def
      ex_promoted_entry_def ex_revoked_entry_def ex_entry_fields)

text \<open>
  C10. What a committed promotion activates has been verified: the entry comes from a completed attempt of
  a job of this experiment, run by the reviewed code on an approved runtime, and the object under the
  canonical key of its model, read again by this request, has the frozen size and digest. The
  hypothesis on the two readings says that registry rows only moved forward between them.
\<close>

theorem promoted_model_is_verified:
  assumes "deployment_ok (rq_locked env)" "get_entry (rq_new_id env) (rq_locked env) = None"
    and "registry_constraints (rq_seen env)" "entries_evolve (rq_seen env) (rq_locked env)"
    and "promote_entry pf st storage env e i actor v payload key path = (Inr (result, False), s')"
  shows "\<exists>n att. active_entry e s' = Some n \<and> n_id n = i \<and>
    object_has_digest pf st storage (n_source_job_id n) (n_source_attempt_id n) FINAL_SMALL_MODEL
      (n_model_size_bytes n) (n_model_sha256 n) \<and>
    get_attempt (n_source_attempt_id n) (base (rq_locked env)) = Some att \<and> a_status att = COMPLETED \<and>
    a_rvc_commit_hash att = Some RVC_REVIEWED_COMMIT \<and>
    (n_runtime_image_digest n, n_runtime_asset_manifest_sha256 n) \<in> set (approved_sample_runtime_bundles st)"
  using promotion_verified [OF _ assms(2-5)] assms(1) by (simp add: deployment_ok_def)

theorem promoted_model_is_verified_witness:
  "\<exists>n. active_entry ''exp-1'' ex_promoted_db = Some n \<and> n_id n = ''n1'' \<and>
     object_has_digest ex_platform ex_registry_settings ex_artifact_storage (n_source_job_id n)
       (n_source_attempt_id n) FINAL_SMALL_MODEL (n_model_size_bytes n) (n_model_sha256 n)"
  using promoted_model_is_verified [OF _ _ _ _ ex_promoted] ex_candidate_ok
  by (auto simp: ex_registry_env_def ex_candidate_tables ex_entry_fields deployment_ok_def registry_ok_def
      entries_evolve_mono)

text \<open>
  C18. When nothing interferes, a promotable entry is promoted: an enabled actor who sees the experiment,
  a fresh key, the current versions, an entry that is neither revoked nor active and whose snapshot
  passes the checks give a committed answer that names the entry, and the entry is then the active one
  whatever entry held the slot before.
\<close>

theorem promotion_succeeds:
  assumes "deployment_ok s" "rq_seen env = s" "rq_locked env = s" "rq_outcome env = Committed"
    and "lock_experiment_fence e (ur_id actor) v s = Inr actor"
    and "(ur_id actor, actor_key_hash pf (ur_id actor) key) \<notin>
      set (map (\<lambda>p. (p_actor_id p, p_idempotency_key_hash p)) (registry_operations s))"
    and "registry_version e s = ep_expected_registry_row_version payload"
    and "promotable e i payload s = Inr n"
    and "preflight_context pf st storage (rq_verify env) e (n_source_job_id n) (n_source_attempt_id n)
      (n_model_artifact_id n) False (base s) = Inr (cx, fp)"
    and "context_matches_entry cx n"
  shows "\<exists>result s'. promote_entry pf st storage env e i actor v payload key path = (Inr (result, False), s') \<and>
    mr_active_entry_id result = Some i \<and> map_option n_id (active_entry e s') = Some i \<and>
    registry_version e s' = registry_version e s + 1"
proof -
  have ok: "registry_ok s" using assms(1) by (simp add: deployment_ok_def)
  have "p \<in> set (registry_operations s) \<Longrightarrow>
      (p_actor_id p, p_idempotency_key_hash p) \<noteq> (ur_id actor, actor_key_hash pf (ur_id actor) key)" for p
    using assms(6) by force
  from promote_entry_outcome [OF ok assms(2-5) this assms(7-10)] show ?thesis by simp
qed

theorem promotion_succeeds_witness:
  "\<exists>result s'. promote_entry ex_platform ex_registry_settings ex_artifact_storage
     (ex_registry_env ex_candidate_db ''n2'') ''exp-1'' ''n1'' ex_reviewer 1 ex_promote ''key-2'' ''/promote'' =
       (Inr (result, False), s') \<and> mr_active_entry_id result = Some ''n1'' \<and>
     map_option n_id (active_entry ''exp-1'' s') = Some ''n1'' \<and> registry_version ''exp-1'' s' = 2"
  using promotion_succeeds [OF ex_candidate_ok _ _ _ ex_actor_fence(3) [OF ex_candidate_tables(4,3)] _ _
      ex_promotable(1) _ ex_context_matches, of "ex_registry_env ex_candidate_db ''n2''" ex_platform "''key-2''"
      ex_registry_settings ex_artifact_storage ex_zero "''/promote''"]
    ex_preflight [OF ex_candidate_tables(4), of False] ex_unused_key
  by (simp add: ex_registry_env_def ex_promotable ex_entry_fields ex_promote_def)

end
