(* ===== verification/Accounts.thy ===== *)
theory Accounts
  imports Model_Registry
begin

text \<open>
  User accounts and sessions: login and logout (\<^verbatim>\<open>routers/auth.py\<close>), the administration of users
  (\<^verbatim>\<open>routers/users.py\<close>) and the creation of the first administrator (\<^verbatim>\<open>bootstrap.py\<close>), with the tables
  \<^verbatim>\<open>AdminUserOperation\<close>, \<^verbatim>\<open>RevokedAccessToken\<close> and \<^verbatim>\<open>AdminBootstrapState\<close> of \<^verbatim>\<open>models.py\<close>.

  A lifecycle request reads the database when it authenticates, possibly once more without lock, and
  then takes the lifecycle fence, the single row of \<^verbatim>\<open>AdminBootstrapState\<close>, which every writer of the
  user table takes first; what it reads from there to its commit is one state. The readings are
  separate states of its environment. The details of audit events are left out.
\<close>

section \<open>Tables\<close>

record admin_user_read =
  au_id :: ident
  au_email :: string
  au_role :: string
  au_active :: bool
  au_row_version :: int
  au_created_at :: datetime
  au_updated_at :: datetime

datatype account_operation = Op_Create | Op_Access_Update | Op_Password_Reset

fun account_operation_value :: "account_operation \<Rightarrow> string" where
  "account_operation_value Op_Create = ''create''"
| "account_operation_value Op_Access_Update = ''access_update''"
| "account_operation_value Op_Password_Reset = ''password_reset''"

record admin_user_operation =
  o_actor_id :: ident
  o_idempotency_key_hash :: string
  o_request_fingerprint :: string
  o_operation_type :: account_operation
  o_resource_id :: ident
  o_response :: admin_user_read

record admin_bootstrap_state =
  bs_admin_user_id :: "ident option"
  bs_completed_at :: "datetime option"
  bs_lock_version :: int

text \<open>The whole database: what the registry knows of it, and the tables of this component.\<close>

record manager_db =
  store :: registry_db
  user_operations :: "admin_user_operation list"
  revoked_tokens :: "revoked_access_token list"
  bootstrap_state :: "admin_bootstrap_state option"

abbreviation accounts :: "manager_db \<Rightarrow> user_row list" where
  "accounts s \<equiv> users (store s)"

abbreviation write_accounts :: "(user_row list \<Rightarrow> user_row list) \<Rightarrow> manager_db \<Rightarrow> manager_db" where
  "write_accounts f \<equiv> store_update (users_update f)"

interpretation account_table: ledger_table accounts write_accounts ur_id
  by unfold_locales (simp_all add: id_def comp_def)

interpretation revoked_table: ledger_table revoked_tokens revoked_tokens_update rt_jti
  by unfold_locales (simp_all add: id_def)

definition audit :: "string \<Rightarrow> ident option \<Rightarrow> string \<Rightarrow> string \<Rightarrow> ident option \<Rightarrow> manager_db \<Rightarrow> manager_db" where
  "audit actor_type actor_id action resource_type resource_id =
     store_update (base_update (add_audit_event actor_type actor_id action resource_type resource_id))"

section \<open>What a request meets\<close>

record account_env =
  aq_arrival :: datetime
  aq_seen :: manager_db
  aq_unlocked :: manager_db
  aq_locked :: manager_db
  aq_now :: datetime
  aq_new_id :: ident
  aq_salt :: string
  aq_flush :: commit
  aq_outcome :: commit

type_synonym 'a account_answer = "'a res \<times> manager_db"

definition authenticate ::
  "identity_tools \<Rightarrow> settings \<Rightarrow> account_env \<Rightarrow> (string \<times> string) option \<Rightarrow>
   (user_row \<times> access_token_claims) res" where
  "authenticate lib st env credentials =
     require_user_auth lib st (aq_arrival env) credentials (revoked_tokens (aq_seen env)) (accounts (aq_seen env))"

text \<open>The dependency \<^verbatim>\<open>AdminUserDep\<close>, then the validation of the body and the header.\<close>

definition invalid_request :: api_error where
  "invalid_request = HTTPException 422 ''request validation error''"

definition as_admin ::
  "identity_tools \<Rightarrow> settings \<Rightarrow> account_env \<Rightarrow> (string \<times> string) option \<Rightarrow> bool \<Rightarrow>
   (user_row \<Rightarrow> 'a account_answer) \<Rightarrow> 'a account_answer" where
  "as_admin lib st env credentials valid handler =
     (case res_bind (authenticate lib st env credentials) require_admin_user of
        Inl e \<Rightarrow> (Inl e, aq_locked env)
      | Inr admin \<Rightarrow> if valid then handler admin else (Inl invalid_request, aq_locked env))"

text \<open>\<^verbatim>\<open>^[A-Za-z0-9][A-Za-z0-9._:-]{0,127}$\<close>\<close>

definition idempotency_key_ok :: "string \<Rightarrow> bool" where
  "idempotency_key_ok key \<longleftrightarrow>
     (case key of [] \<Rightarrow> False
      | c # cs \<Rightarrow> is_alnum c \<and> list_all (\<lambda>d. is_name_char d \<or> d = CHR '':'') cs \<and> length cs \<le> 127)"

section \<open>Login and logout\<close>

record login_request =
  lq_email :: string
  lq_password :: string

definition valid_login :: "identity_tools \<Rightarrow> login_request \<Rightarrow> login_request option" where
  "valid_login lib payload =
     (if \<not> (3 \<le> str_len (lq_email payload) \<and> str_len (lq_email payload) \<le> 320) \<or>
        \<not> (1 \<le> str_len (lq_password payload) \<and> str_len (lq_password payload) \<le> 1024)
      then None
      else map_option (\<lambda>email. payload\<lparr>lq_email := email\<rparr>) (normalize_email lib (lq_email payload)))"

record access_token_response =
  access_token :: string
  expires_in :: int

definition login_failed :: api_error where
  "login_failed = HTTPException 401 ''incorrect email or password''"

definition commit_plain :: "commit \<Rightarrow> api_error option" where
  "commit_plain outcome =
     (case outcome of Committed \<Rightarrow> None
      | Stale \<Rightarrow> Some (Unhandled ''StaleDataError'')
      | Integrity \<Rightarrow> Some (Unhandled ''IntegrityError'')
      | Operational \<Rightarrow> Some (Unhandled ''OperationalError''))"

definition login ::
  "identity_tools \<Rightarrow> settings \<Rightarrow> account_env \<Rightarrow> login_request \<Rightarrow> access_token_response account_answer" where
  "login lib st env request =
     (let s = aq_locked env in
      case valid_login lib request of
        None \<Rightarrow> (Inl invalid_request, s)
      | Some payload \<Rightarrow>
          (let user = find (\<lambda>u. ur_email u = lq_email payload) (accounts s) in
           case verify_password lib (lq_password payload) (map_option ur_password_hash user) of
             Inl e \<Rightarrow> (Inl e, s)
           | Inr password_ok \<Rightarrow>
               (case user of
                  Some u \<Rightarrow>
                    if password_ok \<and> \<not> ur_disabled u then
                      (case issue_access_token lib st (ur_id u) (ur_access_token_version u)
                            (aq_now env) (aq_new_id env) of
                         Inl e \<Rightarrow> (Inl e, s)
                       | Inr (token, claims) \<Rightarrow>
                           (case commit_plain (aq_outcome env) of
                              Some e \<Rightarrow> (Inl e, s)
                            | None \<Rightarrow>
                                (Inr \<lparr>access_token = token, expires_in = jwt_access_ttl_seconds st\<rparr>,
                                 audit ''user'' (Some (ur_id u)) ''auth.login.succeeded'' ''user''
                                   (Some (ur_id u)) s)))
                    else
                      (case commit_plain (aq_outcome env) of
                         Some e \<Rightarrow> (Inl e, s)
                       | None \<Rightarrow>
                           (Inl login_failed, audit ''anonymous'' None ''auth.login.failed'' ''user'' None s))
                | None \<Rightarrow>
                    (case commit_plain (aq_outcome env) of
                       Some e \<Rightarrow> (Inl e, s)
                     | None \<Rightarrow>
                         (Inl login_failed, audit ''anonymous'' None ''auth.login.failed'' ''user'' None s)))))"

text \<open>
  A second revocation of the same token violates the primary key; the handler answers the same.
\<close>

definition logout ::
  "identity_tools \<Rightarrow> settings \<Rightarrow> account_env \<Rightarrow> (string \<times> string) option \<Rightarrow> unit account_answer" where
  "logout lib st env credentials =
     (let s = aq_locked env in
      case authenticate lib st env credentials of
        Inl e \<Rightarrow> (Inl e, s)
      | Inr (user, claims) \<Rightarrow>
          (let revoked = \<lparr>rt_jti = tc_jti claims, rt_user_id = ur_id user,
                 rt_expires_at = tc_expires_at claims, rt_revoked_at = aq_now env\<rparr> in
           case (if get_row rt_jti (tc_jti claims) (revoked_tokens s) = None then aq_outcome env else Integrity) of
             Committed \<Rightarrow>
               (Inr (), audit ''user'' (Some (ur_id user)) ''auth.logout'' ''access_token'' (Some (tc_jti claims))
                  (revoked_tokens_update (\<lambda>rs. rs @ [revoked]) s))
           | Integrity \<Rightarrow> (Inr (), s)
           | Stale \<Rightarrow> (Inl (Unhandled ''StaleDataError''), s)
           | Operational \<Rightarrow> (Inl (Unhandled ''OperationalError''), s)))"

record user_read =
  me_id :: ident
  me_email :: string
  me_role :: string
  me_disabled :: bool
  me_created_at :: datetime
  me_updated_at :: datetime

definition me :: "identity_tools \<Rightarrow> settings \<Rightarrow> account_env \<Rightarrow> (string \<times> string) option \<Rightarrow> user_read res" where
  "me lib st env credentials =
     res_bind (authenticate lib st env credentials)
       (\<lambda>(u, _). Inr \<lparr>me_id = ur_id u, me_email = ur_email u, me_role = ur_role u,
          me_disabled = ur_disabled u, me_created_at = ur_created_at u, me_updated_at = ur_updated_at u\<rparr>)"

section \<open>The administration of users\<close>

definition to_read :: "user_row \<Rightarrow> admin_user_read" where
  "to_read u =
     \<lparr>au_id = ur_id u, au_email = ur_email u, au_role = ur_role u, au_active = (\<not> ur_disabled u),
      au_row_version = ur_row_version u, au_created_at = ur_created_at u, au_updated_at = ur_updated_at u\<rparr>"

definition account_fingerprint ::
  "platform \<Rightarrow> settings \<Rightarrow> account_operation \<Rightarrow> ident \<Rightarrow> json \<Rightarrow> string" where
  "account_fingerprint pf st operation_type resource_id document =
     hmac_sha256 pf (jwt_secret st) (render (float_repr pf) (JObj
       [(''operation_type'', JStr (account_operation_value operation_type)),
        (''resource_id'', JStr resource_id), (''document'', document)]))"

definition idempotency_conflict :: api_error where
  "idempotency_conflict = HTTPException 409 ''idempotency key conflicts with a prior user lifecycle request''"

definition stale_user :: api_error where
  "stale_user = HTTPException 409 ''user changed; refresh and retry''"

definition password_policy :: api_error where
  "password_policy = HTTPException 422 ''password does not satisfy the administrator password policy''"

definition account_replay ::
  "ident \<Rightarrow> string \<Rightarrow> account_operation \<Rightarrow> string \<Rightarrow> manager_db \<Rightarrow> admin_user_read option res" where
  "account_replay actor_id key_hash operation_type fingerprint s =
     (case find (\<lambda>p. o_actor_id p = actor_id \<and> o_idempotency_key_hash p = key_hash) (user_operations s) of
        None \<Rightarrow> Inr None
      | Some p \<Rightarrow>
          if o_operation_type p \<noteq> operation_type \<or> o_request_fingerprint p \<noteq> fingerprint
          then Inl idempotency_conflict else Inr (Some (o_response p)))"

definition lock_lifecycle_fence :: "ident \<Rightarrow> manager_db \<Rightarrow> manager_db res" where
  "lock_lifecycle_fence actor_id s =
     (case bootstrap_state s of
        None \<Rightarrow> Inl (HTTPException 503 ''administrator lifecycle fence is unavailable'')
      | Some b \<Rightarrow>
          (case get_row ur_id actor_id (accounts s) of
             None \<Rightarrow> Inl (HTTPException 403 ''administrator role required'')
           | Some actor \<Rightarrow>
               if ur_disabled actor \<or> ur_role actor \<noteq> ''admin''
               then Inl (HTTPException 403 ''administrator role required'')
               else Inr (s\<lparr>bootstrap_state := Some (b\<lparr>bs_lock_version := bs_lock_version b + 1\<rparr>)\<rparr>)))"

definition locked_user :: "ident \<Rightarrow> manager_db \<Rightarrow> user_row res" where
  "locked_user user_id s =
     (case get_row ur_id user_id (accounts s) of
        None \<Rightarrow> Inl (HTTPException 404 ''user not found'') | Some u \<Rightarrow> Inr u)"

definition validate_new_password :: "identity_tools \<Rightarrow> string \<Rightarrow> string \<Rightarrow> unit res" where
  "validate_new_password lib password email =
     (case validate_management_password lib password email of
        None \<Rightarrow> Inl password_policy | Some _ \<Rightarrow> Inr ())"

text \<open>Who asks what, and what the work under the fence hands to the commit.\<close>

record account_request =
  ac_actor :: ident
  ac_key_hash :: string
  ac_fingerprint :: string
  ac_operation :: account_operation

record account_outcome =
  ao_result :: admin_user_read
  ao_action :: string
  ao_db :: manager_db

definition file_account_operation :: "account_request \<Rightarrow> account_outcome \<Rightarrow> manager_db" where
  "file_account_operation rq out =
     audit ''user'' (Some (ac_actor rq)) (ao_action out) ''user'' (Some (au_id (ao_result out)))
       (user_operations_update (\<lambda>ps. ps @
          [\<lparr>o_actor_id = ac_actor rq, o_idempotency_key_hash = ac_key_hash rq,
            o_request_fingerprint = ac_fingerprint rq, o_operation_type = ac_operation rq,
            o_resource_id = au_id (ao_result out), o_response = ao_result out\<rparr>]) (ao_db out))"

text \<open>
  The course of the three mutations: the search for a replay, the preparation without lock, the
  fence, the second search, the work, the commit. The flag of the answer is the header
  \<^verbatim>\<open>Idempotency-Replayed\<close>.
\<close>

definition lifecycle_mutation ::
  "account_env \<Rightarrow> account_request \<Rightarrow> 'a res \<Rightarrow> ('a \<Rightarrow> manager_db \<Rightarrow> account_outcome res) \<Rightarrow>
   (commit \<Rightarrow> api_error) \<Rightarrow> (admin_user_read \<times> bool) account_answer" where
  "lifecycle_mutation env rq prepared work commit_error =
     (let s = aq_locked env;
          replay = account_replay (ac_actor rq) (ac_key_hash rq) (ac_operation rq) (ac_fingerprint rq) in
      case replay (aq_seen env) of
        Inl e \<Rightarrow> (Inl e, s)
      | Inr (Some response) \<Rightarrow> (Inr (response, True), s)
      | Inr None \<Rightarrow>
          (case prepared of
             Inl e \<Rightarrow> (Inl e, s)
           | Inr x \<Rightarrow>
               (case lock_lifecycle_fence (ac_actor rq) s of
                  Inl e \<Rightarrow> (Inl e, s)
                | Inr fenced \<Rightarrow>
                    (case replay fenced of
                       Inl e \<Rightarrow> (Inl e, s)
                     | Inr (Some response) \<Rightarrow> (Inr (response, True), s)
                     | Inr None \<Rightarrow>
                         (case work x fenced of
                            Inl e \<Rightarrow> (Inl e, s)
                          | Inr out \<Rightarrow>
                              if aq_outcome env = Committed
                              then (Inr (ao_result out, False), file_account_operation rq out)
                              else (Inl (commit_error (aq_outcome env)), s))))))"

definition account_request_of ::
  "platform \<Rightarrow> settings \<Rightarrow> user_row \<Rightarrow> account_operation \<Rightarrow> ident \<Rightarrow> json \<Rightarrow> string \<Rightarrow> account_request" where
  "account_request_of pf st admin operation_type resource_id document idempotency_key =
     \<lparr>ac_actor = ur_id admin, ac_key_hash = sha256 pf idempotency_key,
      ac_fingerprint = account_fingerprint pf st operation_type resource_id document,
      ac_operation = operation_type\<rparr>"

subsection \<open>create\_user\<close>

record admin_user_create =
  uc_email :: string
  uc_password :: string
  uc_role :: string
  uc_active :: bool

definition valid_create :: "identity_tools \<Rightarrow> admin_user_create \<Rightarrow> admin_user_create option" where
  "valid_create lib payload =
     (if \<not> (3 \<le> str_len (uc_email payload) \<and> str_len (uc_email payload) \<le> 320) \<or>
        \<not> (16 \<le> str_len (uc_password payload) \<and> str_len (uc_password payload) \<le> 1024) \<or>
        uc_role payload \<notin> {''admin'', ''user''}
      then None
      else map_option (\<lambda>email. payload\<lparr>uc_email := email\<rparr>) (normalize_email lib (uc_email payload)))"

definition create_document :: "admin_user_create \<Rightarrow> json" where
  "create_document payload = JObj
     [(''email'', JStr (uc_email payload)), (''password'', JStr (uc_password payload)),
      (''role'', JStr (uc_role payload)), (''active'', JBool (uc_active payload))]"

definition email_exists :: api_error where
  "email_exists = HTTPException 409 ''user email already exists''"

definition new_password ::
  "identity_tools \<Rightarrow> string \<Rightarrow> string \<Rightarrow> string \<Rightarrow> string res" where
  "new_password lib salt password email =
     res_bind (validate_new_password lib password email)
       (\<lambda>_. case hash_password lib salt password of
          None \<Rightarrow> Inl (Unhandled ''ValueError'') | Some h \<Rightarrow> Inr h)"

definition created_user :: "account_env \<Rightarrow> admin_user_create \<Rightarrow> string \<Rightarrow> user_row" where
  "created_user env payload encoded =
     \<lparr>ur_id = aq_new_id env, ur_row_version = 1, ur_email = uc_email payload, ur_password_hash = encoded,
      ur_role = uc_role payload, ur_disabled = (\<not> uc_active payload), ur_access_token_version = 1,
      ur_created_at = aq_now env, ur_updated_at = aq_now env\<rparr>"

definition create_work ::
  "account_env \<Rightarrow> admin_user_create \<Rightarrow> string \<Rightarrow> manager_db \<Rightarrow> account_outcome res" where
  "create_work env payload encoded s =
     (if \<exists>u \<in> set (accounts s). ur_email u = uc_email payload then Inl email_exists
      else
        (let user = created_user env payload encoded in
         case (if get_row ur_id (ur_id user) (accounts s) = None then aq_flush env else Integrity) of
           Committed \<Rightarrow>
             Inr \<lparr>ao_result = to_read user, ao_action = ''admin.user.created'',
                  ao_db = write_accounts (\<lambda>us. us @ [user]) s\<rparr>
         | Integrity \<Rightarrow> Inl email_exists
         | Stale \<Rightarrow> Inl (Unhandled ''StaleDataError'')
         | Operational \<Rightarrow> Inl (Unhandled ''OperationalError'')))"

fun create_commit_error :: "commit \<Rightarrow> api_error" where
  "create_commit_error Integrity = idempotency_conflict"
| "create_commit_error Stale = Unhandled ''StaleDataError''"
| "create_commit_error _ = Unhandled ''OperationalError''"

definition create_user ::
  "platform \<Rightarrow> identity_tools \<Rightarrow> settings \<Rightarrow> account_env \<Rightarrow> (string \<times> string) option \<Rightarrow>
   admin_user_create \<Rightarrow> string \<Rightarrow> (admin_user_read \<times> bool) account_answer" where
  "create_user pf lib st env credentials request idempotency_key =
     as_admin lib st env credentials (valid_create lib request \<noteq> None \<and> idempotency_key_ok idempotency_key)
       (\<lambda>admin. let payload = the (valid_create lib request) in
          lifecycle_mutation env
            (account_request_of pf st admin Op_Create ''new'' (create_document payload) idempotency_key)
            (new_password lib (aq_salt env) (uc_password payload) (uc_email payload))
            (create_work env payload) create_commit_error)"

subsection \<open>update\_user\_access\<close>

record admin_user_access_update =
  ux_expected_row_version :: int
  ux_role :: string
  ux_active :: bool

definition row_version_ok :: "int \<Rightarrow> bool" where
  "row_version_ok v \<longleftrightarrow> 1 \<le> v \<and> v \<le> 2147483647"

definition valid_access :: "admin_user_access_update \<Rightarrow> bool" where
  "valid_access payload \<longleftrightarrow>
     row_version_ok (ux_expected_row_version payload) \<and> ux_role payload \<in> {''admin'', ''user''}"

definition access_document :: "admin_user_access_update \<Rightarrow> json" where
  "access_document payload = JObj
     [(''expected_row_version'', JInt (ux_expected_row_version payload)),
      (''role'', JStr (ux_role payload)), (''active'', JBool (ux_active payload))]"

text \<open>An ORM write of a user row: the version column and \<^verbatim>\<open>updated_at\<close> move with it.\<close>

definition orm_user :: "datetime \<Rightarrow> (user_row \<Rightarrow> user_row) \<Rightarrow> user_row \<Rightarrow> user_row" where
  "orm_user now f u = (f u)\<lparr>ur_row_version := ur_row_version u + 1, ur_updated_at := now\<rparr>"

definition access_changed :: "admin_user_access_update \<Rightarrow> user_row \<Rightarrow> user_row" where
  "access_changed payload u =
     u\<lparr>ur_role := ux_role payload, ur_disabled := \<not> ux_active payload,
       ur_access_token_version := ur_access_token_version u + 1\<rparr>"

definition active_admin_count :: "manager_db \<Rightarrow> nat" where
  "active_admin_count s = length (filter active_admin (accounts s))"

definition access_checks :: "ident \<Rightarrow> admin_user_access_update \<Rightarrow> user_row \<Rightarrow> manager_db \<Rightarrow> unit res" where
  "access_checks actor_id payload u s =
     (let loses_admin = (ux_role payload \<noteq> ''admin'' \<or> \<not> ux_active payload) in
      checked
        [(ur_row_version u \<noteq> ux_expected_row_version payload, stale_user),
         (ur_id u = actor_id \<and> loses_admin,
            HTTPException 409 ''administrators cannot disable or demote their own account''),
         (active_admin u \<and> loses_admin \<and> active_admin_count s \<le> 1,
            HTTPException 409 ''at least one active administrator is required'')] ())"

fun flush_error :: "commit \<Rightarrow> api_error option" where
  "flush_error Committed = None"
| "flush_error Stale = Some stale_user"
| "flush_error Integrity = Some (Unhandled ''IntegrityError'')"
| "flush_error Operational = Some (Unhandled ''OperationalError'')"

definition access_work ::
  "account_env \<Rightarrow> ident \<Rightarrow> ident \<Rightarrow> admin_user_access_update \<Rightarrow> manager_db \<Rightarrow> account_outcome res" where
  "access_work env actor_id user_id payload s =
     res_bind (locked_user user_id s) (\<lambda>u.
       res_bind (access_checks actor_id payload u s) (\<lambda>_.
         if ur_role u \<noteq> ux_role payload \<or> ur_disabled u \<noteq> (\<not> ux_active payload) then
           (let write = orm_user (aq_now env) (access_changed payload) in
            case flush_error (aq_flush env) of
              Some e \<Rightarrow> Inl e
            | None \<Rightarrow>
                Inr \<lparr>ao_result = to_read (write u), ao_action = ''admin.user.access_updated'',
                     ao_db = write_accounts (upd_row ur_id user_id write) s\<rparr>)
         else Inr \<lparr>ao_result = to_read u, ao_action = ''admin.user.access_unchanged'', ao_db = s\<rparr>))"

fun write_commit_error :: "commit \<Rightarrow> api_error" where
  "write_commit_error Operational = Unhandled ''OperationalError''"
| "write_commit_error _ = stale_user"

definition update_user_access ::
  "platform \<Rightarrow> identity_tools \<Rightarrow> settings \<Rightarrow> account_env \<Rightarrow> (string \<times> string) option \<Rightarrow> ident \<Rightarrow>
   admin_user_access_update \<Rightarrow> string \<Rightarrow> (admin_user_read \<times> bool) account_answer" where
  "update_user_access pf lib st env credentials user_id payload idempotency_key =
     as_admin lib st env credentials (valid_access payload \<and> idempotency_key_ok idempotency_key)
       (\<lambda>admin. lifecycle_mutation env
          (account_request_of pf st admin Op_Access_Update user_id (access_document payload) idempotency_key)
          (Inr ()) (\<lambda>_. access_work env (ur_id admin) user_id payload) write_commit_error)"

subsection \<open>reset\_user\_password\<close>

record admin_user_password_reset =
  up_expected_row_version :: int
  up_new_password :: string

definition valid_reset :: "admin_user_password_reset \<Rightarrow> bool" where
  "valid_reset payload \<longleftrightarrow> row_version_ok (up_expected_row_version payload) \<and>
     16 \<le> str_len (up_new_password payload) \<and> str_len (up_new_password payload) \<le> 1024"

definition reset_document :: "admin_user_password_reset \<Rightarrow> json" where
  "reset_document payload = JObj
     [(''expected_row_version'', JInt (up_expected_row_version payload)),
      (''new_password'', JStr (up_new_password payload))]"

definition password_changed :: "string \<Rightarrow> user_row \<Rightarrow> user_row" where
  "password_changed encoded u =
     u\<lparr>ur_password_hash := encoded, ur_access_token_version := ur_access_token_version u + 1\<rparr>"

text \<open>The reading of the email without lock, against which the password is first checked.\<close>

definition reset_prepared ::
  "identity_tools \<Rightarrow> account_env \<Rightarrow> ident \<Rightarrow> admin_user_password_reset \<Rightarrow> string res" where
  "reset_prepared lib env user_id payload =
     (case get_row ur_id user_id (accounts (aq_unlocked env)) of
        None \<Rightarrow> Inl (HTTPException 404 ''user not found'')
      | Some u \<Rightarrow> new_password lib (aq_salt env) (up_new_password payload) (ur_email u))"

definition reset_work ::
  "identity_tools \<Rightarrow> account_env \<Rightarrow> ident \<Rightarrow> admin_user_password_reset \<Rightarrow> string \<Rightarrow> manager_db \<Rightarrow>
   account_outcome res" where
  "reset_work lib env user_id payload encoded s =
     res_bind (locked_user user_id s) (\<lambda>u.
       if ur_row_version u \<noteq> up_expected_row_version payload then Inl stale_user
       else res_bind (validate_new_password lib (up_new_password payload) (ur_email u)) (\<lambda>_.
         let write = orm_user (aq_now env) (password_changed encoded) in
         case flush_error (aq_flush env) of
           Some e \<Rightarrow> Inl e
         | None \<Rightarrow>
             Inr \<lparr>ao_result = to_read (write u), ao_action = ''admin.user.password_reset'',
                  ao_db = write_accounts (upd_row ur_id user_id write) s\<rparr>))"

definition reset_user_password ::
  "platform \<Rightarrow> identity_tools \<Rightarrow> settings \<Rightarrow> account_env \<Rightarrow> (string \<times> string) option \<Rightarrow> ident \<Rightarrow>
   admin_user_password_reset \<Rightarrow> string \<Rightarrow> (admin_user_read \<times> bool) account_answer" where
  "reset_user_password pf lib st env credentials user_id payload idempotency_key =
     as_admin lib st env credentials (valid_reset payload \<and> idempotency_key_ok idempotency_key)
       (\<lambda>admin. lifecycle_mutation env
          (account_request_of pf st admin Op_Password_Reset user_id (reset_document payload) idempotency_key)
          (reset_prepared lib env user_id payload) (reset_work lib env user_id payload) write_commit_error)"

subsection \<open>Reading\<close>

record admin_user_list =
  al_items :: "admin_user_read list"
  al_total :: nat
  al_offset :: nat
  al_limit :: nat

definition list_users ::
  "identity_tools \<Rightarrow> settings \<Rightarrow> account_env \<Rightarrow> (string \<times> string) option \<Rightarrow> nat \<Rightarrow> nat \<Rightarrow>
   string option \<Rightarrow> string option \<Rightarrow> bool option \<Rightarrow> admin_user_list account_answer" where
  "list_users lib st env credentials offset limit email role active =
     as_admin lib st env credentials
       (1 \<le> limit \<and> limit \<le> 200 \<and> (case email of None \<Rightarrow> True | Some e \<Rightarrow> 3 \<le> str_len e \<and> str_len e \<le> 320) \<and>
        (case role of None \<Rightarrow> True | Some r \<Rightarrow> r \<in> {''admin'', ''user''}))
       (\<lambda>_. case Option.bind email (\<lambda>e. Some (normalize_email lib e)) of
          Some None \<Rightarrow> (Inl (HTTPException 422 ''invalid email filter''), aq_locked env)
        | normalized \<Rightarrow>
            (let matching = filter (\<lambda>u.
                   (case normalized of Some (Some e) \<Rightarrow> ur_email u = e | _ \<Rightarrow> True) \<and>
                   (case role of Some r \<Rightarrow> ur_role u = r | None \<Rightarrow> True) \<and>
                   (case active of Some b \<Rightarrow> ur_disabled u = (\<not> b) | None \<Rightarrow> True)) (accounts (aq_seen env));
                 page = take limit (drop offset (rev (sort_key (\<lambda>u. (ur_created_at u, ur_id u)) matching))) in
             (Inr \<lparr>al_items = map to_read page, al_total = length matching, al_offset = offset,
                   al_limit = limit\<rparr>, aq_locked env)))"

definition get_user ::
  "identity_tools \<Rightarrow> settings \<Rightarrow> account_env \<Rightarrow> (string \<times> string) option \<Rightarrow> ident \<Rightarrow>
   admin_user_read account_answer" where
  "get_user lib st env credentials user_id =
     as_admin lib st env credentials True
       (\<lambda>_. (map_sum id to_read (locked_user user_id (aq_seen env)), aq_locked env))"

section \<open>The first administrator\<close>

datatype bootstrap_error = BootstrapError string | Bootstrap_Other string

definition lock_bootstrap_state :: "commit \<Rightarrow> manager_db \<Rightarrow> bootstrap_error + admin_bootstrap_state" where
  "lock_bootstrap_state flush s =
     (case bootstrap_state s of
        Some b \<Rightarrow> Inr (b\<lparr>bs_lock_version := bs_lock_version b + 1\<rparr>)
      | None \<Rightarrow>
          (case flush of
             Committed \<Rightarrow> Inr \<lparr>bs_admin_user_id = None, bs_completed_at = None, bs_lock_version = 1\<rparr>
           | Integrity \<Rightarrow> Inl (BootstrapError ''administrator bootstrap state is unavailable'')
           | Stale \<Rightarrow> Inl (Bootstrap_Other ''StaleDataError'')
           | Operational \<Rightarrow> Inl (Bootstrap_Other ''OperationalError'')))"

definition bootstrap_closed :: bootstrap_error where
  "bootstrap_closed = BootstrapError ''initial administrator bootstrap is already closed''"

definition first_user :: "manager_db \<Rightarrow> user_row option" where
  "first_user s =
     (case sort_key (\<lambda>u. (ur_created_at u, ur_id u)) (accounts s) of [] \<Rightarrow> None | u # _ \<Rightarrow> Some u)"

definition bootstrap_work ::
  "account_env \<Rightarrow> string \<Rightarrow> string \<Rightarrow> admin_bootstrap_state \<Rightarrow> manager_db \<Rightarrow>
   bootstrap_error + (user_row \<times> bool) \<times> manager_db" where
  "bootstrap_work env email encoded b s =
     (case bs_admin_user_id b of
        Some i \<Rightarrow>
          (case get_row ur_id i (accounts s) of
             None \<Rightarrow> Inl bootstrap_closed
           | Some u \<Rightarrow>
               if ur_email u \<noteq> email \<or> \<not> active_admin u then Inl bootstrap_closed
               else Inr ((u, False), audit ''system'' None ''auth.bootstrap_admin.existing'' ''user''
                 (Some (ur_id u)) (s\<lparr>bootstrap_state := Some b\<rparr>)))
      | None \<Rightarrow>
          (case first_user s of
             Some u \<Rightarrow>
               if ur_email u \<noteq> email \<or> \<not> active_admin u then Inl bootstrap_closed
               else Inr ((u, False), audit ''system'' None ''auth.bootstrap_admin.existing'' ''user''
                 (Some (ur_id u)) (s\<lparr>bootstrap_state := Some
                   (b\<lparr>bs_admin_user_id := Some (ur_id u), bs_completed_at := Some (aq_now env)\<rparr>)\<rparr>))
           | None \<Rightarrow>
               (let user = \<lparr>ur_id = aq_new_id env, ur_row_version = 1, ur_email = email,
                      ur_password_hash = encoded, ur_role = ''admin'', ur_disabled = False,
                      ur_access_token_version = 1, ur_created_at = aq_now env, ur_updated_at = aq_now env\<rparr> in
                case aq_flush env of
                  Committed \<Rightarrow>
                    Inr ((user, True), audit ''system'' None ''auth.bootstrap_admin.created'' ''user''
                      (Some (ur_id user)) (write_accounts (\<lambda>us. us @ [user]) (s\<lparr>bootstrap_state := Some
                        (b\<lparr>bs_admin_user_id := Some (ur_id user), bs_completed_at := Some (aq_now env)\<rparr>)\<rparr>)))
                | Integrity \<Rightarrow>
                    Inl (BootstrapError ''administrator bootstrap conflicted with an existing user'')
                | Stale \<Rightarrow> Inl (Bootstrap_Other ''StaleDataError'')
                | Operational \<Rightarrow> Inl (Bootstrap_Other ''OperationalError''))))"

definition ensure_admin_user ::
  "identity_tools \<Rightarrow> account_env \<Rightarrow> commit \<Rightarrow> string \<Rightarrow> string \<Rightarrow>
   (bootstrap_error + user_row \<times> bool) \<times> manager_db" where
  "ensure_admin_user lib env state_flush email password =
     (let s = aq_locked env in
      case normalize_email lib email of
        None \<Rightarrow> (Inl (Bootstrap_Other ''ValueError''), s)
      | Some normalized_email \<Rightarrow>
          (case hash_password lib (aq_salt env) password of
             None \<Rightarrow> (Inl (BootstrapError ''bootstrap password must contain 12 to 1024 characters''), s)
           | Some encoded \<Rightarrow>
               (case res_bind (lock_bootstrap_state state_flush s)
                   (\<lambda>b. bootstrap_work env normalized_email encoded b s) of
                  Inl e \<Rightarrow> (Inl e, s)
                | Inr (answer, s') \<Rightarrow>
                    (case commit_plain (aq_outcome env) of
                       None \<Rightarrow> (Inr answer, s')
                     | Some _ \<Rightarrow> (Inl (Bootstrap_Other ''commit failed''), s)))))"

text \<open>The command line: where the email and the password come from.\<close>

datatype value_file = Unreadable | Value_File bool bool nat string
  \<comment> \<open>symbolic link, regular file, mode, text\<close>

definition read_value_file :: "value_file \<Rightarrow> string \<Rightarrow> bool \<Rightarrow> bootstrap_error + string" where
  "read_value_file file label secret =
     (case file of
        Unreadable \<Rightarrow> Inl (BootstrapError (label @ '' file is not readable''))
      | Value_File symlink regular st_mode content \<Rightarrow>
          (let found = rev (dropWhile (\<lambda>c. c = CHR 0x0D \<or> c = CHR 0x0A) (rev content)) in
           checked
             [(symlink \<or> \<not> regular, BootstrapError (label @ '' file must be a regular non-symlink file'')),
              (secret \<and> st_mode mod 64 \<noteq> 0,
                 BootstrapError (label @ '' file must not be accessible by group or others'')),
              (found = [], BootstrapError (label @ '' file is empty'')),
              (CHR 0x00 \<in> set found, BootstrapError (label @ '' contains a NUL byte''))] found))"

definition resolve_bootstrap_value ::
  "string \<Rightarrow> string option \<Rightarrow> value_file option \<Rightarrow> bool \<Rightarrow> bootstrap_error + string" where
  "resolve_bootstrap_value label direct_value file_value secret =
     (case (direct_value, file_value) of
        (Some _, Some _) \<Rightarrow> Inl (BootstrapError (''configure only one '' @ label @ '' source''))
      | (_, Some file) \<Rightarrow> read_value_file file label secret
      | (None, None) \<Rightarrow> Inl (BootstrapError (label @ '' is required''))
      | (Some v, None) \<Rightarrow> if v = [] then Inl (BootstrapError (label @ '' is required'')) else Inr v)"

definition nonempty :: "string option \<Rightarrow> string option" where
  "nonempty v = (if v = Some [] then None else v)"

definition resolve_bootstrap_credentials ::
  "identity_tools \<Rightarrow> (string \<Rightarrow> value_file) \<Rightarrow> string option \<Rightarrow> string option \<Rightarrow> string option \<Rightarrow>
   (string \<Rightarrow> string option) \<Rightarrow> bootstrap_error + string \<times> string" where
  "resolve_bootstrap_credentials lib files email email_file password_file environ =
     (let or_else = (\<lambda>a b. case a of Some x \<Rightarrow> Some x | None \<Rightarrow> b);
          resolved_email_file = or_else email_file (nonempty (environ ''ADMIN_BOOTSTRAP_EMAIL_FILE''));
          resolved_password_file = or_else password_file (nonempty (environ ''ADMIN_BOOTSTRAP_PASSWORD_FILE'')) in
      if environ ''ADMIN_BOOTSTRAP_PASSWORD'' \<noteq> None
      then Inl (BootstrapError ''ADMIN_BOOTSTRAP_PASSWORD is forbidden; use a protected password file'')
      else res_bind (resolve_bootstrap_value ''administrator email''
          (or_else email (environ ''ADMIN_BOOTSTRAP_EMAIL'')) (map_option files resolved_email_file) False) (\<lambda>resolved_email.
        res_bind (resolve_bootstrap_value ''administrator password'' None
            (map_option files resolved_password_file) True) (\<lambda>resolved_password.
          case normalize_email lib resolved_email of
            None \<Rightarrow> Inl (Bootstrap_Other ''ValueError'')
          | Some e \<Rightarrow> Inr (e, resolved_password))))"

end
