(* ===== verification/Accounts_Spec.thy ===== *)
theory Accounts_Spec
  imports Accounts
begin

text \<open>
  What the account operations promise. The specification is a roster, the list of users, with two
  moves: a user is enrolled, or one user is changed, which moves both its versions and must leave an
  active administrator behind. The three lifecycle mutations and the creation of the first
  administrator are shown to make such moves.
\<close>

section \<open>The roster\<close>

definition email_ok :: "string \<Rightarrow> bool" where
  "email_ok e \<longleftrightarrow> 3 \<le> str_len e \<and> str_len e \<le> 320 \<and> email_pattern e"

definition user_ok :: "user_row \<Rightarrow> bool" where
  "user_ok u \<longleftrightarrow> ur_role u \<in> {''admin'', ''user''} \<and> 1 \<le> ur_row_version u \<and>
     1 \<le> ur_access_token_version u \<and> email_ok (ur_email u)"

definition has_active_admin :: "user_row list \<Rightarrow> bool" where
  "has_active_admin us \<longleftrightarrow> (\<exists>u \<in> set us. active_admin u)"

inductive roster_move :: "user_row list \<Rightarrow> user_row list \<Rightarrow> bool" where
  enrol: "get_row ur_id (ur_id u) us = None \<Longrightarrow> ur_email u \<notin> ur_email ` set us \<Longrightarrow>
    ur_row_version u = 1 \<Longrightarrow> ur_access_token_version u = 1 \<Longrightarrow> user_ok u \<Longrightarrow>
    has_active_admin (us @ [u]) \<Longrightarrow> roster_move us (us @ [u])"
| change: "get_row ur_id i us = Some u \<Longrightarrow> ur_id v = i \<Longrightarrow> ur_email v = ur_email u \<Longrightarrow>
    ur_created_at v = ur_created_at u \<Longrightarrow> ur_row_version v = ur_row_version u + 1 \<Longrightarrow>
    ur_access_token_version v = ur_access_token_version u + 1 \<Longrightarrow> user_ok v \<Longrightarrow>
    has_active_admin (upd_row ur_id i (\<lambda>_. v) us) \<Longrightarrow> roster_move us (upd_row ur_id i (\<lambda>_. v) us)"

definition roster_ok :: "user_row list \<Rightarrow> bool" where
  "roster_ok us \<longleftrightarrow> wf_table ur_id us \<and> distinct (map ur_email us) \<and> list_all user_ok us \<and>
     (us \<noteq> [] \<longrightarrow> has_active_admin us)"

lemma wf_table_change:
  assumes "ur_id v = i"
  shows "wf_table ur_id (upd_row ur_id i (\<lambda>_. v) us) = wf_table ur_id us"
    "map ur_id (upd_row ur_id i (\<lambda>_. v) us) = map ur_id us"
proof -
  show "map ur_id (upd_row ur_id i (\<lambda>_. v) us) = map ur_id us"
    using assms by (induction us) auto
  then show "wf_table ur_id (upd_row ur_id i (\<lambda>_. v) us) = wf_table ur_id us"
    by (simp add: wf_table_def)
qed

lemma get_row_change:
  assumes "ur_id v = i"
  shows "get_row ur_id j (upd_row ur_id i (\<lambda>_. v) us) =
    (if j = i then map_option (\<lambda>_. v) (get_row ur_id i us) else get_row ur_id j us)"
  using assms by (induction us) auto

lemma emails_change:
  assumes "wf_table ur_id us" "get_row ur_id i us = Some u" "ur_email v = ur_email u"
  shows "map ur_email (upd_row ur_id i (\<lambda>_. v) us) = map ur_email us"
  using assms get_row_mem [OF assms(1)] by (auto simp: upd_row_def)

lemma roster_move_ok:
  assumes "roster_move us ts" "roster_ok us"
  shows "roster_ok ts"
  using assms(1)
proof cases
  case (enrol u)
  with assms(2) show ?thesis by (auto simp: roster_ok_def)
next
  case (change i u v)
  moreover have "user_ok w" if "w \<in> set ts" for w
    using that change(1,8) assms(2) by (auto simp: roster_ok_def list_all_iff set_upd_row)
  ultimately show ?thesis
    using assms(2) emails_change [of us i u v] wf_table_change(1) [of v i us]
    by (simp add: roster_ok_def list_all_iff)
qed

text \<open>What a user keeps: its id, its email; its versions only grow, together.\<close>

definition user_evolves :: "user_row \<Rightarrow> user_row \<Rightarrow> bool" where
  "user_evolves u v \<longleftrightarrow> ur_id v = ur_id u \<and> ur_email v = ur_email u \<and>
     ur_access_token_version u \<le> ur_access_token_version v \<and>
     ur_row_version v - ur_row_version u = ur_access_token_version v - ur_access_token_version u \<and>
     (ur_access_token_version v = ur_access_token_version u \<longrightarrow> v = u)"

lemma user_evolves_refl [simp]: "user_evolves u u"
  by (simp add: user_evolves_def)

lemma user_evolves_trans: "user_evolves u v \<Longrightarrow> user_evolves v w \<Longrightarrow> user_evolves u w"
  by (auto simp: user_evolves_def)

lemma roster_move_evolves:
  assumes "roster_move us ts" "get_row ur_id i us = Some u"
  shows "\<exists>v. get_row ur_id i ts = Some v \<and> user_evolves u v"
  using assms(1)
proof cases
  case (enrol w)
  then show ?thesis using assms(2) by (simp add: get_row_append)
next
  case (change j w v)
  then show ?thesis
    using assms(2) get_row_SomeD [OF change(2)] by (auto simp: get_row_change user_evolves_def)
qed

lemma roster_run_evolves:
  assumes "roster_move\<^sup>*\<^sup>* us ts" "get_row ur_id i us = Some u"
  shows "\<exists>v. get_row ur_id i ts = Some v \<and> user_evolves u v"
  using assms
proof (induction rule: rtranclp_induct)
  case (step t w)
  then show ?case using roster_move_evolves user_evolves_trans by meson
qed auto

lemma roster_run_ok: "roster_move\<^sup>*\<^sup>* us ts \<Longrightarrow> roster_ok us \<Longrightarrow> roster_ok ts"
  by (induction rule: rtranclp_induct) (auto intro: roster_move_ok)

lemma roster_move_nonempty: "roster_move us ts \<Longrightarrow> ts \<noteq> []"
  by (auto elim!: roster_move.cases simp: upd_row_def)

section \<open>The invariant of the tables\<close>

definition operation_key :: "admin_user_operation \<Rightarrow> ident \<times> string" where
  "operation_key p = (o_actor_id p, o_idempotency_key_hash p)"

definition bootstrapped :: "manager_db \<Rightarrow> bool" where
  "bootstrapped s \<longleftrightarrow>
     (\<exists>b i. bootstrap_state s = Some b \<and> bs_admin_user_id b = Some i \<and> get_row ur_id i (accounts s) \<noteq> None)"

text \<open>Users exist only after the bootstrap, and the bootstrap names one of them.\<close>

definition bootstrap_ok :: "manager_db \<Rightarrow> bool" where
  "bootstrap_ok s \<longleftrightarrow> (accounts s \<noteq> [] \<longrightarrow> bootstrapped s) \<and>
     (\<forall>b. bootstrap_state s = Some b \<longrightarrow> bs_admin_user_id b \<noteq> None \<longrightarrow> accounts s \<noteq> [])"

text \<open>A stored answer is the reading of a user that exists.\<close>

definition operation_ok :: "user_row list \<Rightarrow> admin_user_operation \<Rightarrow> bool" where
  "operation_ok us p \<longleftrightarrow> get_row ur_id (o_resource_id p) us \<noteq> None \<and>
     (\<exists>u. user_ok u \<and> ur_id u = o_resource_id p \<and> o_response p = to_read u)"

definition accounts_ok :: "manager_db \<Rightarrow> bool" where
  "accounts_ok s \<longleftrightarrow> roster_ok (accounts s) \<and> wf_table rt_jti (revoked_tokens s) \<and>
     distinct (map operation_key (user_operations s)) \<and>
     list_all (operation_ok (accounts s)) (user_operations s) \<and> bootstrap_ok s"

text \<open>What every operation keeps or only extends.\<close>

definition accounts_forward :: "manager_db \<Rightarrow> manager_db \<Rightarrow> bool" where
  "accounts_forward s t \<longleftrightarrow> roster_move\<^sup>*\<^sup>* (accounts s) (accounts t) \<and>
     prefix (user_operations s) (user_operations t) \<and> prefix (revoked_tokens s) (revoked_tokens t)"

lemma accounts_forward_refl [simp]: "accounts_forward s s"
  by (simp add: accounts_forward_def)

lemma accounts_forward_trans [trans]:
  "accounts_forward s t \<Longrightarrow> accounts_forward t u \<Longrightarrow> accounts_forward s u"
  unfolding accounts_forward_def using prefix_order.trans rtranclp_trans by metis

lemma forward_user:
  assumes "accounts_forward s t" "get_row ur_id i (accounts s) = Some u"
  shows "\<exists>v. get_row ur_id i (accounts t) = Some v \<and> user_evolves u v"
  using assms roster_run_evolves by (auto simp: accounts_forward_def)

lemma forward_user_exists:
  "accounts_forward s t \<Longrightarrow> get_row ur_id i (accounts s) \<noteq> None \<Longrightarrow> get_row ur_id i (accounts t) \<noteq> None"
  using forward_user by fastforce

lemma audit_frame [simp]:
  "accounts (audit a b c d e s) = accounts s" "user_operations (audit a b c d e s) = user_operations s"
  "revoked_tokens (audit a b c d e s) = revoked_tokens s"
  "bootstrap_state (audit a b c d e s) = bootstrap_state s"
  by (simp_all add: audit_def)

text \<open>What the account operations write outside their own tables: users and audit events.\<close>

definition accounts_write :: "registry_db \<Rightarrow> registry_db \<Rightarrow> bool" where
  "accounts_write s t \<longleftrightarrow> registries t = registries s \<and> registry_entries t = registry_entries s \<and>
     registry_operations t = registry_operations s \<and>
     (\<exists>rows. base t = audit_events_update (\<lambda>as. as @ rows) (base s))"

lemma accounts_write_refl [simp]: "accounts_write s s"
  by (auto simp: accounts_write_def intro!: exI [of _ "[]"])

lemma audit_write [simp]: "accounts_write s (store t) \<Longrightarrow> accounts_write s (store (audit a b c d e t))"
  by (auto simp: accounts_write_def audit_def add_audit_event_def comp_def)

lemma users_write [simp]: "accounts_write s (users_update f t) = accounts_write s t"
  by (simp add: accounts_write_def)

text \<open>The invariant looks at these four tables only.\<close>

lemma accounts_ok_frame:
  assumes "accounts t = accounts s" "user_operations t = user_operations s"
    and "revoked_tokens t = revoked_tokens s" "bootstrap_state t = bootstrap_state s"
  shows "accounts_ok t = accounts_ok s" "accounts_forward s t"
  using assms by (simp_all add: accounts_ok_def bootstrap_ok_def bootstrapped_def accounts_forward_def)

section \<open>The contract of a lifecycle mutation\<close>

lemma fence_actor:
  assumes "lock_lifecycle_fence actor s = Inr t"
  shows "\<exists>a. get_row ur_id actor (accounts s) = Some a \<and> active_admin a"
    "\<exists>b n. bootstrap_state s = Some b \<and> t = s\<lparr>bootstrap_state := Some (b\<lparr>bs_lock_version := n\<rparr>)\<rparr>"
  using assms
  by (auto simp: lock_lifecycle_fence_def active_admin_def split: option.splits if_splits)

lemma fence_frame:
  assumes "lock_lifecycle_fence actor s = Inr t"
  shows "store t = store s" "user_operations t = user_operations s" "revoked_tokens t = revoked_tokens s"
    "accounts_ok t = accounts_ok s" "bootstrap_state t \<noteq> None"
  using fence_actor(2) [OF assms]
  by (auto simp: accounts_ok_def bootstrap_ok_def bootstrapped_def)

lemma replay_None:
  "account_replay actor k operation fp s = Inr None \<longleftrightarrow>
     (actor, k) \<notin> operation_key ` set (user_operations s)"
  using find_None_iff [of "\<lambda>p. o_actor_id p = actor \<and> o_idempotency_key_hash p = k" "user_operations s"]
  by (auto simp: account_replay_def operation_key_def split: option.splits)

lemma file_keeps_ok:
  assumes "accounts_ok fenced" "roster_ok us"
    and keep: "\<And>i. get_row ur_id i (accounts fenced) \<noteq> None \<Longrightarrow> get_row ur_id i us \<noteq> None"
    and u: "get_row ur_id (ur_id u) us = Some u" "ao_result out = to_read u"
    and "us \<noteq> [] \<and> accounts fenced \<noteq> []" "user_ok u"
    and fresh: "(ac_actor rq, ac_key_hash rq) \<notin> operation_key ` set (user_operations s)"
    and s': "s' = file_account_operation rq out" and db: "ao_db out = write_accounts (\<lambda>_. us) fenced"
    and ops: "user_operations fenced = user_operations s"
  shows "accounts_ok s'"
proof -
  have tables: "accounts s' = us" "revoked_tokens s' = revoked_tokens fenced" "bootstrap_state s' = bootstrap_state fenced"
    using s' db by (simp_all add: file_account_operation_def)
  obtain p where p: "user_operations s' = user_operations fenced @ [p]"
    "operation_key p = (ac_actor rq, ac_key_hash rq)" "o_resource_id p = ur_id u" "o_response p = to_read u"
    using s' db u(2) by (auto simp: file_account_operation_def operation_key_def to_read_def)
  have "operation_ok us q" if "operation_ok (accounts fenced) q" for q
    using that keep by (auto simp: operation_ok_def)
  moreover have "operation_ok us p" using p(3,4) u(1) assms(7) by (auto simp: operation_ok_def)
  moreover have "bootstrap_ok s'"
    using assms(1,6) tables keep by (auto simp: accounts_ok_def bootstrap_ok_def bootstrapped_def)
  moreover have "distinct (map operation_key (user_operations s'))"
    using assms(1) fresh p(1,2) ops by (simp add: accounts_ok_def)
  ultimately show ?thesis
    using assms(1,2) tables p(1) by (auto simp: accounts_ok_def list_all_iff)
qed

text \<open>
  What the work of a mutation, done for an active administrator, promises: it makes at most one move of
  the roster, writes nothing else, and answers with a row it leaves behind.
\<close>

locale account_work =
  fixes ready :: bool
    and actor :: ident
    and work :: "'a \<Rightarrow> manager_db \<Rightarrow> account_outcome res"
  assumes work_move: "work x s = Inr out \<Longrightarrow> ready \<Longrightarrow> roster_ok (accounts s) \<Longrightarrow>
      get_row ur_id actor (accounts s) = Some a \<Longrightarrow> active_admin a \<Longrightarrow>
      roster_move\<^sup>=\<^sup>= (accounts s) (accounts (ao_db out))"
    and work_frame: "work x s = Inr out \<Longrightarrow> \<exists>us. ao_db out = write_accounts (\<lambda>_. us) s"
    and work_result: "work x s = Inr out \<Longrightarrow>
      \<exists>u. get_row ur_id (ur_id u) (accounts (ao_db out)) = Some u \<and> ao_result out = to_read u"
begin

text \<open>A mutation either leaves the database alone or did its work under the fence and committed.\<close>

lemma mutation_cases:
  assumes "lifecycle_mutation env rq prepared work commit_error = (r, s')"
  obtains (unchanged) "s' = aq_locked env" "\<forall>x. r \<noteq> Inr (x, False)"
  | (committed) x fenced out where "prepared = Inr x" "lock_lifecycle_fence (ac_actor rq) (aq_locked env) = Inr fenced"
    "(ac_actor rq, ac_key_hash rq) \<notin> operation_key ` set (user_operations (aq_locked env))"
    "work x fenced = Inr out" "r = Inr (ao_result out, False)" "s' = file_account_operation rq out"
proof -
  note split = assms [unfolded lifecycle_mutation_def Let_def]
  show ?thesis
  proof (cases "\<exists>x. r = Inr (x, False)")
    case False
    then have "s' = aq_locked env"
      using split by (auto split: sum.splits option.splits if_splits)
    with False show ?thesis by (auto intro: unchanged)
  next
    case True
    then show ?thesis
      using split fence_frame(2) [of "ac_actor rq" "aq_locked env"]
      by (auto split: sum.splits option.splits if_splits intro!: committed simp: replay_None)
  qed
qed

lemma mutation_effect:
  assumes run: "lifecycle_mutation env rq prepared work commit_error = (r, s')"
    and ready "ac_actor rq = actor" and ok: "accounts_ok (aq_locked env)"
  shows "accounts_ok s'" "accounts_forward (aq_locked env) s'"
    "accounts_write (store (aq_locked env)) (store s')"
proof -
  have *: "accounts_ok s' \<and> accounts_forward (aq_locked env) s' \<and>
    accounts_write (store (aq_locked env)) (store s')"
    using run
  proof (cases rule: mutation_cases)
    case unchanged
    with ok show ?thesis by simp
  next
    case (committed x fenced out)
    note fence = fence_frame [OF committed(2)]
    from fence_actor(1) [OF committed(2)] assms(3) obtain a where
      a: "get_row ur_id actor (accounts fenced) = Some a" "active_admin a" using fence(1) by auto
    have okf: "accounts_ok fenced" using fence(4) ok by simp
    then have "roster_ok (accounts fenced)" by (simp add: accounts_ok_def)
    then have move: "roster_move\<^sup>=\<^sup>= (accounts fenced) (accounts (ao_db out))"
      using work_move [OF committed(4) assms(2) _ a] by blast
    obtain us where db: "ao_db out = write_accounts (\<lambda>_. us) fenced" using work_frame [OF committed(4)] by blast
    obtain u where u: "get_row ur_id (ur_id u) us = Some u" "ao_result out = to_read u"
      using work_result [OF committed(4)] db by auto
    have run': "roster_move\<^sup>*\<^sup>* (accounts fenced) us" "roster_ok us"
      using move db okf roster_move_ok by (auto simp: accounts_ok_def)
    have keep: "get_row ur_id i (accounts fenced) \<noteq> None \<Longrightarrow> get_row ur_id i us \<noteq> None" for i
      using roster_run_evolves [OF run'(1), of i] by fastforce
    have "us \<noteq> [] \<and> accounts fenced \<noteq> []" using u(1) a by auto
    moreover have "user_ok u" using run'(2) get_row_SomeD [OF u(1)] by (simp add: roster_ok_def list_all_iff)
    ultimately have "accounts_ok s'"
      by (intro file_keeps_ok [OF okf run'(2) keep u _ _ committed(3,6) db fence(2)]) simp_all
    moreover have "accounts_forward (aq_locked env) s'"
      using run'(1) committed(6) db fence(1-3) by (simp add: accounts_forward_def file_account_operation_def)
    moreover have "accounts_write (store (aq_locked env)) (store s')"
      using committed(6) db fence(1) by (simp add: file_account_operation_def)
    ultimately show ?thesis by blast
  qed
  show "accounts_ok s'" using * by blast
  show "accounts_forward (aq_locked env) s'" using * by blast
  show "accounts_write (store (aq_locked env)) (store s')" using * by blast
qed

end

end
