(* ===== verification/Accounts_System.thy ===== *)
theory Accounts_System
  imports Accounts_Spec Registry_System
begin

text \<open>
  The account operations keep the contract of \<open>Accounts_Spec\<close>, and the whole service: the manager, its
  model registry and its user accounts as one transition system. A lifecycle request decides on what it
  reads behind the fence, the present state; its earlier readings are arbitrary, so that anything may
  happen between them. Shown: the invariant holds in every reachable state, users and revocations only
  move forward, and every step of the service is a sequence of steps of the deployment.
\<close>

section \<open>The three mutations\<close>

lemma upd_row_const:
  assumes "wf_table key rs" "get_row key i rs = Some r"
  shows "upd_row key i f rs = upd_row key i (\<lambda>_. f r) rs"
proof -
  have "x = r" if "x \<in> set rs" "key x = i" for x
    using assms get_row_mem [OF assms(1) that(1)] that(2) by simp
  then show ?thesis by (simp add: upd_row_def)
qed

lemma orm_user_fields [simp]:
  "ur_row_version (orm_user now f u) = ur_row_version u + 1" "ur_updated_at (orm_user now f u) = now"
  "ur_id (orm_user now f u) = ur_id (f u)" "ur_email (orm_user now f u) = ur_email (f u)"
  "ur_role (orm_user now f u) = ur_role (f u)" "ur_disabled (orm_user now f u) = ur_disabled (f u)"
  "ur_access_token_version (orm_user now f u) = ur_access_token_version (f u)"
  "ur_created_at (orm_user now f u) = ur_created_at (f u)"
  "ur_password_hash (orm_user now f u) = ur_password_hash (f u)"
  by (simp_all add: orm_user_def)

lemma changed_fields [simp]:
  "ur_id (access_changed p u) = ur_id u" "ur_email (access_changed p u) = ur_email u"
  "ur_created_at (access_changed p u) = ur_created_at u" "ur_password_hash (access_changed p u) = ur_password_hash u"
  "ur_role (access_changed p u) = ux_role p" "ur_disabled (access_changed p u) = (\<not> ux_active p)"
  "ur_access_token_version (access_changed p u) = ur_access_token_version u + 1"
  "ur_id (password_changed h u) = ur_id u" "ur_email (password_changed h u) = ur_email u"
  "ur_created_at (password_changed h u) = ur_created_at u" "ur_password_hash (password_changed h u) = h"
  "ur_role (password_changed h u) = ur_role u" "ur_disabled (password_changed h u) = ur_disabled u"
  "ur_access_token_version (password_changed h u) = ur_access_token_version u + 1"
  by (simp_all add: access_changed_def password_changed_def)

text \<open>Writing one user is a move, when the writer stays an active administrator.\<close>

lemma written_move:
  assumes ok: "roster_ok us" and a: "get_row ur_id actor us = Some a" "active_admin a"
    and u: "get_row ur_id i us = Some u" and f: "\<And>v. ur_id (f v) = ur_id v"
    and "ur_email (f u) = ur_email u" "ur_created_at (f u) = ur_created_at u"
    and "ur_row_version (f u) = ur_row_version u + 1"
    and "ur_access_token_version (f u) = ur_access_token_version u + 1"
    and role: "ur_role (f u) \<in> {''admin'', ''user''}" and self: "i = actor \<Longrightarrow> active_admin (f u)"
  shows "roster_move us (upd_row ur_id i f us)"
proof -
  have wf: "wf_table ur_id us" and "user_ok u"
    using ok get_row_SomeD [OF u] by (auto simp: roster_ok_def list_all_iff)
  then have "user_ok (f u)" using assms(6,8,9) role by (auto simp: user_ok_def)
  moreover have id: "ur_id (f u) = i" using f get_row_SomeD [OF u] by simp
  moreover have "has_active_admin (upd_row ur_id i (\<lambda>_. f u) us)"
  proof (cases "i = actor")
    case True
    then show ?thesis using self u get_row_SomeD [OF u] by (auto simp: has_active_admin_def set_upd_row)
  next
    case False
    then show ?thesis
      using a get_row_SomeD [OF a(1)] by (auto simp: has_active_admin_def set_upd_row)
  qed
  ultimately show ?thesis
    using roster_move.change [OF u, of "f u"] assms(6-9) by (subst upd_row_const [OF wf u]) blast
qed

lemma created_user_ok:
  "email_ok (uc_email p) \<Longrightarrow> uc_role p \<in> {''admin'', ''user''} \<Longrightarrow> user_ok (created_user env p h)"
  by (simp add: created_user_def user_ok_def)

interpretation creation: account_work "email_ok (uc_email payload) \<and> uc_role payload \<in> {''admin'', ''user''}" actor
    "create_work env payload" for payload actor env
proof
  fix x s out a
  assume run: "create_work env payload x s = Inr out"
  define u where "u = created_user env payload x"
  have new: "\<not> (\<exists>u \<in> set (accounts s). ur_email u = uc_email payload)" "get_row ur_id (ur_id u) (accounts s) = None"
    and out: "out = \<lparr>ao_result = to_read u, ao_action = ''admin.user.created'',
      ao_db = write_accounts (\<lambda>us. us @ [u]) s\<rparr>"
    using run by (auto simp: create_work_def u_def Let_def split: if_splits commit.splits)
  show "\<exists>us. ao_db out = write_accounts (\<lambda>_. us) s"
    unfolding out by (rule exI [of _ "accounts s @ [u]"]) simp
  show "\<exists>u. get_row ur_id (ur_id u) (accounts (ao_db out)) = Some u \<and> ao_result out = to_read u"
    unfolding out using new(2) by (auto simp: get_row_append intro!: exI [of _ u])
  assume ready: "email_ok (uc_email payload) \<and> uc_role payload \<in> {''admin'', ''user''}"
    and ok: "roster_ok (accounts s)" and a: "get_row ur_id actor (accounts s) = Some a" "active_admin a"
  have "roster_move (accounts s) (accounts s @ [u])"
  proof (rule roster_move.enrol)
    show "ur_email u \<notin> ur_email ` set (accounts s)"
      using new(1) by (auto simp: u_def created_user_def)
    show "user_ok u" using ready created_user_ok by (simp add: u_def)
    show "has_active_admin (accounts s @ [u])"
      using a get_row_SomeD [OF a(1)] by (auto simp: has_active_admin_def)
  qed (use new(2) in \<open>simp_all add: u_def created_user_def\<close>)
  then show "roster_move\<^sup>=\<^sup>= (accounts s) (accounts (ao_db out))" by (simp add: out)
qed

text \<open>The other two write one row or none.\<close>

lemma access_workD:
  assumes "access_work env actor i payload s = Inr out"
  obtains u where "get_row ur_id i (accounts s) = Some u" "access_checks actor payload u s = Inr ()"
    "ur_role u = ux_role payload" "ur_disabled u = (\<not> ux_active payload)"
    "ao_result out = to_read u" "ao_db out = s"
  | u where "get_row ur_id i (accounts s) = Some u" "access_checks actor payload u s = Inr ()"
    "ur_role u \<noteq> ux_role payload \<or> ur_disabled u \<noteq> (\<not> ux_active payload)"
    "ao_result out = to_read (orm_user (aq_now env) (access_changed payload) u)"
    "ao_db out = write_accounts (upd_row ur_id i (orm_user (aq_now env) (access_changed payload))) s"
  using assms
  by (auto simp: access_work_def locked_user_def Let_def split: option.splits if_splits)

lemma reset_workD:
  assumes "reset_work lib env i payload h s = Inr out"
  obtains u where "get_row ur_id i (accounts s) = Some u" "ur_row_version u = up_expected_row_version payload"
    "ao_result out = to_read (orm_user (aq_now env) (password_changed h) u)"
    "ao_db out = write_accounts (upd_row ur_id i (orm_user (aq_now env) (password_changed h))) s"
  using assms
  by (auto simp: reset_work_def locked_user_def Let_def split: option.splits if_splits)

lemma write_frame: "\<exists>us. write_accounts f s = write_accounts (\<lambda>_. us) s" "\<exists>us. s = write_accounts (\<lambda>_. us) s"
  by (rule exI [of _ "f (accounts s)"], simp) (rule exI [of _ "accounts s"], simp)

lemma written_row:
  assumes "get_row ur_id i us = Some u" "\<And>v. ur_id (f v) = ur_id v"
  shows "\<exists>v. get_row ur_id (ur_id v) (upd_row ur_id i f us) = Some v \<and> to_read (f u) = to_read v"
  using assms get_row_SomeD [OF assms(1)] by (intro exI [of _ "f u"]) (simp add: get_row_upd_row)

interpretation access: account_work "ux_role payload \<in> {''admin'', ''user''}" actor
    "\<lambda>_. access_work env actor user_id payload" for payload actor env user_id
proof
  fix x s out a
  assume run: "access_work env actor user_id payload s = Inr out"
  show "\<exists>us. ao_db out = write_accounts (\<lambda>_. us) s"
    using run by (rule access_workD) (use write_frame in auto)
  show "\<exists>u. get_row ur_id (ur_id u) (accounts (ao_db out)) = Some u \<and> ao_result out = to_read u"
    using run
  proof (rule access_workD)
    fix u assume "get_row ur_id user_id (accounts s) = Some u" "ao_result out = to_read u" "ao_db out = s"
    then show ?thesis using get_row_SomeD by (metis (full_types))
  next
    fix u assume u: "get_row ur_id user_id (accounts s) = Some u"
      "ao_result out = to_read (orm_user (aq_now env) (access_changed payload) u)"
      "ao_db out = write_accounts (upd_row ur_id user_id (orm_user (aq_now env) (access_changed payload))) s"
    then show ?thesis
      using written_row [OF u(1), of "orm_user (aq_now env) (access_changed payload)"] by simp
  qed
  assume ready: "ux_role payload \<in> {''admin'', ''user''}" and ok: "roster_ok (accounts s)"
    and a: "get_row ur_id actor (accounts s) = Some a" "active_admin a"
  show "roster_move\<^sup>=\<^sup>= (accounts s) (accounts (ao_db out))"
    using run
  proof (rule access_workD)
    fix u assume u: "get_row ur_id user_id (accounts s) = Some u" "access_checks actor payload u s = Inr ()"
      "ao_db out = write_accounts (upd_row ur_id user_id (orm_user (aq_now env) (access_changed payload))) s"
    have "active_admin (orm_user (aq_now env) (access_changed payload) u)" if "user_id = actor"
      using u(2) that get_row_SomeD [OF u(1)] by (auto simp: access_checks_def active_admin_def Let_def)
    then have "roster_move (accounts s) (upd_row ur_id user_id (orm_user (aq_now env) (access_changed payload)) (accounts s))"
      using ready by (intro written_move [OF ok a u(1)]) simp_all
    then show ?thesis using u(3) by simp
  qed simp
qed

interpretation reset: account_work True actor "reset_work lib env user_id payload" for actor lib env user_id payload
proof
  fix x s out a
  assume run: "reset_work lib env user_id payload x s = Inr out"
  then obtain u where u: "get_row ur_id user_id (accounts s) = Some u"
    "ao_result out = to_read (orm_user (aq_now env) (password_changed x) u)"
    "ao_db out = write_accounts (upd_row ur_id user_id (orm_user (aq_now env) (password_changed x))) s"
    by (rule reset_workD)
  show "\<exists>us. ao_db out = write_accounts (\<lambda>_. us) s" using u(3) write_frame by auto
  show "\<exists>u. get_row ur_id (ur_id u) (accounts (ao_db out)) = Some u \<and> ao_result out = to_read u"
    using u written_row [OF u(1), of "orm_user (aq_now env) (password_changed x)"] by simp
  assume ok: "roster_ok (accounts s)" and a: "get_row ur_id actor (accounts s) = Some a" "active_admin a"
  have "user_ok u" using ok get_row_SomeD [OF u(1)] by (auto simp: roster_ok_def list_all_iff)
  moreover have "active_admin (orm_user (aq_now env) (password_changed x) u)" if "user_id = actor"
    using that u(1) a by (simp add: active_admin_def)
  ultimately have "roster_move (accounts s) (upd_row ur_id user_id (orm_user (aq_now env) (password_changed x)) (accounts s))"
    by (intro written_move [OF ok a u(1)]) (simp_all add: user_ok_def)
  then show "roster_move\<^sup>=\<^sup>= (accounts s) (accounts (ao_db out))" using u(3) by simp
qed

section \<open>The effect of each request\<close>

definition service_effect :: "manager_db \<Rightarrow> manager_db \<Rightarrow> bool" where
  "service_effect s t \<longleftrightarrow> accounts_ok t \<and> accounts_forward s t \<and> accounts_write (store s) (store t)"

lemma service_effect_refl [simp]: "accounts_ok s \<Longrightarrow> service_effect s s"
  by (simp add: service_effect_def)

lemma service_effect_audit: "accounts_ok s \<Longrightarrow> service_effect s (audit a b c d e s)"
  using accounts_ok_frame [of "audit a b c d e s" s] by (simp add: service_effect_def)

text \<open>The dependencies of an administrator's request change nothing; the handler gets the actor.\<close>

lemma as_admin_cases:
  assumes "as_admin lib st env cred valid handler = (r, s')"
  obtains "s' = aq_locked env" "\<And>x. r \<noteq> Inr x"
  | admin claims where "authenticate lib st env cred = Inr (admin, claims)" "ur_role admin = ''admin''"
    "valid" "handler admin = (r, s')"
proof (cases "res_bind (authenticate lib st env cred) require_admin_user")
  case (Inl e)
  with assms that(1) show ?thesis by (auto simp: as_admin_def)
next
  case (Inr admin)
  then obtain claims where "authenticate lib st env cred = Inr (admin, claims)" "ur_role admin = ''admin''"
    by (auto simp: require_admin_user_def split: if_splits)
  with Inr assms that show ?thesis by (auto simp: as_admin_def split: if_splits)
qed

lemma valid_create_ok:
  "valid_create lib request = Some payload \<Longrightarrow> email_ok (uc_email payload) \<and> uc_role payload \<in> {''admin'', ''user''}"
  using normalized_email by (auto simp: valid_create_def email_ok_def split: if_splits)

lemma account_request_fields [simp]:
  "ac_actor (account_request_of pf st admin operation i document key) = ur_id admin"
  "ac_operation (account_request_of pf st admin operation i document key) = operation"
  "ac_key_hash (account_request_of pf st admin operation i document key) = sha256 pf key"
  "ac_fingerprint (account_request_of pf st admin operation i document key) =
     account_fingerprint pf st operation i document"
  by (simp_all add: account_request_of_def)

lemma create_user_effect:
  assumes "create_user pf lib st env cred request key = (r, s')" "accounts_ok (aq_locked env)"
  shows "service_effect (aq_locked env) s'"
  using assms(1) unfolding create_user_def
proof (cases rule: as_admin_cases)
  case (2 admin claims)
  then obtain payload where payload: "valid_create lib request = Some payload" by auto
  with 2(4) show ?thesis
    using creation.mutation_effect [where payload = payload and actor = "ur_id admin", OF _ valid_create_ok [OF payload] _ assms(2)]
    by (simp add: service_effect_def)
qed (use assms(2) in simp)

lemma update_user_access_effect:
  assumes "update_user_access pf lib st env cred i payload key = (r, s')" "accounts_ok (aq_locked env)"
  shows "service_effect (aq_locked env) s'"
  using assms(1) unfolding update_user_access_def
proof (cases rule: as_admin_cases)
  case (2 admin claims)
  then show ?thesis
    using access.mutation_effect [where payload = payload and actor = "ur_id admin", OF 2(4) _ _ assms(2)]
    by (simp add: service_effect_def valid_access_def)
qed (use assms(2) in simp)

lemma reset_user_password_effect:
  assumes "reset_user_password pf lib st env cred i payload key = (r, s')" "accounts_ok (aq_locked env)"
  shows "service_effect (aq_locked env) s'"
  using assms(1) unfolding reset_user_password_def
proof (cases rule: as_admin_cases)
  case (2 admin claims)
  then show ?thesis
    using reset.mutation_effect [where actor = "ur_id admin", OF 2(4) _ _ assms(2)] by (simp add: service_effect_def)
qed (use assms(2) in simp)

lemma login_effect:
  assumes "login lib st env request = (r, s')" "accounts_ok (aq_locked env)"
  shows "service_effect (aq_locked env) s'"
  using assms service_effect_audit [OF assms(2)]
  by (auto simp: login_def Let_def split: option.splits sum.splits if_splits)

lemma logout_effect:
  assumes "logout lib st env cred = (r, s')" "accounts_ok (aq_locked env)"
  shows "service_effect (aq_locked env) s'"
proof (cases "s' = aq_locked env")
  case False
  then obtain user claims where auth: "authenticate lib st env cred = Inr (user, claims)"
    using assms(1) by (cases "authenticate lib st env cred") (auto simp: logout_def)
  define t where "t = \<lparr>rt_jti = tc_jti claims, rt_user_id = ur_id user,
    rt_expires_at = tc_expires_at claims, rt_revoked_at = aq_now env\<rparr>"
  have "get_row rt_jti (rt_jti t) (revoked_tokens (aq_locked env)) = None"
    "s' = audit ''user'' (Some (ur_id user)) ''auth.logout'' ''access_token'' (Some (tc_jti claims))
       (revoked_tokens_update (\<lambda>rs. rs @ [t]) (aq_locked env))"
    using assms(1) False
    by (auto simp: logout_def auth t_def Let_def split: if_splits commit.splits)
  then show ?thesis
    using assms(2) by (simp add: service_effect_def accounts_ok_def bootstrap_ok_def bootstrapped_def accounts_forward_def)
qed (use assms in simp)

text \<open>The creation of the first administrator.\<close>

lemma first_user_None: "first_user s = None \<longleftrightarrow> accounts s = []"
proof -
  have "sort_key (\<lambda>u. (ur_created_at u, ur_id u)) (accounts s) = [] \<longleftrightarrow> accounts s = []"
    using length_sort [of "\<lambda>u. (ur_created_at u, ur_id u)" "accounts s"] by (metis length_0_conv)
  then show ?thesis by (auto simp: first_user_def split: list.splits)
qed

lemma locked_state:
  assumes "lock_bootstrap_state fl s = Inr b"
  shows "bs_admin_user_id b = Option.bind (bootstrap_state s) bs_admin_user_id"
  using assms by (auto simp: lock_bootstrap_state_def split: option.splits commit.splits)

lemma bootstrap_work_effect:
  assumes ok: "accounts_ok s" and b: "lock_bootstrap_state fl s = Inr b" and "email_ok e"
    and work: "bootstrap_work env e h b s = Inr (answer, s')"
  shows "service_effect s s'"
proof (cases "accounts s = []")
  case False
  then obtain i where i: "bs_admin_user_id b = Some i" "get_row ur_id i (accounts s) \<noteq> None"
    using ok locked_state [OF b] by (auto simp: accounts_ok_def bootstrap_ok_def bootstrapped_def)
  then obtain x y z u v where "s' = audit x y z u v (s\<lparr>bootstrap_state := Some b\<rparr>)"
    using work by (auto simp: bootstrap_work_def split: option.splits if_splits)
  then show ?thesis
    using ok i by (auto simp: service_effect_def accounts_ok_def bootstrap_ok_def bootstrapped_def accounts_forward_def)
next
  case True
  then have "bs_admin_user_id b = None"
    using ok locked_state [OF b] by (cases "bootstrap_state s") (auto simp: accounts_ok_def bootstrap_ok_def)
  then obtain x y z w v u b' where u: "s' = audit x y z w v (write_accounts (\<lambda>us. us @ [u])
      (s\<lparr>bootstrap_state := Some b'\<rparr>))" "bs_admin_user_id b' = Some (ur_id u)" "ur_row_version u = 1"
      "ur_access_token_version u = 1" "ur_email u = e" "active_admin u"
    using work first_user_None [of s] True
    by (auto simp: bootstrap_work_def active_admin_def Let_def split: commit.splits)
  then have "user_ok u" using assms(3) by (simp add: user_ok_def active_admin_def)
  then have move: "roster_move [] ([] @ [u])"
    using u(3-6) by (intro roster_move.enrol) (simp_all add: has_active_admin_def)
  moreover have "roster_ok []" by (simp add: roster_ok_def wf_table_def)
  ultimately have "roster_ok [u]" using roster_move_ok [of "[]" "[u]"] by simp
  moreover have "user_operations s = []"
    using ok True by (cases "user_operations s") (auto simp: accounts_ok_def operation_ok_def)
  ultimately show ?thesis
    using ok True u(1,2) move
    by (auto simp: service_effect_def accounts_ok_def bootstrap_ok_def bootstrapped_def accounts_forward_def)
qed

lemma ensure_admin_user_effect:
  assumes "ensure_admin_user lib env fl email password = (r, s')" "accounts_ok (aq_locked env)"
  shows "service_effect (aq_locked env) s'"
proof (cases "s' = aq_locked env")
  case False
  then obtain e h b answer where "normalize_email lib email = Some e"
    "lock_bootstrap_state fl (aq_locked env) = Inr b"
    "bootstrap_work env e h b (aq_locked env) = Inr (answer, s')"
    using assms(1)
    by (auto simp: ensure_admin_user_def Let_def res_bind_def split: option.splits sum.splits)
  then show ?thesis
    using bootstrap_work_effect [OF assms(2)] normalized_email [of lib email e] by (simp add: email_ok_def)
qed (use assms in simp)

section \<open>The service\<close>

inductive service_step :: "platform \<Rightarrow> identity_tools \<Rightarrow> settings \<Rightarrow> manager_db \<Rightarrow> manager_db \<Rightarrow> bool"
  for pf :: platform and lib :: identity_tools and st :: settings
  where
    deployed: "deployment_step pf st (store s) t \<Longrightarrow> users t = accounts s \<Longrightarrow>
      service_step pf lib st s (s\<lparr>store := t\<rparr>)"
  | signed_in: "aq_locked env = s \<Longrightarrow> login lib st env request = (r, s') \<Longrightarrow> service_step pf lib st s s'"
  | signed_out: "aq_locked env = s \<Longrightarrow> logout lib st env cred = (r, s') \<Longrightarrow> service_step pf lib st s s'"
  | user_created: "aq_locked env = s \<Longrightarrow> create_user pf lib st env cred new key = (r, s') \<Longrightarrow>
      service_step pf lib st s s'"
  | access_updated: "aq_locked env = s \<Longrightarrow> update_user_access pf lib st env cred i change key = (r, s') \<Longrightarrow>
      service_step pf lib st s s'"
  | password_reset: "aq_locked env = s \<Longrightarrow> reset_user_password pf lib st env cred i reset key = (r, s') \<Longrightarrow>
      service_step pf lib st s s'"
  | bootstrap: "aq_locked env = s \<Longrightarrow> ensure_admin_user lib env fl email password = (r, s') \<Longrightarrow>
      service_step pf lib st s s'"

definition fresh_service :: "manager_db \<Rightarrow> bool" where
  "fresh_service s \<longleftrightarrow> fresh_deployment (store s) \<and> accounts s = [] \<and> user_operations s = [] \<and>
     revoked_tokens s = [] \<and> bootstrap_state s = None"

definition service_ok :: "manager_db \<Rightarrow> bool" where
  "service_ok s \<longleftrightarrow> deployment_ok (store s) \<and> accounts_ok s"

text \<open>Writing users and audit rows is a sequence of steps of the deployment.\<close>

lemma accounts_write_run:
  assumes "accounts_write s t"
  shows "(deployment_step pf st)\<^sup>*\<^sup>* s t"
proof -
  from assms obtain rows where base: "base t = audit_events_update (\<lambda>as. as @ rows) (base s)"
    by (auto simp: accounts_write_def)
  have "deployment_step pf st s (s\<lparr>users := users t\<rparr>)" by (rule deployment_step.accounts)
  also have "(deployment_step pf st)\<^sup>*\<^sup>* \<dots> (s\<lparr>users := users t, base := base t\<rparr>)"
    using deployment_step.work [of pf st "s\<lparr>users := users t\<rparr>" "base t"] audit_rows_step base by auto
  also have "s\<lparr>users := users t, base := base t\<rparr> = t"
    using assms by (cases s; cases t) (simp add: accounts_write_def)
  finally show ?thesis .
qed

text \<open>Every step keeps the accounts in order, moves them forward, and is one of the deployment.\<close>

lemma service_step_effect:
  assumes "service_step pf lib st s s'" "accounts_ok s"
  shows "accounts_ok s' \<and> accounts_forward s s' \<and> (deployment_step pf st)\<^sup>*\<^sup>* (store s) (store s')"
proof -
  have *: "?thesis" if "service_effect s s'"
    using that accounts_write_run by (simp add: service_effect_def)
  show ?thesis
    using assms(1)
  proof cases
    case (deployed t)
    then show ?thesis using assms(2) accounts_ok_frame [of s' s] by auto
  next
    case signed_in
    then show ?thesis using * login_effect [OF signed_in(2)] assms(2) by simp
  next
    case signed_out
    then show ?thesis using * logout_effect [OF signed_out(2)] assms(2) by simp
  next
    case user_created
    then show ?thesis using * create_user_effect [OF user_created(2)] assms(2) by simp
  next
    case access_updated
    then show ?thesis using * update_user_access_effect [OF access_updated(2)] assms(2) by simp
  next
    case password_reset
    then show ?thesis using * reset_user_password_effect [OF password_reset(2)] assms(2) by simp
  next
    case bootstrap
    then show ?thesis using * ensure_admin_user_effect [OF bootstrap(2)] assms(2) by simp
  qed
qed

interpretation service: step_invariant fresh_service "service_step pf lib st" service_ok for pf lib st
proof
  fix s assume "fresh_service s"
  then show "service_ok s"
    using deployment.start_inv [of "store s"]
    by (simp add: fresh_service_def service_ok_def accounts_ok_def roster_ok_def bootstrap_ok_def wf_table_def)
next
  fix s t assume "service_ok s" "service_step pf lib st s t"
  then show "service_ok t"
    using service_step_effect [of pf lib st s t] deployment.run_inv [of pf st "store s" "store t"]
    by (auto simp: service_ok_def)
qed

lemma service_run:
  assumes "(service_step pf lib st)\<^sup>*\<^sup>* s t" "accounts_ok s"
  shows "accounts_ok t \<and> accounts_forward s t \<and> (deployment_step pf st)\<^sup>*\<^sup>* (store s) (store t)"
  using assms
proof (induction rule: rtranclp_induct)
  case (step t u)
  then have t: "accounts_ok t" "accounts_forward s t" "(deployment_step pf st)\<^sup>*\<^sup>* (store s) (store t)" by simp_all
  note u = service_step_effect [OF step(2) t(1)]
  then show ?case
    using accounts_forward_trans [OF t(2), of u] rtranclp_trans [OF t(3), of "store u"] by blast
qed simp

end
