(* ===== verification/Accounts_Sessions.thy ===== *)
theory Accounts_Sessions
  imports Accounts_System
begin

text \<open>
  What the run of the service means for sessions and requests: a token of an outdated version and a
  revoked token never authenticate again, a committed mutation is answered from its record when it is
  sent again, and the registry refuses the bearer of an outdated token.
\<close>

section \<open>Tokens that are dead stay dead\<close>

text \<open>The payload of a token is a part of the token: it does not depend on when it is read.\<close>

definition jwt_stable :: "identity_tools \<Rightarrow> bool" where
  "jwt_stable lib \<longleftrightarrow> (\<forall>now now' token secret aud iss leeway p p'.
     jwt_decode lib now token secret aud iss leeway = Some p \<longrightarrow>
     jwt_decode lib now' token secret aud iss leeway = Some p' \<longrightarrow> p = p')"

lemma decode_stable:
  assumes "jwt_stable lib" "decode_access_token lib st now token = Inr c" "decode_access_token lib st now' token = Inr c'"
  shows "c = c'"
proof -
  have *: "\<exists>p. jwt_decode lib n token (jwt_secret st) (jwt_audience st) (jwt_issuer st) (jwt_leeway_seconds st) = Some p"
    if "decode_access_token lib st n token = Inr d" for n d
    using that by (auto simp: decode_access_token_def split: option.splits)
  from * [OF assms(2)] * [OF assms(3)] obtain p p' where
    "jwt_decode lib now token (jwt_secret st) (jwt_audience st) (jwt_issuer st) (jwt_leeway_seconds st) = Some p"
    "jwt_decode lib now' token (jwt_secret st) (jwt_audience st) (jwt_issuer st) (jwt_leeway_seconds st) = Some p'"
    by blast
  moreover from this have "p = p'" using assms(1) unfolding jwt_stable_def by blast
  ultimately show ?thesis using assms(2,3) by (simp add: decode_access_token_def)
qed

lemma outdated_token_refused:
  assumes "accounts_forward s t" "get_row ur_id (tc_subject claims) (accounts s) = Some u"
    and "tc_access_token_version claims < ur_access_token_version u"
    and "decode_access_token lib st now token = Inr claims" "map lower_char scheme = ''bearer''"
  shows "require_user_auth lib st now (Some (scheme, token)) (revoked_tokens t) (accounts t) = Inl unauthorized"
proof -
  obtain v where "get_row ur_id (tc_subject claims) (accounts t) = Some v"
    "ur_access_token_version u \<le> ur_access_token_version v"
    using forward_user [OF assms(1,2)] by (auto simp: user_evolves_def)
  then show ?thesis using assms(3-) by (simp add: require_user_auth_def)
qed

lemma revoked_token_refused:
  assumes "accounts_forward s t" "get_row rt_jti (tc_jti claims) (revoked_tokens s) \<noteq> None"
    and "decode_access_token lib st now token = Inr claims" "map lower_char scheme = ''bearer''"
  shows "require_user_auth lib st now (Some (scheme, token)) (revoked_tokens t) (accounts t) = Inl unauthorized"
proof -
  from assms(1) obtain rs where "revoked_tokens t = revoked_tokens s @ rs"
    by (auto simp: accounts_forward_def prefix_def)
  then have "get_row rt_jti (tc_jti claims) (revoked_tokens t) \<noteq> None"
    using assms(2) by (auto simp: get_row_append split: option.splits)
  then show ?thesis using assms(3,4) by (simp add: require_user_auth_def)
qed

section \<open>What a committed request has done\<close>

lemma committed_request:
  assumes "as_admin lib st env cred valid handler = (Inr x, s')"
  obtains admin claims where "authenticate lib st env cred = Inr (admin, claims)" "ur_role admin = ''admin''"
    "valid" "handler admin = (Inr x, s')"
  using assms by (rule as_admin_cases) blast+

lemma filed_accounts [simp]: "accounts (file_account_operation rq out) = accounts (ao_db out)"
  by (simp add: file_account_operation_def)

text \<open>A committed reset, and a committed change of access, raise the token version of the user.\<close>

lemma committed_reset:
  assumes "reset_user_password pf lib st env cred i payload key = (Inr (res, False), s')"
    and "get_row ur_id i (accounts (aq_locked env)) = Some u"
  shows "\<exists>v. get_row ur_id i (accounts s') = Some v \<and> ur_access_token_version v = ur_access_token_version u + 1 \<and>
    (\<exists>h. hash_password lib (aq_salt env) (up_new_password payload) = Some h \<and> ur_password_hash v = h)"
  using assms(1) unfolding reset_user_password_def
proof (rule committed_request)
  fix admin claims
  assume run: "lifecycle_mutation env
      (account_request_of pf st admin Op_Password_Reset i (reset_document payload) key)
      (reset_prepared lib env i payload) (reset_work lib env i payload) write_commit_error = (Inr (res, False), s')"
  from run show ?thesis
  proof (cases rule: reset.mutation_cases [consumes 1])
    case (committed h fenced out)
    then obtain h' where h: "hash_password lib (aq_salt env) (up_new_password payload) = Some h"
      by (auto simp: reset_prepared_def new_password_def split: option.splits)
    have same: "accounts fenced = accounts (aq_locked env)" using fence_frame(1) [OF committed(2)] by simp
    from committed(4) obtain w where w: "get_row ur_id i (accounts fenced) = Some w"
      "ao_db out = write_accounts (upd_row ur_id i (orm_user (aq_now env) (password_changed h))) fenced"
      by (rule reset_workD)
    have "w = u" using w(1) assms(2) same by simp
    then have "get_row ur_id i (accounts s') = Some (orm_user (aq_now env) (password_changed h) u)"
      using w committed(6) by (simp add: get_row_upd_row)
    then show ?thesis using h by simp
  qed simp
qed

lemma committed_access:
  assumes "update_user_access pf lib st env cred i payload key = (Inr (res, False), s')"
    and "get_row ur_id i (accounts (aq_locked env)) = Some u"
    and "ur_role u \<noteq> ux_role payload \<or> ur_disabled u \<noteq> (\<not> ux_active payload)"
  shows "\<exists>v. get_row ur_id i (accounts s') = Some v \<and> ur_access_token_version v = ur_access_token_version u + 1 \<and>
    ur_role v = ux_role payload \<and> ur_disabled v = (\<not> ux_active payload)"
  using assms(1) unfolding update_user_access_def
proof (rule committed_request)
  fix admin claims
  assume run: "lifecycle_mutation env
      (account_request_of pf st admin Op_Access_Update i (access_document payload) key) (Inr ())
      (\<lambda>_. access_work env (ur_id admin) i payload) write_commit_error = (Inr (res, False), s')"
  from run show ?thesis
  proof (cases rule: access.mutation_cases [consumes 1])
    case (committed x fenced out)
    have same: "accounts fenced = accounts (aq_locked env)" using fence_frame(1) [OF committed(2)] by simp
    from committed(4) show ?thesis
    proof (rule access_workD)
      fix w assume w: "get_row ur_id i (accounts fenced) = Some w"
        "ao_db out = write_accounts (upd_row ur_id i (orm_user (aq_now env) (access_changed payload))) fenced"
      have "w = u" using w(1) assms(2) same by simp
      then have "get_row ur_id i (accounts s') = Some (orm_user (aq_now env) (access_changed payload) u)"
        using w committed(6) by (simp add: get_row_upd_row)
      then show ?thesis by simp
    qed (use assms(2,3) same in auto)
  qed simp
qed

text \<open>A committed logout has recorded the token.\<close>

lemma committed_logout:
  assumes "logout lib st env cred = (Inr (), s')" "aq_outcome env \<noteq> Integrity"
    and "authenticate lib st env cred = Inr (user, claims)"
  shows "get_row rt_jti (tc_jti claims) (revoked_tokens s') \<noteq> None"
  using assms by (auto simp: logout_def Let_def get_row_append split: commit.splits if_splits option.splits)

text \<open>And what it takes for a mutation to commit.\<close>

lemma lifecycle_commits:
  assumes "(ac_actor rq, ac_key_hash rq) \<notin> operation_key ` set (user_operations (aq_seen env))"
    and "(ac_actor rq, ac_key_hash rq) \<notin> operation_key ` set (user_operations (aq_locked env))"
    and "prepared = Inr x" "lock_lifecycle_fence (ac_actor rq) (aq_locked env) = Inr behind"
    and "work x behind = Inr out" "aq_outcome env = Committed"
  shows "lifecycle_mutation env rq prepared work commit_error =
    (Inr (ao_result out, False), file_account_operation rq out)"
proof -
  have "account_replay (ac_actor rq) (ac_key_hash rq) (ac_operation rq) (ac_fingerprint rq) s = Inr None"
    if "s = aq_seen env \<or> s = behind" for s
    using that assms(1,2) fence_frame(2) [OF assms(4)] by (auto simp: replay_None)
  then show ?thesis using assms(3-) by (simp add: lifecycle_mutation_def)
qed

section \<open>Requests sent again\<close>

lemma filed_replay:
  assumes "(ac_actor rq, ac_key_hash rq) \<notin> operation_key ` set (user_operations (ao_db out))"
    and "prefix (user_operations (file_account_operation rq out)) (user_operations t)"
  shows "account_replay (ac_actor rq) (ac_key_hash rq) (ac_operation rq) (ac_fingerprint rq) t = Inr (Some (ao_result out))"
proof -
  have "find (\<lambda>p. o_actor_id p = ac_actor rq \<and> o_idempotency_key_hash p = ac_key_hash rq) (user_operations (ao_db out)) = None"
    using assms(1) by (force simp: find_None_iff operation_key_def)
  then show ?thesis
    using assms(2) by (auto simp: account_replay_def file_account_operation_def prefix_def find_append)
qed

context account_work
begin

lemma mutation_replays:
  assumes "lifecycle_mutation env rq prepared work commit_error = (Inr (res, False), s')"
    and "prefix (user_operations s') (user_operations (aq_seen env'))"
  shows "lifecycle_mutation env' rq prepared' work' commit_error' = (Inr (res, True), aq_locked env')"
  using assms(1)
proof (cases rule: mutation_cases)
  case (committed x fenced out)
  obtain us where "ao_db out = write_accounts (\<lambda>_. us) fenced" using work_frame [OF committed(4)] by blast
  then have "user_operations (ao_db out) = user_operations (aq_locked env)"
    using fence_frame(2) [OF committed(2)] by simp
  then show ?thesis
    using filed_replay [of rq out "aq_seen env'"] committed(3,5,6) assms(2)
    by (simp add: lifecycle_mutation_def)
qed simp

end

text \<open>The bearer of an outdated token commits nothing in the registry.\<close>

lemma fence_version:
  assumes "lock_experiment_fence e i v s = Inr actor"
  shows "get_row ur_id i (users s) = Some actor \<and> ur_access_token_version actor = v"
  using assms by (auto simp: lock_experiment_fence_def split: option.splits if_splits)

lemma registry_checks_version:
  assumes "create_candidate pf st storage env e actor v payload key path = (Inr (x, False), s') \<or>
      promote_entry pf st storage env e entry_id actor v pr_payload key path = (Inr (x, False), s') \<or>
      revoke_entry pf st env e entry_id actor v rv_payload key path = (Inr (x, False), s')"
  shows "\<exists>a. get_row ur_id (ur_id actor) (users (rq_locked env)) = Some a \<and> ur_access_token_version a = v"
proof -
  have *: ?thesis if "run_mutation env rr first (\<lambda>x. under_lock rr (rq_locked env) (locked x)) = (Inr (x, False), s')"
    "rr_actor rr = actor" "rr_token_version rr = v" for rr and first :: "'y phase" and locked
    using run_mutationD [OF that(1)]
  proof
    assume "\<exists>x' out. first = Inr (Inr x') \<and> under_lock rr (rq_locked env) (locked x') = Inr (Inr out) \<and>
      rq_outcome env = Committed \<and> Inr (x, False) = (Inr (fst out, False) :: registry_error + registry_mutation_read \<times> bool) \<and> s' = snd out"
    then obtain x' out where "under_lock rr (rq_locked env) (locked x') = Inr (Inr out)" by blast
    from under_lockD [OF this] show ?thesis using fence_version that(2,3) by metis
  qed simp
  show ?thesis
    using assms by (elim disjE) (rule * [rotated], assumption?, auto simp: mutation_runs registry_request_of_def)+
qed

end
