(* ===== verification/Example_Accounts.thy ===== *)
theory Example_Accounts
  imports Accounts_Sessions Example_Registry
begin

text \<open>
  A small history of accounts on which the statements are applied: the first administrator is created,
  signs in, creates a second administrator and then resets its password or takes its role away. The
  libraries are a token codec that writes the fields of the payload one after the other and a password
  hash that keeps the password; both satisfy the laws the statements name.
\<close>

section \<open>The libraries\<close>

definition ex_str_code :: "string \<Rightarrow> string" where
  "ex_str_code s = concat (map (\<lambda>c. [CHR ''x'', c]) s) @ [CHR ''y'']"

fun ex_str_parse :: "string \<Rightarrow> (string \<times> string) option" where
  "ex_str_parse [] = None"
| "ex_str_parse (a # cs) =
     (if a = CHR ''y'' then Some ([], cs)
      else case cs of [] \<Rightarrow> None | c # cs' \<Rightarrow> map_option (\<lambda>(s, r). (c # s, r)) (ex_str_parse cs'))"

lemma ex_str_roundtrip [simp]: "ex_str_parse (ex_str_code s @ r) = Some (s, r)"
  by (induction s) (simp_all add: ex_str_code_def)

fun ex_parse_all :: "nat \<Rightarrow> string \<Rightarrow> string list option" where
  "ex_parse_all 0 s = (if s = [] then Some [] else None)"
| "ex_parse_all (Suc n) s =
     (case ex_str_parse s of None \<Rightarrow> None | Some (x, r) \<Rightarrow> map_option ((#) x) (ex_parse_all n r))"

lemma ex_parse_all_code [simp]: "ex_parse_all (length xs) (concat (map ex_str_code xs)) = Some xs"
  by (induction xs) simp_all

definition ex_int :: "string \<Rightarrow> int" where
  "ex_int s = (case s of [] \<Rightarrow> 0
     | c # cs \<Rightarrow> if c = CHR ''-'' then - int (digits_value cs) else int (digits_value s))"

lemma ex_int_str [simp]: "ex_int (int_str i) = i"
proof (cases "i < 0")
  case True
  then show ?thesis by (simp add: ex_int_def int_str_def nat_digits_value)
next
  case False
  have "nat_digits (nat i) \<noteq> []" by (subst nat_digits.simps) simp
  then obtain c cs where d: "nat_digits (nat i) = c # cs" by (cases "nat_digits (nat i)") auto
  then have "c \<noteq> CHR ''-''" using nat_digits_no_minus [of "nat i"] by auto
  with False show ?thesis
    using nat_digits_value [of "nat i"] by (simp add: ex_int_def int_str_def d)
qed

fun ex_field :: "json \<Rightarrow> string" where
  "ex_field (JStr s) = s"
| "ex_field (JInt i) = int_str i"
| "ex_field _ = []"

definition ex_jwt_encode :: "(string \<times> json) list \<Rightarrow> string \<Rightarrow> string" where
  "ex_jwt_encode payload secret = concat (map ex_str_code (secret # map (ex_field \<circ> snd) payload))"

definition ex_jwt_decode ::
  "datetime \<Rightarrow> string \<Rightarrow> string \<Rightarrow> string \<Rightarrow> string \<Rightarrow> int \<Rightarrow> (string \<times> json) list option" where
  "ex_jwt_decode now token secret aud iss leeway =
     (case ex_parse_all 8 token of
        Some [signed, sub, jti, iat, expiry, iss', aud', ver] \<Rightarrow>
          if signed = secret \<and> iss' = iss \<and> aud' = aud \<and> seconds (ex_int iat) \<le> now + seconds leeway \<and>
            now < seconds (ex_int expiry + leeway)
          then Some (jwt_payload sub jti (ex_int iat) (ex_int expiry) iss aud (ex_int ver)) else None
      | _ \<Rightarrow> None)"

definition ex_lib :: identity_tools where
  "ex_lib =
     \<lparr>str_casefold = map lower_char, password_hash_of = (\<lambda>salt password. salt @ '':'' @ password),
      password_verify = (\<lambda>password h. Some (drop (length h - length password) h = password)),
      dummy_salt = ''dummy'', jwt_encode = ex_jwt_encode, jwt_decode = ex_jwt_decode\<rparr>"

lemma ex_jwt_roundtrip: "jwt_roundtrip ex_lib"
proof -
  have parsed: "ex_parse_all 8 (ex_jwt_encode (jwt_payload sub jti iat expiry iss aud ver) secret) =
      Some [secret, sub, jti, int_str iat, int_str expiry, iss, aud, int_str ver]"
    for sub jti iat expiry iss aud ver secret
    using ex_parse_all_code [of "[secret, sub, jti, int_str iat, int_str expiry, iss, aud, int_str ver]"]
    by (simp add: ex_jwt_encode_def jwt_payload_def eval_nat_numeral del: ex_parse_all.simps)
  then show ?thesis by (simp add: jwt_roundtrip_def ex_lib_def ex_jwt_decode_def)
qed

lemma ex_jwt_stable: "jwt_stable ex_lib"
  by (simp add: jwt_stable_def ex_lib_def ex_jwt_decode_def split: option.splits list.splits)

lemma ex_hashes_verify: "hashes_verify ex_lib"
  by (simp add: hashes_verify_def ex_lib_def)

section \<open>The history\<close>

definition ex_root_id :: ident where "ex_root_id = ''00000000-0000-4000-8000-000000000001''"
definition ex_deputy_id :: ident where "ex_deputy_id = ''00000000-0000-4000-8000-000000000002''"
definition ex_jti :: ident where "ex_jti = ''00000000-0000-4000-8000-00000000000a''"

lemma ex_uuids [simp]: "uuid_ok ex_root_id" "uuid_ok ex_deputy_id" "uuid_ok ex_jti"
  by code_simp+

lemma ex_ids_distinct [simp]: "ex_root_id \<noteq> ex_deputy_id" "ex_deputy_id \<noteq> ex_root_id"
  by (simp_all add: ex_root_id_def ex_deputy_id_def)

definition ex_account_env :: "manager_db \<Rightarrow> datetime \<Rightarrow> ident \<Rightarrow> account_env" where
  "ex_account_env s now i =
     \<lparr>aq_arrival = now, aq_seen = s, aq_unlocked = s, aq_locked = s, aq_now = now, aq_new_id = i,
      aq_salt = ''salt'', aq_flush = Committed, aq_outcome = Committed\<rparr>"

lemma ex_account_env_fields [simp]:
  "aq_arrival (ex_account_env s now i) = now" "aq_seen (ex_account_env s now i) = s"
  "aq_unlocked (ex_account_env s now i) = s" "aq_locked (ex_account_env s now i) = s"
  "aq_now (ex_account_env s now i) = now" "aq_new_id (ex_account_env s now i) = i"
  "aq_salt (ex_account_env s now i) = ''salt''" "aq_flush (ex_account_env s now i) = Committed"
  "aq_outcome (ex_account_env s now i) = Committed"
  by (simp_all add: ex_account_env_def)

definition ex_nobody :: manager_db where
  "ex_nobody = \<lparr>store = ex_unregistered\<lparr>users := []\<rparr>, user_operations = [], revoked_tokens = [],
     bootstrap_state = None\<rparr>"

lemma ex_nobody_fresh: "fresh_service ex_nobody"
  using ex_unregistered_fresh by (simp add: fresh_service_def ex_nobody_def fresh_deployment_def)

definition ex_root :: user_row where
  "ex_root = \<lparr>ur_id = ex_root_id, ur_row_version = 1, ur_email = ''root@lab.example'',
     ur_password_hash = ''salt:tall tree 19'', ur_role = ''admin'', ur_disabled = False,
     ur_access_token_version = 1, ur_created_at = 1000000, ur_updated_at = 1000000\<rparr>"

definition ex_booted :: manager_db where
  "ex_booted = snd (ensure_admin_user ex_lib (ex_account_env ex_nobody 1000000 ex_root_id) Committed
     ''Root@lab.example'' ''tall tree 19'')"

lemma ex_root_email: "normalize_email ex_lib ''Root@lab.example'' = Some ''root@lab.example''"
  by code_simp

lemma ex_root_password: "hash_password ex_lib ''salt'' ''tall tree 19'' = Some ''salt:tall tree 19''"
  by code_simp

lemma ex_boot_run:
  "ensure_admin_user ex_lib (ex_account_env ex_nobody 1000000 ex_root_id) Committed
     ''Root@lab.example'' ''tall tree 19'' = (Inr (ex_root, True), ex_booted)"
  "accounts ex_booted = [ex_root]" "user_operations ex_booted = []" "revoked_tokens ex_booted = []"
  "bootstrap_state ex_booted =
     Some \<lparr>bs_admin_user_id = Some ex_root_id, bs_completed_at = Some 1000000, bs_lock_version = 1\<rparr>"
proof -
  have *: "ensure_admin_user ex_lib (ex_account_env ex_nobody 1000000 ex_root_id) Committed
     ''Root@lab.example'' ''tall tree 19'' =
    (Inr (ex_root, True), audit ''system'' None ''auth.bootstrap_admin.created'' ''user'' (Some ex_root_id)
      (write_accounts (\<lambda>us. us @ [ex_root]) (ex_nobody\<lparr>bootstrap_state := Some
        \<lparr>bs_admin_user_id = Some ex_root_id, bs_completed_at = Some 1000000, bs_lock_version = 1\<rparr>\<rparr>)))"
    by (simp add: ensure_admin_user_def ex_root_email ex_root_password lock_bootstrap_state_def
        bootstrap_work_def first_user_def commit_plain_def ex_nobody_def ex_root_def Let_def)
  show "ensure_admin_user ex_lib (ex_account_env ex_nobody 1000000 ex_root_id) Committed
     ''Root@lab.example'' ''tall tree 19'' = (Inr (ex_root, True), ex_booted)"
    "accounts ex_booted = [ex_root]" "user_operations ex_booted = []" "revoked_tokens ex_booted = []"
    "bootstrap_state ex_booted =
     Some \<lparr>bs_admin_user_id = Some ex_root_id, bs_completed_at = Some 1000000, bs_lock_version = 1\<rparr>"
    unfolding ex_booted_def * by (simp_all add: ex_nobody_def)
qed

text \<open>Tokens of the two administrators, and what they decode to.\<close>

definition ex_token :: "ident \<Rightarrow> datetime \<Rightarrow> string" where
  "ex_token i now = ex_jwt_encode (jwt_payload i ex_jti (now div 1000000) (now div 1000000 + 900) ''iss'' ''aud'' 1) ''jwt''"

definition ex_claims :: "ident \<Rightarrow> datetime \<Rightarrow> access_token_claims" where
  "ex_claims i now = \<lparr>tc_subject = i, tc_jti = ex_jti, tc_issued_at = seconds (now div 1000000),
     tc_expires_at = seconds (now div 1000000 + 900), tc_access_token_version = 1\<rparr>"

lemma ex_token_decodes:
  assumes "uuid_ok i" "0 \<le> issued" "issued \<le> now" "now \<le> issued + 899000000" "issued \<le> 1000000000000"
  shows "decode_access_token ex_lib ex_settings now (ex_token i issued) = Inr (ex_claims i issued)"
proof -
  have "issue_access_token ex_lib ex_settings i 1 issued ex_jti = Inr (ex_token i issued, ex_claims i issued)"
    by (simp add: issue_access_token_def ex_token_def ex_claims_def ex_settings_def ex_lib_def Let_def
        minus_mod_eq_mult_div distrib_right)
  then show ?thesis
    by (rule issued_token_decodes [OF ex_jwt_roundtrip])
      (use assms in \<open>auto simp: ex_claims_def ex_settings_def\<close>)
qed

text \<open>A platform whose digests tell keys apart. The first administrator signs in.\<close>

definition ex_signer :: platform where
  "ex_signer = ex_platform\<lparr>sha256 := id\<rparr>"

lemma ex_signer_sha256 [simp]: "sha256 ex_signer k = k"
  by (simp add: ex_signer_def)

definition ex_login :: login_request where
  "ex_login = \<lparr>lq_email = ''ROOT@lab.example'', lq_password = ''tall tree 19''\<rparr>"

definition ex_signed_in :: manager_db where
  "ex_signed_in = audit ''user'' (Some ex_root_id) ''auth.login.succeeded'' ''user'' (Some ex_root_id) ex_booted"

lemma ex_login_valid:
  "valid_login ex_lib ex_login = Some \<lparr>lq_email = ''root@lab.example'', lq_password = ''tall tree 19''\<rparr>"
  by code_simp

lemma ex_login_run:
  "login ex_lib ex_settings (ex_account_env ex_booted 2000000 ex_jti) ex_login =
     (Inr \<lparr>access_token = ex_token ex_root_id 2000000, expires_in = 900\<rparr>, ex_signed_in)"
proof -
  have "verify_password ex_lib ''tall tree 19'' (Some ''salt:tall tree 19'') = Inr True"
    by (rule hashed_password_verifies [OF ex_hashes_verify ex_root_password])
  moreover have "issue_access_token ex_lib ex_settings ex_root_id 1 2000000 ex_jti =
      Inr (ex_token ex_root_id 2000000, ex_claims ex_root_id 2000000)"
    by (simp add: issue_access_token_def ex_token_def ex_claims_def ex_settings_def ex_lib_def Let_def)
  ultimately show ?thesis
    by (simp add: login_def ex_login_valid ex_boot_run ex_root_def commit_plain_def ex_signed_in_def Let_def)
      (simp add: ex_settings_def)
qed

abbreviation ex_bearer :: "ident \<Rightarrow> (string \<times> string) option" where
  "ex_bearer i \<equiv> Some (''Bearer'', ex_token i 2000000)"

lemma ex_bearer_scheme [simp]:
  "lower_char (CHR ''B'') = CHR ''b''" "lower_char (CHR ''e'') = CHR ''e''" "lower_char (CHR ''a'') = CHR ''a''"
  "lower_char (CHR ''r'') = CHR ''r''"
  by code_simp+

lemma ex_signed_in_tables [simp]:
  "accounts ex_signed_in = [ex_root]" "user_operations ex_signed_in = []" "revoked_tokens ex_signed_in = []"
  "bootstrap_state ex_signed_in =
     Some \<lparr>bs_admin_user_id = Some ex_root_id, bs_completed_at = Some 1000000, bs_lock_version = 1\<rparr>"
  by (simp_all add: ex_signed_in_def ex_boot_run)

lemma ex_root_authenticates:
  assumes "get_row rt_jti ex_jti (revoked_tokens s) = None" "get_row ur_id ex_root_id (accounts s) = Some ex_root"
    and "2000000 \<le> now" "now \<le> 900000000"
  shows "authenticate ex_lib ex_settings (ex_account_env s now i) (ex_bearer ex_root_id) =
    Inr (ex_root, ex_claims ex_root_id 2000000)"
  unfolding authenticate_def require_user_auth_iff
  using assms ex_token_decodes [of ex_root_id 2000000 now]
  by (simp add: ex_claims_def ex_root_def)

lemma ex_root_admits:
  assumes "get_row rt_jti ex_jti (revoked_tokens s) = None" "get_row ur_id ex_root_id (accounts s) = Some ex_root"
    and "2000000 \<le> now" "now \<le> 900000000" valid
  shows "as_admin ex_lib ex_settings (ex_account_env s now i) (ex_bearer ex_root_id) valid handler = handler ex_root"
  using ex_root_authenticates [OF assms(1-4), of i] assms(5)
  by (simp add: as_admin_def require_admin_user_def ex_root_def)

text \<open>It creates a second administrator.\<close>

definition ex_new_deputy :: admin_user_create where
  "ex_new_deputy = \<lparr>uc_email = ''Deputy@lab.example'', uc_password = ''seven grey owls 42'', uc_role = ''admin'',
     uc_active = True\<rparr>"

definition ex_deputy :: user_row where
  "ex_deputy = \<lparr>ur_id = ex_deputy_id, ur_row_version = 1, ur_email = ''deputy@lab.example'',
     ur_password_hash = ''salt:seven grey owls 42'', ur_role = ''admin'', ur_disabled = False,
     ur_access_token_version = 1, ur_created_at = 3000000, ur_updated_at = 3000000\<rparr>"

definition ex_staffed :: manager_db where
  "ex_staffed = snd (create_user ex_signer ex_lib ex_settings (ex_account_env ex_signed_in 3000000 ex_deputy_id)
     (ex_bearer ex_root_id) ex_new_deputy ''key-1'')"

lemma ex_deputy_valid:
  "valid_create ex_lib ex_new_deputy = Some (ex_new_deputy\<lparr>uc_email := ''deputy@lab.example''\<rparr>)"
  "idempotency_key_ok ''key-1''" "idempotency_key_ok ''key-2''" "idempotency_key_ok ''key-3''"
  by code_simp+

lemma ex_deputy_password:
  "new_password ex_lib ''salt'' ''seven grey owls 42'' ''deputy@lab.example'' = Inr ''salt:seven grey owls 42''"
  "new_password ex_lib ''salt'' ''nine brown bears 7'' ''deputy@lab.example'' = Inr ''salt:nine brown bears 7''"
  "validate_new_password ex_lib ''nine brown bears 7'' ''deputy@lab.example'' = Inr ()"
  by code_simp+

lemma ex_create_run:
  "create_user ex_signer ex_lib ex_settings (ex_account_env ex_signed_in 3000000 ex_deputy_id)
     (ex_bearer ex_root_id) ex_new_deputy ''key-1'' = (Inr (to_read ex_deputy, False), ex_staffed)"
  "accounts ex_staffed = [ex_root, ex_deputy]" "revoked_tokens ex_staffed = []"
  "map operation_key (user_operations ex_staffed) = [(ex_root_id, ''key-1'')]"
  "bootstrap_state ex_staffed =
     Some \<lparr>bs_admin_user_id = Some ex_root_id, bs_completed_at = Some 1000000, bs_lock_version = 2\<rparr>"
proof -
  define rq where "rq = account_request_of ex_signer ex_settings ex_root Op_Create ''new''
    (create_document (ex_new_deputy\<lparr>uc_email := ''deputy@lab.example''\<rparr>)) ''key-1''"
  have rq: "ac_actor rq = ex_root_id" "ac_key_hash rq = ''key-1''"
    by (simp_all add: rq_def ex_root_def)
  have root: "ur_id ex_root = ex_root_id" "ur_role ex_root = ''admin''" "\<not> ur_disabled ex_root"
    "ur_email ex_root = ''root@lab.example''" by (simp_all add: ex_root_def)
  have created: "created_user (ex_account_env ex_signed_in 3000000 ex_deputy_id)
      (ex_new_deputy\<lparr>uc_email := ''deputy@lab.example''\<rparr>) ''salt:seven grey owls 42'' = ex_deputy"
    by (simp add: created_user_def ex_new_deputy_def ex_deputy_def)
  have *: "create_user ex_signer ex_lib ex_settings (ex_account_env ex_signed_in 3000000 ex_deputy_id)
     (ex_bearer ex_root_id) ex_new_deputy ''key-1'' = (Inr (to_read ex_deputy, False),
       file_account_operation rq \<lparr>ao_result = to_read ex_deputy, ao_action = ''admin.user.created'',
         ao_db = write_accounts (\<lambda>us. us @ [ex_deputy]) (ex_signed_in\<lparr>bootstrap_state :=
           Some \<lparr>bs_admin_user_id = Some ex_root_id, bs_completed_at = Some 1000000, bs_lock_version = 2\<rparr>\<rparr>)\<rparr>)"
    (is "_ = ?answer")
  proof -
    let ?env = "ex_account_env ex_signed_in 3000000 ex_deputy_id"
    let ?behind = "ex_signed_in\<lparr>bootstrap_state := Some
      \<lparr>bs_admin_user_id = Some ex_root_id, bs_completed_at = Some 1000000, bs_lock_version = 2\<rparr>\<rparr>"
    let ?payload = "ex_new_deputy\<lparr>uc_email := ''deputy@lab.example''\<rparr>"
    have fence: "lock_lifecycle_fence (ac_actor rq) (aq_locked ?env) = Inr ?behind"
      by (simp add: lock_lifecycle_fence_def rq root)
    have work: "create_work ?env ?payload ''salt:seven grey owls 42'' ?behind =
      Inr \<lparr>ao_result = to_read ex_deputy, ao_action = ''admin.user.created'',
         ao_db = write_accounts (\<lambda>us. us @ [ex_deputy]) ?behind\<rparr>"
      by (simp add: create_work_def created root Let_def) (simp add: ex_deputy_def ex_new_deputy_def)
    have pw: "new_password ex_lib ''salt'' (uc_password ?payload) ''deputy@lab.example'' = Inr ''salt:seven grey owls 42''"
      by (simp add: ex_deputy_password ex_new_deputy_def)
    have "lifecycle_mutation ?env rq (new_password ex_lib ''salt'' (uc_password ?payload) ''deputy@lab.example'')
        (create_work ?env ?payload) create_commit_error = ?answer"
      using lifecycle_commits [where work = "create_work ?env ?payload" and env = ?env and rq = rq
          and x = "''salt:seven grey owls 42''" and commit_error = create_commit_error, OF _ _ pw fence work] by simp
    then show ?thesis
      unfolding create_user_def
      by (subst ex_root_admits) (simp_all add: ex_deputy_valid root Let_def rq_def)
  qed
  show "create_user ex_signer ex_lib ex_settings (ex_account_env ex_signed_in 3000000 ex_deputy_id)
     (ex_bearer ex_root_id) ex_new_deputy ''key-1'' = (Inr (to_read ex_deputy, False), ex_staffed)"
    "accounts ex_staffed = [ex_root, ex_deputy]" "revoked_tokens ex_staffed = []"
    "map operation_key (user_operations ex_staffed) = [(ex_root_id, ''key-1'')]"
    "bootstrap_state ex_staffed =
     Some \<lparr>bs_admin_user_id = Some ex_root_id, bs_completed_at = Some 1000000, bs_lock_version = 2\<rparr>"
    unfolding ex_staffed_def * by (simp_all add: file_account_operation_def operation_key_def rq)
qed

text \<open>Then it resets the password of the second administrator.\<close>

definition ex_reset :: admin_user_password_reset where
  "ex_reset = \<lparr>up_expected_row_version = 1, up_new_password = ''nine brown bears 7''\<rparr>"

definition ex_deputy_reset :: user_row where
  "ex_deputy_reset = orm_user 4000000 (password_changed ''salt:nine brown bears 7'') ex_deputy"

definition ex_reset_db :: manager_db where
  "ex_reset_db = snd (reset_user_password ex_signer ex_lib ex_settings (ex_account_env ex_staffed 4000000 ex_jti)
     (ex_bearer ex_root_id) ex_deputy_id ex_reset ''key-2'')"

lemma ex_reset_valid: "valid_reset ex_reset"
  by code_simp

lemma ex_deputy_fields [simp]:
  "ur_id ex_deputy = ex_deputy_id" "ur_role ex_deputy = ''admin''" "ur_disabled ex_deputy = False"
  "ur_row_version ex_deputy = 1" "ur_access_token_version ex_deputy = 1" "ur_email ex_deputy = ''deputy@lab.example''"
  by (simp_all add: ex_deputy_def)

lemma ex_root_fields [simp]:
  "ur_id ex_root = ex_root_id" "ur_role ex_root = ''admin''" "ur_disabled ex_root = False"
  "ur_access_token_version ex_root = 1"
  by (simp_all add: ex_root_def)

lemma ex_staffed_fence:
  assumes "ac_actor rq = ex_root_id"
  shows "lock_lifecycle_fence (ac_actor rq) (aq_locked (ex_account_env ex_staffed now i)) =
    Inr (ex_staffed\<lparr>bootstrap_state := Some
      \<lparr>bs_admin_user_id = Some ex_root_id, bs_completed_at = Some 1000000, bs_lock_version = 3\<rparr>\<rparr>)"
  using assms by (simp add: lock_lifecycle_fence_def ex_create_run)

lemma ex_staffed_unused:
  assumes "k \<noteq> ''key-1''"
  shows "(ex_root_id, k) \<notin> operation_key ` set (user_operations ex_staffed)"
proof -
  have "operation_key ` set (user_operations ex_staffed) = {(ex_root_id, ''key-1'')}"
    using arg_cong [OF ex_create_run(4), of set] by simp
  with assms show ?thesis by simp
qed

lemma ex_reset_run:
  "reset_user_password ex_signer ex_lib ex_settings (ex_account_env ex_staffed 4000000 ex_jti)
     (ex_bearer ex_root_id) ex_deputy_id ex_reset ''key-2'' = (Inr (to_read ex_deputy_reset, False), ex_reset_db)"
  "accounts ex_reset_db = [ex_root, ex_deputy_reset]" "revoked_tokens ex_reset_db = []"
proof -
  let ?env = "ex_account_env ex_staffed 4000000 ex_jti"
  let ?behind = "ex_staffed\<lparr>bootstrap_state := Some
      \<lparr>bs_admin_user_id = Some ex_root_id, bs_completed_at = Some 1000000, bs_lock_version = 3\<rparr>\<rparr>"
  define rq where "rq = account_request_of ex_signer ex_settings ex_root Op_Password_Reset ex_deputy_id
    (reset_document ex_reset) ''key-2''"
  have rq: "ac_actor rq = ex_root_id" "ac_key_hash rq = ''key-2''" by (simp_all add: rq_def)
  have pw: "reset_prepared ex_lib ?env ex_deputy_id ex_reset = Inr ''salt:nine brown bears 7''"
    by (simp add: reset_prepared_def ex_create_run ex_reset_def ex_deputy_password)
  let ?out = "\<lparr>ao_result = to_read ex_deputy_reset, ao_action = ''admin.user.password_reset'',
      ao_db = write_accounts (upd_row ur_id ex_deputy_id
        (orm_user 4000000 (password_changed ''salt:nine brown bears 7''))) ?behind\<rparr>"
  have work: "reset_work ex_lib ?env ex_deputy_id ex_reset ''salt:nine brown bears 7'' ?behind = Inr ?out"
    by (simp add: reset_work_def locked_user_def ex_create_run ex_reset_def ex_deputy_password ex_deputy_reset_def Let_def)
  have "lifecycle_mutation ?env rq (reset_prepared ex_lib ?env ex_deputy_id ex_reset)
      (reset_work ex_lib ?env ex_deputy_id ex_reset) write_commit_error =
    (Inr (to_read ex_deputy_reset, False), file_account_operation rq ?out)"
    using lifecycle_commits [where work = "reset_work ex_lib ?env ex_deputy_id ex_reset" and env = ?env and rq = rq
        and x = "''salt:nine brown bears 7''" and commit_error = write_commit_error,
        OF _ _ pw ex_staffed_fence [OF rq(1)] work] ex_staffed_unused [of "''key-2''"] rq by simp
  then have *: "reset_user_password ex_signer ex_lib ex_settings ?env
     (ex_bearer ex_root_id) ex_deputy_id ex_reset ''key-2'' =
       (Inr (to_read ex_deputy_reset, False), file_account_operation rq ?out)"
    unfolding reset_user_password_def
    by (subst ex_root_admits) (simp_all add: ex_reset_valid ex_deputy_valid ex_create_run rq_def)
  show "reset_user_password ex_signer ex_lib ex_settings (ex_account_env ex_staffed 4000000 ex_jti)
     (ex_bearer ex_root_id) ex_deputy_id ex_reset ''key-2'' = (Inr (to_read ex_deputy_reset, False), ex_reset_db)"
    "accounts ex_reset_db = [ex_root, ex_deputy_reset]" "revoked_tokens ex_reset_db = []"
    unfolding ex_reset_db_def * by (simp_all add: file_account_operation_def ex_create_run ex_deputy_reset_def)
qed

section \<open>The history is a run of the service\<close>

abbreviation ex_service_step :: "manager_db \<Rightarrow> manager_db \<Rightarrow> bool" where
  "ex_service_step \<equiv> service_step ex_signer ex_lib ex_settings"

lemma ex_service_steps:
  "ex_service_step ex_nobody ex_booted" "ex_service_step ex_booted ex_signed_in"
  "ex_service_step ex_signed_in ex_staffed" "ex_service_step ex_staffed ex_reset_db"
  using service_step.bootstrap [OF _ ex_boot_run(1)] service_step.signed_in [OF _ ex_login_run]
    service_step.user_created [OF _ ex_create_run(1)] service_step.password_reset [OF _ ex_reset_run(1)]
  by simp_all

lemma ex_service_runs:
  "ex_service_step\<^sup>*\<^sup>* ex_nobody ex_booted" "ex_service_step\<^sup>*\<^sup>* ex_nobody ex_signed_in"
  "ex_service_step\<^sup>*\<^sup>* ex_nobody ex_staffed" "ex_service_step\<^sup>*\<^sup>* ex_nobody ex_reset_db"
  using ex_service_steps by (meson r_into_rtranclp rtranclp.rtrancl_into_rtrancl)+

end
