(* ===== verification/Accounts_Claims.thy ===== *)
theory Accounts_Claims
  imports Example_Accounts
begin

text \<open>
  The properties of accounts and sessions, each with an application to the history of the examples.
\<close>

section \<open>Every reachable state\<close>

text \<open>
  C11. Whatever requests run and however they overlap, a service that has users at all has an active
  administrator: administrators who demote or disable each other at the same time included.
\<close>

theorem active_admin_remains:
  assumes "fresh_service s0" "(service_step pf lib st)\<^sup>*\<^sup>* s0 s" "accounts s \<noteq> []"
  shows "\<exists>u \<in> set (accounts s). ur_role u = ''admin'' \<and> \<not> ur_disabled u"
  using service.reachable_inv [OF assms(1,2)] assms(3)
  by (auto simp: service_ok_def accounts_ok_def roster_ok_def has_active_admin_def active_admin_def)

theorem active_admin_remains_witness:
  "\<exists>u \<in> set (accounts ex_reset_db). ur_role u = ''admin'' \<and> \<not> ur_disabled u"
  using active_admin_remains [OF ex_nobody_fresh ex_service_runs(4)] by (simp add: ex_reset_run)



text \<open>
  The bootstrap creates the first administrator and nobody else: once there are users, running it
  again changes no account and never reports a creation, whatever email it is given.
\<close>

theorem bootstrap_creates_once:
  assumes "fresh_service s0" "(service_step pf lib st)\<^sup>*\<^sup>* s0 (aq_locked env)" "accounts (aq_locked env) \<noteq> []"
    and run: "ensure_admin_user lib env fl email password = (r, s')"
  shows "accounts s' = accounts (aq_locked env) \<and>
    (\<forall>u created. r = Inr (u, created) \<longrightarrow> \<not> created \<and> u \<in> set (accounts s') \<and> active_admin u)"
proof -
  let ?s = "aq_locked env"
  have ok: "bootstrap_ok ?s"
    using service.reachable_inv [OF assms(1,2)] by (simp add: service_ok_def accounts_ok_def)
  have work: "accounts s' = accounts ?s \<and> \<not> snd answer \<and> fst answer \<in> set (accounts ?s) \<and> active_admin (fst answer)"
    if locked: "lock_bootstrap_state fl ?s = Inr b" and work: "bootstrap_work env e h b ?s = Inr (answer, s')"
    for e h b answer
  proof -
    obtain i where "bs_admin_user_id b = Some i"
      using ok assms(3) locked_state [OF locked] by (auto simp: bootstrap_ok_def bootstrapped_def)
    then show ?thesis
      using work get_row_SomeD [of ur_id i "accounts ?s"]
      by (auto simp: bootstrap_work_def split: option.splits if_splits)
  qed
  show ?thesis
  proof (cases "s' = ?s \<and> (\<forall>x. r \<noteq> Inr x)")
    case False
    then obtain e h b answer where "lock_bootstrap_state fl ?s = Inr b" "bootstrap_work env e h b ?s = Inr (answer, s')"
      "r = Inr answer"
      using run by (auto simp: ensure_admin_user_def Let_def res_bind_def split: option.splits sum.splits)
    with work show ?thesis by fastforce
  qed simp
qed

theorem bootstrap_creates_once_witness:
  "accounts (snd (ensure_admin_user ex_lib (ex_account_env ex_staffed 5000000 ex_jti) Committed
     ''other@lab.example'' ''tall tree 19'')) = [ex_root, ex_deputy]"
  using bootstrap_creates_once [OF ex_nobody_fresh, of ex_signer ex_lib ex_settings
      "ex_account_env ex_staffed 5000000 ex_jti" Committed "''other@lab.example''" "''tall tree 19''"]
    ex_service_runs(3) ex_create_run(2) by (metis ex_account_env_fields(4) list.distinct(1) prod.collapse)

section \<open>Sessions\<close>

text \<open>
  C19. A login gives a token that authenticates the user of that email, and only an enabled user whose
  password verified: at once and until it expires, as long as the account is not changed.
\<close>

theorem login_token_authenticates:
  assumes "jwt_roundtrip lib" "valid_settings st"
    and "fresh_service s0" "(service_step pf lib st)\<^sup>*\<^sup>* s0 (aq_locked env)"
    and login: "login lib st env request = (Inr response, s')"
    and "\<forall>u \<in> set (accounts (aq_locked env)). uuid_ok (ur_id u)" "uuid_ok (aq_new_id env)"
    and fresh: "get_row rt_jti (aq_new_id env) (revoked_tokens (aq_locked env)) = None"
    and "0 \<le> aq_now env" "aq_now env \<le> seconds 253000000000"
    and "aq_now env \<le> now" "now + seconds 1 \<le> aq_now env + seconds (expires_in response)"
  shows "\<exists>u claims. normalize_email lib (lq_email request) = Some (ur_email u) \<and>
    verify_password lib (lq_password request) (Some (ur_password_hash u)) = Inr True \<and>
    require_user_auth lib st now (Some (''bearer'', access_token response)) (revoked_tokens s') (accounts s') =
      Inr (u, claims)"
proof -
  let ?s = "aq_locked env"
  have wf: "wf_table ur_id (accounts ?s)"
    using service.reachable_inv [OF assms(3,4)] by (simp add: service_ok_def accounts_ok_def roster_ok_def)
  from login obtain payload u token claims where
    payload: "valid_login lib request = Some payload" and
    u: "find (\<lambda>u. ur_email u = lq_email payload) (accounts ?s) = Some u" "\<not> ur_disabled u"
      "verify_password lib (lq_password payload) (Some (ur_password_hash u)) = Inr True" and
    issue: "issue_access_token lib st (ur_id u) (ur_access_token_version u) (aq_now env) (aq_new_id env) =
      Inr (token, claims)" and
    answer: "response = \<lparr>access_token = token, expires_in = jwt_access_ttl_seconds st\<rparr>" and
    s': "accounts s' = accounts ?s" "revoked_tokens s' = revoked_tokens ?s"
    by (auto simp: login_def Let_def split: option.splits sum.splits if_splits)
  have mem: "u \<in> set (accounts ?s)" and email: "ur_email u = lq_email payload"
    using u(1) by (auto simp: find_Some_iff)
  have claims: "tc_issued_at claims = seconds (aq_now env div seconds 1)"
    "tc_expires_at claims = seconds (aq_now env div seconds 1 + jwt_access_ttl_seconds st)"
    "tc_jti claims = aq_new_id env" "tc_subject claims = ur_id u"
    "tc_access_token_version claims = ur_access_token_version u"
    using issue by (auto simp: issue_access_token_def Let_def minus_mod_eq_mult_div distrib_right split: if_splits)
  have bounds: "seconds (aq_now env div seconds 1) \<le> aq_now env" "aq_now env < seconds (aq_now env div seconds 1) + seconds 1"
    by (simp_all add: div_mult_mod_eq minus_mod_eq_div_mult [symmetric])
  have ttl: "60 \<le> jwt_access_ttl_seconds st" "jwt_access_ttl_seconds st \<le> 3600" "0 \<le> jwt_leeway_seconds st"
    using assms(2) by (simp_all add: valid_settings_def)
  have "decode_access_token lib st now token = Inr claims"
    by (rule issued_token_decodes [OF assms(1) issue])
      (use assms(6,7,9-12) mem ttl bounds answer claims(1,2) in \<open>auto simp: distrib_right\<close>)
  moreover have "get_row ur_id (ur_id u) (accounts ?s) = Some u" by (rule get_row_mem [OF wf mem])
  ultimately have "require_user_auth lib st now (Some (''bearer'', access_token response)) (revoked_tokens s')
      (accounts s') = Inr (u, claims)"
    using u(2) fresh s' claims(3-) answer by (simp add: require_user_auth_def lower_char_def char_class_defs)
  moreover have "normalize_email lib (lq_email request) = Some (ur_email u)" "lq_password payload = lq_password request"
    using payload email by (auto simp: valid_login_def split: if_splits)
  ultimately show ?thesis using u(3) by auto
qed

theorem login_token_authenticates_witness:
  "\<exists>claims. require_user_auth ex_lib ex_settings 600000000
     (Some (''bearer'', access_token \<lparr>access_token = ex_token ex_root_id 2000000, expires_in = 900\<rparr>))
     (revoked_tokens ex_signed_in) (accounts ex_signed_in) = Inr (ex_root, claims)"
proof -
  have run: "ex_service_step\<^sup>*\<^sup>* ex_nobody (aq_locked (ex_account_env ex_booted 2000000 ex_jti))"
    by (simp add: ex_service_runs)
  have "\<exists>u claims. normalize_email ex_lib (lq_email ex_login) = Some (ur_email u) \<and>
    verify_password ex_lib (lq_password ex_login) (Some (ur_password_hash u)) = Inr True \<and>
    require_user_auth ex_lib ex_settings 600000000
     (Some (''bearer'', access_token \<lparr>access_token = ex_token ex_root_id 2000000, expires_in = 900\<rparr>))
     (revoked_tokens ex_signed_in) (accounts ex_signed_in) = Inr (u, claims)"
    by (rule login_token_authenticates [OF ex_jwt_roundtrip _ ex_nobody_fresh run ex_login_run])
      (simp_all add: ex_boot_run ex_settings_def valid_settings_def)
  then show ?thesis by (auto simp: require_user_auth_iff split: if_splits)
qed

text \<open>
  C12. A committed password reset, and a committed change of a user's role or activity, end every session
  of that user for ever: a token issued under the former version is refused in every later state, also
  when the account is enabled or given its role back.
\<close>

theorem access_change_ends_sessions:
  assumes "fresh_service s0" "(service_step pf lib st)\<^sup>*\<^sup>* s0 (aq_locked env)"
    and u: "get_row ur_id i (accounts (aq_locked env)) = Some u"
    and change: "reset_user_password pf lib st env cred i reset key = (Inr (res, False), s') \<or>
      update_user_access pf lib st env cred i access key = (Inr (res, False), s') \<and>
        (ur_role u \<noteq> ux_role access \<or> ur_disabled u \<noteq> (\<not> ux_active access))"
    and later: "(service_step pf lib st)\<^sup>*\<^sup>* s' t"
    and token: "decode_access_token lib st now token = Inr claims" "tc_subject claims = i"
      "tc_access_token_version claims \<le> ur_access_token_version u" "map lower_char scheme = ''bearer''"
  shows "require_user_auth lib st now (Some (scheme, token)) (revoked_tokens t) (accounts t) = Inl unauthorized"
proof -
  have ok: "accounts_ok (aq_locked env)"
    using service.reachable_inv [OF assms(1,2)] by (simp add: service_ok_def)
  have "accounts_ok s'"
    using change reset_user_password_effect [OF _ ok] update_user_access_effect [OF _ ok]
    unfolding service_effect_def by blast
  then have "accounts_forward s' t" using service_run [OF later] by blast
  moreover obtain v where v: "get_row ur_id i (accounts s') = Some v"
    "ur_access_token_version v = ur_access_token_version u + 1"
    using change committed_reset [OF _ u] committed_access [OF _ u] by blast
  moreover have "tc_access_token_version claims < ur_access_token_version v" using v(2) token(3) by simp
  ultimately show ?thesis
    using outdated_token_refused [OF _ _ _ token(1,4)] token(2) by blast
qed

theorem access_change_ends_sessions_witness:
  "require_user_auth ex_lib ex_settings 5000000 (ex_bearer ex_deputy_id) (revoked_tokens ex_reset_db)
     (accounts ex_reset_db) = Inl unauthorized"
proof (rule access_change_ends_sessions [OF ex_nobody_fresh, of ex_signer ex_lib ex_settings
      "ex_account_env ex_staffed 4000000 ex_jti" ex_deputy_id ex_deputy "ex_bearer ex_root_id" ex_reset "''key-2''"])
  show "decode_access_token ex_lib ex_settings 5000000 (ex_token ex_deputy_id 2000000) = Inr (ex_claims ex_deputy_id 2000000)"
    by (rule ex_token_decodes) simp_all
  show "reset_user_password ex_signer ex_lib ex_settings (ex_account_env ex_staffed 4000000 ex_jti)
      (ex_bearer ex_root_id) ex_deputy_id ex_reset ''key-2'' = (Inr (to_read ex_deputy_reset, False), ex_reset_db) \<or>
    update_user_access ex_signer ex_lib ex_settings (ex_account_env ex_staffed 4000000 ex_jti)
      (ex_bearer ex_root_id) ex_deputy_id access ''key-2'' = (Inr (to_read ex_deputy_reset, False), ex_reset_db) \<and>
      (ur_role ex_deputy \<noteq> ux_role access \<or> ur_disabled ex_deputy \<noteq> (\<not> ux_active access))" for access
    using ex_reset_run(1) by blast
qed (simp_all add: ex_service_runs ex_create_run ex_claims_def)

text \<open>
  C20. A token its bearer has signed out with authenticates nobody any more, at any later time and in any
  later state, when no constraint but the primary key of the revocations fails.
\<close>

theorem logout_is_final:
  assumes "jwt_stable lib" "fresh_service s0" "(service_step pf lib st)\<^sup>*\<^sup>* s0 (aq_locked env)"
    and logout: "logout lib st env (Some (scheme, token)) = (Inr (), s')" and "aq_outcome env \<noteq> Integrity"
    and later: "(service_step pf lib st)\<^sup>*\<^sup>* s' t"
  shows "require_user_auth lib st now (Some (scheme', token)) (revoked_tokens t) (accounts t) \<noteq> Inr x"
proof
  assume "require_user_auth lib st now (Some (scheme', token)) (revoked_tokens t) (accounts t) = Inr x"
  then obtain user' claims' where x: "require_user_auth lib st now (Some (scheme', token)) (revoked_tokens t)
      (accounts t) = Inr (user', claims')" by (cases x) auto
  have ok: "accounts_ok (aq_locked env)"
    using service.reachable_inv [OF assms(2,3)] by (simp add: service_ok_def)
  then have "accounts_forward s' t"
    using logout_effect [OF logout] service_run [OF later] unfolding service_effect_def by blast
  from logout obtain user claims where auth: "authenticate lib st env (Some (scheme, token)) = Inr (user, claims)"
    by (cases "authenticate lib st env (Some (scheme, token))") (auto simp: logout_def)
  have "claims' = claims"
    using x auth decode_stable [OF assms(1)] unfolding authenticate_def require_user_auth_iff by blast
  then have "decode_access_token lib st now token = Inr claims" "map lower_char scheme' = ''bearer''"
    using x unfolding require_user_auth_iff by blast+
  from revoked_token_refused [OF \<open>accounts_forward s' t\<close> committed_logout [OF logout assms(5) auth] this] x
  show False by simp
qed

theorem logout_is_final_witness:
  "require_user_auth ex_lib ex_settings 6000000 (ex_bearer ex_root_id)
     (revoked_tokens (snd (logout ex_lib ex_settings (ex_account_env ex_staffed 5000000 ex_jti) (ex_bearer ex_root_id))))
     (accounts (snd (logout ex_lib ex_settings (ex_account_env ex_staffed 5000000 ex_jti) (ex_bearer ex_root_id)))) \<noteq>
   Inr (ex_root, ex_claims ex_root_id 2000000)"
proof (rule logout_is_final [OF ex_jwt_stable ex_nobody_fresh, of ex_signer])
  show "logout ex_lib ex_settings (ex_account_env ex_staffed 5000000 ex_jti) (ex_bearer ex_root_id) =
      (Inr (), snd (logout ex_lib ex_settings (ex_account_env ex_staffed 5000000 ex_jti) (ex_bearer ex_root_id)))"
    using ex_root_authenticates [of ex_staffed 5000000 ex_jti]
    by (simp add: logout_def ex_create_run Let_def ex_claims_def)
qed (simp_all add: ex_service_runs)

section \<open>Requests sent again\<close>

text \<open>
  A creation that committed and is sent again, with the same key by the same administrator, is
  answered with the stored account and creates nothing, whatever has happened in between.
\<close>

theorem resent_creation_replays:
  assumes "fresh_service s0" "(service_step pf lib st)\<^sup>*\<^sup>* s0 (aq_locked env)"
    and first: "create_user pf lib st env cred request key = (Inr (res, False), s')"
    and later: "(service_step pf lib st)\<^sup>*\<^sup>* s' (aq_seen env')"
    and same: "authenticate lib st env cred = Inr (admin, claims)"
      "authenticate lib st env' cred' = Inr (admin', claims')" "ur_id admin' = ur_id admin" "ur_role admin' = ''admin''"
  shows "create_user pf lib st env' cred' request key = (Inr (res, True), aq_locked env')"
proof -
  have ok: "accounts_ok (aq_locked env)"
    using service.reachable_inv [OF assms(1,2)] by (simp add: service_ok_def)
  have "accounts_ok s'" using create_user_effect [OF first ok] by (simp add: service_effect_def)
  then have ops: "prefix (user_operations s') (user_operations (aq_seen env'))"
    using service_run [OF later] by (simp add: accounts_forward_def)
  define payload where "payload = the (valid_create lib request)"
  define rq where "rq = account_request_of pf st admin Op_Create ''new'' (create_document payload) key"
  have rq': "account_request_of pf st admin' Op_Create ''new'' (create_document payload) key = rq"
    using same(3) by (simp add: rq_def account_request_of_def)
  have valid: "valid_create lib request \<noteq> None" "idempotency_key_ok key" and
    run: "lifecycle_mutation env rq (new_password lib (aq_salt env) (uc_password payload) (uc_email payload))
      (create_work env payload) create_commit_error = (Inr (res, False), s')"
    using first same(1)
    by (auto simp: create_user_def as_admin_def require_admin_user_def payload_def rq_def Let_def split: if_splits)
  show ?thesis
    using creation.mutation_replays [OF run ops] valid same(2,4) rq'
    by (simp add: create_user_def as_admin_def require_admin_user_def payload_def [symmetric] Let_def)
qed

theorem resent_creation_replays_witness:
  "create_user ex_signer ex_lib ex_settings (ex_account_env ex_reset_db 6000000 ex_jti) (ex_bearer ex_root_id)
     ex_new_deputy ''key-1'' = (Inr (to_read ex_deputy, True), ex_reset_db)"
proof -
  have "create_user ex_signer ex_lib ex_settings (ex_account_env ex_reset_db 6000000 ex_jti) (ex_bearer ex_root_id)
     ex_new_deputy ''key-1'' = (Inr (to_read ex_deputy, True), aq_locked (ex_account_env ex_reset_db 6000000 ex_jti))"
    by (rule resent_creation_replays [OF ex_nobody_fresh _ ex_create_run(1) _
          ex_root_authenticates [of ex_signed_in] ex_root_authenticates])
      (use ex_service_runs ex_service_steps(4) in \<open>simp_all add: ex_reset_run r_into_rtranclp\<close>)
  then show ?thesis by simp
qed

section \<open>Accounts and the registry\<close>

text \<open>
  C30. A reviewer whose access was changed or whose password was reset commits nothing in the model
  registry under the old token: none of the three mutations, prepared before the change, goes through
  after it.
\<close>

theorem access_change_stops_registry:
  assumes "fresh_service s0" "(service_step pf lib st)\<^sup>*\<^sup>* s0 (aq_locked env)"
    and u: "get_row ur_id i (accounts (aq_locked env)) = Some u"
    and change: "reset_user_password pf lib st env cred i reset key = (Inr (res, False), s') \<or>
      update_user_access pf lib st env cred i access key = (Inr (res, False), s') \<and>
        (ur_role u \<noteq> ux_role access \<or> ur_disabled u \<noteq> (\<not> ux_active access))"
    and later: "(service_step pf lib st)\<^sup>*\<^sup>* s' t"
    and request: "rq_locked rq = store t" "ur_id actor = i" "v \<le> ur_access_token_version u"
  shows "create_candidate pf st storage rq e actor v payload rkey path \<noteq> (Inr (x, False), s'') \<and>
    promote_entry pf st storage rq e entry_id actor v pr_payload rkey path \<noteq> (Inr (x, False), s'') \<and>
    revoke_entry pf st rq e entry_id actor v rv_payload rkey path \<noteq> (Inr (x, False), s'')"
proof (rule ccontr)
  assume "\<not> ?thesis"
  then have "create_candidate pf st storage rq e actor v payload rkey path = (Inr (x, False), s'') \<or>
    promote_entry pf st storage rq e entry_id actor v pr_payload rkey path = (Inr (x, False), s'') \<or>
    revoke_entry pf st rq e entry_id actor v rv_payload rkey path = (Inr (x, False), s'')" by blast
  from registry_checks_version [OF this] request(1,2) obtain a where
    a: "get_row ur_id i (accounts t) = Some a" "ur_access_token_version a = v" by auto
  have ok: "accounts_ok (aq_locked env)"
    using service.reachable_inv [OF assms(1,2)] by (simp add: service_ok_def)
  have "accounts_ok s'"
    using change reset_user_password_effect [OF _ ok] update_user_access_effect [OF _ ok]
    unfolding service_effect_def by blast
  then have forward: "accounts_forward s' t" using service_run [OF later] by blast
  obtain w where w: "get_row ur_id i (accounts s') = Some w"
    "ur_access_token_version w = ur_access_token_version u + 1"
    using change committed_reset [OF _ u] committed_access [OF _ u] by blast
  from forward_user [OF forward w(1)] a w(2) request(3) show False by (auto simp: user_evolves_def)
qed

theorem access_change_stops_registry_witness:
  "\<forall>x s''. revoke_entry ex_signer ex_settings (ex_registry_env (store ex_reset_db) ''n9'') ''exp-1'' ''n1'' ex_deputy 1
     ex_revoke ''key-9'' ''/revoke'' \<noteq> (Inr (x, False), s'')"
proof -
  have run: "ex_service_step\<^sup>*\<^sup>* ex_nobody (aq_locked (ex_account_env ex_staffed 4000000 ex_jti))"
    "get_row ur_id ex_deputy_id (accounts (aq_locked (ex_account_env ex_staffed 4000000 ex_jti))) = Some ex_deputy"
    by (simp_all add: ex_service_runs ex_create_run)
  show ?thesis
    using access_change_stops_registry [OF ex_nobody_fresh run disjI1 [OF ex_reset_run(1)] rtranclp.rtrancl_refl,
        of "ex_registry_env (store ex_reset_db) ''n9''" ex_deputy 1]
    by (simp add: ex_registry_env_def)
qed

end
