(* ===== verification/Base64.thy ===== *)
theory Base64
  imports Prelude
begin

text \<open>
  The parts of \<^verbatim>\<open>base64\<close> the log cursor uses: \<^verbatim>\<open>urlsafe_b64encode\<close> without its padding, and
  \<^verbatim>\<open>b64decode\<close> with the alternative characters and \<^verbatim>\<open>validate=True\<close>, which is the strict scan of
  \<^verbatim>\<open>binascii.a2b_base64\<close>. Shown: what was encoded is read back.
\<close>

section \<open>The alphabet\<close>

definition sextet_char :: "nat \<Rightarrow> char" where
  "sextet_char v =
     (if v < 26 then char_of (65 + v) else if v < 52 then char_of (71 + v)
      else if v < 62 then char_of (v - 4) else if v = 62 then CHR ''-'' else CHR ''_'')"

text \<open>
  The characters after the translation of \<^verbatim>\<open>-_\<close> to \<^verbatim>\<open>+/\<close>: both spellings of the last two are read.
\<close>

definition sextet_of :: "char \<Rightarrow> nat option" where
  "sextet_of c =
     (if is_upper c then Some (of_char c - 65) else if is_lower c then Some (of_char c - 71)
      else if is_digit c then Some (of_char c + 4)
      else if c = CHR ''-'' \<or> c = CHR ''+'' then Some 62
      else if c = CHR ''_'' \<or> c = CHR ''/'' then Some 63 else None)"

lemma sextet_roundtrip: "v < 64 \<Longrightarrow> sextet_of (sextet_char v) = Some v"
  by (auto simp: sextet_of_def sextet_char_def char_class_defs of_char_of)

lemma sextet_char_not_pad: "sextet_char v \<noteq> CHR ''=''"
proof -
  have "of_char (sextet_char v) \<noteq> (61 :: nat)" by (auto simp: sextet_char_def of_char_of)
  then show ?thesis by auto
qed

section \<open>Encoding\<close>

abbreviation byte :: "char \<Rightarrow> nat" where "byte c \<equiv> of_char c"

fun b64encode :: "string \<Rightarrow> string" where
  "b64encode [] = []"
| "b64encode [a] = [sextet_char (byte a div 4), sextet_char (byte a mod 4 * 16), CHR ''='', CHR ''='']"
| "b64encode [a, b] =
     [sextet_char (byte a div 4), sextet_char (byte a mod 4 * 16 + byte b div 16),
      sextet_char (byte b mod 16 * 4), CHR ''='']"
| "b64encode (a # b # c # s) =
     sextet_char (byte a div 4) # sextet_char (byte a mod 4 * 16 + byte b div 16) #
     sextet_char (byte b mod 16 * 4 + byte c div 64) # sextet_char (byte c mod 64) # b64encode s"

definition rstrip_pad :: "string \<Rightarrow> string" where
  "rstrip_pad s = rev (dropWhile (\<lambda>c. c = CHR ''='') (rev s))"

section \<open>Decoding\<close>

text \<open>
  The scan: the position in the group of four, the bits left over, the padding characters read, and
  whether padding has started.
\<close>

fun b64scan :: "nat \<Rightarrow> nat \<Rightarrow> nat \<Rightarrow> bool \<Rightarrow> string \<Rightarrow> string option" where
  "b64scan pos left pads started [] = (if pos = 0 then Some [] else None)"
| "b64scan pos left pads started (c # cs) =
     (if c = CHR ''='' then
        (if pos \<ge> 2 \<and> pos + (pads + 1) \<ge> 4 then (if cs = [] then Some [] else None)
         else b64scan pos left (if pos \<ge> 2 then pads + 1 else pads) True cs)
      else case sextet_of c of
        None \<Rightarrow> None
      | Some v \<Rightarrow>
          if started then None
          else if pos = 0 then b64scan 1 v 0 False cs
          else if pos = 1 then map_option ((#) (char_of (left * 4 + v div 16))) (b64scan 2 (v mod 16) 0 False cs)
          else if pos = 2 then map_option ((#) (char_of (left * 16 + v div 4))) (b64scan 3 (v mod 4) 0 False cs)
          else map_option ((#) (char_of (left * 64 + v))) (b64scan 0 0 0 False cs))"

definition b64decode :: "string \<Rightarrow> string option" where
  "b64decode s = (if s \<noteq> [] \<and> hd s = CHR ''='' then None else b64scan 0 0 0 False s)"

section \<open>The round trip\<close>

lemma scan_sextet:
  assumes "v < 64"
  shows "b64scan 0 l p False (sextet_char v # cs) = b64scan (Suc 0) v 0 False cs"
    "b64scan (Suc 0) l p False (sextet_char v # cs) =
       map_option ((#) (char_of (l * 4 + v div 16))) (b64scan 2 (v mod 16) 0 False cs)"
    "b64scan 2 l p False (sextet_char v # cs) =
       map_option ((#) (char_of (l * 16 + v div 4))) (b64scan 3 (v mod 4) 0 False cs)"
    "b64scan 3 l p False (sextet_char v # cs) = map_option ((#) (char_of (l * 64 + v))) (b64scan 0 0 0 False cs)"
  using assms by (simp_all add: sextet_roundtrip sextet_char_not_pad)

lemma sextet_bounds:
  "byte a div 4 < 64" "byte a mod 4 * 16 < 64" "byte a mod 4 * 16 + byte b div 16 < 64" "byte b mod 16 * 4 < 64"
  "byte b mod 16 * 4 + byte c div 64 < 64" "byte c mod 64 < 64"
  using nat_of_char_less_256 [of a] nat_of_char_less_256 [of b] nat_of_char_less_256 [of c] by linarith+

lemma sextet_bits:
  "(x * 16 + byte b div 16) div 16 = x" "(x * 16 + byte b div 16) mod 16 = byte b div 16"
  "(x * 4 + byte c div 64) div 4 = x" "(x * 4 + byte c div 64) mod 4 = byte c div 64"
proof -
  have "byte b div 16 < 16" "byte c div 64 < 4"
    using nat_of_char_less_256 [of b] nat_of_char_less_256 [of c] by linarith+
  then show "(x * 16 + byte b div 16) div 16 = x" "(x * 16 + byte b div 16) mod 16 = byte b div 16"
    "(x * 4 + byte c div 64) div 4 = x" "(x * 4 + byte c div 64) mod 4 = byte c div 64" by simp_all
qed

lemma b64scan_encode: "b64scan 0 l p False (b64encode s) = Some s"
proof (induction s arbitrary: l p rule: b64encode.induct)
  case (2 a)
  show ?case
    by (simp only: b64encode.simps scan_sextet sextet_bounds)
      (simp add: div_mult_mod_eq)
next
  case (3 a b)
  show ?case
    by (simp only: b64encode.simps scan_sextet sextet_bounds sextet_bits)
      (simp add: div_mult_mod_eq)
next
  case (4 a b c s)
  show ?case
    by (simp only: b64encode.simps scan_sextet sextet_bounds sextet_bits 4)
      (simp add: div_mult_mod_eq)
qed simp

text \<open>Stripping the padding and padding again to a multiple of four gives the padded text.\<close>

definition pad4 :: "string \<Rightarrow> string" where
  "pad4 s = s @ replicate ((4 - length s mod 4) mod 4) (CHR ''='')"

lemma rstrip_pad_Cons: "c \<noteq> CHR ''='' \<Longrightarrow> rstrip_pad (c # s) = c # rstrip_pad s"
  by (cases "\<forall>d \<in> set s. d = CHR ''=''") (auto simp: rstrip_pad_def dropWhile_append)

lemma pad4_rstrip: "pad4 (rstrip_pad (b64encode s)) = b64encode s"
proof (induction s rule: b64encode.induct)
  case (4 a b c s)
  then show ?case by (simp add: rstrip_pad_Cons sextet_char_not_pad pad4_def)
qed (simp_all add: rstrip_pad_def sextet_char_not_pad pad4_def numeral_2_eq_2)

lemma b64decode_encode: "b64decode (pad4 (rstrip_pad (b64encode s))) = Some s"
proof -
  have "hd (b64encode s) \<noteq> CHR ''=''" if "b64encode s \<noteq> []"
    using that by (cases s rule: b64encode.cases) (simp_all add: sextet_char_not_pad)
  then show ?thesis by (auto simp: b64decode_def pad4_rstrip b64scan_encode)
qed

lemma length_b64encode: "length (b64encode s) = 4 * ((length s + 2) div 3)"
proof (induction s rule: b64encode.induct)
  case (4 a b c s)
  have "(length s + 2 + 3) div 3 = (length s + 2) div 3 + 1" by simp
  with 4 show ?case by (simp add: algebra_simps)
qed simp_all

lemma length_rstrip_pad: "length (rstrip_pad s) \<le> length s"
  unfolding rstrip_pad_def using length_dropWhile_le [of _ "rev s"] by simp

lemma rstrip_b64encode_nonempty: "s \<noteq> [] \<Longrightarrow> rstrip_pad (b64encode s) \<noteq> []"
  by (cases s rule: b64encode.cases) (simp_all add: rstrip_pad_Cons sextet_char_not_pad)

end
