(* ===== verification/Log_Query.thy ===== *)
theory Log_Query
  imports Accounts Telemetry_Ingest Jobs_Api Base64
begin

text \<open>
  Reading the telemetry of a job: cursors, filters and pages of log records
  (\<^verbatim>\<open>services/job_observability.py\<close>), the listing of logs and metrics and the event stream of logs
  (\<^verbatim>\<open>routers/job_observability.py\<close>).

  The primary key of a log or metric row is not a column of the ledger's rows; it is the argument
  \<open>ids\<close>. \<^verbatim>\<open>json.loads\<close> is the argument \<open>loads\<close>, \<open>None\<close> when it raises. Strings are compared as the
  database compares them in its C collation. The response headers are left out.
\<close>

section \<open>Cursors\<close>

record log_cursor =
  cu_attempt_number :: int
  cu_sequence :: int
  cu_log_id :: ident

definition cursor_document :: "log_cursor \<Rightarrow> json" where
  "cursor_document c = JList [JStr ''v1'', JInt (cu_attempt_number c), JInt (cu_sequence c), JStr (cu_log_id c)]"

definition encode_log_cursor :: "platform \<Rightarrow> log_cursor \<Rightarrow> string" where
  "encode_log_cursor pf c = rstrip_pad (b64encode (render (float_repr pf) (cursor_document c)))"

text \<open>\<open>None\<close> is \<^verbatim>\<open>InvalidLogCursor\<close>.\<close>

definition decode_log_cursor :: "(string \<Rightarrow> json option) \<Rightarrow> string \<Rightarrow> log_cursor option" where
  "decode_log_cursor loads text =
     (case Option.bind (b64decode (pad4 text)) loads of
        Some (JList [JStr tag, JInt attempt_number, JInt seq, JStr log_id]) \<Rightarrow>
          if tag \<noteq> ''v1'' \<or> attempt_number < 1 \<or> seq < 0 \<or> \<not> uuid_ok log_id then None
          else Some \<lparr>cu_attempt_number = attempt_number, cu_sequence = seq, cu_log_id = log_id\<rparr>
      | _ \<Rightarrow> None)"

text \<open>
  What \<^verbatim>\<open>json\<close> documents of the documents a cursor is made of: reading inverts writing. Identifiers are
  written in hexadecimal digits and hyphens.
\<close>

definition canonical_id :: "ident \<Rightarrow> bool" where
  "canonical_id i \<longleftrightarrow> list_all (\<lambda>c. is_hex c \<or> c = CHR ''-'') i"

definition loads_cursors :: "platform \<Rightarrow> (string \<Rightarrow> json option) \<Rightarrow> bool" where
  "loads_cursors pf loads \<longleftrightarrow> (\<forall>c. canonical_id (cu_log_id c) \<longrightarrow>
     loads (render (float_repr pf) (cursor_document c)) = Some (cursor_document c))"

definition cursor_ok :: "log_cursor \<Rightarrow> bool" where
  "cursor_ok c \<longleftrightarrow> 1 \<le> cu_attempt_number c \<and> 0 \<le> cu_sequence c \<and> uuid_ok (cu_log_id c)"

lemma decode_encode_cursor:
  assumes "loads_cursors pf loads" "cursor_ok c" "canonical_id (cu_log_id c)"
  shows "decode_log_cursor loads (encode_log_cursor pf c) = Some c"
  using assms
  by (simp add: decode_log_cursor_def encode_log_cursor_def b64decode_encode loads_cursors_def cursor_document_def
      cursor_ok_def)

lemma decoded_cursor_ok:
  assumes "decode_log_cursor loads text = Some c"
  shows "cursor_ok c"
  using assms
  by (auto simp: decode_log_cursor_def cursor_ok_def split: option.splits json.splits list.splits if_splits)

section \<open>Filters and pages\<close>

record job_log_filters =
  fl_attempt_id :: "ident option"
  fl_sequence_gte :: "int option"
  fl_sequence_lte :: "int option"
  fl_occurred_at_gte :: "datetime option"
  fl_occurred_at_lte :: "datetime option"

record job_log_record =
  jr_log :: job_log_row
  jr_attempt_number :: int

type_synonym log_ids = "job_log_row \<Rightarrow> ident"

definition record_cursor :: "log_ids \<Rightarrow> job_log_record \<Rightarrow> log_cursor" where
  "record_cursor ids r =
     \<lparr>cu_attempt_number = jr_attempt_number r, cu_sequence = lg_sequence (jr_log r), cu_log_id = ids (jr_log r)\<rparr>"

definition unless_set :: "'a option \<Rightarrow> ('a \<Rightarrow> bool) \<Rightarrow> bool" where
  "unless_set x P = (case x of None \<Rightarrow> True | Some y \<Rightarrow> P y)"

definition filter_conditions :: "ident \<Rightarrow> job_log_filters \<Rightarrow> job_log_row \<Rightarrow> bool" where
  "filter_conditions job_id filters l \<longleftrightarrow> lg_job_id l = job_id \<and>
     unless_set (fl_attempt_id filters) (\<lambda>a. lg_attempt_id l = a) \<and>
     unless_set (fl_sequence_gte filters) (\<lambda>n. lg_sequence l \<ge> n) \<and>
     unless_set (fl_sequence_lte filters) (\<lambda>n. lg_sequence l \<le> n) \<and>
     unless_set (fl_occurred_at_gte filters) (\<lambda>t. lg_occurred_at l \<ge> t) \<and>
     unless_set (fl_occurred_at_lte filters) (\<lambda>t. lg_occurred_at l \<le> t)"

definition after_condition :: "log_ids \<Rightarrow> log_cursor \<Rightarrow> job_log_record \<Rightarrow> bool" where
  "after_condition ids c r \<longleftrightarrow>
     jr_attempt_number r > cu_attempt_number c \<or>
     jr_attempt_number r = cu_attempt_number c \<and> lg_sequence (jr_log r) > cu_sequence c \<or>
     jr_attempt_number r = cu_attempt_number c \<and> lg_sequence (jr_log r) = cu_sequence c \<and>
       ids (jr_log r) > cu_log_id c"

text \<open>The join of the log rows with their attempts.\<close>

definition joined_logs :: "ledger \<Rightarrow> job_log_record list" where
  "joined_logs d = List.map_filter (\<lambda>l.
     map_option (\<lambda>a. \<lparr>jr_log = l, jr_attempt_number = a_attempt_number a\<rparr>)
       (get_row a_id (lg_attempt_id l) (job_attempts d))) (job_logs d)"

definition count_job_logs :: "ident \<Rightarrow> job_log_filters \<Rightarrow> ledger \<Rightarrow> nat" where
  "count_job_logs job_id filters d =
     length (filter (\<lambda>r. filter_conditions job_id filters (jr_log r)) (joined_logs d))"

definition log_order :: "log_ids \<Rightarrow> job_log_record \<Rightarrow> int \<times> int \<times> string" where
  "log_order ids r = (jr_attempt_number r, lg_sequence (jr_log r), ids (jr_log r))"

definition fetch_job_logs ::
  "log_ids \<Rightarrow> ident \<Rightarrow> job_log_filters \<Rightarrow> log_cursor option \<Rightarrow> nat \<Rightarrow> bool \<Rightarrow> ledger \<Rightarrow>
   job_log_record list \<times> bool" where
  "fetch_job_logs ids job_id filters after limit tail d =
     (let matching = filter (\<lambda>r. filter_conditions job_id filters (jr_log r) \<and>
            unless_set after (\<lambda>c. after_condition ids c r)) (joined_logs d);
          ordered = (if tail then rev (sort_key (log_order ids) matching) else sort_key (log_order ids) matching);
          rows = take (limit + 1) ordered;
          has_more = length rows > limit;
          records = take limit rows in
      (if tail then rev records else records, has_more))"

record job_log_read =
  jl_id :: ident
  jl_job_id :: ident
  jl_attempt_id :: ident
  jl_attempt_number :: int
  jl_sequence :: int
  jl_level :: log_level
  jl_message :: string
  jl_fields :: json
  jl_occurred_at :: datetime

definition job_log_to_read :: "text_tools \<Rightarrow> log_ids \<Rightarrow> job_log_record \<Rightarrow> job_log_read" where
  "job_log_to_read tt ids r =
     \<lparr>jl_id = ids (jr_log r), jl_job_id = lg_job_id (jr_log r), jl_attempt_id = lg_attempt_id (jr_log r),
      jl_attempt_number = jr_attempt_number r, jl_sequence = lg_sequence (jr_log r),
      jl_level = lg_level (jr_log r), jl_message = redact_text tt (lg_message (jr_log r)),
      jl_fields = redact_log_fields tt 0 (lg_fields_json (jr_log r)), jl_occurred_at = lg_occurred_at (jr_log r)\<rparr>"

section \<open>The listing of logs\<close>

definition principal :: "user_row \<Rightarrow> api_user" where
  "principal u = \<lparr>usr_id = ur_id u, usr_role = ur_role u\<rparr>"

definition decode_cursor_or_422 :: "(string \<Rightarrow> json option) \<Rightarrow> string option \<Rightarrow> log_cursor option res" where
  "decode_cursor_or_422 loads text =
     (case text of
        None \<Rightarrow> Inr None
      | Some v \<Rightarrow>
          (case decode_log_cursor loads v of
             None \<Rightarrow> Inl (HTTPException 422 ''invalid log cursor'') | Some c \<Rightarrow> Inr (Some c)))"

text \<open>A time of the query, and whether it carries a timezone.\<close>

definition aware_utc_or_422 :: "(datetime \<times> bool) option \<Rightarrow> string \<Rightarrow> datetime option res" where
  "aware_utc_or_422 time field =
     (case time of
        None \<Rightarrow> Inr None
      | Some (t, aware) \<Rightarrow>
          if aware then Inr (Some t) else Inl (HTTPException 422 (field @ '' must include a timezone'')))"

definition exceeds :: "int option \<Rightarrow> int option \<Rightarrow> bool" where
  "exceeds low high = (case (low, high) of (Some a, Some b) \<Rightarrow> a > b | _ \<Rightarrow> False)"

definition validate_log_ranges :: "job_log_filters \<Rightarrow> unit res" where
  "validate_log_ranges filters =
     checked
       [(exceeds (fl_sequence_gte filters) (fl_sequence_lte filters),
           HTTPException 422 ''sequence_gte must not exceed sequence_lte''),
        (exceeds (fl_occurred_at_gte filters) (fl_occurred_at_lte filters),
           HTTPException 422 ''occurred_at_gte must not exceed occurred_at_lte'')] ()"

record log_query =
  lo_attempt_id :: "ident option"
  lo_sequence_gte :: "int option"
  lo_sequence_lte :: "int option"
  lo_occurred_at_gte :: "(datetime \<times> bool) option"
  lo_occurred_at_lte :: "(datetime \<times> bool) option"
  lo_after :: "string option"
  lo_tail :: bool
  lo_limit :: nat

definition text_within :: "nat \<Rightarrow> string option \<Rightarrow> bool" where
  "text_within n x = unless_set x (\<lambda>s. 1 \<le> str_len s \<and> str_len s \<le> n)"

definition log_query_ok :: "log_query \<Rightarrow> bool" where
  "log_query_ok q \<longleftrightarrow> text_within 128 (lo_attempt_id q) \<and> unless_set (lo_sequence_gte q) (\<lambda>n. 0 \<le> n) \<and>
     unless_set (lo_sequence_lte q) (\<lambda>n. 0 \<le> n) \<and> text_within 512 (lo_after q) \<and>
     1 \<le> lo_limit q \<and> lo_limit q \<le> 500"

record job_log_list =
  ll_items :: "job_log_read list"
  ll_total :: nat
  ll_limit :: nat
  ll_has_more :: bool
  ll_next_cursor :: "string option"

definition list_job_logs ::
  "platform \<Rightarrow> text_tools \<Rightarrow> (string \<Rightarrow> json option) \<Rightarrow> log_ids \<Rightarrow> user_row \<Rightarrow> ident \<Rightarrow> log_query \<Rightarrow> ledger \<Rightarrow>
   job_log_list res" where
  "list_job_logs pf tt loads ids user job_id q d =
     (if \<not> log_query_ok q then Inl invalid_request
      else res_bind (require_job_owner_or_admin job_id (principal user) d) (\<lambda>_.
        if lo_tail q \<and> lo_after q \<noteq> None then Inl (HTTPException 422 ''tail and after cannot be combined'')
        else res_bind (aware_utc_or_422 (lo_occurred_at_gte q) ''occurred_at_gte'') (\<lambda>gte.
          res_bind (aware_utc_or_422 (lo_occurred_at_lte q) ''occurred_at_lte'') (\<lambda>lte.
            let filters = \<lparr>fl_attempt_id = lo_attempt_id q, fl_sequence_gte = lo_sequence_gte q,
                  fl_sequence_lte = lo_sequence_lte q, fl_occurred_at_gte = gte, fl_occurred_at_lte = lte\<rparr> in
            res_bind (validate_log_ranges filters) (\<lambda>_.
              res_bind (decode_cursor_or_422 loads (lo_after q)) (\<lambda>cursor.
                case fetch_job_logs ids job_id filters cursor (lo_limit q) (lo_tail q) d of
                  (records, has_more) \<Rightarrow>
                    Inr \<lparr>ll_items = map (job_log_to_read tt ids) records,
                         ll_total = count_job_logs job_id filters d, ll_limit = lo_limit q,
                         ll_has_more = has_more,
                         ll_next_cursor = (if records = [] then lo_after q
                           else Some (encode_log_cursor pf (record_cursor ids (last records))))\<rparr>))))))"

text \<open>A cursor of ordinary size can be sent back.\<close>

lemma encoded_cursor_within:
  assumes "length (render (float_repr pf) (cursor_document c)) \<le> 384"
  shows "text_within 512 (Some (encode_log_cursor pf c))"
proof -
  let ?raw = "render (float_repr pf) (cursor_document c)"
  have "length (encode_log_cursor pf c) \<le> 4 * ((384 + 2) div 3)"
    unfolding encode_log_cursor_def
    using length_rstrip_pad [of "b64encode ?raw"] div_le_mono [of "length ?raw + 2" "384 + 2" 3] assms
    unfolding length_b64encode by linarith
  moreover have "encode_log_cursor pf c \<noteq> []"
    unfolding encode_log_cursor_def by (rule rstrip_b64encode_nonempty) (simp add: cursor_document_def)
  ultimately show ?thesis
    using str_len_le [of "encode_log_cursor pf c"] str_len_pos [of "encode_log_cursor pf c"]
    by (simp add: text_within_def unless_set_def)
qed

section \<open>The listing of metrics\<close>

record metric_query =
  mq_attempt_id :: "ident option"
  mq_key :: "string option"
  mq_epoch :: "int option"
  mq_step :: "int option"
  mq_offset :: nat
  mq_tail :: bool
  mq_limit :: nat

definition metric_query_ok :: "metric_query \<Rightarrow> bool" where
  "metric_query_ok q \<longleftrightarrow> text_within 128 (mq_attempt_id q) \<and> text_within 128 (mq_key q) \<and>
     unless_set (mq_key q) (list_all is_name_char) \<and> unless_set (mq_epoch q) (\<lambda>n. 0 \<le> n) \<and>
     unless_set (mq_step q) (\<lambda>n. 0 \<le> n) \<and> 1 \<le> mq_limit q \<and> mq_limit q \<le> 500"

definition metric_conditions :: "ident \<Rightarrow> metric_query \<Rightarrow> metric_row \<Rightarrow> bool" where
  "metric_conditions job_id q m \<longleftrightarrow> m_job_id m = job_id \<and>
     unless_set (mq_attempt_id q) (\<lambda>a. m_attempt_id m = a) \<and> unless_set (mq_key q) (\<lambda>k. m_key m = k) \<and>
     unless_set (mq_epoch q) (\<lambda>n. m_epoch m = Some n) \<and> unless_set (mq_step q) (\<lambda>n. m_step m = Some n)"

record metric_list =
  ml_items :: "(metric_row \<times> int) list"
  ml_total :: nat
  ml_offset :: nat
  ml_limit :: nat

definition list_job_metrics ::
  "(metric_row \<Rightarrow> ident) \<Rightarrow> user_row \<Rightarrow> ident \<Rightarrow> metric_query \<Rightarrow> ledger \<Rightarrow> metric_list res" where
  "list_job_metrics ids user job_id q d =
     (if \<not> metric_query_ok q then Inl invalid_request
      else res_bind (require_job_owner_or_admin job_id (principal user) d) (\<lambda>_.
        if mq_tail q \<and> mq_offset q \<noteq> 0 then Inl (HTTPException 422 ''tail and offset cannot be combined'')
        else
          (let matching = filter (metric_conditions job_id q) (metrics d);
               joined = List.map_filter (\<lambda>m. map_option (\<lambda>a. (m, a_attempt_number a))
                 (get_row a_id (m_attempt_id m) (job_attempts d))) matching;
               ordered = sort_key (\<lambda>(m, n). (n, m_sequence m, ids m)) joined;
               rows = (if mq_tail q then rev (take (mq_limit q) (rev ordered))
                 else take (mq_limit q) (drop (mq_offset q) ordered)) in
           Inr \<lparr>ml_items = rows, ml_total = length matching,
                ml_offset = (if mq_tail q then length matching - length rows else mq_offset q),
                ml_limit = mq_limit q\<rparr>)))"

section \<open>The event stream\<close>

text \<open>The settings of the stream, of \<^verbatim>\<open>config.py\<close>; times are in seconds.\<close>

record stream_settings =
  log_stream_heartbeat_seconds :: rat
  log_stream_max_connection_seconds :: rat
  log_stream_batch_limit :: nat

definition stream_access_is_active :: "ident \<Rightarrow> ident \<Rightarrow> ident \<Rightarrow> manager_db \<Rightarrow> bool" where
  "stream_access_is_active user_id token_jti job_id s \<longleftrightarrow>
     get_row rt_jti token_jti (revoked_tokens s) = None \<and>
     (case get_row ur_id user_id (accounts s) of
        None \<Rightarrow> False
      | Some user \<Rightarrow> \<not> ur_disabled user \<and>
          (case require_job_owner_or_admin job_id (principal user) (base (store s)) of
             Inl _ \<Rightarrow> False | Inr _ \<Rightarrow> True))"

record log_stream =
  so_user_id :: ident
  so_token_jti :: ident
  so_job_id :: ident
  so_filters :: job_log_filters
  so_cursor :: "log_cursor option"
  so_max_duration :: rat

definition stream_job_logs ::
  "(string \<Rightarrow> json option) \<Rightarrow> stream_settings \<Rightarrow> datetime \<Rightarrow> (user_row \<times> access_token_claims) res \<Rightarrow> ident \<Rightarrow>
   ident option \<Rightarrow> string option \<Rightarrow> string option \<Rightarrow> manager_db \<Rightarrow> log_stream res" where
  "stream_job_logs loads sst now auth job_id attempt after last_event_id s =
     res_bind auth (\<lambda>(user, claims).
       if \<not> (text_within 128 attempt \<and> text_within 512 after \<and> text_within 512 last_event_id)
       then Inl invalid_request
       else res_bind (require_job_owner_or_admin job_id (principal user) (base (store s))) (\<lambda>_.
         if after \<noteq> None \<and> last_event_id \<noteq> None \<and> after \<noteq> last_event_id
         then Inl (HTTPException 422 ''after and Last-Event-ID must match'')
         else res_bind (decode_cursor_or_422 loads (if after = None then last_event_id else after)) (\<lambda>cursor.
           let token_remaining = of_int (tc_expires_at claims - now) / 1000000;
               max_duration = min (log_stream_max_connection_seconds sst) token_remaining in
           if max_duration \<le> 0 then Inl (HTTPException 401 ''access token expired for stream'')
           else Inr \<lparr>so_user_id = ur_id user, so_token_jti = tc_jti claims, so_job_id = job_id,
                 so_filters = \<lparr>fl_attempt_id = attempt, fl_sequence_gte = None, fl_sequence_lte = None,
                   fl_occurred_at_gte = None, fl_occurred_at_lte = None\<rparr>,
                 so_cursor = cursor, so_max_duration = max_duration\<rparr>)))"

text \<open>
  What one round of the loop meets: the clock at its head, after the records were sent and before the
  heartbeat, whether the client has gone, and the database its short session reads.
\<close>

record poll =
  po_head :: rat
  po_disconnected :: bool
  po_db :: manager_db
  po_sent :: rat
  po_idle :: rat

datatype stream_event = Log_Event log_cursor job_log_record | Heartbeat

fun event_source ::
  "log_ids \<Rightarrow> stream_settings \<Rightarrow> log_stream \<Rightarrow> rat \<Rightarrow> log_cursor option \<Rightarrow> rat \<Rightarrow> poll list \<Rightarrow> stream_event list" where
  "event_source ids sst so deadline cursor next_heartbeat [] = []"
| "event_source ids sst so deadline cursor next_heartbeat (p # ps) =
     (if \<not> po_head p < deadline \<or> po_disconnected p \<or>
        \<not> stream_access_is_active (so_user_id so) (so_token_jti so) (so_job_id so) (po_db p)
      then []
      else (case fetch_job_logs ids (so_job_id so) (so_filters so) cursor (log_stream_batch_limit sst) False
              (base (store (po_db p))) of
         (records, has_more) \<Rightarrow>
           (let sent = map (\<lambda>r. Log_Event (record_cursor ids r) r) records;
                cursor' = (if records = [] then cursor else Some (record_cursor ids (last records)));
                beat = (if records = [] then next_heartbeat else po_sent p + log_stream_heartbeat_seconds sst) in
            if records \<noteq> [] \<and> has_more then sent @ event_source ids sst so deadline cursor' beat ps
            else if po_idle p \<ge> beat
            then sent @ Heartbeat # event_source ids sst so deadline cursor' (po_idle p + log_stream_heartbeat_seconds sst) ps
            else sent @ event_source ids sst so deadline cursor' beat ps)))"

end
