(* ===== verification/Log_Pages.thy ===== *)
theory Log_Pages
  imports Log_Query
begin

text \<open>
  The pages of a log listing and the events of a log stream: the records of a job have a strict order,
  a page after a record is the next stretch of it, following the cursors reads all of it, and a stream
  sends it forward without repetition.
\<close>

section \<open>The order of the records\<close>

definition cursor_key :: "log_cursor \<Rightarrow> int \<times> int \<times> string" where
  "cursor_key c = (cu_attempt_number c, cu_sequence c, cu_log_id c)"

lemma cursor_key_record [simp]: "cursor_key (record_cursor ids r) = log_order ids r"
  by (simp add: cursor_key_def record_cursor_def log_order_def)

lemma after_condition_less: "after_condition ids c r \<longleftrightarrow> cursor_key c < log_order ids r"
  by (auto simp: after_condition_def cursor_key_def log_order_def less_prod_def)

text \<open>The rows have one primary key each.\<close>

definition log_keys :: "log_ids \<Rightarrow> ledger \<Rightarrow> bool" where
  "log_keys ids d \<longleftrightarrow> distinct (job_logs d) \<and> inj_on ids (set (job_logs d))"

lemma joined_logs_set:
  "r \<in> set (joined_logs d) \<longleftrightarrow> jr_log r \<in> set (job_logs d) \<and>
     (\<exists>a. get_row a_id (lg_attempt_id (jr_log r)) (job_attempts d) = Some a \<and> jr_attempt_number r = a_attempt_number a)"
  by (cases r) (auto simp: joined_logs_def List.map_filter_def image_iff)

lemma joined_logs_logs: "map jr_log (joined_logs d) =
    filter (\<lambda>l. get_row a_id (lg_attempt_id l) (job_attempts d) \<noteq> None) (job_logs d)"
proof -
  have "map jr_log (List.map_filter (\<lambda>l. map_option (\<lambda>a. \<lparr>jr_log = l, jr_attempt_number = a_attempt_number a\<rparr>)
      (get_row a_id (lg_attempt_id l) (job_attempts d))) ls) =
    filter (\<lambda>l. get_row a_id (lg_attempt_id l) (job_attempts d) \<noteq> None) ls" for ls
    by (induction ls) (auto simp: List.map_filter_def)
  then show ?thesis by (simp add: joined_logs_def)
qed

lemma joined_logs_keys:
  assumes "log_keys ids d"
  shows "distinct (map (log_order ids) (joined_logs d))"
proof -
  have "distinct (map jr_log (joined_logs d))"
    using assms by (simp add: joined_logs_logs log_keys_def)
  moreover have "inj_on (log_order ids) (set (joined_logs d))"
  proof (rule inj_onI)
    fix r r' assume r: "r \<in> set (joined_logs d)" "r' \<in> set (joined_logs d)" "log_order ids r = log_order ids r'"
    then have "jr_log r = jr_log r'"
      using assms by (auto simp: log_order_def joined_logs_set log_keys_def dest: inj_onD)
    with r(3) show "r = r'" by (simp add: log_order_def)
  qed
  ultimately show ?thesis by (simp add: distinct_map)
qed

definition strictly :: "('a \<Rightarrow> 'k :: linorder) \<Rightarrow> 'a list \<Rightarrow> bool" where
  "strictly k xs \<longleftrightarrow> sorted_wrt (<) (map k xs)"

lemma strictly_sort_key: "distinct (map k xs) \<Longrightarrow> strictly k (sort_key k xs)"
  unfolding strictly_def strict_sorted_iff by (simp add: distinct_map)

lemma strictly_filter_after:
  assumes "strictly k xs" "i < length xs"
  shows "filter (\<lambda>x. k (xs ! i) < k x) xs = drop (Suc i) xs"
  using assms
proof (induction xs arbitrary: i)
  case (Cons x xs)
  then have rest: "strictly k xs" "\<forall>y \<in> set xs. k x < k y" by (auto simp: strictly_def)
  show ?case
  proof (cases i)
    case 0
    with rest show ?thesis by (simp add: filter_id_conv)
  next
    case (Suc j)
    with Cons rest have "k x < k (xs ! j)" by simp
    then have "\<not> k (xs ! j) < k x" by simp
    with Suc Cons rest show ?thesis by simp
  qed
qed simp

section \<open>Pages\<close>

text \<open>All records of a query, in order.\<close>

definition query_records :: "log_ids \<Rightarrow> ident \<Rightarrow> job_log_filters \<Rightarrow> ledger \<Rightarrow> job_log_record list" where
  "query_records ids job_id filters d =
     sort_key (log_order ids) (filter (\<lambda>r. filter_conditions job_id filters (jr_log r)) (joined_logs d))"

lemma query_records_strictly: "log_keys ids d \<Longrightarrow> strictly (log_order ids) (query_records ids job_id filters d)"
  unfolding query_records_def by (intro strictly_sort_key) (auto dest: joined_logs_keys simp: distinct_map inj_on_def)

lemma query_records_mem:
  "r \<in> set (query_records ids job_id filters d) \<longleftrightarrow> r \<in> set (joined_logs d) \<and> filter_conditions job_id filters (jr_log r)"
  by (auto simp: query_records_def)

lemma query_records_length: "length (query_records ids job_id filters d) = count_job_logs job_id filters d"
  by (simp add: query_records_def count_job_logs_def)

lemma fetch_after:
  "fetch_job_logs ids job_id filters after limit False d =
     (let rest = filter (\<lambda>r. unless_set after (\<lambda>c. cursor_key c < log_order ids r)) (query_records ids job_id filters d) in
      (take limit rest, length rest > limit))"
proof -
  have "filter (\<lambda>r. filter_conditions job_id filters (jr_log r) \<and> unless_set after (\<lambda>c. after_condition ids c r)) xs =
      filter (\<lambda>r. unless_set after (\<lambda>c. cursor_key c < log_order ids r))
        (filter (\<lambda>r. filter_conditions job_id filters (jr_log r)) xs)" for xs
    by (simp add: after_condition_less conj_commute)
  then show ?thesis
    by (simp add: fetch_job_logs_def query_records_def filter_sort Let_def min_def)
qed

lemma fetch_first:
  "fetch_job_logs ids job_id filters None limit False d =
     (take limit (query_records ids job_id filters d), length (query_records ids job_id filters d) > limit)"
  by (simp add: fetch_after unless_set_def Let_def)

lemma fetch_next:
  assumes "log_keys ids d" "i < length (query_records ids job_id filters d)"
  shows "fetch_job_logs ids job_id filters (Some (record_cursor ids (query_records ids job_id filters d ! i))) limit False d =
    (take limit (drop (Suc i) (query_records ids job_id filters d)),
     length (query_records ids job_id filters d) - Suc i > limit)"
  using strictly_filter_after [OF query_records_strictly [OF assms(1)] assms(2)]
  by (simp add: fetch_after unless_set_def Let_def)

lemma fetch_tail:
  "fetch_job_logs ids job_id filters None limit True d =
     (drop (length (query_records ids job_id filters d) - limit) (query_records ids job_id filters d),
      length (query_records ids job_id filters d) > limit)"
proof -
  have "rev (take limit (rev ys)) = drop (length ys - limit) ys" for ys :: "job_log_record list"
    by (simp add: take_rev)
  then show ?thesis by (simp add: fetch_job_logs_def query_records_def unless_set_def Let_def min_def)
qed

section \<open>Following the cursors\<close>

text \<open>A client that asks for page after page while it is told that there is more.\<close>

fun follow_logs ::
  "platform \<Rightarrow> text_tools \<Rightarrow> (string \<Rightarrow> json option) \<Rightarrow> log_ids \<Rightarrow> user_row \<Rightarrow> ident \<Rightarrow> ledger \<Rightarrow> nat \<Rightarrow> log_query \<Rightarrow>
   job_log_read list res" where
  "follow_logs pf tt loads ids user job_id d 0 q = Inr []"
| "follow_logs pf tt loads ids user job_id d (Suc n) q =
     res_bind (list_job_logs pf tt loads ids user job_id q d) (\<lambda>page.
       if ll_has_more page
       then res_bind (follow_logs pf tt loads ids user job_id d n (q\<lparr>lo_after := ll_next_cursor page\<rparr>))
         (\<lambda>rest. Inr (ll_items page @ rest))
       else Inr (ll_items page))"

definition query_filters :: "log_query \<Rightarrow> job_log_filters" where
  "query_filters q =
     \<lparr>fl_attempt_id = lo_attempt_id q, fl_sequence_gte = lo_sequence_gte q, fl_sequence_lte = lo_sequence_lte q,
      fl_occurred_at_gte = map_option fst (lo_occurred_at_gte q),
      fl_occurred_at_lte = map_option fst (lo_occurred_at_lte q)\<rparr>"

lemma aware_utc_Inr: "aware_utc_or_422 t f = Inr x \<Longrightarrow> x = map_option fst t"
  by (auto simp: aware_utc_or_422_def split: option.splits if_splits)

text \<open>What an accepted query without \<^verbatim>\<open>after\<close> answers, and what the same query answers after a record.\<close>

definition page_of :: "platform \<Rightarrow> text_tools \<Rightarrow> log_ids \<Rightarrow> ident \<Rightarrow> log_query \<Rightarrow> ledger \<Rightarrow>
    job_log_record list \<times> bool \<Rightarrow> job_log_list" where
  "page_of pf tt ids job_id q d found =
     \<lparr>ll_items = map (job_log_to_read tt ids) (fst found), ll_total = count_job_logs job_id (query_filters q) d,
      ll_limit = lo_limit q, ll_has_more = snd found,
      ll_next_cursor = (if fst found = [] then lo_after q
        else Some (encode_log_cursor pf (record_cursor ids (last (fst found)))))\<rparr>"

lemma list_job_logs_after:
  assumes "list_job_logs pf tt loads ids user job_id q d = Inr page" "\<not> lo_tail q"
    and "text_within 512 after" "decode_cursor_or_422 loads after = Inr c"
  shows "list_job_logs pf tt loads ids user job_id (q\<lparr>lo_after := after\<rparr>) d =
    Inr (page_of pf tt ids job_id (q\<lparr>lo_after := after\<rparr>) d
      (fetch_job_logs ids job_id (query_filters q) c (lo_limit q) False d))"
proof -
  from assms(1) obtain job gte lte where *: "log_query_ok q"
    "require_job_owner_or_admin job_id (principal user) d = Inr job"
    "aware_utc_or_422 (lo_occurred_at_gte q) ''occurred_at_gte'' = Inr gte"
    "aware_utc_or_422 (lo_occurred_at_lte q) ''occurred_at_lte'' = Inr lte"
    "validate_log_ranges \<lparr>fl_attempt_id = lo_attempt_id q, fl_sequence_gte = lo_sequence_gte q,
       fl_sequence_lte = lo_sequence_lte q, fl_occurred_at_gte = gte, fl_occurred_at_lte = lte\<rparr> = Inr ()"
    by (auto simp: list_job_logs_def Let_def split: if_splits)
  have "\<lparr>fl_attempt_id = lo_attempt_id q, fl_sequence_gte = lo_sequence_gte q,
       fl_sequence_lte = lo_sequence_lte q, fl_occurred_at_gte = gte, fl_occurred_at_lte = lte\<rparr> = query_filters q"
    using aware_utc_Inr [OF *(3)] aware_utc_Inr [OF *(4)] by (simp add: query_filters_def)
  moreover have "log_query_ok (q\<lparr>lo_after := after\<rparr>)" using *(1) assms(3) by (simp add: log_query_ok_def)
  moreover have "query_filters (q\<lparr>lo_after := after\<rparr>) = query_filters q" by (simp add: query_filters_def)
  ultimately show ?thesis
    using *(2-5) assms(2,4) by (simp add: list_job_logs_def page_of_def Let_def split: prod.splits)
qed

text \<open>A record whose cursor can be sent back.\<close>

definition record_ok :: "platform \<Rightarrow> log_ids \<Rightarrow> job_log_record \<Rightarrow> bool" where
  "record_ok pf ids r \<longleftrightarrow> cursor_ok (record_cursor ids r) \<and> canonical_id (ids (jr_log r)) \<and>
     text_within 512 (Some (encode_log_cursor pf (record_cursor ids r)))"

lemma follow_from:
  assumes query: "list_job_logs pf tt loads ids user job_id q d = Inr page" "\<not> lo_tail q" "1 \<le> lo_limit q"
    and keys: "log_keys ids d" and loads: "loads_cursors pf loads"
    and records: "\<forall>r \<in> set (query_records ids job_id (query_filters q) d). record_ok pf ids r"
    and "i < length (query_records ids job_id (query_filters q) d)"
    and "length (query_records ids job_id (query_filters q) d) < n + Suc i"
  shows "follow_logs pf tt loads ids user job_id d n
      (q\<lparr>lo_after := Some (encode_log_cursor pf (record_cursor ids (query_records ids job_id (query_filters q) d ! i)))\<rparr>) =
    Inr (map (job_log_to_read tt ids) (drop (Suc i) (query_records ids job_id (query_filters q) d)))"
  using assms(7,8)
proof (induction n arbitrary: i)
  case (Suc n)
  let ?rs = "query_records ids job_id (query_filters q) d"
  let ?c = "record_cursor ids (?rs ! i)"
  have "record_ok pf ids (?rs ! i)" using records Suc.prems(1) by simp
  then have page: "list_job_logs pf tt loads ids user job_id (q\<lparr>lo_after := Some (encode_log_cursor pf ?c)\<rparr>) d =
    Inr (page_of pf tt ids job_id (q\<lparr>lo_after := Some (encode_log_cursor pf ?c)\<rparr>) d
      (take (lo_limit q) (drop (Suc i) ?rs), length ?rs - Suc i > lo_limit q))"
    using list_job_logs_after [OF query(1,2), of "Some (encode_log_cursor pf ?c)" "Some ?c"]
      decode_encode_cursor [OF loads, of ?c] fetch_next [OF keys Suc.prems(1), of "lo_limit q"]
    by (simp add: record_ok_def decode_cursor_or_422_def record_cursor_def)
  show ?case
  proof (cases "length ?rs - Suc i > lo_limit q")
    case True
    define j where "j = i + lo_limit q"
    have j: "j < length ?rs" "length ?rs < n + Suc j" using True Suc.prems query(3) by (auto simp: j_def)
    have last: "take (lo_limit q) (drop (Suc i) ?rs) \<noteq> []" "last (take (lo_limit q) (drop (Suc i) ?rs)) = ?rs ! j"
      using True query(3) by (auto simp: last_conv_nth j_def min_def)
    have "drop (Suc i) ?rs = take (lo_limit q) (drop (Suc i) ?rs) @ drop (Suc j) ?rs"
      by (metis append_take_drop_id drop_drop j_def add_Suc_right add.commute)
    then show ?thesis
      using page True last Suc.IH [OF j] by (simp add: page_of_def) (metis map_append)
  next
    case False
    with page show ?thesis by (simp add: page_of_def)
  qed
qed simp

section \<open>Streams\<close>

fun sent_records :: "stream_event list \<Rightarrow> job_log_record list" where
  "sent_records [] = []"
| "sent_records (Log_Event c r # es) = r # sent_records es"
| "sent_records (Heartbeat # es) = sent_records es"

lemma sent_records_append [simp]: "sent_records (es @ fs) = sent_records es @ sent_records fs"
  by (induction es rule: sent_records.induct) simp_all

lemma sent_records_batch [simp]: "sent_records (map (\<lambda>r. Log_Event (f r) r) rs) = rs"
  by (induction rs) simp_all

text \<open>The records a poll hands out come after the cursor, in order.\<close>

lemma polled_records:
  assumes "log_keys ids d" "fetch_job_logs ids job_id filters after limit False d = (rs, again)"
  shows "strictly (log_order ids) rs" "\<forall>r \<in> set rs. unless_set after (\<lambda>c. cursor_key c < log_order ids r)"
    "\<forall>r \<in> set rs. r \<in> set (query_records ids job_id filters d)"
proof -
  let ?rest = "filter (\<lambda>r. unless_set after (\<lambda>c. cursor_key c < log_order ids r)) (query_records ids job_id filters d)"
  have rs: "rs = take limit ?rest" using assms(2) by (simp add: fetch_after Let_def)
  have "strictly (log_order ids) ?rest"
    using query_records_strictly [OF assms(1), of job_id filters] by (simp add: strictly_def sorted_wrt_map sorted_wrt_filter)
  then show "strictly (log_order ids) rs"
    unfolding rs strictly_def take_map [symmetric] by (rule sorted_wrt_take)
  show "\<forall>r \<in> set rs. unless_set after (\<lambda>c. cursor_key c < log_order ids r)"
    "\<forall>r \<in> set rs. r \<in> set (query_records ids job_id filters d)"
    unfolding rs by (auto dest: in_set_takeD)
qed

lemma strictly_append:
  "strictly k xs \<Longrightarrow> strictly k ys \<Longrightarrow> (xs \<noteq> [] \<Longrightarrow> \<forall>y \<in> set ys. k (last xs) < k y) \<Longrightarrow> strictly k (xs @ ys)"
proof -
  assume xs: "strictly k xs" and ys: "strictly k ys" and between: "xs \<noteq> [] \<Longrightarrow> \<forall>y \<in> set ys. k (last xs) < k y"
  have "k x < k y" if "x \<in> set xs" "y \<in> set ys" for x y
  proof -
    have "k x \<le> k (last xs)"
      using xs that(1) by (induction xs) (auto simp: strictly_def less_imp_le split: if_splits)
    moreover have "xs \<noteq> []" using that(1) by auto
    then have "k (last xs) < k y" using between that(2) by blast
    ultimately show ?thesis by (rule order.strict_trans1)
  qed
  then show ?thesis using xs ys by (auto simp: strictly_def sorted_wrt_append)
qed

text \<open>Every record a stream sends: forward, once, and only while its reader may read it.\<close>

lemma stream_forward:
  assumes "\<forall>p \<in> set ps. log_keys ids (base (store (po_db p)))"
  shows "strictly (log_order ids) (sent_records (event_source ids sst so deadline cursor beat ps)) \<and>
    (\<forall>r \<in> set (sent_records (event_source ids sst so deadline cursor beat ps)).
       unless_set cursor (\<lambda>c. cursor_key c < log_order ids r) \<and>
       (\<exists>p \<in> set ps. po_head p < deadline \<and>
          stream_access_is_active (so_user_id so) (so_token_jti so) (so_job_id so) (po_db p) \<and>
          r \<in> set (query_records ids (so_job_id so) (so_filters so) (base (store (po_db p))))))"
  using assms
proof (induction ps arbitrary: cursor beat)
  case Nil
  then show ?case by (simp add: strictly_def)
next
  case (Cons p ps)
  let ?d = "base (store (po_db p))"
  show ?case
  proof (cases "\<not> po_head p < deadline \<or> po_disconnected p \<or>
      \<not> stream_access_is_active (so_user_id so) (so_token_jti so) (so_job_id so) (po_db p)")
    case True
    then show ?thesis by (simp add: strictly_def)
  next
    case False
    obtain rs again where fetch: "fetch_job_logs ids (so_job_id so) (so_filters so) cursor
        (log_stream_batch_limit sst) False ?d = (rs, again)" by (cases "fetch_job_logs ids (so_job_id so)
          (so_filters so) cursor (log_stream_batch_limit sst) False ?d")
    define cursor' where "cursor' = (if rs = [] then cursor else Some (record_cursor ids (last rs)))"
    define b where "b = (if rs = [] then beat else po_sent p + log_stream_heartbeat_seconds sst)"
    define idle where "idle \<longleftrightarrow> \<not> (rs \<noteq> [] \<and> again) \<and> po_idle p \<ge> b"
    define beat' where "beat' = (if idle then po_idle p + log_stream_heartbeat_seconds sst else b)"
    have "event_source ids sst so deadline cursor beat (p # ps) =
        map (\<lambda>r. Log_Event (record_cursor ids r) r) rs @ (if idle then [Heartbeat] else []) @
        event_source ids sst so deadline cursor' beat' ps"
      using False fetch by (cases "rs = []") (simp_all add: cursor'_def b_def idle_def beat'_def Let_def)
    then have sent: "sent_records (event_source ids sst so deadline cursor beat (p # ps)) =
        rs @ sent_records (event_source ids sst so deadline cursor' beat' ps)"
      by simp
    have keys: "log_keys ids ?d" using Cons.prems by simp
    note polled = polled_records [OF keys fetch]
    let ?later = "sent_records (event_source ids sst so deadline cursor' beat' ps)"
    have later: "strictly (log_order ids) ?later" "\<forall>r \<in> set ?later. unless_set cursor' (\<lambda>c. cursor_key c < log_order ids r)"
      and allowed: "\<forall>r \<in> set ?later. \<exists>p \<in> set ps. po_head p < deadline \<and>
          stream_access_is_active (so_user_id so) (so_token_jti so) (so_job_id so) (po_db p) \<and>
          r \<in> set (query_records ids (so_job_id so) (so_filters so) (base (store (po_db p))))"
      using Cons.IH [of cursor' beat'] Cons.prems by auto
    have "strictly (log_order ids) (rs @ ?later)"
      using polled(1) later by (intro strictly_append) (auto simp: cursor'_def unless_set_def)
    moreover have "unless_set cursor (\<lambda>c. cursor_key c < log_order ids r)" if "r \<in> set ?later" for r
    proof (cases "rs = []")
      case True
      then show ?thesis using later(2) that by (simp add: cursor'_def)
    next
      case nonempty: False
      then have "log_order ids (last rs) < log_order ids r" using later(2) that by (auto simp: cursor'_def unless_set_def)
      moreover have "unless_set cursor (\<lambda>c. cursor_key c < log_order ids (last rs))" using polled(2) nonempty by simp
      ultimately show ?thesis by (auto simp: unless_set_def split: option.splits)
    qed
    ultimately show ?thesis unfolding sent using polled(2,3) allowed False by auto
  qed
qed

end
