(* ===== verification/Log_Claims.thy ===== *)
theory Log_Claims
  imports Log_Pages Example_Accounts
begin

text \<open>
  The properties of log queries and streams, applied to a job with three log lines, and what a password
  reset leaves of an open stream.
\<close>

section \<open>An example\<close>

definition ex_line :: "int \<Rightarrow> job_log_row" where
  "ex_line n = \<lparr>lg_job_id = ''j1'', lg_attempt_id = ''a1'', lg_sequence = n, lg_level = INFO, lg_message = ''epoch'',
     lg_fields_json = JObj [], lg_occurred_at = 100 + n\<rparr>"

definition ex_logs :: ledger where
  "ex_logs = ex_done\<lparr>job_logs := [ex_line 2, ex_line 0, ex_line 1]\<rparr>"

definition ex_log_ids :: log_ids where
  "ex_log_ids l = ''00000000-0000-4000-8000-00000000000'' @ nat_digits (nat (lg_sequence l))"

definition ex_loads :: "string \<Rightarrow> json option" where
  "ex_loads s =
     (case split_on (CHR '','') s of
        [a, b, c, e] \<Rightarrow>
          if a = CHR ''['' # esc_str ''v1''
          then Some (JList [JStr ''v1'', JInt (ex_int b), JInt (ex_int c), JStr (butlast (butlast (tl e)))]) else None
      | _ \<Rightarrow> None)"

lemma canonical_plain: "canonical_id i \<Longrightarrow> esc_str i = quote # i @ [quote] \<and> CHR '','' \<notin> set i"
proof (induction i)
  case (Cons c i)
  then have c: "is_hex c \<or> c = CHR ''-''" and i: "esc_str i = quote # i @ [quote]" "CHR '','' \<notin> set i"
    by (auto simp: canonical_id_def)
  from c have "plain_char c" "c \<noteq> CHR '',''"
    by (auto simp: char_class_defs plain_char_def quote_def backslash_def)
  with i show ?case by (auto simp: esc_str_def esc_char_plain)
qed (simp add: esc_str_def)

lemma ex_loads_cursors: "loads_cursors ex_platform ex_loads"
proof -
  have comma: "CHR '','' \<notin> set (int_str i)" for i
    using int_str_chars(1) [of i] by (auto simp: list_all_iff is_number_char_def char_class_defs)
  have "ex_loads (render (float_repr ex_platform) (cursor_document c)) = Some (cursor_document c)"
    if "canonical_id (cu_log_id c)" for c
  proof -
    note plain = canonical_plain [OF that]
    define a where "a = CHR ''['' # esc_str ''v1''"
    define e where "e = esc_str (cu_log_id c) @ '']''"
    have head: "CHR '','' \<notin> set a"
      by (simp add: a_def esc_str_def esc_char_def quote_def backslash_def)
    have last: "CHR '','' \<notin> set e" using plain by (auto simp: e_def quote_def)
    have "render (float_repr ex_platform) (cursor_document c) =
        a @ CHR '','' # int_str (cu_attempt_number c) @ CHR '','' # int_str (cu_sequence c) @ CHR '','' # e"
      by (simp add: cursor_document_def join_def a_def e_def)
    then have "split_on (CHR '','') (render (float_repr ex_platform) (cursor_document c)) =
        [a, int_str (cu_attempt_number c), int_str (cu_sequence c), e]"
      using head last comma by (simp add: split_on_append split_on_no_sep)
    then show ?thesis using plain by (simp add: ex_loads_def cursor_document_def butlast_append a_def e_def)
  qed
  then show ?thesis by (simp add: loads_cursors_def)
qed

definition ex_log_query :: log_query where
  "ex_log_query = \<lparr>lo_attempt_id = None, lo_sequence_gte = None, lo_sequence_lte = None, lo_occurred_at_gte = None,
     lo_occurred_at_lte = None, lo_after = None, lo_tail = False, lo_limit = 2\<rparr>"

lemma ex_log_filters: "filter_conditions ''j1'' (query_filters ex_log_query) (ex_line n)"
  by (simp add: filter_conditions_def query_filters_def ex_log_query_def ex_line_def unless_set_def)

definition ex_log_record :: "int \<Rightarrow> job_log_record" where
  "ex_log_record n = \<lparr>jr_log = ex_line n, jr_attempt_number = 1\<rparr>"

lemma ex_joined_logs: "joined_logs ex_logs = [ex_log_record 2, ex_log_record 0, ex_log_record 1]"
  by (simp add: joined_logs_def ex_logs_def ex_done_tables List.map_filter_def ex_log_record_def)
    (simp add: ex_line_def ex_done_attempt_def)

lemma ex_digits: "nat_digits 0 = ''0''" "nat_digits (Suc 0) = ''1''" "nat_digits 1 = ''1''" "nat_digits 2 = ''2''"
  by code_simp+

lemma ex_log_keys: "log_keys ex_log_ids ex_logs"
  by (simp add: log_keys_def ex_logs_def ex_line_def ex_log_ids_def ex_digits inj_on_def)

lemma ex_log_records:
  "query_records ex_log_ids ''j1'' (query_filters ex_log_query) ex_logs =
     [ex_log_record 0, ex_log_record 1, ex_log_record 2]"
  by (simp add: query_records_def ex_joined_logs ex_log_record_def ex_log_filters log_order_def)
    (simp add: ex_line_def ex_log_ids_def ex_digits)

lemma ex_record_ok: "record_ok ex_platform ex_log_ids (ex_log_record n)" if "n \<in> {0, 1, 2}"
proof -
  have "cursor_ok (record_cursor ex_log_ids (ex_log_record n))"
    using that by (elim insertE emptyE; simp add: ex_log_record_def; code_simp)
  moreover have id: "canonical_id (ex_log_ids (ex_line n))" "length (ex_log_ids (ex_line n)) = 36"
    using that by (auto simp: ex_log_ids_def ex_line_def ex_digits canonical_id_def char_class_defs)
  moreover have "length (int_str n) = 1" "length (int_str 1) = 1"
    using that by (auto simp: int_str_def ex_digits)
  then have "length (render (float_repr ex_platform) (cursor_document (record_cursor ex_log_ids (ex_log_record n)))) \<le> 384"
    using canonical_plain [OF id(1)] id(2)
    by (simp add: cursor_document_def record_cursor_def ex_log_record_def join_def esc_str_def esc_char_def quote_def
        backslash_def) (simp add: ex_line_def)
  then have "text_within 512 (Some (encode_log_cursor ex_platform (record_cursor ex_log_ids (ex_log_record n))))"
    by (rule encoded_cursor_within)
  ultimately show ?thesis by (simp add: record_ok_def ex_log_record_def)
qed

section \<open>Cursors and pages\<close>

text \<open>
  C32. A cursor survives its way to the client and back: what \<^verbatim>\<open>encode_log_cursor\<close> writes for a record,
  \<^verbatim>\<open>decode_log_cursor\<close> reads unchanged, and whatever text a client sends, a cursor that is accepted has a
  positive attempt number, a sequence number that is not negative and an identifier.
\<close>

theorem log_cursor_roundtrip:
  assumes "loads_cursors pf loads" "canonical_id (cu_log_id c)"
  shows "decode_log_cursor loads (encode_log_cursor pf c) = (if cursor_ok c then Some c else None) \<and>
    (\<forall>text c'. decode_log_cursor loads text = Some c' \<longrightarrow>
       1 \<le> cu_attempt_number c' \<and> 0 \<le> cu_sequence c' \<and> uuid_ok (cu_log_id c'))"
proof -
  have "decode_log_cursor loads (encode_log_cursor pf c) = None" if "\<not> cursor_ok c"
    using that assms
    by (auto simp: decode_log_cursor_def encode_log_cursor_def b64decode_encode loads_cursors_def
        cursor_document_def cursor_ok_def)
  then show ?thesis
    using decode_encode_cursor [OF assms(1) _ assms(2)] decoded_cursor_ok by (auto simp: cursor_ok_def)
qed

theorem log_cursor_roundtrip_witness:
  "decode_log_cursor ex_loads (encode_log_cursor ex_platform (record_cursor ex_log_ids (ex_log_record 1))) =
     Some (record_cursor ex_log_ids (ex_log_record 1))"
  using log_cursor_roundtrip [OF ex_loads_cursors, of "record_cursor ex_log_ids (ex_log_record 1)"] ex_record_ok [of 1]
  by (simp add: record_ok_def record_cursor_def)

text \<open>
  C21. A client that follows the cursors of an accepted query, page after page while there is more, ends
  and has read every record of the job that matches the filters exactly once, by attempt and sequence
  number, redacted.
\<close>

theorem pages_cover_all_logs:
  assumes "list_job_logs pf tt loads ids user job_id q d = Inr page" "\<not> lo_tail q" "lo_after q = None"
    and "log_keys ids d" "loads_cursors pf loads"
    and records: "\<forall>r \<in> set (query_records ids job_id (query_filters q) d). record_ok pf ids r"
    and "count_job_logs job_id (query_filters q) d < n"
  shows "\<exists>rs. follow_logs pf tt loads ids user job_id d n q = Inr (map (job_log_to_read tt ids) rs) \<and>
    sorted_wrt (<) (map (log_order ids) rs) \<and>
    set rs = {r \<in> set (joined_logs d). filter_conditions job_id (query_filters q) (jr_log r)}"
proof -
  let ?rs = "query_records ids job_id (query_filters q) d"
  have limit: "1 \<le> lo_limit q" using assms(1) by (auto simp: list_job_logs_def log_query_ok_def split: if_splits)
  have q: "q\<lparr>lo_after := None\<rparr> = q" using assms(3) by simp
  have first: "list_job_logs pf tt loads ids user job_id q d =
      Inr (page_of pf tt ids job_id q d (take (lo_limit q) ?rs, length ?rs > lo_limit q))"
    using list_job_logs_after [OF assms(1,2), of None None]
    unfolding q by (simp add: text_within_def unless_set_def decode_cursor_or_422_def fetch_first)
  obtain m where m: "n = Suc m" using assms(7) by (cases n) auto
  have "follow_logs pf tt loads ids user job_id d n q = Inr (map (job_log_to_read tt ids) ?rs)"
  proof (cases "length ?rs > lo_limit q")
    case True
    define i where "i = lo_limit q - 1"
    have i: "i < length ?rs" "length ?rs < m + Suc i"
      using True limit assms(7) m by (auto simp: i_def query_records_length)
    have ne: "take (lo_limit q) ?rs \<noteq> []" using True limit by auto
    then have "last (take (lo_limit q) ?rs) = ?rs ! i"
      using True by (subst last_conv_nth) (simp_all add: i_def min_def)
    moreover note ne
    moreover have "?rs = take (lo_limit q) ?rs @ drop (Suc i) ?rs" using limit by (simp add: i_def)
    ultimately show ?thesis
      using first True follow_from [OF assms(1,2) limit assms(4,5) records i]
      by (simp add: m page_of_def) (metis map_append)
  next
    case False
    then show ?thesis by (simp add: m first page_of_def)
  qed
  moreover have "sorted_wrt (<) (map (log_order ids) ?rs)"
    using query_records_strictly [OF assms(4)] by (simp add: strictly_def)
  moreover have "set ?rs = {r \<in> set (joined_logs d). filter_conditions job_id (query_filters q) (jr_log r)}"
    using query_records_mem [of _ ids job_id "query_filters q" d] by blast
  ultimately show ?thesis by blast
qed

theorem pages_cover_all_logs_witness:
  "\<exists>rs. follow_logs ex_platform ex_tools ex_loads ex_log_ids ex_root ''j1'' ex_logs 4 ex_log_query =
     Inr (map (job_log_to_read ex_tools ex_log_ids) rs) \<and>
    sorted_wrt (<) (map (log_order ex_log_ids) rs) \<and>
    set rs = {r \<in> set (joined_logs ex_logs). filter_conditions ''j1'' (query_filters ex_log_query) (jr_log r)}"
proof -
  have "\<exists>page. list_job_logs ex_platform ex_tools ex_loads ex_log_ids ex_root ''j1'' ex_log_query ex_logs = Inr page"
    by (simp add: list_job_logs_def ex_log_query_def log_query_ok_def text_within_def unless_set_def
        require_job_owner_or_admin_def ex_logs_def ex_done_tables ex_done_fields principal_def aware_utc_or_422_def
        validate_log_ranges_def exceeds_def decode_cursor_or_422_def checked_simps case_prod_beta Let_def)
      (simp add: ex_experiment_def)
  then obtain page where page: "list_job_logs ex_platform ex_tools ex_loads ex_log_ids ex_root ''j1'' ex_log_query ex_logs =
    Inr page" by blast
  show ?thesis
    by (rule pages_cover_all_logs [OF page _ _ ex_log_keys ex_loads_cursors])
      (simp_all add: ex_log_records ex_record_ok flip: query_records_length [of ex_log_ids], simp_all add: ex_log_query_def)
qed

section \<open>Streams\<close>

text \<open>
  C22. However the database changes while a log stream is open, the stream sends records forward in the
  order of the listing, each at most once, only records behind the cursor it started from, and only
  from a reading in which its reader still had access and the connection had not run out.
\<close>

theorem stream_sends_forward:
  assumes "\<forall>p \<in> set polls. log_keys ids (base (store (po_db p)))"
    and "sent = sent_records (event_source ids sst so deadline cursor beat polls)"
  shows "sorted_wrt (<) (map (log_order ids) sent) \<and> distinct sent \<and>
    (\<forall>r \<in> set sent. (case cursor of None \<Rightarrow> True | Some c \<Rightarrow> after_condition ids c r) \<and>
       (\<exists>p \<in> set polls. po_head p < deadline \<and>
          stream_access_is_active (so_user_id so) (so_token_jti so) (so_job_id so) (po_db p) \<and>
          r \<in> set (joined_logs (base (store (po_db p)))) \<and>
          filter_conditions (so_job_id so) (so_filters so) (jr_log r)))"
proof -
  note forward = stream_forward [OF assms(1), of sst so deadline cursor beat, folded assms(2)]
  then have "sorted_wrt (<) (map (log_order ids) sent)" by (simp add: strictly_def)
  moreover from this have "distinct sent" by (auto simp: strict_sorted_iff distinct_map)
  ultimately show ?thesis
    using forward by (auto simp: unless_set_def after_condition_less query_records_mem split: option.splits)
qed

definition ex_stream :: log_stream where
  "ex_stream = \<lparr>so_user_id = ex_deputy_id, so_token_jti = ex_jti, so_job_id = ''j1'',
     so_filters = query_filters ex_log_query, so_cursor = None, so_max_duration = 60\<rparr>"

definition ex_poll :: poll where
  "ex_poll = \<lparr>po_head = 1, po_disconnected = False, po_db = store_update (base_update (\<lambda>_. ex_logs)) ex_staffed,
     po_sent = 1, po_idle = 2\<rparr>"

definition ex_stream_settings :: stream_settings where
  "ex_stream_settings = \<lparr>log_stream_heartbeat_seconds = 15, log_stream_max_connection_seconds = 300,
     log_stream_batch_limit = 2\<rparr>"

theorem stream_sends_forward_witness:
  "sorted_wrt (<) (map (log_order ex_log_ids)
     (sent_records (event_source ex_log_ids ex_stream_settings ex_stream 61 None 16 [ex_poll, ex_poll])))"
  using stream_sends_forward [OF _ refl, of "[ex_poll, ex_poll]" ex_log_ids ex_stream_settings ex_stream 61 None 16]
  by (simp add: ex_poll_def ex_log_keys)

text \<open>
  An open stream does not check the version of the token it was opened with: a password reset, which
  ends every session of the user for all other requests, leaves its streams running until they end by
  themselves.
\<close>

theorem reset_keeps_streams_open:
  assumes "reset_user_password pf lib st env cred i payload key = (Inr (res, False), s')"
    and "stream_access_is_active i jti job_id (aq_locked env)"
  shows "stream_access_is_active i jti job_id s'"
proof -
  from assms(2) obtain u where u: "get_row ur_id i (accounts (aq_locked env)) = Some u" "\<not> ur_disabled u"
    by (auto simp: stream_access_is_active_def split: option.splits)
  from assms(1) show ?thesis unfolding reset_user_password_def
  proof (rule committed_request)
    fix admin claims
    assume "lifecycle_mutation env
        (account_request_of pf st admin Op_Password_Reset i (reset_document payload) key)
        (reset_prepared lib env i payload) (reset_work lib env i payload) write_commit_error = (Inr (res, False), s')"
    then show ?thesis
    proof (cases rule: reset.mutation_cases [consumes 1])
      case (committed h fenced out)
      note fence = fence_frame [OF committed(2)]
      from committed(4) obtain w where w: "get_row ur_id i (accounts fenced) = Some w"
        "ao_db out = write_accounts (upd_row ur_id i (orm_user (aq_now env) (password_changed h))) fenced"
        by (rule reset_workD)
      have w_is_u: "w = u" using w(1) u(1) fence(1) by simp
      have "get_row ur_id i (accounts s') = Some (orm_user (aq_now env) (password_changed h) u)"
        using w(1,2) committed(6) w_is_u by (simp add: get_row_upd_row)
      moreover have "revoked_tokens s' = revoked_tokens (aq_locked env)"
        "jobs (base (store s')) = jobs (base (store (aq_locked env)))"
        "experiments (base (store s')) = experiments (base (store (aq_locked env)))"
        using committed(6) w(2) fence(1,3) by (simp_all add: file_account_operation_def audit_def add_audit_event_def)
      moreover from this have "require_job_owner_or_admin job_id x (base (store s')) =
          require_job_owner_or_admin job_id x (base (store (aq_locked env)))" for x
        by (simp add: require_job_owner_or_admin_def cong: option.case_cong)
      moreover have "principal (orm_user (aq_now env) (password_changed h) u) = principal u"
        by (simp add: principal_def)
      ultimately show ?thesis using assms(2) u by (simp add: stream_access_is_active_def)
    qed simp
  qed
qed

end
