(* ===== verification/Request_Limits.thy ===== *)
theory Request_Limits
  imports Platform Worker_Contract Python_Text
begin

text \<open>
  What stands before the handlers: the rate limiter (\<^verbatim>\<open>rate_limit.py\<close>, with its Redis script and the
  part of \<^verbatim>\<open>app.py\<close> that applies it) and the bounds on request bodies (\<^verbatim>\<open>body_limits.py\<close>).

  Redis is a map from keys to counters with an expiry in milliseconds; the script is one atomic step on
  it. A request that cannot reach Redis is a flag of its environment. The strict JSON check of telemetry
  bodies is an argument. Shown: how many requests of one identity pass, and which bodies reach the
  application.
\<close>

section \<open>Text\<close>

definition upper_char :: "char \<Rightarrow> char" where
  "upper_char c = (if is_lower c then char_of (of_char c - 32 :: nat) else c)"

text \<open>\<^verbatim>\<open>str.partition\<close> for a one-character separator: what is before it, whether it occurs, what is behind.\<close>

definition partition_at :: "char \<Rightarrow> string \<Rightarrow> string \<times> bool \<times> string" where
  "partition_at sep s =
     (takeWhile (\<lambda>c. c \<noteq> sep) s, sep \<in> set s, drop 1 (dropWhile (\<lambda>c. c \<noteq> sep) s))"

section \<open>The rate limiter\<close>

record redis_entry =
  re_count :: int
  re_expires :: "int option"

type_synonym redis = "string \<rightharpoonup> redis_entry"

record rate_limit_rule =
  rl_name :: string
  rl_requests :: int
  rl_window_seconds :: int

record rate_limit_decision =
  rd_allowed :: bool
  rd_limit :: int
  rd_remaining :: int
  rd_retry_after_seconds :: int

datatype limiter_error = RateLimiterUnavailable | Limiter_ValueError

definition live_entry :: "int \<Rightarrow> redis_entry \<Rightarrow> bool" where
  "live_entry now e \<longleftrightarrow> (case re_expires e of None \<Rightarrow> True | Some t \<Rightarrow> now < t)"

definition redis_get :: "string \<Rightarrow> int \<Rightarrow> redis \<Rightarrow> redis_entry option" where
  "redis_get key now r = (case r key of None \<Rightarrow> None | Some e \<Rightarrow> if live_entry now e then Some e else None)"

text \<open>\<^verbatim>\<open>INCR\<close>, \<^verbatim>\<open>EXPIRE\<close> on the first count, \<^verbatim>\<open>TTL\<close>; the answer is the count and the seconds left.\<close>

definition increment_script :: "string \<Rightarrow> int \<Rightarrow> int \<Rightarrow> redis \<Rightarrow> (int \<times> int) \<times> redis" where
  "increment_script key window_seconds now r =
     (let incremented = (case redis_get key now r of
            None \<Rightarrow> \<lparr>re_count = 1, re_expires = None\<rparr>
          | Some e \<Rightarrow> e\<lparr>re_count := re_count e + 1\<rparr>);
          entry = (if re_count incremented = 1
            then incremented\<lparr>re_expires := Some (now + 1000 * window_seconds)\<rparr> else incremented);
          ttl = (case re_expires entry of None \<Rightarrow> -1 | Some t \<Rightarrow> (t - now + 500) div 1000) in
      ((re_count entry, ttl), r(key \<mapsto> entry)))"

definition rate_limit_key :: "platform \<Rightarrow> string \<Rightarrow> string \<Rightarrow> rate_limit_rule \<Rightarrow> string" where
  "rate_limit_key pf key_secret identity rule =
     ''rvc:rate-limit:'' @ rl_name rule @ '':'' @
       hmac_sha256 pf key_secret (''rate-limit'' @ [CHR 0x1F] @ rl_name rule @ [CHR 0x1F] @ identity)"

definition check ::
  "platform \<Rightarrow> string \<Rightarrow> bool \<Rightarrow> int \<Rightarrow> string \<Rightarrow> rate_limit_rule \<Rightarrow> redis \<Rightarrow>
   (limiter_error + rate_limit_decision) \<times> redis" where
  "check pf key_secret reachable now identity rule r =
     (if rl_requests rule \<le> 0 \<or> rl_window_seconds rule \<le> 0 then (Inl Limiter_ValueError, r)
      else if \<not> reachable then (Inl RateLimiterUnavailable, r)
      else (case increment_script (rate_limit_key pf key_secret identity rule) (rl_window_seconds rule) now r of
         ((count, ttl), r') \<Rightarrow>
           (Inr \<lparr>rd_allowed = (count \<le> rl_requests rule), rd_limit = rl_requests rule,
                 rd_remaining = max 0 (rl_requests rule - count),
                 rd_retry_after_seconds = max 1 (if ttl > 0 then ttl else rl_window_seconds rule)\<rparr>, r')))"

text \<open>The settings the rules are made of.\<close>

record rate_settings =
  rate_limit_enabled :: bool
  rate_limit_fail_closed :: bool
  api_prefix :: string
  rate_limit_default_requests :: int
  rate_limit_login_requests :: int
  rate_limit_register_requests :: int
  rate_limit_worker_token_rotation_requests :: int
  rate_limit_upload_requests :: int
  rate_limit_finalize_requests :: int
  rate_limit_sample_requests :: int
  rate_limit_sample_download_requests :: int

record http_request =
  hr_method :: string
  hr_path :: string
  hr_authorization :: "string option"
  hr_client_host :: "string option"

definition per_minute :: "string \<Rightarrow> int \<Rightarrow> rate_limit_rule" where
  "per_minute name n = \<lparr>rl_name = name, rl_requests = n, rl_window_seconds = 60\<rparr>"

text \<open>\<^verbatim>\<open>^[A-Za-z0-9][A-Za-z0-9_.-]{0,127}$\<close>\<close>

definition safe_resource_id :: "string \<Rightarrow> bool" where
  "safe_resource_id s \<longleftrightarrow> safe_identifier s \<and> length s \<le> 128"

definition sample_download :: "string \<Rightarrow> string \<Rightarrow> bool" where
  "sample_download sample_prefix path \<longleftrightarrow> prefix sample_prefix path \<and>
     (case partition_at (CHR ''/'') (drop (length sample_prefix) path) of
        (sample_id, separator, action) \<Rightarrow> separator \<and> action = ''download'' \<and> safe_resource_id sample_id)"

definition rule_for_request :: "rate_settings \<Rightarrow> http_request \<Rightarrow> rate_limit_rule option" where
  "rule_for_request rs request =
     (let path = hr_path request; api = api_prefix rs; post = (map upper_char (hr_method request) = ''POST'') in
      if \<not> rate_limit_enabled rs then None
      else if \<not> prefix (api @ ''/'') path then None
      else if post \<and> path = api @ ''/auth/login'' then Some (per_minute ''login'' (rate_limit_login_requests rs))
      else if post \<and> path \<in> {api @ ''/workers/register'', api @ ''/workers/re-enroll''}
      then Some (per_minute ''worker-register'' (rate_limit_register_requests rs))
      else if post \<and> prefix (api @ ''/workers/token-rotation/'') path
      then Some (per_minute ''worker-token-rotation'' (rate_limit_worker_token_rotation_requests rs))
      else if post \<and> prefix (api @ ''/workers/'') path \<and> suffix ''/token/revoke'' path
      then Some (per_minute ''worker-token-rotation'' (rate_limit_worker_token_rotation_requests rs))
      else if map upper_char (hr_method request) = ''GET'' \<and> sample_download (api @ ''/samples/'') path
      then Some (per_minute ''sample-download'' (rate_limit_sample_download_requests rs))
      else if post \<and> (path = api @ ''/datasets/uploads/init'' \<or> suffix ''/artifact-uploads/init'' path \<or>
        suffix ''/item-uploads/init'' path)
      then Some (per_minute ''upload-init'' (rate_limit_upload_requests rs))
      else if post \<and> suffix ''/finalize'' path \<and> (sublist ''/datasets/uploads/'' path \<or>
        sublist ''/artifact-uploads/'' path \<or> sublist ''/test-sets/'' path)
      then Some (per_minute ''upload-finalize'' (rate_limit_finalize_requests rs))
      else if post \<and> prefix (api @ ''/workers/jobs/'') path \<and> suffix ''/samples'' path
      then Some (per_minute ''sample-register'' (rate_limit_sample_requests rs))
      else Some (per_minute ''api'' (rate_limit_default_requests rs)))"

definition request_rate_limit_identity :: "http_request \<Rightarrow> string" where
  "request_rate_limit_identity request =
     (case hr_authorization request of
        Some authorization \<Rightarrow>
          if authorization \<noteq> [] then ''authorization:'' @ authorization
          else ''client:'' @ (case hr_client_host request of Some h \<Rightarrow> h | None \<Rightarrow> ''unknown'')
      | None \<Rightarrow> ''client:'' @ (case hr_client_host request of Some h \<Rightarrow> h | None \<Rightarrow> ''unknown''))"

text \<open>
  The part of \<^verbatim>\<open>request_context\<close> that decides whether the request goes on: \<open>None\<close> when it does, the
  status of the answer otherwise.
\<close>

definition admit ::
  "platform \<Rightarrow> string \<Rightarrow> rate_settings \<Rightarrow> bool \<Rightarrow> int \<Rightarrow> http_request \<Rightarrow> redis \<Rightarrow> nat option \<times> redis" where
  "admit pf key_secret rs reachable now request r =
     (case rule_for_request rs request of
        None \<Rightarrow> (None, r)
      | Some rule \<Rightarrow>
          (case check pf key_secret reachable now (request_rate_limit_identity request) rule r of
             (Inl RateLimiterUnavailable, r') \<Rightarrow> (if rate_limit_fail_closed rs then Some 503 else None, r')
           | (Inl Limiter_ValueError, r') \<Rightarrow> (Some 500, r')
           | (Inr decision, r') \<Rightarrow> (if rd_allowed decision then None else Some 429, r')))"

section \<open>Request bodies\<close>

datatype asgi_message = Http_Request string bool | Http_Disconnect | Other_Message

record asgi_scope =
  sc_type :: string
  sc_method :: string
  sc_path :: string
  sc_headers :: "(string \<times> string) list"

datatype body_outcome = Passed string | Rejected nat string | Dropped | Waiting

text \<open>\<^verbatim>\<open>int\<close> of an ASCII text: white space around, a sign, digits with single underscores between them.\<close>

fun decimal_body :: "bool \<Rightarrow> string \<Rightarrow> bool" where
  "decimal_body digit [] = digit"
| "decimal_body digit (c # cs) =
     (if c = CHR ''_'' then digit \<and> decimal_body False cs else is_digit c \<and> decimal_body True cs)"

definition int_of_text :: "string \<Rightarrow> int option" where
  "int_of_text text =
     (let stripped = strip text; unsigned = drop_if (\<lambda>c. c = CHR ''+'' \<or> c = CHR ''-'') stripped;
          n = int (foldl (\<lambda>a c. a * 10 + (of_char c - 48)) (0 :: nat) (filter (\<lambda>c. c \<noteq> CHR ''_'') unsigned)) in
      if \<not> ascii text \<or> \<not> decimal_body False unsigned then None
      else Some (if stripped \<noteq> [] \<and> hd stripped = CHR ''-'' then - n else n))"

text \<open>The four middlewares: to which requests each applies, and the name in its error.\<close>

datatype body_limit = Sample_Registration | Experiment_Body | User_Lifecycle | Worker_Telemetry

definition one_segment :: "string \<Rightarrow> bool" where
  "one_segment s \<longleftrightarrow> s \<noteq> [] \<and> CHR ''/'' \<notin> set s"

definition sample_applies :: "string \<Rightarrow> asgi_scope \<Rightarrow> bool" where
  "sample_applies api sc \<longleftrightarrow> sc_type sc = ''http'' \<and> sc_method sc = ''POST'' \<and>
     (let pre = api @ ''/workers/jobs/''; path = sc_path sc in
      prefix pre path \<and> suffix ''/samples'' path \<and>
      one_segment (take (length path - length pre - length ''/samples'') (drop (length pre) path)))"

definition experiment_applies :: "string \<Rightarrow> asgi_scope \<Rightarrow> bool" where
  "experiment_applies api sc \<longleftrightarrow> sc_type sc = ''http'' \<and>
     (let path = sc_path sc; collection = api @ ''/experiments'' in
      if sc_method sc = ''POST'' then
        path = collection \<or>
        prefix (collection @ ''/'') path \<and>
          (case split_on (CHR ''/'') (drop (length collection + 1) path) of
             [a, b, c] \<Rightarrow> a \<noteq> [] \<and> [b, c] = [''model-registry'', ''candidates'']
           | [a, b, c, d, e] \<Rightarrow> a \<noteq> [] \<and> [b, c] = [''model-registry'', ''entries''] \<and> d \<noteq> [] \<and>
               e \<in> {''promote'', ''revoke''}
           | _ \<Rightarrow> False)
      else sc_method sc = ''PATCH'' \<and> prefix (collection @ ''/'') path \<and>
        one_segment (drop (length collection + 1) path))"

definition user_lifecycle_applies :: "string \<Rightarrow> asgi_scope \<Rightarrow> bool" where
  "user_lifecycle_applies api sc \<longleftrightarrow> sc_type sc = ''http'' \<and>
     (let path = sc_path sc; collection = api @ ''/admin/users'';
          remainder = drop (length collection + 1) path in
      if sc_method sc = ''POST'' \<and> path = collection then True
      else prefix (collection @ ''/'') path \<and>
        (if sc_method sc = ''PATCH'' then one_segment remainder
         else sc_method sc = ''POST'' \<and> suffix ''/password-reset'' remainder \<and>
           one_segment (take (length remainder - length ''/password-reset'') remainder)))"

definition telemetry_applies :: "string \<Rightarrow> asgi_scope \<Rightarrow> bool" where
  "telemetry_applies api sc \<longleftrightarrow> sc_type sc = ''http'' \<and> sc_method sc = ''POST'' \<and>
     (let pre = api @ ''/workers/jobs/'' in
      prefix pre (sc_path sc) \<and>
      (case partition_at (CHR ''/'') (drop (length pre) (sc_path sc)) of
         (job_id, separator, operation) \<Rightarrow> job_id \<noteq> [] \<and> separator \<and> operation \<in> {''status'', ''logs'', ''metrics''}))"

fun limit_applies :: "body_limit \<Rightarrow> string \<Rightarrow> asgi_scope \<Rightarrow> bool" where
  "limit_applies Sample_Registration = sample_applies"
| "limit_applies Experiment_Body = experiment_applies"
| "limit_applies User_Lifecycle = user_lifecycle_applies"
| "limit_applies Worker_Telemetry = telemetry_applies"

fun too_large :: "body_limit \<Rightarrow> string" where
  "too_large Sample_Registration = ''sample registration body is too large''"
| "too_large Experiment_Body = ''experiment request body is too large''"
| "too_large User_Lifecycle = ''user lifecycle request body is too large''"
| "too_large Worker_Telemetry = ''worker telemetry request body is too large''"

definition body_error :: "(string \<Rightarrow> bool) \<Rightarrow> body_limit \<Rightarrow> string \<Rightarrow> (nat \<times> string) option" where
  "body_error strict_json limit body =
     (if limit = Worker_Telemetry \<and> \<not> strict_json body
      then Some (422, ''worker telemetry request body is not strict JSON'') else None)"

text \<open>The loop over the messages; \<open>Waiting\<close> when the client has sent no more yet.\<close>

fun read_body ::
  "(string \<Rightarrow> bool) \<Rightarrow> body_limit \<Rightarrow> int \<Rightarrow> string list \<Rightarrow> int \<Rightarrow> asgi_message list \<Rightarrow> body_outcome" where
  "read_body strict_json limit max_bytes chunks got [] = Waiting"
| "read_body strict_json limit max_bytes chunks got (Http_Disconnect # ms) = Dropped"
| "read_body strict_json limit max_bytes chunks got (Other_Message # ms) =
     read_body strict_json limit max_bytes chunks got ms"
| "read_body strict_json limit max_bytes chunks got (Http_Request chunk more_body # ms) =
     (let got' = got + int (length chunk) in
      if got' > max_bytes then Rejected 413 (too_large limit)
      else if more_body then read_body strict_json limit max_bytes (chunks @ [chunk]) got' ms
      else (let body = concat (chunks @ [chunk]) in
        case body_error strict_json limit body of
          Some (status_code, detail) \<Rightarrow> Rejected status_code detail
        | None \<Rightarrow> Passed body))"

definition bounded_body ::
  "(string \<Rightarrow> bool) \<Rightarrow> body_limit \<Rightarrow> int \<Rightarrow> asgi_scope \<Rightarrow> asgi_message list \<Rightarrow> body_outcome" where
  "bounded_body strict_json limit max_bytes sc ms =
     (case map_of (rev (map (\<lambda>(k, v). (map lower_char k, v)) (sc_headers sc))) ''content-length'' of
        None \<Rightarrow> read_body strict_json limit max_bytes [] 0 ms
      | Some text \<Rightarrow>
          (case int_of_text text of
             None \<Rightarrow> Rejected 400 ''invalid Content-Length''
           | Some declared \<Rightarrow>
               if declared < 0 then Rejected 400 ''invalid Content-Length''
               else if declared > max_bytes then Rejected 413 (too_large limit)
               else read_body strict_json limit max_bytes [] 0 ms))"

text \<open>
  The constructor's \<^verbatim>\<open>rstrip\<close> and the whole call of one middleware: what the application inside gets to
  see. A request that the middleware does not apply to goes on with its own messages; a body that passes
  is replayed as one message.
\<close>

definition rstrip_slash :: "string \<Rightarrow> string" where
  "rstrip_slash s = rev (dropWhile (\<lambda>c. c = CHR ''/'') (rev s))"

datatype guarded = Goes_On "asgi_message list" | Stops body_outcome

definition body_middleware ::
  "(string \<Rightarrow> bool) \<Rightarrow> body_limit \<Rightarrow> string \<Rightarrow> int \<Rightarrow> asgi_scope \<Rightarrow> asgi_message list \<Rightarrow> guarded" where
  "body_middleware strict_json limit api max_bytes sc ms =
     (if \<not> limit_applies limit (rstrip_slash api) sc then Goes_On ms
      else (case bounded_body strict_json limit max_bytes sc ms of
              Passed body \<Rightarrow> Goes_On [Http_Request body False]
            | stopped \<Rightarrow> Stops stopped))"

record body_settings =
  sample_registration_json_max_bytes :: int
  experiment_json_max_bytes :: int
  user_lifecycle_json_max_bytes :: int
  worker_telemetry_json_max_bytes :: int

text \<open>The stack the application builds: the middleware added last is the outermost.\<close>

fun guard_stack :: "(string \<Rightarrow> bool) \<Rightarrow> string \<Rightarrow> asgi_scope \<Rightarrow> (body_limit \<times> int) list \<Rightarrow> asgi_message list \<Rightarrow> guarded" where
  "guard_stack strict_json api sc [] ms = Goes_On ms"
| "guard_stack strict_json api sc ((limit, max_bytes) # inner) ms =
     (case body_middleware strict_json limit api max_bytes sc ms of
        Goes_On ms' \<Rightarrow> guard_stack strict_json api sc inner ms'
      | Stops stopped \<Rightarrow> Stops stopped)"

definition body_limits :: "body_settings \<Rightarrow> (body_limit \<times> int) list" where
  "body_limits bs =
     [(Worker_Telemetry, worker_telemetry_json_max_bytes bs), (User_Lifecycle, user_lifecycle_json_max_bytes bs),
      (Experiment_Body, experiment_json_max_bytes bs), (Sample_Registration, sample_registration_json_max_bytes bs)]"

definition bounded_request :: "(string \<Rightarrow> bool) \<Rightarrow> string \<Rightarrow> body_settings \<Rightarrow> asgi_scope \<Rightarrow> asgi_message list \<Rightarrow> guarded" where
  "bounded_request strict_json api bs sc ms = guard_stack strict_json api sc (body_limits bs) ms"

end
