(* ===== verification/Request_Limits_Claims.thy ===== *)
theory Request_Limits_Claims
  imports Request_Limits Examples
begin

text \<open>
  How many requests the limiter lets through, which bodies reach the application, and what the choice of
  the limiter's identity means for logins.
\<close>

section \<open>The counter of one key\<close>

text \<open>Counters start at one: a key that exists has counted at least the request that made it.\<close>

definition counts_ok :: "redis \<Rightarrow> bool" where
  "counts_ok r \<longleftrightarrow> (\<forall>key e. r key = Some e \<longrightarrow> 1 \<le> re_count e)"

lemma redis_get_SomeD: "redis_get key now r = Some e \<Longrightarrow> r key = Some e \<and> live_entry now e"
  by (auto simp: redis_get_def split: option.splits if_splits)

lemma counts_okD: "counts_ok r \<Longrightarrow> redis_get key now r = Some e \<Longrightarrow> 1 \<le> re_count e"
  by (auto simp: counts_ok_def dest!: redis_get_SomeD)

text \<open>A request on a live counter adds one and leaves its expiry; any other starts a window of its own.\<close>

lemma script_live:
  assumes "counts_ok r" "redis_get key now r = Some e"
  shows "increment_script key w now r =
    ((re_count e + 1, case re_expires e of None \<Rightarrow> -1 | Some t \<Rightarrow> (t - now + 500) div 1000),
     r(key \<mapsto> e\<lparr>re_count := re_count e + 1\<rparr>))"
  using counts_okD [OF assms] assms(2) by (simp add: increment_script_def Let_def)

lemma script_fresh:
  assumes "redis_get key now r = None"
  shows "increment_script key w now r =
    ((1, (1000 * w + 500) div 1000), r(key \<mapsto> \<lparr>re_count = 1, re_expires = Some (now + 1000 * w)\<rparr>))"
  using assms by (simp add: increment_script_def Let_def)

lemma script_counts_ok: "counts_ok r \<Longrightarrow> counts_ok (snd (increment_script key w now r))"
  by (fastforce simp: counts_ok_def increment_script_def redis_get_def Let_def split: option.splits if_splits)

lemma check_counts_ok: "counts_ok r \<Longrightarrow> counts_ok (snd (check pf key_secret reachable now i rule r))"
  using script_counts_ok [of r "rate_limit_key pf key_secret i rule" "rl_window_seconds rule" now]
  by (auto simp: check_def split: prod.split)

section \<open>A sequence of requests\<close>

text \<open>The requests in the order the limiter sees them, each with its time and whether Redis answers it.\<close>

type_synonym arrival = "int \<times> bool \<times> http_request"

fun serve :: "platform \<Rightarrow> string \<Rightarrow> rate_settings \<Rightarrow> arrival list \<Rightarrow> redis \<Rightarrow> (arrival \<times> nat option) list \<times> redis" where
  "serve pf key_secret rs [] r = ([], r)"
| "serve pf key_secret rs ((now, reachable, rq) # as) r =
     (case admit pf key_secret rs reachable now rq r of
        (answer, r') \<Rightarrow>
          (case serve pf key_secret rs as r' of
             (done, final) \<Rightarrow> (((now, reachable, rq), answer) # done, final)))"

text \<open>The admitted requests of one identity under one rule.\<close>

definition admitted_for ::
  "rate_settings \<Rightarrow> string \<Rightarrow> rate_limit_rule \<Rightarrow> (arrival \<times> nat option) list \<Rightarrow> nat" where
  "admitted_for rs i rule served = length (filter (\<lambda>((now, reachable, rq), answer). answer = None \<and>
     rule_for_request rs rq = Some rule \<and> request_rate_limit_identity rq = i) served)"

lemma admit_counts_ok: "counts_ok r \<Longrightarrow> counts_ok (snd (admit pf key_secret rs reachable now rq r))"
  using check_counts_ok [of r pf key_secret reachable now "request_rate_limit_identity rq"]
  by (auto simp: admit_def split: option.split sum.split prod.split limiter_error.split) (metis snd_conv)+

lemma serve_append:
  "serve pf key_secret rs (as @ bs) r =
     (case serve pf key_secret rs as r of (done, r') \<Rightarrow>
        (case serve pf key_secret rs bs r' of (done', final) \<Rightarrow> (done @ done', final)))"
  by (induction as arbitrary: r) (auto split: prod.split)

lemma serve_counts_ok: "counts_ok r \<Longrightarrow> counts_ok (snd (serve pf key_secret rs as r))"
proof (induction as arbitrary: r)
  case (Cons a as)
  obtain now reachable rq where a: "a = (now, reachable, rq)" by (cases a)
  then show ?case
    using Cons.IH [OF admit_counts_ok [OF Cons.prems, of pf key_secret rs reachable now rq]]
    by (auto split: prod.split)
qed simp

text \<open>Every rule of the program has a window of a minute.\<close>

lemma rule_windows: "pred_option (\<lambda>rule. rl_window_seconds rule = 60) (rule_for_request rs rq)"
  by (simp only: rule_for_request_def Let_def per_minute_def if_distrib [of "pred_option _"]
    option.pred_inject rate_limit_rule.simps simp_thms if_cancel)

lemma rule_window: "rule_for_request rs rq = Some rule \<Longrightarrow> rl_window_seconds rule = 60"
  using rule_windows [of rs rq] by simp

text \<open>
  What a request does to the counter of a key: nothing, and then it is not an admitted request of that
  key, or it counts there, and then it is admitted as such only up to the rule's number. A request whose
  key collides with another's counts as well.
\<close>

lemma admit_on_key:
  assumes "rate_limit_fail_closed rs \<or> reachable" "key = rate_limit_key pf key_secret i rule"
  obtains (alone) "snd (admit pf key_secret rs reachable now rq r) key = r key"
      "rule_for_request rs rq = Some rule \<Longrightarrow> request_rate_limit_identity rq = i \<Longrightarrow>
        fst (admit pf key_secret rs reachable now rq r) \<noteq> None"
    | (counted) "snd (admit pf key_secret rs reachable now rq r) = snd (increment_script key 60 now r)"
      "rule_for_request rs rq = Some rule \<Longrightarrow> fst (admit pf key_secret rs reachable now rq r) = None \<Longrightarrow>
        fst (fst (increment_script key 60 now r)) \<le> rl_requests rule"
proof (cases "rule_for_request rs rq")
  case None
  then show thesis by (intro alone) (simp_all add: admit_def)
next
  case (Some rule')
  let ?key = "rate_limit_key pf key_secret (request_rate_limit_identity rq) rule'"
  note window = rule_window [OF Some]
  show thesis
  proof (cases "rl_requests rule' > 0 \<and> reachable \<and> ?key = key")
    case True
    then show thesis using Some window
      by (intro counted) (auto simp: admit_def check_def split: prod.splits if_splits)
  next
    case False
    have other: "snd (increment_script ?key 60 now r) key = r key" if "?key \<noteq> key"
      using that by (simp add: increment_script_def Let_def)
    show thesis using Some False assms window other
      by (intro alone) (auto simp: admit_def check_def split: prod.splits)
  qed
qed

text \<open>
  How many more requests of a key can pass before a time: what is left of its window, and a window's worth
  when the key is absent or expires before.
\<close>

definition worth :: "string \<Rightarrow> int \<Rightarrow> int \<Rightarrow> int \<Rightarrow> redis \<Rightarrow> int" where
  "worth key n now until r =
     (case redis_get key now r of
        None \<Rightarrow> n
      | Some e \<Rightarrow> max 0 (n - re_count e) + (case re_expires e of None \<Rightarrow> 0 | Some t \<Rightarrow> if t < until then n else 0))"

lemma worth_cong: "r key = r' key \<Longrightarrow> worth key n now until r = worth key n now until r'"
  by (simp add: worth_def redis_get_def)

lemma worth_later: "now \<le> t \<Longrightarrow> t < until \<Longrightarrow> 0 \<le> n \<Longrightarrow> worth key n t until r \<le> worth key n now until r"
  by (auto simp: worth_def redis_get_def live_entry_def split: option.splits)

lemma worth_counted:
  assumes "counts_ok r" "0 \<le> n" "until \<le> t + 60000"
  shows "worth key n t until (snd (increment_script key 60 t r)) +
    (if fst (fst (increment_script key 60 t r)) \<le> n then 1 else 0) \<le> worth key n t until r"
proof (cases "redis_get key t r")
  case None
  then show ?thesis using assms
    by (auto simp: script_fresh worth_def redis_get_def live_entry_def)
next
  case (Some e)
  then have "live_entry t (e\<lparr>re_count := re_count e + 1\<rparr>)"
    using redis_get_SomeD [OF Some] by (auto simp: live_entry_def split: option.splits)
  then show ?thesis
    using assms Some counts_okD [OF assms(1) Some]
    by (auto simp: script_live [OF assms(1) Some] worth_def redis_get_def split: option.splits)
qed

lemma admitted_le_worth:
  assumes "counts_ok r" "0 \<le> rl_requests rule" "key = rate_limit_key pf key_secret i rule"
    and "sorted (map fst as)" "\<forall>a \<in> set as. now \<le> fst a \<and> fst a < until \<and> (rate_limit_fail_closed rs \<or> fst (snd a))"
    and "until \<le> now + 60000"
  shows "int (admitted_for rs i rule (fst (serve pf key_secret rs as r))) \<le> worth key (rl_requests rule) now until r"
  using assms(1,4-)
proof (induction as arbitrary: r now)
  case Nil
  then show ?case using assms(2)
    by (auto simp: admitted_for_def worth_def split: option.splits)
next
  case (Cons a as)
  obtain t reachable rq where a: "a = (t, reachable, rq)" by (cases a)
  define r' where "r' = snd (admit pf key_secret rs reachable t rq r)"
  define ours where "ours \<longleftrightarrow> fst (admit pf key_secret rs reachable t rq r) = None \<and>
    rule_for_request rs rq = Some rule \<and> request_rate_limit_identity rq = i"
  have rest: "int (admitted_for rs i rule (fst (serve pf key_secret rs as r'))) \<le>
      worth key (rl_requests rule) t until r'"
    using Cons.prems admit_counts_ok [OF Cons.prems(1)] unfolding r'_def
    by (intro Cons.IH) (auto simp: a)
  have first: "worth key (rl_requests rule) t until r' + (if ours then 1 else 0) \<le>
      worth key (rl_requests rule) t until r"
  proof -
    have "rate_limit_fail_closed rs \<or> reachable" using Cons.prems(3) by (auto simp: a)
    then show ?thesis
    proof (rule admit_on_key [OF _ assms(3), where now = t and rq = rq and r = r], goal_cases)
      case 1
      then show ?case using worth_cong [of r' key r] by (auto simp: r'_def ours_def)
    next
      case counted: 2
      have "until \<le> t + 60000" using Cons.prems(3,4) by (auto simp: a)
      then show ?case
        using worth_counted [OF Cons.prems(1) assms(2), of until t key] counted
        by (auto simp: r'_def ours_def split: if_splits)
    qed
  qed
  have later: "worth key (rl_requests rule) t until r \<le> worth key (rl_requests rule) now until r"
    using Cons.prems(3) assms(2) by (intro worth_later) (auto simp: a)
  have "int (admitted_for rs i rule (fst (serve pf key_secret rs (a # as) r))) =
      (if ours then 1 else 0) + int (admitted_for rs i rule (fst (serve pf key_secret rs as r')))"
    by (auto simp: a r'_def ours_def admitted_for_def split: prod.split)
  then show ?case using rest first later by linarith
qed

section \<open>At most one body limit applies\<close>

lemma partition_at_found:
  assumes "partition_at c s = (before, True, after)"
  shows "s = before @ c # after" "c \<notin> set before"
proof -
  have "c \<in> set s" using assms by (simp add: partition_at_def)
  then have "dropWhile (\<lambda>x. x \<noteq> c) s = c # tl (dropWhile (\<lambda>x. x \<noteq> c) s)"
    by (metis (mono_tags, lifting) dropWhile_eq_Nil_conv hd_dropWhile list.exhaust_sel)
  then show "s = before @ c # after"
    using assms takeWhile_dropWhile_id [of "\<lambda>x. x \<noteq> c" s] by (auto simp: partition_at_def drop_Suc)
  show "c \<notin> set before" using assms by (auto simp: partition_at_def dest: set_takeWhileD)
qed

text \<open>The part of the API a limit is about.\<close>

fun limit_root :: "body_limit \<Rightarrow> string" where
  "limit_root Sample_Registration = ''/workers/jobs/''"
| "limit_root Experiment_Body = ''/experiments''"
| "limit_root User_Lifecycle = ''/admin/users''"
| "limit_root Worker_Telemetry = ''/workers/jobs/''"

lemma prefix_slash: "prefix (a @ ''/'') p \<Longrightarrow> prefix a p"
  by (auto simp: prefix_def)

lemma applies_root: "limit_applies limit api sc \<Longrightarrow> prefix (api @ limit_root limit) (sc_path sc)"
proof (cases limit)
  case Experiment_Body
  moreover assume "limit_applies limit api sc"
  ultimately show ?thesis
    using prefix_slash [of "api @ ''/experiments''" "sc_path sc"]
    by (auto simp: experiment_applies_def Let_def split: if_splits)
next
  case User_Lifecycle
  moreover assume "limit_applies limit api sc"
  ultimately show ?thesis
    using prefix_slash [of "api @ ''/admin/users''" "sc_path sc"]
    by (auto simp: user_lifecycle_applies_def Let_def split: if_splits)
qed (auto simp: sample_applies_def telemetry_applies_def Let_def)

lemma sample_not_telemetry: "\<not> (sample_applies api sc \<and> telemetry_applies api sc)"
proof
  assume both: "sample_applies api sc \<and> telemetry_applies api sc"
  then have samples: "suffix ''/samples'' (sc_path sc)"
    by (simp add: sample_applies_def Let_def)
  obtain job operation where parts: "partition_at (CHR ''/'') (drop (length (api @ ''/workers/jobs/'')) (sc_path sc)) = (job, True, operation)"
    and operation: "operation \<in> {''status'', ''logs'', ''metrics''}"
    using both by (auto simp: telemetry_applies_def Let_def split: prod.splits)
  have "suffix (CHR ''/'' # operation) (drop (length (api @ ''/workers/jobs/'')) (sc_path sc))"
    unfolding partition_at_found(1) [OF parts] by (simp add: suffix_def)
  then have "suffix (CHR ''/'' # operation) (sc_path sc)"
    by (meson suffix_drop suffix_order.trans)
  then have "suffix ''/samples'' (CHR ''/'' # operation) \<or> suffix (CHR ''/'' # operation) ''/samples''"
    by (meson samples suffix_same_cases)
  then show False using operation by (auto simp: suffix_to_prefix)
qed

lemma one_limit:
  assumes "limit_applies limit api sc" "limit_applies limit' api sc"
  shows "limit = limit'"
proof -
  have "prefix (api @ limit_root limit) (api @ limit_root limit') \<or>
      prefix (api @ limit_root limit') (api @ limit_root limit)"
    using assms by (meson applies_root prefix_same_cases)
  then show ?thesis
    using assms sample_not_telemetry [of api sc] by (cases limit; cases limit'; simp)
qed

fun limit_bytes :: "body_settings \<Rightarrow> body_limit \<Rightarrow> int" where
  "limit_bytes bs Sample_Registration = sample_registration_json_max_bytes bs"
| "limit_bytes bs Experiment_Body = experiment_json_max_bytes bs"
| "limit_bytes bs User_Lifecycle = user_lifecycle_json_max_bytes bs"
| "limit_bytes bs Worker_Telemetry = worker_telemetry_json_max_bytes bs"

lemma bounded_request_one:
  assumes "limit_applies limit (rstrip_slash api) sc"
  shows "bounded_request strict_json api bs sc ms = body_middleware strict_json limit api (limit_bytes bs limit) sc ms"
proof -
  have skip: "body_middleware strict_json other api n sc ms' = Goes_On ms'" if "other \<noteq> limit" for other n ms'
    using one_limit [OF assms] that by (auto simp: body_middleware_def)
  show ?thesis
    by (cases limit) (simp_all add: bounded_request_def body_limits_def skip split: guarded.split)
qed

section \<open>Reading a body\<close>

text \<open>
  What the client declares, \<open>Some None\<close> when it is no number, and a body as the server hands it over: its
  chunks, the last one marked.
\<close>

definition declared_length :: "asgi_scope \<Rightarrow> int option option" where
  "declared_length sc = map_option int_of_text
     (map_of (rev (map (\<lambda>(k, v). (map lower_char k, v)) (sc_headers sc))) ''content-length'')"

definition body_messages :: "string list \<Rightarrow> string \<Rightarrow> asgi_message list" where
  "body_messages chunks final = map (\<lambda>c. Http_Request c True) chunks @ [Http_Request final False]"

lemma read_body_whole:
  assumes "int (length (concat (done @ chunks @ [final]))) \<le> n" "got = int (length (concat done))"
  shows "read_body strict_json limit n done got (body_messages chunks final) =
    (case body_error strict_json limit (concat (done @ chunks @ [final])) of
       Some (status_code, detail) \<Rightarrow> Rejected status_code detail
     | None \<Rightarrow> Passed (concat (done @ chunks @ [final])))"
  using assms
proof (induction chunks arbitrary: "done" got)
  case (Cons c cs)
  from Cons.IH [of "done @ [c]" "got + int (length c)"] Cons.prems
  show ?case by (simp add: body_messages_def split: option.split)
qed (simp add: body_messages_def Let_def split: option.split)

lemma read_body_too_large:
  assumes "n < int (length (concat (done @ chunks @ [final])))" "got = int (length (concat done))"
  shows "read_body strict_json limit n done got (body_messages chunks final) = Rejected 413 (too_large limit)"
  using assms
proof (induction chunks arbitrary: "done" got)
  case (Cons c cs)
  from Cons.IH [of "done @ [c]" "got + int (length c)"] Cons.prems
  show ?case by (simp add: body_messages_def Let_def)
qed (simp add: body_messages_def)

text \<open>Whatever the client sends and declares, no more than the limit is kept.\<close>

lemma read_body_bounded:
  assumes "read_body strict_json limit n done got ms = Passed body" "got = int (length (concat done))"
  shows "int (length body) \<le> n \<and> body_error strict_json limit body = None"
  using assms
proof (induction strict_json limit n "done" got ms rule: read_body.induct)
  case (4 strict_json limit n "done" got chunk more_body ms)
  then show ?case
    by (auto simp: Let_def split: if_splits option.splits)
qed auto

lemma read_body_messages:
  "read_body strict_json limit n [] 0 (body_messages chunks final) =
     (if n < int (length (concat chunks @ final)) then Rejected 413 (too_large limit)
      else case body_error strict_json limit (concat chunks @ final) of
        Some (status_code, detail) \<Rightarrow> Rejected status_code detail
      | None \<Rightarrow> Passed (concat chunks @ final))"
  using read_body_whole [of "[]" chunks final] read_body_too_large [of _ "[]" chunks final]
  by (simp add: not_less split: option.split)

lemma middleware_body:
  assumes "limit_applies limit (rstrip_slash api) sc"
  shows "body_middleware strict_json limit api n sc (body_messages chunks final) =
      (if declared_length sc = Some None \<or> (\<exists>k<0. declared_length sc = Some (Some k))
       then Stops (Rejected 400 ''invalid Content-Length'')
       else if (\<exists>k>n. declared_length sc = Some (Some k)) \<or> n < int (length (concat chunks @ final))
       then Stops (Rejected 413 (too_large limit))
       else if limit = Worker_Telemetry \<and> \<not> strict_json (concat chunks @ final)
       then Stops (Rejected 422 ''worker telemetry request body is not strict JSON'')
       else Goes_On [Http_Request (concat chunks @ final) False])"
  using assms
  by (simp add: body_middleware_def bounded_body_def read_body_messages body_error_def declared_length_def
    split: option.split)

section \<open>What the limits guarantee\<close>


definition ex_rate_settings :: rate_settings where
  "ex_rate_settings = \<lparr>rate_limit_enabled = True, rate_limit_fail_closed = True, api_prefix = ''/api/v1'',
     rate_limit_default_requests = 600, rate_limit_login_requests = 2, rate_limit_register_requests = 10,
     rate_limit_worker_token_rotation_requests = 6, rate_limit_upload_requests = 120,
     rate_limit_finalize_requests = 30, rate_limit_sample_requests = 30, rate_limit_sample_download_requests = 60\<rparr>"

definition ex_login :: "string option \<Rightarrow> http_request" where
  "ex_login authorization = \<lparr>hr_method = ''POST'', hr_path = ''/api/v1/auth/login'',
     hr_authorization = authorization, hr_client_host = Some ''10.0.0.1''\<rparr>"


text \<open>
  C29. The limiter's identity is the Authorization header as it stands, before anything has checked it. So
  login attempts that each carry a header of their own are counted each under a key of its own, and
  however many come within a minute, and from one address, all of them reach the login handler. The keyed
  digests of the headers are taken to differ.
\<close>

theorem headers_evade_login_limit:
  assumes "distinct headers" "[] \<notin> set headers" "0 < rate_limit_login_requests rs"
    and "inj_on (\<lambda>h. hmac_sha256 pf key_secret
      (''rate-limit'' @ [CHR 0x1F] @ ''login'' @ [CHR 0x1F] @ ''authorization:'' @ h)) (set headers)"
  shows "map snd (fst (serve pf key_secret rs (map (\<lambda>h. (now, True,
      \<lparr>hr_method = ''POST'', hr_path = api_prefix rs @ ''/auth/login'', hr_authorization = Some h,
       hr_client_host = Some host\<rparr>)) headers) Map.empty)) = replicate (length headers) None"
proof -
  let ?rule = "per_minute ''login'' (rate_limit_login_requests rs)"
  let ?key = "\<lambda>h. rate_limit_key pf key_secret (''authorization:'' @ h) ?rule"
  let ?login = "\<lambda>h. \<lparr>hr_method = ''POST'', hr_path = api_prefix rs @ ''/auth/login'', hr_authorization = Some h,
       hr_client_host = Some host\<rparr>"
  have keys: "inj_on ?key (set headers)"
    using assms(4) by (simp add: rate_limit_key_def per_minute_def inj_on_def)
  have rule: "rule_for_request rs (?login h) = (if rate_limit_enabled rs then Some ?rule else None)" for h
    by (simp add: rule_for_request_def Let_def upper_char_def char_class_defs)
  have step: "admit pf key_secret rs True now (?login h) r = (None, if rate_limit_enabled rs
      then r(?key h \<mapsto> \<lparr>re_count = 1, re_expires = Some (now + 60000)\<rparr>) else r)"
    if "r (?key h) = None" "h \<noteq> []" for h r
  proof -
    have "redis_get (?key h) now r = None" using that by (simp add: redis_get_def)
    then show ?thesis using that(2) assms(3)
      by (simp add: admit_def rule request_rate_limit_identity_def check_def script_fresh per_minute_def)
  qed
  have "map snd (fst (serve pf key_secret rs (map (\<lambda>h. (now, True, ?login h)) hs) r)) = replicate (length hs) None"
    if "distinct hs" "set hs \<subseteq> set headers" "\<forall>h \<in> set hs. r (?key h) = None" for hs r
    using that
  proof (induction hs arbitrary: r)
    case (Cons h hs)
    have "h \<noteq> []" using Cons.prems assms(2) by auto
    moreover have "?key h' \<noteq> ?key h" if "h' \<in> set hs" for h'
      using that Cons.prems inj_onD [OF keys, of h' h] by auto
    ultimately show ?case
      using Cons.IH [of "snd (admit pf key_secret rs True now (?login h) r)"] Cons.prems step [of r h]
      by (auto split: prod.split)
  qed simp
  from this [OF assms(1)] show ?thesis by simp
qed

theorem headers_evade_login_limit_witness:
  "map snd (fst (serve ex_platform ''k'' ex_rate_settings (map (\<lambda>h. (7, True, \<lparr>hr_method = ''POST'',
      hr_path = ''/api/v1/auth/login'', hr_authorization = Some h, hr_client_host = Some ''10.0.0.1''\<rparr>))
      [''a'', ''b'', ''c'', ''d'']) Map.empty)) = [None, None, None, None] \<and>
   rate_limit_login_requests ex_rate_settings = 2"
proof -
  have "inj_on (\<lambda>h. hmac_sha256 ex_platform ''k''
      (''rate-limit'' @ [CHR 0x1F] @ ''login'' @ [CHR 0x1F] @ ''authorization:'' @ h)) {''a'', ''b'', ''c'', ''d''}"
    by (simp add: inj_on_def ex_platform_def)
  then show ?thesis
    using headers_evade_login_limit [of "[''a'', ''b'', ''c'', ''d'']" ex_rate_settings ex_platform "''k''" 7 "''10.0.0.1''"]
    by (simp add: ex_rate_settings_def)
qed

text \<open>
  C28. A request that a body limit applies to has exactly that one limit: a body handed over in chunks
  reaches the application as one message with all of its bytes if it is no longer than the limit (and, for
  worker telemetry, strict JSON), and is answered 413 (or 422) otherwise; a Content-Length that is too
  large, negative or no number is answered before anything is read. And whatever the client sends and
  declares, what goes on is never longer than the limit.
\<close>

theorem body_limits_are_exact:
  assumes "limit_applies limit (rstrip_slash api) sc"
  shows "bounded_request strict_json api bs sc (body_messages chunks final) =
      (if declared_length sc = Some None \<or> (\<exists>n<0. declared_length sc = Some (Some n))
       then Stops (Rejected 400 ''invalid Content-Length'')
       else if (\<exists>n>limit_bytes bs limit. declared_length sc = Some (Some n)) \<or>
         limit_bytes bs limit < int (length (concat chunks @ final))
       then Stops (Rejected 413 (too_large limit))
       else if limit = Worker_Telemetry \<and> \<not> strict_json (concat chunks @ final)
       then Stops (Rejected 422 ''worker telemetry request body is not strict JSON'')
       else Goes_On [Http_Request (concat chunks @ final) False]) \<and>
    (\<forall>ms passed. bounded_request strict_json api bs sc ms = Goes_On passed \<longrightarrow>
      (\<exists>body. passed = [Http_Request body False] \<and> int (length body) \<le> limit_bytes bs limit))"
proof
  show "bounded_request strict_json api bs sc (body_messages chunks final) =
      (if declared_length sc = Some None \<or> (\<exists>n<0. declared_length sc = Some (Some n))
       then Stops (Rejected 400 ''invalid Content-Length'')
       else if (\<exists>n>limit_bytes bs limit. declared_length sc = Some (Some n)) \<or>
         limit_bytes bs limit < int (length (concat chunks @ final))
       then Stops (Rejected 413 (too_large limit))
       else if limit = Worker_Telemetry \<and> \<not> strict_json (concat chunks @ final)
       then Stops (Rejected 422 ''worker telemetry request body is not strict JSON'')
       else Goes_On [Http_Request (concat chunks @ final) False])"
    unfolding bounded_request_one [OF assms] by (rule middleware_body [OF assms])
  show "\<forall>ms passed. bounded_request strict_json api bs sc ms = Goes_On passed \<longrightarrow>
      (\<exists>body. passed = [Http_Request body False] \<and> int (length body) \<le> limit_bytes bs limit)"
    unfolding bounded_request_one [OF assms]
    using assms read_body_bounded [of strict_json limit "limit_bytes bs limit" "[]" 0]
    by (auto simp: body_middleware_def bounded_body_def split: body_outcome.splits option.splits if_splits)
qed

theorem body_limits_are_exact_witness:
  "let sc = \<lparr>sc_type = ''http'', sc_method = ''PATCH'', sc_path = ''/api/v1/admin/users/u-1'',
        sc_headers = [(''Content-Length'', '' 1_0 '')]\<rparr>;
      bs = \<lparr>sample_registration_json_max_bytes = 4, experiment_json_max_bytes = 8,
        user_lifecycle_json_max_bytes = 16, worker_telemetry_json_max_bytes = 4\<rparr> in
    bounded_request (\<lambda>_. True) ''/api/v1/'' bs sc (body_messages [''{}'', ''ab''] ''c'') =
      Goes_On [Http_Request ''{}abc'' False] \<and>
    bounded_request (\<lambda>_. True) ''/api/v1/'' bs sc (body_messages [''12345678''] ''123456789'') =
      Stops (Rejected 413 ''user lifecycle request body is too large'')"
proof -
  let ?sc = "\<lparr>sc_type = ''http'', sc_method = ''PATCH'', sc_path = ''/api/v1/admin/users/u-1'',
      sc_headers = [(''Content-Length'', '' 1_0 '')]\<rparr>"
  have "limit_applies User_Lifecycle (rstrip_slash ''/api/v1/'') ?sc" by code_simp
  moreover have "declared_length ?sc = Some (Some 10)" by code_simp
  ultimately show ?thesis
    using body_limits_are_exact [of User_Lifecycle "''/api/v1/''" ?sc "\<lambda>_. True"] by simp
qed

end
