(* ===== verification/Worker_Rotation.thy ===== *)
theory Worker_Rotation
  imports Worker_Auth
begin

text \<open>
  The rotation of the bearer token as the Worker agent does it (\<^verbatim>\<open>token_rotation.py\<close>), with the
  credential it keeps on disk (\<^verbatim>\<open>credentials.py\<close>), the calls of its client (\<^verbatim>\<open>client.py\<close>) and the Manager's
  own endpoints at the other end.

  The agent is a program over a world: the Manager's ledger, the credential file, the token the client
  sends, and the requests still on their way. Everything it does outside itself takes one event from a list,
  which says what the network, the Manager and the disk do: a request is answered, answered in vain,
  never sent, turned away by the rate limiter, or delayed until any later time; a write of the file
  succeeds, fails, or fails after the file has been replaced. Other transactions of the Manager come between.
  When the list is used up the agent has crashed.
\<close>

section \<open>The credential\<close>

record worker_credential =
  cr_manager_url :: string
  cr_worker_id :: string
  cr_worker_name :: string
  cr_worker_token :: string
  cr_pending_rotation_id :: "string option"
  cr_pending_worker_token :: "string option"
  cr_pending_rotation_expires_at :: "datetime option"

datatype agent_error = Credential_Error string | Manager_Error "nat option"

definition stage_rotation :: "string \<Rightarrow> string \<Rightarrow> datetime \<Rightarrow> worker_credential \<Rightarrow> worker_credential" where
  "stage_rotation rotation_id token expires_at c =
     c\<lparr>cr_pending_rotation_id := Some rotation_id, cr_pending_worker_token := Some token,
       cr_pending_rotation_expires_at := Some expires_at\<rparr>"

definition clear_pending :: "worker_credential \<Rightarrow> worker_credential" where
  "clear_pending c = c\<lparr>cr_pending_rotation_id := None, cr_pending_worker_token := None,
     cr_pending_rotation_expires_at := None\<rparr>"

definition activate_pending :: "worker_credential \<Rightarrow> agent_error + worker_credential" where
  "activate_pending c =
     (case cr_pending_worker_token c of
        None \<Rightarrow> Inl (Credential_Error ''Worker credential has no pending token rotation'')
      | Some token \<Rightarrow> Inr (clear_pending (c\<lparr>cr_worker_token := token\<rparr>)))"

text \<open>\<^verbatim>\<open>^rvcw_[A-Za-z0-9_-]{32,128}$\<close>, and the texts that are their own canonical UUID.\<close>

definition worker_token_ok :: "string \<Rightarrow> bool" where
  "worker_token_ok s \<longleftrightarrow> take 5 s = ''rvcw_'' \<and> 32 \<le> length (drop 5 s) \<and> length (drop 5 s) \<le> 128 \<and>
     list_all (\<lambda>c. is_alnum c \<or> c = CHR ''_'' \<or> c = CHR ''-'') (drop 5 s)"

definition canonical_uuid :: "string \<Rightarrow> bool" where
  "canonical_uuid s \<longleftrightarrow> length s = 36 \<and>
     list_all (\<lambda>i. if i \<in> {8, 13, 18, 23} then s ! i = CHR ''-'' else is_hex (s ! i)) [0..<36]"

definition validate_pending_rotation :: "worker_credential \<Rightarrow> agent_error + unit" where
  "validate_pending_rotation c =
     (if \<not> worker_token_ok (cr_worker_token c)
      then Inl (Credential_Error ''Worker credential token format is invalid'')
      else case (cr_pending_rotation_id c, cr_pending_worker_token c, cr_pending_rotation_expires_at c) of
        (None, None, None) \<Rightarrow> Inr ()
      | (Some rotation_id, Some token, Some _) \<Rightarrow>
          if \<not> worker_token_ok token
          then Inl (Credential_Error ''Worker pending credential token format is invalid'')
          else if \<not> canonical_uuid rotation_id
          then Inl (Credential_Error ''Worker pending rotation id is invalid'')
          else Inr ()
      | _ \<Rightarrow> Inl (Credential_Error ''Worker pending credential fields must be provided together''))"

text \<open>What \<^verbatim>\<open>load\<close> makes of the stored credential.\<close>

definition load_credential ::
  "string \<Rightarrow> string \<Rightarrow> worker_credential option \<Rightarrow> agent_error + worker_credential option" where
  "load_credential manager_url worker_name file =
     (case file of
        None \<Rightarrow> Inr None
      | Some c \<Rightarrow>
          if cr_worker_id c = [] \<or> cr_worker_token c = []
          then Inl (Credential_Error ''Worker credential is missing its id or token'')
          else case validate_pending_rotation c of
            Inl e \<Rightarrow> Inl e
          | Inr _ \<Rightarrow>
              if cr_manager_url c \<noteq> manager_url \<or> cr_worker_name c \<noteq> worker_name
              then Inl (Credential_Error ''stored Worker credential belongs to a different Manager or Worker name'')
              else Inr (Some c))"

section \<open>The other end\<close>

record worker_session =
  ws_worker_id :: ident
  ws_name :: string
  ws_status :: worker_status
  ws_current_job_id :: "ident option"
  ws_last_heartbeat_at :: "datetime option"

definition worker_session :: "worker_row \<Rightarrow> worker_session" where
  "worker_session w = \<lparr>ws_worker_id = w_id w, ws_name = w_name w, ws_status = w_status w,
     ws_current_job_id = w_current_job_id w, ws_last_heartbeat_at = w_last_heartbeat_at w\<rparr>"

datatype worker_call =
    Get_Session
  | Get_Rotation_Status
  | Prepare_Rotation string
  | Activate_Rotation string string
  | Abort_Rotation string

datatype worker_reply =
    Session worker_session
  | Rotation_Status worker_token_rotation_status
  | Rotation_Prepared ident string string datetime
  | Rotation_Activated ident string datetime

text \<open>
  What the Manager does with one request: its clock, the token it would draw, the outcome of its commit, and
  what other transactions do before the authentication and between it and the locks.
\<close>

record manager_turn =
  mt_now :: datetime
  mt_raw_token :: string
  mt_commit :: commit
  mt_before :: "ledger \<Rightarrow> ledger"
  mt_between :: "ledger \<Rightarrow> ledger"

definition respond ::
  "platform \<Rightarrow> settings \<Rightarrow> manager_turn \<Rightarrow> string \<Rightarrow> worker_call \<Rightarrow> ledger \<Rightarrow> worker_reply handled" where
  "respond pf st mt token call d =
     (let d0 = mt_before mt d in
      case require_worker pf st (Some (''Bearer'', token)) d0 of
        Inl e \<Rightarrow> (Inl e, d0)
      | Inr w \<Rightarrow>
          (let d1 = mt_between mt d0 in
           case call of
             Get_Session \<Rightarrow> (Inr (Session (worker_session w)), d1)
           | Get_Rotation_Status \<Rightarrow> (map_sum id Rotation_Status (token_rotation_status w), d1)
           | Prepare_Rotation rotation_id \<Rightarrow>
               map_prod (map_sum id (\<lambda>(i, r, t, e). Rotation_Prepared i r t e)) id
                 (prepare_token_rotation pf st (mt_now mt) (mt_raw_token mt) (mt_commit mt) w rotation_id d1)
           | Activate_Rotation rotation_id pending \<Rightarrow>
               map_prod (map_sum id (\<lambda>(i, r, t). Rotation_Activated i r t)) id
                 (activate_token_rotation pf st (mt_now mt) (mt_commit mt) w rotation_id (Some pending) d1)
           | Abort_Rotation rotation_id \<Rightarrow>
               map_prod (map_sum id Rotation_Status) id
                 (abort_token_rotation (mt_commit mt) w rotation_id d1)))"

section \<open>The agent's world\<close>

record agent_world =
  aw_ledger :: ledger
  aw_file :: "worker_credential option"
  aw_token :: string
  aw_flight :: "(string \<times> worker_call) list"

datatype link = Responded manager_turn | Answer_Lost manager_turn | Never_Sent | Delayed | Turned_Away

datatype disk = Written | Not_Written | Written_Then_Failed

record agent_event =
  ev_late :: "(nat \<times> manager_turn) list"
  ev_link :: link
  ev_disk :: disk
  ev_clock :: datetime
  ev_uuid :: string

datatype 'a outcome = Returns 'a | Raises agent_error | Crashed

type_synonym 'a agent = "agent_event list \<Rightarrow> agent_world \<Rightarrow> 'a outcome \<times> agent_event list \<times> agent_world"

definition agent_return :: "'a \<Rightarrow> 'a agent" where
  "agent_return x es w = (Returns x, es, w)"

definition agent_raise :: "agent_error \<Rightarrow> 'a agent" where
  "agent_raise e es w = (Raises e, es, w)"

definition agent_bind :: "'a agent \<Rightarrow> ('a \<Rightarrow> 'b agent) \<Rightarrow> 'b agent" where
  "agent_bind m f es w =
     (case m es w of
        (Returns x, es', w') \<Rightarrow> f x es' w'
      | (Raises e, es', w') \<Rightarrow> (Raises e, es', w')
      | (Crashed, es', w') \<Rightarrow> (Crashed, es', w'))"

text \<open>\<^verbatim>\<open>try\<close>: an error of the agent becomes a value.\<close>

definition agent_try :: "'a agent \<Rightarrow> (agent_error + 'a) agent" where
  "agent_try m es w =
     (case m es w of
        (Returns x, es', w') \<Rightarrow> (Returns (Inr x), es', w')
      | (Raises e, es', w') \<Rightarrow> (Returns (Inl e), es', w')
      | (Crashed, es', w') \<Rightarrow> (Crashed, es', w'))"

definition agent_lift :: "agent_error + 'a \<Rightarrow> 'a agent" where
  "agent_lift r = (case r of Inl e \<Rightarrow> agent_raise e | Inr x \<Rightarrow> agent_return x)"

text \<open>Requests on their way reach the Manager whenever they do.\<close>

fun arrive :: "platform \<Rightarrow> settings \<Rightarrow> (nat \<times> manager_turn) list \<Rightarrow> agent_world \<Rightarrow> agent_world" where
  "arrive pf st [] w = w"
| "arrive pf st ((i, mt) # late) w =
     (if i < length (aw_flight w)
      then arrive pf st late (w\<lparr>aw_ledger := snd (respond pf st mt (fst (aw_flight w ! i)) (snd (aw_flight w ! i)) (aw_ledger w)),
        aw_flight := take i (aw_flight w) @ drop (Suc i) (aw_flight w)\<rparr>)
      else arrive pf st late w)"

definition next_event :: "platform \<Rightarrow> settings \<Rightarrow> agent_event agent" where
  "next_event pf st es w =
     (case es of
        [] \<Rightarrow> (Crashed, [], w)
      | e # es' \<Rightarrow> (Returns e, es', arrive pf st (ev_late e) w))"

definition http_status :: "api_error \<Rightarrow> nat" where
  "http_status e = (case e of HTTPException code _ \<Rightarrow> code | Unhandled _ \<Rightarrow> 500)"

definition send_request :: "platform \<Rightarrow> settings \<Rightarrow> worker_call \<Rightarrow> worker_reply agent" where
  "send_request pf st call =
     agent_bind (next_event pf st) (\<lambda>e es w.
       case ev_link e of
         Responded mt \<Rightarrow>
           (case respond pf st mt (aw_token w) call (aw_ledger w) of
              (Inl err, d) \<Rightarrow> (Raises (Manager_Error (Some (http_status err))), es, w\<lparr>aw_ledger := d\<rparr>)
            | (Inr reply, d) \<Rightarrow> (Returns reply, es, w\<lparr>aw_ledger := d\<rparr>))
       | Answer_Lost mt \<Rightarrow>
           (Raises (Manager_Error None), es,
            w\<lparr>aw_ledger := snd (respond pf st mt (aw_token w) call (aw_ledger w))\<rparr>)
       | Never_Sent \<Rightarrow> (Raises (Manager_Error None), es, w)
       | Delayed \<Rightarrow> (Raises (Manager_Error None), es, w\<lparr>aw_flight := aw_flight w @ [(aw_token w, call)]\<rparr>)
       | Turned_Away \<Rightarrow> (Raises (Manager_Error (Some 429)), es, w))"

text \<open>The client's methods; a reply of another shape would not validate.\<close>

definition set_worker_token :: "string \<Rightarrow> unit agent" where
  "set_worker_token token es w = (Returns (), es, w\<lparr>aw_token := token\<rparr>)"

definition get_session :: "platform \<Rightarrow> settings \<Rightarrow> worker_session agent" where
  "get_session pf st = agent_bind (send_request pf st Get_Session)
     (\<lambda>reply. case reply of Session s \<Rightarrow> agent_return s | _ \<Rightarrow> agent_raise (Manager_Error None))"

definition get_token_rotation_status :: "platform \<Rightarrow> settings \<Rightarrow> worker_token_rotation_status agent" where
  "get_token_rotation_status pf st = agent_bind (send_request pf st Get_Rotation_Status)
     (\<lambda>reply. case reply of Rotation_Status s \<Rightarrow> agent_return s | _ \<Rightarrow> agent_raise (Manager_Error None))"

definition request_prepare :: "platform \<Rightarrow> settings \<Rightarrow> string \<Rightarrow> (ident \<times> string \<times> string \<times> datetime) agent" where
  "request_prepare pf st rotation_id = agent_bind (send_request pf st (Prepare_Rotation rotation_id))
     (\<lambda>reply. case reply of Rotation_Prepared i r t e \<Rightarrow> agent_return (i, r, t, e)
      | _ \<Rightarrow> agent_raise (Manager_Error None))"

definition request_activate :: "platform \<Rightarrow> settings \<Rightarrow> string \<Rightarrow> string \<Rightarrow> unit agent" where
  "request_activate pf st rotation_id pending = agent_bind (send_request pf st (Activate_Rotation rotation_id pending))
     (\<lambda>reply. case reply of Rotation_Activated _ _ _ \<Rightarrow> agent_return () | _ \<Rightarrow> agent_raise (Manager_Error None))"

definition request_abort :: "platform \<Rightarrow> settings \<Rightarrow> string \<Rightarrow> unit agent" where
  "request_abort pf st rotation_id = agent_bind (send_request pf st (Abort_Rotation rotation_id))
     (\<lambda>reply. case reply of Rotation_Status _ \<Rightarrow> agent_return () | _ \<Rightarrow> agent_raise (Manager_Error None))"

definition save :: "platform \<Rightarrow> settings \<Rightarrow> worker_credential \<Rightarrow> unit agent" where
  "save pf st c =
     agent_bind (agent_lift (validate_pending_rotation c)) (\<lambda>_.
     agent_bind (next_event pf st) (\<lambda>e es w.
       case ev_disk e of
         Written \<Rightarrow> (Returns (), es, w\<lparr>aw_file := Some c\<rparr>)
       | Not_Written \<Rightarrow> (Raises (Credential_Error ''cannot persist Worker credential''), es, w)
       | Written_Then_Failed \<Rightarrow>
           (Raises (Credential_Error ''cannot persist Worker credential''), es, w\<lparr>aw_file := Some c\<rparr>)))"

section \<open>Rotation\<close>

definition validate_status_owner :: "worker_token_rotation_status \<Rightarrow> worker_credential \<Rightarrow> agent_error + unit" where
  "validate_status_owner s c =
     (if rs_worker_id s \<noteq> cr_worker_id c
      then Inl (Credential_Error ''Worker token rotation status belongs to another Worker'') else Inr ())"

definition validate_session_owner :: "worker_session \<Rightarrow> worker_credential \<Rightarrow> agent_error + unit" where
  "validate_session_owner s c =
     (if ws_worker_id s \<noteq> cr_worker_id c \<or> ws_name s \<noteq> cr_worker_name c
      then Inl (Credential_Error ''Worker token belongs to another Worker'') else Inr ())"

definition session_for_token :: "platform \<Rightarrow> settings \<Rightarrow> string \<Rightarrow> worker_session option agent" where
  "session_for_token pf st token =
     agent_bind (set_worker_token token) (\<lambda>_.
     agent_bind (agent_try (get_session pf st)) (\<lambda>r.
       case r of
         Inr s \<Rightarrow> agent_return (Some s)
       | Inl (Manager_Error (Some code)) \<Rightarrow>
           if code = 401 then agent_return None else agent_raise (Manager_Error (Some code))
       | Inl e \<Rightarrow> agent_raise e))"

definition persist_activated :: "platform \<Rightarrow> settings \<Rightarrow> worker_credential \<Rightarrow> worker_credential agent" where
  "persist_activated pf st c =
     agent_bind (agent_lift (activate_pending c)) (\<lambda>activated.
     agent_bind (save pf st activated) (\<lambda>_.
     agent_bind (set_worker_token (cr_worker_token activated)) (\<lambda>_. agent_return activated)))"

text \<open>Dropping the pending token, with the error of a rotation that was to succeed.\<close>

definition drop_pending :: "platform \<Rightarrow> settings \<Rightarrow> worker_credential \<Rightarrow> bool \<Rightarrow> string \<Rightarrow> worker_credential agent" where
  "drop_pending pf st c require_activation message =
     agent_bind (save pf st (clear_pending c)) (\<lambda>_.
     if require_activation then agent_raise (Credential_Error message) else agent_return (clear_pending c))"

text \<open>The end of \<^verbatim>\<open>_complete_pending_rotation\<close>: prove the new token, then keep it.\<close>

definition prove_pending :: "platform \<Rightarrow> settings \<Rightarrow> worker_credential \<Rightarrow> string \<Rightarrow> worker_credential agent" where
  "prove_pending pf st c pending =
     agent_bind (set_worker_token pending) (\<lambda>_.
     agent_bind (get_session pf st) (\<lambda>s.
     agent_bind (agent_lift (validate_session_owner s c)) (\<lambda>_. persist_activated pf st c)))"

text \<open>What follows an activation that was not acknowledged.\<close>

definition resolve_activation ::
  "platform \<Rightarrow> settings \<Rightarrow> worker_credential \<Rightarrow> string \<Rightarrow> string \<Rightarrow> bool \<Rightarrow> worker_credential agent" where
  "resolve_activation pf st c rotation_id pending require_activation =
     agent_bind (session_for_token pf st pending) (\<lambda>pending_session.
     case pending_session of
       Some s \<Rightarrow> agent_bind (agent_lift (validate_session_owner s c)) (\<lambda>_. persist_activated pf st c)
     | None \<Rightarrow>
         agent_bind (set_worker_token (cr_worker_token c)) (\<lambda>_.
         agent_bind (get_token_rotation_status pf st) (\<lambda>s.
         agent_bind (agent_lift (validate_status_owner s c)) (\<lambda>_.
         if \<not> rs_pending s
         then drop_pending pf st c require_activation ''Worker token rotation was not activated''
         else if rs_rotation_id s \<noteq> Some rotation_id
         then agent_raise (Credential_Error ''Manager has a different pending Worker token rotation'')
         else agent_bind (next_event pf st) (\<lambda>clock.
           if \<not> (\<exists>t \<in> set_option (rs_expires_at s). ev_clock clock < t)
           then agent_bind (request_abort pf st rotation_id) (\<lambda>_.
             drop_pending pf st c require_activation ''Worker token rotation expired before activation'')
           else agent_bind (request_activate pf st rotation_id pending) (\<lambda>_. prove_pending pf st c pending))))))"

definition complete_pending_rotation ::
  "platform \<Rightarrow> settings \<Rightarrow> worker_credential \<Rightarrow> bool \<Rightarrow> worker_credential agent" where
  "complete_pending_rotation pf st c require_activation =
     (case (cr_pending_rotation_id c, cr_pending_worker_token c, cr_pending_rotation_expires_at c) of
        (Some rotation_id, Some pending, Some _) \<Rightarrow>
          agent_bind (set_worker_token (cr_worker_token c)) (\<lambda>_.
          agent_bind (agent_try (request_activate pf st rotation_id pending)) (\<lambda>r.
            case r of
              Inr _ \<Rightarrow> prove_pending pf st c pending
            | Inl (Manager_Error _) \<Rightarrow> resolve_activation pf st c rotation_id pending require_activation
            | Inl e \<Rightarrow> agent_raise e))
      | _ \<Rightarrow> agent_raise (Credential_Error ''Worker pending credential fields are incomplete''))"

definition reconcile_worker_token_rotation ::
  "platform \<Rightarrow> settings \<Rightarrow> worker_credential \<Rightarrow> worker_credential agent" where
  "reconcile_worker_token_rotation pf st c =
     agent_bind (set_worker_token (cr_worker_token c)) (\<lambda>_.
     if cr_pending_rotation_id c \<noteq> None then complete_pending_rotation pf st c False
     else
       agent_bind (get_token_rotation_status pf st) (\<lambda>s.
       agent_bind (agent_lift (validate_status_owner s c)) (\<lambda>_.
       if rs_pending s
       then (case rs_rotation_id s of
           None \<Rightarrow> agent_raise (Credential_Error ''Manager returned an incomplete Worker token rotation'')
         | Some rotation_id \<Rightarrow> agent_bind (request_abort pf st rotation_id) (\<lambda>_. agent_return c))
       else agent_return c)))"

text \<open>An attempt to withdraw a rotation whose failure is ignored.\<close>

definition withdraw :: "platform \<Rightarrow> settings \<Rightarrow> string \<Rightarrow> unit agent" where
  "withdraw pf st rotation_id =
     agent_bind (agent_try (request_abort pf st rotation_id)) (\<lambda>r.
       case r of Inl (Credential_Error m) \<Rightarrow> agent_raise (Credential_Error m) | _ \<Rightarrow> agent_return ())"

text \<open>What follows the Manager's answer to a preparation: the pending token is on disk before it is used.\<close>

definition keep_prepared ::
  "platform \<Rightarrow> settings \<Rightarrow> worker_credential \<Rightarrow> string \<Rightarrow> ident \<times> string \<times> string \<times> datetime \<Rightarrow> worker_credential agent" where
  "keep_prepared pf st c rotation_id prepared =
     (case prepared of (worker_id, prepared_id, token, expires_at) \<Rightarrow>
        if worker_id \<noteq> cr_worker_id c \<or> prepared_id \<noteq> rotation_id
        then agent_bind (withdraw pf st rotation_id) (\<lambda>_.
          agent_raise (Credential_Error ''Manager returned a mismatched Worker token rotation''))
        else
          (let staged = stage_rotation rotation_id token expires_at c in
           agent_bind (agent_try (save pf st staged)) (\<lambda>saved.
           case saved of
             Inl (Credential_Error m) \<Rightarrow>
               agent_bind (withdraw pf st rotation_id) (\<lambda>_. agent_raise (Credential_Error m))
           | Inl e \<Rightarrow> agent_raise e
           | Inr _ \<Rightarrow> complete_pending_rotation pf st staged True)))"

definition prepare_and_keep :: "platform \<Rightarrow> settings \<Rightarrow> worker_credential \<Rightarrow> string \<Rightarrow> worker_credential agent" where
  "prepare_and_keep pf st c rotation_id =
     agent_bind (agent_try (request_prepare pf st rotation_id)) (\<lambda>r.
     case r of
       Inl (Manager_Error code) \<Rightarrow>
         agent_bind (reconcile_worker_token_rotation pf st c) (\<lambda>_. agent_raise (Manager_Error code))
     | Inl e \<Rightarrow> agent_raise e
     | Inr prepared \<Rightarrow> keep_prepared pf st c rotation_id prepared)"

definition rotate_worker_token :: "platform \<Rightarrow> settings \<Rightarrow> worker_credential \<Rightarrow> worker_credential agent" where
  "rotate_worker_token pf st stored =
     agent_bind (reconcile_worker_token_rotation pf st stored) (\<lambda>c.
     agent_bind (set_worker_token (cr_worker_token c)) (\<lambda>_.
     agent_bind (get_session pf st) (\<lambda>s.
     agent_bind (agent_lift (validate_session_owner s c)) (\<lambda>_.
     if ws_current_job_id s \<noteq> None \<or> ws_status s \<noteq> IDLE
     then agent_raise (Credential_Error ''Worker token rotation requires an idle Worker'')
     else agent_bind (next_event pf st) (\<lambda>drawn. prepare_and_keep pf st c (ev_uuid drawn))))))"

text \<open>
  The two entries of the command line that come here: a start of the agent, which recovers first, and
  \<^verbatim>\<open>--rotate-token\<close>. Each starts from the file.
\<close>

datatype agent_run = Start_Agent | Rotate_Token

definition run_agent :: "platform \<Rightarrow> settings \<Rightarrow> string \<Rightarrow> string \<Rightarrow> agent_run \<Rightarrow> worker_credential option agent" where
  "run_agent pf st manager_url worker_name run es w =
     (case load_credential manager_url worker_name (aw_file w) of
        Inl e \<Rightarrow> (Raises e, es, w)
      | Inr None \<Rightarrow>
          (case run of
             Start_Agent \<Rightarrow> (Returns None, es, w)
           | Rotate_Token \<Rightarrow> (Raises (Credential_Error ''a persistent Worker credential is required for token rotation''), es, w))
      | Inr (Some c) \<Rightarrow>
          agent_bind (case run of Start_Agent \<Rightarrow> reconcile_worker_token_rotation pf st c
            | Rotate_Token \<Rightarrow> rotate_worker_token pf st c) (\<lambda>c. agent_return (Some c))
            es (w\<lparr>aw_token := cr_worker_token c\<rparr>))"

end
