(* ===== verification/Rotation_Safety.thy ===== *)
theory Rotation_Safety
  imports Worker_Rotation
begin

text \<open>
  No rotation locks a worker out: whatever the network, the disk and other transactions do, and wherever
  the agent dies, its file keeps a token that the Manager accepts.

  The proof is a small Hoare logic for the agent. Its assertions speak of the worker's row, the file and
  the requests on their way, and are stable under everything that may happen in between.
\<close>

section \<open>The worker at the Manager\<close>

text \<open>
  The ledger is in order, and no other worker has one of the tokens with a hash in \<open>H\<close>; what other
  transactions may do keeps that and leaves the worker's credential columns alone.
\<close>

definition ledger_fine :: "string set \<Rightarrow> ident \<Rightarrow> ledger \<Rightarrow> bool" where
  "ledger_fine H wid d \<longleftrightarrow> assignment_ok d \<and> tokens_ok d \<and>
     (\<forall>o' \<in> set (workers d). w_id o' \<noteq> wid \<longrightarrow> w_token_hash o' \<notin> H)"

definition harmless :: "string set \<Rightarrow> ident \<Rightarrow> (ledger \<Rightarrow> ledger) \<Rightarrow> bool" where
  "harmless H wid f \<longleftrightarrow> (\<forall>d. ledger_fine H wid d \<longrightarrow> ledger_fine H wid (f d) \<and>
     map_option credential (get_worker_row wid (f d)) = map_option credential (get_worker_row wid d))"

definition turn_ok :: "string set \<Rightarrow> ident \<Rightarrow> manager_turn \<Rightarrow> bool" where
  "turn_ok H wid mt \<longleftrightarrow> harmless H wid (mt_before mt) \<and> harmless H wid (mt_between mt)"

lemma harmlessD:
  assumes "harmless H wid f" "ledger_fine H wid d" "get_worker_row wid d = Some r"
  obtains r' where "ledger_fine H wid (f d)" "get_worker_row wid (f d) = Some r'" "credential r' = credential r"
proof -
  have "ledger_fine H wid (f d)" "map_option credential (get_worker_row wid (f d)) = Some (credential r)"
    using assms by (simp_all add: harmless_def)
  then show thesis using that by (auto simp: map_option_eq_Some)
qed

lemma fine_keys: "ledger_fine H wid d \<Longrightarrow> wf_table w_id (workers d)"
  by (auto simp: ledger_fine_def intro: keys_okD(4) assignment_okD(1))

text \<open>A token of the worker authenticates the worker or nobody.\<close>

lemma own_token:
  assumes "ledger_fine H wid d" "hash_worker_token pf st token \<in> H"
    and "require_worker pf st (Some (''Bearer'', token)) d = Inr w"
  shows "get_worker_row wid d = Some w" "w_token_hash w = hash_worker_token pf st token"
proof -
  have w: "w \<in> set (workers d)" "w_token_hash w = hash_worker_token pf st token"
    using assms by (auto simp: require_worker_iff ledger_fine_def)
  then have "w_id w = wid" using assms(1,2) by (auto simp: ledger_fine_def)
  then show "get_worker_row wid d = Some w" using w fine_keys [OF assms(1)] by (simp add: get_row_iff)
  show "w_token_hash w = hash_worker_token pf st token" by (rule w(2))
qed

lemma bearer_scheme: "map lower_char ''Bearer'' = ''bearer''"
  by code_simp

lemma token_authenticates:
  assumes "ledger_fine H wid d" "get_worker_row wid d = Some r" "w_is_active r"
    and "w_token_hash r = hash_worker_token pf st token"
  shows "require_worker pf st (Some (''Bearer'', token)) d = Inr r"
  using assms get_row_SomeD [OF assms(2)] bearer_scheme
  by (auto simp only: require_worker_iff ledger_fine_def)

text \<open>Writing the worker's own row keeps the ledger fine when it keeps it in order.\<close>

lemma fine_written:
  assumes "ledger_fine H wid d" "worker_written w f d d'" "w_id w = wid" "\<And>r. w_id (f r) = w_id r"
    and "assignment_ok d'" "tokens_ok d'"
  shows "ledger_fine H wid d'" "get_worker_row wid d' = Some (orm_worker f w)"
proof -
  have rows: "workers d' = upd_row w_id wid (orm_worker f) (workers d)" "get_worker_row wid d = Some w"
    using assms(2,3) by (auto simp: worker_written_def)
  have "w_token_hash v \<notin> H" if "v \<in> set (workers d')" "w_id v \<noteq> wid" for v
    using that assms(1,4) unfolding rows(1) by (auto simp: ledger_fine_def elim!: set_upd_rowE)
  then show "ledger_fine H wid d'" using assms(5,6) by (simp add: ledger_fine_def)
  show "get_worker_row wid d' = Some (orm_worker f w)"
    using rows assms(4) by (simp add: get_row_upd_row)
qed

text \<open>What one request of the agent does to the worker's hashes.\<close>

definition tokens_of :: "ident \<Rightarrow> ledger \<Rightarrow> (string \<times> string option) option" where
  "tokens_of wid d = (case get_worker_row wid d of
     Some r \<Rightarrow> if w_is_active r then Some (w_token_hash r, w_pending_token_hash r) else None
   | None \<Rightarrow> None)"

fun hash_step :: "platform \<Rightarrow> settings \<Rightarrow> manager_turn \<Rightarrow> worker_call \<Rightarrow> string \<times> string option \<Rightarrow> string \<times> string option \<Rightarrow> bool" where
  "hash_step pf st mt call (h, p) (h', p') \<longleftrightarrow>
     (h', p') = (h, p) \<or>
     (\<exists>rid. call = Prepare_Rotation rid) \<and> (h', p') = (h, Some (hash_worker_token pf st (mt_raw_token mt))) \<or>
     (\<exists>rid. call = Abort_Rotation rid) \<and> (h', p') = (h, None) \<or>
     (\<exists>rid token. call = Activate_Rotation rid token \<and> p = Some (hash_worker_token pf st token) \<and>
        (h', p') = (hash_worker_token pf st token, None))"

lemma tokens_of_cred:
  assumes "get_worker_row wid d = Some r" "get_worker_row wid d' = Some r'" "credential r' = credential r"
  shows "tokens_of wid d' = tokens_of wid d"
  using assms by (simp add: tokens_of_def credential_def)

lemma respond_step:
  assumes fine: "ledger_fine H wid d" and hp: "tokens_of wid d = Some hp" and ok: "turn_ok H wid mt"
    and token: "hash_worker_token pf st token \<in> H" and r: "respond pf st mt token call d = (ans, d')"
  shows "ledger_fine H wid d' \<and> (\<exists>hp'. tokens_of wid d' = Some hp' \<and> hash_step pf st mt call hp hp')"
proof -
  obtain r0 where r0: "get_worker_row wid d = Some r0" "w_is_active r0" "hp = (w_token_hash r0, w_pending_token_hash r0)"
    using hp by (auto simp: tokens_of_def split: option.splits if_splits)
  obtain r1 where d0: "ledger_fine H wid (mt_before mt d)" "get_worker_row wid (mt_before mt d) = Some r1"
    "credential r1 = credential r0"
    using ok fine r0(1) unfolding turn_ok_def by (auto elim: harmlessD)
  obtain r2 where d1: "ledger_fine H wid (mt_between mt (mt_before mt d))"
    "get_worker_row wid (mt_between mt (mt_before mt d)) = Some r2" "credential r2 = credential r1"
    using ok d0 unfolding turn_ok_def by (auto elim: harmlessD)
  let ?d0 = "mt_before mt d" and ?d1 = "mt_between mt (mt_before mt d)"
  have same: "tokens_of wid ?d0 = Some hp" "tokens_of wid ?d1 = Some hp"
    using tokens_of_cred [OF r0(1) d0(2,3)] tokens_of_cred [OF d0(2) d1(2,3)] hp by simp_all
  have refl: "hash_step pf st mt call hp hp" by (cases hp) simp
  show ?thesis
  proof (cases "require_worker pf st (Some (''Bearer'', token)) ?d0")
    case (Inl e)
    then show ?thesis using r d0(1) same refl by (auto simp: respond_def)
  next
    case (Inr w)
    have w: "w_id w = wid" using own_token [OF d0(1) token Inr] get_row_SomeD by metis
    have order: "assignment_ok ?d1" "tokens_ok ?d1" using d1(1) by (simp_all add: ledger_fine_def)
    have r2: "w_token_hash r2 = fst hp" "w_pending_token_hash r2 = snd hp" "w_is_active r2"
      using r0 d0(3) d1(3) by (simp_all add: credential_def)
    have written: ?thesis
      if "worker_written v f ?d1 d'" "w_id v = wid" "\<And>r. w_id (f r) = w_id r" "assignment_ok d'" "tokens_ok d'"
        "w_is_active (f v)" "hash_step pf st mt call hp (w_token_hash (f v), w_pending_token_hash (f v))" for v f
      using fine_written [OF d1(1) that(1-5)] that(6,7) by (simp add: tokens_of_def)
    have v: "v = r2" if "worker_written v f ?d1 d'" "w_id v = wid" for v f
      using that d1(2) by (auto simp: worker_written_def)
    note R = r [unfolded respond_def Let_def Inr sum.case]
    show ?thesis
    proof (cases call)
      case (Prepare_Rotation rid)
      let ?h = "prepare_token_rotation pf st (mt_now mt) (mt_raw_token mt) (mt_commit mt) w rid ?d1"
      have d': "d' = snd ?h" using R Prepare_Rotation by (cases ?h) auto
      show ?thesis
      proof (cases "fst ?h")
        case (Inl e)
        then have "d' = ?d1" using d' failed_endpoints(1) by (metis prod.collapse)
        then show ?thesis using d1(1) same refl by auto
      next
        case (Inr x)
        then have "?h = (Inr x, d')" using d' by (metis prod.collapse)
        then obtain v where "worker_written v (rotation_prepared pf st (mt_now mt) rid (mt_raw_token mt)) ?d1 d'"
          "w_id v = w_id w" by (elim prepare_token_rotationD)
        then show ?thesis
          using written [of v "rotation_prepared pf st (mt_now mt) rid (mt_raw_token mt)"] v w Prepare_Rotation r2
            implements_ok [OF order(1) prepare_ok(1) [OF order(1)]] prepare_ok(2) [OF order] d'
          by (cases hp) (auto simp: rotation_prepared_def)
      qed
    next
      case (Activate_Rotation rid pending)
      let ?h = "activate_token_rotation pf st (mt_now mt) (mt_commit mt) w rid (Some pending) ?d1"
      have d': "d' = snd ?h" using R Activate_Rotation by (cases ?h) auto
      show ?thesis
      proof (cases "fst ?h")
        case (Inl e)
        then have "d' = ?d1" using d' failed_endpoints(2) by (metis prod.collapse)
        then show ?thesis using d1(1) same refl by auto
      next
        case (Inr x)
        then have "?h = (Inr x, d')" using d' by (metis prod.collapse)
        then obtain v where "worker_written v (rotation_activated (mt_now mt)) ?d1 d'"
          "w_id v = w_id w" "w_pending_token_hash v = Some (hash_worker_token pf st pending)"
          by (elim activate_token_rotationD) auto
        then show ?thesis
          using written [of v "rotation_activated (mt_now mt)"] v w Activate_Rotation r2
            implements_ok [OF order(1) activate_ok(1) [OF order(1)]] activate_ok(2) [OF order] d'
          by (cases hp) (auto simp: rotation_activated_def clear_token_rotation_def)
      qed
    next
      case (Abort_Rotation rid)
      let ?h = "abort_token_rotation (mt_commit mt) w rid ?d1"
      have d': "d' = snd ?h" using R Abort_Rotation by (cases ?h) auto
      have "?h = (fst ?h, d')" using d' by simp
      then show ?thesis
      proof (cases rule: abort_token_rotationD)
        case 1
        then show ?thesis using d1(1) same refl by auto
      next
        case (2 v)
        then show ?thesis
          using written [of v clear_token_rotation] v w Abort_Rotation r2
            implements_ok [OF order(1) abort_ok(1) [OF order(1)]] abort_ok(2) [OF order] d'
          by (cases hp) (auto simp: clear_token_rotation_def)
      qed
    qed (use R d1(1) same refl in auto)
  qed
qed

section \<open>Assertions\<close>

text \<open>The Manager's turns an agent can still cause, and the tokens they would draw.\<close>

definition link_turns :: "agent_event \<Rightarrow> manager_turn list" where
  "link_turns e = (case ev_link e of Responded mt \<Rightarrow> [mt] | Answer_Lost mt \<Rightarrow> [mt] | _ \<Rightarrow> [])"

definition event_turns :: "agent_event \<Rightarrow> manager_turn list" where
  "event_turns e = map snd (ev_late e) @ link_turns e"

definition all_turns :: "agent_event list \<Rightarrow> manager_turn list" where
  "all_turns es = concat (map event_turns es)"

definition drawn :: "platform \<Rightarrow> settings \<Rightarrow> manager_turn list \<Rightarrow> string list" where
  "drawn pf st ts = map (\<lambda>mt. hash_worker_token pf st (mt_raw_token mt)) ts"

text \<open>A request on its way that would still activate its token.\<close>

definition live_in_flight :: "platform \<Rightarrow> settings \<Rightarrow> ident \<Rightarrow> agent_world \<Rightarrow> string \<Rightarrow> bool" where
  "live_in_flight pf st wid w p \<longleftrightarrow>
     (\<exists>t rid. (t, Activate_Rotation rid p) \<in> set (aw_flight w)) \<and>
     (\<exists>h. tokens_of wid (aw_ledger w) = Some (h, Some (hash_worker_token pf st p)))"

text \<open>
  What always holds, \<open>ts\<close> being the turns to come: the worker is active, the tokens the Manager has
  still to draw are new, and every token the agent uses is the worker's own.
\<close>

definition turns_fine :: "platform \<Rightarrow> settings \<Rightarrow> string set \<Rightarrow> ident \<Rightarrow> manager_turn list \<Rightarrow> bool" where
  "turns_fine pf st H wid ts \<longleftrightarrow> (\<forall>mt \<in> set ts. turn_ok H wid mt) \<and> distinct (drawn pf st ts) \<and> set (drawn pf st ts) \<subseteq> H"

definition row_fine :: "string set \<Rightarrow> string set \<Rightarrow> string \<times> string option \<Rightarrow> bool" where
  "row_fine H F hp \<longleftrightarrow> snd hp \<noteq> Some (fst hp) \<and> fst hp \<in> H - F \<and> (\<forall>x. snd hp = Some x \<longrightarrow> x \<in> H - F)"

definition flight_fine :: "platform \<Rightarrow> settings \<Rightarrow> string set \<Rightarrow> string set \<Rightarrow> (string \<times> worker_call) list \<Rightarrow> bool" where
  "flight_fine pf st H F fl \<longleftrightarrow> (\<forall>(t, call) \<in> set fl. hash_worker_token pf st t \<in> H \<and>
     (\<forall>rid p. call = Activate_Rotation rid p \<longrightarrow> hash_worker_token pf st p \<notin> F))"

definition world_fine :: "platform \<Rightarrow> settings \<Rightarrow> string set \<Rightarrow> ident \<Rightarrow> manager_turn list \<Rightarrow> agent_world \<Rightarrow> bool" where
  "world_fine pf st H wid ts w \<longleftrightarrow> ledger_fine H wid (aw_ledger w) \<and> turns_fine pf st H wid ts \<and>
     (\<exists>hp. tokens_of wid (aw_ledger w) = Some hp \<and> row_fine H (set (drawn pf st ts)) hp) \<and>
     hash_worker_token pf st (aw_token w) \<in> H \<and> flight_fine pf st H (set (drawn pf st ts)) (aw_flight w)"

definition file_fine :: "platform \<Rightarrow> settings \<Rightarrow> string set \<Rightarrow> ident \<Rightarrow> manager_turn list \<Rightarrow> worker_credential \<Rightarrow> agent_world \<Rightarrow> bool" where
  "file_fine pf st H wid ts c w \<longleftrightarrow> aw_file w = Some c \<and> cr_worker_id c = wid \<and>
     hash_worker_token pf st (cr_worker_token c) \<in> H \<and>
     (\<forall>p. cr_pending_worker_token c = Some p \<longrightarrow> hash_worker_token pf st p \<in> H - set (drawn pf st ts))"

text \<open>
  The invariant: the file holds the token the Manager accepts, as the current or the pending one, and
  only the pending one can still be activated. Once nothing can be activated any more, the token the
  Manager accepts is world_settled.
\<close>

definition holding :: "platform \<Rightarrow> settings \<Rightarrow> string set \<Rightarrow> ident \<Rightarrow> worker_credential \<Rightarrow> manager_turn list \<Rightarrow> agent_world \<Rightarrow> bool" where
  "holding pf st H wid c ts w \<longleftrightarrow> world_fine pf st H wid ts w \<and> file_fine pf st H wid ts c w \<and>
     (\<exists>h p. tokens_of wid (aw_ledger w) = Some (h, p) \<and>
       (h = hash_worker_token pf st (cr_worker_token c) \<or>
        (\<exists>x. cr_pending_worker_token c = Some x \<and> h = hash_worker_token pf st x))) \<and>
     (\<forall>x. live_in_flight pf st wid w x \<longrightarrow> cr_pending_worker_token c = Some x)"

definition world_settled :: "platform \<Rightarrow> settings \<Rightarrow> string set \<Rightarrow> ident \<Rightarrow> worker_credential \<Rightarrow> string \<Rightarrow> manager_turn list \<Rightarrow> agent_world \<Rightarrow> bool" where
  "world_settled pf st H wid c t ts w \<longleftrightarrow> world_fine pf st H wid ts w \<and> file_fine pf st H wid ts c w \<and>
     (\<exists>p. tokens_of wid (aw_ledger w) = Some (hash_worker_token pf st t, p)) \<and>
     (\<forall>x. \<not> live_in_flight pf st wid w x)"

lemma settled_holding:
  assumes "world_settled pf st H wid c t ts w" "t = cr_worker_token c \<or> cr_pending_worker_token c = Some t"
  shows "holding pf st H wid c ts w"
  using assms by (auto simp: world_settled_def holding_def)

text \<open>Fewer turns to come is no harm.\<close>

lemma drawn_simps [simp]: "drawn pf st [] = []" "drawn pf st (mt # ts) = hash_worker_token pf st (mt_raw_token mt) # drawn pf st ts"
  "drawn pf st (ts @ us) = drawn pf st ts @ drawn pf st us"
  by (simp_all add: drawn_def)

lemma fine_suffix:
  "world_fine pf st H wid (us @ ts) w \<Longrightarrow> world_fine pf st H wid ts w"
  "file_fine pf st H wid (us @ ts) c w \<Longrightarrow> file_fine pf st H wid ts c w"
  "holding pf st H wid c (us @ ts) w \<Longrightarrow> holding pf st H wid c ts w"
  "world_settled pf st H wid c t (us @ ts) w \<Longrightarrow> world_settled pf st H wid c t ts w"
proof -
  show w: "world_fine pf st H wid (us @ ts) w \<Longrightarrow> world_fine pf st H wid ts w"
    by (auto simp: world_fine_def turns_fine_def row_fine_def flight_fine_def)
  show f: "file_fine pf st H wid (us @ ts) c w \<Longrightarrow> file_fine pf st H wid ts c w"
    by (auto simp: file_fine_def)
  show "holding pf st H wid c (us @ ts) w \<Longrightarrow> holding pf st H wid c ts w"
    using w f by (auto simp: holding_def)
  show "world_settled pf st H wid c t (us @ ts) w \<Longrightarrow> world_settled pf st H wid c t ts w"
    using w f by (auto simp: world_settled_def)
qed

text \<open>
  A turn of the Manager for a request of the agent. Allowed is a request that activates, if anything,
  the pending token of the file.
\<close>

definition allowed :: "worker_credential \<Rightarrow> worker_call \<Rightarrow> bool" where
  "allowed c call \<longleftrightarrow> (\<forall>rid p. call = Activate_Rotation rid p \<longrightarrow> cr_pending_worker_token c = Some p)"

lemma turn_world_fine:
  assumes fine: "world_fine pf st H wid (mt # ts) w" and token: "hash_worker_token pf st token \<in> H"
    and flight: "set fl \<subseteq> set (aw_flight w)" and r: "respond pf st mt token call (aw_ledger w) = (ans, d')"
  obtains h p h' p' where "tokens_of wid (aw_ledger w) = Some (h, p)" "tokens_of wid d' = Some (h', p')"
    "hash_step pf st mt call (h, p) (h', p')"
    "world_fine pf st H wid ts (w\<lparr>aw_ledger := d', aw_flight := fl\<rparr>)"
    "\<And>x. live_in_flight pf st wid (w\<lparr>aw_ledger := d', aw_flight := fl\<rparr>) x \<Longrightarrow> live_in_flight pf st wid w x"
proof -
  obtain h p where hp: "tokens_of wid (aw_ledger w) = Some (h, p)" "row_fine H (set (drawn pf st (mt # ts))) (h, p)"
    using fine by (auto simp: world_fine_def)
  have turn: "turns_fine pf st H wid (mt # ts)" "ledger_fine H wid (aw_ledger w)"
    "flight_fine pf st H (set (drawn pf st (mt # ts))) (aw_flight w)"
    using fine by (simp_all add: world_fine_def)
  then obtain h' p' where step: "ledger_fine H wid d'" "tokens_of wid d' = Some (h', p')"
    "hash_step pf st mt call (h, p) (h', p')"
    using respond_step [OF _ hp(1) _ token r] by (auto simp: turns_fine_def)
  have "turns_fine pf st H wid ts" using turn(1) by (auto simp: turns_fine_def)
  moreover have "row_fine H (set (drawn pf st ts)) (h', p')"
    using hp(2) turn(1) step(3) by (auto simp: row_fine_def turns_fine_def)
  moreover have "flight_fine pf st H (set (drawn pf st ts)) fl"
    using turn(3) flight by (fastforce simp: flight_fine_def)
  ultimately have "world_fine pf st H wid ts (w\<lparr>aw_ledger := d', aw_flight := fl\<rparr>)"
    using fine step(1,2) by (simp add: world_fine_def)
  moreover have "live_in_flight pf st wid w x"
    if live: "live_in_flight pf st wid (w\<lparr>aw_ledger := d', aw_flight := fl\<rparr>) x" for x
  proof -
    obtain t rid where x: "(t, Activate_Rotation rid x) \<in> set (aw_flight w)" "p' = Some (hash_worker_token pf st x)"
      using live flight step(2) by (auto simp: live_in_flight_def)
    then have "hash_worker_token pf st x \<noteq> hash_worker_token pf st (mt_raw_token mt)"
      using turn(3) by (fastforce simp: flight_fine_def)
    then show ?thesis using x step(3) hp(1) by (auto simp: live_in_flight_def)
  qed
  ultimately show thesis using that hp(1) step by blast
qed

lemma turn_holding:
  assumes hold: "holding pf st H wid c (mt # ts) w" and token: "hash_worker_token pf st token \<in> H"
    and flight: "set fl \<subseteq> set (aw_flight w)" and call: "allowed c call \<or> (token, call) \<in> set (aw_flight w)"
    and r: "respond pf st mt token call (aw_ledger w) = (ans, d')"
  shows "holding pf st H wid c ts (w\<lparr>aw_ledger := d', aw_flight := fl\<rparr>)"
proof -
  have fine: "world_fine pf st H wid (mt # ts) w" using hold by (simp add: holding_def)
  from turn_world_fine [OF fine token flight r] obtain h p h' p' where t:
    "tokens_of wid (aw_ledger w) = Some (h, p)" "tokens_of wid d' = Some (h', p')"
    "hash_step pf st mt call (h, p) (h', p')"
    "world_fine pf st H wid ts (w\<lparr>aw_ledger := d', aw_flight := fl\<rparr>)"
    "\<And>x. live_in_flight pf st wid (w\<lparr>aw_ledger := d', aw_flight := fl\<rparr>) x \<Longrightarrow> live_in_flight pf st wid w x"
    by metis
  have "file_fine pf st H wid ts c w"
    using hold fine_suffix(2) [of pf st H wid "[mt]" ts c w] by (simp add: holding_def)
  then have kept: "file_fine pf st H wid ts c (w\<lparr>aw_ledger := d', aw_flight := fl\<rparr>)"
    by (simp add: file_fine_def)
  have "cr_pending_worker_token c = Some x" if "call = Activate_Rotation rid x" "p = Some (hash_worker_token pf st x)" for rid x
    using that call hold t(1) by (auto simp: allowed_def holding_def live_in_flight_def)
  then show ?thesis
    using hold t kept unfolding holding_def by auto
qed

lemma turn_settled:
  assumes hold: "world_settled pf st H wid c t (mt # ts) w" and token: "hash_worker_token pf st token \<in> H"
    and flight: "set fl \<subseteq> set (aw_flight w)"
    and call: "(\<forall>rid p. call \<noteq> Activate_Rotation rid p) \<or> (token, call) \<in> set (aw_flight w)"
    and r: "respond pf st mt token call (aw_ledger w) = (ans, d')"
  shows "world_settled pf st H wid c t ts (w\<lparr>aw_ledger := d', aw_flight := fl\<rparr>)"
proof -
  have fine: "world_fine pf st H wid (mt # ts) w" using hold by (simp add: world_settled_def)
  from turn_world_fine [OF fine token flight r] obtain h p h' p' where t:
    "tokens_of wid (aw_ledger w) = Some (h, p)" "tokens_of wid d' = Some (h', p')"
    "hash_step pf st mt call (h, p) (h', p')"
    "world_fine pf st H wid ts (w\<lparr>aw_ledger := d', aw_flight := fl\<rparr>)"
    "\<And>x. live_in_flight pf st wid (w\<lparr>aw_ledger := d', aw_flight := fl\<rparr>) x \<Longrightarrow> live_in_flight pf st wid w x"
    by metis
  have "file_fine pf st H wid ts c w"
    using hold fine_suffix(2) [of pf st H wid "[mt]" ts c w] by (simp add: world_settled_def)
  then have kept: "file_fine pf st H wid ts c (w\<lparr>aw_ledger := d', aw_flight := fl\<rparr>)"
    by (simp add: file_fine_def)
  have "\<not> (\<exists>rid x. call = Activate_Rotation rid x \<and> p = Some (hash_worker_token pf st x))"
    using call hold t(1) by (auto simp: world_settled_def live_in_flight_def)
  then show ?thesis
    using hold t kept unfolding world_settled_def by auto
qed

section \<open>A logic for the agent\<close>

text \<open>
  From \<open>P\<close> the program returns with \<open>Q\<close>, raises with \<open>E\<close>, or dies with \<open>J\<close>. Assertions speak of the turns
  to come (of this run and of later ones, \<open>K\<close>) and of the world.
\<close>

type_synonym assertion = "manager_turn list \<Rightarrow> agent_world \<Rightarrow> bool"

fun after :: "manager_turn list \<Rightarrow> assertion \<Rightarrow> ('a \<Rightarrow> assertion) \<Rightarrow> assertion \<Rightarrow> 'a outcome \<times> agent_event list \<times> agent_world \<Rightarrow> bool" where
  "after K J Q E (Returns x, es, w) = Q x (all_turns es @ K) w"
| "after K J Q E (Raises e, es, w) = E (all_turns es @ K) w"
| "after K J Q E (Crashed, es, w) = J (all_turns es @ K) w"

lemma run_cases:
  fixes r :: "'a outcome \<times> agent_event list \<times> agent_world"
  obtains (returns) x es w where "r = (Returns x, es, w)" | (raises) e es w where "r = (Raises e, es, w)"
    | (crashed) es w where "r = (Crashed, es, w)"
proof -
  obtain out es w where "r = (out, es, w)" by (rule prod_cases3)
  then show thesis by (cases out) (auto intro: that)
qed

definition triple :: "manager_turn list \<Rightarrow> assertion \<Rightarrow> assertion \<Rightarrow> 'a agent \<Rightarrow> ('a \<Rightarrow> assertion) \<Rightarrow> assertion \<Rightarrow> bool" where
  "triple K J P m Q E \<longleftrightarrow> (\<forall>es w. P (all_turns es @ K) w \<longrightarrow> after K J Q E (m es w))"

lemma tripleI: "(\<And>es w. P (all_turns es @ K) w \<Longrightarrow> after K J Q E (m es w)) \<Longrightarrow> triple K J P m Q E"
  by (simp add: triple_def)

lemma tripleD: "triple K J P m Q E \<Longrightarrow> P (all_turns es @ K) w \<Longrightarrow> after K J Q E (m es w)"
  by (simp add: triple_def)

lemma triple_return: "(\<And>ts w. P ts w \<Longrightarrow> Q x ts w) \<Longrightarrow> triple K J P (agent_return x) Q E"
  by (simp add: triple_def agent_return_def)

lemma triple_raise: "(\<And>ts w. P ts w \<Longrightarrow> E ts w) \<Longrightarrow> triple K J P (agent_raise e) Q E"
  by (simp add: triple_def agent_raise_def)

lemma triple_bind:
  assumes "triple K J P m R E" "\<And>x. triple K J (R x) (f x) Q E"
  shows "triple K J P (agent_bind m f) Q E"
proof (rule tripleI)
  fix es w
  assume "P (all_turns es @ K) w"
  then have "after K J R E (m es w)" by (rule tripleD [OF assms(1)])
  then show "after K J Q E (agent_bind m f es w)"
    by (cases "m es w" rule: run_cases) (auto simp: agent_bind_def intro: tripleD [OF assms(2)])
qed

lemma triple_try:
  assumes "triple K J P m Q E"
  shows "triple K J P (agent_try m) (\<lambda>r. case r of Inl e \<Rightarrow> E | Inr x \<Rightarrow> Q x) E'"
proof (rule tripleI)
  fix es w
  assume "P (all_turns es @ K) w"
  then have "after K J Q E (m es w)" by (rule tripleD [OF assms])
  then show "after K J (\<lambda>r. case r of Inl e \<Rightarrow> E | Inr x \<Rightarrow> Q x) E' (agent_try m es w)"
    by (cases "m es w" rule: run_cases) (auto simp: agent_try_def)
qed

lemma triple_lift:
  assumes "\<And>e ts w. r = Inl e \<Longrightarrow> P ts w \<Longrightarrow> E ts w" "\<And>x ts w. r = Inr x \<Longrightarrow> P ts w \<Longrightarrow> Q x ts w"
  shows "triple K J P (agent_lift r) Q E"
  using assms by (cases r) (auto simp: agent_lift_def intro: triple_return triple_raise)

lemma triple_weaken:
  assumes "triple K J P m Q E" "\<And>ts w. P' ts w \<Longrightarrow> P ts w" "\<And>x ts w. Q x ts w \<Longrightarrow> Q' x ts w"
    "\<And>ts w. E ts w \<Longrightarrow> E' ts w"
  shows "triple K J P' m Q' E'"
proof (rule tripleI)
  fix es w
  assume "P' (all_turns es @ K) w"
  then have "after K J Q E (m es w)" by (intro tripleD [OF assms(1)] assms(2))
  then show "after K J Q' E' (m es w)"
    by (cases "m es w" rule: run_cases) (auto intro: assms)
qed

lemma triple_pre: "(\<And>ts w. P ts w \<Longrightarrow> b) \<Longrightarrow> (b \<Longrightarrow> triple K J P m Q E) \<Longrightarrow> triple K J P m Q E"
  by (auto simp: triple_def)

lemma triple_crash: "triple K J P m Q E \<Longrightarrow> (\<And>ts w. J ts w \<Longrightarrow> J' ts w) \<Longrightarrow> triple K J' P m Q E"
proof (rule tripleI)
  fix es w
  assume t: "triple K J P m Q E" and J: "\<And>ts w. J ts w \<Longrightarrow> J' ts w" and "P (all_turns es @ K) w"
  then have "after K J Q E (m es w)" by (intro tripleD [OF t])
  then show "after K J' Q E (m es w)" by (cases "m es w" rule: run_cases) (auto intro: J)
qed

lemma bind_assoc: "agent_bind (agent_bind m f) g = agent_bind m (\<lambda>x. agent_bind (f x) g)"
proof (intro ext)
  show "agent_bind (agent_bind m f) g es w = agent_bind m (\<lambda>x. agent_bind (f x) g) es w" for es w
    by (cases "m es w" rule: run_cases) (simp_all add: agent_bind_def)
qed

lemma triple_if:
  "(b \<Longrightarrow> triple K J P m Q E) \<Longrightarrow> (\<not> b \<Longrightarrow> triple K J P m' Q E) \<Longrightarrow> triple K J P (if b then m else m') Q E"
  by simp

lemma triple_disj:
  "triple K J P m Q E \<Longrightarrow> triple K J P' m Q E \<Longrightarrow> triple K J (\<lambda>ts w. P ts w \<or> P' ts w) m Q E"
  by (auto simp: triple_def)

lemma triple_ex: "(\<And>t. triple K J (P t) m Q E) \<Longrightarrow> triple K J (\<lambda>ts w. \<exists>t. P t ts w) m Q E"
  by (auto simp: triple_def)

text \<open>What a reply tells about the worker's hashes.\<close>

fun reply_fact :: "platform \<Rightarrow> settings \<Rightarrow> ident \<Rightarrow> string \<Rightarrow> worker_call \<Rightarrow> worker_reply \<Rightarrow> string \<times> string option \<Rightarrow> bool" where
  "reply_fact pf st wid token call (Session s) (h, p) \<longleftrightarrow> h = hash_worker_token pf st token"
| "reply_fact pf st wid token call (Rotation_Status s) (h, p) \<longleftrightarrow> h = hash_worker_token pf st token \<and>
     (\<not> rs_pending s \<or> (\<exists>rid. call = Abort_Rotation rid) \<longrightarrow> p = None)"
| "reply_fact pf st wid token call (Rotation_Prepared i rid t e) (h, p) \<longleftrightarrow> h = hash_worker_token pf st token \<and>
     p = Some (hash_worker_token pf st t)"
| "reply_fact pf st wid token call (Rotation_Activated i rid t) (h, p) \<longleftrightarrow> True"

lemma respond_reply:
  assumes fine: "ledger_fine H wid d" and hp: "tokens_of wid d = Some hp" and ok: "turn_ok H wid mt"
    and token: "hash_worker_token pf st token \<in> H" and r: "respond pf st mt token call d = (Inr reply, d')"
    and hp': "tokens_of wid d' = Some hp'"
  shows "reply_fact pf st wid token call reply hp'"
proof -
  let ?d0 = "mt_before mt d" and ?d1 = "mt_between mt (mt_before mt d)"
  obtain r0 where r0: "get_worker_row wid d = Some r0"
    using hp by (auto simp: tokens_of_def split: option.splits if_splits)
  obtain r1 where d0: "ledger_fine H wid ?d0" "get_worker_row wid ?d0 = Some r1" "credential r1 = credential r0"
    using ok fine r0(1) unfolding turn_ok_def by (auto elim: harmlessD)
  obtain r2 where d1: "ledger_fine H wid ?d1" "get_worker_row wid ?d1 = Some r2" "credential r2 = credential r1"
    using ok d0 unfolding turn_ok_def by (auto elim: harmlessD)
  obtain w where w: "require_worker pf st (Some (''Bearer'', token)) ?d0 = Inr w"
    using r by (auto simp: respond_def Let_def split: sum.splits)
  have own: "w = r1" "w_token_hash r1 = hash_worker_token pf st token" "w_id w = wid"
    using own_token [OF d0(1) token w] d0(2) get_row_SomeD [OF d0(2)] by auto
  have hash: "w_token_hash r2 = hash_worker_token pf st token" using own d1(3) by (simp add: credential_def)
  note R = r [unfolded respond_def Let_def w sum.case]
  have row: "fst hp' = w_token_hash v" "snd hp' = w_pending_token_hash v" if "get_worker_row wid d' = Some v" for v
    using that hp' by (auto simp: tokens_of_def split: if_splits)
  have written: "get_worker_row wid d' = Some (orm_worker f r2)"
    if "worker_written v f ?d1 d'" "w_id v = wid" "\<And>r. w_id (f r) = w_id r" for v f
    using that d1(2) by (auto simp: worker_written_def get_row_upd_row)
  show ?thesis
  proof (cases call)
    case Get_Session
    then show ?thesis using R row(1) [of r2] d1(2) hash by (cases hp') auto
  next
    case Get_Rotation_Status
    then have "d' = ?d1" "w_pending_token_hash r2 = w_pending_token_hash w"
      using R own d1(3) by (auto simp: credential_def)
    then show ?thesis using R Get_Rotation_Status row [of r2] d1(2) hash
      by (cases hp') (auto simp: token_rotation_status_def Let_def validate_pending_fields_def checked_def
          split: sum.splits option.splits if_splits)
  next
    case (Prepare_Rotation rid)
    then obtain i rid' t e where h: "prepare_token_rotation pf st (mt_now mt) (mt_raw_token mt) (mt_commit mt) w rid ?d1
        = (Inr (i, rid', t, e), d')" "reply = Rotation_Prepared i rid' t e"
      using R by (auto simp: map_prod_def map_sum_def split: prod.splits sum.splits)
    then show ?thesis
    proof (elim prepare_token_rotationD)
      fix v
      assume v: "worker_written v (rotation_prepared pf st (mt_now mt) rid (mt_raw_token mt)) ?d1 d'" "w_id v = w_id w"
        "(i, rid', t, e) = (w_id v, rid, mt_raw_token mt, mt_now mt + seconds (worker_token_rotation_ttl_seconds st))"
      have "get_worker_row wid d' = Some (orm_worker (rotation_prepared pf st (mt_now mt) rid (mt_raw_token mt)) r2)"
        by (rule written [OF v(1)]) (use v own in auto)
      from row [OF this] show ?thesis using v h hash by (cases hp') (auto simp: rotation_prepared_def)
    qed
  next
    case (Activate_Rotation rid pending)
    then have "\<exists>i r t. reply = Rotation_Activated i r t"
      using R by (auto simp: map_prod_def map_sum_def split: prod.splits sum.splits)
    then show ?thesis by (cases hp') auto
  next
    case (Abort_Rotation rid)
    then obtain s where h: "abort_token_rotation (mt_commit mt) w rid ?d1 = (Inr s, d')" "reply = Rotation_Status s"
      using R by (auto simp: map_prod_def map_sum_def split: prod.splits sum.splits)
    obtain v leases where b: "rotation_boundary w ?d1 = Inr (v, leases)"
      using h(1) by (auto simp: abort_token_rotation_def split: sum.splits)
    have v: "v = r2" using rotation_boundary_Inr [OF b] d1(2) own by simp
    have "w_token_hash v' = w_token_hash r2 \<and> w_pending_token_hash v' = None" if "get_worker_row wid d' = Some v'" for v'
    proof (cases "w_pending_token_hash r2")
      case None
      then have "d' = ?d1" using h(1) b v by (simp add: abort_token_rotation_def)
      then show ?thesis using that d1(2) None by simp
    next
      case (Some x)
      then have "w_token_rotation_id r2 = Some rid \<and> d' = add_audit_event ''worker'' (Some (w_id r2)) ''worker.token_rotation_aborted'' ''worker''
          (Some (w_id r2)) (set_worker (w_id r2) clear_token_rotation ?d1)"
        using h(1) b v by (auto simp: abort_token_rotation_def split: if_splits commit.splits)
      then have "workers d' = upd_row w_id wid (orm_worker clear_token_rotation) (workers ?d1)"
        using get_row_SomeD [OF d1(2)] by simp
      then show ?thesis using that d1(2) by (auto simp: get_row_upd_row clear_token_rotation_def)
    qed
    moreover obtain v' where "get_worker_row wid d' = Some v'"
      using hp' by (auto simp: tokens_of_def split: option.splits)
    ultimately show ?thesis using row h hash by (cases hp') auto
  qed
qed

text \<open>
  The assertions used below have this form: they survive a turn for a request of the agent that is
  allowed or on its way, and having fewer turns to come.
\<close>

locale stable_assertion =
  fixes pf :: platform and st :: settings and H :: "string set" and wid :: ident
    and A :: assertion and ok_call :: "worker_call \<Rightarrow> bool"
  assumes fine: "A ts w \<Longrightarrow> world_fine pf st H wid ts w"
    and fewer: "A (us @ ts) w \<Longrightarrow> A ts w"
    and turn: "A (mt # ts) w \<Longrightarrow> hash_worker_token pf st token \<in> H \<Longrightarrow> set fl \<subseteq> set (aw_flight w) \<Longrightarrow>
      ok_call call \<or> (token, call) \<in> set (aw_flight w) \<Longrightarrow>
      respond pf st mt token call (aw_ledger w) = (ans, d') \<Longrightarrow>
      A ts (w\<lparr>aw_ledger := d', aw_flight := fl\<rparr>)"
    and sent: "A ts w \<Longrightarrow> ok_call call \<Longrightarrow> A ts (w\<lparr>aw_flight := aw_flight w @ [(aw_token w, call)]\<rparr>)"
begin

lemma arrive_stable: "A (map snd late @ ts) w \<Longrightarrow> A ts (arrive pf st late w) \<and> aw_token (arrive pf st late w) = aw_token w"
proof (induction late arbitrary: w)
  case (Cons l late)
  obtain i mt where l: "l = (i, mt)" by fastforce
  show ?case
  proof (cases "i < length (aw_flight w)")
    case True
    let ?fl = "take i (aw_flight w) @ drop (Suc i) (aw_flight w)"
    obtain token call where call: "aw_flight w ! i = (token, call)" by fastforce
    have mem: "(token, call) \<in> set (aw_flight w)" using True call nth_mem by metis
    have "hash_worker_token pf st token \<in> H"
      using fine [OF Cons.prems] mem by (auto simp: world_fine_def flight_fine_def)
    moreover have "set ?fl \<subseteq> set (aw_flight w)" by (auto dest: in_set_takeD in_set_dropD)
    ultimately have "A (map snd late @ ts) (w\<lparr>aw_ledger := snd (respond pf st mt token call (aw_ledger w)), aw_flight := ?fl\<rparr>)"
      using turn [of mt "map snd late @ ts" w token ?fl call] Cons.prems mem l
      by (cases "respond pf st mt token call (aw_ledger w)") auto
    from Cons.IH [OF this] show ?thesis using True call l by simp
  next
    case False
    then show ?thesis using Cons.IH fewer [of "[mt]"] Cons.prems l by simp
  qed
qed simp

lemma next_stable:
  "triple K A (\<lambda>ts w. A ts w \<and> aw_token w = t) (next_event pf st)
     (\<lambda>e ts w. A (link_turns e @ ts) w \<and> aw_token w = t) E"
proof (rule tripleI)
  fix es w
  assume P: "A (all_turns es @ K) w \<and> aw_token w = t"
  show "after K A (\<lambda>e ts w. A (link_turns e @ ts) w \<and> aw_token w = t) E (next_event pf st es w)"
    using P arrive_stable [of "ev_late (hd es)" "link_turns (hd es) @ all_turns (tl es) @ K" w]
    by (cases es) (auto simp: next_event_def all_turns_def event_turns_def)
qed

lemma send_stable:
  assumes "ok_call call"
  shows "triple K A (\<lambda>ts w. A ts w \<and> aw_token w = t) (send_request pf st call)
    (\<lambda>reply ts w. A ts w \<and> aw_token w = t \<and> (\<exists>hp. tokens_of wid (aw_ledger w) = Some hp \<and> reply_fact pf st wid t call reply hp))
    (\<lambda>ts w. A ts w \<and> aw_token w = t)"
  unfolding send_request_def
proof (rule triple_bind [OF next_stable], rule tripleI, elim conjE)
  fix e es w
  assume A: "A (link_turns e @ all_turns es @ K) w" and t: "aw_token w = t"
  let ?ts = "all_turns es @ K"
  have now: "A ?ts w" using fewer A by blast
  have own: "hash_worker_token pf st t \<in> H" using fine [OF A] t by (simp add: world_fine_def)
  have turned: "A ?ts (w\<lparr>aw_ledger := d'\<rparr>)"
    if "link_turns e = [mt]" "respond pf st mt t call (aw_ledger w) = (ans, d')" for mt ans d'
    using turn [of mt ?ts w t "aw_flight w" call ans d'] A that assms own by simp
  have replied: "\<exists>hp. tokens_of wid d' = Some hp \<and> reply_fact pf st wid t call reply hp"
    if at_turn: "link_turns e = [mt]" "respond pf st mt t call (aw_ledger w) = (Inr reply, d')" for mt reply d'
  proof -
    obtain hp where "tokens_of wid (aw_ledger w) = Some hp" using fine [OF A] by (auto simp: world_fine_def)
    moreover obtain hp' where "tokens_of wid d' = Some hp'"
      using fine [OF turned [OF at_turn]] by (auto simp: world_fine_def)
    moreover have "ledger_fine H wid (aw_ledger w)" "turn_ok H wid mt"
      using fine [OF A] at_turn(1) by (auto simp: world_fine_def turns_fine_def)
    ultimately show ?thesis using respond_reply [OF _ _ _ own at_turn(2)] by blast
  qed
  show "after K A (\<lambda>reply ts w. A ts w \<and> aw_token w = t \<and>
      (\<exists>hp. tokens_of wid (aw_ledger w) = Some hp \<and> reply_fact pf st wid t call reply hp))
      (\<lambda>ts w. A ts w \<and> aw_token w = t)
      (case ev_link e of
         Responded mt \<Rightarrow>
           (case respond pf st mt (aw_token w) call (aw_ledger w) of
              (Inl err, d) \<Rightarrow> (Raises (Manager_Error (Some (http_status err))), es, w\<lparr>aw_ledger := d\<rparr>)
            | (Inr reply, d) \<Rightarrow> (Returns reply, es, w\<lparr>aw_ledger := d\<rparr>))
       | Answer_Lost mt \<Rightarrow>
           (Raises (Manager_Error None), es,
            w\<lparr>aw_ledger := snd (respond pf st mt (aw_token w) call (aw_ledger w))\<rparr>)
       | Never_Sent \<Rightarrow> (Raises (Manager_Error None), es, w)
       | Delayed \<Rightarrow> (Raises (Manager_Error None), es, w\<lparr>aw_flight := aw_flight w @ [(aw_token w, call)]\<rparr>)
       | Turned_Away \<Rightarrow> (Raises (Manager_Error (Some 429)), es, w))"
  proof (cases "ev_link e")
    case (Responded mt)
    then have l: "link_turns e = [mt]" by (simp add: link_turns_def)
    obtain ans d' where r: "respond pf st mt t call (aw_ledger w) = (ans, d')" by fastforce
    show ?thesis using turned [OF l r] replied [OF l] r t Responded by (cases ans) auto
  next
    case (Answer_Lost mt)
    then have l: "link_turns e = [mt]" by (simp add: link_turns_def)
    obtain ans d' where r: "respond pf st mt t call (aw_ledger w) = (ans, d')" by fastforce
    show ?thesis using turned [OF l r] r t Answer_Lost by simp
  next
    case Delayed
    then show ?thesis using sent [OF now assms] t by simp
  qed (use now t in auto)
qed

text \<open>The client's methods, with what their answers tell.\<close>

lemma session_stable:
  assumes "ok_call Get_Session"
  shows "triple K A (\<lambda>ts w. A ts w \<and> aw_token w = t) (get_session pf st)
    (\<lambda>s ts w. A ts w \<and> aw_token w = t \<and> (\<exists>p. tokens_of wid (aw_ledger w) = Some (hash_worker_token pf st t, p)))
    (\<lambda>ts w. A ts w \<and> aw_token w = t)"
  unfolding get_session_def
  by (rule triple_bind [OF send_stable [OF assms]], case_tac x)
    (auto intro: triple_return triple_raise)

lemma status_stable:
  assumes "ok_call Get_Rotation_Status"
  shows "triple K A (\<lambda>ts w. A ts w \<and> aw_token w = t) (get_token_rotation_status pf st)
    (\<lambda>s ts w. A ts w \<and> aw_token w = t \<and> (\<exists>p. tokens_of wid (aw_ledger w) = Some (hash_worker_token pf st t, p) \<and>
      (\<not> rs_pending s \<longrightarrow> p = None)))
    (\<lambda>ts w. A ts w \<and> aw_token w = t)"
  unfolding get_token_rotation_status_def
  by (rule triple_bind [OF send_stable [OF assms]], case_tac x)
    (auto intro: triple_return triple_raise)

lemma abort_stable:
  assumes "ok_call (Abort_Rotation rid)"
  shows "triple K A (\<lambda>ts w. A ts w \<and> aw_token w = t) (request_abort pf st rid)
    (\<lambda>_ ts w. A ts w \<and> aw_token w = t \<and> tokens_of wid (aw_ledger w) = Some (hash_worker_token pf st t, None))
    (\<lambda>ts w. A ts w \<and> aw_token w = t)"
  unfolding request_abort_def
  by (rule triple_bind [OF send_stable [OF assms]], case_tac x)
    (auto intro: triple_return triple_raise)

lemma prepare_stable:
  assumes "ok_call (Prepare_Rotation rid)"
  shows "triple K A (\<lambda>ts w. A ts w \<and> aw_token w = t) (request_prepare pf st rid)
    (\<lambda>r ts w. A ts w \<and> aw_token w = t \<and> (case r of (_, _, new, _) \<Rightarrow>
      tokens_of wid (aw_ledger w) = Some (hash_worker_token pf st t, Some (hash_worker_token pf st new))))
    (\<lambda>ts w. A ts w \<and> aw_token w = t)"
  unfolding request_prepare_def
  by (rule triple_bind [OF send_stable [OF assms]], case_tac x)
    (auto intro: triple_return triple_raise)

lemma activate_stable:
  assumes "ok_call (Activate_Rotation rid p)"
  shows "triple K A (\<lambda>ts w. A ts w \<and> aw_token w = t) (request_activate pf st rid p)
    (\<lambda>_ ts w. A ts w \<and> aw_token w = t) (\<lambda>ts w. A ts w \<and> aw_token w = t)"
  unfolding request_activate_def
  by (rule triple_bind [OF send_stable [OF assms]], case_tac x)
    (auto intro: triple_return triple_raise)

end

section \<open>The two assertions are stable\<close>

lemma fine_sent:
  assumes "world_fine pf st H wid ts w"
    and "\<And>rid p. call = Activate_Rotation rid p \<Longrightarrow> hash_worker_token pf st p \<notin> set (drawn pf st ts)"
  shows "world_fine pf st H wid ts (w\<lparr>aw_flight := aw_flight w @ [(aw_token w, call)]\<rparr>)"
  using assms by (auto simp: world_fine_def flight_fine_def)

lemma file_fine_frame [simp]:
  "file_fine pf st H wid ts c (w\<lparr>aw_flight := fl\<rparr>) = file_fine pf st H wid ts c w"
  "file_fine pf st H wid ts c (w\<lparr>aw_ledger := d\<rparr>) = file_fine pf st H wid ts c w"
  "file_fine pf st H wid ts c (w\<lparr>aw_token := t\<rparr>) = file_fine pf st H wid ts c w"
  by (simp_all add: file_fine_def)

interpretation hold: stable_assertion pf st H wid "holding pf st H wid c" "allowed c" for pf st H wid c
proof
  show "holding pf st H wid c ts w \<Longrightarrow> world_fine pf st H wid ts w" for ts w
    by (simp add: holding_def)
  show "holding pf st H wid c (us @ ts) w \<Longrightarrow> holding pf st H wid c ts w" for us ts w
    by (rule fine_suffix(3))
  show "holding pf st H wid c ts (w\<lparr>aw_ledger := d', aw_flight := fl\<rparr>)"
    if "holding pf st H wid c (mt # ts) w" "hash_worker_token pf st token \<in> H" "set fl \<subseteq> set (aw_flight w)"
      "allowed c call \<or> (token, call) \<in> set (aw_flight w)" "respond pf st mt token call (aw_ledger w) = (ans, d')"
    for mt ts w token fl call ans d'
    by (rule turn_holding [OF that])
  show "holding pf st H wid c ts (w\<lparr>aw_flight := aw_flight w @ [(aw_token w, call)]\<rparr>)"
    if "holding pf st H wid c ts w" "allowed c call" for ts w call
    using that fine_sent [of pf st H wid ts w call]
    by (auto simp: holding_def allowed_def file_fine_def live_in_flight_def) blast+
qed

interpretation calm: stable_assertion pf st H wid "world_settled pf st H wid c t"
  "\<lambda>call. \<forall>rid p. call \<noteq> Activate_Rotation rid p" for pf st H wid c t
proof
  show "world_settled pf st H wid c t ts w \<Longrightarrow> world_fine pf st H wid ts w" for ts w
    by (simp add: world_settled_def)
  show "world_settled pf st H wid c t (us @ ts) w \<Longrightarrow> world_settled pf st H wid c t ts w" for us ts w
    by (rule fine_suffix(4))
  show "world_settled pf st H wid c t ts (w\<lparr>aw_ledger := d', aw_flight := fl\<rparr>)"
    if "world_settled pf st H wid c t (mt # ts) w" "hash_worker_token pf st token \<in> H" "set fl \<subseteq> set (aw_flight w)"
      "(\<forall>rid p. call \<noteq> Activate_Rotation rid p) \<or> (token, call) \<in> set (aw_flight w)"
      "respond pf st mt token call (aw_ledger w) = (ans, d')"
    for mt ts w token fl call ans d'
    by (rule turn_settled [OF that])
  show "world_settled pf st H wid c t ts (w\<lparr>aw_flight := aw_flight w @ [(aw_token w, call)]\<rparr>)"
    if "world_settled pf st H wid c t ts w" "\<forall>rid p. call \<noteq> Activate_Rotation rid p" for ts w call
    using that fine_sent [of pf st H wid ts w call]
    by (auto simp: world_settled_def live_in_flight_def) blast
qed

end
