(* ===== verification/Rotation_Claims.thy ===== *)
theory Rotation_Claims
  imports Rotation_Safety Examples
begin

text \<open>
  The programs of the agent in the logic, and what follows for any sequence of starts and rotations.
\<close>

section \<open>Steps between the assertions\<close>

definition anchored :: "platform \<Rightarrow> settings \<Rightarrow> string set \<Rightarrow> ident \<Rightarrow> assertion" where
  "anchored pf st H wid ts w \<longleftrightarrow> (\<exists>c. holding pf st H wid c ts w)"

text \<open>The credential a finished rotation leaves: one token, which the Manager accepts for good.\<close>

definition clean :: "platform \<Rightarrow> settings \<Rightarrow> string set \<Rightarrow> ident \<Rightarrow> worker_credential \<Rightarrow> assertion" where
  "clean pf st H wid c ts w \<longleftrightarrow> world_settled pf st H wid c (cr_worker_token c) ts w \<and>
     cr_pending_rotation_id c = None \<and> cr_pending_worker_token c = None"

lemma settled_anchored:
  "world_settled pf st H wid c t ts w \<Longrightarrow> t = cr_worker_token c \<or> cr_pending_worker_token c = Some t \<Longrightarrow> anchored pf st H wid ts w"
  unfolding anchored_def using settled_holding by blast

lemma holding_anchored: "holding pf st H wid c ts w \<Longrightarrow> anchored pf st H wid ts w"
  by (auto simp: anchored_def)

lemma clean_anchored: "clean pf st H wid c ts w \<Longrightarrow> anchored pf st H wid ts w"
  by (auto simp: clean_def intro: settled_anchored)

text \<open>A proven pending token is world_settled, and so is the old one when nothing is pending.\<close>

lemma holding_proven:
  assumes "holding pf st H wid c ts w" "cr_pending_worker_token c = Some p"
    and "tokens_of wid (aw_ledger w) = Some (hash_worker_token pf st p, q)"
  shows "world_settled pf st H wid c p ts w"
proof -
  have "q \<noteq> Some (hash_worker_token pf st p)"
    using assms(1,3) by (auto simp: holding_def world_fine_def row_fine_def)
  then have "\<not> live_in_flight pf st wid w x" for x
    using assms by (auto simp: holding_def live_in_flight_def)
  then show ?thesis using assms by (auto simp: holding_def world_settled_def)
qed

lemma holding_quiet:
  assumes "holding pf st H wid c ts w" "tokens_of wid (aw_ledger w) = Some (hash_worker_token pf st (cr_worker_token c), None)"
  shows "world_settled pf st H wid c (cr_worker_token c) ts w"
  using assms by (auto simp: holding_def world_settled_def live_in_flight_def)

lemma holding_single:
  assumes "holding pf st H wid c ts w" "cr_pending_worker_token c = None"
  shows "world_settled pf st H wid c (cr_worker_token c) ts w"
  using assms by (auto simp: holding_def world_settled_def)

section \<open>The parts of the programs\<close>

lemma set_token_holding:
  assumes "t = cr_worker_token c \<or> cr_pending_worker_token c = Some t"
  shows "triple K J (holding pf st H wid c) (set_worker_token t) (\<lambda>_ ts w. holding pf st H wid c ts w \<and> aw_token w = t) E"
  using assms
  by (auto simp: triple_def set_worker_token_def holding_def world_fine_def live_in_flight_def file_fine_def)

lemma set_token_settled:
  assumes "t = cr_worker_token c \<or> cr_pending_worker_token c = Some t"
  shows "triple K J (world_settled pf st H wid c t') (set_worker_token t)
    (\<lambda>_ ts w. world_settled pf st H wid c t' ts w \<and> aw_token w = t) E"
  using assms
  by (auto simp: triple_def set_worker_token_def world_settled_def world_fine_def live_in_flight_def file_fine_def)

text \<open>
  Writing the file keeps the token world_settled, whichever way it ends, as long as the credential written has
  that token and a pending token, if any, that is new.
\<close>

definition new_pending :: "platform \<Rightarrow> settings \<Rightarrow> string set \<Rightarrow> worker_credential \<Rightarrow> manager_turn list \<Rightarrow> bool" where
  "new_pending pf st H c ts \<longleftrightarrow>
     (\<forall>p. cr_pending_worker_token c = Some p \<longrightarrow> hash_worker_token pf st p \<in> H - set (drawn pf st ts))"

lemma save_settled:
  assumes "cr_worker_id c' = wid" "hash_worker_token pf st (cr_worker_token c') \<in> H"
    and "t = cr_worker_token c \<or> cr_pending_worker_token c = Some t"
  shows "triple K (anchored pf st H wid)
    (\<lambda>ts w. world_settled pf st H wid c t ts w \<and> aw_token w = u \<and> new_pending pf st H c' ts)
    (save pf st c') (\<lambda>_ ts w. world_settled pf st H wid c' t ts w \<and> aw_token w = u)
    (\<lambda>ts w. (world_settled pf st H wid c t ts w \<or> world_settled pf st H wid c' t ts w) \<and> aw_token w = u)"
  unfolding save_def
proof (rule triple_bind)
  show "triple K (anchored pf st H wid)
      (\<lambda>ts w. world_settled pf st H wid c t ts w \<and> aw_token w = u \<and> new_pending pf st H c' ts)
      (agent_lift (validate_pending_rotation c'))
      (\<lambda>_ ts w. world_settled pf st H wid c t ts w \<and> aw_token w = u \<and> new_pending pf st H c' ts)
      (\<lambda>ts w. (world_settled pf st H wid c t ts w \<or> world_settled pf st H wid c' t ts w) \<and> aw_token w = u)"
    by (rule triple_lift) auto
next
  fix x :: unit
  show "triple K (anchored pf st H wid)
      (\<lambda>ts w. world_settled pf st H wid c t ts w \<and> aw_token w = u \<and> new_pending pf st H c' ts)
      (agent_bind (next_event pf st) (\<lambda>e es w.
       case ev_disk e of
         Written \<Rightarrow> (Returns (), es, w\<lparr>aw_file := Some c'\<rparr>)
       | Not_Written \<Rightarrow> (Raises (Credential_Error ''cannot persist Worker credential''), es, w)
       | Written_Then_Failed \<Rightarrow>
           (Raises (Credential_Error ''cannot persist Worker credential''), es, w\<lparr>aw_file := Some c'\<rparr>)))
      (\<lambda>_ ts w. world_settled pf st H wid c' t ts w \<and> aw_token w = u)
      (\<lambda>ts w. (world_settled pf st H wid c t ts w \<or> world_settled pf st H wid c' t ts w) \<and> aw_token w = u)"
  proof (rule triple_bind)
    show "triple K (anchored pf st H wid)
        (\<lambda>ts w. world_settled pf st H wid c t ts w \<and> aw_token w = u \<and> new_pending pf st H c' ts) (next_event pf st)
        (\<lambda>e ts w. world_settled pf st H wid c t ts w \<and> aw_token w = u \<and> new_pending pf st H c' ts)
        (\<lambda>ts w. (world_settled pf st H wid c t ts w \<or> world_settled pf st H wid c' t ts w) \<and> aw_token w = u)"
    proof (rule tripleI, elim conjE)
      fix es w
      assume s: "world_settled pf st H wid c t (all_turns es @ K) w" and u: "aw_token w = u"
        and new: "new_pending pf st H c' (all_turns es @ K)"
      show "after K (anchored pf st H wid)
          (\<lambda>e ts w. world_settled pf st H wid c t ts w \<and> aw_token w = u \<and> new_pending pf st H c' ts)
          (\<lambda>ts w. (world_settled pf st H wid c t ts w \<or> world_settled pf st H wid c' t ts w) \<and> aw_token w = u)
          (next_event pf st es w)"
      proof (cases es)
        case Nil
        then show ?thesis using s settled_anchored [OF s assms(3)] by (simp add: next_event_def)
      next
        case (Cons e es')
        have "world_settled pf st H wid c t (link_turns e @ all_turns es' @ K) (arrive pf st (ev_late e) w) \<and>
            aw_token (arrive pf st (ev_late e) w) = aw_token w"
          by (rule calm.arrive_stable) (use s Cons in \<open>simp add: all_turns_def event_turns_def\<close>)
        then have "world_settled pf st H wid c t (all_turns es' @ K) (arrive pf st (ev_late e) w) \<and>
            aw_token (arrive pf st (ev_late e) w) = aw_token w"
          using fine_suffix(4) by blast
        moreover have "new_pending pf st H c' (all_turns es' @ K)"
          using new Cons by (auto simp: new_pending_def all_turns_def)
        ultimately show ?thesis using Cons u by (simp add: next_event_def)
      qed
    qed
  next
    fix e
    have written: "world_settled pf st H wid c' t ts (w\<lparr>aw_file := Some c'\<rparr>)"
      if "world_settled pf st H wid c t ts w" "new_pending pf st H c' ts" for ts w
      using that assms(1,2) by (auto simp: world_settled_def file_fine_def world_fine_def live_in_flight_def new_pending_def)
    show "triple K (anchored pf st H wid)
        (\<lambda>ts w. world_settled pf st H wid c t ts w \<and> aw_token w = u \<and> new_pending pf st H c' ts)
        (\<lambda>es w. case ev_disk e of
           Written \<Rightarrow> (Returns (), es, w\<lparr>aw_file := Some c'\<rparr>)
         | Not_Written \<Rightarrow> (Raises (Credential_Error ''cannot persist Worker credential''), es, w)
         | Written_Then_Failed \<Rightarrow>
             (Raises (Credential_Error ''cannot persist Worker credential''), es, w\<lparr>aw_file := Some c'\<rparr>))
        (\<lambda>_ ts w. world_settled pf st H wid c' t ts w \<and> aw_token w = u)
        (\<lambda>ts w. (world_settled pf st H wid c t ts w \<or> world_settled pf st H wid c' t ts w) \<and> aw_token w = u)"
      by (rule tripleI) (use written in \<open>auto split: disk.split\<close>)
  qed
qed

section \<open>The programs\<close>

text \<open>
  Every program starts from a held credential, ends with a clean one, and is anchored when it fails or
  dies. The token of the client is of interest only within.
\<close>

lemma any_token: "triple K J (\<lambda>ts w. \<exists>t. P ts w \<and> aw_token w = t) m Q E \<Longrightarrow> triple K J P m Q E"
  by (simp add: triple_def)

lemma persist_activated_triple:
  assumes "cr_pending_worker_token c = Some p"
  shows "triple K (anchored pf st H wid) (world_settled pf st H wid c p) (persist_activated pf st c)
    (clean pf st H wid) (anchored pf st H wid)"
proof -
  let ?a = "clear_pending (c\<lparr>cr_worker_token := p\<rparr>)"
  have a: "activate_pending c = Inr ?a" using assms by (simp add: activate_pending_def)
  have fields: "cr_worker_id ?a = cr_worker_id c" "cr_worker_token ?a = p" "cr_pending_worker_token ?a = None"
    "cr_pending_rotation_id ?a = None"
    by (simp_all add: clear_pending_def)
  have body: "triple K (anchored pf st H wid) (world_settled pf st H wid c p) (persist_activated pf st c)
      (clean pf st H wid) (anchored pf st H wid)"
    if id: "cr_worker_id c = wid" and own: "hash_worker_token pf st p \<in> H"
  proof (rule any_token, rule triple_ex)
    fix u
    show "triple K (anchored pf st H wid) (\<lambda>ts w. world_settled pf st H wid c p ts w \<and> aw_token w = u)
        (persist_activated pf st c) (clean pf st H wid) (anchored pf st H wid)"
      unfolding persist_activated_def a
    proof (rule triple_bind [OF triple_lift [where Q = "\<lambda>x ts w. x = ?a \<and> world_settled pf st H wid c p ts w \<and> aw_token w = u"]])
      fix x
      show "triple K (anchored pf st H wid) (\<lambda>ts w. x = ?a \<and> world_settled pf st H wid c p ts w \<and> aw_token w = u)
          (agent_bind (save pf st x) (\<lambda>_. agent_bind (set_worker_token (cr_worker_token x)) (\<lambda>_. agent_return x)))
          (clean pf st H wid) (anchored pf st H wid)"
      proof (rule triple_pre [where b = "x = ?a"], simp, simp only:, rule triple_bind)
        show "triple K (anchored pf st H wid) (\<lambda>ts w. ?a = ?a \<and> world_settled pf st H wid c p ts w \<and> aw_token w = u)
            (save pf st ?a) (\<lambda>_ ts w. world_settled pf st H wid ?a p ts w \<and> aw_token w = u) (anchored pf st H wid)"
          by (rule triple_weaken [OF save_settled [where c = c and u = u]])
            (use assms fields id own in \<open>auto simp: new_pending_def intro: settled_anchored\<close>)
        show "triple K (anchored pf st H wid) (\<lambda>ts w. world_settled pf st H wid ?a p ts w \<and> aw_token w = u)
            (agent_bind (set_worker_token (cr_worker_token ?a)) (\<lambda>_. agent_return ?a))
            (clean pf st H wid) (anchored pf st H wid)"
          using own by (auto simp: triple_def agent_bind_def set_worker_token_def agent_return_def clean_def fields
            world_settled_def world_fine_def file_fine_def live_in_flight_def)
      qed
    qed auto
  qed
  show ?thesis
  proof (rule triple_pre [where b = "cr_worker_id c = wid \<and> hash_worker_token pf st p \<in> H"])
    show "cr_worker_id c = wid \<and> hash_worker_token pf st p \<in> H" if "world_settled pf st H wid c p ts w" for ts w
      using that assms by (auto simp: world_settled_def file_fine_def)
  qed (use body in blast)
qed

lemma drop_pending_triple:
  "triple K (anchored pf st H wid) (world_settled pf st H wid c (cr_worker_token c)) (drop_pending pf st c required message)
    (clean pf st H wid) (anchored pf st H wid)"
proof -
  let ?a = "clear_pending c"
  have fields: "cr_worker_id ?a = cr_worker_id c" "cr_worker_token ?a = cr_worker_token c"
    "cr_pending_worker_token ?a = None" "cr_pending_rotation_id ?a = None"
    by (simp_all add: clear_pending_def)
  have body: "triple K (anchored pf st H wid) (world_settled pf st H wid c (cr_worker_token c)) (drop_pending pf st c required message)
      (clean pf st H wid) (anchored pf st H wid)"
    if id: "cr_worker_id c = wid" and own: "hash_worker_token pf st (cr_worker_token c) \<in> H"
  proof (rule any_token, rule triple_ex)
    fix u
    show "triple K (anchored pf st H wid) (\<lambda>ts w. world_settled pf st H wid c (cr_worker_token c) ts w \<and> aw_token w = u)
        (drop_pending pf st c required message) (clean pf st H wid) (anchored pf st H wid)"
      unfolding drop_pending_def
    proof (rule triple_bind)
      show "triple K (anchored pf st H wid) (\<lambda>ts w. world_settled pf st H wid c (cr_worker_token c) ts w \<and> aw_token w = u)
          (save pf st ?a) (\<lambda>_ ts w. world_settled pf st H wid ?a (cr_worker_token c) ts w \<and> aw_token w = u) (anchored pf st H wid)"
        by (rule triple_weaken [OF save_settled [where c = c and u = u]])
          (use fields id own in \<open>auto simp: new_pending_def intro: settled_anchored\<close>)
      show "triple K (anchored pf st H wid) (\<lambda>ts w. world_settled pf st H wid ?a (cr_worker_token c) ts w \<and> aw_token w = u)
          (if required then agent_raise (Credential_Error message) else agent_return ?a)
          (clean pf st H wid) (anchored pf st H wid)"
        using fields by (auto intro!: triple_return triple_raise simp: clean_def intro: settled_anchored)
    qed
  qed
  show ?thesis
  proof (rule triple_pre [where b = "cr_worker_id c = wid \<and> hash_worker_token pf st (cr_worker_token c) \<in> H"])
    show "cr_worker_id c = wid \<and> hash_worker_token pf st (cr_worker_token c) \<in> H"
      if "world_settled pf st H wid c (cr_worker_token c) ts w" for ts w
      using that by (auto simp: world_settled_def file_fine_def)
  qed (use body in blast)
qed

text \<open>The calls under the two assertions, with a crash that leaves the file anchored.\<close>

lemma allowed_simps [simp]:
  "allowed c Get_Session" "allowed c Get_Rotation_Status" "allowed c (Abort_Rotation rid)"
  "allowed c (Prepare_Rotation rid)" "allowed c (Activate_Rotation rid p) \<longleftrightarrow> cr_pending_worker_token c = Some p"
  by (auto simp: allowed_def)

lemmas hold_session = triple_crash [OF hold.session_stable [OF allowed_simps(1)] holding_anchored]
lemmas hold_status = triple_crash [OF hold.status_stable [OF allowed_simps(2)] holding_anchored]
lemmas hold_abort = triple_crash [OF hold.abort_stable [OF allowed_simps(3)] holding_anchored]
lemmas hold_activate = triple_crash [OF hold.activate_stable [OF allowed_simps(5) [THEN iffD2]] holding_anchored]
lemmas hold_next = triple_crash [OF hold.next_stable holding_anchored]

lemma prove_pending_triple:
  assumes "cr_pending_worker_token c = Some p"
  shows "triple K (anchored pf st H wid) (holding pf st H wid c) (prove_pending pf st c p)
    (clean pf st H wid) (anchored pf st H wid)"
  unfolding prove_pending_def
proof (rule triple_bind [OF set_token_holding], goal_cases)
  case 1
  then show ?case using assms by simp
next
  case (2 x)
  have keep: "triple K (anchored pf st H wid) (world_settled pf st H wid c p)
      (agent_bind (agent_lift (validate_session_owner s c)) (\<lambda>_. persist_activated pf st c))
      (clean pf st H wid) (anchored pf st H wid)" for s
    by (rule triple_bind [OF triple_lift [where Q = "\<lambda>_. world_settled pf st H wid c p"] persist_activated_triple [OF assms]])
      (use assms in \<open>auto intro: settled_anchored\<close>)
  show ?case
    by (rule triple_bind [OF triple_weaken [OF hold_session [where t = p], where Q' = "\<lambda>_. world_settled pf st H wid c p"] keep])
      (use assms in \<open>auto intro: holding_anchored holding_proven\<close>)
qed

lemma session_for_token_triple:
  assumes "cr_pending_worker_token c = Some p"
  shows "triple K (anchored pf st H wid) (holding pf st H wid c) (session_for_token pf st p)
    (\<lambda>r ts w. if r = None then holding pf st H wid c ts w else world_settled pf st H wid c p ts w) (anchored pf st H wid)"
  unfolding session_for_token_def
proof (rule triple_bind [OF set_token_holding], goal_cases)
  case 1
  then show ?case using assms by simp
next
  case (2 x)
  show ?case
  proof (rule triple_bind [OF triple_try [OF hold_session]])
    fix r
    show "triple K (anchored pf st H wid)
        (case r of Inl e \<Rightarrow> \<lambda>ts w. holding pf st H wid c ts w \<and> aw_token w = p
          | Inr s \<Rightarrow> \<lambda>ts w. holding pf st H wid c ts w \<and> aw_token w = p \<and>
              (\<exists>q. tokens_of wid (aw_ledger w) = Some (hash_worker_token pf st p, q)))
        (case r of
           Inr s \<Rightarrow> agent_return (Some s)
         | Inl (Manager_Error (Some code)) \<Rightarrow>
             if code = 401 then agent_return None else agent_raise (Manager_Error (Some code))
         | Inl e \<Rightarrow> agent_raise e)
        (\<lambda>r ts w. if r = None then holding pf st H wid c ts w else world_settled pf st H wid c p ts w) (anchored pf st H wid)"
      using assms
      by (auto split: sum.split agent_error.split option.split
        intro!: triple_return triple_raise intro: holding_anchored holding_proven)
  qed
qed

lemma resolve_activation_triple:
  assumes p: "cr_pending_worker_token c = Some p"
  shows "triple K (anchored pf st H wid) (holding pf st H wid c) (resolve_activation pf st c rid p required)
    (clean pf st H wid) (anchored pf st H wid)"
  unfolding resolve_activation_def
proof (rule triple_bind [OF session_for_token_triple [OF p]])
  fix r
  show "triple K (anchored pf st H wid)
      (\<lambda>ts w. if r = None then holding pf st H wid c ts w else world_settled pf st H wid c p ts w)
      (case r of
         Some s \<Rightarrow> agent_bind (agent_lift (validate_session_owner s c)) (\<lambda>_. persist_activated pf st c)
       | None \<Rightarrow>
         agent_bind (set_worker_token (cr_worker_token c)) (\<lambda>_.
         agent_bind (get_token_rotation_status pf st) (\<lambda>s.
         agent_bind (agent_lift (validate_status_owner s c)) (\<lambda>_.
         if \<not> rs_pending s
         then drop_pending pf st c required ''Worker token rotation was not activated''
         else if rs_rotation_id s \<noteq> Some rid
         then agent_raise (Credential_Error ''Manager has a different pending Worker token rotation'')
         else agent_bind (next_event pf st) (\<lambda>clock.
           if \<not> (\<exists>t \<in> set_option (rs_expires_at s). ev_clock clock < t)
           then agent_bind (request_abort pf st rid) (\<lambda>_.
             drop_pending pf st c required ''Worker token rotation expired before activation'')
           else agent_bind (request_activate pf st rid p) (\<lambda>_. prove_pending pf st c p))))))
      (clean pf st H wid) (anchored pf st H wid)"
  proof (cases r)
    case (Some s)
    have "triple K (anchored pf st H wid) (world_settled pf st H wid c p)
        (agent_bind (agent_lift (validate_session_owner s c)) (\<lambda>_. persist_activated pf st c))
        (clean pf st H wid) (anchored pf st H wid)"
      by (rule triple_bind [OF triple_lift [where Q = "\<lambda>_. world_settled pf st H wid c p"] persist_activated_triple [OF p]])
        (use p in \<open>auto intro: settled_anchored\<close>)
    then show ?thesis using Some by simp
  next
    case None
    let ?told = "\<lambda>s ts w. holding pf st H wid c ts w \<and> aw_token w = cr_worker_token c \<and>
      (\<not> rs_pending s \<longrightarrow> world_settled pf st H wid c (cr_worker_token c) ts w)"
    have told: "triple K (anchored pf st H wid) (holding pf st H wid c)
        (agent_bind (set_worker_token (cr_worker_token c)) (\<lambda>_. get_token_rotation_status pf st)) ?told
        (anchored pf st H wid)"
      by (rule triple_bind [OF set_token_holding triple_weaken [OF hold_status]])
        (auto intro: holding_anchored holding_quiet)
    have abort: "triple K (anchored pf st H wid) (\<lambda>ts w. holding pf st H wid c ts w \<and> aw_token w = cr_worker_token c)
        (agent_bind (request_abort pf st rid) (\<lambda>_.
             drop_pending pf st c required ''Worker token rotation expired before activation''))
        (clean pf st H wid) (anchored pf st H wid)"
      by (rule triple_bind [OF triple_weaken [OF hold_abort] drop_pending_triple])
        (auto intro: holding_anchored holding_quiet)
    have again: "triple K (anchored pf st H wid) (\<lambda>ts w. holding pf st H wid c ts w \<and> aw_token w = cr_worker_token c)
        (agent_bind (request_activate pf st rid p) (\<lambda>_. prove_pending pf st c p))
        (clean pf st H wid) (anchored pf st H wid)"
      by (rule triple_bind [OF triple_weaken [OF hold_activate [OF p]] prove_pending_triple [OF p]])
        (auto intro: holding_anchored)
    have choose: "triple K (anchored pf st H wid) (\<lambda>ts w. holding pf st H wid c ts w \<and> aw_token w = cr_worker_token c)
        (agent_bind (next_event pf st) (\<lambda>clock.
           if \<not> (\<exists>t \<in> set_option (rs_expires_at s). ev_clock clock < t)
           then agent_bind (request_abort pf st rid) (\<lambda>_.
             drop_pending pf st c required ''Worker token rotation expired before activation'')
           else agent_bind (request_activate pf st rid p) (\<lambda>_. prove_pending pf st c p)))
        (clean pf st H wid) (anchored pf st H wid)" for s
      by (rule triple_bind [OF triple_weaken [OF hold_next,
            where Q' = "\<lambda>_ ts w. holding pf st H wid c ts w \<and> aw_token w = cr_worker_token c"]])
        (use abort again in \<open>auto dest: fine_suffix(3)\<close>)
    have "triple K (anchored pf st H wid) (?told s) (agent_bind (agent_lift (validate_status_owner s c)) (\<lambda>_.
         if \<not> rs_pending s
         then drop_pending pf st c required ''Worker token rotation was not activated''
         else if rs_rotation_id s \<noteq> Some rid
         then agent_raise (Credential_Error ''Manager has a different pending Worker token rotation'')
         else agent_bind (next_event pf st) (\<lambda>clock.
           if \<not> (\<exists>t \<in> set_option (rs_expires_at s). ev_clock clock < t)
           then agent_bind (request_abort pf st rid) (\<lambda>_.
             drop_pending pf st c required ''Worker token rotation expired before activation'')
           else agent_bind (request_activate pf st rid p) (\<lambda>_. prove_pending pf st c p))))
        (clean pf st H wid) (anchored pf st H wid)" for s
    proof (rule triple_bind [OF triple_lift [where Q = "\<lambda>_. ?told s"]], goal_cases)
      case (3 x)
      show ?case
      proof (intro triple_if)
        assume "\<not> rs_pending s"
        then show "triple K (anchored pf st H wid) (?told s)
            (drop_pending pf st c required ''Worker token rotation was not activated'') (clean pf st H wid) (anchored pf st H wid)"
          by (intro triple_weaken [OF drop_pending_triple]) auto
      qed (auto intro: triple_raise holding_anchored intro!: triple_weaken [OF choose] simp del: bex_simps ball_simps)
    qed (auto intro: holding_anchored)
    from triple_bind [OF told this, unfolded bind_assoc] show ?thesis
      unfolding None option.case if_True using refl by (elim triple_weaken) auto
  qed
qed

lemma complete_pending_triple:
  "triple K (anchored pf st H wid) (holding pf st H wid c) (complete_pending_rotation pf st c required)
    (clean pf st H wid) (anchored pf st H wid)"
proof -
  have body: "triple K (anchored pf st H wid) (holding pf st H wid c)
      (agent_bind (set_worker_token (cr_worker_token c)) (\<lambda>_.
       agent_bind (agent_try (request_activate pf st rid p)) (\<lambda>r.
         case r of
           Inr _ \<Rightarrow> prove_pending pf st c p
         | Inl (Manager_Error _) \<Rightarrow> resolve_activation pf st c rid p required
         | Inl e \<Rightarrow> agent_raise e)))
      (clean pf st H wid) (anchored pf st H wid)" if p: "cr_pending_worker_token c = Some p" for rid p
  proof (rule triple_bind [OF set_token_holding], simp, rule triple_bind [OF triple_try [OF hold_activate [OF p]]])
    fix r
    show "triple K (anchored pf st H wid)
        (case r of Inl e \<Rightarrow> \<lambda>ts w. holding pf st H wid c ts w \<and> aw_token w = cr_worker_token c
          | Inr x \<Rightarrow> \<lambda>ts w. holding pf st H wid c ts w \<and> aw_token w = cr_worker_token c)
        (case r of
           Inr _ \<Rightarrow> prove_pending pf st c p
         | Inl (Manager_Error _) \<Rightarrow> resolve_activation pf st c rid p required
         | Inl e \<Rightarrow> agent_raise e) (clean pf st H wid) (anchored pf st H wid)"
      by (auto split: sum.split agent_error.split intro: triple_raise holding_anchored
        triple_weaken [OF prove_pending_triple [OF p]] triple_weaken [OF resolve_activation_triple [OF p]])
  qed
  show ?thesis
    unfolding complete_pending_rotation_def
    by (auto split: option.split intro: body triple_raise holding_anchored)
qed

lemma reconcile_triple:
  assumes together: "cr_pending_rotation_id c = None \<longleftrightarrow> cr_pending_worker_token c = None"
  shows "triple K (anchored pf st H wid) (holding pf st H wid c) (reconcile_worker_token_rotation pf st c)
    (clean pf st H wid) (anchored pf st H wid)"
proof (cases "cr_pending_rotation_id c")
  case (Some rid)
  then show ?thesis
    unfolding reconcile_worker_token_rotation_def
    by (auto intro: triple_bind [OF set_token_holding] triple_weaken [OF complete_pending_triple])
next
  case None
  let ?here = "\<lambda>ts w. holding pf st H wid c ts w \<and> aw_token w = cr_worker_token c"
  have clean: "clean pf st H wid c ts w" if "holding pf st H wid c ts w" for ts w
    using holding_single [OF that] None together by (simp add: clean_def)
  have abort: "triple K (anchored pf st H wid) ?here (agent_bind (request_abort pf st rid) (\<lambda>_. agent_return c))
      (clean pf st H wid) (anchored pf st H wid)" for rid
    by (rule triple_bind [OF triple_weaken [OF hold_abort, where Q' = "\<lambda>_. holding pf st H wid c"]])
      (auto intro: triple_return holding_anchored clean)
  have decide: "triple K (anchored pf st H wid) ?here (agent_bind (agent_lift (validate_status_owner s c)) (\<lambda>_.
       if rs_pending s
       then (case rs_rotation_id s of
           None \<Rightarrow> agent_raise (Credential_Error ''Manager returned an incomplete Worker token rotation'')
         | Some rotation_id \<Rightarrow> agent_bind (request_abort pf st rotation_id) (\<lambda>_. agent_return c))
       else agent_return c)) (clean pf st H wid) (anchored pf st H wid)" for s
    by (rule triple_bind [OF triple_lift [where Q = "\<lambda>_. ?here"]])
      (auto split: option.split intro: abort triple_return triple_raise clean holding_anchored)
  have status: "triple K (anchored pf st H wid) ?here (get_token_rotation_status pf st) (\<lambda>_. ?here) (anchored pf st H wid)"
    by (rule triple_weaken [OF hold_status]) (auto intro: holding_anchored)
  show ?thesis
    unfolding reconcile_worker_token_rotation_def
    by (rule triple_bind [OF set_token_holding], simp) (use None triple_bind [OF status decide] in simp)
qed

text \<open>With nothing pending every call but an activation keeps the token world_settled.\<close>

lemma clean_calls:
  assumes "cr_pending_rotation_id c = None" "cr_pending_worker_token c = None"
  shows
    "triple K (anchored pf st H wid) (\<lambda>ts w. world_settled pf st H wid c (cr_worker_token c) ts w \<and> aw_token w = t) (get_session pf st)
      (\<lambda>_ ts w. world_settled pf st H wid c (cr_worker_token c) ts w \<and> aw_token w = t) (anchored pf st H wid)"
    "triple K (anchored pf st H wid) (\<lambda>ts w. world_settled pf st H wid c (cr_worker_token c) ts w \<and> aw_token w = t) (next_event pf st)
      (\<lambda>_ ts w. world_settled pf st H wid c (cr_worker_token c) ts w \<and> aw_token w = t) (anchored pf st H wid)"
    "triple K (anchored pf st H wid) (\<lambda>ts w. world_settled pf st H wid c (cr_worker_token c) ts w \<and> aw_token w = t)
      (request_prepare pf st rid)
      (\<lambda>r ts w. world_settled pf st H wid c (cr_worker_token c) ts w \<and> aw_token w = t \<and>
        new_pending pf st H (stage_rotation rid (fst (snd (snd r))) (snd (snd (snd r))) c) ts)
      (\<lambda>ts w. world_settled pf st H wid c (cr_worker_token c) ts w \<and> aw_token w = t)"
proof -
  have crash: "world_settled pf st H wid c (cr_worker_token c) ts w \<Longrightarrow> anchored pf st H wid ts w" for ts w
    by (auto intro: settled_anchored)
  show "triple K (anchored pf st H wid) (\<lambda>ts w. world_settled pf st H wid c (cr_worker_token c) ts w \<and> aw_token w = t) (get_session pf st)
      (\<lambda>_ ts w. world_settled pf st H wid c (cr_worker_token c) ts w \<and> aw_token w = t) (anchored pf st H wid)"
    by (rule triple_weaken [OF triple_crash [OF calm.session_stable crash]]) (auto intro: crash)
  show "triple K (anchored pf st H wid) (\<lambda>ts w. world_settled pf st H wid c (cr_worker_token c) ts w \<and> aw_token w = t) (next_event pf st)
      (\<lambda>_ ts w. world_settled pf st H wid c (cr_worker_token c) ts w \<and> aw_token w = t) (anchored pf st H wid)"
    by (rule triple_weaken [OF triple_crash [OF calm.next_stable crash]]) (auto dest: fine_suffix(4) intro: crash)
  have "new_pending pf st H (stage_rotation rid new e c) ts"
    if "world_settled pf st H wid c (cr_worker_token c) ts w"
      "tokens_of wid (aw_ledger w) = Some (h, Some (hash_worker_token pf st new))" for new e ts w h
    using that by (auto simp: world_settled_def world_fine_def row_fine_def new_pending_def stage_rotation_def)
  then show "triple K (anchored pf st H wid) (\<lambda>ts w. world_settled pf st H wid c (cr_worker_token c) ts w \<and> aw_token w = t)
      (request_prepare pf st rid)
      (\<lambda>r ts w. world_settled pf st H wid c (cr_worker_token c) ts w \<and> aw_token w = t \<and>
        new_pending pf st H (stage_rotation rid (fst (snd (snd r))) (snd (snd (snd r))) c) ts)
      (\<lambda>ts w. world_settled pf st H wid c (cr_worker_token c) ts w \<and> aw_token w = t)"
    by (intro triple_weaken [OF triple_crash [OF calm.prepare_stable crash]]) (auto split: prod.splits)
qed

lemma withdraw_triple:
  "triple K (anchored pf st H wid) (holding pf st H wid c) (withdraw pf st rid)
    (\<lambda>_. anchored pf st H wid) (anchored pf st H wid)"
  unfolding withdraw_def
proof (rule any_token, rule triple_ex, rule triple_bind [OF triple_try [OF hold_abort]])
  fix t r
  show "triple K (anchored pf st H wid)
      (case r of Inl e \<Rightarrow> \<lambda>ts w. holding pf st H wid c ts w \<and> aw_token w = t
        | Inr x \<Rightarrow> \<lambda>ts w. holding pf st H wid c ts w \<and> aw_token w = t \<and>
            tokens_of wid (aw_ledger w) = Some (hash_worker_token pf st t, None))
      (case r of Inl (Credential_Error m) \<Rightarrow> agent_raise (Credential_Error m) | _ \<Rightarrow> agent_return ())
      (\<lambda>_. anchored pf st H wid) (anchored pf st H wid)"
    by (auto split: sum.split agent_error.split intro: triple_return triple_raise holding_anchored)
qed

lemma withdraw_and_raise:
  "triple K (anchored pf st H wid) (holding pf st H wid c) (agent_bind (withdraw pf st rid) (\<lambda>_. agent_raise e))
    Q (anchored pf st H wid)"
  by (rule triple_bind [OF withdraw_triple triple_raise])

lemma keep_prepared_triple:
  assumes none: "cr_pending_rotation_id c = None" "cr_pending_worker_token c = None"
  shows "triple K (anchored pf st H wid)
    (\<lambda>ts w. world_settled pf st H wid c (cr_worker_token c) ts w \<and> aw_token w = u \<and>
      new_pending pf st H (stage_rotation rid (fst (snd (snd r))) (snd (snd (snd r))) c) ts)
    (keep_prepared pf st c rid r) (clean pf st H wid) (anchored pf st H wid)"
proof (rule triple_pre [where b = "cr_worker_id c = wid \<and> hash_worker_token pf st (cr_worker_token c) \<in> H"])
  show "cr_worker_id c = wid \<and> hash_worker_token pf st (cr_worker_token c) \<in> H"
    if "world_settled pf st H wid c (cr_worker_token c) ts w \<and> aw_token w = u \<and>
      new_pending pf st H (stage_rotation rid (fst (snd (snd r))) (snd (snd (snd r))) c) ts" for ts w
    using that by (auto simp: world_settled_def file_fine_def)
  assume own: "cr_worker_id c = wid \<and> hash_worker_token pf st (cr_worker_token c) \<in> H"
  obtain i prepared new e where r: "r = (i, prepared, new, e)" by (metis prod_cases4)
  let ?s = "stage_rotation rid new e c"
  have fields: "cr_worker_token ?s = cr_worker_token c" "cr_worker_id ?s = cr_worker_id c"
    by (simp_all add: stage_rotation_def)
  have hold: "holding pf st H wid c' ts w" if "world_settled pf st H wid c' (cr_worker_token c) ts w" "c' = c \<or> c' = ?s" for c' ts w
    using that fields by (auto intro: settled_holding)
  have quit: "triple K (anchored pf st H wid)
      (\<lambda>ts w. (world_settled pf st H wid c (cr_worker_token c) ts w \<or> world_settled pf st H wid ?s (cr_worker_token c) ts w) \<and> aw_token w = u)
      (agent_bind (withdraw pf st rid) (\<lambda>_. agent_raise x)) (clean pf st H wid) (anchored pf st H wid)" for x
    by (rule triple_weaken [OF triple_disj [OF withdraw_and_raise [where c = c] withdraw_and_raise [where c = ?s]]])
      (auto intro: hold)
  have go_on: "triple K (anchored pf st H wid)
      (\<lambda>ts w. world_settled pf st H wid ?s (cr_worker_token c) ts w \<and> aw_token w = u)
      (complete_pending_rotation pf st ?s True) (clean pf st H wid) (anchored pf st H wid)"
    by (rule triple_weaken [OF complete_pending_triple]) (auto intro: hold)
  have stop: "anchored pf st H wid ts w"
    if "world_settled pf st H wid c (cr_worker_token c) ts w \<or> world_settled pf st H wid ?s (cr_worker_token c) ts w" for ts w
    using that hold holding_anchored by blast
  have mismatch: "triple K (anchored pf st H wid)
      (\<lambda>ts w. world_settled pf st H wid c (cr_worker_token c) ts w \<and> aw_token w = u \<and> new_pending pf st H ?s ts)
      (agent_bind (withdraw pf st rid) (\<lambda>_. agent_raise x)) (clean pf st H wid) (anchored pf st H wid)" for x
    by (rule triple_weaken [OF withdraw_and_raise [where c = c]]) (auto intro: hold)
  have stage: "triple K (anchored pf st H wid)
      (\<lambda>ts w. world_settled pf st H wid c (cr_worker_token c) ts w \<and> aw_token w = u \<and> new_pending pf st H ?s ts)
      (agent_bind (agent_try (save pf st ?s)) (\<lambda>saved.
         case saved of
           Inl (Credential_Error m) \<Rightarrow> agent_bind (withdraw pf st rid) (\<lambda>_. agent_raise (Credential_Error m))
         | Inl e \<Rightarrow> agent_raise e
         | Inr _ \<Rightarrow> complete_pending_rotation pf st ?s True))
      (clean pf st H wid) (anchored pf st H wid)"
  proof (rule triple_bind [OF triple_try [OF save_settled [where c = c and u = u]]])
    fix saved
    show "triple K (anchored pf st H wid)
        (case saved of
           Inl e' \<Rightarrow> \<lambda>ts w. (world_settled pf st H wid c (cr_worker_token c) ts w \<or> world_settled pf st H wid ?s (cr_worker_token c) ts w) \<and> aw_token w = u
         | Inr x \<Rightarrow> \<lambda>ts w. world_settled pf st H wid ?s (cr_worker_token c) ts w \<and> aw_token w = u)
        (case saved of
           Inl (Credential_Error m) \<Rightarrow> agent_bind (withdraw pf st rid) (\<lambda>_. agent_raise (Credential_Error m))
         | Inl e \<Rightarrow> agent_raise e
         | Inr _ \<Rightarrow> complete_pending_rotation pf st ?s True)
        (clean pf st H wid) (anchored pf st H wid)"
    proof (cases saved)
      case (Inl e')
      then show ?thesis using quit by (cases e') (auto intro: triple_raise stop)
    qed (use go_on in simp)
  qed (use own fields in simp_all)
  show "triple K (anchored pf st H wid)
      (\<lambda>ts w. world_settled pf st H wid c (cr_worker_token c) ts w \<and> aw_token w = u \<and>
        new_pending pf st H (stage_rotation rid (fst (snd (snd r))) (snd (snd (snd r))) c) ts)
      (keep_prepared pf st c rid r) (clean pf st H wid) (anchored pf st H wid)"
    using mismatch stage by (simp add: keep_prepared_def r Let_def)
qed

lemma prepare_and_keep_triple:
  assumes none: "cr_pending_rotation_id c = None" "cr_pending_worker_token c = None"
  shows "triple K (anchored pf st H wid) (\<lambda>ts w. world_settled pf st H wid c (cr_worker_token c) ts w \<and> aw_token w = u)
    (prepare_and_keep pf st c rid) (clean pf st H wid) (anchored pf st H wid)"
proof -
  have again: "triple K (anchored pf st H wid) (\<lambda>ts w. world_settled pf st H wid c (cr_worker_token c) ts w \<and> aw_token w = u)
      (agent_bind (reconcile_worker_token_rotation pf st c) (\<lambda>_. agent_raise e))
      (clean pf st H wid) (anchored pf st H wid)" for e
    by (rule triple_weaken [OF triple_bind [OF reconcile_triple triple_raise]])
      (use none in \<open>auto intro: settled_holding clean_anchored\<close>)
  show ?thesis
    unfolding prepare_and_keep_def
  proof (rule triple_bind [OF triple_try [OF clean_calls(3) [OF none]]])
    fix r
    show "triple K (anchored pf st H wid)
        (case r of
           Inl e \<Rightarrow> \<lambda>ts w. world_settled pf st H wid c (cr_worker_token c) ts w \<and> aw_token w = u
         | Inr r \<Rightarrow> \<lambda>ts w. world_settled pf st H wid c (cr_worker_token c) ts w \<and> aw_token w = u \<and>
             new_pending pf st H (stage_rotation rid (fst (snd (snd r))) (snd (snd (snd r))) c) ts)
        (case r of
           Inl (Manager_Error code) \<Rightarrow>
             agent_bind (reconcile_worker_token_rotation pf st c) (\<lambda>_. agent_raise (Manager_Error code))
         | Inl e \<Rightarrow> agent_raise e
         | Inr prepared \<Rightarrow> keep_prepared pf st c rid prepared)
        (clean pf st H wid) (anchored pf st H wid)"
    proof (cases r)
      case (Inl e)
      then show ?thesis using again by (cases e) (auto intro: triple_raise settled_anchored)
    next
      case (Inr x)
      then show ?thesis using keep_prepared_triple [OF none, of K pf st H wid u rid x] by simp
    qed
  qed
qed

lemma rotate_triple:
  assumes together: "cr_pending_rotation_id stored = None \<longleftrightarrow> cr_pending_worker_token stored = None"
  shows "triple K (anchored pf st H wid) (holding pf st H wid stored) (rotate_worker_token pf st stored)
    (clean pf st H wid) (anchored pf st H wid)"
  unfolding rotate_worker_token_def
proof (rule triple_bind [OF reconcile_triple [OF together]], rule triple_pre)
  fix c
  show "cr_pending_rotation_id c = None \<and> cr_pending_worker_token c = None" if "clean pf st H wid c ts w" for ts w
    using that by (simp add: clean_def)
  assume none: "cr_pending_rotation_id c = None \<and> cr_pending_worker_token c = None"
  let ?here = "\<lambda>ts w. world_settled pf st H wid c (cr_worker_token c) ts w \<and> aw_token w = cr_worker_token c"
  note calls = clean_calls [OF none [THEN conjunct1] none [THEN conjunct2]]
  have token: "triple K (anchored pf st H wid) (clean pf st H wid c) (set_worker_token (cr_worker_token c)) (\<lambda>_. ?here) (anchored pf st H wid)"
    by (rule triple_weaken [OF set_token_settled]) (auto simp: clean_def)
  have act: "triple K (anchored pf st H wid) ?here
      (if ws_current_job_id s \<noteq> None \<or> ws_status s \<noteq> IDLE
       then agent_raise (Credential_Error ''Worker token rotation requires an idle Worker'')
       else agent_bind (next_event pf st) (\<lambda>drawn. prepare_and_keep pf st c (ev_uuid drawn)))
      (clean pf st H wid) (anchored pf st H wid)" for s
    by (intro triple_if triple_bind [OF calls(2)] prepare_and_keep_triple)
      (use none in \<open>auto intro: triple_raise settled_anchored\<close>)
  have owner: "triple K (anchored pf st H wid) ?here
      (agent_bind (agent_lift (validate_session_owner s c)) (\<lambda>_.
       if ws_current_job_id s \<noteq> None \<or> ws_status s \<noteq> IDLE
       then agent_raise (Credential_Error ''Worker token rotation requires an idle Worker'')
       else agent_bind (next_event pf st) (\<lambda>drawn. prepare_and_keep pf st c (ev_uuid drawn))))
      (clean pf st H wid) (anchored pf st H wid)" for s
    by (rule triple_bind [OF triple_lift act]) (auto intro: settled_anchored)
  show "triple K (anchored pf st H wid) (clean pf st H wid c)
      (agent_bind (set_worker_token (cr_worker_token c)) (\<lambda>_.
       agent_bind (get_session pf st) (\<lambda>s.
       agent_bind (agent_lift (validate_session_owner s c)) (\<lambda>_.
       if ws_current_job_id s \<noteq> None \<or> ws_status s \<noteq> IDLE
       then agent_raise (Credential_Error ''Worker token rotation requires an idle Worker'')
       else agent_bind (next_event pf st) (\<lambda>drawn. prepare_and_keep pf st c (ev_uuid drawn))))))
      (clean pf st H wid) (anchored pf st H wid)"
    by (rule triple_bind [OF token triple_bind [OF calls(1) owner]])
qed

section \<open>Runs of the agent\<close>

lemma load_together:
  assumes "load_credential url name file = Inr (Some c)"
  shows "file = Some c" "cr_pending_rotation_id c = None \<longleftrightarrow> cr_pending_worker_token c = None"
  using assms
  by (auto simp: load_credential_def validate_pending_rotation_def split: option.splits if_splits sum.splits)

lemma run_agent_anchored:
  assumes "anchored pf st H wid (all_turns es @ K) w"
  shows "anchored pf st H wid K (snd (snd (run_agent pf st url name run es w)))"
proof -
  have later: "anchored pf st H wid K v" if "anchored pf st H wid (us @ K) v" for us v
    using that fine_suffix(3) unfolding anchored_def by blast
  obtain c where c: "holding pf st H wid c (all_turns es @ K) w" using assms by (auto simp: anchored_def)
  show ?thesis
  proof (cases "load_credential url name (aw_file w)")
    case (Inl e)
    then show ?thesis using later [OF assms] by (simp add: run_agent_def)
  next
    case (Inr o')
    show ?thesis
    proof (cases o')
      case None
      then show ?thesis using later [OF assms] Inr by (cases run) (simp_all add: run_agent_def)
    next
      case (Some c')
      have c': "c' = c" using load_together(1) Inr Some c by (auto simp: holding_def file_fine_def)
      note together = load_together(2) [OF Inr [unfolded Some], unfolded c']
      let ?prog = "case run of Start_Agent \<Rightarrow> reconcile_worker_token_rotation pf st c | Rotate_Token \<Rightarrow> rotate_worker_token pf st c"
      let ?w = "w\<lparr>aw_token := cr_worker_token c\<rparr>"
      have "holding pf st H wid c (all_turns es @ K) ?w"
        using c by (auto simp: holding_def world_fine_def live_in_flight_def file_fine_def)
      moreover have "triple K (anchored pf st H wid) (holding pf st H wid c)
          (agent_bind ?prog (\<lambda>c. agent_return (Some c))) (\<lambda>_. anchored pf st H wid) (anchored pf st H wid)"
        by (rule triple_bind [where R = "clean pf st H wid"], cases run)
          (simp_all add: reconcile_triple [OF together] rotate_triple [OF together] triple_return clean_anchored)
      ultimately have "after K (anchored pf st H wid) (\<lambda>_. anchored pf st H wid) (anchored pf st H wid)
          (agent_bind ?prog (\<lambda>c. agent_return (Some c)) es ?w)"
        by (rule tripleD [rotated])
      then have "anchored pf st H wid K (snd (snd (agent_bind ?prog (\<lambda>c. agent_return (Some c)) es ?w)))"
        by (cases "agent_bind ?prog (\<lambda>c. agent_return (Some c)) es ?w" rule: run_cases) (auto intro: later)
      then show ?thesis using Inr Some c' by (cases run) (simp_all add: run_agent_def)
    qed
  qed
qed

text \<open>Any sequence of starts and rotations, each with what happens during it.\<close>

fun operate :: "platform \<Rightarrow> settings \<Rightarrow> string \<Rightarrow> string \<Rightarrow> (agent_run \<times> agent_event list) list \<Rightarrow> agent_world \<Rightarrow> agent_world" where
  "operate pf st url name [] w = w"
| "operate pf st url name ((run, es) # runs) w =
     operate pf st url name runs (snd (snd (run_agent pf st url name run es w)))"

definition run_turns :: "(agent_run \<times> agent_event list) list \<Rightarrow> manager_turn list" where
  "run_turns runs = concat (map (all_turns \<circ> snd) runs)"

lemma operate_anchored:
  "anchored pf st H wid (run_turns runs) w \<Longrightarrow> anchored pf st H wid [] (operate pf st url name runs w)"
proof (induction runs arbitrary: w)
  case (Cons r runs)
  obtain run es where r: "r = (run, es)" by fastforce
  then show ?case
    using Cons.IH [OF run_agent_anchored [of pf st H wid es "run_turns runs" w url name run]] Cons.prems
    by (simp add: run_turns_def)
qed (simp add: run_turns_def)

lemma anchored_authenticates:
  assumes "anchored pf st H wid ts w"
  shows "\<exists>c t r. aw_file w = Some c \<and> (t = cr_worker_token c \<or> cr_pending_worker_token c = Some t) \<and>
    require_worker pf st (Some (''Bearer'', t)) (aw_ledger w) = Inr r \<and> w_id r = wid"
proof -
  obtain c where c: "holding pf st H wid c ts w" using assms by (auto simp: anchored_def)
  then obtain h p t where h: "tokens_of wid (aw_ledger w) = Some (h, p)" "h = hash_worker_token pf st t"
    "t = cr_worker_token c \<or> cr_pending_worker_token c = Some t"
    by (auto simp: holding_def)
  obtain r where r: "get_worker_row wid (aw_ledger w) = Some r" "w_is_active r" "w_token_hash r = h"
    using h(1) by (auto simp: tokens_of_def split: option.splits if_splits)
  have "ledger_fine H wid (aw_ledger w)" using c by (simp add: holding_def world_fine_def)
  then have "require_worker pf st (Some (''Bearer'', t)) (aw_ledger w) = Inr r"
    using token_authenticates [OF _ r(1,2)] r(3) h(2) by simp
  moreover have "aw_file w = Some c" using c by (simp add: holding_def file_fine_def)
  ultimately show ?thesis using h(3) get_row_SomeD [OF r(1)] by blast
qed

section \<open>The worker is never locked out\<close>

text \<open>
  C23. Let a worker hold one token, the one the Manager accepts, and let its agent be started and told to
  rotate any number of times. Whatever requests are lost, delayed or answered in vain, whatever writes of
  the credential file fail and whenever the agent dies, at every such moment the file holds a token with
  which the Manager authenticates this worker. The tokens the Manager draws are taken to have different
  digests, of which no other worker comes to have one, and other transactions to leave the worker's own
  credential alone.
\<close>

theorem rotation_never_locks_out:
  assumes ledger: "assignment_ok (aw_ledger w)" "tokens_ok (aw_ledger w)"
    and row: "get_worker_row wid (aw_ledger w) = Some r" "w_is_active r" "w_pending_token_hash r = None"
    and credential: "aw_file w = Some c" "cr_worker_id c = wid" "cr_pending_worker_token c = None"
      "w_token_hash r = hash_worker_token pf st (cr_worker_token c)"
    and client: "aw_token w = cr_worker_token c" "aw_flight w = []"
    and digests: "tokens = cr_worker_token c # map mt_raw_token (run_turns runs)"
      "distinct (map (hash_worker_token pf st) tokens)" "H = set (map (hash_worker_token pf st) tokens)"
    and others: "\<forall>o' \<in> set (workers (aw_ledger w)). w_id o' \<noteq> wid \<longrightarrow> w_token_hash o' \<notin> H"
      "\<forall>mt \<in> set (run_turns runs). turn_ok H wid mt"
  shows "\<exists>c t r. aw_file (operate pf st url name runs w) = Some c \<and>
    (t = cr_worker_token c \<or> cr_pending_worker_token c = Some t) \<and>
    require_worker pf st (Some (''Bearer'', t)) (aw_ledger (operate pf st url name runs w)) = Inr r \<and> w_id r = wid"
proof (rule anchored_authenticates, rule operate_anchored)
  have drawn: "set (drawn pf st (run_turns runs)) \<subseteq> H" "distinct (drawn pf st (run_turns runs))"
    "hash_worker_token pf st (cr_worker_token c) \<in> H - set (drawn pf st (run_turns runs))"
    using digests by (auto simp: drawn_def comp_def)
  have "tokens_of wid (aw_ledger w) = Some (hash_worker_token pf st (cr_worker_token c), None)"
    using row credential(4) by (simp add: tokens_of_def)
  then have "holding pf st H wid c (run_turns runs) w"
    using ledger credential client drawn others
    by (simp add: holding_def world_fine_def ledger_fine_def turns_fine_def row_fine_def flight_fine_def
      file_fine_def live_in_flight_def)
  then show "anchored pf st H wid (run_turns runs) w" by (rule holding_anchored)
qed

definition ex_key :: "char \<Rightarrow> string" where
  "ex_key c = ''rvcw_'' @ replicate 32 c"

definition ex_credential :: worker_credential where
  "ex_credential = \<lparr>cr_manager_url = ''https://m'', cr_worker_id = ''w1'', cr_worker_name = ''worker'',
     cr_worker_token = ex_key (CHR ''a''), cr_pending_rotation_id = None, cr_pending_worker_token = None,
     cr_pending_rotation_expires_at = None\<rparr>"

definition ex_world :: agent_world where
  "ex_world = \<lparr>aw_ledger = ex_ledger\<lparr>workers := [ex_worker\<lparr>w_token_hash := ''p:'' @ ex_key (CHR ''a'')\<rparr>]\<rparr>,
     aw_file = Some ex_credential, aw_token = ex_key (CHR ''a''), aw_flight = []\<rparr>"

definition ex_turn :: "char \<Rightarrow> manager_turn" where
  "ex_turn c = \<lparr>mt_now = 5, mt_raw_token = ex_key c, mt_commit = Committed, mt_before = id, mt_between = id\<rparr>"

definition ex_rot_event :: "link \<Rightarrow> agent_event" where
  "ex_rot_event l = \<lparr>ev_late = [], ev_link = l, ev_disk = Written, ev_clock = 6,
     ev_uuid = ''12345678-1234-4234-8234-123456789abc''\<rparr>"

text \<open>A rotation that dies when the answer to its activation is lost: only the pending token is accepted.\<close>

definition ex_lost_activation :: "(agent_run \<times> agent_event list) list" where
  "ex_lost_activation = [(Rotate_Token, map ex_rot_event [Responded (ex_turn (CHR ''b'')), Responded (ex_turn (CHR ''c'')),
     Never_Sent, Responded (ex_turn (CHR ''d'')), Never_Sent, Answer_Lost (ex_turn (CHR ''e''))])]"

theorem rotation_never_locks_out_witness:
  "let w = operate ex_platform ex_settings ''https://m'' ''worker'' ex_lost_activation ex_world in
    aw_file w = Some (stage_rotation ''12345678-1234-4234-8234-123456789abc'' (ex_key (CHR ''d'')) 600000005 ex_credential) \<and>
    require_worker ex_platform ex_settings (Some (''Bearer'', ex_key (CHR ''a''))) (aw_ledger w) =
      Inl (HTTPException 401 ''invalid worker token'') \<and>
    (\<exists>r. require_worker ex_platform ex_settings (Some (''Bearer'', ex_key (CHR ''d''))) (aw_ledger w) = Inr r \<and> w_id r = ''w1'')"
proof -
  let ?w = "operate ex_platform ex_settings ''https://m'' ''worker'' ex_lost_activation ex_world"
  have stored: "aw_file ?w = Some (stage_rotation ''12345678-1234-4234-8234-123456789abc'' (ex_key (CHR ''d'')) 600000005 ex_credential)"
    by code_simp
  have old: "require_worker ex_platform ex_settings (Some (''Bearer'', ex_key (CHR ''a''))) (aw_ledger ?w) =
      Inl (HTTPException 401 ''invalid worker token'')"
    by code_simp
  have turns: "run_turns ex_lost_activation = map ex_turn [CHR ''b'', CHR ''c'', CHR ''d'', CHR ''e'']"
    by (simp add: run_turns_def ex_lost_activation_def all_turns_def event_turns_def link_turns_def ex_rot_event_def)
  have order: "assignment_ok (aw_ledger ex_world)" "tokens_ok (aw_ledger ex_world)"
    by (simp_all add: assignment_ok_def keys_ok_def wf_table_def ex_world_def ex_ledger_def board_ok_def live_def
      board_of_def slot_defs ex_job_def ex_worker_def executing_simps tokens_ok_def rotation_together_def)
  let ?tokens = "map ex_key [CHR ''a'', CHR ''b'', CHR ''c'', CHR ''d'', CHR ''e'']"
  have fresh: "distinct (map (hash_worker_token ex_platform ex_settings) ?tokens)"
    by code_simp
  have turn: "turn_ok H ''w1'' (ex_turn x)" for H x
    by (simp add: turn_ok_def harmless_def ex_turn_def)
  obtain c t r where r: "aw_file ?w = Some c" "t = cr_worker_token c \<or> cr_pending_worker_token c = Some t"
    "require_worker ex_platform ex_settings (Some (''Bearer'', t)) (aw_ledger ?w) = Inr r" "w_id r = ''w1''"
    using rotation_never_locks_out [OF order, where wid = "''w1''" and c = ex_credential and runs = ex_lost_activation
      and tokens = ?tokens and pf = ex_platform and st = ex_settings and url = "''https://m''" and name = "''worker''"
      and r = "ex_worker\<lparr>w_token_hash := ''p:'' @ ex_key (CHR ''a'')\<rparr>"]
      fresh turn turns
    by (auto simp: ex_world_def ex_credential_def ex_worker_def ex_ledger_def hash_worker_token_def ex_platform_def
      ex_settings_def ex_turn_def)
  then have "t = ex_key (CHR ''a'') \<or> t = ex_key (CHR ''d'')"
    using stored by (auto simp: stage_rotation_def ex_credential_def)
  then show ?thesis using stored old r by auto
qed

end
