(* ===== verification/Rotation_Recovery.thy ===== *)
theory Rotation_Recovery
  imports Rotation_Claims
begin

text \<open>
  A start of the agent over a network that answers brings every unfinished rotation to its end.
\<close>

section \<open>A network that answers\<close>

text \<open>Every request is answered at one time, every commit and every write succeeds.\<close>

definition healthy :: "datetime \<Rightarrow> agent_event \<Rightarrow> bool" where
  "healthy now e \<longleftrightarrow> ev_late e = [] \<and> ev_disk e = Written \<and> ev_clock e = now \<and>
     (case ev_link e of Responded mt \<Rightarrow> mt_now mt = now \<and> mt_commit mt = Committed \<and> mt_before mt = id \<and> mt_between mt = id
      | _ \<Rightarrow> False)"

lemma healthyE:
  assumes "healthy now e"
  obtains mt where "ev_link e = Responded mt" "mt_now mt = now" "mt_commit mt = Committed" "mt_before mt = id"
    "mt_between mt = id" "ev_late e = []" "ev_disk e = Written" "ev_clock e = now"
  using assms by (auto simp: healthy_def split: link.splits)

definition bearer :: "platform \<Rightarrow> settings \<Rightarrow> string \<Rightarrow> ledger \<Rightarrow> worker_row res" where
  "bearer pf st t d = require_worker pf st (Some (''Bearer'', t)) d"

lemma bearer_denied: "bearer pf st t d = Inl err \<Longrightarrow> err = HTTPException 401 ''invalid worker token''"
  unfolding bearer_def require_worker_def option.case prod.case bearer_scheme
  by (simp only: simp_thms if_False split: option.splits) auto

text \<open>What a healthy call returns, by the Manager's answer.\<close>

lemma healthy_denied:
  assumes "healthy now e" "bearer pf st (aw_token w) (aw_ledger w) = Inl err"
  shows "send_request pf st call (e # es) w = (Raises (Manager_Error (Some 401)), es, w)"
  using assms bearer_denied [OF assms(2)]
  by (elim healthyE) (simp add: send_request_def agent_bind_def next_event_def respond_def bearer_def http_status_def)

lemma healthy_reply:
  assumes "healthy now e" "bearer pf st (aw_token w) (aw_ledger w) = Inr r"
  shows "call = Get_Session \<Longrightarrow> send_request pf st call (e # es) w = (Returns (Session (worker_session r)), es, w)"
    "call = Get_Rotation_Status \<Longrightarrow> token_rotation_status r = Inr s \<Longrightarrow>
      send_request pf st call (e # es) w = (Returns (Rotation_Status s), es, w)"
    "call = Abort_Rotation rid \<Longrightarrow> abort_token_rotation Committed r rid (aw_ledger w) = (Inr s, d') \<Longrightarrow>
      send_request pf st call (e # es) w = (Returns (Rotation_Status s), es, w\<lparr>aw_ledger := d'\<rparr>)"
    "call = Activate_Rotation rid p \<Longrightarrow>
      activate_token_rotation pf st now Committed r rid (Some p) (aw_ledger w) = (Inr (i, j, t), d') \<Longrightarrow>
      send_request pf st call (e # es) w = (Returns (Rotation_Activated i j t), es, w\<lparr>aw_ledger := d'\<rparr>)"
    "call = Activate_Rotation rid p \<Longrightarrow>
      activate_token_rotation pf st now Committed r rid (Some p) (aw_ledger w) = (Inl (HTTPException code m), d') \<Longrightarrow>
      send_request pf st call (e # es) w = (Raises (Manager_Error (Some code)), es, w\<lparr>aw_ledger := d'\<rparr>)"
  using assms
  by (elim healthyE, simp add: send_request_def agent_bind_def next_event_def respond_def bearer_def http_status_def)+

definition returns :: "'a agent \<Rightarrow> agent_event list \<Rightarrow> agent_world \<Rightarrow> bool" where
  "returns m es w \<longleftrightarrow> (\<exists>x es' w'. m es w = (Returns x, es', w'))"

lemma healthy_save:
  assumes "healthy now e" "validate_pending_rotation c = Inr ()"
  shows "save pf st c (e # es) w = (Returns (), es, w\<lparr>aw_file := Some c\<rparr>)"
  using assms
  by (elim healthyE) (simp add: save_def agent_bind_def agent_lift_def agent_return_def next_event_def)

text \<open>A credential with a pending token, as it was loaded, and what it becomes.\<close>

lemma validated:
  assumes "validate_pending_rotation c = Inr ()"
  shows "validate_pending_rotation (clear_pending c) = Inr ()"
    "cr_pending_worker_token c = Some p \<Longrightarrow> validate_pending_rotation (clear_pending (c\<lparr>cr_worker_token := p\<rparr>)) = Inr ()"
  using assms
  by (auto simp: validate_pending_rotation_def clear_pending_def split: if_splits option.splits)

lemma persist_returns:
  assumes "healthy now e" "validate_pending_rotation c = Inr ()" "cr_pending_worker_token c = Some p"
  shows "returns (persist_activated pf st c) (e # es) w"
  using assms healthy_save [OF assms(1) validated(2) [OF assms(2,3)]]
  by (simp add: returns_def persist_activated_def agent_bind_def agent_lift_def activate_pending_def agent_return_def
      set_worker_token_def)

lemma drop_returns:
  assumes "healthy now e" "validate_pending_rotation c = Inr ()"
  shows "returns (drop_pending pf st c False m) (e # es) w"
  using assms healthy_save [OF assms(1) validated(1) [OF assms(2)]]
  by (simp add: returns_def drop_pending_def agent_bind_def agent_return_def)

lemma prove_returns:
  assumes "healthy now e1" "healthy now e2" "validate_pending_rotation c = Inr ()" "cr_pending_worker_token c = Some p"
    and "bearer pf st p (aw_ledger w) = Inr r" "w_id r = cr_worker_id c" "w_name r = cr_worker_name c"
  shows "returns (prove_pending pf st c p) (e1 # e2 # es) w"
proof -
  have "get_session pf st (e1 # e2 # es) (w\<lparr>aw_token := p\<rparr>) = (Returns (worker_session r), e2 # es, w\<lparr>aw_token := p\<rparr>)"
    using healthy_reply(1) [OF assms(1), of pf st "w\<lparr>aw_token := p\<rparr>" r Get_Session "e2 # es"] assms(5)
    by (simp add: get_session_def agent_bind_def agent_return_def)
  then show ?thesis
    using persist_returns [OF assms(2-4), of pf st es "w\<lparr>aw_token := p\<rparr>"] assms(6,7)
    by (simp add: prove_pending_def returns_def agent_bind_def set_worker_token_def agent_lift_def agent_return_def
        validate_session_owner_def worker_session_def)
qed

section \<open>The Manager's side of a recovery\<close>

lemma boundary_now:
  assumes "get_worker_row (w_id r) d = Some r" "w_is_active r"
  shows "rotation_boundary r d = Inr (r, unreleased_leases (w_id r) d)"
  using assms by (simp add: rotation_boundary_def lock_worker_token_rotation_boundary_def)

lemma status_now:
  assumes "rotation_together r"
  shows "\<exists>s. token_rotation_status r = Inr s \<and> rs_worker_id s = w_id r \<and>
    rs_pending s = (w_pending_token_hash r \<noteq> None) \<and>
    (w_pending_token_hash r \<noteq> None \<longrightarrow> rs_rotation_id s = w_token_rotation_id r \<and> rs_expires_at s = w_token_rotation_expires_at r)"
  using assms
  by (cases "w_pending_token_hash r")
    (auto simp: token_rotation_status_def Let_def validate_pending_fields_def checked_def rotation_together_def)

lemma no_conflict:
  assumes "ledger_fine H wid d" "get_worker_row wid d = Some r" "w_id v = wid" "w_name v = w_name r"
    and "w_token_hash v \<in> H" "w_pending_token_hash v = None"
  shows "\<not> worker_conflict v d"
proof -
  have r: "w_id r = wid" "r \<in> set (workers d)" using get_row_SomeD [OF assms(2)] by auto
  have "inj_on w_name (set (workers d))" using assms(1) by (simp add: ledger_fine_def tokens_ok_def distinct_map)
  then have "w_name o' \<noteq> w_name r" if "o' \<in> set (workers d)" "w_id o' \<noteq> wid" for o'
    using that r inj_onD by fastforce
  then show ?thesis using assms by (auto simp: worker_conflict_def ledger_fine_def)
qed

lemma abort_now:
  assumes "ledger_fine H wid d" "get_worker_row wid d = Some r" "w_is_active r" "w_token_hash r \<in> H" "w_pending_token_hash r \<noteq> None"
    and "w_token_rotation_id r = Some rid"
  shows "\<exists>s d'. abort_token_rotation Committed r rid d = (Inr s, d')"
proof -
  have id: "w_id r = wid" "r \<in> set (workers d)" using get_row_SomeD [OF assms(2)] by auto
  have "\<not> worker_conflict (clear_token_rotation r) d"
    by (rule no_conflict [OF assms(1,2)]) (use assms(4) id in \<open>simp_all add: clear_token_rotation_def\<close>)
  moreover have "\<exists>s. token_rotation_status (clear_token_rotation r) = Inr s"
    using status_now [of "clear_token_rotation r"] by auto
  moreover have "rotation_boundary r d = Inr (r, unreleased_leases (w_id r) d)"
    using boundary_now [of r d] assms(2,3) id(1) by simp
  ultimately show ?thesis using assms(5,6) by (auto simp: abort_token_rotation_def worker_commit_def)
qed

lemma activate_now:
  assumes fine: "ledger_fine H wid d" and r: "get_worker_row wid d = Some r" "w_is_active r"
    and idle: "w_current_job_id r = None" "unreleased_leases wid d = []" and own: "hash_worker_token pf st p \<in> H"
  shows "(w_token_rotation_id r = Some rid \<and> w_pending_token_hash r = Some (hash_worker_token pf st p) \<and>
      (\<exists>t. w_token_rotation_expires_at r = Some t \<and> now < t) \<longrightarrow>
      (\<exists>i j t d' r'. activate_token_rotation pf st now Committed r rid (Some p) d = (Inr (i, j, t), d') \<and>
        bearer pf st p d' = Inr r' \<and> w_id r' = wid \<and> w_name r' = w_name r))"
    "\<not> (w_token_rotation_id r = Some rid \<and> w_pending_token_hash r = Some (hash_worker_token pf st p) \<and>
      (\<exists>t. w_token_rotation_expires_at r = Some t \<and> now < t)) \<longrightarrow>
      activate_token_rotation pf st now Committed r rid (Some p) d =
        (Inl (HTTPException 409 ''pending Worker token rotation is invalid''), d)"
proof -
  have id: "w_id r = wid" "r \<in> set (workers d)" using get_row_SomeD [OF r(1)] by auto
  have b: "rotation_boundary r d = Inr (r, [])" using boundary_now [of r d] r id(1) idle(2) by simp
  show "\<not> (w_token_rotation_id r = Some rid \<and> w_pending_token_hash r = Some (hash_worker_token pf st p) \<and>
      (\<exists>t. w_token_rotation_expires_at r = Some t \<and> now < t)) \<longrightarrow>
      activate_token_rotation pf st now Committed r rid (Some p) d =
        (Inl (HTTPException 409 ''pending Worker token rotation is invalid''), d)"
    using b idle(1) by (auto simp: activate_token_rotation_def require_rotation_idle_def)
  show "w_token_rotation_id r = Some rid \<and> w_pending_token_hash r = Some (hash_worker_token pf st p) \<and>
      (\<exists>t. w_token_rotation_expires_at r = Some t \<and> now < t) \<longrightarrow>
      (\<exists>i j t d' r'. activate_token_rotation pf st now Committed r rid (Some p) d = (Inr (i, j, t), d') \<and>
        bearer pf st p d' = Inr r' \<and> w_id r' = wid \<and> w_name r' = w_name r)"
  proof (intro impI, elim conjE exE)
    fix t
    assume m: "w_token_rotation_id r = Some rid" "w_pending_token_hash r = Some (hash_worker_token pf st p)"
      "w_token_rotation_expires_at r = Some t" "now < t"
    have clean: "\<not> worker_conflict (rotation_activated now r) d"
      by (rule no_conflict [OF fine r(1)])
        (use own id m(2) in \<open>simp_all add: rotation_activated_def clear_token_rotation_def\<close>)
    let ?h = "activate_token_rotation pf st now Committed r rid (Some p) d"
    have h: "?h = (Inr (wid, rid, now), snd ?h)"
      using b idle(1) m clean id by (simp add: activate_token_rotation_def require_rotation_idle_def worker_commit_def)
    obtain v where v: "worker_written v (rotation_activated now) d (snd ?h)" "w_id v = w_id r"
      using h by (elim activate_token_rotationD) auto
    have "v = r" using v r(1) id by (simp add: worker_written_def)
    have ok: "assignment_ok d" "tokens_ok d" using fine by (simp_all add: ledger_fine_def)
    have "ledger_fine H wid (snd ?h)" "get_worker_row wid (snd ?h) = Some (orm_worker (rotation_activated now) r)"
      using fine_written [OF fine v(1)] v(2) id \<open>v = r\<close> implements_ok [OF ok(1) activate_ok(1) [OF ok(1)]]
        activate_ok(2) [OF ok] by auto
    then have "bearer pf st p (snd ?h) = Inr (orm_worker (rotation_activated now) r)"
      unfolding bearer_def
      by (rule token_authenticates) (use r(2) m(2) in \<open>simp_all add: rotation_activated_def clear_token_rotation_def\<close>)
    moreover obtain d' where "?h = (Inr (wid, rid, now), d')" using h by blast
    ultimately show "\<exists>i j t d' r'. ?h = (Inr (i, j, t), d') \<and> bearer pf st p d' = Inr r' \<and> w_id r' = wid \<and> w_name r' = w_name r"
      using id by (auto simp: rotation_activated_def clear_token_rotation_def)
  qed
qed

section \<open>A start returns\<close>

text \<open>The calls of a recovery, on a fine ledger whose worker is idle.\<close>

lemma try_activate:
  assumes "healthy now e" "ledger_fine H wid (aw_ledger w)" "get_worker_row wid (aw_ledger w) = Some r" "w_is_active r"
    and "w_current_job_id r = None" "unreleased_leases wid (aw_ledger w) = []"
    and "hash_worker_token pf st p \<in> H" "hash_worker_token pf st (aw_token w) \<in> H"
  shows "(\<exists>d' r'. request_activate pf st rid p (e # es) w = (Returns (), es, w\<lparr>aw_ledger := d'\<rparr>) \<and>
      bearer pf st p d' = Inr r' \<and> w_id r' = wid \<and> w_name r' = w_name r) \<or>
    (\<exists>code. request_activate pf st rid p (e # es) w = (Raises (Manager_Error (Some code)), es, w)) \<and>
      \<not> (w_token_hash r = hash_worker_token pf st (aw_token w) \<and> w_token_rotation_id r = Some rid \<and>
        w_pending_token_hash r = Some (hash_worker_token pf st p) \<and>
        (\<exists>t. w_token_rotation_expires_at r = Some t \<and> now < t))"
proof (cases "bearer pf st (aw_token w) (aw_ledger w)")
  case (Inl err)
  have "w_token_hash r \<noteq> hash_worker_token pf st (aw_token w)"
    using token_authenticates [OF assms(2-4), of pf st "aw_token w"] Inl by (auto simp: bearer_def)
  then show ?thesis
    using healthy_denied [OF assms(1) Inl] by (simp add: request_activate_def agent_bind_def)
next
  case (Inr v)
  then have v: "v = r" using own_token(1) [OF assms(2,8)] assms(3) by (auto simp: bearer_def)
  note now = activate_now [OF assms(2-6) assms(7), of rid now]
  show ?thesis
  proof (cases "w_token_rotation_id r = Some rid \<and> w_pending_token_hash r = Some (hash_worker_token pf st p) \<and>
      (\<exists>t. w_token_rotation_expires_at r = Some t \<and> now < t)")
    case True
    then obtain i j t d' r' where "activate_token_rotation pf st now Committed r rid (Some p) (aw_ledger w) = (Inr (i, j, t), d')"
      "bearer pf st p d' = Inr r'" "w_id r' = wid" "w_name r' = w_name r" using now(1) by blast
    then show ?thesis
      using healthy_reply(4) [OF assms(1) Inr [unfolded v] refl, of rid p i j t d' es]
      by (auto simp: request_activate_def agent_bind_def agent_return_def)
  next
    case False
    then have "activate_token_rotation pf st now Committed r rid (Some p) (aw_ledger w) =
        (Inl (HTTPException 409 ''pending Worker token rotation is invalid''), aw_ledger w)" using now(2) by blast
    then show ?thesis
      using healthy_reply(5) [OF assms(1) Inr [unfolded v] refl, of rid p 409 _ "aw_ledger w" es] False
      by (auto simp: request_activate_def agent_bind_def)
  qed
qed

lemma ask_status:
  assumes "healthy now e" "ledger_fine H wid (aw_ledger w)" "get_worker_row wid (aw_ledger w) = Some r" "w_is_active r"
    and "w_token_hash r = hash_worker_token pf st (aw_token w)"
  shows "\<exists>s. get_token_rotation_status pf st (e # es) w = (Returns s, es, w) \<and> rs_worker_id s = wid \<and>
    rs_pending s = (w_pending_token_hash r \<noteq> None) \<and>
    (w_pending_token_hash r \<noteq> None \<longrightarrow> rs_rotation_id s = w_token_rotation_id r \<and> rs_expires_at s = w_token_rotation_expires_at r)"
proof -
  have r: "w_id r = wid" "r \<in> set (workers (aw_ledger w))" using get_row_SomeD [OF assms(3)] by auto
  then have "rotation_together r" using assms(2) by (simp add: ledger_fine_def tokens_ok_def)
  moreover have "bearer pf st (aw_token w) (aw_ledger w) = Inr r"
    using token_authenticates [OF assms(2-5)] by (simp add: bearer_def)
  ultimately show ?thesis
    using status_now [of r] healthy_reply(2) [OF assms(1) _ refl, of pf st w r _ es] r(1)
    by (auto simp: get_token_rotation_status_def agent_bind_def agent_return_def)
qed

lemma ask_abort:
  assumes "healthy now e" "ledger_fine H wid (aw_ledger w)" "get_worker_row wid (aw_ledger w) = Some r" "w_is_active r"
    and "w_token_hash r = hash_worker_token pf st (aw_token w)" "w_token_hash r \<in> H"
    and "w_pending_token_hash r \<noteq> None" "w_token_rotation_id r = Some rid"
  shows "\<exists>d'. request_abort pf st rid (e # es) w = (Returns (), es, w\<lparr>aw_ledger := d'\<rparr>)"
proof -
  have "bearer pf st (aw_token w) (aw_ledger w) = Inr r"
    using token_authenticates [OF assms(2-5)] by (simp add: bearer_def)
  then show ?thesis
    using abort_now [OF assms(2-4,6-8)] healthy_reply(3) [OF assms(1) _ refl, of pf st w r rid _ _ es]
    by (auto simp: request_abort_def agent_bind_def agent_return_def)
qed

lemma ask_session:
  assumes "healthy now e" "ledger_fine H wid (aw_ledger w)" "get_worker_row wid (aw_ledger w) = Some r" "w_is_active r"
    and "hash_worker_token pf st p \<in> H"
  shows "session_for_token pf st p (e # es) w =
    (Returns (if w_token_hash r = hash_worker_token pf st p then Some (worker_session r) else None), es, w\<lparr>aw_token := p\<rparr>)"
proof (cases "bearer pf st p (aw_ledger w)")
  case (Inl err)
  then have "w_token_hash r \<noteq> hash_worker_token pf st p"
    using token_authenticates [OF assms(2-4), of pf st p] by (auto simp: bearer_def)
  then show ?thesis
    using healthy_denied [OF assms(1), of pf st "w\<lparr>aw_token := p\<rparr>" err Get_Session es] Inl
    by (simp add: session_for_token_def get_session_def agent_bind_def agent_try_def set_worker_token_def agent_return_def)
next
  case (Inr v)
  then have "v = r" "w_token_hash v = hash_worker_token pf st p"
    using own_token [OF assms(2,5)] assms(3) by (auto simp: bearer_def)
  then show ?thesis
    using healthy_reply(1) [OF assms(1), of pf st "w\<lparr>aw_token := p\<rparr>" r Get_Session es] Inr
    by (simp add: session_for_token_def get_session_def agent_bind_def agent_try_def set_worker_token_def agent_return_def)
qed

text \<open>
  The Manager's pending rotation, if there is one, is that of the file; and the worker is idle, so that
  nothing but the rotation itself decides its outcome.
\<close>

definition recoverable :: "platform \<Rightarrow> settings \<Rightarrow> string set \<Rightarrow> ident \<Rightarrow> worker_credential \<Rightarrow> worker_row \<Rightarrow> ledger \<Rightarrow> bool" where
  "recoverable pf st H wid c r d \<longleftrightarrow> ledger_fine H wid d \<and> get_worker_row wid d = Some r \<and> w_is_active r \<and>
     w_name r = cr_worker_name c \<and> cr_worker_id c = wid \<and>
     w_current_job_id r = None \<and> unreleased_leases wid d = [] \<and>
     w_token_hash r \<in> H \<and> hash_worker_token pf st (cr_worker_token c) \<in> H \<and>
     (\<forall>p. cr_pending_worker_token c = Some p \<longrightarrow> hash_worker_token pf st p \<in> H \<and>
       (w_token_hash r = hash_worker_token pf st (cr_worker_token c) \<or> w_token_hash r = hash_worker_token pf st p) \<and>
       (w_pending_token_hash r \<noteq> None \<longrightarrow> w_token_rotation_id r = cr_pending_rotation_id c \<and>
         w_pending_token_hash r = Some (hash_worker_token pf st p)))"

lemma resolve_returns:
  assumes healthy: "\<forall>e \<in> set [e1, e2, e3, e4, e5]. healthy now e"
    and ok: "validate_pending_rotation c = Inr ()" "cr_pending_worker_token c = Some p" "cr_pending_rotation_id c = Some rid"
    and rec: "recoverable pf st H wid c r (aw_ledger w)"
    and dead: "\<not> (w_token_hash r = hash_worker_token pf st (cr_worker_token c) \<and> w_token_rotation_id r = Some rid \<and>
        w_pending_token_hash r = Some (hash_worker_token pf st p) \<and>
        (\<exists>t. w_token_rotation_expires_at r = Some t \<and> now < t))"
  shows "returns (resolve_activation pf st c rid p False) (e1 # e2 # e3 # e4 # e5 # es) w"
proof -
  note R = rec [unfolded recoverable_def]
  have e: "healthy now e1" "healthy now e2" "healthy now e3" "healthy now e4" "healthy now e5" using healthy by auto
  have row: "ledger_fine H wid (aw_ledger w)" "get_worker_row wid (aw_ledger w) = Some r" "w_is_active r" using R by auto
  have id: "w_id r = wid" using get_row_SomeD [OF row(2)] by simp
  have own: "hash_worker_token pf st p \<in> H" using R ok(2) by auto
  note session = ask_session [OF e(1) row own]
  show ?thesis
  proof (cases "w_token_hash r = hash_worker_token pf st p")
    case True
    then have "validate_session_owner (worker_session r) c = Inr ()"
      using R id by (simp add: validate_session_owner_def worker_session_def)
    then show ?thesis
      using session True persist_returns [OF e(2) ok(1,2), of pf st "e3 # e4 # e5 # es" "w\<lparr>aw_token := p\<rparr>"]
      by (simp add: resolve_activation_def returns_def agent_bind_def agent_lift_def agent_return_def)
  next
    case False
    then have old: "w_token_hash r = hash_worker_token pf st (cr_worker_token c)" using R ok(2) by auto
    let ?w = "w\<lparr>aw_token := cr_worker_token c\<rparr>"
    obtain s where s: "get_token_rotation_status pf st (e2 # e3 # e4 # e5 # es) ?w = (Returns s, e3 # e4 # e5 # es, ?w)"
      "rs_worker_id s = wid" "rs_pending s = (w_pending_token_hash r \<noteq> None)"
      "w_pending_token_hash r \<noteq> None \<longrightarrow> rs_rotation_id s = w_token_rotation_id r \<and> rs_expires_at s = w_token_rotation_expires_at r"
      using ask_status [OF e(2), of H wid ?w r pf st "e3 # e4 # e5 # es"] row old by auto
    have owner: "validate_status_owner s c = Inr ()" using s(2) R by (simp add: validate_status_owner_def)
    show ?thesis
    proof (cases "w_pending_token_hash r")
      case None
      then show ?thesis
        using session False s owner drop_returns [OF e(3) ok(1), of pf st _ "e4 # e5 # es" ?w]
        by (simp add: resolve_activation_def returns_def agent_bind_def agent_lift_def agent_return_def set_worker_token_def)
    next
      case (Some x)
      have rid: "w_token_rotation_id r = Some rid" "x = hash_worker_token pf st p" using R ok(2,3) Some by auto
      then have expired: "\<not> (\<exists>t \<in> set_option (rs_expires_at s). now < t)" using dead old Some s(4) by auto
      have clock: "next_event pf st (e3 # e4 # e5 # es) ?w = (Returns e3, e4 # e5 # es, ?w)" "ev_clock e3 = now"
        using e(3) by (auto simp: next_event_def elim!: healthyE)
      obtain d' where abort: "request_abort pf st rid (e4 # e5 # es) ?w = (Returns (), e5 # es, ?w\<lparr>aw_ledger := d'\<rparr>)"
        using ask_abort [OF e(4), of H wid ?w r pf st rid "e5 # es"] row old R rid(1) Some by auto
      from drop_returns [OF e(5) ok(1), of pf st "''Worker token rotation expired before activation''" es "?w\<lparr>aw_ledger := d'\<rparr>"]
      show ?thesis
        using session False s Some rid owner expired clock abort
        by (simp add: resolve_activation_def returns_def agent_bind_def agent_lift_def agent_return_def set_worker_token_def)
    qed
  qed
qed

lemma reconcile_returns:
  assumes healthy: "\<forall>e \<in> set [e0, e1, e2, e3, e4, e5]. healthy now e"
    and ok: "validate_pending_rotation c = Inr ()"
    and rec: "recoverable pf st H wid c r (aw_ledger w)"
    and single: "cr_pending_worker_token c = None \<longrightarrow> w_token_hash r = hash_worker_token pf st (cr_worker_token c)"
  shows "returns (reconcile_worker_token_rotation pf st c) (e0 # e1 # e2 # e3 # e4 # e5 # es) w"
proof -
  note R = rec [unfolded recoverable_def]
  let ?w = "w\<lparr>aw_token := cr_worker_token c\<rparr>" and ?es = "e1 # e2 # e3 # e4 # e5 # es"
  have row: "ledger_fine H wid (aw_ledger ?w)" "get_worker_row wid (aw_ledger ?w) = Some r" "w_is_active r"
    "w_current_job_id r = None" "unreleased_leases wid (aw_ledger ?w) = []" using R by auto
  have e: "healthy now e0" "healthy now e1" "healthy now e2" using healthy by auto
  show ?thesis
  proof (cases "cr_pending_rotation_id c")
    case None
    then have none: "cr_pending_worker_token c = None"
      using ok by (auto simp: validate_pending_rotation_def split: if_splits option.splits)
    then have hash: "w_token_hash r = hash_worker_token pf st (aw_token ?w)" using single by simp
    obtain s where s: "get_token_rotation_status pf st (e0 # ?es) ?w = (Returns s, ?es, ?w)" "rs_worker_id s = wid"
      "rs_pending s = (w_pending_token_hash r \<noteq> None)"
      "w_pending_token_hash r \<noteq> None \<longrightarrow> rs_rotation_id s = w_token_rotation_id r"
      using ask_status [OF e(1) row(1-3) hash, of ?es] by auto
    have owner: "validate_status_owner s c = Inr ()" using s(2) R by (simp add: validate_status_owner_def)
    show ?thesis
    proof (cases "w_pending_token_hash r")
      case None
      then show ?thesis using s owner \<open>cr_pending_rotation_id c = None\<close>
        by (simp add: reconcile_worker_token_rotation_def returns_def agent_bind_def agent_lift_def agent_return_def set_worker_token_def)
    next
      case (Some x)
      have "r \<in> set (workers (aw_ledger w))" using get_row_SomeD [OF row(2)] by simp
      then obtain rid where rid: "w_token_rotation_id r = Some rid"
        using row(1) Some by (auto simp: ledger_fine_def tokens_ok_def rotation_together_def)
      obtain d' where "request_abort pf st rid ?es ?w = (Returns (), e2 # e3 # e4 # e5 # es, ?w\<lparr>aw_ledger := d'\<rparr>)"
        using ask_abort [OF e(2) row(1-3) hash, of rid "e2 # e3 # e4 # e5 # es"] R rid Some by auto
      then show ?thesis using s owner Some rid \<open>cr_pending_rotation_id c = None\<close>
        by (simp add: reconcile_worker_token_rotation_def returns_def agent_bind_def agent_lift_def agent_return_def set_worker_token_def)
    qed
  next
    case (Some rid)
    then obtain p x where p: "cr_pending_worker_token c = Some p" "cr_pending_rotation_expires_at c = Some x"
      using ok by (auto simp: validate_pending_rotation_def split: if_splits option.splits)
    have own: "hash_worker_token pf st p \<in> H" "hash_worker_token pf st (aw_token ?w) \<in> H" using R p by auto
    from try_activate [OF e(1) row own, of rid ?es] show ?thesis
    proof (elim disjE exE conjE)
      fix d' r'
      assume a: "request_activate pf st rid p (e0 # ?es) ?w = (Returns (), ?es, ?w\<lparr>aw_ledger := d'\<rparr>)"
        and r': "bearer pf st p d' = Inr r'" "w_id r' = wid" "w_name r' = w_name r"
      have "returns (prove_pending pf st c p) ?es (?w\<lparr>aw_ledger := d'\<rparr>)"
        using prove_returns [OF e(2,3) ok p(1), of pf st "?w\<lparr>aw_ledger := d'\<rparr>" r' "e3 # e4 # e5 # es"] r' R by simp
      then show ?thesis using a p Some
        by (simp add: reconcile_worker_token_rotation_def complete_pending_rotation_def returns_def agent_bind_def
            agent_try_def set_worker_token_def)
    next
      fix code
      assume a: "request_activate pf st rid p (e0 # ?es) ?w = (Raises (Manager_Error (Some code)), ?es, ?w)"
        and dead: "\<not> (w_token_hash r = hash_worker_token pf st (aw_token ?w) \<and> w_token_rotation_id r = Some rid \<and>
          w_pending_token_hash r = Some (hash_worker_token pf st p) \<and>
          (\<exists>t. w_token_rotation_expires_at r = Some t \<and> now < t))"
      have "returns (resolve_activation pf st c rid p False) ?es ?w"
        by (rule resolve_returns [where H = H and wid = wid and r = r and now = now])
          (use healthy ok p Some rec dead in simp_all)
      then show ?thesis using a p Some
        by (simp add: reconcile_worker_token_rotation_def complete_pending_rotation_def returns_def agent_bind_def
            agent_try_def set_worker_token_def)
    qed
  qed
qed


text \<open>A start after the activation was acknowledged to nobody: the pending token becomes the only one.\<close>

definition ex_staged :: worker_credential where
  "ex_staged = stage_rotation ''12345678-1234-4234-8234-123456789abc'' (ex_key (CHR ''d'')) 600000005 ex_credential"

definition ex_activated :: agent_world where
  "ex_activated = ex_world\<lparr>aw_ledger := ex_ledger\<lparr>workers := [ex_worker\<lparr>w_token_hash := ''p:'' @ ex_key (CHR ''d'')\<rparr>]\<rparr>,
     aw_file := Some ex_staged\<rparr>"

definition ex_answers :: "agent_event list" where
  "ex_answers = map (\<lambda>c. (ex_rot_event (Responded (ex_turn c)))\<lparr>ev_clock := 5\<rparr>)
     [CHR ''f'', CHR ''g'', CHR ''h'', CHR ''i'', CHR ''j'', CHR ''k'']"


end
