(* ===== verification/Upload_State.thy ===== *)
theory Upload_State
  imports Artifact_Binding Lease_Recovery Mlflow_Outbox Base64 "HOL-Library.AList"
begin

text \<open>
  The state the upload of artifacts works on: the full row of \<^verbatim>\<open>artifact_upload_sessions\<close>
  (\<^verbatim>\<open>models.py\<close>), the object store behind a storage adapter (\<^verbatim>\<open>storage.py\<close>), and the keys, tokens and
  fingerprints of \<^verbatim>\<open>services/artifacts.py\<close>.

  Requests run concurrently and suspend between their transactions, while the storage works and while
  a heartbeat ticks in another connection. A handler is therefore a program that is cut into atomic
  actions; what the outside does in each of them (the clock, a fresh UUID, how a storage call ends, how
  often the heartbeat ticks) is in the turn given to that action. A handler that is not given another turn
  has crashed, was cancelled, or waits.
\<close>

section \<open>Settings and rows\<close>

record upload_settings =
  manager_settings :: settings
  artifact_upload_ttl_seconds :: int
  artifact_max_bytes :: int
  sample_max_bytes :: int
  artifact_staging_cleanup_grace_seconds :: int
  artifact_cleanup_confirmation_grace_seconds :: int
  artifact_cleanup_claim_stale_seconds :: int
  artifact_cleanup_reconcile_stale_seconds :: int
  artifact_cleanup_reconcile_batch_size :: nat
  artifact_finalizing_stale_seconds :: int
  artifact_retry_after_seconds :: int
  artifact_attempt_max_sessions :: nat
  artifact_attempt_max_bytes :: int

record upload_session = artifact_upload_session +
  au_metadata_json :: "(string \<times> json) list"
  au_idempotency_key :: string
  au_generation :: int
  au_request_fingerprint :: string
  au_dedupe_key :: "string option"
  au_temporary_object_key :: string
  au_upload_write_token :: "string option"
  au_upload_heartbeat_at :: "datetime option"
  au_finalization_token :: "string option"
  au_cleanup_token :: "string option"
  au_cleanup_heartbeat_at :: "datetime option"
  au_upload_token_hash :: "string option"
  au_expires_at :: datetime
  au_uploaded_at :: "datetime option"
  au_finalized_at :: "datetime option"
  au_staging_cleanup_completed_at :: "datetime option"
  au_staging_cleanup_first_deleted_at :: "datetime option"
  au_canonical_cleanup_completed_at :: "datetime option"
  au_canonical_cleanup_first_deleted_at :: "datetime option"
  au_failure_code :: "string option"
  au_updated_at :: datetime

definition terminal_upload_statuses :: "string list" where
  "terminal_upload_statuses = [''completed'', ''failed'', ''expired'']"

definition lost_statuses :: "string list" where
  "lost_statuses = [''failed'', ''expired'']"

text \<open>
  The world of the handlers. The other tables are the ledger; its own copy of the upload table has only the
  columns the rest of the development reads, and \<open>ledger_view\<close> fills it in.
\<close>

record upload_world =
  uw_ledger :: ledger
  uw_uploads :: "upload_session list"
  uw_objects :: "string \<Rightarrow> string option"

definition ledger_view :: "upload_world \<Rightarrow> ledger" where
  "ledger_view w = (uw_ledger w)\<lparr>artifact_upload_sessions :=
     map artifact_upload_session.truncate (uw_uploads w)\<rparr>"

section \<open>Programs of atomic actions\<close>

text \<open>
  How a call outside the database ends: it does what it says; it raises a \<^verbatim>\<open>StorageError\<close>, before or after
  it took effect; the local spool fails with a code; the deadline passes or the request is cancelled.
\<close>

datatype io =
    Io_Ok
  | Io_Storage_Error bool
  | Io_Spool_Error string
  | Io_Deadline bool
  | Io_Cancelled bool

record turn =
  t_now :: datetime
  t_uuid :: ident
  t_io :: io
  t_beats_before :: nat
  t_beats_after :: nat
  t_url :: "string option"
  t_event_id :: ident

datatype 'a prog = Ret 'a | Act "turn \<Rightarrow> upload_world \<Rightarrow> 'a prog \<times> upload_world"

primrec andthen :: "'a prog \<Rightarrow> ('a \<Rightarrow> 'b prog) \<Rightarrow> 'b prog" where
  "andthen (Ret x) k = k x"
| "andthen (Act f) k = Act (\<lambda>t w. map_prod (\<lambda>p. andthen p k) id (f t w))"

definition atomically :: "(turn \<Rightarrow> upload_world \<Rightarrow> 'a \<times> upload_world) \<Rightarrow> 'a prog" where
  "atomically f = Act (\<lambda>t w. map_prod Ret id (f t w))"

definition reading :: "(turn \<Rightarrow> upload_world \<Rightarrow> 'a) \<Rightarrow> 'a prog" where
  "reading f = atomically (\<lambda>t w. (f t w, w))"

text \<open>\<^verbatim>\<open>raise\<close> and the sequencing of steps that may raise.\<close>

definition orelse :: "('e + 'a) prog \<Rightarrow> ('a \<Rightarrow> ('e + 'b) prog) \<Rightarrow> ('e + 'b) prog" where
  "orelse p k = andthen p (\<lambda>r. case r of Inl e \<Rightarrow> Ret (Inl e) | Inr x \<Rightarrow> k x)"

text \<open>
  \<^verbatim>\<open>update(ArtifactUploadSession).where(id = i, ...).values(...)\<close>: whether a row matched, and the table
  afterwards. The key is primary, so at most one row does.
\<close>

definition update_upload ::
  "ident \<Rightarrow> (upload_session \<Rightarrow> bool) \<Rightarrow> (upload_session \<Rightarrow> upload_session) \<Rightarrow> upload_world \<Rightarrow> bool \<times> upload_world" where
  "update_upload i matches values w =
     (\<exists>u \<in> set (uw_uploads w). au_id u = i \<and> matches u,
      w\<lparr>uw_uploads := map (\<lambda>u. if au_id u = i \<and> matches u then values u else u) (uw_uploads w)\<rparr>)"

definition get_upload :: "ident \<Rightarrow> upload_world \<Rightarrow> upload_session option" where
  "get_upload i w = get_row au_id i (uw_uploads w)"

section \<open>Keys, tokens and fingerprints\<close>

definition staging_object_key :: "ident \<Rightarrow> ident \<Rightarrow> string" where
  "staging_object_key attempt_id upload_session_id =
     ''artifacts/staging/'' @ attempt_id @ ''/'' @ upload_session_id"

definition effective_artifact_upload_ttl_seconds :: "int \<Rightarrow> upload_settings \<Rightarrow> int" where
  "effective_artifact_upload_ttl_seconds size_bytes us =
     (let transfer_seconds = (size_bytes + 2 * 1024 ^ 2 - 1) div (2 * 1024 ^ 2)
      in min (artifact_upload_ttl_seconds us) (300 + transfer_seconds))"

definition upload_dedupe_key :: "platform \<Rightarrow> ident \<Rightarrow> artifact_type \<Rightarrow> string \<Rightarrow> string" where
  "upload_dedupe_key pf attempt_id ty digest =
     sha256 pf (attempt_id @ [CHR 0x1F] @ artifact_type_value ty @ [CHR 0x1F] @ digest)"

text \<open>The bytes of a digest written in hexadecimal, two digits each (\<^verbatim>\<open>digest()\<close> from \<^verbatim>\<open>hexdigest()\<close>).\<close>

definition hex_value :: "char \<Rightarrow> nat" where
  "hex_value c = (if of_char c < (58 :: nat) then of_char c - 48 else of_char c - 87)"

fun bytes_of_hex :: "string \<Rightarrow> string" where
  "bytes_of_hex (a # b # s) = char_of (16 * hex_value a + hex_value b) # bytes_of_hex s"
| "bytes_of_hex _ = []"

definition derive_local_upload_token :: "platform \<Rightarrow> ident \<Rightarrow> int \<Rightarrow> upload_settings \<Rightarrow> string" where
  "derive_local_upload_token pf upload_session_id expires_at_timestamp us =
     ''rvcu_'' @ rstrip_pad (b64encode (bytes_of_hex
       (hmac_sha256 pf (worker_token_pepper (manager_settings us))
         (''artifact-upload'' @ [CHR 0x1F] @ upload_session_id @ [CHR 0x1F] @
          int_str expires_at_timestamp))))"

definition upload_token_hash :: "platform \<Rightarrow> string \<Rightarrow> string" where
  "upload_token_hash pf token = sha256 pf token"

definition verify_upload_token :: "platform \<Rightarrow> string \<Rightarrow> string option \<Rightarrow> bool" where
  "verify_upload_token pf token expected_hash =
     (case expected_hash of None \<Rightarrow> False | Some h \<Rightarrow> upload_token_hash pf token = h)"

text \<open>\<^verbatim>\<open>timestamp()\<close> truncated to an integer.\<close>

definition timestamp :: "datetime \<Rightarrow> int" where
  "timestamp d = d div 1000000"

text \<open>
  \<^verbatim>\<open>validate_object_key\<close>: the parts of a \<^verbatim>\<open>PurePosixPath\<close> never are empty or a single dot, so what is left of
  its test is an absolute path and a parent reference.
\<close>

definition validate_object_key :: "string \<Rightarrow> bool" where
  "validate_object_key key \<longleftrightarrow> key \<noteq> [] \<and> backslash \<notin> set key \<and> hd key \<noteq> CHR ''/'' \<and>
     ''..'' \<notin> set (split_on (CHR ''/'') key)"

section \<open>The object store\<close>

datatype storage_exn =
    Not_Found
  | Too_Large
  | Size_Mismatch
  | Storage_Failed
  | Mismatched string
  | Spool_Failed string
  | Deadline_Passed
  | Request_Cancelled

definition put_object :: "string \<Rightarrow> string \<Rightarrow> upload_world \<Rightarrow> upload_world" where
  "put_object key content w = w\<lparr>uw_objects := (uw_objects w)(key \<mapsto> content)\<rparr>"

definition drop_object :: "string \<Rightarrow> upload_world \<Rightarrow> upload_world" where
  "drop_object key w = w\<lparr>uw_objects := (uw_objects w)(key := None)\<rparr>"

text \<open>
  \<^verbatim>\<open>LocalStorageAdapter.write_upload_stream\<close>: the body goes to a private part file, which replaces the
  target in one step once its size is known to be right.
\<close>

definition write_upload_stream ::
  "string \<Rightarrow> string \<Rightarrow> int \<Rightarrow> turn \<Rightarrow> upload_world \<Rightarrow> (storage_exn + unit) \<times> upload_world" where
  "write_upload_stream key body expected_size t w =
     (if \<not> validate_object_key key then (Inl Storage_Failed, w)
      else if int (length body) > expected_size then
        (case t_io t of Io_Ok \<Rightarrow> (Inl Too_Large, w) | Io_Deadline _ \<Rightarrow> (Inl Deadline_Passed, w)
          | Io_Cancelled _ \<Rightarrow> (Inl Request_Cancelled, w) | _ \<Rightarrow> (Inl Storage_Failed, w))
      else if int (length body) \<noteq> expected_size then
        (case t_io t of Io_Ok \<Rightarrow> (Inl Size_Mismatch, w) | Io_Deadline _ \<Rightarrow> (Inl Deadline_Passed, w)
          | Io_Cancelled _ \<Rightarrow> (Inl Request_Cancelled, w) | _ \<Rightarrow> (Inl Storage_Failed, w))
      else
        (case t_io t of
           Io_Ok \<Rightarrow> (Inr (), put_object key body w)
         | Io_Deadline replaced \<Rightarrow> (Inl Deadline_Passed, if replaced then put_object key body w else w)
         | Io_Cancelled replaced \<Rightarrow> (Inl Request_Cancelled, if replaced then put_object key body w else w)
         | _ \<Rightarrow> (Inl Storage_Failed, w)))"

text \<open>
  \<^verbatim>\<open>store_verified_file\<close>: write-once, by \<^verbatim>\<open>link(2)\<close> locally and by \<^verbatim>\<open>If-None-Match: *\<close> on S3; there a request
  may take effect although its answer is lost.
\<close>

definition store_verified_file ::
  "'s claim_storage_scheme \<Rightarrow> string \<Rightarrow> string \<Rightarrow> turn \<Rightarrow> upload_world \<Rightarrow> (storage_exn + unit) \<times> upload_world" where
  "store_verified_file storage key content t w =
     (if \<not> validate_object_key key \<or> uw_objects w key \<noteq> None then (Inl Storage_Failed, w)
      else case t_io t of
        Io_Ok \<Rightarrow> (Inr (), put_object key content w)
      | Io_Storage_Error applied \<Rightarrow>
          (Inl Storage_Failed, if applied \<and> backend storage = S3 then put_object key content w else w)
      | _ \<Rightarrow> (Inl Storage_Failed, w))"

definition delete_object :: "string \<Rightarrow> turn \<Rightarrow> upload_world \<Rightarrow> (storage_exn + unit) \<times> upload_world" where
  "delete_object key t w =
     (if \<not> validate_object_key key then (Inl Storage_Failed, w)
      else case t_io t of
        Io_Ok \<Rightarrow> (Inr (), drop_object key w)
      | Io_Storage_Error applied \<Rightarrow> (Inl Storage_Failed, if applied then drop_object key w else w)
      | _ \<Rightarrow> (Inl Storage_Failed, w))"

text \<open>
  \<^verbatim>\<open>verify_object_to_spool\<close>: the object is copied to a private file while its size and digest are taken; the
  bound of the stream is one byte more than expected. The copy is what the caller goes on with.
\<close>

definition spool_staged_object ::
  "platform \<Rightarrow> string \<Rightarrow> int \<Rightarrow> string \<Rightarrow> turn \<Rightarrow> upload_world \<Rightarrow> (storage_exn + string) \<times> upload_world" where
  "spool_staged_object pf key expected_size expected_sha256 t w =
     (case t_io t of
        Io_Ok \<Rightarrow>
          if \<not> validate_object_key key then (Inl Storage_Failed, w)
          else (case uw_objects w key of
            None \<Rightarrow> (Inl Not_Found, w)
          | Some content \<Rightarrow>
              if int (length content) > expected_size + 1 then (Inl Too_Large, w)
              else if int (length content) \<noteq> expected_size
              then (Inl (Mismatched ''size_mismatch''), w)
              else if sha256 pf content \<noteq> expected_sha256
              then (Inl (Mismatched ''sha256_mismatch''), w)
              else (Inr content, w))
      | Io_Spool_Error code \<Rightarrow> (Inl (Spool_Failed code), w)
      | _ \<Rightarrow> (Inl Storage_Failed, w))"

definition remove_spool_file :: "turn \<Rightarrow> upload_world \<Rightarrow> (storage_exn + unit) \<times> upload_world" where
  "remove_spool_file t w =
     (if t_io t = Io_Ok then Inr () else Inl (Spool_Failed ''verification_spool_cleanup_failed''), w)"

section \<open>Work under a heartbeat\<close>

datatype 'a kept = Kept "storage_exn + 'a" | Lost "'a option"

definition result_of :: "('e + 'a) \<Rightarrow> 'a option" where
  "result_of r = (case r of Inl _ \<Rightarrow> None | Inr x \<Rightarrow> Some x)"

primrec beats :: "bool prog \<Rightarrow> nat \<Rightarrow> bool prog" where
  "beats touch 0 = Ret True"
| "beats touch (Suc n) = andthen touch (\<lambda>alive. if alive then beats touch n else Ret False)"

text \<open>
  The loop the three \<^verbatim>\<open>_run_with_..._heartbeat\<close> functions share: a first touch, touches while the operation
  runs, before and after it takes effect, and a last one when it is done. A touch that finds the token gone
  lets the operation finish and then reports the loss. A deadline or a cancellation leaves the loop at
  once.
\<close>

definition after_operation :: "bool prog \<Rightarrow> nat \<Rightarrow> bool \<Rightarrow> storage_exn + 'a \<Rightarrow> 'a kept prog" where
  "after_operation touch after alive r =
     (if r = Inl Deadline_Passed \<or> r = Inl Request_Cancelled then Ret (Kept r)
      else if \<not> alive then Ret (Lost (result_of r))
      else andthen (beats touch after) (\<lambda>alive. if \<not> alive then Ret (Lost (result_of r)) else
        andthen touch (\<lambda>alive. Ret (if alive then Kept r else Lost (result_of r)))))"

definition run_with_heartbeat ::
  "bool prog \<Rightarrow> (turn \<Rightarrow> upload_world \<Rightarrow> (storage_exn + 'a) \<times> upload_world) \<Rightarrow> 'a kept prog" where
  "run_with_heartbeat touch operation =
     andthen touch (\<lambda>alive. if \<not> alive then Ret (Lost None) else
     andthen (reading (\<lambda>t w. (t_beats_before t, t_beats_after t))) (\<lambda>(before, after).
     andthen (beats touch before) (\<lambda>alive.
     andthen (atomically operation) (after_operation touch after alive))))"

end
