(* ===== verification/Upload_Cleanup.thy ===== *)
theory Upload_Cleanup
  imports Upload_State
begin

text \<open>
  The reconciler that removes the objects of finished uploads (\<^verbatim>\<open>services/artifact_cleanup.py\<close>): it picks due
  rows, claims each with a token, deletes under a heartbeat, and records a first and a confirming deletion. The
  candidate is the row as it was right after the claim; the fields it copies are those of the row.
\<close>

record cleanup_result =
  examined :: nat
  claimed :: nat
  object_deletes :: nat
  first_deletes :: nat
  confirmed_deletes :: nat
  ledger_updates :: nat
  conflicts :: nat
  cleanup_failures :: nat

datatype cleanup_kind = Canonical_Object | Staging_Object

datatype cleanup_action = Single_Pass | First_Delete | Confirm_Delete

section \<open>Candidates\<close>

definition candidate_identity :: "upload_session \<Rightarrow> upload_session \<Rightarrow> bool" where
  "candidate_identity candidate u \<longleftrightarrow>
     au_job_id u = au_job_id candidate \<and> au_attempt_id u = au_attempt_id candidate \<and>
     au_artifact_type u = au_artifact_type candidate \<and>
     au_temporary_object_key u = au_temporary_object_key candidate \<and>
     au_canonical_object_key u = au_canonical_object_key candidate"

definition validated_candidate_object_keys :: "upload_session \<Rightarrow> (string \<times> string) option" where
  "validated_candidate_object_keys candidate =
     (let expected_staging = staging_object_key (au_attempt_id candidate) (au_id candidate);
          expected_canonical = canonical_object_key (au_job_id candidate) (au_attempt_id candidate)
            (au_artifact_type candidate) (au_id candidate)
      in if \<not> validate_object_key expected_staging \<or> \<not> validate_object_key expected_canonical then None
         else if au_temporary_object_key candidate \<noteq> expected_staging \<or>
                 au_canonical_object_key candidate \<noteq> expected_canonical then None
         else Some (expected_staging, expected_canonical))"

definition reached :: "datetime option \<Rightarrow> datetime \<Rightarrow> bool" where
  "reached d limit \<longleftrightarrow> (case d of None \<Rightarrow> False | Some x \<Rightarrow> x \<le> limit)"

definition or_else :: "'a option \<Rightarrow> 'a \<Rightarrow> 'a" where
  "or_else d x = (case d of None \<Rightarrow> x | Some y \<Rightarrow> y)"

definition cleanup_due :: "'s claim_storage_scheme \<Rightarrow> upload_settings \<Rightarrow> datetime \<Rightarrow> upload_session \<Rightarrow> bool" where
  "cleanup_due storage us now u =
     (let confirmation_before = now - seconds (artifact_cleanup_confirmation_grace_seconds us);
          staging_first_due = (au_staging_cleanup_first_deleted_at u = None \<and>
            (backend storage = Local \<or>
             au_expires_at u \<le> now - seconds (artifact_staging_cleanup_grace_seconds us)));
          staging_due = (au_status u \<in> set terminal_upload_statuses \<and>
            au_staging_cleanup_completed_at u = None \<and>
            (staging_first_due \<or> reached (au_staging_cleanup_first_deleted_at u) confirmation_before));
          canonical_anchor = or_else (au_finalized_at u) (au_updated_at u);
          canonical_due = (au_status u \<in> set lost_statuses \<and>
            au_canonical_cleanup_completed_at u = None \<and>
            (au_canonical_cleanup_first_deleted_at u = None \<and>
               canonical_anchor \<le> now - seconds (artifact_finalizing_stale_seconds us) \<or>
             reached (au_canonical_cleanup_first_deleted_at u) confirmation_before))
      in staging_due \<or> canonical_due)"

definition cleanup_claimable :: "upload_settings \<Rightarrow> datetime \<Rightarrow> upload_session \<Rightarrow> bool" where
  "cleanup_claimable us now u \<longleftrightarrow>
     au_cleanup_token u = None \<or> au_cleanup_heartbeat_at u = None \<or>
     reached (au_cleanup_heartbeat_at u) (now - seconds (artifact_cleanup_claim_stale_seconds us))"

definition upload_storage_matches :: "'s claim_storage_scheme \<Rightarrow> 'u artifact_upload_session_scheme \<Rightarrow> bool" where
  "upload_storage_matches storage u =
     storage_namespace_matches (au_storage_backend u) (au_storage_namespace_sha256 u) storage"

definition candidate_ids ::
  "'s claim_storage_scheme \<Rightarrow> upload_settings \<Rightarrow> datetime \<Rightarrow> ident list option \<Rightarrow> upload_world \<Rightarrow> ident list" where
  "candidate_ids storage us now upload_ids w =
     map au_id (take (artifact_cleanup_reconcile_batch_size us) (sort_key au_updated_at
       (filter (\<lambda>u. upload_storage_matches storage u \<and> cleanup_claimable us now u \<and>
            cleanup_due storage us now u \<and> (\<forall>ids \<in> set_option upload_ids. au_id u \<in> set ids))
          (uw_uploads w))))"

section \<open>The claim\<close>

definition claim_cleanup :: "ident \<Rightarrow> datetime \<Rightarrow> upload_session \<Rightarrow> upload_session" where
  "claim_cleanup token now u = u\<lparr>au_cleanup_token := Some token, au_cleanup_heartbeat_at := Some now,
     au_finalized_at := Some (or_else (au_finalized_at u) (au_updated_at u)), au_updated_at := now\<rparr>"

definition claim_candidate ::
  "'s claim_storage_scheme \<Rightarrow> upload_settings \<Rightarrow> ident \<Rightarrow> (ident \<times> upload_session) option prog" where
  "claim_candidate storage us upload_id =
     andthen (atomically (\<lambda>t w.
       let (ok, w') = update_upload upload_id (\<lambda>u. upload_storage_matches storage u \<and>
             au_status u \<in> set terminal_upload_statuses \<and> cleanup_claimable us (t_now t) u \<and>
             (au_staging_cleanup_completed_at u = None \<or>
              au_status u \<in> set lost_statuses \<and> au_canonical_cleanup_completed_at u = None))
           (claim_cleanup (t_uuid t) (t_now t)) w
       in (if ok then Some (t_uuid t) else None, w')))
     (\<lambda>token. case token of None \<Rightarrow> Ret None
        | Some token \<Rightarrow> reading (\<lambda>t w.
            case get_upload upload_id w of
              Some u \<Rightarrow> if au_cleanup_token u = Some token then Some (token, u) else None
            | None \<Rightarrow> None))"

definition touch_cleanup_claim :: "ident \<Rightarrow> ident \<Rightarrow> bool prog" where
  "touch_cleanup_claim upload_id token = atomically (\<lambda>t.
     update_upload upload_id
       (\<lambda>u. au_status u \<in> set terminal_upload_statuses \<and> au_cleanup_token u = Some token)
       (\<lambda>u. u\<lparr>au_cleanup_heartbeat_at := Some (t_now t), au_updated_at := t_now t\<rparr>))"

definition run_with_cleanup_heartbeat ::
  "ident \<Rightarrow> ident \<Rightarrow> (turn \<Rightarrow> upload_world \<Rightarrow> (storage_exn + 'a) \<times> upload_world) \<Rightarrow> 'a kept prog" where
  "run_with_cleanup_heartbeat upload_id token = run_with_heartbeat (touch_cleanup_claim upload_id token)"

section \<open>What is recorded\<close>

text \<open>The conditions every record of the reconciler is written under.\<close>

definition still_claimed :: "upload_session \<Rightarrow> ident \<Rightarrow> upload_session \<Rightarrow> bool" where
  "still_claimed candidate token u \<longleftrightarrow>
     au_cleanup_token u = Some token \<and>
     au_storage_backend u = au_storage_backend candidate \<and>
     au_storage_namespace_sha256 u = au_storage_namespace_sha256 candidate \<and>
     candidate_identity candidate u"

definition stamped :: "datetime \<Rightarrow> upload_session \<Rightarrow> upload_session" where
  "stamped now u = u\<lparr>au_cleanup_heartbeat_at := Some now, au_updated_at := now\<rparr>"

definition record_cleanup_failure :: "upload_session \<Rightarrow> ident \<Rightarrow> cleanup_kind \<Rightarrow> bool prog" where
  "record_cleanup_failure candidate token kind = atomically (\<lambda>t.
     update_upload (au_id candidate) (\<lambda>u. still_claimed candidate token u \<and>
         (case kind of
            Canonical_Object \<Rightarrow> au_status u \<in> set lost_statuses \<and> au_canonical_cleanup_completed_at u = None
          | Staging_Object \<Rightarrow> au_status u = au_status candidate \<and> au_staging_cleanup_completed_at u = None))
       (\<lambda>u. stamped (t_now t) (u\<lparr>au_failure_code := Some (case kind of
            Canonical_Object \<Rightarrow> ''canonical_cleanup_failed''
          | Staging_Object \<Rightarrow>
              if au_canonical_cleanup_completed_at u = None \<and>
                 au_failure_code u = Some ''canonical_cleanup_failed''
              then ''canonical_cleanup_failed'' else ''cleanup_failed'')\<rparr>)))"

definition record_cleanup_key_mismatch :: "upload_session \<Rightarrow> ident \<Rightarrow> bool prog" where
  "record_cleanup_key_mismatch candidate token = atomically (\<lambda>t.
     update_upload (au_id candidate) (still_claimed candidate token)
       (\<lambda>u. stamped (t_now t) (u\<lparr>au_failure_code := Some ''cleanup_key_mismatch''\<rparr>)))"

definition record_first_delete :: "upload_session \<Rightarrow> ident \<Rightarrow> cleanup_kind \<Rightarrow> bool prog" where
  "record_first_delete candidate token kind = atomically (\<lambda>t.
     update_upload (au_id candidate) (\<lambda>u. still_claimed candidate token u \<and>
         (case kind of
            Canonical_Object \<Rightarrow> au_status u \<in> set lost_statuses \<and>
              au_canonical_cleanup_first_deleted_at u = None \<and> au_canonical_cleanup_completed_at u = None
          | Staging_Object \<Rightarrow> au_status u = au_status candidate \<and>
              au_staging_cleanup_first_deleted_at u = None \<and> au_staging_cleanup_completed_at u = None))
       (\<lambda>u. stamped (t_now t) (case kind of
            Canonical_Object \<Rightarrow> u\<lparr>au_canonical_cleanup_first_deleted_at := Some (t_now t)\<rparr>
          | Staging_Object \<Rightarrow> u\<lparr>au_staging_cleanup_first_deleted_at := Some (t_now t)\<rparr>)))"

definition record_cleanup_complete :: "upload_session \<Rightarrow> ident \<Rightarrow> cleanup_kind \<Rightarrow> bool \<Rightarrow> bool prog" where
  "record_cleanup_complete candidate token kind local_single_pass = atomically (\<lambda>t.
     update_upload (au_id candidate) (\<lambda>u. still_claimed candidate token u \<and>
         (case kind of
            Canonical_Object \<Rightarrow> au_status u \<in> set lost_statuses \<and>
              au_canonical_cleanup_first_deleted_at u \<noteq> None \<and> au_canonical_cleanup_completed_at u = None
          | Staging_Object \<Rightarrow> au_status u = au_status candidate \<and>
              (local_single_pass \<or> au_staging_cleanup_first_deleted_at u \<noteq> None) \<and>
              au_staging_cleanup_completed_at u = None))
       (\<lambda>u. stamped (t_now t) (case kind of
            Canonical_Object \<Rightarrow> u\<lparr>au_canonical_cleanup_completed_at := Some (t_now t)\<rparr>
          | Staging_Object \<Rightarrow>
              if local_single_pass
              then u\<lparr>au_staging_cleanup_completed_at := Some (t_now t),
                     au_staging_cleanup_first_deleted_at := Some (t_now t)\<rparr>
              else u\<lparr>au_staging_cleanup_completed_at := Some (t_now t)\<rparr>)))"

definition release_cleanup_claim :: "ident \<Rightarrow> ident \<Rightarrow> bool prog" where
  "release_cleanup_claim upload_id token = atomically (\<lambda>t.
     update_upload upload_id (\<lambda>u. au_cleanup_token u = Some token)
       (\<lambda>u. u\<lparr>au_cleanup_token := None, au_cleanup_heartbeat_at := None, au_updated_at := t_now t\<rparr>))"

section \<open>What is due for a candidate\<close>

definition canonical_action :: "upload_settings \<Rightarrow> datetime \<Rightarrow> upload_session \<Rightarrow> cleanup_action option" where
  "canonical_action us now c =
     (if au_status c \<notin> set lost_statuses \<or> au_canonical_cleanup_completed_at c \<noteq> None then None
      else case au_canonical_cleanup_first_deleted_at c of
        Some first_deleted_at \<Rightarrow>
          if first_deleted_at + seconds (artifact_cleanup_confirmation_grace_seconds us) \<le> now
          then Some Confirm_Delete else None
      | None \<Rightarrow>
          if or_else (au_finalized_at c) (au_updated_at c) +
               seconds (artifact_finalizing_stale_seconds us) \<le> now
          then Some First_Delete else None)"

definition staging_action ::
  "'s claim_storage_scheme \<Rightarrow> upload_settings \<Rightarrow> datetime \<Rightarrow> upload_session \<Rightarrow> cleanup_action option" where
  "staging_action storage us now c =
     (if au_status c \<notin> set terminal_upload_statuses \<or> au_staging_cleanup_completed_at c \<noteq> None then None
      else case au_staging_cleanup_first_deleted_at c of
        Some first_deleted_at \<Rightarrow>
          if first_deleted_at + seconds (artifact_cleanup_confirmation_grace_seconds us) \<le> now
          then Some Confirm_Delete else None
      | None \<Rightarrow>
          if backend storage = Local then Some Single_Pass
          else if au_expires_at c + seconds (artifact_staging_cleanup_grace_seconds us) \<le> now
          then Some First_Delete else None)"

section \<open>Reconciling\<close>

definition count_record :: "bool \<Rightarrow> cleanup_result \<Rightarrow> cleanup_result" where
  "count_record recorded c =
     (if recorded then c\<lparr>ledger_updates := ledger_updates c + 1\<rparr> else c\<lparr>conflicts := conflicts c + 1\<rparr>)"

text \<open>
  One of the two deletions of a candidate, the body of the inner loop: the counters, and whether the claim was
  lost, which ends the loop.
\<close>

definition delete_current_object ::
  "upload_session \<Rightarrow> ident \<Rightarrow> cleanup_kind \<Rightarrow> string \<Rightarrow> cleanup_action option \<Rightarrow> cleanup_result \<Rightarrow>
   (cleanup_result \<times> bool) prog" where
  "delete_current_object candidate token kind key action c =
     (case action of None \<Rightarrow> Ret (c, False)
      | Some action \<Rightarrow>
          andthen (run_with_cleanup_heartbeat (au_id candidate) token (delete_object key)) (\<lambda>r.
          case r of
            Lost _ \<Rightarrow> Ret (c\<lparr>conflicts := conflicts c + 1\<rparr>, True)
          | Kept (Inl _) \<Rightarrow>
              andthen (record_cleanup_failure candidate token kind) (\<lambda>recorded.
              Ret (count_record recorded (c\<lparr>cleanup_failures := cleanup_failures c + 1\<rparr>), False))
          | Kept (Inr _) \<Rightarrow>
              let c = c\<lparr>object_deletes := object_deletes c + 1\<rparr> in
              if action = First_Delete
              then andthen (record_first_delete candidate token kind) (\<lambda>recorded.
                Ret (count_record recorded (c\<lparr>first_deletes := first_deletes c + of_bool recorded\<rparr>), False))
              else andthen (record_cleanup_complete candidate token kind (action = Single_Pass)) (\<lambda>recorded.
                Ret (count_record recorded
                  (c\<lparr>confirmed_deletes := confirmed_deletes c + of_bool recorded\<rparr>), False))))"

text \<open>What is done with a claimed candidate before the claim is released.\<close>

definition delete_candidate_objects ::
  "'s claim_storage_scheme \<Rightarrow> upload_settings \<Rightarrow> datetime \<Rightarrow> upload_session \<Rightarrow> ident \<Rightarrow> cleanup_result \<Rightarrow>
   (cleanup_result \<times> bool) prog" where
  "delete_candidate_objects storage us now candidate token c =
     (case validated_candidate_object_keys candidate of
        None \<Rightarrow>
          andthen (record_cleanup_key_mismatch candidate token) (\<lambda>recorded.
          Ret (count_record recorded (c\<lparr>cleanup_failures := cleanup_failures c + 1\<rparr>), False))
      | Some (expected_staging_key, expected_canonical_key) \<Rightarrow>
          andthen (delete_current_object candidate token Canonical_Object expected_canonical_key
            (canonical_action us now candidate) c) (\<lambda>(c, ownership_lost).
          if ownership_lost then Ret (c, True)
          else delete_current_object candidate token Staging_Object expected_staging_key
            (staging_action storage us now candidate) c))"

definition reconcile_candidate ::
  "'s claim_storage_scheme \<Rightarrow> upload_settings \<Rightarrow> datetime \<Rightarrow> ident \<Rightarrow> cleanup_result \<Rightarrow> cleanup_result prog" where
  "reconcile_candidate storage us now upload_id c =
     andthen (claim_candidate storage us upload_id) (\<lambda>claim.
     case claim of
       None \<Rightarrow> Ret (c\<lparr>conflicts := conflicts c + 1\<rparr>)
     | Some (token, candidate) \<Rightarrow>
         andthen (delete_candidate_objects storage us now candidate token (c\<lparr>claimed := claimed c + 1\<rparr>))
         (\<lambda>(c, ownership_lost).
         if ownership_lost then Ret c
         else andthen (release_cleanup_claim (au_id candidate) token) (\<lambda>released.
           Ret (if released then c else c\<lparr>conflicts := conflicts c + 1\<rparr>))))"

primrec reconcile_candidates ::
  "'s claim_storage_scheme \<Rightarrow> upload_settings \<Rightarrow> datetime \<Rightarrow> ident list \<Rightarrow> cleanup_result \<Rightarrow> cleanup_result prog" where
  "reconcile_candidates storage us now [] c = Ret c"
| "reconcile_candidates storage us now (i # is) c =
     andthen (reconcile_candidate storage us now i c) (reconcile_candidates storage us now is)"

definition reconcile_artifact_upload_cleanup ::
  "'s claim_storage_scheme \<Rightarrow> upload_settings \<Rightarrow> ident list option \<Rightarrow> cleanup_result prog" where
  "reconcile_artifact_upload_cleanup storage us upload_ids =
     andthen (reading (\<lambda>t w. (t_now t, candidate_ids storage us (t_now t) upload_ids w))) (\<lambda>(now, ids).
     reconcile_candidates storage us now ids
       \<lparr>examined = length ids, claimed = 0, object_deletes = 0, first_deletes = 0, confirmed_deletes = 0,
        ledger_updates = 0, conflicts = 0, cleanup_failures = 0\<rparr>)"

section \<open>The background loop\<close>

text \<open>
  What \<^verbatim>\<open>ArtifactCleanupReconciler\<close> remembers of its cycles: each ends at a time with a result, or with an
  exception. The readiness endpoint shows it.
\<close>

record reconciler =
  rc_running :: bool
  rc_last_completed_at :: "datetime option"
  rc_last_error_code :: "string option"

definition new_reconciler :: reconciler where
  "new_reconciler = \<lparr>rc_running = False, rc_last_completed_at = None, rc_last_error_code = None\<rparr>"

definition cycle_ended :: "datetime \<times> cleanup_result option \<Rightarrow> reconciler \<Rightarrow> reconciler" where
  "cycle_ended cycle r =
     (case cycle of
        (now, None) \<Rightarrow> r\<lparr>rc_last_error_code := Some ''artifact_cleanup_reconcile_failed''\<rparr>
      | (now, Some result) \<Rightarrow> r\<lparr>rc_last_completed_at := Some now, rc_last_error_code :=
          (if cleanup_failures result \<noteq> 0 then Some ''artifact_cleanup_storage_unavailable'' else None)\<rparr>)"

definition reconciler_run :: "(datetime \<times> cleanup_result option) list \<Rightarrow> bool \<Rightarrow> reconciler \<Rightarrow> reconciler" where
  "reconciler_run cycles stopped r =
     (fold cycle_ended cycles (r\<lparr>rc_running := True\<rparr>))\<lparr>rc_running := \<not> stopped\<rparr>"

definition readiness :: "upload_settings \<Rightarrow> datetime \<Rightarrow> reconciler \<Rightarrow> string \<times> bool" where
  "readiness us now r =
     (if \<not> rc_running r then (''stopped'', False)
      else case rc_last_completed_at r of
        None \<Rightarrow> (''starting'', False)
      | Some completed_at \<Rightarrow>
          if now - completed_at > seconds (artifact_cleanup_reconcile_stale_seconds us) then (''stale'', False)
          else if rc_last_error_code r \<noteq> None then (''unavailable'', False)
          else (''ok'', True))"

text \<open>A ready reconciler runs, and its last cycle ended in time, without an exception and without a failure.\<close>

lemma ready_reconciler_is_recent:
  assumes "snd (readiness us now (reconciler_run cycles stopped new_reconciler))"
  shows "\<not> stopped \<and> (\<exists>earlier completed_at result. cycles = earlier @ [(completed_at, Some result)] \<and>
    now \<le> completed_at + seconds (artifact_cleanup_reconcile_stale_seconds us) \<and> cleanup_failures result = 0)"
proof (cases cycles rule: rev_cases)
  case Nil
  then show ?thesis
    using assms by (simp add: readiness_def reconciler_run_def new_reconciler_def split: if_splits)
next
  case (snoc earlier cycle)
  then show ?thesis
    using assms by (cases cycle) (auto simp: readiness_def reconciler_run_def cycle_ended_def
        split: if_splits option.splits)
qed

end
