(* ===== verification/Upload_Requests.thy ===== *)
theory Upload_Requests
  imports Upload_Cleanup Request_Limits
begin

text \<open>
  The requests that open an upload and bring its bytes (\<^verbatim>\<open>routers/artifacts.py\<close>): the validation of the
  request (\<^verbatim>\<open>schemas.py\<close>), \<^verbatim>\<open>initialize_artifact_upload\<close> and the presigned PUT of the local backend, with the
  transitions of a row they share with the finalization.
\<close>

section \<open>The request\<close>

record upload_init =
  ui_lease_id :: ident
  ui_attempt_id :: ident
  ui_idempotency_key :: string
  ui_artifact_type :: artifact_type
  ui_filename :: string
  ui_content_type :: string
  ui_size_bytes :: int
  ui_sha256 :: string
  ui_metadata :: "(string \<times> json) list"

fun artifact_content_types :: "artifact_type \<Rightarrow> string list" where
  "artifact_content_types FINAL_SMALL_MODEL = [''application/octet-stream'', ''application/x-pytorch'']"
| "artifact_content_types FINAL_INDEX = [''application/octet-stream'']"
| "artifact_content_types TOTAL_FEATURES = [''application/octet-stream'']"
| "artifact_content_types GENERATOR_CHECKPOINT = [''application/octet-stream'', ''application/x-pytorch'']"
| "artifact_content_types DISCRIMINATOR_CHECKPOINT = [''application/octet-stream'', ''application/x-pytorch'']"
| "artifact_content_types TRAIN_LOG = [''text/plain'', ''application/octet-stream'']"
| "artifact_content_types TENSORBOARD = [''application/octet-stream'']"
| "artifact_content_types SAMPLE = [''audio/wav'', ''audio/x-wav'', ''audio/flac'', ''audio/mpeg'']"
| "artifact_content_types ENVIRONMENT = [''application/json'']"
| "artifact_content_types CONFIG = [''application/json'']"
| "artifact_content_types DATASET_REPORT = [''application/json'']"

definition safe_upload_filename :: "string \<Rightarrow> bool" where
  "safe_upload_filename value \<longleftrightarrow> safe_filename value \<and> list_all (\<lambda>c. 32 \<le> (of_char c :: nat)) value"

definition bounded_metadata :: "platform \<Rightarrow> (string \<times> json) list \<Rightarrow> bool" where
  "bounded_metadata pf value =
     (case dumps (float_repr pf) (JObj value) of
        None \<Rightarrow> False
      | Some encoded \<Rightarrow> length encoded \<le> 16 * 1024)"

definition normalize_content_type :: "string \<Rightarrow> string" where
  "normalize_content_type value = map lower_char (Python_Text.strip value)"

definition validate_upload_init :: "platform \<Rightarrow> upload_init \<Rightarrow> string + upload_init" where
  "validate_upload_init pf rq =
     (let content_type = normalize_content_type (ui_content_type rq) in checked
     [(\<not> (1 \<le> length (ui_lease_id rq) \<and> length (ui_lease_id rq) \<le> 128), ''lease_id''),
      (\<not> (1 \<le> length (ui_attempt_id rq) \<and> length (ui_attempt_id rq) \<le> 128), ''attempt_id''),
      (\<not> (8 \<le> length (ui_idempotency_key rq) \<and> length (ui_idempotency_key rq) \<le> 128), ''idempotency_key''),
      (\<not> (1 \<le> length (ui_filename rq) \<and> length (ui_filename rq) \<le> 255), ''filename''),
      (\<not> (3 \<le> length (ui_content_type rq) \<and> length (ui_content_type rq) \<le> 255), ''content_type''),
      (ui_size_bytes rq < 1, ''size_bytes''),
      (\<not> hex_any_case (ui_sha256 rq), ''sha256''),
      (\<not> safe_upload_filename (ui_filename rq),
        ''artifact filename must not contain a path or control characters''),
      (CHR '';'' \<in> set content_type \<or> CHR ''/'' \<notin> set content_type,
        ''content_type must be a media type without parameters''),
      (\<not> bounded_metadata pf (ui_metadata rq), ''artifact metadata''),
      (content_type \<notin> set (artifact_content_types (ui_artifact_type rq)), ''content_type is not allowed'')]
     (rq\<lparr>ui_content_type := content_type, ui_sha256 := map lower_char (ui_sha256 rq)\<rparr>))"

definition upload_request_fingerprint :: "platform \<Rightarrow> upload_init \<Rightarrow> string" where
  "upload_request_fingerprint pf rq = sha256 pf (render (float_repr pf) (JObj
     [(''artifact_type'', JStr (artifact_type_value (ui_artifact_type rq))),
      (''content_type'', JStr (ui_content_type rq)),
      (''filename'', JStr (ui_filename rq)),
      (''metadata'', JObj (ui_metadata rq)),
      (''sha256'', JStr (ui_sha256 rq)),
      (''size_bytes'', JInt (ui_size_bytes rq))]))"

section \<open>The target of an upload\<close>

record upload_target =
  ut_url :: string
  ut_headers :: "(string \<times> string) list"

text \<open>\<^verbatim>\<open>create_upload_target\<close> of both adapters; the signature of a presigned URL comes with the turn.\<close>

definition create_upload_target ::
  "'s claim_storage_scheme \<Rightarrow> bool \<Rightarrow> string \<Rightarrow> ident \<Rightarrow> string \<Rightarrow> string \<Rightarrow> int \<Rightarrow> string \<Rightarrow> string option \<Rightarrow>
   turn \<Rightarrow> upload_target option" where
  "create_upload_target storage bind_checksum base_url session_id object_key content_type content_length
     digest local_upload_token t =
     (case backend storage of
        Local \<Rightarrow>
          map_option (\<lambda>token. \<lparr>ut_url = rstrip_slash base_url @ ''/api/v1/storage/uploads/'' @ session_id,
            ut_headers = [(''Content-Type'', content_type), (''Content-Length'', int_str content_length),
              (''X-RVC-Upload-Token'', token)]\<rparr>) local_upload_token
      | S3 \<Rightarrow>
          if \<not> validate_object_key object_key then None
          else map_option (\<lambda>url. \<lparr>ut_url = url,
            ut_headers = [(''Content-Type'', content_type), (''Content-Length'', int_str content_length),
              (''If-None-Match'', ''*''), (''x-amz-meta-sha256'', digest)] @
              (if bind_checksum then [(''x-amz-checksum-sha256'', b64encode (bytes_of_hex digest))] else [])\<rparr>)
            (t_url t))"

record upload_init_response =
  ir_upload_session_id :: ident
  ir_status :: string
  ir_target :: "upload_target option"
  ir_expires_at :: datetime
  ir_artifact :: "artifact_row option"
  ir_failure_code :: "string option"
  ir_retryable :: bool
  ir_retry_after_seconds :: "int option"

definition retry_metadata :: "upload_settings \<Rightarrow> upload_session \<Rightarrow> bool \<times> int option" where
  "retry_metadata us u =
     (if au_status u = ''finalizing'' then (True, Some (artifact_retry_after_seconds us))
      else if au_status u = ''pending''
      then (True, if au_failure_code u \<noteq> None then Some (artifact_retry_after_seconds us) else None)
      else if au_status u = ''expired'' then (True, Some (artifact_retry_after_seconds us))
      else (False, None))"

definition storage_unavailable :: api_error where
  "storage_unavailable = HTTPException 503 ''upload storage namespace is unavailable''"

text \<open>\<^verbatim>\<open>_init_response\<close>: the lookup of the artifact and the target are one action.\<close>

definition init_response ::
  "platform \<Rightarrow> upload_settings \<Rightarrow> 's claim_storage_scheme \<Rightarrow> bool \<Rightarrow> string \<Rightarrow> upload_session \<Rightarrow> upload_init_response res prog" where
  "init_response pf us storage bind_checksum base_url u =
     (if \<not> upload_storage_matches storage u then Ret (Inl storage_unavailable)
      else reading (\<lambda>t w.
        let artifact = Option.bind (au_artifact_id u) (\<lambda>i. get_row ar_id i (artifacts_table (uw_ledger w)));
            (retryable, retry_after) = retry_metadata us u;
            answer = \<lparr>ir_upload_session_id = au_id u, ir_status = au_status u, ir_target = None,
              ir_expires_at = au_expires_at u, ir_artifact = artifact, ir_failure_code = au_failure_code u,
              ir_retryable = retryable, ir_retry_after_seconds = retry_after\<rparr>
        in if au_status u \<noteq> ''pending'' then Inr answer
           else let token = (if au_storage_backend u = Local
                  then Some (derive_local_upload_token pf (au_id u) (timestamp (au_expires_at u)) us) else None)
             in case create_upload_target storage bind_checksum base_url (au_id u)
                    (au_temporary_object_key u) (au_content_type u) (au_expected_size_bytes u)
                    (au_expected_sha256 u) token t of
                  None \<Rightarrow> Inl (Unhandled ''StorageError'')
                | Some target \<Rightarrow> Inr (answer\<lparr>ir_target := Some target, ir_artifact := None\<rparr>)))"

section \<open>Transitions of a row\<close>

definition drop_tokens :: "upload_session \<Rightarrow> upload_session" where
  "drop_tokens u = u\<lparr>au_upload_write_token := None, au_upload_heartbeat_at := None,
     au_finalization_token := None\<rparr>"

text \<open>What every expiry sets; only a writer's expiry also finds a write token to drop.\<close>

definition expired_row :: "string \<Rightarrow> datetime \<Rightarrow> upload_session \<Rightarrow> upload_session" where
  "expired_row code now u = u\<lparr>au_status := ''expired'', au_upload_write_token := None,
     au_upload_heartbeat_at := None, au_failure_code := Some code, au_dedupe_key := None,
     au_finalized_at := Some now, au_updated_at := now\<rparr>"

definition stale_reset :: "upload_session \<Rightarrow> upload_session" where
  "stale_reset u = (drop_tokens u)\<lparr>au_status := ''pending'',
     au_failure_code := Some ''stale_finalizing_recovered''\<rparr>"

definition recover_stale_finalizing :: "upload_settings \<Rightarrow> upload_session \<Rightarrow> (bool \<times> upload_session) prog" where
  "recover_stale_finalizing us u =
     (if au_status u \<noteq> ''finalizing'' then Ret (False, u)
      else atomically (\<lambda>t w.
        let cutoff = t_now t - seconds (artifact_finalizing_stale_seconds us)
        in if au_updated_at u > cutoff then ((False, u), w)
           else let (recovered, w') = update_upload (au_id u)
                  (\<lambda>r. au_status r = ''finalizing'' \<and> au_updated_at r \<le> cutoff)
                  (\<lambda>r. (stale_reset r)\<lparr>au_updated_at := t_now t\<rparr>) w
             in if recovered then ((True, stale_reset u), w')
                else ((False, or_else (get_upload (au_id u) w) u), w)))"

definition touch_artifact_upload_write :: "ident \<Rightarrow> ident \<Rightarrow> bool prog" where
  "touch_artifact_upload_write upload_id token = atomically (\<lambda>t.
     update_upload upload_id
       (\<lambda>u. au_status u = ''pending'' \<and> au_upload_write_token u = Some token \<and> au_uploaded_at u = None \<and>
          au_expires_at u > t_now t)
       (\<lambda>u. u\<lparr>au_upload_heartbeat_at := Some (t_now t), au_updated_at := t_now t\<rparr>))"

definition clear_artifact_upload_write :: "ident \<Rightarrow> ident \<Rightarrow> bool prog" where
  "clear_artifact_upload_write upload_id token = atomically (\<lambda>t.
     update_upload upload_id
       (\<lambda>u. au_status u = ''pending'' \<and> au_upload_write_token u = Some token \<and> au_uploaded_at u = None)
       (\<lambda>u. u\<lparr>au_upload_write_token := None, au_upload_heartbeat_at := None, au_updated_at := t_now t\<rparr>))"

definition expire_artifact_upload_write :: "ident \<Rightarrow> ident \<Rightarrow> bool prog" where
  "expire_artifact_upload_write upload_id token = atomically (\<lambda>t.
     update_upload upload_id
       (\<lambda>u. au_status u = ''pending'' \<and> au_upload_write_token u = Some token \<and> au_uploaded_at u = None)
       (expired_row ''upload_write_deadline_exceeded'' (t_now t)))"

definition run_with_artifact_upload_write_heartbeat ::
  "ident \<Rightarrow> ident \<Rightarrow> (turn \<Rightarrow> upload_world \<Rightarrow> (storage_exn + 'a) \<times> upload_world) \<Rightarrow> 'a kept prog" where
  "run_with_artifact_upload_write_heartbeat upload_id token =
     run_with_heartbeat (touch_artifact_upload_write upload_id token)"

text \<open>\<^verbatim>\<open>_cleanup_terminal_artifact_staging\<close> and \<^verbatim>\<open>_expire_upload\<close>, with the row as it is read back.\<close>

definition cleanup_terminal_artifact_staging ::
  "'s claim_storage_scheme \<Rightarrow> upload_settings \<Rightarrow> ident \<Rightarrow> string \<Rightarrow> bool prog" where
  "cleanup_terminal_artifact_staging storage us upload_id status =
     (if status \<notin> set terminal_upload_statuses then Ret False
      else andthen (reconcile_artifact_upload_cleanup storage us (Some [upload_id])) (\<lambda>_.
        reading (\<lambda>t w. case get_upload upload_id w of None \<Rightarrow> False
          | Some u \<Rightarrow> au_staging_cleanup_completed_at u \<noteq> None)))"

definition expire_upload ::
  "'s claim_storage_scheme \<Rightarrow> upload_settings \<Rightarrow> upload_session \<Rightarrow> (bool \<times> upload_session) res prog" where
  "expire_upload storage us u =
     (if \<not> upload_storage_matches storage u then Ret (Inl storage_unavailable)
      else andthen (atomically (\<lambda>t. update_upload (au_id u)
          (\<lambda>r. au_status r = ''pending'' \<and> au_upload_write_token r = None \<and>
             au_finalization_token r = None \<and> au_expires_at r \<le> t_now t)
          (expired_row ''upload_expired'' (t_now t)))) (\<lambda>expired.
        if \<not> expired then Ret (Inr (False, u))
        else andthen (cleanup_terminal_artifact_staging storage us (au_id u) ''expired'') (\<lambda>_.
          reading (\<lambda>t w. Inr (True, or_else (get_upload (au_id u) w) u)))))"

section \<open>Opening an upload\<close>

definition find_deduplicated_upload :: "string \<Rightarrow> upload_world \<Rightarrow> upload_session option" where
  "find_deduplicated_upload dedupe_key w = find (\<lambda>u. au_dedupe_key u = Some dedupe_key) (uw_uploads w)"

definition find_existing_upload :: "ident \<Rightarrow> string \<Rightarrow> string \<Rightarrow> upload_world \<Rightarrow> upload_session option" where
  "find_existing_upload attempt_id idempotency_key dedupe_key w =
     (case sort_key (\<lambda>u. - au_generation u)
         (filter (\<lambda>u. au_attempt_id u = attempt_id \<and> au_idempotency_key u = idempotency_key) (uw_uploads w)) of
        u # _ \<Rightarrow> Some u
      | [] \<Rightarrow> find_deduplicated_upload dedupe_key w)"

text \<open>The claim the request is made under.\<close>

definition upload_claim ::
  "platform \<Rightarrow> datetime \<Rightarrow> ident \<Rightarrow> ident \<Rightarrow> ident \<Rightarrow> ident \<Rightarrow> ledger \<Rightarrow> unit res" where
  "upload_claim pf now worker_id job_id lease_id attempt_id d =
     res_bind (require_active_lease pf now worker_id job_id lease_id d) (\<lambda>lease.
       if l_attempt_id lease \<noteq> attempt_id
       then Inl (HTTPException 409 ''upload attempt does not match lease'')
       else case (get_job job_id d, get_attempt (l_attempt_id lease) d) of
         (Some job, Some attempt) \<Rightarrow>
           if j_current_attempt_id job \<noteq> Some (a_id attempt)
           then Inl (HTTPException 409 ''job attempt is no longer current'') else Inr ()
       | _ \<Rightarrow> Inl (HTTPException 409 ''job attempt is no longer current''))"

definition quota_session :: "upload_session \<Rightarrow> bool" where
  "quota_session u \<longleftrightarrow> au_status u \<in> {''pending'', ''finalizing'', ''completed''} \<or>
     au_status u \<in> set lost_statuses \<and>
       (au_staging_cleanup_completed_at u = None \<or> au_canonical_cleanup_completed_at u = None)"

definition quota_rows :: "ident \<Rightarrow> upload_session list \<Rightarrow> upload_session list" where
  "quota_rows attempt_id us = filter (\<lambda>u. au_attempt_id u = attempt_id \<and> quota_session u) us"

definition enforce_attempt_artifact_quota ::
  "upload_settings \<Rightarrow> ident \<Rightarrow> int \<Rightarrow> upload_world \<Rightarrow> unit res" where
  "enforce_attempt_artifact_quota us attempt_id requested_size w = checked
     [(length (quota_rows attempt_id (uw_uploads w)) \<ge> artifact_attempt_max_sessions us,
        HTTPException 409 ''artifact session quota exceeded''),
      (sum_list (map au_expected_size_bytes (quota_rows attempt_id (uw_uploads w))) + requested_size
         > artifact_attempt_max_bytes us,
        HTTPException 409 ''artifact byte quota exceeded'')] ()"

text \<open>The unique constraints of the table, and the insertion of a row under them.\<close>

definition upload_conflict :: "upload_session \<Rightarrow> upload_session \<Rightarrow> bool" where
  "upload_conflict u r \<longleftrightarrow> au_id r = au_id u \<or>
     (au_attempt_id r = au_attempt_id u \<and> au_idempotency_key r = au_idempotency_key u \<and>
      au_generation r = au_generation u) \<or>
     (au_dedupe_key r \<noteq> None \<and> au_dedupe_key r = au_dedupe_key u) \<or>
     (au_artifact_id r \<noteq> None \<and> au_artifact_id r = au_artifact_id u) \<or>
     au_temporary_object_key r = au_temporary_object_key u \<or>
     au_canonical_object_key r = au_canonical_object_key u"

definition new_upload ::
  "platform \<Rightarrow> upload_settings \<Rightarrow> 's claim_storage_scheme \<Rightarrow> ident \<Rightarrow> ident \<Rightarrow> upload_init \<Rightarrow> ident \<Rightarrow> int \<Rightarrow>
   datetime \<Rightarrow> datetime \<Rightarrow> upload_session" where
  "new_upload pf us storage worker_id job_id rq upload_id generation expires_at now =
     \<lparr>au_id = upload_id, au_job_id = job_id, au_attempt_id = ui_attempt_id rq, au_lease_id = ui_lease_id rq,
      au_worker_id = worker_id, au_artifact_id = None, au_artifact_type = ui_artifact_type rq,
      au_filename = ui_filename rq, au_content_type = ui_content_type rq,
      au_expected_size_bytes = ui_size_bytes rq, au_expected_sha256 = ui_sha256 rq,
      au_canonical_object_key =
        canonical_object_key job_id (ui_attempt_id rq) (ui_artifact_type rq) upload_id,
      au_storage_backend = backend storage, au_storage_namespace_sha256 = namespace_fingerprint storage,
      au_status = ''pending'',
      au_metadata_json = ui_metadata rq, au_idempotency_key = ui_idempotency_key rq,
      au_generation = generation, au_request_fingerprint = upload_request_fingerprint pf rq,
      au_dedupe_key = Some (upload_dedupe_key pf (ui_attempt_id rq) (ui_artifact_type rq) (ui_sha256 rq)),
      au_temporary_object_key = staging_object_key (ui_attempt_id rq) upload_id,
      au_upload_write_token = None, au_upload_heartbeat_at = None, au_finalization_token = None,
      au_cleanup_token = None, au_cleanup_heartbeat_at = None,
      au_upload_token_hash =
        (if backend storage = Local
         then Some (upload_token_hash pf (derive_local_upload_token pf upload_id (timestamp expires_at) us))
         else None),
      au_expires_at = expires_at, au_uploaded_at = None, au_finalized_at = None,
      au_staging_cleanup_completed_at = None, au_staging_cleanup_first_deleted_at = None,
      au_canonical_cleanup_completed_at = None, au_canonical_cleanup_first_deleted_at = None,
      au_failure_code = None, au_updated_at = now\<rparr>"

text \<open>The second half: the reservation, one transaction under the lock of the attempt row.\<close>

datatype reservation = Reserved upload_session | Existing upload_session | Violated

definition has_expired :: "upload_session option \<Rightarrow> bool" where
  "has_expired found \<longleftrightarrow> (\<exists>r \<in> set_option found. au_status r = ''expired'')"

definition raced_generation :: "upload_init \<Rightarrow> int \<Rightarrow> upload_session option \<Rightarrow> int" where
  "raced_generation rq generation raced =
     (case raced of
        Some r \<Rightarrow> if has_expired raced \<and> au_idempotency_key r = ui_idempotency_key rq
                  then max generation (au_generation r + 1) else generation
      | None \<Rightarrow> generation)"

definition reserve_upload ::
  "platform \<Rightarrow> upload_settings \<Rightarrow> 's claim_storage_scheme \<Rightarrow> ident \<Rightarrow> ident \<Rightarrow> upload_init \<Rightarrow> ident \<Rightarrow> int \<Rightarrow>
   datetime \<Rightarrow> turn \<Rightarrow> upload_world \<Rightarrow> reservation res \<times> upload_world" where
  "reserve_upload pf us storage worker_id job_id rq upload_id generation expires_at t w =
     (let dedupe_key = upload_dedupe_key pf (ui_attempt_id rq) (ui_artifact_type rq) (ui_sha256 rq);
          raced = find_existing_upload (ui_attempt_id rq) (ui_idempotency_key rq) dedupe_key w;
          answer = (if has_expired raced then find_deduplicated_upload dedupe_key w else raced);
          u = new_upload pf us storage worker_id job_id rq upload_id
                (raced_generation rq generation raced) expires_at (t_now t)
      in case upload_claim pf (t_now t) worker_id job_id (ui_lease_id rq) (ui_attempt_id rq) (ledger_view w) of
        Inl e \<Rightarrow> (Inl e, w)
      | Inr _ \<Rightarrow>
          if \<exists>r \<in> set_option raced. au_request_fingerprint r \<noteq> upload_request_fingerprint pf rq
          then (Inl (HTTPException 409 ''artifact upload session conflict''), w)
          else case answer of
            Some r \<Rightarrow> (Inr (Existing r), w)
          | None \<Rightarrow>
              (case enforce_attempt_artifact_quota us (ui_attempt_id rq) (ui_size_bytes rq) w of
                 Inl e \<Rightarrow> (Inl e, w)
               | Inr _ \<Rightarrow>
                   if \<exists>r \<in> set (uw_uploads w). upload_conflict u r then (Inr Violated, w)
                   else (Inr (Reserved u), w\<lparr>uw_uploads := uw_uploads w @ [u]\<rparr>)))"

text \<open>
  The first half looks for an earlier session of the same request and brings it up to date: the session to
  answer with, or the generation a new one gets.
\<close>

definition state_changed :: api_error where
  "state_changed = HTTPException 409 ''artifact upload state changed''"

definition expire_found ::
  "'s claim_storage_scheme \<Rightarrow> upload_settings \<Rightarrow> upload_session \<Rightarrow> upload_session res prog" where
  "expire_found storage us u =
     (case au_upload_write_token u of
        Some token \<Rightarrow>
          andthen (expire_artifact_upload_write (au_id u) token) (\<lambda>expired.
          andthen (reading (\<lambda>t w. get_upload (au_id u) w)) (\<lambda>found.
          Ret (case found of
            None \<Rightarrow> Inl (HTTPException 409 ''artifact upload disappeared'')
          | Some r \<Rightarrow> if expired then Inr r else Inl state_changed)))
      | None \<Rightarrow>
          orelse (expire_upload storage us u) (\<lambda>(expired, r).
          Ret (if expired then Inr r else Inl state_changed)))"

definition refresh_found ::
  "'s claim_storage_scheme \<Rightarrow> upload_settings \<Rightarrow> upload_session \<Rightarrow> upload_session res prog" where
  "refresh_found storage us u =
     andthen (recover_stale_finalizing us u) (\<lambda>(_, u).
     andthen (reading (\<lambda>t w. t_now t)) (\<lambda>now.
     if au_status u = ''pending'' \<and> au_expires_at u \<le> now then expire_found storage us u
     else Ret (Inr u)))"

datatype found_upload = Answer_With upload_session | Open_New int

definition settle_existing ::
  "platform \<Rightarrow> upload_settings \<Rightarrow> 's claim_storage_scheme \<Rightarrow> upload_init \<Rightarrow> upload_session \<Rightarrow> found_upload res prog" where
  "settle_existing pf us storage rq u =
     (if au_request_fingerprint u \<noteq> upload_request_fingerprint pf rq
      then Ret (Inl (HTTPException 409
        ''idempotency key or artifact checksum conflicts with prior payload''))
      else if \<not> upload_storage_matches storage u then Ret (Inl storage_unavailable)
      else orelse (refresh_found storage us u) (\<lambda>u.
        if au_status u \<noteq> ''expired'' then Ret (Inr (Answer_With u))
        else reading (\<lambda>t w.
          let generation = (if au_idempotency_key u = ui_idempotency_key rq then au_generation u + 1 else 1)
          in case find_deduplicated_upload
               (upload_dedupe_key pf (ui_attempt_id rq) (ui_artifact_type rq) (ui_sha256 rq)) w of
            None \<Rightarrow> Inr (Open_New generation)
          | Some r \<Rightarrow>
              if au_request_fingerprint r \<noteq> upload_request_fingerprint pf rq
              then Inl (HTTPException 409 ''artifact checksum conflicts with an active upload payload'')
              else Inr (Answer_With r))))"

definition answer_raced ::
  "platform \<Rightarrow> upload_settings \<Rightarrow> 's claim_storage_scheme \<Rightarrow> bool \<Rightarrow> string \<Rightarrow> upload_init \<Rightarrow> upload_init_response res prog" where
  "answer_raced pf us storage bind_checksum base_url rq =
     andthen (reading (\<lambda>t w.
       let dedupe_key = upload_dedupe_key pf (ui_attempt_id rq) (ui_artifact_type rq) (ui_sha256 rq);
           raced = find_existing_upload (ui_attempt_id rq) (ui_idempotency_key rq) dedupe_key w
       in if has_expired raced then find_deduplicated_upload dedupe_key w else raced)) (\<lambda>raced.
     case raced of
       Some r \<Rightarrow>
         if au_request_fingerprint r = upload_request_fingerprint pf rq
         then init_response pf us storage bind_checksum base_url r
         else Ret (Inl (HTTPException 409 ''artifact upload session conflict''))
     | None \<Rightarrow> Ret (Inl (HTTPException 409 ''artifact upload session conflict'')))"

definition open_new_upload ::
  "platform \<Rightarrow> upload_settings \<Rightarrow> 's claim_storage_scheme \<Rightarrow> bool \<Rightarrow> string \<Rightarrow> ident \<Rightarrow> ident \<Rightarrow> upload_init \<Rightarrow> int \<Rightarrow>
   upload_init_response res prog" where
  "open_new_upload pf us storage bind_checksum base_url worker_id job_id rq generation =
     andthen (reading (\<lambda>t w.
       let expires_at = t_now t + seconds (effective_artifact_upload_ttl_seconds (ui_size_bytes rq) us);
           token = (if backend storage = Local
             then Some (derive_local_upload_token pf (t_uuid t) (timestamp expires_at) us) else None)
       in (t_uuid t, expires_at,
           create_upload_target storage bind_checksum base_url (t_uuid t)
             (staging_object_key (ui_attempt_id rq) (t_uuid t)) (ui_content_type rq) (ui_size_bytes rq)
             (ui_sha256 rq) token t))) (\<lambda>(upload_id, expires_at, target).
     case target of
       None \<Rightarrow> Ret (Inl (HTTPException 503 ''object upload signing failed''))
     | Some target \<Rightarrow>
         orelse (atomically (reserve_upload pf us storage worker_id job_id rq upload_id generation expires_at))
         (\<lambda>r. case r of
            Existing u \<Rightarrow> init_response pf us storage bind_checksum base_url u
          | Violated \<Rightarrow> answer_raced pf us storage bind_checksum base_url rq
          | Reserved u \<Rightarrow> Ret (Inr \<lparr>ir_upload_session_id = au_id u, ir_status = ''pending'',
              ir_target = Some target, ir_expires_at = au_expires_at u, ir_artifact = None,
              ir_failure_code = None, ir_retryable = True, ir_retry_after_seconds = None\<rparr>)))"

definition initialize_artifact_upload ::
  "platform \<Rightarrow> upload_settings \<Rightarrow> 's claim_storage_scheme \<Rightarrow> bool \<Rightarrow> string \<Rightarrow> ident \<Rightarrow> ident \<Rightarrow> upload_init \<Rightarrow>
   upload_init_response res prog" where
  "initialize_artifact_upload pf us storage bind_checksum base_url worker_id job_id rq =
     (if ui_size_bytes rq > artifact_max_bytes us
      then Ret (Inl (HTTPException 413 ''artifact exceeds configured size limit''))
      else if ui_artifact_type rq = SAMPLE \<and> ui_size_bytes rq > sample_max_bytes us
      then Ret (Inl (HTTPException 413 ''sample exceeds configured size limit''))
      else orelse (reading (\<lambda>t w.
          res_bind (upload_claim pf (t_now t) worker_id job_id (ui_lease_id rq) (ui_attempt_id rq) (ledger_view w))
            (\<lambda>_. Inr (find_existing_upload (ui_attempt_id rq) (ui_idempotency_key rq)
               (upload_dedupe_key pf (ui_attempt_id rq) (ui_artifact_type rq) (ui_sha256 rq)) w)))) (\<lambda>existing.
        orelse (case existing of
            None \<Rightarrow> Ret (Inr (Open_New 1))
          | Some u \<Rightarrow> settle_existing pf us storage rq u) (\<lambda>found.
        case found of
          Answer_With u \<Rightarrow> init_response pf us storage bind_checksum base_url u
        | Open_New generation \<Rightarrow>
            open_new_upload pf us storage bind_checksum base_url worker_id job_id rq generation)))"

section \<open>The bytes of a local upload\<close>

record upload_put =
  pu_upload_token :: "string option"
  pu_content_length :: "string option"
  pu_content_type :: "string option"
  pu_body :: string

text \<open>The checks of the handler, in its order, on the row as it was read.\<close>

definition put_checks :: "platform \<Rightarrow> upload_put \<Rightarrow> upload_session \<Rightarrow> unit res" where
  "put_checks pf rq u =
     (if au_uploaded_at u \<noteq> None then Inl (HTTPException 409 ''upload session is already sealed'')
      else if au_upload_write_token u \<noteq> None
      then Inl (HTTPException 409 ''upload session write is active'')
      else if \<not> (\<exists>token \<in> set_option (pu_upload_token rq). verify_upload_token pf token (au_upload_token_hash u))
      then Inl (HTTPException 401 ''invalid upload token'')
      else case pu_content_length rq of
        None \<Rightarrow> Inl (HTTPException 411 ''Content-Length is required'')
      | Some raw_length \<Rightarrow>
          (case int_of_text raw_length of
             None \<Rightarrow> Inl (HTTPException 400 ''invalid Content-Length'')
           | Some content_length \<Rightarrow> checked
               [(content_length \<noteq> au_expected_size_bytes u,
                   HTTPException 422 ''Content-Length does not match session''),
                (map lower_char (or_else (pu_content_type rq) []) \<noteq> au_content_type u,
                   HTTPException 422 ''Content-Type does not match session'')] ()))"

definition claim_write :: "ident \<Rightarrow> ident option prog" where
  "claim_write upload_id = atomically (\<lambda>t w.
     let (ok, w') = update_upload upload_id
           (\<lambda>u. au_status u = ''pending'' \<and> au_upload_write_token u = None \<and>
              au_finalization_token u = None \<and> au_uploaded_at u = None \<and> au_expires_at u > t_now t)
           (\<lambda>u. u\<lparr>au_upload_write_token := Some (t_uuid t), au_upload_heartbeat_at := Some (t_now t),
              au_failure_code := None, au_updated_at := t_now t\<rparr>) w
     in (if ok then Some (t_uuid t) else None, w'))"

definition seal_upload :: "ident \<Rightarrow> ident \<Rightarrow> bool prog" where
  "seal_upload upload_id token = atomically (\<lambda>t.
     update_upload upload_id
       (\<lambda>u. au_status u = ''pending'' \<and> au_upload_write_token u = Some token \<and>
          au_finalization_token u = None \<and> au_uploaded_at u = None \<and> au_expires_at u > t_now t)
       (\<lambda>u. u\<lparr>au_uploaded_at := Some (t_now t), au_upload_write_token := None,
          au_upload_heartbeat_at := None, au_failure_code := None, au_updated_at := t_now t\<rparr>))"

definition write_ownership_changed :: api_error where
  "write_ownership_changed = HTTPException 409 ''upload write ownership changed''"

text \<open>What the handler does about the way the write ended; \<open>Unhandled\<close> is the cancellation going on.\<close>

definition finish_write :: "ident \<Rightarrow> ident \<Rightarrow> unit kept \<Rightarrow> unit res prog" where
  "finish_write upload_id token r =
     (let clear = (\<lambda>e. andthen (clear_artifact_upload_write upload_id token) (\<lambda>_. Ret (Inl e))) in
      case r of
        Lost _ \<Rightarrow>
          andthen (expire_artifact_upload_write upload_id token) (\<lambda>expired.
          if expired then Ret (Inl write_ownership_changed) else clear write_ownership_changed)
      | Kept (Inl Deadline_Passed) \<Rightarrow>
          andthen (expire_artifact_upload_write upload_id token) (\<lambda>_.
          Ret (Inl (HTTPException 408 ''artifact upload deadline exceeded'')))
      | Kept (Inl Too_Large) \<Rightarrow> clear (HTTPException 413 ''uploaded object exceeds session size'')
      | Kept (Inl Size_Mismatch) \<Rightarrow> clear (HTTPException 422 ''uploaded object size mismatch'')
      | Kept (Inl Request_Cancelled) \<Rightarrow> clear (Unhandled ''CancelledError'')
      | Kept (Inl _) \<Rightarrow> clear (HTTPException 503 ''local object upload failed'')
      | Kept (Inr _) \<Rightarrow>
          andthen (seal_upload upload_id token) (\<lambda>sealed.
          if sealed then Ret (Inr ())
          else andthen (expire_artifact_upload_write upload_id token) (\<lambda>_.
            Ret (Inl write_ownership_changed))))"

text \<open>The session as it was read decides whether the body is taken; then the write is claimed.\<close>

definition store_bytes ::
  "platform \<Rightarrow> upload_settings \<Rightarrow> 's claim_storage_scheme \<Rightarrow> ident \<Rightarrow> upload_put \<Rightarrow> datetime \<Rightarrow> upload_session \<Rightarrow>
   unit res prog" where
  "store_bytes pf us storage upload_id rq now u =
     (if au_storage_backend u \<noteq> Local then Ret (Inl (HTTPException 404 ''upload session not found''))
      else if \<not> upload_storage_matches storage u then Ret (Inl storage_unavailable)
      else if au_status u \<noteq> ''pending''
      then Ret (Inl (HTTPException 409 ''upload session is not writable''))
      else if au_expires_at u \<le> now
      then orelse (case au_upload_write_token u of
          Some token \<Rightarrow> andthen (expire_artifact_upload_write upload_id token) (\<lambda>ok. Ret (Inr ok))
        | None \<Rightarrow> orelse (expire_upload storage us u) (\<lambda>(ok, _). Ret (Inr ok))) (\<lambda>expired.
        Ret (Inl (if expired then HTTPException 410 ''upload session expired'' else state_changed)))
      else orelse (Ret (put_checks pf rq u)) (\<lambda>_.
        andthen (claim_write upload_id) (\<lambda>token.
        case token of
          None \<Rightarrow> Ret (Inl (HTTPException 409 ''upload session write conflict''))
        | Some token \<Rightarrow>
            andthen (run_with_artifact_upload_write_heartbeat upload_id token
              (write_upload_stream (au_temporary_object_key u) (pu_body rq) (au_expected_size_bytes u)))
            (finish_write upload_id token))))"

definition local_presigned_upload ::
  "platform \<Rightarrow> upload_settings \<Rightarrow> 's claim_storage_scheme \<Rightarrow> ident \<Rightarrow> upload_put \<Rightarrow> unit res prog" where
  "local_presigned_upload pf us storage upload_id rq =
     (if backend storage \<noteq> Local then Ret (Inl (HTTPException 404 ''upload endpoint not found''))
      else andthen (reading (\<lambda>t w. (t_now t, get_upload upload_id w))) (\<lambda>(now, found).
        case found of
          None \<Rightarrow> Ret (Inl (HTTPException 404 ''upload session not found''))
        | Some u \<Rightarrow> store_bytes pf us storage upload_id rq now u))"

end
