(* ===== verification/Upload_Finalize.thy ===== *)
theory Upload_Finalize
  imports Upload_Requests
begin

text \<open>
  \<^verbatim>\<open>finalize_artifact_upload\<close> (\<^verbatim>\<open>routers/artifacts.py\<close>): the claim of the row with a finalization token, the
  verification of the bytes into a private copy, the publication under the write-once canonical key and the
  commit of the artifact, with what is undone or recorded when one of them fails or the token is lost.
\<close>

section \<open>Transitions under the finalization token\<close>

definition owned_by :: "ident \<Rightarrow> upload_session \<Rightarrow> bool" where
  "owned_by token u \<longleftrightarrow> au_status u = ''finalizing'' \<and> au_finalization_token u = Some token"

definition transition_owned_finalizing :: "ident \<Rightarrow> ident \<Rightarrow> string \<Rightarrow> string \<Rightarrow> bool prog" where
  "transition_owned_finalizing upload_id token status failure_code = atomically (\<lambda>t.
     update_upload upload_id (owned_by token) (\<lambda>u.
       let v = (drop_tokens u)\<lparr>au_status := status, au_failure_code := Some failure_code,
             au_updated_at := t_now t\<rparr>
       in if status \<in> set lost_statuses
          then v\<lparr>au_dedupe_key := None, au_finalized_at := Some (t_now t)\<rparr> else v))"

definition reset_finalizing_to_pending :: "ident \<Rightarrow> ident \<Rightarrow> string \<Rightarrow> bool prog" where
  "reset_finalizing_to_pending upload_id token failure_code =
     transition_owned_finalizing upload_id token ''pending'' failure_code"

definition touch_artifact_finalization :: "ident \<Rightarrow> ident \<Rightarrow> bool prog" where
  "touch_artifact_finalization upload_id token = atomically (\<lambda>t.
     update_upload upload_id (owned_by token) (\<lambda>u. u\<lparr>au_updated_at := t_now t\<rparr>))"

definition run_with_artifact_finalization_heartbeat ::
  "ident \<Rightarrow> ident \<Rightarrow> (turn \<Rightarrow> upload_world \<Rightarrow> (storage_exn + 'a) \<times> upload_world) \<Rightarrow> 'a kept prog" where
  "run_with_artifact_finalization_heartbeat upload_id token =
     run_with_heartbeat (touch_artifact_finalization upload_id token)"

definition mark_verification_failure ::
  "'s claim_storage_scheme \<Rightarrow> upload_settings \<Rightarrow> upload_session \<Rightarrow> ident \<Rightarrow> string \<Rightarrow> bool res prog" where
  "mark_verification_failure storage us u token failure_code =
     (if \<not> upload_storage_matches storage u then Ret (Inl storage_unavailable)
      else andthen (transition_owned_finalizing (au_id u) token ''failed'' failure_code) (\<lambda>transitioned.
        if \<not> transitioned then Ret (Inr False)
        else andthen (atomically (\<lambda>t. update_upload (au_id u)
            (\<lambda>r. au_status r = ''failed'' \<and> au_canonical_cleanup_completed_at r = None)
            (\<lambda>r. r\<lparr>au_canonical_cleanup_completed_at := Some (t_now t), au_updated_at := t_now t\<rparr>))) (\<lambda>_.
          andthen (cleanup_terminal_artifact_staging storage us (au_id u) ''failed'') (\<lambda>_. Ret (Inr True)))))"

definition fail_owned_after_canonical_publish ::
  "'s claim_storage_scheme \<Rightarrow> upload_settings \<Rightarrow> ident \<Rightarrow> ident \<Rightarrow> string \<Rightarrow> bool prog" where
  "fail_owned_after_canonical_publish storage us upload_id token failure_code =
     andthen (transition_owned_finalizing upload_id token ''failed'' failure_code) (\<lambda>transitioned.
     if \<not> transitioned then Ret False
     else andthen (cleanup_terminal_artifact_staging storage us upload_id ''failed'') (\<lambda>_. Ret True))"

definition ownership_changed :: api_error where
  "ownership_changed = HTTPException 409 ''upload finalization ownership changed''"

definition reload_artifact_upload_for_cleanup :: "ident \<Rightarrow> upload_session res prog" where
  "reload_artifact_upload_for_cleanup upload_id = reading (\<lambda>t w.
     case get_upload upload_id w of None \<Rightarrow> Inl ownership_changed | Some u \<Rightarrow> Inr u)"

text \<open>\<open>e\<close> is raised if the transition was made, the loss of the token otherwise.\<close>

definition raise_if :: "bool prog \<Rightarrow> api_error \<Rightarrow> 'a res prog" where
  "raise_if transition e = andthen transition (\<lambda>transitioned.
     Ret (Inl (if transitioned then e else ownership_changed)))"

definition publish_failure ::
  "'s claim_storage_scheme \<Rightarrow> upload_settings \<Rightarrow> ident \<Rightarrow> ident \<Rightarrow> string \<Rightarrow> api_error \<Rightarrow> 'a res prog" where
  "publish_failure storage us upload_id token failure_code e =
     orelse (reload_artifact_upload_for_cleanup upload_id) (\<lambda>_.
       raise_if (fail_owned_after_canonical_publish storage us upload_id token failure_code) e)"

section \<open>The phases\<close>

record upload_finalize =
  uf_lease_id :: ident
  uf_attempt_id :: ident

definition upload_belongs_to_claim ::
  "upload_session \<Rightarrow> ident \<Rightarrow> ident \<Rightarrow> ident \<Rightarrow> ident \<Rightarrow> bool" where
  "upload_belongs_to_claim u job_id attempt_id lease_id worker_id \<longleftrightarrow>
     au_job_id u = job_id \<and> au_attempt_id u = attempt_id \<and> au_lease_id u = lease_id \<and>
     au_worker_id u = worker_id"

text \<open>The first transaction: the lease, the session, and the artifact of a finished one.\<close>

definition read_finalization ::
  "platform \<Rightarrow> ident \<Rightarrow> ident \<Rightarrow> ident \<Rightarrow> upload_finalize \<Rightarrow> turn \<Rightarrow> upload_world \<Rightarrow>
   (upload_session \<times> artifact_row option) res" where
  "read_finalization pf worker_id job_id upload_id rq t w =
     (case require_active_lease pf (t_now t) worker_id job_id (uf_lease_id rq) (ledger_view w) of
        Inl e \<Rightarrow> Inl e
      | Inr _ \<Rightarrow>
          (case get_upload upload_id w of
             None \<Rightarrow> Inl (HTTPException 409 ''upload session does not match lease'')
           | Some u \<Rightarrow>
               if \<not> upload_belongs_to_claim u job_id (uf_attempt_id rq) (uf_lease_id rq) worker_id
               then Inl (HTTPException 409 ''upload session does not match lease'')
               else Inr (u, Option.bind (au_artifact_id u)
                 (\<lambda>i. get_row ar_id i (artifacts_table (uw_ledger w))))))"

definition claim_finalization :: "ident \<Rightarrow> ident option prog" where
  "claim_finalization upload_id = atomically (\<lambda>t w.
     let (ok, w') = update_upload upload_id
           (\<lambda>u. au_status u = ''pending'' \<and> au_upload_write_token u = None \<and>
              au_finalization_token u = None \<and>
              (au_storage_backend u \<noteq> Local \<or> au_uploaded_at u \<noteq> None))
           (\<lambda>u. u\<lparr>au_status := ''finalizing'', au_finalization_token := Some (t_uuid t),
              au_failure_code := None, au_updated_at := t_now t\<rparr>) w
     in (if ok then Some (t_uuid t) else None, w'))"

text \<open>From the row to the token: everything that refuses before the row is claimed.\<close>

definition begin_finalization ::
  "'s claim_storage_scheme \<Rightarrow> upload_settings \<Rightarrow> upload_session \<Rightarrow> ident res prog" where
  "begin_finalization storage us u =
     (if au_status u \<in> set lost_statuses
      then Ret (Inl (HTTPException 409 (''upload session is '' @ au_status u)))
      else andthen (recover_stale_finalizing us u) (\<lambda>(recovered, v).
        if au_status u = ''finalizing'' \<and> \<not> recovered
        then Ret (Inl (HTTPException 409 ''upload session is already finalizing''))
        else if au_upload_write_token v \<noteq> None
        then Ret (Inl (HTTPException 409 ''upload session write is active''))
        else if au_storage_backend v = Local \<and> au_uploaded_at v = None
        then Ret (Inl (HTTPException 409 ''local upload is not sealed''))
        else andthen (reading (\<lambda>t w. t_now t)) (\<lambda>now.
          if au_expires_at v \<le> now
          then orelse (expire_upload storage us v) (\<lambda>(expired, _).
            Ret (Inl (if expired then HTTPException 409 ''upload session expired'' else state_changed)))
          else andthen (claim_finalization (au_id u)) (\<lambda>token.
            Ret (case token of
              None \<Rightarrow> Inl (HTTPException 409 ''upload session finalization conflict'')
            | Some token \<Rightarrow> Inr token)))))"

text \<open>The verified copy, or what a failed verification leads to.\<close>

definition verification_outcome ::
  "upload_settings \<Rightarrow> 's claim_storage_scheme \<Rightarrow> upload_session \<Rightarrow> ident \<Rightarrow> string kept \<Rightarrow> string res prog" where
  "verification_outcome us storage u token r =
     (let reset = (\<lambda>code e. raise_if (reset_finalizing_to_pending (au_id u) token code) e);
          mismatch = (\<lambda>code. orelse (mark_verification_failure storage us u token code) (\<lambda>transitioned.
            Ret (Inl (if transitioned
              then HTTPException 422 ''uploaded artifact failed size or SHA-256 verification''
              else ownership_changed))))
      in case r of
        Kept (Inr spool) \<Rightarrow> Ret (Inr spool)
      | Lost (Some _) \<Rightarrow> andthen (atomically remove_spool_file) (\<lambda>_. Ret (Inl ownership_changed))
      | Lost None \<Rightarrow> Ret (Inl ownership_changed)
      | Kept (Inl Not_Found) \<Rightarrow>
          reset ''uploaded_object_not_found'' (HTTPException 409 ''uploaded object not found'')
      | Kept (Inl (Spool_Failed code)) \<Rightarrow>
          reset code (HTTPException 503 ''artifact verification spool is temporarily unavailable'')
      | Kept (Inl (Mismatched code)) \<Rightarrow> mismatch code
      | Kept (Inl Too_Large) \<Rightarrow> mismatch ''size_mismatch''
      | Kept (Inl _) \<Rightarrow>
          reset ''verification_read_failed'' (HTTPException 503 ''artifact verification read failed''))"

definition verify_upload ::
  "platform \<Rightarrow> upload_settings \<Rightarrow> 's claim_storage_scheme \<Rightarrow> upload_session \<Rightarrow> ident \<Rightarrow> string res prog" where
  "verify_upload pf us storage u token =
     andthen (run_with_artifact_finalization_heartbeat (au_id u) token
       (spool_staged_object pf (au_temporary_object_key u) (au_expected_size_bytes u) (au_expected_sha256 u)))
     (verification_outcome us storage u token)"

definition claim_still_valid ::
  "platform \<Rightarrow> ident \<Rightarrow> ident \<Rightarrow> upload_finalize \<Rightarrow> datetime \<Rightarrow> ledger \<Rightarrow> unit res" where
  "claim_still_valid pf worker_id job_id rq now d =
     res_bind (require_active_lease pf now worker_id job_id (uf_lease_id rq) d) (\<lambda>lease.
       if l_attempt_id lease \<noteq> uf_attempt_id rq
       then Inl (HTTPException 409 ''upload attempt does not match lease'') else Inr ())"

definition claim_failure_code :: "api_error \<Rightarrow> string" where
  "claim_failure_code e =
     (if e = HTTPException 409 ''job configuration integrity check failed''
      then ''job_config_integrity_failed'' else ''claim_changed_after_verification'')"

definition spool_failure_code :: "storage_exn \<Rightarrow> string" where
  "spool_failure_code x = (case x of Spool_Failed code \<Rightarrow> code | _ \<Rightarrow> [])"

text \<open>The claim is looked at again before the bytes are published.\<close>

definition recheck_claim ::
  "platform \<Rightarrow> upload_settings \<Rightarrow> 's claim_storage_scheme \<Rightarrow> ident \<Rightarrow> ident \<Rightarrow> upload_finalize \<Rightarrow> ident \<Rightarrow> ident \<Rightarrow>
   unit res prog" where
  "recheck_claim pf us storage worker_id job_id rq upload_id token =
     andthen (reading (\<lambda>t w. claim_still_valid pf worker_id job_id rq (t_now t) (ledger_view w))) (\<lambda>r.
     case r of
       Inr _ \<Rightarrow> Ret (Inr ())
     | Inl e \<Rightarrow>
         orelse (reload_artifact_upload_for_cleanup upload_id) (\<lambda>u.
         andthen (atomically remove_spool_file) (\<lambda>removed.
         let (code, answer) = (case removed of
               Inr _ \<Rightarrow> (claim_failure_code e, e)
             | Inl x \<Rightarrow> (spool_failure_code x,
                 HTTPException 503 ''artifact verification spool cleanup failed''))
         in orelse (mark_verification_failure storage us u token code) (\<lambda>transitioned.
              Ret (Inl (if transitioned then answer else ownership_changed))))))"

definition publication_outcome ::
  "upload_settings \<Rightarrow> 's claim_storage_scheme \<Rightarrow> upload_session \<Rightarrow> ident \<Rightarrow> unit kept \<Rightarrow> storage_exn + unit \<Rightarrow>
   unit res prog" where
  "publication_outcome us storage u token r removed =
     (case r of
       Lost _ \<Rightarrow> Ret (Inl ownership_changed)
     | Kept (Inl _) \<Rightarrow>
         publish_failure storage us (au_id u) token ''storage_publish_failed''
           (HTTPException 503 ''verified artifact publish failed'')
     | Kept (Inr _) \<Rightarrow>
         (case removed of
            Inr _ \<Rightarrow> Ret (Inr ())
          | Inl x \<Rightarrow>
              publish_failure storage us (au_id u) token (spool_failure_code x)
                (HTTPException 503 ''artifact verification spool cleanup failed'')))"

definition publish_upload ::
  "upload_settings \<Rightarrow> 's claim_storage_scheme \<Rightarrow> upload_session \<Rightarrow> ident \<Rightarrow> string \<Rightarrow> unit res prog" where
  "publish_upload us storage u token spool =
     andthen (run_with_artifact_finalization_heartbeat (au_id u) token
       (store_verified_file storage (au_canonical_object_key u) spool)) (\<lambda>r.
     andthen (atomically remove_spool_file) (publication_outcome us storage u token r))"

text \<open>The commit: the claim under its locks, then the artifact, its outbox event and the session.\<close>

definition final_check ::
  "platform \<Rightarrow> ident \<Rightarrow> ident \<Rightarrow> upload_finalize \<Rightarrow> ident \<Rightarrow> ident \<Rightarrow> turn \<Rightarrow> upload_world \<Rightarrow> upload_session res" where
  "final_check pf worker_id job_id rq upload_id token t w =
     res_bind (claim_still_valid pf worker_id job_id rq (t_now t) (ledger_view w)) (\<lambda>_.
       case get_upload upload_id w of
         None \<Rightarrow> Inl ownership_changed
       | Some u \<Rightarrow> if owned_by token u then Inr u else Inl ownership_changed)"

definition verified_artifact ::
  "'s claim_storage_scheme \<Rightarrow> upload_session \<Rightarrow> ident \<Rightarrow> string \<Rightarrow> artifact_row" where
  "verified_artifact storage u artifact_id uri =
     \<lparr>ar_id = artifact_id, ar_job_id = au_job_id u, ar_attempt_id = au_attempt_id u,
      ar_artifact_type = au_artifact_type u, ar_filename = au_filename u, ar_storage_uri = uri,
      ar_size_bytes = au_expected_size_bytes u, ar_sha256 = au_expected_sha256 u,
      ar_mime_type = Some (au_content_type u),
      ar_metadata_json = AList.update ''manager_verification'' (JObj
        [(''algorithm'', JStr ''sha256''), (''bounded_stream'', JBool True),
         (''upload_session_id'', JStr (au_id u)),
         (''storage_backend'', JStr (storage_backend_value (backend storage)))]) (au_metadata_json u)\<rparr>"

definition completed_row :: "ident \<Rightarrow> upload_session \<Rightarrow> datetime \<Rightarrow> upload_session \<Rightarrow> upload_session" where
  "completed_row artifact_id u now r = (drop_tokens r)\<lparr>au_artifact_id := Some artifact_id,
     au_status := ''completed'', au_failure_code := None,
     au_uploaded_at := Some (or_else (au_uploaded_at u) now), au_finalized_at := Some now,
     au_updated_at := now\<rparr>"

datatype commit_outcome =
    Artifact_Committed artifact_row
  | Ownership_Lost
  | Config_Invalid
  | Commit_Refused api_error
  | Already_Exists
  | Commit_Crashed api_error

definition commit_artifact ::
  "platform \<Rightarrow> upload_settings \<Rightarrow> 's claim_storage_scheme \<Rightarrow> upload_session \<Rightarrow> ident \<Rightarrow> turn \<Rightarrow> upload_world \<Rightarrow>
   commit_outcome \<times> upload_world" where
  "commit_artifact pf us storage u token t w =
     (case storage_uri storage (au_canonical_object_key u) of
        None \<Rightarrow> (Commit_Crashed (Unhandled ''InvalidObjectKey''), w)
      | Some uri \<Rightarrow>
          let artifact = verified_artifact storage u (t_uuid t) uri;
              d = artifacts_table_update (\<lambda>as. as @ [artifact]) (uw_ledger w)
          in if \<exists>a \<in> set (artifacts_table (uw_ledger w)). ar_id a = ar_id artifact \<or>
               ar_attempt_id a = ar_attempt_id artifact \<and> ar_artifact_type a = ar_artifact_type artifact \<and>
               ar_sha256 a = ar_sha256 artifact
          then (Already_Exists, w)
          else case get_job (ar_job_id artifact) d of
            None \<Rightarrow> (Commit_Refused (HTTPException 409 ''artifact job no longer exists''), w)
          | Some job \<Rightarrow>
              (case enqueue_artifact pf (manager_settings us) (t_now t) (t_event_id t) job artifact d of
                 Inl e \<Rightarrow> (if e = Unhandled ''InvalidJobConfigLedger'' then Config_Invalid
                          else Commit_Crashed e, w)
               | Inr (_, d') \<Rightarrow>
                   let (completed, w') = update_upload (au_id u) (owned_by token)
                         (completed_row (t_uuid t) u (t_now t)) (w\<lparr>uw_ledger := d'\<rparr>)
                   in if completed then (Artifact_Committed artifact, w') else (Ownership_Lost, w)))"

definition commit_result ::
  "upload_settings \<Rightarrow> 's claim_storage_scheme \<Rightarrow> ident \<Rightarrow> ident \<Rightarrow> commit_outcome \<Rightarrow> artifact_row res prog" where
  "commit_result us storage upload_id token outcome =
     (case outcome of
        Artifact_Committed artifact \<Rightarrow>
          andthen (cleanup_terminal_artifact_staging storage us upload_id ''completed'') (\<lambda>_.
          Ret (Inr artifact))
      | Ownership_Lost \<Rightarrow> Ret (Inl (HTTPException 409 ''upload finalization lost ownership''))
      | Config_Invalid \<Rightarrow>
          publish_failure storage us upload_id token ''job_config_integrity_failed''
            (HTTPException 409 ''job configuration integrity check failed'')
      | Commit_Refused e \<Rightarrow> publish_failure storage us upload_id token ''artifact_commit_conflict'' e
      | Already_Exists \<Rightarrow>
          publish_failure storage us upload_id token ''artifact_commit_conflict''
            (HTTPException 409 ''canonical artifact already exists'')
      | Commit_Crashed e \<Rightarrow> Ret (Inl e))"

definition commit_upload ::
  "platform \<Rightarrow> upload_settings \<Rightarrow> 's claim_storage_scheme \<Rightarrow> ident \<Rightarrow> ident \<Rightarrow> upload_finalize \<Rightarrow> ident \<Rightarrow> ident \<Rightarrow>
   artifact_row res prog" where
  "commit_upload pf us storage worker_id job_id rq upload_id token =
     andthen (reading (final_check pf worker_id job_id rq upload_id token)) (\<lambda>r.
     case r of
       Inl e \<Rightarrow> publish_failure storage us upload_id token (claim_failure_code e) e
     | Inr u \<Rightarrow>
         andthen (atomically (commit_artifact pf us storage u token)) (commit_result us storage upload_id token))"

definition finalize_artifact_upload ::
  "platform \<Rightarrow> upload_settings \<Rightarrow> 's claim_storage_scheme \<Rightarrow> ident \<Rightarrow> ident \<Rightarrow> ident \<Rightarrow> upload_finalize \<Rightarrow>
   artifact_row res prog" where
  "finalize_artifact_upload pf us storage worker_id job_id upload_id rq =
     orelse (reading (read_finalization pf worker_id job_id upload_id rq)) (\<lambda>(u, artifact).
     if \<not> upload_storage_matches storage u then Ret (Inl storage_unavailable)
     else case (if au_status u = ''completed'' then artifact else None) of
       Some a \<Rightarrow> Ret (Inr a)
     | None \<Rightarrow>
         orelse (begin_finalization storage us u) (\<lambda>token.
         orelse (verify_upload pf us storage u token) (\<lambda>spool.
         orelse (recheck_claim pf us storage worker_id job_id rq (au_id u) token) (\<lambda>_.
         orelse (publish_upload us storage u token spool) (\<lambda>_.
         commit_upload pf us storage worker_id job_id rq (au_id u) token)))))"

section \<open>The system\<close>

text \<open>
  The requests and the reconciler as they arrive, and the interleaving: each event starts a program or gives one
  its next turn. Other requests of the Manager change the ledger, and clients of the object store write to
  it with the URLs they were given.
\<close>

datatype upload_request =
    Initialize string ident ident upload_init
  | Put_Bytes ident upload_put
  | Finalize ident ident ident upload_finalize
  | Reconcile

datatype upload_reply =
    Initialized "upload_init_response res"
  | Stored "unit res"
  | Finalized "artifact_row res"
  | Reconciled cleanup_result

definition serve_upload ::
  "platform \<Rightarrow> upload_settings \<Rightarrow> 's claim_storage_scheme \<Rightarrow> bool \<Rightarrow> upload_request \<Rightarrow> upload_reply prog" where
  "serve_upload pf us storage bind_checksum request =
     (case request of
        Initialize base_url worker_id job_id raw \<Rightarrow>
          (case validate_upload_init pf raw of
             Inl _ \<Rightarrow> Ret (Initialized (Inl (HTTPException 422 ''validation error'')))
           | Inr rq \<Rightarrow> andthen (initialize_artifact_upload pf us storage bind_checksum base_url worker_id job_id rq)
               (\<lambda>r. Ret (Initialized r)))
      | Put_Bytes upload_id rq \<Rightarrow>
          andthen (local_presigned_upload pf us storage upload_id rq) (\<lambda>r. Ret (Stored r))
      | Finalize worker_id job_id upload_id rq \<Rightarrow>
          andthen (finalize_artifact_upload pf us storage worker_id job_id upload_id rq)
            (\<lambda>r. Ret (Finalized r))
      | Reconcile \<Rightarrow>
          andthen (reconcile_artifact_upload_cleanup storage us None) (\<lambda>r. Ret (Reconciled r)))"

datatype upload_event =
    Arrives upload_request
  | Takes_Turn nat turn
  | Ledger_Moves ledger
  | Client_Stores string "string option"

record upload_system =
  sy_programs :: "upload_reply prog list"
  sy_world :: upload_world

definition system_step ::
  "platform \<Rightarrow> upload_settings \<Rightarrow> 's claim_storage_scheme \<Rightarrow> bool \<Rightarrow> upload_event \<Rightarrow> upload_system \<Rightarrow> upload_system" where
  "system_step pf us storage bind_checksum e s =
     (case e of
        Arrives request \<Rightarrow>
          s\<lparr>sy_programs := sy_programs s @ [serve_upload pf us storage bind_checksum request]\<rparr>
      | Takes_Turn n t \<Rightarrow>
          (if n < length (sy_programs s)
           then case sy_programs s ! n of
             Ret _ \<Rightarrow> s
           | Act f \<Rightarrow> (case f t (sy_world s) of (p, w) \<Rightarrow>
               s\<lparr>sy_programs := (sy_programs s)[n := p], sy_world := w\<rparr>)
           else s)
      | Ledger_Moves d \<Rightarrow> s\<lparr>sy_world := (sy_world s)\<lparr>uw_ledger := d\<rparr>\<rparr>
      | Client_Stores key content \<Rightarrow>
          s\<lparr>sy_world := (sy_world s)\<lparr>uw_objects := (uw_objects (sy_world s))(key := content)\<rparr>\<rparr>)"

primrec run_system ::
  "platform \<Rightarrow> upload_settings \<Rightarrow> 's claim_storage_scheme \<Rightarrow> bool \<Rightarrow> upload_event list \<Rightarrow> upload_system \<Rightarrow> upload_system" where
  "run_system pf us storage bind_checksum [] s = s"
| "run_system pf us storage bind_checksum (e # es) s =
     run_system pf us storage bind_checksum es (system_step pf us storage bind_checksum e s)"

text \<open>
  What the surroundings may do. Other code of the Manager adds artifact rows of its own but neither changes nor
  removes one; clients never write under the canonical prefix, for which nobody is given a URL.
\<close>

definition allowed_event :: "upload_event \<Rightarrow> upload_system \<Rightarrow> bool" where
  "allowed_event e s \<longleftrightarrow>
     (case e of
        Ledger_Moves d \<Rightarrow>
          prefix (artifacts_table (uw_ledger (sy_world s))) (artifacts_table d) \<and>
          wf_table ar_id (artifacts_table d)
      | Client_Stores key _ \<Rightarrow> prefix ''artifacts/staging/'' key
      | _ \<Rightarrow> True)"

primrec allowed_run ::
  "platform \<Rightarrow> upload_settings \<Rightarrow> 's claim_storage_scheme \<Rightarrow> bool \<Rightarrow> upload_event list \<Rightarrow> upload_system \<Rightarrow> bool" where
  "allowed_run pf us storage bind_checksum [] s = True"
| "allowed_run pf us storage bind_checksum (e # es) s =
     (allowed_event e s \<and>
      allowed_run pf us storage bind_checksum es (system_step pf us storage bind_checksum e s))"

end
