(* ===== verification/Upload_Safety.thy ===== *)
theory Upload_Safety
  imports Upload_Finalize
begin

text \<open>
  What every interleaving of the upload requests keeps true. A row only ever moves as \<open>row_step\<close> allows, a
  world as \<open>world_step\<close> allows; a program is \<open>safe\<close> under an assertion that all such moves preserve if each of
  its actions is such a move and keeps the invariant \<open>upload_inv\<close>. The rules compose along the structure of the
  handlers, and the safety of all programs makes the invariant hold in every state of the system.
\<close>

section \<open>The life of a row\<close>

definition row_identity :: "upload_session \<Rightarrow> _" where
  "row_identity u = (au_id u, au_job_id u, au_attempt_id u, au_lease_id u, au_worker_id u, au_artifact_type u,
     au_filename u, au_content_type u, au_expected_size_bytes u, au_expected_sha256 u,
     au_canonical_object_key u, au_storage_backend u, au_storage_namespace_sha256 u, au_metadata_json u,
     au_idempotency_key u, au_generation u, au_request_fingerprint u, au_temporary_object_key u)"

definition upload_moves :: "(string \<times> string) list" where
  "upload_moves =
     [(''pending'', ''finalizing''), (''pending'', ''expired''), (''finalizing'', ''pending''),
      (''finalizing'', ''failed''), (''finalizing'', ''completed'')]"

definition row_step :: "upload_session \<Rightarrow> upload_session \<Rightarrow> bool" where
  "row_step u v \<longleftrightarrow> row_identity v = row_identity u \<and>
     (au_status v = au_status u \<and> au_artifact_id v = au_artifact_id u \<or>
      (au_status u, au_status v) \<in> set upload_moves \<and>
        (au_status v \<noteq> ''completed'' \<longrightarrow> au_artifact_id v = au_artifact_id u)) \<and>
     (au_staging_cleanup_completed_at u \<noteq> None \<longrightarrow> au_staging_cleanup_completed_at v \<noteq> None) \<and>
     (au_canonical_cleanup_completed_at u \<noteq> None \<longrightarrow> au_canonical_cleanup_completed_at v \<noteq> None)"

lemma row_step_refl [intro, simp]: "row_step u u" by (simp add: row_step_def)

lemma row_step_terminal:
  assumes "row_step u v" "au_status u \<in> set terminal_upload_statuses"
  shows "au_status v = au_status u" "au_artifact_id v = au_artifact_id u"
  using assms by (auto simp: row_step_def upload_moves_def terminal_upload_statuses_def)

lemma lost_terminal: "s \<in> set lost_statuses \<Longrightarrow> s \<in> set terminal_upload_statuses"
  by (auto simp: lost_statuses_def terminal_upload_statuses_def)

lemma row_step_quota: "row_step u v \<Longrightarrow> quota_session v \<Longrightarrow> quota_session u"
  by (auto simp: row_step_def quota_session_def upload_moves_def lost_statuses_def)

section \<open>The world\<close>

abbreviation ledger_artifacts :: "upload_world \<Rightarrow> artifact_row list" where
  "ledger_artifacts w \<equiv> artifacts_table (uw_ledger w)"

text \<open>Rows take steps, the object of a row that is not lost stays, artifacts stay.\<close>

definition world_step :: "upload_world \<Rightarrow> upload_world \<Rightarrow> bool" where
  "world_step w v \<longleftrightarrow>
     (\<exists>f new. uw_uploads v = map f (uw_uploads w) @ new \<and> (\<forall>u \<in> set (uw_uploads w). row_step u (f u))) \<and>
     (\<forall>u \<in> set (uw_uploads v). \<forall>b. au_status u \<notin> set lost_statuses \<longrightarrow>
        uw_objects w (au_canonical_object_key u) = Some b \<longrightarrow>
        uw_objects v (au_canonical_object_key u) = Some b) \<and>
     prefix (ledger_artifacts w) (ledger_artifacts v)"

text \<open>What a completed upload of the configured store is: its artifact and its bytes.\<close>

definition upload_kept :: "platform \<Rightarrow> 's claim_storage_scheme \<Rightarrow> upload_world \<Rightarrow> upload_session \<Rightarrow> bool" where
  "upload_kept pf storage w u \<longleftrightarrow>
     (\<exists>i uri content. au_artifact_id u = Some i \<and>
        storage_uri storage (au_canonical_object_key u) = Some uri \<and>
        verified_artifact storage u i uri \<in> set (ledger_artifacts w) \<and>
        uw_objects w (au_canonical_object_key u) = Some content \<and>
        int (length content) = au_expected_size_bytes u \<and> sha256 pf content = au_expected_sha256 u)"

definition row_ok :: "platform \<Rightarrow> 's claim_storage_scheme \<Rightarrow> upload_world \<Rightarrow> upload_session \<Rightarrow> bool" where
  "row_ok pf storage w u \<longleftrightarrow>
     au_temporary_object_key u = staging_object_key (au_attempt_id u) (au_id u) \<and>
     au_canonical_object_key u =
       canonical_object_key (au_job_id u) (au_attempt_id u) (au_artifact_type u) (au_id u) \<and>
     1 \<le> au_expected_size_bytes u \<and>
     (au_status u = ''completed'' \<and> upload_storage_matches storage u \<longrightarrow> upload_kept pf storage w u)"

definition within_quota :: "upload_settings \<Rightarrow> upload_session list \<Rightarrow> bool" where
  "within_quota us rows \<longleftrightarrow> (\<forall>attempt.
     length (quota_rows attempt rows) \<le> artifact_attempt_max_sessions us \<and>
     sum_list (map au_expected_size_bytes (quota_rows attempt rows)) \<le> max 0 (artifact_attempt_max_bytes us))"

definition upload_inv :: "platform \<Rightarrow> upload_settings \<Rightarrow> 's claim_storage_scheme \<Rightarrow> upload_world \<Rightarrow> bool" where
  "upload_inv pf us storage w \<longleftrightarrow>
     wf_table au_id (uw_uploads w) \<and> distinct (map au_canonical_object_key (uw_uploads w)) \<and>
     wf_table ar_id (ledger_artifacts w) \<and>
     (\<forall>u \<in> set (uw_uploads w). row_ok pf storage w u) \<and> within_quota us (uw_uploads w)"

text \<open>Same identity, same keys, sizes and artifacts.\<close>

lemma row_identity_fields:
  assumes "row_identity v = row_identity u"
  shows "au_id v = au_id u" "au_canonical_object_key v = au_canonical_object_key u"
    "au_temporary_object_key v = au_temporary_object_key u"
    "au_expected_size_bytes v = au_expected_size_bytes u" "au_expected_sha256 v = au_expected_sha256 u"
    "au_attempt_id v = au_attempt_id u" "au_job_id v = au_job_id u"
    "au_artifact_type v = au_artifact_type u"
    "upload_storage_matches storage v = upload_storage_matches storage u"
    "verified_artifact storage v i uri = verified_artifact storage u i uri"
  using assms by (auto simp: row_identity_def upload_storage_matches_def verified_artifact_def)

lemma row_step_identity: "row_step u v \<Longrightarrow> row_identity v = row_identity u"
  by (simp add: row_step_def)

lemma canonical_not_staging: "\<not> prefix ''artifacts/staging/'' (canonical_object_key j a ty i)"
  by (simp add: canonical_object_key_def)

lemma staging_prefix: "prefix ''artifacts/staging/'' (staging_object_key a i)"
  by (simp add: staging_object_key_def)

lemma within_quota_map:
  assumes "within_quota us rows" and "\<And>u. u \<in> set rows \<Longrightarrow> row_step u (f u) \<and> 1 \<le> au_expected_size_bytes u"
  shows "within_quota us (map f rows)"
proof -
  have "length (quota_rows a (map f rows)) \<le> length (quota_rows a rows) \<and>
      sum_list (map au_expected_size_bytes (quota_rows a (map f rows)))
        \<le> sum_list (map au_expected_size_bytes (quota_rows a rows))" for a
    using assms(2)
  proof (induction rows)
    case (Cons u rows)
    from Cons.prems [of u] have u: "row_step u (f u)" "1 \<le> au_expected_size_bytes u" by simp_all
    then have "au_attempt_id (f u) = au_attempt_id u" "au_expected_size_bytes (f u) = au_expected_size_bytes u"
      "quota_session (f u) \<Longrightarrow> quota_session u"
      by (auto dest: row_step_identity row_identity_fields row_step_quota)
    moreover have IH: "length (quota_rows a (map f rows)) \<le> length (quota_rows a rows)"
      "sum_list (map au_expected_size_bytes (quota_rows a (map f rows)))
        \<le> sum_list (map au_expected_size_bytes (quota_rows a rows))"
      using Cons.IH Cons.prems by simp_all
    ultimately show ?case using u(2) by (auto simp: quota_rows_def)
  qed (simp add: quota_rows_def)
  then show ?thesis using assms(1) unfolding within_quota_def by (meson order_trans)
qed

lemma upload_kept_step:
  assumes "upload_kept pf storage w u" "row_step u v" "au_status u = ''completed''"
    and "\<And>b. uw_objects w (au_canonical_object_key u) = Some b \<Longrightarrow> uw_objects w' (au_canonical_object_key u) = Some b"
    and "prefix (ledger_artifacts w) (ledger_artifacts w')"
  shows "upload_kept pf storage w' v"
proof -
  have "row_identity v = row_identity u" "au_artifact_id v = au_artifact_id u"
    using assms(2,3) row_step_terminal(2) [OF assms(2)] by (simp_all add: row_step_def terminal_upload_statuses_def)
  then show ?thesis
    using assms(1,4,5) set_mono_prefix [OF assms(5)]
    unfolding upload_kept_def by (auto simp: row_identity_fields [of v u])
qed

text \<open>The invariant along a step that adds no row.\<close>

lemma inv_step:
  assumes inv: "upload_inv pf us storage w" and rows: "uw_uploads v = map f (uw_uploads w)"
    and steps: "\<And>u. u \<in> set (uw_uploads w) \<Longrightarrow> row_step u (f u)"
    and kept: "\<And>u b. u \<in> set (uw_uploads v) \<Longrightarrow> au_status u \<notin> set lost_statuses \<Longrightarrow>
      uw_objects w (au_canonical_object_key u) = Some b \<Longrightarrow> uw_objects v (au_canonical_object_key u) = Some b"
    and artifacts: "prefix (ledger_artifacts w) (ledger_artifacts v)" "wf_table ar_id (ledger_artifacts v)"
    and completing: "\<And>u. u \<in> set (uw_uploads w) \<Longrightarrow> au_status u \<noteq> ''completed'' \<Longrightarrow>
      au_status (f u) = ''completed'' \<Longrightarrow> upload_storage_matches storage u \<Longrightarrow> upload_kept pf storage v (f u)"
  shows "upload_inv pf us storage v \<and> world_step w v"
proof
  show "world_step w v"
    unfolding world_step_def using rows steps kept artifacts(1)
    by (intro conjI exI [of _ f] exI [of _ "[]"]) auto
  have same: "au_id (f u) = au_id u" "au_canonical_object_key (f u) = au_canonical_object_key u"
    if "u \<in> set (uw_uploads w)" for u
    using row_identity_fields [OF row_step_identity [OF steps [OF that]]] by simp_all
  have maps: "map au_id (uw_uploads v) = map au_id (uw_uploads w)"
    "map au_canonical_object_key (uw_uploads v) = map au_canonical_object_key (uw_uploads w)"
    using same by (auto simp: rows)
  have ok: "row_ok pf storage v (f u)" if u: "u \<in> set (uw_uploads w)" for u
  proof -
    have old: "row_ok pf storage w u" using inv u by (simp add: upload_inv_def)
    note eqs = row_identity_fields [OF row_step_identity [OF steps [OF u]]]
    have "upload_kept pf storage v (f u)" if c: "au_status (f u) = ''completed''" "upload_storage_matches storage u"
    proof (cases "au_status u = ''completed''")
      case True
      have fu: "f u \<in> set (uw_uploads v)" using u by (simp add: rows)
      have "au_status (f u) \<notin> set lost_statuses" using c by (simp add: lost_statuses_def)
      note stays = kept [OF fu this, unfolded eqs(2)]
      have "upload_kept pf storage w u" using old c(2) True by (simp add: row_ok_def)
      then show ?thesis by (rule upload_kept_step [OF _ steps [OF u] True stays artifacts(1)])
    qed (rule completing [OF u _ c])
    then show ?thesis using old by (simp add: row_ok_def eqs)
  qed
  have "within_quota us (uw_uploads v)"
    using inv steps unfolding rows upload_inv_def by (intro within_quota_map) (auto simp: row_ok_def)
  moreover have "\<forall>u \<in> set (uw_uploads v). row_ok pf storage v u" using ok by (auto simp: rows)
  ultimately show "upload_inv pf us storage v"
    using inv artifacts(2) by (simp add: upload_inv_def wf_table_def maps)
qed

section \<open>Safe programs\<close>

definition stable :: "('w \<Rightarrow> bool) \<Rightarrow> ('w \<Rightarrow> 'w \<Rightarrow> bool) \<Rightarrow> ('w \<Rightarrow> bool) \<Rightarrow> bool" where
  "stable I G P \<longleftrightarrow> (\<forall>w v. I w \<longrightarrow> I v \<longrightarrow> G w v \<longrightarrow> P w \<longrightarrow> P v)"

inductive safe ::
  "(upload_world \<Rightarrow> bool) \<Rightarrow> (upload_world \<Rightarrow> upload_world \<Rightarrow> bool) \<Rightarrow> ('a \<Rightarrow> upload_world \<Rightarrow> bool) \<Rightarrow>
   'a prog \<Rightarrow> (upload_world \<Rightarrow> bool) \<Rightarrow> bool" for I G Q where
  safe_Ret: "(\<And>w. I w \<Longrightarrow> P w \<Longrightarrow> Q x w) \<Longrightarrow> safe I G Q (Ret x) P"
| safe_Act: "(\<And>t w. I w \<Longrightarrow> P w \<Longrightarrow> I (snd (f t w)) \<and> G w (snd (f t w)) \<and>
      (\<exists>P'. stable I G P' \<and> P' (snd (f t w)) \<and> safe I G Q (fst (f t w)) P')) \<Longrightarrow> safe I G Q (Act f) P"

inductive_cases safe_RetE: "safe I G Q (Ret x) P"
inductive_cases safe_ActE: "safe I G Q (Act f) P"

lemma safe_weaken:
  assumes "safe I G Q p P" "\<And>w. I w \<Longrightarrow> P' w \<Longrightarrow> P w"
  shows "safe I G Q p P'"
  using assms by (cases rule: safe.cases) (auto intro!: safe.intros)

lemma safe_andthen:
  assumes "safe I G R p P" and "\<And>x. safe I G Q (k x) (R x)"
  shows "safe I G Q (andthen p k) P"
  using assms(1)
proof (induction rule: safe.induct)
  case (safe_Ret P x)
  then show ?case using safe_weaken [OF assms(2)] by simp
next
  case (safe_Act P f)
  have "I (snd (f t w)) \<and> G w (snd (f t w)) \<and>
      (\<exists>P'. stable I G P' \<and> P' (snd (f t w)) \<and> safe I G Q (andthen (fst (f t w)) k) P')"
    if "I w" "P w" for t w using safe_Act [OF that] by blast
  then show ?case by (auto intro!: safe.safe_Act simp: map_prod_def split_beta)
qed

lemma safe_atomically:
  assumes "\<And>t w. I w \<Longrightarrow> P w \<Longrightarrow> I (snd (f t w)) \<and> G w (snd (f t w)) \<and> R (fst (f t w)) (snd (f t w))"
    and "\<And>x. stable I G (R x)"
  shows "safe I G R (atomically f) P"
  unfolding atomically_def
proof (rule safe.safe_Act)
  fix t w assume "I w" "P w"
  from assms(1) [OF this, of t] assms(2)
  show "I (snd (map_prod Ret id (f t w))) \<and> G w (snd (map_prod Ret id (f t w))) \<and>
      (\<exists>P'. stable I G P' \<and> P' (snd (map_prod Ret id (f t w))) \<and> safe I G R (fst (map_prod Ret id (f t w))) P')"
    by (auto simp: map_prod_def split_beta intro!: exI [of _ "R (fst (f t w))"] safe_Ret)
qed

text \<open>A program that is given a turn, and one that is not: the assertion of a program.\<close>

lemma safe_turn:
  assumes "safe I G Q (Act f) P" "I w" "P w"
  obtains P' where "I (snd (f t w))" "G w (snd (f t w))" "stable I G P'" "P' (snd (f t w))"
    "safe I G Q (fst (f t w)) P'"
  using assms by (elim safe_ActE) blast

section \<open>Assertions of the upload handlers\<close>

abbreviation steady :: "platform \<Rightarrow> upload_settings \<Rightarrow> 's claim_storage_scheme \<Rightarrow> (upload_world \<Rightarrow> bool) \<Rightarrow> bool" where
  "steady pf us storage \<equiv> stable (upload_inv pf us storage) world_step"

abbreviation secure ::
  "platform \<Rightarrow> upload_settings \<Rightarrow> 's claim_storage_scheme \<Rightarrow> ('a \<Rightarrow> upload_world \<Rightarrow> bool) \<Rightarrow> 'a prog \<Rightarrow>
   (upload_world \<Rightarrow> bool) \<Rightarrow> bool" where
  "secure pf us storage \<equiv> safe (upload_inv pf us storage) world_step"

text \<open>Programs that need to know nothing, and say nothing.\<close>

definition calm :: "platform \<Rightarrow> upload_settings \<Rightarrow> 's claim_storage_scheme \<Rightarrow> 'a prog \<Rightarrow> bool" where
  "calm pf us storage p \<longleftrightarrow> secure pf us storage (\<lambda>_ _. True) p (\<lambda>_. True)"

named_theorems calm_rules \<open>calm programs\<close>

lemma stable_True [simp]: "stable I G (\<lambda>_. True)" by (simp add: stable_def)

lemma stable_const [simp]: "stable I G (\<lambda>_. c)" by (simp add: stable_def)

lemma stable_conj: "stable I G P \<Longrightarrow> stable I G Q \<Longrightarrow> stable I G (\<lambda>w. P w \<and> Q w)"
  unfolding stable_def by blast

lemma calm_secure: "calm pf us storage p \<Longrightarrow> secure pf us storage (\<lambda>_ _. True) p P"
  unfolding calm_def by (erule safe_weaken) simp

lemma calm_Ret [calm_rules]: "calm pf us storage (Ret x)"
  by (simp add: calm_def safe_Ret)

lemma calm_andthen [calm_rules]:
  assumes "calm pf us storage p" "\<And>x. calm pf us storage (k x)"
  shows "calm pf us storage (andthen p k)"
  using assms safe_andthen unfolding calm_def by blast

lemma world_step_refl [simp]: "world_step w w"
  unfolding world_step_def by (intro conjI exI [of _ id] exI [of _ "[]"]) auto

lemma calm_atomically:
  assumes "\<And>t w. upload_inv pf us storage w \<Longrightarrow> upload_inv pf us storage (snd (f t w)) \<and> world_step w (snd (f t w))"
  shows "calm pf us storage (atomically f)"
  unfolding calm_def using assms by (intro safe_atomically) auto

lemma calm_reading [calm_rules]: "calm pf us storage (reading f)"
  unfolding reading_def by (rule calm_atomically) simp

lemma calm_orelse [calm_rules]:
  assumes "calm pf us storage p" "\<And>x. calm pf us storage (k x)"
  shows "calm pf us storage (orelse p k)"
  unfolding orelse_def using assms by (intro calm_andthen) (auto intro: calm_rules split: sum.split)

lemma calm_beats [calm_rules]: "calm pf us storage touch \<Longrightarrow> calm pf us storage (beats touch n)"
  by (induction n) (auto intro!: calm_rules)

section \<open>Updates of rows\<close>

lemma get_upload_mem:
  assumes "get_upload i w = Some u" shows "u \<in> set (uw_uploads w)" "au_id u = i"
  using assms get_row_SomeD by (fastforce simp: get_upload_def)+

lemma update_upload_inv:
  assumes "upload_inv pf us storage w"
    and "\<And>u. u \<in> set (uw_uploads w) \<Longrightarrow> au_id u = i \<Longrightarrow> matches u \<Longrightarrow>
      row_step u (vals u) \<and> (au_status (vals u) = ''completed'' \<longrightarrow> au_status u = ''completed'')"
  shows "upload_inv pf us storage (snd (update_upload i matches vals w)) \<and>
    world_step w (snd (update_upload i matches vals w))"
proof (rule inv_step [OF assms(1)])
  show "wf_table ar_id (ledger_artifacts (snd (update_upload i matches vals w)))"
    using assms(1) by (simp add: update_upload_def upload_inv_def)
  show "uw_uploads (snd (update_upload i matches vals w)) =
      map (\<lambda>u. if au_id u = i \<and> matches u then vals u else u) (uw_uploads w)"
    by (simp add: update_upload_def)
qed (use assms(2) in \<open>auto simp: update_upload_def\<close>)

lemma calm_update:
  assumes "\<And>t u. matches t u \<Longrightarrow>
      row_step u (vals t u) \<and> (au_status (vals t u) = ''completed'' \<longrightarrow> au_status u = ''completed'')"
  shows "calm pf us storage (atomically (\<lambda>t. update_upload i (matches t) (vals t)))"
  using assms by (intro calm_atomically update_upload_inv) blast+

text \<open>The updates that report more than whether a row was hit.\<close>

lemma calm_update_token:
  assumes "\<And>t u. matches t u \<Longrightarrow>
      row_step u (vals t u) \<and> (au_status (vals t u) = ''completed'' \<longrightarrow> au_status u = ''completed'')"
  shows "calm pf us storage (atomically (\<lambda>t w.
    let (ok, w') = update_upload i (matches t) (vals t) w in (if ok then Some (t_uuid t) else None, w')))"
  using update_upload_inv [where matches = "matches t" and vals = "vals t" for t] assms
  by (intro calm_atomically) (fastforce simp: split_beta Let_def)

end
