(* ===== verification/Upload_Guards.thy ===== *)
theory Upload_Guards
  imports Upload_Safety
begin

text \<open>
  Every handler of the upload is safe: the updates of rows one by one, the calls to the object store under
  what the handler knows when it makes them, and the handlers put together from them.
\<close>

section \<open>Single updates\<close>

lemmas row_step_defs = row_step_def row_identity_def upload_moves_def drop_tokens_def expired_row_def
  stamped_def claim_cleanup_def terminal_upload_statuses_def lost_statuses_def owned_by_def

lemma calm_touches [calm_rules]:
  "calm pf us storage (touch_cleanup_claim i token)"
  "calm pf us storage (touch_artifact_upload_write i token)"
  "calm pf us storage (touch_artifact_finalization i token)"
  unfolding touch_cleanup_claim_def touch_artifact_upload_write_def touch_artifact_finalization_def
  by (rule calm_update; simp add: row_step_defs)+

lemma calm_cleanup_records [calm_rules]:
  "calm pf us storage (record_cleanup_failure c token kind)"
  "calm pf us storage (record_cleanup_key_mismatch c token)"
  "calm pf us storage (record_first_delete c token kind)"
  "calm pf us storage (record_cleanup_complete c token kind single)"
  "calm pf us storage (release_cleanup_claim i token)"
  unfolding record_cleanup_failure_def record_cleanup_key_mismatch_def record_first_delete_def
    record_cleanup_complete_def release_cleanup_claim_def
  by (rule calm_update; cases kind; simp add: row_step_defs)+

lemma calm_write_updates [calm_rules]:
  "calm pf us storage (clear_artifact_upload_write i token)"
  "calm pf us storage (expire_artifact_upload_write i token)"
  "calm pf us storage (seal_upload i token)"
  unfolding clear_artifact_upload_write_def expire_artifact_upload_write_def seal_upload_def
  by (rule calm_update; simp add: row_step_defs)+

lemma calm_claims [calm_rules]:
  "calm pf us storage (claim_write i)"
  "calm pf us storage (claim_finalization i)"
  unfolding claim_write_def claim_finalization_def
  by (rule calm_update_token; simp add: row_step_defs)+

lemma calm_transition [calm_rules]:
  "status \<in> {''pending'', ''failed''} \<Longrightarrow>
   calm pf us storage (transition_owned_finalizing i token status code)"
  unfolding transition_owned_finalizing_def
  by (rule calm_update) (auto simp: row_step_defs Let_def)

lemma calm_recover [calm_rules]: "calm pf us storage (recover_stale_finalizing us' u)"
proof -
  have "upload_inv pf us storage (snd (update_upload i (\<lambda>r. au_status r = ''finalizing'' \<and> au_updated_at r \<le> c)
        (\<lambda>r. (stale_reset r)\<lparr>au_updated_at := n\<rparr>) w)) \<and>
      world_step w (snd (update_upload i (\<lambda>r. au_status r = ''finalizing'' \<and> au_updated_at r \<le> c)
        (\<lambda>r. (stale_reset r)\<lparr>au_updated_at := n\<rparr>) w))" if "upload_inv pf us storage w" for i c n w
    by (rule update_upload_inv [OF that]) (simp add: row_step_defs stale_reset_def)
  then show ?thesis
    by (auto simp: recover_stale_finalizing_def Let_def split_beta intro!: calm_rules calm_atomically)
qed

section \<open>What a handler knows of a row it has read\<close>

definition known :: "upload_session \<Rightarrow> upload_world \<Rightarrow> bool" where
  "known u w \<longleftrightarrow> (\<exists>v \<in> set (uw_uploads w). row_identity v = row_identity u \<and>
     (au_status u \<in> set terminal_upload_statuses \<longrightarrow> au_status v = au_status u))"

lemma known_mem: "u \<in> set (uw_uploads w) \<Longrightarrow> known u w"
  by (auto simp: known_def)

lemma steady_known: "steady pf us storage (known u)"
  unfolding stable_def
proof (intro allI impI)
  fix w v assume "world_step w v" "known u w"
  then obtain f new r where v: "uw_uploads v = map f (uw_uploads w) @ new"
    and f: "\<forall>u \<in> set (uw_uploads w). row_step u (f u)" and r: "r \<in> set (uw_uploads w)"
      "row_identity r = row_identity u" "au_status u \<in> set terminal_upload_statuses \<longrightarrow> au_status r = au_status u"
    unfolding world_step_def known_def by auto
  then have "row_step r (f r)" by simp
  then show "known u v"
    using v r row_step_identity [of r "f r"] row_step_terminal(1) [of r "f r"]
    unfolding known_def by (intro bexI [of _ "f r"]) auto
qed

lemma known_row:
  assumes "upload_inv pf us storage w" "known u w" "v \<in> set (uw_uploads w)" "au_id v = au_id u"
  shows "row_identity v = row_identity u"
    "au_status u \<in> set terminal_upload_statuses \<Longrightarrow> au_status v = au_status u"
proof -
  obtain r where r: "r \<in> set (uw_uploads w)" "row_identity r = row_identity u"
    "au_status u \<in> set terminal_upload_statuses \<longrightarrow> au_status r = au_status u"
    using assms(2) by (auto simp: known_def)
  then have "au_id r = au_id v" using row_identity_fields(1) [of r u] assms(4) by simp
  then have "r = v"
    using assms(1,3) r(1) get_row_mem unfolding upload_inv_def by (metis option.inject)
  then show "row_identity v = row_identity u"
    "au_status u \<in> set terminal_upload_statuses \<Longrightarrow> au_status v = au_status u" using r by auto
qed

lemma known_canonical:
  assumes "upload_inv pf us storage w" "known u w" "v \<in> set (uw_uploads w)"
    "au_canonical_object_key v = au_canonical_object_key u"
  shows "au_id v = au_id u"
proof -
  obtain r where r: "r \<in> set (uw_uploads w)" "row_identity r = row_identity u"
    using assms(2) by (auto simp: known_def)
  moreover have "inj_on au_canonical_object_key (set (uw_uploads w))"
    using assms(1) by (simp add: upload_inv_def distinct_map)
  ultimately have "r = v"
    using assms(3,4) row_identity_fields(2) [OF r(2)] by (simp add: inj_on_def)
  then show ?thesis using row_identity_fields(1) [OF r(2)] by simp
qed

text \<open>The canonical object of a row holds given bytes, for as long as the row is not lost.\<close>

definition published :: "upload_session \<Rightarrow> string \<Rightarrow> upload_world \<Rightarrow> bool" where
  "published u content w \<longleftrightarrow> known u w \<and>
     (\<forall>v \<in> set (uw_uploads w). au_id v = au_id u \<longrightarrow> au_status v \<notin> set lost_statuses \<longrightarrow>
        uw_objects w (au_canonical_object_key u) = Some content)"

lemma steady_published: "steady pf us storage (published u content)"
  unfolding stable_def
proof (intro allI impI)
  fix w v assume inv: "upload_inv pf us storage w" "upload_inv pf us storage v"
    and step: "world_step w v" and pub: "published u content w"
  have known: "known u v" using steady_known inv step pub unfolding stable_def published_def by blast
  moreover have "uw_objects v (au_canonical_object_key u) = Some content"
    if x: "x \<in> set (uw_uploads v)" "au_id x = au_id u" "au_status x \<notin> set lost_statuses" for x
  proof -
    obtain f new where rows: "uw_uploads v = map f (uw_uploads w) @ new"
      and f: "\<forall>u \<in> set (uw_uploads w). row_step u (f u)"
      and stays: "\<forall>u \<in> set (uw_uploads v). \<forall>b. au_status u \<notin> set lost_statuses \<longrightarrow>
        uw_objects w (au_canonical_object_key u) = Some b \<longrightarrow> uw_objects v (au_canonical_object_key u) = Some b"
      using step unfolding world_step_def by auto
    obtain r where r: "r \<in> set (uw_uploads w)" "row_identity r = row_identity u"
      using pub by (auto simp: published_def known_def)
    then have fr: "f r \<in> set (uw_uploads v)" "row_step r (f r)" using f by (auto simp: rows)
    then have "au_id (f r) = au_id x"
      using row_identity_fields(1) [OF row_step_identity] row_identity_fields(1) [OF r(2)] x(2) by metis
    then have fx: "f r = x"
      using fr(1) x(1) inv(2) get_row_mem unfolding upload_inv_def by (metis option.inject)
    then have "au_status r \<notin> set lost_statuses"
      using row_step_terminal(1) [OF fr(2)] lost_terminal x(3) by metis
    then have "uw_objects w (au_canonical_object_key u) = Some content"
      using pub r row_identity_fields(1) [OF r(2)] by (auto simp: published_def)
    moreover have "au_canonical_object_key x = au_canonical_object_key u"
      using known_row(1) [OF inv(2) known x(1,2)] row_identity_fields(2) by blast
    ultimately show ?thesis using stays x(1,3) by metis
  qed
  ultimately show "published u content v" by (auto simp: published_def)
qed

lemma safe_frame:
  assumes "safe I G Q p P" "stable I G F"
  shows "safe I G (\<lambda>x w. Q x w \<and> F w) p (\<lambda>w. P w \<and> F w)"
  using assms(1)
proof (induction rule: safe.induct)
  case (safe_Ret P x)
  then show ?case by (auto intro!: safe.safe_Ret)
next
  case (safe_Act P f)
  show ?case
  proof (rule safe.safe_Act)
    fix t w assume "I w" "P w \<and> F w"
    with safe_Act [of w t] obtain P' where "I (snd (f t w))" "G w (snd (f t w))" "stable I G P'" "P' (snd (f t w))"
      "safe I G (\<lambda>x w. Q x w \<and> F w) (fst (f t w)) (\<lambda>w. P' w \<and> F w)" by blast
    moreover from this have "F (snd (f t w))"
      using assms(2) \<open>I w\<close> \<open>P w \<and> F w\<close> unfolding stable_def by blast
    moreover have "stable I G (\<lambda>w. P' w \<and> F w)" using \<open>stable I G P'\<close> assms(2) by (rule stable_conj)
    ultimately show "I (snd (f t w)) \<and> G w (snd (f t w)) \<and> (\<exists>P'. stable I G P' \<and> P' (snd (f t w)) \<and>
        safe I G (\<lambda>x w. Q x w \<and> F w) (fst (f t w)) P')" by blast
  qed
qed

text \<open>A calm program keeps what is known across it.\<close>

lemma calm_keeps:
  assumes "calm pf us storage p" "steady pf us storage F"
  shows "secure pf us storage (\<lambda>_. F) p F"
  using safe_frame [OF assms(1) [unfolded calm_def] assms(2)] by simp

lemma secure_heartbeat:
  assumes "calm pf us storage touch" "steady pf us storage P" "\<And>r. steady pf us storage (R r)"
    and "secure pf us storage R (atomically operation) P"
  shows "secure pf us storage (\<lambda>k w. case k of Kept r \<Rightarrow> R r w | Lost _ \<Rightarrow> True)
    (run_with_heartbeat touch operation) P"
proof -
  have beats: "secure pf us storage (\<lambda>_. F) (beats touch n) F" "secure pf us storage (\<lambda>_. F) touch F"
    "secure pf us storage (\<lambda>_. F) (reading g) F"
    if "steady pf us storage F" for F n g
    using that assms(1) by (auto intro!: calm_keeps calm_rules)
  show ?thesis
    unfolding run_with_heartbeat_def after_operation_def
    by (rule safe_andthen [OF beats(2) [OF assms(2)]],
        auto simp: split_beta intro!: safe_Ret
          safe_andthen [OF beats(3) [OF assms(2)]] safe_andthen [OF beats(1) [OF assms(2)]]
          safe_andthen [OF assms(4)] safe_andthen [OF beats(1) [OF assms(3)]]
          safe_andthen [OF beats(2) [OF assms(3)]])
qed

section \<open>Calls to the object store\<close>

lemma put_object_inv:
  assumes "upload_inv pf us storage w"
    and "\<And>u. u \<in> set (uw_uploads w) \<Longrightarrow> au_canonical_object_key u = key \<Longrightarrow> uw_objects w key = None"
  shows "upload_inv pf us storage (put_object key content w) \<and> world_step w (put_object key content w)"
  by (rule inv_step [OF assms(1), of _ id]) (use assms in \<open>auto simp: put_object_def upload_inv_def\<close>)

lemma drop_object_inv:
  assumes "upload_inv pf us storage w"
    and "\<And>u. u \<in> set (uw_uploads w) \<Longrightarrow> au_canonical_object_key u = key \<Longrightarrow> au_status u \<in> set lost_statuses"
  shows "upload_inv pf us storage (drop_object key w) \<and> world_step w (drop_object key w)"
  by (rule inv_step [OF assms(1), of _ id]) (use assms in \<open>auto simp: drop_object_def upload_inv_def\<close>)

lemma staging_is_no_canonical:
  assumes "upload_inv pf us storage w" "prefix ''artifacts/staging/'' key" "u \<in> set (uw_uploads w)"
  shows "au_canonical_object_key u \<noteq> key"
  using assms canonical_not_staging by (auto simp: upload_inv_def row_ok_def)

lemma calm_write_stream:
  assumes "prefix ''artifacts/staging/'' key"
  shows "calm pf us storage (atomically (write_upload_stream key body n))"
proof (rule calm_atomically)
  fix t w assume inv: "upload_inv pf us storage w"
  have "upload_inv pf us storage (put_object key body w) \<and> world_step w (put_object key body w)"
    using staging_is_no_canonical [OF inv assms] by (intro put_object_inv [OF inv]) blast
  then show "upload_inv pf us storage (snd (write_upload_stream key body n t w)) \<and>
      world_step w (snd (write_upload_stream key body n t w))"
    using inv by (auto simp: write_upload_stream_def split: io.splits)
qed

lemma calm_reads [calm_rules]:
  "calm pf us storage (atomically (spool_staged_object pf' key n digest))"
  "calm pf us storage (atomically remove_spool_file)"
  by (rule calm_atomically;
      auto simp: spool_staged_object_def remove_spool_file_def split: io.splits option.splits)+

end
