(* ===== verification/Upload_Invariant.thy ===== *)
theory Upload_Invariant
  imports Upload_Guards
begin

text \<open>
  The reconciler, the three requests and the system they make up keep \<open>upload_inv\<close>. A reader of a row remembers
  it (\<open>known\<close>); what it does later rests on that and on nothing else it has seen.
\<close>

section \<open>The reconciler\<close>

lemma get_upload_known: "get_upload i w = Some u \<Longrightarrow> known u w"
  by (rule known_mem) (rule get_upload_mem)

abbreviation secured ::
  "platform \<Rightarrow> upload_settings \<Rightarrow> 's claim_storage_scheme \<Rightarrow> 'a prog \<Rightarrow> (upload_world \<Rightarrow> bool) \<Rightarrow> bool" where
  "secured pf us storage p P \<equiv> secure pf us storage (\<lambda>_ _. True) p P"

lemma secured_Ret [intro, simp]: "secured pf us storage (Ret x) P"
  by (simp add: safe_Ret)

lemma secured_andthen:
  assumes "secure pf us storage R p P" "\<And>x. secured pf us storage (k x) (R x)"
  shows "secured pf us storage (andthen p k) P"
  using assms by (rule safe_andthen)

lemma secured_orelse:
  assumes "secure pf us storage R p P" "\<And>x. secured pf us storage (k x) (R (Inr x))"
  shows "secured pf us storage (orelse p k) P"
  unfolding orelse_def by (rule safe_andthen [OF assms(1)]) (auto split: sum.split intro: assms(2))

lemma secure_reading:
  assumes "\<And>t w. upload_inv pf us storage w \<Longrightarrow> P w \<Longrightarrow> R (f t w) w" "\<And>x. steady pf us storage (R x)"
  shows "secure pf us storage R (reading f) P"
  unfolding reading_def using assms by (intro safe_atomically) auto

lemma delete_is_step:
  assumes "upload_inv pf us storage w"
    and "\<And>u. u \<in> set (uw_uploads w) \<Longrightarrow> au_canonical_object_key u = key \<Longrightarrow> au_status u \<in> set lost_statuses"
  shows "upload_inv pf us storage (snd (delete_object key t w)) \<and> world_step w (snd (delete_object key t w))"
  using drop_object_inv [OF assms] assms(1) by (auto simp: delete_object_def split: io.splits)

lemma calm_delete_staging:
  assumes "prefix ''artifacts/staging/'' key"
  shows "calm pf us storage (atomically (delete_object key))"
  using staging_is_no_canonical [OF _ assms] by (intro calm_atomically delete_is_step) blast+

lemma secured_delete_canonical:
  assumes "au_status c \<in> set lost_statuses" "au_canonical_object_key c = key"
  shows "secured pf us storage (atomically (delete_object key)) (known c)"
proof (rule safe_atomically)
  fix t w assume inv: "upload_inv pf us storage w" and known: "known c w"
  have "au_status u \<in> set lost_statuses" if u: "u \<in> set (uw_uploads w)" "au_canonical_object_key u = key" for u
    using known_row(2) [OF inv known u(1) known_canonical [OF inv known u(1)]] u(2) assms
      lost_terminal by metis
  from delete_is_step [OF inv this]
  show "upload_inv pf us storage (snd (delete_object key t w)) \<and> world_step w (snd (delete_object key t w)) \<and> True"
    by blast
qed simp

lemma secured_delete_current_object:
  assumes "action \<noteq> None \<Longrightarrow> secured pf us storage (atomically (delete_object key)) P"
    and "steady pf us storage P"
  shows "secured pf us storage (delete_current_object c token kind key action n) P"
proof (cases action)
  case (Some a)
  have work: "secure pf us storage (\<lambda>k w. case k of Kept r \<Rightarrow> True | Lost _ \<Rightarrow> True)
      (run_with_cleanup_heartbeat (au_id c) token (delete_object key)) P"
    unfolding run_with_cleanup_heartbeat_def
    using secure_heartbeat [OF _ assms(2) _ assms(1), of "touch_cleanup_claim (au_id c) token"]
    by (simp add: Some calm_rules)
  show ?thesis
    unfolding delete_current_object_def Some option.case
    by (rule secured_andthen [OF work], auto split: kept.split sum.split simp: Let_def
      intro!: calm_secure calm_rules)
qed (simp add: delete_current_object_def)

lemma secured_delete_candidate_objects:
  "secured pf us storage (delete_candidate_objects storage us' now c token n) (known c)"
proof (cases "validated_candidate_object_keys c")
  case None
  then show ?thesis by (auto simp: delete_candidate_objects_def intro!: calm_secure calm_rules)
next
  case (Some keys)
  then have keys: "keys = (staging_object_key (au_attempt_id c) (au_id c), au_canonical_object_key c)"
    by (auto simp: validated_candidate_object_keys_def Let_def split: if_splits)
  have "canonical_action us' now c \<noteq> None \<Longrightarrow> au_status c \<in> set lost_statuses"
    by (auto simp: canonical_action_def split: if_splits)
  then have canonical: "secured pf us storage (delete_current_object c token Canonical_Object
      (au_canonical_object_key c) (canonical_action us' now c) n) (known c)"
    by (intro secured_delete_current_object secured_delete_canonical steady_known) simp_all
  have staging: "secured pf us storage (delete_current_object c token Staging_Object
      (staging_object_key (au_attempt_id c) (au_id c)) (staging_action storage us' now c) m) (\<lambda>_. True)" for m
    by (intro secured_delete_current_object calm_secure calm_delete_staging staging_prefix) simp
  show ?thesis
    unfolding delete_candidate_objects_def Some keys option.case prod.case
    by (rule secured_andthen [OF canonical]) (auto intro: staging)
qed

lemma secure_claim_candidate:
  "secure pf us storage (\<lambda>r w. case r of None \<Rightarrow> True | Some (token, c) \<Rightarrow> known c w)
     (claim_candidate storage us' i) (\<lambda>_. True)"
proof -
  let ?R = "\<lambda>r w. case r of None \<Rightarrow> True | Some (token :: ident, c) \<Rightarrow> known c w"
  have "calm pf us storage (atomically (\<lambda>t w.
       let (ok, w') = update_upload i (\<lambda>u. upload_storage_matches storage u \<and>
             au_status u \<in> set terminal_upload_statuses \<and> cleanup_claimable us' (t_now t) u \<and>
             (au_staging_cleanup_completed_at u = None \<or>
              au_status u \<in> set lost_statuses \<and> au_canonical_cleanup_completed_at u = None))
           (claim_cleanup (t_uuid t) (t_now t)) w
       in (if ok then Some (t_uuid t) else None, w')))"
    by (rule calm_update_token) (simp add: row_step_defs)
  then have claim: "secure pf us storage (\<lambda>_ _. True) (atomically (\<lambda>t w.
       let (ok, w') = update_upload i (\<lambda>u. upload_storage_matches storage u \<and>
             au_status u \<in> set terminal_upload_statuses \<and> cleanup_claimable us' (t_now t) u \<and>
             (au_staging_cleanup_completed_at u = None \<or>
              au_status u \<in> set lost_statuses \<and> au_canonical_cleanup_completed_at u = None))
           (claim_cleanup (t_uuid t) (t_now t)) w
       in (if ok then Some (t_uuid t) else None, w'))) (\<lambda>_. True)" by (rule calm_secure)
  have "steady pf us storage (?R r)" for r by (cases r) (auto simp: steady_known)
  then have read: "secure pf us storage ?R (reading (\<lambda>t w. case get_upload i w of
        Some u \<Rightarrow> if au_cleanup_token u = Some token then Some (token, u) else None | None \<Rightarrow> None))
      (\<lambda>_. True)" for token
    by (intro secure_reading) (auto dest!: get_upload_known split: option.split)
  show ?thesis
    unfolding claim_candidate_def
  proof (rule safe_andthen [OF claim])
    fix x :: "ident option"
    show "secure pf us storage ?R (case x of None \<Rightarrow> Ret None
        | Some token \<Rightarrow> reading (\<lambda>t w. case get_upload i w of
            Some u \<Rightarrow> if au_cleanup_token u = Some token then Some (token, u) else None | None \<Rightarrow> None))
        (\<lambda>_. True)"
      using read by (cases x) (simp_all add: safe_Ret)
  qed
qed

lemma calm_reconcile_candidate [calm_rules]: "calm pf us storage (reconcile_candidate storage us' now i n)"
  unfolding calm_def reconcile_candidate_def
proof (rule secured_andthen [OF secure_claim_candidate])
  fix x :: "(ident \<times> upload_session) option"
  let ?k = "case x of None \<Rightarrow> Ret (n\<lparr>conflicts := conflicts n + 1\<rparr>)
    | Some (token, candidate) \<Rightarrow>
        andthen (delete_candidate_objects storage us' now candidate token (n\<lparr>claimed := claimed n + 1\<rparr>))
         (\<lambda>(c, ownership_lost). if ownership_lost then Ret c
            else andthen (release_cleanup_claim (au_id candidate) token)
                  (\<lambda>released. Ret (if released then c else c\<lparr>conflicts := conflicts c + 1\<rparr>)))"
  show "secured pf us storage ?k (\<lambda>w. case x of None \<Rightarrow> True | Some (token, c) \<Rightarrow> known c w)"
  proof (cases x)
    case (Some claim)
    obtain token c where claim: "claim = (token, c)" by fastforce
    show ?thesis
      unfolding Some claim option.case prod.case
      by (rule secured_andthen [OF secured_delete_candidate_objects])
        (auto split: prod.split intro!: calm_secure calm_rules)
  qed simp
qed

lemma calm_reconcile_candidates [calm_rules]: "calm pf us storage (reconcile_candidates storage us' now is n)"
  by (induction "is" arbitrary: n) (auto intro!: calm_rules)

lemma calm_reconcile [calm_rules]: "calm pf us storage (reconcile_artifact_upload_cleanup storage us' ids)"
  unfolding reconcile_artifact_upload_cleanup_def by (auto intro!: calm_rules)

lemma calm_cleanup_staging [calm_rules]:
  "calm pf us storage (cleanup_terminal_artifact_staging storage us' i status)"
  unfolding cleanup_terminal_artifact_staging_def by (auto intro!: calm_rules)

section \<open>Opening an upload\<close>

lemma calm_expire_upload [calm_rules]: "calm pf us storage (expire_upload storage us' u)"
  unfolding expire_upload_def
  by (auto intro!: calm_rules calm_update simp: row_step_defs split: prod.split)

lemma calm_init_response [calm_rules]: "calm pf us storage (init_response pf us' storage b base u)"
  unfolding init_response_def by (auto intro!: calm_rules)

lemma calm_refresh_found [calm_rules]: "calm pf us storage (refresh_found storage us' u)"
  unfolding refresh_found_def expire_found_def
  by (auto intro!: calm_rules split: prod.split option.split)

lemma calm_settle_existing [calm_rules]: "calm pf us storage (settle_existing pf us' storage rq u)"
  unfolding settle_existing_def by (auto intro!: calm_rules)

lemma calm_answer_raced [calm_rules]: "calm pf us storage (answer_raced pf us' storage b base rq)"
  unfolding answer_raced_def by (auto intro!: calm_rules split: option.split)

lemma new_upload_ok:
  assumes "1 \<le> ui_size_bytes rq"
  shows "row_ok pf storage w (new_upload pf' us' storage' worker job rq i g e n)"
  using assms by (simp add: row_ok_def new_upload_def)

lemma within_quota_insert:
  assumes "within_quota us rows" "enforce_attempt_artifact_quota us (au_attempt_id u) (au_expected_size_bytes u) w = Inr ()"
    and "uw_uploads w = rows" "quota_session u"
  shows "within_quota us (rows @ [u])"
  using assms by (auto simp: within_quota_def quota_rows_def enforce_attempt_artifact_quota_def)

lemma reserve_upload_cases:
  fixes pf us storage worker job rq i g e t w
  defines "r \<equiv> reserve_upload pf us storage worker job rq i g e t w"
  shows "snd r = w \<or> (\<exists>u g'. snd r = w\<lparr>uw_uploads := uw_uploads w @ [u]\<rparr> \<and>
      u = new_upload pf us storage worker job rq i g' e (t_now t) \<and>
      enforce_attempt_artifact_quota us (ui_attempt_id rq) (ui_size_bytes rq) w = Inr () \<and>
      (\<forall>r \<in> set (uw_uploads w). \<not> upload_conflict u r))"
proof -
  define raced where "raced = find_existing_upload (ui_attempt_id rq) (ui_idempotency_key rq)
    (upload_dedupe_key pf (ui_attempt_id rq) (ui_artifact_type rq) (ui_sha256 rq)) w"
  define answer where "answer = (if has_expired raced then find_deduplicated_upload
    (upload_dedupe_key pf (ui_attempt_id rq) (ui_artifact_type rq) (ui_sha256 rq)) w else raced)"
  define g' where "g' = raced_generation rq g raced"
  define u where "u = new_upload pf us storage worker job rq i g' e (t_now t)"
  note defs = r_def reserve_upload_def Let_def raced_def [symmetric] answer_def [symmetric] g'_def [symmetric]
    u_def [symmetric]
  have "snd r = w \<or> snd r = w\<lparr>uw_uploads := uw_uploads w @ [u]\<rparr> \<and>
      enforce_attempt_artifact_quota us (ui_attempt_id rq) (ui_size_bytes rq) w = Inr () \<and>
      (\<forall>r \<in> set (uw_uploads w). \<not> upload_conflict u r)"
    unfolding defs by (auto split: sum.split option.split)
  then show ?thesis using u_def by blast
qed

lemma calm_reserve:
  assumes "1 \<le> ui_size_bytes rq"
  shows "calm pf us storage (atomically (reserve_upload pf us storage worker job rq i g e))"
proof (rule calm_atomically)
  fix t w assume inv: "upload_inv pf us storage w"
  let ?r = "reserve_upload pf us storage worker job rq i g e t w"
  consider "snd ?r = w" | u g' where "snd ?r = w\<lparr>uw_uploads := uw_uploads w @ [u]\<rparr>"
      "u = new_upload pf us storage worker job rq i g' e (t_now t)"
      "enforce_attempt_artifact_quota us (ui_attempt_id rq) (ui_size_bytes rq) w = Inr ()"
      "\<forall>r \<in> set (uw_uploads w). \<not> upload_conflict u r"
    using reserve_upload_cases [of pf us storage worker job rq i g e t w] by blast
  then show "upload_inv pf us storage (snd ?r) \<and> world_step w (snd ?r)"
  proof cases
    case (2 u g')
    have u: "au_attempt_id u = ui_attempt_id rq" "au_expected_size_bytes u = ui_size_bytes rq"
      "quota_session u" "au_status u \<noteq> ''completed''"
      by (simp_all add: 2 new_upload_def quota_session_def)
    have "within_quota us (uw_uploads w @ [u])"
      using within_quota_insert [of us "uw_uploads w" u w] inv 2(3) u by (simp add: upload_inv_def)
    moreover have "row_ok pf storage (snd ?r) v" if "v \<in> set (uw_uploads w)" for v
      using inv that by (auto simp: upload_inv_def row_ok_def upload_kept_def 2(1))
    moreover have "row_ok pf storage (snd ?r) u" using new_upload_ok [OF assms] by (simp add: 2)
    moreover have "au_id u \<notin> au_id ` set (uw_uploads w)"
      "au_canonical_object_key u \<notin> au_canonical_object_key ` set (uw_uploads w)"
      using 2(4) by (auto simp: upload_conflict_def)
    ultimately have "upload_inv pf us storage (snd ?r)"
      using inv by (auto simp: upload_inv_def wf_table_def 2(1))
    moreover have "world_step w (snd ?r)"
      unfolding world_step_def 2(1) by (intro conjI exI [of _ id] exI [of _ "[u]"]) auto
    ultimately show ?thesis ..
  qed (use inv in simp)
qed

lemma calm_open_new_upload [calm_rules]:
  assumes "1 \<le> ui_size_bytes rq"
  shows "calm pf us storage (open_new_upload pf us storage b base worker job rq g)"
  unfolding open_new_upload_def
  by (auto intro!: calm_rules calm_reserve [OF assms] split: prod.split option.split reservation.split)

lemma calm_initialize [calm_rules]:
  assumes "1 \<le> ui_size_bytes rq"
  shows "calm pf us storage (initialize_artifact_upload pf us storage b base worker job rq)"
  unfolding initialize_artifact_upload_def
  by (auto intro!: calm_rules assms split: option.split found_upload.split)

section \<open>The bytes\<close>

lemma calm_finish_write [calm_rules]: "calm pf us storage (finish_write i token r)"
  unfolding finish_write_def Let_def
  by (auto intro!: calm_rules split: kept.split sum.split storage_exn.split)

lemma calm_run_with_heartbeat:
  assumes "calm pf us storage touch" "calm pf us storage (atomically operation)"
  shows "calm pf us storage (run_with_heartbeat touch operation)"
  unfolding run_with_heartbeat_def after_operation_def by (auto intro!: calm_rules assms split: prod.split)

lemma calm_store_bytes:
  assumes "prefix ''artifacts/staging/'' (au_temporary_object_key u)"
  shows "calm pf us storage (store_bytes pf' us' storage i rq now u)"
  unfolding store_bytes_def run_with_artifact_upload_write_heartbeat_def
  by (auto split: option.split prod.split
    intro!: calm_rules calm_run_with_heartbeat calm_write_stream assms)

lemma secured_const: "(c \<Longrightarrow> calm pf us storage p) \<Longrightarrow> secured pf us storage p (\<lambda>_. c)"
  by (cases c; cases p) (auto intro: calm_secure safe.intros)

lemma calm_put [calm_rules]: "calm pf us storage (local_presigned_upload pf' us' storage i rq)"
proof -
  let ?R = "\<lambda>r w. \<forall>u. snd r = Some u \<longrightarrow> prefix ''artifacts/staging/'' (au_temporary_object_key u)"
  have read: "secure pf us storage ?R (reading (\<lambda>t w. (t_now t, get_upload i w))) (\<lambda>_. True)"
    using get_upload_mem(1)
    by (intro secure_reading) (fastforce simp: upload_inv_def row_ok_def staging_object_key_def)+
  show ?thesis
    unfolding calm_def local_presigned_upload_def
  proof (rule if_split [THEN iffD2], intro conjI impI secured_Ret, rule secured_andthen [OF read], rule secured_const)
    fix r :: "datetime \<times> upload_session option"
    assume "\<forall>u. snd r = Some u \<longrightarrow> prefix ''artifacts/staging/'' (au_temporary_object_key u)"
    then show "calm pf us storage (case r of (now, None) \<Rightarrow> Ret (Inl (HTTPException 404 ''upload session not found''))
        | (now, Some u) \<Rightarrow> store_bytes pf' us' storage i rq now u)"
      by (auto split: option.split prod.split intro!: calm_rules calm_store_bytes)
  qed
qed

section \<open>Finalization\<close>

lemma calm_reset [calm_rules]: "calm pf us storage (reset_finalizing_to_pending i token code)"
  unfolding reset_finalizing_to_pending_def by (rule calm_transition) simp

lemma calm_failures [calm_rules]:
  "calm pf us storage (mark_verification_failure storage us' u token code)"
  "calm pf us storage (fail_owned_after_canonical_publish storage us' i token code)"
  unfolding mark_verification_failure_def fail_owned_after_canonical_publish_def
  by (auto intro!: calm_rules calm_update simp: row_step_defs)

lemma calm_raise_if [calm_rules]: "calm pf us storage p \<Longrightarrow> calm pf us storage (raise_if p e)"
  unfolding raise_if_def by (auto intro!: calm_rules)

lemma calm_publish_failure [calm_rules]: "calm pf us storage (publish_failure storage us' i token code e)"
  unfolding publish_failure_def reload_artifact_upload_for_cleanup_def by (auto intro!: calm_rules)

lemma calm_begin [calm_rules]: "calm pf us storage (begin_finalization storage us' u)"
  unfolding begin_finalization_def by (auto intro!: calm_rules split: prod.split)

lemma calm_recheck [calm_rules]: "calm pf us storage (recheck_claim pf' us' storage worker job rq i token)"
  unfolding recheck_claim_def reload_artifact_upload_for_cleanup_def
  by (auto intro!: calm_rules split: sum.split prod.split simp: Let_def)

text \<open>Programs that only ever raise.\<close>

definition fails :: "platform \<Rightarrow> upload_settings \<Rightarrow> 's claim_storage_scheme \<Rightarrow> ('e + 'a) prog \<Rightarrow> bool" where
  "fails pf us storage p \<longleftrightarrow> secure pf us storage (\<lambda>r _. \<forall>x. r \<noteq> Inr x) p (\<lambda>_. True)"

lemma safe_post:
  assumes "safe I G Q p P" "\<And>x w. I w \<Longrightarrow> Q x w \<Longrightarrow> Q' x w"
  shows "safe I G Q' p P"
  using assms(1)
proof (induction rule: safe.induct)
  case (safe_Act P f)
  have "I (snd (f t w)) \<and> G w (snd (f t w)) \<and>
      (\<exists>P'. stable I G P' \<and> P' (snd (f t w)) \<and> safe I G Q' (fst (f t w)) P')"
    if "I w" "P w" for t w using safe_Act [OF that] by blast
  then show ?case by (rule safe.safe_Act)
qed (auto intro: safe.safe_Ret assms(2))

lemma fails_secure:
  assumes "fails pf us storage p"
  shows "secure pf us storage (\<lambda>r w. \<forall>x. r = Inr x \<longrightarrow> Q x w) p P"
  by (rule safe_weaken [OF safe_post [OF assms [unfolded fails_def]]]) auto

lemma fails_Ret [intro, simp]: "fails pf us storage (Ret (Inl e))"
  by (simp add: fails_def safe_Ret)

lemma fails_andthen:
  assumes "calm pf us storage p" "\<And>x. fails pf us storage (k x)"
  shows "fails pf us storage (andthen p k)"
  using assms safe_andthen unfolding calm_def fails_def by blast

lemma fails_orelse:
  assumes "calm pf us storage p" "\<And>x. fails pf us storage (k x)"
  shows "fails pf us storage (orelse p k)"
  unfolding orelse_def using assms by (intro fails_andthen) (auto split: sum.split)

lemma fails_raise_if: "calm pf us storage p \<Longrightarrow> fails pf us storage (raise_if p e)"
  unfolding raise_if_def by (rule fails_andthen) auto

lemma fails_publish_failure: "fails pf us storage (publish_failure storage us' i token code e)"
  unfolding publish_failure_def reload_artifact_upload_for_cleanup_def
  by (intro fails_orelse fails_raise_if calm_rules)

text \<open>A step whose result is used only if it did not raise.\<close>

lemma secure_orelse:
  assumes "secure pf us storage (\<lambda>r w. \<forall>x. r = Inr x \<longrightarrow> R x w) p P"
    and "\<And>x. secure pf us storage (\<lambda>r w. \<forall>y. r = Inr y \<longrightarrow> Q y w) (k x) (R x)"
  shows "secure pf us storage (\<lambda>r w. \<forall>y. r = Inr y \<longrightarrow> Q y w) (orelse p k) P"
  unfolding orelse_def
proof (rule safe_andthen [OF assms(1)])
  fix r show "secure pf us storage (\<lambda>r w. \<forall>y. r = Inr y \<longrightarrow> Q y w)
      (case r of Inl e \<Rightarrow> Ret (Inl e) | Inr x \<Rightarrow> k x) (\<lambda>w. \<forall>x. r = Inr x \<longrightarrow> R x w)"
    using assms(2) by (cases r) (auto intro: safe_Ret)
qed

text \<open>A verified copy has the declared size and digest.\<close>

abbreviation declared :: "platform \<Rightarrow> upload_session \<Rightarrow> string \<Rightarrow> bool" where
  "declared pf u content \<equiv> int (length content) = au_expected_size_bytes u \<and> sha256 pf content = au_expected_sha256 u"

lemma secure_verify:
  assumes "steady pf us storage F"
  shows "secure pf us storage (\<lambda>r w. \<forall>content. r = Inr content \<longrightarrow> F w \<and> declared pf u content)
    (verify_upload pf us' storage u token) F"
proof -
  let ?R = "\<lambda>r w. F w \<and> (\<forall>content. r = Inr content \<longrightarrow> declared pf u content)"
  have steady: "steady pf us storage (?R r)" for r :: "storage_exn + string"
    using assms by (intro stable_conj) simp_all
  have read: "secure pf us storage ?R (atomically (spool_staged_object pf (au_temporary_object_key u)
      (au_expected_size_bytes u) (au_expected_sha256 u))) F"
    using steady by (intro safe_atomically)
      (auto simp: spool_staged_object_def split: io.splits option.splits)
  have work: "secure pf us storage (\<lambda>k w. case k of Kept r \<Rightarrow> ?R r w | Lost _ \<Rightarrow> True)
      (run_with_artifact_finalization_heartbeat (au_id u) token (spool_staged_object pf
        (au_temporary_object_key u) (au_expected_size_bytes u) (au_expected_sha256 u))) F"
    unfolding run_with_artifact_finalization_heartbeat_def
    using calm_touches(3) assms steady read by (rule secure_heartbeat)
  show ?thesis
    unfolding verify_upload_def
  proof (rule safe_andthen [OF work])
    fix k :: "string kept"
    show "secure pf us storage (\<lambda>r w. \<forall>content. r = Inr content \<longrightarrow> F w \<and> declared pf u content)
      (verification_outcome us' storage u token k) (\<lambda>w. case k of Kept r \<Rightarrow> ?R r w | Lost _ \<Rightarrow> True)"
    proof (cases "\<exists>s. k = Kept (Inr s)")
      case False
      then have "fails pf us storage (verification_outcome us' storage u token k)"
        unfolding verification_outcome_def Let_def
        by (auto split: kept.split sum.split option.split storage_exn.split
          intro!: fails_andthen fails_orelse fails_raise_if calm_rules)
      then show ?thesis by (rule fails_secure)
    qed (auto simp: verification_outcome_def intro: safe_Ret)
  qed
qed

lemma store_is_step:
  assumes "upload_inv pf us storage w"
  shows "upload_inv pf us storage (snd (store_verified_file storage key content t w)) \<and>
    world_step w (snd (store_verified_file storage key content t w))"
proof (cases "uw_objects w key = None")
  case True
  then have "upload_inv pf us storage (put_object key content w) \<and> world_step w (put_object key content w)"
    by (intro put_object_inv [OF assms]) simp
  then show ?thesis using assms by (simp add: store_verified_file_def split: io.split)
qed (use assms in \<open>simp add: store_verified_file_def\<close>)

lemma secure_publish:
  "secure pf us storage (\<lambda>r w. \<forall>x. r = Inr x \<longrightarrow> published u content w)
     (publish_upload us' storage u token content) (known u)"
proof -
  let ?R = "\<lambda>r w. known u w \<and> (\<forall>x. r = Inr x \<longrightarrow> published u content w)"
  have steady: "steady pf us storage (?R r)" for r :: "storage_exn + unit"
    using steady_known steady_published by (cases r) (auto intro!: stable_conj)
  have stored: "?R (fst (store_verified_file storage (au_canonical_object_key u) content t w))
      (snd (store_verified_file storage (au_canonical_object_key u) content t w))" if "known u w" for t w
    using that by (auto simp: store_verified_file_def put_object_def published_def known_def split: io.splits if_splits)
  have put: "secure pf us storage ?R (atomically (store_verified_file storage (au_canonical_object_key u) content))
      (known u)"
    using steady by (intro safe_atomically) (use store_is_step stored in blast)+
  have work: "secure pf us storage (\<lambda>k w. case k of Kept r \<Rightarrow> ?R r w | Lost _ \<Rightarrow> True)
      (run_with_artifact_finalization_heartbeat (au_id u) token
        (store_verified_file storage (au_canonical_object_key u) content)) (known u)"
    unfolding run_with_artifact_finalization_heartbeat_def
    using calm_touches(3) steady_known steady put by (rule secure_heartbeat)
  show ?thesis
    unfolding publish_upload_def
  proof (rule safe_andthen [OF work])
    fix k :: "unit kept"
    let ?P = "\<lambda>w. case k of Kept r \<Rightarrow> ?R r w | Lost _ \<Rightarrow> True"
    have steady_P: "steady pf us storage ?P" using steady by (cases k) simp_all
    have remove: "secure pf us storage (\<lambda>_. ?P) (atomically remove_spool_file) ?P"
      using calm_reads(2) steady_P by (rule calm_keeps)
    show "secure pf us storage (\<lambda>r w. \<forall>x. r = Inr x \<longrightarrow> published u content w)
        (andthen (atomically remove_spool_file) (publication_outcome us' storage u token k)) ?P"
    proof (rule safe_andthen [OF remove])
      fix removed :: "storage_exn + unit"
      show "secure pf us storage (\<lambda>r w. \<forall>x. r = Inr x \<longrightarrow> published u content w)
          (publication_outcome us' storage u token k removed) ?P"
      proof (cases "\<exists>x y. k = Kept (Inr x) \<and> removed = Inr y")
        case False
        then have "fails pf us storage (publication_outcome us' storage u token k removed)"
          unfolding publication_outcome_def
          by (auto split: kept.split sum.split intro!: fails_publish_failure)
        then show ?thesis by (rule fails_secure)
      qed (auto simp: publication_outcome_def intro: safe_Ret)
    qed
  qed
qed

text \<open>The commit: the artifact and the session, together or not at all.\<close>

lemma enqueue_artifact_artifacts:
  assumes "enqueue_artifact pf st now i job a d = Inr (k, d')"
  shows "artifacts_table d' = artifacts_table d"
  using assms by (auto simp: enqueue_artifact_def enqueue_for_job_def enqueue_def split: if_splits)

lemma commit_artifact_cases:
  fixes pf us storage u token t w
  defines "r \<equiv> commit_artifact pf us storage u token t w"
  shows "snd r = w \<or> (\<exists>uri d'. storage_uri storage (au_canonical_object_key u) = Some uri \<and>
     artifacts_table d' = ledger_artifacts w @ [verified_artifact storage u (t_uuid t) uri] \<and>
     t_uuid t \<notin> ar_id ` set (ledger_artifacts w) \<and>
     snd r = snd (update_upload (au_id u) (owned_by token) (completed_row (t_uuid t) u (t_now t))
       (w\<lparr>uw_ledger := d'\<rparr>)))"
proof (cases "storage_uri storage (au_canonical_object_key u)")
  case (Some uri)
  let ?a = "verified_artifact storage u (t_uuid t) uri"
  let ?d = "artifacts_table_update (\<lambda>as. as @ [?a]) (uw_ledger w)"
  show ?thesis
  proof (cases "(\<exists>a \<in> set (ledger_artifacts w). ar_id a = ar_id ?a \<or>
               ar_attempt_id a = ar_attempt_id ?a \<and> ar_artifact_type a = ar_artifact_type ?a \<and>
               ar_sha256 a = ar_sha256 ?a) \<or> get_job (ar_job_id ?a) ?d = None")
    case False
    then obtain job where job: "get_job (ar_job_id ?a) ?d = Some job" by auto
    have fresh: "t_uuid t \<notin> ar_id ` set (ledger_artifacts w)" using False by (auto simp: verified_artifact_def)
    show ?thesis
    proof (cases "enqueue_artifact pf (manager_settings us) (t_now t) (t_event_id t) job ?a ?d")
      case (Inr x)
      then obtain k d' where enq: "enqueue_artifact pf (manager_settings us) (t_now t) (t_event_id t) job ?a ?d = Inr (k, d')"
        by (cases x) auto
      then have "artifacts_table d' = ledger_artifacts w @ [?a]" using enqueue_artifact_artifacts by fastforce
      moreover have "snd r = w \<or> snd r = snd (update_upload (au_id u) (owned_by token)
          (completed_row (t_uuid t) u (t_now t)) (w\<lparr>uw_ledger := d'\<rparr>))"
        using False job unfolding r_def commit_artifact_def Some Let_def by (simp add: enq split_beta)
      ultimately show ?thesis using Some fresh by blast
    qed (use False job in \<open>simp add: r_def commit_artifact_def Some Let_def\<close>)
  qed (auto simp: r_def commit_artifact_def Some Let_def)
qed (simp add: r_def commit_artifact_def)

lemma completed_row_step: "owned_by token r \<Longrightarrow> row_step r (completed_row i u' n r)"
  by (simp add: completed_row_def row_step_defs)

lemma commit_is_step:
  assumes inv: "upload_inv pf us storage w" and pub: "published u content w"
    and same: "row_identity u' = row_identity u" and declared: "declared pf u content"
  shows "upload_inv pf us storage (snd (commit_artifact pf us storage u' token t w)) \<and>
    world_step w (snd (commit_artifact pf us storage u' token t w))"
  using commit_artifact_cases [of pf us storage u' token t w]
proof (elim disjE exE conjE)
  fix uri d'
  let ?v = "snd (commit_artifact pf us storage u' token t w)"
  let ?f = "\<lambda>r. if au_id r = au_id u' \<and> owned_by token r then completed_row (t_uuid t) u' (t_now t) r else r"
  assume uri: "storage_uri storage (au_canonical_object_key u') = Some uri"
    and artifacts: "artifacts_table d' = ledger_artifacts w @ [verified_artifact storage u' (t_uuid t) uri]"
    and fresh: "t_uuid t \<notin> ar_id ` set (ledger_artifacts w)"
    and v: "?v = snd (update_upload (au_id u') (owned_by token) (completed_row (t_uuid t) u' (t_now t))
      (w\<lparr>uw_ledger := d'\<rparr>))"
  have world: "uw_uploads ?v = map ?f (uw_uploads w)" "uw_objects ?v = uw_objects w" "uw_ledger ?v = d'"
    by (simp_all add: v update_upload_def)
  note eqs = row_identity_fields [OF same]
  show ?thesis
  proof (rule inv_step [OF inv world(1)])
    show "row_step r (?f r)" if "r \<in> set (uw_uploads w)" for r by (auto intro: completed_row_step)
    show "prefix (ledger_artifacts w) (ledger_artifacts ?v)" by (simp add: world artifacts)
    show "wf_table ar_id (ledger_artifacts ?v)"
      using inv fresh by (simp add: world artifacts upload_inv_def wf_table_def verified_artifact_def)
    fix r assume r: "r \<in> set (uw_uploads w)" "au_status r \<noteq> ''completed''" "au_status (?f r) = ''completed''"
    then have own: "au_id r = au_id u" "owned_by token r" using eqs(1) by (auto split: if_splits)
    have known: "known u w" using pub by (simp add: published_def)
    have rid: "row_identity r = row_identity u'" using known_row(1) [OF inv known r(1) own(1)] same by simp
    define x where "x = ?f r"
    have x: "x = completed_row (t_uuid t) u' (t_now t) r" using own eqs(1) by (simp add: x_def)
    have fid: "row_identity x = row_identity u'"
      using rid row_step_identity [OF completed_row_step [OF own(2)]] by (simp add: x)
    have "au_artifact_id x = Some (t_uuid t)" by (simp add: x completed_row_def)
    moreover have "uw_objects ?v (au_canonical_object_key x) = Some content"
      using pub r(1) own row_identity_fields(2) [OF fid] eqs(2)
      unfolding published_def world owned_by_def by (auto simp: lost_statuses_def)
    moreover have "declared pf x content"
      using declared row_identity_fields(4,5) [OF fid] eqs(4,5) by simp
    moreover have "verified_artifact storage x (t_uuid t) uri \<in> set (ledger_artifacts ?v)"
      "storage_uri storage (au_canonical_object_key x) = Some uri"
      using row_identity_fields(2) [OF fid] row_identity_fields(10) [OF fid, of storage] uri by (simp_all add: world artifacts)
    ultimately show "upload_kept pf storage ?v (?f r)" unfolding upload_kept_def x_def [symmetric] by blast
  qed (simp add: world)
qed (use inv in simp)

lemma secured_commit_upload:
  assumes "declared pf u content"
  shows "secured pf us storage (commit_upload pf us storage worker job rq (au_id u) token) (published u content)"
proof -
  let ?R = "\<lambda>r w. \<forall>u'. r = Inr u' \<longrightarrow> row_identity u' = row_identity u \<and> published u content w"
  have steady: "steady pf us storage (?R r)" for r :: "upload_session res"
    using steady_published by (cases r) (auto intro!: stable_conj)
  have check: "row_identity u' = row_identity u"
    if "upload_inv pf us storage w" "published u content w"
      "final_check pf worker job rq (au_id u) token t w = Inr u'" for u' t w
    using that known_row(1) get_upload_mem
    by (fastforce simp: final_check_def published_def split: option.splits if_splits)
  have read: "secure pf us storage ?R (reading (final_check pf worker job rq (au_id u) token)) (published u content)"
    using steady check by (intro secure_reading) auto
  have commit: "secured pf us storage (atomically (commit_artifact pf us storage u' token)) (published u content)"
    if "row_identity u' = row_identity u" for u'
  proof (rule safe_atomically)
    fix t w assume "upload_inv pf us storage w" "published u content w"
    from commit_is_step [OF this that assms, of token t]
    show "upload_inv pf us storage (snd (commit_artifact pf us storage u' token t w)) \<and>
        world_step w (snd (commit_artifact pf us storage u' token t w)) \<and> True" by simp
  qed simp
  have result: "calm pf us storage (commit_result us storage i token outcome)" for i outcome
    unfolding commit_result_def by (auto split: commit_outcome.split intro!: calm_rules)
  show ?thesis
    unfolding commit_upload_def
  proof (rule secured_andthen [OF read])
    fix r :: "upload_session res"
    show "secured pf us storage (case r of Inl e \<Rightarrow> publish_failure storage us (au_id u) token (claim_failure_code e) e
        | Inr u' \<Rightarrow> andthen (atomically (commit_artifact pf us storage u' token))
            (commit_result us storage (au_id u) token)) (?R r)"
    proof (cases r)
      case (Inr u')
      show ?thesis
      proof (cases "row_identity u' = row_identity u")
        case True
        have "secured pf us storage (andthen (atomically (commit_artifact pf us storage u' token))
            (commit_result us storage (au_id u) token)) (published u content)"
          by (rule secured_andthen [OF commit [OF True]]) (rule calm_secure, rule result)
        then show ?thesis unfolding Inr sum.case by (rule safe_weaken) simp
      next
        case False
        then show ?thesis unfolding Inr sum.case by (cases "andthen (atomically (commit_artifact pf us storage u' token))
            (commit_result us storage (au_id u) token)") (auto intro!: safe.intros)
      qed
    qed (auto intro!: calm_secure calm_rules)
  qed
qed

section \<open>The requests and the system\<close>

lemma calm_finalize [calm_rules]:
  "calm pf us storage (finalize_artifact_upload pf us storage worker job i rq)"
proof -
  let ?K = "\<lambda>r w. \<forall>x. r = Inr x \<longrightarrow> known (fst x) w"
  have read: "secure pf us storage ?K (reading (read_finalization pf worker job i rq)) (\<lambda>_. True)"
  proof (rule secure_reading)
    show "steady pf us storage (?K r)" for r :: "(upload_session \<times> artifact_row option) res"
      using steady_known by (cases r) auto
  qed (auto simp: read_finalization_def dest: get_upload_known split: sum.splits option.splits if_splits)
  have start: "secure pf us storage (\<lambda>r w. \<forall>x. r = Inr x \<longrightarrow> known u w) (begin_finalization storage us u) (known u)" for u
    by (rule safe_post [OF calm_keeps [OF calm_begin steady_known]]) auto
  have recheck: "secure pf us storage (\<lambda>r w. \<forall>x. r = Inr x \<longrightarrow> known u w)
      (recheck_claim pf us storage worker job rq (au_id u) token) (known u)" for u token
    by (rule safe_post [OF calm_keeps [OF calm_recheck steady_known]]) auto
  have commit: "secure pf us storage (\<lambda>r w. \<forall>x. r = Inr x \<longrightarrow> True)
      (commit_upload pf us storage worker job rq (au_id u) token) (published u content)"
    if "declared pf u content" for u content token
    using secured_commit_upload [OF that] by simp
  have body: "secure pf us storage (\<lambda>r w. \<forall>x. r = Inr x \<longrightarrow> True)
      (orelse (begin_finalization storage us u) (\<lambda>token.
         orelse (verify_upload pf us storage u token) (\<lambda>spool.
         orelse (recheck_claim pf us storage worker job rq (au_id u) token) (\<lambda>_.
         orelse (publish_upload us storage u token spool) (\<lambda>_.
         commit_upload pf us storage worker job rq (au_id u) token))))) (known u)" for u
  proof (rule secure_orelse [OF start], rule secure_orelse [OF secure_verify [OF steady_known]])
    fix token content
    show "secure pf us storage (\<lambda>r w. \<forall>x. r = Inr x \<longrightarrow> True)
      (orelse (recheck_claim pf us storage worker job rq (au_id u) token) (\<lambda>_.
         orelse (publish_upload us storage u token content) (\<lambda>_.
         commit_upload pf us storage worker job rq (au_id u) token)))
      (\<lambda>w. known u w \<and> declared pf u content)"
    proof (cases "declared pf u content")
      case True
      show ?thesis
        by (rule safe_weaken, rule secure_orelse [OF recheck], rule secure_orelse [OF secure_publish],
            rule commit [OF True]) simp
    next
      case False
      then show ?thesis by (cases "orelse (recheck_claim pf us storage worker job rq (au_id u) token) (\<lambda>_.
         orelse (publish_upload us storage u token content) (\<lambda>_.
         commit_upload pf us storage worker job rq (au_id u) token))") (auto intro!: safe.intros)
    qed
  qed
  have "secure pf us storage (\<lambda>r w. \<forall>y. r = Inr y \<longrightarrow> True)
      (finalize_artifact_upload pf us storage worker job i rq) (\<lambda>_. True)"
    unfolding finalize_artifact_upload_def
    by (rule secure_orelse [OF read])
      (use body in \<open>auto split: prod.split option.split intro: safe_Ret\<close>)
  then show ?thesis by (simp add: calm_def)
qed

lemma validated_size: "validate_upload_init pf raw = Inr rq \<Longrightarrow> 1 \<le> ui_size_bytes rq"
  by (auto simp: validate_upload_init_def Let_def)

theorem calm_serve_upload: "calm pf us storage (serve_upload pf us storage b request)"
proof (cases request)
  case (Initialize base worker job raw)
  then show ?thesis
    by (auto simp: serve_upload_def intro!: calm_rules validated_size split: sum.split)
qed (auto simp: serve_upload_def intro!: calm_rules)

text \<open>Every program of the system is safe under an assertion that holds now and is stable.\<close>

definition system_inv ::
  "platform \<Rightarrow> upload_settings \<Rightarrow> 's claim_storage_scheme \<Rightarrow> upload_system \<Rightarrow> bool" where
  "system_inv pf us storage s \<longleftrightarrow> upload_inv pf us storage (sy_world s) \<and>
     (\<forall>p \<in> set (sy_programs s). \<exists>P. steady pf us storage P \<and> P (sy_world s) \<and> secured pf us storage p P)"

lemma system_move:
  assumes "system_inv pf us storage s" "upload_inv pf us storage w" "world_step (sy_world s) w"
  shows "system_inv pf us storage (s\<lparr>sy_world := w\<rparr>)"
  using assms unfolding system_inv_def stable_def by simp blast

lemma ledger_move:
  assumes "upload_inv pf us storage w" "prefix (ledger_artifacts w) (artifacts_table d)" "wf_table ar_id (artifacts_table d)"
  shows "upload_inv pf us storage (w\<lparr>uw_ledger := d\<rparr>) \<and> world_step w (w\<lparr>uw_ledger := d\<rparr>)"
  by (rule inv_step [OF assms(1), of _ id]) (use assms in simp_all)

lemma client_move:
  assumes "upload_inv pf us storage w" "prefix ''artifacts/staging/'' key"
  shows "upload_inv pf us storage (w\<lparr>uw_objects := (uw_objects w)(key := content)\<rparr>) \<and>
    world_step w (w\<lparr>uw_objects := (uw_objects w)(key := content)\<rparr>)"
proof (rule inv_step [OF assms(1), of _ id])
  show "wf_table ar_id (ledger_artifacts (w\<lparr>uw_objects := (uw_objects w)(key := content)\<rparr>))"
    using assms(1) by (simp add: upload_inv_def)
qed (use staging_is_no_canonical [OF assms] in auto)

theorem system_step_inv:
  assumes inv: "system_inv pf us storage s" and allowed: "allowed_event e s"
  shows "system_inv pf us storage (system_step pf us storage b e s)"
    "world_step (sy_world s) (sy_world (system_step pf us storage b e s))"
proof -
  have "system_inv pf us storage (system_step pf us storage b e s) \<and>
    world_step (sy_world s) (sy_world (system_step pf us storage b e s))"
  proof (cases e)
    case (Arrives request)
    have "secured pf us storage (serve_upload pf us storage b request) (\<lambda>_. True)"
      using calm_serve_upload calm_def by blast
    then show ?thesis using inv by (auto simp: Arrives system_step_def system_inv_def intro: exI [of _ "\<lambda>_. True"])
  next
    case (Takes_Turn n t)
    show ?thesis
    proof (cases "n < length (sy_programs s) \<and> (\<exists>f. sy_programs s ! n = Act f)")
      case True
      then obtain f where n: "n < length (sy_programs s)" and f: "sy_programs s ! n = Act f" by blast
      then obtain P where P: "P (sy_world s)" "secured pf us storage (Act f) P"
        using inv nth_mem [OF n] by (auto simp: system_inv_def)
      have uinv: "upload_inv pf us storage (sy_world s)" using inv by (simp add: system_inv_def)
      obtain P' where step: "upload_inv pf us storage (snd (f t (sy_world s)))" "world_step (sy_world s) (snd (f t (sy_world s)))"
          "steady pf us storage P'" "P' (snd (f t (sy_world s)))" "secured pf us storage (fst (f t (sy_world s))) P'"
        using safe_turn [OF P(2) uinv P(1), of t] by blast
      have "system_inv pf us storage (s\<lparr>sy_world := snd (f t (sy_world s))\<rparr>)"
        using system_move [OF inv step(1,2)] .
      then show ?thesis
        using step n f by (auto simp: Takes_Turn system_step_def system_inv_def split_beta
          dest!: set_update_subset_insert [THEN subsetD])
    qed (use inv in \<open>auto simp: Takes_Turn system_step_def split: prog.split\<close>)
  next
    case (Ledger_Moves d)
    then show ?thesis
      using system_move [OF inv] ledger_move [of pf us storage "sy_world s" d] inv allowed
      by (auto simp: system_step_def allowed_event_def system_inv_def)
  next
    case (Client_Stores key content)
    then show ?thesis
      using system_move [OF inv] client_move [of pf us storage "sy_world s" key content] inv allowed
      by (auto simp: system_step_def allowed_event_def system_inv_def)
  qed
  then show "system_inv pf us storage (system_step pf us storage b e s)"
    "world_step (sy_world s) (sy_world (system_step pf us storage b e s))" by auto
qed

lemma run_system_inv:
  assumes "system_inv pf us storage s" "allowed_run pf us storage b es s"
  shows "system_inv pf us storage (run_system pf us storage b es s)"
  using assms by (induction es arbitrary: s) (auto intro: system_step_inv)

end
