(* ===== verification/Upload_Completion.thy ===== *)
theory Upload_Completion
  imports Upload_Claims
begin

text \<open>
  An upload that nobody disturbs completes: given the bytes it declared and a live claim, the finalization
  returns its artifact after finitely many turns, whatever the clock says within the claim and however often
  the heartbeat ticks.
\<close>

section \<open>Running one program alone\<close>

primrec run_alone :: "nat \<Rightarrow> (nat \<Rightarrow> turn) \<Rightarrow> 'a prog \<Rightarrow> upload_world \<Rightarrow> 'a prog \<times> upload_world" where
  "run_alone 0 s p w = (p, w)"
| "run_alone (Suc n) s p w =
     (case p of Ret x \<Rightarrow> (p, w)
      | Act f \<Rightarrow> run_alone n (\<lambda>k. s (Suc k)) (fst (f (s 0) w)) (snd (f (s 0) w)))"

inductive finishes :: "(turn \<Rightarrow> bool) \<Rightarrow> ('a \<Rightarrow> upload_world \<Rightarrow> bool) \<Rightarrow> 'a prog \<Rightarrow> upload_world \<Rightarrow> bool"
  for ok Q where
  finishes_Ret: "Q x w \<Longrightarrow> finishes ok Q (Ret x) w"
| finishes_Act: "(\<And>t. ok t \<Longrightarrow> finishes ok Q (fst (f t w)) (snd (f t w))) \<Longrightarrow> finishes ok Q (Act f) w"

lemma finishes_run:
  assumes "finishes ok Q p w" "\<And>n. ok (s n)"
  shows "\<exists>n x w'. run_alone n s p w = (Ret x, w') \<and> Q x w'"
  using assms
proof (induction arbitrary: s rule: finishes.induct)
  case (finishes_Ret x w)
  then show ?case by (intro exI [of _ 0]) simp
next
  case (finishes_Act f w)
  obtain n x w' where "run_alone n (\<lambda>k. s (Suc k)) (fst (f (s 0) w)) (snd (f (s 0) w)) = (Ret x, w')" "Q x w'"
    using finishes_Act.IH [of "s 0" "\<lambda>k. s (Suc k)"] finishes_Act.prems by blast
  then show ?case by (intro exI [of _ "Suc n"]) simp
qed

lemma finishes_andthen:
  assumes "finishes ok R p w" "\<And>x w'. R x w' \<Longrightarrow> finishes ok Q (k x) w'"
  shows "finishes ok Q (andthen p k) w"
  using assms(1) by induction (auto intro!: assms(2) finishes_Act simp: map_prod_def split_beta)

lemma finishes_atomically:
  "(\<And>t. ok t \<Longrightarrow> R (fst (f t w)) (snd (f t w))) \<Longrightarrow> finishes ok R (atomically f) w"
  by (auto simp: atomically_def map_prod_def split_beta intro!: finishes.intros)

lemma finishes_reading: "(\<And>t. ok t \<Longrightarrow> R (f t w) w) \<Longrightarrow> finishes ok R (reading f) w"
  unfolding reading_def by (rule finishes_atomically) simp

lemma finishes_orelse:
  assumes "finishes ok (\<lambda>r w'. \<exists>x. r = Inr x \<and> R x w') p w" "\<And>x w'. R x w' \<Longrightarrow> finishes ok Q (k x) w'"
  shows "finishes ok Q (orelse p k) w"
  unfolding orelse_def by (rule finishes_andthen [OF assms(1)]) (auto intro: assms(2))

text \<open>A safe program given turns ends, in a world where its assertion holds.\<close>

lemma finishes_safe:
  assumes "safe I G Q p P" "I w" "P w"
  shows "finishes ok (\<lambda>x w'. I w' \<and> Q x w') p w"
  using assms by (induction arbitrary: w rule: safe.induct) (auto intro!: finishes.intros)

lemma finishes_post:
  assumes "finishes ok R p w" "\<And>x w'. R x w' \<Longrightarrow> Q x w'"
  shows "finishes ok Q p w"
  using assms(1) by induction (auto intro: finishes.intros assms(2))

lemma finishes_beats:
  assumes "\<And>w. D w \<Longrightarrow> finishes ok (\<lambda>alive w'. alive \<and> D w') touch w" "D w"
  shows "finishes ok (\<lambda>alive w'. alive \<and> D w') (beats touch n) w"
  using assms(2)
proof (induction n arbitrary: w)
  case (Suc n)
  show ?case
    unfolding beats.simps by (rule finishes_andthen [OF assms(1) [OF Suc.prems]]) (simp add: Suc.IH)
qed (auto intro: finishes_Ret)

lemma finishes_heartbeat:
  assumes touch: "\<And>w. D w \<Longrightarrow> finishes ok (\<lambda>alive w'. alive \<and> D w') touch w"
      "\<And>w. E w \<Longrightarrow> finishes ok (\<lambda>alive w'. alive \<and> E w') touch w"
    and operation: "\<And>t w. ok t \<Longrightarrow> D w \<Longrightarrow> fst (operation t w) = Inr x \<and> E (snd (operation t w))"
    and "D w"
  shows "finishes ok (\<lambda>k w'. k = Kept (Inr x) \<and> E w') (run_with_heartbeat touch operation) w"
proof -
  have op: "finishes ok (\<lambda>r w'. r = Inr x \<and> E w') (atomically operation) w" if "D w" for w
    using operation that by (intro finishes_atomically) auto
  have ticks: "finishes ok (\<lambda>_. D) (reading (\<lambda>t w. (t_beats_before t, t_beats_after t))) w" if "D w" for w
    using that by (intro finishes_reading)
  have tail: "finishes ok (\<lambda>k w'. k = Kept (Inr x) \<and> E w') (after_operation touch m True (Inr x)) w" if "E w" for m w
    unfolding after_operation_def
    using finishes_andthen [OF finishes_beats [of E, OF touch(2) that]]
    by (auto intro!: finishes_andthen [OF finishes_beats [of E, OF touch(2) that]] finishes_andthen [OF touch(2)] finishes_Ret)
  have middle: "finishes ok (\<lambda>k w'. k = Kept (Inr x) \<and> E w')
      (andthen (atomically operation) (after_operation touch m True)) w" if "D w" for m w
    using tail by (intro finishes_andthen [OF op [OF that]]) auto
  show ?thesis
    unfolding run_with_heartbeat_def
  proof (rule finishes_andthen [OF touch(1) [OF assms(4)]], elim conjE, simp only: simp_thms if_False,
      rule finishes_andthen [OF ticks], assumption)
    fix n :: "nat \<times> nat" and v assume v: "D v"
    show "finishes ok (\<lambda>k w'. k = Kept (Inr x) \<and> E w') (case n of (before, after) \<Rightarrow>
        andthen (beats touch before) (\<lambda>alive. andthen (atomically operation) (after_operation touch after alive))) v"
      unfolding split_beta
      by (rule finishes_andthen [where R = "\<lambda>alive w'. alive \<and> D w'"], rule finishes_beats [of D, OF touch(1) v])
        (auto intro: middle)
  qed
qed

section \<open>A row under its token\<close>

text \<open>The world of a finalization nobody disturbs: the ledger it started from, and the row it owns.\<close>

definition owning ::
  "platform \<Rightarrow> upload_settings \<Rightarrow> 's claim_storage_scheme \<Rightarrow> upload_world \<Rightarrow> upload_session \<Rightarrow> ident \<Rightarrow>
   (string \<Rightarrow> string option) \<Rightarrow> upload_world \<Rightarrow> bool" where
  "owning pf us storage w u token objects v \<longleftrightarrow>
     upload_inv pf us storage v \<and> uw_ledger v = uw_ledger w \<and> uw_objects v = objects \<and>
     (\<exists>r \<in> set (uw_uploads v). row_identity r = row_identity u \<and> owned_by token r)"

lemma finishes_touch:
  assumes "owning pf us storage w u token objects v"
  shows "finishes ok (\<lambda>alive v'. alive \<and> owning pf us storage w u token objects v')
    (touch_artifact_finalization (au_id u) token) v"
  unfolding touch_artifact_finalization_def
proof (rule finishes_atomically)
  fix t
  let ?f = "\<lambda>u. u\<lparr>au_updated_at := t_now t\<rparr>"
  let ?r = "update_upload (au_id u) (owned_by token) ?f v"
  obtain r where r: "r \<in> set (uw_uploads v)" "row_identity r = row_identity u" "owned_by token r"
    using assms by (auto simp: owning_def)
  have "upload_inv pf us storage (snd ?r)"
    using assms by (intro update_upload_inv [THEN conjunct1]) (auto simp: owning_def row_step_defs)
  moreover have "?f r \<in> set (uw_uploads (snd ?r))" "row_identity (?f r) = row_identity u" "owned_by token (?f r)"
    using r row_identity_fields(1) [OF r(2)] by (force simp: update_upload_def row_identity_def owned_by_def)+
  moreover have "fst ?r" using r row_identity_fields(1) [OF r(2)] by (auto simp: update_upload_def)
  ultimately show "fst ?r \<and> owning pf us storage w u token objects (snd ?r)"
    using assms by (auto simp: owning_def update_upload_def)
qed

lemma ledger_view_claim [simp]:
  "require_active_lease pf now worker job lease (ledger_view w) =
     require_active_lease pf now worker job lease (uw_ledger w)"
  by (simp add: require_active_lease_def ledger_view_def split: option.split)

section \<open>The conditions\<close>

definition ready_upload ::
  "platform \<Rightarrow> 's claim_storage_scheme \<Rightarrow> ident \<Rightarrow> ident \<Rightarrow> upload_finalize \<Rightarrow> upload_session \<Rightarrow> upload_world \<Rightarrow> bool" where
  "ready_upload pf storage worker_id job_id rq u w \<longleftrightarrow>
     u \<in> set (uw_uploads w) \<and> au_status u = ''pending'' \<and> au_upload_write_token u = None \<and>
     au_finalization_token u = None \<and> (au_storage_backend u = Local \<longrightarrow> au_uploaded_at u \<noteq> None) \<and>
     upload_belongs_to_claim u job_id (uf_attempt_id rq) (uf_lease_id rq) worker_id \<and>
     upload_storage_matches storage u \<and> storage_uri storage (au_canonical_object_key u) \<noteq> None \<and>
     validate_object_key (au_temporary_object_key u) \<and> validate_object_key (au_canonical_object_key u) \<and>
     (\<exists>content. uw_objects w (au_temporary_object_key u) = Some content \<and> declared pf u content) \<and>
     uw_objects w (au_canonical_object_key u) = None \<and>
     (\<forall>a \<in> set (ledger_artifacts w). \<not> (ar_attempt_id a = au_attempt_id u \<and>
        ar_artifact_type a = au_artifact_type u \<and> ar_sha256 a = au_expected_sha256 u)) \<and>
     (\<exists>j. get_job job_id (uw_ledger w) = Some j \<and> get_experiment_row (j_experiment_id j) (uw_ledger w) \<noteq> None)"

definition healthy_turn ::
  "platform \<Rightarrow> ident \<Rightarrow> ident \<Rightarrow> upload_finalize \<Rightarrow> upload_session \<Rightarrow> upload_world \<Rightarrow> turn \<Rightarrow> bool" where
  "healthy_turn pf worker_id job_id rq u w t \<longleftrightarrow>
     t_io t = Io_Ok \<and> t_now t < au_expires_at u \<and> t_uuid t \<notin> ar_id ` set (ledger_artifacts w) \<and>
     claim_still_valid pf worker_id job_id rq (t_now t) (uw_ledger w) = Inr ()"

lemma claim_still_valid_view [simp]:
  "claim_still_valid pf worker job rq now (ledger_view w) = claim_still_valid pf worker job rq now (uw_ledger w)"
  by (simp add: claim_still_valid_def)

lemma claim_has_context:
  assumes "claim_still_valid pf worker job rq now d = Inr ()" "get_job job d = Some j"
  shows "\<exists>a. get_attempt (uf_attempt_id rq) d = Some a \<and> validated_job_config pf j (Some a) \<noteq> None"
  using assms
  by (auto simp: claim_still_valid_def require_active_lease_def split: option.splits if_splits)

section \<open>The phases\<close>

lemma finishes_begin:
  assumes "ready_upload pf storage worker job rq u w" "upload_inv pf us storage w"
    and "\<And>t. ok t \<Longrightarrow> t_now t < au_expires_at u"
  shows "finishes ok (\<lambda>r v. \<exists>token. r = Inr token \<and> owning pf us storage w u token (uw_objects w) v)
    (begin_finalization storage us u) w"
proof -
  let ?m = "\<lambda>u. au_status u = ''pending'' \<and> au_upload_write_token u = None \<and> au_finalization_token u = None \<and>
    (au_storage_backend u \<noteq> Local \<or> au_uploaded_at u \<noteq> None)"
  have u: "u \<in> set (uw_uploads w)" "?m u" "au_status u = ''pending''"
    using assms(1) by (auto simp: ready_upload_def)
  have claim: "finishes ok (\<lambda>r v. \<exists>token. r = Some token \<and> owning pf us storage w u token (uw_objects w) v)
      (claim_finalization (au_id u)) w"
    unfolding claim_finalization_def
  proof (rule finishes_atomically)
    fix t
    let ?f = "\<lambda>u. u\<lparr>au_status := ''finalizing'', au_finalization_token := Some (t_uuid t),
      au_failure_code := None, au_updated_at := t_now t\<rparr>"
    let ?r = "update_upload (au_id u) ?m ?f w"
    have "upload_inv pf us storage (snd ?r)"
      using assms(2) by (intro update_upload_inv [THEN conjunct1]) (auto simp: row_step_defs)
    moreover have "?f u \<in> set (uw_uploads (snd ?r))" "row_identity (?f u) = row_identity u" "owned_by (t_uuid t) (?f u)"
      using u by (force simp: update_upload_def row_identity_def owned_by_def)+
    moreover have "fst ?r" using u by (auto simp: update_upload_def)
    ultimately have "fst ?r \<and> owning pf us storage w u (t_uuid t) (uw_objects w) (snd ?r)"
      unfolding owning_def by (auto simp: update_upload_def)
    then show "\<exists>token. fst (let (ok, w') = ?r in (if ok then Some (t_uuid t) else None, w')) = Some token \<and>
        owning pf us storage w u token (uw_objects w) (snd (let (ok, w') = ?r in (if ok then Some (t_uuid t) else None, w')))"
      by (simp add: split_beta Let_def)
  qed
  show ?thesis
    using u assms(1,3) unfolding begin_finalization_def recover_stale_finalizing_def
    by (auto simp: lost_statuses_def ready_upload_def
      intro!: finishes_andthen [OF finishes_reading [where R = "\<lambda>now v. now < au_expires_at u \<and> v = w"]]
        finishes_andthen [OF claim] finishes_Ret)
qed

lemma finishes_verify:
  assumes "owning pf us storage w u token objects v" "objects (au_temporary_object_key u) = Some content"
    and "declared pf u content" "validate_object_key (au_temporary_object_key u)" "\<And>t. ok t \<Longrightarrow> t_io t = Io_Ok"
  shows "finishes ok (\<lambda>r v. \<exists>x. r = Inr x \<and> x = content \<and> owning pf us storage w u token objects v)
    (verify_upload pf us storage u token) v"
proof -
  have "finishes ok (\<lambda>k v. k = Kept (Inr content) \<and> owning pf us storage w u token objects v)
      (run_with_artifact_finalization_heartbeat (au_id u) token (spool_staged_object pf
        (au_temporary_object_key u) (au_expected_size_bytes u) (au_expected_sha256 u))) v"
    unfolding run_with_artifact_finalization_heartbeat_def
    by (rule finishes_heartbeat [OF finishes_touch finishes_touch _ assms(1)])
      (use assms(2-) in \<open>auto simp: spool_staged_object_def owning_def\<close>)
  then show ?thesis
    unfolding verify_upload_def
    by (rule finishes_andthen) (auto simp: verification_outcome_def intro: finishes_Ret)
qed

lemma finishes_recheck:
  assumes "owning pf us storage w u token objects v"
    and "\<And>t. ok t \<Longrightarrow> claim_still_valid pf worker job rq (t_now t) (uw_ledger w) = Inr ()"
  shows "finishes ok (\<lambda>r v. \<exists>x. r = Inr x \<and> owning pf us storage w u token objects v)
    (recheck_claim pf us storage worker job rq (au_id u) token) v"
  unfolding recheck_claim_def
  by (rule finishes_andthen [OF finishes_reading [where R = "\<lambda>r v'. r = Inr () \<and> v' = v"]])
    (use assms in \<open>auto simp: owning_def intro: finishes_Ret\<close>)

lemma finishes_publish:
  assumes "owning pf us storage w u token objects v" "objects (au_canonical_object_key u) = None"
    and "validate_object_key (au_canonical_object_key u)" "\<And>t. ok t \<Longrightarrow> t_io t = Io_Ok"
  shows "finishes ok (\<lambda>r v. \<exists>x. r = Inr x \<and>
      owning pf us storage w u token (objects(au_canonical_object_key u \<mapsto> content)) v)
    (publish_upload us storage u token content) v"
proof -
  let ?E = "owning pf us storage w u token (objects(au_canonical_object_key u \<mapsto> content))"
  have "finishes ok (\<lambda>k v. k = Kept (Inr ()) \<and> ?E v)
      (run_with_artifact_finalization_heartbeat (au_id u) token
        (store_verified_file storage (au_canonical_object_key u) content)) v"
    unfolding run_with_artifact_finalization_heartbeat_def
  proof (rule finishes_heartbeat [OF finishes_touch finishes_touch _ assms(1)])
    fix t v assume "ok t" "owning pf us storage w u token objects v"
    moreover from this have "upload_inv pf us storage (snd (store_verified_file storage (au_canonical_object_key u) content t v))"
      by (intro store_is_step [THEN conjunct1]) (simp add: owning_def)
    ultimately show "fst (store_verified_file storage (au_canonical_object_key u) content t v) = Inr () \<and>
        ?E (snd (store_verified_file storage (au_canonical_object_key u) content t v))"
      using assms(2-4) by (auto simp: store_verified_file_def owning_def put_object_def)
  qed
  then show ?thesis
    unfolding publish_upload_def
    by (rule finishes_andthen)
      (auto simp: publication_outcome_def remove_spool_file_def assms(4)
        intro!: finishes_andthen [OF finishes_atomically [where R = "\<lambda>r v. r = Inr () \<and> ?E v"]] finishes_Ret)
qed

text \<open>The completed row and its artifact, which the removal of the staging object leaves alone.\<close>

definition finished :: "upload_session \<Rightarrow> artifact_row \<Rightarrow> upload_world \<Rightarrow> bool" where
  "finished u a v \<longleftrightarrow> a \<in> set (ledger_artifacts v) \<and>
     (\<exists>r \<in> set (uw_uploads v). row_identity r = row_identity u \<and> au_status r = ''completed'' \<and>
        au_artifact_id r = Some (ar_id a))"

lemma steady_finished: "steady pf us storage (finished u a)"
  unfolding stable_def
proof (intro allI impI)
  fix w v assume step: "world_step w v" and fin: "finished u a w"
  then obtain f new r where rows: "uw_uploads v = map f (uw_uploads w) @ new" and f: "row_step r (f r)"
    and r: "r \<in> set (uw_uploads w)" "row_identity r = row_identity u" "au_status r = ''completed''"
      "au_artifact_id r = Some (ar_id a)"
    unfolding world_step_def finished_def by blast
  have "row_identity (f r) = row_identity u" "au_status (f r) = ''completed''" "au_artifact_id (f r) = Some (ar_id a)"
    using row_step_identity [OF f] row_step_terminal [OF f] r by (simp_all add: terminal_upload_statuses_def)
  moreover have "a \<in> set (ledger_artifacts v)"
    using step fin set_mono_prefix by (auto simp: world_step_def finished_def)
  ultimately show "finished u a v" using r(1) rows by (auto simp: finished_def)
qed

lemma enqueue_in_context:
  assumes "claim_still_valid pf worker job rq now (uw_ledger w) = Inr ()" "get_job job (uw_ledger w) = Some j"
    and "get_experiment_row (j_experiment_id j) (uw_ledger w) \<noteq> None" "ar_attempt_id a = uf_attempt_id rq"
  shows "\<exists>k d'. enqueue_artifact pf st t e j a (artifacts_table_update f (uw_ledger w)) = Inr (k, d')"
  using claim_has_context [OF assms(1,2)] assms(3,4)
  by (auto simp: enqueue_artifact_def enqueue_for_job_def job_context_def enqueue_def split: option.split)

lemma finishes_commit:
  assumes own: "owning pf us storage w u token objects v" and ready: "ready_upload pf storage worker job rq u w"
    and bytes: "objects (au_canonical_object_key u) = Some content" "declared pf u content"
    and healthy: "\<And>t. ok t \<Longrightarrow> healthy_turn pf worker job rq u w t"
  shows "finishes ok (\<lambda>r v. \<exists>a. r = Inr a \<and> upload_inv pf us storage v \<and> finished u a v \<and>
      ar_sha256 a = au_expected_sha256 u \<and> ar_size_bytes a = au_expected_size_bytes u)
    (commit_upload pf us storage worker job rq (au_id u) token) v"
proof -
  have inv: "upload_inv pf us storage v" and ledger: "uw_ledger v = uw_ledger w"
    using own by (auto simp: owning_def)
  obtain r where r: "r \<in> set (uw_uploads v)" "row_identity r = row_identity u" "owned_by token r"
    using own by (auto simp: owning_def)
  have got: "get_upload (au_id u) v = Some r"
    using get_row_mem [of au_id "uw_uploads v" r] inv r(1) row_identity_fields(1) [OF r(2)]
    by (simp add: get_upload_def upload_inv_def)
  have pub: "published u content v"
    using own r(1,2) ready bytes
    by (auto simp: published_def known_def owning_def ready_upload_def terminal_upload_statuses_def)
  have check: "finishes ok (\<lambda>x v'. x = Inr r \<and> v' = v) (reading (final_check pf worker job rq (au_id u) token)) v"
    using healthy got r(3) ledger by (intro finishes_reading) (auto simp: final_check_def healthy_turn_def)
  let ?Q = "\<lambda>x v. \<exists>a. x = Artifact_Committed a \<and> upload_inv pf us storage v \<and> finished u a v \<and>
      ar_sha256 a = au_expected_sha256 u \<and> ar_size_bytes a = au_expected_size_bytes u"
  have commit: "finishes ok ?Q (atomically (commit_artifact pf us storage r token)) v"
  proof (rule finishes_atomically)
    fix t assume "ok t"
    then have t: "t_uuid t \<notin> ar_id ` set (ledger_artifacts w)"
      "claim_still_valid pf worker job rq (t_now t) (uw_ledger w) = Inr ()"
      using healthy by (auto simp: healthy_turn_def)
    obtain uri where uri: "storage_uri storage (au_canonical_object_key r) = Some uri"
      using ready row_identity_fields(2) [OF r(2)] by (auto simp: ready_upload_def)
    obtain j where j: "get_job job (uw_ledger w) = Some j" "get_experiment_row (j_experiment_id j) (uw_ledger w) \<noteq> None"
      using ready by (auto simp: ready_upload_def)
    let ?a = "verified_artifact storage r (t_uuid t) uri"
    have a: "ar_job_id ?a = job" "ar_attempt_id ?a = uf_attempt_id rq" "ar_attempt_id ?a = au_attempt_id u"
      "ar_artifact_type ?a = au_artifact_type u" "ar_sha256 ?a = au_expected_sha256 u"
      "ar_size_bytes ?a = au_expected_size_bytes u" "ar_id ?a = t_uuid t"
      using row_identity_fields [OF r(2)] ready
      by (auto simp: verified_artifact_def ready_upload_def upload_belongs_to_claim_def)
    obtain k d' where enq: "enqueue_artifact pf (manager_settings us) (t_now t) (t_event_id t) j ?a
        (artifacts_table_update (\<lambda>as. as @ [?a]) (uw_ledger v)) = Inr (k, d')"
      using enqueue_in_context [OF t(2) j a(2)] ledger by metis
    have rows: "artifacts_table d' = ledger_artifacts w @ [?a]"
      using enqueue_artifact_artifacts [OF enq] ledger by simp
    have fresh: "\<not> (\<exists>x \<in> set (ledger_artifacts w). ar_id x = ar_id ?a \<or> ar_attempt_id x = ar_attempt_id ?a \<and>
        ar_artifact_type x = ar_artifact_type ?a \<and> ar_sha256 x = ar_sha256 ?a)"
      using t(1) ready a by (force simp: ready_upload_def)
    let ?f = "completed_row (t_uuid t) r (t_now t)"
    let ?u = "update_upload (au_id r) (owned_by token) ?f (v\<lparr>uw_ledger := d'\<rparr>)"
    have hit: "fst ?u" using r by (auto simp: update_upload_def)
    have result: "commit_artifact pf us storage r token t v = (Artifact_Committed ?a, snd ?u)"
      using fresh hit j(1) unfolding commit_artifact_def uri option.case Let_def
      by (simp add: enq [unfolded ledger] ledger a(1) split_beta)
    have "upload_inv pf us storage (snd ?u)"
      using commit_is_step [OF inv pub r(2) bytes(2), of token t] by (simp add: result)
    moreover have "?f r \<in> set (uw_uploads (snd ?u))" using r by (force simp: update_upload_def)
    moreover have "row_identity (?f r) = row_identity u" "au_status (?f r) = ''completed''"
      "au_artifact_id (?f r) = Some (ar_id ?a)"
      using row_step_identity [OF completed_row_step [OF r(3)]] r(2) by (simp_all add: completed_row_def a)
    moreover have "?a \<in> set (ledger_artifacts (snd ?u))" by (simp add: update_upload_def rows)
    ultimately show "?Q (fst (commit_artifact pf us storage r token t v)) (snd (commit_artifact pf us storage r token t v))"
      unfolding result finished_def fst_conv snd_conv using a(5,6) by blast
  qed
  have result: "finishes ok (\<lambda>x v. \<exists>a. x = Inr a \<and> upload_inv pf us storage v \<and> finished u a v \<and>
      ar_sha256 a = au_expected_sha256 u \<and> ar_size_bytes a = au_expected_size_bytes u)
      (commit_result us storage (au_id u) token x) v'" if "?Q x v'" for x v'
  proof -
    from that obtain a where a: "x = Artifact_Committed a" "upload_inv pf us storage v'" "finished u a v'"
      "ar_sha256 a = au_expected_sha256 u" "ar_size_bytes a = au_expected_size_bytes u" by blast
    have "finishes ok (\<lambda>_ v. upload_inv pf us storage v \<and> finished u a v)
        (cleanup_terminal_artifact_staging storage us (au_id u) ''completed'') v'"
      by (rule finishes_safe [OF calm_keeps [OF calm_cleanup_staging steady_finished] a(2,3)])
    then show ?thesis
      unfolding commit_result_def a(1) commit_outcome.case
      by (rule finishes_andthen) (use a(4,5) in \<open>auto intro: finishes_Ret\<close>)
  qed
  show ?thesis
    unfolding commit_upload_def
    by (rule finishes_andthen [OF check]) (auto intro: finishes_andthen [OF commit] result)
qed

lemma finalization_ends:
  assumes inv: "upload_inv pf us storage w" and ready: "ready_upload pf storage worker job rq u w"
    and healthy: "\<And>n. healthy_turn pf worker job rq u w (s n)"
  shows "\<exists>n a v. run_alone n s (finalize_artifact_upload pf us storage worker job (au_id u) rq) w = (Ret (Inr a), v) \<and>
      ar_sha256 a = au_expected_sha256 u \<and> ar_size_bytes a = au_expected_size_bytes u \<and>
      a \<in> set (artifacts_table (uw_ledger v)) \<and>
      (\<exists>r. get_upload (au_id u) v = Some r \<and> au_status r = ''completed'' \<and> au_artifact_id r = Some (ar_id a))"
proof -
  let ?ok = "healthy_turn pf worker job rq u w"
  obtain content where bytes: "uw_objects w (au_temporary_object_key u) = Some content" "declared pf u content"
    using ready by (auto simp: ready_upload_def)
  have u: "u \<in> set (uw_uploads w)" "au_status u = ''pending''" "upload_storage_matches storage u"
    using ready by (auto simp: ready_upload_def)
  have got: "get_upload (au_id u) w = Some u"
    using inv u(1) get_row_mem [of au_id "uw_uploads w" u] by (simp add: get_upload_def upload_inv_def)
  have keys: "au_temporary_object_key u \<noteq> au_canonical_object_key u"
    using inv u(1) by (auto simp: upload_inv_def row_ok_def staging_object_key_def canonical_object_key_def)
  let ?Q = "\<lambda>r v. \<exists>a. r = Inr a \<and> upload_inv pf us storage v \<and> finished u a v \<and>
      ar_sha256 a = au_expected_sha256 u \<and> ar_size_bytes a = au_expected_size_bytes u"
  have read: "finishes ?ok (\<lambda>r v. \<exists>x. r = Inr x \<and> fst x = u \<and> v = w)
      (reading (read_finalization pf worker job (au_id u) rq)) w"
    using got ready by (intro finishes_reading)
      (auto simp: read_finalization_def healthy_turn_def claim_still_valid_def ready_upload_def)
  have body: "finishes ?ok ?Q (orelse (begin_finalization storage us u) (\<lambda>token.
         orelse (verify_upload pf us storage u token) (\<lambda>spool.
         orelse (recheck_claim pf us storage worker job rq (au_id u) token) (\<lambda>_.
         orelse (publish_upload us storage u token spool) (\<lambda>_.
         commit_upload pf us storage worker job rq (au_id u) token))))) w"
  proof (rule finishes_orelse [OF finishes_begin [OF ready inv]])
    fix token v assume own: "owning pf us storage w u token (uw_objects w) v"
    let ?objects = "(uw_objects w)(au_canonical_object_key u \<mapsto> content)"
    have canonical: "uw_objects w (au_canonical_object_key u) = None" "validate_object_key (au_canonical_object_key u)"
      "validate_object_key (au_temporary_object_key u)" using ready by (auto simp: ready_upload_def)
    have io: "?ok t \<Longrightarrow> t_io t = Io_Ok" "?ok t \<Longrightarrow> claim_still_valid pf worker job rq (t_now t) (uw_ledger w) = Inr ()" for t
      by (simp_all add: healthy_turn_def)
    have commit: "finishes ?ok ?Q (commit_upload pf us storage worker job rq (au_id u) token) v"
      if "owning pf us storage w u token ?objects v" for v
      using that ready _ bytes(2) by (rule finishes_commit) simp_all
    have publish: "finishes ?ok ?Q (orelse (publish_upload us storage u token content) (\<lambda>_.
         commit_upload pf us storage worker job rq (au_id u) token)) v"
      if "owning pf us storage w u token (uw_objects w) v" for v
      by (rule finishes_orelse [OF finishes_publish [OF that canonical(1,2) io(1)]]) (assumption, rule commit)
    have recheck: "finishes ?ok ?Q (orelse (recheck_claim pf us storage worker job rq (au_id u) token) (\<lambda>_.
         orelse (publish_upload us storage u token content) (\<lambda>_.
         commit_upload pf us storage worker job rq (au_id u) token))) v"
      if "owning pf us storage w u token (uw_objects w) v" for v
      by (rule finishes_orelse [OF finishes_recheck [OF that io(2)]]) (assumption, rule publish)
    show "finishes ?ok ?Q (orelse (verify_upload pf us storage u token) (\<lambda>spool.
         orelse (recheck_claim pf us storage worker job rq (au_id u) token) (\<lambda>_.
         orelse (publish_upload us storage u token spool) (\<lambda>_.
         commit_upload pf us storage worker job rq (au_id u) token)))) v"
      by (rule finishes_orelse [OF finishes_verify [OF own bytes canonical(3) io(1)]]) (auto intro: recheck)
  qed (simp add: healthy_turn_def)
  have "finishes ?ok ?Q (finalize_artifact_upload pf us storage worker job (au_id u) rq) w"
    unfolding finalize_artifact_upload_def
    by (rule finishes_orelse [OF read]) (use body u in \<open>auto split: prod.split\<close>)
  from finishes_run [OF this, of s] healthy obtain n a v where
    run: "run_alone n s (finalize_artifact_upload pf us storage worker job (au_id u) rq) w = (Ret (Inr a), v)"
    and a: "upload_inv pf us storage v" "finished u a v" "ar_sha256 a = au_expected_sha256 u"
      "ar_size_bytes a = au_expected_size_bytes u" by blast
  obtain r where r: "r \<in> set (uw_uploads v)" "row_identity r = row_identity u" "au_status r = ''completed''"
      "au_artifact_id r = Some (ar_id a)" "a \<in> set (ledger_artifacts v)"
    using a(2) by (auto simp: finished_def)
  have "get_upload (au_id u) v = Some r"
    using get_row_mem [of au_id "uw_uploads v" r] a(1) r(1) row_identity_fields(1) [OF r(2)]
    by (simp add: get_upload_def upload_inv_def)
  then show ?thesis using run a r by blast
qed


section \<open>One program among others\<close>

lemma run_alone_andthen:
  assumes "run_alone n s p w = (Ret x, v)" "k x = Ret y"
  shows "\<exists>m. run_alone m s (andthen p k) w = (Ret y, v)"
  using assms(1)
proof (induction n arbitrary: s p w)
  case 0
  then show ?case using assms(2) by (intro exI [of _ 0]) simp
next
  case (Suc n)
  show ?case
  proof (cases p)
    case (Act f)
    then have "run_alone n (\<lambda>k. s (Suc k)) (fst (f (s 0) w)) (snd (f (s 0) w)) = (Ret x, v)"
      using Suc.prems by simp
    from Suc.IH [OF this] obtain m where
      "run_alone m (\<lambda>k. s (Suc k)) (andthen (fst (f (s 0) w)) k) (snd (f (s 0) w)) = (Ret y, v)" by blast
    then show ?thesis using Act by (intro exI [of _ "Suc m"]) (simp add: map_prod_def split_beta)
  qed (use Suc.prems assms(2) in \<open>auto intro: exI [of _ 0]\<close>)
qed

lemma run_alone_system:
  assumes "run_alone n s p w = (q, v)" "i < length ps" "ps ! i = p"
  shows "\<exists>es. allowed_run pf us storage b es \<lparr>sy_programs = ps, sy_world = w\<rparr> \<and>
    run_system pf us storage b es \<lparr>sy_programs = ps, sy_world = w\<rparr> = \<lparr>sy_programs = ps[i := q], sy_world = v\<rparr>"
  using assms
proof (induction n arbitrary: s p w ps)
  case 0
  then show ?case by (intro exI [of _ "[]"]) auto
next
  case (Suc n)
  show ?case
  proof (cases p)
    case (Ret x)
    then show ?thesis using Suc.prems by (intro exI [of _ "[]"]) auto
  next
    case (Act f)
    let ?p = "fst (f (s 0) w)" and ?w = "snd (f (s 0) w)"
    have "run_alone n (\<lambda>k. s (Suc k)) ?p ?w = (q, v)" using Suc.prems(1) Act by simp
    from Suc.IH [OF this, of "ps[i := ?p]"] Suc.prems(2) obtain es where
      es: "allowed_run pf us storage b es \<lparr>sy_programs = ps[i := ?p], sy_world = ?w\<rparr>"
        "run_system pf us storage b es \<lparr>sy_programs = ps[i := ?p], sy_world = ?w\<rparr> =
          \<lparr>sy_programs = ps[i := q], sy_world = v\<rparr>" by auto
    have "system_step pf us storage b (Takes_Turn i (s 0)) \<lparr>sy_programs = ps, sy_world = w\<rparr> =
        \<lparr>sy_programs = ps[i := ?p], sy_world = ?w\<rparr>"
      using Suc.prems(2,3) Act by (simp add: system_step_def split_beta)
    then show ?thesis
      using es by (intro exI [of _ "Takes_Turn i (s 0) # es"]) (simp add: allowed_event_def)
  qed
qed

end
