(* ===== verification/Example_Uploads.thy ===== *)
theory Example_Uploads
  imports Upload_Completion Example_Run
begin

text \<open>
  An upload on the example ledger: a session is opened, the client stores the bytes with its presigned URL and the
  finalization completes. The witnesses of the properties of the uploads are about this run.
\<close>

section \<open>The run\<close>

definition ex_upload_settings :: upload_settings where
  "ex_upload_settings =
     \<lparr>manager_settings = ex_settings, artifact_upload_ttl_seconds = 3600, artifact_max_bytes = 1000,
      sample_max_bytes = 100, artifact_staging_cleanup_grace_seconds = 7200,
      artifact_cleanup_confirmation_grace_seconds = 60, artifact_cleanup_claim_stale_seconds = 300,
      artifact_cleanup_reconcile_stale_seconds = 120, artifact_cleanup_reconcile_batch_size = 32, artifact_finalizing_stale_seconds = 7200,
      artifact_retry_after_seconds = 5, artifact_attempt_max_sessions = 4,
      artifact_attempt_max_bytes = 4000\<rparr>"

definition ex_upload_init :: upload_init where
  "ex_upload_init =
     \<lparr>ui_lease_id = ''l1'', ui_attempt_id = ''a1'', ui_idempotency_key = ''upload-1'',
      ui_artifact_type = CONFIG, ui_filename = ''config'', ui_content_type = ''application/json'',
      ui_size_bytes = 2, ui_sha256 = ex_zero, ui_metadata = []\<rparr>"

definition ex_finalize :: upload_finalize where
  "ex_finalize = \<lparr>uf_lease_id = ''l1'', uf_attempt_id = ''a1''\<rparr>"

definition ex_upload_turn :: turn where
  "ex_upload_turn = \<lparr>t_now = 3000000, t_uuid = ''up1'', t_io = Io_Ok, t_beats_before = 1, t_beats_after = 0,
     t_url = Some ''https://s3/up1'', t_event_id = ''e1''\<rparr>"

definition ex_upload_world :: upload_world where
  "ex_upload_world = \<lparr>uw_ledger = ex_claimed, uw_uploads = [], uw_objects = (\<lambda>_. None)\<rparr>"

definition ex_opened :: upload_session where
  "ex_opened = new_upload ex_platform ex_upload_settings ex_storage ''w1'' ''j1'' ex_upload_init ''up1'' 1
     304000000 3000000"

lemma ex_init_valid: "validate_upload_init ex_platform ex_upload_init = Inr ex_upload_init"
  by code_simp

lemma ledger_view_rows [simp]:
  "jobs (ledger_view w) = jobs (uw_ledger w)" "job_attempts (ledger_view w) = job_attempts (uw_ledger w)"
  by (simp_all add: ledger_view_def)

lemma ex_upload_claim:
  assumes "uw_ledger w = ex_claimed"
  shows "upload_claim ex_platform 3000000 ''w1'' ''j1'' ''l1'' ''a1'' (ledger_view w) = Inr ()"
  by (simp add: upload_claim_def assms ex_require_lease ex_claimed_rows ex_claimed_fields)

lemma ex_upload_fields [simp]:
  "ui_lease_id ex_upload_init = ''l1''" "ui_attempt_id ex_upload_init = ''a1''" "ui_size_bytes ex_upload_init = 2"
  "ui_artifact_type ex_upload_init = CONFIG" "t_now ex_upload_turn = 3000000" "t_uuid ex_upload_turn = ''up1''"
  "t_url ex_upload_turn = Some ''https://s3/up1''" "t_io ex_upload_turn = Io_Ok"
  "uw_uploads ex_upload_world = []" "uw_ledger ex_upload_world = ex_claimed" "uw_objects ex_upload_world = (\<lambda>_. None)"
  "artifact_max_bytes ex_upload_settings = 1000" "artifact_upload_ttl_seconds ex_upload_settings = 3600"
  "artifact_attempt_max_sessions ex_upload_settings = 4" "artifact_attempt_max_bytes ex_upload_settings = 4000"
  "backend ex_storage = S3" "namespace_fingerprint ex_storage = ''ns''"
  "storage_uri ex_storage k = Some (''s3://'' @ k)"
  by (simp_all add: ex_upload_init_def ex_upload_turn_def ex_upload_world_def ex_upload_settings_def ex_storage_def)

lemma ex_nothing_found [simp]: "find_existing_upload a k dk ex_upload_world = None"
  by (simp add: find_existing_upload_def find_deduplicated_upload_def)

abbreviation ex_opened_world :: upload_world where
  "ex_opened_world \<equiv> ex_upload_world\<lparr>uw_uploads := [ex_opened]\<rparr>"

lemma ex_reserve:
  "reserve_upload ex_platform ex_upload_settings ex_storage ''w1'' ''j1'' ex_upload_init ''up1'' 1 304000000
     ex_upload_turn ex_upload_world = (Inr (Reserved ex_opened), ex_opened_world)"
  unfolding reserve_upload_def Let_def
  by (simp add: ex_upload_claim has_expired_def raced_generation_def enforce_attempt_artifact_quota_def
      quota_rows_def checked_simps ex_opened_def)

lemma ex_target_url:
  "\<exists>target. create_upload_target ex_storage b base i (staging_object_key ''a1'' ''up1'') c n d token ex_upload_turn = Some target"
proof -
  have "validate_object_key (staging_object_key ''a1'' ''up1'')"
    by (simp add: validate_object_key_def staging_object_key_def backslash_def)
  then show ?thesis by (simp add: create_upload_target_def)
qed

lemma ex_initialize:
  "finishes (\<lambda>t. t = ex_upload_turn) (\<lambda>r v. (\<exists>x. r = Inr x) \<and> v = ex_opened_world)
     (initialize_artifact_upload ex_platform ex_upload_settings ex_storage False ''https://m'' ''w1'' ''j1'' ex_upload_init)
     ex_upload_world"
proof -
  let ?ok = "\<lambda>t. t = ex_upload_turn" and ?Q = "\<lambda>r v. (\<exists>x. r = Inr x) \<and> v = ex_opened_world"
  have new: "finishes ?ok ?Q (open_new_upload ex_platform ex_upload_settings ex_storage False ''https://m'' ''w1'' ''j1''
      ex_upload_init 1) ex_upload_world"
    unfolding open_new_upload_def
  proof (rule finishes_andthen [OF finishes_reading [where R = "\<lambda>x v. (\<exists>target.
        x = (''up1'', 304000000, Some target)) \<and> v = ex_upload_world"]])
    fix t assume "t = ex_upload_turn"
    then show "(\<exists>target. (let expires_at = t_now t + seconds (effective_artifact_upload_ttl_seconds
             (ui_size_bytes ex_upload_init) ex_upload_settings);
           token = (if backend ex_storage = Local then Some (derive_local_upload_token ex_platform (t_uuid t)
             (timestamp expires_at) ex_upload_settings) else None)
       in (t_uuid t, expires_at, create_upload_target ex_storage False ''https://m'' (t_uuid t)
             (staging_object_key (ui_attempt_id ex_upload_init) (t_uuid t)) (ui_content_type ex_upload_init)
             (ui_size_bytes ex_upload_init) (ui_sha256 ex_upload_init) token t)) =
        (''up1'', 304000000, Some target)) \<and> ex_upload_world = ex_upload_world"
      using ex_target_url by (simp add: effective_artifact_upload_ttl_seconds_def)
  qed (auto simp: ex_reserve intro!: finishes_orelse [OF finishes_atomically
      [where R = "\<lambda>r v. \<exists>x. r = Inr x \<and> x = Reserved ex_opened \<and> v = ex_opened_world"]] finishes_Ret)
  show ?thesis
    unfolding initialize_artifact_upload_def
    by (auto simp: ex_upload_claim new orelse_def intro!: finishes_andthen [OF finishes_reading
      [where R = "\<lambda>r v. r = Inr None \<and> v = ex_upload_world"]])
qed

section \<open>The finalization\<close>

definition ex_stored_world :: upload_world where
  "ex_stored_world = ex_opened_world\<lparr>uw_objects := (\<lambda>_. None)(staging_object_key ''a1'' ''up1'' \<mapsto> ''{}'')\<rparr>"

definition ex_turns :: "nat \<Rightarrow> turn" where
  "ex_turns n = ex_upload_turn"

lemma ex_no_artifacts: "artifacts_table ex_claimed = []"
  by (simp add: ex_claimed_def assign_job_def cas_job_def ex_ledger_def ex_job_def set_worker_def
      add_status_event_def)

lemma ex_start: "uw_uploads ex_upload_world = []" "wf_table ar_id (artifacts_table (uw_ledger ex_upload_world))"
  by (simp_all add: ex_no_artifacts wf_table_def)

lemma ex_opening_run:
  "\<exists>es r. allowed_run ex_platform ex_upload_settings ex_storage False es (empty_system ex_upload_world) \<and>
     run_system ex_platform ex_upload_settings ex_storage False es (empty_system ex_upload_world) =
       \<lparr>sy_programs = [Ret r], sy_world = ex_stored_world\<rparr>"
proof -
  let ?p = "initialize_artifact_upload ex_platform ex_upload_settings ex_storage False ''https://m'' ''w1'' ''j1'' ex_upload_init"
  let ?req = "Initialize ''https://m'' ''w1'' ''j1'' ex_upload_init"
  obtain n x where "run_alone n ex_turns ?p ex_upload_world = (Ret (Inr x), ex_opened_world)"
    using finishes_run [OF ex_initialize, of ex_turns] by (auto simp: ex_turns_def)
  from run_alone_andthen [OF this refl, of Initialized] obtain m where
    "run_alone m ex_turns (serve_upload ex_platform ex_upload_settings ex_storage False ?req) ex_upload_world =
      (Ret (Initialized (Inr x)), ex_opened_world)" by (auto simp: serve_upload_def ex_init_valid)
  from run_alone_system [OF this, of 0 "[serve_upload ex_platform ex_upload_settings ex_storage False ?req]"
      ex_platform ex_upload_settings ex_storage False]
  obtain es where es: "allowed_run ex_platform ex_upload_settings ex_storage False es
        \<lparr>sy_programs = [serve_upload ex_platform ex_upload_settings ex_storage False ?req], sy_world = ex_upload_world\<rparr>"
      "run_system ex_platform ex_upload_settings ex_storage False es
        \<lparr>sy_programs = [serve_upload ex_platform ex_upload_settings ex_storage False ?req], sy_world = ex_upload_world\<rparr> =
        \<lparr>sy_programs = [Ret (Initialized (Inr x))], sy_world = ex_opened_world\<rparr>" by auto
  let ?es = "Arrives ?req # es @ [Client_Stores (staging_object_key ''a1'' ''up1'') (Some ''{}'')]"
  have "system_step ex_platform ex_upload_settings ex_storage False (Arrives ?req) (empty_system ex_upload_world) =
      \<lparr>sy_programs = [serve_upload ex_platform ex_upload_settings ex_storage False ?req], sy_world = ex_upload_world\<rparr>"
    by (simp add: system_step_def empty_system_def)
  then have "allowed_run ex_platform ex_upload_settings ex_storage False ?es (empty_system ex_upload_world) \<and>
      run_system ex_platform ex_upload_settings ex_storage False ?es (empty_system ex_upload_world) =
       \<lparr>sy_programs = [Ret (Initialized (Inr x))], sy_world = ex_stored_world\<rparr>"
    using es staging_prefix
    by (simp add: run_system_append allowed_run_append allowed_event_def system_step_def ex_stored_world_def)
  then show ?thesis by blast
qed

lemma ex_stored_inv: "upload_inv ex_platform ex_upload_settings ex_storage ex_stored_world"
  using ex_opening_run run_system_inv [OF start_inv [OF ex_start]] by (fastforce simp: system_inv_def)

lemma ex_keys_valid:
  "validate_object_key (au_temporary_object_key ex_opened)" "validate_object_key (au_canonical_object_key ex_opened)"
  by (simp_all add: ex_opened_def new_upload_def validate_object_key_def staging_object_key_def
      canonical_object_key_def backslash_def)

lemma ex_ready: "ready_upload ex_platform ex_storage ''w1'' ''j1'' ex_finalize ex_opened ex_stored_world"
proof -
  have "\<exists>j. get_job ''j1'' ex_claimed = Some j \<and> get_experiment_row (j_experiment_id j) ex_claimed \<noteq> None"
    by (simp add: ex_claimed_rows ex_claimed_tables ex_experiment_def ex_claimed_job_def claimed_job_def ex_job_def)
  moreover have "sha256 ex_platform s = ex_zero" for s by (simp add: ex_platform_def)
  moreover have "au_expected_sha256 ex_opened = ex_zero" by (simp add: ex_opened_def new_upload_def ex_upload_init_def)
  ultimately show ?thesis
    using ex_keys_valid unfolding ready_upload_def
    by (simp add: ex_stored_world_def ex_no_artifacts)
      (simp add: ex_opened_def new_upload_def upload_belongs_to_claim_def ex_finalize_def upload_storage_matches_def
        storage_namespace_matches_def staging_object_key_def canonical_object_key_def)
qed

lemma ex_healthy: "healthy_turn ex_platform ''w1'' ''j1'' ex_finalize ex_opened ex_stored_world (ex_turns n)"
proof -
  have "l_attempt_id ex_lease = ''a1''" by (simp add: ex_lease_def claimed_lease_def)
  then show ?thesis
    by (simp add: healthy_turn_def ex_turns_def ex_stored_world_def ex_no_artifacts claim_still_valid_def
        ex_finalize_def ex_require_lease ex_opened_def new_upload_def)
qed

lemma ex_complete_run:
  "\<exists>es fs v r. allowed_run ex_platform ex_upload_settings ex_storage False (es @ fs) (empty_system ex_upload_world) \<and>
     ex_opened \<in> set (uw_uploads (sy_world (run_system ex_platform ex_upload_settings ex_storage False es
       (empty_system ex_upload_world)))) \<and>
     v = sy_world (run_system ex_platform ex_upload_settings ex_storage False (es @ fs) (empty_system ex_upload_world)) \<and>
     r \<in> set (uw_uploads v) \<and> au_status r = ''completed'' \<and> upload_storage_matches ex_storage r"
proof -
  obtain es x where es: "allowed_run ex_platform ex_upload_settings ex_storage False es (empty_system ex_upload_world)"
      "run_system ex_platform ex_upload_settings ex_storage False es (empty_system ex_upload_world) =
        \<lparr>sy_programs = [Ret x], sy_world = ex_stored_world\<rparr>" using ex_opening_run by blast
  let ?req = "Finalize ''w1'' ''j1'' (au_id ex_opened) ex_finalize"
  let ?p = "serve_upload ex_platform ex_upload_settings ex_storage False ?req"
  obtain n a v r where run: "run_alone n ex_turns (finalize_artifact_upload ex_platform ex_upload_settings ex_storage
        ''w1'' ''j1'' (au_id ex_opened) ex_finalize) ex_stored_world = (Ret (Inr a), v)"
      "get_upload (au_id ex_opened) v = Some r" "au_status r = ''completed''"
    using finalization_ends [OF ex_stored_inv ex_ready, of ex_turns] ex_healthy by blast
  from run_alone_andthen [OF run(1) refl, of Finalized] obtain m where
    "run_alone m ex_turns ?p ex_stored_world = (Ret (Finalized (Inr a)), v)" by (auto simp: serve_upload_def)
  from run_alone_system [OF this, of 1 "[Ret x, ?p]" ex_platform ex_upload_settings ex_storage False]
  obtain fs where fs: "allowed_run ex_platform ex_upload_settings ex_storage False fs
        \<lparr>sy_programs = [Ret x, ?p], sy_world = ex_stored_world\<rparr>"
      "run_system ex_platform ex_upload_settings ex_storage False fs
        \<lparr>sy_programs = [Ret x, ?p], sy_world = ex_stored_world\<rparr> =
        \<lparr>sy_programs = [Ret x, Ret (Finalized (Inr a))], sy_world = v\<rparr>" by auto
  have "system_step ex_platform ex_upload_settings ex_storage False (Arrives ?req)
      \<lparr>sy_programs = [Ret x], sy_world = ex_stored_world\<rparr> =
      \<lparr>sy_programs = [Ret x, ?p], sy_world = ex_stored_world\<rparr>" by (simp add: system_step_def)
  then have all: "allowed_run ex_platform ex_upload_settings ex_storage False (es @ Arrives ?req # fs) (empty_system ex_upload_world)"
    "run_system ex_platform ex_upload_settings ex_storage False (es @ Arrives ?req # fs) (empty_system ex_upload_world) =
      \<lparr>sy_programs = [Ret x, Ret (Finalized (Inr a))], sy_world = v\<rparr>"
    using es fs by (simp_all add: run_system_append allowed_run_append allowed_event_def)
  have "ex_opened \<in> set (uw_uploads (sy_world (run_system ex_platform ex_upload_settings ex_storage False es
       (empty_system ex_upload_world))))" by (simp add: es(2) ex_stored_world_def)
  moreover have r: "r \<in> set (uw_uploads v)" "au_id r = au_id ex_opened" using get_upload_mem [OF run(2)] by simp_all
  moreover have "upload_storage_matches ex_storage r"
  proof -
    obtain r' where "r' \<in> set (uw_uploads (sy_world (run_system ex_platform ex_upload_settings ex_storage False
        (es @ Arrives ?req # fs) (empty_system ex_upload_world))))" "lived ex_opened r'"
      using run_lived [OF run_system_inv [OF start_inv [OF ex_start] es(1)], of False "Arrives ?req # fs" ex_opened] all(1)
      by (auto simp: run_system_append allowed_run_append es(2) ex_stored_world_def)
    moreover have "upload_inv ex_platform ex_upload_settings ex_storage v"
      using run_system_inv [OF start_inv [OF ex_start] all(1)] all(2) by (simp add: system_inv_def)
    ultimately have "r' = r"
      using r get_row_mem unfolding upload_inv_def by (metis all(2) lived_def option.inject row_identity_fields(1) upload_system.select_convs(2))
    then have "row_identity r = row_identity ex_opened" using \<open>lived ex_opened r'\<close> by (simp add: lived_def)
    then show ?thesis using row_identity_fields(9) [of r ex_opened ex_storage]
      by (simp add: ex_opened_def new_upload_def upload_storage_matches_def storage_namespace_matches_def)
  qed
  ultimately show ?thesis using all run(3)
    by (intro exI [of _ es] exI [of _ "Arrives ?req # fs"] exI [of _ v] exI [of _ r]) simp
qed

section \<open>The witnesses\<close>

theorem completed_uploads_are_intact_witness:
  "\<exists>es v u content. allowed_run ex_platform ex_upload_settings ex_storage False es (empty_system ex_upload_world) \<and>
     v = sy_world (run_system ex_platform ex_upload_settings ex_storage False es (empty_system ex_upload_world)) \<and>
     u \<in> set (uw_uploads v) \<and> au_status u = ''completed'' \<and>
     uw_objects v (au_canonical_object_key u) = Some content \<and> sha256 ex_platform content = au_expected_sha256 u"
proof -
  obtain es v r where run: "allowed_run ex_platform ex_upload_settings ex_storage False es (empty_system ex_upload_world)"
      "v = sy_world (run_system ex_platform ex_upload_settings ex_storage False es (empty_system ex_upload_world))"
      "r \<in> set (uw_uploads v)" "au_status r = ''completed''" "upload_storage_matches ex_storage r"
    using ex_complete_run by blast
  from completed_uploads_are_intact [OF ex_start run] run show ?thesis by blast
qed

theorem upload_lifecycle_witness:
  "\<exists>es fs. \<exists>v \<in> set (uw_uploads (sy_world (run_system ex_platform ex_upload_settings ex_storage False (es @ fs)
       (empty_system ex_upload_world)))).
     ex_opened \<in> set (uw_uploads (sy_world (run_system ex_platform ex_upload_settings ex_storage False es
       (empty_system ex_upload_world)))) \<and> row_identity v = row_identity ex_opened \<and>
     (''pending'', au_status v) \<in> (set upload_moves)\<^sup>*"
proof -
  obtain es fs where run: "allowed_run ex_platform ex_upload_settings ex_storage False (es @ fs) (empty_system ex_upload_world)"
      "ex_opened \<in> set (uw_uploads (sy_world (run_system ex_platform ex_upload_settings ex_storage False es
       (empty_system ex_upload_world))))"
    using ex_complete_run by blast
  have "au_status ex_opened = ''pending''" by (simp add: ex_opened_def new_upload_def)
  with upload_lifecycle [OF ex_start run] run(2) show ?thesis by auto
qed



end
