(* ===== verification/Spec2Isabelle.thy ===== *)
theory Spec2Isabelle
  imports Example_Requests Example_Outbox Registry_Claims Accounts_Claims Log_Claims Request_Limits_Claims
    Rotation_Recovery Example_Uploads
begin

text \<open>
  \<^bold>\<open>The program.\<close> RVC Learn Hub trains voice models on a pool of GPU hosts. A Manager (FastAPI,
  SQLAlchemy; \<^verbatim>\<open>src/apps/api\<close>) owns the database; a Worker agent (\<^verbatim>\<open>src/apps/worker\<close>) on every host
  registers, sends heartbeats, claims a queued job under a lease, reports its status, logs, metrics and
  artifacts; the shapes of the messages between them are the contracts package
  (\<^verbatim>\<open>src/packages/contracts\<close>). Users submit, cancel and retry jobs and review the trained models in a
  registry; a background worker mirrors what happened to MLflow through an outbox.

  \<^bold>\<open>How the code is modelled.\<close> A table is a list of records, the database a record of tables, and a
  handler a total function from the settings, the clock, the identifiers it draws, the outcome of its
  commit, its arguments and the database to its answer and the database it leaves. An answer is a sum:
  \<open>Inl\<close> an HTTP error or an uncaught exception, \<open>Inr\<close> the response. A transaction that raises or whose
  commit fails leaves the database as it was. Where a handler reads before it locks, the two readings
  are separate arguments, so that other transactions may run in between; where it retries after a lost
  lock or a lost version check, it takes one environment per pass. Times are integers (microseconds),
  Python ints are \<open>int\<close>, floats are rationals with signed zero, infinities and NaN, strings are lists of
  characters.

  What is not in the repository is a parameter: the record \<open>platform\<close> (SHA-256, HMAC, the rendering of
  floats, the field parsing of pydantic), \<open>identity_tools\<close> (tokens, password hashes), \<^verbatim>\<open>json.loads\<close>,
  \<open>text_tools\<close> (the regular expressions of the log redaction,
  \<^verbatim>\<open>str.casefold\<close>), the object stores \<open>claim_storage\<close> and \<open>artifact_storage\<close>, the MLflow projection,
  the verification of published samples, temporary files and the monotonic clock. A statement that
  needs something of them says so in a hypothesis (\<open>parses_dumps\<close>, \<open>hex_digests\<close>, \<open>float_repr_ok\<close>,
  \<open>jwt_roundtrip\<close>, \<open>jwt_stable\<close>, \<open>loads_cursors\<close>),
  and a witness instantiates it.

  \<^bold>\<open>The theories.\<close>
  \<^item> \<open>Prelude\<close>: errors as values, tables and row updates (locale \<open>ledger_table\<close>, interpreted for every
    table), invariants of step relations (locale \<open>step_invariant\<close>), ranked machines.
  \<^item> \<open>Job_Status\<close>: the status machine of \<^verbatim>\<open>status.py\<close>. \<open>Json\<close>: \<^verbatim>\<open>json.dumps\<close> and the canonical bytes
    of a configuration. \<open>Job_Config\<close>, \<open>Worker_Contract\<close>: the contract models with their validators.
  \<^item> \<open>Platform\<close>, \<open>Ledger\<close>: parameters, settings, the tables of \<^verbatim>\<open>models.py\<close>, the integrity check of a
    stored configuration (\<^verbatim>\<open>services/job_configs.py\<close>).
  \<^item> \<open>Assignment\<close>: the abstract specification of the Worker protocol, a board of jobs, workers,
    attempts and leases with its moves and its invariant; every handler is shown to implement it.
  \<^item> \<open>Lease_Recovery\<close>, \<open>Test_Set_Transfer\<close>, \<open>Claim\<close>: \<^verbatim>\<open>services/workers.py\<close> and the claim and renewal
    endpoints. \<open>Status_Update\<close>: heartbeats and status updates. \<open>Worker_Auth\<close>: registration, token
    rotation, re-enrolment, revocation. \<open>Telemetry_Ingest\<close>: logs, metrics, metadata artifacts
    (\<^verbatim>\<open>routers/workers.py\<close>, \<^verbatim>\<open>dependencies.py\<close>, \<^verbatim>\<open>security.py\<close>).
  \<^item> \<open>Jobs_Api\<close>: experiments and jobs (\<^verbatim>\<open>routers/experiments.py\<close>). \<open>Mlflow_Outbox\<close>, \<open>Outbox_Delivery\<close>:
    the outbox (\<^verbatim>\<open>services/mlflow.py\<close>).
  \<^item> \<open>History\<close>: the invariant \<open>ledger_ok\<close> of the whole ledger, kept by every handler. \<open>System\<close>: the
    manager as a step relation, one rule per handler.
  \<^item> \<open>Artifact_Binding\<close>, \<open>Model_Registry\<close>: the binding and re-reading of artifacts
    (\<^verbatim>\<open>services/samples.py\<close>, \<^verbatim>\<open>services/artifacts.py\<close>) and the registry of reviewed models
    (\<^verbatim>\<open>services/model_registry.py\<close>, \<^verbatim>\<open>routers/model_registry.py\<close>). \<open>Registry_Spec\<close>: the registry as a
    history of operations, and the contract \<open>registry_mutation\<close> of which the three mutations are
    interpretations. \<open>Registry_Promotion\<close>, \<open>Registry_Requests\<close>: what a promotion needs and
    guarantees. \<open>Registry_System\<close>: manager and registry together. \<open>Registry_Claims\<close>: the properties
    of the registry.
  \<^item> \<open>Python_Text\<close>, \<open>Base64\<close>: characters, white space, identifiers and base64 text of the standard library.
    \<open>Identity\<close>: users, passwords, access tokens and bearer authentication (\<^verbatim>\<open>security.py\<close>,
    \<^verbatim>\<open>dependencies.py\<close>). \<open>Accounts\<close>: login and logout, the administration of users, the first
    administrator (\<^verbatim>\<open>routers/auth.py\<close>, \<^verbatim>\<open>routers/users.py\<close>, \<^verbatim>\<open>bootstrap.py\<close>). \<open>Accounts_Spec\<close>: the
    roster, an abstract specification of the user table, and the contract \<open>account_work\<close> of which the
    three lifecycle mutations are interpretations in \<open>Accounts_System\<close>, where manager, registry and
    accounts run together. \<open>Accounts_Sessions\<close>, \<open>Accounts_Claims\<close>: dead tokens, resent requests, and
    the properties of accounts.
  \<^item> \<open>Log_Query\<close>: cursors, listings and the event stream of logs (\<^verbatim>\<open>services/job_observability.py\<close>,
    \<^verbatim>\<open>routers/job_observability.py\<close>). \<open>Log_Pages\<close>, \<open>Log_Claims\<close>: pages and streams in the order of
    the records, and their properties.
  \<^item> \<open>Request_Limits\<close>, \<open>Request_Limits_Claims\<close>: the rate limiter and the bounds on request bodies that
    stand before the handlers (\<^verbatim>\<open>rate_limit.py\<close>, \<^verbatim>\<open>body_limits.py\<close>, \<^verbatim>\<open>app.py\<close>).
  \<^item> \<open>Worker_Rotation\<close>: the rotation of the bearer token as the agent does it, with the credential file and
    the client (\<^verbatim>\<open>token_rotation.py\<close>, \<^verbatim>\<open>credentials.py\<close>, \<^verbatim>\<open>client.py\<close> under \<^verbatim>\<open>src/apps/worker\<close>), as
    programs over a list of events that say what network, disk and Manager do; at the other end are the
    endpoints of \<open>Worker_Auth\<close>. \<open>Rotation_Safety\<close>: triples for these programs and the contract
    \<open>stable_assertion\<close> of assertions that survive delayed requests and other transactions.
    \<open>Rotation_Claims\<close>, \<open>Rotation_Recovery\<close>: the worker is never locked out, and a start recovers.
  \<^item> \<open>Upload_State\<close>, \<open>Upload_Cleanup\<close>, \<open>Upload_Requests\<close>, \<open>Upload_Finalize\<close>: the upload of artifacts
    (\<^verbatim>\<open>routers/artifacts.py\<close>, \<^verbatim>\<open>services/artifact_cleanup.py\<close>, \<^verbatim>\<open>services/artifacts.py\<close>,
    \<^verbatim>\<open>storage.py\<close>): the session, the local PUT, the finalization and the reconciler. These handlers suspend
    between their transactions while bytes move and a heartbeat ticks, so each is a program (a resumption) cut
    into atomic actions; an action takes a turn, which says what clock, UUIDs and storage do, and the
    system runs any number of them in any order. \<open>Upload_Safety\<close>: a rely-guarantee logic for these programs
    and the invariant \<open>upload_inv\<close>; \<open>Upload_Guards\<close>, \<open>Upload_Invariant\<close>: every action of every handler
    keeps it. \<open>Upload_Claims\<close>, \<open>Upload_Completion\<close>: the properties.
  \<^item> \<open>Examples\<close>, \<open>Example_Run\<close>, \<open>Example_Requests\<close>, \<open>Example_Outbox\<close>, \<open>Example_Registry\<close>,
    \<open>Example_Accounts\<close>, \<open>Example_Uploads\<close>: concrete databases, most of them reached by steps of the manager, on which the
    properties are exercised.

  \<^bold>\<open>What is shown.\<close> Every reachable database satisfies the invariant: leases, attempts, jobs and workers
  agree, a job or a worker has at most one live lease, recorded histories are walks of the transition
  table, telemetry is unique and below its sealed counts, tokens identify workers. The handlers refine
  the board. Claims take the first runnable job; status updates are fenced by the live lease;
  abandoned jobs are freed and those of live workers are left alone; revocation, rotation and
  cancellation have the effect they promise; resent telemetry and registry requests change nothing;
  the outbox drains and never forgets; the registry has one active, verified, unrevoked model, and its
  operations table is its complete history. The service never loses its last active administrator;
  changing a user's access, resetting a password or logging out ends the sessions concerned for ever, also for
  registry mutations on their way; a login's token authenticates its user; log listings can be read to
  the end by their cursors, and log streams run forward. The rate limiter admits less than twice its
  number in a minute, but counts logins by a header the client chooses; bodies pass up to their limit.
  A worker whose agent is killed at any moment of a token rotation still holds an accepted token.
  A completed upload stays intact under every interleaving of requests, reconcilers, crashes and storage
  failures; sessions live through their statuses in order, within the quota; a ready finalization that
  is given turns ends.

  \<^bold>\<open>Bounds.\<close> The claim looks at 50 candidates and the recovery at its batch limit (100 by default), as
  the code does; the loops of the model run over those lists, so no fuel is needed. The status handler
  retries at most twice and the revocation once. Recursion elsewhere is structural.

  \<^bold>\<open>Not modelled.\<close> \<^verbatim>\<open>FOR UPDATE SKIP LOCKED\<close> (the model of a recovery or a claim sees every row);
  the MLflow projection that a handler attempts after its commit is the separate step \<open>project\<close>;
  endpoints that only read (except the listings of the registry, of users and of telemetry); JSON details of audit rows and outbox
  payloads; response headers; columns nothing modelled reads. Whole components left out, with the
  reasons, are listed in the manifest: the upload of datasets, the publication of samples, maintenance,
  the rest of the Worker agent and the training code itself. Of the artifacts, listing and download are
  left out, and how long the reconciler sleeps between cycles; an action of an upload handler reads the
  clock once.
\<close>

section \<open>The job status machine\<close>

text \<open>
  \<open>validate_job_transition\<close> accepts a pair of wire values exactly when both are values of the
  enumeration and the target is the current status or one the transition table lists; it then returns
  the target, and it raises in every other case.
\<close>

theorem transition_accepted_iff:
  "validate_job_transition current target True = Inr t \<longleftrightarrow>
     (\<exists>s. current = status_value s \<and> target = status_value t \<and> may_transition s t)"
proof
  assume *: "validate_job_transition current target True = Inr t"
  then obtain s u where "JobStatus current = Some s" "JobStatus target = Some u"
    by (auto simp: validate_job_transition_def split: option.splits)
  then have "current = status_value s" "target = status_value u"
    using JobStatus_SomeD by blast+
  with * show "\<exists>s. current = status_value s \<and> target = status_value t \<and> may_transition s t"
    by (auto split: if_splits)
qed auto

text \<open>
  C40. A run of the status machine that is not restarted makes at most fifteen transitions, never
  returns to a status it has left, and from every status that is neither terminal nor a retry it can
  still complete.
\<close>

theorem status_run_bounded:
  "(forward ^^ n) s t \<Longrightarrow> n \<le> 15 \<and> (0 < n \<longrightarrow> s \<noteq> t) \<and>
   (\<not> terminal t \<longrightarrow> t \<noteq> RETRYING \<longrightarrow> forward\<^sup>*\<^sup>* t COMPLETED)"
  using job_progress.run_length [of n s t] job_progress.no_cycle [of s t] forward_reaches_completed [of t]
  by (auto simp: tranclp_power)

theorem status_run_bounded_witness:
  "(forward ^^ 2) QUEUED DOWNLOADING_DATASET \<and> forward\<^sup>*\<^sup>* DOWNLOADING_DATASET COMPLETED"
proof -
  have run: "(forward ^^ 2) QUEUED DOWNLOADING_DATASET"
    by (auto simp: numeral_2_eq_2 forward_def relcompp_apply intro!: exI [of _ ASSIGNED])
  then show ?thesis using status_run_bounded [OF run] by simp
qed

section \<open>Canonical configuration bytes\<close>

text \<open>
  C38. Two documents have the same canonical bytes exactly when they are the same document: equal up
  to the order of dictionary items and the sign of zeros. The hypothesis on the rendering of floats
  is what Python documents of it: it is injective and never looks like an integer.
\<close>

theorem canonical_bytes_iff:
  assumes "float_repr_ok fr" "json_finite a"
  shows "canonical_job_config_bytes fr a = canonical_job_config_bytes fr b \<longleftrightarrow> same_document a b"
proof
  assume "canonical_job_config_bytes fr a = canonical_job_config_bytes fr b"
  then show "same_document a b"
    using canonical_bytes_unique [OF assms(1), of a _ b] assms(2)
    by (auto simp: canonical_job_config_bytes_def dumps_def split: if_splits)
qed (rule canonical_bytes_cong)

theorem canonical_bytes_iff_witness:
  "canonical_job_config_bytes ex_float_repr (JObj [(''a'', JInt 1), (''b'', JFloat FNegZero)]) =
   canonical_job_config_bytes ex_float_repr (JObj [(''b'', JFloat (FNum 0)), (''a'', JInt 1)])"
  using canonical_bytes_iff [OF ex_float_repr_ok,
      of "JObj [(''a'', JInt 1), (''b'', JFloat FNegZero)]"
         "JObj [(''b'', JFloat (FNum 0)), (''a'', JInt 1)]"]
  by (simp add: same_document_def float_is_zero_def)

section \<open>Leases\<close>

text \<open>
  C17. On a consistent ledger \<open>recover_expired_leases\<close> never raises; it leaves a consistent ledger and
  does not touch any lease of a worker that was heard from within the offline window.
\<close>

theorem recovery_safe:
  assumes "assignment_ok d" "recover_expired_leases pf st now limit d = (r, d')"
  shows "isl r = False \<and> assignment_ok d' \<and>
    (\<forall>i l. get_lease i d = Some l \<longrightarrow> heard st now d (l_worker_id l) \<longrightarrow> get_lease i d' = Some l)"
  using recover_ok [OF assms(1), of pf st now limit] implements_ok [OF assms(1)] assms(2)
  by (metis (no_types, lifting) Pair_inject sum.disc(2))

theorem recovery_safe_witness:
  "\<exists>r d'. recover_expired_leases ex_platform ex_settings 61000000 100 ex_claimed = (r, d') \<and>
     get_lease ''l1'' d' = Some ex_lease"
proof -
  obtain r d' where r: "recover_expired_leases ex_platform ex_settings 61000000 100 ex_claimed = (r, d')"
    by fastforce
  have l: "get_lease ''l1'' ex_claimed = Some ex_lease"
    by (simp add: ex_claimed_tables ex_lease_def)
  have "heard ex_settings 61000000 ex_claimed (l_worker_id ex_lease)"
    by (simp add: heard_def ex_claimed_tables ex_lease_def claimed_lease_def claimed_worker_def
        ex_worker_def ex_settings_def)
  then show ?thesis using recovery_safe [OF ex_claimed_ok r] l r by blast
qed

section \<open>Every reachable ledger\<close>

text \<open>
  C1. In every database the manager can reach from an empty one, two live leases for the same job, or
  held by the same worker, are the same lease: no job is run twice and no worker runs two jobs.
\<close>

theorem one_live_lease:
  assumes "fresh_ledger d0" "(manager_step pf st)\<^sup>*\<^sup>* d0 d"
    and "get_lease i d = Some l" "l_active l" "get_lease k d = Some m" "l_active m"
    and "l_job_id l = l_job_id m \<or> l_worker_id l = l_worker_id m"
  shows "i = k"
proof -
  have ok: "board_ok (board_of d)"
    using ledger_okD(1) [OF manager.reachable_inv [OF assms(1,2)]] by (rule assignment_okD)
  have "live (board_of d) i (held_of l)" "live (board_of d) k (held_of m)"
    using assms(3-6) by (simp_all add: live_def board_of_def held_of_def)
  then show ?thesis
    using live_unique_job [OF ok] live_unique_worker [OF ok] assms(7) by (fastforce simp: held_of_def)
qed

theorem one_live_lease_witness:
  "{k. \<exists>m. get_lease k ex_claimed = Some m \<and> l_active m \<and> l_job_id m = ''j1''} = {''l1''}"
proof -
  note l = ex_claimed_rows(1) and f = ex_claimed_fields
  have "k = ''l1''" if "get_lease k ex_claimed = Some m" "l_active m" "l_job_id m = ''j1''" for k m
    using one_live_lease [OF ex_fresh ex_run_claimed that(1,2) l f(5)] that(3) f(2) by simp
  then show ?thesis using l f by blast
qed

text \<open>
  C2. In every reachable database a job that is being executed has a live lease, and the job, its
  current attempt, the lease and the worker point at each other: the attempt is open and has the
  status of the job, the worker is active, holds exactly this job and has no token rotation pending.
\<close>

theorem executing_job_is_leased:
  assumes "fresh_ledger d0" "(manager_step pf st)\<^sup>*\<^sup>* d0 d" "get_job i d = Some j" "executing (j_status j)"
  shows "\<exists>l a w. l \<in> set (job_leases d) \<and> l_active l \<and> l_released_at l = None \<and> l_job_id l = i \<and>
    get_attempt (l_attempt_id l) d = Some a \<and> j_current_attempt_id j = Some (a_id a) \<and> a_job_id a = i \<and>
    a_finished_at a = None \<and> a_status a = j_status j \<and> j_worker_id j = Some (w_id w) \<and>
    get_worker_row (l_worker_id l) d = Some w \<and> w_current_job_id w = Some i \<and> w_is_active w \<and>
    w_pending_token_hash w = None"
proof -
  have ok: "assignment_ok d" using manager.reachable_inv [OF assms(1,2)] by (rule ledger_okD)
  have "board_jobs (board_of d) i = Some (slot_of j)" "executing (slot_status (slot_of j))"
    using assms(3,4) by (simp_all add: board_of_def slot_of_def)
  then obtain k h where "live (board_of d) k h" "held_job h = i"
    using assignment_okD(2) [OF ok] unfolding board_ok_def by blast
  then obtain l where l: "get_lease k d = Some l" "l_active l" "l_job_id l = i"
    by (auto simp: live_def board_of_def held_of_def)
  obtain j' a w where rows: "get_job (l_job_id l) d = Some j'" "get_attempt (l_attempt_id l) d = Some a"
    "get_worker_row (l_worker_id l) d = Some w" "j_current_attempt_id j' = Some (l_attempt_id l)"
    "j_worker_id j' = Some (l_worker_id l)" "a_job_id a = l_job_id l" "a_finished_at a = None"
    "a_status a = j_status j'" "w_current_job_id w = Some (l_job_id l)" "w_is_active w"
    "w_pending_token_hash w = None" "l_released_at l = None"
    using live_lease_rows [OF ok l(1,2)] by metis
  moreover have "l \<in> set (job_leases d)" "a_id a = l_attempt_id l" "w_id w = l_worker_id l"
    using l(1) rows(2,3) get_row_SomeD by metis+
  moreover have "j' = j" using rows(1) l(3) assms(3) by simp
  ultimately show ?thesis using l by metis
qed

theorem executing_job_is_leased_witness:
  "\<exists>l. l \<in> set (job_leases ex_claimed) \<and> l_active l \<and> l_job_id l = ''j1''"
proof -
  have "get_job ''j1'' ex_claimed = Some ex_claimed_job" "executing (j_status ex_claimed_job)"
    by (simp_all add: ex_claimed_tables ex_claimed_job_def claimed_job_def ex_job_def executing_simps)
  then show ?thesis using executing_job_is_leased [OF ex_fresh ex_run_claimed] by blast
qed

text \<open>
  C6. In every reachable database the recorded status events of each job, in the order of the log, are
  a walk through the transition table that starts with the submission and ends in the status the job
  row has, and no event belongs to an unknown job.
\<close>

theorem recorded_history_is_legal:
  assumes "fresh_ledger d0" "(manager_step pf st)\<^sup>*\<^sup>* d0 d"
  shows "(\<forall>j \<in> set (jobs d). legal_path None (history d (j_id j)) (Some (j_status j))) \<and>
    (\<forall>e \<in> set (job_status_events d). \<exists>j \<in> set (jobs d). e_job_id e = j_id j)"
  using ledger_okD(4) [OF manager.reachable_inv [OF assms]] by (auto simp: history_ok_def)

theorem recorded_history_is_legal_witness:
  "legal_path None (history ex_claimed ''j1'') (Some ASSIGNED)"
proof -
  have "ex_claimed_job \<in> set (jobs ex_claimed)" "j_id ex_claimed_job = ''j1''" "j_status ex_claimed_job = ASSIGNED"
    by (simp_all add: ex_claimed_tables ex_claimed_job_def claimed_job_def ex_job_def)
  then show ?thesis using recorded_history_is_legal [OF ex_fresh ex_run_claimed] by metis
qed

text \<open>
  C7. In every reachable database there is one log line and one metric point for each sequence number
  of an attempt, no line or point at or above the count the attempt was closed with, and no job whose
  current epoch exceeds its total.
\<close>

theorem stored_telemetry_is_bounded:
  assumes "fresh_ledger d0" "(manager_step pf st)\<^sup>*\<^sup>* d0 d"
  shows "distinct (map (\<lambda>r. (lg_attempt_id r, lg_sequence r)) (job_logs d)) \<and>
    distinct (map (\<lambda>r. (m_attempt_id r, m_sequence r)) (metrics d)) \<and>
    (\<forall>a \<in> set (job_attempts d).
       (\<forall>n. a_telemetry_log_count a = Some n \<longrightarrow>
          (\<forall>r \<in> set (job_logs d). lg_attempt_id r = a_id a \<longrightarrow> lg_sequence r < n)) \<and>
       (\<forall>n. a_telemetry_metric_count a = Some n \<longrightarrow>
          (\<forall>r \<in> set (metrics d). m_attempt_id r = a_id a \<longrightarrow> m_sequence r < n))) \<and>
    (\<forall>j \<in> set (jobs d). \<forall>n. j_current_epoch j = Some n \<longrightarrow> n \<le> j_total_epoch j)"
  using ledger_okD(3) [OF manager.reachable_inv [OF assms]]
  by (simp add: telemetry_ok_def log_key_def metric_key_def sealed_below_def epoch_bounded_def)

theorem stored_telemetry_is_bounded_witness:
  "the (j_current_epoch (the (get_job ''j1'' ex_measured))) \<le> 20"
proof -
  have "jobs ex_measured = [orm_job (project_epoch False [3]) ex_claimed_job]"
    using ex_metric_job by simp
  moreover have "j_id ex_claimed_job = ''j1''" "j_total_epoch ex_claimed_job = 20" "j_current_epoch ex_claimed_job = None"
    by (simp_all add: ex_claimed_fields)
  ultimately show ?thesis
    using stored_telemetry_is_bounded [OF ex_fresh ex_run_measured] by (simp add: project_epoch_def)
qed

text \<open>
  C35. In every reachable database a bearer token authenticates exactly the active worker whose stored
  hash it has; there is at most one such worker, so the answer does not depend on the order of rows.
\<close>

theorem bearer_token_identifies_worker:
  assumes "fresh_ledger d0" "(manager_step pf st)\<^sup>*\<^sup>* d0 d"
  shows "(require_worker pf' st' (Some (scheme, token)) d = Inr w \<longleftrightarrow>
      map lower_char scheme = ''bearer'' \<and> w \<in> set (workers d) \<and>
      w_token_hash w = hash_worker_token pf' st' token \<and> w_is_active w) \<and>
    (\<forall>v \<in> set (workers d). \<forall>u \<in> set (workers d). w_token_hash u = w_token_hash v \<longrightarrow> u = v)"
proof -
  have ok: "tokens_ok d" using manager.reachable_inv [OF assms] by (rule ledger_okD)
  then have "inj_on w_token_hash (set (workers d))" by (simp add: tokens_ok_def distinct_map)
  then show ?thesis using require_worker_iff [OF ok] by (auto dest: inj_onD)
qed

theorem bearer_token_identifies_worker_witness:
  "require_worker ex_platform ex_settings (Some (''Bearer'', ''t0'')) ex_ledger = Inr ex_worker"
proof -
  have "map lower_char ''Bearer'' = ''bearer''"
    by (simp add: lower_char_def char_class_defs char_of_def bit_0)
  moreover have "ex_worker \<in> set (workers ex_ledger)" by (simp add: ex_ledger_def)
  moreover have "w_token_hash ex_worker = hash_worker_token ex_platform ex_settings ''t0''" "w_is_active ex_worker"
    by (simp_all add: ex_worker_def hash_worker_token_def ex_platform_def ex_settings_def)
  ultimately show ?thesis
    using bearer_token_identifies_worker [OF ex_fresh ex_run, THEN conjunct1] by simp
qed

text \<open>
  C3. Every step of the manager from a reachable database is a (possibly empty) sequence of moves of
  the assignment specification on the boards of the two databases, and it keeps primary keys unique.
\<close>

theorem manager_refines_board:
  assumes "fresh_ledger d0" "(manager_step pf st)\<^sup>*\<^sup>* d0 d" "manager_step pf st d d'"
  shows "board_step\<^sup>*\<^sup>* (board_of d) (board_of d') \<and> keys_ok d'"
  using manager_step_implements [OF assms(3) manager.reachable_inv [OF assms(1,2)]]
  by (simp add: implements_def)

theorem manager_refines_board_witness: "board_step\<^sup>*\<^sup>* (board_of ex_ledger) (board_of ex_claimed)"
proof -
  have "manager_step ex_platform ex_settings ex_ledger ex_claimed"
    by (rule claim [OF _ _ ex_claim]) (simp_all add: ex_ledger_def)
  then show ?thesis using manager_refines_board [OF ex_fresh ex_run] by blast
qed

text \<open>
  C34. A job that has completed or was cancelled stays so: no sequence of later requests, retries,
  recoveries or revocations changes its status or removes it.
\<close>

theorem completed_and_cancelled_are_final:
  assumes "fresh_ledger d0" "(manager_step pf st)\<^sup>*\<^sup>* d0 d" "(manager_step pf st)\<^sup>*\<^sup>* d d'"
    and "get_job i d = Some j" "j_status j \<in> {COMPLETED, CANCELLED}"
  shows "\<exists>j'. get_job i d' = Some j' \<and> j_status j' = j_status j"
proof -
  have "board_step\<^sup>*\<^sup>* (board_of d) (board_of d')"
    using manager_run_board [OF assms(3) manager.reachable_inv [OF assms(1,2)]] by simp
  from board_run_final [OF this, of i "slot_of j"] show ?thesis
    using assms(4,5) by (auto simp: board_of_def slot_of_def)
qed

theorem completed_and_cancelled_are_final_witness:
  "\<exists>j'. get_job ''j1'' (snd (retry_job ex_platform 600000 Committed ''j1'' ex_user ex_cancelled)) = Some j' \<and>
     j_status j' = CANCELLED"
proof -
  let ?d = "snd (retry_job ex_platform 600000 Committed ''j1'' ex_user ex_cancelled)"
  have "manager_step ex_platform ex_settings ex_cancelled ?d"
    by (rule manager_step.retry) (rule prod.collapse [symmetric])
  moreover have "get_job ''j1'' ex_cancelled = Some (orm_job (cancelled_job 500000) ex_job)"
    by (simp add: ex_cancelled_def cancel_job_def ex_owned commit_or_raise_def) (simp add: ex_job_def ex_ledger_def)
  ultimately show ?thesis
    using completed_and_cancelled_are_final [OF ex_fresh ex_run_cancelled, of ?d "''j1''"]
    by (simp add: cancelled_job_def ex_job_def r_into_rtranclp)
qed

section \<open>Claiming a job\<close>

text \<open>
  C13. A claim that returns a job was made by an active worker that holds no job, is not draining and
  has no token rotation pending. The job is the first one, by priority, age and key, that the
  scheduler would offer to this worker: all candidates before it were skipped or quarantined, none
  after it comes earlier in the order. The answer has been validated, and the job row is assigned to
  the worker.
\<close>

theorem claim_takes_first_runnable:
  assumes ok: "assignment_ok d"
    and claim: "claim_job pf st storage locked now0 now attempt lease outcome worker caps d = (Inr (Some c), d')"
  shows "\<exists>d0 w pre job post config dt tt. d0 = snd (recover_expired_leases pf st now0 100 d) \<and>
    get_worker_row (w_id worker) d0 = Some w \<and> w_is_active w \<and> w_pending_token_hash w = None \<and>
    w_status w \<noteq> DRAINING \<and> w_current_job_id w = None \<and> claim_candidates d0 = pre @ job # post \<and>
    (\<forall>p \<in> set pre. claim_decision pf st storage locked caps p d0 \<in> {Skip, Quarantine}) \<and>
    (\<forall>q \<in> set post. claim_order job \<le> claim_order q) \<and>
    claim_decision pf st storage locked caps job d0 = Offer config dt tt \<and>
    c = claim_response st now attempt lease job config dt tt \<and> validate_job_claim pf c = Inr c \<and>
    get_job (j_id job) d' = Some (claimed_job now (w_id w) attempt job job)"
proof -
  obtain n d0 where r: "recover_expired_leases pf st now0 100 d = (Inr n, d0)" "implements d d0"
    using recover_ok [OF ok] by metis
  have keys: "keys_ok d0" using implements_ok [OF ok r(2)] by (rule assignment_okD)
  note cand = claim_candidatesD [OF keys]
  obtain w where w: "get_worker_row (w_id worker) d0 = Some w" "w_is_active w" "w_pending_token_hash w = None"
    "w_status w \<noteq> DRAINING" "w_current_job_id w = None"
    and loop: "claim_loop pf st storage locked now (w_id w) attempt lease outcome caps d0
      (claim_candidates d0) False d0 = (Inr (Some c), d')"
    using claim r(1) by (auto simp: claim_job_def split: option.splits if_splits)
  obtain pre job post config dt tt d1 where c: "claim_candidates d0 = pre @ job # post"
    "\<forall>p \<in> set pre. claim_decision pf st storage locked caps p d0 \<in> {Skip, Quarantine}"
    "claim_decision pf st storage locked caps job d0 = Offer config dt tt"
    "c = claim_response st now attempt lease job config dt tt" "validate_job_claim pf c = Inr c"
    "get_job (j_id job) d1 = Some job" "assign_job st now (w_id w) attempt lease caps job d1 = Some d'"
    using claim_loop_Some [OF loop _ cand(2), of d0] cand(1) by (auto simp: same_inputs_def)
  have "jobs d' = upd_row j_id (j_id job) (claimed_job now (w_id w) attempt job) (jobs d1)"
    using c(7) by (rule assign_jobE)
  then have job: "get_job (j_id job) d' = Some (claimed_job now (w_id w) attempt job job)"
    using c(6) by (simp add: get_row_upd_row)
  have "sorted (map claim_order (claim_candidates d0))"
    by (simp add: claim_candidates_def sorted_wrt_take flip: take_map)
  then have "\<forall>q \<in> set post. claim_order job \<le> claim_order q"
    by (simp add: c(1) sorted_append)
  then show ?thesis
    using r(1) w c job
    by (intro exI [of _ d0] exI [of _ w] exI [of _ pre] exI [of _ job] exI [of _ post] exI [of _ config]
        exI [of _ dt] exI [of _ tt]) simp
qed

theorem claim_takes_first_runnable_witness:
  "get_job ''j1'' ex_claimed = Some (claimed_job 1000000 ''w1'' ''a1'' ex_job ex_job)"
proof -
  let ?d = "snd (recover_expired_leases ex_platform ex_settings 1000000 100 ex_ledger)"
  have only: "claim_candidates ?d = [ex_job]"
    by (simp add: recover_expired_leases_def ex_no_expired) (simp add: claim_candidates_def ex_ledger_def ex_job_def)
  obtain w pre job post where w: "get_worker_row (w_id ex_worker) ?d = Some w"
    and job: "claim_candidates ?d = pre @ job # post"
      "get_job (j_id job) ex_claimed = Some (claimed_job 1000000 (w_id w) ''a1'' job job)"
    using claim_takes_first_runnable [OF ex_ledger_ok ex_claim] by blast
  have "job = ex_job" using only job(1) by (cases pre) auto
  moreover have "w_id w = ''w1''" using get_row_SomeD [OF w] by (simp add: ex_worker_def)
  ultimately show ?thesis using job(2) by (simp add: ex_job_def)
qed

text \<open>
  What a worker is told to fetch is safe to request: in an answer that was validated, the dataset
  path is the dataset endpoint of the claimed job, of exactly six segments, with no scheme, host,
  query, fragment or dot segment, and dataset and hash belong to the configuration in the answer.
\<close>

theorem claimed_dataset_path:
  assumes "validate_job_claim pf c = Inr c'" "claim_dataset_transfer c' = Some t"
  shows "split_on (CHR ''/'') (dt_download_path t) =
      [[], ''api'', ''v1'', ''workers'', ''jobs'', claim_job_id c', ''dataset''] \<and>
    \<not> unsafe_download_path (dt_download_path t) \<and> dt_dataset_id t = dataset_id (claim_config c') \<and>
    config_hash pf (dump_job_config (claim_config c')) = Some (claim_config_sha256 c')"
proof -
  have "c' = c" using assms(1) by (rule validate_job_claim_value)
  then have id: "safe_transfer_id (claim_job_id c')" "dt_dataset_id t = dataset_id (claim_config c')"
    "config_hash pf (dump_job_config (claim_config c')) = Some (claim_config_sha256 c')"
    and path: "dt_download_path t = jobs_path @ claim_job_id c' @ ''/dataset''"
    using assms by (simp_all add: validate_job_claim_def Let_def)
  show ?thesis unfolding path using split_jobs_path [OF id(1)] pattern_path_safe [OF id(1)] id(2,3) by blast
qed

theorem claimed_dataset_path_witness:
  "\<not> unsafe_download_path (dt_download_path ex_dataset_transfer)"
proof -
  have "claim_dataset_transfer (claim_response ex_settings 1000000 ''a1'' ''l1'' ex_job ex_config
      (Some ex_dataset_transfer) None) = Some ex_dataset_transfer"
    by (simp add: claim_response_def)
  then show ?thesis using claimed_dataset_path [OF ex_response_valid] by blast
qed

section \<open>Leases and heartbeats\<close>

text \<open>
  On a consistent ledger a worker may act on a job exactly when it names its own live, unexpired
  lease for that job and the stored configuration still has the integrity hash it was claimed with.
\<close>

theorem lease_authorizes_iff:
  assumes "assignment_ok d"
  shows "require_active_lease pf now w i li d = Inr l \<longleftrightarrow>
    get_lease li d = Some l \<and> l_job_id l = i \<and> l_worker_id l = w \<and> l_active l \<and> now < l_expires_at l \<and>
    (\<exists>j a. get_job i d = Some j \<and> get_attempt (l_attempt_id l) d = Some a \<and>
      validated_job_config pf j (Some a) \<noteq> None)"
  by (rule require_active_lease_iff [OF assms])

theorem lease_authorizes_iff_witness:
  "require_active_lease ex_platform 3000000 ''w1'' ''j1'' ''l1'' ex_claimed = Inr ex_lease \<and>
   (\<forall>l. require_active_lease ex_platform 61000000 ''w1'' ''j1'' ''l1'' ex_claimed \<noteq> Inr l)"
  using ex_claimed_valid
  by (auto simp: lease_authorizes_iff [OF ex_claimed_ok] ex_claimed_rows ex_claimed_fields)

text \<open>
  A renewal answers with an expiry that is never earlier than the one the lease had nor than a
  full lease period from now, that expiry is what the ledger holds afterwards, and nothing but the
  two time stamps of this one lease changes.
\<close>

theorem renewal_extends:
  assumes ok: "assignment_ok d" and r: "renew_lease pf st now0 now worker i li d = (Inr (k, e), d')"
  shows "\<exists>l. get_lease li d = Some l \<and> k = li \<and> l_expires_at l \<le> e \<and> now + seconds (lease_seconds st) \<le> e \<and>
    get_lease li d' = Some (l\<lparr>l_expires_at := e, l_last_renewed_at := max (l_last_renewed_at l) now\<rparr>) \<and>
    (\<forall>m. m \<noteq> li \<longrightarrow> get_lease m d' = get_lease m d) \<and> board_of d' = board_of d"
proof -
  obtain l where l: "require_active_lease pf now0 (w_id worker) i li d = Inr l"
    and out: "k = l_id l" "e = l_expires_at (renewed st now l)" "d' = set_lease (l_id l) (renewed st now) d"
    using r by (auto simp: renew_lease_def split: sum.splits)
  have li: "get_lease li d = Some l" "l_id l = li"
    using l require_active_lease_iff [OF ok] require_active_leaseD(1) by metis+
  have "board_of d' = board_of d" unfolding out(3) by (rule board_of_frame) simp_all
  moreover have "get_lease m d' = (if m = li then map_option (renewed st now) (get_lease m d) else get_lease m d)" for m
    by (simp add: out(3) li get_row_upd_row)
  ultimately show ?thesis
    using li out by (auto simp: renewed_def lease_expiry_def)
qed

theorem renewal_extends_witness:
  "\<exists>e d'. renew_lease ex_platform ex_settings 3000000 3000000 ex_worker ''j1'' ''l1'' ex_claimed = (Inr (''l1'', e), d') \<and>
     l_expires_at ex_lease \<le> e"
proof -
  have "w_id ex_worker = ''w1''" by (simp add: ex_worker_def)
  then obtain e d' where
    r: "renew_lease ex_platform ex_settings 3000000 3000000 ex_worker ''j1'' ''l1'' ex_claimed = (Inr (''l1'', e), d')"
    using ex_require_lease by (simp add: renew_lease_def ex_claimed_fields)
  then show ?thesis using renewal_extends [OF ex_claimed_ok r] ex_claimed_rows(1) by auto
qed



section \<open>Status updates\<close>

text \<open>
  C14. A status update that succeeds was made under the fence: on the locked ledger the worker holds
  the live, unexpired lease of the job's current, open attempt; the step is in the transition table;
  a job whose cancellation was requested only moves to cancelled; the epoch does not move backwards
  or beyond the total; and a completed job has all its artifacts.
\<close>

theorem status_update_is_fenced:
  assumes "status_pass pf st storage sv actor job_id payload env = Answered (Inr ack) d'"
  shows "\<exists>l j a w. fenced pf (if terminal (su_status payload) then env_now2 env else env_now1 env) actor job_id
      (su_lease_id payload) l j a w (env_locked env) \<and>
    may_transition (j_status j) (su_status payload) \<and>
    (j_cancel_requested_at j = None \<or> su_status payload = CANCELLED) \<and>
    (\<forall>e. su_current_epoch payload = Some e \<longrightarrow>
       e \<le> j_total_epoch j \<and> (\<forall>c. j_current_epoch j = Some c \<longrightarrow> c \<le> e)) \<and>
    (su_status payload = COMPLETED \<longrightarrow> required_artifacts_exist pf st j (env_locked env)) \<and>
    ack_status ack = su_status payload"
  using assms
proof (rule status_passE)
  fix t l j a w
  assume "t = su_status payload"
    and "fenced pf (if terminal t then env_now2 env else env_now1 env) actor job_id (su_lease_id payload)
      l j a w (env_locked env)" "may_transition (j_status j) t"
    "j_cancel_requested_at j = None \<or> t = CANCELLED" "validate_current_epoch j (su_current_epoch payload) = Inr ()"
    "t = COMPLETED \<Longrightarrow> required_artifacts_exist pf st j (env_locked env)"
    "ack = \<lparr>ack_job_id = j_id j, ack_status = t,
       ack_lease_expires_at = (if terminal t then None else Some (l_expires_at l))\<rparr>"
  then show ?thesis
    unfolding validate_current_epoch_Inr
    by (intro exI [of _ l] exI [of _ j] exI [of _ a] exI [of _ w]) simp
qed

theorem status_update_is_fenced_witness:
  "\<exists>l j a w. fenced ex_platform 3000000 ''w1'' ''j1'' ''l1'' l j a w ex_claimed \<and> may_transition (j_status j) FAILED"
proof -
  have f: "terminal FAILED" "su_status ex_failure = FAILED" "su_lease_id ex_failure = ''l1''"
    "env_now2 (ex_status_env ex_claimed) = 3000000" "env_locked (ex_status_env ex_claimed) = ex_claimed"
    by (simp_all add: ex_failure_def ex_status_env_def)
  show ?thesis using status_update_is_fenced [OF ex_failure_pass] by (simp only: f if_True) blast
qed

text \<open>
  C33. A successful terminal update closes everything at once: the job and its attempt have the final
  status, the attempt is finished and sealed with the telemetry counts of the request, the lease is
  released, the worker is idle, and the transition is recorded.
\<close>

theorem terminal_update_closes:
  assumes ok: "assignment_ok (env_locked env)" and t: "terminal (su_status payload)"
    and pass: "status_pass pf st storage sv actor job_id payload env = Answered (Inr ack) d'"
  shows "\<exists>l j a w. get_lease (su_lease_id payload) d' = Some l \<and> \<not> l_active l \<and>
    l_released_at l = Some (env_now3 env) \<and> get_job job_id d' = Some j \<and> j_status j = su_status payload \<and>
    get_attempt (l_attempt_id l) d' = Some a \<and> a_status a = su_status payload \<and>
    a_finished_at a = Some (env_now3 env) \<and> a_telemetry_log_count a = su_telemetry_log_count payload \<and>
    a_telemetry_metric_count a = su_telemetry_metric_count payload \<and>
    get_worker_row actor d' = Some w \<and> w_current_job_id w = None \<and> w_status w = IDLE \<and>
    (\<exists>e. job_status_events d' = job_status_events (env_locked env) @ [e] \<and> e_job_id e = job_id \<and>
       e_attempt_id e = Some (a_id a) \<and> e_status e = su_status payload)"
  using pass
proof (rule status_passE)
  fix t' l j a w
  assume f: "fenced pf (if terminal t' then env_now2 env else env_now1 env) actor job_id (su_lease_id payload)
      l j a w (env_locked env)"
    and t': "t' = su_status payload" and wr: "status_written (env_now3 env) payload t' l j a w (env_locked env) d'"
  have rows: "get_lease (su_lease_id payload) (env_locked env) = Some l" "get_job job_id (env_locked env) = Some j"
    "get_attempt (l_attempt_id l) (env_locked env) = Some a" "get_worker_row actor (env_locked env) = Some w"
    using f by (simp_all add: fenced_def)
  then have ids: "l_id l = su_lease_id payload" "j_id j = job_id" "a_id a = l_attempt_id l" "w_id w = actor"
    using get_row_SomeD by metis+
  have "get_lease (su_lease_id payload) d' = Some (released (env_now3 env) l)"
    "get_job job_id d' = Some (orm_job (updated_job (env_now3 env) payload t') j)"
    "get_attempt (l_attempt_id l) d' = Some (updated_attempt (env_now3 env) payload t' a)"
    "get_worker_row actor d' = Some (orm_worker idled w)"
    using wr rows ids t t' by (simp_all add: status_written_def get_row_upd_row)
  moreover have "j_status j \<noteq> t'" using f t t' by (auto simp: fenced_def)
  then have "\<exists>e. job_status_events d' = job_status_events (env_locked env) @ [e] \<and> e_job_id e = job_id \<and>
      e_attempt_id e = Some (a_id a) \<and> e_status e = su_status payload"
    using wr ids(2) t' by (simp add: status_written_def)
  ultimately show ?thesis
    using t t' by (simp add: released_def updated_job_def updated_attempt_def idled_def)
qed

theorem terminal_update_closes_witness:
  "\<exists>a. get_attempt ''a1'' ex_failed = Some a \<and> a_telemetry_log_count a = Some 1 \<and>
     a_finished_at a = Some 3000000"
proof -
  have "env_locked (ex_status_env ex_claimed) = ex_claimed" "env_now3 (ex_status_env ex_claimed) = 3000000"
    "terminal (su_status ex_failure)" "su_lease_id ex_failure = ''l1''" "su_telemetry_log_count ex_failure = Some 1"
    by (simp_all add: ex_status_env_def ex_failure_def)
  moreover have "get_lease ''l1'' ex_failed = Some (released 3000000 ex_lease)"
    by (simp add: ex_failed_def write_status_def ex_claimed_tables ex_claimed_fields)
  ultimately show ?thesis
    using terminal_update_closes [OF _ _ ex_failure_pass] ex_claimed_ok ex_claimed_fields(3) by auto
qed

text \<open>
  C39. The update handler makes at most three passes, and the ledger it leaves is that of one of them,
  at most one step of the manager later: a lost lock or version check is retried once each, and every
  lost pass leaves nothing behind.
\<close>

theorem update_makes_at_most_three_passes:
  assumes "validate_job_status_update payload = Inr payload"
  shows "\<exists>k \<le> 2. (manager_step pf st)\<^sup>=\<^sup>= (env_locked (env k))
    (snd (update_job_status pf st storage sv actor job_id payload env 0 False False))"
  using update_job_status_step [OF assms, of 0 False False pf st env storage sv actor job_id]
  by (simp add: numeral_2_eq_2 del: update_job_status.simps)

theorem update_makes_at_most_three_passes_witness:
  "(manager_step ex_platform ex_settings)\<^sup>=\<^sup>= ex_claimed (snd (update_job_status ex_platform ex_settings
     ex_storage ex_no_samples ''w1'' ''j1'' ex_failure (\<lambda>_. ex_status_env ex_claimed) 0 False False))"
  using update_makes_at_most_three_passes [OF ex_failure_valid, of ex_platform ex_settings
      "\<lambda>_. ex_status_env ex_claimed" ex_storage ex_no_samples "''w1''" "''j1''"]
  by (simp add: ex_status_env_def del: update_job_status.simps)

section \<open>Credentials\<close>

text \<open>
  A registration that succeeds presented the configured bootstrap token, and the token it hands
  out authenticates the new worker, and only it, from then on.
\<close>

theorem registration_token_authenticates:
  assumes ok: "tokens_ok d" and r: "register_worker pf st now i raw outcome bootstrap reg d = (Inr resp, d')"
  shows "bootstrap = worker_bootstrap_token st \<and> worker_bootstrap_token st \<noteq> None \<and> resp_worker_id resp = i \<and>
    require_worker pf st (Some (''bearer'', resp_worker_token resp)) d' = Inr (registered pf st now i raw reg) \<and>
    require_worker pf st (Some (''bearer'', resp_worker_token resp)) d \<noteq> Inr w"
proof -
  note R = register_workerD [OF r]
  have ok': "tokens_ok d'" using register_tokens_ok [OF ok, of pf st now i raw outcome bootstrap reg] r by simp
  have "map lower_char ''bearer'' = ''bearer''" by (simp add: lower_char_def char_class_defs)
  then have "require_worker pf st (Some (''bearer'', raw)) d' = Inr (registered pf st now i raw reg)"
    using require_worker_iff [OF ok'] R(4) by (simp add: registered_def)
  moreover have "require_worker pf st (Some (''bearer'', raw)) d \<noteq> Inr w"
    using require_worker_InrD [of pf st "''bearer''" raw d w] R(2,3) get_row_None [of w_id i "workers d"]
    by (fastforce simp: worker_conflict_def registered_def)
  moreover have "bootstrap = worker_bootstrap_token st \<and> worker_bootstrap_token st \<noteq> None"
    using R(1) by (auto simp: verify_bootstrap_token_def split: option.splits)
  ultimately show ?thesis using R(5) by simp
qed

theorem registration_token_authenticates_witness:
  "require_worker ex_platform ex_settings (Some (''bearer'', ''t0'')) ex_registered =
     Inr (registered ex_platform ex_settings 0 ''w1'' ''t0'' ex_registration)"
proof -
  have "tokens_ok ex_empty" by (simp add: tokens_ok_def ex_empty_def)
  from registration_token_authenticates [OF this ex_register] show ?thesis by simp
qed

text \<open>
  Activating a prepared rotation is only possible for an idle worker, with the pending token of
  this rotation and before it expires. From then on the new token authenticates the worker, the
  rotation is over, and the old token, unless the two have the same hash, authenticates nobody.
\<close>

theorem activated_rotation_replaces_token:
  assumes ok: "ledger_ok d"
    and a: "activate_token_rotation pf st now outcome authenticated rid pending d = (Inr r, d')"
  shows "\<exists>token w. pending = Some token \<and> w_token_rotation_id w = Some rid \<and> w_current_job_id w = None \<and>
    (\<exists>t. w_token_rotation_expires_at w = Some t \<and> now < t) \<and>
    require_worker pf st (Some (''bearer'', token)) d' = Inr (orm_worker (rotation_activated now) w) \<and>
    w_id w = w_id authenticated \<and> w_pending_token_hash (orm_worker (rotation_activated now) w) = None \<and>
    (\<forall>old scheme v. hash_worker_token pf st old = w_token_hash authenticated \<longrightarrow>
       hash_worker_token pf st old \<noteq> hash_worker_token pf st token \<longrightarrow>
       require_worker pf st (Some (scheme, old)) d' \<noteq> Inr v)"
  using a
proof (rule activate_token_rotationD)
  fix w token
  assume wr: "worker_written w (rotation_activated now) d d'" and p: "pending = Some token"
    and w: "w_id w = w_id authenticated" "w_token_hash w = w_token_hash authenticated" "w_is_active w"
    "w_current_job_id w = None" "w_token_rotation_id w = Some rid"
    "w_pending_token_hash w = Some (hash_worker_token pf st token)"
    "\<exists>t. w_token_rotation_expires_at w = Some t \<and> now < t"
  have keys: "wf_table w_id (workers d)" using keys_okD(4) ledger_okD(5) [OF ok] by blast
  have row: "get_worker_row (w_id w) d = Some w"
    and d': "workers d' = upd_row w_id (w_id w) (orm_worker (rotation_activated now)) (workers d)"
    using wr by (simp_all add: worker_written_def)
  have tok: "tokens_ok d" "tokens_ok d'"
    using ledger_okD(2) [OF ok] activate_ok(2) [OF ledger_okD(1) [OF ok],
        of pf st now outcome authenticated rid pending] a by simp_all
  let ?w = "orm_worker (rotation_activated now) w"
  have new: "w_token_hash ?w = hash_worker_token pf st token" "w_is_active ?w" "w_pending_token_hash ?w = None"
    using w by (simp_all add: rotation_activated_def clear_token_rotation_def)
  have "require_worker pf st (Some (''bearer'', token)) d' = Inr ?w"
    by (rule written_token_accepted [OF tok(2) keys row d' new(1,2)]) (simp add: lower_char_def char_class_defs)
  moreover have "require_worker pf st (Some (scheme, old)) d' \<noteq> Inr v"
    if "hash_worker_token pf st old = w_token_hash authenticated"
      "hash_worker_token pf st old \<noteq> hash_worker_token pf st token" for old scheme v
    using replaced_token_rejected [OF tok(1) keys row d'] that new(1) w(2) by simp
  ultimately show ?thesis using p w new(3) by blast
qed

theorem activated_rotation_replaces_token_witness:
  "(\<exists>w. require_worker ex_platform ex_settings (Some (''bearer'', ''t1'')) ex_rotated = Inr w \<and> w_id w = ''w1'') \<and>
   (\<forall>v. require_worker ex_platform ex_settings (Some (''bearer'', ''t0'')) ex_rotated \<noteq> Inr v)"
proof -
  obtain r where "activate_token_rotation ex_platform ex_settings 20000000 Committed ex_preparing ''r1''
      (Some ''t1'') ex_prepared = (Inr r, ex_rotated)" using ex_activate by blast
  note a = activated_rotation_replaces_token [OF ex_prepared_ok this]
  have h: "hash_worker_token ex_platform ex_settings ''t0'' = w_token_hash ex_preparing"
    "hash_worker_token ex_platform ex_settings ''t0'' \<noteq> hash_worker_token ex_platform ex_settings ''t1''"
    by (simp_all add: ex_preparing_fields hash_worker_token_def ex_platform_def ex_settings_def)
  then show ?thesis using a by (auto simp: ex_preparing_fields(1))
qed

text \<open>
  C16. Revoking a worker's token leaves the worker inactive, idle and without rotation; the token it
  used authenticates nobody any more; it holds no unreleased lease; and every job it was executing is
  cancelled.
\<close>

theorem revocation_is_effective:
  assumes ok: "ledger_ok (rv_ledger env)"
    and pass: "revoke_pass pf st admin i payload env = Revoke_answered (Inr r) d'"
  shows "(\<exists>w'. get_worker_row i d' = Some w' \<and> \<not> w_is_active w' \<and> w_current_job_id w' = None \<and>
      w_pending_token_hash w' = None) \<and> unreleased_leases i d' = [] \<and>
    (\<forall>token scheme w v. get_worker_row i (rv_ledger env) = Some w \<longrightarrow>
       hash_worker_token pf st token = w_token_hash w \<longrightarrow> require_worker pf st (Some (scheme, token)) d' \<noteq> Inr v) \<and>
    (\<forall>j job. get_job j (rv_ledger env) = Some job \<longrightarrow> j_worker_id job = Some i \<longrightarrow> executing (j_status job) \<longrightarrow>
      (\<exists>job'. get_job j d' = Some job' \<and> j_status job' = CANCELLED))"
proof -
  have tok: "tokens_ok (rv_ledger env)" and keys: "wf_table w_id (workers (rv_ledger env))"
    using ledger_okD [OF ok] keys_okD(4) by blast+
  have "require_worker pf st (Some (scheme, token)) d' \<noteq> Inr v"
    if "get_worker_row i (rv_ledger env) = Some w" "hash_worker_token pf st token = w_token_hash w" for token scheme w v
    using pass
  proof (rule revoke_passD)
    fix w1 d1
    assume w1: "get_worker_row i (rv_ledger env) = Some w1" "w_id w1 = i"
      and d1: "unreleased_leases i (rv_ledger env) = [] \<and> w_current_job_id w1 = None \<and> d1 = rv_ledger env \<or>
       (\<exists>l. unreleased_leases i (rv_ledger env) = [l] \<and> rv_force_cancel_active payload \<and>
        revoke_lease pf st (rv_now env) (rv_event_ids env (l_id l)) i l (rv_ledger env) = Inr d1)"
      and d': "workers d' = upd_row w_id i (orm_worker (revoked_worker pf st (rv_now env) (rv_raw_token env)))
         (workers d1)"
    have "workers d1 = workers (rv_ledger env)" using d1 by (auto elim: revoke_leaseD)
    then show ?thesis
      using replaced_token_rejected [OF tok keys, of w1 d'
          "orm_worker (revoked_worker pf st (rv_now env) (rv_raw_token env))"] w1 d' that
      by (simp add: revoked_worker_def clear_token_rotation_def)
  qed
  moreover obtain w' where "get_worker_row i d' = Some w'" "\<not> w_is_active w'" "w_current_job_id w' = None"
    "w_pending_token_hash w' = None" "unreleased_leases i d' = []"
    "\<And>j job. get_job j (rv_ledger env) = Some job \<Longrightarrow> j_worker_id job = Some i \<Longrightarrow>
      executing (j_status job) \<Longrightarrow> \<exists>job'. get_job j d' = Some job' \<and> j_status job' = CANCELLED"
    using revoke_pass_effect [OF ledger_okD(1) [OF ok] pass] by metis
  ultimately show ?thesis by blast
qed

theorem revocation_is_effective_witness:
  "\<exists>r d'. revoke_pass ex_platform ex_settings ''admin'' ''w1'' ex_revocation ex_revoke_env = Revoke_answered (Inr r) d' \<and>
     unreleased_leases ''w1'' d' = [] \<and> (\<exists>job'. get_job ''j1'' d' = Some job' \<and> j_status job' = CANCELLED)"
proof -
  obtain r d' where p: "revoke_pass ex_platform ex_settings ''admin'' ''w1'' ex_revocation ex_revoke_env =
      Revoke_answered (Inr r) d'" using ex_revoke by blast
  have "rv_ledger ex_revoke_env = ex_claimed" by (simp add: ex_revoke_env_def)
  then have "ledger_ok (rv_ledger ex_revoke_env)" "get_job ''j1'' (rv_ledger ex_revoke_env) = Some ex_claimed_job"
    using ex_ledgers_ok(2) ex_claimed_rows(2) by simp_all
  moreover have "executing (j_status ex_claimed_job)" by (simp add: ex_claimed_fields executing_simps)
  ultimately show ?thesis using revocation_is_effective [OF _ p] p ex_claimed_fields(10) by blast
qed

section \<open>Telemetry\<close>

text \<open>
  C33. Sending a log batch twice is the same as sending it once: after a batch was stored, the same
  request under a claim that is still admissible is acknowledged as a duplicate and changes nothing;
  and the same lines under another idempotency key add no line.
\<close>

theorem log_ingest_is_idempotent:
  assumes first: "ingest_logs pf tt env actor job_id payload d = (Inr ack, d')" "\<not> duplicate ack"
    and claim: "lock_telemetry_claim pf (ie_now0 env2) actor job_id (lb_lease_id payload)
      (lb_attempt_id payload) Logs (map le_sequence (lb_entries payload)) d' = Inr c"
    and again: "lb_entries payload2 = lb_entries payload" "lb_attempt_id payload2 = lb_attempt_id payload"
      "ie_after env3 = d'"
  shows "ingest_logs pf tt env2 actor job_id payload d' = (Inr duplicate_ack, d') \<and>
    job_logs (snd (ingest_logs pf tt env3 actor2 job_id2 payload2 d')) = job_logs d'"
  using ingest_logs_replay [OF first claim] ingest_logs_resend [OF first again] by blast

theorem log_ingest_is_idempotent_witness:
  "ingest_logs ex_platform ex_tools (ex_ingest_env ex_logged) ''w1'' ''j1'' ex_log_batch ex_logged =
     (Inr duplicate_ack, ex_logged)"
proof -
  have "ie_now0 (ex_ingest_env ex_logged) = 2000000" "ie_after (ex_ingest_env ex_logged) = ex_logged"
    by (simp_all add: ex_ingest_env_def)
  then show ?thesis
    using log_ingest_is_idempotent [OF ex_ingest, of "ex_ingest_env ex_logged" _ ex_log_batch "ex_ingest_env ex_logged"]
      ex_logged_claim by (simp add: ex_log_entries)
qed

text \<open>
  The same holds of metric batches.
\<close>

theorem metric_ingest_is_idempotent:
  assumes first: "ingest_metrics pf st env actor job_id payload d = (Inr ack, d')" "\<not> duplicate ack"
    and claim: "lock_telemetry_claim pf (ie_now0 env2) actor job_id (mb_lease_id payload)
      (mb_attempt_id payload) Metrics (map me_sequence (mb_entries payload)) d' = Inr c"
    and again: "mb_entries payload2 = mb_entries payload" "mb_attempt_id payload2 = mb_attempt_id payload"
      "ie_after env3 = d'"
  shows "ingest_metrics pf st env2 actor job_id payload d' = (Inr duplicate_ack, d') \<and>
    metrics (snd (ingest_metrics pf st env3 actor2 job_id2 payload2 d')) = metrics d'"
  using ingest_metrics_replay [OF first claim] ingest_metrics_resend [OF first again] by blast

theorem metric_ingest_is_idempotent_witness:
  "ingest_metrics ex_platform ex_settings (ex_ingest_env ex_measured) ''w1'' ''j1'' ex_metric_batch ex_measured =
     (Inr duplicate_ack, ex_measured)"
proof -
  have "ie_now0 (ex_ingest_env ex_measured) = 2000000" "ie_after (ex_ingest_env ex_measured) = ex_measured"
    by (simp_all add: ex_ingest_env_def)
  then show ?thesis
    using metric_ingest_is_idempotent [OF ex_ingest_metrics, of "ex_ingest_env ex_measured" _ ex_metric_batch
        "ex_ingest_env ex_measured"] ex_measured_claim by (simp add: ex_metric_ids)
qed



section \<open>Submitting, cancelling and retrying jobs\<close>

text \<open>
  C37. A job that is created is queued with the first event of its history, and its stored
  configuration is read back intact: the integrity check of the scheduler accepts the row and returns
  the submitted configuration. The hypotheses are that the configuration passed validation, that
  parsing its dump gives it back, and that digests are hexadecimal.
\<close>

theorem created_job_is_claimable:
  assumes "create_job pf st now new_id event_id flush outcome user config d = (Inr job, d')"
    and "validate_job_config config = Inr config" "parse_job_config pf (dump_job_config config) = Some config"
    and "hex_digests pf"
  shows "validated_job_config pf job None = Some config \<and> jobs d' = jobs d @ [job] \<and> j_id job = new_id \<and>
    j_status job = QUEUED \<and> j_config_sha256 job \<noteq> None \<and> get_job new_id d = None \<and>
    (\<exists>x. get_experiment_row (j_experiment_id job) d = Some x \<and>
       (usr_role user = ''admin'' \<or> x_created_by x = Some (usr_id user)))"
  using assms(1)
proof (cases rule: create_job_cases)
  case (created x snapshot h)
  have job: "job = created_job now new_id x config h snapshot" using created(3) by simp
  have x: "get_experiment_row (experiment_id config) d = Some x"
    "usr_role user = ''admin'' \<or> x_created_by x = Some (usr_id user)"
    using created(1) by (auto simp: job_inputs_def require_owner_or_admin_Inr split: option.splits if_splits)
  then have "x_id x = experiment_id config" using get_row_SomeD [OF x(1)] by simp
  then show ?thesis
    using x created_job_validates [OF created(1) assms(2-4) created(2)] created(4,5) job
    by (auto simp: created_job_def job_conflict_def)
qed simp

theorem created_job_is_claimable_witness: "validated_job_config ex_platform ex_job None = Some ex_config"
  using created_job_is_claimable [OF ex_submit ex_config_valid ex_parses ex_hex_digests] by blast

text \<open>
  C40. Whether a job exists is hidden from users who may not see it: for a user who is neither its
  owner nor an administrator, cancelling and retrying answer exactly as for a job that does not exist,
  and change nothing.
\<close>

theorem foreign_jobs_are_concealed:
  assumes "usr_role user \<noteq> ''admin''"
    and "\<And>j x. get_job i d = Some j \<Longrightarrow> get_experiment_row (j_experiment_id j) d = Some x \<Longrightarrow>
      x_created_by x \<noteq> Some (usr_id user)"
  shows "cancel_job now outcome i user d = (Inl (HTTPException 404 ''job not found''), d) \<and>
    retry_job pf now outcome i user d = (Inl (HTTPException 404 ''job not found''), d)"
proof -
  have "owned_job i user d = Inl (HTTPException 404 ''job not found'')"
    using assms by (auto simp: owned_job_def require_owner_or_admin_def split: option.splits)
  then show ?thesis by (simp add: cancel_job_def retry_job_def)
qed

theorem foreign_jobs_are_concealed_witness:
  "cancel_job 0 Committed ''j1'' \<lparr>usr_id = ''u2'', usr_role = ''user''\<rparr> ex_ledger =
     (Inl (HTTPException 404 ''job not found''), ex_ledger)"
proof -
  have "x_created_by x \<noteq> Some ''u2''" if "get_experiment_row i ex_ledger = Some x" for i x
    using that get_row_SomeD [OF that] by (auto simp: ex_ledger_def ex_experiment_def)
  then show ?thesis
    using foreign_jobs_are_concealed [of "\<lparr>usr_id = ''u2'', usr_role = ''user''\<rparr>" "''j1''" ex_ledger 0 Committed]
    by simp
qed



text \<open>
  Retrying is possible for failed jobs only. It returns the job to the queue with nothing left of
  the failed attempt, records the two transitions, and leaves every other job alone.
\<close>

theorem retry_requeues_failed_job:
  assumes ok: "ledger_ok d" and r: "retry_job pf now outcome i user d = (Inr j, d')"
  shows "\<exists>j0. get_job i d = Some j0 \<and> j_status j0 = FAILED \<and> get_job i d' = Some j \<and> j_status j = QUEUED \<and>
    j_worker_id j = None \<and> j_current_attempt_id j = None \<and> j_cancel_requested_at j = None \<and>
    j_current_epoch j = None \<and> j_error_code j = None \<and> j_attempt_count j = j_attempt_count j0 \<and>
    j_config_json j = j_config_json j0 \<and> j_config_sha256 j = j_config_sha256 j0 \<and>
    map e_status (history d' i) = map e_status (history d i) @ [RETRYING, QUEUED] \<and>
    (\<forall>k. k \<noteq> i \<longrightarrow> get_job k d' = get_job k d) \<and> ledger_ok d'"
  using r
proof (cases rule: retry_job_cases)
  case (written j0)
  have "get_job i d = Some j0" using written(1) by (simp add: owned_job_Inr)
  moreover have "get_job k d' = (if k = i then map_option (orm_job requeued) (get_job k d) else get_job k d)" for k
    using written(6) by (simp add: get_row_upd_row)
  moreover have "ledger_ok d'" using retry_job_ledger_ok [OF ok, of pf now outcome i user] r by simp
  ultimately show ?thesis
    using written(2,5,12) by (auto simp: requeued_def history_def)
qed simp

theorem retry_requeues_failed_job_witness:
  "\<exists>j d'. retry_job ex_platform 6000000 Committed ''j1'' ex_user ex_failed = (Inr j, d') \<and>
     map e_status (history d' ''j1'') = [QUEUED, ASSIGNED, FAILED, RETRYING, QUEUED]"
proof -
  obtain d' where r: "retry_job ex_platform 6000000 Committed ''j1'' ex_user ex_failed =
      (Inr (orm_job requeued ex_failed_job), d')" using ex_retry by blast
  have "map e_status (history ex_failed ''j1'') = [QUEUED, ASSIGNED, FAILED]"
    by (simp add: history_def ex_failed_def write_status_def ex_claimed_fields add_status_event_def)
      (simp add: ex_claimed_def assign_job_def cas_job_def ex_ledger_def ex_job_def add_status_event_def)
  then show ?thesis using retry_requeues_failed_job [OF ex_failed_ok r] r by auto
qed

text \<open>
  C38. Recovering an abandoned lease gives the job another attempt only while it has had fewer than the
  configured number, its configuration is intact and nobody asked to cancel it; otherwise the job ends
  as cancelled or failed. A job is therefore never restarted automatically without bound.
\<close>

theorem recovery_requeues_within_bound:
  assumes r: "recover_lease pf st now l d = (Inr True, d')" and j: "get_job (l_job_id l) d = Some j"
    and a: "get_attempt (l_attempt_id l) d = Some a" and bound: "0 \<le> j_attempt_count j"
  shows "\<exists>j'. get_job (l_job_id l) d' = Some j' \<and> j_attempt_count j' = j_attempt_count j \<and>
    j_status j' = (if j_cancel_requested_at j \<noteq> None then CANCELLED
      else if j_attempt_count j < lease_recovery_max_attempts st \<and> validated_job_config pf j (Some a) \<noteq> None
      then QUEUED else FAILED)"
  using r
proof (cases rule: recover_lease_effect)
  case (closed j' a' w c q e es)
  have "j' = j" "a' = a" using closed(1,2) j a by simp_all
  moreover have "get_job (l_job_id l) d' = Some (orm_job (recovered_job c q (if c then CANCELLED else FAILED) e) j)"
    using closed(7) j by (simp add: get_row_upd_row)
  ultimately show ?thesis
    using closed(15,16) bound by (auto simp: recovered_job_def requeued_def Let_def)
qed simp

theorem recovery_requeues_within_bound_witness:
  "\<exists>d' j'. recover_lease ex_platform ex_settings 200000000 ex_lease ex_claimed = (Inr True, d') \<and>
     get_job ''j1'' d' = Some j' \<and> j_status j' = QUEUED"
proof -
  have count: "j_attempt_count ex_claimed_job = 1" by (simp add: ex_claimed_job_def claimed_job_def ex_job_def)
  have beat: "w_last_heartbeat_at ex_claimed_worker = Some 1000000"
    by (simp add: ex_claimed_worker_def claimed_worker_def)
  obtain d' where r: "recover_lease ex_platform ex_settings 200000000 ex_lease ex_claimed = (Inr True, d')"
    using ex_claimed_valid
    by (simp add: recover_lease_def Let_def ex_claimed_rows ex_claimed_fields beat ex_settings_def failure_or_cancel_def)
  show ?thesis
    using recovery_requeues_within_bound [OF r, of ex_claimed_job ex_attempt] r ex_claimed_valid
    by (auto simp: ex_claimed_rows ex_claimed_fields count ex_settings_def)
qed

section \<open>The outbox\<close>

text \<open>
  An outbox event that has been projected is final: whatever the coordinator does later, at any
  time and for any event, it stays projected and is never handed to the projection again.
\<close>

theorem synced_events_stay_synced:
  assumes keys: "outbox_keys d" and e: "e \<in> set (mlflow_sync_events d)" "o_status e = Synced"
    and p: "project_one st project now0 now key d = (handled, d')"
  shows "e \<in> set (mlflow_sync_events d') \<and> (\<forall>x r. handled = Some (x, r) \<longrightarrow> o_id x \<noteq> o_id e)"
  using project_one_keeps_synced [OF keys e p] by blast

theorem synced_events_stay_synced_witness:
  "\<exists>e \<in> set (mlflow_sync_events (snd (project_one ex_outbox_settings (\<lambda>_. None) 70000000 71000000 None ex_outbox))).
     o_id e = ''o1'' \<and> o_status e = Synced"
proof -
  obtain h d' where p: "project_one ex_outbox_settings (\<lambda>_. None) 70000000 71000000 None ex_outbox = (h, d')"
    by fastforce
  have "ex_event ''o1'' Synced 0 \<in> set (mlflow_sync_events ex_outbox)" "o_status (ex_event ''o1'' Synced 0) = Synced"
    "o_id (ex_event ''o1'' Synced 0) = ''o1''"
    by (simp_all add: ex_outbox_def ex_event_def)
  then show ?thesis using synced_events_stay_synced [OF ex_outbox_keys _ _ p] p by auto
qed



text \<open>
  An event whose projection failed is pending again, with the error recorded, one more attempt
  counted, and due after at least two seconds and at most the configured maximum.
\<close>

theorem failed_projection_is_rescheduled:
  assumes "valid_settings st" "mlflow_enabled st" "outbox_keys d"
    and nonneg: "\<forall>e \<in> set (mlflow_sync_events d). 0 \<le> o_attempt_count e"
    and p: "project_one st project now0 now key d = (Some (e, Some code), d')"
  shows "\<exists>e' \<in> set (mlflow_sync_events d'). o_id e' = o_id e \<and> o_status e' = Pending \<and>
    o_last_error_code e' = Some code \<and> o_attempt_count e' = o_attempt_count e + 1 \<and>
    (\<exists>t. o_next_attempt_at e' = Some t \<and> now + seconds 2 \<le> t \<and>
       t \<le> now + seconds (mlflow_retry_max_seconds st))"
  using assms(2,3) p
proof (cases rule: project_one_cases)
  case (handled f)
  let ?e = "taken now0 (revived st now0 f)"
  have e: "e = ?e" "project ?e = Some code" using handled(3) by simp_all
  have "o_attempt_count e = o_attempt_count f" by (simp add: e(1) taken_def revived_def)
  then have n: "0 \<le> o_attempt_count e" using handled(1) nonneg by simp
  have "settled st now (Some code) ?e \<in> set (mlflow_sync_events d')"
    using handled(1) by (auto simp: handled(4) e(2) image_iff)
  then show ?thesis
    using retry_delay_bounds [OF assms(1) n]
    by (intro bexI [of _ "settled st now (Some code) ?e"]) (auto simp: settled_def e(1))
qed simp

theorem failed_projection_is_rescheduled_witness:
  "\<exists>e d'. project_one ex_outbox_settings (\<lambda>_. Some ''down'') 70000000 71000000 (Some ''k2'') ex_outbox =
       (Some (e, Some ''down''), d') \<and> (\<exists>e' \<in> set (mlflow_sync_events d'). o_last_error_code e' = Some ''down'')"
proof -
  obtain e d' where p: "project_one ex_outbox_settings (\<lambda>_. Some ''down'') 70000000 71000000 (Some ''k2'') ex_outbox =
      (Some (e, Some ''down''), d')" using ex_outbox_fails by blast
  have "valid_settings ex_outbox_settings" "mlflow_enabled ex_outbox_settings"
    "\<forall>e \<in> set (mlflow_sync_events ex_outbox). 0 \<le> o_attempt_count e"
    by (simp_all add: ex_outbox_settings_def ex_settings_def valid_settings_def ex_outbox_def ex_event_def)
  then show ?thesis using failed_projection_is_rescheduled [OF _ _ ex_outbox_keys _ p] p by blast
qed

end
